(* ===== verification/Prelude.thy ===== *)
theory Prelude
  imports Main "HOL-Library.AList" "HOL-Library.Word"
begin

text \<open>
  What the components share: the models of the C++ containers the service keeps its
  state in, the laws of a keyed store stated once as a locale and interpreted on the
  two containers, and the lemmas on lists and options that several theories use.

  A \<open>std::map\<close> is a list of pairs in strictly increasing key order (\<open>om_put\<close>, \<open>om_del\<close>),
  because the code iterates over such maps and the order of the visits is visible.
  A \<open>std::unordered_map\<close> is an association list (\<open>AList.update\<close>, \<open>AList.delete\<close>): it has
  the same lookup laws and promises nothing about the order.  An \<open>int32_t\<close> that is only
  stored and compared is an \<open>int\<close>; one that is computed with is a word or carries its
  wrap-around explicitly (\<open>wrap_s32\<close>).
\<close>

unbundle bit_operations_syntax

named_theorems store_simps \<open>lookups after updates of the container models\<close>
named_theorems store_intros \<open>well-formedness of the container models\<close>

section \<open>Machine integers\<close>

type_synonym i32 = int
type_synonym i64 = int
type_synonym u32 = "32 word"
type_synonym u64 = "64 word"

text \<open>Conversion of a wider integer to \<open>int32_t\<close>: the value modulo $2^{32}$, read as signed.\<close>

definition wrap_s32 :: "int \<Rightarrow> i32" where
  "wrap_s32 x = (x + 2147483648) mod 4294967296 - 2147483648"

lemma wrap_s32_range: "- 2147483648 \<le> wrap_s32 x \<and> wrap_s32 x \<le> 2147483647"
proof -
  have "0 \<le> (x + 2147483648) mod 4294967296" "(x + 2147483648) mod 4294967296 < 4294967296"
    by simp_all
  then show ?thesis unfolding wrap_s32_def by linarith
qed

lemma wrap_s32_id:
  assumes "- 2147483648 \<le> x" "x \<le> 2147483647"
  shows "wrap_s32 x = x"
  using assms unfolding wrap_s32_def by simp

section \<open>Ordered maps (\<open>std::map\<close>)\<close>

type_synonym ('k, 'v) omap = "('k \<times> 'v) list"

fun om_put :: "'k::linorder \<Rightarrow> 'v \<Rightarrow> ('k, 'v) omap \<Rightarrow> ('k, 'v) omap" where
  "om_put k v [] = [(k, v)]"
| "om_put k v ((a, b) # m) =
     (if k < a then (k, v) # (a, b) # m
      else if k = a then (k, v) # m
      else (a, b) # om_put k v m)"

definition om_del :: "'k \<Rightarrow> ('k, 'v) omap \<Rightarrow> ('k, 'v) omap" where
  "om_del k m = filter (\<lambda>p. fst p \<noteq> k) m"

definition om_ok :: "('k::linorder, 'v) omap \<Rightarrow> bool" where
  "om_ok m = sorted_wrt (<) (map fst m)"

lemma om_put_lookup [store_simps, simp]:
  "map_of (om_put k v m) k' = (if k' = k then Some v else map_of m k')"
  by (induction k v m rule: om_put.induct) auto

lemma om_del_lookup [store_simps, simp]:
  "map_of (om_del k m) k' = (if k' = k then None else map_of m k')"
  unfolding om_del_def by (induction m) auto

lemma om_put_keys [store_simps, simp]: "fst ` set (om_put k v m) = insert k (fst ` set m)"
  by (induction k v m rule: om_put.induct) auto

lemma om_del_keys [store_simps, simp]: "fst ` set (om_del k m) = fst ` set m - {k}"
  unfolding om_del_def by auto

lemma om_del_sub: "set (om_del k m) \<subseteq> set m"
  unfolding om_del_def by auto

lemma om_ok_Nil [store_intros, simp]: "om_ok []"
  unfolding om_ok_def by simp

lemma om_ok_Cons: "om_ok ((a, b) # m) \<longleftrightarrow> (\<forall>k \<in> fst ` set m. a < k) \<and> om_ok m"
  unfolding om_ok_def by auto

lemma om_ok_put [store_intros, simp]: "om_ok m \<Longrightarrow> om_ok (om_put k v m)"
proof (induction k v m rule: om_put.induct)
  case (1 k v)
  then show ?case by (simp add: om_ok_def)
next
  case (2 k v a b m)
  then show ?case by (auto simp: om_ok_Cons dest: less_trans split: if_splits)
qed

lemma om_ok_del [store_intros, simp]: "om_ok m \<Longrightarrow> om_ok (om_del k m)"
  unfolding om_ok_def om_del_def by (induction m) auto

lemma om_ok_distinct: "om_ok m \<Longrightarrow> distinct (map fst m)"
  unfolding om_ok_def by (metis strict_sorted_iff)

lemma om_ok_map_of: "om_ok m \<Longrightarrow> (k, v) \<in> set m \<longleftrightarrow> map_of m k = Some v"
  by (auto dest: om_ok_distinct map_of_SomeD intro: map_of_is_SomeI)

lemma om_put_same: "om_ok m \<Longrightarrow> map_of m k = Some v \<Longrightarrow> om_put k v m = m"
proof (induction k v m rule: om_put.induct)
  case (1 k v)
  then show ?case by simp
next
  case (2 k v a b m)
  show ?case
  proof (cases "k = a")
    case True
    with 2 show ?thesis by simp
  next
    case False
    with 2(3) have "map_of m k = Some v" by simp
    moreover from this have "k \<in> fst ` set m" by (force dest: map_of_SomeD)
    with 2(2) have "a < k" by (auto simp: om_ok_Cons)
    ultimately show ?thesis using 2 by (auto simp: om_ok_Cons)
  qed
qed

lemma om_put_put [simp]: "om_put k v (om_put k w m) = om_put k v m"
  by (induction k v m rule: om_put.induct) auto

text \<open>Writing every value of a map: the keys and their order do not change.\<close>

definition om_map :: "('k \<Rightarrow> 'v \<Rightarrow> 'w) \<Rightarrow> ('k, 'v) omap \<Rightarrow> ('k, 'w) omap" where
  "om_map f m = map (\<lambda>(k, v). (k, f k v)) m"

lemma om_map_keys [simp]: "map fst (om_map f m) = map fst m"
  unfolding om_map_def by (induction m) auto

lemma om_map_lookup [simp]: "map_of (om_map f m) k = map_option (f k) (map_of m k)"
  unfolding om_map_def by (induction m) auto

lemma om_map_ok [simp]: "om_ok (om_map f m) = om_ok m"
  unfolding om_ok_def by simp

section \<open>The contract of a keyed store\<close>

text \<open>
  What the components rely on when they keep objects under a key: a lookup after an
  update, and that every operation keeps the container well-formed.  The lookup that
  creates a missing entry (\<open>operator[]\<close>, the \<open>Get...NonNull\<close> functions) is derived once.
\<close>

locale keyed_store =
  fixes empty :: "'s"
    and lookup :: "'s \<Rightarrow> 'k \<Rightarrow> 'v option"
    and put :: "'k \<Rightarrow> 'v \<Rightarrow> 's \<Rightarrow> 's"
    and del :: "'k \<Rightarrow> 's \<Rightarrow> 's"
    and ok :: "'s \<Rightarrow> bool"
  assumes ok_empty: "ok empty"
    and ok_put: "ok s \<Longrightarrow> ok (put k v s)"
    and ok_del: "ok s \<Longrightarrow> ok (del k s)"
    and lookup_empty: "lookup empty k = None"
    and lookup_put: "ok s \<Longrightarrow> lookup (put k v s) k' = (if k' = k then Some v else lookup s k')"
    and lookup_del: "ok s \<Longrightarrow> lookup (del k s) k' = (if k' = k then None else lookup s k')"
begin

definition ensure :: "('k \<Rightarrow> 'v) \<Rightarrow> 'k \<Rightarrow> 's \<Rightarrow> 's" where
  "ensure mk k s = (case lookup s k of None \<Rightarrow> put k (mk k) s | Some _ \<Rightarrow> s)"

lemma ensure_ok: "ok s \<Longrightarrow> ok (ensure mk k s)"
  by (auto simp: ensure_def ok_put split: option.splits)

lemma ensure_present: "ok s \<Longrightarrow> \<exists>v. lookup (ensure mk k s) k = Some v"
  by (auto simp: ensure_def lookup_put split: option.splits)

lemma ensure_frame: "ok s \<Longrightarrow> k' \<noteq> k \<Longrightarrow> lookup (ensure mk k s) k' = lookup s k'"
  by (auto simp: ensure_def lookup_put split: option.splits)

lemma ensure_keeps: "ok s \<Longrightarrow> lookup s k' = Some v \<Longrightarrow> lookup (ensure mk k s) k' = Some v"
  by (auto simp: ensure_def lookup_put split: option.splits)

lemma ensure_idem: "ok s \<Longrightarrow> ensure mk k (ensure mk k s) = ensure mk k s"
  by (auto simp: ensure_def lookup_put split: option.splits)

lemma put_del_lookup: "ok s \<Longrightarrow> lookup (del k (put k v s)) k' = lookup (del k s) k'"
  by (simp add: lookup_put lookup_del ok_put)

text \<open>An update through the stored pointer: nothing happens when the key is absent.\<close>

definition alter :: "'k \<Rightarrow> ('v \<Rightarrow> 'v) \<Rightarrow> 's \<Rightarrow> 's" where
  "alter k f s = (case lookup s k of None \<Rightarrow> s | Some v \<Rightarrow> put k (f v) s)"

lemma alter_ok: "ok s \<Longrightarrow> ok (alter k f s)"
  by (auto simp: alter_def ok_put split: option.splits)

lemma alter_lookup:
  "ok s \<Longrightarrow> lookup (alter k f s) k' = (if k' = k then map_option f (lookup s k) else lookup s k')"
  by (auto simp: alter_def lookup_put split: option.splits)

lemma alter_dom: "ok s \<Longrightarrow> (lookup (alter k f s) k' = None) = (lookup s k' = None)"
  by (simp add: alter_lookup)

end

interpretation omap_store: keyed_store "[]" map_of om_put om_del om_ok
  by unfold_locales auto

interpretation umap_store: keyed_store "[]" map_of AList.update AList.delete "\<lambda>m. distinct (map fst m)"
  by unfold_locales (auto simp: update_conv' delete_conv' distinct_update distinct_delete)

section \<open>Lists\<close>

text \<open>\<open>std::vector::erase\<close> of the first element that satisfies a predicate.\<close>

fun erase_first :: "('a \<Rightarrow> bool) \<Rightarrow> 'a list \<Rightarrow> 'a list" where
  "erase_first P [] = []"
| "erase_first P (x # xs) = (if P x then xs else x # erase_first P xs)"

lemma erase_first_none: "\<not> list_ex P xs \<Longrightarrow> erase_first P xs = xs"
  by (induction xs) auto

lemma erase_first_filter:
  "(\<And>x y. x \<in> set xs \<Longrightarrow> y \<in> set xs \<Longrightarrow> P x \<Longrightarrow> P y \<Longrightarrow> x = y) \<Longrightarrow> distinct xs \<Longrightarrow>
   erase_first P xs = filter (\<lambda>x. \<not> P x) xs"
proof (induction xs)
  case Nil
  then show ?case by simp
next
  case (Cons x xs)
  show ?case
  proof (cases "P x")
    case True
    have "\<not> P y" if "y \<in> set xs" for y
      using Cons.prems True that by (metis distinct.simps(2) list.set_intros)
    then have "filter (\<lambda>x. \<not> P x) xs = xs" by simp
    with True show ?thesis by simp
  next
    case False
    with Cons show ?thesis by simp
  qed
qed

lemma erase_first_set: "set (erase_first P xs) \<subseteq> set xs"
  by (induction xs) auto

text \<open>The first element that satisfies a predicate, changed in place.\<close>

fun update_first :: "('a \<Rightarrow> bool) \<Rightarrow> ('a \<Rightarrow> 'a) \<Rightarrow> 'a list \<Rightarrow> 'a list" where
  "update_first P f [] = []"
| "update_first P f (x # xs) = (if P x then f x # xs else x # update_first P f xs)"

lemma update_first_map_key:
  "(\<And>x. P x \<Longrightarrow> key (f x) = key x) \<Longrightarrow> map key (update_first P f xs) = map key xs"
  by (induction xs) auto

lemma find_update_first:
  "(\<And>x. P x \<Longrightarrow> P (f x)) \<Longrightarrow> find P (update_first P f xs) = map_option f (find P xs)"
  by (induction xs) auto

lemma find_Some_iff_key:
  "find (\<lambda>x. key x = k) xs = None \<longleftrightarrow> k \<notin> key ` set xs"
  by (induction xs) auto

lemma find_SomeD: "find P xs = Some x \<Longrightarrow> x \<in> set xs \<and> P x"
  by (induction xs) (auto split: if_splits)

lemma find_snoc:
  "find P (xs @ [y]) = (case find P xs of Some a \<Rightarrow> Some a | None \<Rightarrow> if P y then Some y else None)"
  by (induction xs) auto

lemma fold_inv: "(\<And>x s. P s \<Longrightarrow> P (f x s)) \<Longrightarrow> P s \<Longrightarrow> P (fold f xs s)"
  by (induction xs arbitrary: s) auto

lemma set_update: "set (AList.update k v m) \<subseteq> insert (k, v) (set m)"
  by (induction m) auto

end
