(* ===== verification/Lru_Cache.thy ===== *)
theory Lru_Cache
  imports Prelude
begin

text \<open>
  \<open>ResschedLRUCache\<close> of common/include/res_sched_lru_cache.h, which keeps the results of
  the permission checks.  The cache is a \<open>std::list\<close> of pairs and an \<open>unordered_map\<close> from a
  key to an iterator into that list.  A list node is modelled with an identity (a number
  that is never used twice), an iterator is that identity, and dereferencing an iterator
  whose node has been erased is undefined behaviour, the value \<open>None\<close> of every operation.
  The lemmas show that a cache of positive capacity never meets undefined behaviour and
  refines the obvious specification: the most recently used keys, at most
  \<open>capacity_\<close> of them.
\<close>

section \<open>The cache\<close>

record ('k, 'v) lru =
  capacity :: nat
  lruList :: "(nat \<times> 'k \<times> 'v) list"
  relationMap :: "('k \<times> nat) list"
  next_node :: nat

definition ResschedLRUCache :: "nat \<Rightarrow> ('k, 'v) lru" where
  "ResschedLRUCache cap =
     \<lparr>capacity = cap, lruList = [], relationMap = [], next_node = 0\<rparr>"

text \<open>Dereferencing an iterator, \<open>splice\<close> of one node to the front, \<open>erase\<close> of one node.\<close>

definition deref :: "nat \<Rightarrow> (nat \<times> 'k \<times> 'v) list \<Rightarrow> ('k \<times> 'v) option" where
  "deref it l = map_of l it"

definition splice_front :: "nat \<Rightarrow> (nat \<times> 'k \<times> 'v) list \<Rightarrow> (nat \<times> 'k \<times> 'v) list" where
  "splice_front it l = filter (\<lambda>n. fst n = it) l @ filter (\<lambda>n. fst n \<noteq> it) l"

definition erase_node :: "nat \<Rightarrow> (nat \<times> 'k \<times> 'v) list \<Rightarrow> (nat \<times> 'k \<times> 'v) list" where
  "erase_node it l = filter (\<lambda>n. fst n \<noteq> it) l"

definition assign_node :: "nat \<Rightarrow> 'v \<Rightarrow> (nat \<times> 'k \<times> 'v) list \<Rightarrow> (nat \<times> 'k \<times> 'v) list" where
  "assign_node it v l = map (\<lambda>(n, k, w). (n, k, if n = it then v else w)) l"

text \<open>
  The result of \<open>get\<close> is \<open>Some (c', None)\<close> where the code returns false,
  \<open>Some (c', Some v)\<close> where it returns true with \<open>value = v\<close>, and \<open>None\<close> where the
  iterator it follows dangles.
\<close>

definition lru_get :: "'k \<Rightarrow> ('k, 'v) lru \<Rightarrow> (('k, 'v) lru \<times> 'v option) option" where
  "lru_get key c =
     (case map_of (relationMap c) key of
        None \<Rightarrow> Some (c, None)
      | Some it \<Rightarrow>
          (let l = splice_front it (lruList c) in
           case deref it (lruList c) of
             None \<Rightarrow> None
           | Some (k, v) \<Rightarrow> Some (c\<lparr>lruList := l\<rparr>, Some v)))"

definition push_front :: "'k \<Rightarrow> 'v \<Rightarrow> ('k, 'v) lru \<Rightarrow> ('k, 'v) lru" where
  "push_front key v c =
     c\<lparr>lruList := (next_node c, key, v) # lruList c,
       relationMap := AList.update key (next_node c) (relationMap c),
       next_node := Suc (next_node c)\<rparr>"

text \<open>
  \<open>lruList.back()\<close> and \<open>pop_back()\<close> on an empty list are undefined too: that is what \<open>put\<close>
  does on a cache of capacity 0.
\<close>

definition lru_put :: "'k \<Rightarrow> 'v \<Rightarrow> ('k, 'v) lru \<Rightarrow> ('k, 'v) lru option" where
  "lru_put key v c =
     (case map_of (relationMap c) key of
        Some it \<Rightarrow>
          (case deref it (lruList c) of
             None \<Rightarrow> None
           | Some _ \<Rightarrow>
               if map fst (take 1 (lruList c)) \<noteq> [it]
               then Some (push_front key v (c\<lparr>lruList := erase_node it (lruList c)\<rparr>))
               else Some (c\<lparr>lruList := assign_node it v (lruList c)\<rparr>))
      | None \<Rightarrow>
          if length (lruList c) \<ge> capacity c
          then (if lruList c = [] then None
                else Some (push_front key v
                       (c\<lparr>relationMap := AList.delete (fst (snd (last (lruList c)))) (relationMap c),
                          lruList := butlast (lruList c)\<rparr>)))
          else Some (push_front key v c))"

section \<open>The invariant and the abstraction\<close>

definition lru_keys :: "('k, 'v) lru \<Rightarrow> 'k list" where
  "lru_keys c = map (fst \<circ> snd) (lruList c)"

definition lru_abs :: "('k, 'v) lru \<Rightarrow> ('k \<times> 'v) list" where
  "lru_abs c = map snd (lruList c)"

text \<open>
  Nodes and keys are distinct, the map holds exactly the iterators of the list's nodes
  under their keys, and node identities below \<open>next_node\<close> are the ones already handed out.
\<close>

definition lru_inv :: "('k, 'v) lru \<Rightarrow> bool" where
  "lru_inv c \<longleftrightarrow>
     distinct (map fst (lruList c)) \<and> distinct (lru_keys c) \<and>
     distinct (map fst (relationMap c)) \<and>
     (\<forall>k n. map_of (relationMap c) k = Some n \<longleftrightarrow> (\<exists>v. (n, k, v) \<in> set (lruList c))) \<and>
     (\<forall>n \<in> fst ` set (lruList c). n < next_node c) \<and>
     length (lruList c) \<le> capacity c"

text \<open>The specification: a list of key/value pairs, the most recently used first.\<close>

definition spec_get :: "'k \<Rightarrow> ('k \<times> 'v) list \<Rightarrow> ('k \<times> 'v) list \<times> 'v option" where
  "spec_get key l =
     (case map_of l key of
        None \<Rightarrow> (l, None)
      | Some v \<Rightarrow> ((key, v) # AList.delete key l, Some v))"

definition spec_put :: "nat \<Rightarrow> 'k \<Rightarrow> 'v \<Rightarrow> ('k \<times> 'v) list \<Rightarrow> ('k \<times> 'v) list" where
  "spec_put cap key v l = take cap ((key, v) # AList.delete key l)"

section \<open>The lists of nodes\<close>

lemma deref_iff:
  "distinct (map fst l) \<Longrightarrow> deref it l = Some (k, v) \<longleftrightarrow> (it, k, v) \<in> set l"
  unfolding deref_def by simp

lemma splice_front_node:
  "distinct (map fst l) \<Longrightarrow> (it, k, v) \<in> set l \<Longrightarrow>
   splice_front it l = (it, k, v) # erase_node it l"
proof (induction l)
  case Nil
  then show ?case by simp
next
  case (Cons n l)
  show ?case
  proof (cases "n = (it, k, v)")
    case True
    with Cons.prems have "it \<notin> fst ` set l" by auto
    then have "filter (\<lambda>n. fst n = it) l = []" by (auto simp: filter_empty_conv)
    with True show ?thesis by (simp add: splice_front_def erase_node_def)
  next
    case False
    with Cons.prems have in_l: "(it, k, v) \<in> set l" by auto
    from Cons.prems(1) have "fst n \<notin> fst ` set l" by simp
    with in_l have "fst n \<noteq> it" by (metis fst_conv image_eqI)
    with Cons in_l show ?thesis
      by (auto simp: splice_front_def erase_node_def)
  qed
qed

lemma erase_node_snd:
  "distinct (map fst l) \<Longrightarrow> distinct (map (fst \<circ> snd) l) \<Longrightarrow> (it, k, v) \<in> set l \<Longrightarrow>
   map snd (erase_node it l) = AList.delete k (map snd l)"
proof (induction l)
  case Nil
  then show ?case by simp
next
  case (Cons n l)
  obtain n1 k1 v1 where n: "n = (n1, k1, v1)" by (cases n)
  show ?case
  proof (cases "n1 = it")
    case True
    with Cons.prems n have eq: "n = (it, k, v)" by force
    with Cons.prems have "it \<notin> fst ` set l" "k \<notin> (fst \<circ> snd) ` set l" by auto
    then have "erase_node it l = l" "AList.delete k (map snd l) = map snd l"
      by (auto simp: erase_node_def image_iff intro!: filter_True delete_idem)
    with eq show ?thesis by (simp add: erase_node_def)
  next
    case False
    with Cons.prems n have in_l: "(it, k, v) \<in> set l" by auto
    with Cons.prems n have "k1 \<noteq> k" by force
    with Cons n False in_l show ?thesis by (simp add: erase_node_def)
  qed
qed

lemma erase_node_fst: "map fst (erase_node it l) = filter (\<lambda>n. n \<noteq> it) (map fst l)"
  unfolding erase_node_def by (induction l) auto

lemma erase_node_set: "set (erase_node it l) = {n \<in> set l. fst n \<noteq> it}"
  unfolding erase_node_def by auto

lemma erase_node_length:
  "distinct (map fst l) \<Longrightarrow> it \<in> fst ` set l \<Longrightarrow> Suc (length (erase_node it l)) = length l"
proof (induction l)
  case Nil
  then show ?case by simp
next
  case (Cons n l)
  show ?case
  proof (cases "fst n = it")
    case True
    with Cons.prems have "it \<notin> fst ` set l" by auto
    then have "erase_node it l = l"
      by (auto simp: erase_node_def image_iff intro!: filter_True)
    with True show ?thesis by (simp add: erase_node_def)
  next
    case False
    with Cons show ?thesis by (auto simp: erase_node_def)
  qed
qed

lemma assign_node_keys: "map fst (assign_node it v l) = map fst l"
  "map (fst \<circ> snd) (assign_node it v l) = map (fst \<circ> snd) l"
  unfolding assign_node_def by auto

section \<open>The cache refines the specification\<close>

lemma lru_invD:
  assumes "lru_inv c"
  shows "distinct (map fst (lruList c))" "distinct (map (fst \<circ> snd) (lruList c))"
    "distinct (map fst (relationMap c))" "length (lruList c) \<le> capacity c"
    "\<And>k n. map_of (relationMap c) k = Some n \<longleftrightarrow> (\<exists>v. (n, k, v) \<in> set (lruList c))"
    "\<And>n. n \<in> fst ` set (lruList c) \<Longrightarrow> n < next_node c"
  using assms unfolding lru_inv_def lru_keys_def by blast+

lemma lru_hit_node:
  assumes "lru_inv c" "map_of (relationMap c) key = Some it"
  obtains v where "(it, key, v) \<in> set (lruList c)" "deref it (lruList c) = Some (key, v)"
    "map_of (lru_abs c) key = Some v"
proof -
  note inv = lru_invD[OF assms(1)]
  from assms inv(5) obtain v where v: "(it, key, v) \<in> set (lruList c)" by blast
  moreover from v have "(key, v) \<in> set (lru_abs c)" unfolding lru_abs_def by force
  moreover have "distinct (map fst (lru_abs c))"
    using inv(2) by (simp add: lru_abs_def)
  ultimately show ?thesis using that inv(1) by (simp add: deref_iff)
qed

lemma lru_miss_abs:
  assumes "lru_inv c" "map_of (relationMap c) key = None"
  shows "key \<notin> (fst \<circ> snd) ` set (lruList c)" "map_of (lru_abs c) key = None"
proof -
  show "key \<notin> (fst \<circ> snd) ` set (lruList c)"
    using assms(2) lru_invD(5)[OF assms(1), of key] by force
  then show "map_of (lru_abs c) key = None"
    by (force simp: lru_abs_def map_of_eq_None_iff)
qed

lemma push_front_inv:
  assumes "distinct (map fst (lruList c))" "distinct (map (fst \<circ> snd) (lruList c))"
    and "key \<notin> (fst \<circ> snd) ` set (lruList c)" "distinct (map fst (relationMap c))"
    and "\<And>k n. k \<noteq> key \<Longrightarrow>
           map_of (relationMap c) k = Some n \<longleftrightarrow> (\<exists>v. (n, k, v) \<in> set (lruList c))"
    and "\<And>n. n \<in> fst ` set (lruList c) \<Longrightarrow> n < next_node c"
    and "length (lruList c) < capacity c"
  shows "lru_inv (push_front key v c)"
proof -
  have new: "next_node c \<notin> fst ` set (lruList c)" using assms(6) by blast
  have "map_of (AList.update key (next_node c) (relationMap c)) k = Some n \<longleftrightarrow>
        (\<exists>w. (n, k, w) \<in> set ((next_node c, key, v) # lruList c))" for k n
    using assms(3,5) by (cases "k = key") (force simp: update_conv')+
  then show ?thesis
    using assms new
    by (auto simp: lru_inv_def lru_keys_def push_front_def distinct_update less_Suc_eq)
qed

lemma lru_get_correct:
  assumes inv: "lru_inv c"
  obtains c' where "lru_get key c = Some (c', snd (spec_get key (lru_abs c)))"
    "lru_inv c'" "lru_abs c' = fst (spec_get key (lru_abs c))" "capacity c' = capacity c"
proof (cases "map_of (relationMap c) key")
  case None
  with lru_miss_abs[OF inv None] that[of c] inv show ?thesis
    by (simp add: lru_get_def spec_get_def)
next
  case (Some it)
  note d = lru_invD[OF inv]
  from inv Some obtain v where v: "(it, key, v) \<in> set (lruList c)"
    "deref it (lruList c) = Some (key, v)" "map_of (lru_abs c) key = Some v"
    by (rule lru_hit_node)
  let ?c' = "c\<lparr>lruList := splice_front it (lruList c)\<rparr>"
  have l: "splice_front it (lruList c) = (it, key, v) # erase_node it (lruList c)"
    using splice_front_node[OF d(1) v(1)] .
  have e: "map snd (erase_node it (lruList c)) = AList.delete key (map snd (lruList c))"
    using erase_node_snd[OF d(1) d(2) v(1)] .
  have "lru_inv ?c'"
    unfolding lru_inv_def lru_keys_def
  proof (intro conjI)
    show "distinct (map fst (lruList ?c'))"
      using d(1) by (simp add: l erase_node_fst erase_node_set)
    have "map (fst \<circ> snd) (lruList ?c') = key # map fst (AList.delete key (map snd (lruList c)))"
      using e by (simp add: l flip: map_map)
    moreover have "distinct (map fst (map snd (lruList c)))" using d(2) by simp
    ultimately show "distinct (map (fst \<circ> snd) (lruList ?c'))"
      by (simp add: delete_keys distinct_removeAll)
    have set_eq: "set (lruList ?c') = set (lruList c)"
      by (auto simp: splice_front_def)
    then show "\<forall>k n. (map_of (relationMap ?c') k = Some n) =
        (\<exists>v. (n, k, v) \<in> set (lruList ?c'))"
      using d(5) by simp
    show "\<forall>n\<in>fst ` set (lruList ?c'). n < next_node ?c'"
      unfolding set_eq using d(6) by simp
    show "length (lruList ?c') \<le> capacity ?c'"
    proof -
      have "it \<in> fst ` set (lruList c)" using v(1) by (rule image_eqI[rotated]) simp
      from erase_node_length[OF d(1) this] d(4) show ?thesis by (simp add: l)
    qed
  qed (use d(3) in simp)
  moreover have "lru_get key c = Some (?c', Some v)"
    using Some v(2) by (simp add: lru_get_def)
  moreover have "lru_abs ?c' = (key, v) # AList.delete key (lru_abs c)"
    using e by (simp add: lru_abs_def l)
  ultimately show ?thesis using that[of ?c'] v(3) by (simp add: spec_get_def)
qed

lemma spec_put_full:
  "length l = cap \<Longrightarrow> l \<noteq> [] \<Longrightarrow> map_of l key = None \<Longrightarrow>
   spec_put cap key v l = (key, v) # butlast l"
  by (cases cap) (auto simp: spec_put_def butlast_conv_take map_of_eq_None_iff delete_idem)

lemma lru_put_miss:
  assumes inv: "lru_inv c" and cap: "0 < capacity c" and miss: "map_of (relationMap c) key = None"
  obtains c' where "lru_put key v c = Some c'" "lru_inv c'"
    "lru_abs c' = spec_put (capacity c) key v (lru_abs c)" "capacity c' = capacity c"
proof (cases "length (lruList c) \<ge> capacity c")
  case True
  note d = lru_invD[OF inv] and m = lru_miss_abs[OF inv miss]
  have ne: "lruList c \<noteq> []" using True cap by auto
  obtain n k w where last: "last (lruList c) = (n, k, w)" by (cases "last (lruList c)")
  define l where "l = butlast (lruList c)"
  have split: "lruList c = l @ [(n, k, w)]" using ne last by (simp add: l_def flip: last)
  let ?c = "c\<lparr>relationMap := AList.delete k (relationMap c), lruList := l\<rparr>"
  have "lru_inv (push_front key v ?c)"
  proof (rule push_front_inv)
    fix k' n' assume "k' \<noteq> key"
    show "map_of (relationMap ?c) k' = Some n' \<longleftrightarrow> (\<exists>v. (n', k', v) \<in> set (lruList ?c))"
      using d(1,2) d(5)[of k' n'] unfolding split
      by (cases "k' = k") (force simp: delete_conv')+
  qed (use d m(1) True in \<open>auto simp: split distinct_delete\<close>)
  moreover have "lru_put key v c = Some (push_front key v ?c)"
    using miss True ne by (simp add: lru_put_def last l_def)
  moreover have "lru_abs (push_front key v ?c) = spec_put (capacity c) key v (lru_abs c)"
    using True d(4) ne m(2)
    by (subst spec_put_full) (auto simp: lru_abs_def push_front_def l_def map_butlast)
  ultimately show ?thesis using that by (simp add: push_front_def)
next
  case False
  note d = lru_invD[OF inv] and m = lru_miss_abs[OF inv miss]
  have "lru_inv (push_front key v c)"
    using d m(1) False by (intro push_front_inv) auto
  moreover have "lru_abs (push_front key v c) = spec_put (capacity c) key v (lru_abs c)"
    using False m(2)
    by (auto simp: spec_put_def lru_abs_def push_front_def map_of_eq_None_iff delete_idem)
  ultimately show ?thesis using that miss False by (simp add: lru_put_def push_front_def)
qed

lemma lru_put_hit:
  assumes inv: "lru_inv c" and hit: "map_of (relationMap c) key = Some it" and cap: "0 < capacity c"
  obtains c' where "lru_put key v c = Some c'" "lru_inv c'"
    "lru_abs c' = spec_put (capacity c) key v (lru_abs c)" "capacity c' = capacity c"
proof -
  note d = lru_invD[OF inv]
  from inv hit obtain w where w: "(it, key, w) \<in> set (lruList c)"
    "deref it (lruList c) = Some (key, w)" "map_of (lru_abs c) key = Some w"
    by (rule lru_hit_node)
  have e: "map snd (erase_node it (lruList c)) = AList.delete key (map snd (lruList c))"
    using erase_node_snd[OF d(1) d(2) w(1)] .
  have le: "Suc (length (erase_node it (lruList c))) = length (lruList c)"
    using erase_node_length[OF d(1), of it] w(1) by force
  show ?thesis
  proof (cases "map fst (take 1 (lruList c)) = [it]")
    case False
    let ?c = "c\<lparr>lruList := erase_node it (lruList c)\<rparr>"
    have keys: "map (fst \<circ> snd) (lruList ?c) = removeAll key (map (fst \<circ> snd) (lruList c))"
      using e by (simp add: delete_keys flip: map_map)
    have "lru_inv (push_front key v ?c)"
    proof (rule push_front_inv)
      show "distinct (map fst (lruList ?c))" using d(1) by (simp add: erase_node_fst)
      show "distinct (map (fst \<circ> snd) (lruList ?c))"
        unfolding keys using d(2) by (simp add: distinct_removeAll)
      show "key \<notin> (fst \<circ> snd) ` set (lruList ?c)"
        using arg_cong[OF keys, of set] by simp
      show "\<And>n. n \<in> fst ` set (lruList ?c) \<Longrightarrow> n < next_node ?c"
        using d(6) by (auto simp: erase_node_set)
      show "length (lruList ?c) < capacity ?c" using le d(4) by simp
      fix k n assume "k \<noteq> key"
      moreover have "k = key" if "(it, k, u) \<in> set (lruList c)" for k u
        using eq_key_imp_eq_value[OF d(1), of it "(k, u)" "(key, w)"] w(1) that by simp
      ultimately show "map_of (relationMap ?c) k = Some n \<longleftrightarrow> (\<exists>v. (n, k, v) \<in> set (lruList ?c))"
        using d(5) by (auto simp: erase_node_set)
    qed (use d(3) in simp)
    moreover have "lru_abs (push_front key v ?c) = spec_put (capacity c) key v (lru_abs c)"
      using e le d(4) cap
      by (cases "capacity c") (auto simp: lru_abs_def push_front_def spec_put_def simp flip: e)
    ultimately show ?thesis using that hit w(2) False by (simp add: lru_put_def push_front_def)
  next
    case True
    let ?c = "c\<lparr>lruList := assign_node it v (lruList c)\<rparr>"
    from True obtain n rest where n: "lruList c = n # rest" "fst n = it" by (cases "lruList c") auto
    have hd: "n = (it, key, w)"
      using eq_key_imp_eq_value[OF d(1), of it "snd n" "(key, w)"] w(1) n by (cases n) auto
    have rest: "assign_node it v rest = rest"
    proof -
      have "(case m of (i, k, u) \<Rightarrow> (i, k, if i = it then v else u)) = m" if "m \<in> set rest" for m
      proof -
        obtain i k u where m: "m = (i, k, u)" by (metis surj_pair)
        have "it \<notin> fst ` set rest" using d(1) n by auto
        with that m have "i \<noteq> it" by (metis fst_conv image_eqI)
        with m show ?thesis by simp
      qed
      then show ?thesis unfolding assign_node_def by (simp add: map_idI)
    qed
    have new: "lruList ?c = (it, key, v) # rest"
      using n rest hd by (simp add: assign_node_def)
    have ids: "(\<exists>v. (i, k, v) \<in> set (lruList ?c)) \<longleftrightarrow> (\<exists>v. (i, k, v) \<in> set (lruList c))" for i k
      by (subst new) (auto simp: n(1) hd)
    have "lru_inv ?c"
      unfolding lru_inv_def lru_keys_def new
    proof (intro conjI)
      show "\<forall>k i. (map_of (relationMap ?c) k = Some i) = (\<exists>u. (i, k, u) \<in> set ((it, key, v) # rest))"
        using d(5) ids unfolding new by simp
    qed (use d n(1) hd in auto)
    moreover have "lru_abs ?c = spec_put (capacity c) key v (lru_abs c)"
      using d(2,4) n hd cap unfolding lru_abs_def new
      by (cases "capacity c") (auto simp: spec_put_def delete_idem image_iff)
    ultimately show ?thesis using that[of ?c] hit w(2) True by (simp add: lru_put_def)
  qed
qed

lemma lru_put_correct:
  assumes "lru_inv c" "0 < capacity c"
  obtains c' where "lru_put key v c = Some c'" "lru_inv c'"
    "lru_abs c' = spec_put (capacity c) key v (lru_abs c)" "capacity c' = capacity c"
  using assms by (cases "map_of (relationMap c) key") (blast elim: lru_put_miss lru_put_hit)+

lemma lru_init: "lru_inv (ResschedLRUCache cap)" "lru_abs (ResschedLRUCache cap) = []"
  "capacity (ResschedLRUCache cap) = cap"
  by (auto simp: lru_inv_def lru_keys_def lru_abs_def ResschedLRUCache_def)

section \<open>Runs of the cache\<close>

datatype ('k, 'v) lru_op = Get 'k | Put 'k 'v

text \<open>
  A run of operations, with the keys used so far (put, or found by a get), the latest
  first, and the bindings written so far, the latest first.
\<close>

fun lru_exec :: "('k, 'v) lru_op list \<Rightarrow> ('k, 'v) lru \<times> 'k list \<times> ('k \<times> 'v) list \<Rightarrow>
    (('k, 'v) lru \<times> 'k list \<times> ('k \<times> 'v) list) option" where
  "lru_exec [] s = Some s"
| "lru_exec (Get k # ops) (c, us, ws) =
     (case lru_get k c of
        None \<Rightarrow> None
      | Some (c', None) \<Rightarrow> lru_exec ops (c', us, ws)
      | Some (c', Some _) \<Rightarrow> lru_exec ops (c', k # us, ws))"
| "lru_exec (Put k v # ops) (c, us, ws) =
     (case lru_put k v c of
        None \<Rightarrow> None
      | Some c' \<Rightarrow> lru_exec ops (c', k # us, (k, v) # ws))"

text \<open>The keys of a history in the order of their last use.\<close>

fun recency :: "'k list \<Rightarrow> 'k list" where
  "recency [] = []"
| "recency (k # ks) = k # removeAll k (recency ks)"

lemma recency_distinct: "distinct (recency ks)"
  by (induction ks) (auto simp: distinct_removeAll)

lemma take_removeAll:
  "distinct xs \<Longrightarrow> take n (removeAll k (take (Suc n) xs)) = take n (removeAll k xs)"
proof (induction xs arbitrary: n)
  case Nil
  then show ?case by simp
next
  case (Cons x xs)
  show ?case
  proof (cases "x = k")
    case True
    with Cons.prems have "removeAll k xs = xs" "removeAll k (take n xs) = take n xs"
      by (auto intro!: removeAll_id dest: in_set_takeD)
    with True show ?thesis by simp
  next
    case False
    with Cons show ?thesis by (cases n) auto
  qed
qed

lemma take_Cons_removeAll:
  "distinct xs \<Longrightarrow> 0 < n \<Longrightarrow>
   take n (k # removeAll k (take n xs)) = take n (k # removeAll k xs)"
  by (cases n) (simp_all add: take_removeAll)

lemma Cons_removeAll_hit:
  assumes "distinct xs" "k \<in> set (take n xs)"
  shows "k # removeAll k (take n xs) = take n (k # removeAll k xs)"
proof -
  have "n > 0" using assms(2) by (cases n) auto
  have "length (removeAll k (take n xs)) < length (take n xs)"
    using assms(2) by (rule length_removeAll_less)
  then have "length (k # removeAll k (take n xs)) \<le> n" by simp
  then have "k # removeAll k (take n xs) = take n (k # removeAll k (take n xs))" by simp
  also have "\<dots> = take n (k # removeAll k xs)"
    using assms(1) \<open>n > 0\<close> by (rule take_Cons_removeAll)
  finally show ?thesis .
qed

text \<open>The invariant of a run: the cache against the history.\<close>

definition lru_run_inv :: "nat \<Rightarrow> ('k, 'v) lru \<times> 'k list \<times> ('k \<times> 'v) list \<Rightarrow> bool" where
  "lru_run_inv cap = (\<lambda>(c, us, ws).
     lru_inv c \<and> capacity c = cap \<and> map fst (lru_abs c) = take cap (recency us) \<and>
     (\<forall>k v. map_of (lru_abs c) k = Some v \<longrightarrow> map_of ws k = Some v))"

lemma map_of_delete: "map_of (AList.delete k m) k' = (if k' = k then None else map_of m k')"
  by (simp add: delete_conv')

lemma map_of_take_Some: "distinct (map fst l) \<Longrightarrow> map_of (take n l) k = Some v \<Longrightarrow> map_of l k = Some v"
  by (metis in_set_takeD map_of_SomeD map_of_is_SomeI)

lemma spec_put_keys: "map fst (spec_put cap k v l) = take cap (k # removeAll k (map fst l))"
  by (simp add: spec_put_def take_map[symmetric] delete_keys)

lemma lru_abs_distinct: "lru_inv c \<Longrightarrow> distinct (map fst (lru_abs c))"
  by (simp add: lru_inv_def lru_keys_def lru_abs_def)

lemma spec_put_lookup:
  assumes "distinct (map fst l)" "map_of (spec_put cap k v l) k' = Some w"
  shows "if k' = k then w = v else map_of l k' = Some w"
proof -
  have "distinct (map fst ((k, v) # AList.delete k l))"
    using assms(1) by (simp add: distinct_delete delete_notin_dom)
  from map_of_take_Some[OF this] assms(2) have "map_of ((k, v) # AList.delete k l) k' = Some w"
    unfolding spec_put_def by blast
  then show ?thesis by (auto simp: map_of_delete split: if_splits)
qed

lemma lru_step_get:
  assumes "lru_run_inv cap (c, us, ws)"
  obtains c' r where "lru_get k c = Some (c', r)" "r = map_of (lru_abs c) k"
    "lru_run_inv cap (c', if r = None then us else k # us, ws)"
proof -
  from assms have i: "lru_inv c" "capacity c = cap" "map fst (lru_abs c) = take cap (recency us)"
    "\<forall>k v. map_of (lru_abs c) k = Some v \<longrightarrow> map_of ws k = Some v"
    by (auto simp: lru_run_inv_def)
  from lru_get_correct[OF i(1), of k] obtain c' where c':
    "lru_get k c = Some (c', snd (spec_get k (lru_abs c)))" "lru_inv c'"
    "lru_abs c' = fst (spec_get k (lru_abs c))" "capacity c' = capacity c" .
  show ?thesis
  proof (cases "map_of (lru_abs c) k")
    case None
    with c' i that show ?thesis by (simp add: spec_get_def lru_run_inv_def)
  next
    case (Some v)
    then have "k \<in> set (take cap (recency us))"
      unfolding i(3)[symmetric] by (force dest: map_of_SomeD)
    then have "k # removeAll k (take cap (recency us)) = take cap (recency (k # us))"
      by (simp add: Cons_removeAll_hit recency_distinct)
    with c' i Some have "lru_run_inv cap (c', k # us, ws)"
      by (auto simp: spec_get_def lru_run_inv_def delete_keys map_of_delete)
    with c' Some that show ?thesis by (simp add: spec_get_def)
  qed
qed

lemma lru_step_put:
  assumes "lru_run_inv cap (c, us, ws)" "0 < cap"
  obtains c' where "lru_put k v c = Some c'" "lru_run_inv cap (c', k # us, (k, v) # ws)"
proof -
  from assms have i: "lru_inv c" "capacity c = cap" "map fst (lru_abs c) = take cap (recency us)"
    "\<forall>k v. map_of (lru_abs c) k = Some v \<longrightarrow> map_of ws k = Some v"
    by (auto simp: lru_run_inv_def)
  from lru_put_correct[OF i(1), of k v] assms(2) i(2) obtain c' where c':
    "lru_put k v c = Some c'" "lru_inv c'"
    "lru_abs c' = spec_put cap k v (lru_abs c)" "capacity c' = cap" by auto
  have "map fst (lru_abs c') = take cap (recency (k # us))"
    using assms(2) by (simp add: c' spec_put_keys i(3) take_Cons_removeAll recency_distinct)
  moreover have "map_of ((k, v) # ws) k' = Some w" if "map_of (lru_abs c') k' = Some w" for k' w
    using spec_put_lookup[OF lru_abs_distinct[OF i(1)] that[unfolded c'(3)]] i(4)
    by (simp split: if_splits)
  ultimately show ?thesis using c' that by (simp add: lru_run_inv_def)
qed

lemma lru_run_inv_init: "lru_run_inv cap (ResschedLRUCache cap, [], [])"
  by (simp add: lru_run_inv_def lru_init)

lemma lru_exec_inv:
  "lru_run_inv cap s \<Longrightarrow> 0 < cap \<Longrightarrow> \<exists>s'. lru_exec ops s = Some s' \<and> lru_run_inv cap s'"
proof (induction ops s rule: lru_exec.induct)
  case (1 s)
  then show ?case by simp
next
  case (2 k ops c us ws)
  from 2(3) obtain c' r where "lru_get k c = Some (c', r)"
    "lru_run_inv cap (c', if r = None then us else k # us, ws)" by (rule lru_step_get)
  with 2 show ?case by (cases r) auto
next
  case (3 k v ops c us ws)
  from 3(2,3) obtain c' where "lru_put k v c = Some c'"
    "lru_run_inv cap (c', k # us, (k, v) # ws)" by (rule lru_step_put)
  with 3 show ?case by auto
qed

section \<open>The contract of a cache, and what a client gets from it\<close>

locale cache =
  fixes get :: "'k \<Rightarrow> 'c \<Rightarrow> ('c \<times> 'v option) option"
    and put :: "'k \<Rightarrow> 'v \<Rightarrow> 'c \<Rightarrow> 'c option"
    and content :: "'c \<Rightarrow> 'k \<Rightarrow> 'v option"
    and ok :: "'c \<Rightarrow> bool"
  assumes get_law: "ok c \<Longrightarrow>
      \<exists>c'. get k c = Some (c', content c k) \<and> ok c' \<and> content c' = content c"
    and put_law: "ok c \<Longrightarrow>
      \<exists>c'. put k v c = Some c' \<and> ok c' \<and> content c' k = Some v \<and>
           (\<forall>k' w. content c' k' = Some w \<longrightarrow> k' = k \<and> w = v \<or> content c k' = Some w)"
begin

text \<open>Look up, and compute and store on a miss: the use of the cache in the service.\<close>

definition memo :: "('k \<Rightarrow> 'v) \<Rightarrow> 'k \<Rightarrow> 'c \<Rightarrow> ('c \<times> 'v) option" where
  "memo f k c =
     (case get k c of
        None \<Rightarrow> None
      | Some (c', Some v) \<Rightarrow> Some (c', v)
      | Some (c', None) \<Rightarrow> map_option (\<lambda>c''. (c'', f k)) (put k (f k) c'))"

text \<open>Every pair in the cache satisfies \<open>P\<close>: what was ever stored under a key.\<close>

definition within :: "('k \<Rightarrow> 'v \<Rightarrow> bool) \<Rightarrow> 'c \<Rightarrow> bool" where
  "within P c = (\<forall>k v. content c k = Some v \<longrightarrow> P k v)"

definition recall :: "('k \<Rightarrow> 'v) \<Rightarrow> 'c \<Rightarrow> 'k \<Rightarrow> 'v" where
  "recall f c k = (case content c k of None \<Rightarrow> f k | Some v \<Rightarrow> v)"

lemma memo_recalls:
  assumes "ok c" "within P c" "P k (f k)"
  shows "\<exists>c'. memo f k c = Some (c', recall f c k) \<and> ok c' \<and> within P c' \<and> content c' k = Some (recall f c k)"
proof -
  from get_law[OF assms(1), of k] obtain c1 where c1:
    "get k c = Some (c1, content c k)" "ok c1" "content c1 = content c" by blast
  show ?thesis
  proof (cases "content c k")
    case None
    from put_law[OF c1(2), of k "f k"] obtain c2 where c2: "put k (f k) c1 = Some c2" "ok c2"
      "content c2 k = Some (f k)"
      "\<forall>k' w. content c2 k' = Some w \<longrightarrow> k' = k \<and> w = f k \<or> content c k' = Some w"
      unfolding c1(3) by blast
    with assms(2,3) have "within P c2" unfolding within_def by blast
    with None c1 c2 show ?thesis by (simp add: memo_def recall_def)
  next
    case (Some v)
    with assms(2) c1 show ?thesis by (auto simp: memo_def within_def recall_def)
  qed
qed

lemma recall_within: "within P c \<Longrightarrow> P k (f k) \<Longrightarrow> P k (recall f c k)"
  by (auto simp: recall_def within_def split: option.split)

lemma recall_agrees: "within (\<lambda>k v. v = f k) c \<Longrightarrow> recall f c = f"
  by (auto simp: recall_def within_def split: option.split)

lemma memo_hit: "ok c \<Longrightarrow> content c k = Some v \<Longrightarrow> \<exists>c'. memo f k c = Some (c', v) \<and> ok c'"
  using get_law[of c k] by (auto simp: memo_def)

end

lemma lru_content_get:
  assumes "lru_inv c"
  shows "\<exists>c'. lru_get k c = Some (c', map_of (lru_abs c) k) \<and>
    (lru_inv c' \<and> capacity c' = capacity c) \<and> map_of (lru_abs c') = map_of (lru_abs c)"
proof -
  from lru_get_correct[OF assms, of k] obtain c' where c':
    "lru_get k c = Some (c', snd (spec_get k (lru_abs c)))" "lru_inv c'"
    "lru_abs c' = fst (spec_get k (lru_abs c))" "capacity c' = capacity c" .
  have "map_of (fst (spec_get k l)) = map_of l" "snd (spec_get k l) = map_of l k" for l :: "('a \<times> 'b) list"
    by (auto simp: spec_get_def map_of_delete fun_eq_iff split: option.splits)
  with c' show ?thesis by auto
qed

lemma lru_content_put:
  assumes "lru_inv c" "0 < capacity c"
  shows "\<exists>c'. lru_put k v c = Some c' \<and> (lru_inv c' \<and> capacity c' = capacity c) \<and>
    map_of (lru_abs c') k = Some v \<and>
    (\<forall>k' w. map_of (lru_abs c') k' = Some w \<longrightarrow> k' = k \<and> w = v \<or> map_of (lru_abs c) k' = Some w)"
proof -
  from lru_put_correct[OF assms, of k v] obtain c' where c': "lru_put k v c = Some c'" "lru_inv c'"
    "lru_abs c' = spec_put (capacity c) k v (lru_abs c)" "capacity c' = capacity c" .
  have "map_of (lru_abs c') k = Some v"
    using assms(2) by (cases "capacity c") (auto simp: c'(3) spec_put_def)
  with c' show ?thesis
    using spec_put_lookup[OF lru_abs_distinct[OF assms(1)]] by (metis)
qed

interpretation lru_cache: cache lru_get lru_put "\<lambda>c. map_of (lru_abs c)"
    "\<lambda>c. lru_inv c \<and> 0 < capacity c"
proof unfold_locales
  fix c :: "('a, 'b) lru" and k
  assume "lru_inv c \<and> 0 < capacity c"
  then show "\<exists>c'. lru_get k c = Some (c', map_of (lru_abs c) k) \<and>
      (lru_inv c' \<and> 0 < capacity c') \<and> map_of (lru_abs c') = map_of (lru_abs c)"
    using lru_content_get[of c k] by auto
next
  fix c :: "('a, 'b) lru" and k v
  assume "lru_inv c \<and> 0 < capacity c"
  then show "\<exists>c'. lru_put k v c = Some c' \<and> (lru_inv c' \<and> 0 < capacity c') \<and>
      map_of (lru_abs c') k = Some v \<and>
      (\<forall>k' w. map_of (lru_abs c') k' = Some w \<longrightarrow> k' = k \<and> w = v \<or> map_of (lru_abs c) k' = Some w)"
    using lru_content_put[of c k v] by (metis)
qed

section \<open>Properties\<close>

text \<open>
  C8. A permission cache of positive capacity never dereferences an erased iterator and
  never takes the back of an empty list, whatever the sequence of gets and puts; its
  keys are then exactly the \<open>capacity\<close> most recently used ones in the order of their
  last use, and every value it holds is the last one written under its key.
\<close>

theorem lru_keeps_most_recent:
  assumes "0 < cap"
  shows "\<exists>c us ws. lru_exec ops (ResschedLRUCache cap, [], []) = Some (c, us, ws) \<and>
           lru_keys c = take cap (recency us) \<and>
           (\<forall>k v. map_of (lru_abs c) k = Some v \<longrightarrow> map_of ws k = Some v)"
proof -
  obtain c us ws where "lru_exec ops (ResschedLRUCache cap, [], []) = Some (c, us, ws)"
    "lru_run_inv cap (c, us, ws)"
    using lru_exec_inv[OF lru_run_inv_init assms, of ops] by auto
  then show ?thesis by (auto simp: lru_run_inv_def lru_keys_def lru_abs_def)
qed

lemma lru_keeps_most_recent_witness:
  "\<exists>c us ws. lru_exec [Put 1 ''a'', Put 2 ''b'', Get 1, Put (3::nat) ''c'']
      (ResschedLRUCache 2, [], []) = Some (c, us, ws) \<and> lru_keys c = take 2 (recency us) \<and>
      (\<forall>k v. map_of (lru_abs c) k = Some v \<longrightarrow> map_of ws k = Some v)"
  using lru_keeps_most_recent[of 2 "[Put 1 ''a'', Put 2 ''b'', Get 1, Put (3::nat) ''c'']"] by simp

end
