(* ===== verification/Common_Util.thy ===== *)
theory Common_Util
  imports Prelude
begin

text \<open>
  The string, number and time helpers of ressched/common/src (res_sched_string_util.cpp,
  res_sched_time_util.cpp), with the functions of the C library they are written with:
  \<open>strtol\<close>, \<open>strtoul\<close>, \<open>atoi\<close> and \<open>atoll\<close> on base 10, in the C locale, for a 64-bit
  \<open>long\<close>.  A function that returns a bool and fills a result returns an option; \<open>None\<close>
  is false and leaves the result untouched.  \<open>atoi\<close> of a number that does not fit is
  undefined in C; the value modulo $2^{32}$ is what the C libraries compute.
\<close>

section \<open>The C library\<close>

definition code_of :: "char \<Rightarrow> nat" where "code_of c = of_char c"

definition is_digit :: "char \<Rightarrow> bool" where
  "is_digit c \<longleftrightarrow> 48 \<le> code_of c \<and> code_of c \<le> 57"

definition is_alpha :: "char \<Rightarrow> bool" where
  "is_alpha c \<longleftrightarrow> (65 \<le> code_of c \<and> code_of c \<le> 90) \<or> (97 \<le> code_of c \<and> code_of c \<le> 122)"

definition is_space :: "char \<Rightarrow> bool" where
  "is_space c \<longleftrightarrow> code_of c = 32 \<or> (9 \<le> code_of c \<and> code_of c \<le> 13)"

definition c_str :: "string \<Rightarrow> string" where
  "c_str s = takeWhile (\<lambda>c. code_of c \<noteq> 0) s"

definition dec_val :: "string \<Rightarrow> nat" where
  "dec_val s = foldl (\<lambda>n c. n * 10 + (code_of c - 48)) 0 s"

text \<open>The common part of the \<open>strto...\<close> functions: sign, magnitude and the unparsed rest.\<close>

definition parse_dec :: "string \<Rightarrow> (bool \<times> nat \<times> string) option" where
  "parse_dec s =
     (let s1 = dropWhile is_space s;
          neg = (case s1 of [] \<Rightarrow> False | c # _ \<Rightarrow> c = CHR 0x2D);
          s2 = (case s1 of [] \<Rightarrow> [] | c # cs \<Rightarrow> if c = CHR 0x2D \<or> c = CHR 0x2B then cs else s1);
          ds = takeWhile is_digit s2
      in if ds = [] then None else Some (neg, dec_val ds, dropWhile is_digit s2))"

definition signed_val :: "bool \<Rightarrow> nat \<Rightarrow> int" where
  "signed_val neg n = (if neg then - int n else int n)"

definition atoi :: "string \<Rightarrow> i32" where
  "atoi s = (case parse_dec (c_str s) of
     None \<Rightarrow> 0 | Some (neg, n, _) \<Rightarrow> wrap_s32 (signed_val neg n))"

definition wrap_s64 :: "int \<Rightarrow> i64" where
  "wrap_s64 x = (x + 9223372036854775808) mod 18446744073709551616 - 9223372036854775808"

definition atoll :: "string \<Rightarrow> i64" where
  "atoll s = (case parse_dec (c_str s) of
     None \<Rightarrow> 0 | Some (neg, n, _) \<Rightarrow> wrap_s64 (signed_val neg n))"

text \<open>\<open>std::to_string\<close> of an integer.\<close>

definition digit_char :: "nat \<Rightarrow> char" where "digit_char n = char_of (48 + n)"

fun nat_to_string :: "nat \<Rightarrow> string" where
  "nat_to_string n =
     (if n < 10 then [digit_char n] else nat_to_string (n div 10) @ [digit_char (n mod 10)])"

declare nat_to_string.simps [simp del]

definition to_string :: "int \<Rightarrow> string" where
  "to_string x = (if x < 0 then CHR 0x2D # nat_to_string (nat (- x)) else nat_to_string (nat x))"

section \<open>res\_sched\_string\_util.cpp\<close>

definition MIN_BUNDLE_NAME_LEN :: nat where "MIN_BUNDLE_NAME_LEN = 7"
definition MAX_BUNDLE_NAME_LEN :: nat where "MAX_BUNDLE_NAME_LEN = 127"
definition MAX_NUMBER_SIZE :: nat where "MAX_NUMBER_SIZE = 10"

definition CheckBundleName :: "string \<Rightarrow> bool" where
  "CheckBundleName b =
     (if b = [] then False
      else if length b < MIN_BUNDLE_NAME_LEN \<or> length b > MAX_BUNDLE_NAME_LEN then False
      else if \<not> is_alpha (hd b) then False
      else list_all (\<lambda>c. is_alpha c \<or> is_digit c \<or> c = CHR 0x5F \<or> c = CHR 0x2E) b)"

definition StrToInt32 :: "string \<Rightarrow> i32 option" where
  "StrToInt32 s =
     (case parse_dec (c_str s) of
        None \<Rightarrow> None
      | Some (neg, n, rest) \<Rightarrow>
          (let v = signed_val neg n in
           if v < - 9223372036854775808 \<or> v > 9223372036854775807 then None
           else if rest \<noteq> [] then None
           else if v < - 2147483648 \<or> v > 2147483647 then None
           else Some v))"

definition StrToInt64 :: "string \<Rightarrow> i64 option" where
  "StrToInt64 s =
     (case parse_dec (c_str s) of
        None \<Rightarrow> None
      | Some (neg, n, rest) \<Rightarrow>
          (let v = signed_val neg n in
           if v < - 9223372036854775808 \<or> v > 9223372036854775807 then None
           else if rest \<noteq> [] then None
           else Some v))"

text \<open>
  \<open>strtoul\<close> reports a range error only for a magnitude above \<open>ULONG_MAX\<close> and negates
  modulo $2^{64}$.  \<open>StrToUInt32\<close> converts the result to \<open>uint32_t\<close> before it compares it
  with \<open>UINT_MAX\<close>.
\<close>

definition strtoul_val :: "bool \<Rightarrow> nat \<Rightarrow> u64" where
  "strtoul_val neg n = (if neg then - of_nat n else of_nat n)"

definition StrToUInt32 :: "string \<Rightarrow> u32 option" where
  "StrToUInt32 s =
     (case parse_dec (c_str s) of
        None \<Rightarrow> None
      | Some (neg, n, rest) \<Rightarrow>
          if n > 18446744073709551615 then None
          else if rest \<noteq> [] then None
          else (let res = ucast (strtoul_val neg n) :: u32 in
                if res > 0xFFFFFFFF then None else Some res))"

definition StrToUInt64 :: "string \<Rightarrow> u64 option" where
  "StrToUInt64 s =
     (case parse_dec (c_str s) of
        None \<Rightarrow> None
      | Some (neg, n, rest) \<Rightarrow>
          if n > 18446744073709551615 then None
          else if rest \<noteq> [] then None
          else Some (strtoul_val neg n))"

definition IsNumericString :: "string \<Rightarrow> bool" where
  "IsNumericString s =
     (if length s > MAX_NUMBER_SIZE \<or> length s = 0 then False
      else if length s = 1 then is_digit (hd s)
      else (is_digit (hd s) \<or> hd s = CHR 0x2D) \<and> list_all is_digit (tl s))"

definition trim :: "(char \<Rightarrow> bool) \<Rightarrow> string \<Rightarrow> string" where
  "trim blank s = rev (dropWhile blank (rev (dropWhile blank s)))"

definition StringTrim :: "string \<Rightarrow> string" where
  "StringTrim s =
     (if s = [] then s
      else if list_all (\<lambda>c. code_of c \<in> {12, 11, 13, 9, 10, 32}) s then []
      else trim (\<lambda>c. code_of c \<in> {12, 11, 13, 9, 10, 32}) s)"

definition StringTrimSpace :: "string \<Rightarrow> string" where
  "StringTrimSpace s =
     (if s = [] then s
      else if list_all (\<lambda>c. code_of c = 32) s then []
      else trim (\<lambda>c. code_of c = 32) s)"

section \<open>res\_sched\_time\_util.cpp\<close>

text \<open>
  \<open>FormatTimeWithMillis\<close>: the date part, \<open>put_time\<close> of the local time of the whole
  seconds, is a parameter, empty where \<open>localtime\<close> returns null.  \<open>subsec\<close> is in
  milliseconds, and is divided by 1000 once more before it is printed with width 3.
\<close>

definition setw3 :: "string \<Rightarrow> string" where
  "setw3 s = replicate (3 - length s) (CHR 0x30) @ s"

definition FormatTimeWithMillis :: "(i64 \<Rightarrow> string option) \<Rightarrow> i64 \<Rightarrow> string" where
  "FormatTimeWithMillis put_time millis =
     (if millis \<le> 0 then []
      else (case put_time (millis div 1000) of
              None \<Rightarrow> []
            | Some date \<Rightarrow>
                (let subsec = millis mod 1000
                 in date @ [CHR 0x2E] @ setw3 (to_string (subsec div 1000)))))"

definition ConvertTimestampToStr :: "(i64 \<Rightarrow> string option) \<Rightarrow> i64 \<Rightarrow> string" where
  "ConvertTimestampToStr put_time timestamp =
     (let t = (if timestamp < 0 then - ((- timestamp) div 1000) else timestamp div 1000);
          frac = (if timestamp < 0 then - ((- timestamp) mod 1000) else timestamp mod 1000)
      in case put_time t of
           None \<Rightarrow> []
         | Some date \<Rightarrow> date @ [CHR 0x2E] @ setw3 (to_string frac))"

section \<open>Decimal numbers\<close>

lemma code_of_digit_char: "n < 10 \<Longrightarrow> code_of (digit_char n) = 48 + n"
  by (simp add: code_of_def digit_char_def)

lemma digit_char_props: "n < 10 \<Longrightarrow> is_digit (digit_char n)"
  by (simp add: is_digit_def code_of_digit_char)

lemma dec_val_snoc: "dec_val (s @ [c]) = dec_val s * 10 + (code_of c - 48)"
  by (simp add: dec_val_def)

lemma nat_to_string_digits: "list_all is_digit (nat_to_string n)"
proof (induction n rule: nat_to_string.induct)
  case (1 n)
  then show ?case by (subst nat_to_string.simps) (simp add: digit_char_props)
qed

lemma dec_val_nat_to_string: "dec_val (nat_to_string n) = n"
proof (induction n rule: nat_to_string.induct)
  case (1 n)
  then show ?case
    by (subst nat_to_string.simps)
      (auto simp: dec_val_snoc code_of_digit_char, simp add: dec_val_def code_of_digit_char)
qed

lemma nat_to_string_nonempty: "nat_to_string n \<noteq> []"
  by (subst nat_to_string.simps) simp

lemma digit_not_special:
  assumes "is_digit c"
  shows "\<not> is_space c" "c \<noteq> CHR 0x2D" "c \<noteq> CHR 0x2B" "code_of c \<noteq> 0"
  using assms by (auto simp: is_digit_def is_space_def code_of_def)

lemma c_str_digits: "list_all is_digit s \<Longrightarrow> c_str s = s"
  unfolding c_str_def
  by (auto simp: takeWhile_eq_all_conv list_all_iff dest: digit_not_special(4))

lemma parse_dec_digits:
  assumes "list_all is_digit s" "s \<noteq> []"
  shows "parse_dec s = Some (False, dec_val s, [])"
proof -
  obtain c cs where s: "s = c # cs" using assms(2) by (cases s) auto
  with assms(1) have c: "is_digit c" by simp
  have "takeWhile is_digit s = s" "dropWhile is_digit s = []"
    using assms(1) by (simp_all add: takeWhile_eq_all_conv dropWhile_eq_Nil_conv list_all_iff)
  with s digit_not_special[OF c] show ?thesis by (simp add: parse_dec_def)
qed

lemma parse_dec_minus:
  assumes "list_all is_digit s" "s \<noteq> []"
  shows "parse_dec (CHR 0x2D # s) = Some (True, dec_val s, [])"
proof -
  have t: "takeWhile is_digit s = s" "dropWhile is_digit s = []"
    using assms(1) by (simp_all add: takeWhile_eq_all_conv dropWhile_eq_Nil_conv list_all_iff)
  have "\<not> is_space (CHR 0x2D)" by (simp add: is_space_def code_of_def)
  with assms(2) show ?thesis by (simp add: parse_dec_def Let_def t)
qed

lemma c_str_minus: "list_all is_digit s \<Longrightarrow> c_str (CHR 0x2D # s) = CHR 0x2D # s"
  using c_str_digits[of s] by (simp add: c_str_def code_of_def)

lemma parse_to_string:
  "parse_dec (c_str (to_string x)) = Some (x < 0, nat \<bar>x\<bar>, [])"
  by (auto simp: to_string_def c_str_digits c_str_minus nat_to_string_digits parse_dec_digits
      parse_dec_minus nat_to_string_nonempty dec_val_nat_to_string)

lemma signed_val_abs: "signed_val (x < 0) (nat \<bar>x\<bar>) = x"
  by (simp add: signed_val_def)

lemma atoi_to_string:
  assumes "- 2147483648 \<le> x" "x \<le> 2147483647"
  shows "atoi (to_string x) = x"
  by (simp add: atoi_def parse_to_string signed_val_abs wrap_s32_id assms)

lemma atoi_range: "- 2147483648 \<le> atoi s \<and> atoi s \<le> 2147483647"
  using wrap_s32_range by (auto simp: atoi_def split: option.splits)

lemma StrToInt32_to_string:
  assumes "- 2147483648 \<le> x" "x \<le> 2147483647"
  shows "StrToInt32 (to_string x) = Some x"
  using assms by (simp add: StrToInt32_def parse_to_string signed_val_abs)

lemma StrToInt32_atoi: "StrToInt32 s = Some v \<Longrightarrow> atoi s = v"
  by (auto simp: StrToInt32_def atoi_def Let_def wrap_s32_id split: option.splits if_splits)

lemma StrToInt64_to_string:
  assumes "- 9223372036854775808 \<le> x" "x \<le> 9223372036854775807"
  shows "StrToInt64 (to_string x) = Some x"
  using assms by (simp add: StrToInt64_def parse_to_string signed_val_abs)

lemma numeric_parse:
  assumes "IsNumericString s"
  obtains neg n where "parse_dec (c_str s) = Some (neg, n, [])"
    "s = (if neg then CHR 0x2D # tl s else s)"
    "n = dec_val (if neg then tl s else s)"
proof -
  from assms obtain c cs where s: "s = c # cs" by (cases s) (auto simp: IsNumericString_def)
  show ?thesis
  proof (cases "c = CHR 0x2D")
    case True
    then have "\<not> is_digit c" by (simp add: is_digit_def code_of_def)
    with assms s True have "cs \<noteq> []" "list_all is_digit cs"
      by (auto simp: IsNumericString_def split: if_splits)
    with s True that[of True] show ?thesis by (simp add: c_str_minus parse_dec_minus)
  next
    case False
    with assms s have "list_all is_digit s" by (auto simp: IsNumericString_def split: if_splits)
    with s that[of False] show ?thesis by (simp add: c_str_digits parse_dec_digits)
  qed
qed

lemma dec_val_bound: "list_all is_digit s \<Longrightarrow> dec_val s < 10 ^ length s"
proof (induction s rule: rev_induct)
  case Nil
  then show ?case by (simp add: dec_val_def)
next
  case (snoc c s)
  then have "code_of c - 48 \<le> 9" "dec_val s < 10 ^ length s" by (auto simp: is_digit_def)
  then show ?case by (simp add: dec_val_snoc)
qed

lemma trim_ends:
  "trim blank s = [] \<or> (\<not> blank (hd (trim blank s)) \<and> \<not> blank (last (trim blank s)))"
proof (cases "dropWhile blank (rev (dropWhile blank s)) = []")
  case True
  then show ?thesis by (simp add: trim_def)
next
  case False
  have "last (trim blank s) = hd (dropWhile blank (rev (dropWhile blank s)))"
    unfolding trim_def by (rule last_rev)
  with hd_dropWhile[OF False] have l: "\<not> blank (last (trim blank s))" by (simp only: not_False_eq_True)
  from False have ne: "dropWhile blank s \<noteq> []" by (metis dropWhile.simps(1) rev.simps(1))
  obtain t where t: "rev (dropWhile blank s) = t @ dropWhile blank (rev (dropWhile blank s))"
    by (metis takeWhile_dropWhile_id)
  have "hd (trim blank s) = hd (dropWhile blank s)"
    using arg_cong[OF t, of rev] False unfolding trim_def by (metis hd_append2 rev_append rev_is_Nil_conv rev_rev_ident)
  with hd_dropWhile[OF ne] l show ?thesis by simp
qed

lemma trim_char_ends:
  assumes "StringTrim s \<noteq> []"
  shows "\<not> is_space (hd (StringTrim s)) \<and> \<not> is_space (last (StringTrim s))"
proof -
  have blank: "(\<lambda>c. code_of c \<in> {12, 11, 13, 9, 10, 32}) = is_space"
    by (rule ext) (auto simp: is_space_def)
  from assms trim_ends[of is_space s] show ?thesis
    unfolding StringTrim_def blank by (auto split: if_splits)
qed

section \<open>Properties\<close>

text \<open>
  What \<open>IsNumericString\<close> accepts always converts: \<open>StrToInt64\<close> succeeds on it with a
  value of at most ten digits, and \<open>StrToInt32\<close> either yields the same value, which is also
  what \<open>atoi\<close> computes, or rejects a value outside the range of \<open>int32_t\<close>.
\<close>

theorem numeric_string_converts:
  assumes "IsNumericString s"
  shows "\<exists>v. StrToInt64 s = Some v \<and> \<bar>v\<bar> < 10000000000 \<and>
    (if - 2147483648 \<le> v \<and> v \<le> 2147483647 then StrToInt32 s = Some v \<and> atoi s = v
     else StrToInt32 s = None)"
proof -
  from assms obtain neg n where p: "parse_dec (c_str s) = Some (neg, n, [])"
    "n = dec_val (if neg then tl s else s)" "s = (if neg then CHR 0x2D # tl s else s)"
    by (rule numeric_parse)
  have len: "length s \<le> 10" using assms by (auto simp: IsNumericString_def MAX_NUMBER_SIZE_def split: if_splits)
  have "list_all is_digit (if neg then tl s else s)"
  proof (cases neg)
    case True
    then show ?thesis using assms by (cases s) (auto simp: IsNumericString_def split: if_splits)
  next
    case False
    have "\<not> is_digit (CHR 0x2D)" by (simp add: is_digit_def code_of_def)
    moreover have "hd s \<noteq> CHR 0x2D"
    proof
      assume "hd s = CHR 0x2D"
      with assms obtain cs where "s = CHR 0x2D # cs" "list_all is_digit cs" "cs \<noteq> []"
        by (cases s) (auto simp: IsNumericString_def is_digit_def code_of_def split: if_splits)
      with p(1) False show False by (simp add: c_str_minus parse_dec_minus)
    qed
    ultimately show ?thesis using assms False
      by (cases s) (auto simp: IsNumericString_def split: if_splits)
  qed
  from dec_val_bound[OF this] have "n < 10 ^ length (if neg then tl s else s)" using p(2) by simp
  also have "\<dots> \<le> 10 ^ 10" using len by (intro power_increasing) auto
  finally have "\<bar>signed_val neg n\<bar> < 10000000000" by (simp add: signed_val_def)
  then show ?thesis
    by (auto simp: StrToInt64_def StrToInt32_def atoi_def p(1) Let_def wrap_s32_id)
qed

lemma numeric_string_converts_witness:
  "\<exists>v. StrToInt64 ''-42'' = Some v \<and> \<bar>v\<bar> < 10000000000 \<and>
    (if - 2147483648 \<le> v \<and> v \<le> 2147483647 then StrToInt32 ''-42'' = Some v \<and> atoi ''-42'' = v
     else StrToInt32 ''-42'' = None)"
  by (rule numeric_string_converts)
    (simp add: IsNumericString_def MAX_NUMBER_SIZE_def is_digit_def code_of_def)

text \<open>
  \<open>StrToUInt32\<close> truncates: the decimal form of any number up to \<open>ULONG_MAX\<close> is accepted
  and yields the number modulo $2^{32}$, so its own overflow check never rejects anything
  (the text of $2^{32}$ converts to 0).
\<close>

theorem StrToUInt32_truncates:
  assumes "0 \<le> x" "x \<le> 18446744073709551615"
  shows "StrToUInt32 (to_string x) = Some (word_of_int x)"
proof -
  have "(ucast (of_nat (nat x) :: u64) :: u32) = word_of_int x"
    using assms(1)
    by (simp, transfer) (simp add: take_bit_take_bit)
  moreover have "\<not> (0xFFFFFFFF :: u32) < w" for w
  proof -
    have "(0xFFFFFFFF :: u32) = - 1" by simp
    with word_n1_ge[of w] show ?thesis by (simp only: not_less)
  qed
  ultimately show ?thesis
    using assms by (simp add: StrToUInt32_def parse_to_string strtoul_val_def)
qed

lemma StrToUInt32_truncates_witness: "StrToUInt32 (to_string 4294967296) = Some (0 :: u32)"
  using StrToUInt32_truncates[of 4294967296] by simp

text \<open>
  The fraction \<open>FormatTimeWithMillis\<close> prints is always \<open>.000\<close>, whatever the milliseconds.
\<close>

theorem FormatTimeWithMillis_fraction:
  "FormatTimeWithMillis put_time millis =
     (if millis \<le> 0 then []
      else (case put_time (millis div 1000) of None \<Rightarrow> [] | Some date \<Rightarrow> date @ ''.000''))"
proof -
  have z: "(millis mod 1000) div 1000 = 0" by simp
  have "char_of (48 :: nat) = CHR 0x30" by code_simp
  then have "setw3 (to_string 0) = ''000''"
    by (simp add: setw3_def to_string_def nat_to_string.simps digit_char_def numeral_3_eq_3)
  with z show ?thesis by (simp add: FormatTimeWithMillis_def split: option.splits)
qed

end
