(* ===== verification/Plugin_Config.thy ===== *)
theory Plugin_Config
  imports Prelude "HOL-Library.List_Lexorder" "HOL-Library.Char_ord"
begin

text \<open>
  The two configuration files of the plugin framework: \<open>PluginSwitch\<close>
  (resschedfwk/src/plugin_switch.cpp), which plugins are loaded, and \<open>ConfigReader\<close>
  (resschedfwk/src/config_reader.cpp), the configurations plugins ask for.  The XML parser
  is a parameter, \<open>string \<Rightarrow> xml_node option option\<close> (no document, no root element, a root);
  a node holds what the code reads of it through libxml2.
\<close>

section \<open>Documents\<close>

text \<open>
  The name, whether the node is a comment, the attributes with the value \<open>xmlGetProp\<close>
  gives for each, what \<open>xmlNodeGetContent\<close> gives, and the children in document order.
\<close>

datatype xml_node =
  XmlNode (xml_name: "string option") (xml_comment: bool)
    (xml_attrs: "(string option \<times> string option) list") (xml_content: "string option")
    (xml_children: "xml_node list")

type_synonym xml_reader = "string \<Rightarrow> xml_node option option"

definition xml_prop :: "string \<Rightarrow> xml_node \<Rightarrow> string option" where
  "xml_prop name n =
     (case find (\<lambda>a. fst a = Some name) (xml_attrs n) of None \<Rightarrow> None | Some a \<Rightarrow> snd a)"

definition IsInvalidNode :: "xml_node \<Rightarrow> bool" where
  "IsInvalidNode n = (xml_name n = None \<or> xml_comment n)"

section \<open>PluginSwitch\<close>

record plugin_info =
  libPath :: string
  switchOn :: bool

type_synonym switch_map = "(string, plugin_info) omap"

definition FillinPluginInfo :: "xml_node \<Rightarrow> bool \<Rightarrow> plugin_info option" where
  "FillinPluginInfo n isRssExe =
     (case xml_prop (if isRssExe then ''libpathexe'' else ''libpath'') n of
        None \<Rightarrow> None
      | Some path \<Rightarrow>
          if path = [] then None
          else Some \<lparr>libPath = path, switchOn = (xml_prop ''switch'' n = Some ''1'')\<rparr>)"

fun switch_nodes :: "bool \<Rightarrow> xml_node list \<Rightarrow> switch_map \<Rightarrow> bool \<times> switch_map" where
  "switch_nodes isRssExe [] m = (True, m)"
| "switch_nodes isRssExe (n # ns) m =
     (if IsInvalidNode n then switch_nodes isRssExe ns m
      else if xml_name n \<noteq> Some ''plugin'' then (False, m)
      else (case FillinPluginInfo n isRssExe of
              None \<Rightarrow> switch_nodes isRssExe ns m
            | Some info \<Rightarrow> switch_nodes isRssExe ns (om_put (libPath info) info m)))"

definition PluginSwitch_LoadFromConfigContent ::
    "xml_reader \<Rightarrow> string \<Rightarrow> bool \<Rightarrow> switch_map \<Rightarrow> bool \<times> switch_map" where
  "PluginSwitch_LoadFromConfigContent read content isRssExe m =
     (case read content of
        Some (Some root) \<Rightarrow>
          if xml_name root \<noteq> Some ''pluginlist'' then (False, m)
          else switch_nodes isRssExe (xml_children root) m
      | _ \<Rightarrow> (False, m))"

definition GetPluginSwitch :: "switch_map \<Rightarrow> plugin_info list" where
  "GetPluginSwitch m = map snd m"

section \<open>ConfigReader\<close>

record sub_item =
  sub_name :: string
  sub_value :: string
  sub_properties :: "(string, string) omap"

record item =
  itemProperties :: "(string, string) omap"
  subItemList :: "sub_item list"

type_synonym plugin_config = "item list"
type_synonym plugin_config_map = "(string, plugin_config) omap"
type_synonym config_map = "(string, plugin_config_map) omap"

definition ParseProperties :: "xml_node \<Rightarrow> (string, string) omap \<Rightarrow> (string, string) omap" where
  "ParseProperties n props = fold (\<lambda>a ps.
     (case fst a of
        None \<Rightarrow> ps
      | Some name \<Rightarrow>
          (case xml_prop name n of None \<Rightarrow> ps | Some v \<Rightarrow> om_put name v ps))) (xml_attrs n) props"

definition ParseSubItem :: "xml_node \<Rightarrow> item \<Rightarrow> item" where
  "ParseSubItem parent it = fold (\<lambda>n it.
     if IsInvalidNode n then it
     else it\<lparr>subItemList := subItemList it @
       [\<lparr>sub_name = the (xml_name n),
         sub_value = (case xml_content n of None \<Rightarrow> [] | Some v \<Rightarrow> v),
         sub_properties = ParseProperties n []\<rparr>]\<rparr>) (xml_children parent) it"

definition ParseItem :: "xml_node \<Rightarrow> plugin_config \<Rightarrow> plugin_config" where
  "ParseItem parent pc = fold (\<lambda>n pc.
     if IsInvalidNode n \<or> xml_name n \<noteq> Some ''item'' then pc
     else pc @ [ParseSubItem n \<lparr>itemProperties = ParseProperties n [], subItemList = []\<rparr>])
     (xml_children parent) pc"

definition cfg_at :: "string \<Rightarrow> plugin_config_map \<Rightarrow> plugin_config" where
  "cfg_at c m = (case map_of m c of None \<Rightarrow> [] | Some pc \<Rightarrow> pc)"

definition cr_ParseConfig :: "xml_node \<Rightarrow> plugin_config_map \<Rightarrow> plugin_config_map" where
  "cr_ParseConfig parent m = fold (\<lambda>n m.
     if IsInvalidNode n \<or> xml_name n \<noteq> Some ''config'' then m
     else (case xml_prop ''name'' n of
             None \<Rightarrow> m
           | Some c \<Rightarrow> om_put c (ParseItem n (cfg_at c m)) m)) (xml_children parent) m"

definition ParsePluginConfig :: "xml_node \<Rightarrow> config_map \<Rightarrow> config_map option" where
  "ParsePluginConfig n cfgs =
     (case xml_prop ''name'' n of
        None \<Rightarrow> None
      | Some p \<Rightarrow>
          Some (om_put p (cr_ParseConfig n (case map_of cfgs p of None \<Rightarrow> [] | Some m \<Rightarrow> m)) cfgs))"

fun config_nodes :: "xml_node list \<Rightarrow> config_map \<Rightarrow> config_map option" where
  "config_nodes [] cfgs = Some cfgs"
| "config_nodes (n # ns) cfgs =
     (if IsInvalidNode n then config_nodes ns cfgs
      else if xml_name n = Some ''plugin'' then
        (case ParsePluginConfig n cfgs of None \<Rightarrow> None | Some cfgs' \<Rightarrow> config_nodes ns cfgs')
      else None)"

definition MergePluginConfigMap :: "plugin_config_map \<Rightarrow> plugin_config_map \<Rightarrow> plugin_config_map" where
  "MergePluginConfigMap cur nxt = fold (\<lambda>(c, pc). om_put c pc) nxt cur"

definition merge_one :: "string \<times> plugin_config_map \<Rightarrow> config_map \<Rightarrow> config_map" where
  "merge_one e all =
     (case map_of all (fst e) of
        None \<Rightarrow> om_put (fst e) (snd e) all
      | Some cur \<Rightarrow> om_put (fst e) (MergePluginConfigMap cur (snd e)) all)"

definition MergeConfigList :: "config_map \<Rightarrow> config_map \<Rightarrow> config_map" where
  "MergeConfigList cfgs all = fold merge_one cfgs all"

definition LoadFromConfigContent :: "xml_reader \<Rightarrow> string \<Rightarrow> config_map \<Rightarrow> bool \<times> config_map" where
  "LoadFromConfigContent read content all =
     (case read content of
        Some (Some root) \<Rightarrow>
          if xml_name root \<noteq> Some ''ressched'' then (False, all)
          else (case config_nodes (xml_children root) [] of
                  None \<Rightarrow> (False, all)
                | Some cfgs \<Rightarrow> (True, MergeConfigList cfgs all))
      | _ \<Rightarrow> (False, all))"

definition cr_GetConfig :: "string \<Rightarrow> string \<Rightarrow> config_map \<Rightarrow> plugin_config" where
  "cr_GetConfig p c all =
     (case map_of all p of
        None \<Rightarrow> []
      | Some m \<Rightarrow> (case map_of m c of None \<Rightarrow> [] | Some pc \<Rightarrow> pc))"

definition cr_RemoveConfig :: "string \<Rightarrow> string \<Rightarrow> config_map \<Rightarrow> config_map" where
  "cr_RemoveConfig p c all =
     (case map_of all p of
        None \<Rightarrow> all
      | Some m \<Rightarrow>
          (case map_of m c of
             None \<Rightarrow> all
           | Some _ \<Rightarrow>
               (let m' = om_del c m in if m' = [] then om_del p all else om_put p m' all)))"

definition cr_RemovePluginConfig :: "string \<Rightarrow> config_map \<Rightarrow> config_map" where
  "cr_RemovePluginConfig p all = (case map_of all p of None \<Rightarrow> all | Some _ \<Rightarrow> om_del p all)"

definition cr_newline :: string where "cr_newline = [CHR 0x0A]"

definition prop_text :: "(string, string) omap \<Rightarrow> string" where
  "prop_text ps = concat (map (\<lambda>(k, v). k @ '' = '' @ v @ '' '') ps)"

definition DumpItem :: "item \<Rightarrow> string" where
  "DumpItem it =
     ''Item : '' @ prop_text (itemProperties it) @ '' '' @ cr_newline @
     concat (map (\<lambda>s. ''subItemName : '' @ sub_name s @ '' '' @ prop_text (sub_properties s) @
       '' value :'' @ sub_value s @ '' '' @ cr_newline) (subItemList it))"

definition cr_Dump :: "config_map \<Rightarrow> string" where
  "cr_Dump all =
     ''================Resource Schedule Plugin Config ================'' @ cr_newline @
     concat (map (\<lambda>(p, m). ''pluginName:'' @ p @ '' '' @ cr_newline @
       concat (map (\<lambda>(c, pc). ''configName:'' @ c @ '' '' @ cr_newline @ concat (map DumpItem pc)) m)) all)"

section \<open>Lemmas: the plugin switch\<close>

text \<open>The entry the last accepted node for a path leaves.\<close>

fun last_switch :: "bool \<Rightarrow> string \<Rightarrow> xml_node list \<Rightarrow> plugin_info option \<Rightarrow> plugin_info option" where
  "last_switch exe path [] r = r"
| "last_switch exe path (n # ns) r =
     last_switch exe path ns
       (if IsInvalidNode n then r
        else (case FillinPluginInfo n exe of
                Some info \<Rightarrow> if libPath info = path then Some info else r | None \<Rightarrow> r))"

lemma switch_nodes_ok [store_intros]: "om_ok m \<Longrightarrow> om_ok (snd (switch_nodes exe ns m))"
  by (induction ns arbitrary: m) (simp_all split: option.split)

lemma switch_nodes_step:
  "fst (switch_nodes exe (n # ns) m) \<Longrightarrow>
   \<exists>m'. switch_nodes exe (n # ns) m = switch_nodes exe ns m' \<and>
     (m' = m \<and> (IsInvalidNode n \<or> FillinPluginInfo n exe = None) \<or>
      (\<exists>info. \<not> IsInvalidNode n \<and> FillinPluginInfo n exe = Some info \<and>
         m' = om_put (libPath info) info m))"
  by (cases "IsInvalidNode n"; cases "FillinPluginInfo n exe"; cases "xml_name n = Some ''plugin''") simp_all

lemma switch_nodes_lookup:
  "fst (switch_nodes exe ns m) \<Longrightarrow>
   map_of (snd (switch_nodes exe ns m)) path = last_switch exe path ns (map_of m path)"
proof (induction ns arbitrary: m)
  case (Cons n ns)
  from switch_nodes_step [OF Cons.prems] obtain m' where
    m': "switch_nodes exe (n # ns) m = switch_nodes exe ns m'" and
    alt: "m' = m \<and> (IsInvalidNode n \<or> FillinPluginInfo n exe = None) \<or>
      (\<exists>info. \<not> IsInvalidNode n \<and> FillinPluginInfo n exe = Some info \<and>
         m' = om_put (libPath info) info m)" by metis
  have "map_of m' path = (if IsInvalidNode n then map_of m path
      else (case FillinPluginInfo n exe of
              Some info \<Rightarrow> if libPath info = path then Some info else map_of m path
            | None \<Rightarrow> map_of m path))" using alt by auto
  with Cons.IH [of m'] Cons.prems show ?case by (simp only: m' last_switch.simps)
qed simp

lemma switch_nodes_key:
  "\<forall>p info. map_of m p = Some info \<longrightarrow> libPath info = p \<Longrightarrow> fst (switch_nodes exe ns m) \<Longrightarrow>
   \<forall>p info. map_of (snd (switch_nodes exe ns m)) p = Some info \<longrightarrow> libPath info = p"
proof (induction ns arbitrary: m)
  case (Cons n ns)
  from switch_nodes_step [OF Cons.prems(2)] obtain m' where
    m': "switch_nodes exe (n # ns) m = switch_nodes exe ns m'" and
    alt: "m' = m \<or> (\<exists>info. m' = om_put (libPath info) info m)" by metis
  have "\<forall>p info. map_of m' p = Some info \<longrightarrow> libPath info = p"
    using alt Cons.prems(1) by (auto split: if_splits)
  from Cons.IH [OF this] Cons.prems(2) show ?case unfolding m' by blast
qed simp

definition switch_ok :: "switch_map \<Rightarrow> bool" where
  "switch_ok m \<longleftrightarrow> om_ok m \<and> (\<forall>p info. map_of m p = Some info \<longrightarrow> libPath info = p)"

lemma switch_ok_put: "switch_ok m \<Longrightarrow> switch_ok (om_put (libPath info) info m)"
  by (simp add: switch_ok_def)

lemma switch_ok_nodes [store_intros]: "switch_ok m \<Longrightarrow> switch_ok (snd (switch_nodes exe ns m))"
proof (induction ns arbitrary: m)
  case (Cons n ns)
  then show ?case
    by (cases "IsInvalidNode n"; cases "xml_name n = Some ''plugin''"; cases "FillinPluginInfo n exe")
       (simp_all add: switch_ok_put)
qed simp

lemma switch_ok_load [store_intros]:
  "switch_ok m \<Longrightarrow> switch_ok (snd (PluginSwitch_LoadFromConfigContent read content exe m))"
  by (simp add: PluginSwitch_LoadFromConfigContent_def switch_ok_nodes split: option.split)

lemma GetPluginSwitch_iff:
  assumes "om_ok m" "\<forall>p info. map_of m p = Some info \<longrightarrow> libPath info = p"
  shows "info \<in> set (GetPluginSwitch m) \<longleftrightarrow> map_of m (libPath info) = Some info"
proof -
  have "info \<in> set (GetPluginSwitch m) \<longleftrightarrow> (\<exists>p. (p, info) \<in> set m)"
    unfolding GetPluginSwitch_def by (force simp: image_iff)
  also have "\<dots> \<longleftrightarrow> (\<exists>p. map_of m p = Some info)"
    by (simp only: om_ok_map_of [OF assms(1)])
  also have "\<dots> \<longleftrightarrow> map_of m (libPath info) = Some info"
    using assms(2) by metis
  finally show ?thesis .
qed

section \<open>Lemmas: merging configurations\<close>

lemma merge_map_lookup:
  "om_ok nxt \<Longrightarrow> map_of (MergePluginConfigMap cur nxt) c =
    (case map_of nxt c of Some pc \<Rightarrow> Some pc | None \<Rightarrow> map_of cur c)"
proof (induction nxt arbitrary: cur)
  case Nil
  then show ?case by (simp add: MergePluginConfigMap_def)
next
  case (Cons e nxt)
  obtain d pc where e: "e = (d, pc)" by fastforce
  have ok: "om_ok nxt" and d: "map_of nxt d = None"
    using Cons.prems by (auto simp: e om_ok_Cons map_of_eq_None_iff)
  have "map_of (MergePluginConfigMap cur (e # nxt)) c =
      map_of (MergePluginConfigMap (om_put d pc cur) nxt) c"
    by (simp add: MergePluginConfigMap_def e)
  with Cons.IH [OF ok] d show ?case by (auto simp: e split: option.splits)
qed

definition cfg_lookup :: "string \<Rightarrow> string \<Rightarrow> config_map \<Rightarrow> plugin_config option" where
  "cfg_lookup p c all = (case map_of all p of None \<Rightarrow> None | Some m \<Rightarrow> map_of m c)"

definition cfg_ok :: "config_map \<Rightarrow> bool" where
  "cfg_ok all \<longleftrightarrow> om_ok all \<and> (\<forall>m \<in> snd ` set all. om_ok m)"

lemma cfg_okD: "cfg_ok all \<Longrightarrow> map_of all p = Some m \<Longrightarrow> om_ok m"
  unfolding cfg_ok_def by (force dest: map_of_SomeD)

lemma cfg_ok_put [store_intros]: "cfg_ok all \<Longrightarrow> om_ok m \<Longrightarrow> cfg_ok (om_put p m all)"
  unfolding cfg_ok_def by (auto simp: om_ok_map_of split: if_splits)

lemma merge_map_ok [store_intros]: "om_ok cur \<Longrightarrow> om_ok (MergePluginConfigMap cur nxt)"
  unfolding MergePluginConfigMap_def by (rule fold_inv) auto

lemma merge_one_ok [store_intros]: "cfg_ok all \<Longrightarrow> om_ok (snd e) \<Longrightarrow> cfg_ok (merge_one e all)"
  unfolding merge_one_def
  by (auto simp: cfg_ok_put dest: cfg_okD intro!: cfg_ok_put merge_map_ok split: option.split)

lemma merge_one_lookup:
  "om_ok (snd e) \<Longrightarrow> cfg_lookup p c (merge_one e all) =
    (if p = fst e then (case map_of (snd e) c of Some pc \<Rightarrow> Some pc | None \<Rightarrow> cfg_lookup p c all)
     else cfg_lookup p c all)"
  by (auto simp: cfg_lookup_def merge_one_def merge_map_lookup split: option.splits)

lemma merge_list_lookup:
  "cfg_ok cfgs \<Longrightarrow> cfg_lookup p c (MergeConfigList cfgs all) =
    (case cfg_lookup p c cfgs of Some pc \<Rightarrow> Some pc | None \<Rightarrow> cfg_lookup p c all)"
proof (induction cfgs arbitrary: all)
  case Nil
  then show ?case by (simp add: MergeConfigList_def cfg_lookup_def)
next
  case (Cons e cfgs)
  obtain q m where e: "e = (q, m)" by fastforce
  have ok: "cfg_ok cfgs" and m: "om_ok m" and q: "map_of cfgs q = None"
    using Cons.prems by (auto simp: e cfg_ok_def om_ok_Cons map_of_eq_None_iff)
  have "MergeConfigList (e # cfgs) all = MergeConfigList cfgs (merge_one e all)"
    by (simp add: MergeConfigList_def)
  then have *: "cfg_lookup p c (MergeConfigList (e # cfgs) all) =
      (case cfg_lookup p c cfgs of Some pc \<Rightarrow> Some pc | None \<Rightarrow> cfg_lookup p c (merge_one e all))"
    by (simp only: Cons.IH [OF ok])
  show ?case
  proof (cases "p = q")
    case True
    then have "cfg_lookup p c cfgs = None" "cfg_lookup p c (e # cfgs) = map_of m c"
      using q by (simp_all add: cfg_lookup_def e)
    with * m True show ?thesis by (cases "map_of m c") (simp_all add: merge_one_lookup e)
  next
    case False
    then have "cfg_lookup p c (e # cfgs) = cfg_lookup p c cfgs"
      by (simp add: cfg_lookup_def e)
    with * m False show ?thesis
      by (cases "cfg_lookup p c cfgs") (simp_all add: merge_one_lookup e)
  qed
qed

lemma cr_GetConfig_lookup:
  "cr_GetConfig p c all = (case cfg_lookup p c all of None \<Rightarrow> [] | Some pc \<Rightarrow> pc)"
  by (simp add: cr_GetConfig_def cfg_lookup_def split: option.splits)

lemma cr_ParseConfig_ok [store_intros]: "om_ok m \<Longrightarrow> om_ok (cr_ParseConfig n m)"
  unfolding cr_ParseConfig_def by (rule fold_inv) (auto split: option.split)

lemma ParsePluginConfig_ok:
  "ParsePluginConfig n cfgs = Some r \<Longrightarrow> cfg_ok cfgs \<Longrightarrow> cfg_ok r"
  by (auto simp: ParsePluginConfig_def dest: cfg_okD intro!: cfg_ok_put cr_ParseConfig_ok
      split: option.splits)

lemma config_nodes_ok: "config_nodes ns cfgs = Some r \<Longrightarrow> cfg_ok cfgs \<Longrightarrow> cfg_ok r"
proof (induction ns arbitrary: cfgs)
  case (Cons n ns)
  show ?case
  proof (cases "IsInvalidNode n")
    case True
    with Cons show ?thesis by simp
  next
    case False
    with Cons.prems(1) obtain c where c: "ParsePluginConfig n cfgs = Some c" "config_nodes ns c = Some r"
      by (simp split: if_splits option.splits)
    from Cons.IH [OF c(2) ParsePluginConfig_ok [OF c(1) Cons.prems(2)]] show ?thesis .
  qed
qed simp

lemma cfg_ok_Nil [simp]: "cfg_ok []"
  by (simp add: cfg_ok_def)

lemma cfg_ok_merge: "cfg_ok cfgs \<Longrightarrow> cfg_ok all \<Longrightarrow> cfg_ok (MergeConfigList cfgs all)"
  unfolding MergeConfigList_def
proof (induction cfgs arbitrary: all)
  case (Cons e cfgs)
  then have "om_ok (snd e)" "cfg_ok cfgs" by (auto simp: cfg_ok_def om_ok_def)
  with Cons show ?case by (auto intro: merge_one_ok)
qed simp

lemma cfg_ok_del [store_intros]: "cfg_ok all \<Longrightarrow> cfg_ok (om_del p all)"
  using om_del_sub unfolding cfg_ok_def by fastforce

lemma cr_RemoveConfig_ok [store_intros]: "cfg_ok all \<Longrightarrow> cfg_ok (cr_RemoveConfig p c all)"
  by (auto simp: cr_RemoveConfig_def Let_def dest: cfg_okD intro!: cfg_ok_put cfg_ok_del
      split: option.split)

lemma cr_RemoveConfig_lookup:
  "cfg_lookup q d (cr_RemoveConfig p c all) = (if q = p \<and> d = c then None else cfg_lookup q d all)"
proof (cases "map_of all p")
  case None
  then show ?thesis by (auto simp: cfg_lookup_def cr_RemoveConfig_def)
next
  case (Some m)
  have "map_of m d = None" if "om_del c m = []" "d \<noteq> c"
    using om_del_lookup [of c m d] that by simp
  with Some show ?thesis
    by (auto simp: cfg_lookup_def cr_RemoveConfig_def Let_def split: option.split)
qed

lemma cfg_ok_load [store_intros]: "cfg_ok all \<Longrightarrow> cfg_ok (snd (LoadFromConfigContent read content all))"
  using config_nodes_ok [of _ "[]"]
  by (simp add: LoadFromConfigContent_def cfg_ok_merge split: option.split)

lemma cr_RemovePluginConfig_ok [store_intros]: "cfg_ok all \<Longrightarrow> cfg_ok (cr_RemovePluginConfig p all)"
  by (simp add: cr_RemovePluginConfig_def cfg_ok_del split: option.split)

text \<open>
  Loading a second configuration file that parses overrides the first one
  configuration by configuration: a plugin's configuration named in the new file is the new
  file's, every other one is what it was; a file that does not parse changes nothing.
\<close>

theorem config_load_overrides:
  "case LoadFromConfigContent read content all of (ok, all') \<Rightarrow>
     (if ok then
        (\<exists>root cfgs. read content = Some (Some root) \<and>
           config_nodes (xml_children root) [] = Some cfgs \<and>
           (\<forall>p c. cr_GetConfig p c all' =
              (case cfg_lookup p c cfgs of Some pc \<Rightarrow> pc | None \<Rightarrow> cr_GetConfig p c all)))
      else all' = all)"
proof (cases "LoadFromConfigContent read content all")
  case (Pair ok all')
  show ?thesis
  proof (cases ok)
    case True
    with Pair obtain root cfgs where *: "read content = Some (Some root)"
        "config_nodes (xml_children root) [] = Some cfgs" "all' = MergeConfigList cfgs all"
      by (auto simp: LoadFromConfigContent_def split: option.splits if_splits)
    moreover have "cfg_ok cfgs" using config_nodes_ok [OF *(2)] by simp
    ultimately show ?thesis
      using True Pair
      by (auto simp: cr_GetConfig_lookup merge_list_lookup split: option.splits)
  next
    case False
    with Pair show ?thesis
      by (auto simp: LoadFromConfigContent_def split: option.splits if_splits)
  qed
qed

text \<open>
  After a switch file is loaded, the list the plugins are loaded from has
  exactly one entry for each path, the one the last accepted node for that path gives, and
  entries of earlier files for the other paths.
\<close>

theorem switch_last_node_wins:
  assumes "om_ok m" "\<forall>p info. map_of m p = Some info \<longrightarrow> libPath info = p"
    and "read content = Some (Some root)"
    and "PluginSwitch_LoadFromConfigContent read content exe m = (True, m')"
  shows "distinct (map libPath (GetPluginSwitch m')) \<and>
    (info \<in> set (GetPluginSwitch m')) =
    (last_switch exe (libPath info) (xml_children root) (map_of m (libPath info)) = Some info)"
proof -
  have sw: "switch_nodes exe (xml_children root) m = (True, m')"
    using assms(3,4) by (auto simp: PluginSwitch_LoadFromConfigContent_def split: if_splits)
  have ok: "om_ok m'" using switch_nodes_ok [OF assms(1), of exe "xml_children root"] sw by simp
  have key: "\<forall>p i. map_of m' p = Some i \<longrightarrow> libPath i = p"
    using switch_nodes_key [OF assms(2), of exe "xml_children root"] by (simp add: sw)
  have "map libPath (GetPluginSwitch m') = map fst m'"
    using key ok by (auto simp: om_ok_map_of GetPluginSwitch_def)
  then have "distinct (map libPath (GetPluginSwitch m'))"
    using om_ok_distinct [OF ok] by simp
  moreover have "map_of m' (libPath info) =
      last_switch exe (libPath info) (xml_children root) (map_of m (libPath info))"
    using switch_nodes_lookup [of exe "xml_children root" m "libPath info"] sw by simp
  ultimately show ?thesis using GetPluginSwitch_iff [OF ok key, of info] by simp
qed

definition demo_switch_doc :: xml_node where
  "demo_switch_doc = XmlNode (Some ''pluginlist'') False [] None
     [XmlNode (Some ''plugin'') False [(Some ''libpath'', Some ''a.so''), (Some ''switch'', Some ''0'')] None [],
      XmlNode (Some ''comment'') True [] None [],
      XmlNode (Some ''plugin'') False [(Some ''libpath'', Some ''a.so''), (Some ''switch'', Some ''1'')] None []]"

theorem switch_last_node_wins_witness:
  "\<lparr>libPath = ''a.so'', switchOn = True\<rparr> \<in>
     set (GetPluginSwitch (snd (PluginSwitch_LoadFromConfigContent (\<lambda>_. Some (Some demo_switch_doc)) [] False [])))"
proof -
  have "PluginSwitch_LoadFromConfigContent (\<lambda>_. Some (Some demo_switch_doc)) [] False [] =
    (True, [(''a.so'', \<lparr>libPath = ''a.so'', switchOn = True\<rparr>)])"
    by (simp add: demo_switch_doc_def PluginSwitch_LoadFromConfigContent_def IsInvalidNode_def
        FillinPluginInfo_def xml_prop_def)
  from switch_last_node_wins [OF _ _ _ this, of demo_switch_doc "\<lparr>libPath = ''a.so'', switchOn = True\<rparr>"] this
  show ?thesis
    by (simp add: demo_switch_doc_def IsInvalidNode_def FillinPluginInfo_def xml_prop_def)
qed

end
