(* ===== verification/Json_Payload.thy ===== *)
theory Json_Payload
  imports Common_Util
begin

text \<open>
  The payload of an event, a \<open>nlohmann::json\<close> value, and the accessors the service reads
  it with: res_sched_json_util.cpp and the parsing helpers of cgroup_event_handler.cpp.
  A value that the code only stores when the lookup succeeded is an option.
\<close>

datatype json =
    JNull
  | JBool bool
  | JInt int
  | JUint nat
  | JFloat
  | JStr string
  | JArr "json list"
  | JObj "(string \<times> json) list"

text \<open>\<open>contains\<close> and \<open>find\<close>: only an object has members.\<close>

definition member :: "string \<Rightarrow> json \<Rightarrow> json option" where
  "member name j = (case j of JObj m \<Rightarrow> map_of m name | _ \<Rightarrow> None)"

text \<open>\<open>payload[name] = v\<close> on a copy of the payload; null becomes an object.\<close>

definition set_member :: "string \<Rightarrow> json \<Rightarrow> json \<Rightarrow> json" where
  "set_member name v j =
     (case j of JObj m \<Rightarrow> JObj (AList.update name v m) | JNull \<Rightarrow> JObj [(name, v)] | _ \<Rightarrow> j)"

text \<open>\<open>is_number_integer()\<close> with \<open>get<int32_t>()\<close>, true for unsigned numbers too.\<close>

definition json_int32 :: "json \<Rightarrow> i32 option" where
  "json_int32 j = (case j of JInt i \<Rightarrow> Some (wrap_s32 i) | JUint n \<Rightarrow> Some (wrap_s32 (int n)) | _ \<Rightarrow> None)"

section \<open>cgroup\_event\_handler.cpp\<close>

definition ParseString :: "string \<Rightarrow> json \<Rightarrow> string option" where
  "ParseString name payload =
     (case member name payload of Some (JStr s) \<Rightarrow> Some s | _ \<Rightarrow> None)"

definition ParseValue :: "string \<Rightarrow> json \<Rightarrow> i32 option" where
  "ParseValue name payload =
     (case member name payload of Some (JStr s) \<Rightarrow> Some (atoi s) | _ \<Rightarrow> None)"

definition ParseLongValue :: "string \<Rightarrow> json \<Rightarrow> i64 option" where
  "ParseLongValue name payload =
     (case member name payload of Some (JStr s) \<Rightarrow> Some (atoll s) | _ \<Rightarrow> None)"

definition ParsePayload :: "json \<Rightarrow> (i32 \<times> i32) option" where
  "ParsePayload payload =
     (case (ParseValue ''uid'' payload, ParseValue ''pid'' payload) of
        (Some uid, Some pid) \<Rightarrow> if uid \<le> 0 \<or> pid \<le> 0 then None else Some (uid, pid)
      | _ \<Rightarrow> None)"

definition cg_GetArrayFromJson :: "string \<Rightarrow> json \<Rightarrow> json list option" where
  "cg_GetArrayFromJson name j =
     (if j = JNull \<or> name = [] then None
      else (case member name j of Some (JArr l) \<Rightarrow> Some l | _ \<Rightarrow> None))"

fun unsigned_items :: "json list \<Rightarrow> u32 list" where
  "unsigned_items [] = []"
| "unsigned_items (JUint n # l) = of_nat n # unsigned_items l"
| "unsigned_items (_ # l) = unsigned_items l"

definition GetTypeIdsFromJson :: "string \<Rightarrow> json \<Rightarrow> u32 list" where
  "GetTypeIdsFromJson name payload =
     (case cg_GetArrayFromJson name payload of None \<Rightarrow> [] | Some l \<Rightarrow> unsigned_items l)"

section \<open>res\_sched\_json\_util.cpp\<close>

definition ParseIntParameterFromJson :: "string \<Rightarrow> json \<Rightarrow> i32 option" where
  "ParseIntParameterFromJson name j =
     (if j \<noteq> JNull \<and> name \<noteq> [] then
        (case member name j of
           Some (JStr s) \<Rightarrow> StrToInt32 s
         | Some v \<Rightarrow> json_int32 v
         | None \<Rightarrow> None)
      else None)"

definition ParseStringParameterFromJson :: "string \<Rightarrow> json \<Rightarrow> string option" where
  "ParseStringParameterFromJson name j =
     (if j \<noteq> JNull \<and> name \<noteq> [] then
        (case member name j of Some (JStr s) \<Rightarrow> Some s | _ \<Rightarrow> None)
      else None)"

definition ParseBoolParameterFromJson :: "string \<Rightarrow> json \<Rightarrow> bool option" where
  "ParseBoolParameterFromJson name j =
     (if j \<noteq> JNull \<and> name \<noteq> [] then
        (case member name j of Some (JBool b) \<Rightarrow> Some b | _ \<Rightarrow> None)
      else None)"

definition ParseStringJsonPayloadToNumber :: "string \<Rightarrow> json \<Rightarrow> i32 option" where
  "ParseStringJsonPayloadToNumber name j =
     (case member name j of Some (JStr s) \<Rightarrow> Some (atoi s) | _ \<Rightarrow> None)"

definition GetArrayFromJson :: "string \<Rightarrow> json \<Rightarrow> json option" where
  "GetArrayFromJson name j =
     (if j = JNull \<or> name = [] then None
      else (case member name j of Some (JArr l) \<Rightarrow> Some (JArr l) | _ \<Rightarrow> None))"

definition GetObjFromJson :: "string \<Rightarrow> json \<Rightarrow> json option" where
  "GetObjFromJson name j =
     (if j = JNull \<or> name = [] then None
      else (case member name j of Some (JObj m) \<Rightarrow> Some (JObj m) | _ \<Rightarrow> None))"

section \<open>Lemmas\<close>

lemma member_set_member:
  "(\<exists>m. j = JObj m) \<or> j = JNull \<Longrightarrow>
   member k (set_member name v j) = (if k = name then Some v else member k j)"
  by (auto simp: member_def set_member_def update_conv')

lemma ParseValue_Some_obj: "ParseValue name j = Some v \<Longrightarrow> \<exists>m. j = JObj m"
  by (auto simp: ParseValue_def member_def split: json.splits option.splits)

text \<open>A number written with \<open>std::to_string\<close> into a payload is read back by \<open>ParseValue\<close>.\<close>

lemma ParseValue_set_member:
  assumes "(\<exists>m. j = JObj m) \<or> j = JNull" "- 2147483648 \<le> x" "x \<le> 2147483647"
  shows "ParseValue k (set_member name (JStr (to_string x)) j) =
    (if k = name then Some x else ParseValue k j)"
  using assms by (simp add: ParseValue_def member_set_member atoi_to_string)

lemma ParseString_set_member:
  "(\<exists>m. j = JObj m) \<or> j = JNull \<Longrightarrow> k \<noteq> name \<Longrightarrow>
   ParseString k (set_member name v j) = ParseString k j"
  by (simp add: ParseString_def member_set_member)

lemma ParseValue_range: "ParseValue name j = Some v \<Longrightarrow> - 2147483648 \<le> v \<and> v \<le> 2147483647"
  using atoi_range by (auto simp: ParseValue_def split: option.splits json.splits)

lemma ParsePayload_Some:
  "ParsePayload payload = Some (uid, pid) \<longleftrightarrow>
   ParseValue ''uid'' payload = Some uid \<and> ParseValue ''pid'' payload = Some pid \<and> 0 < uid \<and> 0 < pid"
  by (auto simp: ParsePayload_def split: option.splits)

end
