(* ===== verification/Res_Type.thy ===== *)
theory Res_Type
  imports Prelude
begin

text \<open>
  The event types (\<open>ResType\<close>, res_type.h) and the states that travel as the value of an
  event (res_value.h), as far as the components compare with them.  Every enumerator is
  a definition of its own, collected in \<open>res_type_defs\<close>.
\<close>

named_theorems res_type_defs \<open>the numbers behind the event types and values\<close>

section \<open>Event types\<close>

definition RES_TYPE_FIRST :: u32 where [res_type_defs]: "RES_TYPE_FIRST = 0"
definition RES_TYPE_SCREEN_STATUS :: u32 where [res_type_defs]: "RES_TYPE_SCREEN_STATUS = RES_TYPE_FIRST"
definition RES_TYPE_APP_STATE_CHANGE :: u32 where [res_type_defs]: "RES_TYPE_APP_STATE_CHANGE = 1"
definition RES_TYPE_ABILITY_STATE_CHANGE :: u32 where [res_type_defs]: "RES_TYPE_ABILITY_STATE_CHANGE = 2"
definition RES_TYPE_EXTENSION_STATE_CHANGE :: u32 where [res_type_defs]: "RES_TYPE_EXTENSION_STATE_CHANGE = 3"
definition RES_TYPE_PROCESS_STATE_CHANGE :: u32 where [res_type_defs]: "RES_TYPE_PROCESS_STATE_CHANGE = 4"
definition RES_TYPE_WINDOW_FOCUS :: u32 where [res_type_defs]: "RES_TYPE_WINDOW_FOCUS = 5"
definition RES_TYPE_TRANSIENT_TASK :: u32 where [res_type_defs]: "RES_TYPE_TRANSIENT_TASK = 6"
definition RES_TYPE_CONTINUOUS_TASK :: u32 where [res_type_defs]: "RES_TYPE_CONTINUOUS_TASK = 7"
definition RES_TYPE_CGROUP_ADJUSTER :: u32 where [res_type_defs]: "RES_TYPE_CGROUP_ADJUSTER = 8"
definition RES_TYPE_CLICK_RECOGNIZE :: u32 where [res_type_defs]: "RES_TYPE_CLICK_RECOGNIZE = 9"
definition RES_TYPE_PUSH_PAGE :: u32 where [res_type_defs]: "RES_TYPE_PUSH_PAGE = 10"
definition RES_TYPE_SLIDE_RECOGNIZE :: u32 where [res_type_defs]: "RES_TYPE_SLIDE_RECOGNIZE = 11"
definition RES_TYPE_WINDOW_VISIBILITY_CHANGE :: u32 where [res_type_defs]: "RES_TYPE_WINDOW_VISIBILITY_CHANGE = 12"
definition RES_TYPE_REPORT_MMI_PROCESS :: u32 where [res_type_defs]: "RES_TYPE_REPORT_MMI_PROCESS = 13"
definition RES_TYPE_REPORT_RENDER_THREAD :: u32 where [res_type_defs]: "RES_TYPE_REPORT_RENDER_THREAD = 14"
definition RES_TYPE_APP_INSTALL_UNINSTALL :: u32 where [res_type_defs]: "RES_TYPE_APP_INSTALL_UNINSTALL = 15"
definition RES_TYPE_WIFI_CONNECT_STATE_CHANGE :: u32 where [res_type_defs]: "RES_TYPE_WIFI_CONNECT_STATE_CHANGE = 16"
definition RES_TYPE_USER_SWITCH :: u32 where [res_type_defs]: "RES_TYPE_USER_SWITCH = 17"
definition RES_TYPE_USER_REMOVE :: u32 where [res_type_defs]: "RES_TYPE_USER_REMOVE = 18"
definition RES_TYPE_SCREEN_LOCK :: u32 where [res_type_defs]: "RES_TYPE_SCREEN_LOCK = 19"
definition RES_TYPE_BLUETOOTH_A2DP_CONNECT_STATE_CHANGE :: u32 where [res_type_defs]: "RES_TYPE_BLUETOOTH_A2DP_CONNECT_STATE_CHANGE = 20"
definition RES_TYPE_NETWORK_LATENCY_REQUEST :: u32 where [res_type_defs]: "RES_TYPE_NETWORK_LATENCY_REQUEST = 21"
definition RES_TYPE_CALL_STATE_UPDATE :: u32 where [res_type_defs]: "RES_TYPE_CALL_STATE_UPDATE = 22"
definition RES_TYPE_THREAD_QOS_CHANGE :: u32 where [res_type_defs]: "RES_TYPE_THREAD_QOS_CHANGE = 23"
definition RES_TYPE_AUDIO_RENDER_STATE_CHANGE :: u32 where [res_type_defs]: "RES_TYPE_AUDIO_RENDER_STATE_CHANGE = 24"
definition RES_TYPE_AUDIO_RING_MODE_CHANGE :: u32 where [res_type_defs]: "RES_TYPE_AUDIO_RING_MODE_CHANGE = 25"
definition RES_TYPE_AUDIO_VOLUME_KEY_CHANGE :: u32 where [res_type_defs]: "RES_TYPE_AUDIO_VOLUME_KEY_CHANGE = 26"
definition RES_TYPE_APP_ABILITY_START :: u32 where [res_type_defs]: "RES_TYPE_APP_ABILITY_START = 27"
definition RES_TYPE_POP_PAGE :: u32 where [res_type_defs]: "RES_TYPE_POP_PAGE = 28"
definition RES_TYPE_WEB_GESTURE :: u32 where [res_type_defs]: "RES_TYPE_WEB_GESTURE = 29"
definition RES_TYPE_DEVICE_STILL_STATE_CHANGE :: u32 where [res_type_defs]: "RES_TYPE_DEVICE_STILL_STATE_CHANGE = 30"
definition RES_TYPE_RESIZE_WINDOW :: u32 where [res_type_defs]: "RES_TYPE_RESIZE_WINDOW = 31"
definition RES_TYPE_MOVE_WINDOW :: u32 where [res_type_defs]: "RES_TYPE_MOVE_WINDOW = 32"
definition RES_TYPE_SHOW_REMOTE_ANIMATION :: u32 where [res_type_defs]: "RES_TYPE_SHOW_REMOTE_ANIMATION = 33"
definition RES_TYPE_LOAD_PAGE :: u32 where [res_type_defs]: "RES_TYPE_LOAD_PAGE = 34"
definition RES_TYPE_REPORT_CAMERA_STATE :: u32 where [res_type_defs]: "RES_TYPE_REPORT_CAMERA_STATE = 35"
definition RES_TYPE_RUNNINGLOCK_STATE :: u32 where [res_type_defs]: "RES_TYPE_RUNNINGLOCK_STATE = 36"
definition RES_TYPE_DRAG_STATUS_BAR :: u32 where [res_type_defs]: "RES_TYPE_DRAG_STATUS_BAR = 37"
definition RES_TYPE_REPORT_SCENE_BOARD :: u32 where [res_type_defs]: "RES_TYPE_REPORT_SCENE_BOARD = 38"
definition RES_TYPE_REPORT_KEY_THREAD :: u32 where [res_type_defs]: "RES_TYPE_REPORT_KEY_THREAD = 39"
definition RES_TYPE_REPORT_WINDOW_STATE :: u32 where [res_type_defs]: "RES_TYPE_REPORT_WINDOW_STATE = 40"
definition RES_TYPE_REPORT_SCENE_SCHED :: u32 where [res_type_defs]: "RES_TYPE_REPORT_SCENE_SCHED = 41"
definition RES_TYPE_WEB_GESTURE_MOVE :: u32 where [res_type_defs]: "RES_TYPE_WEB_GESTURE_MOVE = 42"
definition RES_TYPE_WEB_SLIDE_NORMAL :: u32 where [res_type_defs]: "RES_TYPE_WEB_SLIDE_NORMAL = 43"
definition RES_TYPE_LOAD_URL :: u32 where [res_type_defs]: "RES_TYPE_LOAD_URL = 44"
definition RES_TYPE_MOUSEWHEEL :: u32 where [res_type_defs]: "RES_TYPE_MOUSEWHEEL = 45"
definition RES_TYPE_WEBVIEW_AUDIO_STATUS_CHANGE :: u32 where [res_type_defs]: "RES_TYPE_WEBVIEW_AUDIO_STATUS_CHANGE = 46"
definition RES_TYPE_MMI_INPUT_STATE :: u32 where [res_type_defs]: "RES_TYPE_MMI_INPUT_STATE = 47"
definition RES_TYPE_ANCO_CUST :: u32 where [res_type_defs]: "RES_TYPE_ANCO_CUST = 48"
definition RES_TYPE_START_UIEXTENSION_PROC :: u32 where [res_type_defs]: "RES_TYPE_START_UIEXTENSION_PROC = 49"
definition RES_TYPE_TIMEZONE_CHANGED :: u32 where [res_type_defs]: "RES_TYPE_TIMEZONE_CHANGED = 50"
definition RES_TYPE_CONNECTION_OBSERVER :: u32 where [res_type_defs]: "RES_TYPE_CONNECTION_OBSERVER = 51"
definition RES_TYPE_AV_SESSION_ON_SESSION_CREATE :: u32 where [res_type_defs]: "RES_TYPE_AV_SESSION_ON_SESSION_CREATE = 52"
definition RES_TYPE_AV_SESSION_ON_SESSION_RELEASE :: u32 where [res_type_defs]: "RES_TYPE_AV_SESSION_ON_SESSION_RELEASE = 53"
definition RES_TYPE_AV_SESSION_ON_TOP_SESSION_CHANGE :: u32 where [res_type_defs]: "RES_TYPE_AV_SESSION_ON_TOP_SESSION_CHANGE = 54"
definition RES_TYPE_ON_APP_STATE_CHANGED :: u32 where [res_type_defs]: "RES_TYPE_ON_APP_STATE_CHANGED = 55"
definition RES_TYPE_EFFICIENCY_RESOURCES_STATE_CHANGED :: u32 where [res_type_defs]: "RES_TYPE_EFFICIENCY_RESOURCES_STATE_CHANGED = 56"
definition RES_TYPE_AV_CODEC_STATE :: u32 where [res_type_defs]: "RES_TYPE_AV_CODEC_STATE = 57"
definition RES_TYPE_NITZ_TIME_CHANGED :: u32 where [res_type_defs]: "RES_TYPE_NITZ_TIME_CHANGED = 58"
definition RES_TYPE_TIME_CHANGED :: u32 where [res_type_defs]: "RES_TYPE_TIME_CHANGED = 59"
definition RES_TYPE_NITZ_TIMEZONE_CHANGED :: u32 where [res_type_defs]: "RES_TYPE_NITZ_TIMEZONE_CHANGED = 60"
definition RES_TYPE_CHARGING_DISCHARGING :: u32 where [res_type_defs]: "RES_TYPE_CHARGING_DISCHARGING = 61"
definition RES_TYPE_USB_DEVICE :: u32 where [res_type_defs]: "RES_TYPE_USB_DEVICE = 62"
definition RES_TYPE_CALL_STATE_CHANGED :: u32 where [res_type_defs]: "RES_TYPE_CALL_STATE_CHANGED = 63"
definition RES_TYPE_WIFI_P2P_STATE_CHANGED :: u32 where [res_type_defs]: "RES_TYPE_WIFI_P2P_STATE_CHANGED = 64"
definition RES_TYPE_APP_ASSOCIATED_START :: u32 where [res_type_defs]: "RES_TYPE_APP_ASSOCIATED_START = 65"
definition RES_TYPE_THERMAL_STATE :: u32 where [res_type_defs]: "RES_TYPE_THERMAL_STATE = 66"
definition RES_TYPE_SOCPERF_CUST_EVENT_BEGIN :: u32 where [res_type_defs]: "RES_TYPE_SOCPERF_CUST_EVENT_BEGIN = 67"
definition RES_TYPE_SOCPERF_CUST_EVENT_END :: u32 where [res_type_defs]: "RES_TYPE_SOCPERF_CUST_EVENT_END = 68"
definition RES_TYPE_WINDOW_DRAWING_CONTENT_CHANGE :: u32 where [res_type_defs]: "RES_TYPE_WINDOW_DRAWING_CONTENT_CHANGE = 69"
definition RES_TYPE_REPORT_SCREEN_CAPTURE :: u32 where [res_type_defs]: "RES_TYPE_REPORT_SCREEN_CAPTURE = 70"
definition RES_TYPE_LONG_FRAME :: u32 where [res_type_defs]: "RES_TYPE_LONG_FRAME = 71"
definition RES_TYPE_KEY_PERF_SCENE :: u32 where [res_type_defs]: "RES_TYPE_KEY_PERF_SCENE = 72"
definition RES_TYPE_SUPER_LAUNCHER :: u32 where [res_type_defs]: "RES_TYPE_SUPER_LAUNCHER = 73"
definition RES_TYPE_CAST_SCREEN :: u32 where [res_type_defs]: "RES_TYPE_CAST_SCREEN = 74"
definition RES_TYPR_SCREEN_COLLABROATION :: u32 where [res_type_defs]: "RES_TYPR_SCREEN_COLLABROATION = 75"
definition RES_TYPE_SA_CONTROL_APP_EVENT :: u32 where [res_type_defs]: "RES_TYPE_SA_CONTROL_APP_EVENT = 76"
definition RES_TYPE_SYSTEM_CPU_LOAD :: u32 where [res_type_defs]: "RES_TYPE_SYSTEM_CPU_LOAD = 77"
definition RES_TYPE_UPLOAD_DOWNLOAD :: u32 where [res_type_defs]: "RES_TYPE_UPLOAD_DOWNLOAD = 78"
definition RES_TYPE_SPLIT_SCREEN :: u32 where [res_type_defs]: "RES_TYPE_SPLIT_SCREEN = 79"
definition RES_TYPE_FLOATING_WINDOW :: u32 where [res_type_defs]: "RES_TYPE_FLOATING_WINDOW = 80"
definition RES_TYPE_REPORT_DISTRIBUTE_TID :: u32 where [res_type_defs]: "RES_TYPE_REPORT_DISTRIBUTE_TID = 81"
definition RES_TYPE_FRAME_RATE_REPORT :: u32 where [res_type_defs]: "RES_TYPE_FRAME_RATE_REPORT = 82"
definition RES_TYPE_WEBVIEW_SCREEN_CAPTURE :: u32 where [res_type_defs]: "RES_TYPE_WEBVIEW_SCREEN_CAPTURE = 83"
definition RES_TYPE_WEBVIEW_VIDEO_STATUS_CHANGE :: u32 where [res_type_defs]: "RES_TYPE_WEBVIEW_VIDEO_STATUS_CHANGE = 84"
definition RES_TYPE_LOCATION_STATUS_CHANGE :: u32 where [res_type_defs]: "RES_TYPE_LOCATION_STATUS_CHANGE = 85"
definition RES_TYPE_FORM_RENDER_EVENT :: u32 where [res_type_defs]: "RES_TYPE_FORM_RENDER_EVENT = 86"
definition RES_TYPE_DEVICE_MODE_STATUS :: u32 where [res_type_defs]: "RES_TYPE_DEVICE_MODE_STATUS = 88"
definition RES_TYPE_REPORT_DISTRIBUTE_COMPONENT_CHANGE :: u32 where [res_type_defs]: "RES_TYPE_REPORT_DISTRIBUTE_COMPONENT_CHANGE = 89"
definition RES_TYPE_WEB_DRAG_RESIZE :: u32 where [res_type_defs]: "RES_TYPE_WEB_DRAG_RESIZE = 90"
definition RES_TYPE_FORM_STATE_CHANGE_EVENT :: u32 where [res_type_defs]: "RES_TYPE_FORM_STATE_CHANGE_EVENT = 91"
definition RES_TYPE_POWER_MODE_CHANGED :: u32 where [res_type_defs]: "RES_TYPE_POWER_MODE_CHANGED = 92"
definition RES_TYPE_THERMAL_SCENARIO_REPORT :: u32 where [res_type_defs]: "RES_TYPE_THERMAL_SCENARIO_REPORT = 93"
definition RES_TYPE_BOOT_COMPLETED :: u32 where [res_type_defs]: "RES_TYPE_BOOT_COMPLETED = 94"
definition RES_TYPE_CONTINUOUS_STARTUP :: u32 where [res_type_defs]: "RES_TYPE_CONTINUOUS_STARTUP = 95"
definition RES_TYPE_ACCOUNT_ACTIVATING :: u32 where [res_type_defs]: "RES_TYPE_ACCOUNT_ACTIVATING = 96"
definition RES_TYPE_AUDIO_RENDERER_SILENT_PLAYBACK :: u32 where [res_type_defs]: "RES_TYPE_AUDIO_RENDERER_SILENT_PLAYBACK = 97"
definition RES_TYPE_CONTINUOUS_INSTALL :: u32 where [res_type_defs]: "RES_TYPE_CONTINUOUS_INSTALL = 98"
definition RES_TYPE_FIRST_BOOT_AFTER_SYSTEM_UPGRADE :: u32 where [res_type_defs]: "RES_TYPE_FIRST_BOOT_AFTER_SYSTEM_UPGRADE = 99"
definition RES_TYPE_BACKGROUND_PERCEIVABLE_SCENE :: u32 where [res_type_defs]: "RES_TYPE_BACKGROUND_PERCEIVABLE_SCENE = 100"
definition RES_TYPE_USER_INTERACTION_SCENE :: u32 where [res_type_defs]: "RES_TYPE_USER_INTERACTION_SCENE = 101"
definition RES_TYPE_REPORT_GAME_SCHED :: u32 where [res_type_defs]: "RES_TYPE_REPORT_GAME_SCHED = 102"
definition RES_TYPE_SEND_FRAME_EVENT :: u32 where [res_type_defs]: "RES_TYPE_SEND_FRAME_EVENT = 103"
definition RES_TYPE_ONLY_PERF_APP_COLD_START :: u32 where [res_type_defs]: "RES_TYPE_ONLY_PERF_APP_COLD_START = 104"
definition RES_TYPE_SCENE_ROTATION :: u32 where [res_type_defs]: "RES_TYPE_SCENE_ROTATION = 105"
definition RES_TYPE_CLOUD_CONFIG_UPDATE :: u32 where [res_type_defs]: "RES_TYPE_CLOUD_CONFIG_UPDATE = 107"
definition RES_TYPE_SYSTEM_ABILITY_STATUS_CHANGE :: u32 where [res_type_defs]: "RES_TYPE_SYSTEM_ABILITY_STATUS_CHANGE = 108"
definition RES_TYPE_MMI_STATUS_CHANGE :: u32 where [res_type_defs]: "RES_TYPE_MMI_STATUS_CHANGE = 109"
definition RES_TYPE_OUTPUT_DEVICE_CHANGE :: u32 where [res_type_defs]: "RES_TYPE_OUTPUT_DEVICE_CHANGE = 110"
definition RES_TYPE_DEVICE_IDLE :: u32 where [res_type_defs]: "RES_TYPE_DEVICE_IDLE = 111"
definition RES_TYPE_BT_SERVICE_EVENT :: u32 where [res_type_defs]: "RES_TYPE_BT_SERVICE_EVENT = 112"
definition RES_TYPE_BMM_MONITER_CHANGE_EVENT :: u32 where [res_type_defs]: "RES_TYPE_BMM_MONITER_CHANGE_EVENT = 113"
definition RES_TYPE_APP_FRAME_DROP :: u32 where [res_type_defs]: "RES_TYPE_APP_FRAME_DROP = 114"
definition RES_TYPE_RSS_CLOUD_CONFIG_UPDATE :: u32 where [res_type_defs]: "RES_TYPE_RSS_CLOUD_CONFIG_UPDATE = 115"
definition RES_TYPE_GAME_INFO_NOTIFY :: u32 where [res_type_defs]: "RES_TYPE_GAME_INFO_NOTIFY = 116"
definition RES_TYPE_MMI_INPUT_POWER_KEY :: u32 where [res_type_defs]: "RES_TYPE_MMI_INPUT_POWER_KEY = 117"
definition RES_TYPE_APP_STOPPED :: u32 where [res_type_defs]: "RES_TYPE_APP_STOPPED = 118"
definition RES_TYPE_AUDIO_RENDERER_STANDBY :: u32 where [res_type_defs]: "RES_TYPE_AUDIO_RENDERER_STANDBY = 119"
definition RES_TYPE_APP_GAME_BOOST_EVENT :: u32 where [res_type_defs]: "RES_TYPE_APP_GAME_BOOST_EVENT = 120"
definition RES_TYPE_GESTURE_ANIMATION :: u32 where [res_type_defs]: "RES_TYPE_GESTURE_ANIMATION = 121"
definition RES_TYPE_KEY_EVENT :: u32 where [res_type_defs]: "RES_TYPE_KEY_EVENT = 122"
definition RES_TYPE_AXIS_EVENT :: u32 where [res_type_defs]: "RES_TYPE_AXIS_EVENT = 123"
definition RES_TYPE_GET_GAME_SCENE_INFO :: u32 where [res_type_defs]: "RES_TYPE_GET_GAME_SCENE_INFO = 124"
definition RES_TYPE_DISPLAY_MULTI_SCREEN :: u32 where [res_type_defs]: "RES_TYPE_DISPLAY_MULTI_SCREEN = 125"
definition RES_TYPE_INTENT_CTRL_APP :: u32 where [res_type_defs]: "RES_TYPE_INTENT_CTRL_APP = 126"
definition RES_TYPE_WEB_SLIDE_SCROLL :: u32 where [res_type_defs]: "RES_TYPE_WEB_SLIDE_SCROLL = 127"
definition RES_TYPE_CROWN_ROTATION_STATUS :: u32 where [res_type_defs]: "RES_TYPE_CROWN_ROTATION_STATUS = 129"
definition RES_TYPE_RED_ENVELOPE :: u32 where [res_type_defs]: "RES_TYPE_RED_ENVELOPE = 130"
definition RES_TYPE_DATE_SHARE :: u32 where [res_type_defs]: "RES_TYPE_DATE_SHARE = 131"
definition RES_TYPE_HICAR :: u32 where [res_type_defs]: "RES_TYPE_HICAR = 132"
definition RES_TYPE_RECV_ABC_LOAD_COMPLETED :: u32 where [res_type_defs]: "RES_TYPE_RECV_ABC_LOAD_COMPLETED = 133"
definition RES_TYPE_SET_BACKGROUND_PROCESS_PRIORITY :: u32 where [res_type_defs]: "RES_TYPE_SET_BACKGROUND_PROCESS_PRIORITY = 134"
definition RES_TRPE_PIP_STATUS :: u32 where [res_type_defs]: "RES_TRPE_PIP_STATUS = 135"
definition RES_TYPE_FRAME_RATE_REPORT_FROM_RS :: u32 where [res_type_defs]: "RES_TYPE_FRAME_RATE_REPORT_FROM_RS = 136"
definition RES_TYPE_SHORT_TERM_LOAD :: u32 where [res_type_defs]: "RES_TYPE_SHORT_TERM_LOAD = 137"
definition RES_TYPE_FILE_COPY_STATUS :: u32 where [res_type_defs]: "RES_TYPE_FILE_COPY_STATUS = 139"
definition RES_TYPE_PAGE_TRANSITION :: u32 where [res_type_defs]: "RES_TYPE_PAGE_TRANSITION = 140"
definition RES_TYPE_AUDIO_SCENE_CHANGE :: u32 where [res_type_defs]: "RES_TYPE_AUDIO_SCENE_CHANGE = 141"
definition RES_TYPE_VOICE_RECOGNIZE_WAKE :: u32 where [res_type_defs]: "RES_TYPE_VOICE_RECOGNIZE_WAKE = 142"
definition RES_TYPE_MODEM_PA_HIGH_POWER_ABNORMAL :: u32 where [res_type_defs]: "RES_TYPE_MODEM_PA_HIGH_POWER_ABNORMAL = 143"
definition RES_TYPE_PARAM_UPDATE_EVENT :: u32 where [res_type_defs]: "RES_TYPE_PARAM_UPDATE_EVENT = 144"
definition RES_TYPE_CAMERA_PRELAUNCH :: u32 where [res_type_defs]: "RES_TYPE_CAMERA_PRELAUNCH = 145"
definition RES_TYPE_HIGH_FREQUENCE_LOAD_SCENE_WITHOUT_AGGREGATION :: u32 where [res_type_defs]: "RES_TYPE_HIGH_FREQUENCE_LOAD_SCENE_WITHOUT_AGGREGATION = 146"
definition RES_TYPE_CAMERA_STATUS_CHANGE :: u32 where [res_type_defs]: "RES_TYPE_CAMERA_STATUS_CHANGE = 147"
definition RES_TYPE_REPORT_GAME_STATE_CHANGE :: u32 where [res_type_defs]: "RES_TYPE_REPORT_GAME_STATE_CHANGE = 148"
definition RES_TYPE_SOCPERF_CUST_ACTION :: u32 where [res_type_defs]: "RES_TYPE_SOCPERF_CUST_ACTION = 149"
definition RES_TYPE_RECENT_BUILD :: u32 where [res_type_defs]: "RES_TYPE_RECENT_BUILD = 150"
definition RES_TYPE_OVERLAY_EVENT :: u32 where [res_type_defs]: "RES_TYPE_OVERLAY_EVENT = 151"
definition RES_TYPE_DEVICE_ORIENTATION_STATUS :: u32 where [res_type_defs]: "RES_TYPE_DEVICE_ORIENTATION_STATUS = 152"
definition RES_TYPE_WIFI_POWER_STATE_CHANGE :: u32 where [res_type_defs]: "RES_TYPE_WIFI_POWER_STATE_CHANGE = 153"
definition RES_TYPE_INNER_AUDIO_STATE :: u32 where [res_type_defs]: "RES_TYPE_INNER_AUDIO_STATE = 154"
definition RES_TYPE_REPORT_BATTERY_STATUS_CHANGE :: u32 where [res_type_defs]: "RES_TYPE_REPORT_BATTERY_STATUS_CHANGE = 155"
definition RES_TYPE_ABILITY_OR_PAGE_SWITCH :: u32 where [res_type_defs]: "RES_TYPE_ABILITY_OR_PAGE_SWITCH = 156"
definition RES_TRPE_GAME_SUSPEND_MODE :: u32 where [res_type_defs]: "RES_TRPE_GAME_SUSPEND_MODE = 157"
definition RES_TYPE_APP_OPT_FROM_RECENT :: u32 where [res_type_defs]: "RES_TYPE_APP_OPT_FROM_RECENT = 158"
definition RES_TYPE_SWIPE_DIRECTION_UP :: u32 where [res_type_defs]: "RES_TYPE_SWIPE_DIRECTION_UP = 159"
definition RES_TYPE_WINDOW_PANEL :: u32 where [res_type_defs]: "RES_TYPE_WINDOW_PANEL = 160"
definition RES_TYPE_REPORT_BOKER_GATT_CONNECT :: u32 where [res_type_defs]: "RES_TYPE_REPORT_BOKER_GATT_CONNECT = 161"
definition RES_TYPE_WINDOW_SPLIT_SCREEN :: u32 where [res_type_defs]: "RES_TYPE_WINDOW_SPLIT_SCREEN = 162"
definition RES_TYPE_SCHED_MODE_CHANGE :: u32 where [res_type_defs]: "RES_TYPE_SCHED_MODE_CHANGE = 163"
definition RES_TYPE_SUPPLY_LEVEL :: u32 where [res_type_defs]: "RES_TYPE_SUPPLY_LEVEL = 164"
definition RES_TYPE_CAMERA_RESET_PRIORITY :: u32 where [res_type_defs]: "RES_TYPE_CAMERA_RESET_PRIORITY = 165"
definition RES_TYPE_DEVICE_IDLE_CHANGED :: u32 where [res_type_defs]: "RES_TYPE_DEVICE_IDLE_CHANGED = 167"
definition RES_TYPE_USER_SLEEP_STATE_CHANGED :: u32 where [res_type_defs]: "RES_TYPE_USER_SLEEP_STATE_CHANGED = 168"
definition RES_TYPE_USER_NOT_CARE_CHARGE_SLEEP :: u32 where [res_type_defs]: "RES_TYPE_USER_NOT_CARE_CHARGE_SLEEP = 169"
definition RES_TYPE_APP_HIGH_POWER_CONSUMPTION :: u32 where [res_type_defs]: "RES_TYPE_APP_HIGH_POWER_CONSUMPTION = 170"
definition RES_TYPE_ADJUST_PROTECTLRU_RECLAIM_RATIO :: u32 where [res_type_defs]: "RES_TYPE_ADJUST_PROTECTLRU_RECLAIM_RATIO = 171"
definition RES_TYPE_STANDBY_FREEZE_FAILED :: u32 where [res_type_defs]: "RES_TYPE_STANDBY_FREEZE_FAILED = 172"
definition RES_TYPE_PROCESS_PRE_FOREGROUND_CHANGE :: u32 where [res_type_defs]: "RES_TYPE_PROCESS_PRE_FOREGROUND_CHANGE = 173"
definition RES_TYPE_TDP_TURBO :: u32 where [res_type_defs]: "RES_TYPE_TDP_TURBO = 174"
definition RES_TYPE_BACKGROUND_STATUS :: u32 where [res_type_defs]: "RES_TYPE_BACKGROUND_STATUS = 175"
definition RES_TYPE_CAMERA_STATUS_CHANGED :: u32 where [res_type_defs]: "RES_TYPE_CAMERA_STATUS_CHANGED = 176"
definition RES_TYPE_MEM_OFF_PEAK :: u32 where [res_type_defs]: "RES_TYPE_MEM_OFF_PEAK = 177"
definition RES_TYPE_NAP_MODE :: u32 where [res_type_defs]: "RES_TYPE_NAP_MODE = 178"
definition RES_TYPE_AUDIO_CAPTURE_STATUS_CHANGED :: u32 where [res_type_defs]: "RES_TYPE_AUDIO_CAPTURE_STATUS_CHANGED = 179"
definition RES_TYPE_CODEC_ENCODE_STATUS_CHANGED :: u32 where [res_type_defs]: "RES_TYPE_CODEC_ENCODE_STATUS_CHANGED = 180"
definition RES_TYPE_CAMERA_LENS_STATUS_CHANGED :: u32 where [res_type_defs]: "RES_TYPE_CAMERA_LENS_STATUS_CHANGED = 181"
definition RES_TYPE_SA_PULL_APP_IDENTIFIER :: u32 where [res_type_defs]: "RES_TYPE_SA_PULL_APP_IDENTIFIER = 182"
definition RES_TYPE_SWIPER_FLING_END_EXCEPTION_FLAG :: u32 where [res_type_defs]: "RES_TYPE_SWIPER_FLING_END_EXCEPTION_FLAG = 183"
definition RES_TYPE_BACKPRESSED_EVENT :: u32 where [res_type_defs]: "RES_TYPE_BACKPRESSED_EVENT = 184"
definition RES_TYPE_GC_EVENT :: u32 where [res_type_defs]: "RES_TYPE_GC_EVENT = 185"
definition RES_TYPE_START_INPUT_METHOD_PROCESS :: u32 where [res_type_defs]: "RES_TYPE_START_INPUT_METHOD_PROCESS = 186"
definition RES_TYPE_PAGE_CHANGE :: u32 where [res_type_defs]: "RES_TYPE_PAGE_CHANGE = 187"
definition RES_TYPE_MEDIA_CTRL_EVENT :: u32 where [res_type_defs]: "RES_TYPE_MEDIA_CTRL_EVENT = 189"
definition RES_TYPE_IME_QOS_CHANGE :: u32 where [res_type_defs]: "RES_TYPE_IME_QOS_CHANGE = 190"
definition RES_TYPE_LIVE_VIEW_EVENT :: u32 where [res_type_defs]: "RES_TYPE_LIVE_VIEW_EVENT = 191"
definition RES_TYPE_HIGH_FREQUENCE_LOAD_SCENE_WITH_AGGREGATION :: u32 where [res_type_defs]: "RES_TYPE_HIGH_FREQUENCE_LOAD_SCENE_WITH_AGGREGATION = 192"
definition RES_TYPE_AUDIO_FOCUS_CHANGE_EVENT :: u32 where [res_type_defs]: "RES_TYPE_AUDIO_FOCUS_CHANGE_EVENT = 193"
definition RES_TYPE_OBSERVER_MANAGER_STATUS_CHANGE :: u32 where [res_type_defs]: "RES_TYPE_OBSERVER_MANAGER_STATUS_CHANGE = 194"
definition RES_TYPE_WEB_SUBWIN_TASK :: u32 where [res_type_defs]: "RES_TYPE_WEB_SUBWIN_TASK = 195"
definition RES_TYPE_DATA_CLONE_STATE :: u32 where [res_type_defs]: "RES_TYPE_DATA_CLONE_STATE = 196"
definition RES_TYPE_OOBE_CLONE :: u32 where [res_type_defs]: "RES_TYPE_OOBE_CLONE = 197"
definition RES_TYPE_CREATE_LIVING_APP_PROCESS :: u32 where [res_type_defs]: "RES_TYPE_CREATE_LIVING_APP_PROCESS = 198"
definition RES_TYPE_IMAGE_PROCESS_STATE_CHANGED :: u32 where [res_type_defs]: "RES_TYPE_IMAGE_PROCESS_STATE_CHANGED = 199"
definition RES_TYPE_SNAPSHOT_FAILURE :: u32 where [res_type_defs]: "RES_TYPE_SNAPSHOT_FAILURE = 200"
definition RES_TYPE_INPUT_METHOD_CHANGE :: u32 where [res_type_defs]: "RES_TYPE_INPUT_METHOD_CHANGE = 201"
definition RES_TYPE_NEARLINK_SERVICE_EVENT :: u32 where [res_type_defs]: "RES_TYPE_NEARLINK_SERVICE_EVENT = 203"
definition RES_TYPE_USER_UNLOCKED :: u32 where [res_type_defs]: "RES_TYPE_USER_UNLOCKED = 205"
definition RES_TYPE_TOPN_USAGE_INFO :: u32 where [res_type_defs]: "RES_TYPE_TOPN_USAGE_INFO = 206"
definition RES_TYPE_AVCODE_HARDWARE_RESOURCES :: u32 where [res_type_defs]: "RES_TYPE_AVCODE_HARDWARE_RESOURCES = 207"
definition RES_TYPE_FLOATING_WINDOW_V1 :: u32 where [res_type_defs]: "RES_TYPE_FLOATING_WINDOW_V1 = 208"
definition RES_TYPE_FLOATING_WINDOW_V2 :: u32 where [res_type_defs]: "RES_TYPE_FLOATING_WINDOW_V2 = 209"
definition RES_TYPE_FLOATING_BALL :: u32 where [res_type_defs]: "RES_TYPE_FLOATING_BALL = 210"
definition RES_TYPE_FIRST_FRAME_DRAWN :: u32 where [res_type_defs]: "RES_TYPE_FIRST_FRAME_DRAWN = 211"
definition RES_TYPE_COMPONENT_STATE_CHANGE :: u32 where [res_type_defs]: "RES_TYPE_COMPONENT_STATE_CHANGE = 212"
definition RES_TYPE_SOCPERF_PERFORMANCE_MODE_CHANGED :: u32 where [res_type_defs]: "RES_TYPE_SOCPERF_PERFORMANCE_MODE_CHANGED = 213"
definition RES_TYPE_LOAD_KILL_REASON_CONFIG :: u32 where [res_type_defs]: "RES_TYPE_LOAD_KILL_REASON_CONFIG = 214"
definition RES_TYPE_BATTERY_LOW :: u32 where [res_type_defs]: "RES_TYPE_BATTERY_LOW = 215"
definition RES_TYPE_FLOAT_START_FROM_SIDEBAR :: u32 where [res_type_defs]: "RES_TYPE_FLOAT_START_FROM_SIDEBAR = 216"
definition RES_TYPE_DISTRIBUTED_CONTINUATION_EVENT :: u32 where [res_type_defs]: "RES_TYPE_DISTRIBUTED_CONTINUATION_EVENT = 217"
definition RES_TYPE_BACKGROUND_LOADER_CHANGE_EVENT :: u32 where [res_type_defs]: "RES_TYPE_BACKGROUND_LOADER_CHANGE_EVENT = 218"
definition RES_TYPE_START_BACKGROUND_LOADER_TASK :: u32 where [res_type_defs]: "RES_TYPE_START_BACKGROUND_LOADER_TASK = 219"
definition RES_TYPE_BACKGROUND_LOADER_TASK_FINISH :: u32 where [res_type_defs]: "RES_TYPE_BACKGROUND_LOADER_TASK_FINISH = 220"
definition RES_TYPE_PROCESS_QOS_CHANGE :: u32 where [res_type_defs]: "RES_TYPE_PROCESS_QOS_CHANGE = 221"
definition RES_TYPE_BGTASK_INNER_EVENT :: u32 where [res_type_defs]: "RES_TYPE_BGTASK_INNER_EVENT = 222"
definition RES_TYPE_BGTASK_ADJUST_EVENT :: u32 where [res_type_defs]: "RES_TYPE_BGTASK_ADJUST_EVENT = 223"
definition RES_TYPE_REPORT_NFC_SIGNAL :: u32 where [res_type_defs]: "RES_TYPE_REPORT_NFC_SIGNAL = 224"
definition RES_TYPE_DIALOG_SHOW_EVENT :: u32 where [res_type_defs]: "RES_TYPE_DIALOG_SHOW_EVENT = 225"
definition RES_TYPE_LV_INTO_INIM :: u32 where [res_type_defs]: "RES_TYPE_LV_INTO_INIM = 226"
definition RES_TYPE_CAMERA_TORCH_STATE_CHANGE :: u32 where [res_type_defs]: "RES_TYPE_CAMERA_TORCH_STATE_CHANGE = 227"
definition RES_TYPE_DELAY_TASK_PERF :: u32 where [res_type_defs]: "RES_TYPE_DELAY_TASK_PERF = 228"
definition ASYNC_RES_TYPE_LAST :: u32 where [res_type_defs]: "ASYNC_RES_TYPE_LAST = 229"
definition SYNC_RES_TYPE_FIRST :: u32 where [res_type_defs]: "SYNC_RES_TYPE_FIRST = ASYNC_RES_TYPE_LAST"
definition SYNC_RES_TYPE_REQUEST_MUTEX_STATUS :: u32 where [res_type_defs]: "SYNC_RES_TYPE_REQUEST_MUTEX_STATUS = 500"
definition SYNC_RES_TYPE_CHECK_MUTEX_BEFORE_START :: u32 where [res_type_defs]: "SYNC_RES_TYPE_CHECK_MUTEX_BEFORE_START = 501"
definition RES_TYPE_COSMIC_CUBE_STATE_CHANGE :: u32 where [res_type_defs]: "RES_TYPE_COSMIC_CUBE_STATE_CHANGE = 502"
definition RES_TYPE_RAISE_WORKER_THREAD_PRIORITY :: u32 where [res_type_defs]: "RES_TYPE_RAISE_WORKER_THREAD_PRIORITY = 503"
definition RES_TYPE_CHECK_APP_IS_IN_SCHEDULE_LIST :: u32 where [res_type_defs]: "RES_TYPE_CHECK_APP_IS_IN_SCHEDULE_LIST = 504"
definition RES_TYPE_DYNAMICALLY_SET_SUSPEND_EXEMPT :: u32 where [res_type_defs]: "RES_TYPE_DYNAMICALLY_SET_SUSPEND_EXEMPT = 505"
definition SYNC_RES_TYPE_GET_SUSPEND_STATE_BY_UID :: u32 where [res_type_defs]: "SYNC_RES_TYPE_GET_SUSPEND_STATE_BY_UID = 506"
definition SYNC_RES_TYPE_GET_SUSPEND_STATE_BY_PID :: u32 where [res_type_defs]: "SYNC_RES_TYPE_GET_SUSPEND_STATE_BY_PID = 507"
definition SYNC_RES_TYPE_QUERY_TOPN_BUNDLE_USAGE_INFO :: u32 where [res_type_defs]: "SYNC_RES_TYPE_QUERY_TOPN_BUNDLE_USAGE_INFO = 508"
definition RES_TYPE_DISPLAY_POWER_WAKE_UP :: u32 where [res_type_defs]: "RES_TYPE_DISPLAY_POWER_WAKE_UP = 509"
definition SYNC_RES_TYPE_GET_SMART_GC_SCENE_INFO :: u32 where [res_type_defs]: "SYNC_RES_TYPE_GET_SMART_GC_SCENE_INFO = 510"
definition SYNC_RES_TYPE_APP_IS_IN_TAIHANG_LIST :: u32 where [res_type_defs]: "SYNC_RES_TYPE_APP_IS_IN_TAIHANG_LIST = 511"
definition RES_TYPE_CTRL_FORKALL_IMAGE_INTERFACE :: u32 where [res_type_defs]: "RES_TYPE_CTRL_FORKALL_IMAGE_INTERFACE = 512"
definition SYNC_RES_TYPE_GET_IS_TEMPLATE_PROCESS :: u32 where [res_type_defs]: "SYNC_RES_TYPE_GET_IS_TEMPLATE_PROCESS = 513"
definition SYNC_RES_TYPE_FORKALL_CONFIG_CHANGE :: u32 where [res_type_defs]: "SYNC_RES_TYPE_FORKALL_CONFIG_CHANGE = 514"
definition SYNC_RES_TYPE_GET_UI_NODE_GC_CONFIG :: u32 where [res_type_defs]: "SYNC_RES_TYPE_GET_UI_NODE_GC_CONFIG = 515"
definition SYNC_RES_TYPE_NOTIFY_MAKE_IMAGE :: u32 where [res_type_defs]: "SYNC_RES_TYPE_NOTIFY_MAKE_IMAGE = 516"
definition SYNC_RES_TYPE_THAW_ONE_APP :: u32 where [res_type_defs]: "SYNC_RES_TYPE_THAW_ONE_APP = 517"
definition SYNC_RES_TYPE_GET_ALL_SUSPEND_STATE :: u32 where [res_type_defs]: "SYNC_RES_TYPE_GET_ALL_SUSPEND_STATE = 518"
definition SYNC_RES_TYPE_GET_THERMAL_DATA :: u32 where [res_type_defs]: "SYNC_RES_TYPE_GET_THERMAL_DATA = 519"
definition SYNC_RES_TYPE_SHOULD_FORCE_KILL_PROCESS :: u32 where [res_type_defs]: "SYNC_RES_TYPE_SHOULD_FORCE_KILL_PROCESS = 520"
definition SYNC_RES_TYPE_GET_NWEB_PRELOAD_SET :: u32 where [res_type_defs]: "SYNC_RES_TYPE_GET_NWEB_PRELOAD_SET = 521"
definition RES_TYPE_PRELOAD_APPLICATION :: u32 where [res_type_defs]: "RES_TYPE_PRELOAD_APPLICATION = 522"
definition SYNC_RES_TYPE_GET_APP_TYPE :: u32 where [res_type_defs]: "SYNC_RES_TYPE_GET_APP_TYPE = 523"
definition SYNC_RES_TYPE_DFX_CTRL_IMAGE_INTERFACE :: u32 where [res_type_defs]: "SYNC_RES_TYPE_DFX_CTRL_IMAGE_INTERFACE = 524"
definition SYNC_RES_TYPE_LAST :: u32 where [res_type_defs]: "SYNC_RES_TYPE_LAST = 525"
definition RES_TYPE_LAST :: u32 where [res_type_defs]: "RES_TYPE_LAST = SYNC_RES_TYPE_LAST"

section \<open>Event values\<close>

text \<open>\<open>ProcessStatus\<close>\<close>

definition PROCESS_CREATED :: i64 where [res_type_defs]: "PROCESS_CREATED = 0"
definition PROCESS_READY :: i64 where [res_type_defs]: "PROCESS_READY = 1"
definition PROCESS_FOREGROUND :: i64 where [res_type_defs]: "PROCESS_FOREGROUND = 2"
definition PROCESS_FOCOUS :: i64 where [res_type_defs]: "PROCESS_FOCOUS = 3"
definition PROCESS_BACKGROUND :: i64 where [res_type_defs]: "PROCESS_BACKGROUND = 4"
definition PROCESS_DIED :: i64 where [res_type_defs]: "PROCESS_DIED = 5"

text \<open>\<open>TransientTaskStatus\<close>\<close>

definition TRANSIENT_TASK_START :: i64 where [res_type_defs]: "TRANSIENT_TASK_START = 0"
definition TRANSIENT_TASK_END :: i64 where [res_type_defs]: "TRANSIENT_TASK_END = 1"
definition TRANSIENT_TASK_ERR :: i64 where [res_type_defs]: "TRANSIENT_TASK_ERR = 2"
definition APP_TRANSIENT_TASK_START :: i64 where [res_type_defs]: "APP_TRANSIENT_TASK_START = 3"
definition APP_TRANSIENT_TASK_END :: i64 where [res_type_defs]: "APP_TRANSIENT_TASK_END = 4"

text \<open>\<open>ContinuousTaskStatus\<close>\<close>

definition CONTINUOUS_TASK_START :: i64 where [res_type_defs]: "CONTINUOUS_TASK_START = 0"
definition CONTINUOUS_TASK_END :: i64 where [res_type_defs]: "CONTINUOUS_TASK_END = 1"
definition CONTINUOUS_TASK_UPDATE :: i64 where [res_type_defs]: "CONTINUOUS_TASK_UPDATE = 2"

text \<open>\<open>WindowFocusStatus\<close>\<close>

definition WINDOW_FOCUS :: i64 where [res_type_defs]: "WINDOW_FOCUS = 0"
definition WINDOW_UNFOCUS :: i64 where [res_type_defs]: "WINDOW_UNFOCUS = 1"

text \<open>\<open>WindowVisibilityStatus\<close>\<close>

definition INVISIBLE :: i64 where [res_type_defs]: "INVISIBLE = 0"
definition VISIBLE :: i64 where [res_type_defs]: "VISIBLE = 1"

text \<open>\<open>WindowDrawingStatus\<close>\<close>

definition NotDrawing :: i64 where [res_type_defs]: "NotDrawing = 0"
definition Drawing :: i64 where [res_type_defs]: "Drawing = 1"

text \<open>\<open>ReportChangeStatus\<close>\<close>

definition CREATE :: i64 where [res_type_defs]: "CREATE = 0"
definition REMOVE :: i64 where [res_type_defs]: "REMOVE = 1"

text \<open>\<open>WindowStates\<close>\<close>

definition ACTIVE :: i64 where [res_type_defs]: "ACTIVE = 0"
definition INACTIVE :: i64 where [res_type_defs]: "INACTIVE = 1"

text \<open>\<open>RunninglockState\<close>\<close>

definition RUNNINGLOCK_STATE_DISABLE :: i64 where [res_type_defs]: "RUNNINGLOCK_STATE_DISABLE = 0"
definition RUNNINGLOCK_STATE_ENABLE :: i64 where [res_type_defs]: "RUNNINGLOCK_STATE_ENABLE = 1"
definition RUNNINGLOCK_STATE_PROXIED :: i64 where [res_type_defs]: "RUNNINGLOCK_STATE_PROXIED = 2"
definition RUNNINGLOCK_STATE_UNPROXIED_RESTORE :: i64 where [res_type_defs]: "RUNNINGLOCK_STATE_UNPROXIED_RESTORE = 3"

text \<open>\<open>AvCodecState\<close>\<close>

definition CODEC_START_INFO :: i64 where [res_type_defs]: "CODEC_START_INFO = 0"
definition CODEC_STOP_INFO :: i64 where [res_type_defs]: "CODEC_STOP_INFO = 1"

text \<open>\<open>ScreenCaptureStatus\<close>\<close>

definition START_SCREEN_CAPTURE :: i64 where [res_type_defs]: "START_SCREEN_CAPTURE = 0"
definition STOP_SCREEN_CAPTURE :: i64 where [res_type_defs]: "STOP_SCREEN_CAPTURE = 1"

text \<open>\<open>WebScreenCapture\<close>\<close>

definition WEB_SCREEN_CAPTURE_START :: i64 where [res_type_defs]: "WEB_SCREEN_CAPTURE_START = 0"
definition WEB_SCREEN_CAPTURE_STOP :: i64 where [res_type_defs]: "WEB_SCREEN_CAPTURE_STOP = 1"

text \<open>\<open>WebVideoState\<close>\<close>

definition WEB_VIDEO_PLAYING_START :: i64 where [res_type_defs]: "WEB_VIDEO_PLAYING_START = 0"
definition WEB_VIDEO_PLAYING_STOP :: i64 where [res_type_defs]: "WEB_VIDEO_PLAYING_STOP = 1"

text \<open>\<open>WebSubwinCall\<close>\<close>

definition WEB_SUBWIN_CALL_START :: i64 where [res_type_defs]: "WEB_SUBWIN_CALL_START = 0"
definition WEB_SUBWIN_CALL_STOP :: i64 where [res_type_defs]: "WEB_SUBWIN_CALL_STOP = 1"

text \<open>\<open>CosmicCubeState\<close>\<close>

definition APPLICATION_ABOUT_TO_APPEAR :: i64 where [res_type_defs]: "APPLICATION_ABOUT_TO_APPEAR = 0"
definition APPLICATION_ABOUT_TO_HIDE :: i64 where [res_type_defs]: "APPLICATION_ABOUT_TO_HIDE = 1"
definition APPLICATION_ABOUT_TO_RECOVER :: i64 where [res_type_defs]: "APPLICATION_ABOUT_TO_RECOVER = 2"

text \<open>\<open>SlideEventStatus\<close>\<close>

definition SLIDE_EVENT_OFF :: i64 where [res_type_defs]: "SLIDE_EVENT_OFF = 0"
definition SLIDE_EVENT_ON :: i64 where [res_type_defs]: "SLIDE_EVENT_ON = 1"
definition SLIDE_EVENT_DETECTING :: i64 where [res_type_defs]: "SLIDE_EVENT_DETECTING = 2"
definition SLIDE_NORMAL_BEGIN :: i64 where [res_type_defs]: "SLIDE_NORMAL_BEGIN = 3"
definition SLIDE_NORMAL_END :: i64 where [res_type_defs]: "SLIDE_NORMAL_END = 4"
definition AUTO_PLAY_ON :: i64 where [res_type_defs]: "AUTO_PLAY_ON = 5"
definition AUTO_PLAY_OFF :: i64 where [res_type_defs]: "AUTO_PLAY_OFF = 6"
definition MOVE_EVENT_ON :: i64 where [res_type_defs]: "MOVE_EVENT_ON = 7"
definition SWIPER_FLING_END :: i64 where [res_type_defs]: "SWIPER_FLING_END = 8"

text \<open>\<open>ContinuousInstallStatus\<close>\<close>

definition START_CONTINUOUS_INSTALL :: i64 where [res_type_defs]: "START_CONTINUOUS_INSTALL = 0"
definition STOP_CONTINUOUS_INSTALL :: i64 where [res_type_defs]: "STOP_CONTINUOUS_INSTALL = 1"

text \<open>\<open>AppInstallStatus\<close>\<close>

definition APP_UNINSTALL :: i64 where [res_type_defs]: "APP_UNINSTALL = 0"
definition APP_INSTALL_END :: i64 where [res_type_defs]: "APP_INSTALL_END = 1"
definition APP_CHANGED :: i64 where [res_type_defs]: "APP_CHANGED = 2"
definition APP_REPLACED :: i64 where [res_type_defs]: "APP_REPLACED = 3"
definition APP_FULLY_REMOVED :: i64 where [res_type_defs]: "APP_FULLY_REMOVED = 4"
definition BUNDLE_REMOVED :: i64 where [res_type_defs]: "BUNDLE_REMOVED = 5"
definition APP_INSTALL_START :: i64 where [res_type_defs]: "APP_INSTALL_START = 6"

text \<open>\<open>BackgroundPerceivableStatus\<close>\<close>

definition PERCEIVABLE_START :: i64 where [res_type_defs]: "PERCEIVABLE_START = 0"
definition PERCEIVABLE_STOP :: i64 where [res_type_defs]: "PERCEIVABLE_STOP = 1"

text \<open>\<open>AudioStatus\<close>\<close>

definition START :: i64 where [res_type_defs]: "START = 0"
definition STOP :: i64 where [res_type_defs]: "STOP = 1"
definition RENDERER_RUNNING :: i64 where [res_type_defs]: "RENDERER_RUNNING = 2"
definition RENDERER_STOPPED :: i64 where [res_type_defs]: "RENDERER_STOPPED = 3"
definition RENDERER_RELEASED :: i64 where [res_type_defs]: "RENDERER_RELEASED = 4"
definition RENDERER_PAUSED :: i64 where [res_type_defs]: "RENDERER_PAUSED = 5"

text \<open>\<open>ScreenStatus\<close>\<close>

definition SCREEN_OFF :: i64 where [res_type_defs]: "SCREEN_OFF = 0"
definition SCREEN_ON :: i64 where [res_type_defs]: "SCREEN_ON = 1"

text \<open>\<open>EventType\<close>\<close>

definition EVENT_START :: i64 where [res_type_defs]: "EVENT_START = 0"
definition EVENT_DRAW_FRAME_REPORT :: i64 where [res_type_defs]: "EVENT_DRAW_FRAME_REPORT = 1"
definition EVENT_MUTEX_STATUS :: i64 where [res_type_defs]: "EVENT_MUTEX_STATUS = 2"
definition EVENT_DDR_BOUND_CHANGE_REPORT :: i64 where [res_type_defs]: "EVENT_DDR_BOUND_CHANGE_REPORT = 3"
definition EVENT_MUTEX_STATUS_BEFORE_START :: i64 where [res_type_defs]: "EVENT_MUTEX_STATUS_BEFORE_START = 4"
definition EVENT_APP_STATE_BACKGROUND_FOREGROUND :: i64 where [res_type_defs]: "EVENT_APP_STATE_BACKGROUND_FOREGROUND = 5"
definition EVENT_RED_ENVELOPE :: i64 where [res_type_defs]: "EVENT_RED_ENVELOPE = 6"
definition EVENT_FRAME_RATE_STATISTICS :: i64 where [res_type_defs]: "EVENT_FRAME_RATE_STATISTICS = 7"
definition EVENT_MUTEX_CASE_SMALL_WINDOW_TO_BACKGROUND :: i64 where [res_type_defs]: "EVENT_MUTEX_CASE_SMALL_WINDOW_TO_BACKGROUND = 8"
definition EVENT_MUTEX_CASE_FREE_MULTI_WINDOW_TO_BACKGROUND :: i64 where [res_type_defs]: "EVENT_MUTEX_CASE_FREE_MULTI_WINDOW_TO_BACKGROUND = 9"
definition EVENT_MUTEX_TOPN_BUNDLE_USAGE_INFO :: i64 where [res_type_defs]: "EVENT_MUTEX_TOPN_BUNDLE_USAGE_INFO = 10"
definition EVENT_REPORT_NATIVE_PROC_SUSPEND_STATE :: i64 where [res_type_defs]: "EVENT_REPORT_NATIVE_PROC_SUSPEND_STATE = 11"
definition EVENT_REPORT_HFLS_LIVE_SCENE_CHANGED :: i64 where [res_type_defs]: "EVENT_REPORT_HFLS_LIVE_SCENE_CHANGED = 12"
definition EVENT_LIMITED_EXECUTION :: i64 where [res_type_defs]: "EVENT_LIMITED_EXECUTION = 14"
definition EVENT_RECOVER_EXECUTION :: i64 where [res_type_defs]: "EVENT_RECOVER_EXECUTION = 15"
definition EVENT_SMART_GC_EVENT :: i64 where [res_type_defs]: "EVENT_SMART_GC_EVENT = 16"
definition EVENT_CONTINUOUS_TASK_DETECT_STATE :: i64 where [res_type_defs]: "EVENT_CONTINUOUS_TASK_DETECT_STATE = 17"
definition EVENT_UPDATE_KILL_REASON_CONFIG :: i64 where [res_type_defs]: "EVENT_UPDATE_KILL_REASON_CONFIG = 18"
definition EVENT_SMART_SCAN_EVENT :: i64 where [res_type_defs]: "EVENT_SMART_SCAN_EVENT = 19"
definition EVENT_NOTIFY_MUTEX_START_OR_STOP :: i64 where [res_type_defs]: "EVENT_NOTIFY_MUTEX_START_OR_STOP = 20"
definition EVENT_COMPONENT_PREMAKE :: i64 where [res_type_defs]: "EVENT_COMPONENT_PREMAKE = 21"
definition EVENT_BOTTOM_STATE_NOTIFICATION :: i64 where [res_type_defs]: "EVENT_BOTTOM_STATE_NOTIFICATION = 22"
definition EVENT_KEY_PERF_SCENE :: i64 where [res_type_defs]: "EVENT_KEY_PERF_SCENE = 23"
definition EVENT_GC_STATE :: i64 where [res_type_defs]: "EVENT_GC_STATE = 25"
definition EVENT_BOTTOMN_APPS_NOTIFICATION :: i64 where [res_type_defs]: "EVENT_BOTTOMN_APPS_NOTIFICATION = 26"
definition EVENT_END :: i64 where [res_type_defs]: "EVENT_END = 27"

text \<open>\<open>EventValue\<close>\<close>

definition EVENT_VALUE_START :: i64 where [res_type_defs]: "EVENT_VALUE_START = 0"
definition EVENT_VALUE_DRAW_FRAME_REPORT_START :: i64 where [res_type_defs]: "EVENT_VALUE_DRAW_FRAME_REPORT_START = 1"
definition EVENT_VALUE_DRAW_FRAME_REPORT_STOP :: i64 where [res_type_defs]: "EVENT_VALUE_DRAW_FRAME_REPORT_STOP = 2"
definition EVENT_VALUE_DDR_BOUND_REPORT_START :: i64 where [res_type_defs]: "EVENT_VALUE_DDR_BOUND_REPORT_START = 3"
definition EVENT_VALUE_DDR_BOUND_REPORT_STOP :: i64 where [res_type_defs]: "EVENT_VALUE_DDR_BOUND_REPORT_STOP = 4"
definition EVENT_VALUE_FRAME_RATE_STATISTICS_START :: i64 where [res_type_defs]: "EVENT_VALUE_FRAME_RATE_STATISTICS_START = 5"
definition EVENT_VALUE_FRAME_RATE_STATISTICS_END :: i64 where [res_type_defs]: "EVENT_VALUE_FRAME_RATE_STATISTICS_END = 6"
definition EVENT_VALUE_FRAME_RATE_STATISTICS_BREAK :: i64 where [res_type_defs]: "EVENT_VALUE_FRAME_RATE_STATISTICS_BREAK = 7"
definition EVENT_VALUE_HFLS_BEGIN :: i64 where [res_type_defs]: "EVENT_VALUE_HFLS_BEGIN = 8"
definition EVENT_VALUE_HFLS_END :: i64 where [res_type_defs]: "EVENT_VALUE_HFLS_END = 9"
definition EVENT_VALUE_END :: i64 where [res_type_defs]: "EVENT_VALUE_END = 10"

text \<open>\<open>EventListenerGroup\<close>\<close>

definition LISTENER_GROUP_BEGIN :: i64 where [res_type_defs]: "LISTENER_GROUP_BEGIN = 0"
definition LISTENER_GROUP_COMMON :: i64 where [res_type_defs]: "LISTENER_GROUP_COMMON = 1"
definition LISTENER_GROUP_LLM :: i64 where [res_type_defs]: "LISTENER_GROUP_LLM = 2"
definition LISTENER_GROUP_GAME :: i64 where [res_type_defs]: "LISTENER_GROUP_GAME = 3"
definition LISTENER_GROUP_CAMERA :: i64 where [res_type_defs]: "LISTENER_GROUP_CAMERA = 4"
definition LISTENER_GROUP_DH :: i64 where [res_type_defs]: "LISTENER_GROUP_DH = 5"
definition LISTENER_GROUP_KIDDO :: i64 where [res_type_defs]: "LISTENER_GROUP_KIDDO = 6"
definition LISTENER_GROUP_END :: i64 where [res_type_defs]: "LISTENER_GROUP_END = 7"

text \<open>\<open>BootCompletedStatus\<close>\<close>

definition START_BOOT_COMPLETED :: i64 where [res_type_defs]: "START_BOOT_COMPLETED = 0"
definition STOP_BOOT_COMPLETED :: i64 where [res_type_defs]: "STOP_BOOT_COMPLETED = 1"

text \<open>\<open>SystemAbilityStatus\<close>\<close>

definition SA_REMOVE :: i64 where [res_type_defs]: "SA_REMOVE = 0"
definition SA_ADD :: i64 where [res_type_defs]: "SA_ADD = 1"

text \<open>\<open>SystemloadLevel\<close>\<close>

definition LOW :: i64 where [res_type_defs]: "LOW = 0"
definition NORMAL :: i64 where [res_type_defs]: "NORMAL = 1"
definition MEDIUM :: i64 where [res_type_defs]: "MEDIUM = 2"
definition HIGH :: i64 where [res_type_defs]: "HIGH = 3"
definition OVERHEATED :: i64 where [res_type_defs]: "OVERHEATED = 4"
definition WARNING :: i64 where [res_type_defs]: "WARNING = 5"
definition EMERGENCY :: i64 where [res_type_defs]: "EMERGENCY = 6"
definition ESCAPE :: i64 where [res_type_defs]: "ESCAPE = 7"

text \<open>\<open>DeviceStatus\<close>\<close>

definition SYSTEMLOAD_LEVEL :: i64 where [res_type_defs]: "SYSTEMLOAD_LEVEL = 0"
definition POWER_FOOTAGE :: i64 where [res_type_defs]: "POWER_FOOTAGE = 1"
definition THERMAL :: i64 where [res_type_defs]: "THERMAL = 2"
definition MEMORY_LEVEL :: i64 where [res_type_defs]: "MEMORY_LEVEL = 3"
definition HIGH_LOAD :: i64 where [res_type_defs]: "HIGH_LOAD = 4"
definition DEVICE_IDLE :: i64 where [res_type_defs]: "DEVICE_IDLE = 5"

text \<open>\<open>ClickEventType\<close>\<close>

definition INVALID_EVENT :: i64 where [res_type_defs]: "INVALID_EVENT = 0"
definition TOUCH_EVENT_DOWN :: i64 where [res_type_defs]: "TOUCH_EVENT_DOWN = 1"
definition CLICK_EVENT :: i64 where [res_type_defs]: "CLICK_EVENT = 2"
definition TOUCH_EVENT_UP :: i64 where [res_type_defs]: "TOUCH_EVENT_UP = 3"
definition TOUCH_EVENT_PULL_UP :: i64 where [res_type_defs]: "TOUCH_EVENT_PULL_UP = 4"
definition TOUCH_EVENT_DOWN_MMI :: i64 where [res_type_defs]: "TOUCH_EVENT_DOWN_MMI = 5"

text \<open>\<open>AxisEventStatus\<close>\<close>

definition AXIS_EVENT_BEGIN :: i64 where [res_type_defs]: "AXIS_EVENT_BEGIN = 0"
definition AXIS_EVENT_END :: i64 where [res_type_defs]: "AXIS_EVENT_END = 1"
definition AXIS_EVENT_UPDATE :: i64 where [res_type_defs]: "AXIS_EVENT_UPDATE = 2"

text \<open>\<open>WakeUpStatus\<close>\<close>

definition WAKE_UP_TIMEOUT :: i64 where [res_type_defs]: "WAKE_UP_TIMEOUT = 0"
definition WAKE_UP_START :: i64 where [res_type_defs]: "WAKE_UP_START = 1"

text \<open>\<open>KeyEventType\<close>\<close>

definition KEY_EVENT_DOWN :: i64 where [res_type_defs]: "KEY_EVENT_DOWN = 1"
definition KEY_EVENT_UP :: i64 where [res_type_defs]: "KEY_EVENT_UP = 2"

text \<open>\<open>AppStartType\<close>\<close>

definition APP_WARM_START :: i64 where [res_type_defs]: "APP_WARM_START = 0"
definition APP_COLD_START :: i64 where [res_type_defs]: "APP_COLD_START = 1"

text \<open>\<open>WindowResizeType\<close>\<close>

definition WINDOW_RESIZING :: i64 where [res_type_defs]: "WINDOW_RESIZING = 0"
definition WINDOW_RESIZE_STOP :: i64 where [res_type_defs]: "WINDOW_RESIZE_STOP = 1"

text \<open>\<open>WindowMoveType\<close>\<close>

definition WINDOW_MOVING :: i64 where [res_type_defs]: "WINDOW_MOVING = 0"
definition WINDOW_MOVE_STOP :: i64 where [res_type_defs]: "WINDOW_MOVE_STOP = 1"

text \<open>\<open>ShowRemoteAnimationStatus\<close>\<close>

definition ANIMATION_BEGIN :: i64 where [res_type_defs]: "ANIMATION_BEGIN = 0"
definition ANIMATION_END :: i64 where [res_type_defs]: "ANIMATION_END = 1"
definition ANIMATION_UNLOCK_BEGIN :: i64 where [res_type_defs]: "ANIMATION_UNLOCK_BEGIN = 2"
definition ANIMATION_UNLOCK_END :: i64 where [res_type_defs]: "ANIMATION_UNLOCK_END = 3"

text \<open>\<open>LoadPageType\<close>\<close>

definition LOAD_PAGE_START :: i64 where [res_type_defs]: "LOAD_PAGE_START = 0"
definition LOAD_PAGE_COMPLETE :: i64 where [res_type_defs]: "LOAD_PAGE_COMPLETE = 1"
definition LOAD_PAGE_NO_REQUEST_FRAME :: i64 where [res_type_defs]: "LOAD_PAGE_NO_REQUEST_FRAME = 2"

text \<open>\<open>StatusBarDragStatus\<close>\<close>

definition DRAG_START :: i64 where [res_type_defs]: "DRAG_START = 0"
definition DRAG_END :: i64 where [res_type_defs]: "DRAG_END = 1"

text \<open>\<open>WebGesture\<close>\<close>

definition WEB_GESTURE_START :: i64 where [res_type_defs]: "WEB_GESTURE_START = 0"
definition WEB_GESTURE_END :: i64 where [res_type_defs]: "WEB_GESTURE_END = 1"

text \<open>\<open>WebGestureMove\<close>\<close>

definition WEB_GESTURE_MOVE_START :: i64 where [res_type_defs]: "WEB_GESTURE_MOVE_START = 0"
definition WEB_GESTURE_MOVE_END :: i64 where [res_type_defs]: "WEB_GESTURE_MOVE_END = 1"

text \<open>\<open>WebSlideNormal\<close>\<close>

definition WEB_SLIDE_NORMAL_START :: i64 where [res_type_defs]: "WEB_SLIDE_NORMAL_START = 0"
definition WEB_SLIDE_NORMAL_END :: i64 where [res_type_defs]: "WEB_SLIDE_NORMAL_END = 1"

text \<open>\<open>CameraState\<close>\<close>

definition CAMERA_CONNECT :: i64 where [res_type_defs]: "CAMERA_CONNECT = 0"
definition CAMERA_DISCONNECT :: i64 where [res_type_defs]: "CAMERA_DISCONNECT = 1"

text \<open>\<open>DeviceModeStatus\<close>\<close>

definition MODE_ENTER :: i64 where [res_type_defs]: "MODE_ENTER = 0"
definition MODE_QUIT :: i64 where [res_type_defs]: "MODE_QUIT = 1"

text \<open>\<open>WebDragResizeStatus\<close>\<close>

definition WEB_DRAG_START :: i64 where [res_type_defs]: "WEB_DRAG_START = 0"
definition WEB_DRAG_END :: i64 where [res_type_defs]: "WEB_DRAG_END = 1"

text \<open>\<open>AccountActivatingStatus\<close>\<close>

definition ACCOUNT_ACTIVATING_START :: i64 where [res_type_defs]: "ACCOUNT_ACTIVATING_START = 0"

text \<open>\<open>CrownRotationStatus\<close>\<close>

definition CROWN_ROTATION_START :: i64 where [res_type_defs]: "CROWN_ROTATION_START = 0"
definition CROWN_ROTATION_END :: i64 where [res_type_defs]: "CROWN_ROTATION_END = 2"

text \<open>\<open>BmmMoniterStatus\<close>\<close>

definition BMM_CLOSE :: i64 where [res_type_defs]: "BMM_CLOSE = 0"
definition BMM_FOREGROUND :: i64 where [res_type_defs]: "BMM_FOREGROUND = 1"
definition BMM_BACKGROUND :: i64 where [res_type_defs]: "BMM_BACKGROUND = 2"

text \<open>\<open>GameBoostState\<close>\<close>

definition GAME_BOOST_LEVEL0 :: i64 where [res_type_defs]: "GAME_BOOST_LEVEL0 = 0"
definition GAME_BOOST_LEVEL1 :: i64 where [res_type_defs]: "GAME_BOOST_LEVEL1 = 1"
definition GAME_BOOST_LEVEL2 :: i64 where [res_type_defs]: "GAME_BOOST_LEVEL2 = 2"
definition GAME_BOOST_LEVEL3 :: i64 where [res_type_defs]: "GAME_BOOST_LEVEL3 = 3"
definition GAME_BOOST_END :: i64 where [res_type_defs]: "GAME_BOOST_END = 4"

text \<open>\<open>CopyStatus\<close>\<close>

definition COPY_STOP :: i64 where [res_type_defs]: "COPY_STOP = 0"
definition COPY_START :: i64 where [res_type_defs]: "COPY_START = 1"
definition COPY_STATUS_MAX :: i64 where [res_type_defs]: "COPY_STATUS_MAX = 2"

text \<open>\<open>HighFrequenceLoadSceneState\<close>\<close>

definition HFLS_SCENE_IN :: i64 where [res_type_defs]: "HFLS_SCENE_IN = 0"
definition HFLS_SCENE_OUT :: i64 where [res_type_defs]: "HFLS_SCENE_OUT = 1"

text \<open>\<open>GameState\<close>\<close>

definition GAME_FOREGROUND_STATE :: i64 where [res_type_defs]: "GAME_FOREGROUND_STATE = 1"
definition GAME_BACKGROUND_STATE :: i64 where [res_type_defs]: "GAME_BACKGROUND_STATE = 2"
definition GAME_EXIT_STATE :: i64 where [res_type_defs]: "GAME_EXIT_STATE = 3"
definition GAME_GEE_FOCUS_STATE :: i64 where [res_type_defs]: "GAME_GEE_FOCUS_STATE = 4"
definition GAME_LOST_FOCUS_STATE :: i64 where [res_type_defs]: "GAME_LOST_FOCUS_STATE = 5"

text \<open>\<open>GameEnvType\<close>\<close>

definition GAME_NORMAL :: i64 where [res_type_defs]: "GAME_NORMAL = 0"
definition GAME_CUST :: i64 where [res_type_defs]: "GAME_CUST = 1"

text \<open>\<open>RecentBuildStatus\<close>\<close>

definition RECENT_BUILD_START :: i64 where [res_type_defs]: "RECENT_BUILD_START = 0"
definition RECENT_BUILD_STOP :: i64 where [res_type_defs]: "RECENT_BUILD_STOP = 1"

text \<open>\<open>CloneState\<close>\<close>

definition CLONE_FINISH :: i64 where [res_type_defs]: "CLONE_FINISH = 0"
definition CLONE_RUNNING :: i64 where [res_type_defs]: "CLONE_RUNNING = 1"


end
