(* ===== verification/Plugin_Mgr_Model.thy ===== *)
theory Plugin_Mgr_Model
  imports Plugin_Config Json_Payload Res_Type "HOL-Library.Signed_Division"
begin

text \<open>
  \<open>PluginMgr\<close> (resschedfwk/src/plugin_mgr.cpp, include/plugin_mgr.h): loading the plugins a
  switch file names, who subscribes to which event type, dispatching an event to its
  subscribers in both builds (with and without FFRT), delivering a synchronous event to the
  one plugin that answers it, the statistics and the repair of a plugin that takes too long,
  and the counts of reported events.  Plugins, the dynamic linker and the clock are
  parameters; what a plugin's \<open>OnPluginInit\<close> and \<open>OnPluginDisable\<close> call on the manager is a
  list of calls the manager then executes.  What leaves the manager is the list \<open>pm_outs\<close>.
\<close>

section \<open>Data\<close>

record res_data =
  rd_type :: u32
  rd_value :: i64
  rd_payload :: json

text \<open>A time point is a number of nanoseconds.\<close>

record plugin_stat =
  totalTime :: u64
  useCount :: u64
  timeOutTime :: "i64 list"

record plugin_lib =
  has_init :: bool
  has_dispatch :: bool
  has_deliver :: bool
  has_dump :: bool
  has_disable :: bool

definition DISPATCH_TIME_OUT :: i32 where "DISPATCH_TIME_OUT = 50"
definition DISPATCH_TIME_OUT_US :: i32 where "DISPATCH_TIME_OUT_US = DISPATCH_TIME_OUT * 1000"
definition MAX_PLUGIN_TIMEOUT_TIMES :: i32 where "MAX_PLUGIN_TIMEOUT_TIMES = 3"
definition DISABLE_PLUGIN_TIME :: i32 where "DISABLE_PLUGIN_TIME = 60000"
definition PLUGIN_REQUEST_ERROR :: i32 where "PLUGIN_REQUEST_ERROR = - 1"
definition HOT_EVENT_TOPN :: nat where "HOT_EVENT_TOPN = 10"
definition ONE_DAY_MILLS :: i64 where "ONE_DAY_MILLS = 24 * 60 * 60 * 1000"
definition LOG_INTERVAL_TIME :: i64 where "LOG_INTERVAL_TIME = 10 * 60 * 1000"
definition PM_DEFAULT_VALUE :: i32 where "PM_DEFAULT_VALUE = - 1"
definition PM_PATH_MAX :: nat where "PM_PATH_MAX = 4096"

definition stat_Update :: "i32 \<Rightarrow> plugin_stat \<Rightarrow> plugin_stat" where
  "stat_Update costTime s =
     (if 0 < costTime \<and> costTime < DISPATCH_TIME_OUT_US then
        (if totalTime s + of_int costTime < totalTime s
         then s\<lparr>totalTime := of_int costTime, useCount := 1\<rparr>
         else s\<lparr>totalTime := totalTime s + of_int costTime, useCount := useCount s + 1\<rparr>)
      else s)"

definition AverageTime :: "plugin_stat \<Rightarrow> u64" where
  "AverageTime s = (if 0 < useCount s then totalTime s div useCount s else 0)"

definition new_stat :: plugin_stat where
  "new_stat = \<lparr>totalTime = 0, useCount = 0, timeOutTime = []\<rparr>"

text \<open>The calls a plugin makes on the manager while it starts or stops.\<close>

datatype pm_call =
    CallSubscribe string u32
  | CallUnSubscribe string u32
  | CallUnSubscribeAll string
  | CallSubscribeSync string u32
  | CallUnSubscribeSync string u32
  | CallSubscribeAccurately string u32 i64
  | CallUnSubscribeAccurately string u32 i64

datatype pm_out =
    Submit string res_data
  | PostSync "string list" res_data
  | Dispatched string res_data
  | InitCalled string
  | DisableCalled string
  | DeliverCalled string res_data
  | HotEvent "string list" "u32 list"
  | PluginDisabled string
  | CallbackQueued string nat
  | CallbackSubmitted string nat
  | CallbackCalled string nat
  | CancelAll string
  | ResumeTimer string i64

record pm_env =
  pe_ffrt :: bool
  pe_ext_res :: bool
  pe_dlopen :: "string \<Rightarrow> bool"
  pe_dlsym :: "string \<Rightarrow> string \<Rightarrow> bool"
  pe_init :: "string \<Rightarrow> bool \<times> pm_call list"
  pe_disable :: "string \<Rightarrow> pm_call list"
  pe_deliver :: "string \<Rightarrow> res_data \<Rightarrow> i32"
  pe_dump :: "string \<Rightarrow> string list \<Rightarrow> string"
  pe_unique :: "string list \<Rightarrow> string list"
  pe_times :: "pm_out list \<Rightarrow> string \<Rightarrow> i64 \<times> i64"
  pe_indet :: i64
  pe_StrToInt :: "string \<Rightarrow> i32 option"
  pe_property :: string
  pe_read :: xml_reader
  pe_ext_config :: "(i32 \<Rightarrow> string list) option"
  pe_cfg_dirs :: "string option list option"
  pe_realpath :: "string \<Rightarrow> string option"
  pe_file :: "string \<Rightarrow> string"

record pm_state =
  pluginSwitch :: "switch_map option"
  configReader :: "config_map option"
  pluginLibMap :: "(string, plugin_lib) omap"
  subscriptionAccuractlyEnable :: bool
  resTypeLibMap :: "(u32 \<times> string list) list"
  resTyperesValueLibMap :: "((u32 \<times> i64) \<times> string list) list"
  resTypeLibSyncMap :: "(u32 \<times> string) list"
  resTypeStrMap :: "(u32, string) omap"
  linkJumpOptSet :: "string list"
  initFinishCallbacks :: "(string, nat) omap"
  dispatchers :: "(string, bool) omap"
  runningStats :: "(string, bool) omap"
  disablePlugins :: "string list"
  dispatcher :: bool
  isInit :: bool
  pluginStat :: "(string, plugin_stat) omap"
  reportCount :: "(u32, u32) omap"
  lastReportCountTime :: i64
  logReportCount :: "(u32, u32) omap"
  lastLogReportCountTime :: i64
  pluginBlockTime :: i64
  pm_outs :: "pm_out list"

definition pm_new :: pm_state where
  "pm_new =
     \<lparr>pluginSwitch = None, configReader = None, pluginLibMap = [],
      subscriptionAccuractlyEnable = True, resTypeLibMap = [], resTyperesValueLibMap = [],
      resTypeLibSyncMap = [], resTypeStrMap = [], linkJumpOptSet = [], initFinishCallbacks = [],
      dispatchers = [], runningStats = [], disablePlugins = [], dispatcher = False, isInit = False,
      pluginStat = [], reportCount = [], lastReportCountTime = 0, logReportCount = [],
      lastLogReportCountTime = 0, pluginBlockTime = 10 * 60 * 1000 * 1000, pm_outs = []\<rparr>"

definition pm_emit :: "pm_out \<Rightarrow> pm_state \<Rightarrow> pm_state" where
  "pm_emit out st = st\<lparr>pm_outs := pm_outs st @ [out]\<rparr>"

section \<open>Subscriptions\<close>

text \<open>The two maps from an event to the list of its subscribers are used the same way.\<close>

definition reg_at :: "'k \<Rightarrow> ('k \<times> string list) list \<Rightarrow> string list" where
  "reg_at k m = (case map_of m k of None \<Rightarrow> [] | Some l \<Rightarrow> l)"

definition reg_add :: "string \<Rightarrow> 'k \<Rightarrow> ('k \<times> string list) list \<Rightarrow> ('k \<times> string list) list" where
  "reg_add lib k m = AList.update k (reg_at k m @ [lib]) m"

definition reg_remove :: "string \<Rightarrow> 'k \<Rightarrow> ('k \<times> string list) list \<Rightarrow> ('k \<times> string list) list" where
  "reg_remove lib k m =
     (case map_of m k of
        None \<Rightarrow> m
      | Some l \<Rightarrow>
          (let l' = removeAll lib l in
           if l' = [] then AList.delete k m else AList.update k l' m))"

text \<open>The loop of \<open>UnSubscribeAllResources\<close>, whose variable is a copy of each entry.\<close>

definition reg_remove_all :: "string \<Rightarrow> ('k \<times> string list) list \<Rightarrow> ('k \<times> string list) list" where
  "reg_remove_all lib m =
     (let keysToDelete = map fst (filter (\<lambda>e. erase_first (\<lambda>x. x = lib) (snd e) = []) m)
      in filter (\<lambda>e. fst e \<notin> set keysToDelete) m)"

definition SubscribeResource :: "string \<Rightarrow> u32 \<Rightarrow> pm_state \<Rightarrow> pm_state" where
  "SubscribeResource lib resType st =
     (if lib = [] then st
      else st\<lparr>resTypeLibMap := reg_add lib resType (resTypeLibMap st)\<rparr>)"

definition UnSubscribeResource :: "string \<Rightarrow> u32 \<Rightarrow> pm_state \<Rightarrow> pm_state" where
  "UnSubscribeResource lib resType st =
     (if lib = [] then st
      else st\<lparr>resTypeLibMap := reg_remove lib resType (resTypeLibMap st)\<rparr>)"

definition UnSubscribeAllResources :: "string \<Rightarrow> pm_state \<Rightarrow> pm_state" where
  "UnSubscribeAllResources lib st =
     (if lib = [] then st
      else st\<lparr>resTypeLibMap := reg_remove_all lib (resTypeLibMap st),
              resTyperesValueLibMap := reg_remove_all lib (resTyperesValueLibMap st)\<rparr>)"

definition SubscribeSyncResource :: "string \<Rightarrow> u32 \<Rightarrow> pm_state \<Rightarrow> pm_state" where
  "SubscribeSyncResource lib resType st =
     (if lib = [] then st
      else st\<lparr>resTypeLibSyncMap := AList.update resType lib (resTypeLibSyncMap st)\<rparr>)"

definition UnSubscribeSyncResource :: "string \<Rightarrow> u32 \<Rightarrow> pm_state \<Rightarrow> pm_state" where
  "UnSubscribeSyncResource lib resType st =
     (if lib = [] then st
      else (case map_of (resTypeLibSyncMap st) resType of
              None \<Rightarrow> st
            | Some _ \<Rightarrow> st\<lparr>resTypeLibSyncMap := AList.delete resType (resTypeLibSyncMap st)\<rparr>))"

definition SubscribeResourceAccurately :: "string \<Rightarrow> u32 \<Rightarrow> i64 \<Rightarrow> pm_state \<Rightarrow> pm_state" where
  "SubscribeResourceAccurately lib resType resValue st =
     (if lib = [] then st
      else if \<not> subscriptionAccuractlyEnable st then SubscribeResource lib resType st
      else st\<lparr>resTyperesValueLibMap := reg_add lib (resType, resValue) (resTyperesValueLibMap st)\<rparr>)"

definition UnSubscribeResourceAccurately :: "string \<Rightarrow> u32 \<Rightarrow> i64 \<Rightarrow> pm_state \<Rightarrow> pm_state" where
  "UnSubscribeResourceAccurately lib resType resValue st =
     (if lib = [] then st
      else if \<not> subscriptionAccuractlyEnable st then UnSubscribeResource lib resType st
      else st\<lparr>resTyperesValueLibMap := reg_remove lib (resType, resValue) (resTyperesValueLibMap st)\<rparr>)"

fun apply_call :: "pm_call \<Rightarrow> pm_state \<Rightarrow> pm_state" where
  "apply_call (CallSubscribe l t) st = SubscribeResource l t st"
| "apply_call (CallUnSubscribe l t) st = UnSubscribeResource l t st"
| "apply_call (CallUnSubscribeAll l) st = UnSubscribeAllResources l st"
| "apply_call (CallSubscribeSync l t) st = SubscribeSyncResource l t st"
| "apply_call (CallUnSubscribeSync l t) st = UnSubscribeSyncResource l t st"
| "apply_call (CallSubscribeAccurately l t v) st = SubscribeResourceAccurately l t v st"
| "apply_call (CallUnSubscribeAccurately l t v) st = UnSubscribeResourceAccurately l t v st"

text \<open>The appends to the caller's list and whether the event has subscribers.\<close>

definition GetPluginListByResType :: "u32 \<Rightarrow> string list \<Rightarrow> pm_state \<Rightarrow> bool \<times> string list" where
  "GetPluginListByResType resType pluginList st =
     (case map_of (resTypeLibMap st) resType of
        None \<Rightarrow> (False, pluginList) | Some l \<Rightarrow> (True, pluginList @ l))"

definition GetPluginListByResTypeAndValue ::
    "u32 \<Rightarrow> i64 \<Rightarrow> string list \<Rightarrow> pm_state \<Rightarrow> bool \<times> string list" where
  "GetPluginListByResTypeAndValue resType resValue pluginList st =
     (case map_of (resTyperesValueLibMap st) (resType, resValue) of
        None \<Rightarrow> (False, pluginList) | Some l \<Rightarrow> (True, pluginList @ l))"

definition GetResTypeList :: "pm_state \<Rightarrow> u32 set" where
  "GetResTypeList st = fst ` set (resTypeLibMap st) \<union> (fst \<circ> fst) ` set (resTyperesValueLibMap st)"

section \<open>Loading\<close>

definition IsValidPath :: "string \<Rightarrow> bool" where
  "IsValidPath path = (path \<noteq> [] \<and> CHR 0x00 \<notin> set path)"

definition CheckValidPlugin :: "pm_env \<Rightarrow> plugin_info \<Rightarrow> pm_state \<Rightarrow> bool \<times> pm_state" where
  "CheckValidPlugin E info st =
     (if \<not> pe_dlsym E (libPath info) ''OnPluginInit'' then (False, st)
      else if \<not> pe_dlsym E (libPath info) ''OnPluginDisable'' then (False, st)
      else (case pe_init E (libPath info) of
              (ok, calls) \<Rightarrow> (ok, fold apply_call calls (pm_emit (InitCalled (libPath info)) st))))"

definition LoadOnePlugin :: "pm_env \<Rightarrow> plugin_info \<Rightarrow> pm_state \<Rightarrow> plugin_lib option \<times> pm_state" where
  "LoadOnePlugin E info st =
     (if \<not> IsValidPath (libPath info) then (None, st)
      else if \<not> pe_dlopen E (libPath info) then (None, st)
      else (case CheckValidPlugin E info st of
              (False, st') \<Rightarrow> (None, st')
            | (True, st') \<Rightarrow>
                (Some \<lparr>has_init = True,
                       has_dispatch = pe_dlsym E (libPath info) ''OnDispatchResource'',
                       has_deliver = pe_dlsym E (libPath info) ''OnDeliverResource'',
                       has_dump = pe_dlsym E (libPath info) ''OnDump'',
                       has_disable = True\<rparr>, st')))"

definition load_step :: "pm_env \<Rightarrow> plugin_info \<Rightarrow> pm_state \<Rightarrow> pm_state" where
  "load_step E info st =
     (if \<not> switchOn info then st
      else if map_of (pluginLibMap st) (libPath info) \<noteq> None then st
      else (case LoadOnePlugin E info st of
              (None, st') \<Rightarrow> st'
            | (Some lib, st') \<Rightarrow>
                st'\<lparr>pluginLibMap := om_put (libPath info) lib (pluginLibMap st')\<rparr>))"

definition LoadPlugin :: "pm_env \<Rightarrow> pm_state \<Rightarrow> pm_state" where
  "LoadPlugin E st =
     (case pluginSwitch st of
        None \<Rightarrow> st
      | Some m \<Rightarrow> fold (load_step E) (GetPluginSwitch m) st)"

definition InitDispatchersAfterPluginLoad :: "pm_env \<Rightarrow> pm_state \<Rightarrow> pm_state" where
  "InitDispatchersAfterPluginLoad E st =
     (if pe_ffrt E then st\<lparr>dispatchers := om_map (\<lambda>_ _. True) (pluginLibMap st)\<rparr>
      else st\<lparr>dispatcher := True\<rparr>)"

definition RegisterOnInitFinishCallback :: "string \<Rightarrow> nat option \<Rightarrow> pm_state \<Rightarrow> pm_state" where
  "RegisterOnInitFinishCallback lib callback st =
     (case callback of
        None \<Rightarrow> st
      | Some f \<Rightarrow> st\<lparr>initFinishCallbacks := om_put lib f (initFinishCallbacks st)\<rparr>)"

definition call_callback :: "pm_env \<Rightarrow> string \<times> nat \<Rightarrow> pm_state \<Rightarrow> pm_state" where
  "call_callback E c st =
     (if pe_ffrt E then
        (if map_of (dispatchers st) (fst c) = Some True
         then pm_emit (CallbackQueued (fst c) (snd c)) st
         else pm_emit (CallbackSubmitted (fst c) (snd c)) st)
      else if dispatcher st then pm_emit (CallbackQueued (fst c) (snd c)) st
      else pm_emit (CallbackCalled (fst c) (snd c)) st)"

definition CallOnInitFinishCallbacks :: "pm_env \<Rightarrow> pm_state \<Rightarrow> pm_state" where
  "CallOnInitFinishCallbacks E st =
     fold (call_callback E) (initFinishCallbacks st) (st\<lparr>initFinishCallbacks := []\<rparr>)"

definition CompletePluginInitialization :: "pm_env \<Rightarrow> pm_state \<Rightarrow> pm_state" where
  "CompletePluginInitialization E st = CallOnInitFinishCallbacks E (st\<lparr>isInit := True\<rparr>)"

definition parse_switch :: "pm_env \<Rightarrow> bool \<Rightarrow> string \<Rightarrow> switch_map \<Rightarrow> switch_map" where
  "parse_switch E isRssExe s m =
     (if s = [] then m else snd (PluginSwitch_LoadFromConfigContent (pe_read E) s isRssExe m))"

definition ParsePluginSwitch :: "pm_env \<Rightarrow> string list \<Rightarrow> bool \<Rightarrow> pm_state \<Rightarrow> pm_state" where
  "ParsePluginSwitch E switchStrs isRssExe st =
     (case pluginSwitch st of
        None \<Rightarrow> st
      | Some m \<Rightarrow>
          CompletePluginInitialization E (InitDispatchersAfterPluginLoad E (LoadPlugin E
            (st\<lparr>pluginSwitch := Some (fold (parse_switch E isRssExe) switchStrs m)\<rparr>))))"

definition ParseConfigReader :: "pm_env \<Rightarrow> string list \<Rightarrow> pm_state \<Rightarrow> pm_state" where
  "ParseConfigReader E configStrs st =
     (case configReader st of
        None \<Rightarrow> st
      | Some all \<Rightarrow> st\<lparr>configReader := Some (fold (\<lambda>s all.
          if s = [] then all else snd (LoadFromConfigContent (pe_read E) s all)) configStrs all)\<rparr>)"

text \<open>A number that does not parse leaves the switch of the accurate subscription alone.\<close>

definition ReadSubscriptionAccuractlyEnableProperties :: "pm_env \<Rightarrow> pm_state \<Rightarrow> pm_state" where
  "ReadSubscriptionAccuractlyEnableProperties E st =
     (case pe_StrToInt E (pe_property E) of
        None \<Rightarrow> st | Some n \<Rightarrow> st\<lparr>subscriptionAccuractlyEnable := (n \<noteq> 0)\<rparr>)"

definition pm_Init :: "pm_env \<Rightarrow> i64 \<Rightarrow> pm_state \<Rightarrow> pm_state" where
  "pm_Init E now st =
     (case pluginSwitch st of
        Some _ \<Rightarrow> st
      | None \<Rightarrow>
          (let st1 = st\<lparr>pluginSwitch := Some [],
                configReader := (case configReader st of None \<Rightarrow> Some [] | Some c \<Rightarrow> Some c)\<rparr>
           in (ReadSubscriptionAccuractlyEnableProperties E st1)\<lparr>lastReportCountTime := now\<rparr>))"

text \<open>Configuration files: the extension library answers first, then the files found.\<close>

definition CheckRealPath :: "pm_env \<Rightarrow> string \<Rightarrow> string option" where
  "CheckRealPath E partialPath =
     (if PM_PATH_MAX < length partialPath then None else pe_realpath E partialPath)"

definition GetAllRealConfigPath :: "pm_env \<Rightarrow> string \<Rightarrow> string list" where
  "GetAllRealConfigPath E configName =
     (case pe_cfg_dirs E of
        None \<Rightarrow> []
      | Some dirs \<Rightarrow> List.map_filter (\<lambda>d. case d of None \<Rightarrow> None
          | Some dir \<Rightarrow> CheckRealPath E (dir @ ''/'' @ configName)) dirs)"

definition GetConfigContent :: "pm_env \<Rightarrow> i32 \<Rightarrow> string \<Rightarrow> string list \<Rightarrow> string list" where
  "GetConfigContent E configIdx configPath contents =
     (case (configIdx \<noteq> - 1, pe_ext_config E) of
        (True, Some f) \<Rightarrow> contents @ f configIdx
      | _ \<Rightarrow> contents @ map (pe_file E)
               (filter (\<lambda>p. p \<noteq> []) (GetAllRealConfigPath E configPath)))"

definition GetConfigReaderStr :: "pm_env \<Rightarrow> string list" where
  "GetConfigReaderStr E = GetConfigContent E 1 ''etc/ressched/res_sched_config.xml'' []"

definition GetPluginSwitchStr :: "pm_env \<Rightarrow> string list" where
  "GetPluginSwitchStr E = GetConfigContent E 0 ''etc/ressched/res_sched_plugin_switch.xml'' []"

definition pm_GetConfig :: "string \<Rightarrow> string \<Rightarrow> pm_state \<Rightarrow> plugin_config" where
  "pm_GetConfig p c st = (case configReader st of None \<Rightarrow> [] | Some all \<Rightarrow> cr_GetConfig p c all)"

definition pm_RemoveConfig :: "string \<Rightarrow> string \<Rightarrow> pm_state \<Rightarrow> pm_state" where
  "pm_RemoveConfig p c st = st\<lparr>configReader := map_option (cr_RemoveConfig p c) (configReader st)\<rparr>"

definition pm_RemovePluginConfig :: "string \<Rightarrow> pm_state \<Rightarrow> pm_state" where
  "pm_RemovePluginConfig p st = st\<lparr>configReader := map_option (cr_RemovePluginConfig p) (configReader st)\<rparr>"

section \<open>Report counts\<close>

definition GetStrFromResTypeStrMap :: "u32 \<Rightarrow> pm_state \<Rightarrow> string" where
  "GetStrFromResTypeStrMap resType st =
     (case map_of (resTypeStrMap st) resType of None \<Rightarrow> to_string (uint resType) | Some s \<Rightarrow> s)"

definition count_up :: "u32 \<Rightarrow> (u32, u32) omap \<Rightarrow> (u32, u32) omap" where
  "count_up t m = om_put t (case map_of m t of None \<Rightarrow> 1 | Some n \<Rightarrow> n + 1) m"

definition UpdateLogReportCount :: "u32 \<Rightarrow> i64 \<Rightarrow> pm_state \<Rightarrow> pm_state" where
  "UpdateLogReportCount resType currTime st =
     (let st1 = st\<lparr>logReportCount := count_up resType (logReportCount st)\<rparr> in
      if currTime - lastLogReportCountTime st1 < LOG_INTERVAL_TIME then st1
      else st1\<lparr>lastLogReportCountTime := currTime, logReportCount := []\<rparr>)"

text \<open>Events with equal counts are left in key order; \<open>std::sort\<close> may order them either way.\<close>

definition hot_events :: "(u32, u32) omap \<Rightarrow> (u32 \<times> u32) list" where
  "hot_events m = take HOT_EVENT_TOPN (rev (sort_key snd (rev m)))"

definition UpdateReportCount :: "i64 \<Rightarrow> u32 \<Rightarrow> pm_state \<Rightarrow> pm_state" where
  "UpdateReportCount currTime resType st =
     (let st1 = st\<lparr>reportCount := count_up resType (reportCount st)\<rparr>;
          st2 = UpdateLogReportCount resType currTime st1
      in if currTime - lastReportCountTime st2 < ONE_DAY_MILLS then st2
         else
           (let top = hot_events (reportCount st2) in
            (pm_emit (HotEvent (map (\<lambda>e. GetStrFromResTypeStrMap (fst e) st2) top) (map snd top)) st2)
              \<lparr>lastReportCountTime := currTime, reportCount := []\<rparr>))"

section \<open>Dispatching\<close>

text \<open>With the extension build a performance scene carries the real type in its payload.\<close>

definition GetExtTypeByResPayload :: "pm_env \<Rightarrow> res_data \<Rightarrow> i32" where
  "GetExtTypeByResPayload E rd =
     (if rd_type rd \<noteq> RES_TYPE_KEY_PERF_SCENE then PM_DEFAULT_VALUE
      else (case member ''extType'' (rd_payload rd) of
              Some (JStr s) \<Rightarrow> (case pe_StrToInt E s of Some t \<Rightarrow> t | None \<Rightarrow> PM_DEFAULT_VALUE)
            | _ \<Rightarrow> PM_DEFAULT_VALUE))"

definition effective_data :: "pm_env \<Rightarrow> res_data \<Rightarrow> res_data" where
  "effective_data E rd =
     (if pe_ext_res E then
        (let extType = GetExtTypeByResPayload E rd in
         if extType \<noteq> PM_DEFAULT_VALUE then rd\<lparr>rd_type := of_int extType\<rparr> else rd)
      else rd)"

definition async_one :: "res_data \<Rightarrow> string \<Rightarrow> pm_state \<Rightarrow> pm_state" where
  "async_one rd lib st =
     (if lib \<in> set (disablePlugins st) then st
      else (case map_of (pluginLibMap st) lib of
              None \<Rightarrow> st
            | Some libInfo \<Rightarrow>
                if \<not> has_dispatch libInfo then st
                else (case map_of (dispatchers st) lib of
                        None \<Rightarrow> st\<lparr>dispatchers := om_put lib False (dispatchers st)\<rparr>
                      | Some False \<Rightarrow> st
                      | Some True \<Rightarrow> pm_emit (Submit lib rd) st)))"

definition DispatchResourceToPluginAsync :: "string list \<Rightarrow> res_data \<Rightarrow> pm_state \<Rightarrow> pm_state" where
  "DispatchResourceToPluginAsync pluginList rd st = fold (async_one rd) pluginList st"

definition pm_DispatchResource :: "pm_env \<Rightarrow> i64 \<Rightarrow> res_data option \<Rightarrow> pm_state \<Rightarrow> pm_state" where
  "pm_DispatchResource E now resData st =
     (if \<not> isInit st then st
      else (case resData of
              None \<Rightarrow> st
            | Some rd0 \<Rightarrow>
                (let rd = effective_data E rd0;
                     st1 = UpdateReportCount now (rd_type rd) st;
                     l1 = snd (GetPluginListByResType (rd_type rd) [] st1);
                     l2 = snd (GetPluginListByResTypeAndValue (rd_type rd) (rd_value rd) l1 st1)
                 in if l2 = [] then st1
                    else if pe_ffrt E then DispatchResourceToPluginAsync (pe_unique E l2) rd st1
                    else if dispatcher st1 then pm_emit (PostSync (pe_unique E l2) rd) st1
                    else st1)))"

definition pm_DeliverResource :: "pm_env \<Rightarrow> i64 \<Rightarrow> res_data option \<Rightarrow> pm_state \<Rightarrow> i32 \<times> pm_state" where
  "pm_DeliverResource E now resData st =
     (if \<not> isInit st then (PLUGIN_REQUEST_ERROR, st)
      else (case resData of
              None \<Rightarrow> (PLUGIN_REQUEST_ERROR, st)
            | Some rd \<Rightarrow>
                (let st1 = UpdateReportCount now (rd_type rd) st in
                 case map_of (resTypeLibSyncMap st1) (rd_type rd) of
                   None \<Rightarrow> (PLUGIN_REQUEST_ERROR, st1)
                 | Some lib \<Rightarrow>
                     (case map_of (pluginLibMap st1) lib of
                        None \<Rightarrow> (PLUGIN_REQUEST_ERROR, st1)
                      | Some libInfo \<Rightarrow>
                          if \<not> has_deliver libInfo then (PLUGIN_REQUEST_ERROR, st1)
                          else (pe_deliver E lib rd, pm_emit (DeliverCalled lib rd) st1)))))"

text \<open>
  \<open>std::list::sort\<close>: halves sorted and merged, an element of the second half first only
  if it compares less, with any comparison function.
\<close>

fun list_merge :: "('a \<Rightarrow> 'a \<Rightarrow> bool) \<Rightarrow> 'a list \<Rightarrow> 'a list \<Rightarrow> 'a list" where
  "list_merge cmp [] ys = ys"
| "list_merge cmp xs [] = xs"
| "list_merge cmp (x # xs) (y # ys) =
     (if cmp y x then y # list_merge cmp (x # xs) ys else x # list_merge cmp xs (y # ys))"

function list_sort :: "('a \<Rightarrow> 'a \<Rightarrow> bool) \<Rightarrow> 'a list \<Rightarrow> 'a list" where
  "list_sort cmp xs =
     (if length xs < 2 then xs
      else list_merge cmp (list_sort cmp (take (length xs div 2) xs))
                          (list_sort cmp (drop (length xs div 2) xs)))"
  by auto
termination by (relation "measure (\<lambda>(cmp, xs). length xs)") auto

declare list_sort.simps [simp del]

definition stat_less :: "pm_state \<Rightarrow> string \<Rightarrow> string \<Rightarrow> bool" where
  "stat_less st a b =
     (case (map_of (pluginStat st) a, map_of (pluginStat st) b) of
        (Some s, Some t) \<Rightarrow> AverageTime s < AverageTime t
      | _ \<Rightarrow> False)"

definition SortPluginList :: "string list \<Rightarrow> pm_state \<Rightarrow> string list" where
  "SortPluginList pluginList st = list_sort (stat_less st) pluginList"

definition stat_at :: "string \<Rightarrow> pm_state \<Rightarrow> plugin_stat" where
  "stat_at lib st = (case map_of (pluginStat st) lib of None \<Rightarrow> new_stat | Some s \<Rightarrow> s)"

definition put_stat :: "string \<Rightarrow> plugin_stat \<Rightarrow> pm_state \<Rightarrow> pm_state" where
  "put_stat lib s st = st\<lparr>pluginStat := om_put lib s (pluginStat st)\<rparr>"

definition call_disable :: "pm_env \<Rightarrow> string \<Rightarrow> pm_state \<Rightarrow> pm_state" where
  "call_disable E lib st = fold apply_call (pe_disable E lib) (pm_emit (DisableCalled lib) st)"

definition call_init :: "pm_env \<Rightarrow> string \<Rightarrow> pm_state \<Rightarrow> pm_state" where
  "call_init E lib st = fold apply_call (snd (pe_init E lib)) (pm_emit (InitCalled lib) st)"

text \<open>
  The time since the oldest recorded timeout, in milliseconds as an \<open>int32_t\<close>.  \<open>front()\<close> of
  the empty list, which the first timeout of a plugin reads, is an indeterminate value.
\<close>

definition crash_time :: "pm_env \<Rightarrow> i64 \<Rightarrow> i64 list \<Rightarrow> i32" where
  "crash_time E endTime stamps =
     wrap_s32 ((endTime - (case stamps of [] \<Rightarrow> pe_indet E | t # _ \<Rightarrow> t)) sdiv 1000000)"

definition RepairPlugin :: "pm_env \<Rightarrow> i64 \<Rightarrow> string \<Rightarrow> plugin_lib \<Rightarrow> pm_state \<Rightarrow> pm_state" where
  "RepairPlugin E endTime lib libInfo st =
     (let s = stat_at lib st;
          stamps = timeOutTime s @ [endTime];
          ct = crash_time E endTime (timeOutTime s)
      in if MAX_PLUGIN_TIMEOUT_TIMES \<le> int (length stamps) \<and> ct < DISABLE_PLUGIN_TIME then
           (let st1 = put_stat lib (s\<lparr>timeOutTime := stamps\<rparr>) st;
                st2 = (if has_disable libInfo then call_disable E lib st1 else st1);
                st3 = pm_emit (PluginDisabled lib) st2
            in put_stat lib (s\<lparr>timeOutTime := []\<rparr>)
                 (st3\<lparr>pluginLibMap := om_del lib (pluginLibMap st3)\<rparr>))
         else
           (let stamps' = (if MAX_PLUGIN_TIMEOUT_TIMES \<le> int (length stamps) then tl stamps else stamps);
                st1 = put_stat lib (s\<lparr>timeOutTime := stamps'\<rparr>) st
            in if has_disable libInfo \<and> has_init libInfo
               then call_init E lib (call_disable E lib st1) else st1))"

definition sync_one :: "pm_env \<Rightarrow> res_data \<Rightarrow> string \<Rightarrow> pm_state \<Rightarrow> pm_state" where
  "sync_one E rd lib st =
     (case map_of (pluginLibMap st) lib of
        None \<Rightarrow> st
      | Some libInfo \<Rightarrow>
          if \<not> has_dispatch libInfo then st
          else
            (case pe_times E (pm_outs st) lib of
               (beginTime, endTime) \<Rightarrow>
                 (let costTimeUs = wrap_s32 ((endTime - beginTime) sdiv 1000);
                      costTime = costTimeUs sdiv 1000;
                      st1 = pm_emit (Dispatched lib rd) st;
                      st2 = put_stat lib (stat_Update costTimeUs (stat_at lib st1)) st1
                  in if DISPATCH_TIME_OUT < costTime then RepairPlugin E endTime lib libInfo st2
                     else st2)))"

definition DispatchResourceToPluginSync :: "pm_env \<Rightarrow> string list \<Rightarrow> res_data \<Rightarrow> pm_state \<Rightarrow> pm_state" where
  "DispatchResourceToPluginSync E pluginList rd st =
     fold (sync_one E rd) (SortPluginList pluginList st) st"

section \<open>Blocked plugins (FFRT)\<close>

definition IsPluginRunning :: "string \<Rightarrow> pm_state \<Rightarrow> bool" where
  "IsPluginRunning lib st = (map_of (runningStats st) lib = Some True)"

definition RecordRinningStat :: "string \<Rightarrow> bool \<Rightarrow> pm_state \<Rightarrow> pm_state" where
  "RecordRinningStat lib isRunning st = st\<lparr>runningStats := om_put lib isRunning (runningStats st)\<rparr>"

text \<open>Both follow the queue's pointer without a test: \<open>None\<close> when there is no queue.\<close>

definition EnablePluginIfResume :: "string \<Rightarrow> pm_state \<Rightarrow> pm_state option" where
  "EnablePluginIfResume lib st =
     (if map_of (dispatchers st) lib \<noteq> Some True then None
      else
        (let st1 = pm_emit (CancelAll lib) st in
         if \<not> IsPluginRunning lib st1
         then Some (st1\<lparr>disablePlugins := removeAll lib (disablePlugins st1)\<rparr>)
         else Some (pm_emit (ResumeTimer lib (pluginBlockTime st1)) st1)))"

definition HandlePluginTimeout :: "string \<Rightarrow> pm_state \<Rightarrow> pm_state option" where
  "HandlePluginTimeout lib st =
     (if map_of (dispatchers st) lib \<noteq> Some True then None
      else
        (let st1 = pm_emit (CancelAll lib) st in
         if IsPluginRunning lib st1 then Some (st1\<lparr>disablePlugins := List.insert lib (disablePlugins st1)\<rparr>)
         else Some st1))"

definition SetBlockedTime :: "i64 \<Rightarrow> pm_state \<Rightarrow> pm_state" where
  "SetBlockedTime time st = st\<lparr>pluginBlockTime := time\<rparr>"

section \<open>Stopping\<close>

definition UnLoadPlugin :: "pm_env \<Rightarrow> pm_state \<Rightarrow> pm_state" where
  "UnLoadPlugin E st =
     (fold (\<lambda>(lib, libInfo) st. if \<not> has_disable libInfo then st else call_disable E lib st)
       (pluginLibMap st) st)\<lparr>pluginLibMap := []\<rparr>"

definition ClearResource :: "pm_state \<Rightarrow> pm_state" where
  "ClearResource st =
     st\<lparr>resTypeLibMap := [], resTypeLibSyncMap := [], resTypeStrMap := [], linkJumpOptSet := [],
        resTyperesValueLibMap := []\<rparr>"

definition OnDestroy :: "pm_env \<Rightarrow> pm_state \<Rightarrow> pm_state" where
  "OnDestroy E st =
     (let st1 = ClearResource ((UnLoadPlugin E st)\<lparr>configReader := None, pluginSwitch := None\<rparr>) in
      if pe_ffrt E then st1\<lparr>dispatchers := []\<rparr> else st1\<lparr>dispatcher := False\<rparr>)"

definition pm_Stop :: "pm_env \<Rightarrow> pm_state \<Rightarrow> pm_state" where
  "pm_Stop E st = OnDestroy E st"

section \<open>Small accessors and dumps\<close>

definition SetResTypeStrMap :: "(u32, string) omap \<Rightarrow> pm_state \<Rightarrow> pm_state" where
  "SetResTypeStrMap m st = st\<lparr>resTypeStrMap := m\<rparr>"

definition SetLinkJumpOptSet :: "string list \<Rightarrow> pm_state \<Rightarrow> pm_state" where
  "SetLinkJumpOptSet l st = st\<lparr>linkJumpOptSet := l\<rparr>"

text \<open>Whether the bundle is configured, and the flag, which is only ever set.\<close>

definition GetLinkJumpOptConfig :: "string \<Rightarrow> bool \<Rightarrow> pm_state \<Rightarrow> bool \<times> bool" where
  "GetLinkJumpOptConfig bundleName isAllowedLinkJump st =
     (if bundleName \<in> set (linkJumpOptSet st) then (True, True) else (False, isAllowedLinkJump))"

definition GetPluginLib :: "string \<Rightarrow> pm_state \<Rightarrow> plugin_lib option" where
  "GetPluginLib lib st = map_of (pluginLibMap st) lib"

definition DumpPluginInfoAppend :: "plugin_info \<Rightarrow> pm_state \<Rightarrow> string" where
  "DumpPluginInfoAppend info st =
     (if switchOn info then '' | switch on'' @ [CHR 0x09] else '' | switch off'' @ [CHR 0x09]) @
     (if map_of (pluginLibMap st) (libPath info) \<noteq> None
      then '' | running now'' @ cr_newline else '' | disabled'' @ cr_newline)"

text \<open>The dumps follow \<open>pluginSwitch_\<close> and \<open>configReader_\<close> without a test: \<open>None\<close> when unset.\<close>

definition DumpAllPlugin :: "pm_state \<Rightarrow> string option" where
  "DumpAllPlugin st = map_option (\<lambda>m.
     concat (map (\<lambda>info. libPath info @ '' '' @ DumpPluginInfoAppend info st) (GetPluginSwitch m)))
     (pluginSwitch st)"

definition DumpAllPluginConfig :: "pm_state \<Rightarrow> string option" where
  "DumpAllPluginConfig st =
     (case (pluginSwitch st, configReader st) of
        (Some m, Some all) \<Rightarrow>
          Some (''================Resource Schedule Plugin Switch================'' @ cr_newline @
            concat (map (\<lambda>info. libPath info @ '' '' @ (if switchOn info then ''1'' else ''0'') @ cr_newline)
              (GetPluginSwitch m)) @ cr_Dump all)
      | _ \<Rightarrow> None)"

definition DumpInfoFromPlugin :: "pm_env \<Rightarrow> string \<Rightarrow> string \<Rightarrow> string list \<Rightarrow> pm_state \<Rightarrow> string \<times> string" where
  "DumpInfoFromPlugin E result lib args st =
     (case map_of (pluginLibMap st) lib of
        None \<Rightarrow> (''Error params.'', result)
      | Some libInfo \<Rightarrow>
          ([], if has_dump libInfo then result @ pe_dump E lib args @ cr_newline else result))"

definition DumpOnePlugin :: "pm_env \<Rightarrow> string \<Rightarrow> string \<Rightarrow> string list \<Rightarrow> pm_state \<Rightarrow> string option" where
  "DumpOnePlugin E result pluginName args st =
     (case pluginSwitch st of
        None \<Rightarrow> None
      | Some m \<Rightarrow>
          (case find (\<lambda>info. pluginName = libPath info) (GetPluginSwitch m) of
             None \<Rightarrow> Some (result @ '' Error params.'' @ cr_newline)
           | Some info \<Rightarrow>
               if args = [] then
                 Some (result @ pluginName @ '' '' @ DumpPluginInfoAppend info st)
               else
                 (case DumpInfoFromPlugin E (result @ cr_newline) (libPath info) args st of
                    (errMsg, result') \<Rightarrow> Some (result' @ errMsg))))"

definition DumpHelpFromPlugin :: "pm_env \<Rightarrow> string \<Rightarrow> pm_state \<Rightarrow> string option" where
  "DumpHelpFromPlugin E result st =
     (case pluginSwitch st of
        None \<Rightarrow> None
      | Some m \<Rightarrow> Some (result @ fold (\<lambda>info msg.
          snd (DumpInfoFromPlugin E msg (libPath info) [''-h''] st)) (GetPluginSwitch m) []))"

text \<open>The text of a trace point and of the batch log.\<close>

definition BuildDispatchTrace :: "pm_env \<Rightarrow> res_data \<Rightarrow> string \<Rightarrow> string list \<Rightarrow> pm_state \<Rightarrow> string" where
  "BuildDispatchTrace E rd funcName pluginList st =
     funcName @ '' PluginMgr ,resType['' @ to_string (uint (rd_type rd)) @ ''],resTypeStr['' @
     GetStrFromResTypeStrMap (rd_type rd) st @ ''],value['' @ to_string (rd_value rd) @ ''],pluginlist:['' @
     concat (map (\<lambda>lib. lib @ '','')
       (filter (\<lambda>lib. \<not> (pe_ffrt E \<and> lib \<in> set (disablePlugins st))) pluginList)) @ '']''"

fun BuildSimplifyLibAll :: "string list \<Rightarrow> string" where
  "BuildSimplifyLibAll [] = []"
| "BuildSimplifyLibAll (lib # l) =
     (if length lib < 5 then [] else take 2 (drop 3 lib) @ BuildSimplifyLibAll l)"

section \<open>The manager as a state machine\<close>

text \<open>One call from outside, or one task the manager posted earlier.\<close>

inductive pm_step :: "pm_env \<Rightarrow> pm_state \<Rightarrow> pm_state \<Rightarrow> bool" for E where
  init: "pm_step E st (pm_Init E now st)"
| parse_switch: "pm_step E st (ParsePluginSwitch E strs isRssExe st)"
| parse_config: "pm_step E st (ParseConfigReader E strs st)"
| remove_config: "pm_step E st (pm_RemoveConfig p c st)"
| remove_plugin_config: "pm_step E st (pm_RemovePluginConfig p st)"
| call: "pm_step E st (apply_call c st)"
| dispatch: "pm_step E st (pm_DispatchResource E now rd st)"
| sync_task: "pm_step E st (DispatchResourceToPluginSync E l rd' st)"
| deliver: "pm_step E st (snd (pm_DeliverResource E now rd st))"
| register: "pm_step E st (RegisterOnInitFinishCallback lib callback st)"
| running: "pm_step E st (RecordRinningStat lib b st)"
| timeout: "HandlePluginTimeout lib st = Some st' \<Longrightarrow> pm_step E st st'"
| resume: "EnablePluginIfResume lib st = Some st' \<Longrightarrow> pm_step E st st'"
| blocked_time: "pm_step E st (SetBlockedTime time st)"
| type_names: "pm_step E st (SetResTypeStrMap names st)"
| link_jump: "pm_step E st (SetLinkJumpOptSet libs st)"
| stop: "pm_step E st (pm_Stop E st)"

inductive pm_reachable :: "pm_env \<Rightarrow> pm_state \<Rightarrow> bool" for E where
  start: "pm_reachable E pm_new"
| step: "pm_reachable E st \<Longrightarrow> pm_step E st st' \<Longrightarrow> pm_reachable E st'"

inductive_cases pm_stepE: "pm_step E st st'"

end
