(* ===== verification/Plugin_Mgr_Facts.thy ===== *)
theory Plugin_Mgr_Facts
  imports Plugin_Mgr_Model "HOL-Library.Multiset"
begin

text \<open>
  The plugin manager: the contract of a subscription registry and its two interpretations,
  the invariant \<open>pm_ok\<close> of everything the manager keeps with the lemma that every operation
  keeps it, and the properties of dispatching, loading, statistics and repair.
\<close>

named_theorems pm_intros \<open>operations of the plugin manager keep pm_ok\<close>

section \<open>Subscription registries\<close>

text \<open>
  What a plugin relies on when it subscribes: it is appended to the subscribers of one key,
  an unsubscription removes all its entries of one key, and no other key changes.
\<close>

locale subscription_registry =
  fixes subscribers :: "'s \<Rightarrow> 'k \<Rightarrow> string list"
    and sub :: "string \<Rightarrow> 'k \<Rightarrow> 's \<Rightarrow> 's"
    and unsub :: "string \<Rightarrow> 'k \<Rightarrow> 's \<Rightarrow> 's"
    and ok :: "'s \<Rightarrow> bool"
  assumes ok_sub: "ok s \<Longrightarrow> ok (sub lib k s)"
    and ok_unsub: "ok s \<Longrightarrow> ok (unsub lib k s)"
    and sub_at: "ok s \<Longrightarrow> lib \<noteq> [] \<Longrightarrow>
      subscribers (sub lib k s) k' = (if k' = k then subscribers s k @ [lib] else subscribers s k')"
    and unsub_at: "ok s \<Longrightarrow> lib \<noteq> [] \<Longrightarrow>
      subscribers (unsub lib k s) k' = (if k' = k then removeAll lib (subscribers s k) else subscribers s k')"
begin

lemma ok_subs: "ok s \<Longrightarrow> ok (fold (sub lib) ks s)"
  by (rule fold_inv) (rule ok_sub)

lemma ok_unsubs: "ok s \<Longrightarrow> ok (fold (unsub lib) ks s)"
  by (rule fold_inv) (rule ok_unsub)

lemma subs_at:
  "ok s \<Longrightarrow> lib \<noteq> [] \<Longrightarrow>
   subscribers (fold (sub lib) ks s) k = subscribers s k @ replicate (count_list ks k) lib"
  by (induction ks arbitrary: s) (simp_all add: ok_sub sub_at replicate_append_same [symmetric])

lemma unsubs_at:
  "ok s \<Longrightarrow> lib \<noteq> [] \<Longrightarrow>
   subscribers (fold (unsub lib) ks s) k =
     (if k \<in> set ks then removeAll lib (subscribers s k) else subscribers s k)"
  by (induction ks arbitrary: s) (auto simp add: ok_unsub unsub_at)

lemma subs_unsubs:
  "ok s \<Longrightarrow> lib \<noteq> [] \<Longrightarrow> lib \<notin> set (subscribers s k) \<Longrightarrow>
   subscribers (fold (unsub lib) ks (fold (sub lib) ks s)) k = subscribers s k"
  by (auto simp add: unsubs_at ok_subs subs_at removeAll_filter_not_eq filter_id_conv)

end

definition reg_ok :: "('k \<times> string list) list \<Rightarrow> bool" where
  "reg_ok m \<longleftrightarrow> distinct (map fst m) \<and> (\<forall>e \<in> set m. snd e \<noteq> [])"

lemma alist_update_at [simp]: "map_of (AList.update k v m) k' = (if k' = k then Some v else map_of m k')"
  by (simp add: update_conv')

lemma alist_delete_at [simp]: "map_of (AList.delete k m) k' = (if k' = k then None else map_of m k')"
  by (simp add: delete_conv')

lemma reg_ok_update: "reg_ok m \<Longrightarrow> l \<noteq> [] \<Longrightarrow> reg_ok (AList.update k l m)"
  unfolding reg_ok_def
  by (auto simp: distinct_update dest!: map_of_is_SomeI [rotated] split: if_splits
      dest: map_of_SomeD)

lemma reg_ok_delete: "reg_ok m \<Longrightarrow> reg_ok (AList.delete k m)"
  unfolding reg_ok_def by (auto simp: AList.delete_eq distinct_map_filter)

lemma reg_ok_Nil [simp]: "reg_ok []"
  by (simp add: reg_ok_def)

lemma reg_ok_add [pm_intros]: "reg_ok m \<Longrightarrow> reg_ok (reg_add lib k m)"
  by (simp add: reg_add_def reg_ok_update)

lemma reg_ok_remove [pm_intros]: "reg_ok m \<Longrightarrow> reg_ok (reg_remove lib k m)"
  by (simp add: reg_remove_def Let_def reg_ok_update reg_ok_delete split: option.split)

lemma reg_ok_remove_all [pm_intros]: "reg_ok m \<Longrightarrow> reg_ok (reg_remove_all lib m)"
  unfolding reg_ok_def reg_remove_all_def Let_def
  by (auto simp: distinct_map_filter)

lemma reg_at_add: "reg_at k' (reg_add lib k m) = (if k' = k then reg_at k m @ [lib] else reg_at k' m)"
  by (simp add: reg_at_def reg_add_def)

lemma reg_at_remove:
  "reg_at k' (reg_remove lib k m) = (if k' = k then removeAll lib (reg_at k m) else reg_at k' m)"
  by (auto simp: reg_at_def reg_remove_def Let_def split: option.split)

interpretation reg: subscription_registry "\<lambda>m k. reg_at k m" reg_add reg_remove reg_ok
  by unfold_locales (auto simp: reg_ok_add reg_ok_remove reg_at_add reg_at_remove)

section \<open>Statistics\<close>

text \<open>
  Every cost that is counted is between 1 and 49999 microseconds, so the number of uses is at
  most the total and neither sum wraps unless the total is started again.
\<close>

definition stat_ok :: "plugin_stat \<Rightarrow> bool" where
  "stat_ok s \<longleftrightarrow> unat (useCount s) \<le> unat (totalTime s) \<and>
     unat (totalTime s) \<le> 49999 * unat (useCount s) \<and> length (timeOutTime s) \<le> 2"

lemma stat_ok_new [simp]: "stat_ok new_stat"
  by (simp add: stat_ok_def new_stat_def)

lemma unat_cost: "0 < c \<Longrightarrow> c < 50000 \<Longrightarrow> unat (of_int c :: u64) = nat c"
  by (simp add: unat_eq_nat_uint unsigned_of_int take_bit_int_eq_self)

lemma stat_ok_Update [pm_intros]:
  assumes "stat_ok s"
  shows "stat_ok (stat_Update c s)"
proof (cases "0 < c \<and> c < 50000")
  case False
  then show ?thesis using assms
    by (auto simp: stat_Update_def DISPATCH_TIME_OUT_US_def DISPATCH_TIME_OUT_def)
next
  case True
  let ?w = "of_int c :: u64"
  have w: "unat ?w = nat c" using True by (simp add: unat_cost)
  show ?thesis
  proof (cases "totalTime s + ?w < totalTime s")
    case True
    then show ?thesis using assms w \<open>0 < c \<and> c < 50000\<close>
      by (auto simp: stat_Update_def stat_ok_def DISPATCH_TIME_OUT_US_def DISPATCH_TIME_OUT_def)
  next
    case False
    then have sum: "unat (totalTime s + ?w) = unat (totalTime s) + nat c"
      using w by (metis not_less unat_plus_simple)
    have "unat (totalTime s) + nat c < 2 ^ 64"
      using sum unsigned_less [of "totalTime s + ?w", where ?'a = nat] by simp
    then have "unat (useCount s) + 1 < 2 ^ 64"
      using assms True unfolding stat_ok_def by linarith
    then have "unat (useCount s + 1) = unat (useCount s) + 1"
      by (subst unat_add_lem [THEN iffD1]) simp_all
    with sum assms True False show ?thesis
      by (auto simp: stat_Update_def stat_ok_def DISPATCH_TIME_OUT_US_def DISPATCH_TIME_OUT_def)
  qed
qed

lemma average_bounds:
  assumes "stat_ok s" "0 < useCount s"
  shows "1 \<le> unat (AverageTime s) \<and> unat (AverageTime s) \<le> 49999"
proof -
  let ?u = "unat (useCount s)" and ?t = "unat (totalTime s)"
  have u: "0 < ?u" using assms(2) by (simp add: word_less_nat_alt)
  have avg: "unat (AverageTime s) = ?t div ?u" using assms(2) by (simp add: AverageTime_def unat_div)
  have "1 \<le> ?t div ?u" using assms(1) u by (simp add: stat_ok_def div_greater_zero_iff Suc_le_eq)
  moreover have "?t div ?u \<le> 49999 * ?u div ?u"
    using assms(1) by (intro div_le_mono) (simp add: stat_ok_def)
  ultimately show ?thesis using u avg by simp
qed

text \<open>
  Whatever durations a plugin's dispatches report, and even after the
  total has wrapped around, the average kept for it is 0 when nothing was counted and
  otherwise lies between 1 and 49999 microseconds, below the time at which a dispatch counts
  as a timeout.
\<close>

theorem stat_average_bounds:
  "let s = fold stat_Update costs new_stat in
   (if useCount s = 0 then AverageTime s = 0
    else 1 \<le> unat (AverageTime s) \<and> int (unat (AverageTime s)) < DISPATCH_TIME_OUT_US)"
proof -
  let ?s = "fold stat_Update costs new_stat"
  have "stat_ok ?s" by (rule fold_inv) (auto intro: stat_ok_Update)
  then have "1 \<le> unat (AverageTime ?s) \<and> int (unat (AverageTime ?s)) < 50000" if "useCount ?s \<noteq> 0"
  proof -
    have "0 < useCount ?s" using that by (simp only: word_gt_0 not_False_eq_True)
    from average_bounds [OF \<open>stat_ok ?s\<close> this] show ?thesis by linarith
  qed
  then show ?thesis
    by (simp add: Let_def DISPATCH_TIME_OUT_US_def DISPATCH_TIME_OUT_def AverageTime_def)
qed

section \<open>Sorting\<close>

lemma list_merge_mset: "mset (list_merge cmp xs ys) = mset xs + mset ys"
  by (induction cmp xs ys rule: list_merge.induct) auto

lemma list_sort_mset: "mset (list_sort cmp xs) = mset xs"
proof (induction cmp xs rule: list_sort.induct)
  case (1 cmp xs)
  have "mset (take (length xs div 2) xs) + mset (drop (length xs div 2) xs) = mset xs"
    by (metis append_take_drop_id mset_append)
  with 1 show ?case by (subst list_sort.simps) (simp add: list_merge_mset)
qed

lemma list_merge_sorted:
  fixes f :: "'a \<Rightarrow> 'b::linorder"
  assumes "\<And>x y. x \<in> set xs \<union> set ys \<Longrightarrow> y \<in> set xs \<union> set ys \<Longrightarrow> cmp x y \<longleftrightarrow> f x < f y"
    and "sorted (map f xs)" "sorted (map f ys)"
  shows "sorted (map f (list_merge cmp xs ys))"
  using assms
proof (induction cmp xs ys rule: list_merge.induct)
  case (3 cmp x xs y ys)
  have c: "cmp y x \<longleftrightarrow> f y < f x" using "3.prems"(1) by simp
  have set_merge: "set (list_merge cmp as bs) = set as \<union> set bs" for as bs
    by (metis list_merge_mset set_mset_mset set_mset_union)
  show ?case
  proof (cases "cmp y x")
    case True
    then have "sorted (map f (list_merge cmp (x # xs) ys))"
      using "3.prems" by (intro "3.IH"(1) [OF True]) auto
    then show ?thesis using True c "3.prems"(2,3) by (auto simp: set_merge)
  next
    case False
    then have "sorted (map f (list_merge cmp xs (y # ys)))"
      using "3.prems" by (intro "3.IH"(2) [OF False]) auto
    then show ?thesis using False c "3.prems"(2,3) by (auto simp: set_merge)
  qed
qed simp_all

lemma list_sort_sorted:
  fixes f :: "'a \<Rightarrow> 'b::linorder"
  assumes "\<And>x y. x \<in> set xs \<Longrightarrow> y \<in> set xs \<Longrightarrow> cmp x y \<longleftrightarrow> f x < f y"
  shows "sorted (map f (list_sort cmp xs))"
  using assms
proof (induction cmp xs rule: list_sort.induct)
  case (1 cmp xs)
  let ?n = "length xs div 2"
  show ?case
  proof (cases "length xs < 2")
    case True
    then have "sorted (map f xs)" by (cases xs) (auto simp: Suc_less_eq2 less_Suc_eq)
    with True show ?thesis by (subst list_sort.simps) simp
  next
    case False
    have sub: "set (list_sort cmp (take ?n xs)) = set (take ?n xs)"
        "set (list_sort cmp (drop ?n xs)) = set (drop ?n xs)"
      by (metis list_sort_mset set_mset_mset)+
    have all: "x \<in> set xs" if "x \<in> set (take ?n xs) \<union> set (drop ?n xs)" for x
      using that by (auto dest: in_set_takeD in_set_dropD)
    have "sorted (map f (list_sort cmp (take ?n xs)))" "sorted (map f (list_sort cmp (drop ?n xs)))"
      using 1 False by (auto dest: in_set_takeD in_set_dropD)
    then have "sorted (map f (list_merge cmp (list_sort cmp (take ?n xs)) (list_sort cmp (drop ?n xs))))"
      using "1.prems" all by (intro list_merge_sorted) (auto simp: sub)
    with False show ?thesis by (subst list_sort.simps) simp
  qed
qed

text \<open>
  The order in which a synchronous dispatch calls the plugins is a
  permutation of the subscribers, and when a statistic exists for every one of them, it goes
  from the quickest on average to the slowest.
\<close>

theorem plugins_sorted_by_average:
  assumes "\<forall>lib \<in> set l. map_of (pluginStat st) lib \<noteq> None"
  shows "mset (SortPluginList l st) = mset l \<and>
    sorted (map (\<lambda>lib. AverageTime (stat_at lib st)) (SortPluginList l st))"
proof -
  have "stat_less st a b \<longleftrightarrow> AverageTime (stat_at a st) < AverageTime (stat_at b st)"
    if "a \<in> set l" "b \<in> set l" for a b
    using assms that by (auto simp: stat_less_def stat_at_def split: option.splits)
  then show ?thesis
    by (simp add: SortPluginList_def list_sort_mset list_sort_sorted)
qed

definition demo_stats :: pm_state where
  "demo_stats = pm_new\<lparr>pluginStat :=
     [(''a.so'', \<lparr>totalTime = 90, useCount = 3, timeOutTime = []\<rparr>),
      (''b.so'', \<lparr>totalTime = 20, useCount = 2, timeOutTime = []\<rparr>)]\<rparr>"

theorem plugins_sorted_by_average_witness:
  "mset (SortPluginList [''a.so'', ''b.so''] demo_stats) = {#''a.so'', ''b.so''#} \<and>
   sorted (map (\<lambda>lib. AverageTime (stat_at lib demo_stats)) (SortPluginList [''a.so'', ''b.so''] demo_stats))"
  using plugins_sorted_by_average [of "[''a.so'', ''b.so'']" demo_stats] by (simp add: demo_stats_def)

text \<open>
  A plugin without statistics compares equal to every other one, so it can keep
  a quick plugin behind a slow one: with the unknown plugin in the middle the list is left
  as it is.
\<close>

theorem unknown_plugin_blocks_sorting:
  "SortPluginList [''a.so'', ''new.so'', ''b.so''] demo_stats = [''a.so'', ''new.so'', ''b.so''] \<and>
   AverageTime (stat_at ''b.so'' demo_stats) < AverageTime (stat_at ''a.so'' demo_stats)"
  by (simp add: SortPluginList_def list_sort.simps stat_less_def demo_stats_def stat_at_def
      AverageTime_def)

section \<open>The invariant\<close>

definition om_all :: "('v \<Rightarrow> bool) \<Rightarrow> ('k, 'v) omap \<Rightarrow> bool" where
  "om_all P m = list_all (\<lambda>e. P (snd e)) m"

lemma om_all_put [simp]: "om_all P m \<Longrightarrow> P v \<Longrightarrow> om_all P (om_put k v m)"
  unfolding om_all_def by (induction k v m rule: om_put.induct) auto

lemma om_all_del [simp]: "om_all P m \<Longrightarrow> om_all P (om_del k m)"
  unfolding om_all_def om_del_def by (induction m) auto

lemma om_all_Nil [simp]: "om_all P []"
  by (simp add: om_all_def)

lemma om_all_at: "om_all P m \<Longrightarrow> map_of m k = Some v \<Longrightarrow> P v"
  unfolding om_all_def by (force simp: list_all_iff dest: map_of_SomeD)

definition pm_ok :: "pm_state \<Rightarrow> bool" where
  "pm_ok st \<longleftrightarrow>
     (\<forall>m. pluginSwitch st = Some m \<longrightarrow> switch_ok m) \<and> (\<forall>c. configReader st = Some c \<longrightarrow> cfg_ok c) \<and>
     om_ok (pluginLibMap st) \<and>
     om_all (\<lambda>lib. has_init lib \<and> has_disable lib) (pluginLibMap st) \<and>
     reg_ok (resTypeLibMap st) \<and> reg_ok (resTyperesValueLibMap st) \<and>
     distinct (map fst (resTypeLibSyncMap st)) \<and> om_ok (initFinishCallbacks st) \<and>
     om_ok (dispatchers st) \<and> om_ok (runningStats st) \<and> distinct (disablePlugins st) \<and>
     om_ok (pluginStat st) \<and> om_all stat_ok (pluginStat st) \<and>
     om_ok (reportCount st) \<and> om_ok (logReportCount st)"

lemma pm_ok_new [simp]: "pm_ok pm_new"
  by (simp add: pm_ok_def pm_new_def)

lemma pm_ok_emit [pm_intros]: "pm_ok st \<Longrightarrow> pm_ok (pm_emit out st)"
  by (simp add: pm_ok_def pm_emit_def)

lemma pm_ok_Subscribe [pm_intros]: "pm_ok st \<Longrightarrow> pm_ok (SubscribeResource lib t st)"
  by (simp add: pm_ok_def SubscribeResource_def reg_ok_add)

lemma pm_ok_UnSubscribe [pm_intros]: "pm_ok st \<Longrightarrow> pm_ok (UnSubscribeResource lib t st)"
  by (simp add: pm_ok_def UnSubscribeResource_def reg_ok_remove)

lemma pm_ok_UnSubscribeAll [pm_intros]: "pm_ok st \<Longrightarrow> pm_ok (UnSubscribeAllResources lib st)"
  by (simp add: pm_ok_def UnSubscribeAllResources_def reg_ok_remove_all)

lemma pm_ok_SubscribeSync [pm_intros]: "pm_ok st \<Longrightarrow> pm_ok (SubscribeSyncResource lib t st)"
  by (simp add: pm_ok_def SubscribeSyncResource_def distinct_update)

lemma pm_ok_UnSubscribeSync [pm_intros]: "pm_ok st \<Longrightarrow> pm_ok (UnSubscribeSyncResource lib t st)"
  by (simp add: pm_ok_def UnSubscribeSyncResource_def distinct_delete split: option.split)

lemma pm_ok_SubscribeAcc [pm_intros]: "pm_ok st \<Longrightarrow> pm_ok (SubscribeResourceAccurately lib t v st)"
  by (simp add: SubscribeResourceAccurately_def pm_ok_Subscribe) (simp add: pm_ok_def reg_ok_add)

lemma pm_ok_UnSubscribeAcc [pm_intros]: "pm_ok st \<Longrightarrow> pm_ok (UnSubscribeResourceAccurately lib t v st)"
  by (simp add: UnSubscribeResourceAccurately_def pm_ok_UnSubscribe) (simp add: pm_ok_def reg_ok_remove)

lemma pm_ok_call [pm_intros]: "pm_ok st \<Longrightarrow> pm_ok (apply_call c st)"
  by (cases c) (simp_all add: pm_intros)

lemma pm_ok_calls [pm_intros]: "pm_ok st \<Longrightarrow> pm_ok (fold apply_call cs st)"
  by (rule fold_inv) (rule pm_ok_call)

lemma pm_ok_init [pm_intros]: "pm_ok st \<Longrightarrow> pm_ok (call_init E lib st)"
  by (simp add: call_init_def pm_intros)

lemma pm_ok_disable [pm_intros]: "pm_ok st \<Longrightarrow> pm_ok (call_disable E lib st)"
  by (simp add: call_disable_def pm_intros)

lemma pm_ok_put_stat [pm_intros]: "pm_ok st \<Longrightarrow> stat_ok s \<Longrightarrow> pm_ok (put_stat lib s st)"
  by (simp add: pm_ok_def put_stat_def)

lemma stat_ok_at: "pm_ok st \<Longrightarrow> stat_ok (stat_at lib st)"
  by (auto simp: pm_ok_def stat_at_def dest: om_all_at split: option.splits)

lemma pm_ok_del_lib [pm_intros]: "pm_ok st \<Longrightarrow> pm_ok (st\<lparr>pluginLibMap := om_del lib (pluginLibMap st)\<rparr>)"
  by (simp add: pm_ok_def)

lemma put_stat_put_stat: "put_stat lib s (put_stat lib w st) = put_stat lib s st"
  by (simp add: put_stat_def)

lemma call_put_stat: "apply_call c (put_stat lib s st) = put_stat lib s (apply_call c st)"
  by (cases c)
     (simp_all add: put_stat_def SubscribeResource_def UnSubscribeResource_def
       UnSubscribeAllResources_def SubscribeSyncResource_def UnSubscribeSyncResource_def
       SubscribeResourceAccurately_def UnSubscribeResourceAccurately_def split: option.split)

lemma calls_put_stat: "fold apply_call cs (put_stat lib s st) = put_stat lib s (fold apply_call cs st)"
  by (induction cs arbitrary: st) (simp_all add: call_put_stat)

lemma emit_put_stat: "pm_emit out (put_stat lib s st) = put_stat lib s (pm_emit out st)"
  by (simp add: pm_emit_def put_stat_def)

lemma disable_put_stat: "call_disable E l (put_stat lib s st) = put_stat lib s (call_disable E l st)"
  by (simp add: call_disable_def emit_put_stat calls_put_stat)

lemma del_lib_put_stat:
  "(put_stat lib s st)\<lparr>pluginLibMap := om_del l (pluginLibMap (put_stat lib s st))\<rparr> =
   put_stat lib s (st\<lparr>pluginLibMap := om_del l (pluginLibMap st)\<rparr>)"
  by (simp add: put_stat_def)

definition forever :: "pm_env \<Rightarrow> i64 \<Rightarrow> string \<Rightarrow> pm_state \<Rightarrow> bool" where
  "forever E endTime lib st \<longleftrightarrow>
     2 \<le> length (timeOutTime (stat_at lib st)) \<and>
     crash_time E endTime (timeOutTime (stat_at lib st)) < DISABLE_PLUGIN_TIME"

text \<open>The two outcomes of a repair.\<close>

lemma Repair_forever:
  assumes "forever E endTime lib st"
  shows "RepairPlugin E endTime lib libInfo st =
    (let st1 = pm_emit (PluginDisabled lib) (if has_disable libInfo then call_disable E lib st else st)
     in put_stat lib ((stat_at lib st)\<lparr>timeOutTime := []\<rparr>)
          (st1\<lparr>pluginLibMap := om_del lib (pluginLibMap st1)\<rparr>))"
  using assms
  by (simp add: RepairPlugin_def forever_def MAX_PLUGIN_TIMEOUT_TIMES_def Let_def disable_put_stat
      emit_put_stat del_lib_put_stat put_stat_put_stat del: om_put_put)

lemma Repair_restart:
  assumes "\<not> forever E endTime lib st"
  shows "RepairPlugin E endTime lib libInfo st =
    (let s = stat_at lib st;
         stamps = timeOutTime s @ [endTime];
         st1 = put_stat lib (s\<lparr>timeOutTime := if 2 \<le> length (timeOutTime s) then tl stamps else stamps\<rparr>) st
     in if has_disable libInfo \<and> has_init libInfo then call_init E lib (call_disable E lib st1) else st1)"
  using assms
  by (auto simp: RepairPlugin_def forever_def MAX_PLUGIN_TIMEOUT_TIMES_def Let_def)

lemma pm_ok_Repair [pm_intros]:
  assumes "pm_ok st"
  shows "pm_ok (RepairPlugin E endTime lib libInfo st)"
proof -
  have s: "stat_ok (stat_at lib st)" using stat_ok_at [OF assms] .
  then have *: "stat_ok ((stat_at lib st)\<lparr>timeOutTime := []\<rparr>)"
    "stat_ok ((stat_at lib st)\<lparr>timeOutTime := if 2 \<le> length (timeOutTime (stat_at lib st))
       then tl (timeOutTime (stat_at lib st) @ [endTime]) else timeOutTime (stat_at lib st) @ [endTime]\<rparr>)"
    by (auto simp: stat_ok_def)
  show ?thesis
  proof (cases "forever E endTime lib st")
    case True
    with assms * show ?thesis
      unfolding Repair_forever [OF True] Let_def by (simp add: pm_intros)
  next
    case False
    with assms * show ?thesis
      unfolding Repair_restart [OF False] Let_def by (simp add: pm_intros)
  qed
qed

lemma pm_ok_sync_one [pm_intros]: "pm_ok st \<Longrightarrow> pm_ok (sync_one E rd lib st)"
  by (simp add: sync_one_def Let_def pm_intros stat_ok_at split: option.split prod.split)

lemma pm_ok_Sync [pm_intros]: "pm_ok st \<Longrightarrow> pm_ok (DispatchResourceToPluginSync E l rd st)"
  unfolding DispatchResourceToPluginSync_def by (rule fold_inv) (rule pm_ok_sync_one)

lemma pm_ok_async_one [pm_intros]: "pm_ok st \<Longrightarrow> pm_ok (async_one rd lib st)"
  by (simp add: async_one_def pm_intros split: option.split bool.split) (simp add: pm_ok_def)

lemma pm_ok_Async [pm_intros]: "pm_ok st \<Longrightarrow> pm_ok (DispatchResourceToPluginAsync l rd st)"
  unfolding DispatchResourceToPluginAsync_def by (rule fold_inv) (rule pm_ok_async_one)

lemma om_ok_count [pm_intros]: "om_ok m \<Longrightarrow> om_ok (count_up t m)"
  by (simp add: count_up_def)

lemma pm_ok_Log [pm_intros]: "pm_ok st \<Longrightarrow> pm_ok (UpdateLogReportCount t now st)"
  by (simp add: pm_ok_def UpdateLogReportCount_def Let_def om_ok_count)

lemma pm_ok_Count [pm_intros]: "pm_ok st \<Longrightarrow> pm_ok (UpdateReportCount now t st)"
proof -
  assume "pm_ok st"
  then have "pm_ok (st\<lparr>reportCount := count_up t (reportCount st)\<rparr>)"
    by (simp add: pm_ok_def om_ok_count)
  then have "pm_ok (UpdateLogReportCount t now (st\<lparr>reportCount := count_up t (reportCount st)\<rparr>))"
    by (rule pm_ok_Log)
  then show ?thesis by (simp add: UpdateReportCount_def Let_def) (simp add: pm_ok_def pm_emit_def)
qed

lemma pm_ok_Dispatch [pm_intros]: "pm_ok st \<Longrightarrow> pm_ok (pm_DispatchResource E now rd st)"
  by (simp add: pm_DispatchResource_def Let_def pm_intros split: option.split)

lemma pm_ok_Deliver [pm_intros]: "pm_ok st \<Longrightarrow> pm_ok (snd (pm_DeliverResource E now rd st))"
  by (simp add: pm_DeliverResource_def Let_def pm_intros split: option.split)

lemma pm_ok_fold: "(\<And>x s. pm_ok s \<Longrightarrow> pm_ok (f x s)) \<Longrightarrow> pm_ok st \<Longrightarrow> pm_ok (fold f xs st)"
  by (rule fold_inv)

lemma pm_ok_load_step [pm_intros]:
  assumes "pm_ok st"
  shows "pm_ok (load_step E info st)"
proof -
  have "pm_ok (snd (CheckValidPlugin E info st))"
    by (simp add: CheckValidPlugin_def pm_intros assms split: prod.split)
  then have "pm_ok (snd (LoadOnePlugin E info st)) \<and>
      (\<forall>lib. fst (LoadOnePlugin E info st) = Some lib \<longrightarrow> has_init lib \<and> has_disable lib)"
    using assms by (cases "CheckValidPlugin E info st"; cases "fst (CheckValidPlugin E info st)")
      (simp_all add: LoadOnePlugin_def)
  moreover obtain r st' where "LoadOnePlugin E info st = (r, st')" by fastforce
  ultimately show ?thesis
    using assms by (cases r) (simp_all add: load_step_def pm_ok_def)
qed

lemma pm_ok_LoadPlugin [pm_intros]: "pm_ok st \<Longrightarrow> pm_ok (LoadPlugin E st)"
  by (simp add: LoadPlugin_def pm_ok_fold pm_ok_load_step split: option.split)

lemma pm_ok_InitDispatchers [pm_intros]: "pm_ok st \<Longrightarrow> pm_ok (InitDispatchersAfterPluginLoad E st)"
  by (simp add: pm_ok_def InitDispatchersAfterPluginLoad_def)

lemma pm_ok_Callbacks [pm_intros]:
  assumes "pm_ok st"
  shows "pm_ok (CompletePluginInitialization E st)"
proof -
  have "pm_ok (st\<lparr>isInit := True, initFinishCallbacks := []\<rparr>)" using assms by (simp add: pm_ok_def)
  then show ?thesis
    unfolding CompletePluginInitialization_def CallOnInitFinishCallbacks_def
    by (intro pm_ok_fold) (simp_all add: call_callback_def pm_intros)
qed

lemma switch_ok_fold: "switch_ok m \<Longrightarrow> switch_ok (fold (parse_switch E exe) strs m)"
  by (rule fold_inv) (simp_all add: parse_switch_def switch_ok_load)

lemma pm_ok_ParseSwitch [pm_intros]:
  assumes "pm_ok st"
  shows "pm_ok (ParsePluginSwitch E strs exe st)"
proof (cases "pluginSwitch st")
  case (Some m)
  have "pm_ok (st\<lparr>pluginSwitch := Some (fold (parse_switch E exe) strs m)\<rparr>)"
    using assms Some by (simp add: pm_ok_def switch_ok_fold)
  with Some show ?thesis by (simp add: ParsePluginSwitch_def pm_intros)
qed (simp add: ParsePluginSwitch_def assms)

lemma cfg_ok_fold: "cfg_ok all \<Longrightarrow>
   cfg_ok (fold (\<lambda>s all. if s = [] then all else snd (LoadFromConfigContent read s all)) strs all)"
  by (rule fold_inv) (simp_all add: cfg_ok_load)

lemma pm_ok_ParseConfig [pm_intros]: "pm_ok st \<Longrightarrow> pm_ok (ParseConfigReader E strs st)"
  by (cases "configReader st") (simp_all add: ParseConfigReader_def pm_ok_def cfg_ok_fold)

lemma pm_ok_Init [pm_intros]:
  assumes "pm_ok st"
  shows "pm_ok (pm_Init E now st)"
proof (cases "pluginSwitch st")
  case None
  with assms show ?thesis
    by (simp add: pm_Init_def Let_def pm_ok_def ReadSubscriptionAccuractlyEnableProperties_def
        switch_ok_def split: option.split)
qed (simp add: pm_Init_def assms)

lemma pm_ok_UnLoad [pm_intros]:
  assumes "pm_ok st"
  shows "pm_ok (UnLoadPlugin E st)"
proof -
  have "pm_ok (fold (\<lambda>(lib, libInfo) st. if \<not> has_disable libInfo then st else call_disable E lib st)
      (pluginLibMap st) st)"
    by (rule fold_inv) (simp_all add: assms pm_ok_disable split: prod.split)
  then show ?thesis by (simp add: UnLoadPlugin_def pm_ok_def)
qed

lemma pm_ok_Stop [pm_intros]: "pm_ok st \<Longrightarrow> pm_ok (pm_Stop E st)"
  using pm_ok_UnLoad [of st E]
  by (simp add: pm_Stop_def OnDestroy_def Let_def ClearResource_def pm_ok_def)

lemma pm_ok_step: "pm_step E st st' \<Longrightarrow> pm_ok st \<Longrightarrow> pm_ok st'"
proof (induction rule: pm_step.induct)
  case (remove_config st p c)
  then show ?case by (auto simp: pm_RemoveConfig_def pm_ok_def cr_RemoveConfig_ok)
next
  case (remove_plugin_config st p)
  then show ?case by (auto simp: pm_RemovePluginConfig_def pm_ok_def cr_RemovePluginConfig_ok)
next
  case (register st lib callback)
  then show ?case by (simp add: RegisterOnInitFinishCallback_def pm_ok_def split: option.split)
next
  case (running st lib b)
  then show ?case by (simp add: RecordRinningStat_def pm_ok_def)
next
  case (timeout lib st st')
  then show ?case
    by (auto simp: HandlePluginTimeout_def Let_def pm_ok_emit split: if_splits)
       (simp add: pm_ok_def pm_emit_def)
next
  case (resume lib st st')
  then show ?case
    by (auto simp: EnablePluginIfResume_def Let_def pm_ok_emit split: if_splits)
       (simp add: pm_ok_def pm_emit_def distinct_removeAll)
qed (simp_all add: pm_intros, simp_all add: pm_ok_def SetBlockedTime_def SetResTypeStrMap_def
       SetLinkJumpOptSet_def)

text \<open>
  C34. Whatever is called on the plugin manager in whatever order, and whatever
  the plugins do in their callbacks, every map keeps its keys unique and ordered, no event
  is left with an empty list of subscribers, every loaded plugin can be initialised and
  disabled, and every statistic keeps its bounds and at most two recorded timeouts.
\<close>

theorem pm_reachable_ok: "pm_reachable E st \<Longrightarrow> pm_ok st"
  by (induction rule: pm_reachable.induct) (auto dest: pm_ok_step)

definition demo_pe :: pm_env where
  "demo_pe =
     \<lparr>pe_ffrt = True, pe_ext_res = False, pe_dlopen = (\<lambda>_. True), pe_dlsym = (\<lambda>_ _. True),
      pe_init = (\<lambda>lib. (True, [CallSubscribe lib 5])), pe_disable = (\<lambda>lib. [CallUnSubscribeAll lib]),
      pe_deliver = (\<lambda>_ _. 0), pe_dump = (\<lambda>_ _. []), pe_unique = remdups, pe_times = (\<lambda>_ _. (0, 0)),
      pe_indet = 0, pe_StrToInt = (\<lambda>_. None), pe_property = ''1'', pe_read = (\<lambda>_. Some (Some demo_switch_doc)),
      pe_ext_config = None, pe_cfg_dirs = None, pe_realpath = (\<lambda>_. None), pe_file = (\<lambda>_. [])\<rparr>"

theorem pm_reachable_ok_witness:
  "pm_ok (ParsePluginSwitch demo_pe [''x''] False (pm_Init demo_pe 0 pm_new))"
  by (rule pm_reachable_ok [of demo_pe])
     (rule pm_reachable.step [OF pm_reachable.step [OF pm_reachable.start pm_step.init] pm_step.parse_switch])

end
