(* ===== verification/Plugin_Mgr_Props.thy ===== *)
theory Plugin_Mgr_Props
  imports Plugin_Mgr_Facts
begin

text \<open>
  What the plugin manager does: which plugins it loads, who receives an event, what
  unsubscribing leaves, when a slow plugin is restarted and when it is removed, and which
  events it reports as the most frequent ones.
\<close>

section \<open>What a plugin's calls leave alone\<close>

lemma call_frame [simp]:
  "pluginLibMap (apply_call c st) = pluginLibMap st"
  "dispatchers (apply_call c st) = dispatchers st"
  "disablePlugins (apply_call c st) = disablePlugins st"
  "pluginStat (apply_call c st) = pluginStat st"
  "isInit (apply_call c st) = isInit st"
  "pm_outs (apply_call c st) = pm_outs st"
  by (cases c; simp add: SubscribeResource_def UnSubscribeResource_def UnSubscribeAllResources_def
      SubscribeSyncResource_def UnSubscribeSyncResource_def SubscribeResourceAccurately_def
      UnSubscribeResourceAccurately_def split: option.split)+

lemma calls_frame [simp]:
  "pluginLibMap (fold apply_call cs st) = pluginLibMap st"
  "dispatchers (fold apply_call cs st) = dispatchers st"
  "disablePlugins (fold apply_call cs st) = disablePlugins st"
  "pluginStat (fold apply_call cs st) = pluginStat st"
  "isInit (fold apply_call cs st) = isInit st"
  "pm_outs (fold apply_call cs st) = pm_outs st"
  by (induction cs arbitrary: st) simp_all

lemma emit_frame [simp]:
  "pluginLibMap (pm_emit out st) = pluginLibMap st"
  "dispatchers (pm_emit out st) = dispatchers st"
  "disablePlugins (pm_emit out st) = disablePlugins st"
  "pluginStat (pm_emit out st) = pluginStat st"
  "isInit (pm_emit out st) = isInit st"
  "resTypeLibMap (pm_emit out st) = resTypeLibMap st"
  "resTyperesValueLibMap (pm_emit out st) = resTyperesValueLibMap st"
  "resTypeLibSyncMap (pm_emit out st) = resTypeLibSyncMap st"
  by (simp_all add: pm_emit_def)

lemma stat_frame [simp]:
  "pluginLibMap (put_stat lib s st) = pluginLibMap st"
  by (simp add: put_stat_def)

lemma count_frame [simp]:
  "pluginLibMap (UpdateReportCount now t st) = pluginLibMap st"
  "dispatchers (UpdateReportCount now t st) = dispatchers st"
  "disablePlugins (UpdateReportCount now t st) = disablePlugins st"
  "resTypeLibMap (UpdateReportCount now t st) = resTypeLibMap st"
  "resTyperesValueLibMap (UpdateReportCount now t st) = resTyperesValueLibMap st"
  "resTypeLibSyncMap (UpdateReportCount now t st) = resTypeLibSyncMap st"
  "dispatcher (UpdateReportCount now t st) = dispatcher st"
  "isInit (UpdateReportCount now t st) = isInit st"
  by (simp_all add: UpdateReportCount_def UpdateLogReportCount_def pm_emit_def Let_def)

section \<open>Loading\<close>

definition loadable :: "pm_env \<Rightarrow> string \<Rightarrow> bool" where
  "loadable E lib \<longleftrightarrow> IsValidPath lib \<and> pe_dlopen E lib \<and> pe_dlsym E lib ''OnPluginInit'' \<and>
     pe_dlsym E lib ''OnPluginDisable'' \<and> fst (pe_init E lib)"

definition lib_of :: "pm_env \<Rightarrow> string \<Rightarrow> plugin_lib" where
  "lib_of E lib =
     \<lparr>has_init = True, has_dispatch = pe_dlsym E lib ''OnDispatchResource'',
      has_deliver = pe_dlsym E lib ''OnDeliverResource'', has_dump = pe_dlsym E lib ''OnDump'',
      has_disable = True\<rparr>"

lemma LoadOnePlugin_result:
  "fst (LoadOnePlugin E info st) =
     (if loadable E (libPath info) then Some (lib_of E (libPath info)) else None)"
  "pluginLibMap (snd (LoadOnePlugin E info st)) = pluginLibMap st"
  by (cases "pe_init E (libPath info)";
      simp add: LoadOnePlugin_def CheckValidPlugin_def loadable_def lib_of_def split: bool.split)+

lemma load_step_libs:
  "map_of (pluginLibMap (load_step E info st)) lib =
     (case map_of (pluginLibMap st) lib of
        Some li \<Rightarrow> Some li
      | None \<Rightarrow> if libPath info = lib \<and> switchOn info \<and> loadable E lib then Some (lib_of E lib) else None)"
proof -
  obtain r st' where L: "LoadOnePlugin E info st = (r, st')" by fastforce
  have r: "r = (if loadable E (libPath info) then Some (lib_of E (libPath info)) else None)"
    using LoadOnePlugin_result(1) [of E info st] L by simp
  have st': "pluginLibMap st' = pluginLibMap st"
    using LoadOnePlugin_result(2) [of E info st] L by simp
  show ?thesis
    by (cases "libPath info = lib"; cases "map_of (pluginLibMap st) lib";
        cases "map_of (pluginLibMap st) (libPath info)"; cases "loadable E (libPath info)")
       (simp_all add: load_step_def L r st')
qed

lemma load_fold_libs:
  "map_of (pluginLibMap (fold (load_step E) infos st)) lib =
     (case map_of (pluginLibMap st) lib of
        Some li \<Rightarrow> Some li
      | None \<Rightarrow> if (\<exists>info \<in> set infos. libPath info = lib \<and> switchOn info) \<and> loadable E lib
                then Some (lib_of E lib) else None)"
proof (induction infos arbitrary: st)
  case Nil
  then show ?case by (simp split: option.split)
next
  case (Cons info infos)
  show ?case
    by (cases "map_of (pluginLibMap st) lib";
        cases "libPath info = lib \<and> switchOn info \<and> loadable E lib")
       (auto simp add: Cons.IH load_step_libs)
qed

lemma callbacks_frame:
  "pluginLibMap (CompletePluginInitialization E st) = pluginLibMap st \<and>
   dispatchers (CompletePluginInitialization E st) = dispatchers st \<and>
   isInit (CompletePluginInitialization E st)"
proof -
  have one: "pluginLibMap (call_callback E c s) = pluginLibMap s \<and>
      dispatchers (call_callback E c s) = dispatchers s \<and> isInit (call_callback E c s) = isInit s" for c s
    by (simp add: call_callback_def)
  have "pluginLibMap (fold (call_callback E) cs s) = pluginLibMap s \<and>
      dispatchers (fold (call_callback E) cs s) = dispatchers s \<and>
      isInit (fold (call_callback E) cs s) = isInit s" for cs s
    by (induction cs arbitrary: s) (simp_all add: one)
  then show ?thesis
    by (simp add: CompletePluginInitialization_def CallOnInitFinishCallbacks_def)
qed

text \<open>
  After the switch files are parsed, exactly the plugins that were already loaded
  and those are loaded that the files switch on and that have a valid path, open, export the
  two mandatory functions and initialise successfully; with FFRT exactly the loaded plugins
  have a queue, and the manager accepts events.
\<close>

theorem switch_files_load_plugins:
  assumes "pm_ok st" "pluginSwitch st = Some m"
  shows "let st' = ParsePluginSwitch E strs exe st;
             infos = GetPluginSwitch (fold (parse_switch E exe) strs m)
         in isInit st' \<and>
            map_of (pluginLibMap st') lib =
              (case map_of (pluginLibMap st) lib of
                 Some li \<Rightarrow> Some li
               | None \<Rightarrow> if \<lparr>libPath = lib, switchOn = True\<rparr> \<in> set infos \<and> loadable E lib
                         then Some (lib_of E lib) else None) \<and>
            (if pe_ffrt E then map_of (dispatchers st') lib =
                map_option (\<lambda>_. True) (map_of (pluginLibMap st') lib) else dispatchers st' = dispatchers st)"
proof -
  let ?m = "fold (parse_switch E exe) strs m"
  let ?st1 = "st\<lparr>pluginSwitch := Some ?m\<rparr>"
  let ?st2 = "fold (load_step E) (GetPluginSwitch ?m) ?st1"
  have st': "ParsePluginSwitch E strs exe st =
      CompletePluginInitialization E (InitDispatchersAfterPluginLoad E ?st2)"
    using assms(2) by (simp add: ParsePluginSwitch_def LoadPlugin_def)
  have info: "(\<exists>info \<in> set l. libPath info = lib \<and> switchOn info) =
      (\<lparr>libPath = lib, switchOn = True\<rparr> \<in> set l)" for l :: "plugin_info list"
  proof
    assume "\<exists>info \<in> set l. libPath info = lib \<and> switchOn info"
    then obtain info where "info \<in> set l" "libPath info = lib" "switchOn info" by blast
    have "info = \<lparr>libPath = lib, switchOn = True\<rparr>"
      by (rule plugin_info.equality)
         (simp_all add: \<open>libPath info = lib\<close> \<open>switchOn info\<close>)
    with \<open>info \<in> set l\<close> show "\<lparr>libPath = lib, switchOn = True\<rparr> \<in> set l" by simp
  qed force
  have step: "dispatchers (load_step E i s) = dispatchers s" for i s
    by (cases "pe_init E (libPath i)")
       (simp add: load_step_def LoadOnePlugin_def CheckValidPlugin_def split: option.split bool.split)
  have disp: "dispatchers (fold (load_step E) l s) = dispatchers s" for l s
    by (induction l arbitrary: s) (simp_all add: step)
  have libs: "map_of (pluginLibMap ?st2) lib =
      (case map_of (pluginLibMap st) lib of Some li \<Rightarrow> Some li
       | None \<Rightarrow> if \<lparr>libPath = lib, switchOn = True\<rparr> \<in> set (GetPluginSwitch ?m) \<and> loadable E lib
                 then Some (lib_of E lib) else None)"
    by (cases "map_of (pluginLibMap st) lib") (simp_all add: load_fold_libs info)
  have init: "pluginLibMap (InitDispatchersAfterPluginLoad E ?st2) = pluginLibMap ?st2"
      "dispatchers (InitDispatchersAfterPluginLoad E ?st2) =
        (if pe_ffrt E then om_map (\<lambda>_ _. True) (pluginLibMap ?st2) else dispatchers st)"
    by (simp_all add: InitDispatchersAfterPluginLoad_def disp)
  show ?thesis
    unfolding Let_def st' using callbacks_frame [of E "InitDispatchersAfterPluginLoad E ?st2"] libs
    by (cases "map_of (pluginLibMap st) lib") (simp_all add: init)
qed

theorem switch_files_load_plugins_witness:
  "map_of (pluginLibMap (ParsePluginSwitch demo_pe [''x''] False (pm_Init demo_pe 0 pm_new))) ''a.so'' =
   Some (lib_of demo_pe ''a.so'')"
proof -
  let ?base = "pm_Init demo_pe 0 pm_new"
  have ok: "pm_ok ?base" by (rule pm_ok_Init) simp
  have sw: "pluginSwitch ?base = Some []"
    by (simp add: pm_Init_def pm_new_def Let_def ReadSubscriptionAccuractlyEnableProperties_def demo_pe_def)
  have libs: "pluginLibMap ?base = []"
    by (simp add: pm_Init_def pm_new_def Let_def ReadSubscriptionAccuractlyEnableProperties_def demo_pe_def)
  have "fold (parse_switch demo_pe False) [''x''] [] = [(''a.so'', \<lparr>libPath = ''a.so'', switchOn = True\<rparr>)]"
    by (simp add: parse_switch_def demo_pe_def demo_switch_doc_def PluginSwitch_LoadFromConfigContent_def
        IsInvalidNode_def FillinPluginInfo_def xml_prop_def)
  moreover have "loadable demo_pe ''a.so''"
    by (simp add: loadable_def demo_pe_def IsValidPath_def)
  ultimately show ?thesis
    using switch_files_load_plugins [OF ok sw, of demo_pe "[''x'']" False "''a.so''"] libs
    by (simp add: Let_def GetPluginSwitch_def)
qed

section \<open>Dispatching\<close>

text \<open>
  What is assumed of \<open>std::unordered_set\<close>: a list is turned into its distinct elements, in
  some order.
\<close>

definition unique_ok :: "pm_env \<Rightarrow> bool" where
  "unique_ok E \<longleftrightarrow> (\<forall>l. set (pe_unique E l) = set l \<and> distinct (pe_unique E l))"

definition subscribers_of :: "u32 \<Rightarrow> i64 \<Rightarrow> pm_state \<Rightarrow> string list" where
  "subscribers_of t v st = reg_at t (resTypeLibMap st) @ reg_at (t, v) (resTyperesValueLibMap st)"

definition deliverable :: "pm_state \<Rightarrow> string \<Rightarrow> bool" where
  "deliverable st lib \<longleftrightarrow> lib \<notin> set (disablePlugins st) \<and>
     (\<exists>li. map_of (pluginLibMap st) lib = Some li \<and> has_dispatch li) \<and>
     map_of (dispatchers st) lib = Some True"

lemma lists_subscribers:
  "snd (GetPluginListByResTypeAndValue t v (snd (GetPluginListByResType t [] st)) st) = subscribers_of t v st"
  by (simp add: GetPluginListByResTypeAndValue_def GetPluginListByResType_def subscribers_of_def
      reg_at_def split: option.split)

lemma async_one_outs:
  "pm_outs (async_one rd lib st) = pm_outs st @ (if deliverable st lib then [Submit lib rd] else [])"
  by (auto simp: async_one_def deliverable_def pm_emit_def split: option.split bool.split)

lemma async_one_deliverable: "deliverable (async_one rd lib st) = deliverable st"
  by (rule ext)
     (auto simp: async_one_def deliverable_def pm_emit_def split: option.split bool.split if_splits)

lemma async_outs:
  "pm_outs (DispatchResourceToPluginAsync l rd st) =
     pm_outs st @ map (\<lambda>lib. Submit lib rd) (filter (deliverable st) l)"
  unfolding DispatchResourceToPluginAsync_def
  by (induction l arbitrary: st) (simp_all add: async_one_outs async_one_deliverable)

lemma deliverable_count: "deliverable (UpdateReportCount now t st) = deliverable st"
  by (rule ext) (simp add: deliverable_def)

lemma subscribers_count: "subscribers_of t v (UpdateReportCount now t' st) = subscribers_of t v st"
  by (simp add: subscribers_of_def)

lemma dispatch_outs:
  assumes "isInit st" "pe_ffrt E" "unique_ok E"
  shows "pm_outs (pm_DispatchResource E now (Some rd0) st) =
    (let rd = effective_data E rd0 in
     pm_outs (UpdateReportCount now (rd_type rd) st) @
     map (\<lambda>lib. Submit lib rd)
       (filter (deliverable st) (pe_unique E (subscribers_of (rd_type rd) (rd_value rd) st))))"
proof -
  have "pe_unique E [] = []" using assms(3) unfolding unique_ok_def by (metis set_empty)
  then show ?thesis using assms
    by (simp add: pm_DispatchResource_def Let_def lists_subscribers async_outs deliverable_count
        subscribers_count)
qed

text \<open>
  C1. In the FFRT build, dispatching an event submits it exactly once to the queue of
  every plugin that is subscribed to its type or to its type and value, is loaded with a
  dispatch function, has a queue and is not disabled, and to no other.
\<close>

theorem event_reaches_each_subscriber_once:
  assumes "isInit st" "pe_ffrt E" "unique_ok E"
    and "rd = effective_data E rd0"
  shows "\<exists>outs. pm_outs (pm_DispatchResource E now (Some rd0) st) =
      pm_outs (UpdateReportCount now (rd_type rd) st) @ outs \<and> distinct outs \<and>
    set outs = (\<lambda>lib. Submit lib rd) `
      {lib. lib \<in> set (subscribers_of (rd_type rd) (rd_value rd) st) \<and> deliverable st lib}"
proof -
  let ?l = "pe_unique E (subscribers_of (rd_type rd) (rd_value rd) st)"
  have "set ?l = set (subscribers_of (rd_type rd) (rd_value rd) st)" "distinct ?l"
    using assms(3) by (auto simp: unique_ok_def)
  then show ?thesis
    using dispatch_outs [OF assms(1,2,3), of now rd0]
    by (intro exI [of _ "map (\<lambda>lib. Submit lib rd) (filter (deliverable st) ?l)"])
       (auto simp: Let_def assms(4) distinct_map inj_on_def)
qed

definition demo_loaded :: pm_state where
  "demo_loaded = pm_new\<lparr>isInit := True, pluginLibMap := [(''a.so'', lib_of demo_pe ''a.so'')],
     dispatchers := [(''a.so'', True)], resTypeLibMap := [(5, [''a.so'', ''a.so''])],
     resTyperesValueLibMap := [((5, 1), [''a.so'', ''b.so''])]\<rparr>"

theorem event_reaches_each_subscriber_once_witness:
  "\<exists>outs. pm_outs (pm_DispatchResource demo_pe 0
       (Some \<lparr>rd_type = 5, rd_value = 1, rd_payload = JNull\<rparr>) demo_loaded) =
      pm_outs (UpdateReportCount 0 5 demo_loaded) @ outs \<and> distinct outs \<and>
     set outs = {Submit ''a.so'' \<lparr>rd_type = 5, rd_value = 1, rd_payload = JNull\<rparr>}"
proof -
  let ?rd = "\<lparr>rd_type = 5, rd_value = 1, rd_payload = JNull\<rparr>"
  have u: "unique_ok demo_pe" by (simp add: unique_ok_def demo_pe_def)
  have e: "?rd = effective_data demo_pe ?rd" by (simp add: effective_data_def demo_pe_def)
  have i: "isInit demo_loaded" "pe_ffrt demo_pe" by (simp_all add: demo_loaded_def demo_pe_def)
  have "{lib. lib \<in> set (subscribers_of 5 1 demo_loaded) \<and> deliverable demo_loaded lib} = {''a.so''}"
    by (auto simp: subscribers_of_def deliverable_def demo_loaded_def reg_at_def lib_of_def demo_pe_def
        pm_new_def)
  with event_reaches_each_subscriber_once [OF i u e, of 0] show ?thesis by simp
qed

text \<open>
  A synchronous event is answered by the plugin that subscribed last to its type;
  every way in which there is no such answer gives -1, and no plugin is called.
\<close>

theorem deliver_answer_or_error:
  "fst (pm_DeliverResource E now (Some rd) st) =
     (if isInit st \<and>
        (\<exists>lib li. map_of (resTypeLibSyncMap st) (rd_type rd) = Some lib \<and>
           map_of (pluginLibMap st) lib = Some li \<and> has_deliver li)
      then pe_deliver E (the (map_of (resTypeLibSyncMap st) (rd_type rd))) rd
      else PLUGIN_REQUEST_ERROR) \<and>
   fst (pm_DeliverResource E now None st) = PLUGIN_REQUEST_ERROR \<and>
   map_of (resTypeLibSyncMap (SubscribeSyncResource (c # lib) t st)) t = Some (c # lib)"
  by (simp add: pm_DeliverResource_def Let_def SubscribeSyncResource_def split: option.split)

section \<open>Unsubscribing\<close>

interpretation type_registry: subscription_registry
  "\<lambda>st t. reg_at t (resTypeLibMap st)" SubscribeResource UnSubscribeResource pm_ok
proof
  fix st :: pm_state and lib t t'
  show "pm_ok st \<Longrightarrow> lib \<noteq> [] \<Longrightarrow> reg_at t' (resTypeLibMap (SubscribeResource lib t st)) =
      (if t' = t then reg_at t (resTypeLibMap st) @ [lib] else reg_at t' (resTypeLibMap st))"
    by (simp add: SubscribeResource_def reg_at_add)
  show "pm_ok st \<Longrightarrow> lib \<noteq> [] \<Longrightarrow> reg_at t' (resTypeLibMap (UnSubscribeResource lib t st)) =
      (if t' = t then removeAll lib (reg_at t (resTypeLibMap st)) else reg_at t' (resTypeLibMap st))"
    by (simp add: UnSubscribeResource_def reg_at_remove)
qed (simp_all add: pm_intros)

definition acc_sub :: "string \<Rightarrow> u32 \<times> i64 \<Rightarrow> pm_state \<Rightarrow> pm_state" where
  "acc_sub lib k st = SubscribeResourceAccurately lib (fst k) (snd k) st"

definition acc_unsub :: "string \<Rightarrow> u32 \<times> i64 \<Rightarrow> pm_state \<Rightarrow> pm_state" where
  "acc_unsub lib k st = UnSubscribeResourceAccurately lib (fst k) (snd k) st"

interpretation value_registry: subscription_registry
  "\<lambda>st k. reg_at k (resTyperesValueLibMap st)" acc_sub acc_unsub
  "\<lambda>st. pm_ok st \<and> subscriptionAccuractlyEnable st"
proof
  fix st :: pm_state and lib k k'
  show "pm_ok st \<and> subscriptionAccuractlyEnable st \<Longrightarrow> lib \<noteq> [] \<Longrightarrow>
      reg_at k' (resTyperesValueLibMap (acc_sub lib k st)) =
      (if k' = k then reg_at k (resTyperesValueLibMap st) @ [lib] else reg_at k' (resTyperesValueLibMap st))"
    by (simp add: acc_sub_def SubscribeResourceAccurately_def reg_at_add)
  show "pm_ok st \<and> subscriptionAccuractlyEnable st \<Longrightarrow> lib \<noteq> [] \<Longrightarrow>
      reg_at k' (resTyperesValueLibMap (acc_unsub lib k st)) =
      (if k' = k then removeAll lib (reg_at k (resTyperesValueLibMap st))
       else reg_at k' (resTyperesValueLibMap st))"
    by (simp add: acc_unsub_def UnSubscribeResourceAccurately_def reg_at_remove)
  show "pm_ok st \<and> subscriptionAccuractlyEnable st \<Longrightarrow>
      pm_ok (acc_sub lib k st) \<and> subscriptionAccuractlyEnable (acc_sub lib k st)"
    by (simp add: acc_sub_def pm_intros) (simp add: SubscribeResourceAccurately_def)
  show "pm_ok st \<and> subscriptionAccuractlyEnable st \<Longrightarrow>
      pm_ok (acc_unsub lib k st) \<and> subscriptionAccuractlyEnable (acc_unsub lib k st)"
    by (simp add: acc_unsub_def pm_intros) (simp add: UnSubscribeResourceAccurately_def)
qed

lemma erase_first_single: "l \<noteq> [] \<Longrightarrow> erase_first (\<lambda>x. x = lib) l = [] \<longleftrightarrow> l = [lib]"
  by (cases l) auto

lemma map_of_filter_keys:
  "map_of (filter (\<lambda>e. fst e \<notin> A) m) k = (if k \<in> A then None else map_of m k)"
  by (induction m) auto

lemma reg_remove_all_at:
  assumes "reg_ok m"
  shows "reg_at k (reg_remove_all lib m) = (if reg_at k m = [lib] then [] else reg_at k m)"
proof -
  let ?del = "\<lambda>e. erase_first (\<lambda>x. x = lib) (snd e) = []"
  have del: "?del e = (snd e = [lib])" if "e \<in> set m" for e
    using assms that by (auto simp: reg_ok_def erase_first_single)
  have keys: "k \<in> set (map fst (filter ?del m)) \<longleftrightarrow> map_of m k = Some [lib]"
    using assms del by (force simp: reg_ok_def image_iff dest: map_of_SomeD)
  have "map_of (reg_remove_all lib m) k =
      (if k \<in> set (map fst (filter ?del m)) then None else map_of m k)"
    unfolding reg_remove_all_def Let_def by (rule map_of_filter_keys)
  with keys show ?thesis by (auto simp: reg_at_def split: option.split)
qed

text \<open>
  \<open>UnSubscribeAllResources\<close> edits copies of the subscriber lists: a key loses
  its subscribers only where the plugin was the single subscriber.  Wherever another plugin,
  or a second subscription of the same one, is in the list, the list is unchanged and the
  plugin stays subscribed.
\<close>

theorem unsubscribe_all_keeps_shared:
  assumes "pm_ok st" "lib \<noteq> []"
  shows "reg_at t (resTypeLibMap (UnSubscribeAllResources lib st)) =
      (if reg_at t (resTypeLibMap st) = [lib] then [] else reg_at t (resTypeLibMap st)) \<and>
    reg_at (t, v) (resTyperesValueLibMap (UnSubscribeAllResources lib st)) =
      (if reg_at (t, v) (resTyperesValueLibMap st) = [lib] then []
       else reg_at (t, v) (resTyperesValueLibMap st))"
  using assms by (simp add: UnSubscribeAllResources_def pm_ok_def reg_remove_all_at)

theorem unsubscribe_all_keeps_shared_witness:
  "''a.so'' \<in> set (reg_at 5 (resTypeLibMap (UnSubscribeAllResources ''a.so''
     (SubscribeResource ''b.so'' 5 (SubscribeResource ''a.so'' 5 pm_new)))))"
proof -
  let ?st = "SubscribeResource ''b.so'' 5 (SubscribeResource ''a.so'' 5 pm_new)"
  have ok: "pm_ok ?st" by (simp add: pm_intros)
  have "reg_at 5 (resTypeLibMap ?st) = [''a.so'', ''b.so'']"
    by (simp add: type_registry.sub_at pm_intros) (simp add: pm_new_def reg_at_def)
  with unsubscribe_all_keeps_shared [OF ok, of "''a.so''" 5 0] show ?thesis by simp
qed

section \<open>Repair\<close>

lemma disable_libs [simp]: "pluginLibMap (call_disable E lib st) = pluginLibMap st"
  by (simp add: call_disable_def)

lemma init_libs [simp]: "pluginLibMap (call_init E lib st) = pluginLibMap st"
  by (simp add: call_init_def)

lemma Repair_libs:
  "map_of (pluginLibMap (RepairPlugin E endTime lib libInfo st)) l =
     (if forever E endTime lib st \<and> l = lib then None else map_of (pluginLibMap st) l)"
proof (cases "forever E endTime lib st")
  case True
  then show ?thesis unfolding Repair_forever [OF True] Let_def by simp
next
  case False
  then show ?thesis unfolding Repair_restart [OF False] Let_def by simp
qed

lemma crash_time_exact:
  assumes "t \<le> endTime" "endTime - t < 2147483648 * 1000000"
  shows "crash_time E endTime (t # ts) = (endTime - t) div 1000000"
proof -
  have "(endTime - t) sdiv 1000000 = (endTime - t) div 1000000"
    using assms(1) by (simp add: signed_divide_int_def sgn_if)
  then show ?thesis using assms by (simp add: crash_time_def wrap_s32_id)
qed

lemma div_lt_mult:
  assumes "0 < (d :: int)"
  shows "(x div d < n) = (x < n * d)"
proof
  assume "x div d < n"
  then have "(x div d + 1) * d \<le> n * d" using assms by (intro mult_right_mono) simp_all
  moreover have "x < (x div d + 1) * d"
    using div_mult_mod_eq [of x d] pos_mod_bound [OF assms, of x]
    unfolding distrib_right by linarith
  ultimately show "x < n * d" by linarith
next
  assume "x < n * d"
  then have "\<not> n * d \<le> x div d * d"
    using div_mult_mod_eq [of x d] pos_mod_sign [OF assms, of x] by linarith
  then show "x div d < n" using assms by (meson mult_right_mono not_less order.strict_implies_order)
qed

text \<open>
  A plugin whose dispatch takes too long is removed exactly when this is the
  third recorded timeout and the first of the three lies less than 60 seconds back;
  otherwise it stays loaded.  Other plugins stay loaded in both cases, and the indeterminate
  value read at the first timeout has no influence.
\<close>

theorem third_timeout_removes:
  assumes "pm_ok st" "map_of (pluginLibMap st) lib = Some li"
    and "\<forall>t \<in> set (timeOutTime (stat_at lib st)). t \<le> endTime \<and> endTime - t < 2147483648 * 1000000"
  shows "(map_of (pluginLibMap (RepairPlugin E endTime lib li st)) lib = None) =
      (\<exists>t0 t1. timeOutTime (stat_at lib st) = [t0, t1] \<and> endTime - t0 < 60000 * 1000000) \<and>
    (if other = lib then True
     else map_of (pluginLibMap (RepairPlugin E endTime lib li st)) other = map_of (pluginLibMap st) other)"
proof -
  have len: "length (timeOutTime (stat_at lib st)) \<le> 2"
    using stat_ok_at [OF assms(1)] by (simp add: stat_ok_def)
  have "forever E endTime lib st =
      (\<exists>t0 t1. timeOutTime (stat_at lib st) = [t0, t1] \<and> endTime - t0 < 60000 * 1000000)"
  proof (cases "\<exists>t0 t1. timeOutTime (stat_at lib st) = [t0, t1]")
    case True
    then obtain t0 t1 where t: "timeOutTime (stat_at lib st) = [t0, t1]" by blast
    with assms(3) have "crash_time E endTime [t0, t1] = (endTime - t0) div 1000000"
      by (intro crash_time_exact) simp_all
    moreover have "((endTime - t0) div 1000000 < 60000) = (endTime - t0 < 60000 * 1000000)"
      by (rule div_lt_mult) simp
    ultimately show ?thesis using t by (simp add: forever_def DISABLE_PLUGIN_TIME_def)
  next
    case False
    then have "length (timeOutTime (stat_at lib st)) \<noteq> 2"
      by (auto simp: length_Suc_conv numeral_2_eq_2)
    with False len show ?thesis by (auto simp: forever_def)
  qed
  with assms(2) show ?thesis by (simp add: Repair_libs)
qed

definition demo_timeouts :: "i64 list \<Rightarrow> pm_state" where
  "demo_timeouts stamps = pm_new\<lparr>pluginLibMap := [(''a.so'', lib_of demo_pe ''a.so'')],
     pluginStat := [(''a.so'', \<lparr>totalTime = 0, useCount = 0, timeOutTime = stamps\<rparr>)]\<rparr>"

lemma demo_timeouts_ok: "length stamps \<le> 2 \<Longrightarrow> pm_ok (demo_timeouts stamps)"
  using pm_ok_new by (simp add: demo_timeouts_def pm_ok_def lib_of_def om_all_def om_ok_def stat_ok_def)

lemma demo_timeouts_at:
  "map_of (pluginLibMap (demo_timeouts stamps)) ''a.so'' = Some (lib_of demo_pe ''a.so'')"
  "timeOutTime (stat_at ''a.so'' (demo_timeouts stamps)) = stamps"
  by (simp_all add: demo_timeouts_def stat_at_def)

theorem third_timeout_removes_witness:
  "map_of (pluginLibMap (RepairPlugin demo_pe 50000000000 ''a.so'' (lib_of demo_pe ''a.so'')
     (demo_timeouts [1000000000, 2000000000]))) ''a.so'' = None"
  using third_timeout_removes [OF demo_timeouts_ok demo_timeouts_at(1), of "[1000000000, 2000000000]"
      50000000000 demo_pe "''a.so''"]
  by (simp add: demo_timeouts_at)

text \<open>
  The time between timeouts is narrowed to 32 bits of milliseconds: when the oldest
  of the two recorded timeouts lies between 2147483648 and 4294967295 milliseconds back (24.8
  to 49.7 days), the time counts as negative and the third timeout removes the plugin for
  good.
\<close>

theorem rare_timeouts_remove_too:
  assumes "timeOutTime (stat_at lib st) = [t0, t1]"
    and "2147483648 \<le> (endTime - t0) div 1000000" "(endTime - t0) div 1000000 < 4294967296"
  shows "crash_time E endTime [t0, t1] < 0 \<and>
    map_of (pluginLibMap (RepairPlugin E endTime lib li st)) lib = None"
proof -
  have "0 \<le> endTime - t0" using assms(2) by (simp add: pos_imp_zdiv_nonneg_iff [symmetric] order.trans)
  then have "(endTime - t0) sdiv 1000000 = (endTime - t0) div 1000000"
    by (simp add: signed_divide_int_def sgn_if)
  moreover have "wrap_s32 n < 0" if "2147483648 \<le> n" "n < 4294967296" for n
  proof -
    have "(n + 2147483648) mod 4294967296 = (n - 2147483648 + 4294967296) mod 4294967296"
      by (rule arg_cong [of _ _ "\<lambda>i. i mod 4294967296"]) linarith
    also have "\<dots> = (n - 2147483648) mod 4294967296" by (simp only: mod_add_self2)
    also have "\<dots> = n - 2147483648" using that by (intro mod_pos_pos_trivial) simp_all
    finally have "(n + 2147483648) mod 4294967296 = n - 2147483648" .
    with that show ?thesis by (simp add: wrap_s32_def)
  qed
  ultimately have "crash_time E endTime [t0, t1] < 0"
    using assms(2,3) by (simp add: crash_time_def)
  then show ?thesis
    by (simp add: Repair_libs forever_def assms(1) DISABLE_PLUGIN_TIME_def)
qed

theorem rare_timeouts_remove_too_witness:
  "map_of (pluginLibMap (RepairPlugin demo_pe 2600000000000000 ''a.so'' (lib_of demo_pe ''a.so'')
     (demo_timeouts [0, 1000000000000000]))) ''a.so'' = None"
  using rare_timeouts_remove_too [where E = demo_pe, OF demo_timeouts_at(2) [of "[0, 1000000000000000]"],
      of 2600000000000000] by simp

section \<open>The most frequent events\<close>

lemma hot_sorted: "sorted_wrt (\<lambda>a b. snd b \<le> snd a) (rev (sort_key snd (rev (m :: (u32 \<times> u32) list))))"
  using sorted_sort_key [of snd "rev m"] by (simp add: sorted_wrt_rev sorted_map)

text \<open>
  The daily report names the ten most frequent event types (all of them when
  there are fewer): every entry is a counted type with its count, the counts do not increase,
  and no type that is left out has a larger count than one that is listed.
\<close>

theorem hot_events_are_top:
  "length (hot_events m) = min 10 (length m) \<and>
   (\<exists>rest. mset m = mset (hot_events m) + mset rest \<and>
     sorted_wrt (\<lambda>a b. snd b \<le> snd a) (hot_events m @ rest))"
proof -
  let ?l = "rev (sort_key snd (rev m))"
  have split: "?l = hot_events m @ drop 10 ?l"
    by (simp add: hot_events_def HOT_EVENT_TOPN_def)
  have "mset m = mset ?l" by simp
  also have "\<dots> = mset (hot_events m) + mset (drop 10 ?l)"
    by (subst split) (simp only: mset_append)
  finally have "mset m = mset (hot_events m) + mset (drop 10 ?l)" .
  moreover have "sorted_wrt (\<lambda>a b. snd b \<le> snd a) (hot_events m @ drop 10 ?l)"
    using hot_sorted [of m] split by simp
  ultimately show ?thesis
    by (auto simp: hot_events_def HOT_EVENT_TOPN_def)
qed

end
