(* ===== verification/Supervisor_Model.thy ===== *)
theory Supervisor_Model
  imports Prelude
begin

text \<open>
  The cache of applications and processes of the cgroup plugin: \<open>WindowInfo\<close>,
  \<open>AbilityInfo\<close>, \<open>ProcessRecord\<close>, \<open>Application\<close> and \<open>Supervisor\<close> of
  sched_controller/include/supervisor.h and supervisor.cpp.

  The objects are held by \<open>shared_ptr\<close> in the two ordered maps \<open>uidsMap_\<close> and
  \<open>pidsMap_\<close>, so a process is addressed by its uid and pid and an application by its uid.
  \<open>focusedProcess_\<close> always points to a record of the application's own \<open>pidsMap_\<close> and is
  its pid here (\<open>app_inv\<close> states that it never dangles).  Of \<open>linkedWindow_\<close> the code
  reads only whether it is null and the immutable \<open>windowId_\<close>, which is what is kept.
\<close>

section \<open>Data\<close>

type_synonym sched_policy = u32

definition SP_DEFAULT :: sched_policy where "SP_DEFAULT = 0"
definition SP_BACKGROUND :: sched_policy where "SP_BACKGROUND = 1"
definition SP_FOREGROUND :: sched_policy where "SP_FOREGROUND = 2"
definition SP_SYSTEM_BACKGROUND :: sched_policy where "SP_SYSTEM_BACKGROUND = 3"
definition SP_TOP_APP :: sched_policy where "SP_TOP_APP = 4"
definition SP_UPPER_LIMIT :: sched_policy where "SP_UPPER_LIMIT = 0xff"

lemmas sched_policy_defs = SP_DEFAULT_def SP_BACKGROUND_def SP_FOREGROUND_def
  SP_SYSTEM_BACKGROUND_def SP_TOP_APP_def SP_UPPER_LIMIT_def

text \<open>\<open>ProcRecordType\<close>: the values of \<open>processType_\<close>, an \<open>int32_t\<close> in the code.\<close>

definition PRT_NORMAL :: i32 where "PRT_NORMAL = 0"
definition PRT_EXTENSION :: i32 where "PRT_EXTENSION = 1"
definition PRT_RENDER :: i32 where "PRT_RENDER = 2"
definition PRT_GPU :: i32 where "PRT_GPU = 3"
definition PRT_CHILD :: i32 where "PRT_CHILD = 4"
definition PROC_RECORD_TYPE_MAX :: i32 where "PROC_RECORD_TYPE_MAX = 5"

lemmas proc_type_defs = PRT_NORMAL_def PRT_EXTENSION_def PRT_RENDER_def PRT_GPU_def
  PRT_CHILD_def PROC_RECORD_TYPE_MAX_def

record window_info =
  windowId :: u32
  isVisible :: bool
  isFocused :: bool
  drawingContentState :: bool
  windowType :: i32
  displayId :: u64
  topWebviewRenderUid :: u32

definition WindowInfo :: "u32 \<Rightarrow> window_info" where
  "WindowInfo w = \<lparr>windowId = w, isVisible = False, isFocused = False,
     drawingContentState = False, windowType = 0, displayId = 0, topWebviewRenderUid = 0\<rparr>"

record ability_info =
  ai_state :: i32
  ai_estate :: i32
  ai_type :: i32
  ai_recordId :: i32
  ai_name :: string

definition AbilityInfo :: "i32 \<Rightarrow> ability_info" where
  "AbilityInfo r = \<lparr>ai_state = -1, ai_estate = -1, ai_type = -1, ai_recordId = r, ai_name = []\<rparr>"

record process_record =
  lastSchedGroup :: sched_policy
  curSchedGroup :: sched_policy
  setSchedGroup :: sched_policy
  specialSchedGroup :: sched_policy
  policyDescription :: u32
  runningTransientTask :: bool
  isActive :: bool
  inSelfRenderCgroup :: bool
  isNapState :: bool
  processDrawingState :: bool
  screenCaptureState :: bool
  videoState :: bool
  isLoadState :: bool
  webSubWinTaskState :: bool
  saPullAppState :: bool
  pr_cpuLevel :: i32
  processType :: i32
  continuousTaskFlag :: u32
  audioPlayingState :: i32
  audioCapTureState :: i32
  processState :: i32
  linkedWindow :: "u32 option"
  serialNum :: i32
  extensionType :: i32
  mmiStatus :: i32
  cameraState :: i32
  bluetoothState :: i32
  wifiState :: i32
  hostPid :: i32
  suppressState :: u64
  preloadMode :: i32
  rssPullApp :: i32
  runningLockState :: "(u32, bool) omap"
  avCodecState :: "(i32, bool) omap"
  abilityIdAndContinuousTaskFlagMap :: "(i32 \<times> u32 list) list"
  abilities :: "ability_info list"
  windows :: "window_info list"
  keyThreadRoleMap :: "(i32, i32) omap"
  specialSchedThread :: "(i32 \<times> sched_policy) list"
  policyBeforUnlimitedSuppress :: "(u32 \<times> sched_policy) list"
  processName :: string
  codecEncodeState :: i32
  pr_uid :: u32
  pr_pid :: i32

definition ProcessRecord :: "u32 \<Rightarrow> i32 \<Rightarrow> process_record" where
  "ProcessRecord uid pid = \<lparr>
     lastSchedGroup = SP_UPPER_LIMIT, curSchedGroup = SP_UPPER_LIMIT,
     setSchedGroup = SP_UPPER_LIMIT, specialSchedGroup = SP_UPPER_LIMIT,
     policyDescription = 0, runningTransientTask = False, isActive = False,
     inSelfRenderCgroup = False, isNapState = False, processDrawingState = False,
     screenCaptureState = False, videoState = False, isLoadState = False,
     webSubWinTaskState = False, saPullAppState = False,
     pr_cpuLevel = -1, processType = PRT_NORMAL, continuousTaskFlag = 0,
     audioPlayingState = -1, audioCapTureState = -1, processState = 0,
     linkedWindow = None, serialNum = -1, extensionType = -1, mmiStatus = -1,
     cameraState = -1, bluetoothState = -1, wifiState = -1, hostPid = -1,
     suppressState = 0, preloadMode = -1, rssPullApp = 0,
     runningLockState = [], avCodecState = [], abilityIdAndContinuousTaskFlagMap = [],
     abilities = [], windows = [], keyThreadRoleMap = [],
     specialSchedThread = [], policyBeforUnlimitedSuppress = [],
     processName = [], codecEncodeState = -1, pr_uid = uid, pr_pid = pid\<rparr>"

record application =
  focusedProcess :: "i32 option"
  isCosmicCubeStateHide :: bool
  delayTaskPerf :: bool
  liveViewState :: i32
  app_cpuLevel :: i32
  app_uid :: u32
  app_name :: string
  pidsMap :: "(i32, process_record) omap"
  hostPidsSet :: "i32 set"

text \<open>\<open>Application(uid_t uid)\<close> is called with an \<open>int32_t\<close>, which is converted.\<close>

definition Application :: "i32 \<Rightarrow> application" where
  "Application uid = \<lparr>focusedProcess = None, isCosmicCubeStateHide = False,
     delayTaskPerf = False, liveViewState = -1, app_cpuLevel = -1,
     app_uid = word_of_int uid, app_name = [], pidsMap = [], hostPidsSet = {}\<rparr>"

record supervisor =
  uidsMap :: "(i32, application) omap"
  systemLoadLevel :: i32
  sceneBoardUidPid :: "(i32 \<times> i32) set"
  installsPid :: i32
  installsUid :: i32

definition Supervisor :: supervisor where
  "Supervisor = \<lparr>uidsMap = [], systemLoadLevel = -1, sceneBoardUidPid = {},
     installsPid = -1, installsUid = -1\<rparr>"

text \<open>
  The constants of the application framework the plugin compares with
  (\<open>AbilityType\<close>, \<open>AbilityState\<close>, \<open>ExtensionState\<close>, \<open>ApplicationState\<close>, \<open>ProcessType\<close>,
  \<open>PreloadMode\<close> of namespace \<open>AppExecFwk\<close>) are declared outside this repository: they are
  a parameter.
\<close>

record app_exec_fwk =
  AT_SERVICE :: i32
  AT_EXTENSION :: i32
  AT_DATA :: i32
  ABILITY_STATE_CREATE :: i32
  ABILITY_STATE_BACKGROUND :: i32
  ABILITY_STATE_TERMINATED :: i32
  EXTENSION_STATE_TERMINATED :: i32
  APP_STATE_FOREGROUND :: i32
  APP_STATE_BACKGROUND :: i32
  APP_STATE_TERMINATED :: i32
  PT_RENDER :: i32
  PT_CHILD :: i32
  PT_GPU :: i32
  PT_EXTENSION :: i32
  PM_PRE_LAUNCH :: i32

section \<open>Operations of a process record\<close>

definition pr_SetName :: "string \<Rightarrow> process_record \<Rightarrow> process_record" where
  "pr_SetName name pr = (if processName pr = [] then pr\<lparr>processName := name\<rparr> else pr)"

definition GetAbilityInfo :: "i32 \<Rightarrow> process_record \<Rightarrow> ability_info option" where
  "GetAbilityInfo r pr = find (\<lambda>a. ai_recordId a = r) (abilities pr)"

definition GetAbilityInfoNonNull :: "i32 \<Rightarrow> process_record \<Rightarrow> process_record" where
  "GetAbilityInfoNonNull r pr =
     (case find (\<lambda>a. ai_recordId a = r) (abilities pr) of
        Some _ \<Rightarrow> pr
      | None \<Rightarrow> pr\<lparr>abilities := abilities pr @ [AbilityInfo r]\<rparr>)"

definition GetWindowInfo :: "u32 \<Rightarrow> process_record \<Rightarrow> window_info option" where
  "GetWindowInfo w pr = find (\<lambda>x. windowId x = w) (windows pr)"

definition GetWindowInfoNonNull :: "u32 \<Rightarrow> process_record \<Rightarrow> process_record" where
  "GetWindowInfoNonNull w pr =
     (case find (\<lambda>x. windowId x = w) (windows pr) of
        Some _ \<Rightarrow> pr
      | None \<Rightarrow> pr\<lparr>windows := windows pr @ [WindowInfo w]\<rparr>)"

text \<open>Writing through the pointer the two lookups return.\<close>

definition upd_ability :: "i32 \<Rightarrow> (ability_info \<Rightarrow> ability_info) \<Rightarrow> process_record \<Rightarrow> process_record" where
  "upd_ability r f pr = pr\<lparr>abilities := update_first (\<lambda>a. ai_recordId a = r) f (abilities pr)\<rparr>"

definition upd_window :: "u32 \<Rightarrow> (window_info \<Rightarrow> window_info) \<Rightarrow> process_record \<Rightarrow> process_record" where
  "upd_window w f pr = pr\<lparr>windows := update_first (\<lambda>x. windowId x = w) f (windows pr)\<rparr>"

definition RemoveAbilityByRecordId :: "i32 \<Rightarrow> process_record \<Rightarrow> process_record" where
  "RemoveAbilityByRecordId r pr =
     pr\<lparr>abilities := erase_first (\<lambda>a. ai_recordId a = r) (abilities pr)\<rparr>"

definition HasAbility :: "i32 \<Rightarrow> process_record \<Rightarrow> bool" where
  "HasAbility r pr = list_ex (\<lambda>a. ai_recordId a = r) (abilities pr)"

definition HasServiceExtension :: "app_exec_fwk \<Rightarrow> process_record \<Rightarrow> bool" where
  "HasServiceExtension F pr = list_ex
     (\<lambda>a. ai_type a = AT_SERVICE F \<or> ai_type a = AT_EXTENSION F \<or> ai_type a = AT_DATA F)
     (abilities pr)"

definition IsVisible :: "process_record \<Rightarrow> bool" where
  "IsVisible pr = list_ex isVisible (windows pr)"

definition GetKeyTidSetByRole :: "i64 \<Rightarrow> process_record \<Rightarrow> i32 list" where
  "GetKeyTidSetByRole role pr = map fst (filter (\<lambda>(tid, r). r = role) (keyThreadRoleMap pr))"

section \<open>Operations of an application\<close>

definition AddProcessRecord :: "process_record \<Rightarrow> application \<Rightarrow> application" where
  "AddProcessRecord pr app = app\<lparr>pidsMap := om_put (pr_pid pr) pr (pidsMap app)\<rparr>"

definition IsHostProcess :: "i32 \<Rightarrow> application \<Rightarrow> bool" where
  "IsHostProcess p app \<longleftrightarrow> p \<in> hostPidsSet app"

definition AddHostProcess :: "i32 \<Rightarrow> application \<Rightarrow> application" where
  "AddHostProcess p app = app\<lparr>hostPidsSet := insert p (hostPidsSet app)\<rparr>"

definition RemoveProcessRecord :: "i32 \<Rightarrow> application \<Rightarrow> application" where
  "RemoveProcessRecord pid app =
     (case map_of (pidsMap app) pid of
        None \<Rightarrow> app
      | Some _ \<Rightarrow>
          (let app1 = (if focusedProcess app = Some pid then app\<lparr>focusedProcess := None\<rparr> else app);
               app2 = (if IsHostProcess pid app1
                       then app1\<lparr>hostPidsSet := hostPidsSet app1 - {pid}\<rparr> else app1)
           in app2\<lparr>pidsMap := om_del pid (pidsMap app2)\<rparr>))"

definition GetProcessRecord :: "i32 \<Rightarrow> application \<Rightarrow> process_record option" where
  "GetProcessRecord pid app = map_of (pidsMap app) pid"

definition GetProcessRecordNonNull :: "i32 \<Rightarrow> application \<Rightarrow> application" where
  "GetProcessRecordNonNull pid app =
     (case map_of (pidsMap app) pid of
        Some _ \<Rightarrow> app
      | None \<Rightarrow> app\<lparr>pidsMap := om_put pid (ProcessRecord (app_uid app) pid) (pidsMap app)\<rparr>)"

definition FindProcessRecordByRecordId :: "i32 \<Rightarrow> application \<Rightarrow> i32 option" where
  "FindProcessRecordByRecordId r app =
     map_option fst (find (\<lambda>(pid, pr). HasAbility r pr) (pidsMap app))"

definition app_SetName :: "string \<Rightarrow> application \<Rightarrow> application" where
  "app_SetName name app = (if app_name app = [] then app\<lparr>app_name := name\<rparr> else app)"

definition FindProcessRecordByWindowId :: "u32 \<Rightarrow> application \<Rightarrow> i32 option" where
  "FindProcessRecordByWindowId w app =
     map_option fst
       (find (\<lambda>(pid, pr). list_ex (\<lambda>x. windowId x = w) (windows pr)) (pidsMap app))"

text \<open>Writing through a \<open>shared_ptr<ProcessRecord>\<close>.\<close>

definition upd_proc :: "i32 \<Rightarrow> (process_record \<Rightarrow> process_record) \<Rightarrow> application \<Rightarrow> application" where
  "upd_proc pid f app =
     (case map_of (pidsMap app) pid of
        None \<Rightarrow> app
      | Some pr \<Rightarrow> app\<lparr>pidsMap := om_put pid (f pr) (pidsMap app)\<rparr>)"

section \<open>Operations of the supervisor\<close>

definition GetAppRecord :: "i32 \<Rightarrow> supervisor \<Rightarrow> application option" where
  "GetAppRecord uid s = map_of (uidsMap s) uid"

definition GetAppRecordNonNull :: "i32 \<Rightarrow> supervisor \<Rightarrow> supervisor" where
  "GetAppRecordNonNull uid s =
     (case map_of (uidsMap s) uid of
        Some _ \<Rightarrow> s
      | None \<Rightarrow> s\<lparr>uidsMap := om_put uid (Application uid) (uidsMap s)\<rparr>)"

text \<open>The pointer to a process record that a search returns is its uid and pid.\<close>

fun FindProcessRecord_loop :: "i32 \<Rightarrow> (i32, application) omap \<Rightarrow> (i32 \<times> i32) option" where
  "FindProcessRecord_loop pid [] = None"
| "FindProcessRecord_loop pid ((uid, app) # m) =
     (case GetProcessRecord pid app of
        Some _ \<Rightarrow> Some (uid, pid)
      | None \<Rightarrow> FindProcessRecord_loop pid m)"

definition FindProcessRecord :: "i32 \<Rightarrow> supervisor \<Rightarrow> (i32 \<times> i32) option" where
  "FindProcessRecord pid s = FindProcessRecord_loop pid (uidsMap s)"

fun FindProcessRecordByProcName_loop ::
    "string \<Rightarrow> string \<Rightarrow> (i32, application) omap \<Rightarrow> (i32 \<times> i32) option" where
  "FindProcessRecordByProcName_loop appName procName [] = None"
| "FindProcessRecordByProcName_loop appName procName ((uid, app) # m) =
     (if app_name app \<noteq> appName then FindProcessRecordByProcName_loop appName procName m
      else (case find (\<lambda>(pid, pr). processName pr = procName) (pidsMap app) of
              Some (pid, _) \<Rightarrow> Some (uid, pid)
            | None \<Rightarrow> FindProcessRecordByProcName_loop appName procName m))"

definition FindProcessRecordByProcName :: "string \<Rightarrow> string \<Rightarrow> supervisor \<Rightarrow> (i32 \<times> i32) option" where
  "FindProcessRecordByProcName appName procName s =
     FindProcessRecordByProcName_loop appName procName (uidsMap s)"

definition RemoveApplication :: "i32 \<Rightarrow> supervisor \<Rightarrow> supervisor" where
  "RemoveApplication uid s =
     (case map_of (uidsMap s) uid of
        None \<Rightarrow> s
      | Some _ \<Rightarrow> s\<lparr>uidsMap := om_del uid (uidsMap s)\<rparr>)"

fun SearchAbilityRecordId_loop :: "i32 \<Rightarrow> (i32, application) omap \<Rightarrow> (i32 \<times> i32) option" where
  "SearchAbilityRecordId_loop r [] = None"
| "SearchAbilityRecordId_loop r ((uid, app) # m) =
     (case FindProcessRecordByRecordId r app of
        Some pid \<Rightarrow> Some (uid, pid)
      | None \<Rightarrow> SearchAbilityRecordId_loop r m)"

definition SearchAbilityRecordId :: "i32 \<Rightarrow> supervisor \<Rightarrow> (i32 \<times> i32) option" where
  "SearchAbilityRecordId r s = SearchAbilityRecordId_loop r (uidsMap s)"

text \<open>\<open>SearchWindowId\<close> returns the window it finds as its uid and pid; the id is the argument.\<close>

fun SearchWindowId_loop :: "u32 \<Rightarrow> (i32, application) omap \<Rightarrow> (i32 \<times> i32) option" where
  "SearchWindowId_loop w [] = None"
| "SearchWindowId_loop w ((uid, app) # m) =
     (case FindProcessRecordByWindowId w app of
        Some pid \<Rightarrow> Some (uid, pid)
      | None \<Rightarrow> SearchWindowId_loop w m)"

definition SearchWindowId :: "u32 \<Rightarrow> supervisor \<Rightarrow> (i32 \<times> i32) option" where
  "SearchWindowId w s = SearchWindowId_loop w (uidsMap s)"

definition SetSystemLoadLevelState :: "i32 \<Rightarrow> supervisor \<Rightarrow> supervisor" where
  "SetSystemLoadLevelState level s = s\<lparr>systemLoadLevel := level\<rparr>"

definition GetSystemLoadLevel :: "supervisor \<Rightarrow> i32" where
  "GetSystemLoadLevel s = systemLoadLevel s"

definition upd_app :: "i32 \<Rightarrow> (application \<Rightarrow> application) \<Rightarrow> supervisor \<Rightarrow> supervisor" where
  "upd_app uid f s =
     (case map_of (uidsMap s) uid of
        None \<Rightarrow> s
      | Some app \<Rightarrow> s\<lparr>uidsMap := om_put uid (f app) (uidsMap s)\<rparr>)"

text \<open>
  The application manager is a service of another repository: what it answers is a
  parameter, \<open>None\<close> when the proxy could not be obtained.  A running process is its uid,
  its pid and its bundle names; a child process is the uid and pid of its host and its
  own pid.
\<close>

record app_manager =
  all_running :: "(i32 \<times> i32 \<times> string list) list"
  all_children :: "(i32 \<times> i32 \<times> i32) list"

definition ReloadApplication_step :: "i32 \<times> i32 \<times> string list \<Rightarrow> supervisor \<Rightarrow> supervisor" where
  "ReloadApplication_step = (\<lambda>(uid, pid, bundleNames) s.
     upd_app uid (\<lambda>app. GetProcessRecordNonNull pid
         (if bundleNames \<noteq> [] then app_SetName (hd bundleNames) app else app))
       (GetAppRecordNonNull uid s))"

definition ReloadApplication :: "app_manager option \<Rightarrow> supervisor \<Rightarrow> supervisor" where
  "ReloadApplication am s =
     (case am of None \<Rightarrow> s | Some m \<Rightarrow> fold ReloadApplication_step (all_running m) s)"

definition ReloadChildProcess_step :: "i32 \<times> i32 \<times> i32 \<Rightarrow> supervisor \<Rightarrow> supervisor" where
  "ReloadChildProcess_step = (\<lambda>(hostUid, hostP, pid) s.
     upd_app hostUid (\<lambda>app.
         upd_proc pid (\<lambda>pr. pr\<lparr>processType := PRT_CHILD, hostPid := hostP\<rparr>)
           (GetProcessRecordNonNull pid (AddHostProcess hostP app)))
       (GetAppRecordNonNull hostUid s))"

definition ReloadChildProcess :: "app_manager option \<Rightarrow> supervisor \<Rightarrow> supervisor" where
  "ReloadChildProcess am s =
     (case am of None \<Rightarrow> s | Some m \<Rightarrow> fold ReloadChildProcess_step (all_children m) s)"

definition InitSuperVisorContent :: "app_manager option \<Rightarrow> supervisor \<Rightarrow> supervisor" where
  "InitSuperVisorContent am s = ReloadChildProcess am (ReloadApplication am s)"

end
