(* ===== verification/Supervisor_Facts.thy ===== *)
theory Supervisor_Facts
  imports Supervisor_Model
begin

text \<open>
  The invariant of the supervisor's cache and the laws of its operations.  Applications
  and process records are two more instances of the keyed-store contract of the prelude;
  the \<open>Get...NonNull\<close> functions are its derived \<open>ensure\<close>, writes through a pointer its
  \<open>alter\<close>.
\<close>

section \<open>The invariant\<close>

definition proc_ok :: "u32 \<Rightarrow> i32 \<Rightarrow> process_record \<Rightarrow> bool" where
  "proc_ok uid pid pr \<longleftrightarrow>
     pr_uid pr = uid \<and> pr_pid pr = pid \<and>
     distinct (map ai_recordId (abilities pr)) \<and> distinct (map windowId (windows pr)) \<and>
     om_ok (runningLockState pr) \<and> om_ok (avCodecState pr) \<and> om_ok (keyThreadRoleMap pr) \<and>
     distinct (map fst (abilityIdAndContinuousTaskFlagMap pr))"

definition focus_ok :: "application \<Rightarrow> bool" where
  "focus_ok app \<longleftrightarrow>
     (\<forall>p. focusedProcess app = Some p \<longrightarrow> map_of (pidsMap app) p \<noteq> None)"

definition app_ok :: "i32 \<Rightarrow> application \<Rightarrow> bool" where
  "app_ok uid app \<longleftrightarrow>
     app_uid app = word_of_int uid \<and> om_ok (pidsMap app) \<and> focus_ok app \<and>
     (\<forall>pid pr. map_of (pidsMap app) pid = Some pr \<longrightarrow> proc_ok (word_of_int uid) pid pr)"

definition sup_ok :: "supervisor \<Rightarrow> bool" where
  "sup_ok s \<longleftrightarrow>
     om_ok (uidsMap s) \<and> (\<forall>uid app. map_of (uidsMap s) uid = Some app \<longrightarrow> app_ok uid app)"

named_theorems ok_intros \<open>operations that keep the supervisor's invariant\<close>

section \<open>Process records\<close>

lemma ProcessRecord_ok [ok_intros]: "proc_ok u p (ProcessRecord u p)"
  by (simp add: proc_ok_def ProcessRecord_def)

lemma pr_SetName_ok [ok_intros]: "proc_ok u p pr \<Longrightarrow> proc_ok u p (pr_SetName name pr)"
  by (simp add: proc_ok_def pr_SetName_def)

lemma GetAbilityInfoNonNull_ok [ok_intros]:
  "proc_ok u p pr \<Longrightarrow> proc_ok u p (GetAbilityInfoNonNull r pr)"
  using find_Some_iff_key[of ai_recordId r "abilities pr"]
  by (auto simp: proc_ok_def GetAbilityInfoNonNull_def AbilityInfo_def split: option.splits)

lemma GetWindowInfoNonNull_ok [ok_intros]:
  "proc_ok u p pr \<Longrightarrow> proc_ok u p (GetWindowInfoNonNull w pr)"
  using find_Some_iff_key[of windowId w "windows pr"]
  by (auto simp: proc_ok_def GetWindowInfoNonNull_def WindowInfo_def split: option.splits)

lemma upd_ability_ok [ok_intros]:
  "(\<And>a. ai_recordId (f a) = ai_recordId a) \<Longrightarrow> proc_ok u p pr \<Longrightarrow> proc_ok u p (upd_ability r f pr)"
  by (simp add: proc_ok_def upd_ability_def update_first_map_key)

lemma upd_window_ok [ok_intros]:
  "(\<And>a. windowId (f a) = windowId a) \<Longrightarrow> proc_ok u p pr \<Longrightarrow> proc_ok u p (upd_window w f pr)"
  by (simp add: proc_ok_def upd_window_def update_first_map_key)

lemma distinct_map_erase_first: "distinct (map f xs) \<Longrightarrow> distinct (map f (erase_first P xs))"
  by (induction xs) (use erase_first_set in fastforce)+

lemma RemoveAbility_ok [ok_intros]:
  "proc_ok u p pr \<Longrightarrow> proc_ok u p (RemoveAbilityByRecordId r pr)"
  by (simp add: proc_ok_def RemoveAbilityByRecordId_def distinct_map_erase_first)

lemma proc_ok_frame:
  "proc_ok u p pr \<Longrightarrow> pr_uid pr' = pr_uid pr \<Longrightarrow> pr_pid pr' = pr_pid pr \<Longrightarrow>
   abilities pr' = abilities pr \<Longrightarrow> windows pr' = windows pr \<Longrightarrow>
   runningLockState pr' = runningLockState pr \<Longrightarrow> avCodecState pr' = avCodecState pr \<Longrightarrow>
   keyThreadRoleMap pr' = keyThreadRoleMap pr \<Longrightarrow>
   abilityIdAndContinuousTaskFlagMap pr' = abilityIdAndContinuousTaskFlagMap pr \<Longrightarrow>
   proc_ok u p pr'"
  by (simp add: proc_ok_def)

text \<open>After \<open>GetAbilityInfoNonNull\<close> there is exactly one ability with the id, the old one if any.\<close>

lemma GetAbilityInfoNonNull_lookup:
  "GetAbilityInfo r' (GetAbilityInfoNonNull r pr) =
     (case GetAbilityInfo r' pr of
        Some a \<Rightarrow> Some a
      | None \<Rightarrow> if r' = r then Some (AbilityInfo r) else None)"
  by (auto simp: GetAbilityInfo_def GetAbilityInfoNonNull_def AbilityInfo_def find_snoc
      split: option.splits)

lemma RemoveAbility_HasAbility:
  assumes "proc_ok u p pr"
  shows "HasAbility r' (RemoveAbilityByRecordId r pr) \<longleftrightarrow> r' \<noteq> r \<and> HasAbility r' pr"
proof -
  have "distinct (abilities pr)"
    using assms by (auto simp: proc_ok_def distinct_map)
  moreover have "x = y" if "x \<in> set (abilities pr)" "y \<in> set (abilities pr)"
    "ai_recordId x = r" "ai_recordId y = r" for x y
    using assms that by (auto simp: proc_ok_def distinct_map inj_on_def)
  ultimately have "erase_first (\<lambda>a. ai_recordId a = r) (abilities pr) =
      filter (\<lambda>a. \<not> ai_recordId a = r) (abilities pr)"
    by (intro erase_first_filter) auto
  then show ?thesis
    by (auto simp: HasAbility_def RemoveAbilityByRecordId_def list_ex_iff)
qed

section \<open>Applications\<close>

lemma Application_ok [ok_intros]: "app_ok uid (Application uid)"
  by (simp add: app_ok_def focus_ok_def Application_def)

lemma app_SetName_ok [ok_intros]: "app_ok uid app \<Longrightarrow> app_ok uid (app_SetName name app)"
  by (simp add: app_ok_def focus_ok_def app_SetName_def)

lemma AddHostProcess_ok [ok_intros]: "app_ok uid app \<Longrightarrow> app_ok uid (AddHostProcess p app)"
  by (simp add: app_ok_def focus_ok_def AddHostProcess_def)

lemma GetProcessRecordNonNull_ok [ok_intros]:
  "app_ok uid app \<Longrightarrow> app_ok uid (GetProcessRecordNonNull pid app)"
  by (auto simp: app_ok_def focus_ok_def GetProcessRecordNonNull_def ProcessRecord_ok
      split: option.splits)

lemma RemoveProcessRecord_ok [ok_intros]:
  "app_ok uid app \<Longrightarrow> app_ok uid (RemoveProcessRecord pid app)"
  by (auto simp: app_ok_def focus_ok_def RemoveProcessRecord_def Let_def split: option.splits)

lemma upd_proc_ok [ok_intros]:
  "app_ok uid app \<Longrightarrow> (\<And>pr. proc_ok (word_of_int uid) pid pr \<Longrightarrow> proc_ok (word_of_int uid) pid (f pr)) \<Longrightarrow>
   app_ok uid (upd_proc pid f app)"
  by (auto simp: app_ok_def focus_ok_def upd_proc_def split: option.splits)

lemma AddProcessRecord_ok [ok_intros]:
  "app_ok uid app \<Longrightarrow> proc_ok (word_of_int uid) (pr_pid pr) pr \<Longrightarrow> app_ok uid (AddProcessRecord pr app)"
  by (auto simp: app_ok_def focus_ok_def AddProcessRecord_def split: option.splits)

lemma focus_write_ok [ok_intros]:
  "app_ok uid app \<Longrightarrow> map_of (pidsMap app) pid \<noteq> None \<Longrightarrow> app_ok uid (app\<lparr>focusedProcess := Some pid\<rparr>)"
  "app_ok uid app \<Longrightarrow> app_ok uid (app\<lparr>focusedProcess := None\<rparr>)"
  by (auto simp: app_ok_def focus_ok_def)

lemma cosmic_write_ok [ok_intros]:
  "app_ok uid app \<Longrightarrow> app_ok uid (app\<lparr>isCosmicCubeStateHide := b\<rparr>)"
  by (simp add: app_ok_def focus_ok_def)

lemma app_okD:
  assumes "app_ok uid app"
  shows "app_uid app = word_of_int uid" "om_ok (pidsMap app)" "focus_ok app"
    "map_of (pidsMap app) pid = Some pr \<Longrightarrow> proc_ok (word_of_int uid) pid pr"
  using assms by (auto simp: app_ok_def)

text \<open>The processes of an application under their pids, as a keyed store.\<close>

definition put_proc :: "i32 \<Rightarrow> process_record \<Rightarrow> application \<Rightarrow> application" where
  "put_proc pid pr app = app\<lparr>pidsMap := om_put pid pr (pidsMap app)\<rparr>"

lemma RemoveProcessRecord_lookup [store_simps]:
  "map_of (pidsMap (RemoveProcessRecord pid app)) p = (if p = pid then None else map_of (pidsMap app) p)"
  by (auto simp: RemoveProcessRecord_def Let_def split: option.splits)

interpretation proc_store: keyed_store "Application 0" "\<lambda>app pid. map_of (pidsMap app) pid"
    put_proc RemoveProcessRecord "\<lambda>app. om_ok (pidsMap app)"
proof unfold_locales
  fix s :: application and k k' :: i32 and v :: process_record
  assume ok: "om_ok (pidsMap s)"
  then show "om_ok (pidsMap (put_proc k v s))" by (simp add: put_proc_def)
  from ok show "om_ok (pidsMap (RemoveProcessRecord k s))"
    by (simp add: RemoveProcessRecord_def Let_def split: option.splits)
  show "map_of (pidsMap (put_proc k v s)) k' = (if k' = k then Some v else map_of (pidsMap s) k')"
    by (simp add: put_proc_def)
  show "map_of (pidsMap (RemoveProcessRecord k s)) k' = (if k' = k then None else map_of (pidsMap s) k')"
    by (rule RemoveProcessRecord_lookup)
qed (simp_all add: Application_def)

lemma GetProcessRecordNonNull_ensure:
  "GetProcessRecordNonNull pid app = proc_store.ensure (ProcessRecord (app_uid app)) pid app"
  by (simp add: GetProcessRecordNonNull_def proc_store.ensure_def put_proc_def split: option.splits)

lemma upd_proc_alter: "upd_proc pid f app = proc_store.alter pid f app"
  by (simp add: upd_proc_def proc_store.alter_def put_proc_def split: option.splits)

lemma GetProcessRecordNonNull_lookup [store_simps]:
  "map_of (pidsMap (GetProcessRecordNonNull pid app)) p =
     (if p = pid then Some (case map_of (pidsMap app) pid of
                              Some pr \<Rightarrow> pr | None \<Rightarrow> ProcessRecord (app_uid app) pid)
      else map_of (pidsMap app) p)"
  by (auto simp: GetProcessRecordNonNull_def split: option.splits)

lemma upd_proc_lookup [store_simps]:
  "map_of (pidsMap (upd_proc pid f app)) p =
     (if p = pid then map_option f (map_of (pidsMap app) pid) else map_of (pidsMap app) p)"
  by (auto simp: upd_proc_def split: option.splits)

lemma upd_proc_fields [simp]:
  "focusedProcess (upd_proc pid f app) = focusedProcess app"
  "hostPidsSet (upd_proc pid f app) = hostPidsSet app"
  "app_name (upd_proc pid f app) = app_name app"
  "app_uid (upd_proc pid f app) = app_uid app"
  "isCosmicCubeStateHide (upd_proc pid f app) = isCosmicCubeStateHide app"
  by (simp_all add: upd_proc_def split: option.splits)

lemma om_put_fst_keep:
  "om_ok m \<Longrightarrow> map_of m k = Some v \<Longrightarrow> map fst (om_put k w m) = map fst m"
proof (induction k w m rule: om_put.induct)
  case (1 k w)
  then show ?case by simp
next
  case (2 k w a b m)
  show ?case
  proof (cases "k = a")
    case True
    then show ?thesis by simp
  next
    case False
    with 2(3) have l: "map_of m k = Some v" by simp
    then have "k \<in> fst ` set m" by (force dest: map_of_SomeD)
    with 2(2) have "a < k" by (auto simp: om_ok_Cons)
    with 2 l show ?thesis by (auto simp: om_ok_Cons)
  qed
qed

lemma upd_proc_pids:
  "om_ok (pidsMap app) \<Longrightarrow> map fst (pidsMap (upd_proc pid f app)) = map fst (pidsMap app)"
  by (auto simp: upd_proc_def om_put_fst_keep split: option.splits)

section \<open>The supervisor\<close>

lemma Supervisor_ok: "sup_ok Supervisor"
  by (simp add: sup_ok_def Supervisor_def)

lemma GetAppRecordNonNull_ok [ok_intros]: "sup_ok s \<Longrightarrow> sup_ok (GetAppRecordNonNull uid s)"
  by (auto simp: sup_ok_def GetAppRecordNonNull_def Application_ok split: option.splits)

lemma RemoveApplication_ok [ok_intros]: "sup_ok s \<Longrightarrow> sup_ok (RemoveApplication uid s)"
  by (auto simp: sup_ok_def RemoveApplication_def split: option.splits)

lemma upd_app_ok [ok_intros]:
  "sup_ok s \<Longrightarrow> (\<And>app. map_of (uidsMap s) uid = Some app \<Longrightarrow> app_ok uid app \<Longrightarrow> app_ok uid (f app)) \<Longrightarrow>
   sup_ok (upd_app uid f s)"
  by (auto simp: sup_ok_def upd_app_def split: option.splits)

lemma sup_fields_ok [ok_intros]:
  "sup_ok s \<Longrightarrow> sup_ok (s\<lparr>sceneBoardUidPid := b\<rparr>)" "sup_ok s \<Longrightarrow> sup_ok (SetSystemLoadLevelState l s)"
  by (auto simp: sup_ok_def SetSystemLoadLevelState_def)

lemma sup_okD: "sup_ok s \<Longrightarrow> map_of (uidsMap s) uid = Some app \<Longrightarrow> app_ok uid app"
  by (auto simp: sup_ok_def)

definition put_app :: "i32 \<Rightarrow> application \<Rightarrow> supervisor \<Rightarrow> supervisor" where
  "put_app uid app s = s\<lparr>uidsMap := om_put uid app (uidsMap s)\<rparr>"

lemma RemoveApplication_lookup [store_simps]:
  "map_of (uidsMap (RemoveApplication uid s)) u = (if u = uid then None else map_of (uidsMap s) u)"
  by (auto simp: RemoveApplication_def split: option.splits)

interpretation app_store: keyed_store Supervisor "\<lambda>s uid. map_of (uidsMap s) uid"
    put_app RemoveApplication "\<lambda>s. om_ok (uidsMap s)"
proof unfold_locales
  fix s :: supervisor and k k' :: i32 and v :: application
  assume ok: "om_ok (uidsMap s)"
  then show "om_ok (uidsMap (put_app k v s))" by (simp add: put_app_def)
  from ok show "om_ok (uidsMap (RemoveApplication k s))"
    by (simp add: RemoveApplication_def split: option.splits)
  show "map_of (uidsMap (put_app k v s)) k' = (if k' = k then Some v else map_of (uidsMap s) k')"
    by (simp add: put_app_def)
  show "map_of (uidsMap (RemoveApplication k s)) k' = (if k' = k then None else map_of (uidsMap s) k')"
    by (rule RemoveApplication_lookup)
qed (simp_all add: Supervisor_def)

lemma GetAppRecordNonNull_ensure:
  "GetAppRecordNonNull uid s = app_store.ensure Application uid s"
  by (simp add: GetAppRecordNonNull_def app_store.ensure_def put_app_def split: option.splits)

lemma upd_app_alter: "upd_app uid f s = app_store.alter uid f s"
  by (simp add: upd_app_def app_store.alter_def put_app_def split: option.splits)

lemma GetAppRecordNonNull_lookup [store_simps]:
  "map_of (uidsMap (GetAppRecordNonNull uid s)) u =
     (if u = uid then Some (case map_of (uidsMap s) uid of Some a \<Rightarrow> a | None \<Rightarrow> Application uid)
      else map_of (uidsMap s) u)"
  by (auto simp: GetAppRecordNonNull_def split: option.splits)

lemma upd_app_lookup [store_simps]:
  "map_of (uidsMap (upd_app uid f s)) u =
     (if u = uid then map_option f (map_of (uidsMap s) uid) else map_of (uidsMap s) u)"
  by (auto simp: upd_app_def split: option.splits)

lemma sup_frame [simp]:
  "sceneBoardUidPid (upd_app uid f s) = sceneBoardUidPid s"
  "sceneBoardUidPid (GetAppRecordNonNull uid s) = sceneBoardUidPid s"
  "sceneBoardUidPid (RemoveApplication uid s) = sceneBoardUidPid s"
  "systemLoadLevel (upd_app uid f s) = systemLoadLevel s"
  by (simp_all add: upd_app_def GetAppRecordNonNull_def RemoveApplication_def split: option.splits)

section \<open>Looking up a process record by uid and pid\<close>

definition proc_at :: "supervisor \<Rightarrow> i32 \<Rightarrow> i32 \<Rightarrow> process_record option" where
  "proc_at s uid pid =
     (case GetAppRecord uid s of None \<Rightarrow> None | Some app \<Rightarrow> GetProcessRecord pid app)"

lemma proc_at_ok: "sup_ok s \<Longrightarrow> proc_at s uid pid = Some pr \<Longrightarrow> proc_ok (word_of_int uid) pid pr"
  by (auto simp: proc_at_def GetAppRecord_def GetProcessRecord_def split: option.splits
      dest: sup_okD intro: app_okD(4))

lemma find_omap_Some:
  "find (\<lambda>(k, v). P k v) m = Some (k, v) \<Longrightarrow> (k, v) \<in> set m \<and> P k v"
  by (induction m) (auto split: if_splits)

lemma find_omap_None: "find (\<lambda>(k, v). P k v) m = None \<longleftrightarrow> (\<forall>(k, v) \<in> set m. \<not> P k v)"
  by (auto simp: find_None_iff)

lemma FindProcessRecord_loop_spec:
  "om_ok m \<Longrightarrow>
   (case FindProcessRecord_loop pid m of
      None \<Rightarrow> \<forall>uid app. map_of m uid = Some app \<longrightarrow> map_of (pidsMap app) pid = None
    | Some (uid, p) \<Rightarrow> p = pid \<and> (\<exists>app. map_of m uid = Some app \<and> map_of (pidsMap app) pid \<noteq> None) \<and>
        (\<forall>u app. map_of m u = Some app \<longrightarrow> map_of (pidsMap app) pid \<noteq> None \<longrightarrow> uid \<le> u))"
proof (induction pid m rule: FindProcessRecord_loop.induct)
  case (1 pid)
  then show ?case by simp
next
  case (2 pid uid app m)
  have keys: "uid < u" if "map_of m u = Some a" for u a
    using that 2(2) by (force simp: om_ok_Cons dest: map_of_SomeD)
  from 2(2) have ok: "om_ok m" by (simp add: om_ok_Cons)
  show ?case
  proof (cases "map_of (pidsMap app) pid")
    case None
    with 2(1)[OF _ ok] keys show ?thesis
      by (auto simp: GetProcessRecord_def split: option.splits)
  next
    case (Some pr)
    with keys show ?thesis by (auto simp: GetProcessRecord_def dest: less_imp_le)
  qed
qed

section \<open>Reloading\<close>

lemma reload_step_ok: "sup_ok s \<Longrightarrow> sup_ok (ReloadApplication_step p s)"
  by (cases p) (auto simp: ReloadApplication_step_def intro!: ok_intros)

lemma reload_child_step_ok: "sup_ok s \<Longrightarrow> sup_ok (ReloadChildProcess_step p s)"
  by (cases p) (auto simp: ReloadChildProcess_step_def intro!: ok_intros elim: proc_ok_frame)

lemma InitSuperVisorContent_ok [ok_intros]: "sup_ok s \<Longrightarrow> sup_ok (InitSuperVisorContent am s)"
  by (auto simp: InitSuperVisorContent_def ReloadApplication_def ReloadChildProcess_def
      intro: fold_inv reload_step_ok reload_child_step_ok split: option.splits)

end
