(* ===== verification/Adjuster_Model.thy ===== *)
theory Adjuster_Model
  imports Supervisor_Facts Json_Payload Res_Type
begin

text \<open>
  \<open>CgroupAdjuster\<close> of sched_controller/cgroup_adjuster.cpp, with the file-path helper of
  utils/ressched_utils.cpp.  A record is addressed by its pid in the application; what the
  code sends out of the plugin is appended to a history of outputs.

  Parameters (\<open>cg_env\<close>): the result of moving a process to a group, which may depend on
  everything sent before; the file system behind \<open>/dev/pids\<close>; and the arbitration function
  of libcgroup_sched_ext.z.so, which receives the application and the record by reference
  and may change them (\<open>None\<close> where the library is not loaded).
\<close>

section \<open>Data\<close>

datatype adjust_source =
    ADJS_FG_APP_CHANGE | ADJS_ABILITY_STATE | ADJS_EXTENSION_STATE | ADJS_PROCESS_CREATE
  | ADJS_TRANSIENT_BEGIN | ADJS_TRANSIENT_END | ADJS_CONTINUOUS_BEGIN | ADJS_CONTINUOUS_END
  | ADJS_FOCUSED_WINDOW | ADJS_UNFOCUSED_WINDOW | ADJS_WINDOW_VISIBILITY_CHANGED
  | ADJS_REPORT_IMPORTANT_DISPLAY_THREAD | ADJS_SELF_RENDER_THREAD
  | ADJS_REPORT_WINDOW_STATE_CHANGED | ADJS_REPORT_AUDIO_STATE_CHANGED
  | ADJS_REPORT_WEBVIEW_AUDIO_STATE_CHANGED | ADJS_REPORT_ENTER_NAP | ADJS_REPORT_EXIT_NAP
  | ADJS_PROCESS_STATE | ADJS_REPORT_SCREEN_CAPTURE | ADJS_REPORT_WEBVIEW_SCREEN_CAPTURE
  | ADJS_REPORT_WEBVIEW_ENTER_NAP | ADJS_SYSTEMLOAD_LEVEL_CHANGED | ADJS_APP_PRELOAD
  | ADJS_CALCULATE_AGAIN | ADJS_APP_KEEP_ALIVE | ADJS_SERVICE_EXTENSION_CONNETCED_STATE
  | ADJS_SERVICE_EXTENSION_UPDATE_STATE | ADJS_SCREEN_STATUS
  | ADJS_EFFICIENCY_RESOURCES_STATE_CHANGED | ADJS_UIEXTENSION_PRELOAD | ADJS_END | ADJS_UPLIMIT

text \<open>
  What leaves the plugin: a group written for a pid, a report to the arbitration library,
  a system event and a caller event for a process (by uid and pid), data reported into
  the service.
\<close>

datatype cg_out =
    OutPolicy i32 sched_policy
  | OutArbitration u32 i32 adjust_source
  | OutSysEvent u32 i32 u32 i32
  | OutCallerEvent u32 i32 i32
  | OutData u32 i64 json

record cg_env =
  fwk :: app_exec_fwk
  set_policy :: "cg_out list \<Rightarrow> i32 \<Rightarrow> sched_policy \<Rightarrow> int"
  ext_arbitrate :: "(application \<Rightarrow> i32 \<Rightarrow> adjust_source \<Rightarrow> application) option"
  ext_sys_event :: "(application \<Rightarrow> i32 \<Rightarrow> u32 \<Rightarrow> i32 \<Rightarrow> application) option"
  ext_caller_event :: "(application \<Rightarrow> i32 \<Rightarrow> i32 \<Rightarrow> application) option"
  realpath :: "string \<Rightarrow> string option"
  read_file :: "string \<Rightarrow> string option"
  tid_in_pid :: "i32 \<Rightarrow> i32 \<Rightarrow> bool"
  bundle_name_of_uid :: "i32 \<Rightarrow> string"
  app_mgr :: "app_manager option"
  running_locks :: "(i32 \<times> i32 \<times> u32) list option"
  proximity_lock_type :: u32
  app_mgr_service_id :: i32
  power_manager_service_id :: i32

section \<open>ressched\_utils.cpp\<close>

definition UID_TRANSFORM_DIVISOR :: int where "UID_TRANSFORM_DIVISOR = 200000"

definition process_file_path :: "i32 \<Rightarrow> string \<Rightarrow> i32 \<Rightarrow> string" where
  "process_file_path uid bundleName pid =
     ''/dev/pids/'' @ to_string (uid div UID_TRANSFORM_DIVISOR) @ ''/'' @ bundleName @
     ''/app_'' @ to_string pid @ ''/cgroup.procs''"

definition GetProcessFilePath :: "cg_env \<Rightarrow> i32 \<Rightarrow> string \<Rightarrow> i32 \<Rightarrow> string" where
  "GetProcessFilePath E uid bundleName pid =
     (if uid < 0 \<or> pid < 0 then []
      else (case realpath E (process_file_path uid bundleName pid) of
              None \<Rightarrow> [] | Some p \<Rightarrow> p))"

text \<open>
  \<open>ReportArbitrationResult\<close>: the history records the call, the library may change the
  application.
\<close>

definition ReportArbitrationResult ::
    "cg_env \<Rightarrow> i32 \<Rightarrow> adjust_source \<Rightarrow> application \<times> cg_out list \<Rightarrow> application \<times> cg_out list" where
  "ReportArbitrationResult E pid src = (\<lambda>(app, outs).
     (case ext_arbitrate E of
        None \<Rightarrow> (app, outs)
      | Some f \<Rightarrow> (f app pid src, outs @ [OutArbitration (app_uid app) pid src])))"

section \<open>cgroup\_adjuster.cpp\<close>

definition MAX_SIZE :: nat where "MAX_SIZE = 4096"

text \<open>\<open>strtok\<close> with the separator newline: the non-empty pieces up to the first NUL.\<close>

fun split_lines :: "string \<Rightarrow> string \<Rightarrow> string list" where
  "split_lines acc [] = (if acc = [] then [] else [rev acc])"
| "split_lines acc (c # cs) =
     (if code_of c = 10
      then (if acc = [] then split_lines [] cs else rev acc # split_lines [] cs)
      else split_lines (c # acc) cs)"

definition strtok_lines :: "string \<Rightarrow> string list" where
  "strtok_lines s = split_lines [] (c_str s)"

text \<open>One line of cgroup.procs: a forked process follows the group of its parent.\<close>

definition fork_line :: "i32 \<Rightarrow> sched_policy \<Rightarrow> string \<Rightarrow> cg_out list \<Rightarrow> cg_out list" where
  "fork_line pid grp line outs =
     (let forkPid = atoi line in
      if forkPid = 0 then outs
      else if forkPid \<noteq> pid then outs @ [OutPolicy forkPid grp]
      else outs)"

text \<open>
  \<open>open\<close> fails on the empty path.  At most \<open>MAX_SIZE\<close> bytes are read; a file of that size
  or more leaves the buffer without a terminating NUL, and \<open>strtok\<close> then reads past its end:
  the model stops at the buffer's end.
\<close>

definition AdjustForkProcessGroup ::
    "cg_env \<Rightarrow> application \<Rightarrow> process_record \<Rightarrow> cg_out list \<Rightarrow> cg_out list" where
  "AdjustForkProcessGroup E app pr outs =
     (let filePath = GetProcessFilePath E (wrap_s32 (uint (app_uid app))) (app_name app) (pr_pid pr) in
      case (if filePath = [] then None else read_file E filePath) of
        None \<Rightarrow> outs
      | Some content \<Rightarrow>
          fold (fork_line (pr_pid pr) (curSchedGroup pr)) (strtok_lines (take MAX_SIZE content)) outs)"

definition ComputeGroup ::
    "app_exec_fwk \<Rightarrow> application \<Rightarrow> process_record \<Rightarrow> adjust_source \<Rightarrow> sched_policy" where
  "ComputeGroup F app pr src =
     (if processType pr = PRT_RENDER then
        (case GetProcessRecord (hostPid pr) app of
           Some host \<Rightarrow> curSchedGroup host | None \<Rightarrow> SP_DEFAULT)
      else if src = ADJS_PROCESS_CREATE then SP_DEFAULT
      else if focusedProcess app = Some (pr_pid pr) then SP_TOP_APP
      else if abilities pr = [] then
        (if processState pr = APP_STATE_BACKGROUND F then SP_BACKGROUND else SP_DEFAULT)
      else if IsVisible pr then SP_FOREGROUND
      else if HasServiceExtension F pr then
        (if processState pr = APP_STATE_BACKGROUND F then SP_BACKGROUND else SP_DEFAULT)
      else if processState pr = APP_STATE_BACKGROUND F then SP_BACKGROUND
      else if processState pr = APP_STATE_FOREGROUND F then SP_FOREGROUND
      else SP_DEFAULT)"

definition ComputeProcessGroup ::
    "app_exec_fwk \<Rightarrow> i32 \<Rightarrow> adjust_source \<Rightarrow> application \<Rightarrow> application" where
  "ComputeProcessGroup F pid src app =
     upd_proc pid (\<lambda>pr. pr\<lparr>setSchedGroup := ComputeGroup F app pr src\<rparr>) app"

definition adjuster_payload :: "application \<Rightarrow> process_record \<Rightarrow> json" where
  "adjuster_payload app pr = JObj
     [(''pid'', JStr (to_string (pr_pid pr))),
      (''uid'', JStr (to_string (uint (pr_uid pr)))),
      (''name'', JStr (app_name app)),
      (''oldGroup'', JStr (to_string (sint (lastSchedGroup pr)))),
      (''newGroup'', JStr (to_string (sint (curSchedGroup pr))))]"

definition ApplyProcessGroup ::
    "cg_env \<Rightarrow> i32 \<Rightarrow> application \<times> cg_out list \<Rightarrow> application \<times> cg_out list" where
  "ApplyProcessGroup E pid = (\<lambda>(app, outs).
     (case GetProcessRecord pid app of
        None \<Rightarrow> (app, outs)
      | Some pr \<Rightarrow>
          if curSchedGroup pr \<noteq> setSchedGroup pr then
            (let ret = set_policy E outs (pr_pid pr) (setSchedGroup pr);
                 outs1 = outs @ [OutPolicy (pr_pid pr) (setSchedGroup pr)]
             in if ret \<noteq> 0 then (app, outs1)
                else
                  (let pr1 = pr\<lparr>lastSchedGroup := curSchedGroup pr,
                                curSchedGroup := setSchedGroup pr\<rparr>;
                       outs2 = outs1 @ [OutData RES_TYPE_CGROUP_ADJUSTER 0 (adjuster_payload app pr1)]
                   in (upd_proc pid (\<lambda>_. pr1) app, AdjustForkProcessGroup E app pr1 outs2)))
          else (app, outs)))"

definition is_child_type :: "i32 \<Rightarrow> bool" where
  "is_child_type t \<longleftrightarrow> t = PRT_RENDER \<or> t = PRT_GPU \<or> t = PRT_CHILD"

text \<open>One process of the loop that lets render, gpu and child processes follow the host.\<close>

definition follow_host ::
    "cg_env \<Rightarrow> i32 \<Rightarrow> i32 \<Rightarrow> application \<times> cg_out list \<Rightarrow> application \<times> cg_out list" where
  "follow_host E pid p = (\<lambda>(app, outs).
     (case GetProcessRecord p app of
        None \<Rightarrow> (app, outs)
      | Some procRecord \<Rightarrow>
          if is_child_type (processType procRecord) then
            (case GetProcessRecord (hostPid procRecord) app of
               None \<Rightarrow> (app, outs)
             | Some host \<Rightarrow>
                 if hostPid procRecord \<noteq> pid then (app, outs)
                 else
                   (let st1 = (upd_proc p (\<lambda>r. r\<lparr>setSchedGroup := curSchedGroup host\<rparr>) app, outs);
                        st2 = (if processType procRecord = PRT_RENDER \<or>
                                  (processType procRecord = PRT_GPU \<and> curSchedGroup host = SP_TOP_APP)
                               then ReportArbitrationResult E p ADJS_SELF_RENDER_THREAD st1
                               else st1)
                    in ApplyProcessGroup E p st2))
          else (app, outs)))"

definition AdjustProcessGroup ::
    "cg_env \<Rightarrow> i32 \<Rightarrow> adjust_source \<Rightarrow> application \<times> cg_out list \<Rightarrow> application \<times> cg_out list" where
  "AdjustProcessGroup E pid src = (\<lambda>(app, outs).
     (let st1 = (ComputeProcessGroup (fwk E) pid src app, outs);
          st2 = ReportArbitrationResult E pid src st1;
          st3 = ApplyProcessGroup E pid st2
      in if \<not> IsHostProcess pid (fst st3) then st3
         else fold (follow_host E pid) (map fst (pidsMap (fst st3))) st3))"

definition adjust_one ::
    "cg_env \<Rightarrow> adjust_source \<Rightarrow> i32 \<Rightarrow> application \<times> cg_out list \<Rightarrow> application \<times> cg_out list" where
  "adjust_one E src p = (\<lambda>(app, outs).
     (case GetProcessRecord p app of
        None \<Rightarrow> (app, outs)
      | Some pr \<Rightarrow>
          if \<not> is_child_type (processType pr) then AdjustProcessGroup E p src (app, outs)
          else (app, outs)))"

definition AdjustAllProcessGroup ::
    "cg_env \<Rightarrow> adjust_source \<Rightarrow> application \<times> cg_out list \<Rightarrow> application \<times> cg_out list" where
  "AdjustAllProcessGroup E src = (\<lambda>(app, outs).
     fold (adjust_one E src) (map fst (pidsMap app)) (app, outs))"

definition AdjustSelfProcessGroup :: "i32 \<Rightarrow> cg_out list \<Rightarrow> cg_out list" where
  "AdjustSelfProcessGroup self outs = outs @ [OutPolicy self SP_FOREGROUND]"

end
