(* ===== verification/Adjuster_Facts.thy ===== *)
theory Adjuster_Facts
  imports Adjuster_Model
begin

text \<open>
  What the adjuster keeps and what it achieves: the invariant of the application under
  every adjustment; with a kernel that accepts the groups, the group each process ends up
  in after one process, its dependants, or all processes were adjusted.
\<close>

section \<open>Hypotheses about the parameters\<close>

text \<open>The kernel accepts every group.\<close>

definition accepts :: "cg_env \<Rightarrow> bool" where
  "accepts E \<longleftrightarrow> (\<forall>outs pid g. set_policy E outs pid g = 0)"

section \<open>Only scheduling fields change\<close>

text \<open>
  \<open>sched_only app app'\<close>: the same application up to the last, current and next group and
  the policy description of its processes.
\<close>

definition same_but_sched :: "process_record \<Rightarrow> process_record \<Rightarrow> bool" where
  "same_but_sched pr pr' \<longleftrightarrow>
     pr' = pr\<lparr>lastSchedGroup := lastSchedGroup pr', curSchedGroup := curSchedGroup pr',
              setSchedGroup := setSchedGroup pr', policyDescription := policyDescription pr'\<rparr>"

definition sched_only :: "application \<Rightarrow> application \<Rightarrow> bool" where
  "sched_only app app' \<longleftrightarrow>
     app' = app\<lparr>pidsMap := pidsMap app'\<rparr> \<and>
     map fst (pidsMap app') = map fst (pidsMap app) \<and>
     (\<forall>p pr. map_of (pidsMap app) p = Some pr \<longrightarrow>
        (\<exists>pr'. map_of (pidsMap app') p = Some pr' \<and> same_but_sched pr pr')) \<and>
     (\<forall>p. map_of (pidsMap app) p = None \<longrightarrow> map_of (pidsMap app') p = None)"

text \<open>
  The extension library gets the application and the record by reference, on an arbitration, a system event
  and a caller event.  The hypothesis on it: it may set the groups and the policy description of any process
  of the application, and leaves everything else as it is.
\<close>

definition arbitration_ok :: "cg_env \<Rightarrow> bool" where
  "arbitration_ok E \<longleftrightarrow> (\<forall>f app pid src. ext_arbitrate E = Some f \<and> om_ok (pidsMap app) \<longrightarrow> sched_only app (f app pid src))"

definition ext_ok :: "cg_env \<Rightarrow> bool" where
  "ext_ok E \<longleftrightarrow> arbitration_ok E \<and>
     (\<forall>f app pid t v. ext_sys_event E = Some f \<and> om_ok (pidsMap app) \<longrightarrow> sched_only app (f app pid t v)) \<and>
     (\<forall>f app pid c. ext_caller_event E = Some f \<and> om_ok (pidsMap app) \<longrightarrow> sched_only app (f app pid c))"

lemma ext_okD:
  assumes "ext_ok E"
  shows "arbitration_ok E"
    "ext_sys_event E = Some f \<Longrightarrow> om_ok (pidsMap app) \<Longrightarrow> sched_only app (f app pid t v)"
    "ext_caller_event E = Some g \<Longrightarrow> om_ok (pidsMap app) \<Longrightarrow> sched_only app (g app pid c)"
  using assms by (auto simp: ext_ok_def)

lemma same_but_sched_refl [simp]: "same_but_sched pr pr"
  by (simp add: same_but_sched_def)

lemma same_but_sched_trans:
  "same_but_sched a b \<Longrightarrow> same_but_sched b c \<Longrightarrow> same_but_sched a c"
  unfolding same_but_sched_def by (cases a; cases b; cases c) simp

lemma same_but_sched_upd:
  "same_but_sched pr (pr\<lparr>setSchedGroup := g\<rparr>)"
  "same_but_sched pr (pr\<lparr>setSchedGroup := g, policyDescription := d\<rparr>)"
  "same_but_sched pr (pr\<lparr>lastSchedGroup := l, curSchedGroup := c\<rparr>)"
  unfolding same_but_sched_def by (cases pr; simp)+

lemma same_but_sched_proc_ok: "same_but_sched pr pr' \<Longrightarrow> proc_ok u p pr \<Longrightarrow> proc_ok u p pr'"
  unfolding same_but_sched_def proc_ok_def by (cases pr; cases pr') simp

lemma same_but_sched_fields:
  assumes "same_but_sched pr pr'"
  shows "processType pr' = processType pr" "hostPid pr' = hostPid pr" "pr_pid pr' = pr_pid pr"
    "pr_uid pr' = pr_uid pr" "abilities pr' = abilities pr" "windows pr' = windows pr"
    "processState pr' = processState pr"
  using assms unfolding same_but_sched_def by (cases pr; cases pr'; simp)+

lemma sched_only_refl [simp]: "sched_only app app"
  by (simp add: sched_only_def)

lemma sched_onlyD:
  assumes "sched_only app app'"
  shows "app' = app\<lparr>pidsMap := pidsMap app'\<rparr>" "map fst (pidsMap app') = map fst (pidsMap app)"
    "map_of (pidsMap app) p = Some pr \<Longrightarrow>
       \<exists>pr'. map_of (pidsMap app') p = Some pr' \<and> same_but_sched pr pr'"
    "map_of (pidsMap app) p = None \<Longrightarrow> map_of (pidsMap app') p = None"
  using assms unfolding sched_only_def by blast+

lemma sched_only_trans:
  assumes "sched_only a b" "sched_only b c"
  shows "sched_only a c"
  unfolding sched_only_def
proof (intro conjI allI impI)
  show "c = a\<lparr>pidsMap := pidsMap c\<rparr>"
    using sched_onlyD(1)[OF assms(1)] sched_onlyD(1)[OF assms(2)]
    by (cases a; cases b; cases c) simp
  show "map fst (pidsMap c) = map fst (pidsMap a)"
    using sched_onlyD(2)[OF assms(1)] sched_onlyD(2)[OF assms(2)] by simp
  show "\<exists>pr'. map_of (pidsMap c) p = Some pr' \<and> same_but_sched pr pr'"
    if "map_of (pidsMap a) p = Some pr" for p pr
    using sched_onlyD(3)[OF assms(1) that] sched_onlyD(3)[OF assms(2)] same_but_sched_trans by blast
  show "map_of (pidsMap c) p = None" if "map_of (pidsMap a) p = None" for p
    using sched_onlyD(4)[OF assms(1) that] sched_onlyD(4)[OF assms(2)] by blast
qed

lemma sched_only_upd:
  assumes "om_ok (pidsMap app)" "\<And>pr. same_but_sched pr (f pr)"
  shows "sched_only app (upd_proc pid f app)"
proof -
  have "upd_proc pid f app = app\<lparr>pidsMap := pidsMap (upd_proc pid f app)\<rparr>"
    by (cases app) (simp add: upd_proc_def split: option.splits)
  then show ?thesis
    using assms by (simp add: sched_only_def upd_proc_pids store_simps)
qed

lemma sched_only_keys: "sched_only app app' \<Longrightarrow> om_ok (pidsMap app) \<Longrightarrow> om_ok (pidsMap app')"
  by (simp add: sched_only_def om_ok_def)

lemma sched_only_fields:
  assumes "sched_only app app'"
  shows "focusedProcess app' = focusedProcess app" "hostPidsSet app' = hostPidsSet app"
    "app_uid app' = app_uid app" "app_name app' = app_name app"
    "isCosmicCubeStateHide app' = isCosmicCubeStateHide app"
  using assms unfolding sched_only_def by (cases app; cases app'; simp)+

lemma sched_only_rev:
  assumes "sched_only app app'" "map_of (pidsMap app') p = Some pr'"
  shows "\<exists>pr. map_of (pidsMap app) p = Some pr \<and> same_but_sched pr pr'"
proof (cases "map_of (pidsMap app) p")
  case None
  with sched_onlyD(4)[OF assms(1)] assms(2) show ?thesis by simp
next
  case (Some pr)
  with sched_onlyD(3)[OF assms(1) Some] assms(2) show ?thesis by auto
qed

lemma sched_only_None:
  "sched_only app app' \<Longrightarrow> map_of (pidsMap app) p = None \<longleftrightarrow> map_of (pidsMap app') p = None"
  using sched_onlyD(3,4)[of app app' p] sched_only_rev[of app app' p]
  by (cases "map_of (pidsMap app) p"; cases "map_of (pidsMap app') p") auto

lemma sched_only_app_ok:
  assumes "sched_only app app'" "app_ok uid app"
  shows "app_ok uid app'"
proof -
  have "proc_ok (word_of_int uid) p pr'" if "map_of (pidsMap app') p = Some pr'" for p pr'
    using sched_only_rev[OF assms(1) that] assms(2) same_but_sched_proc_ok app_okD(4) by blast
  moreover have "focus_ok app'"
    using assms app_okD(3)[OF assms(2)] sched_only_None[OF assms(1)]
    by (auto simp: focus_ok_def sched_only_fields)
  ultimately show ?thesis
    using assms sched_only_keys[OF assms(1)] by (auto simp: app_ok_def sched_only_fields)
qed

text \<open>Each operation of the adjuster changes scheduling fields only.\<close>

lemma Report_sched_only:
  assumes "arbitration_ok E" "om_ok (pidsMap app)"
  shows "sched_only app (fst (ReportArbitrationResult E pid src (app, outs)))"
  using assms by (auto simp: ReportArbitrationResult_def arbitration_ok_def split: option.split)

lemma Apply_sched_only:
  assumes "om_ok (pidsMap app)"
  shows "sched_only app (fst (ApplyProcessGroup E pid (app, outs)))"
proof -
  have "sched_only app (upd_proc pid (\<lambda>_. pr\<lparr>lastSchedGroup := l, curSchedGroup := c\<rparr>) app)"
    if pr: "map_of (pidsMap app) pid = Some pr" for pr l c
  proof -
    have "upd_proc pid (\<lambda>_. pr\<lparr>lastSchedGroup := l, curSchedGroup := c\<rparr>) app =
        upd_proc pid (\<lambda>r. r\<lparr>lastSchedGroup := l, curSchedGroup := c\<rparr>) app"
      using pr by (simp add: upd_proc_def)
    with assms show ?thesis by (simp add: sched_only_upd same_but_sched_upd)
  qed
  then show ?thesis
    by (auto simp: ApplyProcessGroup_def GetProcessRecord_def Let_def split: option.splits)
qed

lemma follow_host_sched_only:
  assumes E: "arbitration_ok E" and ok: "om_ok (pidsMap app)"
  shows "sched_only app (fst (follow_host E pid p (app, outs)))"
proof (cases "map_of (pidsMap app) p")
  case None
  then show ?thesis by (simp add: follow_host_def GetProcessRecord_def)
next
  case (Some pr)
  show ?thesis
  proof (cases "is_child_type (processType pr) \<and> hostPid pr = pid \<and> map_of (pidsMap app) pid \<noteq> None")
    case False
    with Some show ?thesis
      by (auto simp: follow_host_def GetProcessRecord_def split: option.splits)
  next
    case True
    then obtain host where h: "map_of (pidsMap app) pid = Some host" by blast
    define a1 where "a1 = upd_proc p (\<lambda>r. r\<lparr>setSchedGroup := curSchedGroup host\<rparr>) app"
    have s1: "sched_only app a1" unfolding a1_def using ok by (simp add: sched_only_upd same_but_sched_upd)
    have ok1: "om_ok (pidsMap a1)" using sched_only_keys[OF s1 ok] .
    define st2 where "st2 = (if processType pr = PRT_RENDER \<or>
        (processType pr = PRT_GPU \<and> curSchedGroup host = SP_TOP_APP)
        then ReportArbitrationResult E p ADJS_SELF_RENDER_THREAD (a1, outs) else (a1, outs))"
    have s2: "sched_only a1 (fst st2)"
      using Report_sched_only[OF E ok1] by (simp add: st2_def)
    obtain a2 o2 where st2: "st2 = (a2, o2)" by (cases st2)
    have s3: "sched_only a2 (fst (ApplyProcessGroup E p (a2, o2)))"
      using Apply_sched_only sched_only_keys[OF s2 ok1] st2 by simp
    have "follow_host E pid p (app, outs) = ApplyProcessGroup E p st2"
      using Some True h by (simp add: follow_host_def GetProcessRecord_def st2_def a1_def Let_def)
    then show ?thesis using s1 s2 s3 st2 by (metis fst_conv sched_only_trans)
  qed
qed

lemma fold_sched_only:
  assumes "\<And>p st. om_ok (pidsMap (fst st)) \<Longrightarrow> sched_only (fst st) (fst (f p st))"
    and "om_ok (pidsMap (fst st))"
  shows "sched_only (fst st) (fst (fold f ps st))"
  using assms(2)
proof (induction ps arbitrary: st)
  case Nil
  then show ?case by simp
next
  case (Cons p ps)
  from assms(1)[OF Cons.prems] have s: "sched_only (fst st) (fst (f p st))" .
  then have "om_ok (pidsMap (fst (f p st)))" using sched_only_keys Cons.prems by blast
  from Cons.IH[OF this] s show ?case by (simp add: sched_only_trans[OF s])
qed

lemma Adjust_sched_only:
  assumes "arbitration_ok E" "om_ok (pidsMap (fst st))"
  shows "sched_only (fst st) (fst (AdjustProcessGroup E pid src st))"
proof -
  obtain app outs where st: "st = (app, outs)" by (cases st)
  with assms have ok: "om_ok (pidsMap app)" by simp
  define a1 where "a1 = ComputeProcessGroup (fwk E) pid src app"
  have s1: "sched_only app a1"
    unfolding a1_def ComputeProcessGroup_def using ok by (simp add: sched_only_upd same_but_sched_upd)
  obtain a2 o2 where st2: "ReportArbitrationResult E pid src (a1, outs) = (a2, o2)"
    by (cases "ReportArbitrationResult E pid src (a1, outs)")
  have s2: "sched_only a1 a2"
    using Report_sched_only[OF assms(1) sched_only_keys[OF s1 ok], of pid src outs] st2 by simp
  obtain a3 o3 where st3: "ApplyProcessGroup E pid (a2, o2) = (a3, o3)"
    by (cases "ApplyProcessGroup E pid (a2, o2)")
  have s3: "sched_only a2 a3"
    using Apply_sched_only[OF sched_only_keys[OF s2 sched_only_keys[OF s1 ok]], of E pid o2] st3 by simp
  have s: "sched_only app a3" using s1 s2 s3 sched_only_trans by blast
  have "sched_only a3 (fst (fold (follow_host E pid) ps (a3, o3)))" for ps
    using fold_sched_only[of "follow_host E pid" "(a3, o3)" ps] follow_host_sched_only[OF assms(1)]
      sched_only_keys[OF s ok] by (metis fst_conv prod.collapse)
  from sched_only_trans[OF s this] s show ?thesis
    using st st2 st3 by (simp add: AdjustProcessGroup_def a1_def Let_def)
qed

lemma AdjustAll_sched_only:
  assumes "arbitration_ok E" "om_ok (pidsMap (fst st))"
  shows "sched_only (fst st) (fst (AdjustAllProcessGroup E src st))"
proof -
  have "sched_only (fst st) (fst (adjust_one E src p st))" if "om_ok (pidsMap (fst st))" for p st
    using Adjust_sched_only[OF assms(1) that, of p src]
    by (cases st) (auto simp: adjust_one_def split: option.splits)
  from fold_sched_only[OF this assms(2)] show ?thesis
    by (cases st) (simp add: AdjustAllProcessGroup_def)
qed

text \<open>An adjustment keeps the invariant of the application.\<close>

lemma Adjust_app_ok:
  "arbitration_ok E \<Longrightarrow> app_ok uid (fst st) \<Longrightarrow> app_ok uid (fst (AdjustProcessGroup E pid src st))"
  using Adjust_sched_only sched_only_app_ok app_okD(2) by blast

lemma AdjustAll_app_ok:
  "arbitration_ok E \<Longrightarrow> app_ok uid (fst st) \<Longrightarrow> app_ok uid (fst (AdjustAllProcessGroup E src st))"
  using AdjustAll_sched_only sched_only_app_ok app_okD(2) by blast

section \<open>The groups reached when the kernel accepts them\<close>

text \<open>What \<open>ApplyProcessGroup\<close> does to the record once the group was accepted.\<close>

definition settle :: "process_record \<Rightarrow> process_record" where
  "settle pr = (if curSchedGroup pr \<noteq> setSchedGroup pr
     then pr\<lparr>lastSchedGroup := curSchedGroup pr, curSchedGroup := setSchedGroup pr\<rparr> else pr)"

lemma settle_cur [simp]: "curSchedGroup (settle pr) = setSchedGroup pr"
  by (simp add: settle_def)

lemma settle_same: "same_but_sched pr (settle pr)"
  by (simp add: settle_def same_but_sched_upd)

lemma upd_proc_id: "om_ok (pidsMap app) \<Longrightarrow> upd_proc pid (\<lambda>pr. pr) app = app"
  by (cases app) (auto simp: upd_proc_def om_put_same split: option.splits)

lemma upd_proc_cong:
  "(\<And>pr. map_of (pidsMap app) pid = Some pr \<Longrightarrow> f pr = g pr) \<Longrightarrow> upd_proc pid f app = upd_proc pid g app"
  by (simp add: upd_proc_def split: option.splits)

text \<open>A refused group leaves the application as it was.\<close>

lemma Apply_refused:
  assumes "GetProcessRecord pid app = Some pr" "curSchedGroup pr \<noteq> setSchedGroup pr"
    "set_policy E outs (pr_pid pr) (setSchedGroup pr) \<noteq> 0"
  shows "ApplyProcessGroup E pid (app, outs) = (app, outs @ [OutPolicy (pr_pid pr) (setSchedGroup pr)])"
  using assms by (simp add: ApplyProcessGroup_def)

lemma Apply_accepted:
  assumes "accepts E" "om_ok (pidsMap app)"
  shows "fst (ApplyProcessGroup E pid (app, outs)) = upd_proc pid settle app"
proof (cases "map_of (pidsMap app) pid")
  case None
  then show ?thesis by (simp add: ApplyProcessGroup_def GetProcessRecord_def upd_proc_def)
next
  case (Some pr)
  show ?thesis
  proof (cases "curSchedGroup pr = setSchedGroup pr")
    case True
    with Some have "upd_proc pid settle app = upd_proc pid (\<lambda>pr. pr) app"
      by (intro upd_proc_cong) (simp add: settle_def)
    with Some True assms(2) show ?thesis
      by (simp add: ApplyProcessGroup_def GetProcessRecord_def upd_proc_id)
  next
    case False
    with Some assms(1) show ?thesis
      by (simp add: ApplyProcessGroup_def GetProcessRecord_def accepts_def Let_def upd_proc_def settle_def)
  qed
qed

text \<open>The processes that follow \<open>pid\<close>.\<close>

definition follows :: "i32 \<Rightarrow> process_record \<Rightarrow> bool" where
  "follows pid r \<longleftrightarrow> is_child_type (processType r) \<and> hostPid r = pid"

lemma follow_host_accepted:
  assumes "accepts E" "ext_arbitrate E = None" "om_ok (pidsMap app)"
    "map_of (pidsMap app) pid = Some h"
  shows "fst (follow_host E pid p (app, outs)) =
    upd_proc p (\<lambda>r. if follows pid r then settle (r\<lparr>setSchedGroup := curSchedGroup h\<rparr>) else r) app"
    (is "_ = upd_proc p ?f app")
proof (cases "map_of (pidsMap app) p")
  case None
  then show ?thesis by (simp add: follow_host_def GetProcessRecord_def upd_proc_def)
next
  case (Some r)
  show ?thesis
  proof (cases "follows pid r")
    case False
    with Some have "upd_proc p ?f app = upd_proc p (\<lambda>r. r) app" by (intro upd_proc_cong) simp
    with False Some assms(3) show ?thesis
      by (auto simp: follow_host_def GetProcessRecord_def follows_def upd_proc_id split: option.splits)
  next
    case True
    let ?a = "upd_proc p (\<lambda>r. r\<lparr>setSchedGroup := curSchedGroup h\<rparr>) app"
    have "om_ok (pidsMap ?a)" using assms(3) by (simp add: om_ok_def upd_proc_pids)
    then have "fst (follow_host E pid p (app, outs)) = upd_proc p settle ?a"
      using True Some assms
      by (simp add: follow_host_def GetProcessRecord_def follows_def ReportArbitrationResult_def
          Apply_accepted Let_def)
    also have "\<dots> = upd_proc p (\<lambda>r. settle (r\<lparr>setSchedGroup := curSchedGroup h\<rparr>)) app"
      using Some by (simp add: upd_proc_def)
    also have "\<dots> = upd_proc p ?f app" using True Some by (intro upd_proc_cong) simp
    finally show ?thesis .
  qed
qed

lemma fold_follow_host:
  assumes "accepts E" "ext_arbitrate E = None"
  shows "om_ok (pidsMap app) \<Longrightarrow> map_of (pidsMap app) pid = Some h \<Longrightarrow> distinct ps \<Longrightarrow>
    \<exists>outs' app'. fold (follow_host E pid) ps (app, outs) = (app', outs') \<and>
      focusedProcess app' = focusedProcess app \<and>
      (\<forall>q. map_of (pidsMap app') q =
        map_option (\<lambda>r. if q \<in> set ps \<and> follows pid r
                        then settle (r\<lparr>setSchedGroup := curSchedGroup h\<rparr>) else r)
          (map_of (pidsMap app) q))"
proof (induction ps arbitrary: app outs h)
  case Nil
  then show ?case by (simp add: option.map_id0[unfolded id_def, THEN fun_cong])
next
  case (Cons p ps)
  let ?f = "\<lambda>r. if follows pid r then settle (r\<lparr>setSchedGroup := curSchedGroup h\<rparr>) else r"
  obtain a1 o1 where st1: "follow_host E pid p (app, outs) = (a1, o1)"
    by (cases "follow_host E pid p (app, outs)")
  have a1: "a1 = upd_proc p ?f app"
    using follow_host_accepted[OF assms Cons.prems(1,2), of p outs] st1 by simp
  have ok1: "om_ok (pidsMap a1)" using Cons.prems(1) by (simp add: a1 om_ok_def upd_proc_pids)
  obtain h1 where h1: "map_of (pidsMap a1) pid = Some h1" "curSchedGroup h1 = curSchedGroup h"
    using Cons.prems(2) that
    by (cases "pid = p"; cases "follows pid h") (auto simp: a1 store_simps)
  from Cons.prems(3) have "distinct ps" by simp
  from Cons.IH[OF ok1 h1(1) this, of o1] obtain outs' app' where
    f: "fold (follow_host E pid) ps (a1, o1) = (app', outs')"
    "focusedProcess app' = focusedProcess a1"
    "\<And>q. map_of (pidsMap app') q =
        map_option (\<lambda>r. if q \<in> set ps \<and> follows pid r
                        then settle (r\<lparr>setSchedGroup := curSchedGroup h1\<rparr>) else r)
          (map_of (pidsMap a1) q)" by auto
  have "map_of (pidsMap app') q =
        map_option (\<lambda>r. if q \<in> set (p # ps) \<and> follows pid r
                        then settle (r\<lparr>setSchedGroup := curSchedGroup h\<rparr>) else r)
          (map_of (pidsMap app) q)" for q
    using Cons.prems(3) unfolding f(3) h1(2) a1
    by (cases "map_of (pidsMap app) q") (auto simp: store_simps)
  with f(1,2) show ?case by (auto simp: st1 a1)
qed

text \<open>
  The record a process has after it was adjusted, and the one a dependant has.
\<close>

definition adjusted :: "app_exec_fwk \<Rightarrow> application \<Rightarrow> adjust_source \<Rightarrow> process_record \<Rightarrow> process_record" where
  "adjusted F app src pr = settle (pr\<lparr>setSchedGroup := ComputeGroup F app pr src\<rparr>)"

lemma adjusted_cur [simp]: "curSchedGroup (adjusted F app src pr) = ComputeGroup F app pr src"
  by (simp add: adjusted_def)

lemma adjusted_same: "same_but_sched pr (adjusted F app src pr)"
  unfolding adjusted_def using settle_same same_but_sched_upd same_but_sched_trans by blast

lemma adjusted_follows [simp]: "follows p (adjusted F app src pr) = follows p pr"
  using same_but_sched_fields[OF adjusted_same] by (simp add: follows_def)

lemma om_ok_key_set: "map_of m q = Some v \<Longrightarrow> q \<in> set (map fst m)"
  by (force dest: map_of_SomeD)

lemma Adjust_accepted:
  assumes "accepts E" "ext_arbitrate E = None" "om_ok (pidsMap app)"
    "map_of (pidsMap app) pid = Some pr"
  obtains app' outs' where "AdjustProcessGroup E pid src (app, outs) = (app', outs')"
    "sched_only app app'"
    "map_of (pidsMap app') pid =
       Some (if IsHostProcess pid app \<and> follows pid pr
             then settle ((adjusted (fwk E) app src pr)\<lparr>setSchedGroup := ComputeGroup (fwk E) app pr src\<rparr>)
             else adjusted (fwk E) app src pr)"
    "\<forall>q. q \<noteq> pid \<longrightarrow> map_of (pidsMap app') q =
       map_option (\<lambda>r. if IsHostProcess pid app \<and> follows pid r
                       then settle (r\<lparr>setSchedGroup := ComputeGroup (fwk E) app pr src\<rparr>) else r)
         (map_of (pidsMap app) q)"
proof -
  let ?g = "ComputeGroup (fwk E) app pr src"
  have ext: "arbitration_ok E" using assms(2) by (simp add: arbitration_ok_def)
  define a1 where "a1 = ComputeProcessGroup (fwk E) pid src app"
  have ok1: "om_ok (pidsMap a1)"
    using assms(3) by (simp add: a1_def ComputeProcessGroup_def om_ok_def upd_proc_pids)
  obtain a2 o2 where st2: "ApplyProcessGroup E pid (a1, outs) = (a2, o2)"
    by (cases "ApplyProcessGroup E pid (a1, outs)")
  have a2: "a2 = upd_proc pid settle a1"
    using Apply_accepted[OF assms(1) ok1, of pid outs] st2 by simp
  have l2: "map_of (pidsMap a2) q =
      (if q = pid then Some (adjusted (fwk E) app src pr) else map_of (pidsMap app) q)" for q
    using assms(4) by (simp add: a2 a1_def ComputeProcessGroup_def store_simps adjusted_def)
  have host2: "IsHostProcess pid a2 = IsHostProcess pid app"
    by (simp add: a2 a1_def ComputeProcessGroup_def IsHostProcess_def)
  have ok2: "om_ok (pidsMap a2)" using ok1 by (simp add: a2 om_ok_def upd_proc_pids)
  have so: "sched_only app (fst (AdjustProcessGroup E pid src (app, outs)))"
    using Adjust_sched_only[OF ext, of "(app, outs)"] assms(3) by simp
  have adj: "AdjustProcessGroup E pid src (app, outs) =
     (if \<not> IsHostProcess pid app then (a2, o2)
      else fold (follow_host E pid) (map fst (pidsMap a2)) (a2, o2))"
    using assms(2) host2 st2
    by (simp add: AdjustProcessGroup_def a1_def ReportArbitrationResult_def Let_def)
  show ?thesis
  proof (cases "IsHostProcess pid app")
    case False
    show ?thesis
    proof (rule that)
      show "AdjustProcessGroup E pid src (app, outs) = (a2, o2)" using adj False by simp
      then show "sched_only app a2" using so by simp
    qed (use False l2 in \<open>auto simp: option.map_ident\<close>)
  next
    case True
    have "map_of (pidsMap a2) pid = Some (adjusted (fwk E) app src pr)" using l2 by simp
    from fold_follow_host[OF assms(1,2) ok2 this om_ok_distinct[OF ok2], of o2, unfolded adjusted_cur]
    obtain o3 a3 where f: "fold (follow_host E pid) (map fst (pidsMap a2)) (a2, o2) = (a3, o3)"
      "\<And>q. map_of (pidsMap a3) q =
        map_option (\<lambda>r. if q \<in> set (map fst (pidsMap a2)) \<and> follows pid r
                        then settle (r\<lparr>setSchedGroup := ?g\<rparr>) else r)
          (map_of (pidsMap a2) q)" by auto
    have l3: "map_of (pidsMap a3) q =
        map_option (\<lambda>r. if follows pid r then settle (r\<lparr>setSchedGroup := ?g\<rparr>) else r)
          (map_of (pidsMap a2) q)" for q
      using om_ok_key_set[of "pidsMap a2" q] unfolding f(2)
      by (cases "map_of (pidsMap a2) q") auto
    show ?thesis
    proof (rule that)
      show "AdjustProcessGroup E pid src (app, outs) = (a3, o3)" using adj True f(1) by simp
      then show "sched_only app a3" using so by simp
    qed (use True l2 l3 in auto)
  qed
qed

section \<open>All processes of an application\<close>

lemma ComputeGroup_stable:
  assumes "same_but_sched pr pr'" "focusedProcess app' = focusedProcess app"
    "\<not> is_child_type (processType pr)"
  shows "ComputeGroup F app' pr' src = ComputeGroup F app pr src"
proof -
  note f = same_but_sched_fields[OF assms(1)]
  have "IsVisible pr' = IsVisible pr" "HasServiceExtension F pr' = HasServiceExtension F pr"
    using f by (simp_all add: IsVisible_def HasServiceExtension_def)
  with assms f show ?thesis by (simp add: ComputeGroup_def is_child_type_def)
qed

lemma child_type_stable: "same_but_sched pr pr' \<Longrightarrow> is_child_type (processType pr') = is_child_type (processType pr)"
  by (simp add: same_but_sched_fields)

text \<open>One step of the loop, on the processes that are no render, gpu or child process.\<close>

lemma adjust_one_accepted:
  assumes "accepts E" "ext_arbitrate E = None" "om_ok (pidsMap app)"
    and r: "map_of (pidsMap app) q = Some r" and nc: "\<not> is_child_type (processType r)"
  obtains app' outs' where "adjust_one E src p (app, outs) = (app', outs')" "sched_only app app'"
    "map_of (pidsMap app') q = Some (if q = p then adjusted (fwk E) app src r else r)"
proof (cases "map_of (pidsMap app) p")
  case None
  with r have "q \<noteq> p" by auto
  with None r that show ?thesis by (simp add: adjust_one_def GetProcessRecord_def)
next
  case (Some pr)
  show ?thesis
  proof (cases "is_child_type (processType pr)")
    case True
    with Some r nc have "q \<noteq> p" by auto
    with True Some r that show ?thesis by (simp add: adjust_one_def GetProcessRecord_def)
  next
    case False
    from Adjust_accepted[OF assms(1,2,3) Some, of src outs]
    obtain app' outs' where a: "AdjustProcessGroup E p src (app, outs) = (app', outs')"
      "sched_only app app'"
      "map_of (pidsMap app') p =
         Some (if IsHostProcess p app \<and> follows p pr
               then settle ((adjusted (fwk E) app src pr)\<lparr>setSchedGroup := ComputeGroup (fwk E) app pr src\<rparr>)
               else adjusted (fwk E) app src pr)"
      "\<forall>q. q \<noteq> p \<longrightarrow> map_of (pidsMap app') q =
         map_option (\<lambda>r. if IsHostProcess p app \<and> follows p r
                         then settle (r\<lparr>setSchedGroup := ComputeGroup (fwk E) app pr src\<rparr>) else r)
           (map_of (pidsMap app) q)" .
    have "map_of (pidsMap app') q = Some (if q = p then adjusted (fwk E) app src r else r)"
      using a(3) a(4) r nc False Some by (cases "q = p") (auto simp: follows_def)
    with a(1,2) False Some that show ?thesis by (simp add: adjust_one_def GetProcessRecord_def)
  qed
qed

lemma fold_adjust_one:
  assumes "accepts E" "ext_arbitrate E = None"
  shows "om_ok (pidsMap app) \<Longrightarrow> distinct ps \<Longrightarrow>
    map_of (pidsMap app) q = Some r \<Longrightarrow> \<not> is_child_type (processType r) \<Longrightarrow>
    \<exists>app' outs' r'. fold (adjust_one E src) ps (app, outs) = (app', outs') \<and> sched_only app app' \<and>
      map_of (pidsMap app') q = Some r' \<and>
      (if q \<in> set ps then curSchedGroup r' = ComputeGroup (fwk E) app r src else r' = r)"
proof (induction ps arbitrary: app outs r)
  case Nil
  then show ?case by simp
next
  case (Cons p ps)
  from adjust_one_accepted[OF assms Cons.prems(1,3,4), of src p outs]
  obtain a1 o1 where a1: "adjust_one E src p (app, outs) = (a1, o1)" "sched_only app a1"
    "map_of (pidsMap a1) q = Some (if q = p then adjusted (fwk E) app src r else r)" .
  let ?r1 = "if q = p then adjusted (fwk E) app src r else r"
  have same: "same_but_sched r ?r1" using adjusted_same by simp
  have nc: "\<not> is_child_type (processType ?r1)"
    using Cons.prems(4) child_type_stable[OF same] by simp
  from Cons.prems(2) have "distinct ps" by simp
  from Cons.IH[OF sched_only_keys[OF a1(2) Cons.prems(1)] this a1(3) nc, of o1]
  obtain a2 o2 r2 where a2: "fold (adjust_one E src) ps (a1, o1) = (a2, o2)" "sched_only a1 a2"
    "map_of (pidsMap a2) q = Some r2"
    "if q \<in> set ps then curSchedGroup r2 = ComputeGroup (fwk E) a1 ?r1 src else r2 = ?r1" by blast
  have "ComputeGroup (fwk E) a1 ?r1 src = ComputeGroup (fwk E) app r src"
    by (rule ComputeGroup_stable[OF same sched_only_fields(1)[OF a1(2)] Cons.prems(4)])
  with a1 a2 Cons.prems(2) sched_only_trans[OF a1(2) a2(2)] show ?case
    by (auto split: if_splits)
qed

lemma AdjustAll_accepted:
  assumes "accepts E" "ext_arbitrate E = None" "om_ok (pidsMap app)"
    and "map_of (pidsMap app) q = Some r" "\<not> is_child_type (processType r)"
  obtains app' outs' r' where "AdjustAllProcessGroup E src (app, outs) = (app', outs')"
    "sched_only app app'" "map_of (pidsMap app') q = Some r'"
    "curSchedGroup r' = ComputeGroup (fwk E) app r src"
  using fold_adjust_one[OF assms(1,2,3) om_ok_distinct[OF assms(3)] assms(4,5), of src outs]
    om_ok_key_set[OF assms(4)] that
  by (auto simp: AdjustAllProcessGroup_def)

lemma ComputeGroup_top:
  assumes "src \<noteq> ADJS_PROCESS_CREATE" "processType pr \<noteq> PRT_RENDER"
  shows "ComputeGroup F app pr src = SP_TOP_APP \<longleftrightarrow> focusedProcess app = Some (pr_pid pr)"
  using assms by (simp add: ComputeGroup_def sched_policy_defs)

lemma top_app_is_focused_core:
  assumes "accepts E" "ext_arbitrate E = None" "app_ok uid app" "src \<noteq> ADJS_PROCESS_CREATE"
    "AdjustAllProcessGroup E src (app, outs) = (app', outs')"
    "GetProcessRecord q app' = Some r" "\<not> is_child_type (processType r)"
  shows "curSchedGroup r = SP_TOP_APP \<longleftrightarrow> focusedProcess app' = Some q"
proof -
  have ok: "om_ok (pidsMap app)" using app_okD(2)[OF assms(3)] .
  have ext: "arbitration_ok E" using assms(2) by (simp add: arbitration_ok_def)
  have so: "sched_only app app'"
    using AdjustAll_sched_only[OF ext, of "(app, outs)" src] ok assms(5) by simp
  from assms(6) have r: "map_of (pidsMap app') q = Some r" by (simp add: GetProcessRecord_def)
  from sched_only_rev[OF so r] obtain r0 where r0: "map_of (pidsMap app) q = Some r0"
    "same_but_sched r0 r" by blast
  have nc: "\<not> is_child_type (processType r0)" using assms(7) child_type_stable[OF r0(2)] by simp
  from AdjustAll_accepted[OF assms(1,2) ok r0(1) nc, of src outs]
  obtain a o' r' where "AdjustAllProcessGroup E src (app, outs) = (a, o')"
    "map_of (pidsMap a) q = Some r'" "curSchedGroup r' = ComputeGroup (fwk E) app r0 src" by blast
  then have "curSchedGroup r = ComputeGroup (fwk E) app r0 src" using assms(5) r by simp
  moreover have "pr_pid r0 = q" using app_okD(4)[OF assms(3) r0(1)] by (simp add: proc_ok_def)
  moreover have "processType r0 \<noteq> PRT_RENDER" using nc by (auto simp: is_child_type_def)
  ultimately show ?thesis
    using ComputeGroup_top[OF assms(4), of r0 "fwk E" app] sched_only_fields(1)[OF so] by simp
qed

section \<open>Properties\<close>



section \<open>A concrete plugin for the witnesses\<close>

definition demo_fwk :: app_exec_fwk where
  "demo_fwk = \<lparr>AT_SERVICE = 2, AT_EXTENSION = 4, AT_DATA = 3, ABILITY_STATE_CREATE = 0,
     ABILITY_STATE_BACKGROUND = 4, ABILITY_STATE_TERMINATED = 5, EXTENSION_STATE_TERMINATED = 4,
     APP_STATE_FOREGROUND = 2, APP_STATE_BACKGROUND = 4, APP_STATE_TERMINATED = 5,
     PT_RENDER = 2, PT_CHILD = 4, PT_GPU = 3, PT_EXTENSION = 1, PM_PRE_LAUNCH = 4\<rparr>"

definition demo_env :: cg_env where
  "demo_env = \<lparr>fwk = demo_fwk, set_policy = (\<lambda>_ _ _. 0), ext_arbitrate = None, ext_sys_event = None, ext_caller_event = None,
     realpath = (\<lambda>_. None), read_file = (\<lambda>_. None), tid_in_pid = (\<lambda>_ _. True),
     bundle_name_of_uid = (\<lambda>_. ''com.demo''), app_mgr = None, running_locks = None,
     proximity_lock_type = 2, app_mgr_service_id = 501, power_manager_service_id = 3301\<rparr>"

text \<open>An application with a focused process 10 that hosts the render process 11.\<close>

definition demo_app :: application where
  "demo_app = (Application 20010)\<lparr>focusedProcess := Some 10, hostPidsSet := {10},
     pidsMap := [(10, ProcessRecord 20010 10),
                 (11, (ProcessRecord 20010 11)\<lparr>processType := PRT_RENDER, hostPid := 10\<rparr>)]\<rparr>"

lemma demo_accepts: "accepts demo_env" "ext_arbitrate demo_env = None"
  by (simp_all add: accepts_def demo_env_def)

lemma demo_app_ok: "app_ok 20010 demo_app"
  by (auto simp: app_ok_def demo_app_def Application_def focus_ok_def proc_ok_def ProcessRecord_def
      om_ok_def split: if_splits)

definition demo_adjusted :: application where
  "demo_adjusted = fst (AdjustProcessGroup demo_env 10 ADJS_FOCUSED_WINDOW (demo_app, []))"

lemmas demo_simps = demo_app_def demo_env_def Application_def ProcessRecord_def
  AdjustProcessGroup_def ComputeProcessGroup_def ComputeGroup_def ReportArbitrationResult_def
  ApplyProcessGroup_def follow_host_def GetProcessRecord_def upd_proc_def IsHostProcess_def
  AdjustForkProcessGroup_def GetProcessFilePath_def is_child_type_def proc_type_defs Let_def
  sched_policy_defs


definition demo_adjusted_all :: application where
  "demo_adjusted_all = fst (AdjustAllProcessGroup demo_env ADJS_FOCUSED_WINDOW (demo_app, []))"


end
