(* ===== verification/Cgroup_Events.thy ===== *)
theory Cgroup_Events
  imports Adjuster_Facts "HOL-Library.Monad_Syntax"
begin

text \<open>
  The first half of \<open>CgroupEventHandler\<close> (sched_controller/cgroup_event_handler.cpp): the
  state it works on and the handlers of application, process, ability, task and window
  events.  All handlers run one after the other on one serial queue, so each is a function
  on the state.  \<open>supervisor_\<close> is set before the first event and never null here; trace and
  log output is left out.
\<close>

section \<open>State\<close>

text \<open>
  The supervisor, the outputs so far, and the delayed tasks under their names: a pending
  task remembers the event type and the process it will check.
\<close>

record cg_state =
  sup :: supervisor
  outs :: "cg_out list"
  delayTaskMap :: "(string \<times> u32 \<times> i32 \<times> i32) list"

definition cg_init :: cg_state where
  "cg_init = \<lparr>sup = Supervisor, outs = [], delayTaskMap = []\<rparr>"

definition ensure_app :: "i32 \<Rightarrow> cg_state \<Rightarrow> cg_state" where
  "ensure_app uid st = st\<lparr>sup := GetAppRecordNonNull uid (sup st)\<rparr>"

definition on_app :: "i32 \<Rightarrow> (application \<Rightarrow> application) \<Rightarrow> cg_state \<Rightarrow> cg_state" where
  "on_app uid f st = st\<lparr>sup := upd_app uid f (sup st)\<rparr>"

definition on_proc :: "i32 \<Rightarrow> i32 \<Rightarrow> (process_record \<Rightarrow> process_record) \<Rightarrow> cg_state \<Rightarrow> cg_state" where
  "on_proc uid pid f = on_app uid (upd_proc pid f)"

definition ensure_proc :: "i32 \<Rightarrow> i32 \<Rightarrow> cg_state \<Rightarrow> cg_state" where
  "ensure_proc uid pid st = on_app uid (GetProcessRecordNonNull pid) (ensure_app uid st)"

definition has_proc :: "i32 \<Rightarrow> i32 \<Rightarrow> cg_state \<Rightarrow> bool" where
  "has_proc uid pid st \<longleftrightarrow> proc_at (sup st) uid pid \<noteq> None"

definition adjust :: "cg_env \<Rightarrow> i32 \<Rightarrow> i32 \<Rightarrow> adjust_source \<Rightarrow> cg_state \<Rightarrow> cg_state" where
  "adjust E uid pid src st =
     (case GetAppRecord uid (sup st) of
        None \<Rightarrow> st
      | Some app \<Rightarrow>
          (let (app', outs') = AdjustProcessGroup E pid src (app, outs st)
           in st\<lparr>sup := upd_app uid (\<lambda>_. app') (sup st), outs := outs'\<rparr>))"

definition adjust_all :: "cg_env \<Rightarrow> i32 \<Rightarrow> adjust_source \<Rightarrow> cg_state \<Rightarrow> cg_state" where
  "adjust_all E uid src st =
     (case GetAppRecord uid (sup st) of
        None \<Rightarrow> st
      | Some app \<Rightarrow>
          (let (app', outs') = AdjustAllProcessGroup E src (app, outs st)
           in st\<lparr>sup := upd_app uid (\<lambda>_. app') (sup st), outs := outs'\<rparr>))"

text \<open>The library gets the application of the process by reference and may change it.\<close>

definition ReportSysEvent :: "cg_env \<Rightarrow> i32 \<Rightarrow> i32 \<Rightarrow> u32 \<Rightarrow> i32 \<Rightarrow> cg_state \<Rightarrow> cg_state" where
  "ReportSysEvent E uid pid resType state st =
     (case ext_sys_event E of
        None \<Rightarrow> st
      | Some f \<Rightarrow> on_app uid (\<lambda>app. f app pid resType state)
          (st\<lparr>outs := outs st @ [OutSysEvent (word_of_int uid) pid resType state]\<rparr>))"

definition ReportCallerEvent :: "cg_env \<Rightarrow> i32 \<Rightarrow> i32 \<Rightarrow> i32 \<Rightarrow> cg_state \<Rightarrow> cg_state" where
  "ReportCallerEvent E uid pid callerUid st =
     (case ext_caller_event E of
        None \<Rightarrow> st
      | Some f \<Rightarrow> on_app uid (\<lambda>app. f app pid callerUid)
          (st\<lparr>outs := outs st @ [OutCallerEvent (word_of_int uid) pid callerUid]\<rparr>))"

section \<open>Applications and processes\<close>

definition HandleApplicationStateChanged :: "cg_env \<Rightarrow> json \<Rightarrow> cg_state \<Rightarrow> cg_state" where
  "HandleApplicationStateChanged E payload st =
     (case (do {
          uid \<leftarrow> ParseValue ''uid'' payload; pid \<leftarrow> ParseValue ''pid'' payload;
          bundleName \<leftarrow> ParseString ''bundleName'' payload; state \<leftarrow> ParseValue ''state'' payload;
          Some (uid, bundleName, state) }) of
        None \<Rightarrow> st
      | Some (uid, bundleName, state) \<Rightarrow>
          if state = APP_STATE_TERMINATED (fwk E) then st
          else on_app uid (app_SetName bundleName) (ensure_app uid st))"

definition HandleProcessStateChanged :: "cg_env \<Rightarrow> json \<Rightarrow> cg_state \<Rightarrow> cg_state" where
  "HandleProcessStateChanged E payload st =
     (case (do {
          uid \<leftarrow> ParseValue ''uid'' payload; pid \<leftarrow> ParseValue ''pid'' payload;
          bundleName \<leftarrow> ParseString ''bundleName'' payload; state \<leftarrow> ParseValue ''state'' payload;
          Some (uid, pid, state) }) of
        None \<Rightarrow> st
      | Some (uid, pid, state) \<Rightarrow>
          (let preload = (case ParseValue ''preloadMode'' payload of Some m \<Rightarrow> m | None \<Rightarrow> -1);
               st1 = on_proc uid pid (\<lambda>pr. pr\<lparr>processState := state\<rparr>) (ensure_proc uid pid st)
           in if state = PROCESS_BACKGROUND \<and> preload = PM_PRE_LAUNCH (fwk E) then st1
              else adjust E uid pid ADJS_PROCESS_STATE
                     (on_proc uid pid (\<lambda>pr. pr\<lparr>preloadMode := preload\<rparr>) st1)))"

definition HandlePrelaunch :: "cg_env \<Rightarrow> i32 \<Rightarrow> i32 \<Rightarrow> bool" where
  "HandlePrelaunch E abilityState preload \<longleftrightarrow>
     (abilityState = ABILITY_STATE_CREATE (fwk E) \<or> abilityState = ABILITY_STATE_BACKGROUND (fwk E)) \<and>
     preload = PM_PRE_LAUNCH (fwk E)"

definition remove_ability :: "cg_env \<Rightarrow> i32 \<Rightarrow> i32 \<Rightarrow> i32 \<Rightarrow> adjust_source \<Rightarrow> cg_state \<Rightarrow> cg_state" where
  "remove_ability E uid pid recordId src st =
     (if has_proc uid pid st
      then adjust E uid pid src (on_proc uid pid (RemoveAbilityByRecordId recordId) st)
      else st)"

definition HandleAbilityTerminated :: "cg_env \<Rightarrow> i32 \<Rightarrow> i32 \<Rightarrow> i32 \<Rightarrow> cg_state \<Rightarrow> cg_state" where
  "HandleAbilityTerminated E uid pid recordId = remove_ability E uid pid recordId ADJS_ABILITY_STATE"

definition HandleExtensionStateChanged :: "cg_env \<Rightarrow> json \<Rightarrow> cg_state \<Rightarrow> cg_state" where
  "HandleExtensionStateChanged E payload st =
     (case (do {
          uid \<leftarrow> ParseValue ''uid'' payload; pid \<leftarrow> ParseValue ''pid'' payload;
          bundleName \<leftarrow> ParseString ''bundleName'' payload;
          abilityName \<leftarrow> ParseString ''abilityName'' payload;
          recordId \<leftarrow> ParseValue ''recordId'' payload;
          extensionState \<leftarrow> ParseValue ''extensionState'' payload;
          abilityType \<leftarrow> ParseValue ''abilityType'' payload;
          Some (uid, pid, bundleName, abilityName, recordId, extensionState, abilityType) }) of
        None \<Rightarrow> st
      | Some (uid, pid, bundleName, abilityName, recordId, extensionState, abilityType) \<Rightarrow>
          if extensionState = EXTENSION_STATE_TERMINATED (fwk E) then
            remove_ability E uid pid recordId ADJS_EXTENSION_STATE st
          else
            adjust E uid pid ADJS_EXTENSION_STATE
              (on_proc uid pid
                (\<lambda>pr. upd_ability recordId
                   (\<lambda>a. a\<lparr>ai_name := abilityName, ai_estate := extensionState, ai_type := abilityType\<rparr>)
                   (GetAbilityInfoNonNull recordId pr))
                (on_app uid (GetProcessRecordNonNull pid)
                  (on_app uid (app_SetName bundleName) (ensure_app uid st)))))"

text \<open>A ui extension's state travels under another key, as the text of a number.\<close>

definition HandleUIExtensionAbilityStateChange :: "cg_env \<Rightarrow> json \<Rightarrow> cg_state \<Rightarrow> cg_state" where
  "HandleUIExtensionAbilityStateChange E payload st =
     (case (ParseValue ''extensionAbilityType'' payload, ParseValue ''uiExtensionState'' payload) of
        (Some _, Some uiExtensionState) \<Rightarrow>
          HandleExtensionStateChanged E
            (set_member ''extensionState'' (JStr (to_string uiExtensionState)) payload) st
      | _ \<Rightarrow> st)"

definition ParseConfig :: "json \<Rightarrow>
    (i32 \<times> i32 \<times> string \<times> string \<times> i32 \<times> i32 \<times> i32 \<times> i32 \<times> i32) option" where
  "ParseConfig payload =
     do {
       uid \<leftarrow> ParseValue ''uid'' payload; pid \<leftarrow> ParseValue ''pid'' payload;
       bundleName \<leftarrow> ParseString ''bundleName'' payload;
       abilityName \<leftarrow> ParseString ''abilityName'' payload;
       recordId \<leftarrow> ParseValue ''recordId'' payload;
       callerUid \<leftarrow> ParseValue ''callerUid'' payload;
       abilityState \<leftarrow> ParseValue ''abilityState'' payload;
       abilityType \<leftarrow> ParseValue ''abilityType'' payload;
       Some (uid, pid, bundleName, abilityName, recordId, abilityState, abilityType, callerUid,
             case ParseValue ''preloadMode'' payload of Some m \<Rightarrow> m | None \<Rightarrow> -1) }"

definition HandleAbilityStateChanged :: "cg_env \<Rightarrow> json \<Rightarrow> cg_state \<Rightarrow> cg_state" where
  "HandleAbilityStateChanged E payload st =
     (case ParseConfig payload of
        None \<Rightarrow> st
      | Some (uid, pid, bundleName, abilityName, recordId, abilityState, abilityType, callerUid, preload) \<Rightarrow>
          if abilityType = AT_EXTENSION (fwk E) then HandleUIExtensionAbilityStateChange E payload st
          else if abilityState = ABILITY_STATE_TERMINATED (fwk E) then
            HandleAbilityTerminated E uid pid recordId st
          else if HandlePrelaunch E abilityState preload then st
          else
            (let st1 = on_app uid (GetProcessRecordNonNull pid)
                         (on_app uid (app_SetName bundleName) (ensure_app uid st));
                 st2 = on_proc uid pid
                         (\<lambda>pr. (upd_ability recordId
                            (\<lambda>a. a\<lparr>ai_name := abilityName, ai_state := abilityState, ai_type := abilityType\<rparr>)
                            (GetAbilityInfoNonNull recordId pr))\<lparr>preloadMode := preload\<rparr>) st1;
                 st3 = (if abilityState = 0 then ReportCallerEvent E uid pid callerUid st2 else st2)
             in adjust E uid pid ADJS_ABILITY_STATE st3))"

record process_create_info =
  ci_uid :: i32
  ci_pid :: i32
  ci_bundleName :: string
  ci_hostPid :: i32
  ci_extensionType :: i32
  ci_processType :: i32
  ci_preloadMode :: i32

definition ParseProcessCreateInfo :: "json \<Rightarrow> process_create_info option" where
  "ParseProcessCreateInfo payload =
     do {
       uid \<leftarrow> ParseValue ''uid'' payload; pid \<leftarrow> ParseValue ''pid'' payload;
       bundleName \<leftarrow> ParseString ''bundleName'' payload;
       hostP \<leftarrow> ParseValue ''hostPid'' payload;
       extType \<leftarrow> ParseValue ''extensionType'' payload;
       procType \<leftarrow> ParseValue ''processType'' payload;
       preload \<leftarrow> ParseValue ''preloadMode'' payload;
       Some \<lparr>ci_uid = uid, ci_pid = pid, ci_bundleName = bundleName, ci_hostPid = hostP,
             ci_extensionType = extType, ci_processType = procType, ci_preloadMode = preload\<rparr> }"

definition PRELOAD_SET :: "i32 set" where "PRELOAD_SET = {1, 2, 4}"

definition HandleProcessCreated :: "cg_env \<Rightarrow> json \<Rightarrow> cg_state \<Rightarrow> cg_state" where
  "HandleProcessCreated E payload st =
     (case ParseProcessCreateInfo payload of
        None \<Rightarrow> st
      | Some info \<Rightarrow>
          (let uid = ci_uid info; pid = ci_pid info; t = ci_processType info;
               st1 = on_app uid (app_SetName (ci_bundleName info)) (ensure_proc uid pid st);
               st2 = (case ParseString ''processName'' payload of
                        Some n \<Rightarrow> on_proc uid pid (pr_SetName n) st1
                      | None \<Rightarrow> st1);
               st3 = on_proc uid pid
                       (\<lambda>pr. pr\<lparr>processType := if t < PROC_RECORD_TYPE_MAX then t else PRT_NORMAL\<rparr>) st2;
               st4 = (if t = PT_RENDER (fwk E) \<or> t = PT_CHILD (fwk E) \<or> t = PT_GPU (fwk E) then
                        on_app uid (AddHostProcess (ci_hostPid info))
                          (on_proc uid pid (\<lambda>pr. pr\<lparr>hostPid := ci_hostPid info\<rparr>) st3)
                      else if t = PT_EXTENSION (fwk E) then
                        on_proc uid pid (\<lambda>pr. pr\<lparr>extensionType := ci_extensionType info\<rparr>) st3
                      else st3);
               st5 = on_proc uid pid (\<lambda>pr. pr\<lparr>preloadMode := ci_preloadMode info\<rparr>) st4;
               policy = (if ci_preloadMode info \<in> PRELOAD_SET then ADJS_APP_PRELOAD else ADJS_PROCESS_CREATE);
               policy' = (case ParseValue ''isPreloadUIExtension'' payload of
                            Some b \<Rightarrow> if b \<noteq> 0 then ADJS_UIEXTENSION_PRELOAD else policy
                          | None \<Rightarrow> policy)
           in adjust E uid pid policy' st5))"

definition HandleProcessDied :: "cg_env \<Rightarrow> json \<Rightarrow> cg_state \<Rightarrow> cg_state" where
  "HandleProcessDied E payload st =
     (case (do {
          uid \<leftarrow> ParseValue ''uid'' payload; pid \<leftarrow> ParseValue ''pid'' payload;
          bundleName \<leftarrow> ParseString ''bundleName'' payload;
          Some (uid, pid) }) of
        None \<Rightarrow> st
      | Some (uid, pid) \<Rightarrow>
          (case GetAppRecord uid (sup st) of
             None \<Rightarrow> st
           | Some _ \<Rightarrow>
               (let st1 = (if has_proc uid pid st
                           then ReportSysEvent E uid pid RES_TYPE_PROCESS_STATE_CHANGE (wrap_s32 PROCESS_DIED) st
                           else st);
                    s2 = (sup st1)\<lparr>sceneBoardUidPid := sceneBoardUidPid (sup st1) - {(uid, pid)}\<rparr>;
                    s3 = upd_app uid (RemoveProcessRecord pid) s2;
                    s4 = (case GetAppRecord uid s3 of
                            Some app \<Rightarrow> if pidsMap app = [] then RemoveApplication uid s3 else s3
                          | None \<Rightarrow> s3)
                in st1\<lparr>sup := s4\<rparr>)))"

definition HandleProcessStateChangedEx :: "cg_env \<Rightarrow> i64 \<Rightarrow> json \<Rightarrow> cg_state \<Rightarrow> cg_state" where
  "HandleProcessStateChangedEx E value payload st =
     (if value = PROCESS_CREATED then HandleProcessCreated E payload st
      else if value = PROCESS_DIED then HandleProcessDied E payload st
      else HandleProcessStateChanged E payload st)"

section \<open>Tasks\<close>

definition set_transient :: "bool \<Rightarrow> i32 \<Rightarrow> i32 \<Rightarrow> string \<Rightarrow> cg_state \<Rightarrow> cg_state" where
  "set_transient b uid pid packageName st =
     on_proc uid pid (\<lambda>pr. pr\<lparr>runningTransientTask := b\<rparr>)
       (on_app uid (app_SetName packageName) (ensure_app uid st))"

definition HandleTransientTaskStart :: "i32 \<Rightarrow> i32 \<Rightarrow> string \<Rightarrow> cg_state \<Rightarrow> cg_state" where
  "HandleTransientTaskStart = set_transient True"

definition HandleTransientTaskEnd :: "i32 \<Rightarrow> i32 \<Rightarrow> string \<Rightarrow> cg_state \<Rightarrow> cg_state" where
  "HandleTransientTaskEnd = set_transient False"

definition HandleTransientTaskStatus :: "i64 \<Rightarrow> json \<Rightarrow> cg_state \<Rightarrow> cg_state" where
  "HandleTransientTaskStatus value payload st =
     (case (do {
          uid \<leftarrow> ParseValue ''uid'' payload; pid \<leftarrow> ParseValue ''pid'' payload;
          bundleName \<leftarrow> ParseString ''bundleName'' payload;
          Some (uid, pid, bundleName) }) of
        None \<Rightarrow> st
      | Some (uid, pid, bundleName) \<Rightarrow>
          if value = TRANSIENT_TASK_START then HandleTransientTaskStart uid pid bundleName st
          else if value = TRANSIENT_TASK_END then HandleTransientTaskEnd uid pid bundleName st
          else st)"

text \<open>
  \<open>1U << typeId\<close>: undefined in C++ for a type id of 32 or more; the model shifts by the id
  modulo 32, which is what the target's shift instruction does.
\<close>

definition shl_1u :: "u32 \<Rightarrow> u32" where
  "shl_1u typeId = push_bit (unat (typeId AND 31)) 1"

definition continuous_flags :: "(i32 \<times> u32 list) list \<Rightarrow> u32" where
  "continuous_flags m = fold (\<lambda>(_, ids) flag. fold (\<lambda>typeId f. f OR shl_1u typeId) ids flag) m 0"

definition HandleContinuousTaskUpdate ::
    "cg_env \<Rightarrow> i32 \<Rightarrow> i32 \<Rightarrow> u32 list \<Rightarrow> i32 \<Rightarrow> cg_state \<Rightarrow> cg_state" where
  "HandleContinuousTaskUpdate E uid pid typeIds abilityId st =
     adjust E uid pid ADJS_CONTINUOUS_BEGIN
       (on_proc uid pid
         (\<lambda>pr. let m = AList.update abilityId typeIds (abilityIdAndContinuousTaskFlagMap pr)
               in pr\<lparr>abilityIdAndContinuousTaskFlagMap := m, continuousTaskFlag := continuous_flags m\<rparr>)
         (ensure_proc uid pid st))"

definition HandleContinuousTaskCancel :: "cg_env \<Rightarrow> i32 \<Rightarrow> i32 \<Rightarrow> i32 \<Rightarrow> cg_state \<Rightarrow> cg_state" where
  "HandleContinuousTaskCancel E uid pid abilityId st =
     (let st1 = ensure_app uid st in
      if has_proc uid pid st1 then
        adjust E uid pid ADJS_CONTINUOUS_END
          (on_proc uid pid
            (\<lambda>pr. let m = AList.delete abilityId (abilityIdAndContinuousTaskFlagMap pr)
                  in pr\<lparr>abilityIdAndContinuousTaskFlagMap := m, continuousTaskFlag := continuous_flags m\<rparr>)
            st1)
      else st1)"

definition HandleContinuousTaskStatus :: "cg_env \<Rightarrow> i64 \<Rightarrow> json \<Rightarrow> cg_state \<Rightarrow> cg_state" where
  "HandleContinuousTaskStatus E value payload st =
     (case (do {
          uid \<leftarrow> ParseValue ''uid'' payload; pid \<leftarrow> ParseValue ''pid'' payload;
          abilityId \<leftarrow> ParseValue ''abilityId'' payload;
          Some (uid, pid, abilityId) }) of
        None \<Rightarrow> st
      | Some (uid, pid, abilityId) \<Rightarrow>
          if value = CONTINUOUS_TASK_START \<or> value = CONTINUOUS_TASK_UPDATE then
            HandleContinuousTaskUpdate E uid pid (GetTypeIdsFromJson ''typeIds'' payload) abilityId st
          else if value = CONTINUOUS_TASK_END then HandleContinuousTaskCancel E uid pid abilityId st
          else st)"

section \<open>Windows\<close>

definition name_from_bundle_manager :: "cg_env \<Rightarrow> i32 \<Rightarrow> cg_state \<Rightarrow> cg_state" where
  "name_from_bundle_manager E uid =
     on_app uid (\<lambda>app. if app_name app = [] then app_SetName (bundle_name_of_uid E uid) app else app)"

definition HandleFocusedWindow ::
    "cg_env \<Rightarrow> u32 \<Rightarrow> i32 \<Rightarrow> u64 \<Rightarrow> i32 \<Rightarrow> i32 \<Rightarrow> cg_state \<Rightarrow> cg_state" where
  "HandleFocusedWindow E wid wtype display pid uid st =
     (let st1 = ensure_proc uid pid st;
          st2 = on_proc uid pid
                  (\<lambda>pr. (upd_window wid
                     (\<lambda>w. w\<lparr>windowType := wtype, isFocused := True, displayId := display\<rparr>)
                     (GetWindowInfoNonNull wid pr))\<lparr>linkedWindow := Some wid\<rparr>) st1;
          st3 = on_app uid (\<lambda>app. app\<lparr>focusedProcess := Some pid\<rparr>) st2;
          st4 = adjust_all E uid ADJS_FOCUSED_WINDOW st3;
          st5 = ReportSysEvent E uid pid RES_TYPE_WINDOW_FOCUS (wrap_s32 WINDOW_FOCUS) st4
      in name_from_bundle_manager E uid st5)"

definition HandleUnfocusedWindow ::
    "cg_env \<Rightarrow> u32 \<Rightarrow> i32 \<Rightarrow> u64 \<Rightarrow> i32 \<Rightarrow> i32 \<Rightarrow> cg_state \<Rightarrow> cg_state" where
  "HandleUnfocusedWindow E wid wtype display pid uid st =
     (if \<not> has_proc uid pid st then st
      else
        (let st1 = on_proc uid pid
                     (\<lambda>pr. upd_window wid
                        (\<lambda>w. w\<lparr>windowType := wtype, isFocused := False, displayId := display\<rparr>)
                        (GetWindowInfoNonNull wid pr)) st;
             st2 = on_app uid (\<lambda>app. if focusedProcess app = Some pid
                                      then app\<lparr>focusedProcess := None\<rparr> else app) st1;
             st3 = adjust_all E uid ADJS_UNFOCUSED_WINDOW st2;
             st4 = ReportSysEvent E uid pid RES_TYPE_WINDOW_FOCUS (wrap_s32 WINDOW_UNFOCUS) st3
         in name_from_bundle_manager E uid st4))"

definition HandleFocusStateChange :: "cg_env \<Rightarrow> i64 \<Rightarrow> json \<Rightarrow> cg_state \<Rightarrow> cg_state" where
  "HandleFocusStateChange E value payload st =
     (case (do {
          pid \<leftarrow> ParseValue ''pid'' payload; uid \<leftarrow> ParseValue ''uid'' payload;
          wid \<leftarrow> ParseValue ''windowId'' payload; wtype \<leftarrow> ParseValue ''windowType'' payload;
          display \<leftarrow> ParseLongValue ''displayId'' payload;
          Some (pid, uid, wid, wtype, display) }) of
        None \<Rightarrow> st
      | Some (pid, uid, wid, wtype, display) \<Rightarrow>
          if value = WINDOW_FOCUS then
            HandleFocusedWindow E (word_of_int wid) wtype (word_of_int display) pid uid st
          else if value = WINDOW_UNFOCUS then
            HandleUnfocusedWindow E (word_of_int wid) wtype (word_of_int display) pid uid st
          else st)"

definition parse_window :: "json \<Rightarrow> (i32 \<times> i32 \<times> u32 \<times> i32) option" where
  "parse_window payload =
     do {
       pid \<leftarrow> ParseValue ''pid'' payload; uid \<leftarrow> ParseValue ''uid'' payload;
       wid \<leftarrow> ParseValue ''windowId'' payload; wtype \<leftarrow> ParseValue ''windowType'' payload;
       Some (pid, uid, word_of_int wid, wtype) }"

definition HandleWindowVisibilityChanged :: "cg_env \<Rightarrow> i64 \<Rightarrow> json \<Rightarrow> cg_state \<Rightarrow> cg_state" where
  "HandleWindowVisibilityChanged E value payload st =
     (case parse_window payload of
        None \<Rightarrow> st
      | Some (pid, uid, wid, wtype) \<Rightarrow>
          (let visible = (value \<noteq> 0);
               st1 = (if visible then ensure_proc uid pid st else st)
           in case proc_at (sup st1) uid pid of
                None \<Rightarrow> st1
              | Some pr \<Rightarrow>
                  (let pr1 = GetWindowInfoNonNull wid pr;
                       unchanged = (case GetWindowInfo wid pr1 of
                                      Some w \<Rightarrow> isVisible w = visible | None \<Rightarrow> False);
                       st2 = on_proc uid pid
                               (\<lambda>_. upd_window wid (\<lambda>w. w\<lparr>isVisible := visible, windowType := wtype\<rparr>) pr1) st1
                   in if unchanged then st2
                      else adjust E uid pid ADJS_WINDOW_VISIBILITY_CHANGED st2)))"

definition HandleDrawingContentChangeWindow :: "cg_env \<Rightarrow> i64 \<Rightarrow> json \<Rightarrow> cg_state \<Rightarrow> cg_state" where
  "HandleDrawingContentChangeWindow E value payload st =
     (case parse_window payload of
        None \<Rightarrow> st
      | Some (pid, uid, wid, wtype) \<Rightarrow>
          if \<not> has_proc uid pid st then st
          else
            (let drawing = (value \<noteq> 0) in
             ReportSysEvent E uid pid RES_TYPE_WINDOW_DRAWING_CONTENT_CHANGE
               (wrap_s32 (if drawing then Drawing else NotDrawing))
               (on_proc uid pid
                 (\<lambda>pr. upd_window wid (\<lambda>w. w\<lparr>drawingContentState := drawing\<rparr>)
                    (GetWindowInfoNonNull wid (pr\<lparr>processDrawingState := drawing\<rparr>))) st)))"

end
