(* ===== verification/Cgroup_Reports.thy ===== *)
theory Cgroup_Reports
  imports Cgroup_Events
begin

text \<open>
  The second half of \<open>CgroupEventHandler\<close>: the reports of threads, windows, audio,
  devices, the web view and the window manager, the delayed tasks, and the reaction to a
  system ability that starts.
\<close>

section \<open>Threads and render windows\<close>

text \<open>
  \<open>GetProcInfoByPayload\<close>: the application must exist, the record is created if need be.
  The state is the one after the lookup, whatever its result.
\<close>

definition GetProcInfoByPayload :: "json \<Rightarrow> cg_state \<Rightarrow> (i32 \<times> i32) option \<times> cg_state" where
  "GetProcInfoByPayload payload st =
     (case ParsePayload payload of
        None \<Rightarrow> (None, st)
      | Some (uid, pid) \<Rightarrow>
          (case GetAppRecord uid (sup st) of
             None \<Rightarrow> (None, st)
           | Some _ \<Rightarrow> (Some (uid, pid), on_app uid (GetProcessRecordNonNull pid) st)))"

text \<open>The host of a process, if its record exists in the same application.\<close>

definition host_of :: "i32 \<Rightarrow> i32 \<Rightarrow> cg_state \<Rightarrow> i32 option" where
  "host_of uid pid st =
     (case proc_at (sup st) uid pid of
        None \<Rightarrow> None
      | Some pr \<Rightarrow> if has_proc uid (hostPid pr) st then Some (hostPid pr) else None)"

definition HandleReportKeyThread :: "cg_env \<Rightarrow> i64 \<Rightarrow> json \<Rightarrow> cg_state \<Rightarrow> cg_state" where
  "HandleReportKeyThread E value payload st =
     (case GetProcInfoByPayload payload st of
        (None, st1) \<Rightarrow> st1
      | (Some (uid, pid), st1) \<Rightarrow>
          (case (ParseValue ''tid'' payload, ParseValue ''role'' payload) of
             (Some keyTid, Some role) \<Rightarrow>
               if \<not> tid_in_pid E pid keyTid then st1
               else
                 (let st2 = on_proc uid pid
                        (\<lambda>pr. if value = CREATE
                              then (if map_of (keyThreadRoleMap pr) keyTid = None
                                    then pr\<lparr>keyThreadRoleMap := om_put keyTid role (keyThreadRoleMap pr)\<rparr>
                                    else pr)
                              else pr\<lparr>keyThreadRoleMap := om_del keyTid (keyThreadRoleMap pr)\<rparr>) st1
                  in case host_of uid pid st2 of
                       None \<Rightarrow> st2
                     | Some h \<Rightarrow> adjust E uid h ADJS_REPORT_IMPORTANT_DISPLAY_THREAD st2)
           | _ \<Rightarrow> st1))"

definition MAX_SPAN_SERIAL :: int where "MAX_SPAN_SERIAL = 99"

text \<open>
  The window a render process draws to: one of its host, or any window with the id.
  The uid and pid of the process that owns the window.
\<close>

definition find_render_window :: "i32 \<Rightarrow> i32 \<Rightarrow> u32 \<Rightarrow> cg_state \<Rightarrow> (i32 \<times> i32) option" where
  "find_render_window uid pid wid st =
     (case host_of uid pid st of
        Some h \<Rightarrow>
          (case proc_at (sup st) uid h of
             Some hp \<Rightarrow> (if GetWindowInfo wid hp \<noteq> None then Some (uid, h)
                         else SearchWindowId wid (sup st))
           | None \<Rightarrow> SearchWindowId wid (sup st))
      | None \<Rightarrow> SearchWindowId wid (sup st))"

definition UpdateActivepWebRenderInfo :: "i32 \<Rightarrow> i32 \<Rightarrow> i32 \<Rightarrow> i32 \<Rightarrow> cg_state \<Rightarrow> cg_state" where
  "UpdateActivepWebRenderInfo state winId uid pid st =
     (if state = ACTIVE then
        (case find_render_window uid pid (word_of_int winId) st of
           None \<Rightarrow> st
         | Some (wu, wp) \<Rightarrow>
             on_proc uid pid (\<lambda>pr. pr\<lparr>linkedWindow := Some (word_of_int winId), isActive := True\<rparr>)
               (on_proc wu wp
                 (upd_window (word_of_int winId) (\<lambda>w. w\<lparr>topWebviewRenderUid := word_of_int uid\<rparr>)) st))
      else
        on_proc uid pid (\<lambda>pr. pr\<lparr>linkedWindow := None, isActive := False\<rparr>) st)"

definition stale_serial :: "i32 \<Rightarrow> i32 \<Rightarrow> bool" where
  "stale_serial now prev \<longleftrightarrow> now \<le> prev \<and> wrap_s32 (prev - now) \<le> MAX_SPAN_SERIAL"

definition HandleReportWindowState :: "cg_env \<Rightarrow> json \<Rightarrow> cg_state \<Rightarrow> cg_state" where
  "HandleReportWindowState E payload st =
     (case GetProcInfoByPayload payload st of
        (None, st1) \<Rightarrow> st1
      | (Some (uid, pid), st1) \<Rightarrow>
          (case do { w \<leftarrow> ParseValue ''windowId'' payload; s \<leftarrow> ParseValue ''state'' payload;
                     n \<leftarrow> ParseValue ''serialNum'' payload; Some (w, s, n) } of
             None \<Rightarrow> st1
           | Some (winId, state, nowSerialNum) \<Rightarrow>
               if (case proc_at (sup st1) uid pid of
                     Some pr \<Rightarrow> stale_serial nowSerialNum (serialNum pr) | None \<Rightarrow> True) then st1
               else
                 (let st2 = on_proc uid pid (\<lambda>pr. pr\<lparr>serialNum := nowSerialNum\<rparr>) st1;
                      st3 = UpdateActivepWebRenderInfo state winId uid pid st2
                  in case host_of uid pid st3 of
                       None \<Rightarrow> st3
                     | Some h \<Rightarrow>
                         ReportSysEvent E uid pid RES_TYPE_REPORT_WINDOW_STATE state
                           (adjust E uid h ADJS_REPORT_WINDOW_STATE_CHANGED st3))))"

section \<open>Reports about one known process\<close>

text \<open>
  The common shape: uid and pid are parsed and positive, the record must exist, a field is
  written, the group is adjusted or not, and the event is passed on or not.
\<close>

definition known_proc :: "json \<Rightarrow> cg_state \<Rightarrow> (i32 \<times> i32) option" where
  "known_proc payload st =
     (case ParsePayload payload of
        None \<Rightarrow> None
      | Some (uid, pid) \<Rightarrow> if has_proc uid pid st then Some (uid, pid) else None)"

definition HandleReportAudioState :: "cg_env \<Rightarrow> u32 \<Rightarrow> i64 \<Rightarrow> json \<Rightarrow> cg_state \<Rightarrow> cg_state" where
  "HandleReportAudioState E resType value payload st =
     (case known_proc payload st of
        None \<Rightarrow> st
      | Some (uid, pid) \<Rightarrow>
          ReportSysEvent E uid pid resType (wrap_s32 value)
            (adjust E uid pid ADJS_REPORT_AUDIO_STATE_CHANGED
              (on_proc uid pid (\<lambda>pr. pr\<lparr>audioPlayingState := wrap_s32 value\<rparr>) st)))"

definition HandleReportAudioCapTureState :: "cg_env \<Rightarrow> u32 \<Rightarrow> i64 \<Rightarrow> json \<Rightarrow> cg_state \<Rightarrow> cg_state" where
  "HandleReportAudioCapTureState E resType value payload st =
     (case known_proc payload st of
        None \<Rightarrow> st
      | Some (uid, pid) \<Rightarrow>
          adjust E uid pid ADJS_REPORT_AUDIO_STATE_CHANGED
            (on_proc uid pid (\<lambda>pr. pr\<lparr>audioCapTureState := wrap_s32 value\<rparr>) st))"

text \<open>The web view's audio report creates the application even when the process is unknown.\<close>

definition HandleReportWebviewAudioState :: "cg_env \<Rightarrow> u32 \<Rightarrow> i64 \<Rightarrow> json \<Rightarrow> cg_state \<Rightarrow> cg_state" where
  "HandleReportWebviewAudioState E resType value payload st =
     (case ParsePayload payload of
        None \<Rightarrow> st
      | Some (uid, pid) \<Rightarrow>
          (let st1 = ensure_app uid st in
           if \<not> has_proc uid pid st1 then st1
           else
             ReportSysEvent E uid pid resType (wrap_s32 value)
               (adjust E uid pid ADJS_REPORT_WEBVIEW_AUDIO_STATE_CHANGED
                 (on_proc uid pid (\<lambda>pr. pr\<lparr>audioPlayingState := wrap_s32 value\<rparr>) st1))))"

definition HandleReportRunningLockEvent :: "cg_env \<Rightarrow> u32 \<Rightarrow> i64 \<Rightarrow> json \<Rightarrow> cg_state \<Rightarrow> cg_state" where
  "HandleReportRunningLockEvent E resType value payload st =
     (case ParsePayload payload of
        None \<Rightarrow> st
      | Some (uid, pid) \<Rightarrow>
          (let type = (case ParseString ''type'' payload of
                         Some s \<Rightarrow> word_of_int (atoi s) | None \<Rightarrow> (0 :: u32));
               state = wrap_s32 value
           in if type = proximity_lock_type E then st
              else if \<not> has_proc uid pid st then st
              else
                ReportSysEvent E uid pid resType state
                  (on_proc uid pid
                    (\<lambda>pr. pr\<lparr>runningLockState :=
                       om_put type (state = RUNNINGLOCK_STATE_ENABLE) (runningLockState pr)\<rparr>) st)))"

definition HandleReportBluetoothConnectState :: "cg_env \<Rightarrow> u32 \<Rightarrow> i64 \<Rightarrow> json \<Rightarrow> cg_state \<Rightarrow> cg_state" where
  "HandleReportBluetoothConnectState E resType value payload st =
     (case known_proc payload st of
        None \<Rightarrow> st
      | Some (uid, pid) \<Rightarrow>
          ReportSysEvent E uid pid resType (wrap_s32 value)
            (on_proc uid pid (\<lambda>pr. pr\<lparr>bluetoothState := wrap_s32 value\<rparr>) st))"

definition HandleNapModeEvent :: "cg_env \<Rightarrow> u32 \<Rightarrow> i64 \<Rightarrow> json \<Rightarrow> cg_state \<Rightarrow> cg_state" where
  "HandleNapModeEvent E resType value payload st =
     (case (ParseValue ''UID'' payload, ParseValue ''PID'' payload) of
        (Some uid, Some pid) \<Rightarrow>
          if uid \<le> 0 \<or> pid \<le> 0 then st
          else if \<not> has_proc uid pid st then st
          else ReportSysEvent E uid pid resType (wrap_s32 value) st
      | _ \<Rightarrow> st)"

definition HandleReportHisysEvent :: "cg_env \<Rightarrow> u32 \<Rightarrow> i64 \<Rightarrow> json \<Rightarrow> cg_state \<Rightarrow> cg_state" where
  "HandleReportHisysEvent E resType value payload st =
     (case known_proc payload st of
        None \<Rightarrow> st
      | Some (uid, pid) \<Rightarrow>
          ReportSysEvent E uid pid resType (wrap_s32 value)
            (on_proc uid pid
              (\<lambda>pr. if resType = RES_TYPE_REPORT_CAMERA_STATE then pr\<lparr>cameraState := wrap_s32 value\<rparr>
                    else if resType = RES_TYPE_WIFI_CONNECT_STATE_CHANGE then pr\<lparr>wifiState := wrap_s32 value\<rparr>
                    else if resType = RES_TYPE_MMI_INPUT_STATE then
                      (case ParseString ''syncStatus'' payload of
                         Some s \<Rightarrow> pr\<lparr>mmiStatus := atoi s\<rparr> | None \<Rightarrow> pr)
                    else pr) st))"

definition HandleReportScreenCaptureEvent :: "cg_env \<Rightarrow> u32 \<Rightarrow> i64 \<Rightarrow> json \<Rightarrow> cg_state \<Rightarrow> cg_state" where
  "HandleReportScreenCaptureEvent E resType value payload st =
     (case known_proc payload st of
        None \<Rightarrow> st
      | Some (uid, pid) \<Rightarrow>
          ReportSysEvent E uid pid resType (wrap_s32 value)
            (adjust E uid pid ADJS_REPORT_SCREEN_CAPTURE
              (on_proc uid pid (\<lambda>pr. pr\<lparr>screenCaptureState := (value = START_SCREEN_CAPTURE)\<rparr>) st)))"

definition HandleReportAvCodecEvent :: "cg_env \<Rightarrow> u32 \<Rightarrow> i64 \<Rightarrow> json \<Rightarrow> cg_state \<Rightarrow> cg_state" where
  "HandleReportAvCodecEvent E resType value payload st =
     (case (known_proc payload st, ParseValue ''instanceId'' payload) of
        (Some (uid, pid), Some instanceId) \<Rightarrow>
          if instanceId < 0 then st
          else
            ReportSysEvent E uid pid resType (wrap_s32 value)
              (on_proc uid pid
                (\<lambda>pr. pr\<lparr>avCodecState :=
                   om_put instanceId (wrap_s32 value = CODEC_START_INFO) (avCodecState pr)\<rparr>) st)
      | _ \<Rightarrow> st)"

definition HandleSceneBoardState :: "json \<Rightarrow> cg_state \<Rightarrow> cg_state" where
  "HandleSceneBoardState payload st =
     (case (ParseValue ''pid'' payload, ParseValue ''uid'' payload) of
        (Some pid, Some uid) \<Rightarrow>
          if pid \<le> 0 then st
          else st\<lparr>sup := (sup st)\<lparr>sceneBoardUidPid := insert (uid, pid) (sceneBoardUidPid (sup st))\<rparr>\<rparr>
      | _ \<Rightarrow> st)"

definition HandleWebviewScreenCapture :: "cg_env \<Rightarrow> u32 \<Rightarrow> i64 \<Rightarrow> json \<Rightarrow> cg_state \<Rightarrow> cg_state" where
  "HandleWebviewScreenCapture E resType value payload st =
     (case GetProcInfoByPayload payload st of
        (None, st1) \<Rightarrow> st1
      | (Some (uid, pid), st1) \<Rightarrow>
          (let b = (value = WEB_SCREEN_CAPTURE_START) in
           ReportSysEvent E uid pid resType (if b then 1 else 0)
             (adjust E uid pid ADJS_REPORT_WEBVIEW_SCREEN_CAPTURE
               (on_proc uid pid (\<lambda>pr. pr\<lparr>screenCaptureState := b\<rparr>) st1))))"

definition UpdateMmiStatus :: "json \<Rightarrow> cg_state \<Rightarrow> cg_state" where
  "UpdateMmiStatus payload st =
     (case do { p \<leftarrow> member ''pid'' payload; pid \<leftarrow> json_int32 p;
                u \<leftarrow> member ''uid'' payload; uid \<leftarrow> json_int32 u;
                s \<leftarrow> member ''status'' payload; status \<leftarrow> json_int32 s;
                Some (pid, uid, status) } of
        None \<Rightarrow> st
      | Some (pid, uid, status) \<Rightarrow> on_proc uid pid (\<lambda>pr. pr\<lparr>mmiStatus := status\<rparr>) st)"

section \<open>Cosmic cube\<close>

text \<open>One process and one application of the two nested loops that recover hidden applications.\<close>

definition recover_proc :: "cg_env \<Rightarrow> i32 \<Rightarrow> i32 \<Rightarrow> cg_state \<Rightarrow> cg_state" where
  "recover_proc E uid pid st =
     (case proc_at (sup st) uid pid of
        Some pr \<Rightarrow> if processType pr = PRT_NORMAL then adjust E uid pid ADJS_PROCESS_STATE st else st
      | None \<Rightarrow> st)"

definition recover_app :: "cg_env \<Rightarrow> i32 \<Rightarrow> cg_state \<Rightarrow> cg_state" where
  "recover_app E uid st =
     (case GetAppRecord uid (sup st) of
        None \<Rightarrow> st
      | Some app \<Rightarrow>
          if \<not> isCosmicCubeStateHide app then st
          else fold (recover_proc E uid) (map fst (pidsMap app))
                 (on_app uid (\<lambda>app. app\<lparr>isCosmicCubeStateHide := False\<rparr>) st))"

definition HandleEmptyPayloadForCosmicCubeState :: "cg_env \<Rightarrow> u32 \<Rightarrow> i64 \<Rightarrow> cg_state \<Rightarrow> cg_state" where
  "HandleEmptyPayloadForCosmicCubeState E resType value st =
     (if \<not> (resType = RES_TYPE_COSMIC_CUBE_STATE_CHANGE \<and> value = APPLICATION_ABOUT_TO_RECOVER)
      then st
      else fold (recover_app E) (map fst (uidsMap (sup st))) st)"

definition HandleReportCosmicCubeState :: "cg_env \<Rightarrow> u32 \<Rightarrow> i64 \<Rightarrow> json \<Rightarrow> cg_state \<Rightarrow> cg_state" where
  "HandleReportCosmicCubeState E resType value payload st =
     (case ParsePayload payload of
        None \<Rightarrow> HandleEmptyPayloadForCosmicCubeState E resType value st
      | Some (uid, pid) \<Rightarrow>
          if \<not> has_proc uid pid st then st
          else recover_proc E uid pid
                 (on_app uid
                   (\<lambda>app. app\<lparr>isCosmicCubeStateHide := (value = APPLICATION_ABOUT_TO_HIDE)\<rparr>) st))"

section \<open>The web view's sub-window task and the delayed tasks\<close>

definition RemoveTask :: "string \<Rightarrow> cg_state \<Rightarrow> cg_state" where
  "RemoveTask taskName st = st\<lparr>delayTaskMap := AList.delete taskName (delayTaskMap st)\<rparr>"

text \<open>The delay, \<open>CHECK_WEB_SUBWIN_TASK_DELAY\<close>, is not modelled: a pending task may run at any time.\<close>

definition PostTask_delayed :: "string \<Rightarrow> u32 \<times> i32 \<times> i32 \<Rightarrow> cg_state \<Rightarrow> cg_state" where
  "PostTask_delayed taskName task st =
     st\<lparr>delayTaskMap := AList.update taskName task (delayTaskMap st)\<rparr>"

definition web_task_name :: "i32 \<Rightarrow> i32 \<Rightarrow> string" where
  "web_task_name pid uid = ''webSubWinTask'' @ to_string pid @ to_string uid"

definition HandleReportWebSubWinTaskStatus :: "cg_env \<Rightarrow> u32 \<Rightarrow> i64 \<Rightarrow> json \<Rightarrow> cg_state \<Rightarrow> cg_state" where
  "HandleReportWebSubWinTaskStatus E resType value payload st =
     (case ParseValue ''pid'' payload of
        None \<Rightarrow> st
      | Some pid \<Rightarrow>
          if pid \<le> 0 then st
          else
            (case FindProcessRecord pid (sup st) of
               None \<Rightarrow> st
             | Some (uid, _) \<Rightarrow>
                 (let b = (value = WEB_SUBWIN_CALL_START);
                      st1 = on_proc uid pid (\<lambda>pr. pr\<lparr>webSubWinTaskState := b\<rparr>) (ensure_app uid st);
                      st2 = ReportSysEvent E uid pid resType (if b then 1 else 0) st1;
                      st3 = RemoveTask (web_task_name pid uid) st2
                  in if b then PostTask_delayed (web_task_name pid uid) (resType, uid, pid) st3
                     else st3)))"

definition CheckWebSubWinTaskStatus :: "cg_env \<Rightarrow> u32 \<Rightarrow> i32 \<Rightarrow> i32 \<Rightarrow> cg_state \<Rightarrow> cg_state" where
  "CheckWebSubWinTaskStatus E resType uid pid st =
     (case proc_at (sup st) uid pid of
        None \<Rightarrow> st
      | Some pr \<Rightarrow>
          if webSubWinTaskState pr then
            ReportSysEvent E uid pid resType 0
              (on_proc uid pid (\<lambda>pr. pr\<lparr>webSubWinTaskState := False\<rparr>) st)
          else st)"

text \<open>A delayed task runs and then removes its entry.\<close>

definition run_delayed :: "cg_env \<Rightarrow> string \<Rightarrow> cg_state \<Rightarrow> cg_state" where
  "run_delayed E taskName st =
     (case map_of (delayTaskMap st) taskName of
        None \<Rightarrow> st
      | Some (resType, uid, pid) \<Rightarrow> RemoveTask taskName (CheckWebSubWinTaskStatus E resType uid pid st))"

definition HandleReportWebviewVideoState :: "cg_env \<Rightarrow> u32 \<Rightarrow> i64 \<Rightarrow> json \<Rightarrow> cg_state \<Rightarrow> cg_state" where
  "HandleReportWebviewVideoState E resType value payload st =
     (case GetProcInfoByPayload payload st of
        (None, st1) \<Rightarrow> st1
      | (Some (uid, pid), st1) \<Rightarrow>
          (let b = (value = WEB_VIDEO_PLAYING_START) in
           ReportSysEvent E uid pid resType (if b then 1 else 0)
             (on_proc uid pid (\<lambda>pr. pr\<lparr>videoState := b\<rparr>) st1)))"

definition HandleOnAppStopped :: "json \<Rightarrow> cg_state \<Rightarrow> cg_state" where
  "HandleOnAppStopped payload st =
     (case do { u \<leftarrow> member ''uid'' payload; uid \<leftarrow> json_int32 u;
                b \<leftarrow> ParseString ''bundleName'' payload; Some uid } of
        None \<Rightarrow> st
      | Some uid \<Rightarrow> st\<lparr>sup := RemoveApplication uid (sup st)\<rparr>)"

section \<open>System abilities\<close>

text \<open>\<open>SchedController::GetRunningLockState\<close>: what the power manager answers is a parameter.\<close>

definition GetRunningLockState :: "cg_env \<Rightarrow> cg_state \<Rightarrow> cg_state" where
  "GetRunningLockState E st =
     (case running_locks E of
        None \<Rightarrow> st
      | Some locks \<Rightarrow>
          fold (\<lambda>(uid, pid, type) st.
                  on_proc uid pid (\<lambda>pr. pr\<lparr>runningLockState := om_put type True (runningLockState pr)\<rparr>)
                    (ensure_proc uid pid st)) locks st)"

definition HandleAbilityAdded :: "cg_env \<Rightarrow> i32 \<Rightarrow> cg_state \<Rightarrow> cg_state" where
  "HandleAbilityAdded E saId st =
     (if saId = app_mgr_service_id E then st\<lparr>sup := InitSuperVisorContent (app_mgr E) (sup st)\<rparr>
      else if saId = power_manager_service_id E then GetRunningLockState E st
      else st)"

definition HandleAbilityRemoved :: "i32 \<Rightarrow> cg_state \<Rightarrow> cg_state" where
  "HandleAbilityRemoved saId st = st"

definition ReportAbilityStatus :: "cg_env \<Rightarrow> i64 \<Rightarrow> json \<Rightarrow> cg_state \<Rightarrow> cg_state" where
  "ReportAbilityStatus E value payload st =
     (let saId = (case member ''saId'' payload of
                    Some j \<Rightarrow> (case json_int32 j of Some i \<Rightarrow> i | None \<Rightarrow> -1) | None \<Rightarrow> -1)
      in if value > 0 then HandleAbilityAdded E saId st else HandleAbilityRemoved saId st)"

end
