(* ===== verification/Sched_Controller_Model.thy ===== *)
theory Sched_Controller_Model
  imports Cgroup_Reports
begin

text \<open>
  \<open>SchedController\<close> (sched_controller/sched_controller.cpp): which handler an event type is
  dispatched to, the events the plugin subscribes to, the query of a process's group and
  the texts of the dump commands.
\<close>

section \<open>Dispatch\<close>

text \<open>\<open>dispatchResFuncMap_\<close> as the function from an event type to the handler it calls.\<close>

definition dispatchResFuncMap ::
    "cg_env \<Rightarrow> u32 \<Rightarrow> (u32 \<Rightarrow> i64 \<Rightarrow> json \<Rightarrow> cg_state \<Rightarrow> cg_state) option" where
  "dispatchResFuncMap E t = map_of
     [(RES_TYPE_REPORT_KEY_THREAD, \<lambda>t v p. HandleReportKeyThread E v p),
      (RES_TYPE_REPORT_WINDOW_STATE, \<lambda>t v p. HandleReportWindowState E p),
      (RES_TYPE_WEBVIEW_AUDIO_STATUS_CHANGE, \<lambda>t v p. HandleReportWebviewAudioState E t v p),
      (RES_TYPE_INNER_AUDIO_STATE, \<lambda>t v p. HandleReportAudioState E t v p),
      (RES_TYPE_RUNNINGLOCK_STATE, \<lambda>t v p. HandleReportRunningLockEvent E t v p),
      (RES_TYPE_REPORT_SCENE_BOARD, \<lambda>t v p. HandleSceneBoardState p),
      (RES_TYPE_WEBVIEW_SCREEN_CAPTURE, \<lambda>t v p. HandleWebviewScreenCapture E t v p),
      (RES_TYPE_REPORT_SCREEN_CAPTURE, \<lambda>t v p. HandleReportScreenCaptureEvent E t v p),
      (RES_TYPE_WEBVIEW_VIDEO_STATUS_CHANGE, \<lambda>t v p. HandleReportWebviewVideoState E t v p),
      (RES_TYPE_SYSTEM_ABILITY_STATUS_CHANGE, \<lambda>t v p. ReportAbilityStatus E v p),
      (RES_TYPE_MMI_STATUS_CHANGE, \<lambda>t v p. UpdateMmiStatus p),
      (RES_TYPE_COSMIC_CUBE_STATE_CHANGE, \<lambda>t v p. HandleReportCosmicCubeState E t v p),
      (RES_TYPE_APP_STOPPED, \<lambda>t v p. HandleOnAppStopped p),
      (RES_TYPE_ABILITY_STATE_CHANGE, \<lambda>t v p. HandleAbilityStateChanged E p),
      (RES_TYPE_EXTENSION_STATE_CHANGE, \<lambda>t v p. HandleExtensionStateChanged E p),
      (RES_TYPE_PROCESS_STATE_CHANGE, \<lambda>t v p. HandleProcessStateChangedEx E v p),
      (RES_TYPE_APP_STATE_CHANGE, \<lambda>t v p. HandleApplicationStateChanged E p),
      (RES_TYPE_WINDOW_FOCUS, \<lambda>t v p. HandleFocusStateChange E v p),
      (RES_TYPE_WINDOW_VISIBILITY_CHANGE, \<lambda>t v p. HandleWindowVisibilityChanged E v p),
      (RES_TYPE_WINDOW_DRAWING_CONTENT_CHANGE, \<lambda>t v p. HandleDrawingContentChangeWindow E v p),
      (RES_TYPE_TRANSIENT_TASK, \<lambda>t v p. HandleTransientTaskStatus v p),
      (RES_TYPE_CONTINUOUS_TASK, \<lambda>t v p. HandleContinuousTaskStatus E v p),
      (RES_TYPE_AUDIO_CAPTURE_STATUS_CHANGED, \<lambda>t v p. HandleReportAudioCapTureState E t v p),
      (RES_TYPE_WEB_SUBWIN_TASK, \<lambda>t v p. HandleReportWebSubWinTaskStatus E t v p)] t"

definition DispatchOtherResource :: "cg_env \<Rightarrow> u32 \<Rightarrow> i64 \<Rightarrow> json \<Rightarrow> cg_state \<Rightarrow> cg_state" where
  "DispatchOtherResource E resType value payload st =
     (if resType = RES_TYPE_REPORT_CAMERA_STATE \<or> resType = RES_TYPE_WIFI_CONNECT_STATE_CHANGE \<or>
         resType = RES_TYPE_MMI_INPUT_STATE then HandleReportHisysEvent E resType value payload st
      else if resType = RES_TYPE_BLUETOOTH_A2DP_CONNECT_STATE_CHANGE then
        HandleReportBluetoothConnectState E resType value payload st
      else if resType = RES_TYPE_AV_CODEC_STATE then HandleReportAvCodecEvent E resType value payload st
      else if resType = RES_TYPE_NAP_MODE then HandleNapModeEvent E resType value payload st
      else st)"

text \<open>The tasks of one event run in the order they were posted.\<close>

definition DispatchResource :: "cg_env \<Rightarrow> u32 \<Rightarrow> i64 \<Rightarrow> json \<Rightarrow> cg_state \<Rightarrow> cg_state" where
  "DispatchResource E resType value payload st =
     (case dispatchResFuncMap E resType of
        None \<Rightarrow> DispatchOtherResource E resType value payload st
      | Some f \<Rightarrow> DispatchOtherResource E resType value payload (f resType value payload st))"

definition resTypes :: "u32 list" where
  "resTypes =
     [RES_TYPE_REPORT_KEY_THREAD, RES_TYPE_REPORT_WINDOW_STATE, RES_TYPE_WEBVIEW_AUDIO_STATUS_CHANGE,
      RES_TYPE_INNER_AUDIO_STATE, RES_TYPE_RUNNINGLOCK_STATE, RES_TYPE_REPORT_SCENE_BOARD,
      RES_TYPE_WEBVIEW_SCREEN_CAPTURE, RES_TYPE_WEBVIEW_VIDEO_STATUS_CHANGE,
      RES_TYPE_SYSTEM_ABILITY_STATUS_CHANGE, RES_TYPE_MMI_STATUS_CHANGE, RES_TYPE_REPORT_CAMERA_STATE,
      RES_TYPE_BLUETOOTH_A2DP_CONNECT_STATE_CHANGE, RES_TYPE_WIFI_CONNECT_STATE_CHANGE,
      RES_TYPE_MMI_INPUT_STATE, RES_TYPE_REPORT_SCREEN_CAPTURE, RES_TYPE_AV_CODEC_STATE,
      RES_TYPE_SA_CONTROL_APP_EVENT, RES_TYPE_FORM_STATE_CHANGE_EVENT, RES_TYPE_CONTINUOUS_STARTUP,
      RES_TYPE_SCREEN_LOCK, RES_TYPE_BOOT_COMPLETED, RES_TYPE_SYSTEM_CPU_LOAD, RES_TYPE_THERMAL_STATE,
      RES_TYPE_COSMIC_CUBE_STATE_CHANGE, RES_TYPE_APP_STOPPED, RES_TYPE_ABILITY_STATE_CHANGE,
      RES_TYPE_EXTENSION_STATE_CHANGE, RES_TYPE_PROCESS_STATE_CHANGE, RES_TYPE_APP_STATE_CHANGE,
      RES_TYPE_WINDOW_FOCUS, RES_TYPE_WINDOW_VISIBILITY_CHANGE, RES_TYPE_WINDOW_DRAWING_CONTENT_CHANGE,
      RES_TYPE_CONTINUOUS_TASK, RES_TYPE_NAP_MODE, RES_TYPE_AUDIO_CAPTURE_STATUS_CHANGED,
      RES_TYPE_WEB_SUBWIN_TASK]"

definition resTypeWithVal :: "(u32 \<times> i64) list" where
  "resTypeWithVal =
     [(RES_TYPE_TRANSIENT_TASK, TRANSIENT_TASK_START), (RES_TYPE_TRANSIENT_TASK, TRANSIENT_TASK_END)]"

definition GetProcessGroup :: "i32 \<Rightarrow> cg_state \<Rightarrow> i32" where
  "GetProcessGroup pid st =
     (case FindProcessRecord pid (sup st) of
        None \<Rightarrow> sint SP_DEFAULT
      | Some (uid, p) \<Rightarrow>
          (case proc_at (sup st) uid p of
             Some pr \<Rightarrow> sint (curSchedGroup pr) | None \<Rightarrow> sint SP_DEFAULT))"

section \<open>Dump\<close>

definition nl :: string where "nl = [CHR 0x0A]"

definition bool_str :: "bool \<Rightarrow> string" where "bool_str b = (if b then ''1'' else ''0'')"
definition word_str :: "'a::len word \<Rightarrow> string" where "word_str w = to_string (uint w)"

definition DumpHelp :: string where
  "DumpHelp =
     ''        plugin name : libcgroup_sched.z.so '' @ nl @
     ''                   -h: show the cgroup_sched_plugin help. '' @ nl @
     ''                   -getRunningLockInfo: get all runnable process lock info. '' @ nl @
     ''                   -getProcessEventInfo: get all runnable process event info. '' @ nl @
     ''                   -getProcessWindowInfo: get all runnable process window info. '' @ nl"

definition for_procs :: "(i32 \<Rightarrow> application \<Rightarrow> i32 \<Rightarrow> process_record \<Rightarrow> string) \<Rightarrow> supervisor \<Rightarrow> string" where
  "for_procs f s = concat (map (\<lambda>(uid, app). concat (map (\<lambda>(pid, pr). f uid app pid pr) (pidsMap app))) (uidsMap s))"

definition DumpProcessRunningLock :: "supervisor \<Rightarrow> string" where
  "DumpProcessRunningLock = for_procs (\<lambda>uid app pid pr.
     concat (map (\<lambda>(lockType, lockState).
       ''uid: '' @ to_string uid @ '', pid: '' @ to_string pid @ '', lockType: '' @ word_str lockType @
       '', lockState: '' @ bool_str lockState) (runningLockState pr)))"

definition DumpProcessEventState :: "supervisor \<Rightarrow> string" where
  "DumpProcessEventState = for_procs (\<lambda>uid app pid pr.
     ''uid: '' @ to_string uid @ '', pid: '' @ to_string pid @
     '', processName: '' @ processName pr @ '', processState: '' @ to_string (processState pr) @
     '', extensionType: '' @ to_string (extensionType pr) @ '', napState: '' @ bool_str (isNapState pr) @
     '', processDrawingState: '' @ bool_str (processDrawingState pr) @
     '', mmiState: '' @ to_string (mmiStatus pr) @ '', cameraState: '' @ to_string (cameraState pr) @
     '', bluetoothState: '' @ to_string (bluetoothState pr) @ '', wifiState: '' @ to_string (wifiState pr) @
     '', screenCaptureState: '' @ bool_str (screenCaptureState pr) @
     '', videoState: '' @ bool_str (videoState pr) @ '', isActive: '' @ bool_str (isActive pr) @
     '', linkedWindowId: '' @ (case linkedWindow pr of None \<Rightarrow> [] | Some w \<Rightarrow> word_str w) @
     '', audioCapTureState: '' @ to_string (audioCapTureState pr) @
     '', audioPlayingState: '' @ to_string (audioPlayingState pr) @
     '', policyDescription: '' @ word_str (policyDescription pr) @
     '', curSchedGroup: '' @ word_str (curSchedGroup pr) @ nl)"

definition DumpProcessWindowInfo :: "supervisor \<Rightarrow> string" where
  "DumpProcessWindowInfo = for_procs (\<lambda>uid app pid pr.
     if windows pr = [] then []
     else
       ''uid: '' @ to_string uid @ '', pid: '' @ to_string pid @ '', bundleName: '' @ app_name app @
       '', processDrawingState: '' @ bool_str (processDrawingState pr) @ '', windowInfo: '' @ nl @
       concat (map (\<lambda>w. ''    windowId:'' @ word_str (windowId w) @
         ''    isVisible:'' @ bool_str (isVisible w) @ ''    isFocus:'' @ bool_str (isFocused w) @
         ''    topWebviewRenderUid:'' @ word_str (topWebviewRenderUid w) @ nl) (windows pr)))"

definition Dump :: "string list \<Rightarrow> supervisor \<Rightarrow> string" where
  "Dump args s =
     (if args = [''-h''] then DumpHelp
      else if args = [''-getRunningLockInfo''] then DumpProcessRunningLock s
      else if args = [''-getProcessEventInfo''] then DumpProcessEventState s
      else if args = [''-getProcessWindowInfo''] then DumpProcessWindowInfo s
      else [])"

section \<open>The plugin as a state machine\<close>

text \<open>
  One step of the serial queue: the handlers of one event, or a pending delayed task.
\<close>

inductive cg_step :: "cg_env \<Rightarrow> cg_state \<Rightarrow> cg_state \<Rightarrow> bool" for E where
  event: "cg_step E st (DispatchResource E resType value payload st)"
| timer: "map_of (delayTaskMap st) taskName = Some task \<Longrightarrow> cg_step E st (run_delayed E taskName st)"

inductive cg_reachable :: "cg_env \<Rightarrow> cg_state \<Rightarrow> bool" for E where
  init: "cg_reachable E cg_init"
| step: "cg_reachable E st \<Longrightarrow> cg_step E st st' \<Longrightarrow> cg_reachable E st'"

inductive_cases cg_stepE: "cg_step E st st'"

end
