(* ===== verification/Cgroup_Facts.thy ===== *)
theory Cgroup_Facts
  imports Sched_Controller_Model
begin

text \<open>
  Every handler of the cgroup plugin keeps the invariant of the supervisor's cache, and
  what the handlers achieve.  The preservation lemmas of the operations are collected in
  \<open>st_intros\<close>, so that each handler's is a line.
\<close>

section \<open>The invariant\<close>

definition st_ok :: "cg_state \<Rightarrow> bool" where
  "st_ok st \<longleftrightarrow> sup_ok (sup st)"

named_theorems st_intros \<open>steps that keep the invariant of the plugin's state\<close>

lemma st_ok_init: "st_ok cg_init"
  by (simp add: st_ok_def cg_init_def Supervisor_ok)

lemma ensure_app_ok [st_intros]: "st_ok st \<Longrightarrow> st_ok (ensure_app uid st)"
  by (simp add: st_ok_def ensure_app_def ok_intros)

lemma on_app_ok:
  "st_ok st \<Longrightarrow> (\<And>app. map_of (uidsMap (sup st)) uid = Some app \<Longrightarrow> app_ok uid app \<Longrightarrow> app_ok uid (f app)) \<Longrightarrow>
   st_ok (on_app uid f st)"
  by (simp add: st_ok_def on_app_def upd_app_ok)

lemma on_app_simple_ok [st_intros]:
  "st_ok st \<Longrightarrow> st_ok (on_app uid (app_SetName n) st)"
  "st_ok st \<Longrightarrow> st_ok (on_app uid (AddHostProcess p) st)"
  "st_ok st \<Longrightarrow> st_ok (on_app uid (GetProcessRecordNonNull p) st)"
  "st_ok st \<Longrightarrow> st_ok (on_app uid (\<lambda>app. app\<lparr>isCosmicCubeStateHide := b\<rparr>) st)"
  "st_ok st \<Longrightarrow> st_ok (on_app uid (\<lambda>app. if focusedProcess app = Some p
                                       then app\<lparr>focusedProcess := None\<rparr> else app) st)"
  by (auto intro!: on_app_ok ok_intros)

lemma ensure_proc_ok [st_intros]: "st_ok st \<Longrightarrow> st_ok (ensure_proc uid pid st)"
  by (simp add: ensure_proc_def st_intros)

lemma on_proc_ok [st_intros]:
  "st_ok st \<Longrightarrow> (\<And>u pr. proc_at (sup st) uid pid = Some pr \<Longrightarrow> proc_ok u pid pr \<Longrightarrow> proc_ok u pid (f pr)) \<Longrightarrow>
   st_ok (on_proc uid pid f st)"
proof -
  assume ok: "st_ok st"
    and f: "\<And>u pr. proc_at (sup st) uid pid = Some pr \<Longrightarrow> proc_ok u pid pr \<Longrightarrow> proc_ok u pid (f pr)"
  have "app_ok uid (upd_proc pid f app)"
    if a: "map_of (uidsMap (sup st)) uid = Some app" "app_ok uid app" for app
  proof (cases "map_of (pidsMap app) pid")
    case None
    with a show ?thesis by (simp add: upd_proc_def)
  next
    case (Some pr)
    with a have "proc_at (sup st) uid pid = Some pr"
      by (simp add: proc_at_def GetAppRecord_def GetProcessRecord_def)
    from f[OF this app_okD(4)[OF a(2) Some]] a(2) Some show ?thesis
      by (auto simp: app_ok_def focus_ok_def upd_proc_def)
  qed
  with ok show "st_ok (on_proc uid pid f st)" unfolding on_proc_def by (rule on_app_ok)
qed

lemma told_ok:
  assumes "st_ok st" "\<And>app. om_ok (pidsMap app) \<Longrightarrow> sched_only app (f app)"
  shows "st_ok (on_app uid f (st\<lparr>outs := out\<rparr>))"
proof (rule on_app_ok)
  show "st_ok (st\<lparr>outs := out\<rparr>)" using assms(1) by (simp add: st_ok_def)
  show "app_ok uid (f app)" if "app_ok uid app" for app
    using assms(2)[OF app_okD(2)[OF that]] that by (rule sched_only_app_ok)
qed

lemma report_ok [st_intros]:
  assumes "ext_ok E" "st_ok st"
  shows "st_ok (ReportSysEvent E uid pid t v st)" "st_ok (ReportCallerEvent E uid pid c st)"
  using assms by (simp_all add: ReportSysEvent_def ReportCallerEvent_def told_ok ext_okD split: option.split)

lemma task_ok [st_intros]:
  "st_ok st \<Longrightarrow> st_ok (RemoveTask n st)"
  "st_ok st \<Longrightarrow> st_ok (PostTask_delayed n task st)"
  by (simp_all add: st_ok_def RemoveTask_def PostTask_delayed_def)

lemma adjust_ok [st_intros]:
  assumes "ext_ok E" "st_ok st"
  shows "st_ok (adjust E uid pid src st)" "st_ok (adjust_all E uid src st)"
proof -
  have a: "app_ok uid app" if "map_of (uidsMap (sup st)) uid = Some app" for app
    using assms(2) that sup_okD by (simp add: st_ok_def)
  have s: "sup_ok (upd_app uid (\<lambda>_. app') (sup st))" if "app_ok uid app'" for app'
    using assms(2) that by (auto simp: st_ok_def intro!: upd_app_ok)
  show "st_ok (adjust E uid pid src st)"
  proof (cases "map_of (uidsMap (sup st)) uid")
    case None
    with assms(2) show ?thesis by (simp add: adjust_def GetAppRecord_def)
  next
    case (Some app)
    from Adjust_app_ok[OF ext_okD(1)[OF assms(1)], of uid "(app, outs st)" pid src] a[OF Some]
    have "app_ok uid (fst (AdjustProcessGroup E pid src (app, outs st)))" by simp
    from s[OF this] Some show ?thesis
      by (simp add: adjust_def GetAppRecord_def st_ok_def split: prod.split)
        (metis fst_conv)
  qed
  show "st_ok (adjust_all E uid src st)"
  proof (cases "map_of (uidsMap (sup st)) uid")
    case None
    with assms(2) show ?thesis by (simp add: adjust_all_def GetAppRecord_def)
  next
    case (Some app)
    from AdjustAll_app_ok[OF ext_okD(1)[OF assms(1)], of uid "(app, outs st)" src] a[OF Some]
    have "app_ok uid (fst (AdjustAllProcessGroup E src (app, outs st)))" by simp
    from s[OF this] Some show ?thesis
      by (simp add: adjust_all_def GetAppRecord_def st_ok_def split: prod.split)
        (metis fst_conv)
  qed
qed

text \<open>Writes to the fields of a record that its well-formedness does not mention.\<close>

lemma proc_write_ok [ok_intros]:
  assumes "proc_ok u p pr"
  shows "proc_ok u p (pr\<lparr>processState := i\<rparr>)" "proc_ok u p (pr\<lparr>preloadMode := i\<rparr>)"
    "proc_ok u p (pr\<lparr>processType := i\<rparr>)" "proc_ok u p (pr\<lparr>hostPid := i\<rparr>)"
    "proc_ok u p (pr\<lparr>extensionType := i\<rparr>)" "proc_ok u p (pr\<lparr>runningTransientTask := b\<rparr>)"
    "proc_ok u p (pr\<lparr>linkedWindow := w\<rparr>)" "proc_ok u p (pr\<lparr>processDrawingState := b\<rparr>)"
    "proc_ok u p (pr\<lparr>serialNum := i\<rparr>)" "proc_ok u p (pr\<lparr>linkedWindow := w, isActive := b\<rparr>)"
    "proc_ok u p (pr\<lparr>audioPlayingState := i\<rparr>)" "proc_ok u p (pr\<lparr>audioCapTureState := i\<rparr>)"
    "proc_ok u p (pr\<lparr>bluetoothState := i\<rparr>)" "proc_ok u p (pr\<lparr>cameraState := i\<rparr>)"
    "proc_ok u p (pr\<lparr>wifiState := i\<rparr>)" "proc_ok u p (pr\<lparr>mmiStatus := i\<rparr>)"
    "proc_ok u p (pr\<lparr>screenCaptureState := b\<rparr>)" "proc_ok u p (pr\<lparr>webSubWinTaskState := b\<rparr>)"
    "proc_ok u p (pr\<lparr>videoState := b\<rparr>)"
  using assms by (auto elim: proc_ok_frame)

lemma proc_map_write_ok [ok_intros]:
  assumes "proc_ok u p pr"
  shows "proc_ok u p (pr\<lparr>runningLockState := om_put t b (runningLockState pr)\<rparr>)"
    "proc_ok u p (pr\<lparr>avCodecState := om_put i b (avCodecState pr)\<rparr>)"
    "proc_ok u p (pr\<lparr>keyThreadRoleMap := om_put tid r (keyThreadRoleMap pr)\<rparr>)"
    "proc_ok u p (pr\<lparr>keyThreadRoleMap := om_del tid (keyThreadRoleMap pr)\<rparr>)"
    "proc_ok u p (pr\<lparr>abilityIdAndContinuousTaskFlagMap :=
        AList.update a ids (abilityIdAndContinuousTaskFlagMap pr), continuousTaskFlag := f\<rparr>)"
    "proc_ok u p (pr\<lparr>abilityIdAndContinuousTaskFlagMap :=
        AList.delete a (abilityIdAndContinuousTaskFlagMap pr), continuousTaskFlag := f\<rparr>)"
  using assms by (auto simp: proc_ok_def distinct_update distinct_delete)

section \<open>The handlers keep the invariant\<close>


lemma HandleApplicationStateChanged_ok: "st_ok st \<Longrightarrow> st_ok (HandleApplicationStateChanged E p st)"
  by (simp add: HandleApplicationStateChanged_def st_intros split: option.split prod.split)

lemma HandleProcessStateChanged_ok:
  "ext_ok E \<Longrightarrow> st_ok st \<Longrightarrow> st_ok (HandleProcessStateChanged E p st)"
  by (simp add: HandleProcessStateChanged_def Let_def st_intros ok_intros split: option.split prod.split)

lemma remove_ability_ok [st_intros]:
  "ext_ok E \<Longrightarrow> st_ok st \<Longrightarrow> st_ok (remove_ability E uid pid r src st)"
  by (simp add: remove_ability_def st_intros ok_intros)

lemma HandleExtensionStateChanged_ok [st_intros]:
  "ext_ok E \<Longrightarrow> st_ok st \<Longrightarrow> st_ok (HandleExtensionStateChanged E p st)"
  by (simp add: HandleExtensionStateChanged_def st_intros ok_intros split: option.split prod.split)

lemma HandleUIExtension_ok [st_intros]:
  "ext_ok E \<Longrightarrow> st_ok st \<Longrightarrow> st_ok (HandleUIExtensionAbilityStateChange E p st)"
  by (simp add: HandleUIExtensionAbilityStateChange_def st_intros split: option.split)

lemma HandleAbilityStateChanged_ok:
  "ext_ok E \<Longrightarrow> st_ok st \<Longrightarrow> st_ok (HandleAbilityStateChanged E p st)"
  by (simp add: HandleAbilityStateChanged_def HandleAbilityTerminated_def Let_def st_intros ok_intros
      split: option.split prod.split)

lemma HandleProcessCreated_ok: "ext_ok E \<Longrightarrow> st_ok st \<Longrightarrow> st_ok (HandleProcessCreated E p st)"
  by (simp add: HandleProcessCreated_def Let_def st_intros ok_intros split: option.split)

lemma HandleProcessDied_ok: "ext_ok E \<Longrightarrow> st_ok st \<Longrightarrow> st_ok (HandleProcessDied E p st)"
  using report_ok(1)[of E st]
  by (auto simp: HandleProcessDied_def Let_def st_ok_def intro!: ok_intros split: option.split)

lemma HandleProcessStateChangedEx_ok:
  "ext_ok E \<Longrightarrow> st_ok st \<Longrightarrow> st_ok (HandleProcessStateChangedEx E v p st)"
  by (simp add: HandleProcessStateChangedEx_def HandleProcessCreated_ok HandleProcessDied_ok
      HandleProcessStateChanged_ok)

lemma HandleTransientTaskStatus_ok: "st_ok st \<Longrightarrow> st_ok (HandleTransientTaskStatus v p st)"
  by (simp add: HandleTransientTaskStatus_def HandleTransientTaskStart_def HandleTransientTaskEnd_def
      set_transient_def st_intros ok_intros split: option.split)

lemma HandleContinuousTaskStatus_ok:
  "ext_ok E \<Longrightarrow> st_ok st \<Longrightarrow> st_ok (HandleContinuousTaskStatus E v p st)"
  by (simp add: HandleContinuousTaskStatus_def HandleContinuousTaskUpdate_def
      HandleContinuousTaskCancel_def Let_def st_intros ok_intros split: option.split)

lemma name_from_bundle_manager_ok [st_intros]: "st_ok st \<Longrightarrow> st_ok (name_from_bundle_manager E uid st)"
  unfolding name_from_bundle_manager_def by (auto intro!: on_app_ok ok_intros)

lemma proc_at_on_app:
  "proc_at (sup (on_app uid f st)) u p =
     (if u = uid then (case map_of (uidsMap (sup st)) uid of
                         None \<Rightarrow> None | Some app \<Rightarrow> map_of (pidsMap (f app)) p)
      else proc_at (sup st) u p)"
  by (auto simp: proc_at_def on_app_def GetAppRecord_def GetProcessRecord_def store_simps
      split: option.splits)

lemma proc_at_on_proc [store_simps]:
  "proc_at (sup (on_proc uid pid f st)) u p =
     (if u = uid \<and> p = pid then map_option f (proc_at (sup st) uid pid) else proc_at (sup st) u p)"
  unfolding on_proc_def proc_at_on_app
  by (simp add: proc_at_def GetAppRecord_def GetProcessRecord_def store_simps split: option.split)

lemma proc_at_ensure_proc [store_simps]:
  "proc_at (sup (ensure_proc uid pid st)) u p =
     (if u = uid \<and> p = pid then
        Some (case proc_at (sup st) uid pid of Some pr \<Rightarrow> pr
              | None \<Rightarrow> ProcessRecord (case GetAppRecord uid (sup st) of
                                         Some app \<Rightarrow> app_uid app | None \<Rightarrow> word_of_int uid) pid)
      else proc_at (sup st) u p)"
  unfolding ensure_proc_def proc_at_on_app
  by (simp add: ensure_app_def proc_at_def GetAppRecord_def GetProcessRecord_def store_simps
      Application_def split: option.split)

lemma focus_on_existing_ok [st_intros]:
  "st_ok st \<Longrightarrow> proc_at (sup st) uid pid \<noteq> None \<Longrightarrow>
   st_ok (on_app uid (\<lambda>app. app\<lparr>focusedProcess := Some pid\<rparr>) st)"
  by (auto intro!: on_app_ok ok_intros
      simp: proc_at_def GetAppRecord_def GetProcessRecord_def split: option.splits)

lemma HandleFocusedWindow_ok [st_intros]:
  "ext_ok E \<Longrightarrow> st_ok st \<Longrightarrow> st_ok (HandleFocusedWindow E w t d pid uid st)"
  by (simp add: HandleFocusedWindow_def Let_def st_intros ok_intros store_simps)

lemma HandleUnfocusedWindow_ok [st_intros]:
  "ext_ok E \<Longrightarrow> st_ok st \<Longrightarrow> st_ok (HandleUnfocusedWindow E w t d pid uid st)"
  by (simp add: HandleUnfocusedWindow_def Let_def st_intros ok_intros)

lemma HandleFocusStateChange_ok:
  "ext_ok E \<Longrightarrow> st_ok st \<Longrightarrow> st_ok (HandleFocusStateChange E v p st)"
  by (simp add: HandleFocusStateChange_def st_intros split: option.split prod.split)

lemma HandleWindowVisibilityChanged_ok:
  assumes "ext_ok E" "st_ok st"
  shows "st_ok (HandleWindowVisibilityChanged E v p st)"
proof -
  have "st_ok (on_proc uid pid (\<lambda>_. upd_window w (\<lambda>x. x\<lparr>isVisible := b, windowType := t\<rparr>)
      (GetWindowInfoNonNull w pr)) st1)"
    if "st_ok st1" "proc_at (sup st1) uid pid = Some pr" for uid pid pr w b t st1
    using that by (auto intro!: st_intros ok_intros)
  then show ?thesis
    using assms by (simp add: HandleWindowVisibilityChanged_def Let_def st_intros
        split: option.split prod.split)
qed

lemma HandleDrawingContentChangeWindow_ok: "ext_ok E \<Longrightarrow> st_ok st \<Longrightarrow> st_ok (HandleDrawingContentChangeWindow E v p st)"
  by (simp add: HandleDrawingContentChangeWindow_def Let_def st_intros ok_intros
      split: option.split prod.split)

text \<open>Reports.\<close>

lemma GetProcInfoByPayload_ok: "st_ok st \<Longrightarrow> GetProcInfoByPayload p st = (r, st1) \<Longrightarrow> st_ok st1"
  by (auto simp: GetProcInfoByPayload_def st_intros split: option.splits)

lemma HandleReportKeyThread_ok:
  assumes "ext_ok E" "st_ok st"
  shows "st_ok (HandleReportKeyThread E v p st)"
proof -
  obtain r st1 where g: "GetProcInfoByPayload p st = (r, st1)" by (cases "GetProcInfoByPayload p st")
  with assms have "st_ok st1" by (blast intro: GetProcInfoByPayload_ok)
  with assms show ?thesis
    by (simp add: HandleReportKeyThread_def g Let_def st_intros ok_intros split: option.split prod.split)
qed

lemma UpdateActive_ok [st_intros]: "st_ok st \<Longrightarrow> st_ok (UpdateActivepWebRenderInfo s w uid pid st)"
  by (simp add: UpdateActivepWebRenderInfo_def st_intros ok_intros split: option.split)

lemma HandleReportWindowState_ok:
  assumes "ext_ok E" "st_ok st"
  shows "st_ok (HandleReportWindowState E p st)"
proof -
  obtain r st1 where g: "GetProcInfoByPayload p st = (r, st1)" by (cases "GetProcInfoByPayload p st")
  with assms have "st_ok st1" by (blast intro: GetProcInfoByPayload_ok)
  with assms show ?thesis
    by (simp add: HandleReportWindowState_def g Let_def st_intros ok_intros split: option.split prod.split)
qed

lemma HandleReportAudioState_ok: "ext_ok E \<Longrightarrow> st_ok st \<Longrightarrow> st_ok (HandleReportAudioState E t v p st)"
  by (simp add: HandleReportAudioState_def st_intros ok_intros split: option.split)

lemma HandleReportAudioCapTureState_ok:
  "ext_ok E \<Longrightarrow> st_ok st \<Longrightarrow> st_ok (HandleReportAudioCapTureState E t v p st)"
  by (simp add: HandleReportAudioCapTureState_def st_intros ok_intros split: option.split)

lemma HandleReportWebviewAudioState_ok:
  "ext_ok E \<Longrightarrow> st_ok st \<Longrightarrow> st_ok (HandleReportWebviewAudioState E t v p st)"
  by (simp add: HandleReportWebviewAudioState_def Let_def st_intros ok_intros split: option.split)

lemma HandleReportRunningLockEvent_ok: "ext_ok E \<Longrightarrow> st_ok st \<Longrightarrow> st_ok (HandleReportRunningLockEvent E t v p st)"
  by (simp add: HandleReportRunningLockEvent_def Let_def st_intros ok_intros split: option.split)

lemma HandleReportBluetoothConnectState_ok: "ext_ok E \<Longrightarrow> st_ok st \<Longrightarrow> st_ok (HandleReportBluetoothConnectState E t v p st)"
  by (simp add: HandleReportBluetoothConnectState_def st_intros ok_intros split: option.split)

lemma HandleNapModeEvent_ok: "ext_ok E \<Longrightarrow> st_ok st \<Longrightarrow> st_ok (HandleNapModeEvent E t v p st)"
  by (simp add: HandleNapModeEvent_def st_intros split: option.split)

lemma HandleReportHisysEvent_ok: "ext_ok E \<Longrightarrow> st_ok st \<Longrightarrow> st_ok (HandleReportHisysEvent E t v p st)"
  by (simp add: HandleReportHisysEvent_def st_intros ok_intros split: option.split prod.split)

lemma HandleReportScreenCaptureEvent_ok:
  "ext_ok E \<Longrightarrow> st_ok st \<Longrightarrow> st_ok (HandleReportScreenCaptureEvent E t v p st)"
  by (simp add: HandleReportScreenCaptureEvent_def st_intros ok_intros split: option.split)

lemma HandleReportAvCodecEvent_ok: "ext_ok E \<Longrightarrow> st_ok st \<Longrightarrow> st_ok (HandleReportAvCodecEvent E t v p st)"
  by (simp add: HandleReportAvCodecEvent_def st_intros ok_intros split: option.split prod.split)

lemma HandleSceneBoardState_ok: "st_ok st \<Longrightarrow> st_ok (HandleSceneBoardState p st)"
  by (simp add: HandleSceneBoardState_def st_ok_def ok_intros split: option.split prod.split)

lemma HandleWebviewScreenCapture_ok:
  assumes "ext_ok E" "st_ok st"
  shows "st_ok (HandleWebviewScreenCapture E t v p st)"
proof -
  obtain r st1 where g: "GetProcInfoByPayload p st = (r, st1)" by (cases "GetProcInfoByPayload p st")
  with assms have "st_ok st1" by (blast intro: GetProcInfoByPayload_ok)
  with assms show ?thesis
    by (simp add: HandleWebviewScreenCapture_def g Let_def st_intros ok_intros split: option.split prod.split)
qed

lemma UpdateMmiStatus_ok: "st_ok st \<Longrightarrow> st_ok (UpdateMmiStatus p st)"
  by (simp add: UpdateMmiStatus_def st_intros ok_intros split: option.split prod.split)

lemma recover_proc_ok [st_intros]: "ext_ok E \<Longrightarrow> st_ok st \<Longrightarrow> st_ok (recover_proc E uid pid st)"
  by (simp add: recover_proc_def st_intros split: option.split)

lemma recover_app_ok [st_intros]: "ext_ok E \<Longrightarrow> st_ok st \<Longrightarrow> st_ok (recover_app E uid st)"
  by (simp add: recover_app_def fold_inv st_intros split: option.split)

lemma HandleReportCosmicCubeState_ok:
  "ext_ok E \<Longrightarrow> st_ok st \<Longrightarrow> st_ok (HandleReportCosmicCubeState E t v p st)"
  by (simp add: HandleReportCosmicCubeState_def HandleEmptyPayloadForCosmicCubeState_def
      fold_inv st_intros split: option.split prod.split)

lemma HandleReportWebSubWinTaskStatus_ok: "ext_ok E \<Longrightarrow> st_ok st \<Longrightarrow> st_ok (HandleReportWebSubWinTaskStatus E t v p st)"
  by (simp add: HandleReportWebSubWinTaskStatus_def Let_def st_intros ok_intros split: option.split prod.split)

lemma run_delayed_ok: "ext_ok E \<Longrightarrow> st_ok st \<Longrightarrow> st_ok (run_delayed E n st)"
  by (simp add: run_delayed_def CheckWebSubWinTaskStatus_def st_intros ok_intros split: option.split prod.split)

lemma HandleReportWebviewVideoState_ok:
  assumes "ext_ok E" "st_ok st"
  shows "st_ok (HandleReportWebviewVideoState E t v p st)"
proof -
  obtain r st1 where g: "GetProcInfoByPayload p st = (r, st1)" by (cases "GetProcInfoByPayload p st")
  with assms have "st_ok st1" by (blast intro: GetProcInfoByPayload_ok)
  with assms show ?thesis
    by (simp add: HandleReportWebviewVideoState_def g Let_def st_intros ok_intros split: option.split prod.split)
qed

lemma HandleOnAppStopped_ok: "st_ok st \<Longrightarrow> st_ok (HandleOnAppStopped p st)"
  by (simp add: HandleOnAppStopped_def st_ok_def ok_intros split: option.split)

lemma ReportAbilityStatus_ok: "st_ok st \<Longrightarrow> st_ok (ReportAbilityStatus E v p st)"
proof -
  assume ok: "st_ok st"
  have "st_ok (GetRunningLockState E st)"
    using ok by (auto simp: GetRunningLockState_def intro!: fold_inv st_intros ok_intros split: option.split)
  moreover have "st_ok (st\<lparr>sup := InitSuperVisorContent (app_mgr E) (sup st)\<rparr>)"
    using ok by (simp add: st_ok_def ok_intros)
  ultimately show ?thesis
    using ok by (simp add: ReportAbilityStatus_def HandleAbilityAdded_def HandleAbilityRemoved_def Let_def)
qed

lemmas handlers_ok = HandleReportKeyThread_ok HandleReportWindowState_ok HandleReportWebviewAudioState_ok
  HandleReportAudioState_ok HandleReportRunningLockEvent_ok HandleSceneBoardState_ok
  HandleWebviewScreenCapture_ok HandleReportScreenCaptureEvent_ok HandleReportWebviewVideoState_ok
  ReportAbilityStatus_ok UpdateMmiStatus_ok HandleReportCosmicCubeState_ok HandleOnAppStopped_ok
  HandleAbilityStateChanged_ok HandleExtensionStateChanged_ok HandleProcessStateChangedEx_ok
  HandleApplicationStateChanged_ok HandleFocusStateChange_ok HandleWindowVisibilityChanged_ok
  HandleDrawingContentChangeWindow_ok HandleTransientTaskStatus_ok HandleContinuousTaskStatus_ok
  HandleReportAudioCapTureState_ok HandleReportWebSubWinTaskStatus_ok

end
