(* ===== verification/Cgroup_Props.thy ===== *)
theory Cgroup_Props
  imports Cgroup_Facts
begin

text \<open>
  What the cgroup plugin guarantees: the invariant of its cache in every reachable state,
  and the effect of the death of a process, of a focus change, of continuous tasks and of
  ui extensions.
\<close>

section \<open>Dispatch\<close>

lemma map_of_ConsE:
  assumes "map_of ((a, b) # m) k = Some v"
  obtains "k = a" "v = b" | "k \<noteq> a" "map_of m k = Some v"
  using assms by (auto split: if_splits)

lemma dispatched_ok:
  assumes "ext_ok E" "st_ok st" "dispatchResFuncMap E t = Some f"
  shows "st_ok (f t' v p st)"
  using assms(3) unfolding dispatchResFuncMap_def
  by (elim map_of_ConsE) (simp_all add: handlers_ok assms(1,2))

lemma DispatchOther_ok: "ext_ok E \<Longrightarrow> st_ok st \<Longrightarrow> st_ok (DispatchOtherResource E t v p st)"
  by (simp add: DispatchOtherResource_def HandleReportHisysEvent_ok HandleReportBluetoothConnectState_ok
      HandleReportAvCodecEvent_ok HandleNapModeEvent_ok)

lemma DispatchResource_ok: "ext_ok E \<Longrightarrow> st_ok st \<Longrightarrow> st_ok (DispatchResource E t v p st)"
  by (simp add: DispatchResource_def DispatchOther_ok dispatched_ok split: option.split)

lemma cg_step_ok: "ext_ok E \<Longrightarrow> cg_step E st st' \<Longrightarrow> st_ok st \<Longrightarrow> st_ok st'"
  by (erule cg_stepE) (simp_all add: DispatchResource_ok run_delayed_ok)

section \<open>The plugin's state after an adjustment\<close>

lemma adjust_proc_at:
  assumes "ext_ok E" "st_ok st" "proc_at (sup st) u p = Some pr"
  shows "\<exists>pr'. proc_at (sup (adjust E uid pid src st)) u p = Some pr' \<and> same_but_sched pr pr'"
proof (cases "u = uid")
  case False
  with assms(3) show ?thesis
    by (auto simp: adjust_def proc_at_def GetAppRecord_def store_simps split: option.splits prod.splits)
next
  case True
  with assms(3) obtain app where app: "map_of (uidsMap (sup st)) uid = Some app"
    "map_of (pidsMap app) p = Some pr"
    by (auto simp: proc_at_def GetAppRecord_def GetProcessRecord_def split: option.splits)
  obtain a' o' where a': "AdjustProcessGroup E pid src (app, outs st) = (a', o')"
    by (cases "AdjustProcessGroup E pid src (app, outs st)")
  have "om_ok (pidsMap app)" using assms(2) app(1) by (auto simp: st_ok_def dest: sup_okD app_okD(2))
  with Adjust_sched_only[OF ext_okD(1)[OF assms(1)], of "(app, outs st)" pid src] a'
  have "sched_only app a'" by simp
  from sched_onlyD(3)[OF this app(2)] show ?thesis
    using True app(1) a' by (auto simp: adjust_def proc_at_def GetAppRecord_def GetProcessRecord_def store_simps)
qed

section \<open>Properties\<close>


text \<open>A library that moves a process to the background on an arbitration, and marks it on an event.\<close>

definition lib_env :: cg_env where
  "lib_env = demo_env\<lparr>
     ext_arbitrate := Some (\<lambda>app pid src.
       upd_proc pid (\<lambda>pr. pr\<lparr>setSchedGroup := SP_BACKGROUND, policyDescription := 1\<rparr>) app),
     ext_sys_event := Some (\<lambda>app pid t v. upd_proc pid (\<lambda>pr. pr\<lparr>policyDescription := 2\<rparr>) app),
     ext_caller_event := Some (\<lambda>app pid c. upd_proc pid (\<lambda>pr. pr\<lparr>policyDescription := 3\<rparr>) app)\<rparr>"

lemma lib_env_ok: "ext_ok lib_env"
proof -
  have "same_but_sched pr (pr\<lparr>policyDescription := d\<rparr>)" for pr d
    unfolding same_but_sched_def by (cases pr) simp
  then show ?thesis
    by (simp add: ext_ok_def arbitration_ok_def lib_env_def sched_only_upd same_but_sched_upd)
qed

definition focus_payload :: json where
  "focus_payload = JObj [(''pid'', JStr ''11''), (''uid'', JStr ''20010''), (''windowId'', JStr ''7''),
     (''windowType'', JStr ''1''), (''displayId'', JStr ''0'')]"


lemma handled_subscribed:
  "DispatchResource E t v p st = st \<or> t \<in> set resTypes \<union> fst ` set resTypeWithVal"
proof (cases "dispatchResFuncMap E t")
  case None
  then show ?thesis by (auto simp: DispatchResource_def DispatchOtherResource_def resTypes_def)
next
  case (Some f)
  then have "t \<in> set resTypes \<union> fst ` set resTypeWithVal"
    unfolding dispatchResFuncMap_def
    by (elim map_of_ConsE) (simp_all add: resTypes_def resTypeWithVal_def)
  then show ?thesis by blast
qed

text \<open>
  An event type the plugin has a handler for is one it subscribed to, and an event of
  any other type changes nothing.
\<close>

theorem handled_is_subscribed:
  "DispatchResource E t v p st = st \<or> t \<in> set resTypes \<union> fst ` set resTypeWithVal"
  by (rule handled_subscribed)

lemma last_record: "om_del pid m = [] \<longleftrightarrow> (\<forall>p. map_of m p \<noteq> None \<longrightarrow> p = pid)"
proof
  assume "om_del pid m = []"
  then show "\<forall>p. map_of m p \<noteq> None \<longrightarrow> p = pid" using om_del_lookup[of pid m] by (metis map_of.simps(1))
next
  assume "\<forall>p. map_of m p \<noteq> None \<longrightarrow> p = pid"
  then show "om_del pid m = []" by (force simp: om_del_def filter_empty_conv map_of_eq_None_iff)
qed

lemma RemoveProcessRecord_fields:
  "RemoveProcessRecord pid app =
     (if GetProcessRecord pid app = None then app
      else app\<lparr>focusedProcess := (if focusedProcess app = Some pid then None else focusedProcess app),
        hostPidsSet := hostPidsSet app - {pid}, pidsMap := om_del pid (pidsMap app)\<rparr>)"
  by (auto simp: RemoveProcessRecord_def GetProcessRecord_def IsHostProcess_def Let_def split: option.split)

definition told_of_death :: "cg_env \<Rightarrow> i32 \<Rightarrow> application \<Rightarrow> application" where
  "told_of_death E pid app =
     (case ext_sys_event E of
        None \<Rightarrow> app
      | Some f \<Rightarrow> if GetProcessRecord pid app = None then app
                   else f app pid RES_TYPE_PROCESS_STATE_CHANGE (wrap_s32 PROCESS_DIED))"

lemma told_of_death_only: "ext_ok E \<Longrightarrow> om_ok (pidsMap app) \<Longrightarrow> sched_only app (told_of_death E pid app)"
  by (simp add: told_of_death_def ext_okD split: option.split)

lemma told_of_death_sup:
  assumes "GetAppRecord uid (sup st) = Some app"
    and st1: "st1 = (if has_proc uid pid st
      then ReportSysEvent E uid pid RES_TYPE_PROCESS_STATE_CHANGE (wrap_s32 PROCESS_DIED) st else st)"
  shows "GetAppRecord u (sup st1) = (if u = uid then Some (told_of_death E pid app) else GetAppRecord u (sup st))"
    "sup st1 = (sup st)\<lparr>uidsMap := uidsMap (sup st1)\<rparr>" "delayTaskMap st1 = delayTaskMap st"
    "outs st1 = outs st @ (if GetProcessRecord pid app \<noteq> None \<and> ext_sys_event E \<noteq> None
      then [OutSysEvent (word_of_int uid) pid RES_TYPE_PROCESS_STATE_CHANGE (wrap_s32 PROCESS_DIED)] else [])"
  using assms(1) unfolding st1
  by (auto simp: has_proc_def proc_at_def told_of_death_def ReportSysEvent_def on_app_def GetAppRecord_def
      store_simps upd_app_def split: option.splits)

lemma sched_only_last:
  assumes "sched_only app app1"
  shows "om_del pid (pidsMap app1) = [] \<longleftrightarrow> (\<forall>p. GetProcessRecord p app \<noteq> None \<longrightarrow> p = pid)"
    "GetProcessRecord pid app1 = None \<longleftrightarrow> GetProcessRecord pid app = None"
  using sched_only_None[OF assms]
  by (simp_all add: last_record GetProcessRecord_def)


definition died_payload :: json where
  "died_payload = JObj [(''uid'', JStr ''20010''), (''pid'', JStr ''10''), (''bundleName'', JStr ''b'')]"


text \<open>
  When a window of a process gets the focus, that process and no other process of the
  application (render, gpu and child processes apart) is in the top-app group (kernel
  accepting, no arbitration library).
\<close>

theorem focus_event_top_app:
  assumes "accepts E" "ext_arbitrate E = None" "ext_sys_event E = None" "st_ok st"
    "proc_at (sup (HandleFocusedWindow E w t d pid uid st)) uid q = Some r"
    "\<not> is_child_type (processType r)"
  shows "curSchedGroup r = SP_TOP_APP \<longleftrightarrow> q = pid"
proof -
  let ?st1 = "ensure_proc uid pid st"
  let ?st2 = "on_proc uid pid
                (\<lambda>pr. (upd_window w (\<lambda>x. x\<lparr>windowType := t, isFocused := True, displayId := d\<rparr>)
                   (GetWindowInfoNonNull w pr))\<lparr>linkedWindow := Some w\<rparr>) ?st1"
  let ?st3 = "on_app uid (\<lambda>app. app\<lparr>focusedProcess := Some pid\<rparr>) ?st2"
  have ok3: "st_ok ?st3" using assms(4) by (simp add: st_intros ok_intros store_simps)
  have "proc_at (sup ?st2) uid pid \<noteq> None" by (simp add: store_simps)
  then obtain app2 where app2: "map_of (uidsMap (sup ?st2)) uid = Some app2"
    by (auto simp: proc_at_def GetAppRecord_def split: option.splits)
  let ?app3 = "app2\<lparr>focusedProcess := Some pid\<rparr>"
  have app3: "map_of (uidsMap (sup ?st3)) uid = Some ?app3"
    using app2 by (simp add: on_app_def store_simps)
  have aok: "app_ok uid ?app3" using ok3 app3 by (simp add: st_ok_def sup_okD)
  obtain a4 o4 where a4: "AdjustAllProcessGroup E ADJS_FOCUSED_WINDOW (?app3, outs ?st3) = (a4, o4)"
    by (cases "AdjustAllProcessGroup E ADJS_FOCUSED_WINDOW (?app3, outs ?st3)")
  have ext: "arbitration_ok E" using assms(2) by (simp add: arbitration_ok_def)
  have foc: "focusedProcess a4 = Some pid"
    using AdjustAll_sched_only[OF ext, of "(?app3, outs ?st3)" ADJS_FOCUSED_WINDOW] a4 app_okD(2)[OF aok]
    by (auto dest: sched_only_fields(1))
  have at: "map_of (uidsMap (sup (adjust_all E uid ADJS_FOCUSED_WINDOW ?st3))) uid = Some a4"
    using app3 a4 by (simp add: adjust_all_def GetAppRecord_def store_simps)
  have "map_of (uidsMap (sup (HandleFocusedWindow E w t d pid uid st))) uid =
      Some (if app_name a4 = [] then app_SetName (bundle_name_of_uid E uid) a4 else a4)"
    using at by (simp add: HandleFocusedWindow_def Let_def name_from_bundle_manager_def on_app_def
        ReportSysEvent_def assms(3) store_simps)
  then have r: "GetProcessRecord q a4 = Some r"
    using assms(5) by (simp add: proc_at_def GetAppRecord_def GetProcessRecord_def app_SetName_def split: if_splits)
  from top_app_is_focused_core[OF assms(1,2) aok _ a4 r assms(6)] foc show ?thesis by auto
qed

lemma demo_silent: "ext_sys_event demo_env = None"
  by (simp add: demo_env_def)

lemma demo_ext_ok: "ext_ok demo_env"
  by (simp add: ext_ok_def arbitration_ok_def demo_env_def)

definition demo_focused :: cg_state where
  "demo_focused = HandleFocusedWindow demo_env 7 1 0 12 20010
     (cg_init\<lparr>sup := Supervisor\<lparr>uidsMap := [(20010, demo_app)]\<rparr>\<rparr>)"

lemma focus_event_top_app_witness:
  "\<exists>r. proc_at (sup demo_focused) 20010 10 = Some r \<and> curSchedGroup r \<noteq> SP_TOP_APP"
proof -
  let ?st = "cg_init\<lparr>sup := Supervisor\<lparr>uidsMap := [(20010, demo_app)]\<rparr>\<rparr>"
  have ok: "st_ok ?st"
    using demo_app_ok by (simp add: st_ok_def sup_ok_def om_ok_def cg_init_def)
  obtain r where r: "proc_at (sup demo_focused) 20010 10 = Some r" "processType r = PRT_NORMAL"
  proof -
    let ?st3 = "on_app 20010 (\<lambda>app. app\<lparr>focusedProcess := Some 12\<rparr>)
      (on_proc 20010 12 (\<lambda>pr. (upd_window 7 (\<lambda>x. x\<lparr>windowType := 1, isFocused := True, displayId := 0\<rparr>)
         (GetWindowInfoNonNull 7 pr))\<lparr>linkedWindow := Some 7\<rparr>) (ensure_proc 20010 12 ?st))"
    obtain app3 where a3: "map_of (uidsMap (sup ?st3)) 20010 = Some app3"
      "map_of (pidsMap app3) 10 = Some (ProcessRecord 20010 10)" "om_ok (pidsMap app3)"
      by (simp add: on_app_def on_proc_def ensure_proc_def ensure_app_def store_simps
          demo_app_def Application_def om_ok_def upd_proc_def GetProcessRecordNonNull_def)
    obtain a4 o4 where a4: "AdjustAllProcessGroup demo_env ADJS_FOCUSED_WINDOW (app3, outs ?st3) = (a4, o4)"
      by (cases "AdjustAllProcessGroup demo_env ADJS_FOCUSED_WINDOW (app3, outs ?st3)")
    have so: "sched_only app3 a4"
      using AdjustAll_sched_only[OF ext_okD(1)[OF demo_ext_ok], of "(app3, outs ?st3)" ADJS_FOCUSED_WINDOW] a4 a3(3) by simp
    from sched_onlyD(3)[OF so a3(2)] obtain r where
      r: "map_of (pidsMap a4) 10 = Some r" "same_but_sched (ProcessRecord 20010 10) r" by blast
    have "map_of (uidsMap (sup (adjust_all demo_env 20010 ADJS_FOCUSED_WINDOW ?st3))) 20010 = Some a4"
      using a3 a4 by (simp add: adjust_all_def GetAppRecord_def store_simps)
    then have "proc_at (sup demo_focused) 20010 10 = Some r"
      using r(1) by (simp add: demo_focused_def HandleFocusedWindow_def Let_def name_from_bundle_manager_def
          on_app_def ReportSysEvent_def demo_silent store_simps proc_at_def GetAppRecord_def GetProcessRecord_def
          app_SetName_def)
    moreover have "processType r = PRT_NORMAL"
      using same_but_sched_fields(1)[OF r(2)] by (simp add: ProcessRecord_def)
    ultimately show ?thesis using that by blast
  qed
  have "\<not> is_child_type (processType r)" using r(2) by (simp add: is_child_type_def proc_type_defs)
  from focus_event_top_app[OF demo_accepts demo_silent ok r(1)[unfolded demo_focused_def] this] r(1)
  show ?thesis by auto
qed

lemma ability_after_write:
  "GetAbilityInfo r (upd_ability r f (GetAbilityInfoNonNull r pr)) =
     map_option f (GetAbilityInfo r (GetAbilityInfoNonNull r pr))"
  if "\<And>a. ai_recordId (f a) = ai_recordId a"
  using that unfolding GetAbilityInfo_def upd_ability_def
  by (simp add: find_update_first)

text \<open>
  An ability event of extension type acts through its ui-extension state: the number is
  written into the payload as text, parsed again by the extension handler, and ends up,
  unchanged, as the extension state of the ability, whose name and type are the event's.
\<close>

theorem ui_extension_state:
  assumes "ext_ok E" "st_ok st"
    "ParseConfig payload = Some (uid, pid, b, abilityName, recordId, s0, AT_EXTENSION (fwk E), c, m)"
    "ParseValue ''extensionAbilityType'' payload = Some x"
    "ParseValue ''uiExtensionState'' payload = Some s"
    "s \<noteq> EXTENSION_STATE_TERMINATED (fwk E)"
  shows "\<exists>pr a. proc_at (sup (HandleAbilityStateChanged E payload st)) uid pid = Some pr \<and>
    GetAbilityInfo recordId pr = Some a \<and>
    ai_estate a = s \<and> ai_name a = abilityName \<and> ai_type a = AT_EXTENSION (fwk E)"
proof -
  let ?p = "set_member ''extensionState'' (JStr (to_string s)) payload"
  from assms(5) have obj: "(\<exists>m. payload = JObj m) \<or> payload = JNull" by (blast dest: ParseValue_Some_obj)
  note rng = ParseValue_range[OF assms(5)]
  have pv: "ParseValue k ?p = (if k = ''extensionState'' then Some s else ParseValue k payload)" for k
    using ParseValue_set_member[OF obj] rng by simp
  have ps: "ParseString k ?p = ParseString k payload" if "k \<noteq> ''extensionState''" for k
    using ParseString_set_member[OF obj that] .
  from assms(3) have c: "ParseValue ''uid'' payload = Some uid" "ParseValue ''pid'' payload = Some pid"
    "ParseString ''bundleName'' payload = Some b" "ParseString ''abilityName'' payload = Some abilityName"
    "ParseValue ''recordId'' payload = Some recordId"
    "ParseValue ''abilityType'' payload = Some (AT_EXTENSION (fwk E))"
    by (auto simp: ParseConfig_def split: bind_splits)
  let ?f = "\<lambda>a. a\<lparr>ai_name := abilityName, ai_estate := s, ai_type := AT_EXTENSION (fwk E)\<rparr>"
  let ?st1 = "on_app uid (GetProcessRecordNonNull pid) (on_app uid (app_SetName b) (ensure_app uid st))"
  let ?st2 = "on_proc uid pid (\<lambda>pr. upd_ability recordId ?f (GetAbilityInfoNonNull recordId pr)) ?st1"
  have eq: "HandleAbilityStateChanged E payload st = adjust E uid pid ADJS_EXTENSION_STATE ?st2"
    using assms(3-6) c by (simp add: HandleAbilityStateChanged_def HandleUIExtensionAbilityStateChange_def
        HandleExtensionStateChanged_def pv ps)
  have ok: "st_ok ?st2" using assms(2) by (simp add: st_intros ok_intros)
  have "proc_at (sup ?st1) uid pid \<noteq> None"
    by (subst proc_at_on_app) (simp add: on_app_def ensure_app_def store_simps)
  then obtain pr1 where "proc_at (sup ?st1) uid pid = Some pr1" by blast
  then have at2: "proc_at (sup ?st2) uid pid =
      Some (upd_ability recordId ?f (GetAbilityInfoNonNull recordId pr1))"
    by (simp add: store_simps)
  obtain a where a: "GetAbilityInfo recordId (GetAbilityInfoNonNull recordId pr1) = Some a"
    using GetAbilityInfoNonNull_lookup[of recordId recordId pr1] by (auto split: option.splits)
  from adjust_proc_at[OF assms(1) ok at2, of uid pid ADJS_EXTENSION_STATE] obtain pr where
    pr: "proc_at (sup (adjust E uid pid ADJS_EXTENSION_STATE ?st2)) uid pid = Some pr"
    "same_but_sched (upd_ability recordId ?f (GetAbilityInfoNonNull recordId pr1)) pr" by blast
  have "GetAbilityInfo recordId pr = Some (?f a)"
    using same_but_sched_fields(5)[OF pr(2)] ability_after_write[of ?f recordId pr1] a
    by (simp add: GetAbilityInfo_def)
  with pr(1) eq show ?thesis by auto
qed

lemma ui_extension_state_witness:
  "\<exists>pr a. proc_at (sup (HandleAbilityStateChanged demo_env
      (JObj [(''uid'', JStr ''7''), (''pid'', JStr ''8''), (''bundleName'', JStr ''b''),
             (''abilityName'', JStr ''n''), (''recordId'', JStr ''3''), (''callerUid'', JStr ''1''),
             (''abilityState'', JStr ''2''), (''abilityType'', JStr ''4''),
             (''extensionAbilityType'', JStr ''1''), (''uiExtensionState'', JStr ''2'')])
      cg_init)) 7 8 = Some pr \<and> GetAbilityInfo 3 pr = Some a \<and>
    ai_estate a = 2 \<and> ai_name a = ''n'' \<and> ai_type a = AT_EXTENSION (fwk demo_env)"
  by (rule ui_extension_state[OF demo_ext_ok st_ok_init, where b = "''b''" and ?s0.0 = 2 and c = 1
        and m = "-1" and x = 1])
    (simp_all add: ParseConfig_def ParseValue_def ParseString_def member_def atoi_def parse_dec_def c_str_def
      is_digit_def is_space_def code_of_def dec_val_def signed_val_def wrap_s32_def demo_env_def demo_fwk_def)

section \<open>Continuous tasks\<close>

lemma fold_or_bit:
  "bit (fold (\<lambda>i f. f OR g i) is (w :: u32)) n \<longleftrightarrow> bit w n \<or> (\<exists>i \<in> set is. bit (g i) n)"
  by (induction "is" arbitrary: w) (auto simp: bit_or_iff)

lemma continuous_flags_bit_fold:
  "bit (fold (\<lambda>(_, ids) flag. fold (\<lambda>t f. f OR shl_1u t) ids flag) m w) n \<longleftrightarrow>
     bit w n \<or> (\<exists>(a, ids) \<in> set m. \<exists>i \<in> set ids. bit (shl_1u i) n)"
  by (induction m arbitrary: w) (auto simp: fold_or_bit)

lemma shl_1u_bit: "n < 32 \<Longrightarrow> bit (shl_1u i) n \<longleftrightarrow> unat (i AND 31) = n"
  by (auto simp: shl_1u_def bit_exp_iff)

lemma continuous_flags_bit:
  assumes "distinct (map fst m)" "n < 32"
  shows "bit (continuous_flags m) n \<longleftrightarrow>
    (\<exists>a ids i. map_of m a = Some ids \<and> i \<in> set ids \<and> unat (i AND 31) = n)"
  using assms unfolding continuous_flags_def continuous_flags_bit_fold
  by (auto simp: shl_1u_bit dest: map_of_SomeD)

lemma same_but_sched_flags:
  assumes "same_but_sched pr pr'"
  shows "continuousTaskFlag pr' = continuousTaskFlag pr"
  using assms unfolding same_but_sched_def by (cases pr; cases pr'; simp)

text \<open>
  Cancelling the continuous task of an ability clears exactly the flag bits no other
  ability of the process asks for: afterwards a bit is set if and only if some remaining
  ability lists a type with that number.
\<close>

theorem continuous_cancel_flags:
  assumes "ext_ok E" "st_ok st" "proc_at (sup st) uid pid = Some pr" "n < 32"
  shows "\<exists>pr'. proc_at (sup (HandleContinuousTaskCancel E uid pid abilityId st)) uid pid = Some pr' \<and>
    (bit (continuousTaskFlag pr') n \<longleftrightarrow>
      (\<exists>a ids i. a \<noteq> abilityId \<and> map_of (abilityIdAndContinuousTaskFlagMap pr) a = Some ids \<and>
                 i \<in> set ids \<and> unat (i AND 31) = n))"
proof -
  let ?f = "\<lambda>pr. let m = AList.delete abilityId (abilityIdAndContinuousTaskFlagMap pr)
                 in pr\<lparr>abilityIdAndContinuousTaskFlagMap := m, continuousTaskFlag := continuous_flags m\<rparr>"
  let ?st1 = "ensure_app uid st"
  have at1: "proc_at (sup ?st1) uid pid = Some pr"
    using assms(3) by (auto simp: ensure_app_def proc_at_def GetAppRecord_def store_simps split: option.splits)
  then have at2: "proc_at (sup (on_proc uid pid ?f ?st1)) uid pid = Some (?f pr)" by (simp add: store_simps)
  have ok: "st_ok (on_proc uid pid ?f ?st1)" using assms(2) by (simp add: Let_def st_intros ok_intros)
  from adjust_proc_at[OF assms(1) ok at2, of uid pid ADJS_CONTINUOUS_END] obtain pr' where
    pr': "proc_at (sup (adjust E uid pid ADJS_CONTINUOUS_END (on_proc uid pid ?f ?st1))) uid pid = Some pr'"
    "same_but_sched (?f pr) pr'" by blast
  let ?m = "abilityIdAndContinuousTaskFlagMap pr"
  have d: "distinct (map fst ?m)"
    using proc_at_ok[OF _ assms(3)] assms(2) by (simp add: st_ok_def proc_ok_def)
  have "continuousTaskFlag pr' = continuous_flags (AList.delete abilityId ?m)"
    using same_but_sched_flags[OF pr'(2)] by (simp add: Let_def)
  then have "bit (continuousTaskFlag pr') n \<longleftrightarrow>
      (\<exists>a ids i. a \<noteq> abilityId \<and> map_of ?m a = Some ids \<and> i \<in> set ids \<and> unat (i AND 31) = n)"
    using continuous_flags_bit[OF distinct_delete[OF d] assms(4), of abilityId]
    by (auto simp: delete_conv' split: if_splits)
  moreover have "HandleContinuousTaskCancel E uid pid abilityId st =
      adjust E uid pid ADJS_CONTINUOUS_END (on_proc uid pid ?f ?st1)"
    using at1 by (simp add: HandleContinuousTaskCancel_def has_proc_def Let_def)
  ultimately show ?thesis using pr'(1) by (intro exI[of _ pr']) simp
qed

lemma continuous_cancel_flags_witness:
  "\<exists>pr'. proc_at (sup (HandleContinuousTaskCancel demo_env 7 8 1
      (on_proc 7 8 (\<lambda>pr. pr\<lparr>abilityIdAndContinuousTaskFlagMap := [(1, [2]), (5, [2, 4])]\<rparr>)
        (ensure_proc 7 8 cg_init)))) 7 8 = Some pr' \<and> bit (continuousTaskFlag pr') 2"
proof -
  let ?base = "ensure_proc 7 8 cg_init"
  let ?f = "\<lambda>pr. pr\<lparr>abilityIdAndContinuousTaskFlagMap := [(1, [2]), (5, [2, 4])]\<rparr>"
  let ?st = "on_proc 7 8 ?f ?base"
  have ok: "st_ok ?st"
    using st_ok_init by (auto intro!: st_intros simp: proc_ok_def)
  have "proc_at (sup ?base) 7 8 \<noteq> None" by (simp add: store_simps)
  then obtain pr0 where "proc_at (sup ?base) 7 8 = Some pr0" by blast
  then have at: "proc_at (sup ?st) 7 8 = Some (?f pr0)" by (simp add: proc_at_on_proc)
  obtain pr' where pr': "proc_at (sup (HandleContinuousTaskCancel demo_env 7 8 1 ?st)) 7 8 = Some pr'"
    "bit (continuousTaskFlag pr') 2 \<longleftrightarrow>
      (\<exists>a ids i. a \<noteq> 1 \<and> map_of (abilityIdAndContinuousTaskFlagMap (?f pr0)) a = Some ids \<and>
                 i \<in> set ids \<and> unat (i AND 31) = 2)"
    using continuous_cancel_flags[OF demo_ext_ok ok at, of 2 1] by auto
  have "map_of (abilityIdAndContinuousTaskFlagMap (?f pr0)) 5 = Some [2, 4]" by simp
  moreover have "unat ((2 :: u32) AND 31) = 2" by simp
  ultimately have "\<exists>a ids i. a \<noteq> 1 \<and> map_of (abilityIdAndContinuousTaskFlagMap (?f pr0)) a = Some ids \<and>
                 i \<in> set ids \<and> unat (i AND 31) = 2"
    by (intro exI[of _ 5] exI[of _ "[2, 4]"] exI[of _ 2]) simp
  with pr' show ?thesis by blast
qed

section \<open>The web view's delayed task\<close>

text \<open>
  The name of the delayed task concatenates pid and uid without a separator, so it does
  not identify the process: with a task of process 12 of uid 3 pending, a report about
  process 1 of uid 23 cancels it.
\<close>

theorem web_task_name_collision:
  "web_task_name 1 23 = web_task_name 12 3 \<and>
   map_of (delayTaskMap (RemoveTask (web_task_name 1 23)
     (PostTask_delayed (web_task_name 12 3) task st))) (web_task_name 12 3) = None"
proof -
  have "web_task_name 1 23 = web_task_name 12 3"
    by (simp add: web_task_name_def to_string_def nat_to_string.simps)
  then show ?thesis by (simp add: RemoveTask_def PostTask_delayed_def delete_conv')
qed

end
