(* ===== verification/Plugin_Cgroup.thy ===== *)
theory Plugin_Cgroup
  imports Plugin_Mgr_Props Cgroup_Props
begin

text \<open>
  The cgroup plugin as a plugin of the manager: what \<open>SchedController::Init\<close> and
  \<open>Disable\<close> (sched_controller/sched_controller.cpp) call on the manager, and that an event
  which would change the plugin's state reaches the plugin.  What the vendor's extension
  library subscribes in addition is a parameter.
\<close>

definition LIB_NAME :: string where "LIB_NAME = ''libcgroup_sched.z.so''"

definition sched_Init :: "pm_call list \<Rightarrow> pm_call list" where
  "sched_Init ext =
     map (CallSubscribe LIB_NAME) resTypes @
     map (\<lambda>k. CallSubscribeAccurately LIB_NAME (fst k) (snd k)) resTypeWithVal @ ext"

definition sched_Disable :: "pm_call list" where
  "sched_Disable =
     map (CallUnSubscribe LIB_NAME) resTypes @
     map (\<lambda>k. CallUnSubscribeAccurately LIB_NAME (fst k) (snd k)) resTypeWithVal"

definition OnPluginInit :: "pm_call list \<Rightarrow> string \<Rightarrow> bool \<times> pm_call list" where
  "OnPluginInit ext libName = (if libName \<noteq> LIB_NAME then (False, []) else (True, sched_Init ext))"

fun only_subscribes :: "pm_call \<Rightarrow> bool" where
  "only_subscribes (CallSubscribe l t) = True"
| "only_subscribes (CallSubscribeSync l t) = True"
| "only_subscribes (CallSubscribeAccurately l t v) = True"
| "only_subscribes _ = False"

lemma LIB_NAME_nonempty [simp]: "LIB_NAME \<noteq> []"
  by (simp add: LIB_NAME_def)

lemma calls_types:
  "fold apply_call (map (CallSubscribe lib) ts) st = fold (SubscribeResource lib) ts st"
  by (induction ts arbitrary: st) simp_all

lemma calls_values:
  "fold apply_call (map (\<lambda>k. CallSubscribeAccurately lib (fst k) (snd k)) ks) st = fold (acc_sub lib) ks st"
  by (induction ks arbitrary: st) (simp_all add: acc_sub_def)

lemma calls_untypes:
  "fold apply_call (map (CallUnSubscribe lib) ts) st = fold (UnSubscribeResource lib) ts st"
  by (induction ts arbitrary: st) simp_all

lemma calls_unvalues:
  "fold apply_call (map (\<lambda>k. CallUnSubscribeAccurately lib (fst k) (snd k)) ks) st = fold (acc_unsub lib) ks st"
  by (induction ks arbitrary: st) (simp_all add: acc_unsub_def)

text \<open>Subscribing never takes a subscriber away from an event.\<close>

lemma only_subscribes_mono:
  "only_subscribes c \<Longrightarrow> pm_ok st \<Longrightarrow> set (subscribers_of t v st) \<subseteq> set (subscribers_of t v (apply_call c st))"
  by (cases c)
     (auto simp: subscribers_of_def SubscribeResource_def SubscribeSyncResource_def
       SubscribeResourceAccurately_def reg_at_add)

lemma only_subscribes_fold:
  "list_all only_subscribes cs \<Longrightarrow> pm_ok st \<Longrightarrow>
   set (subscribers_of t v st) \<subseteq> set (subscribers_of t v (fold apply_call cs st))"
proof (induction cs arbitrary: st)
  case (Cons c cs)
  then have "set (subscribers_of t v st) \<subseteq> set (subscribers_of t v (apply_call c st))"
    by (simp add: only_subscribes_mono)
  moreover have "set (subscribers_of t v (apply_call c st)) \<subseteq>
      set (subscribers_of t v (fold apply_call cs (apply_call c st)))"
    using Cons by (simp add: pm_ok_call)
  ultimately show ?case by simp
qed simp

lemma acc_sub_subscribes:
  "pm_ok st \<Longrightarrow> lib \<noteq> [] \<Longrightarrow> lib \<in> set (subscribers_of (fst k) (snd k) (acc_sub lib k st))"
  by (auto simp: subscribers_of_def acc_sub_def SubscribeResourceAccurately_def SubscribeResource_def
      reg_at_add)

lemma sched_Init_subscribes:
  assumes "pm_ok st" "list_all only_subscribes ext"
    and "t \<in> set resTypes \<or> (t, v) \<in> set resTypeWithVal"
  shows "LIB_NAME \<in> set (subscribers_of t v (fold apply_call (sched_Init ext) st))"
proof -
  let ?k = "map (\<lambda>k. CallSubscribeAccurately LIB_NAME (fst k) (snd k))"
  let ?st1 = "fold (SubscribeResource LIB_NAME) resTypes st"
  have ok1: "pm_ok ?st1" using type_registry.ok_subs [OF assms(1)] .
  have subs: "list_all only_subscribes (?k ks)" for ks by (induction ks) simp_all
  show ?thesis using assms(3)
  proof
    assume "t \<in> set resTypes"
    then have "LIB_NAME \<in> set (subscribers_of t v ?st1)"
      using type_registry.subs_at [OF assms(1) LIB_NAME_nonempty, of t resTypes]
      by (simp add: subscribers_of_def count_list_0_iff)
    moreover have "list_all only_subscribes (?k resTypeWithVal @ ext)"
      using subs assms(2) by simp
    ultimately show ?thesis
      using only_subscribes_fold [OF _ ok1, of "?k resTypeWithVal @ ext" t v]
      by (auto simp: sched_Init_def calls_types)
  next
    assume "(t, v) \<in> set resTypeWithVal"
    then obtain as bs where split: "resTypeWithVal = as @ (t, v) # bs" by (metis split_list)
    let ?st2 = "fold apply_call (?k as) ?st1"
    have ok2: "pm_ok ?st2" using ok1 by (rule pm_ok_calls)
    have "LIB_NAME \<in> set (subscribers_of t v (acc_sub LIB_NAME (t, v) ?st2))"
      using acc_sub_subscribes [OF ok2 LIB_NAME_nonempty, of "(t, v)"] by simp
    moreover have "pm_ok (acc_sub LIB_NAME (t, v) ?st2)"
      using ok2 by (simp add: acc_sub_def pm_intros)
    moreover have "list_all only_subscribes (?k bs @ ext)" using subs assms(2) by simp
    ultimately show ?thesis
      using only_subscribes_fold [of "?k bs @ ext" "acc_sub LIB_NAME (t, v) ?st2" t v]
      by (auto simp: sched_Init_def calls_types split acc_sub_def)
  qed
qed

lemma unchanged_unless_subscribed:
  assumes "DispatchResource C t v p cg \<noteq> cg"
  shows "t \<in> set resTypes \<or> (t, v) \<in> set resTypeWithVal"
proof (cases "t = RES_TYPE_TRANSIENT_TASK")
  case False
  have "t \<in> set resTypes \<union> fst ` set resTypeWithVal"
    using handled_subscribed [of C t v p cg] assms by blast
  with False show ?thesis by (auto simp: resTypeWithVal_def)
next
  case True
  then have "DispatchResource C t v p cg = HandleTransientTaskStatus v p cg"
    by (simp add: DispatchResource_def dispatchResFuncMap_def DispatchOtherResource_def res_type_defs)
  moreover have "HandleTransientTaskStatus v p cg = cg"
    if "v \<noteq> TRANSIENT_TASK_START" "v \<noteq> TRANSIENT_TASK_END"
    using that by (simp add: HandleTransientTaskStatus_def split: option.split prod.split)
  ultimately show ?thesis using assms True by (auto simp: resTypeWithVal_def)
qed


definition demo_cgroup_pm :: pm_state where
  "demo_cgroup_pm = pm_new\<lparr>isInit := True, pluginLibMap := [(LIB_NAME, lib_of demo_pe LIB_NAME)],
     dispatchers := [(LIB_NAME, True)]\<rparr>"

definition board_event :: res_data where
  "board_event = \<lparr>rd_type = RES_TYPE_REPORT_SCENE_BOARD, rd_value = 0,
     rd_payload = JObj [(''pid'', JStr ''11''), (''uid'', JStr ''20010'')]\<rparr>"

lemma board_event_acts:
  "DispatchResource demo_env (rd_type board_event) (rd_value board_event) (rd_payload board_event) cg_init \<noteq> cg_init"
proof -
  let ?p = "rd_payload board_event"
  have p: "ParseValue ''uid'' ?p = Some 20010" "ParseValue ''pid'' ?p = Some 11"
    by (simp_all add: board_event_def ParseValue_def member_def atoi_def parse_dec_def c_str_def
      is_digit_def is_space_def code_of_def dec_val_def signed_val_def wrap_s32_def)
  have "DispatchResource demo_env (rd_type board_event) (rd_value board_event) ?p cg_init = HandleSceneBoardState ?p cg_init"
    by (simp add: board_event_def DispatchResource_def dispatchResFuncMap_def DispatchOtherResource_def res_type_defs)
  moreover have "(20010, 11) \<in> sceneBoardUidPid (sup (HandleSceneBoardState ?p cg_init))"
    by (simp add: HandleSceneBoardState_def p)
  ultimately show ?thesis by (auto simp: cg_init_def Supervisor_def)
qed


lemma sub_folds:
  assumes "lib \<noteq> []"
  shows "resTypeLibMap (fold (SubscribeResource lib) ts s) = fold (reg_add lib) ts (resTypeLibMap s)"
    "resTyperesValueLibMap (fold (SubscribeResource lib) ts s) = resTyperesValueLibMap s"
    "subscriptionAccuractlyEnable (fold (SubscribeResource lib) ts s) = subscriptionAccuractlyEnable s"
    "resTypeLibMap (fold (UnSubscribeResource lib) ts s) = fold (reg_remove lib) ts (resTypeLibMap s)"
    "resTyperesValueLibMap (fold (UnSubscribeResource lib) ts s) = resTyperesValueLibMap s"
    "subscriptionAccuractlyEnable (fold (UnSubscribeResource lib) ts s) = subscriptionAccuractlyEnable s"
  using assms
  by (induction ts arbitrary: s) (simp_all add: SubscribeResource_def UnSubscribeResource_def)

lemma acc_folds:
  assumes "lib \<noteq> []" "subscriptionAccuractlyEnable s"
  shows "resTypeLibMap (fold (acc_sub lib) ks s) = resTypeLibMap s \<and>
      resTyperesValueLibMap (fold (acc_sub lib) ks s) = fold (reg_add lib) ks (resTyperesValueLibMap s) \<and>
      subscriptionAccuractlyEnable (fold (acc_sub lib) ks s)"
    "resTypeLibMap (fold (acc_unsub lib) ks s) = resTypeLibMap s \<and>
      resTyperesValueLibMap (fold (acc_unsub lib) ks s) = fold (reg_remove lib) ks (resTyperesValueLibMap s) \<and>
      subscriptionAccuractlyEnable (fold (acc_unsub lib) ks s)"
  using assms
  by (induction ks arbitrary: s)
     (simp_all add: acc_sub_def acc_unsub_def SubscribeResourceAccurately_def
       UnSubscribeResourceAccurately_def)

text \<open>
  Initialising and then disabling the cgroup plugin leaves no subscription of
  it behind and nobody else's changed, for every event type and value, when the extension
  library subscribes nothing.
\<close>

theorem cgroup_init_disable_roundtrip:
  assumes "pm_ok st" "subscriptionAccuractlyEnable st"
    and "LIB_NAME \<notin> set (subscribers_of t v st)"
  shows "subscribers_of t v (fold apply_call sched_Disable (fold apply_call (sched_Init []) st)) =
    subscribers_of t v st"
proof -
  let ?T = "resTypeLibMap st" and ?V = "resTyperesValueLibMap st"
  have T: "reg_ok ?T" and V: "reg_ok ?V" using assms(1) by (simp_all add: pm_ok_def)
  have n: "LIB_NAME \<notin> set (reg_at t ?T)" "LIB_NAME \<notin> set (reg_at (t, v) ?V)"
    using assms(3) by (simp_all add: subscribers_of_def)
  let ?fin = "fold apply_call sched_Disable (fold apply_call (sched_Init []) st)"
  have "resTypeLibMap ?fin = fold (reg_remove LIB_NAME) resTypes (fold (reg_add LIB_NAME) resTypes ?T)"
    "resTyperesValueLibMap ?fin =
       fold (reg_remove LIB_NAME) resTypeWithVal (fold (reg_add LIB_NAME) resTypeWithVal ?V)"
    using assms(2)
    by (simp_all add: sched_Disable_def sched_Init_def calls_types calls_values calls_untypes
        calls_unvalues sub_folds acc_folds)
  then show ?thesis
    using reg.subs_unsubs [OF T LIB_NAME_nonempty n(1)] reg.subs_unsubs [OF V LIB_NAME_nonempty n(2)]
    by (simp add: subscribers_of_def)
qed

theorem cgroup_init_disable_roundtrip_witness:
  "subscribers_of 5 1 (fold apply_call sched_Disable (fold apply_call (sched_Init [])
     (SubscribeResource ''a.so'' 5 pm_new))) = [''a.so'']"
proof -
  let ?st = "SubscribeResource ''a.so'' 5 pm_new"
  have ok: "pm_ok ?st" by (simp add: pm_intros)
  have st: "subscriptionAccuractlyEnable ?st" "subscribers_of 5 1 ?st = [''a.so'']"
    by (simp_all add: SubscribeResource_def pm_new_def subscribers_of_def reg_at_add)
       (simp_all add: reg_at_def)
  show ?thesis using cgroup_init_disable_roundtrip [OF ok st(1), of 5 1] st(2)
    by (simp add: LIB_NAME_def)
qed

end
