(* ===== verification/Notifier_Mgr.thy ===== *)
theory Notifier_Mgr
  imports Res_Type "HOL-Library.List_Lexorder" "HOL-Library.Char_ord"
begin

text \<open>
  \<open>NotifierMgr\<close> (resschedfwk/src/notifier_mgr.cpp): who is told about the system load level.
  A remote object is a number; two different processes never register the same one.  What
  leaves the component is the list \<open>nm_outs\<close>.  The lemmas show how the level recorded for a
  client relates to what it was sent when level changes overlap, and when a client is told.
\<close>

section \<open>Data\<close>

record notifier_info =
  ni_notifier :: nat
  ni_foreground :: bool
  ni_hapApp :: bool
  ni_level :: i32

datatype nm_out =
    SendLevel "nat list" i32
  | SaveLevel string
  | DelayReport i64
  | LevelEvent "string list"
  | AddDeath nat
  | RemoveDeath nat

record nm_state =
  nm_initialized :: bool
  isTaskSubmit :: bool
  notifierMap :: "(i32, notifier_info) omap"
  hisyseventBundleNames :: "(string, unit) omap"
  systemloadLevel :: i32
  nm_recipient :: bool
  nm_handler :: bool
  nm_outs :: "nm_out list"

text \<open>
  The states of an application (\<open>ApplicationState\<close> of the application framework, declared
  outside this repository) and the bundle name the framework knows for a process.
\<close>

record nm_env =
  NM_FOREGROUND :: i32
  NM_BACKGROUND :: i32
  NM_TERMINATED :: i32
  NM_END :: i32
  bundle_of_pid :: "i32 \<Rightarrow> string"

definition MAX_REPORT_SIZE :: nat where "MAX_REPORT_SIZE = 100"
definition REPORT_INTERVAL_MS :: i64 where "REPORT_INTERVAL_MS = 2 * 60 * 60 * 1000 * 1000"
definition FIRST_REPORT_DELAY_MS :: i64 where "FIRST_REPORT_DELAY_MS = 10 * 1000 * 1000"

definition g_systemloadPair :: "(string \<times> i32) list" where
  "g_systemloadPair =
     [(''LOW'', LOW), (''NORMAL'', NORMAL), (''MEDIUM'', MEDIUM), (''HIGH'', HIGH),
      (''OVERHEATED'', OVERHEATED), (''WARNING'', WARNING), (''EMERGENCY'', EMERGENCY),
      (''ESCAPE'', ESCAPE)]"

definition nm_new :: nm_state where
  "nm_new =
     \<lparr>nm_initialized = False, isTaskSubmit = False, notifierMap = [], hisyseventBundleNames = [],
      systemloadLevel = LOW, nm_recipient = False, nm_handler = False, nm_outs = []\<rparr>"

definition nm_emit :: "nm_out \<Rightarrow> nm_state \<Rightarrow> nm_state" where
  "nm_emit out st = st\<lparr>nm_outs := nm_outs st @ [out]\<rparr>"

section \<open>Operations\<close>

text \<open>The level survives a restart in a file, \<open>None\<close> when the file cannot be read.\<close>

definition nm_Init :: "string option \<Rightarrow> nm_state \<Rightarrow> nm_state" where
  "nm_Init content st =
     (if nm_initialized st then st
      else
        st\<lparr>nm_recipient := True, nm_handler := True, nm_initialized := True,
           systemloadLevel := (case content of
              None \<Rightarrow> systemloadLevel st
            | Some s \<Rightarrow> fold (\<lambda>(name, v) l. if name = s then v else l) g_systemloadPair (systemloadLevel st))\<rparr>)"

definition nm_Deinit :: "nm_state \<Rightarrow> nm_state" where
  "nm_Deinit st = st\<lparr>nm_handler := False\<rparr>"

definition NotifierEventReport :: "nm_state \<Rightarrow> nm_state" where
  "NotifierEventReport st =
     (if hisyseventBundleNames st \<noteq> []
      then nm_emit (LevelEvent (map fst (hisyseventBundleNames st))) st else st)
       \<lparr>hisyseventBundleNames := []\<rparr>"

definition NotifierEventReportDelay :: "i64 \<Rightarrow> nm_state \<Rightarrow> nm_state" where
  "NotifierEventReportDelay delay st = nm_emit (DelayReport delay) st"

definition NotifierEventReportPeriod :: "nm_state \<Rightarrow> nm_state" where
  "NotifierEventReportPeriod st = NotifierEventReportDelay REPORT_INTERVAL_MS (NotifierEventReport st)"

definition ReportPidToHisysevent :: "nm_env \<Rightarrow> i32 \<Rightarrow> nm_state \<Rightarrow> nm_state" where
  "ReportPidToHisysevent E pid st =
     (let bundleName = bundle_of_pid E pid in
      if bundleName = [] then st
      else
        (let st1 = st\<lparr>hisyseventBundleNames := om_put bundleName () (hisyseventBundleNames st)\<rparr>;
             st2 = (if \<not> isTaskSubmit st1
                    then (NotifierEventReportDelay FIRST_REPORT_DELAY_MS st1)\<lparr>isTaskSubmit := True\<rparr>
                    else st1)
         in if MAX_REPORT_SIZE \<le> length (hisyseventBundleNames st2) then NotifierEventReport st2 else st2))"

definition RegisterNotifier :: "nm_env \<Rightarrow> i32 \<Rightarrow> nat option \<Rightarrow> bool \<Rightarrow> nm_state \<Rightarrow> nm_state" where
  "RegisterNotifier E pid notifier isHapApp st =
     (case notifier of
        None \<Rightarrow> st
      | Some n \<Rightarrow>
          if \<not> nm_recipient st then st
          else
            (let st1 = (case map_of (notifierMap st) pid of
                 Some _ \<Rightarrow> st
               | None \<Rightarrow>
                   nm_emit (AddDeath n)
                     (st\<lparr>notifierMap := om_put pid
                        \<lparr>ni_notifier = n, ni_foreground = True, ni_hapApp = isHapApp, ni_level = LOW\<rparr>
                        (notifierMap st)\<rparr>))
             in ReportPidToHisysevent E pid st1))"

definition UnRegisterNotifier :: "i32 \<Rightarrow> nm_state \<Rightarrow> nm_state" where
  "UnRegisterNotifier pid st =
     (case map_of (notifierMap st) pid of
        None \<Rightarrow> st
      | Some info \<Rightarrow>
          (nm_emit (RemoveDeath (ni_notifier info)) st)\<lparr>notifierMap := om_del pid (notifierMap st)\<rparr>)"

definition RemoveNotifierLock :: "nat \<Rightarrow> nm_state \<Rightarrow> nm_state" where
  "RemoveNotifierLock n st =
     (case find (\<lambda>e. ni_notifier (snd e) = n) (notifierMap st) of
        None \<Rightarrow> st
      | Some e \<Rightarrow> (nm_emit (RemoveDeath n) st)\<lparr>notifierMap := om_del (fst e) (notifierMap st)\<rparr>)"

definition OnRemoteNotifierDied :: "nat option \<Rightarrow> nm_state \<Rightarrow> nm_state" where
  "OnRemoteNotifierDied notifier st = (case notifier of None \<Rightarrow> st | Some n \<Rightarrow> RemoveNotifierLock n st)"

text \<open>The queue's pointer is followed without a test: \<open>None\<close> when there is no queue.\<close>

definition HandleDeviceLevelChange :: "nat list \<Rightarrow> i32 \<Rightarrow> nm_state \<Rightarrow> nm_state option" where
  "HandleDeviceLevelChange notifierVec level st =
     (if nm_handler st then Some (nm_emit (SendLevel notifierVec level) st) else None)"

definition on_background :: "notifier_info \<Rightarrow> bool" where
  "on_background info = (ni_hapApp info \<and> \<not> ni_foreground info)"

text \<open>
  A level change in its three parts: the level is stored and saved without a lock, the clients
  are recorded under \<open>notifierMutex_\<close>, and the messages are submitted after the lock is released.
\<close>

definition StoreLevel :: "i32 \<Rightarrow> nm_state \<Rightarrow> nm_state" where
  "StoreLevel level st =
     fold (\<lambda>(name, v) s. if systemloadLevel s = v then nm_emit (SaveLevel name) s else s)
       g_systemloadPair (st\<lparr>systemloadLevel := level\<rparr>)"

definition RecordLevel :: "i32 \<Rightarrow> nm_state \<Rightarrow> nat list \<times> nm_state" where
  "RecordLevel level st =
     (map (\<lambda>e. ni_notifier (snd e)) (filter (\<lambda>e. \<not> on_background (snd e)) (notifierMap st)),
      st\<lparr>notifierMap :=
        om_map (\<lambda>pid info. if on_background info then info else info\<lparr>ni_level := level\<rparr>) (notifierMap st)\<rparr>)"

definition OnDeviceLevelChangedLock :: "i32 \<Rightarrow> nm_state \<Rightarrow> nm_state option" where
  "OnDeviceLevelChangedLock level st =
     (let (notifierArray, st1) = RecordLevel level st in HandleDeviceLevelChange notifierArray level st1)"

definition level_accepted :: "i64 \<Rightarrow> i32 \<Rightarrow> bool" where
  "level_accepted type level \<longleftrightarrow> type = SYSTEMLOAD_LEVEL \<and> \<not> (level < LOW \<or> ESCAPE < level)"

definition nm_OnDeviceLevelChanged :: "i64 \<Rightarrow> i32 \<Rightarrow> nm_state \<Rightarrow> nm_state option" where
  "nm_OnDeviceLevelChanged type level st =
     (if \<not> level_accepted type level then Some st
      else
        (let st1 = StoreLevel level st
         in if \<not> nm_handler st1 then Some st1 else OnDeviceLevelChangedLock level st1))"

definition set_fg :: "i32 \<Rightarrow> bool \<Rightarrow> nm_state \<Rightarrow> nm_state" where
  "set_fg pid b st =
     st\<lparr>notifierMap := om_map (\<lambda>p i. if p = pid then i\<lparr>ni_foreground := b\<rparr> else i) (notifierMap st)\<rparr>"

definition nm_OnApplicationStateChange :: "nm_env \<Rightarrow> i32 \<Rightarrow> i32 \<Rightarrow> nm_state \<Rightarrow> nm_state option" where
  "nm_OnApplicationStateChange E state pid st =
     (case map_of (notifierMap st) pid of
        None \<Rightarrow> Some st
      | Some info \<Rightarrow>
          if \<not> ni_hapApp info then Some st
          else
            (let level = systemloadLevel st;
                 st1 = (if state = NM_FOREGROUND E then
                          (if level \<noteq> ni_level info then
                             HandleDeviceLevelChange [ni_notifier info] level
                               ((set_fg pid True st)\<lparr>notifierMap :=
                                  om_map (\<lambda>p i. if p = pid then i\<lparr>ni_level := level\<rparr> else i)
                                    (notifierMap (set_fg pid True st))\<rparr>)
                           else Some (set_fg pid True st))
                        else Some st)
             in if state = NM_BACKGROUND E \<or> state = NM_TERMINATED E \<or> state = NM_END E
                then map_option (set_fg pid False) st1 else st1))"

definition nm_GetSystemloadLevel :: "nm_state \<Rightarrow> i32" where
  "nm_GetSystemloadLevel st = systemloadLevel st"

definition nm_DumpRegisterInfo :: "nm_state \<Rightarrow> (i32 \<times> bool) list" where
  "nm_DumpRegisterInfo st = map (\<lambda>(pid, info). (pid, ni_hapApp info)) (notifierMap st)"

section \<open>Runs\<close>

text \<open>
  Level changes of different threads overlap: \<open>nr_stored\<close> holds the levels whose clients are
  still to be recorded, \<open>nr_pending\<close> what is recorded and not yet submitted, in the order of
  recording.  The other requests are one step each, under \<open>notifierMutex_\<close>; processes register
  remote objects of their own.  \<open>nr_ordered\<close> is a ghost: it stays true while messages are
  submitted in the order their levels were recorded, and no client that waits for one registers
  again or is sent another one by coming to the foreground.
\<close>

inductive nm_request :: "nm_env \<Rightarrow> nm_state \<Rightarrow> nm_state \<Rightarrow> bool" for E where
  init: "nm_request E st (nm_Init content st)"
| deinit: "nm_request E st (nm_Deinit st)"
| register: "n \<notin> (\<lambda>e. ni_notifier (snd e)) ` set (notifierMap st) \<Longrightarrow>
    nm_request E st (RegisterNotifier E pid (Some n) hap st)"
| unregister: "nm_request E st (UnRegisterNotifier pid st)"
| died: "nm_request E st (OnRemoteNotifierDied notifier st)"
| app_state: "nm_OnApplicationStateChange E state pid st = Some st' \<Longrightarrow> nm_request E st st'"
| period: "nm_request E st (NotifierEventReportPeriod st)"

record nm_run =
  nr_st :: nm_state
  nr_stored :: "i32 list"
  nr_pending :: "(nat list \<times> i32) list"
  nr_ordered :: bool

definition nm_start :: nm_run where
  "nm_start = \<lparr>nr_st = nm_new, nr_stored = [], nr_pending = [], nr_ordered = True\<rparr>"

text \<open>The clients an output tells something.\<close>

fun touches :: "nm_out \<Rightarrow> nat set" where
  "touches (SendLevel l v) = set l"
| "touches (AddDeath n) = {n}"
| "touches _ = {}"

definition undisturbed :: "nm_out list \<Rightarrow> (nat list \<times> i32) list \<Rightarrow> bool" where
  "undisturbed new pending \<longleftrightarrow> (\<forall>out\<in>set new. \<forall>e\<in>set pending. touches out \<inter> set (fst e) = {})"

inductive nm_step :: "nm_env \<Rightarrow> nm_run \<Rightarrow> nm_run \<Rightarrow> bool" for E where
  request: "nm_request E (nr_st r) st' \<Longrightarrow>
    nm_step E r (r\<lparr>nr_st := st', nr_ordered := nr_ordered r \<and>
      undisturbed (drop (length (nm_outs (nr_st r))) (nm_outs st')) (nr_pending r)\<rparr>)"
| store: "level_accepted type v \<Longrightarrow> st' = StoreLevel v (nr_st r) \<Longrightarrow>
    nm_step E r (r\<lparr>nr_st := st', nr_stored := (if nm_handler st' then nr_stored r @ [v] else nr_stored r)\<rparr>)"
| recorded: "v \<in> set (nr_stored r) \<Longrightarrow> RecordLevel v (nr_st r) = (l, st') \<Longrightarrow>
    nm_step E r (r\<lparr>nr_st := st', nr_stored := remove1 v (nr_stored r), nr_pending := nr_pending r @ [(l, v)]\<rparr>)"
| submit: "k < length (nr_pending r) \<Longrightarrow> nr_pending r ! k = (l, v) \<Longrightarrow>
    HandleDeviceLevelChange l v (nr_st r) = Some st' \<Longrightarrow>
    nm_step E r (r\<lparr>nr_st := st', nr_pending := take k (nr_pending r) @ drop (Suc k) (nr_pending r),
      nr_ordered := nr_ordered r \<and> k = 0\<rparr>)"

inductive nm_reachable :: "nm_env \<Rightarrow> nm_run \<Rightarrow> bool" for E where
  start: "nm_reachable E nm_start"
| step: "nm_reachable E r \<Longrightarrow> nm_step E r r' \<Longrightarrow> nm_reachable E r'"

section \<open>Lemmas\<close>

text \<open>The level a client was last sent since its registration, \<open>LOW\<close> before the first one.\<close>

fun told_rev :: "nat \<Rightarrow> nm_out list \<Rightarrow> i32" where
  "told_rev n [] = LOW"
| "told_rev n (SendLevel l v # outs) = (if n \<in> set l then v else told_rev n outs)"
| "told_rev n (AddDeath m # outs) = (if m = n then LOW else told_rev n outs)"
| "told_rev n (_ # outs) = told_rev n outs"

definition told :: "nat \<Rightarrow> nm_out list \<Rightarrow> i32" where
  "told n outs = told_rev n (rev outs)"

lemma told_Nil [simp]: "told n [] = LOW"
  by (simp add: told_def)

lemma told_snoc [simp]:
  "told n (outs @ [SendLevel l v]) = (if n \<in> set l then v else told n outs)"
  "told n (outs @ [AddDeath m]) = (if m = n then LOW else told n outs)"
  "told n (outs @ [RemoveDeath m]) = told n outs"
  "told n (outs @ [SaveLevel s]) = told n outs"
  "told n (outs @ [DelayReport d]) = told n outs"
  "told n (outs @ [LevelEvent b]) = told n outs"
  by (simp_all add: told_def)

definition nm_ok :: "nm_state \<Rightarrow> bool" where
  "nm_ok st \<longleftrightarrow> om_ok (notifierMap st) \<and>
     (\<forall>p q i j. map_of (notifierMap st) p = Some i \<longrightarrow> map_of (notifierMap st) q = Some j \<longrightarrow>
        ni_notifier i = ni_notifier j \<longrightarrow> p = q) \<and>
     (\<forall>p i. map_of (notifierMap st) p = Some i \<longrightarrow> told (ni_notifier i) (nm_outs st) = ni_level i)"

text \<open>Two states with the same clients, none of whom was sent anything in between.\<close>

definition nm_same :: "nm_state \<Rightarrow> nm_state \<Rightarrow> bool" where
  "nm_same st st' \<longleftrightarrow> notifierMap st' = notifierMap st \<and>
     (\<forall>n. told n (nm_outs st') = told n (nm_outs st)) \<and> nm_handler st' = nm_handler st"

lemma nm_same_refl [simp]: "nm_same st st"
  by (simp add: nm_same_def)

lemma nm_same_ok: "nm_same st st' \<Longrightarrow> nm_ok st \<Longrightarrow> nm_ok st'"
  by (simp add: nm_same_def nm_ok_def)

lemma report_same: "nm_same st (NotifierEventReport st)"
  by (simp add: nm_same_def NotifierEventReport_def nm_emit_def)

lemma period_same: "nm_same st (NotifierEventReportPeriod st)"
  using report_same [of st]
  by (simp add: nm_same_def NotifierEventReportPeriod_def NotifierEventReportDelay_def nm_emit_def)

lemma report_pid_same: "nm_same st (ReportPidToHisysevent E pid st)"
proof -
  have full: "nm_same st s \<Longrightarrow> nm_same st (NotifierEventReport s)" for s
    using report_same [of s] by (simp add: nm_same_def)
  show ?thesis
    by (auto simp: ReportPidToHisysevent_def Let_def NotifierEventReportDelay_def nm_emit_def intro!: full)
       (simp_all add: nm_same_def)
qed

lemma nm_okD:
  "nm_ok st \<Longrightarrow> map_of (notifierMap st) p = Some i \<Longrightarrow> told (ni_notifier i) (nm_outs st) = ni_level i"
  "nm_ok st \<Longrightarrow> map_of (notifierMap st) p = Some i \<Longrightarrow> map_of (notifierMap st) q = Some j \<Longrightarrow>
     ni_notifier i = ni_notifier j \<Longrightarrow> p = q"
  "nm_ok st \<Longrightarrow> om_ok (notifierMap st)"
  unfolding nm_ok_def by blast+

lemma register_ok:
  assumes "nm_ok st" "n \<notin> (\<lambda>e. ni_notifier (snd e)) ` set (notifierMap st)"
  shows "nm_ok (RegisterNotifier E pid (Some n) hap st)"
proof -
  have fresh: "ni_notifier i \<noteq> n" if "map_of (notifierMap st) p = Some i" for p i
    using assms(2) that by (force dest: map_of_SomeD)
  let ?new = "nm_emit (AddDeath n) (st\<lparr>notifierMap := om_put pid
      \<lparr>ni_notifier = n, ni_foreground = True, ni_hapApp = hap, ni_level = LOW\<rparr> (notifierMap st)\<rparr>)"
  have "nm_ok ?new"
    using nm_okD [OF assms(1)] fresh unfolding nm_ok_def
    by (auto simp: nm_emit_def split: if_splits) metis+
  then show ?thesis
    using assms(1) nm_same_ok [OF report_pid_same]
    by (simp add: RegisterNotifier_def Let_def split: option.split)
qed

lemma removed_ok:
  assumes "nm_ok st"
  shows "nm_ok ((nm_emit (RemoveDeath n) st)\<lparr>notifierMap := om_del p (notifierMap st)\<rparr>)"
  using nm_okD [OF assms] unfolding nm_ok_def
  by (auto simp: nm_emit_def split: if_splits)

lemma nm_okI:
  assumes "om_ok (notifierMap st)"
    and "\<And>p q i j. map_of (notifierMap st) p = Some i \<Longrightarrow> map_of (notifierMap st) q = Some j \<Longrightarrow>
      ni_notifier i = ni_notifier j \<Longrightarrow> p = q"
    and "\<And>p i. map_of (notifierMap st) p = Some i \<Longrightarrow> told (ni_notifier i) (nm_outs st) = ni_level i"
  shows "nm_ok st"
  unfolding nm_ok_def using assms by blast

text \<open>The clients' records change, but not who they are, and the outputs tell their levels.\<close>

lemma nm_map_ok:
  assumes ok: "nm_ok s" and st: "notifierMap st = om_map f (notifierMap s)"
    and f: "\<And>p i. ni_notifier (f p i) = ni_notifier i"
    and told: "\<And>p i. map_of (notifierMap s) p = Some i \<Longrightarrow> told (ni_notifier i) (nm_outs st) = ni_level (f p i)"
  shows "nm_ok st"
proof (rule nm_okI)
  show "om_ok (notifierMap st)" using nm_okD(3) [OF ok] by (simp add: st)
  fix p i assume p: "map_of (notifierMap st) p = Some i"
  then obtain i' where i': "map_of (notifierMap s) p = Some i'" "i = f p i'" by (auto simp: st)
  show "told (ni_notifier i) (nm_outs st) = ni_level i" using told [OF i'(1)] by (simp add: i'(2) f)
  fix q j assume q: "map_of (notifierMap st) q = Some j" "ni_notifier i = ni_notifier j"
  then obtain j' where j': "map_of (notifierMap s) q = Some j'" "j = f q j'" by (auto simp: st)
  from nm_okD(2) [OF ok i'(1) j'(1)] q(2) show "p = q" by (simp add: i'(2) j'(2) f)
qed

lemma level_sent_ok:
  assumes ok: "nm_ok s" and st: "notifierMap st = om_map (\<lambda>p i. if P p i then i\<lparr>ni_level := v\<rparr> else i) (notifierMap s)"
    and l: "set l = {ni_notifier i |p i. map_of (notifierMap s) p = Some i \<and> P p i}"
    and outs: "nm_outs st = nm_outs s @ [SendLevel l v]"
  shows "nm_ok st"
proof (rule nm_map_ok [OF ok st])
  show "ni_notifier (if P p i then i\<lparr>ni_level := v\<rparr> else i) = ni_notifier i" for p i by simp
  fix p i assume p: "map_of (notifierMap s) p = Some i"
  show "told (ni_notifier i) (nm_outs st) = ni_level (if P p i then i\<lparr>ni_level := v\<rparr> else i)"
  proof (cases "P p i")
    case True
    with p l have "ni_notifier i \<in> set l" by blast
    with True show ?thesis by (simp add: outs)
  next
    case False
    have "ni_notifier i \<notin> set l"
    proof
      assume "ni_notifier i \<in> set l"
      with l obtain q j where q: "map_of (notifierMap s) q = Some j" "P q j" "ni_notifier i = ni_notifier j"
        by auto
      with nm_okD(2) [OF ok p q(1,3)] p False show False by simp
    qed
    with False nm_okD(1) [OF ok p] show ?thesis by (simp add: outs)
  qed
qed

lemma HandleDeviceLevelChange_Some:
  "HandleDeviceLevelChange l v st = Some st' \<longleftrightarrow> nm_handler st \<and> st' = nm_emit (SendLevel l v) st"
  by (auto simp: HandleDeviceLevelChange_def)

lemma visible_notifiers:
  "om_ok m \<Longrightarrow> set (map (\<lambda>e. ni_notifier (snd e)) (filter (\<lambda>e. \<not> on_background (snd e)) m)) =
     {ni_notifier i |p i. map_of m p = Some i \<and> \<not> on_background i}"
  by (force simp: om_ok_map_of [symmetric])

lemma level_lock_ok:
  assumes "nm_ok st" "OnDeviceLevelChangedLock v st = Some st'"
  shows "nm_ok st'"
proof -
  let ?m = "notifierMap st"
  let ?l = "map (\<lambda>e. ni_notifier (snd e)) (filter (\<lambda>e. \<not> on_background (snd e)) ?m)"
  have st': "notifierMap st' = om_map (\<lambda>p i. if \<not> on_background i then i\<lparr>ni_level := v\<rparr> else i) ?m"
      "nm_outs st' = nm_outs st @ [SendLevel ?l v]"
    using assms(2)
    by (auto simp: OnDeviceLevelChangedLock_def RecordLevel_def HandleDeviceLevelChange_Some nm_emit_def om_map_def)
  show ?thesis
    by (rule level_sent_ok [OF assms(1) st'(1) visible_notifiers [OF nm_okD(3) [OF assms(1)]] st'(2)])
qed

lemma save_same: "nm_same st (fold (\<lambda>(name, v) s. if systemloadLevel s = v then nm_emit (SaveLevel name) s else s) ps st)"
proof (induction ps arbitrary: st)
  case (Cons e ps)
  obtain name v where e: "e = (name, v)" by fastforce
  have "nm_same st (nm_emit (SaveLevel name) st)" by (simp add: nm_same_def nm_emit_def)
  moreover have "nm_same (nm_emit (SaveLevel name) st)
      (fold (\<lambda>(name, v) s. if systemloadLevel s = v then nm_emit (SaveLevel name) s else s) ps (nm_emit (SaveLevel name) st))"
    by (rule Cons.IH)
  ultimately show ?case using Cons.IH [of st] by (simp add: e nm_same_def)
qed simp

lemma store_same: "notifierMap (StoreLevel v st) = notifierMap st"
    "told n (nm_outs (StoreLevel v st)) = told n (nm_outs st)" "nm_handler (StoreLevel v st) = nm_handler st"
  using save_same [of "st\<lparr>systemloadLevel := v\<rparr>" g_systemloadPair] by (simp_all add: StoreLevel_def nm_same_def)

lemma set_fg_ok: "nm_ok st \<Longrightarrow> nm_ok (set_fg pid b st)"
  by (rule nm_map_ok [of st _ "\<lambda>p i. if p = pid then i\<lparr>ni_foreground := b\<rparr> else i"])
     (simp_all add: set_fg_def nm_okD(1))

definition told_fg :: "i32 \<Rightarrow> notifier_info \<Rightarrow> nm_state \<Rightarrow> nm_state" where
  "told_fg pid info st =
     nm_emit (SendLevel [ni_notifier info] (systemloadLevel st))
       ((set_fg pid True st)\<lparr>notifierMap :=
          om_map (\<lambda>p i. if p = pid then i\<lparr>ni_level := systemloadLevel st\<rparr> else i) (notifierMap (set_fg pid True st))\<rparr>)"

lemma told_fg_ok:
  assumes "nm_ok st" "map_of (notifierMap st) pid = Some info"
  shows "nm_ok (told_fg pid info st)"
proof (rule level_sent_ok [OF set_fg_ok [OF assms(1), of pid True]])
  show "notifierMap (told_fg pid info st) = om_map (\<lambda>p i. if p = pid then i\<lparr>ni_level := systemloadLevel st\<rparr> else i)
      (notifierMap (set_fg pid True st))"
    by (simp add: told_fg_def nm_emit_def)
  show "set [ni_notifier info] = {ni_notifier i |p i. map_of (notifierMap (set_fg pid True st)) p = Some i \<and> p = pid}"
    using assms(2) by (auto simp: set_fg_def)
  show "nm_outs (told_fg pid info st) = nm_outs (set_fg pid True st) @ [SendLevel [ni_notifier info] (systemloadLevel st)]"
    by (simp add: told_fg_def nm_emit_def)
qed

lemma app_state_foreground:
  assumes "map_of (notifierMap st) pid = Some info" "ni_hapApp info"
  shows "nm_OnApplicationStateChange E state pid st =
    (let st1 = (if state = NM_FOREGROUND E then
                  (if systemloadLevel st = ni_level info then Some (set_fg pid True st)
                   else if nm_handler st then Some (told_fg pid info st) else None)
                else Some st)
     in if state = NM_BACKGROUND E \<or> state = NM_TERMINATED E \<or> state = NM_END E
        then map_option (set_fg pid False) st1 else st1)"
proof -
  have "nm_handler (set_fg pid b st) = nm_handler st" for b by (simp add: set_fg_def)
  then show ?thesis
    using assms by (simp add: nm_OnApplicationStateChange_def Let_def HandleDeviceLevelChange_def told_fg_def)
qed

lemma app_state_ok:
  assumes "nm_ok st" "nm_OnApplicationStateChange E state pid st = Some st'"
  shows "nm_ok st'"
proof (cases "\<exists>info. map_of (notifierMap st) pid = Some info \<and> ni_hapApp info")
  case False
  then have "nm_OnApplicationStateChange E state pid st = Some st"
    by (auto simp: nm_OnApplicationStateChange_def split: option.split)
  with assms show ?thesis by simp
next
  case True
  then obtain info where info: "map_of (notifierMap st) pid = Some info" "ni_hapApp info" by blast
  have "nm_ok (set_fg pid True st)" "nm_ok (told_fg pid info st)"
    using set_fg_ok [OF assms(1)] told_fg_ok [OF assms(1) info(1)] by blast+
  then show ?thesis
    using assms set_fg_ok unfolding app_state_foreground [OF info] Let_def
    by (simp split: if_splits) blast+
qed

lemma request_ok: "nm_request E st st' \<Longrightarrow> nm_ok st \<Longrightarrow> nm_ok st'"
proof (induction rule: nm_request.induct)
  case (init st content)
  then show ?case by (simp add: nm_Init_def nm_ok_def)
next
  case (deinit st)
  then show ?case by (simp add: nm_Deinit_def nm_ok_def)
next
  case (register n st pid hap)
  then show ?case by (simp add: register_ok)
next
  case (unregister st pid)
  then show ?case by (simp add: UnRegisterNotifier_def removed_ok split: option.split)
next
  case (died st notifier)
  then show ?case
    by (simp add: OnRemoteNotifierDied_def RemoveNotifierLock_def removed_ok split: option.split)
next
  case (app_state state pid st st')
  then show ?case by (simp add: app_state_ok)
next
  case (period st)
  then show ?case by (rule nm_same_ok [OF period_same])
qed

section \<open>Overlapping level changes\<close>

text \<open>
  The outputs so far do not decide what a request does, they are only extended.
\<close>

lemma emit_shift [simp]: "nm_emit x (st\<lparr>nm_outs := os\<rparr>) = st\<lparr>nm_outs := os @ [x]\<rparr>"
  by (simp add: nm_emit_def)

definition bare :: "nm_state \<Rightarrow> nm_state" where
  "bare st = st\<lparr>nm_outs := []\<rparr>"

definition shifts :: "(nm_state \<Rightarrow> nm_state) \<Rightarrow> bool" where
  "shifts f \<longleftrightarrow> (\<forall>st os. f (st\<lparr>nm_outs := os\<rparr>) = (f (bare st))\<lparr>nm_outs := os @ nm_outs (f (bare st))\<rparr>)"

lemma shiftsI:
  "(\<And>st os. f (st\<lparr>nm_outs := os\<rparr>) = (f (bare st))\<lparr>nm_outs := os @ nm_outs (f (bare st))\<rparr>) \<Longrightarrow> shifts f"
  by (simp add: shifts_def)

lemma shifts_const: "(\<And>st os. f (st\<lparr>nm_outs := os\<rparr>) = (f st)\<lparr>nm_outs := os\<rparr>) \<Longrightarrow> shifts f"
  by (rule shiftsI) (simp add: bare_def)

lemma report_shift: "shifts NotifierEventReport"
  by (rule shiftsI) (simp add: NotifierEventReport_def bare_def nm_emit_def)

lemma ops_shift:
  "shifts (nm_Init content)" "shifts nm_Deinit" "shifts NotifierEventReportPeriod"
  "shifts (ReportPidToHisysevent E pid)" "shifts (UnRegisterNotifier pid)" "shifts (RemoveNotifierLock n)"
  "shifts (set_fg pid b)" "shifts (told_fg pid info)"
         apply (rule shiftsI, simp add: nm_Init_def bare_def split: option.split)
        apply (rule shiftsI, simp add: nm_Deinit_def bare_def)
       apply (rule shiftsI, simp add: NotifierEventReportPeriod_def NotifierEventReportDelay_def
           NotifierEventReport_def bare_def nm_emit_def)
      apply (rule shiftsI, simp add: ReportPidToHisysevent_def NotifierEventReportDelay_def
           NotifierEventReport_def bare_def nm_emit_def Let_def)
     apply (rule shiftsI, simp add: UnRegisterNotifier_def bare_def nm_emit_def split: option.split)
    apply (rule shiftsI, simp add: RemoveNotifierLock_def bare_def nm_emit_def split: option.split)
   apply (rule shiftsI, simp add: set_fg_def bare_def)
  apply (rule shiftsI, simp add: told_fg_def set_fg_def bare_def nm_emit_def cong: if_cong)
  done

lemma shiftD:
  assumes "shifts f"
  shows "\<exists>new. nm_outs (f st) = nm_outs st @ new \<and> (\<forall>os. f (st\<lparr>nm_outs := os\<rparr>) = (f st)\<lparr>nm_outs := os @ new\<rparr>)"
proof (intro exI conjI allI)
  have f: "f (st\<lparr>nm_outs := os\<rparr>) = (f (bare st))\<lparr>nm_outs := os @ nm_outs (f (bare st))\<rparr>" for os
    using assms by (simp add: shifts_def)
  from f [of "nm_outs st"] have st: "f st = (f (bare st))\<lparr>nm_outs := nm_outs st @ nm_outs (f (bare st))\<rparr>" by simp
  then show "nm_outs (f st) = nm_outs st @ nm_outs (f (bare st))" by simp
  show "f (st\<lparr>nm_outs := os\<rparr>) = (f st)\<lparr>nm_outs := os @ nm_outs (f (bare st))\<rparr>" for os
    unfolding f st by simp
qed

lemma shifts_comp:
  assumes "shifts f" "shifts g"
  shows "shifts (\<lambda>st. g (f st))"
proof (rule shiftsI)
  fix st os
  have f: "f (st\<lparr>nm_outs := os\<rparr>) = (f (bare st))\<lparr>nm_outs := os @ nm_outs (f (bare st))\<rparr>" for os
    using assms(1) by (simp add: shifts_def)
  have g: "g (s\<lparr>nm_outs := os\<rparr>) = (g (bare s))\<lparr>nm_outs := os @ nm_outs (g (bare s))\<rparr>" for s os
    using assms(2) by (simp add: shifts_def)
  have b: "g (f (bare st)) = (g (bare (f (bare st))))
      \<lparr>nm_outs := nm_outs (f (bare st)) @ nm_outs (g (bare (f (bare st))))\<rparr>"
    using g [where s = "f (bare st)" and os = "nm_outs (f (bare st))"] by simp
  show "g (f (st\<lparr>nm_outs := os\<rparr>)) = (g (f (bare st)))\<lparr>nm_outs := os @ nm_outs (g (f (bare st)))\<rparr>"
    by (simp add: f g [where s = "f (bare st)"] b)
qed

lemma register_shift: "shifts (RegisterNotifier E pid n hap)"
proof -
  let ?add = "\<lambda>m st. case map_of (notifierMap st) pid of Some _ \<Rightarrow> st | None \<Rightarrow>
      nm_emit (AddDeath m) (st\<lparr>notifierMap := om_put pid
        \<lparr>ni_notifier = m, ni_foreground = True, ni_hapApp = hap, ni_level = LOW\<rparr> (notifierMap st)\<rparr>)"
  have "shifts (?add m)" for m
    by (rule shiftsI) (simp add: bare_def nm_emit_def split: option.split)
  then have c: "shifts (\<lambda>st. ReportPidToHisysevent E pid (?add m st))" for m
    by (rule shifts_comp) (rule ops_shift)
  show ?thesis
  proof (cases n)
    case None
    then show ?thesis by (simp add: shifts_def RegisterNotifier_def bare_def)
  next
    case (Some m)
    have eq: "RegisterNotifier E pid n hap =
        (\<lambda>st. if nm_recipient st then ReportPidToHisysevent E pid (?add m st) else st)"
      by (rule ext) (simp add: RegisterNotifier_def Some Let_def)
    show ?thesis using c [of m] unfolding eq shifts_def by (simp add: bare_def)
  qed
qed

lemma app_state_shift:
  assumes "nm_OnApplicationStateChange E state pid st = Some st'"
  obtains f where "shifts f"
    "\<And>os. nm_OnApplicationStateChange E state pid (st\<lparr>nm_outs := os\<rparr>) = Some (f (st\<lparr>nm_outs := os\<rparr>))"
proof (cases "\<exists>info. map_of (notifierMap st) pid = Some info \<and> ni_hapApp info")
  case False
  show ?thesis
  proof
    show "shifts (\<lambda>st. st)" by (simp add: shifts_def bare_def)
    show "nm_OnApplicationStateChange E state pid (st\<lparr>nm_outs := os\<rparr>) = Some (st\<lparr>nm_outs := os\<rparr>)" for os
      using False by (auto simp: nm_OnApplicationStateChange_def split: option.split)
  qed
next
  case True
  then obtain info where info: "map_of (notifierMap st) pid = Some info" "ni_hapApp info" by blast
  define g where "g = (if state = NM_FOREGROUND E then
      (if systemloadLevel st = ni_level info then set_fg pid True else told_fg pid info) else (\<lambda>s. s))"
  define f where "f = (if state = NM_BACKGROUND E \<or> state = NM_TERMINATED E \<or> state = NM_END E
      then (\<lambda>s. set_fg pid False (g s)) else g)"
  have g: "shifts g" using ops_shift by (simp add: g_def) (simp add: shifts_def bare_def)
  show ?thesis
  proof
    show "shifts f" using g ops_shift(7) [of pid False] by (simp add: f_def shifts_comp [of g])
    show "nm_OnApplicationStateChange E state pid (st\<lparr>nm_outs := os\<rparr>) = Some (f (st\<lparr>nm_outs := os\<rparr>))" for os
    proof -
      have i: "map_of (notifierMap (st\<lparr>nm_outs := os\<rparr>)) pid = Some info" using info by simp
      show ?thesis
        using assms
        unfolding app_state_foreground [OF i info(2)] app_state_foreground [OF info] Let_def f_def g_def
        by (auto split: if_splits)
    qed
  qed
qed

lemma request_shift:
  assumes "nm_request E st st'"
  shows "\<exists>new. nm_outs st' = nm_outs st @ new \<and>
    (\<forall>os. nm_request E (st\<lparr>nm_outs := os\<rparr>) (st'\<lparr>nm_outs := os @ new\<rparr>))"
proof -
  have by_op: ?thesis if a: "shifts f" and b: "st' = f st" and c: "\<And>os. nm_request E (st\<lparr>nm_outs := os\<rparr>) (f (st\<lparr>nm_outs := os\<rparr>))" for f
  proof -
    from shiftD [OF a, of st] obtain new where new: "nm_outs st' = nm_outs st @ new"
        "\<And>os. f (st\<lparr>nm_outs := os\<rparr>) = st'\<lparr>nm_outs := os @ new\<rparr>"
      unfolding b by blast
    with c show ?thesis by (intro exI [of _ new]) simp
  qed
  show ?thesis using assms
  proof cases
    case (app_state state pid)
    obtain f where f: "shifts f"
        "\<And>os. nm_OnApplicationStateChange E state pid (st\<lparr>nm_outs := os\<rparr>) = Some (f (st\<lparr>nm_outs := os\<rparr>))"
      using app_state_shift [OF app_state(1)] by blast
    from f(2) [of "nm_outs st"] app_state have "st' = f st" by simp
    with f show ?thesis by (intro by_op) (auto intro: nm_request.app_state)
  next
    case (init content)
    show ?thesis by (rule by_op [OF ops_shift(1) init]) (rule nm_request.init)
  next
    case deinit
    show ?thesis by (rule by_op [OF ops_shift(2) deinit]) (rule nm_request.deinit)
  next
    case (register n pid hap)
    show ?thesis
      by (rule by_op [OF register_shift register(1)], rule nm_request.register) (simp add: register)
  next
    case (unregister pid)
    show ?thesis by (rule by_op [OF ops_shift(5) unregister]) (rule nm_request.unregister)
  next
    case (died notifier)
    have s: "shifts (OnRemoteNotifierDied notifier)"
    proof (cases notifier)
      case None
      then show ?thesis by (intro shiftsI) (simp add: OnRemoteNotifierDied_def bare_def)
    next
      case (Some n)
      then have "OnRemoteNotifierDied notifier = RemoveNotifierLock n"
        by (intro ext) (simp add: OnRemoteNotifierDied_def)
      then show ?thesis using ops_shift(6) by simp
    qed
    show ?thesis by (rule by_op [OF s died]) (rule nm_request.died)
  next
    case period
    show ?thesis by (rule by_op [OF ops_shift(3) period]) (rule nm_request.period)
  qed
qed

lemma told_append: "told n (xs @ ys) = (if \<exists>out\<in>set ys. n \<in> touches out then told n ys else told n xs)"
proof (induction ys rule: rev_induct)
  case (snoc y ys)
  have s: "told n (zs @ [y]) = (if n \<in> touches y then (case y of SendLevel l v \<Rightarrow> v | _ \<Rightarrow> LOW) else told n zs)" for zs
    by (cases y) auto
  have "told n (xs @ ys @ [y]) = told n ((xs @ ys) @ [y])" by simp
  then show ?case unfolding s snoc.IH using s [of ys] by auto
qed simp

text \<open>The run's outputs with the messages that are still to be submitted.\<close>

definition sends :: "(nat list \<times> i32) list \<Rightarrow> nm_out list" where
  "sends pending = map (\<lambda>(l, v). SendLevel l v) pending"

definition virt :: "nm_run \<Rightarrow> nm_state" where
  "virt r = (nr_st r)\<lparr>nm_outs := nm_outs (nr_st r) @ sends (nr_pending r)\<rparr>"

lemma sends_touch: "(\<exists>out\<in>set (sends p). n \<in> touches out) \<longleftrightarrow> (\<exists>e\<in>set p. n \<in> set (fst e))"
  by (force simp: sends_def)

lemma told_undisturbed:
  assumes "undisturbed new p"
  shows "told n (os @ new @ sends p) = told n ((os @ sends p) @ new)"
proof (cases "\<exists>e\<in>set p. n \<in> set (fst e)")
  case True
  then have "\<not> (\<exists>out\<in>set new. n \<in> touches out)" using assms by (auto simp: undisturbed_def)
  then have "told n (os @ sends p @ new) = told n (os @ sends p)" using told_append [of n "os @ sends p" new] by simp
  moreover have "told n (xs @ sends p) = told n (sends p)" for xs
    using True told_append [of n xs "sends p"] by (simp only: sends_touch if_True)
  ultimately show ?thesis by (metis append_assoc)
next
  case False
  then have "told n (xs @ sends p) = told n xs" for xs
    using told_append [of n xs "sends p"] by (simp only: sends_touch if_False)
  then show ?thesis using told_append [of n _ new] by (metis append_assoc)
qed

lemma nm_ok_cong:
  "nm_ok st \<Longrightarrow> notifierMap st' = notifierMap st \<Longrightarrow> (\<And>n. told n (nm_outs st') = told n (nm_outs st)) \<Longrightarrow> nm_ok st'"
  by (simp add: nm_ok_def)

lemma step_ordered:
  assumes "nm_step E r r'" "nr_ordered r \<Longrightarrow> nm_ok (virt r)" "nr_ordered r'"
  shows "nm_ok (virt r')"
  using assms(1)
proof cases
  case (request st')
  from request_shift [OF request(2)] obtain new where new: "nm_outs st' = nm_outs (nr_st r) @ new"
      "\<And>os. nm_request E ((nr_st r)\<lparr>nm_outs := os\<rparr>) (st'\<lparr>nm_outs := os @ new\<rparr>)"
    by blast
  from assms(3) new(1) have o: "nr_ordered r" "undisturbed new (nr_pending r)" by (simp_all add: request)
  let ?os = "nm_outs (nr_st r) @ sends (nr_pending r)"
  have "nm_ok (st'\<lparr>nm_outs := ?os @ new\<rparr>)"
    by (rule request_ok [OF new(2)]) (use assms(2) [OF o(1)] in \<open>simp add: virt_def\<close>)
  then show ?thesis
    by (rule nm_ok_cong) (use told_undisturbed [OF o(2)] in \<open>simp_all add: virt_def request new(1)\<close>)
next
  case (store type v st')
  with assms(3) have "nm_ok (virt r)" by (intro assms(2)) simp
  then show ?thesis
    by (rule nm_ok_cong) (simp_all add: virt_def store store_same told_append [of _ _ "sends _"])
next
  case (recorded v l st')
  with assms(3) have ok: "nm_ok (virt r)" by (intro assms(2)) simp
  have st': "st' = snd (RecordLevel v (nr_st r))" "l = fst (RecordLevel v (nr_st r))" using recorded by simp_all
  show ?thesis
  proof (rule level_sent_ok [OF ok])
    show "notifierMap (virt r') =
        om_map (\<lambda>p i. if \<not> on_background i then i\<lparr>ni_level := v\<rparr> else i) (notifierMap (virt r))"
      by (auto simp: virt_def recorded(1) st' RecordLevel_def om_map_def)
    show "set l = {ni_notifier i |p i. map_of (notifierMap (virt r)) p = Some i \<and> \<not> on_background i}"
      unfolding st'(2) RecordLevel_def fst_conv
      using visible_notifiers [OF nm_okD(3) [OF ok]] by (simp add: virt_def)
    show "nm_outs (virt r') = nm_outs (virt r) @ [SendLevel l v]"
      by (simp add: virt_def recorded(1) st'(1) RecordLevel_def sends_def)
  qed
next
  case (submit k l v st')
  with assms(3) have o: "nr_ordered r" "k = 0" by simp_all
  obtain p where p: "nr_pending r = (l, v) # p" using submit o(2) by (cases "nr_pending r") auto
  show ?thesis
    by (rule nm_ok_cong [OF assms(2) [OF o(1)]])
       (use submit p o in \<open>auto simp: virt_def HandleDeviceLevelChange_Some sends_def nm_emit_def\<close>)
qed

text \<open>Every recorded level was sent to its client, or is about to be.\<close>

definition nm_covered :: "nm_state \<Rightarrow> (nat list \<times> i32) list \<Rightarrow> bool" where
  "nm_covered st p \<longleftrightarrow> (\<forall>pid i. map_of (notifierMap st) pid = Some i \<longrightarrow> ni_level i = LOW \<or>
     (\<exists>l. ni_notifier i \<in> set l \<and> (SendLevel l (ni_level i) \<in> set (nm_outs st) \<or> (l, ni_level i) \<in> set p)))"

definition nm_from :: "nm_state \<Rightarrow> nm_state \<Rightarrow> bool" where
  "nm_from st s \<longleftrightarrow> (\<forall>pid i. map_of (notifierMap s) pid = Some i \<longrightarrow>
     SendLevel [ni_notifier i] (ni_level i) \<in> set (nm_outs s) \<or>
     (\<exists>j. map_of (notifierMap st) pid = Some j \<and> ni_notifier j = ni_notifier i \<and> ni_level j = ni_level i))"

lemma nm_from_refl: "nm_from st st"
  by (auto simp: nm_from_def)

lemma nm_from_fg:
  assumes "nm_from st s"
  shows "nm_from st (set_fg p b s)"
  unfolding nm_from_def
proof (intro allI impI)
  fix pid i assume "map_of (notifierMap (set_fg p b s)) pid = Some i"
  then obtain i' where i': "map_of (notifierMap s) pid = Some i'" "ni_notifier i' = ni_notifier i" "ni_level i' = ni_level i"
    by (auto simp: set_fg_def split: if_splits)
  have "nm_outs (set_fg p b s) = nm_outs s" by (simp add: set_fg_def)
  with assms i' show "SendLevel [ni_notifier i] (ni_level i) \<in> set (nm_outs (set_fg p b s)) \<or>
     (\<exists>j. map_of (notifierMap st) pid = Some j \<and> ni_notifier j = ni_notifier i \<and> ni_level j = ni_level i)"
    unfolding nm_from_def by metis
qed

lemma nm_from_told:
  assumes "map_of (notifierMap st) p = Some info"
  shows "nm_from st (told_fg p info st)"
  using assms by (auto simp: nm_from_def told_fg_def set_fg_def nm_emit_def)

lemma request_levels:
  assumes "nm_request E st st'" "map_of (notifierMap st') pid = Some i"
  shows "ni_level i = LOW \<or> SendLevel [ni_notifier i] (ni_level i) \<in> set (nm_outs st') \<or>
    (\<exists>j. map_of (notifierMap st) pid = Some j \<and> ni_notifier j = ni_notifier i \<and> ni_level j = ni_level i)"
  using assms(1)
proof cases
  case (app_state state p)
  show ?thesis
  proof (cases "\<exists>info. map_of (notifierMap st) p = Some info \<and> ni_hapApp info")
    case False
    then have "st' = st" using app_state by (auto simp: nm_OnApplicationStateChange_def split: option.splits)
    with assms(2) show ?thesis by auto
  next
    case True
    then obtain info where info: "map_of (notifierMap st) p = Some info" "ni_hapApp info" by blast
    have "st' \<in> {st, set_fg p True st, told_fg p info st, set_fg p False st, set_fg p False (set_fg p True st),
        set_fg p False (told_fg p info st)}"
      using app_state unfolding app_state_foreground [OF info] Let_def by (auto split: if_splits)
    then have "nm_from st st'"
      using nm_from_refl [of st] nm_from_told [OF info(1)] by (auto intro!: nm_from_fg)
    then show ?thesis using assms(2) unfolding nm_from_def by blast
  qed
next
  case (register n p hap)
  have "notifierMap (ReportPidToHisysevent E p s) = notifierMap s" for s
    using report_pid_same [of s E p] by (simp add: nm_same_def)
  then show ?thesis using register assms(2)
    by (auto simp: RegisterNotifier_def Let_def nm_emit_def split: if_splits option.splits)
next
  case period
  then show ?thesis using period_same [of st] assms(2) by (simp add: nm_same_def)
qed (use assms(2) in \<open>auto simp: nm_Init_def nm_Deinit_def UnRegisterNotifier_def OnRemoteNotifierDied_def
    RemoveNotifierLock_def nm_emit_def split: if_splits option.splits\<close>)

lemma step_covered:
  assumes "nm_step E r r'" "nm_covered (nr_st r) (nr_pending r)"
  shows "nm_covered (nr_st r') (nr_pending r')"
  using assms(1)
proof cases
  case (request st')
  from request_shift [OF request(2)] obtain new where new: "nm_outs st' = nm_outs (nr_st r) @ new" by blast
  show ?thesis unfolding nm_covered_def
  proof (intro allI impI)
    fix pid i assume i: "map_of (notifierMap (nr_st r')) pid = Some i"
    then have "map_of (notifierMap st') pid = Some i" by (simp add: request)
    from request_levels [OF request(2) this] assms(2) new
    show "ni_level i = LOW \<or> (\<exists>l. ni_notifier i \<in> set l \<and>
        (SendLevel l (ni_level i) \<in> set (nm_outs (nr_st r')) \<or> (l, ni_level i) \<in> set (nr_pending r')))"
      unfolding nm_covered_def by (force simp: request)
  qed
next
  case (store type v st')
  have "set (nm_outs (nr_st r)) \<subseteq> set (nm_outs st')"
    unfolding store StoreLevel_def by (auto simp: g_systemloadPair_def nm_emit_def)
  with assms(2) show ?thesis unfolding nm_covered_def by (fastforce simp: store store_same)
next
  case (recorded v l st')
  have st': "notifierMap st' = om_map (\<lambda>pid info. if on_background info then info else info\<lparr>ni_level := v\<rparr>)
      (notifierMap (nr_st r))" "nm_outs st' = nm_outs (nr_st r)"
      "l = map (\<lambda>e. ni_notifier (snd e)) (filter (\<lambda>e. \<not> on_background (snd e)) (notifierMap (nr_st r)))"
    using recorded(3) by (auto simp: RecordLevel_def)
  show ?thesis unfolding nm_covered_def
  proof (intro allI impI)
    fix pid i assume "map_of (notifierMap (nr_st r')) pid = Some i"
    then obtain j where j: "map_of (notifierMap (nr_st r)) pid = Some j"
        "i = (if on_background j then j else j\<lparr>ni_level := v\<rparr>)"
      by (auto simp: recorded(1) st'(1))
    show "ni_level i = LOW \<or> (\<exists>l. ni_notifier i \<in> set l \<and>
        (SendLevel l (ni_level i) \<in> set (nm_outs (nr_st r')) \<or> (l, ni_level i) \<in> set (nr_pending r')))"
    proof (cases "on_background j")
      case True
      with assms(2) j show ?thesis unfolding nm_covered_def by (auto simp: recorded(1) st'(2))
    next
      case False
      with map_of_SomeD [OF j(1)] have "ni_notifier i \<in> set l" by (force simp: st'(3) j(2))
      with False show ?thesis by (auto simp: recorded(1) j(2))
    qed
  qed
next
  case (submit k l v st')
  have "set (nr_pending r) \<subseteq> insert (l, v) (set (take k (nr_pending r) @ drop (Suc k) (nr_pending r)))"
    using id_take_nth_drop [OF submit(2)] submit(3) by (metis Un_insert_right list.simps(15) set_append order_refl)
  with assms(2) submit show ?thesis
    unfolding nm_covered_def by (fastforce simp: HandleDeviceLevelChange_Some nm_emit_def)
qed

section \<open>Properties\<close>


definition demo_nm :: nm_env where
  "demo_nm = \<lparr>NM_FOREGROUND = 2, NM_BACKGROUND = 4, NM_TERMINATED = 5, NM_END = 6,
     bundle_of_pid = (\<lambda>_. [])\<rparr>"

definition demo_registered :: nm_state where
  "demo_registered = RegisterNotifier demo_nm 7 (Some 1) True (nm_Init None nm_new)"

definition demo_info :: "i32 \<Rightarrow> notifier_info" where
  "demo_info v = \<lparr>ni_notifier = 1, ni_foreground = True, ni_hapApp = True, ni_level = v\<rparr>"

lemma demo_registered_eq:
  "demo_registered = \<lparr>nm_initialized = True, isTaskSubmit = False, notifierMap = [(7, demo_info LOW)],
     hisyseventBundleNames = [], systemloadLevel = LOW, nm_recipient = True, nm_handler = True,
     nm_outs = [AddDeath 1]\<rparr>"
  by (simp add: demo_registered_def RegisterNotifier_def nm_Init_def nm_new_def nm_emit_def demo_info_def
      ReportPidToHisysevent_def demo_nm_def)

lemma demo_registered_reachable:
  "nm_reachable demo_nm \<lparr>nr_st = demo_registered, nr_stored = [], nr_pending = [], nr_ordered = True\<rparr>"
proof -
  have "nm_reachable demo_nm (nm_start\<lparr>nr_st := nm_Init None nm_new, nr_ordered := True\<rparr>)"
    using nm_reachable.step [OF nm_reachable.start nm_step.request [OF nm_request.init [of _ _ None]]]
    by (simp add: nm_start_def nm_new_def undisturbed_def)
  from nm_reachable.step [OF this nm_step.request [OF nm_request.register [of 1 _ demo_nm 7 True]]]
  show ?thesis by (simp add: nm_start_def nm_Init_def nm_new_def undisturbed_def demo_registered_def)
qed

text \<open>Two changes whose levels are stored and recorded, \<open>HIGH\<close> before \<open>NORMAL\<close>.\<close>

definition demo_two :: nm_run where
  "demo_two = \<lparr>nr_st = demo_registered\<lparr>notifierMap := [(7, demo_info NORMAL)], systemloadLevel := NORMAL,
     nm_outs := [AddDeath 1, SaveLevel ''HIGH'', SaveLevel ''NORMAL'']\<rparr>, nr_stored = [],
     nr_pending = [([1], HIGH), ([1], NORMAL)], nr_ordered = True\<rparr>"

lemma recorded_step:
  "v \<in> set vs \<Longrightarrow> RecordLevel v s = (l, s') \<Longrightarrow>
   nm_step E \<lparr>nr_st = s, nr_stored = vs, nr_pending = p, nr_ordered = b\<rparr>
     \<lparr>nr_st = s', nr_stored = remove1 v vs, nr_pending = p @ [(l, v)], nr_ordered = b\<rparr>"
  using nm_step.recorded [of v "\<lparr>nr_st = s, nr_stored = vs, nr_pending = p, nr_ordered = b\<rparr>" l s'] by simp

lemma demo_two_reachable: "nm_reachable demo_nm demo_two"
proof -
  note ds = demo_registered_eq StoreLevel_def g_systemloadPair_def nm_emit_def res_type_defs level_accepted_def
    RecordLevel_def on_background_def om_map_def demo_info_def
  let ?r0 = "\<lparr>nr_st = demo_registered, nr_stored = [], nr_pending = [], nr_ordered = True\<rparr>"
  let ?r1 = "\<lparr>nr_st = StoreLevel HIGH demo_registered, nr_stored = [HIGH], nr_pending = [], nr_ordered = True\<rparr>"
  let ?r2 = "\<lparr>nr_st = StoreLevel NORMAL (StoreLevel HIGH demo_registered), nr_stored = [HIGH, NORMAL],
      nr_pending = [], nr_ordered = True\<rparr>"
  have h: "nm_handler demo_registered" by (simp add: demo_registered_eq)
  have ok: "level_accepted SYSTEMLOAD_LEVEL HIGH" "level_accepted SYSTEMLOAD_LEVEL NORMAL"
    by (simp_all add: level_accepted_def res_type_defs)
  have "nm_reachable demo_nm ?r1"
    using nm_reachable.step [OF demo_registered_reachable nm_step.store [OF ok(1) refl]] h by (simp add: store_same)
  from nm_reachable.step [OF this nm_step.store [OF ok(2) refl]] h
  have r2: "nm_reachable demo_nm ?r2" by (simp add: store_same)
  let ?s2 = "nr_st ?r2"
  let ?s3 = "snd (RecordLevel HIGH ?s2)"
  have l: "RecordLevel HIGH ?s2 = ([1], ?s3)" "RecordLevel NORMAL ?s3 = ([1], snd (RecordLevel NORMAL ?s3))"
    by (simp_all add: ds)
  have "HIGH \<noteq> NORMAL" by (simp add: res_type_defs)
  then have "nm_reachable demo_nm \<lparr>nr_st = ?s3, nr_stored = [NORMAL], nr_pending = [([1], HIGH)], nr_ordered = True\<rparr>"
    using nm_reachable.step [OF r2 recorded_step [of HIGH _ _ "[1]" ?s3]] l(1) by simp
  from nm_reachable.step [OF this recorded_step [of NORMAL _ _ "[1]" "snd (RecordLevel NORMAL ?s3)"]] l(2)
  have "nm_reachable demo_nm \<lparr>nr_st = snd (RecordLevel NORMAL ?s3), nr_stored = [],
      nr_pending = [([1], HIGH), ([1], NORMAL)], nr_ordered = True\<rparr>" by simp
  moreover have "snd (RecordLevel NORMAL ?s3) = nr_st demo_two" by (simp add: demo_two_def ds)
  ultimately show ?thesis by (simp add: demo_two_def)
qed

definition demo_sent :: "i32 list \<Rightarrow> nm_state" where
  "demo_sent vs = (nr_st demo_two)\<lparr>nm_outs := nm_outs (nr_st demo_two) @ map (SendLevel [1]) vs\<rparr>"

lemma demo_submit:
  "HandleDeviceLevelChange [1] v (demo_sent vs) = Some (demo_sent (vs @ [v]))"
  by (simp add: HandleDeviceLevelChange_Some demo_sent_def demo_two_def demo_registered_eq nm_emit_def)

lemma demo_two_eq: "demo_two = \<lparr>nr_st = demo_sent [], nr_stored = [],
     nr_pending = [([1], HIGH), ([1], NORMAL)], nr_ordered = True\<rparr>"
  by (simp add: demo_sent_def demo_two_def)

lemma demo_sent_map: "map_of (notifierMap (demo_sent vs)) 7 = Some (demo_info NORMAL)"
  by (simp add: demo_sent_def demo_two_def)


text \<open>
  The lock is released before a level is submitted, so two changes can be submitted in the
  other order: the client is left with \<open>HIGH\<close>, the manager with \<open>NORMAL\<close>, and coming to the
  foreground does not repair it, since the recorded level is the current one.
\<close>

lemma two_changes_can_swap:
  "\<exists>r. nm_reachable demo_nm r \<and> nr_stored r = [] \<and> nr_pending r = [] \<and> systemloadLevel (nr_st r) = NORMAL \<and>
     map_of (notifierMap (nr_st r)) 7 = Some (demo_info NORMAL) \<and> told 1 (nm_outs (nr_st r)) = HIGH \<and>
     (\<exists>st'. nm_OnApplicationStateChange demo_nm (NM_FOREGROUND demo_nm) 7 (nr_st r) = Some st' \<and>
        nm_outs st' = nm_outs (nr_st r))"
proof -
  have "nm_reachable demo_nm \<lparr>nr_st = demo_sent [NORMAL], nr_stored = [], nr_pending = [([1], HIGH)], nr_ordered = False\<rparr>"
    using nm_reachable.step [OF demo_two_reachable nm_step.submit [where k = 1]] demo_submit [of NORMAL "[]"]
    by (simp add: demo_two_eq)
  from nm_reachable.step [OF this nm_step.submit [where k = 0]] demo_submit [of HIGH "[NORMAL]"]
  have r: "nm_reachable demo_nm \<lparr>nr_st = demo_sent [NORMAL, HIGH], nr_stored = [], nr_pending = [], nr_ordered = False\<rparr>"
    by simp
  have d: "systemloadLevel (demo_sent vs) = NORMAL" "nm_handler (demo_sent vs)" for vs
    by (simp_all add: demo_sent_def demo_two_def demo_registered_eq)
  have t: "told 1 (nm_outs (demo_sent [NORMAL, HIGH])) = HIGH"
    using told_snoc(1) [of 1 "_ @ [_]" "[1]" HIGH] by (simp add: demo_sent_def)
  have "nm_OnApplicationStateChange demo_nm (NM_FOREGROUND demo_nm) 7 (demo_sent vs) =
      Some (set_fg 7 True (demo_sent vs))" for vs
    using app_state_foreground [OF demo_sent_map, of demo_nm "NM_FOREGROUND demo_nm" vs]
    by (simp add: d) (simp add: demo_info_def demo_nm_def)
  with r t show ?thesis
    by (intro exI [of _ "\<lparr>nr_st = demo_sent [NORMAL, HIGH], nr_stored = [], nr_pending = [], nr_ordered = False\<rparr>"])
       (simp add: demo_sent_map d set_fg_def)
qed

text \<open>
  When the system load level changes, exactly the native clients and the
  applications in the foreground are sent the new level; an application that comes to the
  foreground is sent the current level if and only if it differs from the one recorded for it,
  and afterwards the recorded one is the current one.
\<close>

theorem who_is_told:
  assumes "nm_ok st" "nm_handler st" "LOW \<le> v" "v \<le> ESCAPE"
    and "map_of (notifierMap st) pid = Some info" "ni_hapApp info"
    and "NM_FOREGROUND E \<notin> {NM_BACKGROUND E, NM_TERMINATED E, NM_END E}"
  shows "(\<exists>st' l. nm_OnDeviceLevelChanged SYSTEMLOAD_LEVEL v st = Some st' \<and>
      last (nm_outs st') = SendLevel l v \<and>
      set l = {ni_notifier i |p i. map_of (notifierMap st) p = Some i \<and> (ni_hapApp i \<le> ni_foreground i)}) \<and>
    (\<exists>st'. nm_OnApplicationStateChange E (NM_FOREGROUND E) pid st = Some st' \<and>
      nm_outs st' = nm_outs st @
        (if ni_level info = systemloadLevel st then [] else [SendLevel [ni_notifier info] (systemloadLevel st)]) \<and>
      map_of (notifierMap st') pid = Some (info\<lparr>ni_foreground := True, ni_level := systemloadLevel st\<rparr>))"
proof
  let ?st1 = "StoreLevel v st"
  let ?l = "map (\<lambda>e. ni_notifier (snd e)) (filter (\<lambda>e. \<not> on_background (snd e)) (notifierMap st))"
  have same: "notifierMap ?st1 = notifierMap st" "nm_handler ?st1"
    using assms(2) by (simp_all add: store_same)
  obtain st' where st': "OnDeviceLevelChangedLock v ?st1 = Some st'" "last (nm_outs st') = SendLevel ?l v"
    using same by (auto simp: OnDeviceLevelChangedLock_def RecordLevel_def HandleDeviceLevelChange_Some nm_emit_def)
  moreover have "nm_OnDeviceLevelChanged SYSTEMLOAD_LEVEL v st = Some st'"
    using assms(3,4) same st'(1) by (simp add: nm_OnDeviceLevelChanged_def level_accepted_def Let_def)
  moreover have "set ?l = {ni_notifier i |p i. map_of (notifierMap st) p = Some i \<and> (ni_hapApp i \<le> ni_foreground i)}"
    using visible_notifiers [OF nm_okD(3) [OF assms(1)]] by (simp add: on_background_def le_bool_def)
  ultimately show "\<exists>st' l. nm_OnDeviceLevelChanged SYSTEMLOAD_LEVEL v st = Some st' \<and>
      last (nm_outs st') = SendLevel l v \<and>
      set l = {ni_notifier i |p i. map_of (notifierMap st) p = Some i \<and> (ni_hapApp i \<le> ni_foreground i)}"
    by blast
  show "\<exists>st'. nm_OnApplicationStateChange E (NM_FOREGROUND E) pid st = Some st' \<and>
      nm_outs st' = nm_outs st @
        (if ni_level info = systemloadLevel st then [] else [SendLevel [ni_notifier info] (systemloadLevel st)]) \<and>
      map_of (notifierMap st') pid = Some (info\<lparr>ni_foreground := True, ni_level := systemloadLevel st\<rparr>)"
    using assms(2,5-7)
    by (cases "ni_level info = systemloadLevel st")
       (simp_all add: app_state_foreground Let_def told_fg_def set_fg_def nm_emit_def)
qed

theorem who_is_told_witness:
  "\<exists>st'. nm_OnApplicationStateChange demo_nm 2 7 (demo_registered\<lparr>systemloadLevel := HIGH\<rparr>) = Some st' \<and>
     last (nm_outs st') = SendLevel [1] HIGH"
proof -
  let ?st = "demo_registered\<lparr>systemloadLevel := HIGH\<rparr>"
  let ?info = "\<lparr>ni_notifier = 1, ni_foreground = True, ni_hapApp = True, ni_level = LOW\<rparr>"
  have d: "map_of (notifierMap ?st) 7 = Some ?info" "nm_handler ?st" "nm_outs ?st = [AddDeath 1]"
    "notifierMap ?st = [(7, ?info)]"
    by (simp_all add: demo_registered_def RegisterNotifier_def nm_Init_def nm_new_def nm_emit_def
        ReportPidToHisysevent_def demo_nm_def)
  have ok: "nm_ok ?st" unfolding nm_ok_def d(3,4) by (simp add: om_ok_def told_def)
  have "LOW \<le> HIGH" "HIGH \<le> ESCAPE" by (simp_all add: res_type_defs)
  from who_is_told [OF ok d(2) this d(1), of demo_nm] d(3) show ?thesis
    by (auto simp: demo_nm_def res_type_defs)
qed

end
