(* ===== verification/Event_Listener_Mgr.thy ===== *)
theory Event_Listener_Mgr
  imports Json_Payload Res_Type
begin

text \<open>
  \<open>EventListenerMgr\<close> (resschedfwk/src/event_listener_mgr.cpp): the processes that listen to
  events of the service, by event type, process and group.  The abstract specification is
  the set of registrations (type, process, group): the operations refine insertion and
  removal on it, and an event goes to exactly the listeners it contains.
\<close>

section \<open>Data\<close>

record listener_info =
  li_listener :: nat
  li_pid :: i32
  li_groups :: "u32 list"

datatype el_out =
    SendEventTo "nat list" u32 u32 json u32
  | AddListenerDeath nat
  | RemoveListenerDeath nat

record el_state =
  el_initialized :: bool
  eventListenerMap :: "(u32, (i32, listener_info) omap) omap"
  el_recipient :: bool
  eventSenderQueue :: bool
  el_outs :: "el_out list"

definition el_new :: el_state where
  "el_new = \<lparr>el_initialized = False, eventListenerMap = [], el_recipient = False,
     eventSenderQueue = False, el_outs = []\<rparr>"

definition el_emit :: "el_out \<Rightarrow> el_state \<Rightarrow> el_state" where
  "el_emit out st = st\<lparr>el_outs := el_outs st @ [out]\<rparr>"

section \<open>Operations\<close>

definition el_Init :: "el_state \<Rightarrow> el_state" where
  "el_Init st =
     (if el_initialized st then st
      else st\<lparr>el_recipient := True, eventSenderQueue := True, el_initialized := True\<rparr>)"

definition el_Deinit :: "el_state \<Rightarrow> el_state" where
  "el_Deinit st = st\<lparr>eventSenderQueue := False\<rparr>"

definition listeners_at :: "u32 \<Rightarrow> el_state \<Rightarrow> (i32, listener_info) omap" where
  "listeners_at t st = (case map_of (eventListenerMap st) t of None \<Rightarrow> [] | Some m \<Rightarrow> m)"

definition put_listener :: "u32 \<Rightarrow> i32 \<Rightarrow> listener_info \<Rightarrow> el_state \<Rightarrow> el_state" where
  "put_listener t pid info st =
     st\<lparr>eventListenerMap := om_put t (om_put pid info (listeners_at t st)) (eventListenerMap st)\<rparr>"

definition del_listener :: "u32 \<Rightarrow> i32 \<Rightarrow> el_state \<Rightarrow> el_state" where
  "del_listener t pid st =
     (let m = om_del pid (listeners_at t st) in
      st\<lparr>eventListenerMap :=
        (if m = [] then om_del t (eventListenerMap st) else om_put t m (eventListenerMap st))\<rparr>)"

definition RegisterEventListener :: "i32 \<Rightarrow> nat option \<Rightarrow> u32 \<Rightarrow> u32 \<Rightarrow> el_state \<Rightarrow> el_state" where
  "RegisterEventListener callingPid listener eventType listenerGroup st =
     (case listener of
        None \<Rightarrow> st
      | Some l \<Rightarrow>
          if \<not> el_recipient st then st
          else
            (case map_of (listeners_at eventType st) callingPid of
               Some info \<Rightarrow>
                 if listenerGroup \<notin> set (li_groups info)
                 then put_listener eventType callingPid
                        (info\<lparr>li_groups := listenerGroup # li_groups info\<rparr>) st
                 else st
             | None \<Rightarrow>
                 el_emit (AddListenerDeath l)
                   (put_listener eventType callingPid
                     \<lparr>li_listener = l, li_pid = callingPid, li_groups = [listenerGroup]\<rparr> st)))"

definition UnRegisterEventListener :: "i32 \<Rightarrow> u32 \<Rightarrow> u32 \<Rightarrow> el_state \<Rightarrow> el_state" where
  "UnRegisterEventListener callingPid eventType listenerGroup st =
     (case map_of (listeners_at eventType st) callingPid of
        None \<Rightarrow> st
      | Some info \<Rightarrow>
          (let groups = removeAll listenerGroup (li_groups info) in
           if groups \<noteq> [] then put_listener eventType callingPid (info\<lparr>li_groups := groups\<rparr>) st
           else del_listener eventType callingPid (el_emit (RemoveListenerDeath (li_listener info)) st)))"

text \<open>The listener goes from every event type, where it is found first; empty maps stay.\<close>

definition drop_listener :: "nat \<Rightarrow> (i32, listener_info) omap \<Rightarrow> (i32, listener_info) omap" where
  "drop_listener l m =
     (case find (\<lambda>e. li_listener (snd e) = l) m of None \<Rightarrow> m | Some e \<Rightarrow> om_del (fst e) m)"

definition RemoveListenerLock :: "nat \<Rightarrow> el_state \<Rightarrow> el_state" where
  "RemoveListenerLock l st =
     st\<lparr>eventListenerMap := om_map (\<lambda>t m. drop_listener l m) (eventListenerMap st),
        el_outs := el_outs st @ concat (map (\<lambda>(t, m).
          (case find (\<lambda>e. li_listener (snd e) = l) m of None \<Rightarrow> [] | Some e \<Rightarrow> [RemoveListenerDeath l]))
          (eventListenerMap st))\<rparr>"

definition OnRemoteListenerDied :: "nat option \<Rightarrow> el_state \<Rightarrow> el_state" where
  "OnRemoteListenerDied listener st = (case listener of None \<Rightarrow> st | Some l \<Rightarrow> RemoveListenerLock l st)"

text \<open>
  With the extension build a performance scene carries its type in the payload; the number
  is read with \<open>StrToInt\<close> of the utility library.
\<close>

definition GetExtTypeByEventExtInfo :: "(string \<Rightarrow> i32 option) \<Rightarrow> json \<Rightarrow> i32" where
  "GetExtTypeByEventExtInfo StrToInt extInfo =
     (case member ''extType'' extInfo of
        Some (JStr s) \<Rightarrow> (case StrToInt s of Some t \<Rightarrow> t | None \<Rightarrow> - 1)
      | _ \<Rightarrow> - 1)"

definition event_targets :: "u32 \<Rightarrow> u32 \<Rightarrow> i32 \<Rightarrow> el_state \<Rightarrow> nat list" where
  "event_targets eventType listenerGroup targetPid st =
     (if 0 \<le> targetPid then
        (case map_of (listeners_at eventType st) targetPid of
           None \<Rightarrow> []
         | Some info \<Rightarrow> if listenerGroup \<in> set (li_groups info) then [li_listener info] else [])
      else map (\<lambda>e. li_listener (snd e))
             (filter (\<lambda>e. listenerGroup \<in> set (li_groups (snd e))) (listeners_at eventType st)))"

definition SendEventLock :: "u32 \<Rightarrow> u32 \<Rightarrow> json \<Rightarrow> u32 \<Rightarrow> i32 \<Rightarrow> el_state \<Rightarrow> el_state" where
  "SendEventLock eventType eventValue extInfo listenerGroup targetPid st =
     (case map_of (eventListenerMap st) eventType of
        None \<Rightarrow> st
      | Some _ \<Rightarrow>
          el_emit (SendEventTo (event_targets eventType listenerGroup targetPid st)
            eventType eventValue extInfo listenerGroup) st)"

definition SendEvent :: "bool \<Rightarrow> (string \<Rightarrow> i32 option) \<Rightarrow> u32 \<Rightarrow> u32 \<Rightarrow> json \<Rightarrow> u32 \<Rightarrow> i32 \<Rightarrow> el_state \<Rightarrow> el_state" where
  "SendEvent ext_res StrToInt eventType eventValue extInfo listenerGroup targetPid st =
     (if uint eventType < EVENT_START \<or> EVENT_END < uint eventType then st
      else if \<not> eventSenderQueue st then st
      else
        (let extType = (if ext_res \<and> uint eventType = EVENT_KEY_PERF_SCENE
                        then GetExtTypeByEventExtInfo StrToInt extInfo else - 1);
             t = (if extType \<noteq> - 1 then of_int extType else eventType)
         in SendEventLock t eventValue extInfo listenerGroup targetPid st))"

definition el_DumpRegisterInfo :: "el_state \<Rightarrow> (u32 \<times> i32 list) list" where
  "el_DumpRegisterInfo st = map (\<lambda>(t, m). (t, map (\<lambda>e. li_pid (snd e)) m)) (eventListenerMap st)"

section \<open>The set of registrations\<close>

definition registrations :: "el_state \<Rightarrow> (u32 \<times> i32 \<times> u32) set" where
  "registrations st =
     {(t, p, g). \<exists>info. map_of (listeners_at t st) p = Some info \<and> g \<in> set (li_groups info)}"

definition el_ok :: "el_state \<Rightarrow> bool" where
  "el_ok st \<longleftrightarrow> om_ok (eventListenerMap st) \<and> (\<forall>t. om_ok (listeners_at t st)) \<and>
     (\<forall>t p info. map_of (listeners_at t st) p = Some info \<longrightarrow> li_groups info \<noteq> [] \<and> li_pid info = p)"

text \<open>No two processes share a remote object for one event type.\<close>

definition own_listeners :: "el_state \<Rightarrow> bool" where
  "own_listeners st \<longleftrightarrow> (\<forall>t p q i j. map_of (listeners_at t st) p = Some i \<longrightarrow>
     map_of (listeners_at t st) q = Some j \<longrightarrow> li_listener i = li_listener j \<longrightarrow> p = q)"

lemma put_listener_at:
  "listeners_at t' (put_listener t pid info st) =
     (if t' = t then om_put pid info (listeners_at t st) else listeners_at t' st)"
  by (simp add: listeners_at_def put_listener_def)

lemma del_listener_at:
  "listeners_at t' (del_listener t pid st) =
     (if t' = t then om_del pid (listeners_at t st) else listeners_at t' st)"
  by (simp add: listeners_at_def del_listener_def Let_def)

lemma emit_at [simp]: "listeners_at t (el_emit out st) = listeners_at t st"
  by (simp add: listeners_at_def el_emit_def)

lemma drop_listener_lookup:
  assumes "om_ok m"
  shows "map_of (drop_listener l m) p =
    (case map_of m p of None \<Rightarrow> None
     | Some i \<Rightarrow> if (\<exists>e. find (\<lambda>e. li_listener (snd e) = l) m = Some e \<and> fst e = p) then None else Some i)"
  by (auto simp: drop_listener_def split: option.split)

lemma find_unique_listener:
  assumes "om_ok m" "map_of m p = Some i" "li_listener i = l"
    and "\<And>q j. map_of m q = Some j \<Longrightarrow> li_listener j = l \<Longrightarrow> q = p"
  shows "\<exists>e. find (\<lambda>e. li_listener (snd e) = l) m = Some e \<and> fst e = p"
proof -
  have "find (\<lambda>e. li_listener (snd e) = l) m \<noteq> None"
    using assms(2,3) by (auto simp: find_None_iff dest: map_of_SomeD)
  then obtain q j where e: "find (\<lambda>e. li_listener (snd e) = l) m = Some (q, j)" by auto
  then have "(q, j) \<in> set m" "li_listener j = l" by (auto dest: find_SomeD)
  with assms(1,4) e show ?thesis by (auto simp: om_ok_map_of)
qed

lemma removed_at:
  "listeners_at t (RemoveListenerLock l st) = drop_listener l (listeners_at t st)"
proof -
  have "drop_listener l [] = []" by (simp add: drop_listener_def)
  then show ?thesis by (simp add: listeners_at_def RemoveListenerLock_def split: option.split)
qed

lemma unregister_at:
  "listeners_at t' (UnRegisterEventListener p t g st) =
     (if t' = t then
        (case map_of (listeners_at t st) p of
           None \<Rightarrow> listeners_at t st
         | Some info \<Rightarrow>
             if removeAll g (li_groups info) \<noteq> []
             then om_put p (info\<lparr>li_groups := removeAll g (li_groups info)\<rparr>) (listeners_at t st)
             else om_del p (listeners_at t st))
      else listeners_at t' st)"
proof (cases "map_of (listeners_at t st) p")
  case None
  then show ?thesis by (simp add: UnRegisterEventListener_def)
next
  case (Some info)
  then show ?thesis
    by (simp add: UnRegisterEventListener_def Let_def put_listener_at del_listener_at)
qed

text \<open>Both facts hold whatever is called, if a remote object belongs to one process.\<close>

inductive el_step :: "el_state \<Rightarrow> el_state \<Rightarrow> bool" where
  init: "el_step st (el_Init st)"
| deinit: "el_step st (el_Deinit st)"
| register: "(\<And>q j. map_of (listeners_at t st) q = Some j \<Longrightarrow> li_listener j = l \<Longrightarrow> q = p) \<Longrightarrow>
    el_step st (RegisterEventListener p (Some l) t g st)"
| unregister: "el_step st (UnRegisterEventListener p t g st)"
| died: "el_step st (OnRemoteListenerDied listener st)"
| send: "el_step st (SendEvent ext_res StrToInt t v info g targetPid st)"

definition el_inv :: "el_state \<Rightarrow> bool" where
  "el_inv st \<longleftrightarrow> el_ok st \<and> own_listeners st"

lemma el_inv_cong:
  "eventListenerMap st' = eventListenerMap st \<Longrightarrow> el_inv st' = el_inv st"
  by (simp add: el_inv_def el_ok_def own_listeners_def listeners_at_def)

lemma el_inv_same: "el_inv st \<Longrightarrow> eventListenerMap st' = eventListenerMap st \<Longrightarrow> el_inv st'"
  using el_inv_cong by blast

lemma el_inv_put:
  assumes "el_inv st" "li_groups info \<noteq> []" "li_pid info = p"
    and "\<And>q j. map_of (listeners_at t st) q = Some j \<Longrightarrow> li_listener j = li_listener info \<Longrightarrow> q = p"
  shows "el_inv (put_listener t p info st)"
proof -
  have "om_ok (eventListenerMap (put_listener t p info st))"
    using assms(1) by (simp add: put_listener_def el_inv_def el_ok_def)
  moreover have "om_ok (listeners_at t' (put_listener t p info st))" for t'
    using assms(1) by (simp add: put_listener_at el_inv_def el_ok_def)
  moreover have "li_groups i \<noteq> [] \<and> li_pid i = q"
    if "map_of (listeners_at t' (put_listener t p info st)) q = Some i" for t' q i
    using that assms(1-3) by (auto simp: put_listener_at el_inv_def el_ok_def split: if_splits)
  moreover have "q = r" if "map_of (listeners_at t' (put_listener t p info st)) q = Some i"
      "map_of (listeners_at t' (put_listener t p info st)) r = Some j" "li_listener i = li_listener j" for t' q r i j
  proof (cases "t' = t")
    case False
    with that assms(1) show ?thesis unfolding el_inv_def own_listeners_def
      by (simp add: put_listener_at)
  next
    case True
    have old: "q = r" if "map_of (listeners_at t st) q = Some i" "map_of (listeners_at t st) r = Some j"
      using that \<open>li_listener i = li_listener j\<close> assms(1) unfolding el_inv_def own_listeners_def by blast
    have q: "if q = p then i = info else map_of (listeners_at t st) q = Some i"
      using that(1) True by (simp add: put_listener_at split: if_splits)
    have r: "if r = p then j = info else map_of (listeners_at t st) r = Some j"
      using that(2) True by (simp add: put_listener_at split: if_splits)
    show ?thesis
    proof (rule ccontr)
      assume "q \<noteq> r"
      with q r old have "q = p \<or> r = p" by meson
      with \<open>q \<noteq> r\<close> q r that(3) assms(4) show False by metis
    qed
  qed
  ultimately show ?thesis unfolding el_inv_def el_ok_def own_listeners_def by blast
qed

lemma el_inv_less:
  assumes "el_inv st" "om_ok (eventListenerMap st')" "\<And>t. om_ok (listeners_at t st')"
    and "\<And>t p i. map_of (listeners_at t st') p = Some i \<Longrightarrow> map_of (listeners_at t st) p = Some i"
  shows "el_inv st'"
  using assms unfolding el_inv_def el_ok_def own_listeners_def by meson

lemma drop_listener_sub:
  "map_of (drop_listener l m) p = Some i \<Longrightarrow> map_of m p = Some i"
  by (auto simp: drop_listener_def split: option.splits if_splits)

lemma el_inv_step: "el_step st st' \<Longrightarrow> el_inv st \<Longrightarrow> el_inv st'"
proof (induction rule: el_step.induct)
  case (register t st l p g)
  show ?case
  proof (cases "map_of (listeners_at t st) p")
    case None
    have "el_inv (put_listener t p \<lparr>li_listener = l, li_pid = p, li_groups = [g]\<rparr> st)"
      using register by (intro el_inv_put) auto
    then have "el_inv (el_emit (AddListenerDeath l) (put_listener t p \<lparr>li_listener = l, li_pid = p, li_groups = [g]\<rparr> st))"
      by (rule el_inv_same) (simp add: el_emit_def)
    with register None show ?thesis by (simp add: RegisterEventListener_def)
  next
    case (Some info)
    then have "li_pid info = p" using register by (simp add: el_inv_def el_ok_def)
    moreover have "q = p" if "map_of (listeners_at t st) q = Some j" "li_listener j = li_listener info" for q j
      using register Some that unfolding el_inv_def own_listeners_def by meson
    ultimately have "el_inv (put_listener t p (info\<lparr>li_groups := g # li_groups info\<rparr>) st)"
      using register by (intro el_inv_put) auto
    with register Some show ?thesis by (simp add: RegisterEventListener_def)
  qed
next
  case (unregister st p t g)
  let ?st' = "UnRegisterEventListener p t g st"
  show ?case
  proof (cases "map_of (listeners_at t st) p")
    case None
    with unregister show ?thesis by (simp add: UnRegisterEventListener_def)
  next
    case (Some info)
    show ?thesis
    proof (cases "removeAll g (li_groups info) = []")
      case True
      let ?e = "el_emit (RemoveListenerDeath (li_listener info)) st"
      have e: "el_inv ?e" using unregister by (rule el_inv_same) (simp add: el_emit_def)
      have "el_inv (del_listener t p ?e)"
      proof (rule el_inv_less [OF e])
        show "om_ok (eventListenerMap (del_listener t p ?e))"
          using e by (simp add: del_listener_def Let_def el_inv_def el_ok_def)
      qed (use e in \<open>auto simp: del_listener_at el_inv_def el_ok_def split: if_splits\<close>)
      with Some True show ?thesis by (simp add: UnRegisterEventListener_def Let_def)
    next
      case False
      have "li_pid info = p" using unregister Some by (simp add: el_inv_def el_ok_def)
      moreover have "q = p" if "map_of (listeners_at t st) q = Some j" "li_listener j = li_listener info" for q j
        using unregister Some that unfolding el_inv_def own_listeners_def by meson
      ultimately have "el_inv (put_listener t p (info\<lparr>li_groups := removeAll g (li_groups info)\<rparr>) st)"
        using unregister False by (intro el_inv_put) auto
      with Some False show ?thesis by (simp add: UnRegisterEventListener_def Let_def)
    qed
  qed
next
  case (died st listener)
  then show ?case
  proof (cases listener)
    case (Some l)
    have "om_ok (drop_listener l m)" if "om_ok m" for m
      using that by (simp add: drop_listener_def split: option.split)
    moreover have "om_ok (eventListenerMap (RemoveListenerLock l st))"
      using died by (simp add: RemoveListenerLock_def el_inv_def el_ok_def)
    ultimately have "el_inv (RemoveListenerLock l st)"
      using died by (intro el_inv_less [OF died]) (auto simp: removed_at el_inv_def el_ok_def
          dest: drop_listener_sub)
    with Some show ?thesis by (simp add: OnRemoteListenerDied_def)
  qed (simp add: OnRemoteListenerDied_def)
next
  case (init st)
  then show ?case by (rule el_inv_same) (simp add: el_Init_def)
next
  case (deinit st)
  then show ?case by (rule el_inv_same) (simp add: el_Deinit_def)
next
  case (send st ext_res StrToInt t v info g targetPid)
  have "eventListenerMap (SendEventLock t' v info g targetPid st) = eventListenerMap st" for t'
    by (simp add: SendEventLock_def el_emit_def split: option.split)
  then have "eventListenerMap (SendEvent ext_res StrToInt t v info g targetPid st) = eventListenerMap st"
    by (simp add: SendEvent_def Let_def)
  with send show ?case by (rule el_inv_same)
qed

lemma register_registrations:
  assumes "el_recipient st"
  shows "registrations (RegisterEventListener p (Some l) t g st) = insert (t, p, g) (registrations st)"
  using assms
  by (cases "map_of (listeners_at t st) p")
     (auto simp: registrations_def RegisterEventListener_def put_listener_at split: if_splits)

lemma unregister_registrations:
  "registrations (UnRegisterEventListener p t g st) = registrations st - {(t, p, g)}"
proof (rule set_eqI, clarify)
  fix t' p' g'
  show "((t', p', g') \<in> registrations (UnRegisterEventListener p t g st)) =
      ((t', p', g') \<in> registrations st - {(t, p, g)})"
  proof (cases "map_of (listeners_at t st) p")
    case None
    then show ?thesis by (auto simp: registrations_def unregister_at)
  next
    case (Some info)
    then show ?thesis
      by (cases "removeAll g (li_groups info) = []"; cases "t' = t"; cases "p' = p")
         (auto simp: registrations_def unregister_at removeAll_filter_not_eq filter_empty_conv)
  qed
qed

lemma dropped_at:
  assumes "el_ok st" "own_listeners st"
  shows "map_of (drop_listener l (listeners_at t st)) p =
    (case map_of (listeners_at t st) p of None \<Rightarrow> None | Some i \<Rightarrow> if li_listener i = l then None else Some i)"
proof (cases "map_of (listeners_at t st) p")
  case (Some i)
  have ok: "om_ok (listeners_at t st)" using assms(1) by (simp add: el_ok_def)
  have "(\<exists>e. find (\<lambda>e. li_listener (snd e) = l) (listeners_at t st) = Some e \<and> fst e = p) = (li_listener i = l)"
  proof
    assume "\<exists>e. find (\<lambda>e. li_listener (snd e) = l) (listeners_at t st) = Some e \<and> fst e = p"
    then obtain j where "(p, j) \<in> set (listeners_at t st)" "li_listener j = l"
      by (force dest: find_SomeD)
    with ok Some show "li_listener i = l" by (simp add: om_ok_map_of)
  next
    assume "li_listener i = l"
    with find_unique_listener [OF ok Some] assms(2) Some
    show "\<exists>e. find (\<lambda>e. li_listener (snd e) = l) (listeners_at t st) = Some e \<and> fst e = p"
      unfolding own_listeners_def by blast
  qed
  with Some show ?thesis by (simp add: drop_listener_lookup [OF ok])
qed (use assms(1) in \<open>simp add: el_ok_def drop_listener_lookup\<close>)

lemma died_registrations:
  assumes "el_ok st" "own_listeners st"
  shows "registrations (OnRemoteListenerDied (Some l) st) = registrations st -
    {(t', p', g'). \<exists>info. map_of (listeners_at t' st) p' = Some info \<and> li_listener info = l}"
  by (auto simp: registrations_def OnRemoteListenerDied_def removed_at dropped_at[OF assms] split: option.splits if_splits)

text \<open>
  C10. The listener maps implement the set of registrations: registering adds the
  triple of type, process and group, unregistering removes it, and the death of a listener
  removes exactly the registrations made with it.
\<close>

theorem registrations_refine:
  assumes "el_ok st" "own_listeners st" "el_recipient st"
  shows "registrations (RegisterEventListener p (Some l) t g st) = insert (t, p, g) (registrations st) \<and>
    registrations (UnRegisterEventListener p t g st) = registrations st - {(t, p, g)} \<and>
    registrations (OnRemoteListenerDied (Some l) st) = registrations st -
      {(t', p', g'). \<exists>info. map_of (listeners_at t' st) p' = Some info \<and> li_listener info = l}"
  using assms register_registrations unregister_registrations died_registrations by simp

lemma event_targets_set:
  assumes "om_ok (listeners_at t st)"
  shows "set (event_targets t g targetPid st) =
    {li_listener i |p i. map_of (listeners_at t st) p = Some i \<and> (t, p, g) \<in> registrations st \<and>
       (if 0 \<le> targetPid then p = targetPid else True)}"
proof -
  let ?l = "listeners_at t st"
  have reg: "(map_of ?l p = Some i \<and> (t, p, g) \<in> registrations st \<and> Q) =
      (map_of ?l p = Some i \<and> g \<in> set (li_groups i) \<and> Q)" for p i Q
    by (auto simp: registrations_def)
  show ?thesis
  proof (cases "0 \<le> targetPid")
    case True
    then show ?thesis unfolding reg by (auto simp: event_targets_def split: option.splits)
  next
    case False
    have "set (event_targets t g targetPid st) = {li_listener i |p i. (p, i) \<in> set ?l \<and> g \<in> set (li_groups i)}"
      using False by (force simp: event_targets_def)
    then show ?thesis unfolding reg using False by (simp add: om_ok_map_of [OF assms])
  qed
qed

definition demo_el :: el_state where
  "demo_el = RegisterEventListener 8 (Some 2) 3 0 (RegisterEventListener 7 (Some 1) 3 0 (el_Init el_new))"

lemma demo_el_eq:
  "demo_el = \<lparr>el_initialized = True,
     eventListenerMap = [(3, [(7, \<lparr>li_listener = 1, li_pid = 7, li_groups = [0]\<rparr>),
                              (8, \<lparr>li_listener = 2, li_pid = 8, li_groups = [0]\<rparr>)])],
     el_recipient = True, eventSenderQueue = True, el_outs = [AddListenerDeath 1, AddListenerDeath 2]\<rparr>"
  by (simp add: demo_el_def RegisterEventListener_def el_Init_def el_new_def listeners_at_def
      put_listener_def el_emit_def)

lemma demo_el_ok: "el_ok demo_el" "own_listeners demo_el" "el_recipient demo_el"
  by (auto simp: el_ok_def own_listeners_def demo_el_eq listeners_at_def om_ok_def split: if_splits option.splits)

theorem registrations_refine_witness:
  "(3, 8, 0) \<in> registrations (OnRemoteListenerDied (Some 1) demo_el) \<and>
   (3, 7, 0) \<notin> registrations (OnRemoteListenerDied (Some 1) demo_el)"
proof -
  have "registrations (OnRemoteListenerDied (Some 1) demo_el) = registrations demo_el -
      {(t', p', g'). \<exists>info. map_of (listeners_at t' demo_el) p' = Some info \<and> li_listener info = 1}"
    using registrations_refine [OF demo_el_ok, of 0 1 0 0] by simp
  then show ?thesis by (simp add: registrations_def demo_el_eq listeners_at_def)
qed

text \<open>
  An event of a valid type, sent while the service runs, is delivered in one
  task to exactly the listeners of the processes registered for its type and group,
  restricted to the target process when one is given.
\<close>

theorem event_goes_to_registered:
  assumes "el_ok st" "eventSenderQueue st" "uint t \<le> EVENT_END" "uint t \<noteq> EVENT_KEY_PERF_SCENE"
    and "listeners_at t st \<noteq> []"
  shows "\<exists>targets. SendEvent ext_res StrToInt t v info g targetPid st = el_emit (SendEventTo targets t v info g) st \<and>
    set targets = {li_listener i |p i. map_of (listeners_at t st) p = Some i \<and> (t, p, g) \<in> registrations st \<and>
                     (if 0 \<le> targetPid then p = targetPid else True)}"
proof -
  have "\<not> uint t < EVENT_START" by (simp add: EVENT_START_def)
  moreover have "map_of (eventListenerMap st) t \<noteq> None"
    using assms(5) by (auto simp: listeners_at_def split: option.splits)
  ultimately have "SendEvent ext_res StrToInt t v info g targetPid st =
      el_emit (SendEventTo (event_targets t g targetPid st) t v info g) st"
    using assms(2,3,4) by (auto simp: SendEvent_def SendEventLock_def Let_def split: option.split)
  moreover have "om_ok (listeners_at t st)" using assms(1) by (simp add: el_ok_def)
  ultimately show ?thesis using event_targets_set by blast
qed

theorem event_goes_to_registered_witness:
  "\<exists>targets. SendEvent False (\<lambda>_. None) 3 1 JNull 0 (- 1) demo_el =
      el_emit (SendEventTo targets 3 1 JNull 0) demo_el \<and> 1 \<in> set targets"
proof -
  have "eventSenderQueue demo_el" "listeners_at 3 demo_el \<noteq> []" by (simp_all add: demo_el_eq listeners_at_def)
  moreover have "uint (3 :: u32) \<le> EVENT_END" "uint (3 :: u32) \<noteq> EVENT_KEY_PERF_SCENE"
    by (simp_all add: res_type_defs)
  ultimately obtain targets where
    t: "SendEvent False (\<lambda>_. None) 3 1 JNull 0 (- 1) demo_el = el_emit (SendEventTo targets 3 1 JNull 0) demo_el"
      "set targets = {li_listener i |p i. map_of (listeners_at 3 demo_el) p = Some i \<and>
         (3, p, 0) \<in> registrations demo_el \<and> (if 0 \<le> (- 1 :: i32) then p = - 1 else True)}"
    using event_goes_to_registered [OF demo_el_ok(1), of 3 False "\<lambda>_. None" 1 JNull 0 "- 1"] by blast
  have "1 \<in> set targets"
    unfolding t(2) by (auto simp: registrations_def demo_el_eq listeners_at_def
        intro!: exI [of _ 7] exI [of _ "\<lparr>li_listener = 1, li_pid = 7, li_groups = [0]\<rparr>"])
  with t(1) show ?thesis by blast
qed

end
