(* ===== verification/Slide_Model.thy ===== *)
theory Slide_Model
  imports Json_Payload Res_Type
begin

text \<open>
  The slide recognizers (scene_recognize/src/slide_recognizer.cpp, slide_recognizer_proxy.cpp).
  One recognizer exists for each screen; the proxy finds or creates it.  A recognizer is a
  state machine that turns touches and drawn frames into the phases of a slide, reports them
  to the service and asks the renderer for frames.  The objects live in a heap, because the
  timers and queued tasks keep one alive after the proxy has dropped it.  What leaves a
  recognizer is a list of outputs: reports and draw events, tasks for the queue, and delayed
  tasks (\<open>ffrt::submit_h\<close>, \<open>ffrt::skip\<close>), which are named by their handle.
\<close>

section \<open>Data\<close>

datatype slide_stat = IDLE | SLIDE_NORMAL_DETECTING | SLIDE_NORMAL | LIST_FLING

record slide_recognizer =
  slideState :: slide_stat
  listFlingEndTask :: "nat option"
  listFlingTimeOutTask :: "nat option"
  slideDetectingTime :: i64
  isInTouching :: bool
  slidePid :: string
  slideUid :: string
  scrTid :: string
  listFlingTimeOutTime :: i64
  listFlingEndTime :: i64
  listFlingSpeedLimit :: i32

datatype slide_task = StartDetectingOf nat json

datatype slide_out =
    Report u32 i64 json
  | DrawEvent i64 json
  | SubmitTask slide_task

text \<open>
  A delayed task is its handle, the recognizer it runs on, the payload it captured and its
  delay; both kinds of task run \<open>ReportListFlingLockedEnd\<close>.
\<close>

record slide_timer =
  tm_handle :: nat
  tm_self :: nat
  tm_payload :: json
  tm_delay :: i64

record slide_state =
  sl_heap :: "(nat, slide_recognizer) omap"
  sl_instances :: "(u64, nat) omap"
  displayIdToRsScreenId :: "(u64, u64) omap"
  px_listFlingTimeOutTime :: i64
  px_listFlingEndTime :: i64
  px_listFlingSpeedLimit :: i32
  sl_timers :: "slide_timer list"
  sl_next :: nat
  sl_outs :: "slide_out list"

text \<open>
  The environment: the clock, whether the text of a speed is a number and that number, times
  a factor, is above a limit (floating point), and the display service.
\<close>

record slide_env =
  se_now :: i64
  se_over :: "string \<Rightarrow> u32 \<Rightarrow> i32 \<Rightarrow> bool option"
  se_display :: "u64 \<Rightarrow> u64 option"

definition DEFAULT_LIST_FLING_TIME_OUT_TIME :: i64 where
  "DEFAULT_LIST_FLING_TIME_OUT_TIME = 3 * 1000 * 1000"
definition DEFAULT_LIST_FLING_END_TIME :: i64 where
  "DEFAULT_LIST_FLING_END_TIME = 150 * 1000"
definition DEFAULT_LIST_FLING_SPEED_LIMIT :: i32 where
  "DEFAULT_LIST_FLING_SPEED_LIMIT = 3"
definition DEFAULT_SCREEN_ID :: u64 where "DEFAULT_SCREEN_ID = 0"
definition MAX_INSTANCE_COUNT :: nat where "MAX_INSTANCE_COUNT = 10"
definition AXIS_EVENT_FACTOR :: u32 where "AXIS_EVENT_FACTOR = 10"

definition SLIDE_PROXY_ACCEPT_TYPES :: "u32 list" where
  "SLIDE_PROXY_ACCEPT_TYPES =
     [RES_TYPE_SLIDE_RECOGNIZE, RES_TYPE_SEND_FRAME_EVENT, RES_TYPE_CLICK_RECOGNIZE, RES_TYPE_AXIS_EVENT]"

definition new_recognizer :: slide_recognizer where
  "new_recognizer =
     \<lparr>slideState = IDLE, listFlingEndTask = None, listFlingTimeOutTask = None,
      slideDetectingTime = - 1, isInTouching = False, slidePid = [], slideUid = [], scrTid = [],
      listFlingTimeOutTime = DEFAULT_LIST_FLING_TIME_OUT_TIME,
      listFlingEndTime = DEFAULT_LIST_FLING_END_TIME,
      listFlingSpeedLimit = DEFAULT_LIST_FLING_SPEED_LIMIT\<rparr>"

definition slide_new :: slide_state where
  "slide_new =
     \<lparr>sl_heap = [], sl_instances = [], displayIdToRsScreenId = [],
      px_listFlingTimeOutTime = DEFAULT_LIST_FLING_TIME_OUT_TIME,
      px_listFlingEndTime = DEFAULT_LIST_FLING_END_TIME,
      px_listFlingSpeedLimit = DEFAULT_LIST_FLING_SPEED_LIMIT,
      sl_timers = [], sl_next = 0, sl_outs = []\<rparr>"

definition sl_emit :: "slide_out \<Rightarrow> slide_state \<Rightarrow> slide_state" where
  "sl_emit out st = st\<lparr>sl_outs := sl_outs st @ [out]\<rparr>"

text \<open>The object behind a pointer; the pointers of the model are never dangling.\<close>

definition sr_at :: "nat \<Rightarrow> slide_state \<Rightarrow> slide_recognizer" where
  "sr_at self st = (case map_of (sl_heap st) self of None \<Rightarrow> new_recognizer | Some r \<Rightarrow> r)"

definition sr_upd :: "nat \<Rightarrow> (slide_recognizer \<Rightarrow> slide_recognizer) \<Rightarrow> slide_state \<Rightarrow> slide_state" where
  "sr_upd self f st = st\<lparr>sl_heap := om_put self (f (sr_at self st)) (sl_heap st)\<rparr>"

text \<open>\<open>ffrt::skip\<close> cancels a task that has not started; the handle stays.\<close>

definition skip_task :: "nat option \<Rightarrow> slide_state \<Rightarrow> slide_state" where
  "skip_task handle st =
     (case handle of
        None \<Rightarrow> st
      | Some h \<Rightarrow> st\<lparr>sl_timers := filter (\<lambda>t. tm_handle t \<noteq> h) (sl_timers st)\<rparr>)"

definition submit_h :: "nat \<Rightarrow> json \<Rightarrow> i64 \<Rightarrow> slide_state \<Rightarrow> nat \<times> slide_state" where
  "submit_h self payload delay st =
     (sl_next st,
      st\<lparr>sl_timers := sl_timers st @
           [\<lparr>tm_handle = sl_next st, tm_self = self, tm_payload = payload, tm_delay = delay\<rparr>],
         sl_next := sl_next st + 1\<rparr>)"

section \<open>slide\_recognizer.cpp\<close>

definition BuildExtInfoWithScreenId :: "json \<Rightarrow> json" where
  "BuildExtInfoWithScreenId payload =
     (case member ''screenId'' payload of
        Some (JStr s) \<Rightarrow> JObj [(''screenId'', JStr s)]
      | _ \<Rightarrow> JObj [(''screenId'', JStr (to_string (uint DEFAULT_SCREEN_ID)))])"

definition FillRealPidAndUid :: "nat \<Rightarrow> json \<Rightarrow> slide_state \<Rightarrow> json" where
  "FillRealPidAndUid self payload st =
     (let r = sr_at self st;
          p1 = (if slidePid r \<noteq> [] then set_member ''clientPid'' (JStr (slidePid r)) payload else payload);
          p2 = (if slideUid r \<noteq> [] then set_member ''callingUid'' (JStr (slideUid r)) p1 else p1)
      in set_member ''scrTid'' (JStr (scrTid r)) p2)"

definition report_slide :: "i64 \<Rightarrow> json \<Rightarrow> slide_state \<Rightarrow> slide_state" where
  "report_slide value payload st = sl_emit (Report RES_TYPE_SLIDE_RECOGNIZE value payload) st"

definition send_draw :: "i64 \<Rightarrow> json \<Rightarrow> slide_state \<Rightarrow> slide_state" where
  "send_draw value payload st = sl_emit (DrawEvent value (BuildExtInfoWithScreenId payload)) st"

definition ReportListFlingLockedEnd :: "nat \<Rightarrow> json \<Rightarrow> slide_state \<Rightarrow> slide_state" where
  "ReportListFlingLockedEnd self payload st =
     (if slideState (sr_at self st) \<noteq> LIST_FLING then st
      else
        sr_upd self (\<lambda>r. r\<lparr>slideState := IDLE\<rparr>)
          (send_draw EVENT_VALUE_DRAW_FRAME_REPORT_STOP payload
            (report_slide SLIDE_EVENT_OFF payload st)))"

definition HandleSlideOFFEvent :: "nat \<Rightarrow> json \<Rightarrow> slide_state \<Rightarrow> slide_state" where
  "HandleSlideOFFEvent self payload st =
     (let st1 = skip_task (listFlingEndTask (sr_at self st)) st;
          st2 = skip_task (listFlingTimeOutTask (sr_at self st1)) st1
      in sr_upd self (\<lambda>r. r\<lparr>slideState := IDLE\<rparr>) (send_draw EVENT_VALUE_DRAW_FRAME_REPORT_STOP payload st2))"

definition HandleSlideDetecting :: "nat \<Rightarrow> json \<Rightarrow> slide_state \<Rightarrow> slide_state" where
  "HandleSlideDetecting self payload st =
     sl_emit (SubmitTask (StartDetectingOf self payload)) (sr_upd self (\<lambda>r. r\<lparr>isInTouching := True\<rparr>) st)"

definition StartDetecting :: "slide_env \<Rightarrow> nat \<Rightarrow> json \<Rightarrow> slide_state \<Rightarrow> slide_state" where
  "StartDetecting E self payload st =
     (let st1 = sr_upd self (\<lambda>r. r\<lparr>slideDetectingTime := se_now E, slideState := SLIDE_NORMAL_DETECTING\<rparr>)
                  (send_draw EVENT_VALUE_DRAW_FRAME_REPORT_START payload st)
      in case member ''clientPid'' payload of
           Some (JStr pid) \<Rightarrow>
             (let st2 = sr_upd self (\<lambda>r. r\<lparr>slidePid := pid\<rparr>) st1 in
              case member ''callingUid'' payload of
                Some (JStr uid) \<Rightarrow>
                  (let st3 = sr_upd self (\<lambda>r. r\<lparr>slideUid := uid\<rparr>) st2 in
                   case member ''scrTid'' payload of
                     Some (JStr tid) \<Rightarrow> sr_upd self (\<lambda>r. r\<lparr>scrTid := tid\<rparr>) st3
                   | _ \<Rightarrow> st3)
              | _ \<Rightarrow> st2)
         | _ \<Rightarrow> st1)"

text \<open>Cancelling the pending end task and starting a new one, in two places of the code.\<close>

definition restart_end :: "nat \<Rightarrow> json \<Rightarrow> slide_state \<Rightarrow> slide_state" where
  "restart_end self payload st =
     (let (h, st1) = submit_h self payload (listFlingEndTime (sr_at self st))
                       (skip_task (listFlingEndTask (sr_at self st)) st)
      in sr_upd self (\<lambda>r. r\<lparr>listFlingEndTask := Some h\<rparr>) st1)"

definition HandleListFlingStart :: "nat \<Rightarrow> json \<Rightarrow> slide_state \<Rightarrow> slide_state" where
  "HandleListFlingStart self payload st =
     (let st1 = restart_end self payload (send_draw EVENT_VALUE_DRAW_FRAME_REPORT_START payload st);
          (h, st2) = submit_h self payload (listFlingTimeOutTime (sr_at self st1))
                       (skip_task (listFlingTimeOutTask (sr_at self st1)) st1)
      in sr_upd self (\<lambda>r. r\<lparr>listFlingTimeOutTask := Some h\<rparr>) st2)"

definition HandleSlideEvent :: "nat \<Rightarrow> i64 \<Rightarrow> json \<Rightarrow> slide_state \<Rightarrow> slide_state" where
  "HandleSlideEvent self value payload st =
     (if value = SLIDE_EVENT_DETECTING then HandleSlideDetecting self payload st
      else if value = SLIDE_EVENT_ON then HandleListFlingStart self payload st
      else if value = SLIDE_EVENT_OFF then HandleSlideOFFEvent self payload st
      else st)"

definition HandleSendFrameEvent :: "nat \<Rightarrow> json \<Rightarrow> slide_state \<Rightarrow> slide_state" where
  "HandleSendFrameEvent self payload st =
     (case slideState (sr_at self st) of
        SLIDE_NORMAL_DETECTING \<Rightarrow>
          send_draw EVENT_VALUE_DRAW_FRAME_REPORT_STOP payload
            (if isInTouching (sr_at self st)
             then sr_upd self (\<lambda>r. r\<lparr>slideState := SLIDE_NORMAL\<rparr>) (report_slide SLIDE_NORMAL_BEGIN payload st)
             else sr_upd self (\<lambda>r. r\<lparr>slideState := IDLE\<rparr>) st)
      | LIST_FLING \<Rightarrow> restart_end self payload st
      | _ \<Rightarrow> st)"

definition ListFlingEnd :: "nat \<Rightarrow> json \<Rightarrow> slide_state \<Rightarrow> slide_state" where
  "ListFlingEnd self payload st =
     (if slideState (sr_at self st) \<noteq> LIST_FLING then st
      else
        (let st1 = skip_task (listFlingEndTask (sr_at self st)) st;
             st2 = skip_task (listFlingTimeOutTask (sr_at self st1)) st1;
             st3 = sr_upd self (\<lambda>r. r\<lparr>listFlingEndTask := None, listFlingTimeOutTask := None\<rparr>) st2
         in ReportListFlingLockedEnd self (FillRealPidAndUid self payload st3) st3))"

definition is_up :: "i64 \<Rightarrow> bool" where
  "is_up value = (value = TOUCH_EVENT_UP \<or> value = TOUCH_EVENT_PULL_UP)"

text \<open>Whether the finger left the screen fast enough for the list to go on moving.\<close>

definition fling_speed :: "slide_env \<Rightarrow> nat \<Rightarrow> json \<Rightarrow> slide_state \<Rightarrow> bool" where
  "fling_speed E self payload st =
     (case (member ''clientPid'' payload, member ''up_speed'' payload) of
        (Some (JStr _), Some (JStr speed)) \<Rightarrow>
          se_over E speed
            (if member ''axis_event_type'' payload = Some (JStr ''axis_event_type'')
             then AXIS_EVENT_FACTOR else 1)
            (listFlingSpeedLimit (sr_at self st)) = Some True
      | _ \<Rightarrow> False)"

definition HandleClickEvent :: "slide_env \<Rightarrow> nat \<Rightarrow> i64 \<Rightarrow> json \<Rightarrow> slide_state \<Rightarrow> slide_state" where
  "HandleClickEvent E self value payload st =
     (let st1 = (if value = TOUCH_EVENT_DOWN
                 then sr_upd self (\<lambda>r. r\<lparr>slideState := IDLE, isInTouching := True\<rparr>) (ListFlingEnd self payload st)
                 else if is_up value then sr_upd self (\<lambda>r. r\<lparr>isInTouching := False\<rparr>) st
                 else st);
          s = slideState (sr_at self st1)
      in if s \<noteq> SLIDE_NORMAL \<and> s \<noteq> SLIDE_NORMAL_DETECTING then st1
         else if is_up value then
           (let st2 = (if s \<noteq> SLIDE_NORMAL_DETECTING
                       then report_slide SLIDE_NORMAL_END (FillRealPidAndUid self payload st1) st1
                       else st1)
            in if fling_speed E self payload st2
               then sr_upd self (\<lambda>r. r\<lparr>slideState := LIST_FLING\<rparr>)
                      (report_slide SLIDE_EVENT_ON (FillRealPidAndUid self payload st2)
                        (send_draw EVENT_VALUE_DRAW_FRAME_REPORT_START payload st2))
               else st2)
         else st1)"

definition sr_OnDispatchResource ::
    "slide_env \<Rightarrow> nat \<Rightarrow> u32 \<Rightarrow> i64 \<Rightarrow> json \<Rightarrow> slide_state \<Rightarrow> slide_state" where
  "sr_OnDispatchResource E self resType value payload st =
     (if resType = RES_TYPE_SLIDE_RECOGNIZE then HandleSlideEvent self value payload st
      else if resType = RES_TYPE_SEND_FRAME_EVENT
        then HandleSendFrameEvent self (FillRealPidAndUid self payload st) st
      else if resType = RES_TYPE_CLICK_RECOGNIZE then HandleClickEvent E self value payload st
      else if resType = RES_TYPE_AXIS_EVENT then
        (if value = AXIS_EVENT_END then HandleClickEvent E self TOUCH_EVENT_UP payload st else st)
      else st)"

definition IsTaskClean :: "slide_recognizer \<Rightarrow> bool" where
  "IsTaskClean r = (listFlingEndTask r = None \<and> listFlingTimeOutTask r = None)"

text \<open>A delayed task runs: it leaves the list of pending ones, its handle stays.\<close>

definition timer_fires :: "slide_timer \<Rightarrow> slide_state \<Rightarrow> slide_state" where
  "timer_fires t st =
     ReportListFlingLockedEnd (tm_self t) (tm_payload t)
       (st\<lparr>sl_timers := filter (\<lambda>u. tm_handle u \<noteq> tm_handle t) (sl_timers st)\<rparr>)"

section \<open>slide\_recognizer\_proxy.cpp\<close>

text \<open>\<open>std::from_chars\<close> reads the leading digits and fails beyond 64 bits.\<close>

definition ExtractIdFromPayload :: "json \<Rightarrow> string \<Rightarrow> u64 option" where
  "ExtractIdFromPayload payload key =
     (case member key payload of
        Some (JStr s) \<Rightarrow>
          (let d = takeWhile is_digit s in
           if d = [] \<or> 18446744073709551615 < int (dec_val d) then None else Some (of_nat (dec_val d)))
      | _ \<Rightarrow> None)"

definition ConvertDisplayIdToRsScreenId :: "slide_env \<Rightarrow> u64 \<Rightarrow> slide_state \<Rightarrow> u64 \<times> slide_state" where
  "ConvertDisplayIdToRsScreenId E displayId st =
     (case map_of (displayIdToRsScreenId st) displayId of
        Some screen \<Rightarrow> (screen, st)
      | None \<Rightarrow>
          (case se_display E displayId of
             None \<Rightarrow> (DEFAULT_SCREEN_ID, st)
           | Some screen \<Rightarrow>
               (screen, st\<lparr>displayIdToRsScreenId := om_put displayId screen (displayIdToRsScreenId st)\<rparr>)))"

definition CleanupIdleInstances :: "slide_state \<Rightarrow> slide_state" where
  "CleanupIdleInstances st =
     st\<lparr>sl_instances := filter (\<lambda>(screen, self). \<not> (slideState (sr_at self st) = IDLE \<and> IsTaskClean (sr_at self st)))
        (sl_instances st)\<rparr>"

definition GetOrCreateInstance :: "u64 \<Rightarrow> slide_state \<Rightarrow> nat \<times> slide_state" where
  "GetOrCreateInstance screenId st =
     (case map_of (sl_instances st) screenId of
        Some self \<Rightarrow> (self, st)
      | None \<Rightarrow>
          (let self = sl_next st;
               r = new_recognizer
                     \<lparr>listFlingTimeOutTime := px_listFlingTimeOutTime st,
                      listFlingEndTime := px_listFlingEndTime st,
                      listFlingSpeedLimit := px_listFlingSpeedLimit st\<rparr>;
               st1 = st\<lparr>sl_heap := om_put self r (sl_heap st), sl_next := sl_next st + 1,
                        sl_instances := om_put screenId self (sl_instances st)\<rparr>
           in (self, if MAX_INSTANCE_COUNT < length (sl_instances st1) then CleanupIdleInstances st1 else st1)))"

definition choose_screen :: "slide_env \<Rightarrow> u32 \<Rightarrow> i64 \<Rightarrow> json \<Rightarrow> slide_state \<Rightarrow> u64 \<times> slide_state" where
  "choose_screen E resType value payload st =
     (case (ExtractIdFromPayload payload ''screenId'', ExtractIdFromPayload payload ''displayId'') of
        (Some screen, _) \<Rightarrow> (screen, st)
      | (None, Some display) \<Rightarrow>
          if resType = RES_TYPE_CLICK_RECOGNIZE \<and> value = TOUCH_EVENT_DOWN
          then ConvertDisplayIdToRsScreenId E display st
          else (case map_of (displayIdToRsScreenId st) display of
                  Some screen \<Rightarrow> (screen, st)
                | None \<Rightarrow> (DEFAULT_SCREEN_ID, st))
      | (None, None) \<Rightarrow> (DEFAULT_SCREEN_ID, st))"

text \<open>
  Writing a member of a payload that is neither an object nor null throws, after the
  recognizer has been found or created; nothing catches it (\<open>None\<close>).
\<close>

definition is_object :: "json \<Rightarrow> bool" where
  "is_object j = (case j of JObj _ \<Rightarrow> True | JNull \<Rightarrow> True | _ \<Rightarrow> False)"

definition px_OnDispatchResource ::
    "slide_env \<Rightarrow> u32 \<Rightarrow> i64 \<Rightarrow> json \<Rightarrow> slide_state \<Rightarrow> slide_state option" where
  "px_OnDispatchResource E resType value payload st =
     (let (screenId, st1) = choose_screen E resType value payload st;
          (self, st2) = GetOrCreateInstance screenId st1
      in if is_object payload
         then Some (sr_OnDispatchResource E self resType value
                (set_member ''screenId'' (JStr (to_string (uint screenId))) payload) st2)
         else None)"

definition px_all :: "(slide_recognizer \<Rightarrow> slide_recognizer) \<Rightarrow> slide_state \<Rightarrow> slide_state" where
  "px_all f st = fold (\<lambda>(screen, self). sr_upd self f) (sl_instances st) st"

definition SetListFlingTimeoutTime :: "i64 \<Rightarrow> slide_state \<Rightarrow> slide_state" where
  "SetListFlingTimeoutTime value st =
     px_all (\<lambda>r. r\<lparr>listFlingTimeOutTime := value\<rparr>) (st\<lparr>px_listFlingTimeOutTime := value\<rparr>)"

definition SetListFlingEndTime :: "i64 \<Rightarrow> slide_state \<Rightarrow> slide_state" where
  "SetListFlingEndTime value st =
     px_all (\<lambda>r. r\<lparr>listFlingEndTime := value\<rparr>) (st\<lparr>px_listFlingEndTime := value\<rparr>)"

definition SetListFlingSpeedLimit :: "i32 \<Rightarrow> slide_state \<Rightarrow> slide_state" where
  "SetListFlingSpeedLimit value st =
     px_all (\<lambda>r. r\<lparr>listFlingSpeedLimit := value\<rparr>) (st\<lparr>px_listFlingSpeedLimit := value\<rparr>)"

end
