(* ===== verification/Scene_Model.thy ===== *)
theory Scene_Model
  imports Slide_Model
begin

text \<open>
  The other scene recognizers and their manager (scene_recognize/src): overlapping background
  tasks, continuous installation, first boot after an upgrade, and \<open>SceneRecognizerMgr\<close>, which
  queues every event for the recognizers that accept it.  A report of a recognizer goes back
  through the service to the manager, so it can queue more work; the queue, the pending
  delayed tasks and the reports are explicit in \<open>scene_state\<close>.
\<close>

type_synonym report = "u32 \<times> i64 \<times> json"

section \<open>background\_sensitive\_task\_overlapping\_scene\_recognizer.cpp\<close>

record bg_state =
  foregroundPid :: i32
  sceneboardPid :: i32
  perceivableTasks :: "(i32, u32 list) omap"
  isInBackgroundPerceivableScene :: bool

text \<open>
  The modes of the background task service (an enumeration outside this repository), the
  value of a floating-point item of an array, and \<open>StrToInt\<close> of c_utils.
\<close>

record bg_env =
  BM_LOCATION :: u32
  BM_VOIP :: u32
  BM_AUDIO_PLAYBACK :: u32
  BM_MULTI_DEVICE_CONNECTION :: u32
  BM_DATA_TRANSFER :: u32
  BM_END :: u32
  bg_float :: "nat \<Rightarrow> u32"
  bg_StrToInt :: "string \<Rightarrow> i32 option"

definition PID_MIN :: i32 where "PID_MIN = - 1"
definition PID_MAX :: i32 where "PID_MAX = 2147483647"

definition PERCEIVABLE_MODES :: "bg_env \<Rightarrow> u32 list" where
  "PERCEIVABLE_MODES B = [BM_LOCATION B, BM_VOIP B, BM_AUDIO_PLAYBACK B, BM_MULTI_DEVICE_CONNECTION B]"

definition bg_new :: bg_state where
  "bg_new = \<lparr>foregroundPid = - 1, sceneboardPid = - 1, perceivableTasks = [],
     isInBackgroundPerceivableScene = False\<rparr>"

definition CheckEnterScene :: "bg_state \<Rightarrow> bool" where
  "CheckEnterScene b =
     (if isInBackgroundPerceivableScene b \<or> foregroundPid b = sceneboardPid b then False
      else if 1 < length (perceivableTasks b) then True
      else if 0 < length (perceivableTasks b) \<and> map_of (perceivableTasks b) (foregroundPid b) = None then True
      else False)"

definition EnterScene :: "bg_state \<Rightarrow> bg_state \<times> report list" where
  "EnterScene b =
     (b\<lparr>isInBackgroundPerceivableScene := True\<rparr>,
      [(RES_TYPE_BACKGROUND_PERCEIVABLE_SCENE, PERCEIVABLE_START, JNull)])"

definition ExitScene :: "bg_state \<Rightarrow> bg_state \<times> report list" where
  "ExitScene b =
     (b\<lparr>isInBackgroundPerceivableScene := False\<rparr>,
      [(RES_TYPE_BACKGROUND_PERCEIVABLE_SCENE, PERCEIVABLE_STOP, JNull)])"

definition IsValidPid :: "i32 \<Rightarrow> bool" where
  "IsValidPid pid = (PID_MIN \<le> pid \<and> pid \<le> PID_MAX)"

definition IsValidFilteredTypeIds :: "bg_env \<Rightarrow> u32 list \<Rightarrow> bool" where
  "IsValidFilteredTypeIds B ids =
     (list_all (\<lambda>t. \<not> (t < BM_DATA_TRANSFER B \<or> BM_END B < t)) ids \<and>
      \<not> (unat (BM_END B) < length ids))"

definition HandleTaskStart :: "bg_env \<Rightarrow> i32 \<Rightarrow> u32 list \<Rightarrow> bg_state \<Rightarrow> bg_state \<times> report list" where
  "HandleTaskStart B pid ids b =
     (if \<not> IsValidPid pid \<or> \<not> IsValidFilteredTypeIds B ids then (b, [])
      else
        (let b1 = b\<lparr>perceivableTasks := om_put pid ids (perceivableTasks b)\<rparr> in
         if CheckEnterScene b1 then EnterScene b1 else (b1, [])))"

definition HandleTaskUpdate :: "i32 \<Rightarrow> u32 list \<Rightarrow> bg_state \<Rightarrow> bg_state \<times> report list" where
  "HandleTaskUpdate pid ids b =
     (if ids = [] then
        (let b1 = (if map_of (perceivableTasks b) pid \<noteq> None
                   then b\<lparr>perceivableTasks := om_del pid (perceivableTasks b)\<rparr> else b) in
         if \<not> CheckEnterScene b1 \<and> isInBackgroundPerceivableScene b1 then ExitScene b1 else (b1, []))
      else
        (let b1 = b\<lparr>perceivableTasks := om_put pid ids (perceivableTasks b)\<rparr> in
         if CheckEnterScene b1 then EnterScene b1 else (b1, [])))"

definition HandleTaskStop :: "i32 \<Rightarrow> bg_state \<Rightarrow> bg_state \<times> report list" where
  "HandleTaskStop pid b =
     (if map_of (perceivableTasks b) pid \<noteq> None then
        (let b1 = b\<lparr>perceivableTasks := om_del pid (perceivableTasks b)\<rparr> in
         if \<not> CheckEnterScene b1 \<and> isInBackgroundPerceivableScene b1 then ExitScene b1 else (b1, []))
      else (b, []))"

definition bg_HandleForeground :: "bg_env \<Rightarrow> i64 \<Rightarrow> string \<Rightarrow> bg_state \<Rightarrow> bg_state \<times> report list" where
  "bg_HandleForeground B value pid b =
     (if value \<noteq> PROCESS_FOREGROUND then (b, [])
      else
        (let b1 = (case bg_StrToInt B pid of None \<Rightarrow> b | Some p \<Rightarrow> b\<lparr>foregroundPid := p\<rparr>) in
         if foregroundPid b1 = sceneboardPid b1 \<and> isInBackgroundPerceivableScene b1 then ExitScene b1
         else if CheckEnterScene b1 then EnterScene b1 else (b1, [])))"

text \<open>
  \<open>payload.value(...)\<close> converts an array to numbers; an item that is no number or boolean
  makes it throw, which nothing catches (\<open>None\<close>).
\<close>

fun u32_items :: "(nat \<Rightarrow> u32) \<Rightarrow> nat \<Rightarrow> json list \<Rightarrow> u32 list option" where
  "u32_items fl n [] = Some []"
| "u32_items fl n (j # l) =
     (case (case j of JInt i \<Rightarrow> Some (of_int i) | JUint k \<Rightarrow> Some (of_nat k)
             | JBool b \<Rightarrow> Some (if b then 1 else 0) | JFloat \<Rightarrow> Some (fl n) | _ \<Rightarrow> None) of
        None \<Rightarrow> None
      | Some v \<Rightarrow> map_option (\<lambda>vs. v # vs) (u32_items fl (n + 1) l))"

definition bg_typeIds :: "bg_env \<Rightarrow> json \<Rightarrow> u32 list option" where
  "bg_typeIds B payload =
     map_option (filter (\<lambda>t. t \<in> set (PERCEIVABLE_MODES B)))
       (case member ''typeIds'' payload of Some (JArr l) \<Rightarrow> u32_items (bg_float B) 0 l | _ \<Rightarrow> Some [])"

definition bg_HandleContinuousTask ::
    "bg_env \<Rightarrow> i64 \<Rightarrow> string \<Rightarrow> json \<Rightarrow> bg_state \<Rightarrow> (bg_state \<times> report list) option" where
  "bg_HandleContinuousTask B value pidStr payload b =
     (let pid = (case bg_StrToInt B pidStr of None \<Rightarrow> - 1 | Some p \<Rightarrow> p) in
      map_option (\<lambda>ids.
        if value = CONTINUOUS_TASK_START \<and> ids \<noteq> [] then HandleTaskStart B pid ids b
        else if value = CONTINUOUS_TASK_UPDATE then HandleTaskUpdate pid ids b
        else if value = CONTINUOUS_TASK_END then HandleTaskStop pid b
        else (b, [])) (bg_typeIds B payload))"

definition bg_OnDispatchResource ::
    "bg_env \<Rightarrow> u32 \<Rightarrow> i64 \<Rightarrow> json \<Rightarrow> bg_state \<Rightarrow> (bg_state \<times> report list) option" where
  "bg_OnDispatchResource B resType value payload b =
     (case member ''pid'' payload of
        Some (JStr pid) \<Rightarrow>
          if resType = RES_TYPE_APP_STATE_CHANGE then Some (bg_HandleForeground B value pid b)
          else if resType = RES_TYPE_CONTINUOUS_TASK then bg_HandleContinuousTask B value pid payload b
          else if resType = RES_TYPE_REPORT_SCENE_BOARD then
            Some (case bg_StrToInt B pid of None \<Rightarrow> b | Some p \<Rightarrow> b\<lparr>sceneboardPid := p\<rparr>, [])
          else Some (b, [])
      | _ \<Rightarrow> Some (b, []))"

section \<open>continuous\_app\_install\_recognizer.cpp\<close>

record install_state =
  exitAppInstall :: "nat option"
  isInContinuousInstall :: bool
  in_pending :: "nat list"
  in_next :: nat

definition EXIT_INSTALL_DELAY_TIME :: i64 where "EXIT_INSTALL_DELAY_TIME = 50 * 1000 * 1000"

definition install_new :: install_state where
  "install_new = \<lparr>exitAppInstall = None, isInContinuousInstall = False, in_pending = [], in_next = 0\<rparr>"

definition skip_exit :: "install_state \<Rightarrow> install_state" where
  "skip_exit s =
     (case exitAppInstall s of None \<Rightarrow> s | Some h \<Rightarrow> s\<lparr>in_pending := removeAll h (in_pending s)\<rparr>)"

definition in_OnDispatchResource :: "u32 \<Rightarrow> i64 \<Rightarrow> install_state \<Rightarrow> install_state \<times> report list" where
  "in_OnDispatchResource resType value s =
     (if resType \<noteq> RES_TYPE_APP_INSTALL_UNINSTALL then (s, [])
      else if value = APP_INSTALL_START then
        (let s1 = skip_exit s in
         if \<not> isInContinuousInstall s1
         then (s1\<lparr>isInContinuousInstall := True\<rparr>, [(RES_TYPE_CONTINUOUS_INSTALL, START_CONTINUOUS_INSTALL, JNull)])
         else (s1, []))
      else if value = APP_INSTALL_END \<or> value = APP_CHANGED then
        (let s1 = skip_exit s in
         (s1\<lparr>exitAppInstall := Some (in_next s1), in_pending := in_pending s1 @ [in_next s1],
             in_next := in_next s1 + 1\<rparr>, []))
      else (s, []))"

definition exit_install_fires :: "nat \<Rightarrow> install_state \<Rightarrow> install_state \<times> report list" where
  "exit_install_fires h s =
     (s\<lparr>in_pending := removeAll h (in_pending s), isInContinuousInstall := False\<rparr>,
      [(RES_TYPE_CONTINUOUS_INSTALL, STOP_CONTINUOUS_INSTALL, JNull)])"

section \<open>system\_upgrade\_scene\_recognizer.cpp\<close>

definition FINGERPRINTS :: "string list" where
  "FINGERPRINTS =
     [''const.product.software.version'', ''const.product.build.type'', ''const.product.brand'',
      ''const.product.name'', ''const.product.incremental.version'',
      ''const.comp.hl.product_base_version.real'']"

definition GetCurSystemFingerprint :: "(string \<Rightarrow> string) \<Rightarrow> string" where
  "GetCurSystemFingerprint GetParameter =
     fold (\<lambda>item acc. if GetParameter item = [] then acc
        else (if acc \<noteq> [] then acc @ ''|'' else acc) @ GetParameter item) FINGERPRINTS []"

text \<open>The old fingerprint in the file, empty if there is none; the result and the new file.\<close>

definition up_Init :: "(string \<Rightarrow> string) \<Rightarrow> string \<Rightarrow> bool \<times> string" where
  "up_Init GetParameter old =
     (let cur = GetCurSystemFingerprint GetParameter;
          isSystemUpgraded = (old = [] \<or> old \<noteq> cur)
      in (isSystemUpgraded, if isSystemUpgraded then cur else old))"

definition up_OnDispatchResource :: "bool \<Rightarrow> u32 \<Rightarrow> report list" where
  "up_OnDispatchResource isSystemUpgraded resType =
     (if resType \<noteq> RES_TYPE_BOOT_COMPLETED then []
      else if isSystemUpgraded then [(RES_TYPE_FIRST_BOOT_AFTER_SYSTEM_UPGRADE, 0, JNull)] else [])"

section \<open>scene\_recognizer\_base.cpp and scene\_recognizer\_mgr.cpp\<close>

datatype recognizer =
    CONTINUOUS_APP_INSTALL_RECOGNIZER
  | SYSTEM_UPGRADE_SCENE_RECOGNIZER
  | BACKGROUND_SENSITIVE_TASK_OVERLAPPING_SCENE_RECOGNIZER
  | SLIDE_RECOGNIZER

definition INSTALL_ACCEPT_TYPES :: "u32 list" where
  "INSTALL_ACCEPT_TYPES = [RES_TYPE_APP_INSTALL_UNINSTALL]"
definition UPGRADE_ACCEPT_TYPES :: "u32 list" where
  "UPGRADE_ACCEPT_TYPES = [RES_TYPE_BOOT_COMPLETED]"
definition BG_ACCEPT_TYPES :: "u32 list" where
  "BG_ACCEPT_TYPES = [RES_TYPE_APP_STATE_CHANGE, RES_TYPE_CONTINUOUS_TASK, RES_TYPE_REPORT_SCENE_BOARD]"

definition sceneRecognizers :: "(recognizer \<times> u32 list) list" where
  "sceneRecognizers =
     [(CONTINUOUS_APP_INSTALL_RECOGNIZER, INSTALL_ACCEPT_TYPES),
      (SYSTEM_UPGRADE_SCENE_RECOGNIZER, UPGRADE_ACCEPT_TYPES),
      (BACKGROUND_SENSITIVE_TASK_OVERLAPPING_SCENE_RECOGNIZER, BG_ACCEPT_TYPES),
      (SLIDE_RECOGNIZER, SLIDE_PROXY_ACCEPT_TYPES)]"

definition Accept :: "u32 list \<Rightarrow> u32 \<Rightarrow> bool" where
  "Accept acceptRes resType = (resType \<in> set acceptRes)"

datatype scene_task =
    Recognize recognizer u32 i64 json
  | RunSlide slide_task

record scene_state =
  sc_slide :: slide_state
  sc_bg :: bg_state
  sc_install :: install_state
  sc_upgraded :: bool
  sc_queue :: "scene_task list"
  sc_reports :: "report list"
  sc_draws :: "(i64 \<times> json) list"

record scene_env =
  sce_slide :: slide_env
  sce_bg :: bg_env

definition scene_new :: "(string \<Rightarrow> string) \<Rightarrow> string \<Rightarrow> scene_state" where
  "scene_new GetParameter old =
     \<lparr>sc_slide = slide_new, sc_bg = bg_new, sc_install = install_new,
      sc_upgraded = fst (up_Init GetParameter old), sc_queue = [], sc_reports = [], sc_draws = []\<rparr>"

definition tasks_for :: "u32 \<Rightarrow> i64 \<Rightarrow> json \<Rightarrow> scene_task list" where
  "tasks_for resType value payload =
     map (\<lambda>(k, acceptRes). Recognize k resType value payload)
       (filter (\<lambda>(k, acceptRes). Accept acceptRes resType) sceneRecognizers)"

definition sm_DispatchResource :: "u32 \<Rightarrow> i64 \<Rightarrow> json \<Rightarrow> scene_state \<Rightarrow> scene_state" where
  "sm_DispatchResource resType value payload st =
     st\<lparr>sc_queue := sc_queue st @ tasks_for resType value payload\<rparr>"

definition sm_SubmitTask :: "slide_task \<Rightarrow> scene_state \<Rightarrow> scene_state" where
  "sm_SubmitTask task st = st\<lparr>sc_queue := sc_queue st @ [RunSlide task]\<rparr>"

text \<open>What a recognizer reports reaches the plugins and, as a new event, this manager.\<close>

definition sm_report :: "report \<Rightarrow> scene_state \<Rightarrow> scene_state" where
  "sm_report rep st =
     (case rep of (resType, value, payload) \<Rightarrow>
        sm_DispatchResource resType value payload (st\<lparr>sc_reports := sc_reports st @ [rep]\<rparr>))"

fun sm_out :: "slide_out \<Rightarrow> scene_state \<Rightarrow> scene_state" where
  "sm_out (Report resType value payload) st = sm_report (resType, value, payload) st"
| "sm_out (DrawEvent value extInfo) st = st\<lparr>sc_draws := sc_draws st @ [(value, extInfo)]\<rparr>"
| "sm_out (SubmitTask task) st = sm_SubmitTask task st"

text \<open>An operation of the slide recognizers, whose outputs the manager then carries out.\<close>

definition quiet :: "slide_state \<Rightarrow> slide_state" where "quiet s = s\<lparr>sl_outs := []\<rparr>"

definition sm_slide :: "slide_state \<Rightarrow> scene_state \<Rightarrow> scene_state" where
  "sm_slide s st = fold sm_out (sl_outs s) (st\<lparr>sc_slide := s\<rparr>)"

definition run_slide_task :: "slide_env \<Rightarrow> slide_task \<Rightarrow> slide_state \<Rightarrow> slide_state" where
  "run_slide_task E task s = (case task of StartDetectingOf self payload \<Rightarrow> StartDetecting E self payload s)"

definition run_task :: "scene_env \<Rightarrow> scene_task \<Rightarrow> scene_state \<Rightarrow> scene_state option" where
  "run_task E task st =
     (case task of
        RunSlide t \<Rightarrow> Some (sm_slide (run_slide_task (sce_slide E) t (quiet (sc_slide st))) st)
      | Recognize k resType value payload \<Rightarrow>
          (case k of
             CONTINUOUS_APP_INSTALL_RECOGNIZER \<Rightarrow>
               (case in_OnDispatchResource resType value (sc_install st) of (s, reps) \<Rightarrow>
                  Some (fold sm_report reps (st\<lparr>sc_install := s\<rparr>)))
           | SYSTEM_UPGRADE_SCENE_RECOGNIZER \<Rightarrow>
               Some (fold sm_report (up_OnDispatchResource (sc_upgraded st) resType) st)
           | BACKGROUND_SENSITIVE_TASK_OVERLAPPING_SCENE_RECOGNIZER \<Rightarrow>
               map_option (\<lambda>(b, reps). fold sm_report reps (st\<lparr>sc_bg := b\<rparr>))
                 (bg_OnDispatchResource (sce_bg E) resType value payload (sc_bg st))
           | SLIDE_RECOGNIZER \<Rightarrow>
               map_option (\<lambda>s. sm_slide s st)
                 (px_OnDispatchResource (sce_slide E) resType value payload (quiet (sc_slide st)))))"

definition sm_timer :: "slide_timer \<Rightarrow> scene_state \<Rightarrow> scene_state" where
  "sm_timer t st = sm_slide (timer_fires t (quiet (sc_slide st))) st"

definition sm_exit_install :: "nat \<Rightarrow> scene_state \<Rightarrow> scene_state" where
  "sm_exit_install h st =
     (case exit_install_fires h (sc_install st) of (s, reps) \<Rightarrow> fold sm_report reps (st\<lparr>sc_install := s\<rparr>))"

definition sm_SetListFlingTimeoutTime :: "i64 \<Rightarrow> scene_state \<Rightarrow> scene_state" where
  "sm_SetListFlingTimeoutTime value st = st\<lparr>sc_slide := SetListFlingTimeoutTime value (sc_slide st)\<rparr>"
definition sm_SetListFlingEndTime :: "i64 \<Rightarrow> scene_state \<Rightarrow> scene_state" where
  "sm_SetListFlingEndTime value st = st\<lparr>sc_slide := SetListFlingEndTime value (sc_slide st)\<rparr>"
definition sm_SetListFlingSpeedLimit :: "i32 \<Rightarrow> scene_state \<Rightarrow> scene_state" where
  "sm_SetListFlingSpeedLimit value st = st\<lparr>sc_slide := SetListFlingSpeedLimit value (sc_slide st)\<rparr>"

text \<open>
  The worker of the queue: it runs the first task until none is left.  Every report a task
  makes queues work of smaller weight, so it ends (\<open>drain\<close> below in \<open>Scene_Facts\<close>).
\<close>

fun task_weight :: "scene_task \<Rightarrow> nat" where
  "task_weight (RunSlide t) = 1"
| "task_weight (Recognize k resType value payload) =
     (if k = SLIDE_RECOGNIZER \<and> resType = RES_TYPE_SLIDE_RECOGNIZE
        then (if value = SLIDE_EVENT_DETECTING then 2 else 1)
      else if k = SLIDE_RECOGNIZER \<and> resType = RES_TYPE_SEND_FRAME_EVENT then 2
      else if k = SLIDE_RECOGNIZER then 3
      else 1)"

definition queue_weight :: "scene_state \<Rightarrow> nat" where
  "queue_weight st = sum_list (map task_weight (sc_queue st))"

end
