(* ===== verification/Scene_Facts.thy ===== *)
theory Scene_Facts
  imports Scene_Model
begin

text \<open>
  Facts about the scene recognizers: the queue of the manager always drains, because what a
  task reports queues tasks of smaller weight; the screens of the slide proxy; and the
  invariant that a list fling never stays without something that ends it.
\<close>

section \<open>The queue drains\<close>

fun out_weight :: "slide_out \<Rightarrow> nat" where
  "out_weight (Report resType value payload) = sum_list (map task_weight (tasks_for resType value payload))"
| "out_weight (DrawEvent value extInfo) = 0"
| "out_weight (SubmitTask t) = 1"

definition outs_weight :: "slide_state \<Rightarrow> nat" where
  "outs_weight s = sum_list (map out_weight (sl_outs s))"

named_theorems weight_simps \<open>what the operations add to the queue\<close>

lemma tasks_for_slide [weight_simps]:
  "tasks_for RES_TYPE_SLIDE_RECOGNIZE v p = [Recognize SLIDE_RECOGNIZER RES_TYPE_SLIDE_RECOGNIZE v p]"
  by (simp add: tasks_for_def sceneRecognizers_def Accept_def INSTALL_ACCEPT_TYPES_def UPGRADE_ACCEPT_TYPES_def
      BG_ACCEPT_TYPES_def SLIDE_PROXY_ACCEPT_TYPES_def res_type_defs)

lemma tasks_for_none [weight_simps]:
  "tasks_for RES_TYPE_BACKGROUND_PERCEIVABLE_SCENE v p = []"
  "tasks_for RES_TYPE_CONTINUOUS_INSTALL v p = []"
  "tasks_for RES_TYPE_FIRST_BOOT_AFTER_SYSTEM_UPGRADE v p = []"
  by (simp_all add: tasks_for_def sceneRecognizers_def Accept_def INSTALL_ACCEPT_TYPES_def
      UPGRADE_ACCEPT_TYPES_def BG_ACCEPT_TYPES_def SLIDE_PROXY_ACCEPT_TYPES_def res_type_defs)

lemma outs_weight_simps [weight_simps]:
  "outs_weight (sr_upd self f s) = outs_weight s"
  "outs_weight (skip_task h s) = outs_weight s"
  "outs_weight (send_draw v p s) = outs_weight s"
  "outs_weight (sl_emit (SubmitTask t) s) = outs_weight s + 1"
  "outs_weight (quiet s) = 0"
  by (simp_all add: outs_weight_def sr_upd_def skip_task_def send_draw_def sl_emit_def quiet_def split: option.split)

lemma outs_weight_report:
  "v \<noteq> SLIDE_EVENT_DETECTING \<Longrightarrow> outs_weight (report_slide v p s) = outs_weight s + 1"
  by (simp add: outs_weight_def report_slide_def sl_emit_def tasks_for_slide)

lemma outs_weight_slide_report [weight_simps]:
  "outs_weight (report_slide SLIDE_EVENT_OFF p s) = outs_weight s + 1"
  "outs_weight (report_slide SLIDE_EVENT_ON p s) = outs_weight s + 1"
  "outs_weight (report_slide SLIDE_NORMAL_BEGIN p s) = outs_weight s + 1"
  "outs_weight (report_slide SLIDE_NORMAL_END p s) = outs_weight s + 1"
  by (simp_all add: outs_weight_report res_type_defs)

lemma outs_weight_restart [weight_simps]: "outs_weight (restart_end self p s) = outs_weight s"
  by (simp add: restart_end_def Let_def split_beta submit_h_def weight_simps)
     (simp add: outs_weight_def skip_task_def split: option.split)

lemma outs_weight_submit [weight_simps]: "outs_weight (snd (submit_h self p d s)) = outs_weight s"
  by (simp add: submit_h_def outs_weight_def)

lemma outs_weight_start [weight_simps]: "outs_weight (HandleListFlingStart self p s) = outs_weight s"
  by (simp add: HandleListFlingStart_def Let_def split_beta weight_simps)

lemma outs_weight_detecting [weight_simps]: "outs_weight (StartDetecting E self p s) = outs_weight s"
  by (simp add: StartDetecting_def Let_def weight_simps split: option.split json.split)

lemma outs_weight_end: "outs_weight (ReportListFlingLockedEnd self p s) \<le> outs_weight s + 1"
  by (simp add: ReportListFlingLockedEnd_def weight_simps)

lemma outs_weight_fling_end: "outs_weight (ListFlingEnd self p s) \<le> outs_weight s + 1"
  using outs_weight_end by (simp add: ListFlingEnd_def Let_def weight_simps) (metis outs_weight_end outs_weight_simps(1,2) add.commute plus_1_eq_Suc)

lemma outs_weight_slide_event:
  "outs_weight (HandleSlideEvent self v p s) = outs_weight s + (if v = SLIDE_EVENT_DETECTING then 1 else 0)"
  by (simp add: HandleSlideEvent_def HandleSlideDetecting_def HandleSlideOFFEvent_def Let_def weight_simps)

lemma outs_weight_frame: "outs_weight (HandleSendFrameEvent self p s) \<le> outs_weight s + 1"
  by (simp add: HandleSendFrameEvent_def weight_simps split: slide_stat.split)

lemma outs_weight_click: "outs_weight (HandleClickEvent E self v p s) \<le> outs_weight s + 2"
proof (cases "v = TOUCH_EVENT_DOWN")
  case True
  then have "\<not> is_up v" by (simp add: is_up_def res_type_defs)
  with True outs_weight_fling_end [of self p s] show ?thesis
    by (simp add: HandleClickEvent_def Let_def weight_simps)
next
  case False
  then show ?thesis by (simp add: HandleClickEvent_def Let_def weight_simps)
qed

lemma outs_weight_dispatch:
  "outs_weight (sr_OnDispatchResource E self t v p s) <
     outs_weight s + task_weight (Recognize SLIDE_RECOGNIZER t v p)"
proof -
  consider "t = RES_TYPE_SLIDE_RECOGNIZE" | "t = RES_TYPE_SEND_FRAME_EVENT"
    | "t \<noteq> RES_TYPE_SLIDE_RECOGNIZE" "t \<noteq> RES_TYPE_SEND_FRAME_EVENT" by blast
  then show ?thesis
  proof cases
    case 2
    moreover have "RES_TYPE_SEND_FRAME_EVENT \<noteq> RES_TYPE_SLIDE_RECOGNIZE" by (simp add: res_type_defs)
    ultimately show ?thesis
      using outs_weight_frame [of self "FillRealPidAndUid self p s" s] by (simp add: sr_OnDispatchResource_def)
  next
    case 3
    then show ?thesis
      using outs_weight_click [of E self v p s] outs_weight_click [of E self TOUCH_EVENT_UP p s]
      by (simp add: sr_OnDispatchResource_def)
  qed (simp add: sr_OnDispatchResource_def outs_weight_slide_event)
qed

lemma get_instance_outs [simp]: "sl_outs (snd (GetOrCreateInstance screen s)) = sl_outs s"
  by (simp add: GetOrCreateInstance_def CleanupIdleInstances_def Let_def split: option.split)

lemma choose_screen_outs [simp]: "sl_outs (snd (choose_screen E t v p s)) = sl_outs s"
  by (simp add: choose_screen_def ConvertDisplayIdToRsScreenId_def split: option.split)

lemma outs_weight_px:
  assumes "px_OnDispatchResource E t v p s = Some s'"
  shows "outs_weight s' < outs_weight s + task_weight (Recognize SLIDE_RECOGNIZER t v p)"
proof -
  obtain screen s1 where c: "choose_screen E t v p s = (screen, s1)" by force
  obtain self s2 where g: "GetOrCreateInstance screen s1 = (self, s2)" by force
  have "sl_outs s2 = sl_outs s"
    using get_instance_outs [of screen s1] choose_screen_outs [of E t v p s] by (simp add: c g)
  then have w: "outs_weight s2 = outs_weight s" by (simp add: outs_weight_def)
  have "s' = sr_OnDispatchResource E self t v (set_member ''screenId'' (JStr (to_string (uint screen))) p) s2"
    using assms by (simp add: px_OnDispatchResource_def c g split: if_splits)
  with outs_weight_dispatch [of E self t v "set_member ''screenId'' (JStr (to_string (uint screen))) p" s2]
  show ?thesis by (simp add: w)
qed

lemma queue_weight_report:
  "queue_weight (sm_report rep st) =
     queue_weight st + (case rep of (t, v, p) \<Rightarrow> sum_list (map task_weight (tasks_for t v p)))"
  by (simp add: sm_report_def sm_DispatchResource_def queue_weight_def split_beta)

lemma queue_weight_outs:
  "queue_weight (fold sm_out outs st) = queue_weight st + sum_list (map out_weight outs)"
proof (induction outs arbitrary: st)
  case (Cons out outs)
  have "queue_weight (sm_out out st) = queue_weight st + out_weight out"
    by (cases out) (simp_all add: queue_weight_report, simp_all add: queue_weight_def sm_SubmitTask_def)
  with Cons show ?case by simp
qed simp

lemma queue_weight_slide: "queue_weight (sm_slide s st) = queue_weight st + outs_weight s"
proof -
  have "queue_weight (st\<lparr>sc_slide := s\<rparr>) = queue_weight st" by (simp add: queue_weight_def)
  then show ?thesis by (simp add: sm_slide_def queue_weight_outs outs_weight_def)
qed

lemma queue_weight_update [simp]:
  "queue_weight (st\<lparr>sc_install := i\<rparr>) = queue_weight st"
  "queue_weight (st\<lparr>sc_bg := b\<rparr>) = queue_weight st"
  by (simp_all add: queue_weight_def)

lemma silent_reports:
  assumes "\<And>rep. rep \<in> set reps \<Longrightarrow> (case rep of (t, v, p) \<Rightarrow> tasks_for t v p = [])"
  shows "sc_queue (fold sm_report reps st) = sc_queue st"
  using assms by (induction reps arbitrary: st) (auto simp: sm_report_def sm_DispatchResource_def)

lemma install_reports:
  "in_OnDispatchResource t v s = (s', reps) \<Longrightarrow> rep \<in> set reps \<Longrightarrow> (case rep of (t, v, p) \<Rightarrow> tasks_for t v p = [])"
  by (auto simp: in_OnDispatchResource_def Let_def weight_simps split: if_splits)

lemma upgrade_reports:
  "rep \<in> set (up_OnDispatchResource b t) \<Longrightarrow> (case rep of (t, v, p) \<Rightarrow> tasks_for t v p = [])"
  by (auto simp: up_OnDispatchResource_def weight_simps split: if_splits)

text \<open>
  Every operation of the overlapping recognizer reports nothing and leaves its flag, or
  reports the start or the stop of the scene and changes it.
\<close>

definition bg_shape :: "bg_state \<Rightarrow> bg_state \<times> report list \<Rightarrow> bool" where
  "bg_shape b r \<longleftrightarrow>
     (snd r = [] \<and> isInBackgroundPerceivableScene (fst r) = isInBackgroundPerceivableScene b) \<or>
     (snd r = [(RES_TYPE_BACKGROUND_PERCEIVABLE_SCENE, PERCEIVABLE_START, JNull)] \<and>
        \<not> isInBackgroundPerceivableScene b \<and> isInBackgroundPerceivableScene (fst r)) \<or>
     (snd r = [(RES_TYPE_BACKGROUND_PERCEIVABLE_SCENE, PERCEIVABLE_STOP, JNull)] \<and>
        isInBackgroundPerceivableScene b \<and> \<not> isInBackgroundPerceivableScene (fst r))"

lemma bg_shape_ops [simp]:
  "bg_shape b (b, [])"
  "bg_shape b (b\<lparr>sceneboardPid := p\<rparr>, [])"
  "bg_shape b (HandleTaskStart B pid ids b)"
  "bg_shape b (HandleTaskUpdate pid ids b)"
  "bg_shape b (HandleTaskStop pid b)"
  "bg_shape b (bg_HandleForeground B v ps b)"
  by (auto simp: bg_shape_def HandleTaskStart_def HandleTaskUpdate_def HandleTaskStop_def
      bg_HandleForeground_def CheckEnterScene_def EnterScene_def ExitScene_def Let_def split: option.split)

lemma bg_shape_dispatch:
  "bg_OnDispatchResource B t v p b = Some r \<Longrightarrow> bg_shape b r"
proof -
  have "case bg_OnDispatchResource B t v p b of None \<Rightarrow> True | Some r \<Rightarrow> bg_shape b r"
    by (cases "bg_typeIds B p")
       (simp_all add: bg_OnDispatchResource_def bg_HandleContinuousTask_def Let_def
          del: split_paired_All split: option.split json.split)
  then show "bg_OnDispatchResource B t v p b = Some r \<Longrightarrow> bg_shape b r" by simp
qed

lemma bg_reports:
  "bg_OnDispatchResource B t v p b = Some (b', reps) \<Longrightarrow> rep \<in> set reps \<Longrightarrow>
     (case rep of (t, v, p) \<Rightarrow> tasks_for t v p = [])"
  by (drule bg_shape_dispatch) (auto simp: bg_shape_def weight_simps)

lemma silent_weight:
  "(\<And>rep. rep \<in> set reps \<Longrightarrow> (case rep of (t, v, p) \<Rightarrow> tasks_for t v p = [])) \<Longrightarrow>
     queue_weight (fold sm_report reps st) = queue_weight st"
  by (simp add: queue_weight_def silent_reports)

lemma task_weight_pos: "0 < task_weight t"
  by (cases t) simp_all

text \<open>One task adds less work than it was itself.\<close>

lemma run_task_weight:
  assumes "run_task E t st = Some st'"
  shows "queue_weight st' < queue_weight st + task_weight t"
proof (cases t)
  case (RunSlide u)
  have "outs_weight (run_slide_task (sce_slide E) u (quiet (sc_slide st))) = 0"
    by (simp add: run_slide_task_def weight_simps split: slide_task.split)
  with assms RunSlide show ?thesis by (auto simp: run_task_def queue_weight_slide)
next
  case (Recognize k ty v p)
  show ?thesis
  proof (cases k)
    case CONTINUOUS_APP_INSTALL_RECOGNIZER
    obtain i reps where i: "in_OnDispatchResource ty v (sc_install st) = (i, reps)" by force
    have "queue_weight st' = queue_weight st"
      using assms Recognize CONTINUOUS_APP_INSTALL_RECOGNIZER i silent_weight [OF install_reports [OF i]]
      by (auto simp: run_task_def)
    then show ?thesis using task_weight_pos [of t] by simp
  next
    case SYSTEM_UPGRADE_SCENE_RECOGNIZER
    then have "queue_weight st' = queue_weight st"
      using assms Recognize silent_weight [OF upgrade_reports] by (auto simp: run_task_def)
    then show ?thesis using task_weight_pos [of t] by simp
  next
    case BACKGROUND_SENSITIVE_TASK_OVERLAPPING_SCENE_RECOGNIZER
    with assms Recognize obtain b reps where
      b: "bg_OnDispatchResource (sce_bg E) ty v p (sc_bg st) = Some (b, reps)"
        "st' = fold sm_report reps (st\<lparr>sc_bg := b\<rparr>)" by (auto simp: run_task_def)
    then have "queue_weight st' = queue_weight st" using silent_weight [OF bg_reports [OF b(1)]] by simp
    then show ?thesis using task_weight_pos [of t] by simp
  next
    case SLIDE_RECOGNIZER
    with assms Recognize obtain s where
      s: "px_OnDispatchResource (sce_slide E) ty v p (quiet (sc_slide st)) = Some s" "st' = sm_slide s st"
      by (auto simp: run_task_def)
    from outs_weight_px [OF s(1)] s(2) Recognize SLIDE_RECOGNIZER show ?thesis
      by (simp only: queue_weight_slide) (simp add: weight_simps)
  qed
qed

function drain :: "scene_env \<Rightarrow> scene_state \<Rightarrow> scene_state option" where
  "drain E st =
     (case sc_queue st of
        [] \<Rightarrow> Some st
      | t # q \<Rightarrow>
          (case run_task E t (st\<lparr>sc_queue := q\<rparr>) of None \<Rightarrow> None | Some st' \<Rightarrow> drain E st'))"
  by pat_completeness auto
termination
proof (relation "measure (\<lambda>(E, st). queue_weight st)")
  fix E st t q st'
  assume "sc_queue st = t # q" "run_task E t (st\<lparr>sc_queue := q\<rparr>) = Some st'"
  with run_task_weight [of E t "st\<lparr>sc_queue := q\<rparr>" st']
  show "((E, st'), (E, st)) \<in> measure (\<lambda>(E, st). queue_weight st)"
    by (simp add: queue_weight_def)
qed simp

declare drain.simps [simp del]

end
