(* ===== verification/Slide_Facts.thy ===== *)
theory Slide_Facts
  imports Scene_Facts
begin

text \<open>
  The invariant of the slide recognizers: handles are fresh and belong to one recognizer, an
  operation on one recognizer leaves the others and their delayed tasks alone, and a
  recognizer in a list fling has a delayed task that ends it or a start event that will
  create one.
\<close>

section \<open>Reading and writing one recognizer\<close>

named_theorems slide_simps \<open>what the operations leave of the state\<close>

lemma sr_at_upd [slide_simps]: "sr_at k (sr_upd self f s) = (if k = self then f (sr_at self s) else sr_at k s)"
  by (simp add: sr_at_def sr_upd_def)

lemma sr_at_same: "sl_heap s' = sl_heap s \<Longrightarrow> sr_at k s' = sr_at k s"
  by (simp add: sr_at_def)

lemma frame_simps [slide_simps]:
  "sl_heap (sl_emit out s) = sl_heap s" "sl_timers (sl_emit out s) = sl_timers s"
  "sl_instances (sl_emit out s) = sl_instances s" "sl_next (sl_emit out s) = sl_next s"
  "sl_heap (skip_task h s) = sl_heap s" "sl_instances (skip_task h s) = sl_instances s"
  "sl_next (skip_task h s) = sl_next s" "sl_outs (skip_task h s) = sl_outs s"
  "sl_timers (sr_upd self f s) = sl_timers s" "sl_instances (sr_upd self f s) = sl_instances s"
  "sl_next (sr_upd self f s) = sl_next s" "sl_outs (sr_upd self f s) = sl_outs s"
  "sl_outs (sl_emit out s) = sl_outs s @ [out]"
  "sr_at k (sl_emit out s) = sr_at k s" "sr_at k (skip_task h s) = sr_at k s"
  by (simp_all add: sl_emit_def skip_task_def sr_upd_def sr_at_def split: option.split)

lemma skip_timers [slide_simps]:
  "t \<in> set (sl_timers (skip_task h s)) \<longleftrightarrow> t \<in> set (sl_timers s) \<and> h \<noteq> Some (tm_handle t)"
  by (auto simp: skip_task_def split: option.split)

section \<open>The invariant\<close>

definition owns :: "slide_recognizer \<Rightarrow> nat \<Rightarrow> bool" where
  "owns r h \<longleftrightarrow> listFlingEndTask r = Some h \<or> listFlingTimeOutTask r = Some h"

definition fresh_handles :: "slide_state \<Rightarrow> bool" where
  "fresh_handles s \<longleftrightarrow> (\<forall>t \<in> set (sl_timers s). tm_handle t < sl_next s) \<and>
     (\<forall>k h. owns (sr_at k s) h \<longrightarrow> h < sl_next s)"

definition own_handles :: "slide_state \<Rightarrow> bool" where
  "own_handles s \<longleftrightarrow> (\<forall>k. \<forall>t \<in> set (sl_timers s). owns (sr_at k s) (tm_handle t) \<longrightarrow> tm_self t = k)"

definition one_owner :: "slide_state \<Rightarrow> bool" where
  "one_owner s \<longleftrightarrow> (\<forall>t \<in> set (sl_timers s). \<forall>u \<in> set (sl_timers s). tm_handle t = tm_handle u \<longrightarrow> tm_self t = tm_self u)"

definition screens_ok :: "slide_state \<Rightarrow> bool" where
  "screens_ok s \<longleftrightarrow> (\<forall>k \<in> snd ` set (sl_instances s). k < sl_next s) \<and>
     distinct (map snd (sl_instances s)) \<and> om_ok (sl_instances s)"

definition slide_ok :: "slide_state \<Rightarrow> bool" where
  "slide_ok s \<longleftrightarrow> fresh_handles s \<and> own_handles s \<and> one_owner s \<and> screens_ok s"

text \<open>An operation on one recognizer.\<close>

definition others_timers :: "nat \<Rightarrow> slide_state \<Rightarrow> slide_timer set" where
  "others_timers self s = {t \<in> set (sl_timers s). tm_self t \<noteq> self}"

definition own_step :: "nat \<Rightarrow> slide_state \<Rightarrow> slide_state \<Rightarrow> bool" where
  "own_step self s s' \<longleftrightarrow>
     (slide_ok s \<longrightarrow> slide_ok s' \<and> others_timers self s' = others_timers self s) \<and>
     sl_next s \<le> sl_next s' \<and> sl_instances s' = sl_instances s \<and>
     (\<forall>k. k \<noteq> self \<longrightarrow> sr_at k s' = sr_at k s) \<and> set (sl_outs s) \<subseteq> set (sl_outs s')"

lemma own_step_refl: "own_step self s s"
  by (simp add: own_step_def)

lemma own_step_trans: "own_step self s s1 \<Longrightarrow> own_step self s1 s2 \<Longrightarrow> own_step self s s2"
  unfolding own_step_def by (cases "slide_ok s") auto

text \<open>Fewer delayed tasks and fewer owned handles keep the invariant.\<close>

lemma slide_ok_less:
  assumes "slide_ok s" "set (sl_timers s') \<subseteq> set (sl_timers s)" "sl_next s' = sl_next s"
    "sl_instances s' = sl_instances s" "\<And>k h. owns (sr_at k s') h \<Longrightarrow> owns (sr_at k s) h"
  shows "slide_ok s'"
  unfolding slide_ok_def
proof (intro conjI)
  show "fresh_handles s'" using assms unfolding slide_ok_def fresh_handles_def by (metis subsetD)
  show "own_handles s'" using assms unfolding slide_ok_def own_handles_def by blast
  show "one_owner s'" using assms unfolding slide_ok_def one_owner_def by blast
  show "screens_ok s'" using assms unfolding slide_ok_def screens_ok_def by simp
qed

lemma own_step_emit: "own_step self s (sl_emit out s)"
  unfolding own_step_def
proof (intro conjI impI)
  assume "slide_ok s"
  then show "slide_ok (sl_emit out s)" by (rule slide_ok_less) (simp_all add: slide_simps)
qed (auto simp: slide_simps others_timers_def)

lemma own_step_upd:
  assumes "\<And>h. owns (f (sr_at self s)) h \<Longrightarrow> owns (sr_at self s) h"
  shows "own_step self s (sr_upd self f s)"
  unfolding own_step_def
proof (intro conjI impI)
  assume "slide_ok s"
  then show "slide_ok (sr_upd self f s)"
    by (rule slide_ok_less) (simp_all add: slide_simps assms split: if_splits)
qed (auto simp: slide_simps others_timers_def)

lemma own_step_skip:
  assumes "\<And>h. handle = Some h \<Longrightarrow> owns (sr_at self s) h"
  shows "own_step self s (skip_task handle s)"
  unfolding own_step_def
proof (intro conjI impI)
  assume ok: "slide_ok s"
  then show "slide_ok (skip_task handle s)" by (rule slide_ok_less) (auto simp: slide_simps)
  from ok have "own_handles s" by (simp add: slide_ok_def)
  with assms show "others_timers self (skip_task handle s) = others_timers self s"
    unfolding own_handles_def others_timers_def by (auto simp: slide_simps)
qed (auto simp: slide_simps)

lemma own_step_submit:
  assumes "submit_h self p d s = (h, s1)" "\<And>r k. owns (g r) k \<Longrightarrow> owns r k \<or> k = h"
  shows "own_step self s (sr_upd self g s1)"
proof -
  let ?s' = "sr_upd self g s1"
  from assms(1) have s1: "h = sl_next s" "sl_next ?s' = sl_next s + 1" "sl_instances ?s' = sl_instances s"
    "sl_outs ?s' = sl_outs s" "sl_timers ?s' = sl_timers s @ [\<lparr>tm_handle = h, tm_self = self, tm_payload = p, tm_delay = d\<rparr>]"
    "\<And>k. sr_at k s1 = sr_at k s" by (auto simp: submit_h_def sr_at_def slide_simps)
  have own: "owns (sr_at k s) j \<or> j = h \<and> k = self" if "owns (sr_at k ?s') j" for k j
    using assms(2) [of "sr_at self s" j] that by (simp add: slide_simps s1(6) split: if_splits)
  have "slide_ok ?s'" if ok: "slide_ok s"
    unfolding slide_ok_def
  proof (intro conjI)
    have f: "fresh_handles s" using ok by (simp add: slide_ok_def)
    show "fresh_handles ?s'"
      unfolding fresh_handles_def
    proof (intro conjI ballI allI impI)
      fix t assume "t \<in> set (sl_timers ?s')"
      with f show "tm_handle t < sl_next ?s'" by (auto simp: s1(1,2,5) fresh_handles_def)
    next
      fix k j assume "owns (sr_at k ?s') j"
      from own [OF this] f show "j < sl_next ?s'" unfolding s1(1,2) fresh_handles_def by (metis less_Suc_eq Suc_eq_plus1)
    qed
    have new: "\<not> owns (sr_at k s) h" "t \<in> set (sl_timers s) \<Longrightarrow> tm_handle t \<noteq> h" for k t
      using f by (auto simp: fresh_handles_def s1(1))
    show "own_handles ?s'"
      unfolding own_handles_def
    proof (intro allI ballI impI)
      fix k t assume t: "t \<in> set (sl_timers ?s')" "owns (sr_at k ?s') (tm_handle t)"
      have o: "own_handles s" using ok by (simp add: slide_ok_def)
      from t(1) consider "t \<in> set (sl_timers s)" | "tm_handle t = h" "tm_self t = self" by (auto simp: s1(5))
      then show "tm_self t = k"
      proof cases
        case 1
        with own [OF t(2)] new(2) o show ?thesis unfolding own_handles_def by blast
      next
        case 2
        with own [OF t(2)] new(1) show ?thesis by auto
      qed
    qed
    have one: "one_owner s" using ok by (simp add: slide_ok_def)
    show "one_owner ?s'"
      unfolding one_owner_def
    proof (intro ballI impI)
      fix t u assume tu: "t \<in> set (sl_timers ?s')" "u \<in> set (sl_timers ?s')" "tm_handle t = tm_handle u"
      have old: "t' \<in> set (sl_timers s) \<or> tm_handle t' = h \<and> tm_self t' = self" if "t' \<in> set (sl_timers ?s')" for t'
        using that by (auto simp: s1(5))
      from old [OF tu(1)] old [OF tu(2)] tu(3) new(2) one show "tm_self t = tm_self u"
        unfolding one_owner_def by metis
    qed
    show "screens_ok ?s'" using ok unfolding slide_ok_def screens_ok_def s1(2,3) by (auto simp: less_Suc_eq)
  qed
  moreover have "others_timers self ?s' = others_timers self s"
    by (auto simp: others_timers_def s1(5))
  ultimately show ?thesis using s1(1-4,6) by (auto simp: own_step_def slide_simps)
qed

section \<open>The operations of a recognizer\<close>

text \<open>One rule for each way an operation is built from smaller ones.\<close>

lemma own_then_emit:
  "own_step self s t \<Longrightarrow> own_step self s (send_draw v p t)"
  "own_step self s t \<Longrightarrow> own_step self s (report_slide v p t)"
  "own_step self s t \<Longrightarrow> own_step self s (sl_emit out t)"
  unfolding send_draw_def report_slide_def by (rule own_step_trans, assumption, rule own_step_emit)+

definition keeps :: "(slide_recognizer \<Rightarrow> slide_recognizer) \<Rightarrow> bool" where
  "keeps f \<longleftrightarrow> (\<forall>r h. owns (f r) h \<longrightarrow> owns r h)"

lemma keeps_updates [simp]:
  "keeps (slideState_update u)" "keeps (isInTouching_update v)"
  "keeps (\<lambda>r. r\<lparr>slideState := a, isInTouching := b\<rparr>)"
  "keeps (\<lambda>r. r\<lparr>slideDetectingTime := n, slideState := a\<rparr>)"
  "keeps (slidePid_update w)" "keeps (slideUid_update w)" "keeps (scrTid_update w)"
  "keeps (\<lambda>r. r\<lparr>listFlingEndTask := None, listFlingTimeOutTask := None\<rparr>)"
  "keeps (listFlingTimeOutTime_update i)" "keeps (listFlingEndTime_update i)" "keeps (listFlingSpeedLimit_update i)"
  by (simp_all add: keeps_def owns_def)

lemma own_then_upd: "keeps f \<Longrightarrow> own_step self s t \<Longrightarrow> own_step self s (sr_upd self f t)"
  by (rule own_step_trans, assumption, rule own_step_upd) (simp add: keeps_def)

lemma own_then_skip:
  "own_step self s t \<Longrightarrow> own_step self s (skip_task (listFlingEndTask (sr_at self t)) t)"
  "own_step self s t \<Longrightarrow> own_step self s (skip_task (listFlingTimeOutTask (sr_at self t)) t)"
  by (rule own_step_trans, assumption, rule own_step_skip, simp add: owns_def)+

lemma own_then_end: "own_step self s t \<Longrightarrow> own_step self s (ReportListFlingLockedEnd self p t)"
  unfolding ReportListFlingLockedEnd_def by (simp add: own_then_emit own_then_upd )

lemma own_then_restart:
  assumes "own_step self s t"
  shows "own_step self s (restart_end self p t)"
proof -
  let ?s = "skip_task (listFlingEndTask (sr_at self t)) t"
  obtain h s1 where h: "submit_h self p (listFlingEndTime (sr_at self t)) ?s = (h, s1)" by force
  have "own_step self ?s (sr_upd self (\<lambda>r. r\<lparr>listFlingEndTask := Some h\<rparr>) s1)"
    by (rule own_step_submit [OF h]) (auto simp: owns_def)
  with own_then_skip(1) [OF assms] show ?thesis
    unfolding restart_end_def Let_def h prod.case by (rule own_step_trans)
qed

lemma own_then_fling_start:
  assumes "own_step self s t"
  shows "own_step self s (HandleListFlingStart self p t)"
proof -
  let ?s = "restart_end self p (send_draw EVENT_VALUE_DRAW_FRAME_REPORT_START p t)"
  let ?t = "skip_task (listFlingTimeOutTask (sr_at self ?s)) ?s"
  obtain h s1 where h: "submit_h self p (listFlingTimeOutTime (sr_at self ?s)) ?t = (h, s1)" by force
  have "own_step self ?t (sr_upd self (\<lambda>r. r\<lparr>listFlingTimeOutTask := Some h\<rparr>) s1)"
    by (rule own_step_submit [OF h]) (auto simp: owns_def)
  with own_then_skip(2) [OF own_then_restart [OF own_then_emit(1) [OF assms]]] show ?thesis
    unfolding HandleListFlingStart_def Let_def h prod.case by (rule own_step_trans)
qed

lemma own_then_off: "own_step self s t \<Longrightarrow> own_step self s (HandleSlideOFFEvent self p t)"
  unfolding HandleSlideOFFEvent_def Let_def by (simp add: own_then_emit own_then_skip own_then_upd )

lemma own_then_start_detecting: "own_step self s t \<Longrightarrow> own_step self s (StartDetecting E self p t)"
  unfolding StartDetecting_def Let_def
  by (simp add: own_then_emit own_then_upd  split: option.split json.split)

lemma own_then_slide: "own_step self s t \<Longrightarrow> own_step self s (HandleSlideEvent self v p t)"
  by (simp add: HandleSlideEvent_def HandleSlideDetecting_def own_then_emit own_then_upd
      own_then_fling_start own_then_off)

lemma own_then_frame: "own_step self s t \<Longrightarrow> own_step self s (HandleSendFrameEvent self p t)"
  by (simp add: HandleSendFrameEvent_def own_then_emit own_then_upd  own_then_restart split: slide_stat.split)

lemma own_then_fling_end: "own_step self s t \<Longrightarrow> own_step self s (ListFlingEnd self p t)"
  by (simp add: ListFlingEnd_def Let_def own_then_skip own_then_upd  own_then_end)

lemma own_then_click: "own_step self s t \<Longrightarrow> own_step self s (HandleClickEvent E self v p t)"
  by (simp add: HandleClickEvent_def Let_def own_then_emit own_then_upd  own_then_fling_end)

lemma own_step_dispatch: "own_step self s (sr_OnDispatchResource E self t v p s)"
  by (simp add: sr_OnDispatchResource_def own_then_slide own_then_frame own_then_click own_step_refl)

section \<open>A list fling is ended by something\<close>

text \<open>
  A recognizer in a list fling has a delayed task, has just reported the start of the fling,
  or (\<open>Q\<close>) such a report is already on its way.
\<close>

definition on_report :: "string \<Rightarrow> slide_state \<Rightarrow> bool" where
  "on_report scr s \<longleftrightarrow> (\<exists>p. Report RES_TYPE_SLIDE_RECOGNIZE SLIDE_EVENT_ON p \<in> set (sl_outs s) \<and>
     member ''screenId'' p = Some (JStr scr))"

definition has_timer :: "nat \<Rightarrow> slide_state \<Rightarrow> bool" where
  "has_timer self s \<longleftrightarrow> (\<exists>t \<in> set (sl_timers s). tm_self t = self)"

definition served :: "bool \<Rightarrow> string \<Rightarrow> nat \<Rightarrow> slide_state \<Rightarrow> bool" where
  "served Q scr self s \<longleftrightarrow>
     (slideState (sr_at self s) = LIST_FLING \<longrightarrow> has_timer self s \<or> on_report scr s \<or> Q)"

lemma draw_report_frame [slide_simps]:
  "sr_at k (send_draw v p s) = sr_at k s" "sr_at k (report_slide v p s) = sr_at k s"
  "sl_timers (send_draw v p s) = sl_timers s" "sl_timers (report_slide v p s) = sl_timers s"
  "sl_outs (report_slide v p s) = sl_outs s @ [Report RES_TYPE_SLIDE_RECOGNIZE v p]"
  by (simp_all add: send_draw_def report_slide_def slide_simps)

lemma served_same:
  "served Q scr self s \<Longrightarrow> slideState (sr_at self s') = slideState (sr_at self s) \<Longrightarrow>
     sl_timers s' = sl_timers s \<Longrightarrow> set (sl_outs s) \<subseteq> set (sl_outs s') \<Longrightarrow> served Q scr self s'"
  unfolding served_def has_timer_def on_report_def by auto

lemma has_timer_restart: "has_timer self (restart_end self p s)"
  by (simp add: restart_end_def Let_def split_beta submit_h_def has_timer_def slide_simps)

lemma has_timer_start: "has_timer self (HandleListFlingStart self p s)"
  by (simp add: HandleListFlingStart_def Let_def split_beta submit_h_def has_timer_def slide_simps)

lemma end_not_fling: "slideState (sr_at self (ReportListFlingLockedEnd self p s)) \<noteq> LIST_FLING"
  by (simp add: ReportListFlingLockedEnd_def slide_simps)

lemma served_slide:
  "served Q scr self s \<Longrightarrow> served Q scr self (HandleSlideEvent self v p s)"
proof (cases "v = SLIDE_EVENT_DETECTING")
  case True
  assume "served Q scr self s"
  then have "served Q scr self (HandleSlideDetecting self p s)"
    by (rule served_same) (auto simp: HandleSlideDetecting_def slide_simps)
  with True show ?thesis by (simp add: HandleSlideEvent_def)
next
  case False
  assume "served Q scr self s"
  with False show ?thesis
    by (auto simp: HandleSlideEvent_def served_def has_timer_start HandleSlideOFFEvent_def Let_def slide_simps)
qed

lemma served_frame:
  "served Q scr self s \<Longrightarrow> served Q scr self (HandleSendFrameEvent self p s)"
  by (cases "slideState (sr_at self s)")
     (simp_all add: HandleSendFrameEvent_def served_def has_timer_restart slide_simps)

lemma served_click:
  assumes "served Q scr self s"
    and screen: "\<And>s'. member ''screenId'' (FillRealPidAndUid self p s') = Some (JStr scr)"
  shows "served Q scr self (HandleClickEvent E self v p s)"
proof (cases "v = TOUCH_EVENT_DOWN")
  case True
  then have "\<not> is_up v" by (simp add: is_up_def res_type_defs)
  with True show ?thesis by (simp add: HandleClickEvent_def Let_def served_def slide_simps)
next
  case False
  have touch: "served Q scr self (sr_upd self (\<lambda>r. r\<lparr>isInTouching := False\<rparr>) s)"
    using assms(1) by (rule served_same) (auto simp: slide_simps)
  show ?thesis
  proof (cases "is_up v")
    case True
    then show ?thesis
      using False touch screen
      by (auto simp: HandleClickEvent_def Let_def served_def on_report_def slide_simps)
  qed (use False assms(1) in \<open>simp add: HandleClickEvent_def Let_def\<close>)
qed

section \<open>The proxy\<close>

lemma om_put_sub: "set (om_put k v m) \<subseteq> insert (k, v) (set m)"
  by (induction k v m rule: om_put.induct) auto

lemma om_put_distinct_snd:
  "distinct (map snd m) \<Longrightarrow> v \<notin> snd ` set m \<Longrightarrow> distinct (map snd (om_put k v m))"
proof (induction k v m rule: om_put.induct)
  case (2 k v a b m)
  have "snd ` set (om_put k v m) \<subseteq> insert v (snd ` set m)" using om_put_sub [of k v m] by force
  with 2 show ?case by (auto split: if_splits)
qed simp

lemma om_ok_filter: "om_ok m \<Longrightarrow> om_ok (filter P m)"
  unfolding om_ok_def by (induction m) auto

lemma distinct_snd_inj:
  "distinct (map snd m) \<Longrightarrow> (a, k) \<in> set m \<Longrightarrow> (b, k) \<in> set m \<Longrightarrow> a = b"
  by (metis distinct_map inj_onD prod.inject snd_conv)

text \<open>The screen of an event, once it carries its number.\<close>

lemma ExtractId_to_string:
  assumes "member key p = Some (JStr (to_string (uint (screen :: u64))))"
  shows "ExtractIdFromPayload p key = Some screen"
proof -
  let ?d = "nat_to_string (unat screen)"
  have t: "takeWhile is_digit ?d = ?d"
    using nat_to_string_digits by (simp add: takeWhile_eq_all_conv list_all_iff)
  have "uint screen < 2 ^ 64" using uint_bounded [of screen] by simp
  moreover have "member key p = Some (JStr ?d)" using assms by (simp add: to_string_def)
  ultimately show ?thesis
    by (simp only: ExtractIdFromPayload_def option.case json.case Let_def t dec_val_nat_to_string)
       (simp add: nat_to_string_nonempty)
qed

lemma choose_screen_named:
  assumes "member ''screenId'' p = Some (JStr (to_string (uint screen)))"
  shows "choose_screen E t v p s = (screen, s)"
  using ExtractId_to_string [OF assms] by (simp add: choose_screen_def)

lemma choose_screen_frame:
  assumes "choose_screen E t v p s = (screen, s1)"
  shows "sl_heap s1 = sl_heap s" "sl_timers s1 = sl_timers s" "sl_instances s1 = sl_instances s"
    "sl_next s1 = sl_next s" "sl_outs s1 = sl_outs s"
  using assms by (auto simp: choose_screen_def ConvertDisplayIdToRsScreenId_def split: option.splits if_splits)

lemma slide_ok_frame:
  assumes "sl_heap s' = sl_heap s" "sl_timers s' = sl_timers s" "sl_instances s' = sl_instances s" "sl_next s' = sl_next s"
  shows "slide_ok s' = slide_ok s"
  using assms by (simp add: slide_ok_def fresh_handles_def own_handles_def one_owner_def screens_ok_def sr_at_def)

definition add_instance :: "u64 \<Rightarrow> slide_state \<Rightarrow> slide_state" where
  "add_instance screen s =
     s\<lparr>sl_heap := om_put (sl_next s)
          (new_recognizer
             \<lparr>listFlingTimeOutTime := px_listFlingTimeOutTime s, listFlingEndTime := px_listFlingEndTime s,
              listFlingSpeedLimit := px_listFlingSpeedLimit s\<rparr>) (sl_heap s),
       sl_next := sl_next s + 1, sl_instances := om_put screen (sl_next s) (sl_instances s)\<rparr>"

lemma GetOrCreateInstance_new:
  "map_of (sl_instances s) screen = None \<Longrightarrow>
     GetOrCreateInstance screen s =
       (sl_next s, if MAX_INSTANCE_COUNT < length (sl_instances (add_instance screen s))
                   then CleanupIdleInstances (add_instance screen s) else add_instance screen s)"
  by (simp add: GetOrCreateInstance_def add_instance_def Let_def)

lemma add_instance_at:
  "sr_at k (add_instance screen s) =
     (if k = sl_next s then new_recognizer
        \<lparr>listFlingTimeOutTime := px_listFlingTimeOutTime s, listFlingEndTime := px_listFlingEndTime s,
         listFlingSpeedLimit := px_listFlingSpeedLimit s\<rparr> else sr_at k s)"
  by (simp add: sr_at_def add_instance_def)

lemma new_owns_nothing: "\<not> owns (new_recognizer\<lparr>listFlingTimeOutTime := a, listFlingEndTime := b, listFlingSpeedLimit := c\<rparr>) h"
  by (simp add: owns_def new_recognizer_def)

lemma slide_ok_add:
  assumes "slide_ok s"
  shows "slide_ok (add_instance screen s)"
  unfolding slide_ok_def
proof (intro conjI)
  have f: "fresh_handles s" and o: "own_handles s" and one: "one_owner s" and scr: "screens_ok s"
    using assms by (simp_all add: slide_ok_def)
  have tm: "sl_timers (add_instance screen s) = sl_timers s" "sl_next (add_instance screen s) = sl_next s + 1"
    by (simp_all add: add_instance_def)
  show "fresh_handles (add_instance screen s)"
    using f by (auto simp: fresh_handles_def tm add_instance_at new_owns_nothing less_Suc_eq split: if_splits)
  show "own_handles (add_instance screen s)"
    using o by (auto simp: own_handles_def tm add_instance_at new_owns_nothing split: if_splits)
  show "one_owner (add_instance screen s)"
    using one unfolding one_owner_def tm .
  have "sl_next s \<notin> snd ` set (sl_instances s)" using scr by (auto simp: screens_ok_def)
  moreover have "k < sl_next s + 1" if "k \<in> snd ` set (om_put screen (sl_next s) (sl_instances s))" for k
  proof -
    from that om_put_sub have "k = sl_next s \<or> k \<in> snd ` set (sl_instances s)" by fastforce
    then show ?thesis using scr by (auto simp: screens_ok_def)
  qed
  ultimately show "screens_ok (add_instance screen s)"
    using scr unfolding screens_ok_def by (simp add: add_instance_def om_put_distinct_snd)
qed

lemma slide_ok_cleanup:
  assumes "slide_ok s"
  shows "slide_ok (CleanupIdleInstances s)"
proof -
  have same: "sl_timers (CleanupIdleInstances s) = sl_timers s" "sl_next (CleanupIdleInstances s) = sl_next s"
    "\<And>k. sr_at k (CleanupIdleInstances s) = sr_at k s"
    by (simp_all add: CleanupIdleInstances_def sr_at_def)
  have "fresh_handles (CleanupIdleInstances s) = fresh_handles s" unfolding fresh_handles_def same ..
  moreover have "own_handles (CleanupIdleInstances s) = own_handles s" unfolding own_handles_def same ..
  moreover have "one_owner (CleanupIdleInstances s) = one_owner s" unfolding one_owner_def same ..
  moreover have "screens_ok (CleanupIdleInstances s)"
    using assms by (simp add: slide_ok_def screens_ok_def CleanupIdleInstances_def distinct_map_filter om_ok_filter)
  ultimately show ?thesis using assms by (simp add: slide_ok_def)
qed

lemma get_instance_facts:
  assumes ok: "slide_ok s" and g: "GetOrCreateInstance screen s = (self, s')"
  shows "slide_ok s'" "sl_timers s' = sl_timers s" "sl_outs s' = sl_outs s"
    "\<And>scr k. (scr, k) \<in> set (sl_instances s') \<Longrightarrow> k \<noteq> self \<Longrightarrow>
       (scr, k) \<in> set (sl_instances s) \<and> scr \<noteq> screen \<and> sr_at k s' = sr_at k s"
    "\<And>scr. (scr, self) \<in> set (sl_instances s') \<Longrightarrow> scr = screen \<and>
       ((screen, self) \<in> set (sl_instances s) \<and> s' = s \<or> slideState (sr_at self s') = IDLE)"
proof -
  have scr: "screens_ok s" using ok by (simp add: slide_ok_def)
  consider (old) "map_of (sl_instances s) screen = Some self" "s' = s"
    | (new) "map_of (sl_instances s) screen = None" "self = sl_next s"
        "s' \<in> {add_instance screen s, CleanupIdleInstances (add_instance screen s)}"
    using g GetOrCreateInstance_new [of s screen]
    by (cases "map_of (sl_instances s) screen") (auto simp: GetOrCreateInstance_def split: if_splits)
  note cases = this
  show "slide_ok s'" using cases ok slide_ok_add slide_ok_cleanup by cases auto
  show "sl_timers s' = sl_timers s" using cases by cases (auto simp: add_instance_def CleanupIdleInstances_def)
  show "sl_outs s' = sl_outs s" using cases by cases (auto simp: add_instance_def CleanupIdleInstances_def)
  have "set (sl_instances (add_instance screen s)) \<subseteq> insert (screen, sl_next s) (set (sl_instances s))"
    using om_put_sub [of screen "sl_next s" "sl_instances s"] by (simp add: add_instance_def)
  then have sub: "set (sl_instances s') \<subseteq> insert (screen, sl_next s) (set (sl_instances s))"
      "sr_at k s' = sr_at k (add_instance screen s)"
    if "s' \<in> {add_instance screen s, CleanupIdleInstances (add_instance screen s)}" for k
    using that by (auto simp: CleanupIdleInstances_def sr_at_def)
  show "(c, k) \<in> set (sl_instances s) \<and> c \<noteq> screen \<and> sr_at k s' = sr_at k s"
    if "(c, k) \<in> set (sl_instances s')" "k \<noteq> self" for c k
    using cases
  proof cases
    case old
    with that scr show ?thesis by (auto simp: screens_ok_def om_ok_map_of)
  next
    case new
    with that sub(1) [OF new(3)] have "(c, k) \<in> set (sl_instances s)" by auto
    moreover from this new(1) have "c \<noteq> screen" by (auto simp: map_of_eq_None_iff image_iff)
    ultimately show ?thesis using sub(2) [OF new(3)] new(2) that(2) by (simp add: add_instance_at)
  qed
  show "c = screen \<and> ((screen, self) \<in> set (sl_instances s) \<and> s' = s \<or> slideState (sr_at self s') = IDLE)"
    if "(c, self) \<in> set (sl_instances s')" for c
    using cases
  proof cases
    case old
    with that scr show ?thesis by (metis distinct_snd_inj map_of_SomeD screens_ok_def)
  next
    case new
    have "sl_next s \<notin> snd ` set (sl_instances s)" using scr by (auto simp: screens_ok_def)
    with that sub(1) [OF new(3)] new(2) have "c = screen" by force
    with sub(2) [OF new(3)] new(2) show ?thesis by (simp add: add_instance_at new_recognizer_def)
  qed
qed

end
