(* ===== verification/Scene_Props.thy ===== *)
theory Scene_Props
  imports Slide_Facts
begin

text \<open>
  The behaviour of the scene recognizers over whole runs: events, queue tasks and delayed
  tasks in any order.  The queue drains, a list fling never lasts for ever, the proxy keeps
  at most ten recognizers and drops the one it has just created for an eleventh screen, and
  the overlapping scene is left at the first task that ends.
\<close>

section \<open>List flings end\<close>

lemma FillReal_screen [simp]:
  assumes "is_object p"
  shows "member ''screenId'' (FillRealPidAndUid self p s) = member ''screenId'' p"
proof -
  have j: "(\<forall>x. p \<noteq> JBool x) \<and> (\<forall>x. p \<noteq> JInt x) \<and> (\<forall>x. p \<noteq> JUint x) \<and> p \<noteq> JFloat \<and>
      (\<forall>x. p \<noteq> JStr x) \<and> (\<forall>x. p \<noteq> JArr x)"
    using assms by (auto simp: is_object_def)
  obtain m where "p = JNull \<or> p = JObj m" using j by (cases p) auto
  then show ?thesis
    by (auto simp: FillRealPidAndUid_def Let_def set_member_def member_def update_conv')
qed

lemma served_dispatch:
  assumes "served Q scr self s" "member ''screenId'' p = Some (JStr scr)" "is_object p"
  shows "served Q scr self (sr_OnDispatchResource E self t v p s)"
  using assms
  by (simp add: sr_OnDispatchResource_def served_slide served_frame served_click)

lemma started_dispatch:
  "has_timer self (sr_OnDispatchResource E self RES_TYPE_SLIDE_RECOGNIZE SLIDE_EVENT_ON p s)"
  by (simp add: sr_OnDispatchResource_def HandleSlideEvent_def has_timer_start res_type_defs)

text \<open>Every screen of the proxy is served; \<open>Q\<close> says for which a start event is on its way.\<close>

definition scr_text :: "u64 \<Rightarrow> string" where "scr_text screen = to_string (uint screen)"

definition all_served :: "(u64 \<Rightarrow> bool) \<Rightarrow> slide_state \<Rightarrow> bool" where
  "all_served Q s \<longleftrightarrow> (\<forall>(screen, k) \<in> set (sl_instances s). served (Q screen) (scr_text screen) k s)"

lemma served_other:
  assumes "own_step self s s'" "slide_ok s" "k \<noteq> self" "served Q scr k s"
  shows "served Q scr k s'"
proof -
  have "sr_at k s' = sr_at k s" "set (sl_outs s) \<subseteq> set (sl_outs s')" "others_timers self s' = others_timers self s"
    using assms(1-3) by (simp_all add: own_step_def)
  moreover have "has_timer k u = (\<exists>t \<in> others_timers self u. tm_self t = k)" for u
    using assms(3) by (auto simp: has_timer_def others_timers_def)
  ultimately show ?thesis using assms(4) by (auto simp: served_def on_report_def)
qed

lemma all_served_own:
  assumes "own_step self s s'" "slide_ok s" "all_served Q s"
    and "\<And>screen. (screen, self) \<in> set (sl_instances s) \<Longrightarrow> served (Q screen) (scr_text screen) self s'"
  shows "slide_ok s' \<and> all_served Q s'"
proof -
  have "sl_instances s' = sl_instances s" "slide_ok s'" using assms(1,2) by (auto simp: own_step_def)
  moreover have "served (Q screen) (scr_text screen) k s'" if "(screen, k) \<in> set (sl_instances s)" for screen k
    using that assms(3,4) served_other [OF assms(1,2)] by (cases "k = self") (auto simp: all_served_def)
  ultimately show ?thesis by (auto simp: all_served_def)
qed

definition on_event :: "u32 \<Rightarrow> i64 \<Rightarrow> json \<Rightarrow> u64 \<Rightarrow> bool" where
  "on_event t v p screen \<longleftrightarrow> t = RES_TYPE_SLIDE_RECOGNIZE \<and> v = SLIDE_EVENT_ON \<and>
     member ''screenId'' p = Some (JStr (scr_text screen))"

lemma px_served:
  assumes ok: "slide_ok s" and all: "all_served (\<lambda>screen. Q screen \<or> on_event t v p screen) s"
    and px: "px_OnDispatchResource E t v p s = Some s'"
  shows "slide_ok s' \<and> all_served Q s'"
proof -
  obtain scr0 s1 where c: "choose_screen E t v p s = (scr0, s1)" by force
  obtain self s2 where g: "GetOrCreateInstance scr0 s1 = (self, s2)" by force
  note frame = choose_screen_frame [OF c]
  have ok1: "slide_ok s1" using ok frame slide_ok_frame by blast
  note inst = get_instance_facts [OF ok1 g]
  let ?p = "set_member ''screenId'' (JStr (scr_text scr0)) p"
  have s': "s' = sr_OnDispatchResource E self t v ?p s2" and obj: "is_object p"
    using px by (auto simp: px_OnDispatchResource_def c g scr_text_def split: if_splits)
  have named: "member ''screenId'' ?p = Some (JStr (scr_text scr0))" "is_object ?p"
    using obj by (cases p; simp add: is_object_def set_member_def member_def update_conv')+
  have at: "sr_at k s1 = sr_at k s" for k using frame(1) by (rule sr_at_same)
  have old: "served (Q screen \<or> on_event t v p screen) (scr_text screen) k s1"
    if "(screen, k) \<in> set (sl_instances s1)" for screen k
    using all that frame at by (auto simp: all_served_def served_def has_timer_def on_report_def)
  have target: "scr0 = screen" if "on_event t v p screen" for screen
    using that c choose_screen_named [of p screen] by (auto simp: on_event_def scr_text_def)
  have other: "served (Q screen) (scr_text screen) k s2"
    if "(screen, k) \<in> set (sl_instances s2)" "k \<noteq> self" for screen k
  proof -
    from inst(4) [OF that] have "(screen, k) \<in> set (sl_instances s1)" "screen \<noteq> scr0" "sr_at k s2 = sr_at k s1"
      by auto
    with old target inst(2,3) show ?thesis by (auto simp: served_def has_timer_def on_report_def)
  qed
  have own: "served (Q screen) (scr_text screen) self s'" if m: "(screen, self) \<in> set (sl_instances s2)" for screen
  proof (cases "t = RES_TYPE_SLIDE_RECOGNIZE \<and> v = SLIDE_EVENT_ON")
    case True
    then have "has_timer self s'" unfolding s' using started_dispatch by simp
    then show ?thesis by (simp add: served_def)
  next
    case False
    from inst(5) [OF m] have scr: "screen = scr0"
      and cases: "(scr0, self) \<in> set (sl_instances s1) \<and> s2 = s1 \<or> slideState (sr_at self s2) = IDLE" by auto
    have "served (Q screen) (scr_text screen) self s2"
      using cases old [of screen self] False scr by (auto simp: on_event_def served_def)
    then show ?thesis unfolding s' by (rule served_dispatch) (use named scr in auto)
  qed
  have step: "own_step self s2 s'" unfolding s' by (rule own_step_dispatch)
  then have "sl_instances s' = sl_instances s2" "slide_ok s'" using inst(1) by (auto simp: own_step_def)
  moreover have "served (Q screen) (scr_text screen) k s'" if "(screen, k) \<in> set (sl_instances s2)" for screen k
    using that other own served_other [OF step inst(1)] by (cases "k = self") auto
  ultimately show ?thesis by (auto simp: all_served_def)
qed

section \<open>The queue\<close>

definition on_queued :: "scene_task list \<Rightarrow> u64 \<Rightarrow> bool" where
  "on_queued q screen \<longleftrightarrow> (\<exists>t v p. Recognize SLIDE_RECOGNIZER t v p \<in> set q \<and> on_event t v p screen)"

definition fling_ok :: "scene_state \<Rightarrow> bool" where
  "fling_ok st \<longleftrightarrow> slide_ok (sc_slide st) \<and> all_served (on_queued (sc_queue st)) (quiet (sc_slide st))"

lemma quiet_frame [simp]:
  "sl_heap (quiet s) = sl_heap s" "sl_timers (quiet s) = sl_timers s" "sl_instances (quiet s) = sl_instances s"
  "sl_next (quiet s) = sl_next s" "sl_outs (quiet s) = []" "sr_at k (quiet s) = sr_at k s"
  by (simp_all add: quiet_def sr_at_def)

lemma slide_ok_quiet [simp]: "slide_ok (quiet s) = slide_ok s"
  by (rule slide_ok_frame) simp_all

lemma sm_report_slide [simp]: "sc_slide (fold sm_report reps st) = sc_slide st"
  by (induction reps arbitrary: st) (simp_all add: sm_report_def sm_DispatchResource_def split_beta)

lemma sm_out_slide: "sc_slide (fold sm_out outs st) = sc_slide st"
proof (induction outs arbitrary: st)
  case (Cons out outs)
  have "sc_slide (sm_out out st) = sc_slide st"
    by (cases out) (simp_all add: sm_report_def sm_DispatchResource_def sm_SubmitTask_def)
  with Cons show ?case by simp
qed simp

lemma sm_out_queue: "set (sc_queue st) \<subseteq> set (sc_queue (sm_out out st))"
  by (cases out) (auto simp: sm_report_def sm_DispatchResource_def sm_SubmitTask_def)

lemma sm_outs_queue: "set (sc_queue st) \<subseteq> set (sc_queue (fold sm_out outs st))"
proof (induction outs arbitrary: st)
  case (Cons out outs)
  then show ?case using sm_out_queue [of st out] by (simp add: subset_trans)
qed simp

lemma sm_outs_report:
  assumes "Report RES_TYPE_SLIDE_RECOGNIZE v p \<in> set outs"
  shows "Recognize SLIDE_RECOGNIZER RES_TYPE_SLIDE_RECOGNIZE v p \<in> set (sc_queue (fold sm_out outs st))"
  using assms
proof (induction outs arbitrary: st)
  case (Cons out outs)
  show ?case
  proof (cases "out = Report RES_TYPE_SLIDE_RECOGNIZE v p")
    case True
    then have "Recognize SLIDE_RECOGNIZER RES_TYPE_SLIDE_RECOGNIZE v p \<in> set (sc_queue (sm_out out st))"
      by (simp add: sm_report_def sm_DispatchResource_def tasks_for_slide)
    then show ?thesis using sm_outs_queue by fastforce
  qed (use Cons in simp)
qed simp

lemma fling_ok_slide:
  assumes "slide_ok s" "all_served (on_queued (sc_queue st)) s"
  shows "fling_ok (sm_slide s st)"
proof -
  have slide: "sc_slide (sm_slide s st) = s" by (simp add: sm_slide_def sm_out_slide)
  have queue: "set (sc_queue st) \<subseteq> set (sc_queue (sm_slide s st))"
    using sm_outs_queue [of "st\<lparr>sc_slide := s\<rparr>"] by (simp add: sm_slide_def)
  have "served (on_queued (sc_queue (sm_slide s st)) screen) (scr_text screen) k (quiet s)"
    if "served (on_queued (sc_queue st) screen) (scr_text screen) k s" for screen k
  proof -
    have "on_queued (sc_queue (sm_slide s st)) screen" if "on_queued (sc_queue st) screen \<or> on_report (scr_text screen) s"
      using that
    proof
      assume "on_report (scr_text screen) s"
      then obtain p where p: "Report RES_TYPE_SLIDE_RECOGNIZE SLIDE_EVENT_ON p \<in> set (sl_outs s)"
        "member ''screenId'' p = Some (JStr (scr_text screen))" by (auto simp: on_report_def)
      from sm_outs_report [OF p(1), of "st\<lparr>sc_slide := s\<rparr>"] p(2) show ?thesis
        by (auto simp: on_queued_def on_event_def sm_slide_def)
    qed (use queue in \<open>auto simp: on_queued_def\<close>)
    with that show ?thesis by (auto simp: served_def has_timer_def)
  qed
  with assms slide show ?thesis by (auto simp: fling_ok_def all_served_def)
qed

section \<open>Runs\<close>

text \<open>Events arrive, the worker takes the first task, delayed tasks run, limits are set.\<close>

inductive scene_step :: "scene_state \<Rightarrow> scene_state \<Rightarrow> bool" where
  event: "scene_step st (sm_DispatchResource t v p st)"
| run: "sc_queue st = task # q \<Longrightarrow> run_task E task (st\<lparr>sc_queue := q\<rparr>) = Some st' \<Longrightarrow> scene_step st st'"
| timer: "t \<in> set (sl_timers (sc_slide st)) \<Longrightarrow> scene_step st (sm_timer t st)"
| exit_install: "h \<in> set (in_pending (sc_install st)) \<Longrightarrow> scene_step st (sm_exit_install h st)"
| timeout_time: "scene_step st (sm_SetListFlingTimeoutTime i st)"
| end_time: "scene_step st (sm_SetListFlingEndTime i st)"
| speed: "scene_step st (sm_SetListFlingSpeedLimit i st)"

inductive scene_reach :: "scene_state \<Rightarrow> bool" where
  start: "scene_reach (scene_new GetParameter old)"
| step: "scene_reach st \<Longrightarrow> scene_step st st' \<Longrightarrow> scene_reach st'"

lemma fling_ok_same:
  assumes "fling_ok st" "sc_slide st' = sc_slide st" "set (sc_queue st) \<subseteq> set (sc_queue st')"
  shows "fling_ok st'"
proof -
  have "on_queued (sc_queue st) screen \<Longrightarrow> on_queued (sc_queue st') screen" for screen
    using assms(3) by (auto simp: on_queued_def)
  with assms(1,2) show ?thesis by (auto simp: fling_ok_def all_served_def served_def)
qed

text \<open>A setter changes no state, no handle and no delayed task.\<close>

lemma px_all_frame:
  assumes "\<And>r. slideState (f r) = slideState r" "\<And>r h. owns (f r) h = owns r h"
  shows "sl_timers (px_all f s) = sl_timers s" "sl_instances (px_all f s) = sl_instances s"
    "sl_next (px_all f s) = sl_next s" "slideState (sr_at k (px_all f s)) = slideState (sr_at k s)"
    "owns (sr_at k (px_all f s)) h = owns (sr_at k s) h"
proof -
  let ?same = "\<lambda>s s'. sl_timers s' = sl_timers s \<and> sl_instances s' = sl_instances s \<and> sl_next s' = sl_next s \<and>
      (\<forall>k. slideState (sr_at k s') = slideState (sr_at k s)) \<and> (\<forall>k h. owns (sr_at k s') h = owns (sr_at k s) h)"
  have one: "?same s (sr_upd self f s)" for self s by (simp add: slide_simps assms)
  have "?same s (fold (\<lambda>(screen, self). sr_upd self f) m s)" for m
  proof (induction m arbitrary: s)
    case (Cons e m)
    obtain a self where e: "e = (a, self)" by force
    from Cons [of "sr_upd self f s"] one [of self s] show ?case unfolding e by simp
  qed simp
  from this [of "sl_instances s"] show "sl_timers (px_all f s) = sl_timers s" "sl_instances (px_all f s) = sl_instances s"
    "sl_next (px_all f s) = sl_next s" "slideState (sr_at k (px_all f s)) = slideState (sr_at k s)"
    "owns (sr_at k (px_all f s)) h = owns (sr_at k s) h" unfolding px_all_def by blast+
qed

lemma fling_ok_setter:
  assumes "fling_ok st" "s' = px_all f s" "sl_heap s = sl_heap (sc_slide st)" "sl_timers s = sl_timers (sc_slide st)"
    "sl_instances s = sl_instances (sc_slide st)" "sl_next s = sl_next (sc_slide st)"
    and f: "\<And>r. slideState (f r) = slideState r" "\<And>r h. owns (f r) h = owns r h"
  shows "fling_ok (st\<lparr>sc_slide := s'\<rparr>)"
proof -
  have at: "sr_at k s = sr_at k (sc_slide st)" for k using assms(3) by (rule sr_at_same)
  note frame = px_all_frame [where s = s, OF f, folded assms(2), unfolded at assms(4-6)]
  have "fresh_handles s' = fresh_handles (sc_slide st)" unfolding fresh_handles_def frame ..
  moreover have "own_handles s' = own_handles (sc_slide st)" unfolding own_handles_def frame ..
  moreover have "one_owner s' = one_owner (sc_slide st)" unfolding one_owner_def frame ..
  moreover have "screens_ok s' = screens_ok (sc_slide st)" unfolding screens_ok_def frame ..
  ultimately have "slide_ok s'" using assms(1) by (simp add: fling_ok_def slide_ok_def)
  moreover have "all_served (on_queued (sc_queue st)) (quiet s')"
    using assms(1) unfolding fling_ok_def all_served_def served_def has_timer_def on_report_def quiet_frame frame by simp
  ultimately show ?thesis by (simp add: fling_ok_def)
qed

lemma sm_report_queue: "set (sc_queue st) \<subseteq> set (sc_queue (fold sm_report reps st))"
proof (induction reps arbitrary: st)
  case (Cons rep reps)
  have "set (sc_queue st) \<subseteq> set (sc_queue (sm_report rep st))"
    by (auto simp: sm_report_def sm_DispatchResource_def split_beta)
  with Cons [of "sm_report rep st"] show ?case by simp
qed simp

lemma run_other:
  assumes "run_task E (Recognize k t v p) (st\<lparr>sc_queue := q\<rparr>) = Some st'" "k \<noteq> SLIDE_RECOGNIZER"
  shows "\<exists>reps st1. st' = fold sm_report reps st1 \<and> sc_slide st1 = sc_slide st \<and> sc_queue st1 = q"
proof (cases k)
  case CONTINUOUS_APP_INSTALL_RECOGNIZER
  obtain i reps where "in_OnDispatchResource t v (sc_install st) = (i, reps)" by force
  with assms CONTINUOUS_APP_INSTALL_RECOGNIZER show ?thesis
    by (intro exI [of _ reps] exI [of _ "st\<lparr>sc_queue := q, sc_install := i\<rparr>"]) (simp add: run_task_def)
next
  case SYSTEM_UPGRADE_SCENE_RECOGNIZER
  with assms show ?thesis
    by (intro exI [of _ "up_OnDispatchResource (sc_upgraded st) t"] exI [of _ "st\<lparr>sc_queue := q\<rparr>"])
       (simp add: run_task_def)
next
  case BACKGROUND_SENSITIVE_TASK_OVERLAPPING_SCENE_RECOGNIZER
  with assms obtain b reps where "st' = fold sm_report reps (st\<lparr>sc_queue := q, sc_bg := b\<rparr>)"
    by (auto simp: run_task_def)
  then show ?thesis by (intro exI [of _ reps] exI [of _ "st\<lparr>sc_queue := q, sc_bg := b\<rparr>"]) simp
qed (use assms(2) in simp)

lemma fling_ok_run:
  assumes ok: "fling_ok st" and q: "sc_queue st = task # q"
    and run: "run_task E task (st\<lparr>sc_queue := q\<rparr>) = Some st'"
  shows "fling_ok st'"
proof (cases task)
  case (RunSlide u)
  obtain self p where u: "u = StartDetectingOf self p" by (cases u)
  let ?s = "StartDetecting (sce_slide E) self p (quiet (sc_slide st))"
  have st': "st' = sm_slide ?s (st\<lparr>sc_queue := q\<rparr>)"
    using run RunSlide u by (simp add: run_task_def run_slide_task_def)
  have "on_queued (task # q) = on_queued q" using RunSlide by (auto simp: on_queued_def fun_eq_iff)
  with ok q have s: "slide_ok (quiet (sc_slide st))" "all_served (on_queued q) (quiet (sc_slide st))"
    by (simp_all add: fling_ok_def)
  have "slideState (sr_at self ?s) \<noteq> LIST_FLING"
    by (simp add: StartDetecting_def Let_def slide_simps split: option.split json.split)
  then have "served Q scr self ?s" for Q scr by (simp add: served_def)
  with all_served_own [OF own_then_start_detecting [OF own_step_refl] s] st' fling_ok_slide
  show ?thesis by simp
next
  case (Recognize k t v p)
  show ?thesis
  proof (cases "k = SLIDE_RECOGNIZER")
    case True
    with run Recognize obtain s where
      px: "px_OnDispatchResource (sce_slide E) t v p (quiet (sc_slide st)) = Some s"
      and st': "st' = sm_slide s (st\<lparr>sc_queue := q\<rparr>)" by (auto simp: run_task_def)
    have "on_queued (task # q) screen = (on_queued q screen \<or> on_event t v p screen)" for screen
      using Recognize True by (auto simp: on_queued_def)
    then have "on_queued (task # q) = (\<lambda>screen. on_queued q screen \<or> on_event t v p screen)" by blast
    with ok q have "slide_ok (quiet (sc_slide st))"
      "all_served (\<lambda>screen. on_queued q screen \<or> on_event t v p screen) (quiet (sc_slide st))"
      by (simp_all add: fling_ok_def)
    from px_served [OF this px] st' fling_ok_slide show ?thesis by simp
  next
    case False
    then have "on_queued (task # q) = on_queued q" using Recognize by (auto simp: on_queued_def fun_eq_iff)
    with ok q have ok': "fling_ok (st\<lparr>sc_queue := q\<rparr>)" by (simp add: fling_ok_def)
    from run_other [OF run [unfolded Recognize] False] obtain reps st1 where st1: "st' = fold sm_report reps st1" "sc_slide st1 = sc_slide st" "sc_queue st1 = q"
      by blast
    have "set q \<subseteq> set (sc_queue st')" using sm_report_queue [of st1 reps] st1 by simp
    with ok' st1 show ?thesis by (intro fling_ok_same [OF ok']) simp_all
  qed
qed

lemma fling_ok_timer:
  assumes ok: "fling_ok st" and t: "t \<in> set (sl_timers (sc_slide st))"
  shows "fling_ok (sm_timer t st)"
proof -
  let ?s = "quiet (sc_slide st)"
  define u where "u = ?s\<lparr>sl_timers := filter (\<lambda>u. tm_handle u \<noteq> tm_handle t) (sl_timers ?s)\<rparr>"
  have u: "sl_timers u = filter (\<lambda>u. tm_handle u \<noteq> tm_handle t) (sl_timers ?s)" "sl_next u = sl_next ?s"
    "sl_instances u = sl_instances ?s" "sl_outs u = sl_outs ?s" "sr_at k u = sr_at k ?s" for k
    by (simp_all add: u_def sr_at_def)
  have s: "slide_ok ?s" "all_served (on_queued (sc_queue st)) ?s" using ok by (simp_all add: fling_ok_def)
  have "slide_ok u" using s(1) by (rule slide_ok_less) (simp_all add: u filter_is_subset)
  moreover have "tm_self v = tm_self t" if "v \<in> set (sl_timers (sc_slide st))" "tm_handle v = tm_handle t" for v
    using ok t that unfolding fling_ok_def slide_ok_def one_owner_def by blast
  then have "others_timers (tm_self t) u = others_timers (tm_self t) ?s"
    by (auto simp: others_timers_def u)
  ultimately have "own_step (tm_self t) ?s u" by (simp add: own_step_def u)
  then have "own_step (tm_self t) ?s (timer_fires t ?s)"
    unfolding timer_fires_def u_def [symmetric] by (rule own_then_end)
  moreover have "served Q scr (tm_self t) (timer_fires t ?s)" for Q scr
    using end_not_fling by (simp add: served_def timer_fires_def)
  ultimately show ?thesis
    using all_served_own [OF _ s] fling_ok_slide unfolding sm_timer_def by blast
qed

lemma fling_ok_step:
  assumes "scene_step st st'" "fling_ok st"
  shows "fling_ok st'"
  using assms(1)
proof cases
  case (event t v p)
  then show ?thesis using fling_ok_same [OF assms(2)] by (simp add: sm_DispatchResource_def)
next
  case (run task q E)
  then show ?thesis using fling_ok_run [OF assms(2)] by blast
next
  case (timer t)
  then show ?thesis using fling_ok_timer [OF assms(2)] by simp
next
  case (exit_install h)
  obtain i reps where "exit_install_fires h (sc_install st) = (i, reps)" by force
  with exit_install have "st' = fold sm_report reps (st\<lparr>sc_install := i\<rparr>)" by (simp add: sm_exit_install_def)
  then show ?thesis using sm_report_queue [of "st\<lparr>sc_install := i\<rparr>" reps] fling_ok_same [OF assms(2)] by simp
next
  case (timeout_time i)
  then show ?thesis unfolding sm_SetListFlingTimeoutTime_def SetListFlingTimeoutTime_def
    by (simp only:) (rule fling_ok_setter [OF assms(2) refl]; simp add: owns_def)
next
  case (end_time i)
  then show ?thesis unfolding sm_SetListFlingEndTime_def SetListFlingEndTime_def
    by (simp only:) (rule fling_ok_setter [OF assms(2) refl]; simp add: owns_def)
next
  case (speed i)
  then show ?thesis unfolding sm_SetListFlingSpeedLimit_def SetListFlingSpeedLimit_def
    by (simp only:) (rule fling_ok_setter [OF assms(2) refl]; simp add: owns_def)
qed

lemma fling_ok_new: "fling_ok (scene_new GetParameter old)"
  by (simp add: fling_ok_def scene_new_def slide_new_def slide_ok_def fresh_handles_def own_handles_def
      one_owner_def screens_ok_def all_served_def sr_at_def owns_def new_recognizer_def)

lemma fling_ok_reach: "scene_reach st \<Longrightarrow> fling_ok st"
  by (induction rule: scene_reach.induct) (auto intro: fling_ok_new fling_ok_step)

text \<open>The worker only takes steps of the system.\<close>

lemma drain_reach:
  assumes "drain E st = Some st'" "scene_reach st"
  shows "scene_reach st'"
  using assms
proof (induction E st rule: drain.induct)
  case (1 E st)
  show ?case
  proof (cases "sc_queue st")
    case Nil
    with 1(2,3) show ?thesis by (simp add: drain.simps)
  next
    case (Cons task q)
    with 1(2) obtain st1 where st1: "run_task E task (st\<lparr>sc_queue := q\<rparr>) = Some st1" "drain E st1 = Some st'"
      by (subst (asm) drain.simps) (auto split: option.splits)
    have "scene_reach st1" using 1(3) scene_step.run [OF Cons st1(1)] by (rule scene_reach.step)
    with 1(1) [OF Cons st1] show ?thesis by simp
  qed
qed

text \<open>
  C23. A list fling always ends: whenever the queue is empty, a recognizer that a
  screen still has and that is in a list fling has a delayed task, and when any such task runs
  the fling is over and its end is reported.
\<close>

theorem list_fling_ends:
  assumes "scene_reach st" "sc_queue st = []" "(screen, k) \<in> set (sl_instances (sc_slide st))"
    "slideState (sr_at k (sc_slide st)) = LIST_FLING"
  shows "(\<exists>t. t \<in> set (sl_timers (sc_slide st)) \<and> tm_self t = k) \<and>
    (\<forall>t. tm_self t = k \<longrightarrow>
       slideState (sr_at k (sc_slide (sm_timer t st))) = IDLE \<and>
       sc_reports (sm_timer t st) = sc_reports st @ [(RES_TYPE_SLIDE_RECOGNIZE, SLIDE_EVENT_OFF, tm_payload t)])"
proof
  from fling_ok_reach [OF assms(1)] assms(3) have "served (on_queued [] screen) (scr_text screen) k (quiet (sc_slide st))"
    using assms(2) by (auto simp: fling_ok_def all_served_def)
  with assms(4) show "\<exists>t. t \<in> set (sl_timers (sc_slide st)) \<and> tm_self t = k"
    by (auto simp: served_def has_timer_def on_report_def on_queued_def)
  have fires: "ReportListFlingLockedEnd k p u =
      sr_upd k (\<lambda>r. r\<lparr>slideState := IDLE\<rparr>) (send_draw EVENT_VALUE_DRAW_FRAME_REPORT_STOP p (report_slide SLIDE_EVENT_OFF p u))"
    if "slideState (sr_at k u) = LIST_FLING" for p u
    using that by (simp add: ReportListFlingLockedEnd_def)
  show "\<forall>t. tm_self t = k \<longrightarrow>
       slideState (sr_at k (sc_slide (sm_timer t st))) = IDLE \<and>
       sc_reports (sm_timer t st) = sc_reports st @ [(RES_TYPE_SLIDE_RECOGNIZE, SLIDE_EVENT_OFF, tm_payload t)]"
  proof (intro allI impI)
    fix t :: slide_timer
    assume t: "tm_self t = k"
    let ?u = "quiet (sc_slide st)\<lparr>sl_timers := filter (\<lambda>u. tm_handle u \<noteq> tm_handle t) (sl_timers (quiet (sc_slide st)))\<rparr>"
    have "slideState (sr_at k ?u) = LIST_FLING" using assms(4) by (simp add: sr_at_def quiet_def)
    from fires [OF this, of "tm_payload t"] t
    show "slideState (sr_at k (sc_slide (sm_timer t st))) = IDLE \<and>
       sc_reports (sm_timer t st) = sc_reports st @ [(RES_TYPE_SLIDE_RECOGNIZE, SLIDE_EVENT_OFF, tm_payload t)]"
      by (simp add: sm_timer_def timer_fires_def sm_slide_def sm_out_slide slide_simps)
         (simp add: send_draw_def slide_simps sm_report_def sm_DispatchResource_def quiet_def)
  qed
qed

text \<open>A slide, a drawn frame, and the finger leaving the screen at speed.\<close>

definition demo_scene :: scene_env where
  "demo_scene =
     \<lparr>sce_slide = \<lparr>se_now = 0, se_over = (\<lambda>s f l. Some True), se_display = (\<lambda>d. None)\<rparr>,
      sce_bg = \<lparr>BM_LOCATION = 4, BM_VOIP = 8, BM_AUDIO_PLAYBACK = 2, BM_MULTI_DEVICE_CONNECTION = 6,
        BM_DATA_TRANSFER = 1, BM_END = 10, bg_float = (\<lambda>n. 0), bg_StrToInt = StrToInt32\<rparr>\<rparr>"

definition feed :: "scene_env \<Rightarrow> u32 \<Rightarrow> i64 \<Rightarrow> json \<Rightarrow> scene_state \<Rightarrow> scene_state" where
  "feed E t v p st = (case drain E (sm_DispatchResource t v p st) of None \<Rightarrow> st | Some st' \<Rightarrow> st')"

lemma feed_reach: "scene_reach st \<Longrightarrow> scene_reach (feed E t v p st)"
proof (cases "drain E (sm_DispatchResource t v p st)")
  case (Some st')
  assume "scene_reach st"
  then have "scene_reach (sm_DispatchResource t v p st)" by (rule scene_reach.step) (rule scene_step.event)
  with drain_reach [OF Some] Some show ?thesis by (simp add: feed_def)
qed (simp add: feed_def)

definition demo_touch :: json where
  "demo_touch = JObj [(''clientPid'', JStr ''10''), (''callingUid'', JStr ''20''), (''up_speed'', JStr ''9'')]"

definition demo_fling :: scene_state where
  "demo_fling =
     feed demo_scene RES_TYPE_CLICK_RECOGNIZE TOUCH_EVENT_UP demo_touch
       (feed demo_scene RES_TYPE_SEND_FRAME_EVENT 0 demo_touch
         (feed demo_scene RES_TYPE_SLIDE_RECOGNIZE SLIDE_EVENT_DETECTING demo_touch
           (scene_new (\<lambda>k. []) [])))"

lemma demo_fling_reach: "scene_reach demo_fling"
  unfolding demo_fling_def by (intro feed_reach scene_reach.start)

lemma demo_fling_facts:
  "sc_queue demo_fling = [] \<and> sl_instances (sc_slide demo_fling) = [(0, 0)] \<and>
   slideState (sr_at 0 (sc_slide demo_fling)) = LIST_FLING"
  by code_simp

theorem list_fling_ends_witness:
  "\<exists>t. t \<in> set (sl_timers (sc_slide demo_fling)) \<and> tm_self t = 0 \<and>
       slideState (sr_at 0 (sc_slide (sm_timer t demo_fling))) = IDLE \<and>
       sc_reports (sm_timer t demo_fling) =
         sc_reports demo_fling @ [(RES_TYPE_SLIDE_RECOGNIZE, SLIDE_EVENT_OFF, tm_payload t)]"
  using list_fling_ends [OF demo_fling_reach, of 0 0] demo_fling_facts by (auto simp del: slide_simps)

section \<open>The queue drains\<close>

text \<open>
  A task that nothing makes throw: a slide event with an object, a continuous task whose
  types are numbers.  What such a task reports carries an object again.
\<close>

definition task_ok :: "bg_env \<Rightarrow> scene_task \<Rightarrow> bool" where
  "task_ok B task =
     (case task of
        Recognize k t v p \<Rightarrow>
          (k = SLIDE_RECOGNIZER \<longrightarrow> is_object p) \<and>
          (k = BACKGROUND_SENSITIVE_TASK_OVERLAPPING_SCENE_RECOGNIZER \<longrightarrow> bg_typeIds B p \<noteq> None)
      | RunSlide u \<Rightarrow> True)"

lemma task_ok_simps [simp]:
  "task_ok B (RunSlide u)"
  "task_ok B (Recognize k t v p) =
     ((k = SLIDE_RECOGNIZER \<longrightarrow> is_object p) \<and>
      (k = BACKGROUND_SENSITIVE_TASK_OVERLAPPING_SCENE_RECOGNIZER \<longrightarrow> bg_typeIds B p \<noteq> None))"
  by (simp_all add: task_ok_def)

definition out_ok :: "slide_out \<Rightarrow> bool" where
  "out_ok out = (case out of Report t v p \<Rightarrow> t = RES_TYPE_SLIDE_RECOGNIZE \<and> is_object p | _ \<Rightarrow> True)"

definition outs_ok :: "slide_state \<Rightarrow> bool" where
  "outs_ok s = list_all out_ok (sl_outs s)"

lemma is_object_set [simp]: "is_object p \<Longrightarrow> is_object (set_member k v p)"
  by (cases p) (simp_all add: is_object_def set_member_def)

lemma is_object_fill [simp]: "is_object p \<Longrightarrow> is_object (FillRealPidAndUid self p s)"
  by (simp add: FillRealPidAndUid_def Let_def)

lemma outs_ok_basic [simp]:
  "outs_ok (sr_upd self f s) = outs_ok s" "outs_ok (skip_task h s) = outs_ok s" "outs_ok (quiet s)"
  "outs_ok (send_draw v p s) = outs_ok s" "outs_ok (report_slide v p s) = (outs_ok s \<and> is_object p)"
  "outs_ok (sl_emit (SubmitTask u) s) = outs_ok s" "outs_ok (snd (submit_h self p d s)) = outs_ok s"
  by (auto simp: outs_ok_def out_ok_def sr_upd_def skip_task_def send_draw_def report_slide_def sl_emit_def
      submit_h_def split: option.split)

lemma outs_ok_restart [simp]: "outs_ok (restart_end self p s) = outs_ok s"
  by (simp add: restart_end_def Let_def split_beta)

lemma outs_ok_fling [simp]: "outs_ok (HandleListFlingStart self p s) = outs_ok s"
  by (simp add: HandleListFlingStart_def Let_def split_beta)

lemma outs_ok_end: "outs_ok s \<Longrightarrow> is_object p \<Longrightarrow> outs_ok (ListFlingEnd self p s)"
  by (simp add: ListFlingEnd_def ReportListFlingLockedEnd_def Let_def)

lemma outs_ok_click:
  assumes "outs_ok s" "is_object p"
  shows "outs_ok (HandleClickEvent E self v p s)"
proof (cases "v = TOUCH_EVENT_DOWN")
  case True
  then have "\<not> is_up v" by (simp add: is_up_def res_type_defs)
  with True assms outs_ok_end [OF assms, of self] show ?thesis by (simp add: HandleClickEvent_def Let_def)
next
  case False
  with assms show ?thesis by (cases "is_up v") (simp_all add: HandleClickEvent_def Let_def)
qed

lemma outs_ok_slide: "outs_ok s \<Longrightarrow> outs_ok (HandleSlideEvent self v p s)"
  by (simp add: HandleSlideEvent_def HandleSlideDetecting_def HandleSlideOFFEvent_def Let_def)

lemma outs_ok_frame: "outs_ok s \<Longrightarrow> is_object p \<Longrightarrow> outs_ok (HandleSendFrameEvent self p s)"
  by (simp add: HandleSendFrameEvent_def split: slide_stat.split)

lemma outs_ok_dispatch: "outs_ok s \<Longrightarrow> is_object p \<Longrightarrow> outs_ok (sr_OnDispatchResource E self t v p s)"
  by (simp add: sr_OnDispatchResource_def outs_ok_click outs_ok_slide outs_ok_frame)

lemma outs_ok_start: "outs_ok s \<Longrightarrow> outs_ok (StartDetecting E self p s)"
  by (simp add: StartDetecting_def Let_def split: option.split json.split)

lemma px_total:
  assumes "is_object p" "outs_ok s"
  shows "\<exists>s'. px_OnDispatchResource E t v p s = Some s' \<and> outs_ok s'"
proof -
  obtain screen s1 where c: "choose_screen E t v p s = (screen, s1)" by force
  obtain self s2 where g: "GetOrCreateInstance screen s1 = (self, s2)" by force
  have "sl_outs s2 = sl_outs s" using get_instance_outs [of screen s1] choose_screen_frame [OF c] by (simp add: g)
  then have "outs_ok s2" using assms(2) by (simp add: outs_ok_def)
  with assms(1) show ?thesis by (simp add: px_OnDispatchResource_def c g outs_ok_dispatch)
qed

lemma task_ok_outs:
  assumes "list_all out_ok outs" "list_all (task_ok B) (sc_queue st)"
  shows "list_all (task_ok B) (sc_queue (fold sm_out outs st))"
  using assms
proof (induction outs arbitrary: st)
  case (Cons out outs)
  have "list_all (task_ok B) (sc_queue (sm_out out st))"
    using Cons.prems by (cases out)
      (simp_all add: out_ok_def sm_report_def sm_DispatchResource_def sm_SubmitTask_def tasks_for_slide)
  with Cons show ?case by simp
qed simp

lemma task_ok_slide:
  "outs_ok s \<Longrightarrow> list_all (task_ok B) (sc_queue st) \<Longrightarrow> list_all (task_ok B) (sc_queue (sm_slide s st))"
  unfolding sm_slide_def outs_ok_def by (rule task_ok_outs) simp_all

lemma bg_total:
  assumes "bg_typeIds B p \<noteq> None"
  shows "\<exists>b' reps. bg_OnDispatchResource B t v p b = Some (b', reps)"
proof -
  from assms obtain ids where "bg_typeIds B p = Some ids" by blast
  then have "bg_OnDispatchResource B t v p b \<noteq> None"
    by (simp add: bg_OnDispatchResource_def bg_HandleContinuousTask_def Let_def split: option.split json.split)
  then show ?thesis by auto
qed

lemma run_task_total:
  assumes "task_ok (sce_bg E) task" "list_all (task_ok (sce_bg E)) (sc_queue st)"
  shows "\<exists>st'. run_task E task st = Some st' \<and> list_all (task_ok (sce_bg E)) (sc_queue st')"
proof (cases task)
  case (RunSlide u)
  then show ?thesis
    using assms(2) by (cases u) (simp add: run_task_def run_slide_task_def task_ok_slide outs_ok_start)
next
  case (Recognize k t v p)
  show ?thesis
  proof (cases k)
    case CONTINUOUS_APP_INSTALL_RECOGNIZER
    obtain i reps where i: "in_OnDispatchResource t v (sc_install st) = (i, reps)" by force
    with Recognize CONTINUOUS_APP_INSTALL_RECOGNIZER assms(2) silent_reports [OF install_reports [OF i]]
    show ?thesis by (simp add: run_task_def)
  next
    case SYSTEM_UPGRADE_SCENE_RECOGNIZER
    with Recognize assms(2) silent_reports [OF upgrade_reports] show ?thesis by (simp add: run_task_def)
  next
    case BACKGROUND_SENSITIVE_TASK_OVERLAPPING_SCENE_RECOGNIZER
    with Recognize assms(1) have "bg_typeIds (sce_bg E) p \<noteq> None" by simp
    then obtain b reps where b: "bg_OnDispatchResource (sce_bg E) t v p (sc_bg st) = Some (b, reps)"
      using bg_total by blast
    with Recognize BACKGROUND_SENSITIVE_TASK_OVERLAPPING_SCENE_RECOGNIZER assms(2) silent_reports [OF bg_reports [OF b]]
    show ?thesis by (simp add: run_task_def)
  next
    case SLIDE_RECOGNIZER
    with Recognize assms(1) have "is_object p" by simp
    then obtain s where "px_OnDispatchResource (sce_slide E) t v p (quiet (sc_slide st)) = Some s" "outs_ok s"
      using px_total outs_ok_basic(3) by blast
    with Recognize SLIDE_RECOGNIZER assms(2) show ?thesis by (simp add: run_task_def task_ok_slide)
  qed
qed

text \<open>
  C33. The worker of the recognizers always empties its queue: whatever is queued, as long as
  no payload makes a handler throw, the work the tasks queue in turn comes to an end.
\<close>

theorem queue_drains:
  assumes "list_all (task_ok (sce_bg E)) (sc_queue st)"
  shows "\<exists>st'. drain E st = Some st' \<and> sc_queue st' = []"
  using assms
proof (induction E st rule: drain.induct)
  case (1 E st)
  show ?case
  proof (cases "sc_queue st")
    case Nil
    then show ?thesis by (simp add: drain.simps)
  next
    case (Cons task q)
    from 1(2) Cons have "task_ok (sce_bg E) task" "list_all (task_ok (sce_bg E)) (sc_queue (st\<lparr>sc_queue := q\<rparr>))"
      by simp_all
    from run_task_total [OF this] obtain st' where
      st': "run_task E task (st\<lparr>sc_queue := q\<rparr>) = Some st'" "list_all (task_ok (sce_bg E)) (sc_queue st')" by blast
    from 1(1) [OF Cons st'] obtain st'' where "drain E st' = Some st''" "sc_queue st'' = []" by blast
    with st'(1) Cons show ?thesis by (subst drain.simps) simp
  qed
qed

theorem queue_drains_witness:
  "\<exists>st'. drain demo_scene (sm_DispatchResource RES_TYPE_SLIDE_RECOGNIZE SLIDE_EVENT_DETECTING demo_touch
       (scene_new (\<lambda>k. []) [])) = Some st' \<and> sc_queue st' = []"
  by (rule queue_drains)
     (simp add: sm_DispatchResource_def scene_new_def tasks_for_slide is_object_def demo_touch_def)

section \<open>The screens of the proxy\<close>

lemma om_put_length: "map_of m k = None \<Longrightarrow> length (om_put k v m) = length m + 1"
  by (induction k v m rule: om_put.induct) (auto split: if_splits)

lemma new_is_idle:
  "slideState (sr_at (sl_next s) (add_instance screen s)) = IDLE \<and> IsTaskClean (sr_at (sl_next s) (add_instance screen s))"
  by (simp add: add_instance_at new_recognizer_def IsTaskClean_def)

lemma cleanup_drops_new: "(scr, sl_next s) \<notin> set (sl_instances (CleanupIdleInstances (add_instance screen s)))"
  using new_is_idle [of s screen] by (simp add: CleanupIdleInstances_def)

lemma get_instance_bound:
  assumes "length (sl_instances s) \<le> MAX_INSTANCE_COUNT" "om_ok (sl_instances s)"
  shows "length (sl_instances (snd (GetOrCreateInstance screen s))) \<le> MAX_INSTANCE_COUNT"
proof (cases "map_of (sl_instances s) screen")
  case None
  let ?a = "add_instance screen s"
  have a: "sl_instances ?a = om_put screen (sl_next s) (sl_instances s)" by (simp add: add_instance_def)
  have "(screen, sl_next s) \<in> set (sl_instances ?a)"
    unfolding a by (rule map_of_SomeD) simp
  from length_filter_less [OF this, of "\<lambda>(scr, k). \<not> (slideState (sr_at k ?a) = IDLE \<and> IsTaskClean (sr_at k ?a))"]
  have "length (sl_instances (CleanupIdleInstances ?a)) < length (sl_instances ?a)"
    using new_is_idle [of s screen] by (simp add: CleanupIdleInstances_def)
  moreover have "length (sl_instances ?a) \<le> MAX_INSTANCE_COUNT + 1"
    using assms(1) None by (simp add: a om_put_length)
  ultimately show ?thesis by (simp add: GetOrCreateInstance_new [OF None])
qed (use assms in \<open>simp add: GetOrCreateInstance_def\<close>)

lemma px_instances:
  assumes "px_OnDispatchResource E t v p s = Some s'" "choose_screen E t v p s = (screen, s1)"
  shows "sl_instances s' = sl_instances (snd (GetOrCreateInstance screen s1))"
  using assms own_step_dispatch
  by (auto simp: px_OnDispatchResource_def own_step_def split: prod.splits if_splits)

lemma px_bound:
  assumes "px_OnDispatchResource E t v p s = Some s'" "length (sl_instances s) \<le> MAX_INSTANCE_COUNT" "om_ok (sl_instances s)"
  shows "length (sl_instances s') \<le> MAX_INSTANCE_COUNT"
proof -
  obtain screen s1 where c: "choose_screen E t v p s = (screen, s1)" by force
  from choose_screen_frame [OF c] assms(2,3) get_instance_bound [of s1 screen] px_instances [OF assms(1) c]
  show ?thesis by simp
qed

lemma sm_slide_slide [simp]: "sc_slide (sm_slide s st) = s"
  by (simp add: sm_slide_def sm_out_slide)

lemma start_detecting_instances [simp]: "sl_instances (StartDetecting E self p s) = sl_instances s"
  using own_then_start_detecting [OF own_step_refl, of self s E p] by (simp add: own_step_def)

lemma timer_instances [simp]: "sl_instances (timer_fires t s) = sl_instances s"
  using own_then_end [OF own_step_refl, of "tm_self t" "s\<lparr>sl_timers := filter (\<lambda>u. tm_handle u \<noteq> tm_handle t) (sl_timers s)\<rparr>"]
  by (simp add: own_step_def timer_fires_def)

lemma instances_run:
  assumes "run_task E task (st\<lparr>sc_queue := q\<rparr>) = Some st'" "om_ok (sl_instances (sc_slide st))"
    "length (sl_instances (sc_slide st)) \<le> MAX_INSTANCE_COUNT"
  shows "length (sl_instances (sc_slide st')) \<le> MAX_INSTANCE_COUNT"
proof (cases task)
  case (RunSlide u)
  with assms show ?thesis by (cases u) (auto simp: run_task_def run_slide_task_def)
next
  case (Recognize k t v p)
  show ?thesis
  proof (cases "k = SLIDE_RECOGNIZER")
    case True
    with Recognize assms(1) obtain s where
      px: "px_OnDispatchResource (sce_slide E) t v p (quiet (sc_slide st)) = Some s"
      and st': "st' = sm_slide s (st\<lparr>sc_queue := q\<rparr>)" by (auto simp: run_task_def)
    from px_bound [OF px] assms(2,3) show ?thesis by (simp add: st')
  next
    case False
    from run_other [OF assms(1) [unfolded Recognize] False] assms(3) show ?thesis by auto
  qed
qed

lemma instances_step:
  assumes "scene_step st st'" "om_ok (sl_instances (sc_slide st))" "length (sl_instances (sc_slide st)) \<le> MAX_INSTANCE_COUNT"
  shows "length (sl_instances (sc_slide st')) \<le> MAX_INSTANCE_COUNT"
proof -
  have setter: "sl_instances (px_all f s) = sl_instances s" for f s
  proof -
    have "sl_instances (fold (\<lambda>(screen, self). sr_upd self f) m s) = sl_instances s" for m
      by (induction m arbitrary: s) (auto simp: slide_simps)
    then show ?thesis by (simp add: px_all_def)
  qed
  show ?thesis
    using assms(1)
  proof cases
    case (run task q E)
    then show ?thesis using instances_run assms(2,3) by blast
  next
    case (exit_install h)
    then show ?thesis using assms(3) by (simp add: sm_exit_install_def split_beta)
  qed (use assms(3) in \<open>simp_all add: sm_DispatchResource_def sm_timer_def sm_SetListFlingTimeoutTime_def
      SetListFlingTimeoutTime_def sm_SetListFlingEndTime_def SetListFlingEndTime_def
      sm_SetListFlingSpeedLimit_def SetListFlingSpeedLimit_def setter\<close>)
qed

lemma instances_bound: "scene_reach st \<Longrightarrow> length (sl_instances (sc_slide st)) \<le> MAX_INSTANCE_COUNT"
proof (induction rule: scene_reach.induct)
  case (step st st')
  from fling_ok_reach [OF step(1)] have "om_ok (sl_instances (sc_slide st))"
    by (simp add: fling_ok_def slide_ok_def screens_ok_def)
  with step instances_step show ?case by blast
qed (simp add: scene_new_def slide_new_def)

text \<open>
  The proxy keeps the recognizers of at most ten screens, and once it has ten the
  recognizer it creates for an event of another screen is dropped at once: the state the event
  gave it is lost.
\<close>

theorem eleventh_screen_is_dropped:
  assumes "scene_reach st"
  shows "length (sl_instances (sc_slide st)) \<le> MAX_INSTANCE_COUNT \<and>
    (\<forall>E t v p screen s'. length (sl_instances (sc_slide st)) = MAX_INSTANCE_COUNT \<and>
       map_of (sl_instances (sc_slide st)) screen = None \<and>
       member ''screenId'' p = Some (JStr (to_string (uint screen))) \<and>
       px_OnDispatchResource E t v p (quiet (sc_slide st)) = Some s' \<longrightarrow>
       map_of (sl_instances s') screen = None)"
proof (intro conjI allI impI)
  show "length (sl_instances (sc_slide st)) \<le> MAX_INSTANCE_COUNT" using assms by (rule instances_bound)
next
  fix E t v p screen s'
  let ?s = "quiet (sc_slide st)"
  assume a: "length (sl_instances (sc_slide st)) = MAX_INSTANCE_COUNT \<and>
       map_of (sl_instances (sc_slide st)) screen = None \<and>
       member ''screenId'' p = Some (JStr (to_string (uint screen))) \<and>
       px_OnDispatchResource E t v p ?s = Some s'"
  have c: "choose_screen E t v p ?s = (screen, ?s)" using a choose_screen_named by blast
  have none: "map_of (sl_instances ?s) screen = None" using a by simp
  have "length (sl_instances (add_instance screen ?s)) = MAX_INSTANCE_COUNT + 1"
    using a by (simp add: add_instance_def om_put_length)
  then have s': "sl_instances s' = sl_instances (CleanupIdleInstances (add_instance screen ?s))"
    using px_instances [OF _ c] a by (simp add: GetOrCreateInstance_new [OF none])
  have "(screen, k) \<notin> set (sl_instances s')" for k
  proof
    assume in_new: "(screen, k) \<in> set (sl_instances s')"
    then have "(screen, k) \<in> set (om_put screen (sl_next ?s) (sl_instances ?s))"
      unfolding s' by (simp add: CleanupIdleInstances_def add_instance_def)
    moreover have "(screen, k) \<notin> set (sl_instances ?s)" using none by (force simp: map_of_eq_None_iff)
    ultimately have "k = sl_next ?s" using om_put_sub [of screen "sl_next ?s" "sl_instances ?s"] by blast
    with in_new cleanup_drops_new s' show False by metis
  qed
  then show "map_of (sl_instances s') screen = None" by (auto simp: map_of_eq_None_iff)
qed

text \<open>Ten screens on which a slide begins, and a touch on an eleventh.\<close>

definition demo_screen :: "u64 \<Rightarrow> json" where
  "demo_screen screen = set_member ''screenId'' (JStr (to_string (uint screen))) demo_touch"

definition demo_ten :: scene_state where
  "demo_ten = fold (\<lambda>screen. feed demo_scene RES_TYPE_SLIDE_RECOGNIZE SLIDE_EVENT_DETECTING (demo_screen screen))
     [0, 1, 2, 3, 4, 5, 6, 7, 8, 9] (scene_new (\<lambda>k. []) [])"

lemma demo_ten_reach: "scene_reach demo_ten"
  unfolding demo_ten_def by (simp add: feed_reach scene_reach.start)

lemma demo_ten_facts:
  "length (sl_instances (sc_slide demo_ten)) = MAX_INSTANCE_COUNT \<and>
   map_of (sl_instances (sc_slide demo_ten)) 10 = None"
  by code_simp

lemma demo_screen_object: "is_object (demo_screen screen)"
  by (simp add: demo_screen_def demo_touch_def is_object_def set_member_def)

lemma demo_screen_id: "member ''screenId'' (demo_screen screen) = Some (JStr (to_string (uint screen)))"
  by (simp add: demo_screen_def demo_touch_def member_set_member)

theorem eleventh_screen_is_dropped_witness:
  "\<exists>s'. px_OnDispatchResource (sce_slide demo_scene) RES_TYPE_CLICK_RECOGNIZE TOUCH_EVENT_DOWN (demo_screen 10)
     (quiet (sc_slide demo_ten)) = Some s' \<and> map_of (sl_instances s') 10 = None"
proof -
  obtain s' where "px_OnDispatchResource (sce_slide demo_scene) RES_TYPE_CLICK_RECOGNIZE TOUCH_EVENT_DOWN
      (demo_screen 10) (quiet (sc_slide demo_ten)) = Some s'"
    using px_total [OF demo_screen_object outs_ok_basic(3)] by blast
  with eleventh_screen_is_dropped [OF demo_ten_reach] demo_ten_facts demo_screen_id [of 10] show ?thesis by blast
qed

section \<open>The overlapping scene\<close>

text \<open>
  The flag after a list of reports of the scene: starts and stops alternate, beginning
  with a start; \<open>None\<close> when they do not.
\<close>

definition scene_flag :: "report list \<Rightarrow> bool option" where
  "scene_flag reps = fold (\<lambda>(t, v, p) b.
     if t \<noteq> RES_TYPE_BACKGROUND_PERCEIVABLE_SCENE then b
     else if v = PERCEIVABLE_START \<and> b = Some False then Some True
     else if v = PERCEIVABLE_STOP \<and> b = Some True then Some False
     else None) reps (Some False)"

lemma scene_flag_snoc:
  "scene_flag (reps @ [(t, v, p)]) =
     (if t \<noteq> RES_TYPE_BACKGROUND_PERCEIVABLE_SCENE then scene_flag reps
      else if v = PERCEIVABLE_START \<and> scene_flag reps = Some False then Some True
      else if v = PERCEIVABLE_STOP \<and> scene_flag reps = Some True then Some False
      else None)"
  by (simp add: scene_flag_def)

lemma sc_reports_fold [simp]: "sc_reports (fold sm_report reps st) = sc_reports st @ reps"
  by (induction reps arbitrary: st) (simp_all add: sm_report_def sm_DispatchResource_def split_beta)

definition flag_ok :: "scene_state \<Rightarrow> bool" where
  "flag_ok st \<longleftrightarrow> scene_flag (sc_reports st) = Some (isInBackgroundPerceivableScene (sc_bg st))"

lemma flag_ok_other:
  "list_all (\<lambda>(t, v, p). t \<noteq> RES_TYPE_BACKGROUND_PERCEIVABLE_SCENE) reps \<Longrightarrow> scene_flag (l @ reps) = scene_flag l"
proof (induction reps rule: rev_induct)
  case (snoc rep reps)
  obtain t v p where "rep = (t, v, p)" by (cases rep)
  with snoc show ?case by (simp add: scene_flag_snoc flip: append_assoc)
qed simp

lemma sm_report_bg [simp]: "sc_bg (fold sm_report reps st) = sc_bg st"
  by (induction reps arbitrary: st) (simp_all add: sm_report_def sm_DispatchResource_def split_beta)

lemma sm_slide_bg: "sc_bg (sm_slide s st) = sc_bg st"
proof -
  have "sc_bg (fold sm_out outs st) = sc_bg st" for outs st
  proof (induction outs arbitrary: st)
    case (Cons out outs)
    have "sc_bg (sm_out out st) = sc_bg st"
      by (cases out) (simp_all add: sm_report_def sm_DispatchResource_def sm_SubmitTask_def)
    with Cons show ?case by simp
  qed simp
  then show ?thesis by (simp add: sm_slide_def)
qed

text \<open>The slide recognizers only report slides.\<close>

definition only_slide :: "slide_state \<Rightarrow> bool" where
  "only_slide s = list_all (\<lambda>out. case out of Report t v p \<Rightarrow> t = RES_TYPE_SLIDE_RECOGNIZE | _ \<Rightarrow> True) (sl_outs s)"

lemma only_slide_basic [simp]:
  "only_slide (sr_upd self f s) = only_slide s" "only_slide (skip_task h s) = only_slide s" "only_slide (quiet s)"
  "only_slide (send_draw v p s) = only_slide s" "only_slide (report_slide v p s) = only_slide s"
  "only_slide (sl_emit (SubmitTask u) s) = only_slide s" "only_slide (snd (submit_h self p d s)) = only_slide s"
  by (auto simp: only_slide_def sr_upd_def skip_task_def send_draw_def report_slide_def sl_emit_def
      submit_h_def split: option.split)

lemma only_slide_ops [simp]:
  "only_slide (restart_end self p s) = only_slide s"
  "only_slide (ReportListFlingLockedEnd self p s) = only_slide s"
  by (simp_all add: restart_end_def ReportListFlingLockedEnd_def Let_def split_beta)

lemma only_slide_ops2 [simp]:
  "only_slide (HandleListFlingStart self p s) = only_slide s"
  "only_slide (ListFlingEnd self p s) = only_slide s"
  "only_slide (StartDetecting E self p s) = only_slide s"
  by (simp_all add: HandleListFlingStart_def ListFlingEnd_def StartDetecting_def Let_def split_beta
      split: option.split json.split)

lemma only_slide_click [simp]: "only_slide (HandleClickEvent E self v p s) = only_slide s"
proof (cases "v = TOUCH_EVENT_DOWN")
  case True
  then have "\<not> is_up v" by (simp add: is_up_def res_type_defs)
  with True show ?thesis by (simp add: HandleClickEvent_def Let_def)
next
  case False
  then show ?thesis by (cases "is_up v") (simp_all add: HandleClickEvent_def Let_def)
qed

lemma only_slide_dispatch: "only_slide (sr_OnDispatchResource E self t v p s) = only_slide s"
  by (simp add: sr_OnDispatchResource_def HandleSlideEvent_def HandleSlideDetecting_def HandleSlideOFFEvent_def
      HandleSendFrameEvent_def Let_def split: slide_stat.split)

lemma flag_ok_slide:
  assumes "only_slide s" "flag_ok st"
  shows "flag_ok (sm_slide s st)"
proof -
  have "scene_flag (sc_reports (fold sm_out outs st)) = scene_flag (sc_reports st)"
    if "list_all (\<lambda>out. case out of Report t v p \<Rightarrow> t = RES_TYPE_SLIDE_RECOGNIZE | _ \<Rightarrow> True) outs" for outs st
    using that
  proof (induction outs arbitrary: st)
    case (Cons out outs)
    have "scene_flag (sc_reports (sm_out out st)) = scene_flag (sc_reports st)"
      using Cons.prems by (cases out)
        (simp_all add: sm_report_def sm_DispatchResource_def sm_SubmitTask_def scene_flag_snoc res_type_defs)
    with Cons show ?case by simp
  qed simp
  with assms show ?thesis by (simp add: flag_ok_def only_slide_def sm_slide_bg) (simp add: sm_slide_def)
qed

lemma flag_ok_run:
  assumes run: "run_task E task st = Some st'" and ok: "flag_ok st"
  shows "flag_ok st'"
proof (cases task)
  case (RunSlide u)
  with run ok show ?thesis by (cases u) (auto simp: run_task_def run_slide_task_def intro: flag_ok_slide)
next
  case (Recognize k t v p)
  show ?thesis
  proof (cases k)
    case CONTINUOUS_APP_INSTALL_RECOGNIZER
    obtain i reps where i: "in_OnDispatchResource t v (sc_install st) = (i, reps)" by force
    then have "list_all (\<lambda>(t, v, p). t \<noteq> RES_TYPE_BACKGROUND_PERCEIVABLE_SCENE) reps"
      by (auto simp: in_OnDispatchResource_def Let_def res_type_defs split: if_splits)
    with run ok Recognize CONTINUOUS_APP_INSTALL_RECOGNIZER i show ?thesis
      by (auto simp: run_task_def flag_ok_def flag_ok_other)
  next
    case SYSTEM_UPGRADE_SCENE_RECOGNIZER
    have "list_all (\<lambda>(t, v, p). t \<noteq> RES_TYPE_BACKGROUND_PERCEIVABLE_SCENE) (up_OnDispatchResource (sc_upgraded st) t)"
      by (auto simp: up_OnDispatchResource_def res_type_defs split: if_splits)
    with run ok Recognize SYSTEM_UPGRADE_SCENE_RECOGNIZER show ?thesis
      by (auto simp: run_task_def flag_ok_def flag_ok_other)
  next
    case BACKGROUND_SENSITIVE_TASK_OVERLAPPING_SCENE_RECOGNIZER
    with run Recognize obtain b reps where
      b: "bg_OnDispatchResource (sce_bg E) t v p (sc_bg st) = Some (b, reps)"
        "st' = fold sm_report reps (st\<lparr>sc_bg := b\<rparr>)" by (auto simp: run_task_def)
    from bg_shape_dispatch [OF b(1)] ok b(2) show ?thesis
      by (auto simp: bg_shape_def flag_ok_def scene_flag_snoc res_type_defs)
  next
    case SLIDE_RECOGNIZER
    with run Recognize obtain s where
      px: "px_OnDispatchResource (sce_slide E) t v p (quiet (sc_slide st)) = Some s" and st': "st' = sm_slide s st"
      by (auto simp: run_task_def)
    obtain screen s1 where c: "choose_screen (sce_slide E) t v p (quiet (sc_slide st)) = (screen, s1)" by force
    obtain self s2 where g: "GetOrCreateInstance screen s1 = (self, s2)" by force
    have "sl_outs s2 = []" using get_instance_outs [of screen s1] choose_screen_frame [OF c] by (simp add: g)
    then have "only_slide s2" by (simp add: only_slide_def)
    with px have "only_slide s"
      by (auto simp: px_OnDispatchResource_def c g only_slide_dispatch split: if_splits)
    with ok st' show ?thesis by (simp add: flag_ok_slide)
  qed
qed

lemma flag_ok_step:
  assumes "scene_step st st'" "flag_ok st"
  shows "flag_ok st'"
  using assms(1)
proof cases
  case (run task q E)
  have "flag_ok (st\<lparr>sc_queue := q\<rparr>)" using assms(2) by (simp add: flag_ok_def)
  with flag_ok_run [OF run(2)] show ?thesis by blast
next
  case (timer t)
  have "only_slide (timer_fires t (quiet (sc_slide st)))"
    by (simp add: timer_fires_def) (simp add: only_slide_def)
  with timer assms(2) show ?thesis by (simp add: sm_timer_def flag_ok_slide)
next
  case (exit_install h)
  with assms(2) show ?thesis
    by (simp add: sm_exit_install_def exit_install_fires_def flag_ok_def sm_report_def sm_DispatchResource_def
        scene_flag_snoc res_type_defs)
qed (use assms(2) in \<open>simp_all add: flag_ok_def sm_DispatchResource_def sm_SetListFlingTimeoutTime_def
    sm_SetListFlingEndTime_def sm_SetListFlingSpeedLimit_def\<close>)

text \<open>
  The starts and stops of the overlapping scene that are reported alternate, beginning
  with a start, and the recognizer's flag says which one was last, in every reachable state.
\<close>

theorem overlap_reports_alternate:
  assumes "scene_reach st"
  shows "scene_flag (sc_reports st) = Some (isInBackgroundPerceivableScene (sc_bg st))"
proof -
  have "flag_ok st"
    using assms
  proof (induction rule: scene_reach.induct)
    case (start GetParameter old)
    show ?case by (simp add: flag_ok_def scene_new_def bg_new_def scene_flag_def)
  next
    case (step st st')
    then show ?case using flag_ok_step by blast
  qed
  then show ?thesis by (simp add: flag_ok_def)
qed

text \<open>Two applications with sensitive tasks behind a third one, and the end of one of the tasks.\<close>

definition demo_task :: "string \<Rightarrow> json" where
  "demo_task pid = JObj [(''pid'', JStr pid), (''typeIds'', JArr [JUint 2])]"

definition demo_overlap :: scene_state where
  "demo_overlap =
     feed demo_scene RES_TYPE_CONTINUOUS_TASK CONTINUOUS_TASK_START (demo_task ''12'')
       (feed demo_scene RES_TYPE_CONTINUOUS_TASK CONTINUOUS_TASK_START (demo_task ''11'')
         (feed demo_scene RES_TYPE_APP_STATE_CHANGE PROCESS_FOREGROUND (JObj [(''pid'', JStr ''10'')])
           (scene_new (\<lambda>k. []) [])))"

lemma demo_overlap_reach: "scene_reach demo_overlap"
  unfolding demo_overlap_def by (intro feed_reach scene_reach.start)

lemma demo_overlap_facts:
  "isInBackgroundPerceivableScene (sc_bg demo_overlap) \<and> length (perceivableTasks (sc_bg demo_overlap)) = 2"
  by code_simp

theorem overlap_reports_alternate_witness: "scene_flag (sc_reports demo_overlap) = Some True"
  using overlap_reports_alternate [OF demo_overlap_reach] demo_overlap_facts by simp

text \<open>
  The overlapping scene is left at the first task that ends, however many sensitive
  tasks remain: the test for entering is false inside the scene, so its negation, which the
  log calls the end of all tasks, always holds there.
\<close>

theorem first_stop_leaves_scene:
  assumes "isInBackgroundPerceivableScene b" "map_of (perceivableTasks b) pid \<noteq> None"
  shows "HandleTaskStop pid b =
    (b\<lparr>perceivableTasks := om_del pid (perceivableTasks b), isInBackgroundPerceivableScene := False\<rparr>,
     [(RES_TYPE_BACKGROUND_PERCEIVABLE_SCENE, PERCEIVABLE_STOP, JNull)])"
  using assms by (simp add: HandleTaskStop_def CheckEnterScene_def ExitScene_def Let_def)

theorem first_stop_leaves_scene_witness:
  "\<exists>b. length (perceivableTasks b) = 3 \<and> CheckEnterScene (b\<lparr>isInBackgroundPerceivableScene := False\<rparr>) \<and>
     snd (HandleTaskStop 11 b) = [(RES_TYPE_BACKGROUND_PERCEIVABLE_SCENE, PERCEIVABLE_STOP, JNull)] \<and>
     CheckEnterScene (fst (HandleTaskStop 11 b))"
proof -
  let ?b = "\<lparr>foregroundPid = 10, sceneboardPid = 1, perceivableTasks = [(11, [2]), (12, [2]), (13, [2])],
    isInBackgroundPerceivableScene = True\<rparr>"
  from first_stop_leaves_scene [of ?b 11] show ?thesis
    by (intro exI [of _ ?b]) (simp add: CheckEnterScene_def om_del_def)
qed

end
