(* ===== verification/Res_Sched_Mgr.thy ===== *)
theory Res_Sched_Mgr
  imports Plugin_Mgr_Model Scene_Model Notifier_Mgr
begin

text \<open>
  \<open>ResSchedMgr\<close> (resschedfwk/src/res_sched_mgr.cpp) and \<open>KillProcess\<close> (kill_process.cpp): the
  centre of the service.  An event goes to the plugin manager and to the scene recognizers;
  what a recognizer reports comes back here.  The component also knows the processes in the
  foreground, the event types that extensions allow callers to report, and starts the
  plugins.  The application manager and the executor process are parameters.
\<close>

section \<open>Data\<close>

text \<open>
  A \<open>std::map\<close> built from a list keeps the first entry of a key; one entry depends on the
  build (\<open>RESSCHED_RESOURCESCHEDULE_FILE_COPY_SOC_PERF_ENABLE\<close>).
\<close>

definition resTypeToStr :: "bool \<Rightarrow> (u32, string) omap" where
  "resTypeToStr file_copy = foldr (\<lambda>(k, v) m. if k = RES_TYPE_FILE_COPY_STATUS \<and> \<not> file_copy then m else om_put k v m)
     [(SYNC_RES_TYPE_THAW_ONE_APP, ''SYNC_RES_TYPE_THAW_ONE_APP''),
      (SYNC_RES_TYPE_GET_APP_TYPE, ''SYNC_RES_TYPE_GET_APP_TYPE''),
      (SYNC_RES_TYPE_GET_ALL_SUSPEND_STATE, ''SYNC_RES_TYPE_GET_ALL_SUSPEND_STATE''),
      (SYNC_RES_TYPE_GET_THERMAL_DATA, ''SYNC_RES_TYPE_GET_THERMAL_DATA''),
      (RES_TYPE_SCREEN_STATUS, ''SCREEN_STATUS''),
      (RES_TYPE_APP_STATE_CHANGE, ''APP_STATE_CHANGE''),
      (RES_TYPE_ABILITY_STATE_CHANGE, ''ABILITY_STATE_CHANGE''),
      (RES_TYPE_EXTENSION_STATE_CHANGE, ''EXTENSION_STATE_CHANGE''),
      (RES_TYPE_PROCESS_STATE_CHANGE, ''PROCESS_STATE_CHANGE''),
      (RES_TYPE_WINDOW_FOCUS, ''WINDOW_FOCUS''),
      (RES_TYPE_TRANSIENT_TASK, ''TRANSIENT_TASK''),
      (RES_TYPE_CONTINUOUS_TASK, ''CONTINUOUS_TASK''),
      (RES_TYPE_CGROUP_ADJUSTER, ''CGROUP_ADJUSTER''),
      (RES_TYPE_CLICK_RECOGNIZE, ''CLICK_RECOGNIZE''),
      (RES_TYPE_PUSH_PAGE, ''PUSH_PAGE''),
      (RES_TYPE_SLIDE_RECOGNIZE, ''SLIDE_RECOGNIZE''),
      (RES_TYPE_WINDOW_VISIBILITY_CHANGE, ''WINDOW_VISIBILITY_CHANGE''),
      (RES_TYPE_REPORT_MMI_PROCESS, ''REPORT_MMI_PROCESS''),
      (RES_TYPE_REPORT_RENDER_THREAD, ''REPORT_RENDER_THREAD''),
      (RES_TYPE_APP_INSTALL_UNINSTALL, ''APP_INSTALL_UNINSTALL''),
      (RES_TYPE_WIFI_CONNECT_STATE_CHANGE, ''WIFI_CONNECT_STATE_CHANGE''),
      (RES_TYPE_USER_SWITCH, ''USER_SWITCH''),
      (RES_TYPE_USER_REMOVE, ''USER_REMOVE''),
      (RES_TYPE_SCREEN_LOCK, ''SCREEN_LOCK''),
      (RES_TYPE_BLUETOOTH_A2DP_CONNECT_STATE_CHANGE, ''BLUETOOTH_A2DP_CONNECT_STATE_CHANGE''),
      (RES_TYPE_NETWORK_LATENCY_REQUEST, ''NETWORK_LATENCY_REQUEST''),
      (RES_TYPE_CALL_STATE_UPDATE, ''CALL_STATE_UPDATE''),
      (RES_TYPE_THREAD_QOS_CHANGE, ''THREAD_QOS_CHANGE''),
      (RES_TYPE_PROCESS_QOS_CHANGE, ''PROCESS_QOS_CHANGE''),
      (RES_TYPE_AUDIO_RENDER_STATE_CHANGE, ''AUDIO_RENDER_STATE_CHANGE''),
      (RES_TYPE_AUDIO_RING_MODE_CHANGE, ''AUDIO_RING_MODE_CHANGE''),
      (RES_TYPE_AUDIO_VOLUME_KEY_CHANGE, ''AUDIO_VOLUME_KEY_CHANGE''),
      (RES_TYPE_APP_ABILITY_START, ''APP_ABILITY_START''),
      (RES_TYPE_PRELOAD_APPLICATION, ''RES_TYPE_PRELOAD_APPLICATION''),
      (RES_TYPE_POP_PAGE, ''POP_PAGE''),
      (RES_TYPE_WEB_GESTURE, ''WEB_GESTURE''),
      (RES_TYPE_DEVICE_STILL_STATE_CHANGE, ''DEVICE_STILL_STATE_CHANGE''),
      (RES_TYPE_RESIZE_WINDOW, ''RES_TYPE_RESIZE_WINDOW''),
      (RES_TYPE_MOVE_WINDOW, ''RES_TYPE_MOVE_WINDOW''),
      (RES_TYPE_SHOW_REMOTE_ANIMATION, ''RES_TYPE_SHOW_REMOTE_ANIMATION''),
      (RES_TYPE_LOAD_PAGE, ''RES_TYPE_LOAD_PAGE''),
      (RES_TYPE_REPORT_CAMERA_STATE, ''RES_TYPE_REPORT_CAMERA_STATE''),
      (RES_TYPE_RUNNINGLOCK_STATE, ''RES_TYPE_RUNNINGLOCK_STATE''),
      (RES_TYPE_DRAG_STATUS_BAR, ''RES_TYPE_DRAG_STATUS_BAR''),
      (RES_TYPE_REPORT_SCENE_BOARD, ''RES_TYPE_REPORT_SCENE_BOARD''),
      (RES_TYPE_REPORT_KEY_THREAD, ''RES_TYPE_REPORT_KEY_THREAD''),
      (RES_TYPE_REPORT_WINDOW_STATE, ''RES_TYPE_REPORT_WINDOW_STATE''),
      (RES_TYPE_REPORT_SCENE_SCHED, ''RES_TYPE_REPORT_SCENE_SCHED''),
      (RES_TYPE_WEB_GESTURE_MOVE, ''RES_TYPE_WEB_GESTURE_MOVE''),
      (RES_TYPE_WEB_SLIDE_NORMAL, ''RES_TYPE_WEB_SLIDE_NORMAL''),
      (RES_TYPE_LOAD_URL, ''RES_TYPE_LOAD_URL''),
      (RES_TYPE_MOUSEWHEEL, ''RES_TYPE_MOUSEWHEEL''),
      (RES_TYPE_WEBVIEW_AUDIO_STATUS_CHANGE, ''RES_TYPE_WEBVIEW_AUDIO_STATUS_CHANGE''),
      (RES_TYPE_MMI_INPUT_STATE, ''RES_TYPE_MMI_INPUT_STATE''),
      (RES_TYPE_ANCO_CUST, ''RES_TYPE_ANCO_CUST''),
      (RES_TYPE_TIMEZONE_CHANGED, ''RES_TYPE_TIMEZONE_CHANGED''),
      (RES_TYPE_TIME_CHANGED, ''RES_TYPE_TIME_CHANGED''),
      (RES_TYPE_NITZ_TIME_CHANGED, ''RES_TYPE_NITZ_TIME_CHANGED''),
      (RES_TYPE_NITZ_TIMEZONE_CHANGED, ''RES_TYPE_NITZ_TIMEZONE_CHANGED''),
      (RES_TYPE_CHARGING_DISCHARGING, ''RES_TYPE_CHARGING_DISCHARGING''),
      (RES_TYPE_USB_DEVICE, ''RES_TYPE_USB_DEVICE''),
      (RES_TYPE_CALL_STATE_CHANGED, ''RES_TYPE_CALL_STATE_CHANGED''),
      (RES_TYPE_WIFI_P2P_STATE_CHANGED, ''RES_TYPE_WIFI_P2P_STATE_CHANGED''),
      (RES_TYPE_CONNECTION_OBSERVER, ''RES_TYPE_CONNECTION_OBSERVER''),
      (RES_TYPE_AV_SESSION_ON_SESSION_CREATE, ''RES_TYPE_AV_SESSION_ON_SESSION_CREATE''),
      (RES_TYPE_AV_SESSION_ON_SESSION_RELEASE, ''RES_TYPE_AV_SESSION_ON_SESSION_RELEASE''),
      (RES_TYPE_AV_SESSION_ON_TOP_SESSION_CHANGE, ''RES_TYPE_AV_SESSION_ON_TOP_SESSION_CHANGE''),
      (RES_TYPE_ON_APP_STATE_CHANGED, ''RES_TYPE_ON_APP_STATE_CHANGED''),
      (RES_TYPE_PROCESS_PRE_FOREGROUND_CHANGE, ''RES_TYPE_PROCESS_PRE_FOREGROUND_CHANGE''),
      (RES_TYPE_EFFICIENCY_RESOURCES_STATE_CHANGED, ''RES_TYPE_EFFICIENCY_RESOURCES_STATE_CHANGED''),
      (RES_TYPE_AV_CODEC_STATE, ''RES_TYPE_AV_CODEC_STATE''),
      (RES_TYPE_APP_ASSOCIATED_START, ''RES_TYPE_APP_ASSOCIATED_START''),
      (RES_TYPE_THERMAL_STATE, ''RES_TYPE_THERMAL_STATE''),
      (RES_TYPE_SOCPERF_CUST_EVENT_BEGIN, ''RES_TYPE_SOCPERF_CUST_EVENT_BEGIN''),
      (RES_TYPE_SOCPERF_CUST_EVENT_END, ''RES_TYPE_SOCPERF_CUST_EVENT_END''),
      (RES_TYPE_WINDOW_DRAWING_CONTENT_CHANGE, ''RES_TYPE_WINDOW_DRAWING_CONTENT_CHANGE''),
      (RES_TYPE_REPORT_SCREEN_CAPTURE, ''RES_TYPE_REPORT_SCREEN_CAPTURE''),
      (RES_TYPE_LONG_FRAME, ''RES_TYPE_LONG_FRAME''),
      (RES_TYPE_KEY_PERF_SCENE, ''RES_TYPE_KEY_PERF_SCENE''),
      (RES_TYPE_SUPER_LAUNCHER, ''RES_TYPE_SUPER_LAUNCHER''),
      (RES_TYPE_CAST_SCREEN, ''RES_TYPE_CAST_SCREEN''),
      (RES_TYPR_SCREEN_COLLABROATION, ''RES_TYPR_SCREEN_COLLABROATION''),
      (RES_TYPE_SA_CONTROL_APP_EVENT, ''RES_TYPE_SA_CONTROL_APP_EVENT''),
      (RES_TYPE_SYSTEM_CPU_LOAD, ''RES_TYPE_SYSTEM_CPU_LOAD''),
      (RES_TYPE_UPLOAD_DOWNLOAD, ''RES_TYPE_UPLOAD_DOWNLOAD''),
      (RES_TYPE_SPLIT_SCREEN, ''RES_TYPE_SPLIT_SCREEN''),
      (RES_TYPE_FLOATING_WINDOW, ''RES_TYPE_FLOATING_WINDOW''),
      (RES_TYPE_REPORT_DISTRIBUTE_TID, ''RES_TYPE_REPORT_DISTRIBUTE_TID''),
      (RES_TYPE_FRAME_RATE_REPORT, ''RES_TYPE_FRAME_RATE_REPORT''),
      (RES_TYPE_WEB_DRAG_RESIZE, ''RES_TYPE_WEB_DRAG_RESIZE''),
      (RES_TYPE_WEBVIEW_SCREEN_CAPTURE, ''RES_TYPE_WEBVIEW_SCREEN_CAPTURE''),
      (RES_TYPE_WEBVIEW_VIDEO_STATUS_CHANGE, ''RES_TYPE_WEBVIEW_VIDEO_STATUS_CHANGE''),
      (RES_TYPE_LOCATION_STATUS_CHANGE, ''RES_TYPE_LOCATION_STATUS_CHANGE''),
      (RES_TYPE_DEVICE_MODE_STATUS, ''RES_TYPE_DEVICE_MODE_STATUS''),
      (RES_TYPE_REPORT_DISTRIBUTE_COMPONENT_CHANGE, ''RES_TYPE_REPORT_DISTRIBUTE_COMPONENT_CHANGE''),
      (RES_TYPE_FORM_STATE_CHANGE_EVENT, ''RES_TYPE_FORM_STATE_CHANGE_EVENT''),
      (RES_TYPE_POWER_MODE_CHANGED, ''RES_TYPE_POWER_MODE_CHANGED''),
      (RES_TYPE_THERMAL_SCENARIO_REPORT, ''RES_TYPE_THERMAL_SCENARIO_REPORT''),
      (SYNC_RES_TYPE_SHOULD_FORCE_KILL_PROCESS, ''SYNC_RES_TYPE_SHOULD_FORCE_KILL_PROCESS''),
      (RES_TYPE_BOOT_COMPLETED, ''RES_TYPE_BOOT_COMPLETED''),
      (RES_TYPE_CONTINUOUS_STARTUP, ''RES_TYPE_CONTINUOUS_STARTUP''),
      (RES_TYPE_AUDIO_RENDERER_SILENT_PLAYBACK, ''RES_TYPE_AUDIO_RENDERER_SILENT_PLAYBACK''),
      (RES_TYPE_REPORT_GAME_SCHED, ''RES_TYPE_REPORT_GAME_SCHED''),
      (RES_TYPE_BT_SERVICE_EVENT, ''RES_TYPE_BT_SERVICE_EVENT''),
      (RES_TYPE_APP_FRAME_DROP, ''RES_TYPE_APP_FRAME_DROP''),
      (RES_TYPE_CLOUD_CONFIG_UPDATE, ''RES_TYPE_CLOUD_CONFIG_UPDATE''),
      (RES_TYPE_GAME_INFO_NOTIFY, ''RES_TYPE_GAME_INFO_NOTIFY''),
      (RES_TYPE_RSS_CLOUD_CONFIG_UPDATE, ''RES_TYPE_RSS_CLOUD_CONFIG_UPDATE''),
      (RES_TYPE_APP_GAME_BOOST_EVENT, ''RES_TYPE_APP_GAME_BOOST_EVENT''),
      (RES_TYPE_GESTURE_ANIMATION, ''RES_TYPE_GESTURE_ANIMATION''),
      (RES_TYPE_AUDIO_RENDERER_STANDBY, ''RES_TYPE_AUDIO_RENDERER_STANDBY''),
      (RES_TYPE_AXIS_EVENT, ''RES_TYPE_AXIS_EVENT''),
      (RES_TYPE_INTENT_CTRL_APP, ''RES_TYPE_INTENT_CTRL_APP''),
      (RES_TYPE_DISPLAY_MULTI_SCREEN, ''RES_TYPE_DISPLAY_MULTI_SCREEN''),
      (RES_TYPE_CROWN_ROTATION_STATUS, ''RES_TYPE_CROWN_ROTATION_STATUS''),
      (SYNC_RES_TYPE_APP_IS_IN_TAIHANG_LIST, ''SYNC_RES_TYPE_APP_IS_IN_TAIHANG_LIST''),
      (RES_TYPE_RED_ENVELOPE, ''RES_TYPE_RED_ENVELOPE''),
      (RES_TYPE_GET_GAME_SCENE_INFO, ''RES_TYPE_GET_GAME_SCENE_INFO''),
      (RES_TYPE_RAISE_WORKER_THREAD_PRIORITY, ''RES_TYPE_RAISE_WORKER_THREAD_PRIORITY''),
      (SYNC_RES_TYPE_GET_SUSPEND_STATE_BY_UID, ''SYNC_RES_TYPE_GET_SUSPEND_STATE_BY_UID''),
      (SYNC_RES_TYPE_GET_SUSPEND_STATE_BY_PID, ''SYNC_RES_TYPE_GET_SUSPEND_STATE_BY_PID''),
      (RES_TYPE_CAMERA_RESET_PRIORITY, ''RES_TYPE_CAMERA_RESET_PRIORITY''),
      (RES_TYPE_LOAD_KILL_REASON_CONFIG, ''RES_TYPE_LOAD_KILL_REASON_CONFIG''),
      (RES_TYPE_COMPONENT_STATE_CHANGE, ''RES_TYPE_COMPONENT_STATE_CHANGE''),
      (RES_TYPE_FLOAT_START_FROM_SIDEBAR, ''RES_TYPE_FLOAT_START_FROM_SIDEBAR''),
      (SYNC_RES_TYPE_DFX_CTRL_IMAGE_INTERFACE, ''SYNC_RES_TYPE_DFX_CTRL_IMAGE_INTERFACE''),
      (RES_TYPE_FILE_COPY_STATUS, ''RES_TYPE_FILE_COPY_STATUS''),
      (RES_TYPE_CHECK_APP_IS_IN_SCHEDULE_LIST, ''RES_TYPE_CHECK_APP_IS_IN_SCHEDULE_LIST''),
      (RES_TYPE_PAGE_TRANSITION, ''RES_TYPE_PAGE_TRANSITION''),
      (RES_TYPE_DYNAMICALLY_SET_SUSPEND_EXEMPT, ''RES_TYPE_DYNAMICALLY_SET_SUSPEND_EXEMPT''),
      (RES_TYPE_WEB_SLIDE_SCROLL, ''RES_TYPE_WEB_SLIDE_SCROLL''),
      (RES_TYPE_PARAM_UPDATE_EVENT, ''RES_TYPE_PARAM_UPDATE_EVENT''),
      (RES_TYPE_WIFI_POWER_STATE_CHANGE, ''RES_TYPE_WIFI_POWER_STATE_CHANGE''),
      (RES_TYPE_OVERLAY_EVENT, ''RES_TYPE_OVERLAY_EVENT''),
      (RES_TYPE_APP_OPT_FROM_RECENT, ''RES_TYPE_APP_OPT_FROM_RECENT''),
      (RES_TYPE_SWIPE_DIRECTION_UP, ''RES_TYPE_SWIPE_DIRECTION_UP''),
      (RES_TYPE_WINDOW_PANEL, ''RES_TYPE_WINDOW_PANEL''),
      (RES_TYPE_WINDOW_SPLIT_SCREEN, ''RES_TYPE_WINDOW_SPLIT_SCREEN''),
      (RES_TYPE_SUPPLY_LEVEL, ''RES_TYPE_SUPPLY_LEVEL''),
      (RES_TYPE_DEVICE_IDLE_CHANGED, ''RES_TYPE_DEVICE_IDLE_CHANGED''),
      (RES_TYPE_USER_SLEEP_STATE_CHANGED, ''RES_TYPE_USER_SLEEP_STATE_CHANGED''),
      (RES_TYPE_ADJUST_PROTECTLRU_RECLAIM_RATIO, ''RES_TYPE_ADJUST_PROTECTLRU_RECLAIM_RATIO''),
      (RES_TYPE_BACKGROUND_STATUS, ''RES_TYPE_BACKGROUND_STATUS''),
      (SYNC_RES_TYPE_QUERY_TOPN_BUNDLE_USAGE_INFO, ''SYNC_RES_TYPE_QUERY_TOPN_BUNDLE_USAGE_INFO''),
      (RES_TYPE_MEM_OFF_PEAK, ''RES_TYPE_MEM_OFF_PEAK''),
      (RES_TYPE_NAP_MODE, ''RES_TYPE_NAP_MODE''),
      (RES_TYPE_BACKPRESSED_EVENT, ''RES_TYPE_BACKPRESSED_EVENT''),
      (SYNC_RES_TYPE_GET_SMART_GC_SCENE_INFO, ''SYNC_RES_TYPE_GET_SMART_GC_SCENE_INFO''),
      (RES_TYPE_LIVE_VIEW_EVENT, ''RES_TYPE_LIVE_VIEW_EVENT''),
      (RES_TYPE_IME_QOS_CHANGE, ''RES_TYPE_IME_QOS_CHANGE''),
      (RES_TYPE_WEB_SUBWIN_TASK, ''RES_TYPE_WEB_SUBWIN_TASK''),
      (RES_TYPE_CTRL_FORKALL_IMAGE_INTERFACE, ''RES_TYPE_CTRL_FORKALL_IMAGE_INTERFACE''),
      (RES_TYPE_CREATE_LIVING_APP_PROCESS, ''RES_TYPE_CREATE_LIVING_APP_PROCESS''),
      (RES_TYPE_IMAGE_PROCESS_STATE_CHANGED, ''RES_TYPE_IMAGE_PROCESS_STATE_CHANGED''),
      (SYNC_RES_TYPE_GET_IS_TEMPLATE_PROCESS, ''SYNC_RES_TYPE_GET_IS_TEMPLATE_PROCESS''),
      (RES_TYPE_SNAPSHOT_FAILURE, ''RES_TYPE_SNAPSHOT_FAILURE''),
      (SYNC_RES_TYPE_FORKALL_CONFIG_CHANGE, ''SYNC_RES_TYPE_FORKALL_CONFIG_CHANGE''),
      (RES_TYPE_INPUT_METHOD_CHANGE, ''RES_TYPE_INPUT_METHOD_CHANGE''),
      (SYNC_RES_TYPE_GET_UI_NODE_GC_CONFIG, ''SYNC_RES_TYPE_GET_UI_NODE_GC_CONFIG''),
      (SYNC_RES_TYPE_NOTIFY_MAKE_IMAGE, ''SYNC_RES_TYPE_NOTIFY_MAKE_IMAGE''),
      (RES_TYPE_NEARLINK_SERVICE_EVENT, ''RES_TYPE_NEARLINK_SERVICE_EVENT''),
      (RES_TYPE_REPORT_NFC_SIGNAL, ''RES_TYPE_REPORT_NFC_SIGNAL''),
      (RES_TYPE_DISTRIBUTED_CONTINUATION_EVENT, ''RES_TYPE_DISTRIBUTED_CONTINUATION_EVENT''),
      (RES_TYPE_BGTASK_ADJUST_EVENT, ''RES_TYPE_BGTASK_ADJUST_EVENT''),
      (RES_TYPE_DIALOG_SHOW_EVENT, ''RES_TYPE_DIALOG_SHOW_EVENT''),
      (RES_TYPE_LV_INTO_INIM, ''RES_TYPE_LV_INTO_INIM''),
      (RES_TYPE_CAMERA_TORCH_STATE_CHANGE, ''RES_TYPE_CAMERA_TORCH_STATE_CHANGE'')] []"

text \<open>
  The framework: what the plugin manager and the recognizers use, the applications in the
  foreground (\<open>None\<close> when the application manager is absent or fails), the application states,
  and whether a process could be killed.
\<close>

record rm_env =
  re_pm :: pm_env
  re_scene :: scene_env
  re_nm :: nm_env
  re_file_copy :: bool
  re_foreground :: "i32 list option"
  re_kill :: "i32 \<Rightarrow> i32"

datatype rm_out =
    ExecutorInit "string list" "string list"
  | KillRequest i32
  | ExitReason i32 string

record rm_state =
  rm_pm :: pm_state
  rm_scene :: scene_state
  rm_nm :: nm_state
  foregroundPids :: "i32 list"
  allowSCBReportResExt :: "u32 list"
  allowAllSAReportResExt :: "u32 list"
  allowSomeSAReportResExt :: "(u32 \<times> i32 list) list"
  allowAllAppReportResExt :: "u32 list"
  allowFgAppReportResExt :: "u32 list"
  killProcess :: bool
  ipcInitFlag :: bool
  rm_outs :: "rm_out list"

definition rm_emit :: "rm_out \<Rightarrow> rm_state \<Rightarrow> rm_state" where
  "rm_emit out st = st\<lparr>rm_outs := rm_outs st @ [out]\<rparr>"

text \<open>\<open>insert\<close> of a range into an \<open>unordered_set\<close>.\<close>

definition set_add :: "'a list \<Rightarrow> 'a list \<Rightarrow> 'a list" where
  "set_add new old = old @ filter (\<lambda>x. x \<notin> set old) new"

section \<open>Events\<close>

definition ReportDataInner :: "rm_env \<Rightarrow> i64 \<Rightarrow> u32 \<Rightarrow> i64 \<Rightarrow> json \<Rightarrow> rm_state \<Rightarrow> rm_state" where
  "ReportDataInner E now resType value payload st =
     st\<lparr>rm_pm := pm_DispatchResource (re_pm E) now
          (Some \<lparr>rd_type = resType, rd_value = value, rd_payload = payload\<rparr>) (rm_pm st),
        rm_scene := sm_DispatchResource resType value payload (rm_scene st)\<rparr>"

definition rm_ReportData :: "rm_env \<Rightarrow> i64 \<Rightarrow> u32 \<Rightarrow> i64 \<Rightarrow> json \<Rightarrow> rm_state \<Rightarrow> rm_state" where
  "rm_ReportData E now resType value payload st = ReportDataInner E now resType value payload st"

text \<open>
  A step of the recognizers (a queued or a delayed task): the manager has already queued what
  they report for themselves, and the plugin manager gets it too.
\<close>

definition plugin_report :: "rm_env \<Rightarrow> i64 \<Rightarrow> report \<Rightarrow> pm_state \<Rightarrow> pm_state" where
  "plugin_report E now rep pm =
     (case rep of (resType, value, payload) \<Rightarrow>
        pm_DispatchResource (re_pm E) now
          (Some \<lparr>rd_type = resType, rd_value = value, rd_payload = payload\<rparr>) pm)"

definition rm_scene_step :: "rm_env \<Rightarrow> i64 \<Rightarrow> scene_state \<Rightarrow> rm_state \<Rightarrow> rm_state" where
  "rm_scene_step E now sm st =
     st\<lparr>rm_scene := sm,
        rm_pm := fold (plugin_report E now) (drop (length (sc_reports (rm_scene st))) (sc_reports sm)) (rm_pm st)\<rparr>"

definition rm_run_task :: "rm_env \<Rightarrow> i64 \<Rightarrow> rm_state \<Rightarrow> rm_state option" where
  "rm_run_task E now st =
     (case sc_queue (rm_scene st) of
        [] \<Rightarrow> Some st
      | task # q \<Rightarrow>
          map_option (\<lambda>sm. rm_scene_step E now sm st)
            (run_task (re_scene E) task ((rm_scene st)\<lparr>sc_queue := q\<rparr>)))"

section \<open>Starting and stopping\<close>

definition InitExecutorPlugin :: "rm_env \<Rightarrow> bool \<Rightarrow> rm_state \<Rightarrow> rm_state" where
  "InitExecutorPlugin E isProcessInit st =
     (let configStrs = GetConfigReaderStr (re_pm E);
          switchStrs = GetPluginSwitchStr (re_pm E);
          st1 = rm_emit (ExecutorInit configStrs switchStrs) st
      in (if isProcessInit
          then st1\<lparr>rm_pm := ParsePluginSwitch (re_pm E) switchStrs False
                              (ParseConfigReader (re_pm E) configStrs (rm_pm st1))\<rparr>
          else st1)\<lparr>ipcInitFlag := True\<rparr>)"

definition rm_Init :: "rm_env \<Rightarrow> i64 \<Rightarrow> rm_state \<Rightarrow> rm_state" where
  "rm_Init E now st =
     InitExecutorPlugin E True
       (st\<lparr>rm_pm := SetResTypeStrMap (resTypeToStr (re_file_copy E)) (pm_Init (re_pm E) now (rm_pm st)), killProcess := True\<rparr>)"

definition rm_Stop :: "rm_env \<Rightarrow> rm_state \<Rightarrow> rm_state" where
  "rm_Stop E st = st\<lparr>rm_pm := pm_Stop (re_pm E) (rm_pm st)\<rparr>"

section \<open>Foreground processes\<close>

definition rm_OnApplicationStateChange :: "rm_env \<Rightarrow> i32 \<Rightarrow> i32 \<Rightarrow> rm_state \<Rightarrow> rm_state" where
  "rm_OnApplicationStateChange E state pid st =
     (let st1 = (if state = NM_FOREGROUND (re_nm E) \<and> pid \<notin> set (foregroundPids st)
                 then st\<lparr>foregroundPids := pid # foregroundPids st\<rparr> else st)
      in if state = NM_BACKGROUND (re_nm E) \<or> state = NM_TERMINATED (re_nm E) \<or> state = NM_END (re_nm E)
         then st1\<lparr>foregroundPids := removeAll pid (foregroundPids st1)\<rparr> else st1)"

definition IsForegroundApp :: "i32 \<Rightarrow> rm_state \<Rightarrow> bool" where
  "IsForegroundApp pid st = (pid \<in> set (foregroundPids st))"

definition InitForegroundAppInfo :: "rm_env \<Rightarrow> rm_state \<Rightarrow> rm_state" where
  "InitForegroundAppInfo E st =
     (case re_foreground E of
        None \<Rightarrow> st
      | Some pids \<Rightarrow>
          st\<lparr>foregroundPids := fold (\<lambda>pid l. if pid \<in> set l then l else pid # l) pids (foregroundPids st)\<rparr>)"

definition ReportAppStateInProcess :: "rm_env \<Rightarrow> i32 \<Rightarrow> i32 \<Rightarrow> rm_state \<Rightarrow> rm_state option" where
  "ReportAppStateInProcess E state pid st =
     map_option (\<lambda>nm. rm_OnApplicationStateChange E state pid (st\<lparr>rm_nm := nm\<rparr>))
       (nm_OnApplicationStateChange (re_nm E) state pid (rm_nm st))"

definition ReportProcessStateInProcess :: "rm_env \<Rightarrow> i32 \<Rightarrow> i32 \<Rightarrow> rm_state \<Rightarrow> rm_state" where
  "ReportProcessStateInProcess E state pid st = rm_OnApplicationStateChange E state pid st"

section \<open>Extensions of the access tables\<close>

definition AddAllowSCBReportResExt :: "u32 list \<Rightarrow> rm_state \<Rightarrow> rm_state" where
  "AddAllowSCBReportResExt l st = st\<lparr>allowSCBReportResExt := set_add l (allowSCBReportResExt st)\<rparr>"

definition AddAllowAllSAReportResExt :: "u32 list \<Rightarrow> rm_state \<Rightarrow> rm_state" where
  "AddAllowAllSAReportResExt l st = st\<lparr>allowAllSAReportResExt := set_add l (allowAllSAReportResExt st)\<rparr>"

definition AddAllowSomeSAReportResExt :: "(u32 \<times> i32 list) list \<Rightarrow> rm_state \<Rightarrow> rm_state" where
  "AddAllowSomeSAReportResExt l st =
     st\<lparr>allowSomeSAReportResExt := fold (\<lambda>(t, uids) m.
          AList.update t (set_add uids (case map_of m t of None \<Rightarrow> [] | Some s \<Rightarrow> s)) m)
        l (allowSomeSAReportResExt st)\<rparr>"

definition AddAllowAllAppReportResExt :: "u32 list \<Rightarrow> rm_state \<Rightarrow> rm_state" where
  "AddAllowAllAppReportResExt l st = st\<lparr>allowAllAppReportResExt := set_add l (allowAllAppReportResExt st)\<rparr>"

definition AddAllowFgAppReportResExt :: "u32 list \<Rightarrow> rm_state \<Rightarrow> rm_state" where
  "AddAllowFgAppReportResExt l st = st\<lparr>allowFgAppReportResExt := set_add l (allowFgAppReportResExt st)\<rparr>"

section \<open>kill\_process.cpp\<close>

definition RES_SCHED_KILL_PROCESS_FAIL :: i32 where "RES_SCHED_KILL_PROCESS_FAIL = - 1"

definition KillProcessByPidWithClient :: "rm_env \<Rightarrow> json \<Rightarrow> rm_state \<Rightarrow> i32 \<times> rm_state" where
  "KillProcessByPidWithClient E payload st =
     (case member ''pid'' payload of
        Some (JStr s) \<Rightarrow>
          (case StrToInt32 s of
             None \<Rightarrow> (RES_SCHED_KILL_PROCESS_FAIL, st)
           | Some pid \<Rightarrow>
               if pid \<le> 0 then (RES_SCHED_KILL_PROCESS_FAIL, st)
               else
                 (let st1 = (case member ''killReason'' payload of
                               Some (JStr reason) \<Rightarrow> rm_emit (ExitReason pid reason) st
                             | _ \<Rightarrow> st)
                  in (re_kill E pid, rm_emit (KillRequest pid) st1)))
      | _ \<Rightarrow> (RES_SCHED_KILL_PROCESS_FAIL, st))"

text \<open>The pointer \<open>killProcess_\<close> is followed without a test: \<open>None\<close> before \<open>Init\<close>.\<close>

definition KillProcessByClient :: "rm_env \<Rightarrow> json \<Rightarrow> rm_state \<Rightarrow> (i32 \<times> rm_state) option" where
  "KillProcessByClient E payload st =
     (if killProcess st then Some (KillProcessByPidWithClient E payload st) else None)"

definition ReportSyncEventInProcess :: "rm_env \<Rightarrow> i64 \<Rightarrow> u32 \<Rightarrow> i64 \<Rightarrow> json \<Rightarrow> rm_state \<Rightarrow> i32 \<times> rm_state" where
  "ReportSyncEventInProcess E now type value payload st =
     (case pm_DeliverResource (re_pm E) now
             (Some \<lparr>rd_type = type, rd_value = value, rd_payload = payload\<rparr>) (rm_pm st) of
        (ret, pm) \<Rightarrow> (ret, st\<lparr>rm_pm := pm\<rparr>))"

end
