(* ===== verification/Service_Model.thy ===== *)
theory Service_Model
  imports Res_Sched_Mgr Event_Listener_Mgr Lru_Cache
begin

text \<open>
  \<open>ResSchedService\<close> (resschedservice/src/res_sched_service.cpp), the IPC interface of the
  service: who may report which event (access tables, token types and a cached permission
  check), the limits on the rate of requests, the registration of notifiers and listeners, the
  load level with its debug override, and the dump commands.  The caller's identity, tokens,
  permissions and the clock come with each call; the JSON parser is a parameter.  Undefined
  behaviour (\<open>None\<close>) only comes from the cache and from a null queue of the notifier.
\<close>

section \<open>Access tables\<close>

definition SCB_RES :: "u32 list" where
  "SCB_RES =
     [SYNC_RES_TYPE_THAW_ONE_APP, RES_TYPE_REPORT_SCENE_BOARD, RES_TYPE_SHOW_REMOTE_ANIMATION,
      RES_TYPE_KEY_PERF_SCENE, RES_TYPE_MOVE_WINDOW, RES_TYPE_RESIZE_WINDOW,
      RES_TYPE_ONLY_PERF_APP_COLD_START, RES_TYPE_SCENE_ROTATION,
      SYNC_RES_TYPE_CHECK_MUTEX_BEFORE_START, RES_TYPE_COSMIC_CUBE_STATE_CHANGE,
      RES_TYPE_GESTURE_ANIMATION, RES_TYPE_RAISE_WORKER_THREAD_PRIORITY, RES_TYPE_RECENT_BUILD,
      RES_TYPE_APP_OPT_FROM_RECENT, RES_TYPE_SWIPE_DIRECTION_UP, RES_TYPE_WINDOW_PANEL,
      RES_TYPE_WINDOW_SPLIT_SCREEN, SYNC_RES_TYPE_REQUEST_MUTEX_STATUS,
      RES_TYPE_FLOATING_WINDOW_V1, RES_TYPE_FLOATING_WINDOW_V2, RES_TYPE_FLOATING_BALL]"

definition THIRDPART_RES :: "u32 list" where
  "THIRDPART_RES =
     [RES_TYPE_CLICK_RECOGNIZE, RES_TYPE_KEY_EVENT, RES_TYPE_PUSH_PAGE, RES_TYPE_SLIDE_RECOGNIZE,
      RES_TYPE_POP_PAGE, RES_TYPE_LOAD_PAGE, RES_TYPE_WEB_GESTURE, RES_TYPE_REPORT_KEY_THREAD,
      RES_TYPE_REPORT_WINDOW_STATE, RES_TYPE_REPORT_SCENE_SCHED, RES_TYPE_WEB_GESTURE_MOVE,
      RES_TYPE_WEB_SLIDE_NORMAL, RES_TYPE_LOAD_URL, RES_TYPE_MOUSEWHEEL,
      RES_TYPE_WEBVIEW_AUDIO_STATUS_CHANGE, RES_TYPE_REPORT_RENDER_THREAD, RES_TYPE_LONG_FRAME,
      RES_TYPE_WEBVIEW_SCREEN_CAPTURE, RES_TYPE_WEBVIEW_VIDEO_STATUS_CHANGE,
      RES_TYPE_BT_SERVICE_EVENT, RES_TYPE_APP_FRAME_DROP, RES_TYPE_GC_EVENT,
      RES_TYPE_REPORT_DISTRIBUTE_TID, RES_TYPE_AXIS_EVENT, RES_TYPE_CROWN_ROTATION_STATUS,
      RES_TYPE_RED_ENVELOPE, RES_TYPE_WEB_DRAG_RESIZE, RES_TYPE_SET_BACKGROUND_PROCESS_PRIORITY,
      RES_TYPE_SHORT_TERM_LOAD, RES_TYPE_CHECK_APP_IS_IN_SCHEDULE_LIST, RES_TYPE_PAGE_TRANSITION,
      RES_TYPE_VOICE_RECOGNIZE_WAKE, RES_TYPE_WEB_SLIDE_SCROLL, RES_TYPE_ABILITY_OR_PAGE_SWITCH,
      RES_TYPE_FLOAT_START_FROM_SIDEBAR, RES_TYPE_OVERLAY_EVENT, RES_TYPE_BACKGROUND_STATUS,
      RES_TYPE_BACKPRESSED_EVENT, SYNC_RES_TYPE_GET_SMART_GC_SCENE_INFO, RES_TYPE_WEB_SUBWIN_TASK,
      SYNC_RES_TYPE_APP_IS_IN_TAIHANG_LIST, RES_TYPE_CTRL_FORKALL_IMAGE_INTERFACE,
      RES_TYPE_SNAPSHOT_FAILURE, SYNC_RES_TYPE_GET_UI_NODE_GC_CONFIG,
      RES_TYPE_COMPONENT_STATE_CHANGE, RES_TYPE_DIALOG_SHOW_EVENT, RES_TYPE_LV_INTO_INIM]"

definition FG_THIRDPART_RES :: "u32 list" where
  "FG_THIRDPART_RES =
     [RES_TYPE_CLICK_RECOGNIZE, RES_TYPE_KEY_EVENT, RES_TYPE_SLIDE_RECOGNIZE, RES_TYPE_LOAD_URL,
      RES_TYPE_MOUSEWHEEL, RES_TYPE_LONG_FRAME, RES_TYPE_WEB_DRAG_RESIZE, RES_TYPE_APP_FRAME_DROP,
      RES_TYPE_AXIS_EVENT, RES_TYPE_WEB_SLIDE_SCROLL, RES_TYPE_OVERLAY_EVENT]"

definition SA_RES :: "bool \<Rightarrow> u32 list" where
  "SA_RES file_copy = filter (\<lambda>t. t \<noteq> RES_TYPE_FILE_COPY_STATUS \<or> file_copy)
     [SYNC_RES_TYPE_THAW_ONE_APP, SYNC_RES_TYPE_GET_ALL_SUSPEND_STATE,
      SYNC_RES_TYPE_GET_THERMAL_DATA, RES_TYPE_BLUETOOTH_A2DP_CONNECT_STATE_CHANGE,
      RES_TYPE_NETWORK_LATENCY_REQUEST, RES_TYPE_THREAD_QOS_CHANGE, RES_TYPE_PROCESS_QOS_CHANGE,
      RES_TYPE_MOVE_WINDOW, RES_TYPE_ANCO_CUST, RES_TYPE_SOCPERF_CUST_ACTION,
      RES_TYPE_SOCPERF_CUST_EVENT_BEGIN, RES_TYPE_SOCPERF_CUST_EVENT_END,
      RES_TYPE_SA_CONTROL_APP_EVENT, RES_TYPE_REPORT_DISTRIBUTE_COMPONENT_CHANGE,
      RES_TYPE_THERMAL_SCENARIO_REPORT, RES_TYPE_AUDIO_RENDERER_SILENT_PLAYBACK,
      RES_TYPE_CLOUD_CONFIG_UPDATE, RES_TYPE_BT_SERVICE_EVENT, RES_TYPE_REPORT_BOKER_GATT_CONNECT,
      SYNC_RES_TYPE_REQUEST_MUTEX_STATUS, SYNC_RES_TYPE_GET_NWEB_PRELOAD_SET,
      RES_TYPE_AUDIO_RENDERER_STANDBY, RES_TYPE_INTENT_CTRL_APP, RES_TYPE_DISPLAY_MULTI_SCREEN,
      RES_TYPE_SHORT_TERM_LOAD, SYNC_RES_TYPE_GET_SUSPEND_STATE_BY_UID,
      SYNC_RES_TYPE_GET_SUSPEND_STATE_BY_PID, RES_TYPE_FILE_COPY_STATUS,
      RES_TYPE_DYNAMICALLY_SET_SUSPEND_EXEMPT, RES_TYPE_CAMERA_PRELAUNCH,
      RES_TYPE_CAMERA_RESET_PRIORITY, RES_TYPE_DEVICE_MODE_STATUS, RES_TYPE_PARAM_UPDATE_EVENT,
      RES_TYPE_TDP_TURBO, RES_TYPE_BACKGROUND_STATUS, SYNC_RES_TYPE_QUERY_TOPN_BUNDLE_USAGE_INFO,
      RES_TYPE_CAMERA_STATUS_CHANGED, RES_TYPE_NAP_MODE, RES_TYPE_CODEC_ENCODE_STATUS_CHANGED,
      RES_TYPE_CAMERA_LENS_STATUS_CHANGED, RES_TYPE_LOAD_KILL_REASON_CONFIG,
      RES_TYPE_SA_PULL_APP_IDENTIFIER, RES_TYPE_START_INPUT_METHOD_PROCESS,
      RES_TYPE_START_UIEXTENSION_PROC, RES_TYPE_SCHED_MODE_CHANGE,
      RES_TYPE_AVCODE_HARDWARE_RESOURCES, RES_TYPE_FIRST_FRAME_DRAWN, RES_TYPE_OOBE_CLONE,
      RES_TYPE_NEARLINK_SERVICE_EVENT, RES_TYPE_REPORT_NFC_SIGNAL]"

definition ALLOW_SOME_UID_REPORT_RES :: "(u32 \<times> i32 list) list" where
  "ALLOW_SOME_UID_REPORT_RES =
     [(RES_TYPE_MODEM_PA_HIGH_POWER_ABNORMAL, [1201]),
      (RES_TYPE_APP_HIGH_POWER_CONSUMPTION, [1201]),
      (RES_TYPE_APP_ABILITY_START, [5523]),
      (RES_TYPE_PRELOAD_APPLICATION, [5523]),
      (RES_TYPE_APP_ASSOCIATED_START, [5523]),
      (RES_TYPE_IMAGE_PROCESS_STATE_CHANGED, [5523]),
      (RES_TYPE_REPORT_SCREEN_CAPTURE, [1013]),
      (RES_TYPE_LOCATION_STATUS_CHANGE, [1021]),
      (RES_TYPE_SYSTEM_CPU_LOAD, [1201]),
      (RES_TYPE_FRAME_RATE_REPORT, [1003]),
      (RES_TYPE_FORM_STATE_CHANGE_EVENT, [5523]),
      (RES_TYPE_FORM_RENDER_EVENT, [5523]),
      (RES_TYPE_SEND_FRAME_EVENT, [1003]),
      (RES_TYPE_CLICK_RECOGNIZE, [6696]),
      (RES_TYPE_REPORT_GAME_SCHED, [7800]),
      (RES_TYPE_GAME_INFO_NOTIFY, [7011, 5523]),
      (SYNC_RES_TYPE_SHOULD_FORCE_KILL_PROCESS, [5523]),
      (RES_TYPE_GET_GAME_SCENE_INFO, [7800]),
      (RES_TYPE_APP_GAME_BOOST_EVENT, [7800]),
      (RES_TYPE_FRAME_RATE_REPORT_FROM_RS, [1003]),
      (RES_TRPE_GAME_SUSPEND_MODE, [7800]),
      (RES_TYPE_ADJUST_PROTECTLRU_RECLAIM_RATIO, [1111]),
      (RES_TYPE_STANDBY_FREEZE_FAILED, [1201]),
      (RES_TYPE_IME_QOS_CHANGE, [3820]),
      (RES_TYPE_AVCODE_HARDWARE_RESOURCES, [1013]),
      (RES_TYPE_CREATE_LIVING_APP_PROCESS, [5523]),
      (RES_TYPE_CTRL_FORKALL_IMAGE_INTERFACE, [1096]),
      (RES_TYPE_INPUT_METHOD_CHANGE, [3820]),
      (SYNC_RES_TYPE_NOTIFY_MAKE_IMAGE, [3820]),
      (SYNC_RES_TYPE_DFX_CTRL_IMAGE_INTERFACE, [3063]),
      (RES_TYPE_CAMERA_TORCH_STATE_CHANGE, [1047])]"

section \<open>Data\<close>

definition PAYLOAD_MAX_SIZE :: nat where "PAYLOAD_MAX_SIZE = 4096"
definition MEMMGR_UID :: i32 where "MEMMGR_UID = 1111"
definition SAMGR_UID :: i32 where "SAMGR_UID = 5555"
definition FOUNDATION_UID :: i32 where "FOUNDATION_UID = 5523"
definition GRAPHIC_UID :: i32 where "GRAPHIC_UID = 1003"
definition HIVIEW_UID :: i32 where "HIVIEW_UID = 1201"
definition SINGLE_UID_REQUEST_LIMIT_COUNT :: i32 where "SINGLE_UID_REQUEST_LIMIT_COUNT = 250"
definition ALL_UID_REQUEST_LIMIT_COUNT :: i32 where "ALL_UID_REQUEST_LIMIT_COUNT = 650"
definition LIMIT_REQUEST_TIME :: i32 where "LIMIT_REQUEST_TIME = 1000"
definition FOUR_HOUR_TIME :: i64 where "FOUR_HOUR_TIME = 4 * 60 * 60 * 1000"
definition ONE_DAY_TIME_MILLS :: i64 where "ONE_DAY_TIME_MILLS = 24 * 60 * 60 * 1000"
definition INTERVAL :: i64 where "INTERVAL = 5 * 1000"
definition ERR_LOG_COUNT :: i64 where "ERR_LOG_COUNT = 1"
definition DEBUG_LEVEL_MINIMUM :: i32 where "DEBUG_LEVEL_MINIMUM = 0"
definition DEBUG_LEVEL_MAXIMUM :: i32 where "DEBUG_LEVEL_MAXIMUM = 7"
definition NEEDED_PERMISSION :: string where
  "NEEDED_PERMISSION = ''ohos.permission.REPORT_RESOURCE_SCHEDULE_EVENT''"
definition SCENEBOARD_BUNDLE_NAME :: string where
  "SCENEBOARD_BUNDLE_NAME = ''com.ohos.sceneboard''"
definition APP_PRELOAD_PLIGIN_NAME :: string where
  "APP_PRELOAD_PLIGIN_NAME = ''libapp_preload_plugin.z.so''"

datatype err_code =
    ERR_OK
  | ERR_RES_SCHED_INVALID_PARAM
  | ERR_RES_SCHED_PARCEL_ERROR
  | ERR_RES_SCHED_PERMISSION_DENIED
  | RES_SCHED_REQUEST_FAIL
  | RES_SCHED_DATA_ERROR
  | RES_SCHED_ACCESS_TOKEN_FAIL

text \<open>The kinds of access token the code tells apart.\<close>

datatype token_type = TOKEN_HAP | TOKEN_NATIVE | TOKEN_OTHER

text \<open>Who calls, with which token, and the clocks (steady milliseconds, wall clock).\<close>

record call =
  cl_uid :: i32
  cl_pid :: i32
  cl_token :: u32
  cl_fullToken :: u64
  cl_now :: i64
  cl_timestamp :: i64

record svc_env =
  ve_rm :: rm_env
  ve_ext :: bool
  ve_2d :: bool
  ve_eng_mode :: i32
  ve_parse :: "string \<Rightarrow> json option"
  ve_dump :: "json \<Rightarrow> string"
  ve_reply :: "res_data \<Rightarrow> json"
  ve_StrToInt :: "string \<Rightarrow> i32 option"
  ve_token_type :: "u32 \<Rightarrow> token_type"
  ve_bundle :: "u32 \<Rightarrow> string"
  ve_verify :: "u32 \<Rightarrow> string \<Rightarrow> i32"
  ve_preload_sym :: bool
  ve_preload :: "string \<Rightarrow> i32 \<Rightarrow> bool"

datatype svc_out =
    SetQos i32
  | LimitEvent i32
  | OversizeEvent u32
  | PermissionEvent "(u32 \<times> i32) list"
  | DebugCommand bool
  | SaveToFd string

record svc_state =
  sv_rm :: rm_state
  sv_el :: el_state
  appPreloadFunc :: bool
  isLoadAppPreloadPlugin :: bool
  appRequestCountMap :: "(i32, i32) omap"
  errLogRecordMap :: "(u32, i64 \<times> i32) omap"
  lastEventReportTime :: i64
  allRequestCount :: i32
  bigDataReportCount :: i32
  nextCheckTime :: i64
  nextReportBigDataTime :: i64
  isReportBigData :: bool
  isPrintLimitLog :: bool
  actualSystemLoadLevel :: i32
  debugSystemLoadLevel :: i32
  systemLoadLevelDebugEnable :: bool
  allowSCBReportRes :: "u32 list"
  allowAllSAReportRes :: "u32 list"
  allowSomeSAReportRes :: "(u32 \<times> i32 list) list"
  allowAllAppReportRes :: "u32 list"
  allowFgAppReportRes :: "u32 list"
  permissionCache :: "(u32, i32) lru"
  sv_outs :: "svc_out list"

definition svc_new :: "rm_state \<Rightarrow> el_state \<Rightarrow> svc_state" where
  "svc_new rm el =
     \<lparr>sv_rm = rm, sv_el = el, appPreloadFunc = False, isLoadAppPreloadPlugin = False,
      appRequestCountMap = [], errLogRecordMap = [], lastEventReportTime = 0, allRequestCount = 0,
      bigDataReportCount = 0, nextCheckTime = 0, nextReportBigDataTime = 0, isReportBigData = False,
      isPrintLimitLog = True, actualSystemLoadLevel = 0, debugSystemLoadLevel = 0,
      systemLoadLevelDebugEnable = False, allowSCBReportRes = [], allowAllSAReportRes = [],
      allowSomeSAReportRes = [], allowAllAppReportRes = [], allowFgAppReportRes = [],
      permissionCache = ResschedLRUCache 256, sv_outs = []\<rparr>"

definition sv_emit :: "svc_out \<Rightarrow> svc_state \<Rightarrow> svc_state" where
  "sv_emit out st = st\<lparr>sv_outs := sv_outs st @ [out]\<rparr>"

section \<open>The access tables of the running service\<close>

definition AddSCBRes :: "u32 list \<Rightarrow> svc_state \<Rightarrow> svc_state" where
  "AddSCBRes l st = st\<lparr>allowSCBReportRes := set_add l (allowSCBReportRes st)\<rparr>"

definition AddAllSARes :: "u32 list \<Rightarrow> svc_state \<Rightarrow> svc_state" where
  "AddAllSARes l st = st\<lparr>allowAllSAReportRes := set_add l (allowAllSAReportRes st)\<rparr>"

text \<open>Inserting a range of pairs into an \<open>unordered_map\<close> skips the keys it already has.\<close>

definition AddSomeSARes :: "(u32 \<times> i32 list) list \<Rightarrow> svc_state \<Rightarrow> svc_state" where
  "AddSomeSARes l st =
     st\<lparr>allowSomeSAReportRes := fold (\<lambda>(t, uids) m.
          case map_of m t of None \<Rightarrow> m @ [(t, uids)] | Some _ \<Rightarrow> m) l (allowSomeSAReportRes st)\<rparr>"

definition AddAllAppRes :: "u32 list \<Rightarrow> svc_state \<Rightarrow> svc_state" where
  "AddAllAppRes l st = st\<lparr>allowAllAppReportRes := set_add l (allowAllAppReportRes st)\<rparr>"

definition AddFgAppRes :: "u32 list \<Rightarrow> svc_state \<Rightarrow> svc_state" where
  "AddFgAppRes l st = st\<lparr>allowFgAppReportRes := set_add l (allowFgAppReportRes st)\<rparr>"

definition InitAllowIpcReportRes :: "svc_env \<Rightarrow> svc_state \<Rightarrow> svc_state" where
  "InitAllowIpcReportRes V st =
     (let st1 = AddFgAppRes FG_THIRDPART_RES (AddAllAppRes THIRDPART_RES
                  (AddSomeSARes ALLOW_SOME_UID_REPORT_RES
                    (AddAllSARes (SA_RES (re_file_copy (ve_rm V))) (AddSCBRes SCB_RES st))))
      in AddFgAppRes (allowFgAppReportResExt (sv_rm st1))
           (AddAllAppRes (allowAllAppReportResExt (sv_rm st1))
             (AddSomeSARes (allowSomeSAReportResExt (sv_rm st1))
               (AddAllSARes (allowAllSAReportResExt (sv_rm st1))
                 (AddSCBRes (allowSCBReportResExt (sv_rm st1)) st1)))))"

section \<open>Who may report\<close>

definition IsThirdPartType :: "svc_env \<Rightarrow> call \<Rightarrow> u32 \<Rightarrow> svc_state \<Rightarrow> bool" where
  "IsThirdPartType V c type st =
     (if type \<notin> set (allowAllAppReportRes st) then False
      else if type \<in> set (allowFgAppReportRes st) \<and> \<not> IsForegroundApp (cl_pid c) (sv_rm st) then False
      else if ve_token_type V (cl_token c) \<noteq> TOKEN_HAP then False
      else True)"

definition IsSBDResType :: "svc_env \<Rightarrow> call \<Rightarrow> u32 \<Rightarrow> svc_state \<Rightarrow> bool" where
  "IsSBDResType V c type st =
     (if type \<notin> set (allowSCBReportRes st) then False
      else if ve_token_type V (cl_token c) \<noteq> TOKEN_HAP then False
      else ve_bundle V (cl_token c) = SCENEBOARD_BUNDLE_NAME)"

definition IsHasPermission :: "svc_env \<Rightarrow> call \<Rightarrow> u32 \<Rightarrow> i32 \<Rightarrow> svc_state \<Rightarrow> (bool \<times> svc_state) option" where
  "IsHasPermission V c type uid st =
     (let listed = (case map_of (allowSomeSAReportRes st) type of
                      Some uids \<Rightarrow> uid \<in> set uids
                    | None \<Rightarrow> type \<in> set (allowAllSAReportRes st))
      in if \<not> listed then Some (False, st)
         else if ve_token_type V (cl_token c) \<noteq> TOKEN_NATIVE then Some (False, st)
         else
           (case lru_get (cl_token c) (permissionCache st) of
              None \<Rightarrow> None
            | Some (pc, Some hasPermission) \<Rightarrow> Some (hasPermission = 0, st\<lparr>permissionCache := pc\<rparr>)
            | Some (pc, None) \<Rightarrow>
                (let hasPermission = ve_verify V (cl_token c) NEEDED_PERMISSION in
                 case lru_put (cl_token c) hasPermission pc of
                   None \<Rightarrow> None
                 | Some pc2 \<Rightarrow> Some (hasPermission = 0, st\<lparr>permissionCache := pc2\<rparr>))))"

text \<open>Counting what was refused, and reporting it once a day.\<close>

definition ReportPermissionErrorEvent :: "call \<Rightarrow> svc_state \<Rightarrow> svc_state" where
  "ReportPermissionErrorEvent c st =
     (if cl_now c - lastEventReportTime st < ONE_DAY_TIME_MILLS then st
      else
        (sv_emit (PermissionEvent (map (\<lambda>(t, d). (t, snd d)) (filter (\<lambda>(t, d). 0 < snd d) (errLogRecordMap st)))) st)
          \<lparr>lastEventReportTime := cl_now c, errLogRecordMap := []\<rparr>)"

definition record_refusal :: "call \<Rightarrow> u32 \<Rightarrow> svc_state \<Rightarrow> svc_state" where
  "record_refusal c type st =
     st\<lparr>errLogRecordMap := om_put type
          (case map_of (errLogRecordMap st) type of
             None \<Rightarrow> (cl_timestamp c, ERR_LOG_COUNT)
           | Some (first, count) \<Rightarrow>
               (if first + INTERVAL < cl_timestamp c then cl_timestamp c else first, wrap_s32 (count + ERR_LOG_COUNT)))
          (errLogRecordMap st)\<rparr>"

definition CheckReportDataParcel ::
    "svc_env \<Rightarrow> call \<Rightarrow> u32 \<Rightarrow> i64 \<Rightarrow> string \<Rightarrow> i32 \<Rightarrow> svc_state \<Rightarrow> (err_code \<times> svc_state) option" where
  "CheckReportDataParcel V c type value payload uid st =
     (case (if IsSBDResType V c type st then Some (True, st)
            else if IsThirdPartType V c type st then Some (True, st)
            else IsHasPermission V c type uid st) of
        None \<Rightarrow> None
      | Some (allowed, st1) \<Rightarrow>
          if \<not> allowed then
            Some (ERR_RES_SCHED_PERMISSION_DENIED, ReportPermissionErrorEvent c (record_refusal c type st1))
          else if PAYLOAD_MAX_SIZE < length payload then
            Some (ERR_RES_SCHED_PARCEL_ERROR, sv_emit (OversizeEvent type) st1)
          else Some (ERR_OK, st1))"

section \<open>The limit on requests\<close>

definition PrintLimitLog :: "svc_state \<Rightarrow> svc_state" where
  "PrintLimitLog st = (if isPrintLimitLog st then st\<lparr>isPrintLimitLog := False\<rparr> else st)"

definition ReportBigData :: "call \<Rightarrow> svc_state \<Rightarrow> svc_state" where
  "ReportBigData c st =
     (if \<not> isReportBigData st then st
      else if cl_now c < nextReportBigDataTime st then st
      else (sv_emit (LimitEvent (bigDataReportCount st)) st)\<lparr>isReportBigData := False, bigDataReportCount := 0\<rparr>)"

definition InreaseBigDataCount :: "call \<Rightarrow> svc_state \<Rightarrow> svc_state" where
  "InreaseBigDataCount c st =
     (let st1 = (if \<not> isReportBigData st
                 then st\<lparr>isReportBigData := True, nextReportBigDataTime := cl_now c + FOUR_HOUR_TIME\<rparr> else st)
      in st1\<lparr>bigDataReportCount := wrap_s32 (bigDataReportCount st1 + 1)\<rparr>)"

definition CheckAndUpdateLimitData :: "i64 \<Rightarrow> svc_state \<Rightarrow> svc_state" where
  "CheckAndUpdateLimitData nowTime st =
     (if 0 \<le> nowTime - nextCheckTime st
      then st\<lparr>nextCheckTime := nowTime + LIMIT_REQUEST_TIME, appRequestCountMap := [],
              allRequestCount := 0, isPrintLimitLog := True\<rparr>
      else st)"

definition IsLimitRequest :: "call \<Rightarrow> i32 \<Rightarrow> svc_state \<Rightarrow> bool \<times> svc_state" where
  "IsLimitRequest c uid st =
     (let st1 = CheckAndUpdateLimitData (cl_now c) st in
      if ALL_UID_REQUEST_LIMIT_COUNT \<le> allRequestCount st1 then (True, st1)
      else
        (case map_of (appRequestCountMap st1) uid of
           None \<Rightarrow>
             (False, st1\<lparr>appRequestCountMap := om_put uid 1 (appRequestCountMap st1),
                         allRequestCount := allRequestCount st1 + 1\<rparr>)
         | Some n \<Rightarrow>
             if SINGLE_UID_REQUEST_LIMIT_COUNT \<le> n then (True, st1)
             else
               (False, st1\<lparr>appRequestCountMap := om_put uid (n + 1) (appRequestCountMap st1),
                           allRequestCount := allRequestCount st1 + 1\<rparr>)))"

definition RemoteRequestCheck :: "call \<Rightarrow> svc_state \<Rightarrow> err_code \<times> svc_state" where
  "RemoteRequestCheck c st =
     (case IsLimitRequest c (cl_uid c) (ReportBigData c st) of
        (limited, st1) \<Rightarrow>
          if limited then (RES_SCHED_REQUEST_FAIL, PrintLimitLog (InreaseBigDataCount c st1)) else (ERR_OK, st1))"

section \<open>Reporting\<close>

definition StringToJsonObj :: "svc_env \<Rightarrow> string \<Rightarrow> json" where
  "StringToJsonObj V str =
     (if str = [] then JObj []
      else (case ve_parse V str of Some (JObj m) \<Rightarrow> JObj m | _ \<Rightarrow> JObj []))"

definition svc_GetExtTypeByResPayload :: "svc_env \<Rightarrow> string \<Rightarrow> i32" where
  "svc_GetExtTypeByResPayload V payload =
     (case member ''extType'' (StringToJsonObj V payload) of
        Some (JStr s) \<Rightarrow> (case ve_StrToInt V s of Some t \<Rightarrow> t | None \<Rightarrow> - 1)
      | _ \<Rightarrow> - 1)"

definition real_type :: "svc_env \<Rightarrow> u32 \<Rightarrow> string \<Rightarrow> u32" where
  "real_type V resType payload =
     (if ve_ext V \<and> resType = RES_TYPE_KEY_PERF_SCENE then
        (let extType = svc_GetExtTypeByResPayload V payload in
         if extType \<noteq> - 1 then of_int extType else resType)
      else resType)"

definition with_caller :: "call \<Rightarrow> json \<Rightarrow> json" where
  "with_caller c p =
     set_member ''callingFullTokenID'' (JStr (to_string (uint (cl_fullToken c))))
       (set_member ''clientPid'' (JStr (to_string (cl_pid c)))
         (set_member ''callingUid'' (JStr (to_string (cl_uid c))) p))"

definition svc_ReportData ::
    "svc_env \<Rightarrow> call \<Rightarrow> u32 \<Rightarrow> i64 \<Rightarrow> string \<Rightarrow> svc_state \<Rightarrow> (err_code \<times> svc_state) option" where
  "svc_ReportData V c resType value payload st =
     (case RemoteRequestCheck c st of
        (checkResult, st1) \<Rightarrow>
          if checkResult \<noteq> ERR_OK then Some (checkResult, st1)
          else
            (let t = real_type V resType payload in
             case CheckReportDataParcel V c t value payload (cl_uid c) st1 of
               None \<Rightarrow> None
             | Some (ret, st2) \<Rightarrow>
                 if ret \<noteq> ERR_OK then Some (ret, st2)
                 else
                   Some (ERR_OK, sv_emit (SetQos (cl_pid c))
                     (st2\<lparr>sv_rm := rm_ReportData (ve_rm V) (cl_now c) t value
                            (with_caller c (StringToJsonObj V payload)) (sv_rm st2)\<rparr>))))"

text \<open>
  A synchronous event: the return code is always \<open>ERR_OK\<close>, the outcome travels in the result
  value, an error or what the plugin answered, and in the text of the reply.
\<close>

definition sync_reply :: "svc_env \<Rightarrow> res_data \<Rightarrow> pm_state \<Rightarrow> pm_state \<Rightarrow> json" where
  "sync_reply V rd pm pm' =
     (case drop (length (pm_outs pm)) (pm_outs pm') of
        [] \<Rightarrow> JNull
      | outs \<Rightarrow> (case last outs of DeliverCalled lib d \<Rightarrow> ve_reply V rd | _ \<Rightarrow> JNull))"

definition svc_ReportSyncEvent ::
    "svc_env \<Rightarrow> call \<Rightarrow> u32 \<Rightarrow> i64 \<Rightarrow> string \<Rightarrow> svc_state \<Rightarrow> ((err_code + i32) \<times> string option \<times> svc_state) option" where
  "svc_ReportSyncEvent V c resType value payload st =
     (case RemoteRequestCheck c st of
        (checkResult, st1) \<Rightarrow>
          if checkResult \<noteq> ERR_OK then Some (Inl checkResult, None, st1)
          else
            (let t = real_type V resType payload in
             case CheckReportDataParcel V c t value payload (cl_uid c) st1 of
               None \<Rightarrow> None
             | Some (ret, st2) \<Rightarrow>
                 if ret \<noteq> ERR_OK then Some (Inl ret, None, st2)
                 else
                   (let rd = \<lparr>rd_type = t, rd_value = value, rd_payload = with_caller c (StringToJsonObj V payload)\<rparr>
                    in case pm_DeliverResource (re_pm (ve_rm V)) (cl_now c) (Some rd) (rm_pm (sv_rm st2)) of
                         (res, pm) \<Rightarrow>
                           Some (Inr res, Some (ve_dump V (sync_reply V rd (rm_pm (sv_rm st2)) pm)),
                             sv_emit (SetQos (cl_pid c)) (st2\<lparr>sv_rm := (sv_rm st2)\<lparr>rm_pm := pm\<rparr>\<rparr>)))))"

definition svc_KillProcess :: "svc_env \<Rightarrow> call \<Rightarrow> string \<Rightarrow> svc_state \<Rightarrow> (i32 \<times> svc_state) option" where
  "svc_KillProcess V c payload st =
     (if (cl_uid c \<noteq> MEMMGR_UID \<and> cl_uid c \<noteq> SAMGR_UID \<and> cl_uid c \<noteq> HIVIEW_UID \<and> cl_uid c \<noteq> GRAPHIC_UID) \<or>
         ve_token_type V (cl_token c) \<noteq> TOKEN_NATIVE
      then Some (RES_SCHED_KILL_PROCESS_FAIL, st)
      else if PAYLOAD_MAX_SIZE < length payload then Some (RES_SCHED_KILL_PROCESS_FAIL, st)
      else
        map_option (\<lambda>(ret, rm). (ret, st\<lparr>sv_rm := rm\<rparr>))
          (KillProcessByClient (ve_rm V) (StringToJsonObj V payload) (sv_rm st)))"

section \<open>Registrations\<close>

definition RegisterSystemloadNotifier :: "svc_env \<Rightarrow> call \<Rightarrow> nat option \<Rightarrow> svc_state \<Rightarrow> err_code \<times> svc_state" where
  "RegisterSystemloadNotifier V c notifier st =
     (if notifier = None then (RES_SCHED_DATA_ERROR, st)
      else
        (ERR_OK, st\<lparr>sv_rm := (sv_rm st)\<lparr>rm_nm :=
           RegisterNotifier (re_nm (ve_rm V)) (cl_pid c) notifier
             (ve_token_type V (cl_token c) = TOKEN_HAP) (rm_nm (sv_rm st))\<rparr>\<rparr>))"

definition UnRegisterSystemloadNotifier :: "call \<Rightarrow> svc_state \<Rightarrow> err_code \<times> svc_state" where
  "UnRegisterSystemloadNotifier c st =
     (ERR_OK, st\<lparr>sv_rm := (sv_rm st)\<lparr>rm_nm := UnRegisterNotifier (cl_pid c) (rm_nm (sv_rm st))\<rparr>\<rparr>)"

definition svc_RegisterEventListener ::
    "call \<Rightarrow> nat option \<Rightarrow> u32 \<Rightarrow> u32 \<Rightarrow> svc_state \<Rightarrow> err_code \<times> svc_state" where
  "svc_RegisterEventListener c eventListener eventType listenerGroup st =
     (case RemoteRequestCheck c st of
        (checkResult, st1) \<Rightarrow>
          if checkResult \<noteq> ERR_OK then (checkResult, st1)
          else
            (ERR_OK, st1\<lparr>sv_el := RegisterEventListener (cl_pid c) eventListener eventType listenerGroup (sv_el st1)\<rparr>))"

definition svc_UnRegisterEventListener :: "call \<Rightarrow> u32 \<Rightarrow> u32 \<Rightarrow> svc_state \<Rightarrow> err_code \<times> svc_state" where
  "svc_UnRegisterEventListener c eventType listenerGroup st =
     (ERR_OK, st\<lparr>sv_el := UnRegisterEventListener (cl_pid c) eventType listenerGroup (sv_el st)\<rparr>)"

definition svc_GetResTypeList :: "svc_state \<Rightarrow> u32 set" where
  "svc_GetResTypeList st = GetResTypeList (rm_pm (sv_rm st))"

section \<open>The load level\<close>

definition svc_GetSystemloadLevel :: "svc_state \<Rightarrow> i32" where
  "svc_GetSystemloadLevel st =
     (if systemLoadLevelDebugEnable st then debugSystemLoadLevel st
      else nm_GetSystemloadLevel (rm_nm (sv_rm st)))"

definition svc_OnDeviceLevelChanged :: "i32 \<Rightarrow> i32 \<Rightarrow> bool \<Rightarrow> svc_state \<Rightarrow> svc_state option" where
  "svc_OnDeviceLevelChanged type level debugReport st =
     (let st1 = (if type = SYSTEMLOAD_LEVEL \<and> \<not> debugReport then st\<lparr>actualSystemLoadLevel := level\<rparr> else st);
          level1 = (if type = SYSTEMLOAD_LEVEL \<and> systemLoadLevelDebugEnable st1
                    then debugSystemLoadLevel st1 else level)
      in map_option (\<lambda>nm. st1\<lparr>sv_rm := (sv_rm st1)\<lparr>rm_nm := nm\<rparr>\<rparr>)
           (nm_OnDeviceLevelChanged type level1 (rm_nm (sv_rm st1))))"

section \<open>Preloading and links\<close>

definition LoadAppPreloadPlugin :: "svc_env \<Rightarrow> svc_state \<Rightarrow> svc_state" where
  "LoadAppPreloadPlugin V st =
     (case GetPluginLib APP_PRELOAD_PLIGIN_NAME (rm_pm (sv_rm st)) of
        None \<Rightarrow> st\<lparr>isLoadAppPreloadPlugin := False\<rparr>
      | Some libInfo \<Rightarrow>
          if isLoadAppPreloadPlugin st then st
          else st\<lparr>appPreloadFunc := ve_preload_sym V, isLoadAppPreloadPlugin := True\<rparr>)"

text \<open>The answer and whether the function of the plugin was called for it.\<close>

definition IsAllowedAppPreload :: "svc_env \<Rightarrow> call \<Rightarrow> string \<Rightarrow> i32 \<Rightarrow> svc_state \<Rightarrow> bool \<times> bool \<times> svc_state" where
  "IsAllowedAppPreload V c bundleName preloadMode st =
     (if cl_uid c \<noteq> FOUNDATION_UID \<or> ve_token_type V (cl_token c) \<noteq> TOKEN_NATIVE then (False, False, st)
      else
        (let st1 = LoadAppPreloadPlugin V st in
         if \<not> appPreloadFunc st1 then (False, False, st1)
         else (ve_preload V bundleName preloadMode, True, st1)))"

definition IsAllowedLinkJump :: "svc_env \<Rightarrow> call \<Rightarrow> bool \<Rightarrow> svc_state \<Rightarrow> err_code" where
  "IsAllowedLinkJump V c isAllowedLinkJump st =
     (if ve_token_type V (cl_token c) \<noteq> TOKEN_HAP then RES_SCHED_ACCESS_TOKEN_FAIL
      else if \<not> fst (GetLinkJumpOptConfig (ve_bundle V (cl_token c)) isAllowedLinkJump (rm_pm (sv_rm st)))
        then ERR_RES_SCHED_INVALID_PARAM
      else ERR_OK)"

section \<open>The dump commands\<close>

definition DUMP_OPTION :: nat where "DUMP_OPTION = 0"
definition DUMP_PARAM_INDEX :: nat where "DUMP_PARAM_INDEX = 1"

definition CheckDumpPermission :: "svc_env \<Rightarrow> call \<Rightarrow> bool" where
  "CheckDumpPermission V c \<longleftrightarrow> ve_verify V (cl_token c) ''ohos.permission.DUMP'' = 0"

definition CheckENGMode :: "svc_env \<Rightarrow> bool" where
  "CheckENGMode V \<longleftrightarrow> ve_eng_mode V \<noteq> 0"

definition level_range_msg :: string where
  "level_range_msg =
     ''Err setSystemLoadLevel param. Please insert 0-7 to start debug, \"reset\" to close debug''"

definition DumpUsage :: "svc_env \<Rightarrow> string \<Rightarrow> svc_state \<Rightarrow> string option" where
  "DumpUsage V result st =
     DumpHelpFromPlugin (re_pm (ve_rm V))
       (result @ ''usage: resource schedule service dump [<options>]'' @ cr_newline @
        ''    -h: show the help.'' @ cr_newline @
        ''    -a: show all info.'' @ cr_newline @
        ''    -p: show the all plugin info.'' @ cr_newline @
        ''    -p (plugin name): show one plugin info.'' @ cr_newline @
        ''    setSystemLoadLevel (LevelNum/reset): set system load level. LevelNum range: 0-7'' @ cr_newline @
        ''    getSystemloadInfo: get system load info.'' @ cr_newline) (rm_pm (sv_rm st))"

definition DumpUserUsage :: "string \<Rightarrow> string" where
  "DumpUserUsage result =
     result @ ''usage: resource schedule service dump [<options>]'' @ cr_newline @
     ''setPreloadSwitch      |setPreloadSwitch [value], 1:open, 0:close.'' @ cr_newline @
     ''getPreloadSwitch      |getPreloadSwitch.'' @ cr_newline @
     ''preloadAbilityStage   |preloadAbilityStage [bundleName].'' @ cr_newline @
     ''preloadWindowStage    |preloadWindowStage [bundleName] [abilityName].'' @ cr_newline @
     ''preloadProcess        |preloadProcess [bundleName].'' @ cr_newline"

definition DumpUsage2D :: "string \<Rightarrow> string" where
  "DumpUsage2D result =
     result @ ''    setSystemLoadLevel (LevelNum/reset): set system load level. LevelNum range: 0-7'' @ cr_newline @
     ''    getSystemloadInfo: get system load info.'' @ cr_newline"

definition svc_usage :: "svc_env \<Rightarrow> string \<Rightarrow> svc_state \<Rightarrow> string option" where
  "svc_usage V result st = (if ve_2d V then Some (DumpUsage2D result) else DumpUsage V result st)"

definition DumpAllInfo :: "string \<Rightarrow> svc_state \<Rightarrow> string option" where
  "DumpAllInfo result st =
     map_option (\<lambda>s. result @ ''================Resource Schedule Service Infos================'' @ cr_newline @ s)
       (DumpAllPlugin (rm_pm (sv_rm st)))"

definition svc_DumpAllPluginConfig :: "string \<Rightarrow> svc_state \<Rightarrow> string option" where
  "svc_DumpAllPluginConfig result st =
     map_option (\<lambda>s. result @ ''================Resource Schedule Plugin Config================'' @ cr_newline @ s)
       (DumpAllPluginConfig (rm_pm (sv_rm st)))"

definition DumpSystemLoadInfo :: "string \<Rightarrow> svc_state \<Rightarrow> string" where
  "DumpSystemLoadInfo result st =
     (let notifierInfo = nm_DumpRegisterInfo (rm_nm (sv_rm st));
          names = (\<lambda>hapApp. concat (map (\<lambda>(pid, h). to_string pid @ '' '')
                     (filter (\<lambda>(pid, h). h = hapApp) notifierInfo)))
      in result @ ''systemloadLevel:'' @ to_string (nm_GetSystemloadLevel (rm_nm (sv_rm st))) @ cr_newline @
         ''natives:'' @ names False @ cr_newline @ ''apps:'' @ names True @ cr_newline)"

definition DumpExecutorDebugCommand :: "string list \<Rightarrow> string \<Rightarrow> svc_state \<Rightarrow> string \<times> svc_state" where
  "DumpExecutorDebugCommand args result st =
     (let times = (if DUMP_PARAM_INDEX + 1 < length args \<and> 0 < atoi (args ! (DUMP_PARAM_INDEX + 1))
                   then atoi (args ! (DUMP_PARAM_INDEX + 1)) else 1);
          isSync = (if DUMP_PARAM_INDEX < length args then atoi (args ! DUMP_PARAM_INDEX) = 0 else True)
      in (result @ ''Send debug command to resource_schedule_executor.'' @ cr_newline,
          st\<lparr>sv_outs := sv_outs st @ replicate (nat times) (DebugCommand isSync)\<rparr>))"

definition DumpSetSystemLoad :: "svc_env \<Rightarrow> string list \<Rightarrow> string \<Rightarrow> svc_state \<Rightarrow> (string \<times> svc_state) option" where
  "DumpSetSystemLoad V args result st =
     (if length args = DUMP_PARAM_INDEX + 1 then
        (let switchStr = args ! DUMP_PARAM_INDEX in
         if switchStr = ''reset'' then
           map_option (\<lambda>st1. (result @ ''Set SystemLoad Close'' @ cr_newline, st1))
             (svc_OnDeviceLevelChanged SYSTEMLOAD_LEVEL (actualSystemLoadLevel st) False
                (st\<lparr>systemLoadLevelDebugEnable := False, debugSystemLoadLevel := 0\<rparr>))
         else
           (case ve_StrToInt V switchStr of
              None \<Rightarrow> Some (result @ level_range_msg, st)
            | Some switchInfo \<Rightarrow>
                if switchInfo \<le> DEBUG_LEVEL_MAXIMUM \<and> DEBUG_LEVEL_MINIMUM \<le> switchInfo then
                  map_option (\<lambda>st1. (result @ ''setSystemLoadLevel Debug On with Level: '' @
                                      to_string switchInfo @ cr_newline, st1))
                    (svc_OnDeviceLevelChanged SYSTEMLOAD_LEVEL switchInfo True
                       (st\<lparr>systemLoadLevelDebugEnable := True, debugSystemLoadLevel := switchInfo\<rparr>))
                else Some (result @ level_range_msg, st)))
      else
        Some (result @ ''Err setSystemLoadLevel param num. Please insert one param after \"setSystemLoadLevel\"'', st))"

definition DumpExt :: "svc_env \<Rightarrow> string list \<Rightarrow> string \<Rightarrow> svc_state \<Rightarrow> (string \<times> svc_state) option" where
  "DumpExt V args result st =
     (let opt = args ! DUMP_OPTION; keep = map_option (\<lambda>s. (s, st)) in
      if opt = ''-h'' then keep (svc_usage V result st)
      else if opt = ''-a'' then keep (DumpAllInfo result st)
      else if opt = ''-p'' then keep (map_option (\<lambda>s. result @ s) (DumpAllPlugin (rm_pm (sv_rm st))))
      else if opt = ''getSystemloadInfo'' then Some (DumpSystemLoadInfo result st, st)
      else if opt = ''sendDebugToExecutor'' then Some (DumpExecutorDebugCommand args result st)
      else if opt = ''PluginConfig'' then keep (svc_DumpAllPluginConfig result st)
      else Some (result @ ''Error params.'', st))"

definition DumpPreloadUserMode :: "svc_env \<Rightarrow> call \<Rightarrow> string list \<Rightarrow> svc_state \<Rightarrow> (err_code \<times> svc_state) option" where
  "DumpPreloadUserMode V c args st =
     (if \<not> CheckDumpPermission V c then Some (ERR_RES_SCHED_PERMISSION_DENIED, st)
      else if args = [] then
        Some (ERR_RES_SCHED_PERMISSION_DENIED, sv_emit (SaveToFd (DumpUserUsage [])) st)
      else if args ! DUMP_OPTION \<in> {''setPreloadSwitch'', ''getPreloadSwitch'', ''preloadAbilityStage'',
                ''preloadWindowStage'', ''preloadProcess'', ''backgroundLoader''} then
        map_option (\<lambda>result. (ERR_OK, sv_emit (SaveToFd result) st))
          (DumpOnePlugin (re_pm (ve_rm V)) [] ''libapp_preload_plugin.z.so'' args (rm_pm (sv_rm st)))
      else Some (ERR_RES_SCHED_PERMISSION_DENIED, st))"

definition dump_denied :: "svc_env \<Rightarrow> call \<Rightarrow> string list \<Rightarrow> bool" where
  "dump_denied V c args \<longleftrightarrow>
     (if ve_2d V then
        \<not> CheckDumpPermission V c \<or> (\<not> CheckENGMode V \<and> args \<noteq> [] \<and>
          args ! DUMP_OPTION \<noteq> ''setSystemLoadLevel'' \<and> args ! DUMP_OPTION \<noteq> ''getSystemloadInfo'' \<and>
          args ! DUMP_OPTION \<noteq> ''-h'')
      else \<not> CheckDumpPermission V c \<or> \<not> CheckENGMode V)"

definition dump_command :: "svc_env \<Rightarrow> string list \<Rightarrow> svc_state \<Rightarrow> (string \<times> svc_state) option" where
  "dump_command V args st =
     (if args = [] then map_option (\<lambda>s. (s, st)) (svc_usage V [] st)
      else if length args = DUMP_OPTION + 1 then DumpExt V args [] st
      else if args ! DUMP_OPTION = ''-p'' then
        map_option (\<lambda>s. (s, st))
          (DumpOnePlugin (re_pm (ve_rm V)) [] (args ! DUMP_PARAM_INDEX) (drop (DUMP_PARAM_INDEX + 1) args)
             (rm_pm (sv_rm st)))
      else if args ! DUMP_OPTION = ''sendDebugToExecutor'' then Some (DumpExecutorDebugCommand args [] st)
      else if args ! DUMP_OPTION = ''setSystemLoadLevel'' then DumpSetSystemLoad V args [] st
      else Some ([], st))"

definition svc_Dump :: "svc_env \<Rightarrow> call \<Rightarrow> string list \<Rightarrow> svc_state \<Rightarrow> (err_code \<times> svc_state) option" where
  "svc_Dump V c args st =
     (case DumpPreloadUserMode V c args st of
        None \<Rightarrow> None
      | Some (ret, st1) \<Rightarrow>
          if ret = ERR_OK then Some (ERR_OK, st1)
          else if dump_denied V c args then Some (ERR_RES_SCHED_PERMISSION_DENIED, st1)
          else map_option (\<lambda>(result, st2). (ERR_OK, sv_emit (SaveToFd result) st2)) (dump_command V args st1))"

end
