(* ===== verification/Service_Facts.thy ===== *)
theory Service_Facts
  imports Service_Model
begin

text \<open>
  What the service keeps: the well-formedness of its own state (\<open>svc_ok\<close>) is preserved by every
  request (\<open>svc_step\<close>); the components below it run on their own threads, so a step may also
  replace their states by any others.  The permission check is a client of the cache contract.
\<close>

section \<open>Steps and reachable states\<close>

inductive svc_step :: "svc_env \<Rightarrow> svc_state \<Rightarrow> svc_state \<Rightarrow> bool" for V where
  init: "svc_step V st (InitAllowIpcReportRes V st)"
| below: "svc_step V st (st\<lparr>sv_rm := rm, sv_el := el\<rparr>)"
| report: "svc_ReportData V c t v p st = Some (ret, st') \<Longrightarrow> svc_step V st st'"
| report_sync: "svc_ReportSyncEvent V c t v p st = Some (ret, reply, st') \<Longrightarrow> svc_step V st st'"
| kill: "svc_KillProcess V c p st = Some (res, st') \<Longrightarrow> svc_step V st st'"
| register_notifier: "svc_step V st (snd (RegisterSystemloadNotifier V c n st))"
| unregister_notifier: "svc_step V st (snd (UnRegisterSystemloadNotifier c st))"
| register_listener: "svc_step V st (snd (svc_RegisterEventListener c l t g st))"
| unregister_listener: "svc_step V st (snd (svc_UnRegisterEventListener c t g st))"
| level: "svc_OnDeviceLevelChanged t l False st = Some st' \<Longrightarrow> svc_step V st st'"
| preload: "svc_step V st (snd (snd (IsAllowedAppPreload V c b m st)))"
| dump: "svc_Dump V c args st = Some (ret, st') \<Longrightarrow> svc_step V st st'"

inductive svc_reachable :: "svc_env \<Rightarrow> svc_state \<Rightarrow> bool" for V where
  start: "svc_reachable V (svc_new rm el)"
| step: "svc_reachable V st \<Longrightarrow> svc_step V st st' \<Longrightarrow> svc_reachable V st'"

inductive_cases svc_stepE: "svc_step V st st'"

section \<open>Well-formed states\<close>

definition sum_counts :: "(i32, i32) omap \<Rightarrow> i32" where
  "sum_counts m = sum_list (map snd m)"

definition limits_ok :: "nat \<Rightarrow> svc_state \<Rightarrow> bool" where
  "limits_ok N st \<longleftrightarrow>
     om_ok (appRequestCountMap st) \<and>
     list_all (\<lambda>(uid, n). 1 \<le> n \<and> n \<le> SINGLE_UID_REQUEST_LIMIT_COUNT) (appRequestCountMap st) \<and>
     allRequestCount st = sum_counts (appRequestCountMap st) \<and>
     allRequestCount st \<le> ALL_UID_REQUEST_LIMIT_COUNT \<and>
     (N < 2 ^ 31 \<longrightarrow> 0 \<le> bigDataReportCount st \<and> bigDataReportCount st \<le> int N) \<and>
     (\<not> isReportBigData st \<longrightarrow> bigDataReportCount st = 0)"

text \<open>What the permission check would say without its cache.\<close>

definition verified :: "svc_env \<Rightarrow> u32 \<Rightarrow> i32" where
  "verified V token = ve_verify V token NEEDED_PERMISSION"

definition cache_ok :: "(u32 \<Rightarrow> i32 \<Rightarrow> bool) \<Rightarrow> svc_state \<Rightarrow> bool" where
  "cache_ok P st \<longleftrightarrow>
     (lru_inv (permissionCache st) \<and> 0 < capacity (permissionCache st)) \<and>
     lru_cache.within P (permissionCache st)"

definition refusals_ok :: "nat \<Rightarrow> svc_state \<Rightarrow> bool" where
  "refusals_ok M st \<longleftrightarrow> om_ok (errLogRecordMap st) \<and>
     (M < 2 ^ 31 \<longrightarrow> list_all (\<lambda>(t, d). 1 \<le> snd d \<and> snd d \<le> int M) (errLogRecordMap st))"

definition debug_ok :: "svc_state \<Rightarrow> bool" where
  "debug_ok st \<longleftrightarrow>
     DEBUG_LEVEL_MINIMUM \<le> debugSystemLoadLevel st \<and> debugSystemLoadLevel st \<le> DEBUG_LEVEL_MAXIMUM \<and>
     (\<not> systemLoadLevelDebugEnable st \<longrightarrow> debugSystemLoadLevel st = 0)"

text \<open>
  \<open>N\<close> bounds the requests the limits refused since the count was last reported, \<open>M\<close> the
  reports that were denied; the counters have 32 bits.
\<close>

definition svc_ok :: "(u32 \<Rightarrow> i32 \<Rightarrow> bool) \<Rightarrow> nat \<Rightarrow> nat \<Rightarrow> svc_state \<Rightarrow> bool" where
  "svc_ok P N M st \<longleftrightarrow> limits_ok N st \<and> cache_ok P st \<and> refusals_ok M st \<and> debug_ok st"

lemma wrap_id: "- 2147483648 \<le> x \<Longrightarrow> x \<le> 2147483647 \<Longrightarrow> wrap_s32 x = x"
  by (simp add: wrap_s32_def)

lemma limits_ok_Suc: "limits_ok N st \<Longrightarrow> limits_ok (Suc N) st"
  by (auto simp: limits_ok_def)

lemma refusals_ok_Suc: "refusals_ok M st \<Longrightarrow> refusals_ok (Suc M) st"
  by (auto simp: refusals_ok_def list_all_iff)

lemma svc_ok_Suc: "svc_ok P N M st \<Longrightarrow> svc_ok P (Suc N) (Suc M) st"
  by (simp add: svc_ok_def limits_ok_Suc refusals_ok_Suc)

text \<open>Two states whose fields behind \<open>svc_ok\<close> are the same.\<close>

definition svc_same :: "svc_state \<Rightarrow> svc_state \<Rightarrow> bool" where
  "svc_same st st' \<longleftrightarrow>
     appRequestCountMap st' = appRequestCountMap st \<and> allRequestCount st' = allRequestCount st \<and>
     bigDataReportCount st' = bigDataReportCount st \<and> isReportBigData st' = isReportBigData st \<and>
     permissionCache st' = permissionCache st \<and> errLogRecordMap st' = errLogRecordMap st \<and>
     debugSystemLoadLevel st' = debugSystemLoadLevel st \<and>
     systemLoadLevelDebugEnable st' = systemLoadLevelDebugEnable st"

lemmas svc_ok_defs = svc_ok_def limits_ok_def cache_ok_def refusals_ok_def debug_ok_def

lemma svc_same_ok: "svc_same st st' \<Longrightarrow> svc_ok P N M st \<Longrightarrow> svc_ok P N M st'"
  unfolding svc_same_def svc_ok_defs by simp

lemma svc_same_refl [simp]: "svc_same st st"
  by (simp add: svc_same_def)

lemma svc_same_trans: "svc_same a b \<Longrightarrow> svc_same b c \<Longrightarrow> svc_same a c"
  by (simp add: svc_same_def)

section \<open>Counting requests\<close>

lemma sum_counts_put:
  "om_ok m \<Longrightarrow> sum_counts (om_put k v m) =
     sum_counts m - (case map_of m k of None \<Rightarrow> 0 | Some w \<Rightarrow> w) + v"
proof (induction k v m rule: om_put.induct)
  case (1 k v)
  then show ?case by (simp add: sum_counts_def)
next
  case (2 k v a b m)
  have "map_of m k = None" if "k < a"
    using 2(2) that by (auto simp: om_ok_Cons map_of_eq_None_iff dest: less_trans)
  with 2 show ?case by (auto simp: sum_counts_def om_ok_Cons split: option.splits)
qed

lemma sum_counts_nonneg: "list_all (\<lambda>(u, n). 1 \<le> n \<and> n \<le> k) m \<Longrightarrow> 0 \<le> sum_counts m"
  unfolding sum_counts_def by (induction m) auto

lemma list_all_om_put:
  "list_all (\<lambda>(k, v). P v) m \<Longrightarrow> P v \<Longrightarrow> list_all (\<lambda>(k, v). P v) (om_put k v m)"
  by (induction k v m rule: om_put.induct) auto

lemma list_all_om_lookup: "list_all (\<lambda>(k, v). P v) m \<Longrightarrow> map_of m k = Some v \<Longrightarrow> P v"
  by (auto simp: list_all_iff dest!: map_of_SomeD)

text \<open>The state when the window of the count has been renewed.\<close>

lemma window_ok: "limits_ok N st \<Longrightarrow> limits_ok N (CheckAndUpdateLimitData now st)"
  by (auto simp: limits_ok_def CheckAndUpdateLimitData_def om_ok_def sum_counts_def
      ALL_UID_REQUEST_LIMIT_COUNT_def)

lemma counted_ok:
  assumes ok: "limits_ok N st" and total: "allRequestCount st < ALL_UID_REQUEST_LIMIT_COUNT"
    and n: "(case map_of (appRequestCountMap st) uid of None \<Rightarrow> 0 | Some n \<Rightarrow> n) = n"
      "n < SINGLE_UID_REQUEST_LIMIT_COUNT"
  shows "limits_ok N (st\<lparr>appRequestCountMap := om_put uid (n + 1) (appRequestCountMap st),
                       allRequestCount := allRequestCount st + 1\<rparr>)"
proof -
  have all: "list_all (\<lambda>(uid, n). 1 \<le> n \<and> n \<le> SINGLE_UID_REQUEST_LIMIT_COUNT) (appRequestCountMap st)"
    using ok by (simp add: limits_ok_def)
  have "0 \<le> n"
  proof (cases "map_of (appRequestCountMap st) uid")
    case (Some k)
    from list_all_om_lookup[OF all Some] n(1) Some show ?thesis by simp
  qed (use n(1) in simp)
  with assms show ?thesis
    using list_all_om_put[of "\<lambda>v. 1 \<le> v \<and> v \<le> SINGLE_UID_REQUEST_LIMIT_COUNT" "appRequestCountMap st" "n + 1" uid]
    by (simp add: limits_ok_def sum_counts_put)
qed

lemma limit_ok: "limits_ok N st \<Longrightarrow> limits_ok N (snd (IsLimitRequest c uid st))"
proof -
  assume ok: "limits_ok N st"
  define w where "w = CheckAndUpdateLimitData (cl_now c) st"
  have w: "limits_ok N w" unfolding w_def using ok by (rule window_ok)
  define n where "n = (case map_of (appRequestCountMap w) uid of None \<Rightarrow> 0 | Some n \<Rightarrow> n)"
  have "limits_ok N (snd (IsLimitRequest c uid st)) =
      (if ALL_UID_REQUEST_LIMIT_COUNT \<le> allRequestCount w \<or> SINGLE_UID_REQUEST_LIMIT_COUNT \<le> n then limits_ok N w
       else limits_ok N (w\<lparr>appRequestCountMap := om_put uid (n + 1) (appRequestCountMap w),
                         allRequestCount := allRequestCount w + 1\<rparr>))"
    unfolding IsLimitRequest_def Let_def w_def[symmetric] n_def
    by (cases "map_of (appRequestCountMap w) uid") (simp_all add: SINGLE_UID_REQUEST_LIMIT_COUNT_def)
  with w counted_ok[OF w _ n_def[symmetric]] show ?thesis by (simp split: if_splits)
qed

lemma check_shape:
  "RemoteRequestCheck c st =
     (let r = IsLimitRequest c (cl_uid c) (ReportBigData c st) in
      if fst r then (RES_SCHED_REQUEST_FAIL, PrintLimitLog (InreaseBigDataCount c (snd r))) else (ERR_OK, snd r))"
  by (simp add: RemoteRequestCheck_def Let_def split: prod.split)

lemma wrap_succ: "0 \<le> x \<Longrightarrow> x \<le> int N \<Longrightarrow> Suc N < 2 ^ 31 \<Longrightarrow> wrap_s32 (x + 1) = x + 1"
  by (rule wrap_id) simp_all

lemma refused_ok: "limits_ok N st \<Longrightarrow> limits_ok (Suc N) (PrintLimitLog (InreaseBigDataCount c st))"
  using wrap_succ [of "bigDataReportCount st" N]
  by (auto simp: PrintLimitLog_def InreaseBigDataCount_def Let_def limits_ok_def)

lemma check_limits_ok: "limits_ok N st \<Longrightarrow> limits_ok (Suc N) (snd (RemoteRequestCheck c st))"
proof -
  assume "limits_ok N st"
  then have "limits_ok N (ReportBigData c st)"
    by (simp add: ReportBigData_def sv_emit_def limits_ok_def)
  then have "limits_ok N (snd (IsLimitRequest c (cl_uid c) (ReportBigData c st)))" by (rule limit_ok)
  with refused_ok[OF this] limits_ok_Suc[OF this] show ?thesis by (simp add: check_shape Let_def)
qed

text \<open>The rest of the state is not touched by the count.\<close>

definition uncounted_same :: "svc_state \<Rightarrow> svc_state \<Rightarrow> bool" where
  "uncounted_same st st' \<longleftrightarrow>
     permissionCache st' = permissionCache st \<and> errLogRecordMap st' = errLogRecordMap st \<and>
     debugSystemLoadLevel st' = debugSystemLoadLevel st \<and>
     systemLoadLevelDebugEnable st' = systemLoadLevelDebugEnable st \<and>
     sv_rm st' = sv_rm st \<and> sv_el st' = sv_el st \<and>
     allowSCBReportRes st' = allowSCBReportRes st \<and> allowAllSAReportRes st' = allowAllSAReportRes st \<and>
     allowSomeSAReportRes st' = allowSomeSAReportRes st \<and>
     allowAllAppReportRes st' = allowAllAppReportRes st \<and> allowFgAppReportRes st' = allowFgAppReportRes st"

lemma uncounted_refl: "uncounted_same st st"
  by (simp add: uncounted_same_def)

lemma uncounted_trans: "uncounted_same a b \<Longrightarrow> uncounted_same b c \<Longrightarrow> uncounted_same a c"
  by (simp add: uncounted_same_def)

lemma uncounted_parts:
  "uncounted_same st (ReportBigData c st)"
  "uncounted_same st (PrintLimitLog st)"
  "uncounted_same st (InreaseBigDataCount c st)"
  "uncounted_same st (CheckAndUpdateLimitData now st)"
  by (simp_all add: ReportBigData_def PrintLimitLog_def InreaseBigDataCount_def CheckAndUpdateLimitData_def
      sv_emit_def uncounted_same_def Let_def)

lemma uncounted_limit: "uncounted_same st (snd (IsLimitRequest c uid st))"
proof -
  have "uncounted_same (CheckAndUpdateLimitData (cl_now c) st) (snd (IsLimitRequest c uid st))"
    by (simp add: IsLimitRequest_def Let_def uncounted_same_def split: option.split)
  with uncounted_parts(4) show ?thesis by (rule uncounted_trans)
qed

lemma check_frame: "uncounted_same st (snd (RemoteRequestCheck c st))"
proof -
  have limit: "uncounted_same st (snd (IsLimitRequest c (cl_uid c) (ReportBigData c st)))"
    by (rule uncounted_trans[OF uncounted_parts(1) uncounted_limit])
  moreover have "uncounted_same s (PrintLimitLog (InreaseBigDataCount c s))" for s
    by (rule uncounted_trans[OF uncounted_parts(3) uncounted_parts(2)])
  ultimately show ?thesis
    by (simp add: check_shape Let_def) (blast intro: uncounted_trans)
qed

lemma check_ok: "svc_ok P N M st \<Longrightarrow> svc_ok P (Suc N) M (snd (RemoteRequestCheck c st))"
  using check_limits_ok[of N st c]
    check_frame[of st c]
  by (simp add: svc_ok_def cache_ok_def refusals_ok_def debug_ok_def uncounted_same_def)

section \<open>Who may report\<close>

text \<open>The decision without the cache: a system ability, and any of the three kinds of caller.\<close>

definition sa_listed :: "u32 \<Rightarrow> i32 \<Rightarrow> svc_state \<Rightarrow> bool" where
  "sa_listed type uid st =
     (case map_of (allowSomeSAReportRes st) type of
        Some uids \<Rightarrow> uid \<in> set uids
      | None \<Rightarrow> type \<in> set (allowAllSAReportRes st))"

definition sa_may_report :: "svc_env \<Rightarrow> call \<Rightarrow> u32 \<Rightarrow> i32 \<Rightarrow> svc_state \<Rightarrow> bool" where
  "sa_may_report V c type uid st \<longleftrightarrow>
     sa_listed type uid st \<and> ve_token_type V (cl_token c) = TOKEN_NATIVE \<and>
     ve_verify V (cl_token c) NEEDED_PERMISSION = 0"

definition may_report :: "svc_env \<Rightarrow> call \<Rightarrow> u32 \<Rightarrow> svc_state \<Rightarrow> bool" where
  "may_report V c type st \<longleftrightarrow>
     type \<in> set (allowSCBReportRes st) \<and> ve_token_type V (cl_token c) = TOKEN_HAP \<and>
       ve_bundle V (cl_token c) = SCENEBOARD_BUNDLE_NAME \<or>
     type \<in> set (allowAllAppReportRes st) \<and> ve_token_type V (cl_token c) = TOKEN_HAP \<and>
       (type \<in> set (allowFgAppReportRes st) \<longrightarrow> cl_pid c \<in> set (foregroundPids (sv_rm st))) \<or>
     sa_may_report V c type (cl_uid c) st"

lemma IsSBDResType_iff:
  "IsSBDResType V c type st \<longleftrightarrow>
     type \<in> set (allowSCBReportRes st) \<and> ve_token_type V (cl_token c) = TOKEN_HAP \<and>
     ve_bundle V (cl_token c) = SCENEBOARD_BUNDLE_NAME"
  by (simp add: IsSBDResType_def)

lemma IsThirdPartType_iff:
  "IsThirdPartType V c type st \<longleftrightarrow>
     type \<in> set (allowAllAppReportRes st) \<and> ve_token_type V (cl_token c) = TOKEN_HAP \<and>
     (type \<in> set (allowFgAppReportRes st) \<longrightarrow> cl_pid c \<in> set (foregroundPids (sv_rm st)))"
  by (auto simp: IsThirdPartType_def IsForegroundApp_def)

text \<open>
  The permission check is the memoised check of the cache's contract.  A verdict stays in the
  cache until it is evicted, so the check sees the environment with the verdicts it remembers.
\<close>

definition seen :: "svc_env \<Rightarrow> svc_state \<Rightarrow> svc_env" where
  "seen V st = V\<lparr>ve_verify := \<lambda>token p.
     if p = NEEDED_PERMISSION then lru_cache.recall (verified V) (permissionCache st) token
     else ve_verify V token p\<rparr>"

lemma seen_unchanged: "cache_ok (\<lambda>token v. v = verified V token) st \<Longrightarrow> seen V st = V"
proof -
  assume "cache_ok (\<lambda>token v. v = verified V token) st"
  then have "lru_cache.recall (verified V) (permissionCache st) = verified V"
    by (intro lru_cache.recall_agrees) (simp add: cache_ok_def)
  then have "(\<lambda>token p. if p = NEEDED_PERMISSION then lru_cache.recall (verified V) (permissionCache st) token
      else ve_verify V token p) = ve_verify V"
    by (auto simp: verified_def fun_eq_iff)
  then show ?thesis by (simp add: seen_def)
qed

lemma IsHasPermission_memo:
  "IsHasPermission V c type uid st =
     (if \<not> sa_listed type uid st \<or> ve_token_type V (cl_token c) \<noteq> TOKEN_NATIVE then Some (False, st)
      else map_option (\<lambda>(pc, r). (r = 0, st\<lparr>permissionCache := pc\<rparr>))
             (lru_cache.memo (verified V) (cl_token c) (permissionCache st)))"
  by (simp add: IsHasPermission_def sa_listed_def lru_cache.memo_def verified_def Let_def
      split: option.split)

lemma permission_checked:
  assumes "cache_ok P st" "P (cl_token c) (verified V (cl_token c))"
  obtains pc where "IsHasPermission V c type uid st =
      Some (sa_may_report (seen V st) c type uid st, st\<lparr>permissionCache := pc\<rparr>)"
    "cache_ok P (st\<lparr>permissionCache := pc\<rparr>)"
proof -
  let ?r = "lru_cache.recall (verified V) (permissionCache st) (cl_token c)"
  from assms(1) have ok: "lru_inv (permissionCache st) \<and> 0 < capacity (permissionCache st)"
    and w: "lru_cache.within P (permissionCache st)" by (simp_all add: cache_ok_def)
  from lru_cache.memo_recalls[OF ok w, of "cl_token c" "verified V"] assms(2) obtain pc where
    pc: "lru_cache.memo (verified V) (cl_token c) (permissionCache st) = Some (pc, ?r)"
    "lru_inv pc \<and> 0 < capacity pc" "lru_cache.within P pc" by blast
  have may: "sa_may_report (seen V st) c type uid st \<longleftrightarrow>
      sa_listed type uid st \<and> ve_token_type V (cl_token c) = TOKEN_NATIVE \<and> ?r = 0"
    by (simp add: sa_may_report_def seen_def)
  show ?thesis
  proof (cases "\<not> sa_listed type uid st \<or> ve_token_type V (cl_token c) \<noteq> TOKEN_NATIVE")
    case True
    with may that[of "permissionCache st"] assms show ?thesis by (auto simp: IsHasPermission_memo)
  next
    case False
    then show ?thesis using that[of pc] pc may by (simp add: IsHasPermission_memo cache_ok_def)
  qed
qed

text \<open>The check of a report: its answer, and that it changes nothing but the cache and the counts.\<close>

lemma refusal_recorded_ok:
  assumes "svc_ok P N M st"
  shows "svc_ok P N (Suc M) (ReportPermissionErrorEvent c (record_refusal c type st))"
proof -
  have om: "om_ok (errLogRecordMap st)" using assms by (simp add: svc_ok_def refusals_ok_def)
  define d where "d = (case map_of (errLogRecordMap st) type of
      None \<Rightarrow> (cl_timestamp c, ERR_LOG_COUNT)
    | Some (first, count) \<Rightarrow>
        (if first + INTERVAL < cl_timestamp c then cl_timestamp c else first, wrap_s32 (count + ERR_LOG_COUNT)))"
  have counts: "list_all (\<lambda>(t, d). 1 \<le> snd d \<and> snd d \<le> int (Suc M)) (om_put type d (errLogRecordMap st))"
    if small: "Suc M < 2 ^ 31"
  proof (rule list_all_om_put[of "\<lambda>d. 1 \<le> snd d \<and> snd d \<le> int (Suc M)"])
    have all: "list_all (\<lambda>(t, d). 1 \<le> snd d \<and> snd d \<le> int M) (errLogRecordMap st)"
      using assms small by (simp add: svc_ok_def refusals_ok_def)
    then show "list_all (\<lambda>(t, d). 1 \<le> snd d \<and> snd d \<le> int (Suc M)) (errLogRecordMap st)"
      by (auto simp: list_all_iff)
    show "1 \<le> snd d \<and> snd d \<le> int (Suc M)"
    proof (cases "map_of (errLogRecordMap st) type")
      case None
      then show ?thesis by (simp add: d_def ERR_LOG_COUNT_def)
    next
      case (Some e)
      from list_all_om_lookup[OF all Some] wrap_succ[of "snd e" M] small Some show ?thesis
        by (auto simp: d_def ERR_LOG_COUNT_def split: prod.split)
    qed
  qed
  then have "refusals_ok (Suc M) (record_refusal c type st)"
    using om by (simp add: record_refusal_def refusals_ok_def d_def[symmetric])
  with assms have "svc_ok P N (Suc M) (record_refusal c type st)"
    by (simp add: svc_ok_def limits_ok_def cache_ok_def debug_ok_def record_refusal_def)
  then show ?thesis
    by (simp add: ReportPermissionErrorEvent_def sv_emit_def svc_ok_defs om_ok_def)
qed

definition report_code :: "svc_env \<Rightarrow> call \<Rightarrow> u32 \<Rightarrow> string \<Rightarrow> svc_state \<Rightarrow> err_code" where
  "report_code V c type payload st =
     (if \<not> may_report V c type st then ERR_RES_SCHED_PERMISSION_DENIED
      else if PAYLOAD_MAX_SIZE < length payload then ERR_RES_SCHED_PARCEL_ERROR
      else ERR_OK)"

lemma parcel_checked:
  assumes "svc_ok P N M st" "P (cl_token c) (verified V (cl_token c))"
  shows "\<exists>st'. CheckReportDataParcel V c type v payload (cl_uid c) st =
           Some (report_code (seen V st) c type payload st, st') \<and>
         svc_ok P N (Suc M) st' \<and> sv_rm st' = sv_rm st \<and> sv_el st' = sv_el st"
proof -
  let ?check = "if IsSBDResType V c type st then Some (True, st)
      else if IsThirdPartType V c type st then Some (True, st) else IsHasPermission V c type (cl_uid c) st"
  have "cache_ok P st" using assms(1) by (simp add: svc_ok_def)
  from permission_checked[of P st c V type "cl_uid c", OF this assms(2)] obtain pc where
    pc: "IsHasPermission V c type (cl_uid c) st =
      Some (sa_may_report (seen V st) c type (cl_uid c) st, st\<lparr>permissionCache := pc\<rparr>)"
    "cache_ok P (st\<lparr>permissionCache := pc\<rparr>)" .
  obtain pc' where check: "?check = Some (may_report (seen V st) c type st, st\<lparr>permissionCache := pc'\<rparr>)"
    and pc': "cache_ok P (st\<lparr>permissionCache := pc'\<rparr>)"
  proof (cases "IsSBDResType V c type st \<or> IsThirdPartType V c type st")
    case True
    then have "may_report (seen V st) c type st"
      by (auto simp: may_report_def seen_def IsSBDResType_iff IsThirdPartType_iff)
    with True that[of "permissionCache st"] \<open>cache_ok P st\<close> show ?thesis by (auto split: if_splits)
  next
    case False
    then have "may_report (seen V st) c type st = sa_may_report (seen V st) c type (cl_uid c) st"
      by (auto simp: may_report_def seen_def IsSBDResType_iff IsThirdPartType_iff)
    with False that[of pc] pc show ?thesis by simp
  qed
  define st1 where "st1 = st\<lparr>permissionCache := pc'\<rparr>"
  have ok1: "svc_ok P N M st1"
    using assms pc' by (simp add: st1_def svc_ok_def limits_ok_def refusals_ok_def debug_ok_def)
  have same: "sv_rm st1 = sv_rm st" "sv_el st1 = sv_el st" by (simp_all add: st1_def)
  have over: "svc_ok P N M (sv_emit (OversizeEvent type) st1)"
    by (rule svc_same_ok[OF _ ok1]) (simp add: svc_same_def sv_emit_def)
  have suc: "svc_ok P N M s \<Longrightarrow> svc_ok P N (Suc M) s" for s by (simp add: svc_ok_def refusals_ok_Suc)
  have frame: "sv_rm (ReportPermissionErrorEvent c (record_refusal c type s)) = sv_rm s"
    "sv_el (ReportPermissionErrorEvent c (record_refusal c type s)) = sv_el s" for s
    by (simp_all add: ReportPermissionErrorEvent_def record_refusal_def sv_emit_def)
  have "CheckReportDataParcel V c type v payload (cl_uid c) st =
      (if \<not> may_report (seen V st) c type st
       then Some (ERR_RES_SCHED_PERMISSION_DENIED, ReportPermissionErrorEvent c (record_refusal c type st1))
       else if PAYLOAD_MAX_SIZE < length payload
       then Some (ERR_RES_SCHED_PARCEL_ERROR, sv_emit (OversizeEvent type) st1)
       else Some (ERR_OK, st1))"
    unfolding CheckReportDataParcel_def check st1_def by simp
  then show ?thesis
    using refusal_recorded_ok[OF ok1, of c type] suc[OF over] suc[OF ok1] same frame[of st1]
    by (simp add: report_code_def sv_emit_def)
qed

text \<open>Decisions only read the tables, the tokens and the foreground processes.\<close>

lemma may_report_counted:
  "uncounted_same st st' \<Longrightarrow> may_report V c type st' = may_report V c type st"
  by (simp add: may_report_def sa_may_report_def sa_listed_def uncounted_same_def split: option.split)

lemma report_code_counted:
  "uncounted_same st st' \<Longrightarrow> report_code V c type payload st' = report_code V c type payload st"
  by (simp add: report_code_def may_report_counted)

lemma seen_counted: "uncounted_same st st' \<Longrightarrow> seen V st' = seen V st"
proof -
  assume "uncounted_same st st'"
  then have "permissionCache st' = permissionCache st" by (simp add: uncounted_same_def)
  then show ?thesis unfolding seen_def by (simp only:)
qed

section \<open>Every request keeps the state well-formed\<close>

text \<open>The whole answer of a report, and what it hands to the manager.\<close>

lemma svc_ReportData_cases:
  assumes "svc_ok P N M st" "P (cl_token c) (verified V (cl_token c))"
  obtains st' where
    "svc_ok P (Suc N) (Suc M) st'" "sv_rm st' = sv_rm st" "sv_el st' = sv_el st"
    "svc_ReportData V c resType v payload st =
       (if fst (RemoteRequestCheck c st) \<noteq> ERR_OK then Some (RES_SCHED_REQUEST_FAIL, st')
        else if report_code (seen V st) c (real_type V resType payload) payload st \<noteq> ERR_OK
        then Some (report_code (seen V st) c (real_type V resType payload) payload st, st')
        else Some (ERR_OK, sv_emit (SetQos (cl_pid c)) (st'\<lparr>sv_rm :=
               rm_ReportData (ve_rm V) (cl_now c) (real_type V resType payload) v
                 (with_caller c (StringToJsonObj V payload)) (sv_rm st)\<rparr>)))"
proof -
  define st1 where "st1 = snd (RemoteRequestCheck c st)"
  define t where "t = real_type V resType payload"
  have frame: "uncounted_same st st1" unfolding st1_def by (rule check_frame)
  have ok1: "svc_ok P (Suc N) M st1" unfolding st1_def using assms(1) by (rule check_ok)
  have check: "RemoteRequestCheck c st = (fst (RemoteRequestCheck c st), st1)" by (simp add: st1_def)
  have codes: "fst (RemoteRequestCheck c st) = ERR_OK \<or> fst (RemoteRequestCheck c st) = RES_SCHED_REQUEST_FAIL"
    by (simp add: check_shape Let_def)
  from parcel_checked[of P "Suc N" M st1 c V t v payload, OF ok1 assms(2)] report_code_counted[OF frame, of "seen V st" c t payload]
    seen_counted[OF frame, of V]
  obtain st2 where st2: "CheckReportDataParcel V c t v payload (cl_uid c) st1 =
      Some (report_code (seen V st) c t payload st, st2)"
    "svc_ok P (Suc N) (Suc M) st2" "sv_rm st2 = sv_rm st" "sv_el st2 = sv_el st"
    using frame by (auto simp: uncounted_same_def)
  show ?thesis
  proof (cases "fst (RemoteRequestCheck c st) = ERR_OK")
    case True
    have "svc_ReportData V c resType v payload st =
        (if report_code (seen V st) c t payload st \<noteq> ERR_OK then Some (report_code (seen V st) c t payload st, st2)
         else Some (ERR_OK, sv_emit (SetQos (cl_pid c)) (st2\<lparr>sv_rm :=
                rm_ReportData (ve_rm V) (cl_now c) t v
                  (with_caller c (StringToJsonObj V payload)) (sv_rm st)\<rparr>)))"
      unfolding svc_ReportData_def by (subst check) (simp add: True st2 t_def[symmetric] Let_def)
    with True st2 that[of st2] show ?thesis by (simp add: t_def)
  next
    case False
    with codes have "fst (RemoteRequestCheck c st) = RES_SCHED_REQUEST_FAIL" by simp
    then have rd: "svc_ReportData V c resType v payload st = Some (RES_SCHED_REQUEST_FAIL, st1)"
      unfolding svc_ReportData_def by (subst check) simp
    have "svc_ok P (Suc N) (Suc M) st1" using ok1 by (simp add: svc_ok_def refusals_ok_Suc)
    with rd False frame that[of st1] show ?thesis by (simp add: uncounted_same_def)
  qed
qed

lemma svc_ok_manager: "svc_ok P N M st \<Longrightarrow> svc_ok P N M (st\<lparr>sv_rm := rm\<rparr>)"
  by (erule svc_same_ok[rotated]) (simp add: svc_same_def)

lemma svc_ok_emit: "svc_ok P N M st \<Longrightarrow> svc_ok P N M (sv_emit out st)"
  by (erule svc_same_ok[rotated]) (simp add: svc_same_def sv_emit_def)

lemma svc_ReportData_ok:
  assumes "svc_ok P N M st" "P (cl_token c) (verified V (cl_token c))"
    and "svc_ReportData V c t v p st = Some (ret, st')"
  shows "svc_ok P (Suc N) (Suc M) st'"
  by (rule svc_ReportData_cases[where c = c and V = V and resType = t and v = v and payload = p, OF assms(1,2)], insert assms(3))
     (auto split: if_splits intro: svc_ok_manager svc_ok_emit)

lemma svc_ReportSyncEvent_ok:
  assumes ok: "svc_ok P N M st" and P: "P (cl_token c) (verified V (cl_token c))"
    and run: "svc_ReportSyncEvent V c t v p st = Some (ret, reply, st')"
  shows "svc_ok P (Suc N) (Suc M) st'"
proof -
  define st1 where "st1 = snd (RemoteRequestCheck c st)"
  have check: "RemoteRequestCheck c st = (fst (RemoteRequestCheck c st), st1)" by (simp add: st1_def)
  have ok1: "svc_ok P (Suc N) M st1" unfolding st1_def using ok by (rule check_ok)
  then have ok1': "svc_ok P (Suc N) (Suc M) st1" by (simp add: svc_ok_def refusals_ok_Suc)
  from parcel_checked[of P "Suc N" M st1 c V, OF ok1 P] obtain st2 where
    st2: "CheckReportDataParcel V c (real_type V t p) v p (cl_uid c) st1 =
        Some (report_code (seen V st1) c (real_type V t p) p st1, st2)" "svc_ok P (Suc N) (Suc M) st2" by blast
  from run check st2 ok1' show ?thesis
    by (auto simp: svc_ReportSyncEvent_def Let_def split: if_splits prod.splits
        intro!: svc_ok_emit svc_ok_manager)
qed

lemma svc_level_same:
  "svc_OnDeviceLevelChanged t l b st = Some st' \<Longrightarrow> svc_same st st'"
  by (auto simp: svc_OnDeviceLevelChanged_def Let_def svc_same_def split: if_splits)

lemma svc_tables_same: "svc_same st (InitAllowIpcReportRes V st)"
  by (simp add: InitAllowIpcReportRes_def AddSCBRes_def AddAllSARes_def AddSomeSARes_def AddAllAppRes_def
      AddFgAppRes_def svc_same_def Let_def)

text \<open>Setting the level: three ways to refuse, a reset, and a level in range.\<close>

lemma DumpSetSystemLoad_cases:
  assumes "DumpSetSystemLoad V args r st = Some (r', st')"
  obtains "st' = st"
  | "svc_OnDeviceLevelChanged SYSTEMLOAD_LEVEL (actualSystemLoadLevel st) False
       (st\<lparr>systemLoadLevelDebugEnable := False, debugSystemLoadLevel := 0\<rparr>) = Some st'"
  | n where "0 \<le> n" "n \<le> 7" "svc_OnDeviceLevelChanged SYSTEMLOAD_LEVEL n True
       (st\<lparr>systemLoadLevelDebugEnable := True, debugSystemLoadLevel := n\<rparr>) = Some st'"
proof (cases "length args = DUMP_PARAM_INDEX + 1 \<and> args ! DUMP_PARAM_INDEX \<noteq> ''reset''")
  case True
  then show thesis
  proof (cases "ve_StrToInt V (args ! DUMP_PARAM_INDEX)")
    case None
    with True assms that(1) show thesis by (simp add: DumpSetSystemLoad_def Let_def)
  next
    case (Some n)
    show thesis
    proof (cases "n \<le> DEBUG_LEVEL_MAXIMUM \<and> DEBUG_LEVEL_MINIMUM \<le> n")
      case rng: True
      with True Some assms that(3)[of n] show thesis
        by (auto simp: DumpSetSystemLoad_def Let_def DEBUG_LEVEL_MINIMUM_def DEBUG_LEVEL_MAXIMUM_def)
    next
      case False
      with True Some assms that(1) show thesis by (simp add: DumpSetSystemLoad_def Let_def)
    qed
  qed
next
  case False
  show thesis
  proof (cases "length args = DUMP_PARAM_INDEX + 1")
    case True
    with False assms that(2) show thesis by (auto simp: DumpSetSystemLoad_def Let_def)
  qed (use assms that(1) in \<open>simp add: DumpSetSystemLoad_def\<close>)
qed

lemma set_level_ok:
  assumes ok: "svc_ok P N M st" and run: "DumpSetSystemLoad V args r st = Some (r', st')"
  shows "svc_ok P N M st'"
proof -
  have base: "svc_ok P N M (st\<lparr>systemLoadLevelDebugEnable := b, debugSystemLoadLevel := n\<rparr>)"
    if "0 \<le> n" "n \<le> 7" "\<not> b \<longrightarrow> n = 0" for b n
    using ok that by (simp add: svc_ok_defs DEBUG_LEVEL_MINIMUM_def DEBUG_LEVEL_MAXIMUM_def)
  from run show ?thesis
    by (rule DumpSetSystemLoad_cases) (use ok base in \<open>auto dest!: svc_level_same elim!: svc_same_ok\<close>)
qed

lemma dump_command_ok:
  assumes ok: "svc_ok P N M st" and run: "dump_command V args st = Some (r, st')"
  shows "svc_ok P N M st'"
proof -
  have debug: "svc_same st (snd (DumpExecutorDebugCommand args r st))" for args r
    by (simp add: DumpExecutorDebugCommand_def svc_same_def Let_def)
  have ext: "svc_same st st'" if "DumpExt V args r0 st = Some (r, st')" for r0
    using that debug[of args r0] by (auto simp: DumpExt_def Let_def split: if_splits)
  from run consider "svc_same st st'" | "DumpSetSystemLoad V args [] st = Some (r, st')"
    using ext debug[of args "[]"] by (auto simp: dump_command_def split: if_splits)
  then show ?thesis using ok by cases (auto intro: svc_same_ok set_level_ok)
qed

lemma svc_Dump_ok:
  assumes ok: "svc_ok P N M st" and run: "svc_Dump V c args st = Some (ret, st')"
  shows "svc_ok P N M st'"
proof -
  from run obtain ret1 st1 where pre: "DumpPreloadUserMode V c args st = Some (ret1, st1)"
    by (auto simp: svc_Dump_def split: option.splits)
  then have "svc_same st st1"
    by (auto simp: DumpPreloadUserMode_def svc_same_def sv_emit_def split: if_splits)
  with ok have "svc_ok P N M st1" by (rule svc_same_ok[rotated])
  with run pre show ?thesis
    by (auto simp: svc_Dump_def split: if_splits intro!: svc_ok_emit dest: dump_command_ok)
qed

lemma svc_same_parts:
  "svc_same st (st\<lparr>sv_rm := rm\<rparr>)" "svc_same st (st\<lparr>sv_el := el\<rparr>)"
  "svc_same st (snd (RegisterSystemloadNotifier V c n st))"
  "svc_same st (snd (UnRegisterSystemloadNotifier c st))"
  "svc_same st (snd (svc_UnRegisterEventListener c t g st))"
  "svc_same st (snd (snd (IsAllowedAppPreload V c b m st)))"
  by (simp_all add: svc_same_def RegisterSystemloadNotifier_def UnRegisterSystemloadNotifier_def
      svc_UnRegisterEventListener_def IsAllowedAppPreload_def LoadAppPreloadPlugin_def Let_def
      split: option.split)

lemma register_listener_ok:
  assumes "svc_ok P N M st"
  shows "svc_ok P (Suc N) (Suc M) (snd (svc_RegisterEventListener c l t g st))"
proof -
  have "svc_ok P (Suc N) (Suc M) (snd (RemoteRequestCheck c st))"
    using check_ok[OF assms, of c] by (simp add: svc_ok_def refusals_ok_Suc)
  with svc_same_ok[OF svc_same_parts(2)] show ?thesis
    by (cases "RemoteRequestCheck c st") (simp add: svc_RegisterEventListener_def)
qed

lemma svc_kill_same: "svc_KillProcess V c p st = Some (res, st') \<Longrightarrow> svc_same st st'"
  by (auto simp: svc_KillProcess_def svc_same_def split: if_splits)

text \<open>A step under an environment whose verdicts satisfy \<open>P\<close>.\<close>

lemma svc_step_ok:
  assumes "svc_step V st st'" "svc_ok P N M st" "\<And>token. P token (verified V token)"
  shows "svc_ok P (Suc N) (Suc M) st'"
proof -
  have same: ?thesis if "svc_same st st'" using svc_same_ok[OF that assms(2)] by (rule svc_ok_Suc)
  from assms(1) show ?thesis
  proof (cases rule: svc_step.cases)
    case (report c t v p ret)
    then show ?thesis by (rule svc_ReportData_ok[OF assms(2,3)])
  next
    case (report_sync c t v p ret reply)
    then show ?thesis by (rule svc_ReportSyncEvent_ok[OF assms(2,3)])
  next
    case (register_listener c l t g)
    then show ?thesis using register_listener_ok[OF assms(2)] by simp
  next
    case (dump c args ret)
    from svc_Dump_ok[OF assms(2) dump] show ?thesis by (rule svc_ok_Suc)
  next
    case (below rm el)
    then show ?thesis by (intro same) (simp add: svc_same_def)
  next
    case (level t l)
    then show ?thesis by (intro same svc_level_same)
  next
    case (kill c p res)
    then show ?thesis by (intro same svc_kill_same)
  qed (intro same, simp add: svc_same_parts svc_tables_same)+
qed

lemma svc_new_ok: "svc_ok P 0 0 (svc_new rm el)"
proof -
  have "capacity (ResschedLRUCache n) = n" for n by (simp add: ResschedLRUCache_def)
  then show ?thesis
    by (simp add: svc_ok_defs svc_new_def lru_init lru_cache.within_def om_ok_def sum_counts_def
        ALL_UID_REQUEST_LIMIT_COUNT_def DEBUG_LEVEL_MINIMUM_def DEBUG_LEVEL_MAXIMUM_def)
qed

text \<open>
  A run during which tokens, permissions and the components outside may change: the
  environments of its steps, the last one first.
\<close>

inductive svc_run :: "svc_env list \<Rightarrow> svc_state \<Rightarrow> bool" where
  start: "svc_run [] (svc_new rm el)"
| step: "svc_run Vs st \<Longrightarrow> svc_step V st st' \<Longrightarrow> svc_run (V # Vs) st'"

definition given :: "svc_env list \<Rightarrow> u32 \<Rightarrow> i32 \<Rightarrow> bool" where
  "given Vs token v \<longleftrightarrow> (\<exists>V\<in>set Vs. v = verified V token)"

lemma cache_ok_mono: "cache_ok P st \<Longrightarrow> (\<And>k v. P k v \<Longrightarrow> Q k v) \<Longrightarrow> cache_ok Q st"
  by (auto simp: cache_ok_def lru_cache.within_def)

lemma svc_run_ok': "svc_run Vs st \<Longrightarrow> svc_ok (given Vs) (length Vs) (length Vs) st"
proof (induction rule: svc_run.induct)
  case (start rm el)
  show ?case by (simp add: svc_new_ok)
next
  case (step Vs st V st')
  have "cache_ok (given (V # Vs)) st"
  proof (rule cache_ok_mono)
    show "cache_ok (given Vs) st" using step.IH by (simp add: svc_ok_def)
    show "given Vs k v \<Longrightarrow> given (V # Vs) k v" for k v by (auto simp: given_def)
  qed
  with step.IH have "svc_ok (given (V # Vs)) (length Vs) (length Vs) st" by (simp add: svc_ok_def)
  moreover have "given (V # Vs) token (verified V token)" for token by (simp add: given_def)
  ultimately have "svc_ok (given (V # Vs)) (Suc (length Vs)) (Suc (length Vs)) st'"
    by (rule svc_step_ok[OF step.hyps(2)])
  then show ?case by simp
qed

lemma svc_reachable_run: "svc_reachable V st \<Longrightarrow> \<exists>n. svc_run (replicate n V) st"
proof (induction rule: svc_reachable.induct)
  case (start rm el)
  show ?case using svc_run.start[of rm el] by (intro exI[of _ 0]) simp
next
  case (step st st')
  then obtain n where "svc_run (replicate n V) st" by blast
  from svc_run.step[OF this step.hyps(2)] show ?case by (intro exI[of _ "Suc n"]) simp
qed

lemma svc_reachable_ok':
  assumes "svc_reachable V st"
  obtains n where "svc_ok (\<lambda>token v. v = verified V token) n n st"
proof -
  from svc_reachable_run[OF assms] obtain n where "svc_run (replicate n V) st" by blast
  from svc_run_ok'[OF this] have "svc_ok (given (replicate n V)) n n st" by simp
  moreover have "given (replicate n V) k v \<Longrightarrow> v = verified V k" for k v by (auto simp: given_def)
  ultimately have "svc_ok (\<lambda>token v. v = verified V token) n n st"
    by (auto simp: svc_ok_def intro: cache_ok_mono)
  then show ?thesis by (rule that)
qed

end
