(* ===== verification/Service_Props.thy ===== *)
theory Service_Props
  imports Service_Facts
begin

text \<open>
  The properties of the service: the invariant of its state, the decision about a report, the
  transparency of the permission cache, the limit on requests, the access tables with their
  extensions, and the debug override of the load level.
\<close>

section \<open>The limit on requests against its specification\<close>

text \<open>The callers of the requests the code lets through, in order.\<close>

fun let_through :: "call list \<Rightarrow> svc_state \<Rightarrow> i32 list" where
  "let_through [] st = []"
| "let_through (c # cs) st =
     (if fst (RemoteRequestCheck c st) = ERR_OK then [cl_uid c] else []) @
     let_through cs (snd (RemoteRequestCheck c st))"

text \<open>
  The specification of one window: \<open>h\<close> holds the callers admitted so far, and a request is
  admitted while fewer than 650 requests are, and fewer than 250 of its caller.
\<close>

fun admitted :: "i32 list \<Rightarrow> call list \<Rightarrow> i32 list" where
  "admitted h [] = []"
| "admitted h (c # cs) =
     (if length h < 650 \<and> count_list h (cl_uid c) < 250 then cl_uid c # admitted (h @ [cl_uid c]) cs
      else admitted h cs)"

definition counts_of :: "i32 list \<Rightarrow> svc_state \<Rightarrow> bool" where
  "counts_of h st \<longleftrightarrow>
     allRequestCount st = int (length h) \<and>
     (\<forall>uid. (case map_of (appRequestCountMap st) uid of None \<Rightarrow> 0 | Some n \<Rightarrow> n) = int (count_list h uid))"

lemma counts_of_frame:
  "appRequestCountMap st' = appRequestCountMap st \<Longrightarrow> allRequestCount st' = allRequestCount st \<Longrightarrow>
   counts_of h st' = counts_of h st"
  by (simp add: counts_of_def)

lemma counts_of_admit:
  assumes "counts_of h st"
  shows "counts_of (h @ [uid])
    (st\<lparr>appRequestCountMap := om_put uid (int (count_list h uid) + 1) (appRequestCountMap st),
        allRequestCount := allRequestCount st + 1\<rparr>)"
  using assms by (auto simp: counts_of_def)

lemma limit_counts:
  assumes "counts_of h w" "w = CheckAndUpdateLimitData (cl_now c) st"
  shows "if length h < 650 \<and> count_list h uid < 250
         then \<not> fst (IsLimitRequest c uid st) \<and> counts_of (h @ [uid]) (snd (IsLimitRequest c uid st))
         else fst (IsLimitRequest c uid st) \<and> counts_of h (snd (IsLimitRequest c uid st))"
proof -
  have total: "allRequestCount w = int (length h)" using assms(1) by (simp add: counts_of_def)
  have own: "(case map_of (appRequestCountMap w) uid of None \<Rightarrow> 0 | Some n \<Rightarrow> n) = int (count_list h uid)"
    using assms(1) by (simp add: counts_of_def)
  show ?thesis
  proof (cases "map_of (appRequestCountMap w) uid")
    case None
    with own have "count_list h uid = 0" by simp
    with None total assms counts_of_admit[OF assms(1), of uid] show ?thesis
      by (simp add: IsLimitRequest_def Let_def ALL_UID_REQUEST_LIMIT_COUNT_def)
  next
    case (Some n)
    with own have "n = int (count_list h uid)" by simp
    with Some total assms counts_of_admit[OF assms(1), of uid] show ?thesis
      by (simp add: IsLimitRequest_def Let_def ALL_UID_REQUEST_LIMIT_COUNT_def
          SINGLE_UID_REQUEST_LIMIT_COUNT_def)
  qed
qed

text \<open>The window stays open, and the counts survive the bookkeeping around the check.\<close>

lemma window_frame:
  "nextCheckTime (ReportBigData c st) = nextCheckTime st"
  "nextCheckTime (PrintLimitLog (InreaseBigDataCount c st)) = nextCheckTime st"
  "appRequestCountMap (PrintLimitLog (InreaseBigDataCount c st)) = appRequestCountMap st"
  "allRequestCount (PrintLimitLog (InreaseBigDataCount c st)) = allRequestCount st"
  "nextCheckTime (snd (IsLimitRequest c uid st)) = nextCheckTime (CheckAndUpdateLimitData (cl_now c) st)"
  by (simp_all add: ReportBigData_def PrintLimitLog_def InreaseBigDataCount_def sv_emit_def
      IsLimitRequest_def Let_def split: option.split)

lemma check_counts:
  assumes "counts_of h (CheckAndUpdateLimitData (cl_now c) (ReportBigData c st))"
  shows "if length h < 650 \<and> count_list h (cl_uid c) < 250
         then fst (RemoteRequestCheck c st) = ERR_OK \<and> counts_of (h @ [cl_uid c]) (snd (RemoteRequestCheck c st))
         else fst (RemoteRequestCheck c st) \<noteq> ERR_OK \<and> counts_of h (snd (RemoteRequestCheck c st))"
  using limit_counts[OF assms refl, of "cl_uid c"]
    counts_of_frame[OF window_frame(3,4), of h c "snd (IsLimitRequest c (cl_uid c) (ReportBigData c st))"]
  by (simp add: check_shape Let_def split: if_splits)

lemma check_window:
  "nextCheckTime (snd (RemoteRequestCheck c st)) =
     (if nextCheckTime st \<le> cl_now c then cl_now c + LIMIT_REQUEST_TIME else nextCheckTime st)"
  by (simp add: check_shape Let_def window_frame CheckAndUpdateLimitData_def)

lemma open_window_counts:
  assumes "counts_of h st" "cl_now c < nextCheckTime st"
  shows "counts_of h (CheckAndUpdateLimitData (cl_now c) (ReportBigData c st))"
  using assms by (simp add: CheckAndUpdateLimitData_def window_frame counts_of_def ReportBigData_def sv_emit_def)

lemma window_admits:
  "counts_of h st \<Longrightarrow> \<forall>c \<in> set cs. cl_now c < nextCheckTime st \<Longrightarrow> let_through cs st = admitted h cs"
proof (induction cs arbitrary: h st)
  case (Cons c cs)
  from Cons.prems have inw: "cl_now c < nextCheckTime st" by simp
  then have stay: "nextCheckTime (snd (RemoteRequestCheck c st)) = nextCheckTime st"
    by (simp add: check_window)
  from check_counts[OF open_window_counts[OF Cons.prems(1) inw]]
  show ?case using Cons.IH[of _ "snd (RemoteRequestCheck c st)"] Cons.prems(2) stay
    by (simp split: if_splits)
qed simp

lemma admitted_bounds:
  "length h \<le> 650 \<Longrightarrow> count_list h u \<le> 250 \<Longrightarrow>
   length h + length (admitted h cs) \<le> 650 \<and> count_list h u + count_list (admitted h cs) u \<le> 250"
proof (induction cs arbitrary: h)
  case (Cons c cs)
  from Cons.IH[of h] Cons.IH[of "h @ [cl_uid c]"] Cons.prems show ?case
    by (cases "cl_uid c = u") auto
qed simp

text \<open>
  C13. The requests a window lets through are those the specification admits: starting with the
  request that opens a window, and for as long as it lasts, a request is refused exactly when
  650 requests, or 250 of the same caller, were let through, so never more are.
\<close>

theorem window_limits_requests:
  assumes "nextCheckTime st \<le> cl_now c" "\<forall>d \<in> set cs. cl_now d < cl_now c + 1000"
  shows "let_through (c # cs) st = admitted [] (c # cs) \<and>
    length (let_through (c # cs) st) \<le> 650 \<and> count_list (let_through (c # cs) st) uid \<le> 250"
proof -
  have start: "counts_of [] (CheckAndUpdateLimitData (cl_now c) (ReportBigData c st))"
    using assms(1) by (simp add: CheckAndUpdateLimitData_def window_frame counts_of_def)
  have "nextCheckTime (snd (RemoteRequestCheck c st)) = cl_now c + 1000"
    using assms(1) by (simp add: check_window LIMIT_REQUEST_TIME_def)
  with check_counts[OF start] window_admits[of "[cl_uid c]" "snd (RemoteRequestCheck c st)" cs] assms(2)
  have eq: "let_through (c # cs) st = admitted [] (c # cs)" by simp
  show ?thesis unfolding eq using admitted_bounds[of "[]" uid "c # cs"] by simp
qed

definition demo_call :: call where
  "demo_call = \<lparr>cl_uid = 7, cl_pid = 1, cl_token = 1, cl_fullToken = 1, cl_now = 5, cl_timestamp = 5\<rparr>"

lemma window_limits_requests_witness:
  "\<forall>rm el. let_through [demo_call, demo_call] (svc_new rm el) = admitted [] [demo_call, demo_call] \<and>
     length (let_through [demo_call, demo_call] (svc_new rm el)) \<le> 650"
proof (intro allI)
  fix rm el
  have "nextCheckTime (svc_new rm el) \<le> cl_now demo_call" by (simp add: svc_new_def demo_call_def)
  moreover have "\<forall>d \<in> set [demo_call]. cl_now d < cl_now demo_call + 1000" by simp
  ultimately show "let_through [demo_call, demo_call] (svc_new rm el) = admitted [] [demo_call, demo_call] \<and>
     length (let_through [demo_call, demo_call] (svc_new rm el)) \<le> 650"
    using window_limits_requests by blast
qed

section \<open>The invariant and the decision about a report\<close>

text \<open>
  C35. In every state of a run of the service, whose requests, level changes and dump commands
  are one step each and during which tokens and permissions may change, the requests counted
  per caller add up to the total and neither passes its limit, the permission cache is a
  well-formed cache of verdicts that the permission check gave during the run, the 32-bit
  counters of refused requests and denied reports are exact enough to be positive and at most
  the number of steps as long as that is below \<open>2 ^ 31\<close> (they wrap around later), and the debug
  level is in range and 0 when debugging is off.
\<close>

theorem svc_reachable_ok:
  assumes "svc_run Vs st"
  shows "svc_ok (given Vs) (length Vs) (length Vs) st"
  using assms by (rule svc_run_ok')

lemma svc_reachable_ok_witness:
  "\<forall>V rm el. svc_ok (given [V]) 1 1 (snd (svc_RegisterEventListener demo_call (Some 1) 0 0 (svc_new rm el)))"
  using svc_reachable_ok[OF svc_run.step[OF svc_run.start svc_step.register_listener]] by simp

text \<open>
  C2. A report gets exactly one answer: it fails when the limit on requests is reached, it is
  denied when the caller is neither the scene board, nor an application, in the foreground where
  the type asks for it, nor a listed system ability with the permission, it is an error when the
  payload has more than 4096 bytes, and only otherwise it is handed to the manager, with the
  caller written into the payload.
\<close>

theorem report_decision:
  assumes "svc_reachable V st"
  shows "\<exists>code st'. svc_ReportData V c resType v payload st = Some (code, st') \<and>
    code = (if fst (RemoteRequestCheck c st) \<noteq> ERR_OK then RES_SCHED_REQUEST_FAIL
            else if \<not> may_report V c (real_type V resType payload) st then ERR_RES_SCHED_PERMISSION_DENIED
            else if 4096 < length payload then ERR_RES_SCHED_PARCEL_ERROR
            else ERR_OK) \<and>
    sv_rm st' = (if code = ERR_OK
                 then rm_ReportData (ve_rm V) (cl_now c) (real_type V resType payload) v
                        (with_caller c (StringToJsonObj V payload)) (sv_rm st)
                 else sv_rm st)"
proof -
  from svc_reachable_ok'[OF assms] obtain n where ok: "svc_ok (\<lambda>token v. v = verified V token) n n st" .
  then have seen: "seen V st = V" by (intro seen_unchanged) (simp add: svc_ok_def)
  obtain st' where st': "sv_rm st' = sv_rm st"
    "svc_ReportData V c resType v payload st =
       (if fst (RemoteRequestCheck c st) \<noteq> ERR_OK then Some (RES_SCHED_REQUEST_FAIL, st')
        else if report_code V c (real_type V resType payload) payload st \<noteq> ERR_OK
        then Some (report_code V c (real_type V resType payload) payload st, st')
        else Some (ERR_OK, sv_emit (SetQos (cl_pid c)) (st'\<lparr>sv_rm :=
               rm_ReportData (ve_rm V) (cl_now c) (real_type V resType payload) v
                 (with_caller c (StringToJsonObj V payload)) (sv_rm st)\<rparr>)))"
    using svc_ReportData_cases[OF ok, where c = c and V = V] unfolding seen by blast
  show ?thesis unfolding st'(2)
    using st'(1) by (simp add: report_code_def PAYLOAD_MAX_SIZE_def sv_emit_def)
qed

lemma report_decision_witness:
  "\<forall>V rm el. \<exists>st'. svc_ReportData V demo_call 1 0 [] (svc_new rm el) =
     Some (ERR_RES_SCHED_PERMISSION_DENIED, st') \<and> sv_rm st' = rm"
proof (intro allI)
  fix V rm el
  have "fst (RemoteRequestCheck demo_call (svc_new rm el)) = ERR_OK"
    by (simp add: check_shape Let_def demo_call_def svc_new_def ReportBigData_def IsLimitRequest_def
        CheckAndUpdateLimitData_def ALL_UID_REQUEST_LIMIT_COUNT_def)
  moreover have "\<not> may_report V demo_call (real_type V 1 []) (svc_new rm el)"
    by (simp add: may_report_def sa_may_report_def sa_listed_def svc_new_def)
  ultimately show "\<exists>st'. svc_ReportData V demo_call 1 0 [] (svc_new rm el) =
     Some (ERR_RES_SCHED_PERMISSION_DENIED, st') \<and> sv_rm st' = rm"
    using report_decision[OF svc_reachable.start, of V demo_call 1 0 "[]" rm el]
    by (auto simp: svc_new_def)
qed

text \<open>
  C14. The permission check of a system ability uses a verdict that the permission service gave
  for the caller's token during the run, now or earlier, and changes nothing but the cache; so
  the cache is invisible for a token whose verdict did not change during the run.
\<close>

theorem permission_cache_invisible:
  assumes "svc_run Vs st"
  shows "\<exists>pc verdict. IsHasPermission V c type uid st =
      Some (sa_listed type uid st \<and> ve_token_type V (cl_token c) = TOKEN_NATIVE \<and> verdict = 0,
            st\<lparr>permissionCache := pc\<rparr>) \<and>
    (\<exists>V'\<in>set (V # Vs). verdict = ve_verify V' (cl_token c) NEEDED_PERMISSION) \<and>
    ((\<forall>V'\<in>set Vs. ve_verify V' (cl_token c) NEEDED_PERMISSION = ve_verify V (cl_token c) NEEDED_PERMISSION)
      \<longrightarrow> verdict = ve_verify V (cl_token c) NEEDED_PERMISSION)"
proof -
  let ?r = "lru_cache.recall (verified V) (permissionCache st) (cl_token c)"
  have "cache_ok (given Vs) st" using svc_run_ok'[OF assms] by (simp add: svc_ok_def)
  then have ok: "cache_ok (given (V # Vs)) st" by (rule cache_ok_mono) (auto simp: given_def)
  have now: "given (V # Vs) (cl_token c) (verified V (cl_token c))" by (simp add: given_def)
  from permission_checked[of _ st c V type uid, OF ok now] obtain pc where
    pc: "IsHasPermission V c type uid st =
      Some (sa_may_report (seen V st) c type uid st, st\<lparr>permissionCache := pc\<rparr>)" .
  have "given (V # Vs) (cl_token c) ?r"
    using ok now unfolding cache_ok_def
    by (intro lru_cache.recall_within[where P = "given (V # Vs)"]) simp_all
  then obtain V' where V': "V' \<in> set (V # Vs)" "?r = ve_verify V' (cl_token c) NEEDED_PERMISSION"
    unfolding given_def verified_def by blast
  have may: "sa_may_report (seen V st) c type uid st \<longleftrightarrow>
      sa_listed type uid st \<and> ve_token_type V (cl_token c) = TOKEN_NATIVE \<and> ?r = 0"
    by (simp add: sa_may_report_def seen_def)
  show ?thesis
    by (rule exI[of _ pc], rule exI[of _ ?r], intro conjI) (use pc may V' in auto)
qed

text \<open>
  The other side: once a verdict is cached, the next check repeats it whatever the permission
  service says by then.
\<close>

lemma revocation_goes_unnoticed:
  assumes run: "svc_run Vs st" and listed: "sa_listed type uid st"
    and native: "ve_token_type V (cl_token c) = TOKEN_NATIVE" "ve_token_type V' (cl_token c) = TOKEN_NATIVE"
    and check: "IsHasPermission V c type uid st = Some (answer, st1)"
  shows "\<exists>st2. IsHasPermission V' c type uid st1 = Some (answer, st2)"
proof -
  let ?tok = "cl_token c"
  let ?P = "\<lambda>k v. True"
  let ?r = "lru_cache.recall (verified V) (permissionCache st) ?tok"
  have "cache_ok (given Vs) st" using svc_run_ok'[OF run] by (simp add: svc_ok_def)
  then have ok: "lru_inv (permissionCache st) \<and> 0 < capacity (permissionCache st)"
    by (simp add: cache_ok_def)
  have any: "lru_cache.within ?P pc" for pc :: "(u32, i32) lru" by (simp add: lru_cache.within_def)
  from lru_cache.memo_recalls[OF ok any, where k = ?tok and f = "verified V"] obtain pc where
    pc: "lru_cache.memo (verified V) ?tok (permissionCache st) = Some (pc, ?r)"
      "lru_inv pc \<and> 0 < capacity pc" "map_of (lru_abs pc) ?tok = Some ?r" by blast
  have st1: "st1 = st\<lparr>permissionCache := pc\<rparr>" "answer = (?r = 0)"
    using check listed native(1) pc(1) by (auto simp: IsHasPermission_memo)
  have listed1: "sa_listed type uid st1" using listed by (simp add: st1 sa_listed_def split: option.splits)
  from lru_cache.memo_recalls[OF pc(2) any, where k = ?tok and f = "verified V'"] pc(3) obtain pc2 where
    "lru_cache.memo (verified V') ?tok pc = Some (pc2, ?r)"
    by (auto simp: lru_cache.recall_def)
  then show ?thesis using listed1 native(2) by (simp add: IsHasPermission_memo st1)
qed

section \<open>The access tables and their extensions\<close>

lemma insert_missing_lookup:
  "map_of (fold (\<lambda>(t, uids) m. case map_of m t of None \<Rightarrow> m @ [(t, uids)] | Some _ \<Rightarrow> m) l m) k =
   (case map_of m k of Some u \<Rightarrow> Some u | None \<Rightarrow> map_of l k)"
proof (induction l arbitrary: m k)
  case (Cons e l)
  obtain t u where e: "e = (t, u)" by fastforce
  show ?case
    by (cases "map_of m t"; cases "map_of m k"; cases "k = t")
       (auto simp: e Cons.IH map_add_def)
qed (simp split: option.split)

lemma AddSomeSARes_lookup:
  "map_of (allowSomeSAReportRes (AddSomeSARes l st)) k =
   (case map_of (allowSomeSAReportRes st) k of Some u \<Rightarrow> Some u | None \<Rightarrow> map_of l k)"
  by (simp add: AddSomeSARes_def insert_missing_lookup)

text \<open>
  The extension of the table of callers fills gaps only: for a type in the built-in table
  the callers are the built-in ones whatever the extension says, and a type in the table is
  refused to every other system ability even when the table of all system abilities has it.
\<close>

theorem extension_cannot_widen:
  "map_of (allowSomeSAReportRes (InitAllowIpcReportRes V (svc_new rm el))) type =
     (case map_of ALLOW_SOME_UID_REPORT_RES type of
        Some uids \<Rightarrow> Some uids
      | None \<Rightarrow> map_of (allowSomeSAReportResExt rm) type) \<and>
   (sa_listed RES_TYPE_AVCODE_HARDWARE_RESOURCES uid (InitAllowIpcReportRes V (svc_new rm el)) \<longleftrightarrow> uid = 1013)"
proof -
  let ?st = "InitAllowIpcReportRes V (svc_new rm el)"
  have frame: "allowSomeSAReportRes (AddFgAppRes l s) = allowSomeSAReportRes s"
    "allowSomeSAReportRes (AddAllAppRes l s) = allowSomeSAReportRes s"
    "allowSomeSAReportRes (AddAllSARes l s) = allowSomeSAReportRes s"
    "allowSomeSAReportRes (AddSCBRes l s) = allowSomeSAReportRes s"
    "sv_rm (AddFgAppRes l s) = sv_rm s" "sv_rm (AddAllAppRes l s) = sv_rm s"
    "sv_rm (AddAllSARes l s) = sv_rm s" "sv_rm (AddSCBRes l s) = sv_rm s"
    "sv_rm (AddSomeSARes l2 s) = sv_rm s" for l s l2
    by (simp_all add: AddFgAppRes_def AddAllAppRes_def AddAllSARes_def AddSCBRes_def AddSomeSARes_def)
  have look: "map_of (allowSomeSAReportRes ?st) k =
      (case map_of ALLOW_SOME_UID_REPORT_RES k of Some u \<Rightarrow> Some u | None \<Rightarrow> map_of (allowSomeSAReportResExt rm) k)" for k
    by (simp add: InitAllowIpcReportRes_def Let_def frame AddSomeSARes_lookup svc_new_def)
  have "map_of ALLOW_SOME_UID_REPORT_RES RES_TYPE_AVCODE_HARDWARE_RESOURCES = Some [1013]"
    unfolding ALLOW_SOME_UID_REPORT_RES_def by (simp add: res_type_defs)
  then have "sa_listed RES_TYPE_AVCODE_HARDWARE_RESOURCES uid ?st \<longleftrightarrow> uid = 1013"
    by (simp add: sa_listed_def look)
  with look show ?thesis by blast
qed

text \<open>A listed caller, checked under an environment other than the one of the run.\<close>

lemma permission_cache_invisible_witness:
  "\<forall>(V :: svc_env) rm el. \<exists>pc verdict. IsHasPermission (V\<lparr>ve_token_type := \<lambda>_. TOKEN_NATIVE, ve_verify := \<lambda>_ _. 0\<rparr>) demo_call
     RES_TYPE_AVCODE_HARDWARE_RESOURCES 1013 (InitAllowIpcReportRes V (svc_new rm el)) =
       Some (verdict = 0, (InitAllowIpcReportRes V (svc_new rm el))\<lparr>permissionCache := pc\<rparr>) \<and>
     (verdict = 0 \<or> verdict = ve_verify V (cl_token demo_call) NEEDED_PERMISSION)"
proof (intro allI)
  fix V :: svc_env and rm el
  let ?V = "V\<lparr>ve_token_type := \<lambda>_. TOKEN_NATIVE, ve_verify := \<lambda>_ _. 0\<rparr>"
  let ?st = "InitAllowIpcReportRes V (svc_new rm el)"
  have "svc_run [V] ?st" by (rule svc_run.step[OF svc_run.start svc_step.init])
  from permission_cache_invisible[OF this, of ?V demo_call RES_TYPE_AVCODE_HARDWARE_RESOURCES 1013]
  show "\<exists>pc verdict. IsHasPermission ?V demo_call RES_TYPE_AVCODE_HARDWARE_RESOURCES 1013 ?st =
       Some (verdict = 0, ?st\<lparr>permissionCache := pc\<rparr>) \<and>
     (verdict = 0 \<or> verdict = ve_verify V (cl_token demo_call) NEEDED_PERMISSION)"
    using extension_cannot_widen[of V rm el _ 1013] by auto
qed

section \<open>The debug override of the load level\<close>

text \<open>Level changes reported one after the other.\<close>

fun run_levels :: "i32 list \<Rightarrow> svc_state \<Rightarrow> svc_state option" where
  "run_levels [] st = Some st"
| "run_levels (l # ls) st =
     (case svc_OnDeviceLevelChanged SYSTEMLOAD_LEVEL l False st of
        None \<Rightarrow> None | Some st' \<Rightarrow> run_levels ls st')"

definition level_told :: "svc_state \<Rightarrow> i32" where
  "level_told st = nm_GetSystemloadLevel (rm_nm (sv_rm st))"

lemma save_level:
  "systemloadLevel (fold (\<lambda>(name, v) s. if systemloadLevel s = v then nm_emit (SaveLevel name) s else s) ps st) =
     systemloadLevel st"
  by (induction ps arbitrary: st) (auto simp: nm_emit_def)

lemma nm_level_total:
  "\<exists>nm'. nm_OnDeviceLevelChanged SYSTEMLOAD_LEVEL l nm = Some nm' \<and>
     systemloadLevel nm' = (if 0 \<le> l \<and> l \<le> 7 then l else systemloadLevel nm)"
proof (cases "0 \<le> l \<and> l \<le> 7")
  case True
  define nm1 where "nm1 = StoreLevel l nm"
  have "systemloadLevel nm1 = l" unfolding nm1_def StoreLevel_def save_level by simp
  with True show ?thesis
    by (simp add: nm_OnDeviceLevelChanged_def Let_def nm1_def[symmetric] OnDeviceLevelChangedLock_def
        RecordLevel_def level_accepted_def HandleDeviceLevelChange_def nm_emit_def LOW_def ESCAPE_def)
next
  case False
  then show ?thesis by (auto simp: nm_OnDeviceLevelChanged_def level_accepted_def LOW_def ESCAPE_def)
qed

lemma svc_level_total:
  "\<exists>st'. svc_OnDeviceLevelChanged SYSTEMLOAD_LEVEL l b st = Some st' \<and>
     actualSystemLoadLevel st' = (if b then actualSystemLoadLevel st else l) \<and>
     debugSystemLoadLevel st' = debugSystemLoadLevel st \<and>
     systemLoadLevelDebugEnable st' = systemLoadLevelDebugEnable st \<and>
     level_told st' =
       (let l' = if systemLoadLevelDebugEnable st then debugSystemLoadLevel st else l in
        if 0 \<le> l' \<and> l' \<le> 7 then l' else level_told st)"
  using nm_level_total[of "if systemLoadLevelDebugEnable st then debugSystemLoadLevel st else l" "rm_nm (sv_rm st)"]
  by (auto simp: svc_OnDeviceLevelChanged_def Let_def level_told_def nm_GetSystemloadLevel_def)

definition debugging :: "i32 \<Rightarrow> svc_state \<Rightarrow> bool" where
  "debugging n st \<longleftrightarrow> systemLoadLevelDebugEnable st \<and> debugSystemLoadLevel st = n \<and> level_told st = n"

lemma run_levels_debugging:
  "debugging n st \<Longrightarrow> 0 \<le> n \<Longrightarrow> n \<le> 7 \<Longrightarrow>
   \<exists>st'. run_levels ls st = Some st' \<and> debugging n st' \<and>
     actualSystemLoadLevel st' = last (actualSystemLoadLevel st # ls)"
proof (induction ls arbitrary: st)
  case (Cons l ls)
  from svc_level_total[of l False st] Cons.prems obtain st1 where st1:
    "svc_OnDeviceLevelChanged SYSTEMLOAD_LEVEL l False st = Some st1" "debugging n st1"
    "actualSystemLoadLevel st1 = l"
    by (auto simp: debugging_def Let_def)
  from Cons.IH[OF st1(2) Cons.prems(2,3)] st1 show ?case by auto
qed simp

text \<open>
  While the level is overridden by a number from 0 to 7, clients and queries see that number
  whatever levels are reported meanwhile; the reset restores the last level reported since the
  service started, or 0 when none was, and leaves the override in place for the clients when
  that level is out of range.
\<close>

theorem debug_level_roundtrip:
  assumes "ve_StrToInt V s = Some n" "0 \<le> n" "n \<le> 7" "s \<noteq> ''reset''"
  shows "\<exists>r1 st1 st2 r3 st3.
    DumpSetSystemLoad V [''setSystemLoadLevel'', s] r st = Some (r1, st1) \<and>
    run_levels ls st1 = Some st2 \<and> svc_GetSystemloadLevel st2 = n \<and> level_told st2 = n \<and>
    DumpSetSystemLoad V [''setSystemLoadLevel'', ''reset''] r st2 = Some (r3, st3) \<and>
    (let a = last (actualSystemLoadLevel st # ls) in
     svc_GetSystemloadLevel st3 = (if 0 \<le> a \<and> a \<le> 7 then a else n) \<and>
     level_told st3 = svc_GetSystemloadLevel st3)"
proof -
  let ?on = "st\<lparr>systemLoadLevelDebugEnable := True, debugSystemLoadLevel := n\<rparr>"
  from svc_level_total[of n True ?on] assms(2,3) obtain st1 where
    on: "svc_OnDeviceLevelChanged SYSTEMLOAD_LEVEL n True ?on = Some st1" and dbg: "debugging n st1"
    and act: "actualSystemLoadLevel st1 = actualSystemLoadLevel st"
    by (auto simp: debugging_def)
  have set: "\<exists>r1. DumpSetSystemLoad V [''setSystemLoadLevel'', s] r st = Some (r1, st1)"
    using assms on by (simp add: DumpSetSystemLoad_def DUMP_PARAM_INDEX_def DEBUG_LEVEL_MAXIMUM_def
        DEBUG_LEVEL_MINIMUM_def)
  from run_levels_debugging[OF dbg assms(2,3), of ls] act obtain st2 where
    st2: "run_levels ls st1 = Some st2" "debugging n st2"
    "actualSystemLoadLevel st2 = last (actualSystemLoadLevel st # ls)" by auto
  let ?off = "st2\<lparr>systemLoadLevelDebugEnable := False, debugSystemLoadLevel := 0\<rparr>"
  from svc_level_total[of "actualSystemLoadLevel st2" False ?off] obtain st3 where
    off: "svc_OnDeviceLevelChanged SYSTEMLOAD_LEVEL (actualSystemLoadLevel st2) False ?off = Some st3"
    "\<not> systemLoadLevelDebugEnable st3"
    "level_told st3 = (if 0 \<le> actualSystemLoadLevel st2 \<and> actualSystemLoadLevel st2 \<le> 7
                       then actualSystemLoadLevel st2 else n)"
    using st2(2) by (auto simp: debugging_def level_told_def Let_def)
  have reset: "\<exists>r3. DumpSetSystemLoad V [''setSystemLoadLevel'', ''reset''] r st2 = Some (r3, st3)"
    using off(1) by (simp add: DumpSetSystemLoad_def DUMP_PARAM_INDEX_def)
  have see: "svc_GetSystemloadLevel st2 = n" "level_told st2 = n"
    "svc_GetSystemloadLevel st3 = level_told st3"
    using st2(2) off(2) by (simp_all add: svc_GetSystemloadLevel_def debugging_def level_told_def)
  from set st2(1) see reset off(3) show ?thesis unfolding st2(3) Let_def by metis
qed

lemma debug_level_roundtrip_witness:
  "\<forall>V rm el. \<exists>r1 st1 r3 st3.
     DumpSetSystemLoad (V\<lparr>ve_StrToInt := StrToInt32\<rparr>) [''setSystemLoadLevel'', ''5''] [] (svc_new rm el) = Some (r1, st1) \<and>
     DumpSetSystemLoad (V\<lparr>ve_StrToInt := StrToInt32\<rparr>) [''setSystemLoadLevel'', ''reset''] [] st1 = Some (r3, st3) \<and>
     svc_GetSystemloadLevel st1 = 5 \<and> svc_GetSystemloadLevel st3 = 0"
proof (intro allI)
  fix V :: svc_env and rm el
  have "StrToInt32 ''5'' = Some 5" by code_simp
  then have "ve_StrToInt (V\<lparr>ve_StrToInt := StrToInt32\<rparr>) ''5'' = Some 5" by simp
  from debug_level_roundtrip[OF this, of "[]" "svc_new rm el" "[]"]
  show "\<exists>r1 st1 r3 st3.
     DumpSetSystemLoad (V\<lparr>ve_StrToInt := StrToInt32\<rparr>) [''setSystemLoadLevel'', ''5''] [] (svc_new rm el) = Some (r1, st1) \<and>
     DumpSetSystemLoad (V\<lparr>ve_StrToInt := StrToInt32\<rparr>) [''setSystemLoadLevel'', ''reset''] [] st1 = Some (r3, st3) \<and>
     svc_GetSystemloadLevel st1 = 5 \<and> svc_GetSystemloadLevel st3 = 0"
    by (auto simp: Let_def svc_new_def)
qed

end
