(* ===== verification/Socperf_Define.thy ===== *)
theory Socperf_Define
  imports Plugin_Cgroup
begin

text \<open>
  The constants of the frequency plugin (plugins/socperf\_plugin/include/common\_define.h): the
  names of its configuration and payload members (\<open>sp_names\<close>) and its numbers, above all
  the commands it sends to the frequency service (\<open>sp_ids\<close>).  A name another theory has
  already carries the suffix \<open>_sp\<close>.
\<close>

named_theorems sp_names \<open>the names behind the string constants\<close>
named_theorems sp_ids \<open>the numbers behind the commands\<close>

definition LIB_NAME_sp :: string where [sp_names]: "LIB_NAME_sp = ''libsocperf_plugin.z.so''"
definition PLUGIN_NAME :: string where [sp_names]: "PLUGIN_NAME = ''SOCPERF''"
definition ITEM_KEY_CAPACITY :: string where [sp_names]: "ITEM_KEY_CAPACITY = ''capacity''"
definition CONFIG_NAME_SOCPERF_FEATURE_SWITCH :: string where [sp_names]: "CONFIG_NAME_SOCPERF_FEATURE_SWITCH = ''socperfFeatureSwitch''"
definition CONFIG_NAME_SOCPERF_EVENT_ID :: string where [sp_names]: "CONFIG_NAME_SOCPERF_EVENT_ID = ''socperfEventId''"
definition CONFIG_NAME_SOCPERF_POLICY_MODE :: string where [sp_names]: "CONFIG_NAME_SOCPERF_POLICY_MODE = ''socperfPolicyMode''"
definition CONFIG_NAME_SOCPERF_LIMIT_POLICY :: string where [sp_names]: "CONFIG_NAME_SOCPERF_LIMIT_POLICY = ''limitPolicy''"
definition SUB_ITEM_KEY_NAME_SOCPERF_ON_DEMAND :: string where [sp_names]: "SUB_ITEM_KEY_NAME_SOCPERF_ON_DEMAND = ''socperf_on_demand''"
definition SUB_ITEM_KEY_NAME_SOCPERF_GAME_BOOST :: string where [sp_names]: "SUB_ITEM_KEY_NAME_SOCPERF_GAME_BOOST = ''socperf_game_boost''"
definition CONFIG_NAME_SOCPERF_BUNDLE_NAME_BOOST_LIST :: string where [sp_names]: "CONFIG_NAME_SOCPERF_BUNDLE_NAME_BOOST_LIST = ''socperfBundleNameBoostList''"
definition SUB_ITEM_KEY_NAME_APP_USE_CAMERA_BOOST :: string where [sp_names]: "SUB_ITEM_KEY_NAME_APP_USE_CAMERA_BOOST = ''app_use_camera_boost''"
definition SUB_ITEM_KEY_NAME_APP_MOVE_EVENT_BOOST :: string where [sp_names]: "SUB_ITEM_KEY_NAME_APP_MOVE_EVENT_BOOST = ''app_move_event_boost''"
definition CNOFIG_NAME_SOCPERF_CRUCIAL_FUNC :: string where [sp_names]: "CNOFIG_NAME_SOCPERF_CRUCIAL_FUNC = ''socperfCrucialFunc''"
definition SUB_ITEM_KEY_NAME_SOCPERF_RERQ_APPTYPE_PATH :: string where [sp_names]: "SUB_ITEM_KEY_NAME_SOCPERF_RERQ_APPTYPE_PATH = ''socperf_req_apptype_path''"
definition SUB_ITEM_KEY_NAME_SOCPERF_RERQ_APPTYPE_FUNC :: string where [sp_names]: "SUB_ITEM_KEY_NAME_SOCPERF_RERQ_APPTYPE_FUNC = ''socperf_req_apptype_func''"
definition CONFIG_NAME_SOCPERF_BATTERY_CAPACITY_LIMIT_FREQ :: string where [sp_names]: "CONFIG_NAME_SOCPERF_BATTERY_CAPACITY_LIMIT_FREQ = ''socperfBatteryCapacityLimitFreq''"
definition BUNDLE_NAME :: string where [sp_names]: "BUNDLE_NAME = ''bundleName''"
definition CALLER_BUNDLE_NAME :: string where [sp_names]: "CALLER_BUNDLE_NAME = ''callerBundleName''"
definition SPECIAL_EXTENSION_STRING :: string where [sp_names]: "SPECIAL_EXTENSION_STRING = ''specialExtension''"
definition INFO_STRING :: string where [sp_names]: "INFO_STRING = ''info''"
definition PID_NAME :: string where [sp_names]: "PID_NAME = ''pid''"
definition CLIENT_PID_NAME :: string where [sp_names]: "CLIENT_PID_NAME = ''clientPid''"
definition UID_NAME :: string where [sp_names]: "UID_NAME = ''uid''"
definition CALLING_UID_NAME :: string where [sp_names]: "CALLING_UID_NAME = ''callingUid''"
definition SOCPERF_TYPE_ID :: string where [sp_names]: "SOCPERF_TYPE_ID = ''socperf_type_id''"
definition SOCPERF_TYPE_RGM :: string where [sp_names]: "SOCPERF_TYPE_RGM = ''socperf_type_rgm''"
definition SOCPERF_POLICY_MODE :: string where [sp_names]: "SOCPERF_POLICY_MODE = ''socperf_mode''"
definition EXTENSION_TYPE_KEY :: string where [sp_names]: "EXTENSION_TYPE_KEY = ''extensionType''"
definition DEVICE_MODE_TYPE_KEY :: string where [sp_names]: "DEVICE_MODE_TYPE_KEY = ''deviceModeType''"
definition DEVICE_MODE_PAYMODE_NAME :: string where [sp_names]: "DEVICE_MODE_PAYMODE_NAME = ''deviceMode''"
definition DISPLAY_MODE_KEY :: string where [sp_names]: "DISPLAY_MODE_KEY = ''display''"
definition DEVICE_ORIENTATION_TYPE_KEY :: string where [sp_names]: "DEVICE_ORIENTATION_TYPE_KEY = ''deviceOrientation''"
definition DISPLAY_MODE_FULL :: string where [sp_names]: "DISPLAY_MODE_FULL = ''displayFull''"
definition DISPLAY_MODE_MAIN :: string where [sp_names]: "DISPLAY_MODE_MAIN = ''displayMain''"
definition DISPLAY_MODE_SUB :: string where [sp_names]: "DISPLAY_MODE_SUB = ''displaySub''"
definition DISPLAY_MODE_GLOBAL_FULL :: string where [sp_names]: "DISPLAY_MODE_GLOBAL_FULL = ''displayGlobalFull''"
definition DISPLAY_ORIENTAYION_LANDSCAPE :: string where [sp_names]: "DISPLAY_ORIENTAYION_LANDSCAPE = ''displayLandscape''"
definition DISPLAY_ORIENTAYION_PORTRAIT :: string where [sp_names]: "DISPLAY_ORIENTAYION_PORTRAIT = ''displayPortrait''"
definition SCREEN_MODE_KEY :: string where [sp_names]: "SCREEN_MODE_KEY = ''screenStatus''"
definition SCREEN_MODE_ON :: string where [sp_names]: "SCREEN_MODE_ON = ''screen_on''"
definition SCREEN_MODE_OFF :: string where [sp_names]: "SCREEN_MODE_OFF = ''screen_off''"
definition POWER_MODE_KEY :: string where [sp_names]: "POWER_MODE_KEY = ''power''"
definition POWER_MODE :: string where [sp_names]: "POWER_MODE = ''powerMode''"
definition POWER_STATUS_KEY :: string where [sp_names]: "POWER_STATUS_KEY = ''powerStatus''"
definition PRELOAD_MODE :: string where [sp_names]: "PRELOAD_MODE = ''preloadMode''"
definition PRELAUNCH :: string where [sp_names]: "PRELAUNCH = ''isPrelaunch''"
definition WEAK_ACTION_STRING :: string where [sp_names]: "WEAK_ACTION_STRING = ''weakInterAction''"
definition WEAK_ACTION_MODE :: string where [sp_names]: "WEAK_ACTION_MODE = ''actionmode:weakaction''"
definition KEY_APP_TYPE :: string where [sp_names]: "KEY_APP_TYPE = ''key_app_type''"
definition GAME_ENV :: string where [sp_names]: "GAME_ENV = ''env''"
definition RES_ID :: string where [sp_names]: "RES_ID = ''resId''"
definition COMMON_EVENT_CHARGE_STATE :: string where [sp_names]: "COMMON_EVENT_CHARGE_STATE = ''chargeState''"
definition SCHED_MODE_KEY :: string where [sp_names]: "SCHED_MODE_KEY = ''schedMode''"
definition CLOUD_PARAMS :: string where [sp_names]: "CLOUD_PARAMS = ''params''"
definition ENABLE_STRING :: string where [sp_names]: "ENABLE_STRING = ''enable''"
definition SCENE_LIVE_BROADCAST :: i32 where [sp_ids]: "SCENE_LIVE_BROADCAST = 5"
definition SOC_PERF_SA_ID :: i32 where [sp_ids]: "SOC_PERF_SA_ID = 1906"
definition INVALID_VALUE :: i32 where [sp_ids]: "INVALID_VALUE = - 1"
definition APP_TYPE_GAME :: i32 where [sp_ids]: "APP_TYPE_GAME = 2"
definition INVALID_APP_TYPE :: i32 where [sp_ids]: "INVALID_APP_TYPE = 0"
definition POWERMODE_ON :: i32 where [sp_ids]: "POWERMODE_ON = 601"
definition TIME_INTERVAL :: i64 where [sp_ids]: "TIME_INTERVAL = 4500"
definition WAKE_UP_TIME_DELAY :: i64 where [sp_ids]: "WAKE_UP_TIME_DELAY = 3000000"
definition SCREEN_OFF_TIME_DELAY :: i64 where [sp_ids]: "SCREEN_OFF_TIME_DELAY = 5000000"
definition PERF_REQUEST_CMD_ID_RGM_BOOTING_START :: i32 where [sp_ids]: "PERF_REQUEST_CMD_ID_RGM_BOOTING_START = 1000"
definition PERF_REQUEST_CMD_ID_APP_START :: i32 where [sp_ids]: "PERF_REQUEST_CMD_ID_APP_START = 10000"
definition PERF_REQUEST_CMD_ID_WARM_START :: i32 where [sp_ids]: "PERF_REQUEST_CMD_ID_WARM_START = 10001"
definition PERF_REQUEST_CMD_ID_WINDOW_SWITCH :: i32 where [sp_ids]: "PERF_REQUEST_CMD_ID_WINDOW_SWITCH = 10002"
definition PERF_REQUEST_CMD_ID_EVENT_CLICK :: i32 where [sp_ids]: "PERF_REQUEST_CMD_ID_EVENT_CLICK = 10006"
definition PERF_REQUEST_CMD_ID_LOAD_PAGE_START :: i32 where [sp_ids]: "PERF_REQUEST_CMD_ID_LOAD_PAGE_START = 10007"
definition PERF_REQUEST_CMD_ID_EVENT_FLING :: i32 where [sp_ids]: "PERF_REQUEST_CMD_ID_EVENT_FLING = 10008"
definition PERF_REQUEST_CMD_ID_EVENT_TOUCH_DOWN :: i32 where [sp_ids]: "PERF_REQUEST_CMD_ID_EVENT_TOUCH_DOWN = 10010"
definition PERF_REQUEST_CMD_ID_LOAD_PAGE_COMPLETE :: i32 where [sp_ids]: "PERF_REQUEST_CMD_ID_LOAD_PAGE_COMPLETE = 10011"
definition PERF_REQUEST_CMD_ID_EVENT_WEB_GESTURE :: i32 where [sp_ids]: "PERF_REQUEST_CMD_ID_EVENT_WEB_GESTURE = 10012"
definition PERF_REQUEST_CMD_ID_POP_PAGE :: i32 where [sp_ids]: "PERF_REQUEST_CMD_ID_POP_PAGE = 10016"
definition PERF_REQUEST_CMD_ID_RESIZE_WINDOW :: i32 where [sp_ids]: "PERF_REQUEST_CMD_ID_RESIZE_WINDOW = 10018"
definition PERF_REQUEST_CMD_ID_MOVE_WINDOW :: i32 where [sp_ids]: "PERF_REQUEST_CMD_ID_MOVE_WINDOW = 10019"
definition PERF_REQUEST_CMD_ID_WEB_GESTURE_MOVE :: i32 where [sp_ids]: "PERF_REQUEST_CMD_ID_WEB_GESTURE_MOVE = 10020"
definition PERF_REQUEST_CMD_ID_WEB_SLIDE_NORMAL :: i32 where [sp_ids]: "PERF_REQUEST_CMD_ID_WEB_SLIDE_NORMAL = 10025"
definition PERF_REQUEST_CMD_ID_ROTATION :: i32 where [sp_ids]: "PERF_REQUEST_CMD_ID_ROTATION = 10027"
definition PERF_REQUEST_CMD_ID_SCREEN_ON :: i32 where [sp_ids]: "PERF_REQUEST_CMD_ID_SCREEN_ON = 10028"
definition PERF_REQUEST_CMD_ID_SCREEN_OFF :: i32 where [sp_ids]: "PERF_REQUEST_CMD_ID_SCREEN_OFF = 10029"
definition PERF_REQUEST_CMD_ID_REMOTE_ANIMATION :: i32 where [sp_ids]: "PERF_REQUEST_CMD_ID_REMOTE_ANIMATION = 10030"
definition PERF_REQUEST_CMD_ID_DRAG_STATUS_BAR :: i32 where [sp_ids]: "PERF_REQUEST_CMD_ID_DRAG_STATUS_BAR = 10034"
definition PERF_REQUEST_CMD_ID_GAME_START :: i32 where [sp_ids]: "PERF_REQUEST_CMD_ID_GAME_START = 10036"
definition PERF_REQUEST_CMD_ID_EVENT_TOUCH_UP :: i32 where [sp_ids]: "PERF_REQUEST_CMD_ID_EVENT_TOUCH_UP = 10040"
definition PERF_REQUEST_CMD_ID_REMOTE_UNLOCK :: i32 where [sp_ids]: "PERF_REQUEST_CMD_ID_REMOTE_UNLOCK = 10041"
definition PERF_REQUEST_CMD_ID_ACCOUNT_ACTIVATING :: i32 where [sp_ids]: "PERF_REQUEST_CMD_ID_ACCOUNT_ACTIVATING = 10043"
definition PERF_REQUEST_CMD_ID_EVENT_KEY_DOWN :: i32 where [sp_ids]: "PERF_REQUEST_CMD_ID_EVENT_KEY_DOWN = 10044"
definition PERF_REQUEST_CMD_ID_POWER_KEY :: i32 where [sp_ids]: "PERF_REQUEST_CMD_ID_POWER_KEY = 10045"
definition PERF_REQUEST_CMD_ID_CROWN_ROTATION :: i32 where [sp_ids]: "PERF_REQUEST_CMD_ID_CROWN_ROTATION = 10046"
definition PERF_REQUEST_CMD_ID_LOAD_URL :: i32 where [sp_ids]: "PERF_REQUEST_CMD_ID_LOAD_URL = 10070"
definition PERF_REQUEST_CMD_ID_MOUSEWHEEL :: i32 where [sp_ids]: "PERF_REQUEST_CMD_ID_MOUSEWHEEL = 10071"
definition PERF_REQUEST_CMD_ID_WEB_DRAG_RESIZE :: i32 where [sp_ids]: "PERF_REQUEST_CMD_ID_WEB_DRAG_RESIZE = 10073"
definition PERF_REQUEST_CMD_ID_BMM_MONITER_START :: i32 where [sp_ids]: "PERF_REQUEST_CMD_ID_BMM_MONITER_START = 10081"
definition PERF_REQUEST_CMD_ID_DISPLAY_MODE_FULL :: i32 where [sp_ids]: "PERF_REQUEST_CMD_ID_DISPLAY_MODE_FULL = 10082"
definition PERF_REQUEST_CMD_ID_DISPLAY_MODE_MAIN :: i32 where [sp_ids]: "PERF_REQUEST_CMD_ID_DISPLAY_MODE_MAIN = 10083"
definition PERF_REQUEST_CMD_ID_GAME_BOOST :: i32 where [sp_ids]: "PERF_REQUEST_CMD_ID_GAME_BOOST = 10085"
definition PERF_REQUEST_CMD_ID_APP_USE_CAMERA :: i32 where [sp_ids]: "PERF_REQUEST_CMD_ID_APP_USE_CAMERA = 10086"
definition PERF_REQUEST_CMD_ID_FILE_COPY :: i32 where [sp_ids]: "PERF_REQUEST_CMD_ID_FILE_COPY = 10087"
definition PERF_REQUEST_CMD_ID_SCREEN_SWITCHED :: i32 where [sp_ids]: "PERF_REQUEST_CMD_ID_SCREEN_SWITCHED = 10090"
definition PERF_REQUEST_CMD_ID_MOVE_EVENT_BOOST :: i32 where [sp_ids]: "PERF_REQUEST_CMD_ID_MOVE_EVENT_BOOST = 10091"
definition PERF_REQUEST_CMD_ID_EVENT_DRAG :: i32 where [sp_ids]: "PERF_REQUEST_CMD_ID_EVENT_DRAG = 10092"
definition PERF_REQUEST_CMD_ID_GAME_BOOST_LEVEL1 :: i32 where [sp_ids]: "PERF_REQUEST_CMD_ID_GAME_BOOST_LEVEL1 = 10093"
definition PERF_REQUEST_CMD_ID_GAME_BOOST_LEVEL2 :: i32 where [sp_ids]: "PERF_REQUEST_CMD_ID_GAME_BOOST_LEVEL2 = 10094"
definition PERF_REQUEST_CMD_ID_GAME_BOOST_LEVEL3 :: i32 where [sp_ids]: "PERF_REQUEST_CMD_ID_GAME_BOOST_LEVEL3 = 10095"
definition PERF_REQUEST_CMD_ID_WEB_SLIDE_SCROLL :: i32 where [sp_ids]: "PERF_REQUEST_CMD_ID_WEB_SLIDE_SCROLL = 10097"
definition PERF_REQUEST_CMD_ID_DISPLAY_GLOBAL_L :: i32 where [sp_ids]: "PERF_REQUEST_CMD_ID_DISPLAY_GLOBAL_L = 10098"
definition PERF_REQUEST_CMD_ID_DISPLAY_GLOBAL_P :: i32 where [sp_ids]: "PERF_REQUEST_CMD_ID_DISPLAY_GLOBAL_P = 10203"
definition PERF_REQUEST_CMD_ID_RECENT_BUILD :: i32 where [sp_ids]: "PERF_REQUEST_CMD_ID_RECENT_BUILD = 10200"
definition PERF_REQUEST_CMD_ID_LIVE_BROADCAST :: i32 where [sp_ids]: "PERF_REQUEST_CMD_ID_LIVE_BROADCAST = 10224"
definition PERF_REQUEST_CMD_ID_OOBE_CLONE :: i32 where [sp_ids]: "PERF_REQUEST_CMD_ID_OOBE_CLONE = 10225"
definition PERF_REQUEST_CMD_ID_IMAGE_WORK_PROCESS_START :: i32 where [sp_ids]: "PERF_REQUEST_CMD_ID_IMAGE_WORK_PROCESS_START = 10221"
definition PERF_REQUEST_CMD_ID_SCREEN_ON_PERFORMANCE_MODE :: i32 where [sp_ids]: "PERF_REQUEST_CMD_ID_SCREEN_ON_PERFORMANCE_MODE = 30028"
definition PERF_REQUEST_CMD_ID_SCREEN_OFF_PERFORMANCE_MODE :: i32 where [sp_ids]: "PERF_REQUEST_CMD_ID_SCREEN_OFF_PERFORMANCE_MODE = 30029"
definition PRELOAD_SET_sp :: "string list" where
  "PRELOAD_SET_sp = [''1'', ''2'', ''4'']"

end
