(* ===== verification/Socperf_Model.thy ===== *)
theory Socperf_Model
  imports Socperf_Define
begin

text \<open>
  The frequency plugin (plugins/socperf\_plugin: socperf\_plugin.cpp, utils.cpp): its
  configuration, the handlers of the events it subscribes to, and the requests it sends to the
  frequency service.  The compile-time switches, the bundle manager, the signature check, the
  loader and the JSON reader of a cloud configuration are parameters; the clock comes with each
  event; the results of the handlers, which the function map drops, are not modelled.  A handler
  that reads a member with the wrong type throws (\<open>None\<close>).
\<close>

section \<open>Data\<close>

record app_msg =
  am_appType :: i32
  am_bundleName :: string

record frequencies =
  fq_tags :: "i32 list"
  fq_configs :: "i64 list"

definition CHARGE_STATE_ENABLE :: i32 where "CHARGE_STATE_ENABLE = 1"
definition CHARGE_STATE_FULL :: i32 where "CHARGE_STATE_FULL = 3"
definition POWER_MODE_MIN :: i64 where "POWER_MODE_MIN = 600"
definition NORMAL_MODE_power :: i64 where "NORMAL_MODE_power = POWER_MODE_MIN"
definition PERFORMANCE_MODE :: i64 where "PERFORMANCE_MODE = 602"
definition POWER_MODE_MAX :: i64 where "POWER_MODE_MAX = 603"

definition UI_SENSITIVE_EXTENSION :: "i32 list" where
  "UI_SENSITIVE_EXTENSION = [2, 255, 256, 257, 500]"

datatype sp_out =
    PerfRequest i32 string
  | PerfRequestEx i32 bool string
  | RequestDeviceMode string bool
  | PowerLimitBoost bool string
  | LimitRequest "i32 list" "i64 list" string
  | RemoveConfig string
  | ReportInProcess u32 i64

text \<open>Delayed tasks: the screen-off task, and the timeout of a wake-up by its handle.\<close>

datatype sp_task = ScreenOffTask | WakeUpTask nat

record sp_env =
  se_cust :: bool
  se_crown :: bool
  se_copy :: bool
  se_ffrt :: bool
  se_signature_ok :: "string \<Rightarrow> bool"
  se_bundle_of_uid :: "i32 \<Rightarrow> string"
  se_dlopen :: "string \<Rightarrow> bool"
  se_dlsym :: "string \<Rightarrow> string \<Rightarrow> (string \<Rightarrow> i32) option"
  se_config_of_json :: "json \<Rightarrow> plugin_config_map option"

text \<open>The members of the plugin; the sets are lists without duplicates, the two function-local
  statics of \<open>HandleContinuousDrag\<close> are fields, and so are the calls and requests made so far.\<close>

record sp_state =
  sp_resTypes :: "u32 list"
  sp_resTypeWithVal :: "(u32 \<times> i64) list"
  focusAppUids :: "i32 list"
  weakActionEnable :: bool
  weakActionStatus :: bool
  keyAppName :: "string list"
  focusCustGameUids :: "i32 list"
  keyAppType :: "i32 list"
  appNameUseCamera :: "string list"
  appNameMoveEvent :: "string list"
  sp_functions :: bool
  uidToAppMsgMap :: "(i32, app_msg) omap"
  pidToAppTypeMap :: "(i32, i32) omap"
  socperfBatteryConfig :: "(i32, frequencies) omap"
  specialExtensionMap :: "(string \<times> string list) list"
  perfReqAppTypeSoPath :: string
  perfReqAppTypeSoFunc :: string
  isFocusAppsGameType :: bool
  screenStatus :: i64
  deviceMode :: string
  performanceMode :: i64
  deviceOrientation :: string
  handle_open :: bool
  reqAppTypeFunc :: "(string \<Rightarrow> i32) option"
  RES_TYPE_SCENE_BOARD_ID :: i32
  RES_TYPE_RGM_BOOTING_STATUS :: i32
  maxBatteryLimitCapacity :: i32
  lastBatteryLimitCap :: i32
  powerLimit :: "bool option"
  thermalLimit :: "bool option"
  socperfGameBoostSwitch :: bool
  custGameState :: bool
  flingExceptionFlag :: bool
  wakeUpTimeOutTask :: "nat option"
  drag_lastTime :: u64
  drag_lastStatus :: i64
  sp_tasks :: "sp_task list"
  sp_handles :: nat
  sp_calls :: "pm_call list"
  sp_outs :: "sp_out list"

definition sp_new :: sp_state where
  "sp_new =
     \<lparr>sp_resTypes = [], sp_resTypeWithVal = [], focusAppUids = [], weakActionEnable = True,
      weakActionStatus = True, keyAppName = [], focusCustGameUids = [], keyAppType = [],
      appNameUseCamera = [], appNameMoveEvent = [], sp_functions = False, uidToAppMsgMap = [],
      pidToAppTypeMap = [], socperfBatteryConfig = [], specialExtensionMap = [],
      perfReqAppTypeSoPath = [], perfReqAppTypeSoFunc = [], isFocusAppsGameType = False,
      screenStatus = 1, deviceMode = [], performanceMode = NORMAL_MODE_power, deviceOrientation = [],
      handle_open = False, reqAppTypeFunc = None, RES_TYPE_SCENE_BOARD_ID = 0,
      RES_TYPE_RGM_BOOTING_STATUS = 0, maxBatteryLimitCapacity = - 1, lastBatteryLimitCap = - 1,
      powerLimit = None, thermalLimit = None, socperfGameBoostSwitch = False, custGameState = False,
      flingExceptionFlag = False, wakeUpTimeOutTask = None, drag_lastTime = 0,
      drag_lastStatus = SLIDE_NORMAL_END, sp_tasks = [], sp_handles = 0, sp_calls = [], sp_outs = []\<rparr>"

definition sp_emit :: "sp_out \<Rightarrow> sp_state \<Rightarrow> sp_state" where
  "sp_emit out st = st\<lparr>sp_outs := sp_outs st @ [out]\<rparr>"

definition perf :: "i32 \<Rightarrow> sp_state \<Rightarrow> sp_state" where
  "perf cmd st = sp_emit (PerfRequest cmd []) st"

definition perf_ex :: "i32 \<Rightarrow> bool \<Rightarrow> sp_state \<Rightarrow> sp_state" where
  "perf_ex cmd on st = sp_emit (PerfRequestEx cmd on []) st"

text \<open>The requests of a handler that starts something at one value and stops it at another.\<close>

definition on_off :: "i32 \<Rightarrow> i64 \<Rightarrow> i64 \<Rightarrow> i64 \<Rightarrow> sp_state \<Rightarrow> sp_state" where
  "on_off cmd on off v st =
     (if v = on then perf_ex cmd True st else if v = off then perf_ex cmd False st else st)"

definition insert_all :: "'a list \<Rightarrow> 'a list \<Rightarrow> 'a list" where
  "insert_all xs s = fold List.insert xs s"

section \<open>utils.cpp\<close>

definition AddKeyAppName :: "string \<Rightarrow> string list \<Rightarrow> string list" where
  "AddKeyAppName subValue s = (if subValue = [] then s else List.insert subValue s)"

definition AddKeyAppType :: "string \<Rightarrow> i32 list \<Rightarrow> i32 list" where
  "AddKeyAppType subValue s = (if subValue = [] then s else List.insert (atoi subValue) s)"

text \<open>Every sub-item of a configuration, in order.\<close>

definition all_subs :: "plugin_config \<Rightarrow> sub_item list" where
  "all_subs c = concat (map subItemList c)"

definition GetPolicyMode :: "plugin_config \<Rightarrow> string" where
  "GetPolicyMode socperfPolicy =
     fold (\<lambda>sub m. if sub_name sub = SOCPERF_POLICY_MODE then sub_value sub else m) (all_subs socperfPolicy) []"

definition ApplyPolicyLimits ::
    "plugin_config \<Rightarrow> string \<Rightarrow> bool option \<times> bool option \<Rightarrow> bool option \<times> bool option" where
  "ApplyPolicyLimits limitPolicy policyMode lims =
     (case find (\<lambda>it. map_of (itemProperties it) ''key'' = Some policyMode) limitPolicy of
        None \<Rightarrow> lims
      | Some it \<Rightarrow>
          fold (\<lambda>sub (p, t).
            (if sub_name sub = ''power_limit'' then Some (atoi (sub_value sub) \<noteq> 0) else p,
             if sub_name sub = ''thermal_limit'' then Some (atoi (sub_value sub) \<noteq> 0) else t))
            (subItemList it) lims)"

section \<open>Reading the payload\<close>

definition GetUidByData :: "json \<Rightarrow> i32" where
  "GetUidByData payload = (case member UID_NAME payload of Some (JStr s) \<Rightarrow> atoi s | _ \<Rightarrow> INVALID_VALUE)"

definition GetPidByData :: "string \<Rightarrow> json \<Rightarrow> i32" where
  "GetPidByData key payload = (case member key payload of Some (JStr s) \<Rightarrow> atoi s | _ \<Rightarrow> INVALID_VALUE)"

definition sp_ParsePayload :: "string \<Rightarrow> json \<Rightarrow> i32" where
  "sp_ParsePayload key payload =
     (case member key payload of
        Some (JStr s) \<Rightarrow> atoi s
      | Some j \<Rightarrow> (case json_int32 j of Some n \<Rightarrow> n | None \<Rightarrow> INVALID_VALUE)
      | None \<Rightarrow> INVALID_VALUE)"

section \<open>Key applications and games\<close>

definition is_key_app :: "sp_env \<Rightarrow> sp_state \<Rightarrow> i32 \<Rightarrow> bool" where
  "is_key_app E st uid =
     (case map_of (uidToAppMsgMap st) uid of
        None \<Rightarrow> False
      | Some msg \<Rightarrow>
          am_bundleName msg \<in> set (keyAppName st) \<and> se_signature_ok E (am_bundleName msg) \<or>
          am_appType msg \<in> set (keyAppType st))"

definition UpdateWeakActionStatus :: "sp_env \<Rightarrow> sp_state \<Rightarrow> sp_state" where
  "UpdateWeakActionStatus E st =
     (let status = (weakActionEnable st \<and> \<not> list_ex (is_key_app E st) (focusAppUids st) \<and> \<not> custGameState st)
      in if status \<noteq> weakActionStatus st
         then sp_emit (RequestDeviceMode WEAK_ACTION_MODE status) (st\<lparr>weakActionStatus := status\<rparr>)
         else st)"

definition IsFocusAppsAllGame :: "sp_state \<Rightarrow> bool" where
  "IsFocusAppsAllGame st =
     (if focusAppUids st = [] \<or> uidToAppMsgMap st = [] then False
      else list_all (\<lambda>uid. case map_of (uidToAppMsgMap st) uid of
                       None \<Rightarrow> False | Some msg \<Rightarrow> am_appType msg = APP_TYPE_GAME) (focusAppUids st))"

definition UpdatesFocusAppsType :: "i32 \<Rightarrow> sp_state \<Rightarrow> bool" where
  "UpdatesFocusAppsType appType st =
     (if length (focusAppUids st) = 1 then appType = APP_TYPE_GAME
      else isFocusAppsGameType st \<and> appType = APP_TYPE_GAME)"

definition known_type :: "i32 \<Rightarrow> bool" where
  "known_type appType = (appType \<noteq> INVALID_VALUE \<and> appType \<noteq> INVALID_APP_TYPE)"

definition UpdateFocusAppType :: "sp_env \<Rightarrow> json \<Rightarrow> bool \<Rightarrow> sp_state \<Rightarrow> sp_state" where
  "UpdateFocusAppType E payload focusStatus st =
     (let uid = GetUidByData payload in
      if uid = INVALID_VALUE then st
      else if \<not> focusStatus then
        (let st1 = UpdateWeakActionStatus E (st\<lparr>focusAppUids := removeAll uid (focusAppUids st)\<rparr>)
         in st1\<lparr>isFocusAppsGameType := IsFocusAppsAllGame st1\<rparr>)
      else
        (let st1 = UpdateWeakActionStatus E (st\<lparr>focusAppUids := List.insert uid (focusAppUids st)\<rparr>);
             pid = GetPidByData PID_NAME payload
         in case map_of (uidToAppMsgMap st1) uid of
              Some msg \<Rightarrow>
                (let st2 = (if pid \<noteq> INVALID_VALUE
                            then st1\<lparr>pidToAppTypeMap := om_put pid (am_appType msg) (pidToAppTypeMap st1)\<rparr> else st1)
                 in st2\<lparr>isFocusAppsGameType := UpdatesFocusAppsType (am_appType msg) st2\<rparr>)
            | None \<Rightarrow>
                (case reqAppTypeFunc st1 of
                   None \<Rightarrow> st1
                 | Some f \<Rightarrow>
                     (let bundleName = se_bundle_of_uid E uid; focusAppType = f bundleName;
                          st2 = (if known_type focusAppType then
                                   (let s = (if pid \<noteq> INVALID_VALUE
                                             then st1\<lparr>pidToAppTypeMap := om_put pid focusAppType (pidToAppTypeMap st1)\<rparr>
                                             else st1)
                                    in s\<lparr>uidToAppMsgMap :=
                                          om_put uid \<lparr>am_appType = focusAppType, am_bundleName = bundleName\<rparr>
                                            (uidToAppMsgMap s)\<rparr>)
                                 else st1)
                      in st2\<lparr>isFocusAppsGameType := UpdatesFocusAppsType focusAppType st2\<rparr>))))"

definition HandleWindowFocus :: "sp_env \<Rightarrow> res_data \<Rightarrow> sp_state \<Rightarrow> sp_state" where
  "HandleWindowFocus E rd st =
     (if rd_value rd = WINDOW_FOCUS
      then UpdateFocusAppType E (rd_payload rd) True (perf PERF_REQUEST_CMD_ID_WINDOW_SWITCH st)
      else if rd_value rd = WINDOW_UNFOCUS then UpdateFocusAppType E (rd_payload rd) False st
      else st)"

text \<open>\<open>pidToAppTypeMap_[pid]\<close> creates the entry 0 when there is none.\<close>

definition IsGameEvent :: "json \<Rightarrow> sp_state \<Rightarrow> bool \<times> sp_state" where
  "IsGameEvent payload st =
     (let pid = GetPidByData CLIENT_PID_NAME payload in
      if pid = INVALID_VALUE then (False, st)
      else (case map_of (pidToAppTypeMap st) pid of
              None \<Rightarrow> (0 = APP_TYPE_GAME, st\<lparr>pidToAppTypeMap := om_put pid 0 (pidToAppTypeMap st)\<rparr>)
            | Some t \<Rightarrow> (t = APP_TYPE_GAME, st)))"

definition game_blocks :: "json \<Rightarrow> sp_state \<Rightarrow> bool \<times> sp_state" where
  "game_blocks payload st =
     (if \<not> socperfGameBoostSwitch st then (False, st)
      else if isFocusAppsGameType st then (True, st)
      else IsGameEvent payload st)"

definition UpdateUidToAppMsgMap_type :: "json \<Rightarrow> i32 \<Rightarrow> string \<Rightarrow> sp_state \<Rightarrow> sp_state" where
  "UpdateUidToAppMsgMap_type payload appType bundleName st =
     (let uid = GetUidByData payload in
      if known_type appType \<and> uid \<noteq> INVALID_VALUE
      then st\<lparr>uidToAppMsgMap := om_put uid \<lparr>am_appType = appType, am_bundleName = bundleName\<rparr> (uidToAppMsgMap st)\<rparr>
      else st)"

definition UpdateUidToAppMsgMap :: "json \<Rightarrow> sp_state \<Rightarrow> sp_state" where
  "UpdateUidToAppMsgMap payload st =
     (let uid = GetUidByData payload in
      if uid = INVALID_VALUE then st
      else (case map_of (uidToAppMsgMap st) uid of
              Some _ \<Rightarrow> st
            | None \<Rightarrow>
                (case (reqAppTypeFunc st, member BUNDLE_NAME payload) of
                   (Some f, Some (JStr s)) \<Rightarrow>
                     (let bundleName = c_str s; appType = f bundleName in
                      if known_type appType
                      then st\<lparr>uidToAppMsgMap :=
                             om_put uid \<lparr>am_appType = appType, am_bundleName = bundleName\<rparr> (uidToAppMsgMap st)\<rparr>
                      else st)
                 | _ \<Rightarrow> st)))"

section \<open>Applications\<close>

definition HandleAppAbilityStart :: "res_data \<Rightarrow> sp_state \<Rightarrow> sp_state option" where
  "HandleAppAbilityStart rd st =
     (if rd_value rd = APP_COLD_START then
        (let st1 = perf PERF_REQUEST_CMD_ID_APP_START st in
         case (reqAppTypeFunc st1, member BUNDLE_NAME (rd_payload rd)) of
           (Some f, Some (JStr s)) \<Rightarrow>
             Some (UpdateUidToAppMsgMap_type (rd_payload rd) (f (c_str s)) (c_str s) st1)
         | _ \<Rightarrow> Some st1)
      else if rd_value rd = APP_WARM_START then
        (case member ''supportWarmSmartGC'' (rd_payload rd) of
           None \<Rightarrow> Some (perf PERF_REQUEST_CMD_ID_WARM_START st)
         | Some (JStr s) \<Rightarrow>
             if atoi s = 1 then Some (perf PERF_REQUEST_CMD_ID_APP_START st)
             else Some (perf PERF_REQUEST_CMD_ID_WARM_START st)
         | Some _ \<Rightarrow> None)
      else Some st)"

definition HandleAppStateChange :: "res_data \<Rightarrow> sp_state \<Rightarrow> sp_state" where
  "HandleAppStateChange rd st =
     (let p = rd_payload rd in
      if rd_value rd \<noteq> PROCESS_CREATED then st
      else if sp_ParsePayload EXTENSION_TYPE_KEY p \<in> set UI_SENSITIVE_EXTENSION then
        (if (case member PRELOAD_MODE p of Some (JStr s) \<Rightarrow> s \<in> set PRELOAD_SET_sp | _ \<Rightarrow> False) then st
         else UpdateUidToAppMsgMap p (perf PERF_REQUEST_CMD_ID_APP_START st))
      else
        (case (member BUNDLE_NAME p, member CALLER_BUNDLE_NAME p) of
           (Some (JStr bundleName), Some (JStr callerBundleName)) \<Rightarrow>
             (case map_of (specialExtensionMap st) bundleName of
                None \<Rightarrow> st
              | Some callers \<Rightarrow>
                  if callers = [] \<or> callerBundleName \<in> set callers
                  then perf PERF_REQUEST_CMD_ID_APP_START st else st)
         | _ \<Rightarrow> st))"

definition HandleUninstallEvent :: "res_data \<Rightarrow> sp_state \<Rightarrow> sp_state" where
  "HandleUninstallEvent rd st =
     (if rd_value rd \<noteq> APP_UNINSTALL then st
      else (case member UID_NAME (rd_payload rd) of
              None \<Rightarrow> st
            | Some j \<Rightarrow>
                (case json_int32 j of
                   None \<Rightarrow> st
                 | Some uid \<Rightarrow>
                     if uid = INVALID_VALUE then st
                     else st\<lparr>uidToAppMsgMap := om_del uid (uidToAppMsgMap st)\<rparr>)))"

definition HandleDeadProcess :: "res_data \<Rightarrow> sp_state \<Rightarrow> sp_state" where
  "HandleDeadProcess rd st =
     (let pid = GetPidByData PID_NAME (rd_payload rd) in
      if pid = INVALID_VALUE then st else st\<lparr>pidToAppTypeMap := om_del pid (pidToAppTypeMap st)\<rparr>)"

definition HandleProcessStateChange :: "res_data \<Rightarrow> sp_state \<Rightarrow> sp_state" where
  "HandleProcessStateChange rd st = (if rd_value rd = PROCESS_DIED then HandleDeadProcess rd st else st)"

definition HandleAppColdStartEx :: "res_data \<Rightarrow> sp_state \<Rightarrow> sp_state" where
  "HandleAppColdStartEx rd st = on_off PERF_REQUEST_CMD_ID_APP_START 0 1 (rd_value rd) st"

definition HandleResTypeCreateLivingApp :: "res_data \<Rightarrow> sp_state \<Rightarrow> sp_state" where
  "HandleResTypeCreateLivingApp rd st =
     perf_ex PERF_REQUEST_CMD_ID_IMAGE_WORK_PROCESS_START (rd_value rd = 0) st"

definition IsAllowBoostScene :: "sp_state \<Rightarrow> bool" where
  "IsAllowBoostScene st =
     list_ex (\<lambda>uid. case map_of (uidToAppMsgMap st) uid of
                None \<Rightarrow> False | Some msg \<Rightarrow> am_bundleName msg \<in> set (appNameUseCamera st)) (focusAppUids st)"

definition HandleCameraStateChange :: "res_data \<Rightarrow> sp_state \<Rightarrow> sp_state" where
  "HandleCameraStateChange rd st =
     (if rd_value rd = CAMERA_CONNECT then
        (if IsAllowBoostScene st then perf_ex PERF_REQUEST_CMD_ID_APP_USE_CAMERA True st else st)
      else if rd_value rd = CAMERA_DISCONNECT then perf_ex PERF_REQUEST_CMD_ID_APP_USE_CAMERA False st
      else st)"

definition UpdateCustGameState :: "sp_env \<Rightarrow> i64 \<Rightarrow> i32 \<Rightarrow> sp_state \<Rightarrow> sp_state" where
  "UpdateCustGameState E v uid st =
     UpdateWeakActionStatus E
       (if v = GAME_GEE_FOCUS_STATE
        then st\<lparr>focusCustGameUids := List.insert uid (focusCustGameUids st), custGameState := True\<rparr>
        else if v = GAME_LOST_FOCUS_STATE then
          (let st1 = st\<lparr>focusCustGameUids := removeAll uid (focusCustGameUids st)\<rparr> in
           if focusCustGameUids st1 = [] then st1\<lparr>custGameState := False\<rparr> else st1)
        else st)"

definition HandleGameStateChange :: "sp_env \<Rightarrow> res_data \<Rightarrow> sp_state \<Rightarrow> sp_state" where
  "HandleGameStateChange E rd st =
     (case (member UID_NAME (rd_payload rd), member GAME_ENV (rd_payload rd)) of
        (Some u, Some e) \<Rightarrow>
          (case (json_int32 u, e) of
             (Some uid, JInt n) \<Rightarrow> if n = GAME_CUST then UpdateCustGameState E (rd_value rd) uid st else st
           | (Some uid, JUint n) \<Rightarrow> if int n = GAME_CUST then UpdateCustGameState E (rd_value rd) uid st else st
           | _ \<Rightarrow> st)
      | _ \<Rightarrow> st)"

section \<open>Input\<close>

definition HandleMoveEventBoost :: "sp_env \<Rightarrow> json \<Rightarrow> bool \<Rightarrow> sp_state \<Rightarrow> sp_state" where
  "HandleMoveEventBoost E payload isSet st =
     (case member BUNDLE_NAME payload of
        Some (JStr bundleName) \<Rightarrow>
          if bundleName \<in> set (appNameMoveEvent st) \<and> se_signature_ok E bundleName
          then perf_ex PERF_REQUEST_CMD_ID_MOVE_EVENT_BOOST isSet st else st
      | _ \<Rightarrow> st)"

definition HandleEventClick :: "sp_env \<Rightarrow> res_data \<Rightarrow> sp_state \<Rightarrow> sp_state" where
  "HandleEventClick E rd st =
     (case game_blocks (rd_payload rd) st of
        (blocked, st1) \<Rightarrow>
          if blocked \<or> custGameState st1 then st1
          else if rd_value rd = TOUCH_EVENT_DOWN_MMI then perf PERF_REQUEST_CMD_ID_EVENT_TOUCH_DOWN st1
          else if rd_value rd = TOUCH_EVENT_DOWN then perf PERF_REQUEST_CMD_ID_EVENT_TOUCH_DOWN st1
          else if rd_value rd = TOUCH_EVENT_UP
          then HandleMoveEventBoost E (rd_payload rd) False (perf PERF_REQUEST_CMD_ID_EVENT_TOUCH_UP st1)
          else if rd_value rd = CLICK_EVENT then perf PERF_REQUEST_CMD_ID_EVENT_CLICK st1
          else st1)"

definition HandleEventKey :: "res_data \<Rightarrow> sp_state \<Rightarrow> sp_state" where
  "HandleEventKey rd st =
     (if socperfGameBoostSwitch st \<and> isFocusAppsGameType st then st
      else if rd_value rd = KEY_EVENT_DOWN then perf PERF_REQUEST_CMD_ID_EVENT_KEY_DOWN st
      else if rd_value rd = KEY_EVENT_UP then perf PERF_REQUEST_CMD_ID_EVENT_KEY_DOWN st
      else st)"

definition HandlePowerEventKey :: "res_data \<Rightarrow> sp_state \<Rightarrow> sp_state" where
  "HandlePowerEventKey rd st = sp_emit (PerfRequest PERF_REQUEST_CMD_ID_POWER_KEY ''powerkey'') st"

definition HandleCrownRotation :: "res_data \<Rightarrow> sp_state \<Rightarrow> sp_state" where
  "HandleCrownRotation rd st =
     on_off PERF_REQUEST_CMD_ID_CROWN_ROTATION CROWN_ROTATION_START CROWN_ROTATION_END (rd_value rd) st"

definition HandleContinuousDrag :: "u64 \<Rightarrow> i64 \<Rightarrow> sp_state \<Rightarrow> sp_state" where
  "HandleContinuousDrag curMs dragStatus st =
     (if drag_lastStatus st = SLIDE_NORMAL_END \<and> dragStatus = MOVE_EVENT_ON then st
      else
        (let st1 = st\<lparr>drag_lastStatus := dragStatus\<rparr> in
         if dragStatus = SLIDE_NORMAL_END
         then perf_ex PERF_REQUEST_CMD_ID_EVENT_DRAG False (st1\<lparr>drag_lastTime := 0\<rparr>)
         else if drag_lastTime st1 < curMs \<and> of_int TIME_INTERVAL \<le> curMs - drag_lastTime st1
         then perf_ex PERF_REQUEST_CMD_ID_EVENT_DRAG True (st1\<lparr>drag_lastTime := curMs\<rparr>)
         else st1))"

definition HandleEventSlide :: "sp_env \<Rightarrow> u64 \<Rightarrow> res_data \<Rightarrow> sp_state \<Rightarrow> sp_state" where
  "HandleEventSlide E curMs rd st =
     (case game_blocks (rd_payload rd) st of
        (blocked, st1) \<Rightarrow>
          if blocked \<or> custGameState st1 then st1
          else if rd_value rd = SLIDE_EVENT_ON then perf_ex PERF_REQUEST_CMD_ID_EVENT_FLING True st1
          else if rd_value rd = SLIDE_EVENT_OFF then perf_ex PERF_REQUEST_CMD_ID_EVENT_FLING False st1
          else if rd_value rd = SWIPER_FLING_END then
            (if \<not> flingExceptionFlag st1 then perf_ex PERF_REQUEST_CMD_ID_EVENT_FLING False st1 else st1)
          else if rd_value rd = SLIDE_NORMAL_BEGIN then HandleContinuousDrag curMs (rd_value rd) st1
          else if rd_value rd = SLIDE_NORMAL_END then HandleContinuousDrag curMs (rd_value rd) st1
          else if rd_value rd = MOVE_EVENT_ON
          then HandleContinuousDrag curMs (rd_value rd) (HandleMoveEventBoost E (rd_payload rd) True st1)
          else st1)"

definition HandleSwiperFlingEndEx :: "res_data \<Rightarrow> sp_state \<Rightarrow> sp_state" where
  "HandleSwiperFlingEndEx rd st = st\<lparr>flingExceptionFlag := rd_value rd \<noteq> 0\<rparr>"

definition HandleEventWebGesture :: "res_data \<Rightarrow> sp_state \<Rightarrow> sp_state" where
  "HandleEventWebGesture rd st =
     on_off PERF_REQUEST_CMD_ID_EVENT_WEB_GESTURE WEB_GESTURE_START WEB_GESTURE_END (rd_value rd) st"

definition HandleWebGestureMove :: "res_data \<Rightarrow> sp_state \<Rightarrow> sp_state" where
  "HandleWebGestureMove rd st =
     on_off PERF_REQUEST_CMD_ID_WEB_GESTURE_MOVE WEB_GESTURE_MOVE_START WEB_GESTURE_MOVE_END (rd_value rd) st"

definition HandleWebSlideNormal :: "res_data \<Rightarrow> sp_state \<Rightarrow> sp_state" where
  "HandleWebSlideNormal rd st =
     on_off PERF_REQUEST_CMD_ID_WEB_SLIDE_NORMAL WEB_SLIDE_NORMAL_START WEB_SLIDE_NORMAL_END (rd_value rd) st"

definition HandleWebSildeScroll :: "res_data \<Rightarrow> sp_state \<Rightarrow> sp_state" where
  "HandleWebSildeScroll rd st =
     on_off PERF_REQUEST_CMD_ID_WEB_SLIDE_SCROLL WEB_DRAG_START WEB_DRAG_END (rd_value rd) st"

definition HandleMousewheel :: "res_data \<Rightarrow> sp_state \<Rightarrow> sp_state" where
  "HandleMousewheel rd st = perf PERF_REQUEST_CMD_ID_MOUSEWHEEL st"

section \<open>Pages and windows\<close>

definition HandleLoadPage :: "res_data \<Rightarrow> sp_state \<Rightarrow> sp_state" where
  "HandleLoadPage rd st =
     (if rd_value rd = LOAD_PAGE_START then perf_ex PERF_REQUEST_CMD_ID_LOAD_PAGE_START True st
      else if rd_value rd = LOAD_PAGE_COMPLETE
      then perf PERF_REQUEST_CMD_ID_LOAD_PAGE_COMPLETE (perf_ex PERF_REQUEST_CMD_ID_LOAD_PAGE_START False st)
      else st)"

definition HandlePopPage :: "res_data \<Rightarrow> sp_state \<Rightarrow> sp_state" where
  "HandlePopPage rd st = perf PERF_REQUEST_CMD_ID_POP_PAGE st"

definition HandleLoadUrl :: "res_data \<Rightarrow> sp_state \<Rightarrow> sp_state" where
  "HandleLoadUrl rd st = perf PERF_REQUEST_CMD_ID_LOAD_URL st"

text \<open>Started without an end, stopped with one.\<close>

definition start_stop :: "i32 \<Rightarrow> i64 \<Rightarrow> i64 \<Rightarrow> i64 \<Rightarrow> sp_state \<Rightarrow> sp_state" where
  "start_stop cmd on off v st = (if v = on then perf cmd st else if v = off then perf_ex cmd False st else st)"

definition HandleResizeWindow :: "res_data \<Rightarrow> sp_state \<Rightarrow> sp_state" where
  "HandleResizeWindow rd st =
     start_stop PERF_REQUEST_CMD_ID_RESIZE_WINDOW WINDOW_RESIZING WINDOW_RESIZE_STOP (rd_value rd) st"

definition HandleMoveWindow :: "res_data \<Rightarrow> sp_state \<Rightarrow> sp_state" where
  "HandleMoveWindow rd st =
     start_stop PERF_REQUEST_CMD_ID_MOVE_WINDOW WINDOW_MOVING WINDOW_MOVE_STOP (rd_value rd) st"

definition HandleDragStatusBar :: "res_data \<Rightarrow> sp_state \<Rightarrow> sp_state" where
  "HandleDragStatusBar rd st =
     start_stop PERF_REQUEST_CMD_ID_DRAG_STATUS_BAR DRAG_START DRAG_END (rd_value rd) st"

definition HandleWebDragResize :: "res_data \<Rightarrow> sp_state \<Rightarrow> sp_state" where
  "HandleWebDragResize rd st =
     start_stop PERF_REQUEST_CMD_ID_WEB_DRAG_RESIZE WEB_DRAG_START WEB_DRAG_END (rd_value rd) st"

definition HandleRemoteAnimation :: "res_data \<Rightarrow> sp_state \<Rightarrow> sp_state" where
  "HandleRemoteAnimation rd st =
     (if rd_value rd = ANIMATION_BEGIN then perf_ex PERF_REQUEST_CMD_ID_REMOTE_ANIMATION True st
      else if rd_value rd = ANIMATION_END then perf_ex PERF_REQUEST_CMD_ID_REMOTE_ANIMATION False st
      else on_off PERF_REQUEST_CMD_ID_REMOTE_UNLOCK ANIMATION_UNLOCK_BEGIN ANIMATION_UNLOCK_END (rd_value rd) st)"

definition HandleSocperfSceneBoard :: "res_data \<Rightarrow> sp_state \<Rightarrow> sp_state" where
  "HandleSocperfSceneBoard rd st =
     on_off PERF_REQUEST_CMD_ID_REMOTE_ANIMATION ANIMATION_BEGIN ANIMATION_END (rd_value rd) st"

definition HandleSceneRotation :: "res_data \<Rightarrow> sp_state \<Rightarrow> sp_state" where
  "HandleSceneRotation rd st = on_off PERF_REQUEST_CMD_ID_ROTATION 0 1 (rd_value rd) st"

definition HandleRecentBuild :: "res_data \<Rightarrow> sp_state \<Rightarrow> sp_state" where
  "HandleRecentBuild rd st =
     on_off PERF_REQUEST_CMD_ID_RECENT_BUILD RECENT_BUILD_START RECENT_BUILD_STOP (rd_value rd) st"

section \<open>Screen, display and power modes\<close>

definition is_performance :: "sp_state \<Rightarrow> bool" where
  "is_performance st = (performanceMode st = PERFORMANCE_MODE)"

definition display_landscape :: "sp_state \<Rightarrow> sp_state" where
  "display_landscape st =
     perf_ex PERF_REQUEST_CMD_ID_DISPLAY_GLOBAL_L True (perf_ex PERF_REQUEST_CMD_ID_DISPLAY_GLOBAL_P False
       (perf_ex PERF_REQUEST_CMD_ID_DISPLAY_MODE_FULL False (perf_ex PERF_REQUEST_CMD_ID_DISPLAY_MODE_MAIN False st)))"

definition display_portrait :: "sp_state \<Rightarrow> sp_state" where
  "display_portrait st =
     perf_ex PERF_REQUEST_CMD_ID_DISPLAY_GLOBAL_P True (perf_ex PERF_REQUEST_CMD_ID_DISPLAY_GLOBAL_L False
       (perf_ex PERF_REQUEST_CMD_ID_DISPLAY_MODE_FULL False (perf_ex PERF_REQUEST_CMD_ID_DISPLAY_MODE_MAIN False st)))"

definition perf_mode_on :: "sp_state \<Rightarrow> sp_state" where
  "perf_mode_on st =
     perf_ex PERF_REQUEST_CMD_ID_SCREEN_ON_PERFORMANCE_MODE True
       (perf_ex PERF_REQUEST_CMD_ID_SCREEN_OFF_PERFORMANCE_MODE False st)"

definition perf_mode_off :: "sp_state \<Rightarrow> sp_state" where
  "perf_mode_off st =
     perf_ex PERF_REQUEST_CMD_ID_SCREEN_OFF_PERFORMANCE_MODE True
       (perf_ex PERF_REQUEST_CMD_ID_SCREEN_ON_PERFORMANCE_MODE False st)"

definition screen_on_boost :: "sp_state \<Rightarrow> sp_state" where
  "screen_on_boost st =
     perf_ex PERF_REQUEST_CMD_ID_SCREEN_ON True (perf_ex PERF_REQUEST_CMD_ID_SCREEN_OFF False st)"

definition screen_off_boost :: "sp_state \<Rightarrow> sp_state" where
  "screen_off_boost st =
     perf_ex PERF_REQUEST_CMD_ID_SCREEN_OFF True (perf_ex PERF_REQUEST_CMD_ID_SCREEN_ON False st)"

definition display_on :: "sp_state \<Rightarrow> sp_state" where
  "display_on st =
     (if deviceMode st = DISPLAY_MODE_FULL then perf_ex PERF_REQUEST_CMD_ID_DISPLAY_MODE_FULL True st
      else if deviceMode st = DISPLAY_MODE_MAIN then perf_ex PERF_REQUEST_CMD_ID_DISPLAY_MODE_MAIN True st
      else if deviceMode st = DISPLAY_MODE_GLOBAL_FULL \<and> deviceOrientation st = DISPLAY_ORIENTAYION_LANDSCAPE
      then display_landscape st
      else if deviceMode st = DISPLAY_MODE_GLOBAL_FULL \<and> deviceOrientation st = DISPLAY_ORIENTAYION_PORTRAIT
      then display_portrait st
      else st)"

definition HandleScreenOn :: "sp_state \<Rightarrow> sp_state" where
  "HandleScreenOn st =
     (let st1 = screen_on_boost st;
          st2 = (if is_performance st1 then perf_mode_on st1 else st1);
          st3 = display_on st2
      in sp_emit (RequestDeviceMode (SCREEN_MODE_KEY @ '':'' @ SCREEN_MODE_ON) True) st3)"

definition display_off :: "sp_state \<Rightarrow> sp_state" where
  "display_off st =
     perf_ex PERF_REQUEST_CMD_ID_DISPLAY_GLOBAL_L False (perf_ex PERF_REQUEST_CMD_ID_DISPLAY_GLOBAL_P False
       (perf_ex PERF_REQUEST_CMD_ID_DISPLAY_MODE_MAIN False (perf_ex PERF_REQUEST_CMD_ID_DISPLAY_MODE_FULL False st)))"

definition HandleScreenOff :: "sp_state \<Rightarrow> sp_state" where
  "HandleScreenOff st =
     (if screenStatus st = SCREEN_OFF then
        (let st1 = screen_off_boost st;
             st2 = (if is_performance st1 then perf_mode_off st1 else st1);
             st3 = display_off st2
         in sp_emit (RequestDeviceMode (SCREEN_MODE_KEY @ '':'' @ SCREEN_MODE_OFF) True) st3)
      else st)"

text \<open>\<open>ffrt::skip\<close> of the pending timeout of a wake-up.\<close>

definition skip_wakeup :: "sp_state \<Rightarrow> sp_state" where
  "skip_wakeup st =
     (case wakeUpTimeOutTask st of
        None \<Rightarrow> st
      | Some h \<Rightarrow> st\<lparr>sp_tasks := filter (\<lambda>t. t \<noteq> WakeUpTask h) (sp_tasks st)\<rparr>)"

definition HandleScreenStatusAnalysis :: "sp_env \<Rightarrow> res_data \<Rightarrow> sp_state \<Rightarrow> sp_state" where
  "HandleScreenStatusAnalysis E rd st =
     (let st1 = st\<lparr>screenStatus := rd_value rd\<rparr> in
      if screenStatus st1 = SCREEN_ON then
        (if se_ffrt E then (skip_wakeup st1)\<lparr>wakeUpTimeOutTask := None\<rparr> else st1)
      else if screenStatus st1 = SCREEN_OFF then
        (if se_ffrt E then st1\<lparr>sp_tasks := sp_tasks st1 @ [ScreenOffTask]\<rparr> else HandleScreenOff st1)
      else st1)"

definition HandleDisplayPowerWakeUp :: "sp_env \<Rightarrow> res_data \<Rightarrow> sp_state \<Rightarrow> sp_state" where
  "HandleDisplayPowerWakeUp E rd st =
     (if rd_value rd = WAKE_UP_START then
        (let st1 = HandleScreenOn st in
         if se_ffrt E then
           (let st2 = skip_wakeup st1 in
            st2\<lparr>sp_tasks := sp_tasks st2 @ [WakeUpTask (sp_handles st2)],
                wakeUpTimeOutTask := Some (sp_handles st2), sp_handles := sp_handles st2 + 1\<rparr>)
         else st1)
      else if rd_value rd = WAKE_UP_TIMEOUT then HandleScreenOff st
      else st)"

text \<open>A delayed task of the list runs; the screen may be on by then.\<close>

definition run_sp_task :: "bool \<Rightarrow> sp_task \<Rightarrow> sp_state \<Rightarrow> sp_state" where
  "run_sp_task screenOn task st =
     (let st1 = st\<lparr>sp_tasks := remove1 task (sp_tasks st)\<rparr> in
      case task of
        ScreenOffTask \<Rightarrow> HandleScreenOff st1
      | WakeUpTask h \<Rightarrow>
          if \<not> screenOn then sp_emit (ReportInProcess RES_TYPE_DISPLAY_POWER_WAKE_UP WAKE_UP_TIMEOUT) st1 else st1)"

definition display_mode_boost :: "sp_state \<Rightarrow> sp_state" where
  "display_mode_boost st =
     (let on = (screenStatus st = SCREEN_ON) in
      if deviceMode st = DISPLAY_MODE_FULL \<and> on then
        perf_ex PERF_REQUEST_CMD_ID_DISPLAY_GLOBAL_P False (perf_ex PERF_REQUEST_CMD_ID_DISPLAY_GLOBAL_L False
          (perf_ex PERF_REQUEST_CMD_ID_DISPLAY_MODE_FULL True (perf_ex PERF_REQUEST_CMD_ID_DISPLAY_MODE_MAIN False st)))
      else if deviceMode st = DISPLAY_MODE_MAIN \<and> on then
        perf_ex PERF_REQUEST_CMD_ID_DISPLAY_MODE_MAIN True (perf_ex PERF_REQUEST_CMD_ID_DISPLAY_GLOBAL_P False
          (perf_ex PERF_REQUEST_CMD_ID_DISPLAY_GLOBAL_L False (perf_ex PERF_REQUEST_CMD_ID_DISPLAY_MODE_FULL False st)))
      else if deviceMode st = DISPLAY_MODE_GLOBAL_FULL \<and> on \<and> deviceOrientation st = DISPLAY_ORIENTAYION_LANDSCAPE
      then display_landscape st
      else if deviceMode st = DISPLAY_MODE_GLOBAL_FULL \<and> on \<and> deviceOrientation st = DISPLAY_ORIENTAYION_PORTRAIT
      then display_portrait st
      else st)"

definition HandleSceenModeBoost :: "string \<Rightarrow> sp_state \<Rightarrow> sp_state" where
  "HandleSceenModeBoost deviceModeType st =
     (if deviceModeType \<noteq> DISPLAY_MODE_KEY then st
      else
        (let st1 = display_mode_boost st in
         if deviceMode st1 = DISPLAY_MODE_FULL \<or> deviceMode st1 = DISPLAY_MODE_GLOBAL_FULL \<or>
            deviceMode st1 = DISPLAY_MODE_MAIN
         then perf_ex PERF_REQUEST_CMD_ID_SCREEN_SWITCHED True st1 else st1))"

definition HandleDeviceModeStatusChange :: "res_data \<Rightarrow> sp_state \<Rightarrow> sp_state" where
  "HandleDeviceModeStatusChange rd st =
     (if rd_value rd \<noteq> MODE_ENTER \<and> rd_value rd \<noteq> MODE_QUIT then st
      else (case (member DEVICE_MODE_TYPE_KEY (rd_payload rd), member DEVICE_MODE_PAYMODE_NAME (rd_payload rd)) of
              (Some (JStr deviceModeType), Some (JStr mode)) \<Rightarrow>
                HandleSceenModeBoost deviceModeType
                  (sp_emit (RequestDeviceMode (deviceModeType @ '':'' @ mode) (rd_value rd = MODE_ENTER))
                    (st\<lparr>deviceMode := mode\<rparr>))
            | _ \<Rightarrow> st))"

definition HandleSceenOrientationBoost :: "string \<Rightarrow> sp_state \<Rightarrow> sp_state" where
  "HandleSceenOrientationBoost deviceOrientationType st =
     (if deviceOrientationType \<noteq> DEVICE_ORIENTATION_TYPE_KEY then st
      else if deviceMode st \<noteq> DISPLAY_MODE_GLOBAL_FULL then st
      else if screenStatus st = SCREEN_ON \<and> deviceOrientation st = DISPLAY_ORIENTAYION_LANDSCAPE
      then display_landscape st
      else if screenStatus st = SCREEN_ON \<and> deviceOrientation st = DISPLAY_ORIENTAYION_PORTRAIT
      then perf_ex PERF_REQUEST_CMD_ID_DISPLAY_GLOBAL_P True (perf_ex PERF_REQUEST_CMD_ID_DISPLAY_GLOBAL_L False
             (perf_ex PERF_REQUEST_CMD_ID_DISPLAY_MODE_MAIN False (perf_ex PERF_REQUEST_CMD_ID_DISPLAY_MODE_FULL False st)))
      else st)"

definition HandleDeviceOrientationStatusChange :: "res_data \<Rightarrow> sp_state \<Rightarrow> sp_state" where
  "HandleDeviceOrientationStatusChange rd st =
     (if rd_value rd \<noteq> MODE_ENTER \<and> rd_value rd \<noteq> MODE_QUIT then st
      else (case (member DEVICE_MODE_TYPE_KEY (rd_payload rd), member DEVICE_MODE_PAYMODE_NAME (rd_payload rd)) of
              (Some (JStr deviceOrientationType), Some (JStr orientation)) \<Rightarrow>
                HandleSceenOrientationBoost deviceOrientationType (st\<lparr>deviceOrientation := orientation\<rparr>)
            | _ \<Rightarrow> st))"

definition HandlePowerModeChanged :: "res_data \<Rightarrow> sp_state \<Rightarrow> sp_state" where
  "HandlePowerModeChanged rd st =
     sp_emit (RequestDeviceMode (POWER_MODE_KEY @ '':'' @ POWER_MODE) (rd_value rd = POWERMODE_ON)) st"

definition HandlePerformanceModeChange :: "res_data \<Rightarrow> sp_state \<Rightarrow> sp_state" where
  "HandlePerformanceModeChange rd st =
     (if rd_value rd < POWER_MODE_MIN \<or> POWER_MODE_MAX < rd_value rd then st
      else
        (let st1 = st\<lparr>performanceMode := rd_value rd\<rparr> in
         if is_performance st1 then
           (if screenStatus st1 = SCREEN_ON then perf_mode_on st1
            else if screenStatus st1 = SCREEN_OFF then perf_mode_off st1
            else st1)
         else
           (let st2 = perf_ex PERF_REQUEST_CMD_ID_SCREEN_OFF_PERFORMANCE_MODE False
                        (perf_ex PERF_REQUEST_CMD_ID_SCREEN_ON_PERFORMANCE_MODE False st1)
            in if screenStatus st2 = SCREEN_ON then screen_on_boost st2
               else if screenStatus st2 = SCREEN_OFF then screen_off_boost st2
               else st2)))"

definition HandleSchedModeChange :: "res_data \<Rightarrow> sp_state \<Rightarrow> sp_state option" where
  "HandleSchedModeChange rd st =
     (case member SCHED_MODE_KEY (rd_payload rd) of
        None \<Rightarrow> Some st
      | Some (JStr schedModeStr) \<Rightarrow>
          Some (sp_emit (RequestDeviceMode (POWER_STATUS_KEY @ '':'' @ schedModeStr) True) st)
      | Some _ \<Rightarrow> None)"

section \<open>Battery\<close>

definition battery_config :: "i32 \<Rightarrow> sp_state \<Rightarrow> frequencies" where
  "battery_config capacity st =
     (case map_of (socperfBatteryConfig st) capacity of None \<Rightarrow> \<lparr>fq_tags = [], fq_configs = []\<rparr> | Some f \<Rightarrow> f)"

text \<open>\<open>socperfBatteryConfig_[capacity]\<close> creates an empty entry when there is none.\<close>

definition touch_battery :: "i32 \<Rightarrow> sp_state \<Rightarrow> sp_state" where
  "touch_battery capacity st =
     st\<lparr>socperfBatteryConfig := om_put capacity (battery_config capacity st) (socperfBatteryConfig st)\<rparr>"

definition GetLimitCapacity :: "i32 \<Rightarrow> sp_state \<Rightarrow> i32" where
  "GetLimitCapacity capacity st =
     fold (\<lambda>(k, f) tempCap. if capacity \<le> k \<and> k \<le> tempCap then k else tempCap)
       (socperfBatteryConfig st) (maxBatteryLimitCapacity st)"

definition GetConfigs :: "nat \<Rightarrow> i64 list" where
  "GetConfigs n = replicate n 2147483647"

definition LOW_BATTERY :: string where "LOW_BATTERY = ''type=Low_battery_limit''"

definition HandleRecoverBatteryLimit :: "sp_state \<Rightarrow> sp_state" where
  "HandleRecoverBatteryLimit st =
     (if lastBatteryLimitCap st = - 1 then st
      else
        (let st1 = touch_battery (lastBatteryLimitCap st) (sp_emit (PowerLimitBoost False LOW_BATTERY) st);
             f = battery_config (lastBatteryLimitCap st1) st1
         in (sp_emit (LimitRequest (fq_tags f) (GetConfigs (length (fq_configs f))) LOW_BATTERY) st1)
              \<lparr>lastBatteryLimitCap := - 1\<rparr>))"

definition HandleBatteryLimit :: "i32 \<Rightarrow> sp_state \<Rightarrow> sp_state" where
  "HandleBatteryLimit capacity st =
     (let limitCapacity = GetLimitCapacity capacity st in
      if lastBatteryLimitCap st = limitCapacity then st
      else
        (let st1 = touch_battery limitCapacity (sp_emit (PowerLimitBoost True LOW_BATTERY) st);
             f = battery_config limitCapacity st1
         in (sp_emit (LimitRequest (fq_tags f) (fq_configs f) LOW_BATTERY) st1)
              \<lparr>lastBatteryLimitCap := limitCapacity\<rparr>))"

definition HandleFreqLimit :: "i64 \<Rightarrow> bool \<Rightarrow> sp_state \<Rightarrow> sp_state" where
  "HandleFreqLimit v isChargeState st =
     (if maxBatteryLimitCapacity st < v \<or> isChargeState then HandleRecoverBatteryLimit st
      else HandleBatteryLimit (wrap_s32 v) st)"

definition HandleBatteryStatusChange :: "res_data \<Rightarrow> sp_state \<Rightarrow> sp_state" where
  "HandleBatteryStatusChange rd st =
     (if socperfBatteryConfig st = [] then st
      else (case member COMMON_EVENT_CHARGE_STATE (rd_payload rd) of
              None \<Rightarrow> st
            | Some j \<Rightarrow>
                (case json_int32 j of
                   None \<Rightarrow> st
                 | Some chargeState \<Rightarrow>
                     HandleFreqLimit (rd_value rd)
                       (chargeState = CHARGE_STATE_ENABLE \<or> chargeState = CHARGE_STATE_FULL) st)))"

section \<open>Other events\<close>

definition HandleGameBoost :: "res_data \<Rightarrow> sp_state \<Rightarrow> sp_state" where
  "HandleGameBoost rd st =
     (if \<not> socperfGameBoostSwitch st then st
      else if rd_value rd = GAME_BOOST_LEVEL0 then perf_ex PERF_REQUEST_CMD_ID_GAME_BOOST True st
      else if rd_value rd = GAME_BOOST_LEVEL1
      then perf_ex PERF_REQUEST_CMD_ID_GAME_BOOST_LEVEL1 True (perf_ex PERF_REQUEST_CMD_ID_GAME_BOOST True st)
      else if rd_value rd = GAME_BOOST_LEVEL2
      then perf_ex PERF_REQUEST_CMD_ID_GAME_BOOST_LEVEL2 True (perf_ex PERF_REQUEST_CMD_ID_GAME_BOOST True st)
      else if rd_value rd = GAME_BOOST_LEVEL3
      then perf_ex PERF_REQUEST_CMD_ID_GAME_BOOST_LEVEL3 True (perf_ex PERF_REQUEST_CMD_ID_GAME_BOOST True st)
      else st)"

definition HandleSocperfAccountActivating :: "res_data \<Rightarrow> sp_state \<Rightarrow> sp_state" where
  "HandleSocperfAccountActivating rd st =
     (if rd_value rd = ACCOUNT_ACTIVATING_START then perf_ex PERF_REQUEST_CMD_ID_ACCOUNT_ACTIVATING True st else st)"

text \<open>The events of customers name a command themselves, narrowed to 32 bits in the call.\<close>

definition HandleCustEvent :: "res_data \<Rightarrow> sp_state \<Rightarrow> sp_state" where
  "HandleCustEvent rd st = (if rd_value rd \<le> 0 then st else perf (wrap_s32 (rd_value rd)) st)"

definition HandleCustEventBegin :: "res_data \<Rightarrow> sp_state \<Rightarrow> sp_state" where
  "HandleCustEventBegin rd st = (if rd_value rd \<le> 0 then st else perf_ex (wrap_s32 (rd_value rd)) True st)"

definition HandleCustEventEnd :: "res_data \<Rightarrow> sp_state \<Rightarrow> sp_state" where
  "HandleCustEventEnd rd st = (if rd_value rd \<le> 0 then st else perf_ex (wrap_s32 (rd_value rd)) False st)"

definition HandleCustAction :: "res_data \<Rightarrow> sp_state \<Rightarrow> sp_state" where
  "HandleCustAction rd st =
     (if rd_value rd \<le> 0 \<or> custGameState st then st else perf (wrap_s32 (rd_value rd)) st)"

definition HandleRgmBootingStatus :: "res_data \<Rightarrow> sp_state \<Rightarrow> sp_state" where
  "HandleRgmBootingStatus rd st =
     (if rd_value rd = 0 then perf_ex PERF_REQUEST_CMD_ID_RGM_BOOTING_START True st else st)"

definition HandleBmmMoniterStatus :: "res_data \<Rightarrow> sp_state \<Rightarrow> sp_state" where
  "HandleBmmMoniterStatus rd st =
     on_off PERF_REQUEST_CMD_ID_BMM_MONITER_START BMM_BACKGROUND BMM_CLOSE (rd_value rd) st"

definition HandleFileCopyStatus :: "res_data \<Rightarrow> sp_state \<Rightarrow> sp_state" where
  "HandleFileCopyStatus rd st =
     on_off PERF_REQUEST_CMD_ID_FILE_COPY COPY_START COPY_STOP (rd_value rd) st"

definition HandleLiveBroadcast :: "res_data \<Rightarrow> sp_state \<Rightarrow> sp_state" where
  "HandleLiveBroadcast rd st =
     (case member ''scene'' (rd_payload rd) of
        Some (JStr s) \<Rightarrow>
          if atoi s \<noteq> SCENE_LIVE_BROADCAST then st
          else on_off PERF_REQUEST_CMD_ID_LIVE_BROADCAST HFLS_SCENE_IN HFLS_SCENE_OUT (rd_value rd) st
      | _ \<Rightarrow> st)"

definition HandleOobeClone :: "res_data \<Rightarrow> sp_state \<Rightarrow> sp_state" where
  "HandleOobeClone rd st = on_off PERF_REQUEST_CMD_ID_OOBE_CLONE CLONE_RUNNING CLONE_FINISH (rd_value rd) st"

text \<open>Both limits of the policy go out through \<open>PowerLimitBoost\<close>.\<close>

definition ReportConfiguredLimitBoost :: "sp_state \<Rightarrow> sp_state" where
  "ReportConfiguredLimitBoost st =
     (let st1 = (case powerLimit st of None \<Rightarrow> st | Some b \<Rightarrow> sp_emit (PowerLimitBoost b ''type=policy_config'') st)
      in case thermalLimit st1 of None \<Rightarrow> st1 | Some b \<Rightarrow> sp_emit (PowerLimitBoost b ''type=policy_config'') st1)"

definition sp_ReportAbilityStatus :: "sp_env \<Rightarrow> res_data \<Rightarrow> sp_state \<Rightarrow> sp_state" where
  "sp_ReportAbilityStatus E rd st =
     (case member ''saId'' (rd_payload rd) of
        None \<Rightarrow> st
      | Some j \<Rightarrow>
          (case json_int32 j of
             None \<Rightarrow> st
           | Some saId \<Rightarrow>
               if saId = SOC_PERF_SA_ID \<and> 0 < rd_value rd
               then ReportConfiguredLimitBoost (UpdateWeakActionStatus E st) else st))"

section \<open>Configuration\<close>

text \<open>\<open>std::getline\<close> with a separator: no piece after a final separator.\<close>

fun getline_pieces :: "char \<Rightarrow> string \<Rightarrow> string \<Rightarrow> string list" where
  "getline_pieces sep acc [] = (if acc = [] then [] else [rev acc])"
| "getline_pieces sep acc (c # cs) =
     (if c = sep then rev acc # getline_pieces sep [] cs else getline_pieces sep (c # acc) cs)"

definition StringToSet :: "string \<Rightarrow> char \<Rightarrow> string list" where
  "StringToSet str pattern = insert_all (getline_pieces pattern [] str) []"

definition HandleSubValue :: "string \<Rightarrow> string list \<Rightarrow> string list" where
  "HandleSubValue subValue nameSet =
     (if subValue = [] then nameSet else insert_all (getline_pieces CHR '','' [] subValue) nameSet)"

definition AddSpecialExtension :: "sub_item \<Rightarrow> sp_state \<Rightarrow> sp_state" where
  "AddSpecialExtension sub st =
     (case (map_of (sub_properties sub) BUNDLE_NAME, map_of (sub_properties sub) CALLER_BUNDLE_NAME) of
        (Some bundleName, Some callers) \<Rightarrow>
          st\<lparr>specialExtensionMap :=
            AList.update bundleName (StringToSet callers CHR ''|'') (specialExtensionMap st)\<rparr>
      | _ \<Rightarrow> st)"

definition LoadSpecialExtension :: "plugin_config \<Rightarrow> sp_state \<Rightarrow> sp_state" where
  "LoadSpecialExtension itemLists st =
     fold (\<lambda>sub s. if sub_name sub = INFO_STRING then AddSpecialExtension sub s else s) (all_subs itemLists) st"

definition SetWeakActionEnable :: "sp_env \<Rightarrow> string \<Rightarrow> sp_state \<Rightarrow> sp_state" where
  "SetWeakActionEnable E subValue st =
     (if subValue = [] then st else UpdateWeakActionStatus E (st\<lparr>weakActionEnable := atoi subValue \<noteq> 0\<rparr>))"

definition LoadWeakInterAction :: "sp_env \<Rightarrow> plugin_config \<Rightarrow> sp_state \<Rightarrow> sp_state" where
  "LoadWeakInterAction E itemLists st =
     fold (\<lambda>sub s.
       if sub_name sub = ENABLE_STRING then SetWeakActionEnable E (sub_value sub) s
       else if sub_name sub = BUNDLE_NAME then s\<lparr>keyAppName := AddKeyAppName (sub_value sub) (keyAppName s)\<rparr>
       else if sub_name sub = KEY_APP_TYPE then s\<lparr>keyAppType := AddKeyAppType (sub_value sub) (keyAppType s)\<rparr>
       else s) (all_subs itemLists) st"

definition InitBundleNameBoostLists :: "plugin_config \<Rightarrow> sp_state \<Rightarrow> sp_state" where
  "InitBundleNameBoostLists itemLists st =
     fold (\<lambda>sub s.
       if sub_name sub = SUB_ITEM_KEY_NAME_APP_USE_CAMERA_BOOST
       then s\<lparr>appNameUseCamera := HandleSubValue (c_str (sub_value sub)) (appNameUseCamera s)\<rparr>
       else if sub_name sub = SUB_ITEM_KEY_NAME_APP_MOVE_EVENT_BOOST
       then s\<lparr>appNameMoveEvent := HandleSubValue (c_str (sub_value sub)) (appNameMoveEvent s)\<rparr>
       else s) (all_subs itemLists) st"

definition HandleRssCloudConfigUpdate :: "sp_env \<Rightarrow> res_data \<Rightarrow> sp_state \<Rightarrow> sp_state" where
  "HandleRssCloudConfigUpdate E rd st =
     (case member CLOUD_PARAMS (rd_payload rd) of
        Some (JObj ps) \<Rightarrow>
          (case map_of ps PLUGIN_NAME of
             Some (JObj cfg) \<Rightarrow>
               (case se_config_of_json E (JObj cfg) of
                  None \<Rightarrow> st
                | Some pluginConfigs \<Rightarrow>
                    (let load = (\<lambda>name f s. case map_of pluginConfigs name of None \<Rightarrow> s | Some c \<Rightarrow> f c s)
                     in load CONFIG_NAME_SOCPERF_BUNDLE_NAME_BOOST_LIST InitBundleNameBoostLists
                          (load WEAK_ACTION_STRING (LoadWeakInterAction E)
                            (load SPECIAL_EXTENSION_STRING LoadSpecialExtension st))))
           | _ \<Rightarrow> st)
      | _ \<Rightarrow> st)"

text \<open>Each configuration is read from the plugin manager and then removed there.\<close>

definition remove_config :: "string \<Rightarrow> sp_state \<Rightarrow> sp_state" where
  "remove_config name st = sp_emit (RemoveConfig name) st"

definition InitEventId :: "(string \<Rightarrow> plugin_config) \<Rightarrow> sp_state \<Rightarrow> sp_state" where
  "InitEventId cfg st =
     remove_config CONFIG_NAME_SOCPERF_EVENT_ID
       (fold (\<lambda>sub s.
          if sub_name sub = SOCPERF_TYPE_ID then s\<lparr>RES_TYPE_SCENE_BOARD_ID := atoi (sub_value sub)\<rparr>
          else if sub_name sub = SOCPERF_TYPE_RGM then s\<lparr>RES_TYPE_RGM_BOOTING_STATUS := atoi (sub_value sub)\<rparr>
          else s) (all_subs (cfg CONFIG_NAME_SOCPERF_EVENT_ID)) st)"

definition InitSpecialExtension :: "(string \<Rightarrow> plugin_config) \<Rightarrow> sp_state \<Rightarrow> sp_state" where
  "InitSpecialExtension cfg st =
     remove_config SPECIAL_EXTENSION_STRING (LoadSpecialExtension (cfg SPECIAL_EXTENSION_STRING) st)"

definition InitWeakInterAction :: "sp_env \<Rightarrow> (string \<Rightarrow> plugin_config) \<Rightarrow> sp_state \<Rightarrow> sp_state" where
  "InitWeakInterAction E cfg st =
     remove_config WEAK_ACTION_STRING (LoadWeakInterAction E (cfg WEAK_ACTION_STRING) st)"

definition InitBundleNameBoostList :: "(string \<Rightarrow> plugin_config) \<Rightarrow> sp_state \<Rightarrow> sp_state" where
  "InitBundleNameBoostList cfg st =
     remove_config CONFIG_NAME_SOCPERF_BUNDLE_NAME_BOOST_LIST
       (InitBundleNameBoostLists (cfg CONFIG_NAME_SOCPERF_BUNDLE_NAME_BOOST_LIST) st)"

definition InitPerfCrucialFunc :: "sp_env \<Rightarrow> string \<Rightarrow> string \<Rightarrow> sp_state \<Rightarrow> sp_state" where
  "InitPerfCrucialFunc E perfSoPath perfSoFunc st =
     (if \<not> se_dlopen E perfSoPath then st\<lparr>handle_open := False\<rparr>
      else
        (let f = se_dlsym E perfSoPath perfSoFunc in
         st\<lparr>handle_open := (f \<noteq> None), reqAppTypeFunc := f\<rparr>))"

definition InitPerfCrucialSo :: "sp_env \<Rightarrow> (string \<Rightarrow> plugin_config) \<Rightarrow> sp_state \<Rightarrow> sp_state" where
  "InitPerfCrucialSo E cfg st =
     (let st1 = fold (\<lambda>sub s.
            (let s1 = (if sub_name sub = SUB_ITEM_KEY_NAME_SOCPERF_RERQ_APPTYPE_PATH
                       then s\<lparr>perfReqAppTypeSoPath := sub_value sub\<rparr> else s)
             in if sub_name sub = SUB_ITEM_KEY_NAME_SOCPERF_RERQ_APPTYPE_FUNC
                then s1\<lparr>perfReqAppTypeSoFunc := sub_value sub\<rparr> else s1))
            (all_subs (cfg CNOFIG_NAME_SOCPERF_CRUCIAL_FUNC)) st;
          st2 = (if perfReqAppTypeSoPath st1 \<noteq> [] \<and> perfReqAppTypeSoFunc st1 \<noteq> []
                 then InitPerfCrucialFunc E (c_str (perfReqAppTypeSoPath st1)) (c_str (perfReqAppTypeSoFunc st1)) st1
                 else st1)
      in remove_config CNOFIG_NAME_SOCPERF_CRUCIAL_FUNC st2)"

definition InitPolicyMode :: "(string \<Rightarrow> plugin_config) \<Rightarrow> sp_state \<Rightarrow> sp_state" where
  "InitPolicyMode cfg st =
     (let socperfPolicy = cfg CONFIG_NAME_SOCPERF_POLICY_MODE; limitPolicy = cfg CONFIG_NAME_SOCPERF_LIMIT_POLICY;
          st1 = (if socperfPolicy \<noteq> [] \<and> limitPolicy \<noteq> [] then
                   (case ApplyPolicyLimits limitPolicy (GetPolicyMode socperfPolicy) (powerLimit st, thermalLimit st) of
                      (p, t) \<Rightarrow> st\<lparr>powerLimit := p, thermalLimit := t\<rparr>)
                 else st)
      in remove_config CONFIG_NAME_SOCPERF_LIMIT_POLICY (remove_config CONFIG_NAME_SOCPERF_POLICY_MODE st1))"

definition HandleBatterySubValue :: "i32 \<Rightarrow> i32 \<Rightarrow> i64 \<Rightarrow> sp_state \<Rightarrow> sp_state" where
  "HandleBatterySubValue capacity tag config st =
     (let f = battery_config capacity st in
      st\<lparr>maxBatteryLimitCapacity := max (maxBatteryLimitCapacity st) capacity,
         socperfBatteryConfig := om_put capacity
           (f\<lparr>fq_tags := fq_tags f @ [tag], fq_configs := fq_configs f @ [config]\<rparr>) (socperfBatteryConfig st)\<rparr>)"

definition prop_text_or_empty :: "string \<Rightarrow> (string, string) omap \<Rightarrow> string" where
  "prop_text_or_empty k m = (case map_of m k of None \<Rightarrow> [] | Some v \<Rightarrow> v)"

definition InitBatteryCapacityLimitFreq :: "(string \<Rightarrow> plugin_config) \<Rightarrow> sp_state \<Rightarrow> sp_state" where
  "InitBatteryCapacityLimitFreq cfg st =
     remove_config CONFIG_NAME_SOCPERF_BATTERY_CAPACITY_LIMIT_FREQ
       (fold (\<lambda>it s.
          fold (\<lambda>sub. HandleBatterySubValue (atoi (prop_text_or_empty ITEM_KEY_CAPACITY (itemProperties it)))
                        (atoi (prop_text_or_empty RES_ID (sub_properties sub))) (atoi (sub_value sub)))
            (subItemList it) s) (cfg CONFIG_NAME_SOCPERF_BATTERY_CAPACITY_LIMIT_FREQ) st)"

definition InitFeatureSwitch :: "(string \<Rightarrow> plugin_config) \<Rightarrow> string \<Rightarrow> sp_state \<Rightarrow> bool \<times> sp_state" where
  "InitFeatureSwitch cfg featureName st =
     (case find (\<lambda>sub. sub_name sub = featureName) (all_subs (cfg CONFIG_NAME_SOCPERF_FEATURE_SWITCH)) of
        None \<Rightarrow> False | Some sub \<Rightarrow> sub_value sub = ''1'',
      remove_config CONFIG_NAME_SOCPERF_FEATURE_SWITCH st)"

section \<open>Subscriptions and the function map\<close>

definition InitOtherResTypes :: "sp_state \<Rightarrow> sp_state" where
  "InitOtherResTypes st =
     st\<lparr>sp_resTypes := insert_all
       ([RES_TYPE_REPORT_BATTERY_STATUS_CHANGE, RES_TYPE_RECENT_BUILD, RES_TYPE_SCHED_MODE_CHANGE,
         RES_TYPE_RSS_CLOUD_CONFIG_UPDATE, RES_TYPE_SYSTEM_ABILITY_STATUS_CHANGE,
         RES_TYPE_CREATE_LIVING_APP_PROCESS] @
        (if RES_TYPE_SCENE_BOARD_ID st \<noteq> 0 then [of_int (RES_TYPE_SCENE_BOARD_ID st)] else []) @
        (if RES_TYPE_RGM_BOOTING_STATUS st \<noteq> 0 then [of_int (RES_TYPE_RGM_BOOTING_STATUS st)] else []))
       (sp_resTypes st)\<rparr>"

definition InitResTypes :: "sp_env \<Rightarrow> sp_state \<Rightarrow> sp_state" where
  "InitResTypes E st =
     InitOtherResTypes (st\<lparr>sp_resTypes :=
       [RES_TYPE_KEY_EVENT, RES_TYPE_WEB_GESTURE, RES_TYPE_POP_PAGE, RES_TYPE_APP_ABILITY_START,
        RES_TYPE_RESIZE_WINDOW, RES_TYPE_MOVE_WINDOW, RES_TYPE_SHOW_REMOTE_ANIMATION,
        RES_TYPE_DRAG_STATUS_BAR, RES_TYPE_WEB_GESTURE_MOVE, RES_TYPE_WEB_SLIDE_NORMAL,
        RES_TYPE_LOAD_URL, RES_TYPE_MOUSEWHEEL, RES_TYPE_DEVICE_MODE_STATUS,
        RES_TYPE_ACCOUNT_ACTIVATING, RES_TYPE_DEVICE_ORIENTATION_STATUS] @
       (if se_cust E then [RES_TYPE_ANCO_CUST, RES_TYPE_SOCPERF_CUST_EVENT_BEGIN,
          RES_TYPE_SOCPERF_CUST_EVENT_END, RES_TYPE_SOCPERF_CUST_ACTION] else []) @
       [RES_TYPE_ONLY_PERF_APP_COLD_START, RES_TYPE_SCENE_ROTATION, RES_TYPE_POWER_MODE_CHANGED,
        RES_TYPE_SCREEN_STATUS, RES_TYPE_APP_GAME_BOOST_EVENT, RES_TYPE_MMI_INPUT_POWER_KEY,
        RES_TYPE_CROWN_ROTATION_STATUS, RES_TYPE_WEB_DRAG_RESIZE, RES_TYPE_REPORT_CAMERA_STATE,
        RES_TYPE_REPORT_GAME_STATE_CHANGE] @
       (if se_copy E then [RES_TYPE_FILE_COPY_STATUS] else []) @
       [RES_TYPE_WEB_SLIDE_SCROLL, RES_TYPE_DISPLAY_POWER_WAKE_UP, RES_TYPE_SWIPER_FLING_END_EXCEPTION_FLAG,
        RES_TYPE_HIGH_FREQUENCE_LOAD_SCENE_WITHOUT_AGGREGATION, RES_TYPE_OOBE_CLONE,
        RES_TYPE_SOCPERF_PERFORMANCE_MODE_CHANGED]\<rparr>)"

definition InitResTypeWithVal :: "sp_state \<Rightarrow> sp_state" where
  "InitResTypeWithVal st =
     st\<lparr>sp_resTypeWithVal :=
       [(RES_TYPE_WINDOW_FOCUS, WINDOW_FOCUS), (RES_TYPE_WINDOW_FOCUS, WINDOW_UNFOCUS),
        (RES_TYPE_CLICK_RECOGNIZE, TOUCH_EVENT_DOWN_MMI), (RES_TYPE_CLICK_RECOGNIZE, TOUCH_EVENT_DOWN),
        (RES_TYPE_CLICK_RECOGNIZE, TOUCH_EVENT_UP), (RES_TYPE_CLICK_RECOGNIZE, CLICK_EVENT),
        (RES_TYPE_LOAD_PAGE, LOAD_PAGE_START), (RES_TYPE_LOAD_PAGE, LOAD_PAGE_COMPLETE),
        (RES_TYPE_SLIDE_RECOGNIZE, SLIDE_EVENT_ON), (RES_TYPE_SLIDE_RECOGNIZE, SLIDE_EVENT_OFF),
        (RES_TYPE_SLIDE_RECOGNIZE, SWIPER_FLING_END), (RES_TYPE_SLIDE_RECOGNIZE, SLIDE_NORMAL_BEGIN),
        (RES_TYPE_SLIDE_RECOGNIZE, SLIDE_NORMAL_END), (RES_TYPE_SLIDE_RECOGNIZE, MOVE_EVENT_ON),
        (RES_TYPE_APP_STATE_CHANGE, PROCESS_CREATED), (RES_TYPE_BMM_MONITER_CHANGE_EVENT, BMM_BACKGROUND),
        (RES_TYPE_BMM_MONITER_CHANGE_EVENT, BMM_CLOSE), (RES_TYPE_APP_INSTALL_UNINSTALL, APP_UNINSTALL),
        (RES_TYPE_PROCESS_STATE_CHANGE, PROCESS_DIED)] @
       (if RES_TYPE_SCENE_BOARD_ID st \<noteq> 0
        then [(of_int (RES_TYPE_SCENE_BOARD_ID st), ANIMATION_BEGIN), (of_int (RES_TYPE_SCENE_BOARD_ID st), ANIMATION_END)]
        else [])\<rparr>"

type_synonym sp_handler = "sp_env \<Rightarrow> u64 \<Rightarrow> res_data \<Rightarrow> sp_state \<Rightarrow> sp_state option"

text \<open>A handler that cannot throw and needs neither the environment nor the clock.\<close>

definition plain :: "(res_data \<Rightarrow> sp_state \<Rightarrow> sp_state) \<Rightarrow> sp_handler" where
  "plain h E now rd st = Some (h rd st)"

definition with_env :: "(sp_env \<Rightarrow> res_data \<Rightarrow> sp_state \<Rightarrow> sp_state) \<Rightarrow> sp_handler" where
  "with_env h E now rd st = Some (h E rd st)"

definition AddOtherEventToFunctionMap :: "(u32 \<times> sp_handler) list" where
  "AddOtherEventToFunctionMap =
     [(RES_TYPE_RECENT_BUILD, plain HandleRecentBuild),
      (RES_TYPE_DEVICE_ORIENTATION_STATUS, plain HandleDeviceOrientationStatusChange),
      (RES_TYPE_REPORT_BATTERY_STATUS_CHANGE, plain HandleBatteryStatusChange),
      (RES_TYPE_SCHED_MODE_CHANGE, \<lambda>E now. HandleSchedModeChange),
      (RES_TYPE_RSS_CLOUD_CONFIG_UPDATE, with_env HandleRssCloudConfigUpdate),
      (RES_TYPE_SYSTEM_ABILITY_STATUS_CHANGE, with_env sp_ReportAbilityStatus),
      (RES_TYPE_DISPLAY_POWER_WAKE_UP, with_env HandleDisplayPowerWakeUp),
      (RES_TYPE_SWIPER_FLING_END_EXCEPTION_FLAG, plain HandleSwiperFlingEndEx),
      (RES_TYPE_HIGH_FREQUENCE_LOAD_SCENE_WITHOUT_AGGREGATION, plain HandleLiveBroadcast),
      (RES_TYPE_OOBE_CLONE, plain HandleOobeClone),
      (RES_TYPE_CREATE_LIVING_APP_PROCESS, plain HandleResTypeCreateLivingApp),
      (RES_TYPE_SOCPERF_PERFORMANCE_MODE_CHANGED, plain HandlePerformanceModeChange)]"

definition AddEventToFunctionMap :: "sp_env \<Rightarrow> sp_state \<Rightarrow> (u32 \<times> sp_handler) list" where
  "AddEventToFunctionMap E st =
     (if se_cust E then
        [(RES_TYPE_ANCO_CUST, plain HandleCustEvent), (RES_TYPE_SOCPERF_CUST_EVENT_BEGIN, plain HandleCustEventBegin),
         (RES_TYPE_SOCPERF_CUST_EVENT_END, plain HandleCustEventEnd), (RES_TYPE_SOCPERF_CUST_ACTION, plain HandleCustAction)]
      else []) @
     [(RES_TYPE_ONLY_PERF_APP_COLD_START, plain HandleAppColdStartEx),
      (RES_TYPE_SCENE_ROTATION, plain HandleSceneRotation),
      (RES_TYPE_BMM_MONITER_CHANGE_EVENT, plain HandleBmmMoniterStatus),
      (RES_TYPE_POWER_MODE_CHANGED, plain HandlePowerModeChanged),
      (RES_TYPE_SCREEN_STATUS, with_env HandleScreenStatusAnalysis),
      (RES_TYPE_APP_GAME_BOOST_EVENT, plain HandleGameBoost),
      (RES_TYPE_KEY_EVENT, plain HandleEventKey)] @
     (if se_crown E then
        [(RES_TYPE_MMI_INPUT_POWER_KEY, plain HandlePowerEventKey), (RES_TYPE_CROWN_ROTATION_STATUS, plain HandleCrownRotation)]
      else []) @
     [(RES_TYPE_APP_INSTALL_UNINSTALL, plain HandleUninstallEvent),
      (RES_TYPE_PROCESS_STATE_CHANGE, plain HandleProcessStateChange),
      (RES_TYPE_REPORT_CAMERA_STATE, plain HandleCameraStateChange),
      (RES_TYPE_REPORT_GAME_STATE_CHANGE, with_env HandleGameStateChange)] @
     (if RES_TYPE_SCENE_BOARD_ID st \<noteq> 0
      then [(of_int (RES_TYPE_SCENE_BOARD_ID st), plain HandleSocperfSceneBoard)] else []) @
     (if RES_TYPE_RGM_BOOTING_STATUS st \<noteq> 0
      then [(of_int (RES_TYPE_RGM_BOOTING_STATUS st), plain HandleRgmBootingStatus)] else []) @
     AddOtherEventToFunctionMap"

text \<open>The map as a list in the order of the insertions: a type that is there keeps its handler.\<close>

definition sp_functionMap :: "sp_env \<Rightarrow> sp_state \<Rightarrow> (u32 \<times> sp_handler) list" where
  "sp_functionMap E st =
     [(RES_TYPE_WINDOW_FOCUS, with_env HandleWindowFocus), (RES_TYPE_CLICK_RECOGNIZE, with_env HandleEventClick),
      (RES_TYPE_LOAD_PAGE, plain HandleLoadPage),
      (RES_TYPE_SLIDE_RECOGNIZE, \<lambda>E now rd st. Some (HandleEventSlide E now rd st)),
      (RES_TYPE_WEB_GESTURE, plain HandleEventWebGesture), (RES_TYPE_POP_PAGE, plain HandlePopPage),
      (RES_TYPE_APP_ABILITY_START, \<lambda>E now. HandleAppAbilityStart),
      (RES_TYPE_RESIZE_WINDOW, plain HandleResizeWindow), (RES_TYPE_MOVE_WINDOW, plain HandleMoveWindow),
      (RES_TYPE_SHOW_REMOTE_ANIMATION, plain HandleRemoteAnimation), (RES_TYPE_DRAG_STATUS_BAR, plain HandleDragStatusBar),
      (RES_TYPE_WEB_GESTURE_MOVE, plain HandleWebGestureMove), (RES_TYPE_WEB_SLIDE_NORMAL, plain HandleWebSlideNormal),
      (RES_TYPE_LOAD_URL, plain HandleLoadUrl), (RES_TYPE_MOUSEWHEEL, plain HandleMousewheel),
      (RES_TYPE_APP_STATE_CHANGE, plain HandleAppStateChange),
      (RES_TYPE_DEVICE_MODE_STATUS, plain HandleDeviceModeStatusChange),
      (RES_TYPE_ACCOUNT_ACTIVATING, plain HandleSocperfAccountActivating),
      (RES_TYPE_WEB_DRAG_RESIZE, plain HandleWebDragResize)] @
     (if se_copy E then [(RES_TYPE_FILE_COPY_STATUS, plain HandleFileCopyStatus)] else []) @
     [(RES_TYPE_WEB_SLIDE_SCROLL, plain HandleWebSildeScroll)] @
     AddEventToFunctionMap E st"

definition InitFunctionMap :: "(string \<Rightarrow> plugin_config) \<Rightarrow> sp_state \<Rightarrow> sp_state" where
  "InitFunctionMap cfg st =
     (case InitFeatureSwitch cfg SUB_ITEM_KEY_NAME_SOCPERF_GAME_BOOST (st\<lparr>sp_functions := True\<rparr>) of
        (b, st1) \<Rightarrow> st1\<lparr>socperfGameBoostSwitch := b\<rparr>)"

section \<open>The plugin\<close>

definition subscribe_all :: "sp_state \<Rightarrow> sp_state" where
  "subscribe_all st =
     st\<lparr>sp_calls := sp_calls st @ map (CallSubscribe LIB_NAME_sp) (sp_resTypes st) @
         map (\<lambda>(t, v). CallSubscribeAccurately LIB_NAME_sp t v) (sp_resTypeWithVal st)\<rparr>"

definition sp_Init :: "sp_env \<Rightarrow> (string \<Rightarrow> plugin_config) \<Rightarrow> sp_state \<Rightarrow> sp_state" where
  "sp_Init E cfg st =
     InitPolicyMode cfg (InitBatteryCapacityLimitFreq cfg (InitWeakInterAction E cfg
       (InitBundleNameBoostList cfg (InitPerfCrucialSo E cfg (subscribe_all
         (InitSpecialExtension cfg (InitFunctionMap cfg (InitResTypeWithVal (InitResTypes E
           (InitEventId cfg st))))))))))"

definition sp_Disable :: "sp_state \<Rightarrow> sp_state" where
  "sp_Disable st =
     st\<lparr>sp_functions := False,
        sp_calls := sp_calls st @ map (CallUnSubscribe LIB_NAME_sp) (sp_resTypes st) @
          map (\<lambda>(t, v). CallUnSubscribeAccurately LIB_NAME_sp t v) (sp_resTypeWithVal st),
        sp_resTypes := [], handle_open := False\<rparr>"

definition sp_DispatchResource :: "sp_env \<Rightarrow> u64 \<Rightarrow> res_data \<Rightarrow> sp_state \<Rightarrow> sp_state option" where
  "sp_DispatchResource E now rd st =
     (if \<not> sp_functions st then Some st
      else (case map_of (sp_functionMap E st) (rd_type rd) of
              None \<Rightarrow> Some st
            | Some h \<Rightarrow> h E now rd st))"

definition sp_OnPluginInit :: "sp_env \<Rightarrow> (string \<Rightarrow> plugin_config) \<Rightarrow> string \<Rightarrow> sp_state \<Rightarrow> bool \<times> sp_state" where
  "sp_OnPluginInit E cfg libName st =
     (if libName \<noteq> LIB_NAME_sp then (False, st) else (True, sp_Init E cfg st))"

section \<open>Steps\<close>

text \<open>Events at any time, a pending task at some later time, starting and stopping.\<close>

inductive sp_step :: "sp_env \<Rightarrow> sp_state \<Rightarrow> sp_state \<Rightarrow> bool" for E where
  init: "sp_step E st (snd (sp_OnPluginInit E cfg libName st))"
| disable: "sp_step E st (sp_Disable st)"
| event: "sp_DispatchResource E now rd st = Some st' \<Longrightarrow> sp_step E st st'"
| task: "task \<in> set (sp_tasks st) \<Longrightarrow> sp_step E st (run_sp_task screenOn task st)"

inductive sp_reachable :: "sp_env \<Rightarrow> sp_state \<Rightarrow> bool" for E where
  start: "sp_reachable E sp_new"
| step: "sp_reachable E st \<Longrightarrow> sp_step E st st' \<Longrightarrow> sp_reachable E st'"

end
