(* ===== verification/Socperf_Facts.thy ===== *)
theory Socperf_Facts
  imports Socperf_Model
begin

text \<open>
  What the frequency plugin keeps: boosts that exclude each other are never both requested, the
  battery table stays consistent with the limit in force, and which application is a key
  application.  The lemmas come in two groups, one handler each: most handlers touch neither the
  exclusive boosts (\<open>boosts\<close>) nor the battery part of the state (\<open>battery\<close>).
\<close>

section \<open>Boosts in force\<close>

text \<open>Whether the last switched request for a command was to switch it on.\<close>

fun active_rev :: "i32 \<Rightarrow> sp_out list \<Rightarrow> bool" where
  "active_rev c [] = False"
| "active_rev c (PerfRequestEx d b m # os) = (if d = c then b else active_rev c os)"
| "active_rev c (_ # os) = active_rev c os"

definition active :: "i32 \<Rightarrow> sp_state \<Rightarrow> bool" where
  "active c st = active_rev c (rev (sp_outs st))"

definition exclusive_cmds :: "i32 list" where
  "exclusive_cmds =
     [PERF_REQUEST_CMD_ID_SCREEN_ON, PERF_REQUEST_CMD_ID_SCREEN_OFF,
      PERF_REQUEST_CMD_ID_DISPLAY_GLOBAL_L, PERF_REQUEST_CMD_ID_DISPLAY_GLOBAL_P,
      PERF_REQUEST_CMD_ID_SCREEN_ON_PERFORMANCE_MODE, PERF_REQUEST_CMD_ID_SCREEN_OFF_PERFORMANCE_MODE]"

definition boosts :: "sp_state \<Rightarrow> bool list" where
  "boosts st = map (\<lambda>c. active c st) exclusive_cmds"

definition battery :: "sp_state \<Rightarrow> (i32, frequencies) omap \<times> i32 \<times> i32" where
  "battery st = (socperfBatteryConfig st, maxBatteryLimitCapacity st, lastBatteryLimitCap st)"

lemma active_emit [simp]:
  "active c (sp_emit (PerfRequestEx d b m) st) = (if d = c then b else active c st)"
  "active c (sp_emit (PerfRequest d m) st) = active c st"
  "active c (sp_emit (RequestDeviceMode m on) st) = active c st"
  "active c (sp_emit (PowerLimitBoost on m) st) = active c st"
  "active c (sp_emit (LimitRequest ts cs m) st) = active c st"
  "active c (sp_emit (RemoveConfig m) st) = active c st"
  "active c (sp_emit (ReportInProcess t v) st) = active c st"
  by (simp_all add: active_def sp_emit_def)

lemma active_perf [simp]:
  "active c (perf d st) = active c st"
  "active c (perf_ex d b st) = (if d = c then b else active c st)"
  by (simp_all add: perf_def perf_ex_def)

lemma boosts_emit [simp]:
  "boosts (perf d st) = boosts st"
  "d \<notin> set exclusive_cmds \<Longrightarrow> boosts (perf_ex d b st) = boosts st"
  "boosts (sp_emit (PerfRequest d m) st) = boosts st"
  "boosts (sp_emit (RequestDeviceMode m on) st) = boosts st"
  "boosts (sp_emit (PowerLimitBoost on m) st) = boosts st"
  "boosts (sp_emit (LimitRequest ts cs m) st) = boosts st"
  "boosts (sp_emit (RemoveConfig m) st) = boosts st"
  "boosts (sp_emit (ReportInProcess t v) st) = boosts st"
  by (auto simp: boosts_def)

lemma battery_emit [simp]:
  "battery (sp_emit ev st) = battery st"
  "battery (perf d st) = battery st"
  "battery (perf_ex d b st) = battery st"
  by (simp_all add: battery_def sp_emit_def perf_def perf_ex_def)

lemma on_off_frame [simp]:
  "d \<notin> set exclusive_cmds \<Longrightarrow> boosts (on_off d a b v st) = boosts st"
  "d \<notin> set exclusive_cmds \<Longrightarrow> boosts (start_stop d a b v st) = boosts st"
  "battery (on_off d a b v st) = battery st"
  "battery (start_stop d a b v st) = battery st"
  by (simp_all add: on_off_def start_stop_def)

text \<open>Updates of the fields that neither group reads.\<close>

lemma field_frame [simp]:
  "boosts (st\<lparr>focusAppUids := a\<rparr>) = boosts st" "battery (st\<lparr>focusAppUids := a\<rparr>) = battery st"
  "boosts (st\<lparr>weakActionEnable := b\<rparr>) = boosts st" "battery (st\<lparr>weakActionEnable := b\<rparr>) = battery st"
  "boosts (st\<lparr>weakActionStatus := b\<rparr>) = boosts st" "battery (st\<lparr>weakActionStatus := b\<rparr>) = battery st"
  "boosts (st\<lparr>keyAppName := c\<rparr>) = boosts st" "battery (st\<lparr>keyAppName := c\<rparr>) = battery st"
  "boosts (st\<lparr>keyAppType := a\<rparr>) = boosts st" "battery (st\<lparr>keyAppType := a\<rparr>) = battery st"
  "boosts (st\<lparr>focusCustGameUids := a\<rparr>) = boosts st" "battery (st\<lparr>focusCustGameUids := a\<rparr>) = battery st"
  "boosts (st\<lparr>appNameUseCamera := c\<rparr>) = boosts st" "battery (st\<lparr>appNameUseCamera := c\<rparr>) = battery st"
  "boosts (st\<lparr>appNameMoveEvent := c\<rparr>) = boosts st" "battery (st\<lparr>appNameMoveEvent := c\<rparr>) = battery st"
  "boosts (st\<lparr>uidToAppMsgMap := d\<rparr>) = boosts st" "battery (st\<lparr>uidToAppMsgMap := d\<rparr>) = battery st"
  "boosts (st\<lparr>pidToAppTypeMap := e\<rparr>) = boosts st" "battery (st\<lparr>pidToAppTypeMap := e\<rparr>) = battery st"
  "boosts (st\<lparr>specialExtensionMap := f\<rparr>) = boosts st" "battery (st\<lparr>specialExtensionMap := f\<rparr>) = battery st"
  "boosts (st\<lparr>isFocusAppsGameType := b\<rparr>) = boosts st" "battery (st\<lparr>isFocusAppsGameType := b\<rparr>) = battery st"
  "boosts (st\<lparr>screenStatus := i\<rparr>) = boosts st" "battery (st\<lparr>screenStatus := i\<rparr>) = battery st"
  "boosts (st\<lparr>deviceMode := s\<rparr>) = boosts st" "battery (st\<lparr>deviceMode := s\<rparr>) = battery st"
  "boosts (st\<lparr>deviceOrientation := s\<rparr>) = boosts st" "battery (st\<lparr>deviceOrientation := s\<rparr>) = battery st"
  "boosts (st\<lparr>performanceMode := i\<rparr>) = boosts st" "battery (st\<lparr>performanceMode := i\<rparr>) = battery st"
  "boosts (st\<lparr>custGameState := b\<rparr>) = boosts st" "battery (st\<lparr>custGameState := b\<rparr>) = battery st"
  "boosts (st\<lparr>flingExceptionFlag := b\<rparr>) = boosts st" "battery (st\<lparr>flingExceptionFlag := b\<rparr>) = battery st"
  "boosts (st\<lparr>wakeUpTimeOutTask := w\<rparr>) = boosts st" "battery (st\<lparr>wakeUpTimeOutTask := w\<rparr>) = battery st"
  "boosts (st\<lparr>drag_lastTime := u\<rparr>) = boosts st" "battery (st\<lparr>drag_lastTime := u\<rparr>) = battery st"
  "boosts (st\<lparr>drag_lastStatus := i\<rparr>) = boosts st" "battery (st\<lparr>drag_lastStatus := i\<rparr>) = battery st"
  "boosts (st\<lparr>sp_tasks := t\<rparr>) = boosts st" "battery (st\<lparr>sp_tasks := t\<rparr>) = battery st"
  "boosts (st\<lparr>sp_handles := n\<rparr>) = boosts st" "battery (st\<lparr>sp_handles := n\<rparr>) = battery st"
  "boosts (st\<lparr>sp_functions := b\<rparr>) = boosts st" "battery (st\<lparr>sp_functions := b\<rparr>) = battery st"
  "boosts (st\<lparr>sp_calls := pc\<rparr>) = boosts st" "battery (st\<lparr>sp_calls := pc\<rparr>) = battery st"
  "boosts (st\<lparr>sp_resTypes := r\<rparr>) = boosts st" "battery (st\<lparr>sp_resTypes := r\<rparr>) = battery st"
  "boosts (st\<lparr>sp_resTypeWithVal := rv\<rparr>) = boosts st" "battery (st\<lparr>sp_resTypeWithVal := rv\<rparr>) = battery st"
  "boosts (st\<lparr>handle_open := b\<rparr>) = boosts st" "battery (st\<lparr>handle_open := b\<rparr>) = battery st"
  "boosts (st\<lparr>reqAppTypeFunc := q\<rparr>) = boosts st" "battery (st\<lparr>reqAppTypeFunc := q\<rparr>) = battery st"
  "boosts (st\<lparr>perfReqAppTypeSoPath := s\<rparr>) = boosts st" "battery (st\<lparr>perfReqAppTypeSoPath := s\<rparr>) = battery st"
  "boosts (st\<lparr>perfReqAppTypeSoFunc := s\<rparr>) = boosts st" "battery (st\<lparr>perfReqAppTypeSoFunc := s\<rparr>) = battery st"
  "boosts (st\<lparr>powerLimit := ob\<rparr>) = boosts st" "battery (st\<lparr>powerLimit := ob\<rparr>) = battery st"
  "boosts (st\<lparr>thermalLimit := ob\<rparr>) = boosts st" "battery (st\<lparr>thermalLimit := ob\<rparr>) = battery st"
  "boosts (st\<lparr>socperfGameBoostSwitch := b\<rparr>) = boosts st" "battery (st\<lparr>socperfGameBoostSwitch := b\<rparr>) = battery st"
  "boosts (st\<lparr>RES_TYPE_SCENE_BOARD_ID := i\<rparr>) = boosts st" "battery (st\<lparr>RES_TYPE_SCENE_BOARD_ID := i\<rparr>) = battery st"
  "boosts (st\<lparr>RES_TYPE_RGM_BOOTING_STATUS := i\<rparr>) = boosts st" "battery (st\<lparr>RES_TYPE_RGM_BOOTING_STATUS := i\<rparr>) = battery st"
  by (simp_all add: boosts_def active_def battery_def)

section \<open>Handlers that touch neither\<close>

lemmas ex_ids = exclusive_cmds_def sp_ids

lemma weak_action_frame [simp]:
  "boosts (UpdateWeakActionStatus E st) = boosts st" "battery (UpdateWeakActionStatus E st) = battery st"
  by (simp_all add: UpdateWeakActionStatus_def Let_def ex_ids  split: option.split json.split prod.split)

lemma focus_frame [simp]:
  "boosts (UpdateFocusAppType E p b st) = boosts st" "battery (UpdateFocusAppType E p b st) = battery st"
  "boosts (HandleWindowFocus E rd st) = boosts st" "battery (HandleWindowFocus E rd st) = battery st"
  by (simp_all add: UpdateFocusAppType_def HandleWindowFocus_def Let_def ex_ids  split: option.split json.split prod.split)

lemma game_blocks_frame [simp]:
  "boosts (snd (game_blocks p st)) = boosts st" "battery (snd (game_blocks p st)) = battery st"
  by (simp_all add: game_blocks_def IsGameEvent_def Let_def split: option.split)

lemma app_msg_frame [simp]:
  "boosts (UpdateUidToAppMsgMap p st) = boosts st" "battery (UpdateUidToAppMsgMap p st) = battery st"
  "boosts (UpdateUidToAppMsgMap_type p a b st) = boosts st" "battery (UpdateUidToAppMsgMap_type p a b st) = battery st"
  by (simp_all add: UpdateUidToAppMsgMap_def UpdateUidToAppMsgMap_type_def Let_def ex_ids  split: option.split json.split prod.split)

lemma app_frame [simp]:
  "boosts (HandleAppStateChange rd st) = boosts st" "battery (HandleAppStateChange rd st) = battery st"
  "boosts (HandleUninstallEvent rd st) = boosts st" "battery (HandleUninstallEvent rd st) = battery st"
  "boosts (HandleProcessStateChange rd st) = boosts st" "battery (HandleProcessStateChange rd st) = battery st"
  "boosts (HandleAppColdStartEx rd st) = boosts st" "battery (HandleAppColdStartEx rd st) = battery st"
  "boosts (HandleResTypeCreateLivingApp rd st) = boosts st" "battery (HandleResTypeCreateLivingApp rd st) = battery st"
  "boosts (HandleCameraStateChange rd st) = boosts st" "battery (HandleCameraStateChange rd st) = battery st"
  by (simp_all add: HandleAppStateChange_def HandleUninstallEvent_def HandleDeadProcess_def HandleProcessStateChange_def HandleAppColdStartEx_def HandleResTypeCreateLivingApp_def HandleCameraStateChange_def Let_def ex_ids  split: option.split json.split prod.split)

lemma game_frame [simp]:
  "boosts (UpdateCustGameState E v u st) = boosts st" "battery (UpdateCustGameState E v u st) = battery st"
  "boosts (HandleGameStateChange E rd st) = boosts st" "battery (HandleGameStateChange E rd st) = battery st"
  by (simp_all add: UpdateCustGameState_def HandleGameStateChange_def Let_def ex_ids  split: option.split json.split prod.split)

lemma move_frame [simp]:
  "boosts (HandleMoveEventBoost E p b st) = boosts st" "battery (HandleMoveEventBoost E p b st) = battery st"
  by (simp_all add: HandleMoveEventBoost_def Let_def ex_ids  split: option.split json.split prod.split)

lemma drag_frame [simp]:
  "boosts (HandleContinuousDrag now v st) = boosts st" "battery (HandleContinuousDrag now v st) = battery st"
  by (simp_all add: HandleContinuousDrag_def Let_def ex_ids  split: option.split json.split prod.split)

lemma click_frame [simp]:
  "boosts (HandleEventClick E rd st) = boosts st" "battery (HandleEventClick E rd st) = battery st"
  using game_blocks_frame[of "rd_payload rd" st]
  by (cases "game_blocks (rd_payload rd) st"; simp add: HandleEventClick_def ex_ids)+

lemma slide_frame [simp]:
  "boosts (HandleEventSlide E now rd st) = boosts st" "battery (HandleEventSlide E now rd st) = battery st"
  using game_blocks_frame[of "rd_payload rd" st]
  by (cases "game_blocks (rd_payload rd) st"; simp add: HandleEventSlide_def ex_ids)+

lemma input_frame [simp]:
  "boosts (HandleEventKey rd st) = boosts st" "battery (HandleEventKey rd st) = battery st"
  "boosts (HandlePowerEventKey rd st) = boosts st" "battery (HandlePowerEventKey rd st) = battery st"
  "boosts (HandleCrownRotation rd st) = boosts st" "battery (HandleCrownRotation rd st) = battery st"
  "boosts (HandleSwiperFlingEndEx rd st) = boosts st" "battery (HandleSwiperFlingEndEx rd st) = battery st"
  "boosts (HandleEventWebGesture rd st) = boosts st" "battery (HandleEventWebGesture rd st) = battery st"
  "boosts (HandleWebGestureMove rd st) = boosts st" "battery (HandleWebGestureMove rd st) = battery st"
  "boosts (HandleWebSlideNormal rd st) = boosts st" "battery (HandleWebSlideNormal rd st) = battery st"
  "boosts (HandleWebSildeScroll rd st) = boosts st" "battery (HandleWebSildeScroll rd st) = battery st"
  "boosts (HandleMousewheel rd st) = boosts st" "battery (HandleMousewheel rd st) = battery st"
  by (simp_all add: HandleEventKey_def HandlePowerEventKey_def HandleCrownRotation_def HandleSwiperFlingEndEx_def HandleEventWebGesture_def HandleWebGestureMove_def HandleWebSlideNormal_def HandleWebSildeScroll_def HandleMousewheel_def Let_def ex_ids  split: option.split json.split prod.split)

lemma page_frame [simp]:
  "boosts (HandleLoadPage rd st) = boosts st" "battery (HandleLoadPage rd st) = battery st"
  "boosts (HandlePopPage rd st) = boosts st" "battery (HandlePopPage rd st) = battery st"
  "boosts (HandleLoadUrl rd st) = boosts st" "battery (HandleLoadUrl rd st) = battery st"
  "boosts (HandleResizeWindow rd st) = boosts st" "battery (HandleResizeWindow rd st) = battery st"
  "boosts (HandleMoveWindow rd st) = boosts st" "battery (HandleMoveWindow rd st) = battery st"
  "boosts (HandleDragStatusBar rd st) = boosts st" "battery (HandleDragStatusBar rd st) = battery st"
  "boosts (HandleWebDragResize rd st) = boosts st" "battery (HandleWebDragResize rd st) = battery st"
  "boosts (HandleRemoteAnimation rd st) = boosts st" "battery (HandleRemoteAnimation rd st) = battery st"
  "boosts (HandleSocperfSceneBoard rd st) = boosts st" "battery (HandleSocperfSceneBoard rd st) = battery st"
  "boosts (HandleSceneRotation rd st) = boosts st" "battery (HandleSceneRotation rd st) = battery st"
  "boosts (HandleRecentBuild rd st) = boosts st" "battery (HandleRecentBuild rd st) = battery st"
  by (simp_all add: HandleLoadPage_def HandlePopPage_def HandleLoadUrl_def HandleResizeWindow_def HandleMoveWindow_def HandleDragStatusBar_def HandleWebDragResize_def HandleRemoteAnimation_def HandleSocperfSceneBoard_def HandleSceneRotation_def HandleRecentBuild_def Let_def ex_ids  split: option.split json.split prod.split)

lemma other_frame [simp]:
  "boosts (HandlePowerModeChanged rd st) = boosts st" "battery (HandlePowerModeChanged rd st) = battery st"
  "boosts (HandleGameBoost rd st) = boosts st" "battery (HandleGameBoost rd st) = battery st"
  "boosts (HandleSocperfAccountActivating rd st) = boosts st" "battery (HandleSocperfAccountActivating rd st) = battery st"
  "boosts (HandleRgmBootingStatus rd st) = boosts st" "battery (HandleRgmBootingStatus rd st) = battery st"
  "boosts (HandleBmmMoniterStatus rd st) = boosts st" "battery (HandleBmmMoniterStatus rd st) = battery st"
  "boosts (HandleFileCopyStatus rd st) = boosts st" "battery (HandleFileCopyStatus rd st) = battery st"
  "boosts (HandleLiveBroadcast rd st) = boosts st" "battery (HandleLiveBroadcast rd st) = battery st"
  "boosts (HandleOobeClone rd st) = boosts st" "battery (HandleOobeClone rd st) = battery st"
  "boosts (ReportConfiguredLimitBoost st) = boosts st" "battery (ReportConfiguredLimitBoost st) = battery st"
  "boosts (sp_ReportAbilityStatus E rd st) = boosts st" "battery (sp_ReportAbilityStatus E rd st) = battery st"
  by (simp_all add: HandlePowerModeChanged_def HandleGameBoost_def HandleSocperfAccountActivating_def HandleRgmBootingStatus_def HandleBmmMoniterStatus_def HandleFileCopyStatus_def HandleLiveBroadcast_def HandleOobeClone_def ReportConfiguredLimitBoost_def sp_ReportAbilityStatus_def Let_def ex_ids  split: option.split json.split prod.split)

text \<open>Folding steps of which each touches neither.\<close>

lemma fold_frame:
  "(\<And>x s. boosts (f x s) = boosts s \<and> battery (f x s) = battery s) \<Longrightarrow>
   boosts (fold f xs st) = boosts st \<and> battery (fold f xs st) = battery st"
  by (induction xs arbitrary: st) simp_all

lemma load_frame [simp]:
  "boosts (LoadSpecialExtension c st) = boosts st" "battery (LoadSpecialExtension c st) = battery st"
  "boosts (LoadWeakInterAction E c st) = boosts st" "battery (LoadWeakInterAction E c st) = battery st"
  "boosts (InitBundleNameBoostLists c st) = boosts st" "battery (InitBundleNameBoostLists c st) = battery st"
  using fold_frame[of "\<lambda>sub s. if sub_name sub = INFO_STRING then AddSpecialExtension sub s else s" "all_subs c" st]
    fold_frame[of "\<lambda>sub s. if sub_name sub = ENABLE_STRING then SetWeakActionEnable E (sub_value sub) s
       else if sub_name sub = BUNDLE_NAME then s\<lparr>keyAppName := AddKeyAppName (sub_value sub) (keyAppName s)\<rparr>
       else if sub_name sub = KEY_APP_TYPE then s\<lparr>keyAppType := AddKeyAppType (sub_value sub) (keyAppType s)\<rparr>
       else s" "all_subs c" st]
    fold_frame[of "\<lambda>sub s. if sub_name sub = SUB_ITEM_KEY_NAME_APP_USE_CAMERA_BOOST
       then s\<lparr>appNameUseCamera := HandleSubValue (c_str (sub_value sub)) (appNameUseCamera s)\<rparr>
       else if sub_name sub = SUB_ITEM_KEY_NAME_APP_MOVE_EVENT_BOOST
       then s\<lparr>appNameMoveEvent := HandleSubValue (c_str (sub_value sub)) (appNameMoveEvent s)\<rparr>
       else s" "all_subs c" st]
  by (simp_all add: LoadSpecialExtension_def LoadWeakInterAction_def InitBundleNameBoostLists_def
      AddSpecialExtension_def SetWeakActionEnable_def split: option.split)

lemma cloud_frame [simp]:
  "boosts (HandleRssCloudConfigUpdate E rd st) = boosts st" "battery (HandleRssCloudConfigUpdate E rd st) = battery st"
  by (simp_all add: HandleRssCloudConfigUpdate_def Let_def ex_ids  split: option.split json.split prod.split)

lemma ability_start_frame:
  "HandleAppAbilityStart rd st = Some st' \<Longrightarrow> boosts st' = boosts st \<and> battery st' = battery st"
  "HandleSchedModeChange rd st = Some st' \<Longrightarrow> boosts st' = boosts st \<and> battery st' = battery st"
  by (auto simp: HandleAppAbilityStart_def HandleSchedModeChange_def Let_def
      split: if_splits option.splits json.splits)

section \<open>Boosts that exclude each other\<close>

definition exclusive :: "sp_state \<Rightarrow> bool" where
  "exclusive st \<longleftrightarrow>
     \<not> (active PERF_REQUEST_CMD_ID_SCREEN_ON st \<and> active PERF_REQUEST_CMD_ID_SCREEN_OFF st) \<and>
     \<not> (active PERF_REQUEST_CMD_ID_DISPLAY_GLOBAL_L st \<and> active PERF_REQUEST_CMD_ID_DISPLAY_GLOBAL_P st) \<and>
     \<not> (active PERF_REQUEST_CMD_ID_SCREEN_ON_PERFORMANCE_MODE st \<and>
        active PERF_REQUEST_CMD_ID_SCREEN_OFF_PERFORMANCE_MODE st)"

lemma exclusive_boosts: "boosts st' = boosts st \<Longrightarrow> exclusive st' = exclusive st"
  by (simp add: boosts_def exclusive_cmds_def exclusive_def)

definition ok_boosts :: "bool list \<Rightarrow> bool" where
  "ok_boosts l \<longleftrightarrow> \<not> (l ! 0 \<and> l ! 1) \<and> \<not> (l ! 2 \<and> l ! 3) \<and> \<not> (l ! 4 \<and> l ! 5)"

lemma exclusive_alt: "exclusive st = ok_boosts (boosts st)"
  by (simp add: exclusive_def ok_boosts_def boosts_def exclusive_cmds_def)

lemma active_field [simp]:
  "active c (st\<lparr>screenStatus := i\<rparr>) = active c st" "active c (st\<lparr>deviceMode := s\<rparr>) = active c st"
  "active c (st\<lparr>deviceOrientation := s\<rparr>) = active c st" "active c (st\<lparr>performanceMode := i\<rparr>) = active c st"
  "active c (st\<lparr>sp_tasks := ts\<rparr>) = active c st" "active c (st\<lparr>wakeUpTimeOutTask := w\<rparr>) = active c st"
  "active c (st\<lparr>sp_handles := n\<rparr>) = active c st"
  by (simp_all add: active_def)

lemma pair_exclusive [intro]:
  "exclusive st \<Longrightarrow> exclusive (screen_on_boost st)"
  "exclusive st \<Longrightarrow> exclusive (screen_off_boost st)"
  "exclusive st \<Longrightarrow> exclusive (perf_mode_on st)"
  "exclusive st \<Longrightarrow> exclusive (perf_mode_off st)"
  "exclusive st \<Longrightarrow> exclusive (display_landscape st)"
  "exclusive st \<Longrightarrow> exclusive (display_portrait st)"
  "exclusive st \<Longrightarrow> exclusive (display_off st)"
  by (simp_all add: exclusive_def screen_on_boost_def screen_off_boost_def perf_mode_on_def
      perf_mode_off_def display_landscape_def display_portrait_def display_off_def sp_ids)

text \<open>A single command switched off, or one outside the pairs, is harmless.\<close>

lemma off_active: "active c (perf_ex d False st) \<Longrightarrow> active c st"
  by (simp split: if_splits)

lemma off_exclusive [simp]: "exclusive st \<Longrightarrow> exclusive (perf_ex d False st)"
  unfolding exclusive_def by (blast dest: off_active)

lemma other_exclusive [simp]: "d \<notin> set exclusive_cmds \<Longrightarrow> exclusive (perf_ex d b st) = exclusive st"
  by (rule exclusive_boosts) simp

lemma field_exclusive [simp]:
  "exclusive (sp_emit (RequestDeviceMode m on) st) = exclusive st"
  "exclusive (sp_emit (ReportInProcess ty v) st) = exclusive st"
  "exclusive (st\<lparr>screenStatus := i\<rparr>) = exclusive st" "exclusive (st\<lparr>deviceMode := s\<rparr>) = exclusive st"
  "exclusive (st\<lparr>deviceOrientation := s\<rparr>) = exclusive st" "exclusive (st\<lparr>performanceMode := i\<rparr>) = exclusive st"
  "exclusive (st\<lparr>sp_tasks := ts\<rparr>) = exclusive st" "exclusive (st\<lparr>wakeUpTimeOutTask := w\<rparr>) = exclusive st"
  "exclusive (st\<lparr>sp_handles := n\<rparr>) = exclusive st"
  by (simp_all add: exclusive_def)

lemma display_on_exclusive [intro]: "exclusive st \<Longrightarrow> exclusive (display_on st)"
  by (auto simp: display_on_def ex_ids)

lemma screen_on_exclusive [intro]: "exclusive st \<Longrightarrow> exclusive (HandleScreenOn st)"
  by (auto simp: HandleScreenOn_def Let_def)

lemma screen_off_exclusive [intro]: "exclusive st \<Longrightarrow> exclusive (HandleScreenOff st)"
  by (auto simp: HandleScreenOff_def Let_def)

lemma skip_exclusive [intro]: "exclusive st \<Longrightarrow> exclusive (skip_wakeup st)"
  by (auto simp: skip_wakeup_def split: option.split)

lemma portrait_step:
  "exclusive s \<Longrightarrow> exclusive (perf_ex 10203 True (perf_ex 10098 False s))"
  by (simp add: exclusive_def sp_ids)

lemma display_mode_exclusive [intro]: "exclusive st \<Longrightarrow> exclusive (display_mode_boost st)"
  by (auto simp: display_mode_boost_def Let_def ex_ids)

lemma screen_status_exclusive [intro]: "exclusive st \<Longrightarrow> exclusive (HandleScreenStatusAnalysis E rd st)"
  by (auto simp: HandleScreenStatusAnalysis_def Let_def)

lemma wake_up_exclusive [intro]: "exclusive st \<Longrightarrow> exclusive (HandleDisplayPowerWakeUp E rd st)"
  by (auto simp: HandleDisplayPowerWakeUp_def Let_def)

lemma task_exclusive [intro]: "exclusive st \<Longrightarrow> exclusive (run_sp_task on task st)"
  by (auto simp: run_sp_task_def Let_def split: sp_task.split)

lemma mode_boost_exclusive [intro]:
  "exclusive st \<Longrightarrow> exclusive (HandleSceenModeBoost m st)"
  by (auto simp: HandleSceenModeBoost_def Let_def ex_ids)

lemma orientation_boost_exclusive [intro]:
  "exclusive st \<Longrightarrow> exclusive (HandleSceenOrientationBoost m st)"
  by (auto simp: HandleSceenOrientationBoost_def ex_ids intro!: portrait_step)

lemma performance_exclusive [intro]: "exclusive st \<Longrightarrow> exclusive (HandlePerformanceModeChange rd st)"
  by (auto simp: HandlePerformanceModeChange_def Let_def)

lemma mode_handlers_exclusive [intro]:
  assumes "exclusive st"
  shows "exclusive (HandleDeviceModeStatusChange rd st)" "exclusive (HandleDeviceOrientationStatusChange rd st)"
  using assms
  by (auto simp: HandleDeviceModeStatusChange_def HandleDeviceOrientationStatusChange_def
      split: option.split json.split)

text \<open>They leave the battery part alone.\<close>

lemma screen_battery [simp]:
  "battery (display_landscape st) = battery st" "battery (display_portrait st) = battery st"
  "battery (perf_mode_on st) = battery st" "battery (perf_mode_off st) = battery st"
  "battery (screen_on_boost st) = battery st" "battery (screen_off_boost st) = battery st"
  "battery (display_off st) = battery st" "battery (display_on st) = battery st"
  "battery (skip_wakeup st) = battery st"
  by (simp_all add: display_landscape_def display_portrait_def perf_mode_on_def perf_mode_off_def
      screen_on_boost_def screen_off_boost_def display_off_def display_on_def skip_wakeup_def split: option.split)

lemma screen_switch_battery [simp]:
  "battery (HandleScreenOn st) = battery st" "battery (HandleScreenOff st) = battery st"
  "battery (display_mode_boost st) = battery st"
  by (simp_all add: HandleScreenOn_def HandleScreenOff_def display_mode_boost_def Let_def)

lemma screen_status_battery [simp]:
  "battery (HandleScreenStatusAnalysis E rd st) = battery st" "battery (HandleDisplayPowerWakeUp E rd st) = battery st"
  "battery (run_sp_task on task st) = battery st"
  by (simp_all add: HandleScreenStatusAnalysis_def HandleDisplayPowerWakeUp_def run_sp_task_def Let_def
      split: sp_task.split)

lemma display_battery [simp]:
  "battery (HandleSceenModeBoost m st) = battery st" "battery (HandleSceenOrientationBoost m st) = battery st"
  "battery (HandlePerformanceModeChange rd st) = battery st"
  by (simp_all add: HandleSceenModeBoost_def HandleSceenOrientationBoost_def HandlePerformanceModeChange_def Let_def)

lemma device_mode_battery [simp]:
  "battery (HandleDeviceModeStatusChange rd st) = battery st"
  "battery (HandleDeviceOrientationStatusChange rd st) = battery st"
  by (simp_all add: HandleDeviceModeStatusChange_def HandleDeviceOrientationStatusChange_def
      split: option.split json.split)

section \<open>The battery table\<close>

definition capacities :: "sp_state \<Rightarrow> i32 set" where
  "capacities st = fst ` set (socperfBatteryConfig st)"

definition battery_ok :: "sp_state \<Rightarrow> bool" where
  "battery_ok st \<longleftrightarrow>
     om_ok (socperfBatteryConfig st) \<and> (\<forall>k \<in> capacities st. k \<le> maxBatteryLimitCapacity st) \<and>
     (maxBatteryLimitCapacity st = - 1 \<or> maxBatteryLimitCapacity st \<in> capacities st) \<and>
     (lastBatteryLimitCap st = - 1 \<or> lastBatteryLimitCap st \<in> capacities st)"

lemma battery_same: "battery st' = battery st \<Longrightarrow> battery_ok st' = battery_ok st"
  by (simp add: battery_def battery_ok_def capacities_def)

definition ok_battery :: "(i32, frequencies) omap \<times> i32 \<times> i32 \<Rightarrow> bool" where
  "ok_battery = (\<lambda>(m, mx, l). om_ok m \<and> (\<forall>k \<in> fst ` set m. k \<le> mx) \<and>
     (mx = - 1 \<or> mx \<in> fst ` set m) \<and> (l = - 1 \<or> l \<in> fst ` set m))"

lemma battery_alt: "battery_ok st = ok_battery (battery st)"
  by (simp add: battery_ok_def ok_battery_def battery_def capacities_def)

lemma limit_fold:
  "(let r = fold (\<lambda>(k, f) t. if c \<le> k \<and> k \<le> t then k else t) m t0 in
    r \<le> (t0::int) \<and> (r = t0 \<or> r \<in> fst ` set m \<and> c \<le> r) \<and> (\<forall>k \<in> fst ` set m. c \<le> k \<longrightarrow> r \<le> k))"
proof (induction m arbitrary: t0)
  case (Cons e m)
  obtain k f where e: "e = (k, f)" by fastforce
  from Cons.IH[of k] Cons.IH[of t0] show ?case by (auto simp: e Let_def)
qed simp

lemma GetLimitCapacity_props:
  "GetLimitCapacity c st = maxBatteryLimitCapacity st \<or> GetLimitCapacity c st \<in> capacities st \<and> c \<le> GetLimitCapacity c st"
  "k \<in> capacities st \<Longrightarrow> c \<le> k \<Longrightarrow> GetLimitCapacity c st \<le> k"
  using limit_fold[of c "socperfBatteryConfig st" "maxBatteryLimitCapacity st"]
  unfolding GetLimitCapacity_def Let_def capacities_def by blast+

lemma GetLimitCapacity_cases:
  assumes "battery_ok st"
  shows "GetLimitCapacity c st = - 1 \<and> maxBatteryLimitCapacity st = - 1 \<or> GetLimitCapacity c st \<in> capacities st"
  using GetLimitCapacity_props(1)[of c st] assms by (auto simp: battery_ok_def)

lemma touch_battery_fields [simp]:
  "capacities (touch_battery k st) = insert k (capacities st)"
  "om_ok (socperfBatteryConfig st) \<Longrightarrow> om_ok (socperfBatteryConfig (touch_battery k st))"
  "maxBatteryLimitCapacity (touch_battery k st) = maxBatteryLimitCapacity st"
  "lastBatteryLimitCap (touch_battery k st) = lastBatteryLimitCap st"
  by (simp_all add: touch_battery_def capacities_def)

lemma emit_battery_fields [simp]:
  "capacities (sp_emit ev st) = capacities st"
  "socperfBatteryConfig (sp_emit ev st) = socperfBatteryConfig st"
  "maxBatteryLimitCapacity (sp_emit ev st) = maxBatteryLimitCapacity st"
  "lastBatteryLimitCap (sp_emit ev st) = lastBatteryLimitCap st"
  by (simp_all add: sp_emit_def capacities_def)

lemma last_cap_field [simp]: "capacities (st\<lparr>lastBatteryLimitCap := i\<rparr>) = capacities st"
  by (simp add: capacities_def)

lemma touch_present:
  assumes "om_ok (socperfBatteryConfig st)" "k \<in> capacities st"
  shows "touch_battery k st = st"
proof -
  from assms(2) obtain f where "map_of (socperfBatteryConfig st) k = Some f"
    unfolding capacities_def by (metis map_of_eq_None_iff not_None_eq)
  with assms(1) show ?thesis by (simp add: touch_battery_def battery_config_def om_put_same)
qed

lemma battery_handlers_ok [intro]:
  assumes "battery_ok st"
  shows "battery_ok (HandleRecoverBatteryLimit st)" "battery_ok (HandleBatteryLimit c st)"
proof -
  show "battery_ok (HandleRecoverBatteryLimit st)"
    using assms by (auto simp: HandleRecoverBatteryLimit_def Let_def battery_ok_def)
  show "battery_ok (HandleBatteryLimit c st)"
    using assms GetLimitCapacity_cases[OF assms, of c]
    by (auto simp: HandleBatteryLimit_def Let_def battery_ok_def)
qed

lemma battery_status_ok [intro]: "battery_ok st \<Longrightarrow> battery_ok (HandleBatteryStatusChange rd st)"
  by (auto simp: HandleBatteryStatusChange_def HandleFreqLimit_def split: option.split)

lemma battery_boosts [simp]:
  "boosts (touch_battery k st) = boosts st" "boosts (HandleRecoverBatteryLimit st) = boosts st"
  "boosts (HandleBatteryLimit c st) = boosts st" "boosts (HandleBatteryStatusChange rd st) = boosts st"
proof -
  have cfg: "boosts (s\<lparr>socperfBatteryConfig := m\<rparr>) = boosts s"
    "boosts (s\<lparr>lastBatteryLimitCap := i\<rparr>) = boosts s" for s m i
    by (simp_all add: boosts_def active_def)
  show t: "boosts (touch_battery k st) = boosts st" for k st by (simp add: touch_battery_def cfg)
  show r: "boosts (HandleRecoverBatteryLimit st) = boosts st"
    by (simp add: HandleRecoverBatteryLimit_def Let_def cfg t)
  show l: "boosts (HandleBatteryLimit c st) = boosts st" for c
    by (simp add: HandleBatteryLimit_def Let_def cfg t)
  show "boosts (HandleBatteryStatusChange rd st) = boosts st"
    by (simp add: HandleBatteryStatusChange_def HandleFreqLimit_def r l split: option.split)
qed

section \<open>Starting up\<close>

lemma init_frame [simp]:
  "boosts (remove_config n st) = boosts st" "battery (remove_config n st) = battery st"
  "boosts (InitResTypes E st) = boosts st" "battery (InitResTypes E st) = battery st"
  "boosts (InitResTypeWithVal st) = boosts st" "battery (InitResTypeWithVal st) = battery st"
  "boosts (subscribe_all st) = boosts st" "battery (subscribe_all st) = battery st"
  "boosts (InitFunctionMap cfg st) = boosts st" "battery (InitFunctionMap cfg st) = battery st"
  "boosts (InitPerfCrucialFunc E a b st) = boosts st" "battery (InitPerfCrucialFunc E a b st) = battery st"
  by (simp_all add: remove_config_def InitResTypes_def InitOtherResTypes_def InitResTypeWithVal_def
      subscribe_all_def InitFunctionMap_def InitFeatureSwitch_def InitPerfCrucialFunc_def Let_def)

lemma init_config_frame [simp]:
  "boosts (InitSpecialExtension cfg st) = boosts st" "battery (InitSpecialExtension cfg st) = battery st"
  "boosts (InitWeakInterAction E cfg st) = boosts st" "battery (InitWeakInterAction E cfg st) = battery st"
  "boosts (InitBundleNameBoostList cfg st) = boosts st" "battery (InitBundleNameBoostList cfg st) = battery st"
  "boosts (InitPolicyMode cfg st) = boosts st" "battery (InitPolicyMode cfg st) = battery st"
  by (simp_all add: InitSpecialExtension_def InitWeakInterAction_def InitBundleNameBoostList_def
      InitPolicyMode_def Let_def split: prod.split)

lemma init_ids_frame [simp]: "boosts (InitEventId cfg st) = boosts st" "battery (InitEventId cfg st) = battery st"
  using fold_frame[of "\<lambda>sub s. if sub_name sub = SOCPERF_TYPE_ID then s\<lparr>RES_TYPE_SCENE_BOARD_ID := atoi (sub_value sub)\<rparr>
          else if sub_name sub = SOCPERF_TYPE_RGM then s\<lparr>RES_TYPE_RGM_BOOTING_STATUS := atoi (sub_value sub)\<rparr>
          else s" "all_subs (cfg CONFIG_NAME_SOCPERF_EVENT_ID)" st]
  by (simp_all add: InitEventId_def)

lemma init_crucial_frame [simp]:
  "boosts (InitPerfCrucialSo E cfg st) = boosts st" "battery (InitPerfCrucialSo E cfg st) = battery st"
  using fold_frame[of "\<lambda>sub s.
            (let s1 = (if sub_name sub = SUB_ITEM_KEY_NAME_SOCPERF_RERQ_APPTYPE_PATH
                       then s\<lparr>perfReqAppTypeSoPath := sub_value sub\<rparr> else s)
             in if sub_name sub = SUB_ITEM_KEY_NAME_SOCPERF_RERQ_APPTYPE_FUNC
                then s1\<lparr>perfReqAppTypeSoFunc := sub_value sub\<rparr> else s1)"
      "all_subs (cfg CNOFIG_NAME_SOCPERF_CRUCIAL_FUNC)" st]
  by (simp_all add: InitPerfCrucialSo_def Let_def)

lemma battery_sub_ok: "battery_ok st \<Longrightarrow> battery_ok (HandleBatterySubValue c t v st)"
  by (auto simp: HandleBatterySubValue_def Let_def battery_ok_def capacities_def max_def)

lemma battery_sub_boosts [simp]: "boosts (HandleBatterySubValue c t v st) = boosts st"
  by (simp add: HandleBatterySubValue_def Let_def boosts_def active_def)

lemma fold_keeps: "(\<And>x s. P s \<Longrightarrow> P (f x s)) \<Longrightarrow> P st \<Longrightarrow> P (fold f xs st)"
  by (induction xs arbitrary: st) simp_all

lemma init_battery:
  assumes "battery_ok st"
  shows "battery_ok (InitBatteryCapacityLimitFreq cfg st)"
    and "boosts (InitBatteryCapacityLimitFreq cfg st) = boosts st"
proof -
  let ?inner = "\<lambda>it s. fold (\<lambda>sub. HandleBatterySubValue (atoi (prop_text_or_empty ITEM_KEY_CAPACITY (itemProperties it)))
      (atoi (prop_text_or_empty RES_ID (sub_properties sub))) (atoi (sub_value sub))) (subItemList it) s"
  have "battery_ok s \<Longrightarrow> battery_ok (?inner it s)" for it s
    by (rule fold_keeps[where P = battery_ok]) (auto intro: battery_sub_ok)
  then have "battery_ok (fold ?inner (cfg CONFIG_NAME_SOCPERF_BATTERY_CAPACITY_LIMIT_FREQ) st)"
    using assms by (rule fold_keeps[where P = battery_ok])
  then show "battery_ok (InitBatteryCapacityLimitFreq cfg st)"
    by (simp add: InitBatteryCapacityLimitFreq_def battery_alt)
  have "boosts s = b \<Longrightarrow> boosts (?inner it s) = b" for it s b
    by (rule fold_keeps[where P = "\<lambda>s. boosts s = b"]) auto
  then have "boosts (fold ?inner (cfg CONFIG_NAME_SOCPERF_BATTERY_CAPACITY_LIMIT_FREQ) st) = boosts st"
    by (rule fold_keeps[where P = "\<lambda>s. boosts s = boosts st"]) auto
  then show "boosts (InitBatteryCapacityLimitFreq cfg st) = boosts st"
    by (simp add: InitBatteryCapacityLimitFreq_def)
qed

lemma sp_Init_keeps:
  "battery_ok st \<Longrightarrow> battery_ok (sp_Init E cfg st)"
  "battery_ok st \<Longrightarrow> boosts (sp_Init E cfg st) = boosts st"
proof -
  let ?st = "InitWeakInterAction E cfg (InitBundleNameBoostList cfg (InitPerfCrucialSo E cfg (subscribe_all
         (InitSpecialExtension cfg (InitFunctionMap cfg (InitResTypeWithVal (InitResTypes E
           (InitEventId cfg st))))))))"
  assume "battery_ok st"
  then have ok: "battery_ok ?st" by (simp add: battery_alt)
  from init_battery(1)[OF ok, of cfg] show "battery_ok (sp_Init E cfg st)"
    by (simp add: sp_Init_def battery_alt)
  from init_battery(2)[OF ok, of cfg] show "boosts (sp_Init E cfg st) = boosts st"
    by (simp add: sp_Init_def)
qed

section \<open>Events\<close>

definition keeps_handler :: "(sp_state \<Rightarrow> bool) \<Rightarrow> sp_handler \<Rightarrow> bool" where
  "keeps_handler P h \<longleftrightarrow> (\<forall>E now rd st st'. h E now rd st = Some st' \<longrightarrow> P st \<longrightarrow> P st')"

lemma keeps_plain: "(\<And>rd st. P st \<Longrightarrow> P (h rd st)) \<Longrightarrow> keeps_handler P (plain h)"
  by (simp add: keeps_handler_def plain_def)

lemma keeps_with_env: "(\<And>E rd st. P st \<Longrightarrow> P (h E rd st)) \<Longrightarrow> keeps_handler P (with_env h)"
  by (simp add: keeps_handler_def with_env_def)

lemma dispatch_keeps:
  assumes "list_all (\<lambda>e. keeps_handler P (snd e)) (sp_functionMap E st)"
    and "sp_DispatchResource E now rd st = Some st'" "P st"
  shows "P st'"
proof (cases "\<not> sp_functions st \<or> map_of (sp_functionMap E st) (rd_type rd) = None")
  case True
  with assms(2,3) show ?thesis by (auto simp: sp_DispatchResource_def split: if_splits)
next
  case False
  then obtain h where h: "map_of (sp_functionMap E st) (rd_type rd) = Some h" by auto
  with assms(1) have "keeps_handler P h" by (auto simp: list_all_iff dest!: map_of_SomeD)
  with False h assms(2,3) show ?thesis by (auto simp: sp_DispatchResource_def keeps_handler_def)
qed

text \<open>What a handler that touches neither group keeps: any predicate of the two groups.\<close>

lemma exclusive_plain: "(\<And>rd st. boosts (h rd st) = boosts st) \<Longrightarrow> keeps_handler exclusive (plain h)"
  by (rule keeps_plain) (simp add: exclusive_alt)

lemma exclusive_with_env: "(\<And>E rd st. boosts (h E rd st) = boosts st) \<Longrightarrow> keeps_handler exclusive (with_env h)"
  by (rule keeps_with_env) (simp add: exclusive_alt)

lemma battery_plain: "(\<And>rd st. battery (h rd st) = battery st) \<Longrightarrow> keeps_handler battery_ok (plain h)"
  by (rule keeps_plain) (simp add: battery_alt)

lemma battery_with_env: "(\<And>E rd st. battery (h E rd st) = battery st) \<Longrightarrow> keeps_handler battery_ok (with_env h)"
  by (rule keeps_with_env) (simp add: battery_alt)

lemma throwing_handlers:
  "keeps_handler exclusive (\<lambda>E now. HandleSchedModeChange)"
  "keeps_handler exclusive (\<lambda>E now. HandleAppAbilityStart)"
  "keeps_handler battery_ok (\<lambda>E now. HandleSchedModeChange)"
  "keeps_handler battery_ok (\<lambda>E now. HandleAppAbilityStart)"
  "keeps_handler exclusive (\<lambda>E now rd st. Some (HandleEventSlide E now rd st))"
  "keeps_handler battery_ok (\<lambda>E now rd st. Some (HandleEventSlide E now rd st))"
  by (auto simp: keeps_handler_def exclusive_alt battery_alt dest: ability_start_frame)

lemma screen_keepers:
  "keeps_handler exclusive (plain HandleDeviceOrientationStatusChange)"
  "keeps_handler exclusive (plain HandleDeviceModeStatusChange)"
  "keeps_handler exclusive (plain HandlePerformanceModeChange)"
  "keeps_handler exclusive (with_env HandleDisplayPowerWakeUp)"
  "keeps_handler exclusive (with_env HandleScreenStatusAnalysis)"
  by (auto intro: keeps_plain keeps_with_env)

lemma functions_keep_exclusive:
  "\<not> se_cust E \<Longrightarrow> list_all (\<lambda>e. keeps_handler exclusive (snd e)) (sp_functionMap E st)"
  by (simp add: sp_functionMap_def AddEventToFunctionMap_def AddOtherEventToFunctionMap_def
      throwing_handlers screen_keepers exclusive_plain exclusive_with_env)

lemma cust_battery [simp]:
  "battery (HandleCustEvent rd st) = battery st" "battery (HandleCustEventBegin rd st) = battery st"
  "battery (HandleCustEventEnd rd st) = battery st" "battery (HandleCustAction rd st) = battery st"
  by (simp_all add: HandleCustEvent_def HandleCustEventBegin_def HandleCustEventEnd_def HandleCustAction_def)

lemma battery_keeper: "keeps_handler battery_ok (plain HandleBatteryStatusChange)"
  by (rule keeps_plain) (rule battery_status_ok)

lemma functions_keep_battery: "list_all (\<lambda>e. keeps_handler battery_ok (snd e)) (sp_functionMap E st)"
  by (simp add: sp_functionMap_def AddEventToFunctionMap_def AddOtherEventToFunctionMap_def
      throwing_handlers battery_keeper battery_plain battery_with_env)

lemma sp_step_ok:
  assumes "sp_step E st st'" "battery_ok st"
  shows "battery_ok st'" and "\<not> se_cust E \<Longrightarrow> exclusive st \<Longrightarrow> exclusive st'"
proof -
  have "battery_ok st' \<and> (\<not> se_cust E \<longrightarrow> exclusive st \<longrightarrow> exclusive st')"
    using assms
  proof (cases rule: sp_step.cases)
    case (init cfg libName)
    with assms(2) show ?thesis
      by (auto simp: sp_OnPluginInit_def sp_Init_keeps exclusive_alt)
  next
    case disable
    then have "boosts st' = boosts st" "battery st' = battery st" by (simp_all add: sp_Disable_def)
    with assms(2) show ?thesis by (simp add: exclusive_alt battery_alt)
  next
    case (event now rd)
    with assms(2) show ?thesis
      using dispatch_keeps[OF functions_keep_battery] dispatch_keeps[OF functions_keep_exclusive] by blast
  next
    case (task tk on)
    with assms(2) show ?thesis by (auto simp: battery_alt)
  qed
  then show "battery_ok st'" "\<not> se_cust E \<Longrightarrow> exclusive st \<Longrightarrow> exclusive st'" by blast+
qed

lemma sp_new_ok: "battery_ok sp_new" "exclusive sp_new"
  by (simp_all add: battery_ok_def exclusive_def active_def sp_new_def capacities_def om_ok_def)

lemma sp_reachable_battery: "sp_reachable E st \<Longrightarrow> battery_ok st"
  by (induction rule: sp_reachable.induct) (auto intro: sp_new_ok sp_step_ok(1))

lemma sp_reachable_exclusive: "sp_reachable E st \<Longrightarrow> \<not> se_cust E \<Longrightarrow> exclusive st"
  by (induction rule: sp_reachable.induct) (auto intro: sp_new_ok sp_step_ok(2) sp_reachable_battery)

end
