(* ===== verification/Socperf_Props.thy ===== *)
theory Socperf_Props
  imports Socperf_Facts
begin

text \<open>
  The properties of the frequency plugin: boosts that exclude each other, the limit that follows
  the battery level, and the key application whose first focus is missed.
\<close>

section \<open>Exclusive boosts\<close>

text \<open>
  C17. Without customer events, in every state reachable by events, delayed tasks, starting and
  stopping, the plugin never has requested both of: the screen-on and the screen-off boost, the
  boosts of landscape and portrait on a globally unfolded display, the performance boosts of
  screen on and screen off.
\<close>

theorem boosts_exclusive:
  assumes "sp_reachable E st" "\<not> se_cust E"
  shows "\<not> (active PERF_REQUEST_CMD_ID_SCREEN_ON st \<and> active PERF_REQUEST_CMD_ID_SCREEN_OFF st) \<and>
    \<not> (active PERF_REQUEST_CMD_ID_DISPLAY_GLOBAL_L st \<and> active PERF_REQUEST_CMD_ID_DISPLAY_GLOBAL_P st) \<and>
    \<not> (active PERF_REQUEST_CMD_ID_SCREEN_ON_PERFORMANCE_MODE st \<and>
       active PERF_REQUEST_CMD_ID_SCREEN_OFF_PERFORMANCE_MODE st)"
  using sp_reachable_exclusive[OF assms] unfolding exclusive_def .

text \<open>A device in performance mode whose screen is woken up.\<close>

definition demo_sp :: sp_env where
  "demo_sp =
     \<lparr>se_cust = False, se_crown = False, se_copy = False, se_ffrt = True, se_signature_ok = (\<lambda>b. True),
      se_bundle_of_uid = (\<lambda>u. ''app''), se_dlopen = (\<lambda>p. True),
      se_dlsym = (\<lambda>p f. Some (\<lambda>b. 2)), se_config_of_json = (\<lambda>j. None)\<rparr>"

definition demo_rd :: "u32 \<Rightarrow> i64 \<Rightarrow> res_data" where
  "demo_rd t v = \<lparr>rd_type = t, rd_value = v, rd_payload = JNull\<rparr>"

definition demo_performance :: "sp_state option" where
  "demo_performance =
     sp_DispatchResource demo_sp 0 (demo_rd RES_TYPE_SOCPERF_PERFORMANCE_MODE_CHANGED PERFORMANCE_MODE)
       (snd (sp_OnPluginInit demo_sp (\<lambda>n. []) LIB_NAME_sp sp_new))"

definition demo_woken :: "sp_state option" where
  "demo_woken = Option.bind demo_performance
     (sp_DispatchResource demo_sp 0 (demo_rd RES_TYPE_DISPLAY_POWER_WAKE_UP WAKE_UP_START))"

lemma demo_woken_facts:
  "\<not> Option.is_none demo_woken \<and>
   map_option (active PERF_REQUEST_CMD_ID_SCREEN_ON) demo_woken = Some True \<and>
   map_option (active PERF_REQUEST_CMD_ID_SCREEN_ON_PERFORMANCE_MODE) demo_woken = Some True"
  by code_simp

lemma demo_woken_reachable: "demo_woken = Some st \<Longrightarrow> sp_reachable demo_sp st"
proof -
  assume woken: "demo_woken = Some st"
  obtain s where s: "demo_performance = Some s"
    "sp_DispatchResource demo_sp 0 (demo_rd RES_TYPE_DISPLAY_POWER_WAKE_UP WAKE_UP_START) s = Some st"
    using woken unfolding demo_woken_def Option.bind_eq_Some_conv by blast
  have "sp_reachable demo_sp (snd (sp_OnPluginInit demo_sp (\<lambda>n. []) LIB_NAME_sp sp_new))"
    by (rule sp_reachable.step[OF sp_reachable.start sp_step.init])
  then have "sp_reachable demo_sp s"
    using s(1) unfolding demo_performance_def by (rule sp_reachable.step[OF _ sp_step.event])
  then show ?thesis using s(2) by (rule sp_reachable.step[OF _ sp_step.event])
qed

theorem boosts_exclusive_witness:
  "\<exists>st. demo_woken = Some st \<and> active PERF_REQUEST_CMD_ID_SCREEN_ON st \<and>
     active PERF_REQUEST_CMD_ID_SCREEN_ON_PERFORMANCE_MODE st \<and>
     \<not> active PERF_REQUEST_CMD_ID_SCREEN_OFF st \<and> \<not> active PERF_REQUEST_CMD_ID_SCREEN_OFF_PERFORMANCE_MODE st"
proof -
  obtain st where st: "demo_woken = Some st" using demo_woken_facts by (cases demo_woken) simp_all
  have on: "active PERF_REQUEST_CMD_ID_SCREEN_ON st"
    "active PERF_REQUEST_CMD_ID_SCREEN_ON_PERFORMANCE_MODE st"
    using demo_woken_facts[unfolded st] by simp_all
  have "\<not> se_cust demo_sp" by (simp add: demo_sp_def)
  with boosts_exclusive[OF demo_woken_reachable[OF st]] st on show ?thesis by blast
qed

section \<open>The battery level\<close>

text \<open>
  When a device that is not charging reports a battery level, the limit in force is that of
  the least configured capacity at or above the level, and none above the greatest one; the
  service is asked exactly when the limit changes: to apply the values of the new one, or to
  lift those of the old one.
\<close>

theorem battery_level_sets_limit:
  assumes "sp_reachable E st" "socperfBatteryConfig st \<noteq> []" "0 \<le> rd_value rd" "rd_value rd < 2147483648"
    and "member COMMON_EVENT_CHARGE_STATE (rd_payload rd) = Some (JInt cs)" "cs = 0 \<or> cs = 2"
  shows "let st' = HandleBatteryStatusChange rd st; cap = lastBatteryLimitCap st' in
    (if maxBatteryLimitCapacity st < rd_value rd then cap = - 1
     else cap = Min {k \<in> capacities st. rd_value rd \<le> k}) \<and>
    sp_outs st' = sp_outs st @
      (if cap = lastBatteryLimitCap st then []
       else if cap = - 1 then
         [PowerLimitBoost False LOW_BATTERY,
          LimitRequest (fq_tags (battery_config (lastBatteryLimitCap st) st))
            (GetConfigs (length (fq_configs (battery_config (lastBatteryLimitCap st) st)))) LOW_BATTERY]
       else
         [PowerLimitBoost True LOW_BATTERY,
          LimitRequest (fq_tags (battery_config cap st)) (fq_configs (battery_config cap st)) LOW_BATTERY])"
proof -
  let ?v = "rd_value rd"
  from sp_reachable_battery[OF assms(1)] have ok: "battery_ok st" .
  have om: "om_ok (socperfBatteryConfig st)" using ok by (simp add: battery_ok_def)
  have cs: "wrap_s32 cs = cs" using assms(6) by (auto simp: wrap_s32_def)
  have run: "HandleBatteryStatusChange rd st =
      (if maxBatteryLimitCapacity st < ?v then HandleRecoverBatteryLimit st else HandleBatteryLimit ?v st)"
    using assms cs by (auto simp: HandleBatteryStatusChange_def HandleFreqLimit_def json_int32_def
        CHARGE_STATE_ENABLE_def CHARGE_STATE_FULL_def wrap_s32_id)
  have cfg: "battery_config k (sp_emit ev s) = battery_config k s" for k ev s
    by (simp add: battery_config_def sp_emit_def)
  have touch: "touch_battery k (sp_emit ev st) = sp_emit ev st" if "k \<in> capacities st" for k ev
    by (rule touch_present) (use om that in simp_all)
  show ?thesis
  proof (cases "maxBatteryLimitCapacity st < ?v")
    case True
    have "lastBatteryLimitCap st = - 1 \<or> lastBatteryLimitCap st \<in> capacities st"
      using ok by (simp add: battery_ok_def)
    with True run show ?thesis
      by (auto simp: HandleRecoverBatteryLimit_def Let_def touch cfg) (simp_all add: sp_emit_def)
  next
    case False
    then have mx: "maxBatteryLimitCapacity st \<in> capacities st"
      using ok assms(3) by (auto simp: battery_ok_def)
    let ?c = "GetLimitCapacity ?v st"
    have fin: "finite (capacities st)" by (simp add: capacities_def)
    have c: "?c \<in> capacities st" "?v \<le> ?c"
      using GetLimitCapacity_props(1)[of ?v st] mx False by auto
    then have least: "?c = Min {k \<in> capacities st. ?v \<le> k}"
      using GetLimitCapacity_props(2)[of _ st ?v] fin by (intro Min_eqI [symmetric]) auto
    have "?c \<noteq> - 1" using c(2) assms(3) by linarith
    with False run least touch[OF c(1)] show ?thesis
      by (auto simp: HandleBatteryLimit_def Let_def cfg) (simp_all add: sp_emit_def)
  qed
qed

text \<open>Two limits, below 10 and below 20 percent, and a level of 15.\<close>

definition demo_limits :: "string \<Rightarrow> plugin_config" where
  "demo_limits name =
     (if name = CONFIG_NAME_SOCPERF_BATTERY_CAPACITY_LIMIT_FREQ then
        map (\<lambda>(c, v). \<lparr>itemProperties = [(ITEM_KEY_CAPACITY, c)],
               subItemList = [\<lparr>sub_name = ''freq'', sub_value = v, sub_properties = [(RES_ID, ''7'')]\<rparr>]\<rparr>)
          [(''20'', ''900''), (''10'', ''500'')]
      else [])"

definition demo_battery :: sp_state where
  "demo_battery = snd (sp_OnPluginInit demo_sp demo_limits LIB_NAME_sp sp_new)"

definition demo_level :: res_data where
  "demo_level = \<lparr>rd_type = RES_TYPE_REPORT_BATTERY_STATUS_CHANGE, rd_value = 15,
     rd_payload = JObj [(COMMON_EVENT_CHARGE_STATE, JInt 0)]\<rparr>"

lemma demo_battery_facts:
  "socperfBatteryConfig demo_battery =
     [(10, \<lparr>fq_tags = [7], fq_configs = [500]\<rparr>), (20, \<lparr>fq_tags = [7], fq_configs = [900]\<rparr>)] \<and>
   maxBatteryLimitCapacity demo_battery = 20 \<and> lastBatteryLimitCap demo_battery = - 1"
  by code_simp

theorem battery_level_sets_limit_witness:
  "lastBatteryLimitCap (HandleBatteryStatusChange demo_level demo_battery) = 20 \<and>
   sp_outs (HandleBatteryStatusChange demo_level demo_battery) =
     sp_outs demo_battery @ [PowerLimitBoost True LOW_BATTERY, LimitRequest [7] [900] LOW_BATTERY]"
proof -
  have reach: "sp_reachable demo_sp demo_battery"
    unfolding demo_battery_def by (rule sp_reachable.step[OF sp_reachable.start sp_step.init])
  have "capacities demo_battery = {10, 20}" using demo_battery_facts by (simp add: capacities_def)
  then have "{k \<in> capacities demo_battery. 15 \<le> k} = {20}" by auto
  then show ?thesis
    using battery_level_sets_limit[OF reach, of demo_level 0] demo_battery_facts
    by (simp add: demo_level_def member_def Let_def battery_config_def)
qed

section \<open>Key applications\<close>

text \<open>
  A key application the plugin has not seen yet is missed at its first focus: the weak
  interaction mode is decided before the application is looked up, so it stays on although a key
  application has the focus; only the next focus event switches it off.
\<close>

theorem first_focus_missed:
  assumes "map_of (uidToAppMsgMap st) uid = None" "GetUidByData p = uid" "uid \<noteq> INVALID_VALUE"
    and "reqAppTypeFunc st = Some f" "known_type (f (se_bundle_of_uid E uid))"
    and "se_bundle_of_uid E uid \<in> set (keyAppName st)" "se_signature_ok E (se_bundle_of_uid E uid)"
    and "weakActionEnable st" "weakActionStatus st" "\<not> custGameState st"
    and "\<not> list_ex (is_key_app E st) (focusAppUids st)"
    and "rd_value rd = WINDOW_FOCUS" "rd_payload rd = p"
  shows "uid \<in> set (focusAppUids (HandleWindowFocus E rd st)) \<and>
    is_key_app E (HandleWindowFocus E rd st) uid \<and> weakActionStatus (HandleWindowFocus E rd st) \<and>
    \<not> weakActionStatus (HandleWindowFocus E rd (HandleWindowFocus E rd st))"
proof -
  define st0 where "st0 = (let s = perf PERF_REQUEST_CMD_ID_WINDOW_SWITCH st in s\<lparr>focusAppUids := List.insert uid (focusAppUids s)\<rparr>)"
  define b where "b = se_bundle_of_uid E uid"
  define msg where "msg = \<lparr>am_appType = f b, am_bundleName = b\<rparr>"
  have same: "is_key_app E s u = is_key_app E st u"
    if "uidToAppMsgMap s = uidToAppMsgMap st" "keyAppName s = keyAppName st" "keyAppType s = keyAppType st" for s u
    using that by (simp add: is_key_app_def split: option.split)
  have st0: "uidToAppMsgMap st0 = uidToAppMsgMap st" "keyAppName st0 = keyAppName st"
    "keyAppType st0 = keyAppType st" "weakActionEnable st0" "weakActionStatus st0" "\<not> custGameState st0"
    "focusAppUids st0 = List.insert uid (focusAppUids st)" "reqAppTypeFunc st0 = Some f"
    using assms by (simp_all add: st0_def perf_def sp_emit_def Let_def)
  have "\<not> is_key_app E st uid" using assms(1) by (simp add: is_key_app_def)
  then have "\<not> list_ex (is_key_app E st0) (focusAppUids st0)"
    using assms(11) same[OF st0(1-3)] st0(7) by (simp add: list_ex_iff)
  then have quiet: "UpdateWeakActionStatus E st0 = st0"
    using st0 by (simp add: UpdateWeakActionStatus_def Let_def)
  define st1 where "st1 = HandleWindowFocus E rd st"
  have st1: "uidToAppMsgMap st1 = om_put uid msg (uidToAppMsgMap st)" "keyAppName st1 = keyAppName st"
    "weakActionEnable st1" "weakActionStatus st1" "\<not> custGameState st1"
    "focusAppUids st1 = List.insert uid (focusAppUids st)"
    using assms st0 quiet
    by (simp_all add: st1_def HandleWindowFocus_def UpdateFocusAppType_def Let_def
        st0_def[unfolded Let_def, symmetric] b_def[symmetric] msg_def)
  have key: "is_key_app E s uid"
    if "uidToAppMsgMap s = uidToAppMsgMap st1" "keyAppName s = keyAppName st1" for s
    using that st1 assms(6,7) by (simp add: is_key_app_def msg_def b_def)
  define st2 where "st2 = (let s = perf PERF_REQUEST_CMD_ID_WINDOW_SWITCH st1 in s\<lparr>focusAppUids := List.insert uid (focusAppUids s)\<rparr>)"
  have st2: "uidToAppMsgMap st2 = uidToAppMsgMap st1" "keyAppName st2 = keyAppName st1"
    "uid \<in> set (focusAppUids st2)" by (simp_all add: st2_def perf_def sp_emit_def Let_def)
  then have "list_ex (is_key_app E st2) (focusAppUids st2)" using key by (auto simp: list_ex_iff)
  then have off: "\<not> weakActionStatus (UpdateWeakActionStatus E st2)"
    by (auto simp: UpdateWeakActionStatus_def Let_def sp_emit_def)
  have keep: "uidToAppMsgMap (UpdateWeakActionStatus E s) = uidToAppMsgMap s" for s
    by (simp add: UpdateWeakActionStatus_def Let_def sp_emit_def)
  have "\<not> weakActionStatus (HandleWindowFocus E rd st1)"
    using assms off st2(1) st1(1) keep[of st2]
    by (simp add: HandleWindowFocus_def UpdateFocusAppType_def Let_def
        st2_def[unfolded Let_def, symmetric])
  with key[of st1] st1 show ?thesis by (simp add: st1_def[symmetric])
qed

definition demo_key :: sp_state where
  "demo_key = sp_new\<lparr>keyAppName := [''app''], reqAppTypeFunc := Some (\<lambda>b. 5)\<rparr>"

definition demo_focus :: res_data where
  "demo_focus = \<lparr>rd_type = RES_TYPE_WINDOW_FOCUS, rd_value = WINDOW_FOCUS,
     rd_payload = JObj [(UID_NAME, JStr ''9'')]\<rparr>"

theorem first_focus_missed_witness:
  "weakActionStatus (HandleWindowFocus demo_sp demo_focus demo_key) \<and>
   is_key_app demo_sp (HandleWindowFocus demo_sp demo_focus demo_key) 9"
proof -
  have uid: "GetUidByData (rd_payload demo_focus) = 9" by code_simp
  show ?thesis
    using first_focus_missed[of demo_key 9 "rd_payload demo_focus" "\<lambda>b. 5" demo_sp demo_focus] uid
    by (simp add: demo_key_def sp_new_def demo_sp_def demo_focus_def known_type_def sp_ids)
qed

end
