(* ===== verification/Process_Group.thy ===== *)
theory Process_Group
  imports Json_Payload Supervisor_Model "HOL-Library.List_Lexorder" "HOL-Library.Char_ord"
begin

text \<open>
  The library that puts threads and processes into kernel groups (cgroup_sched_plugin/framework/%
  process_group: cgroup\_action.cpp, cgroup\_map.cpp, cgroup\_controller.cpp, sched\_policy.cpp,
  process\_group\_util.cpp).  A descriptor of an opened group file is 3 plus the number of files
  opened before it.  Parameters (\<open>pg_env\<close>): the configuration files and the JSON parser, the
  file system, the result of a write, \<open>vsnprintf_s\<close> of the bounds-checking library, and the
  executor client.  \<open>TEMP_FAILURE_RETRY\<close> is the call without its interruptions.
\<close>

section \<open>Data\<close>

datatype write_result = Written nat | WriteFailed int

definition ESRCH :: int where "ESRCH = 3"

record pg_env =
  pg_cfg_files :: "string option list option"
  pg_cfg_real :: "string \<Rightarrow> string option"
  pg_load_json :: "string \<Rightarrow> json option"
  pg_path_real :: "string \<Rightarrow> string option"
  pg_access :: "string \<Rightarrow> bool"
  pg_open :: "string \<Rightarrow> bool"
  pg_write :: "int \<Rightarrow> string \<Rightarrow> write_result"
  pg_vsnprintf :: "nat \<Rightarrow> nat \<Rightarrow> string \<Rightarrow> int \<times> string"
  pg_exe :: "u32 \<Rightarrow> json \<Rightarrow> int \<times> json"
  pg_by_executor :: bool

record ctl =
  ct_name :: string
  ct_path :: string
  ct_task :: "(sched_policy, int) omap"
  ct_proc :: "(sched_policy, int) omap"

text \<open>
  The members of the two singletons, the function-local statics of the two \<open>IsEnabled\<close>, the
  files opened so far, and the writes to descriptors.
\<close>

record pg_state =
  allowToAdd :: bool
  fullNames :: "(sched_policy, string) omap"
  abbrNames :: "(sched_policy, string) omap"
  action_enable :: "bool option"
  controllers :: "(string, ctl) omap"
  controller_enabled :: "bool option"
  pg_opened :: "string list"
  pg_writes :: "(int \<times> string) list"

definition FMT_STR_BUFF_LEN :: nat where "FMT_STR_BUFF_LEN = 256"
definition PG_PATH_MAX :: nat where "PG_PATH_MAX = 4096"
definition JSON_KEY_CGROUPS :: string where "JSON_KEY_CGROUPS = ''Cgroups''"
definition JSON_KEY_CONTROLLER :: string where "JSON_KEY_CONTROLLER = ''controller''"
definition JSON_KEY_PATH :: string where "JSON_KEY_PATH = ''path''"
definition JSON_KEY_SCHED_POLICY :: string where "JSON_KEY_SCHED_POLICY = ''sched_policy''"

section \<open>process\_group\_util.cpp\<close>

text \<open>A format with string arguments, given by the text it stands for.\<close>

definition FormatString :: "pg_env \<Rightarrow> string \<Rightarrow> string" where
  "FormatString E text =
     (case pg_vsnprintf E FMT_STR_BUFF_LEN (FMT_STR_BUFF_LEN - 1) text of
        (nWritten, buffer) \<Rightarrow> if 0 < nWritten then take (nat nWritten) buffer else [])"

definition StringPrintf :: "pg_env \<Rightarrow> string \<Rightarrow> string" where
  "StringPrintf E text = FormatString E text"

definition RES_TYPE_CGROUP_SYNC_EVENT :: u32 where "RES_TYPE_CGROUP_SYNC_EVENT = 3"
definition RES_TYPE_SET_THREAD_SCHED_POLICY_SYNC_EVENT :: u32 where
  "RES_TYPE_SET_THREAD_SCHED_POLICY_SYNC_EVENT = 5"
definition RES_TYPE_SET_THREAD_GROUP_SCHED_POLICY_SYNC_EVENT :: u32 where
  "RES_TYPE_SET_THREAD_GROUP_SCHED_POLICY_SYNC_EVENT = 6"

definition ReadFileToStringForVFSFromExecutor :: "pg_env \<Rightarrow> i32 \<Rightarrow> string option" where
  "ReadFileToStringForVFSFromExecutor E tid =
     (case member ''res'' (snd (pg_exe E RES_TYPE_CGROUP_SYNC_EVENT (JObj [(''pid'', JInt tid)]))) of
        Some (JStr s) \<Rightarrow> Some s | _ \<Rightarrow> None)"

section \<open>The declarations of cgroup\_action.cpp\<close>

definition AddSchedPolicyDeclaration :: "sched_policy \<Rightarrow> string \<Rightarrow> string \<Rightarrow> pg_state \<Rightarrow> pg_state" where
  "AddSchedPolicyDeclaration policy fullName abbrName st =
     (if \<not> allowToAdd st then st
      else if SP_UPPER_LIMIT \<le> policy then st
      else if fullName = [] \<or> abbrName = [] then st
      else if map_of (fullNames st) policy \<noteq> None then st
      else if list_ex (\<lambda>kv. snd kv = fullName) (fullNames st) then st
      else st\<lparr>fullNames := om_put policy fullName (fullNames st),
              abbrNames := om_put policy abbrName (abbrNames st)\<rparr>)"

definition pg_new :: pg_state where
  "pg_new =
     AddSchedPolicyDeclaration SP_TOP_APP ''sp_top_app'' ''ta''
       (AddSchedPolicyDeclaration SP_SYSTEM_BACKGROUND ''sp_system_background'' ''sy''
         (AddSchedPolicyDeclaration SP_FOREGROUND ''sp_foreground'' ''fg''
           (AddSchedPolicyDeclaration SP_BACKGROUND ''sp_background'' ''bg''
             (AddSchedPolicyDeclaration SP_DEFAULT ''sp_default'' ''df''
               \<lparr>allowToAdd = True, fullNames = [], abbrNames = [], action_enable = None, controllers = [],
                controller_enabled = None, pg_opened = [], pg_writes = []\<rparr>))))"

definition GetSchedPolicyList :: "pg_state \<Rightarrow> sched_policy list" where
  "GetSchedPolicyList st = map fst (fullNames st)"

definition IsSchedPolicyValid :: "sched_policy \<Rightarrow> pg_state \<Rightarrow> bool" where
  "IsSchedPolicyValid policy st = (map_of (fullNames st) policy \<noteq> None)"

text \<open>The text up to the first NUL, since \<open>c_str()\<close> is returned.\<close>

definition GetSchedPolicyFullName :: "sched_policy \<Rightarrow> pg_state \<Rightarrow> string" where
  "GetSchedPolicyFullName policy st =
     (case map_of (fullNames st) policy of Some n \<Rightarrow> c_str n | None \<Rightarrow> ''error'')"

definition GetSchedPolicyAbbrName :: "sched_policy \<Rightarrow> pg_state \<Rightarrow> string" where
  "GetSchedPolicyAbbrName policy st =
     (case map_of (abbrNames st) policy of Some n \<Rightarrow> c_str n | None \<Rightarrow> ''error'')"

definition GetSchedPolicyByName :: "string \<Rightarrow> pg_state \<Rightarrow> i32 \<times> sched_policy" where
  "GetSchedPolicyByName name st =
     (case find (\<lambda>kv. snd kv = name) (fullNames st) of
        Some kv \<Rightarrow> (0, fst kv) | None \<Rightarrow> (- 1, SP_UPPER_LIMIT))"

section \<open>cgroup\_controller.cpp\<close>

definition CgroupController :: "string \<Rightarrow> string \<Rightarrow> pg_state \<Rightarrow> ctl" where
  "CgroupController name path st =
     \<lparr>ct_name = name, ct_path = path, ct_task = fold (\<lambda>p. om_put p (- 1)) (GetSchedPolicyList st) [],
      ct_proc = fold (\<lambda>p. om_put p (- 1)) (GetSchedPolicyList st) []\<rparr>"

text \<open>The static is shared by all controllers: the first one that asks decides.\<close>

definition ctl_IsEnabled :: "pg_env \<Rightarrow> ctl \<Rightarrow> pg_state \<Rightarrow> bool \<times> pg_state" where
  "ctl_IsEnabled E c st =
     (case controller_enabled st of
        Some b \<Rightarrow> (b, st)
      | None \<Rightarrow> (let b = pg_access E (ct_path c @ ''/tasks'') in (b, st\<lparr>controller_enabled := Some b\<rparr>)))"

definition AddTidToCgroup :: "pg_env \<Rightarrow> i32 \<Rightarrow> int \<Rightarrow> pg_state \<Rightarrow> bool \<times> pg_state" where
  "AddTidToCgroup E tid fd st =
     (let text = to_string tid; st1 = st\<lparr>pg_writes := pg_writes st @ [(fd, text)]\<rparr>
      in case pg_write E fd text of
           Written n \<Rightarrow> (n = length text, st1)
         | WriteFailed errno \<Rightarrow> (errno = ESRCH, st1))"

text \<open>\<open>operator[]\<close> gives 0 for a policy without an entry, and creates one.\<close>

definition fd_at :: "sched_policy \<Rightarrow> (sched_policy, int) omap \<Rightarrow> int" where
  "fd_at policy m = (case map_of m policy of Some fd \<Rightarrow> fd | None \<Rightarrow> 0)"

definition touch_fd :: "bool \<Rightarrow> sched_policy \<Rightarrow> ctl \<Rightarrow> ctl" where
  "touch_fd grp policy c =
     (if grp then c\<lparr>ct_proc := om_put policy (fd_at policy (ct_proc c)) (ct_proc c)\<rparr>
      else c\<lparr>ct_task := om_put policy (fd_at policy (ct_task c)) (ct_task c)\<rparr>)"

definition ctl_SetThreadSchedPolicy ::
    "pg_env \<Rightarrow> i32 \<Rightarrow> sched_policy \<Rightarrow> bool \<Rightarrow> ctl \<Rightarrow> pg_state \<Rightarrow> bool \<times> ctl \<times> pg_state" where
  "ctl_SetThreadSchedPolicy E tid policy grp c st =
     (let fd = fd_at policy (if grp then ct_proc c else ct_task c); c1 = touch_fd grp policy c
      in if fd < 0 then (False, c1, st)
         else (case AddTidToCgroup E tid fd st of (b, st1) \<Rightarrow> (b, c1, st1)))"

definition group_file :: "pg_env \<Rightarrow> ctl \<Rightarrow> string \<Rightarrow> string \<Rightarrow> string" where
  "group_file E c subgroup leaf =
     StringPrintf E (c_str (ct_path c) @ (if subgroup = [] then [] else ''/'' @ c_str subgroup) @ leaf)"

definition open_group_file :: "pg_env \<Rightarrow> string \<Rightarrow> pg_state \<Rightarrow> (int \<times> pg_state) option" where
  "open_group_file E filePath st =
     (case pg_path_real E filePath of
        None \<Rightarrow> None
      | Some rp \<Rightarrow>
          if pg_open E rp then Some (3 + int (length (pg_opened st)), st\<lparr>pg_opened := pg_opened st @ [rp]\<rparr>)
          else None)"

definition AddThreadSchedPolicy ::
    "pg_env \<Rightarrow> sched_policy \<Rightarrow> string \<Rightarrow> ctl \<times> pg_state \<Rightarrow> bool \<times> ctl \<times> pg_state" where
  "AddThreadSchedPolicy E policy subgroup = (\<lambda>(c, st).
     (case open_group_file E (group_file E c subgroup ''/tasks'') st of
        None \<Rightarrow> (False, c, st)
      | Some (fd, st1) \<Rightarrow> (True, c\<lparr>ct_task := om_put policy fd (ct_task c)\<rparr>, st1)))"

definition AddThreadGroupSchedPolicy ::
    "pg_env \<Rightarrow> sched_policy \<Rightarrow> string \<Rightarrow> ctl \<times> pg_state \<Rightarrow> bool \<times> ctl \<times> pg_state" where
  "AddThreadGroupSchedPolicy E policy subgroup = (\<lambda>(c, st).
     (case open_group_file E (group_file E c subgroup ''/cgroup.procs'') st of
        None \<Rightarrow> (False, c, st)
      | Some (fd, st1) \<Rightarrow> (True, c\<lparr>ct_proc := om_put policy fd (ct_proc c)\<rparr>, st1)))"

definition AddSchedPolicy ::
    "pg_env \<Rightarrow> sched_policy \<Rightarrow> string \<Rightarrow> ctl \<times> pg_state \<Rightarrow> bool \<times> ctl \<times> pg_state" where
  "AddSchedPolicy E policy subgroup s =
     (case AddThreadSchedPolicy E policy subgroup s of
        (b, s1) \<Rightarrow> if b then AddThreadGroupSchedPolicy E policy subgroup s1 else (False, s1))"

text \<open>\<open>std::string::find\<close>.\<close>

fun str_find :: "string \<Rightarrow> string \<Rightarrow> nat option" where
  "str_find pat [] = (if pat = [] then Some 0 else None)"
| "str_find pat (c # cs) =
     (if take (length pat) (c # cs) = pat then Some 0 else map_option Suc (str_find pat cs))"

text \<open>
  The outer \<open>None\<close> is the exception of \<open>substr\<close> behind the end, the inner one the result false.
\<close>

definition GetTaskGroup :: "pg_env \<Rightarrow> ctl \<Rightarrow> i32 \<Rightarrow> string option option" where
  "GetTaskGroup E c tid =
     (case ReadFileToStringForVFSFromExecutor E tid of
        None \<Rightarrow> Some None
      | Some content \<Rightarrow>
          (let cgTag = StringPrintf E ('':'' @ c_str (ct_name c) @ '':'') in
           case str_find cgTag content of
             None \<Rightarrow> Some None
           | Some p \<Rightarrow>
               (let startPos = p + length cgTag + 1 in
                if length content < startPos then None
                else Some (Some (takeWhile (\<lambda>ch. code_of ch \<noteq> 10) (drop startPos content))))))"

section \<open>cgroup\_map.cpp\<close>

definition set_one :: "pg_env \<Rightarrow> i32 \<Rightarrow> sched_policy \<Rightarrow> bool \<Rightarrow> string \<Rightarrow> pg_state \<Rightarrow> pg_state" where
  "set_one E tid policy grp name st =
     (case map_of (controllers st) name of
        None \<Rightarrow> st
      | Some c \<Rightarrow>
          (case ctl_IsEnabled E c st of (enabled, st1) \<Rightarrow>
             if enabled then
               (case ctl_SetThreadSchedPolicy E tid policy grp c st1 of (b, c1, st2) \<Rightarrow>
                  st2\<lparr>controllers := om_put name c1 (controllers st2)\<rparr>)
             else st1))"

definition map_SetThreadSchedPolicy ::
    "pg_env \<Rightarrow> i32 \<Rightarrow> sched_policy \<Rightarrow> bool \<Rightarrow> pg_state \<Rightarrow> bool \<times> pg_state" where
  "map_SetThreadSchedPolicy E tid policy grp st =
     (True, fold (set_one E tid policy grp) (map fst (controllers st)) st)"

definition AddCgroupController :: "string \<Rightarrow> ctl \<Rightarrow> pg_state \<Rightarrow> pg_state" where
  "AddCgroupController name c st =
     (if map_of (controllers st) name = None then st\<lparr>controllers := om_put name c (controllers st)\<rparr> else st)"

definition CheckCgroupConfigFormat :: "json \<Rightarrow> bool" where
  "CheckCgroupConfigFormat cgroupObj =
     (case cgroupObj of
        JObj m \<Rightarrow>
          (case member JSON_KEY_CONTROLLER cgroupObj of Some (JStr s) \<Rightarrow> True | _ \<Rightarrow> False) \<and>
          (case member JSON_KEY_PATH cgroupObj of Some (JStr s) \<Rightarrow> True | _ \<Rightarrow> False) \<and>
          (case member JSON_KEY_SCHED_POLICY cgroupObj of Some (JObj p) \<Rightarrow> True | _ \<Rightarrow> False)
      | _ \<Rightarrow> False)"

text \<open>One policy of the list; the count of the policies added goes along.\<close>

definition load_policy :: "pg_env \<Rightarrow> json \<Rightarrow> sched_policy \<Rightarrow> nat \<times> ctl \<times> pg_state \<Rightarrow> nat \<times> ctl \<times> pg_state" where
  "load_policy E policyObj policy = (\<lambda>(count, c, st).
     (let keyString = GetSchedPolicyFullName policy st in
      if keyString = ''error'' then (count, c, st)
      else (case member keyString policyObj of
              Some (JStr subgroup) \<Rightarrow>
                (case AddSchedPolicy E policy subgroup (c, st) of (b, s1) \<Rightarrow> (if b then count + 1 else count, s1))
            | _ \<Rightarrow> (count, c, st))))"

definition LoadSchedPolicyConfig :: "pg_env \<Rightarrow> json \<Rightarrow> ctl \<times> pg_state \<Rightarrow> bool \<times> ctl \<times> pg_state" where
  "LoadSchedPolicyConfig E policyObj s =
     (case policyObj of
        JObj m \<Rightarrow>
          (case fold (load_policy E policyObj) (GetSchedPolicyList (snd s)) (0, s) of
             (count, s1) \<Rightarrow> (0 < count, s1))
      | _ \<Rightarrow> (False, s))"

definition str_member :: "string \<Rightarrow> json \<Rightarrow> string" where
  "str_member k j = (case member k j of Some (JStr s) \<Rightarrow> s | _ \<Rightarrow> [])"

text \<open>One item of the array \<open>Cgroups\<close>; the count of valid items goes along.\<close>

definition load_cgroup :: "pg_env \<Rightarrow> json \<Rightarrow> nat \<times> pg_state \<Rightarrow> nat \<times> pg_state" where
  "load_cgroup E cgroupObj = (\<lambda>(count, st).
     (if \<not> CheckCgroupConfigFormat cgroupObj then (count, st)
      else
        (let name = str_member JSON_KEY_CONTROLLER cgroupObj; rootPath = str_member JSON_KEY_PATH cgroupObj;
             policies = the (member JSON_KEY_SCHED_POLICY cgroupObj)
         in if name = [] \<or> rootPath = [] then (count, st)
            else (case map_of (controllers st) name of
                Some c \<Rightarrow>
                  (case LoadSchedPolicyConfig E policies (c, st) of (b, c1, st1) \<Rightarrow>
                     (if b then count + 1 else count, st1\<lparr>controllers := om_put name c1 (controllers st1)\<rparr>))
              | None \<Rightarrow>
                  (case LoadSchedPolicyConfig E policies (CgroupController name rootPath st, st) of (b, c1, st1) \<Rightarrow>
                     if b then (count + 1, AddCgroupController name c1 st1) else (count, st1))))))"

definition LoadConfigFromJsonObj :: "pg_env \<Rightarrow> json \<Rightarrow> pg_state \<Rightarrow> bool \<times> pg_state" where
  "LoadConfigFromJsonObj E jsonObj st =
     (case member JSON_KEY_CGROUPS jsonObj of
        Some (JArr items) \<Rightarrow> (case fold (load_cgroup E) items (0, st) of (count, st1) \<Rightarrow> (count \<noteq> 0, st1))
      | _ \<Rightarrow> (False, st))"

definition FindAllEnableCgroupControllers :: "pg_env \<Rightarrow> pg_state \<Rightarrow> ctl list \<times> pg_state" where
  "FindAllEnableCgroupControllers E st =
     fold (\<lambda>(name, c) (l, st). case ctl_IsEnabled E c st of (b, st1) \<Rightarrow> (if b then l @ [c] else l, st1))
       (controllers st) ([], st)"

section \<open>The operations of cgroup\_action.cpp\<close>

definition CGROUP_SETTING_CONFIG_FILE :: string where
  "CGROUP_SETTING_CONFIG_FILE = ''etc/cgroup_sched/cgroup_action_config.json''"

definition cfg_real_path :: "pg_env \<Rightarrow> string option \<Rightarrow> string option" where
  "cfg_real_path E f =
     (case f of
        None \<Rightarrow> None
      | Some p \<Rightarrow> if c_str p = [] \<or> PG_PATH_MAX < length (c_str p) then None else pg_cfg_real E p)"

definition ParseConfigFileToJsonObj :: "pg_env \<Rightarrow> bool \<times> json list" where
  "ParseConfigFileToJsonObj E =
     (case pg_cfg_files E of
        None \<Rightarrow> (False, [])
      | Some files \<Rightarrow>
          (let roots = filter (\<lambda>j. member JSON_KEY_CGROUPS j \<noteq> None)
                 (List.map_filter (pg_load_json E) (List.map_filter (cfg_real_path E) files))
           in (roots \<noteq> [], roots)))"

definition LoadConfigFile :: "pg_env \<Rightarrow> pg_state \<Rightarrow> bool \<times> pg_state" where
  "LoadConfigFile E st =
     (case ParseConfigFileToJsonObj E of
        (found, roots) \<Rightarrow>
          if \<not> found then (False, st)
          else fold (\<lambda>root (ret, st).
                 case LoadConfigFromJsonObj E root st of (b, st1) \<Rightarrow> (ret \<or> b, st1)) roots (False, st))"

definition act_IsEnabled :: "pg_env \<Rightarrow> pg_state \<Rightarrow> bool \<times> pg_state" where
  "act_IsEnabled E st =
     (let st1 = st\<lparr>allowToAdd := False\<rparr> in
      case action_enable st1 of
        Some b \<Rightarrow> (b, st1)
      | None \<Rightarrow> (case LoadConfigFile E st1 of (b, st2) \<Rightarrow> (b, st2\<lparr>action_enable := Some b\<rparr>)))"

definition act_SetPolicy :: "pg_env \<Rightarrow> i32 \<Rightarrow> sched_policy \<Rightarrow> bool \<Rightarrow> pg_state \<Rightarrow> bool \<times> pg_state" where
  "act_SetPolicy E tid policy grp st =
     (if \<not> IsSchedPolicyValid policy st then (False, st)
      else (case act_IsEnabled E st of (enabled, st1) \<Rightarrow>
              if \<not> enabled then (False, st1) else map_SetThreadSchedPolicy E tid policy grp st1))"

definition act_SetThreadSchedPolicy :: "pg_env \<Rightarrow> i32 \<Rightarrow> sched_policy \<Rightarrow> pg_state \<Rightarrow> bool \<times> pg_state" where
  "act_SetThreadSchedPolicy E tid policy st = act_SetPolicy E tid policy False st"

definition act_SetThreadGroupSchedPolicy :: "pg_env \<Rightarrow> i32 \<Rightarrow> sched_policy \<Rightarrow> pg_state \<Rightarrow> bool \<times> pg_state" where
  "act_SetThreadGroupSchedPolicy E tid policy st = act_SetPolicy E tid policy True st"

definition policy_payload :: "i32 \<Rightarrow> i32 \<Rightarrow> json" where
  "policy_payload tid policy = JObj [(''tid'', JStr (to_string tid)), (''policy'', JStr (to_string policy))]"

definition SetSchedPolicyByExecutor :: "pg_env \<Rightarrow> i32 \<Rightarrow> i32 \<Rightarrow> u32 \<Rightarrow> int" where
  "SetSchedPolicyByExecutor E tid policy resType =
     (case pg_exe E resType (policy_payload tid policy) of
        (ret, reply) \<Rightarrow>
          if ret \<noteq> 0 then ret
          else (case member ''ret'' reply of Some (JStr s) \<Rightarrow> atoi s | _ \<Rightarrow> ret))"

fun first_group :: "pg_env \<Rightarrow> i32 \<Rightarrow> ctl list \<Rightarrow> string option option" where
  "first_group E tid [] = Some None"
| "first_group E tid (c # cs) =
     (case GetTaskGroup E c tid of
        None \<Rightarrow> None | Some None \<Rightarrow> first_group E tid cs | Some (Some g) \<Rightarrow> Some (Some g))"

definition act_GetSchedPolicy :: "pg_env \<Rightarrow> i32 \<Rightarrow> pg_state \<Rightarrow> ((i32 \<times> sched_policy) \<times> pg_state) option" where
  "act_GetSchedPolicy E tid st =
     (case act_IsEnabled E st of (enabled, st1) \<Rightarrow>
        if \<not> enabled then Some ((- 1, SP_UPPER_LIMIT), st1)
        else (case FindAllEnableCgroupControllers E st1 of (cs, st2) \<Rightarrow>
          (case first_group E tid cs of
             None \<Rightarrow> None
           | Some None \<Rightarrow> Some ((- 1, SP_UPPER_LIMIT), st2)
           | Some (Some subgroup) \<Rightarrow>
               if subgroup = [] then Some ((0, SP_DEFAULT), st2)
               else Some (GetSchedPolicyByName
                 (''sp_'' @ map (\<lambda>ch. if ch = CHR ''-'' then CHR ''_'' else ch) subgroup) st2, st2))))"

section \<open>sched\_policy.cpp\<close>

definition set_sched_policy :: "pg_env \<Rightarrow> i32 \<Rightarrow> i32 \<Rightarrow> bool \<Rightarrow> u32 \<Rightarrow> pg_state \<Rightarrow> int \<times> pg_state" where
  "set_sched_policy E tid policy grp resType st =
     (if tid \<le> 0 then (- 1, st)
      else (case act_SetPolicy E tid (of_int policy) grp st of (b, st1) \<Rightarrow>
              (if pg_by_executor E then SetSchedPolicyByExecutor E tid policy resType
               else if b then 0 else - 1, st1)))"

definition SetThreadSchedPolicy :: "pg_env \<Rightarrow> i32 \<Rightarrow> i32 \<Rightarrow> pg_state \<Rightarrow> int \<times> pg_state" where
  "SetThreadSchedPolicy E tid policy st =
     set_sched_policy E tid policy False RES_TYPE_SET_THREAD_SCHED_POLICY_SYNC_EVENT st"

definition SetThreadGroupSchedPolicy :: "pg_env \<Rightarrow> i32 \<Rightarrow> i32 \<Rightarrow> pg_state \<Rightarrow> int \<times> pg_state" where
  "SetThreadGroupSchedPolicy E pid policy st =
     set_sched_policy E pid policy True RES_TYPE_SET_THREAD_GROUP_SCHED_POLICY_SYNC_EVENT st"

text \<open>\<open>None\<close> inside the pair: the result is left as it was.\<close>

definition GetThreadSchedPolicy ::
    "pg_env \<Rightarrow> i32 \<Rightarrow> pg_state \<Rightarrow> ((i32 \<times> sched_policy option) \<times> pg_state) option" where
  "GetThreadSchedPolicy E tid st =
     (if tid \<le> 0 then Some ((- 1, None), st)
      else map_option (\<lambda>((ret, policy), st1). ((ret, Some policy), st1)) (act_GetSchedPolicy E tid st))"

section \<open>Steps\<close>

inductive pg_step :: "pg_env \<Rightarrow> pg_state \<Rightarrow> pg_state \<Rightarrow> bool" for E where
  add: "pg_step E st (AddSchedPolicyDeclaration policy fullName abbrName st)"
| thread: "pg_step E st (snd (SetThreadSchedPolicy E tid p st))"
| process: "pg_step E st (snd (SetThreadGroupSchedPolicy E tid p st))"
| query: "GetThreadSchedPolicy E tid st = Some (r, st') \<Longrightarrow> pg_step E st st'"

inductive pg_reachable :: "pg_env \<Rightarrow> pg_state \<Rightarrow> bool" for E where
  start: "pg_reachable E pg_new"
| step: "pg_reachable E st \<Longrightarrow> pg_step E st st' \<Longrightarrow> pg_reachable E st'"

end
