(* ===== verification/Executor_Model.thy ===== *)
theory Executor_Model
  imports Plugin_Mgr_Model Process_Group
begin

text \<open>
  The executor process (ressched\_executor: res\_sched\_exe\_mgr.cpp, res\_sched\_exe\_service.cpp)
  and its client (res\_sched\_exe\_client.cpp), with the JSON text helpers they send messages
  with.  The executor has a plugin manager and a group library of its own.  Parameters: the JSON
  library (printing, parsing, converting a number with a fraction), the file system, \<open>kill\<close>, the
  reply a plugin fills in; the caller of a request and the clock come with it.  A request whose
  handler throws is \<open>None\<close>.
\<close>

section \<open>JSON texts\<close>

text \<open>\<open>size()\<close> and \<open>empty()\<close> of a JSON value, and assignment to a member, which throws for
  anything but an object and null.\<close>

definition json_size :: "json \<Rightarrow> nat" where
  "json_size j = (case j of JNull \<Rightarrow> 0 | JArr l \<Rightarrow> length l | JObj m \<Rightarrow> length m | _ \<Rightarrow> 1)"

definition json_empty :: "json \<Rightarrow> bool" where
  "json_empty j = (case j of JNull \<Rightarrow> True | JArr l \<Rightarrow> l = [] | JObj m \<Rightarrow> m = [] | _ \<Rightarrow> False)"

definition assign_member :: "string \<Rightarrow> json \<Rightarrow> json \<Rightarrow> json option" where
  "assign_member k v j =
     (case j of JNull \<Rightarrow> Some (JObj [(k, v)]) | JObj m \<Rightarrow> Some (JObj (AList.update k v m)) | _ \<Rightarrow> None)"

definition json_is_object :: "json \<Rightarrow> bool" where
  "json_is_object j = (case j of JObj m \<Rightarrow> True | _ \<Rightarrow> False)"

text \<open>res\_sched\_json\_util.cpp and res\_sched\_string\_util.cpp, over the parser of the library.\<close>

definition LoadContentToJsonObj :: "(string \<Rightarrow> json option) \<Rightarrow> string \<Rightarrow> json option" where
  "LoadContentToJsonObj parse content =
     (if content = [] then None
      else (case parse content of None \<Rightarrow> None | Some j \<Rightarrow> if json_is_object j then Some j else None))"

definition StringToJson :: "(string \<Rightarrow> json option) \<Rightarrow> string \<Rightarrow> json option" where
  "StringToJson parse s =
     (if s = [] then None
      else (case parse s of None \<Rightarrow> None | Some j \<Rightarrow> if json_is_object j then Some j else None))"

text \<open>The text of an object; anything else leaves the result as it was.\<close>

definition DumpJsonToString :: "(json \<Rightarrow> string) \<Rightarrow> json \<Rightarrow> string \<Rightarrow> string" where
  "DumpJsonToString dump j content = (if json_is_object j then dump j else content)"

text \<open>res\_json\_type.cpp: what the receiver of a JSON value gets, \<open>None\<close> when it is not sent.\<close>

definition Marshalling :: "(json \<Rightarrow> string) \<Rightarrow> json \<Rightarrow> string option" where
  "Marshalling dump j = (let s = DumpJsonToString dump j [] in if s = [] then None else Some s)"

definition Unmarshalling :: "(string \<Rightarrow> json option) \<Rightarrow> string \<Rightarrow> json option" where
  "Unmarshalling parse s = LoadContentToJsonObj parse s"

section \<open>Data\<close>

definition EXE_RES_TYPE_FIRST :: u32 where "EXE_RES_TYPE_FIRST = 0"
definition RES_TYPE_COMMON_SYNC :: u32 where "RES_TYPE_COMMON_SYNC = EXE_RES_TYPE_FIRST"
definition RES_TYPE_CGROUP_PROC_TASK_SYNC_EVENT :: u32 where "RES_TYPE_CGROUP_PROC_TASK_SYNC_EVENT = 4"
definition RES_TYPE_EXECUTOR_PLUGIN_INIT :: u32 where "RES_TYPE_EXECUTOR_PLUGIN_INIT = 7"
definition RES_TYPE_COMMON_ASYNC :: u32 where "RES_TYPE_COMMON_ASYNC = 9"
definition RES_TYPE_EXT_SUSPEND_MANAGER_SA_CHANGED :: u32 where "RES_TYPE_EXT_SUSPEND_MANAGER_SA_CHANGED = 13"
definition EXE_RES_TYPE_LAST :: u32 where "EXE_RES_TYPE_LAST = 1000"
definition RES_TYPE_DEBUG :: u32 where "RES_TYPE_DEBUG = EXE_RES_TYPE_LAST"

definition RSSEXE_NO_ERR :: i32 where "RSSEXE_NO_ERR = 0"
definition RSSEXE_PERMISSION_DENIED :: i32 where "RSSEXE_PERMISSION_DENIED = 1"
definition RSSEXE_PLUGIN_ERROR :: i32 where "RSSEXE_PLUGIN_ERROR = - 1"
definition RSSEXE_GET_SERVICE_FAIL :: i32 where "RSSEXE_GET_SERVICE_FAIL = 5"
definition RSSEXE_CONNECT_FAIL :: i32 where "RSSEXE_CONNECT_FAIL = 6"
definition RSSEXE_REPLY_EMPTY :: i32 where "RSSEXE_REPLY_EMPTY = 7"

definition SIGNAL_KILL :: i32 where "SIGNAL_KILL = 9"
definition MAX_CONFIG_SIZE :: nat where "MAX_CONFIG_SIZE = 1024 * 1024"
definition STR_CONFIG_READER :: string where "STR_CONFIG_READER = ''config''"
definition STR_PLUGIN_SWITCH :: string where "STR_PLUGIN_SWITCH = ''switch''"
definition STR_MESSAGE_INDEX :: string where "STR_MESSAGE_INDEX = ''MESSAGE_INDEX''"
definition STR_MESSAGE_NUMBER :: string where "STR_MESSAGE_NUMBER = ''MESSAGE_NUMBER''"
definition STR_IPC_MESSAGE :: string where "STR_IPC_MESSAGE = ''IPC_MESSAGE''"
definition EXE_PAYLOAD_MAX_SIZE :: nat where "EXE_PAYLOAD_MAX_SIZE = 4096"
definition RSS_UID :: i32 where "RSS_UID = 1096"
definition RES_TYPE_EXT :: string where "RES_TYPE_EXT = ''extType''"

definition exe_resTypeToStr :: "(u32, string) omap" where
  "exe_resTypeToStr =
     [(0, ''RES_TYPE_COMMON_SYNC''), (1, ''THERMAL_AWARE_SYNC_EVENT''), (9, ''RES_TYPE_COMMON_ASYNC''),
      (10, ''THERMAL_AWARE_ASYNC_EVENT''), (12, ''SOCK_EXECUTOR_ASYNC_EVENT''),
      (14, ''RES_TYPE_STANDBY_EXECUTOR_ASYNC_EVENT''), (1000, ''DEBUG_COMMAND'')]"

record ex_env =
  ee_pm :: pm_env
  ee_pg :: pg_env
  ee_parse :: "string \<Rightarrow> json option"
  ee_float :: i32
  ee_reply :: "string \<Rightarrow> res_data \<Rightarrow> json"
  ee_realpath :: "string \<Rightarrow> string option"
  ee_read_file :: "string \<Rightarrow> string option"
  ee_path_real :: "string \<Rightarrow> bool"
  ee_kill :: "i32 \<Rightarrow> i32 \<Rightarrow> i32"
  ee_suspend_sa :: i32

record ex_state =
  ex_isInit :: bool
  ex_ipcMessage :: "(int, string) omap"
  ex_ipcNumber :: i32
  ex_pm :: pm_state
  ex_pg :: pg_state
  ex_kills :: "(i32 \<times> i32) list"

definition ex_new :: ex_state where
  "ex_new = \<lparr>ex_isInit = False, ex_ipcMessage = [], ex_ipcNumber = 0, ex_pm = pm_new, ex_pg = pg_new,
     ex_kills = []\<rparr>"

section \<open>res\_sched\_exe\_mgr.cpp\<close>

definition exe_Init :: "ex_env \<Rightarrow> i64 \<Rightarrow> ex_state \<Rightarrow> ex_state" where
  "exe_Init E now st = st\<lparr>ex_pm := SetResTypeStrMap exe_resTypeToStr (pm_Init (ee_pm E) now (ex_pm st))\<rparr>"

definition exe_Stop :: "ex_env \<Rightarrow> ex_state \<Rightarrow> ex_state" where
  "exe_Stop E st = st\<lparr>ex_pm := pm_Stop (ee_pm E) (ex_pm st)\<rparr>"

definition exe_KillProcess :: "ex_env \<Rightarrow> i32 \<Rightarrow> ex_state \<Rightarrow> i32 \<times> ex_state" where
  "exe_KillProcess E pid st =
     (ee_kill E pid SIGNAL_KILL, st\<lparr>ex_kills := ex_kills st @ [(pid, SIGNAL_KILL)]\<rparr>)"

definition exe_ParseValue :: "string \<Rightarrow> json \<Rightarrow> i32 option" where
  "exe_ParseValue name payload =
     (case member name payload of Some (JStr s) \<Rightarrow> Some (atoi s) | _ \<Rightarrow> None)"

text \<open>\<open>is_number()\<close> and \<open>get<int>()\<close>.\<close>

definition num_int :: "ex_env \<Rightarrow> json \<Rightarrow> i32 option" where
  "num_int E j = (if j = JFloat then Some (ee_float E) else json_int32 j)"

text \<open>An array of strings; an item of another type throws.\<close>

fun string_items :: "json list \<Rightarrow> string list option" where
  "string_items [] = Some []"
| "string_items (JStr s # l) = map_option (\<lambda>r. s # r) (string_items l)"
| "string_items (_ # l) = None"

definition InitPluginMgr :: "ex_env \<Rightarrow> json \<Rightarrow> ex_state \<Rightarrow> ex_state option" where
  "InitPluginMgr E payload st =
     (case (member STR_CONFIG_READER payload, member STR_PLUGIN_SWITCH payload) of
        (Some (JArr configs), Some (JArr switches)) \<Rightarrow>
          (case (string_items configs, string_items switches) of
             (Some configStrs, Some switchStrs) \<Rightarrow>
               (let st1 = st\<lparr>ex_isInit := True\<rparr> in
                if list_ex (\<lambda>s. MAX_CONFIG_SIZE < length s) configStrs then Some st1
                else
                  (let st2 = st1\<lparr>ex_pm := ParseConfigReader (ee_pm E) configStrs (ex_pm st1)\<rparr> in
                   if list_ex (\<lambda>s. MAX_CONFIG_SIZE < length s) switchStrs then Some st2
                   else Some (st2\<lparr>ex_pm := ParsePluginSwitch (ee_pm E) switchStrs True (ex_pm st2)\<rparr>)))
           | _ \<Rightarrow> None)
      | _ \<Rightarrow> Some st)"

text \<open>A part of a message that did not fit into one request.\<close>

definition batch_part :: "ex_env \<Rightarrow> json \<Rightarrow> (i32 \<times> i32 \<times> string) option" where
  "batch_part E payload =
     (case (member STR_MESSAGE_INDEX payload, member STR_MESSAGE_NUMBER payload, member STR_IPC_MESSAGE payload) of
        (Some ji, Some jn, Some (JStr text)) \<Rightarrow>
          (case (num_int E ji, num_int E jn) of (Some i, Some n) \<Rightarrow> Some (i, n, text) | _ \<Rightarrow> None)
      | _ \<Rightarrow> None)"

text \<open>\<open>std::map::insert\<close> keeps the value of a key that is there.\<close>

definition om_insert :: "'k::linorder \<Rightarrow> 'v \<Rightarrow> ('k, 'v) omap \<Rightarrow> ('k, 'v) omap" where
  "om_insert k v m = (if map_of m k = None then om_put k v m else m)"

definition InitPluginMgrPretreatment :: "ex_env \<Rightarrow> json \<Rightarrow> ex_state \<Rightarrow> ex_state option" where
  "InitPluginMgrPretreatment E payload st =
     (if ex_isInit st then Some st
      else (case batch_part E payload of
              Some (i, n, text) \<Rightarrow>
                (let st1 = st\<lparr>ex_ipcMessage := om_insert i text (ex_ipcMessage st),
                              ex_ipcNumber := wrap_s32 (ex_ipcNumber st + 1)\<rparr>
                 in if n = ex_ipcNumber st1 then
                      (let ipcMessage = concat (map snd (ex_ipcMessage st1));
                           initPayload = (case StringToJson (ee_parse E) ipcMessage of Some j \<Rightarrow> j | None \<Rightarrow> JNull)
                       in map_option (\<lambda>st2. st2\<lparr>ex_ipcNumber := 0, ex_ipcMessage := []\<rparr>)
                            (InitPluginMgr E initPayload st1))
                    else Some st1)
            | None \<Rightarrow> InitPluginMgr E payload st))"

definition GetCgroupFileContent :: "ex_env \<Rightarrow> json \<Rightarrow> json \<Rightarrow> json option" where
  "GetCgroupFileContent E payload reply =
     (case Option.bind (member ''pid'' payload) json_int32 of
        None \<Rightarrow> Some reply
      | Some pid \<Rightarrow>
          (case ee_realpath E (''/proc/'' @ to_string pid @ ''/cgroup'') of
             None \<Rightarrow> Some reply
           | Some realPath \<Rightarrow>
               (case ee_read_file E realPath of
                  None \<Rightarrow> Some reply | Some content \<Rightarrow> assign_member ''res'' (JStr content) reply)))"

definition CheckProcTaskForCgroup :: "ex_env \<Rightarrow> json \<Rightarrow> json \<Rightarrow> json option" where
  "CheckProcTaskForCgroup E payload reply =
     (case (Option.bind (member ''pid'' payload) json_int32, Option.bind (member ''tid'' payload) json_int32) of
        (Some pid, Some tid) \<Rightarrow>
          assign_member ''res''
            (JBool (ee_path_real E (''/proc/'' @ to_string pid @ ''/task/'' @ to_string tid @ ''/comm''))) reply
      | _ \<Rightarrow> Some reply)"

definition set_policy_reply :: "bool \<Rightarrow> json \<Rightarrow> json option" where
  "set_policy_reply b reply = assign_member ''ret'' (JStr (to_string (if b then 0 else - 1))) reply"

definition HandleRequestForCgroup ::
    "ex_env \<Rightarrow> u32 \<Rightarrow> json \<Rightarrow> json \<Rightarrow> ex_state \<Rightarrow> (json \<times> ex_state) option" where
  "HandleRequestForCgroup E resType payload reply st =
     (if resType = RES_TYPE_CGROUP_SYNC_EVENT then
        map_option (\<lambda>r. (r, st)) (GetCgroupFileContent E payload reply)
      else if resType = RES_TYPE_CGROUP_PROC_TASK_SYNC_EVENT then
        map_option (\<lambda>r. (r, st)) (CheckProcTaskForCgroup E payload reply)
      else if resType = RES_TYPE_SET_THREAD_SCHED_POLICY_SYNC_EVENT \<or>
              resType = RES_TYPE_SET_THREAD_GROUP_SCHED_POLICY_SYNC_EVENT then
        (case (exe_ParseValue ''tid'' payload, exe_ParseValue ''policy'' payload) of
           (Some tid, Some policy) \<Rightarrow>
             (case (if resType = RES_TYPE_SET_THREAD_SCHED_POLICY_SYNC_EVENT
                    then act_SetThreadSchedPolicy (ee_pg E) tid (of_int policy) (ex_pg st)
                    else act_SetThreadGroupSchedPolicy (ee_pg E) tid (of_int policy) (ex_pg st)) of
                (b, pg) \<Rightarrow> map_option (\<lambda>r. (r, st\<lparr>ex_pg := pg\<rparr>)) (set_policy_reply b reply))
         | _ \<Rightarrow> Some (reply, st))
      else Some (reply, st))"

text \<open>The reply a plugin has filled in, when the manager has called one.\<close>

definition delivered_reply :: "ex_env \<Rightarrow> pm_out list \<Rightarrow> json \<Rightarrow> json" where
  "delivered_reply E outs reply =
     fold (\<lambda>out r. case out of DeliverCalled lib rd \<Rightarrow> ee_reply E lib rd | _ \<Rightarrow> r) outs reply"

definition exe_deliver :: "ex_env \<Rightarrow> i64 \<Rightarrow> res_data \<Rightarrow> json \<Rightarrow> ex_state \<Rightarrow> (json \<times> ex_state) option" where
  "exe_deliver E now rd reply st =
     (case pm_DeliverResource (ee_pm E) now (Some rd) (ex_pm st) of
        (ret, pm) \<Rightarrow>
          (let reply1 = delivered_reply E (drop (length (pm_outs (ex_pm st))) (pm_outs pm)) reply;
               st1 = st\<lparr>ex_pm := pm\<rparr>
           in if ret \<noteq> RSSEXE_PLUGIN_ERROR
              then map_option (\<lambda>r. (r, st1)) (assign_member ''retCode'' (JStr (to_string ret)) reply1)
              else Some (reply1, st1)))"

definition is_cgroup_type :: "u32 \<Rightarrow> bool" where
  "is_cgroup_type t = (t = RES_TYPE_CGROUP_SYNC_EVENT \<or> t = RES_TYPE_CGROUP_PROC_TASK_SYNC_EVENT \<or>
     t = RES_TYPE_SET_THREAD_SCHED_POLICY_SYNC_EVENT \<or> t = RES_TYPE_SET_THREAD_GROUP_SCHED_POLICY_SYNC_EVENT)"

definition mgr_SendRequestSync ::
    "ex_env \<Rightarrow> i64 \<Rightarrow> u32 \<Rightarrow> i64 \<Rightarrow> json \<Rightarrow> ex_state \<Rightarrow> (i32 \<times> json \<times> ex_state) option" where
  "mgr_SendRequestSync E now resType value payload st =
     (case (if resType = RES_TYPE_EXECUTOR_PLUGIN_INIT
            then map_option (\<lambda>st1. (JNull, st1)) (InitPluginMgrPretreatment E payload st)
            else if is_cgroup_type resType then HandleRequestForCgroup E resType payload JNull st
            else exe_deliver E now \<lparr>rd_type = resType, rd_value = value, rd_payload = payload\<rparr> JNull st) of
        None \<Rightarrow> None
      | Some (reply, st1) \<Rightarrow>
          map_option (\<lambda>r. (RSSEXE_NO_ERR, r, st1))
            (if json_empty reply
             then assign_member ''retCode'' (JStr (to_string RSSEXE_REPLY_EMPTY)) reply
             else Some reply))"

definition mgr_SendRequestAsync :: "ex_env \<Rightarrow> i64 \<Rightarrow> u32 \<Rightarrow> i64 \<Rightarrow> json \<Rightarrow> ex_state \<Rightarrow> ex_state option" where
  "mgr_SendRequestAsync E now resType value payload st =
     (if resType = RES_TYPE_EXECUTOR_PLUGIN_INIT then InitPluginMgrPretreatment E payload st
      else Some (st\<lparr>ex_pm := pm_DispatchResource (ee_pm E) now
             (Some \<lparr>rd_type = resType, rd_value = value, rd_payload = payload\<rparr>) (ex_pm st)\<rparr>))"

definition BuildTraceStr :: "string \<Rightarrow> u32 \<Rightarrow> i64 \<Rightarrow> string" where
  "BuildTraceStr func resType value =
     func @ '',resType['' @ to_string (uint resType) @ '']'' @ '',value['' @ to_string value @ '']''"

section \<open>res\_sched\_exe\_service.cpp\<close>

datatype exe_err = EXE_OK | EXE_INVALID_OPERATION | EXE_INVALID_VALUE

definition IsTypeVaild :: "u32 \<Rightarrow> bool" where
  "IsTypeVaild type = (EXE_RES_TYPE_FIRST \<le> type \<and> type < EXE_RES_TYPE_LAST)"

definition IsCallingClientRss :: "i32 \<Rightarrow> bool" where
  "IsCallingClientRss clientUid = (RSS_UID = clientUid)"

definition GetExtResType :: "ex_env \<Rightarrow> u32 \<Rightarrow> json \<Rightarrow> u32 option" where
  "GetExtResType E resType ctx =
     (if resType \<noteq> RES_TYPE_COMMON_SYNC \<and> resType \<noteq> RES_TYPE_COMMON_ASYNC then Some resType
      else (case member RES_TYPE_EXT ctx of
              Some (JStr s) \<Rightarrow> map_option of_int (pe_StrToInt (ee_pm E) s)
            | _ \<Rightarrow> None))"

text \<open>The checks both kinds of request start with, and the type they go on with.\<close>

definition check_request :: "ex_env \<Rightarrow> i32 \<Rightarrow> u32 \<Rightarrow> json \<Rightarrow> exe_err + u32" where
  "check_request E uid resType ctx =
     (if \<not> IsCallingClientRss uid then Inl EXE_INVALID_OPERATION
      else if \<not> IsTypeVaild resType then Inl EXE_INVALID_VALUE
      else if EXE_PAYLOAD_MAX_SIZE < json_size ctx then Inl EXE_INVALID_VALUE
      else (case GetExtResType E resType ctx of None \<Rightarrow> Inl EXE_INVALID_VALUE | Some t \<Rightarrow> Inr t))"

definition exe_SendRequestSync ::
    "ex_env \<Rightarrow> i32 \<Rightarrow> i64 \<Rightarrow> u32 \<Rightarrow> i64 \<Rightarrow> json \<Rightarrow> ex_state \<Rightarrow> (exe_err \<times> (json \<times> i32) option \<times> ex_state) option" where
  "exe_SendRequestSync E uid now resType value ctx st =
     (case check_request E uid resType ctx of
        Inl err \<Rightarrow> Some (err, None, st)
      | Inr t \<Rightarrow>
          map_option (\<lambda>(ret, reply, st1). (EXE_OK, Some (reply, ret), st1))
            (mgr_SendRequestSync E now t value ctx st))"

definition exe_SendRequestAsync ::
    "ex_env \<Rightarrow> i32 \<Rightarrow> i64 \<Rightarrow> u32 \<Rightarrow> i64 \<Rightarrow> json \<Rightarrow> ex_state \<Rightarrow> (exe_err \<times> ex_state) option" where
  "exe_SendRequestAsync E uid now resType value ctx st =
     (case check_request E uid resType ctx of
        Inl err \<Rightarrow> Some (err, st)
      | Inr t \<Rightarrow> map_option (\<lambda>st1. (EXE_OK, st1)) (mgr_SendRequestAsync E now t value ctx st))"

text \<open>The identifier is unsigned here and becomes a \<open>pid_t\<close>.\<close>

definition svc_exe_KillProcess :: "ex_env \<Rightarrow> i32 \<Rightarrow> u32 \<Rightarrow> ex_state \<Rightarrow> exe_err \<times> i32 option \<times> ex_state" where
  "svc_exe_KillProcess E uid pid st =
     (if \<not> IsCallingClientRss uid then (EXE_INVALID_OPERATION, None, st)
      else if pid \<le> 0 then (EXE_INVALID_VALUE, None, st)
      else (case exe_KillProcess E (sint pid) st of (r, st1) \<Rightarrow> (EXE_OK, Some r, st1)))"

definition exe_OnStart :: "ex_env \<Rightarrow> i64 \<Rightarrow> ex_state \<Rightarrow> ex_state" where
  "exe_OnStart E now st = exe_Init E now st"

definition exe_OnStop :: "ex_env \<Rightarrow> ex_state \<Rightarrow> ex_state" where
  "exe_OnStop E st = exe_Stop E st"

definition exe_OnRemoveSystemAbility :: "ex_env \<Rightarrow> i64 \<Rightarrow> i32 \<Rightarrow> ex_state \<Rightarrow> ex_state option" where
  "exe_OnRemoveSystemAbility E now systemAbilityId st =
     (if systemAbilityId = ee_suspend_sa E
      then mgr_SendRequestAsync E now RES_TYPE_EXT_SUSPEND_MANAGER_SA_CHANGED 0 JNull st
      else Some st)"

definition AllowDump :: "i32 \<Rightarrow> bool \<Rightarrow> bool" where
  "AllowDump engMode granted = (if engMode = 0 then False else granted)"

definition exe_DumpUsage :: "ex_env \<Rightarrow> ex_state \<Rightarrow> string option" where
  "exe_DumpUsage E st =
     DumpHelpFromPlugin (ee_pm E)
       (''usage: resource schedule executor dump [<options>]'' @ cr_newline @
        ''    -h: show the help.'' @ cr_newline @
        ''    -a: show all info.'' @ cr_newline @
        ''    -p: show the all plugin info.'' @ cr_newline @
        ''    -p (plugin name): show one plugin info.'' @ cr_newline) (ex_pm st)"

definition exe_DumpAllInfo :: "ex_state \<Rightarrow> string option" where
  "exe_DumpAllInfo st =
     map_option (\<lambda>s. ''================Resource Schedule Executor Infos================'' @ cr_newline @ s)
       (DumpAllPlugin (ex_pm st))"

text \<open>The text written to the descriptor; \<open>None\<close> inside is an access to a manager that was never
  initialised.\<close>

definition exe_Dump :: "ex_env \<Rightarrow> i32 \<Rightarrow> bool \<Rightarrow> string list \<Rightarrow> ex_state \<Rightarrow> i32 \<times> string option" where
  "exe_Dump E engMode granted args st =
     (if \<not> AllowDump engMode granted then (RSSEXE_PERMISSION_DENIED, Some [])
      else (RSSEXE_NO_ERR,
        (case args of
           [] \<Rightarrow> exe_DumpUsage E st
         | [opt] \<Rightarrow>
             (if opt = ''-h'' then exe_DumpUsage E st
              else if opt = ''-a'' then exe_DumpAllInfo st
              else if opt = ''-p'' then DumpAllPlugin (ex_pm st)
              else Some ''Error params.'')
         | opt # plugin # rest \<Rightarrow>
             (if opt = ''-p'' then DumpOnePlugin (ee_pm E) [] plugin rest (ex_pm st) else Some []))))"

section \<open>res\_sched\_exe\_client.cpp\<close>

definition MAX_IPC_MESSAGE_SIZE :: nat where "MAX_IPC_MESSAGE_SIZE = 200000"
definition IPC_BATCHES_SIZE :: nat where "IPC_BATCHES_SIZE = 180000"

text \<open>
  The client and the executor it talks to: whether it holds a proxy, whether the system has the
  executor's ability, and the uid the executor sees.
\<close>

record xc_env =
  xe_exe :: ex_env
  xe_dump :: "json \<Rightarrow> string"
  xe_parse :: "string \<Rightarrow> json option"
  xe_uid :: i32
  xe_indet :: i32

record xc_state =
  xc_proxy :: bool
  xc_available :: bool
  xc_exe :: ex_state

definition TryConnect :: "xc_state \<Rightarrow> i32 \<times> xc_state" where
  "TryConnect st =
     (if xc_proxy st then (RSSEXE_NO_ERR, st)
      else if xc_available st then (RSSEXE_NO_ERR, st\<lparr>xc_proxy := True\<rparr>)
      else (RSSEXE_GET_SERVICE_FAIL, st))"

definition StopRemoteObject :: "xc_state \<Rightarrow> xc_state" where
  "StopRemoteObject st = st\<lparr>xc_proxy := False\<rparr>"

definition OnRemoteDied :: "xc_state \<Rightarrow> xc_state" where
  "OnRemoteDied st = StopRemoteObject st"

function batches :: "string \<Rightarrow> string list" where
  "batches s = (if s = [] then [] else take IPC_BATCHES_SIZE s # batches (drop IPC_BATCHES_SIZE s))"
  by pat_completeness auto
termination by (relation "measure length") (auto simp: IPC_BATCHES_SIZE_def)

declare batches.simps [simp del]

definition ipc_part :: "nat \<Rightarrow> nat \<Rightarrow> string \<Rightarrow> json" where
  "ipc_part number i msg = JObj [(STR_IPC_MESSAGE, JStr msg), (STR_MESSAGE_INDEX, JInt (wrap_s32 (int i))),
     (STR_MESSAGE_NUMBER, JInt (wrap_s32 (int number)))]"

definition ProcessJson :: "xc_env \<Rightarrow> json \<Rightarrow> json list option" where
  "ProcessJson C ctx =
     (let dumpJsonStr = DumpJsonToString (xe_dump C) ctx [] in
      if MAX_IPC_MESSAGE_SIZE < length dumpJsonStr
      then (let messageValue = batches dumpJsonStr
            in Some (map (\<lambda>(i, msg). ipc_part (length messageValue) i msg) (List.enumerate 0 messageValue)))
      else None)"

text \<open>
  One request.  A result that the executor does not write, because the message did not get through
  or was refused, is indeterminate.
\<close>

definition SendRequestInner ::
    "xc_env \<Rightarrow> i64 \<Rightarrow> bool \<Rightarrow> u32 \<Rightarrow> i64 \<Rightarrow> json \<Rightarrow> json \<Rightarrow> xc_state \<Rightarrow> (i32 \<times> json \<times> xc_state) option" where
  "SendRequestInner C now isSync resType value ctx reply st =
     (case TryConnect st of
        (err, st1) \<Rightarrow>
          if err \<noteq> RSSEXE_NO_ERR then Some (RSSEXE_CONNECT_FAIL, reply, st1)
          else (case Option.bind (Marshalling (xe_dump C) ctx) (Unmarshalling (xe_parse C)) of
              None \<Rightarrow> Some (if isSync then (xe_indet C, JNull, st1) else (RSSEXE_NO_ERR, reply, st1))
            | Some received \<Rightarrow>
                if isSync then
                  (case exe_SendRequestSync (xe_exe C) (xe_uid C) now resType value received (xc_exe st1) of
                     None \<Rightarrow> None
                   | Some (e, None, x) \<Rightarrow> Some (xe_indet C, JNull, st1\<lparr>xc_exe := x\<rparr>)
                   | Some (e, Some (r, ret), x) \<Rightarrow>
                       (case Option.bind (Marshalling (xe_dump C) r) (Unmarshalling (xe_parse C)) of
                          None \<Rightarrow> Some (xe_indet C, JNull, st1\<lparr>xc_exe := x\<rparr>)
                        | Some r1 \<Rightarrow> Some (ret, r1, st1\<lparr>xc_exe := x\<rparr>)))
                else
                  map_option (\<lambda>(e, x). (RSSEXE_NO_ERR, reply, st1\<lparr>xc_exe := x\<rparr>))
                    (exe_SendRequestAsync (xe_exe C) (xe_uid C) now resType value received (xc_exe st1))))"

fun SendRequestBatches ::
    "xc_env \<Rightarrow> i64 \<Rightarrow> bool \<Rightarrow> u32 \<Rightarrow> i64 \<Rightarrow> json list \<Rightarrow> i32 \<times> json \<times> xc_state \<Rightarrow> (i32 \<times> json \<times> xc_state) option" where
  "SendRequestBatches C now isSync resType value [] s = Some s"
| "SendRequestBatches C now isSync resType value (m # ms) (_, reply, st) =
     (case SendRequestInner C now isSync resType value m reply st of
        None \<Rightarrow> None
      | Some (ret, s) \<Rightarrow>
          if ret \<noteq> RSSEXE_NO_ERR then Some (ret, s)
          else SendRequestBatches C now isSync resType value ms (ret, s))"

definition xc_SendRequestSync ::
    "xc_env \<Rightarrow> i64 \<Rightarrow> u32 \<Rightarrow> i64 \<Rightarrow> json \<Rightarrow> json \<Rightarrow> xc_state \<Rightarrow> (i32 \<times> json \<times> xc_state) option" where
  "xc_SendRequestSync C now resType value ctx reply st =
     (case (if resType = RES_TYPE_EXECUTOR_PLUGIN_INIT then ProcessJson C ctx else None) of
        Some parts \<Rightarrow> SendRequestBatches C now True resType value parts (RSSEXE_NO_ERR, reply, st)
      | None \<Rightarrow> SendRequestInner C now True resType value ctx reply st)"

definition xc_SendRequestAsync :: "xc_env \<Rightarrow> i64 \<Rightarrow> u32 \<Rightarrow> i64 \<Rightarrow> json \<Rightarrow> xc_state \<Rightarrow> xc_state option" where
  "xc_SendRequestAsync C now resType value ctx st =
     map_option (\<lambda>(r, reply, st1). st1)
       (case (if resType = RES_TYPE_EXECUTOR_PLUGIN_INIT then ProcessJson C ctx else None) of
          Some parts \<Rightarrow> SendRequestBatches C now False resType value parts (RSSEXE_NO_ERR, JNull, st)
        | None \<Rightarrow> SendRequestInner C now False resType value ctx JNull st)"

definition xc_KillProcess :: "xc_env \<Rightarrow> i32 \<Rightarrow> xc_state \<Rightarrow> i32 \<times> xc_state" where
  "xc_KillProcess C pid st =
     (case TryConnect st of
        (err, st1) \<Rightarrow>
          if err \<noteq> RSSEXE_NO_ERR then (RSSEXE_CONNECT_FAIL, st1)
          else (case svc_exe_KillProcess (xe_exe C) (xe_uid C) (of_int pid) (xc_exe st1) of
                  (e, r, x) \<Rightarrow>
                    ((case r of None \<Rightarrow> RSSEXE_GET_SERVICE_FAIL | Some funcResult \<Rightarrow> funcResult),
                     st1\<lparr>xc_exe := x\<rparr>)))"

definition SendDebugCommand :: "xc_env \<Rightarrow> i64 \<Rightarrow> bool \<Rightarrow> xc_state \<Rightarrow> (i32 \<times> json \<times> xc_state) option" where
  "SendDebugCommand C now isSync st = SendRequestInner C now isSync RES_TYPE_DEBUG 0 JNull JNull st"

end
