(* ===== verification/Process_Group_Props.thy ===== *)
theory Process_Group_Props
  imports Process_Group
begin

text \<open>
  The descriptors of the group library: the maps of every controller have exactly the declared
  policies, no write goes to a descriptor the library has not opened on a group file, and what
  setting a policy writes.
\<close>

section \<open>Well-formed states\<close>

definition fd_ok :: "pg_env \<Rightarrow> string \<Rightarrow> pg_state \<Rightarrow> int \<Rightarrow> bool" where
  "fd_ok E leaf st fd \<longleftrightarrow> 3 \<le> fd \<and> fd < 3 + int (length (pg_opened st)) \<and>
     (\<exists>p. pg_path_real E (StringPrintf E (p @ leaf)) = Some (pg_opened st ! nat (fd - 3)))"

definition fds_ok :: "pg_env \<Rightarrow> string \<Rightarrow> pg_state \<Rightarrow> (sched_policy, int) omap \<Rightarrow> bool" where
  "fds_ok E leaf st m \<longleftrightarrow> om_ok m \<and> fst ` set m = fst ` set (fullNames st) \<and>
     (\<forall>fd \<in> snd ` set m. fd = - 1 \<or> fd_ok E leaf st fd)"

definition ctl_ok :: "pg_env \<Rightarrow> pg_state \<Rightarrow> ctl \<Rightarrow> bool" where
  "ctl_ok E st c \<longleftrightarrow> fds_ok E ''/tasks'' st (ct_task c) \<and> fds_ok E ''/cgroup.procs'' st (ct_proc c)"

definition names_ok :: "pg_state \<Rightarrow> bool" where
  "names_ok st \<longleftrightarrow> om_ok (fullNames st) \<and> om_ok (abbrNames st) \<and> map fst (fullNames st) = map fst (abbrNames st) \<and>
     distinct (map snd (fullNames st))"

definition write_ok :: "pg_env \<Rightarrow> pg_state \<Rightarrow> int \<times> string \<Rightarrow> bool" where
  "write_ok E st w \<longleftrightarrow> (fd_ok E ''/tasks'' st (fst w) \<or> fd_ok E ''/cgroup.procs'' st (fst w)) \<and>
     (\<exists>tid > 0. snd w = to_string tid)"

definition pg_ok :: "pg_env \<Rightarrow> pg_state \<Rightarrow> bool" where
  "pg_ok E st \<longleftrightarrow> names_ok st \<and> om_ok (controllers st) \<and> (\<forall>(n, c) \<in> set (controllers st). ctl_ok E st c) \<and>
     (controllers st \<noteq> [] \<longrightarrow> \<not> allowToAdd st) \<and> (\<forall>w \<in> set (pg_writes st). write_ok E st w)"

section \<open>Opening files\<close>

text \<open>What loading a configuration does to the rest of the state: it opens files.\<close>

definition grows :: "pg_state \<Rightarrow> pg_state \<Rightarrow> bool" where
  "grows st st' \<longleftrightarrow> (\<exists>l. st' = st\<lparr>pg_opened := pg_opened st @ l\<rparr>)"

lemma grows_refl [simp]: "grows st st"
  unfolding grows_def by (rule exI[of _ "[]"]) simp

lemma grows_trans: "grows a b \<Longrightarrow> grows b c \<Longrightarrow> grows a c"
  unfolding grows_def by (metis (no_types, lifting) append.assoc pg_state.select_convs(7) pg_state.surjective pg_state.update_convs(7))

lemma grows_same:
  "grows st st' \<Longrightarrow> fullNames st' = fullNames st \<and> abbrNames st' = abbrNames st \<and> allowToAdd st' = allowToAdd st \<and>
     controllers st' = controllers st \<and> pg_writes st' = pg_writes st"
  by (auto simp: grows_def)

lemma fd_ok_mono:
  assumes "fd_ok E leaf st fd" "grows st st'"
  shows "fd_ok E leaf st' fd"
proof -
  from assms(1) have "nat (fd - 3) < length (pg_opened st)" by (auto simp: fd_ok_def)
  with assms show ?thesis by (auto simp: fd_ok_def grows_def nth_append)
qed

lemma fds_ok_mono:
  assumes "fds_ok E leaf st m" "grows st st'"
  shows "fds_ok E leaf st' m"
proof -
  have "fd = - 1 \<or> fd_ok E leaf st' fd" if "fd \<in> snd ` set m" for fd
    using assms(1) fd_ok_mono[OF _ assms(2)] that unfolding fds_ok_def by blast
  then show ?thesis using assms(1) grows_same[OF assms(2)] by (simp add: fds_ok_def)
qed

lemma ctl_ok_mono: "ctl_ok E st c \<Longrightarrow> grows st st' \<Longrightarrow> ctl_ok E st' c"
  unfolding ctl_ok_def using fds_ok_mono by blast

lemma write_ok_mono: "write_ok E st w \<Longrightarrow> grows st st' \<Longrightarrow> write_ok E st' w"
  unfolding write_ok_def using fd_ok_mono by blast

lemma pg_ok_grows:
  assumes "pg_ok E st" "grows st st'"
  shows "pg_ok E st'"
proof -
  have "\<forall>(n, c) \<in> set (controllers st). ctl_ok E st' c"
    using assms(1) ctl_ok_mono[OF _ assms(2)] unfolding pg_ok_def by blast
  moreover have "\<forall>w \<in> set (pg_writes st). write_ok E st' w"
    using assms(1) write_ok_mono[OF _ assms(2)] unfolding pg_ok_def by blast
  ultimately show ?thesis
    using assms(1) grows_same[OF assms(2)] by (simp add: pg_ok_def names_ok_def)
qed

lemma group_file_leaf: "\<exists>p. group_file E c subgroup leaf = StringPrintf E (p @ leaf)"
proof -
  have "group_file E c subgroup leaf =
      StringPrintf E ((c_str (ct_path c) @ (if subgroup = [] then [] else ''/'' @ c_str subgroup)) @ leaf)"
    by (simp add: group_file_def)
  then show ?thesis by blast
qed

lemma open_group_file_ok:
  assumes "open_group_file E (group_file E c subgroup leaf) st = Some (fd, st1)"
  shows "grows st st1 \<and> fd_ok E leaf st1 fd"
proof -
  obtain rp where rp: "pg_path_real E (group_file E c subgroup leaf) = Some rp"
    "fd = 3 + int (length (pg_opened st))" "st1 = st\<lparr>pg_opened := pg_opened st @ [rp]\<rparr>"
    using assms by (auto simp: open_group_file_def split: option.splits if_splits)
  then show ?thesis using group_file_leaf[of E c subgroup leaf] by (auto simp: grows_def fd_ok_def)
qed

lemma om_put_subset: "set (om_put k v m) \<subseteq> insert (k, v) (set m)"
  by (induction k v m rule: om_put.induct) auto

lemma om_put_vals: "snd ` set (om_put k v m) \<subseteq> insert v (snd ` set m)"
  using om_put_subset[of k v m] by force

lemma fds_ok_put:
  assumes "fds_ok E leaf st m" "grows st st1" "fd_ok E leaf st1 fd" "policy \<in> fst ` set (fullNames st)"
  shows "fds_ok E leaf st1 (om_put policy fd m)"
proof -
  have m: "fds_ok E leaf st1 m" by (rule fds_ok_mono[OF assms(1,2)])
  have "x = - 1 \<or> fd_ok E leaf st1 x" if "x \<in> snd ` set (om_put policy fd m)" for x
  proof (cases "x = fd")
    case False
    then have "x \<in> snd ` set m" using om_put_vals that by (meson insertE subsetD)
    with m show ?thesis unfolding fds_ok_def by blast
  qed (simp add: assms(3))
  moreover have "fst ` set (om_put policy fd m) = fst ` set (fullNames st1)"
    using m assms(4) grows_same[OF assms(2)] by (simp add: fds_ok_def insert_absorb)
  ultimately show ?thesis using m by (simp add: fds_ok_def)
qed

lemma AddThreadSchedPolicy_ok:
  assumes "ctl_ok E st c" "policy \<in> fst ` set (fullNames st)"
    "AddThreadSchedPolicy E policy subgroup (c, st) = (b, c1, st1)"
  shows "grows st st1 \<and> ctl_ok E st1 c1"
proof (cases "open_group_file E (group_file E c subgroup ''/tasks'') st")
  case None
  with assms show ?thesis by (simp add: AddThreadSchedPolicy_def)
next
  case (Some r)
  obtain fd s where r: "r = (fd, s)" by (cases r)
  from Some r assms(3) have e: "c1 = c\<lparr>ct_task := om_put policy fd (ct_task c)\<rparr>" "st1 = s"
    by (auto simp: AddThreadSchedPolicy_def)
  from open_group_file_ok[OF Some[unfolded r]] have g: "grows st s" "fd_ok E ''/tasks'' s fd" by auto
  have t: "fds_ok E ''/tasks'' st (ct_task c)" "fds_ok E ''/cgroup.procs'' st (ct_proc c)"
    using assms(1) by (simp_all add: ctl_ok_def)
  show ?thesis
    using g(1) fds_ok_put[OF t(1) g assms(2)] fds_ok_mono[OF t(2) g(1)] by (simp add: e ctl_ok_def)
qed

lemma AddThreadGroupSchedPolicy_ok:
  assumes "ctl_ok E st c" "policy \<in> fst ` set (fullNames st)"
    "AddThreadGroupSchedPolicy E policy subgroup (c, st) = (b, c1, st1)"
  shows "grows st st1 \<and> ctl_ok E st1 c1"
proof (cases "open_group_file E (group_file E c subgroup ''/cgroup.procs'') st")
  case None
  with assms show ?thesis by (simp add: AddThreadGroupSchedPolicy_def)
next
  case (Some r)
  obtain fd s where r: "r = (fd, s)" by (cases r)
  from Some r assms(3) have e: "c1 = c\<lparr>ct_proc := om_put policy fd (ct_proc c)\<rparr>" "st1 = s"
    by (auto simp: AddThreadGroupSchedPolicy_def)
  from open_group_file_ok[OF Some[unfolded r]] have g: "grows st s" "fd_ok E ''/cgroup.procs'' s fd" by auto
  have t: "fds_ok E ''/tasks'' st (ct_task c)" "fds_ok E ''/cgroup.procs'' st (ct_proc c)"
    using assms(1) by (simp_all add: ctl_ok_def)
  show ?thesis
    using g(1) fds_ok_put[OF t(2) g assms(2)] fds_ok_mono[OF t(1) g(1)] by (simp add: e ctl_ok_def)
qed

lemma AddSchedPolicy_ok:
  assumes "ctl_ok E st c" "policy \<in> fst ` set (fullNames st)" "AddSchedPolicy E policy subgroup (c, st) = (b, c1, st1)"
  shows "grows st st1 \<and> ctl_ok E st1 c1"
proof -
  obtain b0 c0 st0 where t: "AddThreadSchedPolicy E policy subgroup (c, st) = (b0, c0, st0)"
    by (cases "AddThreadSchedPolicy E policy subgroup (c, st)") auto
  have s0: "grows st st0" "ctl_ok E st0 c0" using AddThreadSchedPolicy_ok[OF assms(1,2) t] by auto
  show ?thesis
  proof (cases b0)
    case False
    with t assms(3) s0 show ?thesis by (simp add: AddSchedPolicy_def)
  next
    case True
    with t assms(3) have r: "AddThreadGroupSchedPolicy E policy subgroup (c0, st0) = (b, c1, st1)"
      by (simp add: AddSchedPolicy_def)
    have "policy \<in> fst ` set (fullNames st0)" using assms(2) grows_same[OF s0(1)] by simp
    from AddThreadGroupSchedPolicy_ok[OF s0(2) this r] grows_trans[OF s0(1)] show ?thesis by blast
  qed
qed

lemma fold_keys: "fst ` set (fold (\<lambda>p. om_put p v) ks m) = set ks \<union> fst ` set m"
  by (induction ks arbitrary: m) auto

lemma fold_put_om: "om_ok m \<Longrightarrow> om_ok (fold (\<lambda>p. om_put p v) ks m)"
  by (induction ks arbitrary: m) auto

lemma fold_put_vals: "snd ` set (fold (\<lambda>p. om_put p v) ks m) \<subseteq> insert v (snd ` set m)"
proof (induction ks arbitrary: m)
  case Nil
  then show ?case by auto
next
  case (Cons k ks)
  from Cons[of "om_put k v m"] om_put_vals[of k v m]
  have "snd ` set (fold (\<lambda>p. om_put p v) ks (om_put k v m)) \<subseteq> insert v (insert v (snd ` set m))"
    by (rule subset_trans[OF _ insert_mono])
  then show ?case by simp
qed

lemma CgroupController_ok: "ctl_ok E st (CgroupController name path st)"
proof -
  let ?m = "fold (\<lambda>p. om_put p (- 1)) (GetSchedPolicyList st) []"
  have "fds_ok E leaf st ?m" for leaf
    using fold_put_om[of "[]"] fold_put_vals[of "- 1" "GetSchedPolicyList st" "[]"] fold_keys[of "- 1" "GetSchedPolicyList st" "[]"]
    by (auto simp: fds_ok_def GetSchedPolicyList_def)
  then show ?thesis by (simp add: ctl_ok_def CgroupController_def)
qed

lemma fold_members:
  "(\<And>x s. x \<in> set xs \<Longrightarrow> P s \<Longrightarrow> P (f x s)) \<Longrightarrow> P s \<Longrightarrow> P (fold f xs s)"
  by (induction xs arbitrary: s) auto

lemma load_policy_ok:
  assumes "policy \<in> fst ` set (fullNames st)" "ctl_ok E st c" "load_policy E policyObj policy (n, c, st) = (n1, c1, st1)"
  shows "grows st st1 \<and> ctl_ok E st1 c1"
  using assms AddSchedPolicy_ok[OF assms(2,1)]
  by (auto simp: load_policy_def Let_def split: option.splits json.splits prod.splits if_splits)

lemma LoadSchedPolicyConfig_ok:
  assumes "ctl_ok E st c" "LoadSchedPolicyConfig E policyObj (c, st) = (b, c1, st1)"
  shows "grows st st1 \<and> ctl_ok E st1 c1"
proof -
  let ?P = "\<lambda>(n :: nat, c', st'). grows st st' \<and> ctl_ok E st' c'"
  have "?P (fold (load_policy E policyObj) (GetSchedPolicyList st) (0, c, st))"
  proof (rule fold_members)
    fix policy and s :: "nat \<times> ctl \<times> pg_state"
    assume p: "policy \<in> set (GetSchedPolicyList st)" and s: "?P s"
    obtain n c' st' where e: "s = (n, c', st')" by (cases s) auto
    obtain n1 c1 st1 where r: "load_policy E policyObj policy s = (n1, c1, st1)"
      by (cases "load_policy E policyObj policy s") auto
    have "policy \<in> fst ` set (fullNames st')"
      using p s grows_same[of st st'] by (simp add: e GetSchedPolicyList_def)
    then show "?P (load_policy E policyObj policy s)"
      using s r load_policy_ok[of policy st' E c' policyObj n n1 c1 st1] grows_trans[of st st'] by (auto simp: e)
  qed (use assms(1) in simp)
  then show ?thesis
    using assms by (auto simp: LoadSchedPolicyConfig_def split: json.splits prod.splits)
qed

section \<open>Preservation\<close>

lemma fd_ok_cong: "pg_opened st' = pg_opened st \<Longrightarrow> fd_ok E leaf st' fd = fd_ok E leaf st fd"
  by (simp add: fd_ok_def)

lemma write_ok_cong: "pg_opened st' = pg_opened st \<Longrightarrow> write_ok E st' w = write_ok E st w"
  using fd_ok_cong unfolding write_ok_def by blast

lemma ctl_ok_cong:
  "pg_opened st' = pg_opened st \<Longrightarrow> fullNames st' = fullNames st \<Longrightarrow> ctl_ok E st' c = ctl_ok E st c"
  using fd_ok_cong[of st' st E] unfolding ctl_ok_def fds_ok_def by auto

text \<open>What a change of the remaining fields leaves well-formed.\<close>

lemma pg_ok_frame:
  assumes "pg_ok E st" "pg_opened st' = pg_opened st" "fullNames st' = fullNames st" "abbrNames st' = abbrNames st"
    and "controllers st' = controllers st" "allowToAdd st' \<longrightarrow> allowToAdd st"
    and "set (pg_writes st') \<subseteq> set (pg_writes st) \<union> {w. write_ok E st w}"
  shows "pg_ok E st'"
proof -
  have "\<forall>(n, c) \<in> set (controllers st'). ctl_ok E st' c"
    using assms(1,5) ctl_ok_cong[OF assms(2,3)] by (simp add: pg_ok_def)
  moreover have "\<forall>w \<in> set (pg_writes st'). write_ok E st' w"
    using assms(1,7) write_ok_cong[OF assms(2)] by (auto simp: pg_ok_def)
  ultimately show ?thesis using assms by (auto simp: pg_ok_def names_ok_def)
qed

lemma pg_ok_statics [simp]:
  "pg_ok E (st\<lparr>action_enable := b\<rparr>) = pg_ok E st" "pg_ok E (st\<lparr>controller_enabled := b\<rparr>) = pg_ok E st"
  by (simp_all add: pg_ok_def names_ok_def ctl_ok_def fds_ok_def write_ok_def fd_ok_def)

lemma pg_ok_put:
  assumes "pg_ok E st" "ctl_ok E st c" "\<not> allowToAdd st"
  shows "pg_ok E (st\<lparr>controllers := om_put name c (controllers st)\<rparr>)" (is "pg_ok E ?st")
proof -
  have "\<forall>(n, d) \<in> insert (name, c) (set (controllers st)). ctl_ok E ?st d"
    using assms(1,2) ctl_ok_cong[of ?st st E] by (simp add: pg_ok_def)
  then have "\<forall>(n, d) \<in> set (om_put name c (controllers st)). ctl_ok E ?st d"
    using om_put_subset[of name c "controllers st"] by blast
  then show ?thesis using assms(1,3) write_ok_cong[of ?st st E] by (simp add: pg_ok_def names_ok_def)
qed

lemma om_put_fst: "map fst m = map fst m' \<Longrightarrow> map fst (om_put k v m) = map fst (om_put k w m')"
proof (induction k v m arbitrary: m' rule: om_put.induct)
  case (1 k v)
  then show ?case by simp
next
  case (2 k v a b m)
  then obtain b' n where "m' = (a, b') # n" "map fst m = map fst n" by (cases m') auto
  with 2 show ?case by auto
qed

lemma om_put_distinct:
  "map_of m k = None \<Longrightarrow> distinct (map snd m) \<Longrightarrow> v \<notin> snd ` set m \<Longrightarrow> distinct (map snd (om_put k v m))"
proof (induction k v m rule: om_put.induct)
  case (1 k v)
  then show ?case by simp
next
  case (2 k v a b m)
  then show ?case using om_put_vals[of k v m] by (auto split: if_splits)
qed

lemma AddSchedPolicyDeclaration_ok:
  assumes "pg_ok E st"
  shows "pg_ok E (AddSchedPolicyDeclaration policy fullName abbrName st)"
proof -
  let ?st = "st\<lparr>fullNames := om_put policy fullName (fullNames st), abbrNames := om_put policy abbrName (abbrNames st)\<rparr>"
  have "pg_ok E ?st"
    if "allowToAdd st" "map_of (fullNames st) policy = None" "\<not> list_ex (\<lambda>kv. snd kv = fullName) (fullNames st)"
  proof -
    have "fullName \<notin> snd ` set (fullNames st)" using that(3) by (auto simp: list_ex_iff)
    then have "names_ok ?st"
      using assms that(2) om_put_distinct[of "fullNames st" policy fullName]
        om_put_fst[of "fullNames st" "abbrNames st" policy fullName abbrName]
      by (simp add: pg_ok_def names_ok_def)
    moreover have "controllers st = []" using assms that(1) by (auto simp: pg_ok_def)
    ultimately show ?thesis using assms write_ok_cong[of ?st st E] by (simp add: pg_ok_def)
  qed
  then show ?thesis using assms by (simp add: AddSchedPolicyDeclaration_def)
qed

lemma pg_new_ok: "pg_ok E pg_new"
proof -
  have "pg_ok E \<lparr>allowToAdd = True, fullNames = [], abbrNames = [], action_enable = None, controllers = [],
      controller_enabled = None, pg_opened = [], pg_writes = []\<rparr>"
    by (simp add: pg_ok_def names_ok_def)
  then show ?thesis unfolding pg_new_def by (intro AddSchedPolicyDeclaration_ok)
qed

lemma load_cgroup_ok:
  assumes "pg_ok E st" "\<not> allowToAdd st" "load_cgroup E j (n, st) = (n1, st1)"
  shows "pg_ok E st1 \<and> \<not> allowToAdd st1 \<and> fullNames st1 = fullNames st"
proof -
  let ?name = "str_member JSON_KEY_CONTROLLER j" and ?ps = "the (member JSON_KEY_SCHED_POLICY j)"
  define c where "c = (case map_of (controllers st) ?name of Some c \<Rightarrow> c
    | None \<Rightarrow> CgroupController ?name (str_member JSON_KEY_PATH j) st)"
  have "ctl_ok E st c"
    using assms(1) CgroupController_ok by (auto simp: c_def pg_ok_def dest: map_of_SomeD split: option.split)
  moreover obtain b c1 s1 where r: "LoadSchedPolicyConfig E ?ps (c, st) = (b, c1, s1)"
    by (cases "LoadSchedPolicyConfig E ?ps (c, st)") auto
  ultimately have g: "grows st s1" "ctl_ok E s1 c1" using LoadSchedPolicyConfig_ok by blast+
  have s1: "pg_ok E s1" "\<not> allowToAdd s1" "fullNames s1 = fullNames st"
    using pg_ok_grows[OF assms(1) g(1)] grows_same[OF g(1)] assms(2) by auto
  then have put: "pg_ok E (s1\<lparr>controllers := om_put ?name c1 (controllers s1)\<rparr>)" using pg_ok_put g(2) by blast
  have "st1 = st \<or> st1 = s1 \<or> st1 = s1\<lparr>controllers := om_put ?name c1 (controllers s1)\<rparr>"
    using assms(3) r
    by (auto simp: load_cgroup_def c_def AddCgroupController_def Let_def split: if_splits option.splits)
  then show ?thesis using assms(1,2) s1 put by auto
qed

lemma LoadConfigFromJsonObj_ok:
  assumes "pg_ok E st" "\<not> allowToAdd st" "LoadConfigFromJsonObj E j st = (b, st1)"
  shows "pg_ok E st1 \<and> \<not> allowToAdd st1 \<and> fullNames st1 = fullNames st"
proof -
  let ?P = "\<lambda>s :: nat \<times> pg_state. pg_ok E (snd s) \<and> \<not> allowToAdd (snd s) \<and> fullNames (snd s) = fullNames st"
  have all: "?P (fold (load_cgroup E) items (0, st))" for items
  proof (rule fold_inv)
    fix x and s :: "nat \<times> pg_state"
    assume "?P s"
    then show "?P (load_cgroup E x s)"
      using load_cgroup_ok[of E "snd s" x "fst s"] by (cases "load_cgroup E x s") auto
  qed (use assms in simp)
  have "st1 = st \<or> (\<exists>items. st1 = snd (fold (load_cgroup E) items (0, st)))"
    using assms(3) by (auto simp: LoadConfigFromJsonObj_def split: option.splits json.splits prod.splits) (metis snd_conv)+
  with all assms(1,2) show ?thesis by blast
qed

lemma LoadConfigFile_ok:
  assumes "pg_ok E st" "\<not> allowToAdd st" "LoadConfigFile E st = (b, st1)"
  shows "pg_ok E st1 \<and> \<not> allowToAdd st1 \<and> fullNames st1 = fullNames st"
proof -
  let ?f = "\<lambda>root (ret, st). case LoadConfigFromJsonObj E root st of (b, st1) \<Rightarrow> (ret \<or> b, st1)"
  let ?P = "\<lambda>s :: bool \<times> pg_state. pg_ok E (snd s) \<and> \<not> allowToAdd (snd s) \<and> fullNames (snd s) = fullNames st"
  have "?P (fold ?f roots (False, st))" for roots
  proof (rule fold_inv)
    fix x and s :: "bool \<times> pg_state"
    assume "?P s"
    then show "?P (?f x s)"
      using LoadConfigFromJsonObj_ok[of E "snd s" x] by (auto split: prod.splits)
  qed (use assms in simp)
  from this[of "snd (ParseConfigFileToJsonObj E)"] assms show ?thesis
    by (cases "ParseConfigFileToJsonObj E") (auto simp: LoadConfigFile_def split: if_splits)
qed

lemma act_IsEnabled_ok:
  assumes "pg_ok E st" "act_IsEnabled E st = (b, st1)"
  shows "pg_ok E st1 \<and> fullNames st1 = fullNames st"
proof -
  let ?s = "st\<lparr>allowToAdd := False\<rparr>"
  have s: "pg_ok E ?s" "\<not> allowToAdd ?s" by (rule pg_ok_frame[OF assms(1)]) auto
  obtain b2 s2 where l: "LoadConfigFile E ?s = (b2, s2)" by (cases "LoadConfigFile E ?s")
  have "pg_ok E s2" "fullNames s2 = fullNames st" using LoadConfigFile_ok[OF s l] by simp_all
  then show ?thesis using assms(2) s l by (auto simp: act_IsEnabled_def Let_def split: option.splits)
qed

lemma ctl_IsEnabled_ok: "pg_ok E st \<Longrightarrow> ctl_IsEnabled E c st = (b, st1) \<Longrightarrow> pg_ok E st1"
  by (auto simp: ctl_IsEnabled_def Let_def split: option.splits)

lemma FindAllEnableCgroupControllers_ok:
  assumes "pg_ok E st"
  shows "pg_ok E (snd (FindAllEnableCgroupControllers E st))"
proof -
  let ?f = "\<lambda>(name, c) (l, st). case ctl_IsEnabled E c st of (b, st1) \<Rightarrow> (if b then l @ [c] else l, st1)"
  have "pg_ok E (snd (fold ?f cs (l, st)))" for cs l
    using assms
  proof (induction cs arbitrary: l st)
    case (Cons nc cs)
    obtain n c where nc: "nc = (n, c)" by (cases nc)
    obtain b s where e: "ctl_IsEnabled E c st = (b, s)" by (cases "ctl_IsEnabled E c st")
    then show ?case using Cons.IH[of s] ctl_IsEnabled_ok[OF Cons.prems e] by (simp add: nc e)
  qed simp
  then show ?thesis by (simp add: FindAllEnableCgroupControllers_def)
qed

section \<open>Setting a policy\<close>

lemma fds_ok_at:
  assumes "fds_ok E leaf st m" "policy \<in> fst ` set (fullNames st)"
  shows "\<exists>fd. map_of m policy = Some fd \<and> (fd = - 1 \<or> fd_ok E leaf st fd)"
proof -
  have "policy \<in> fst ` set m" using assms by (simp add: fds_ok_def)
  then obtain fd where "(policy, fd) \<in> set m" by force
  moreover have "om_ok m" using assms by (simp add: fds_ok_def)
  ultimately show ?thesis using assms(1) om_ok_map_of[of m policy fd] by (auto simp: fds_ok_def)
qed

text \<open>The descriptor a controller writes to, and that looking it up changes nothing.\<close>

definition ctl_fd :: "bool \<Rightarrow> sched_policy \<Rightarrow> ctl \<Rightarrow> int" where
  "ctl_fd grp policy c = fd_at policy (if grp then ct_proc c else ct_task c)"

lemma ctl_fd_ok:
  assumes "ctl_ok E st c" "policy \<in> fst ` set (fullNames st)"
  shows "touch_fd grp policy c = c"
    and "ctl_fd grp policy c = - 1 \<or> fd_ok E (if grp then ''/cgroup.procs'' else ''/tasks'') st (ctl_fd grp policy c)"
proof -
  have t: "fds_ok E ''/tasks'' st (ct_task c)" "fds_ok E ''/cgroup.procs'' st (ct_proc c)"
    using assms(1) by (simp_all add: ctl_ok_def)
  then have "om_ok (ct_task c)" "om_ok (ct_proc c)" by (simp_all add: fds_ok_def)
  then show "touch_fd grp policy c = c"
    using fds_ok_at[OF t(1) assms(2)] fds_ok_at[OF t(2) assms(2)]
    by (auto simp: touch_fd_def fd_at_def om_put_same)
  show "ctl_fd grp policy c = - 1 \<or> fd_ok E (if grp then ''/cgroup.procs'' else ''/tasks'') st (ctl_fd grp policy c)"
    using fds_ok_at[OF t(1) assms(2)] fds_ok_at[OF t(2) assms(2)] by (auto simp: ctl_fd_def fd_at_def)
qed

text \<open>One controller of the loop: its descriptor is written when it has one.\<close>

lemma set_one_eq:
  assumes "pg_ok E st" "policy \<in> fst ` set (fullNames st)" "map_of (controllers st) name = Some c"
  shows "set_one E tid policy grp name st =
    (case ctl_IsEnabled E c st of (b, st1) \<Rightarrow>
       st1\<lparr>pg_writes := pg_writes st1 @
         (if b \<and> ctl_fd grp policy c \<noteq> - 1 then [(ctl_fd grp policy c, to_string tid)] else [])\<rparr>)"
proof -
  obtain b st1 where e: "ctl_IsEnabled E c st = (b, st1)" by (cases "ctl_IsEnabled E c st")
  then have st1: "controllers st1 = controllers st" "pg_opened st1 = pg_opened st"
    by (auto simp: ctl_IsEnabled_def Let_def split: option.splits)
  have om: "om_ok (controllers st)" and c: "ctl_ok E st c"
    using assms by (auto simp: pg_ok_def dest: map_of_SomeD)
  note fd = ctl_fd_ok[OF c assms(2), of grp]
  then have neg: "ctl_fd grp policy c < 0 \<longleftrightarrow> ctl_fd grp policy c = - 1" by (auto simp: fd_ok_def)
  have same: "om_put name c (controllers st1) = controllers st1"
    using st1(1) om_put_same[OF om assms(3)] by simp
  show ?thesis
    using e neg fd(1) assms(3) same
    by (auto simp: set_one_def ctl_SetThreadSchedPolicy_def ctl_fd_def[symmetric] AddTidToCgroup_def Let_def
        split: write_result.split)
qed

lemma set_one_ok:
  assumes "pg_ok E st" "policy \<in> fst ` set (fullNames st)" "0 < tid"
  shows "pg_ok E (set_one E tid policy grp name st) \<and> fullNames (set_one E tid policy grp name st) = fullNames st"
proof (cases "map_of (controllers st) name")
  case None
  with assms show ?thesis by (simp add: set_one_def)
next
  case (Some c)
  obtain b st1 where e: "ctl_IsEnabled E c st = (b, st1)" by (cases "ctl_IsEnabled E c st")
  then have st1: "fullNames st1 = fullNames st" "pg_opened st1 = pg_opened st" "pg_ok E st1"
    using ctl_IsEnabled_ok[OF assms(1)] by (auto simp: ctl_IsEnabled_def Let_def split: option.splits)
  have c: "ctl_ok E st1 c"
    using assms(1) Some ctl_ok_cong[OF st1(2,1)] by (auto simp: pg_ok_def dest: map_of_SomeD)
  have pol: "policy \<in> fst ` set (fullNames st1)" using assms(2) st1(1) by simp
  have w: "write_ok E st1 (ctl_fd grp policy c, to_string tid)" if "ctl_fd grp policy c \<noteq> - 1"
    using that ctl_fd_ok(2)[OF c pol, of grp] assms(3) by (auto simp: write_ok_def split: if_splits)
  have "pg_ok E (st1\<lparr>pg_writes := pg_writes st1 @
      (if b \<and> ctl_fd grp policy c \<noteq> - 1 then [(ctl_fd grp policy c, to_string tid)] else [])\<rparr>)"
    by (rule pg_ok_frame[OF st1(3)]) (use w in auto)
  then show ?thesis using e st1(1) by (simp add: set_one_eq[OF assms(1,2) Some])
qed

lemma map_SetThreadSchedPolicy_ok:
  assumes "pg_ok E st" "policy \<in> fst ` set (fullNames st)" "0 < tid"
  shows "pg_ok E (snd (map_SetThreadSchedPolicy E tid policy grp st))"
proof -
  let ?P = "\<lambda>s. pg_ok E s \<and> fullNames s = fullNames st"
  have "?P (fold (set_one E tid policy grp) names st)" for names
    by (rule fold_inv) (use set_one_ok assms in simp_all)
  then show ?thesis by (simp add: map_SetThreadSchedPolicy_def)
qed

lemma set_sched_policy_ok:
  assumes "pg_ok E st"
  shows "pg_ok E (snd (set_sched_policy E tid p grp t st))"
proof -
  obtain b st1 where e: "act_IsEnabled E st = (b, st1)" by (cases "act_IsEnabled E st")
  note st1 = act_IsEnabled_ok[OF assms e]
  have "pg_ok E (snd (act_SetPolicy E tid policy grp st))" if "0 < tid" for policy
  proof (cases "IsSchedPolicyValid policy st")
    case True
    then have "policy \<in> fst ` set (fullNames st1)"
      using st1 by (auto simp: IsSchedPolicyValid_def map_of_eq_None_iff)
    then show ?thesis
      using that e st1 True map_SetThreadSchedPolicy_ok[of E st1 policy tid grp] by (simp add: act_SetPolicy_def)
  qed (simp add: act_SetPolicy_def assms)
  then show ?thesis using assms by (auto simp: set_sched_policy_def split: prod.split) (metis snd_conv)
qed

lemma GetThreadSchedPolicy_ok:
  assumes "pg_ok E st" "GetThreadSchedPolicy E tid st = Some (r, st')"
  shows "pg_ok E st'"
proof -
  obtain b st1 where e: "act_IsEnabled E st = (b, st1)" by (cases "act_IsEnabled E st")
  obtain cs st2 where f: "FindAllEnableCgroupControllers E st1 = (cs, st2)"
    by (cases "FindAllEnableCgroupControllers E st1")
  have st1: "pg_ok E st1" using act_IsEnabled_ok[OF assms(1) e] by simp
  with f have st2: "pg_ok E st2" using FindAllEnableCgroupControllers_ok[of E st1] by simp
  show ?thesis
    using assms e f st1 st2
    by (auto simp: GetThreadSchedPolicy_def act_GetSchedPolicy_def split: if_splits option.splits)
qed

lemma pg_reachable_ok: "pg_reachable E st \<Longrightarrow> pg_ok E st"
proof (induction rule: pg_reachable.induct)
  case start
  then show ?case by (rule pg_new_ok)
next
  case (step st st')
  from step(2) step(3) show ?case
    by (cases rule: pg_step.cases)
      (auto simp: SetThreadSchedPolicy_def SetThreadGroupSchedPolicy_def
        intro: AddSchedPolicyDeclaration_ok set_sched_policy_ok GetThreadSchedPolicy_ok)
qed

section \<open>Properties\<close>

text \<open>
  Whatever is declared, set and queried, every write of the library goes to a descriptor it has
  opened itself on a file named \<open>tasks\<close> or \<open>cgroup.procs\<close> of a configured path, never to the
  descriptor 0 that \<open>operator[]\<close> makes up for a policy without an entry; and it writes a
  positive identifier in decimal.
\<close>

theorem writes_go_to_group_files:
  assumes "pg_reachable E st" "(fd, text) \<in> set (pg_writes st)"
  shows "\<exists>leaf \<in> {''/tasks'', ''/cgroup.procs''}. \<exists>p tid. 3 \<le> fd \<and> fd < 3 + int (length (pg_opened st)) \<and>
    pg_path_real E (StringPrintf E (p @ leaf)) = Some (pg_opened st ! nat (fd - 3)) \<and>
    0 < tid \<and> text = to_string tid"
proof -
  have "write_ok E st (fd, text)" using pg_reachable_ok[OF assms(1)] assms(2) by (auto simp: pg_ok_def)
  then show ?thesis unfolding write_ok_def fd_ok_def by auto
qed

lemma set_one_enabled:
  assumes "pg_ok E st" "policy \<in> fst ` set (fullNames st)" "controller_enabled st = Some True"
    and "(name, c) \<in> set (controllers st)"
  shows "set_one E tid policy grp name st = st\<lparr>pg_writes := pg_writes st @
    (if ctl_fd grp policy c \<noteq> - 1 then [(ctl_fd grp policy c, to_string tid)] else [])\<rparr>"
proof -
  have "map_of (controllers st) name = Some c" using assms(1,4) om_ok_map_of[of "controllers st" name c] by (simp add: pg_ok_def)
  with set_one_eq[OF assms(1,2)] assms(3) show ?thesis by (simp add: ctl_IsEnabled_def)
qed

lemma set_all_enabled:
  assumes "pg_ok E st" "policy \<in> fst ` set (fullNames st)" "controller_enabled st = Some True" "0 < tid"
    and "set cs \<subseteq> set (controllers st)"
  shows "fold (set_one E tid policy grp) (map fst cs) st = st\<lparr>pg_writes := pg_writes st @
    map (\<lambda>(n, c). (ctl_fd grp policy c, to_string tid)) (filter (\<lambda>(n, c). ctl_fd grp policy c \<noteq> - 1) cs)\<rparr>"
  using assms
proof (induction cs arbitrary: st)
  case (Cons nc cs)
  obtain n c where nc: "nc = (n, c)" by (cases nc)
  let ?s = "set_one E tid policy grp n st"
  have s: "?s = st\<lparr>pg_writes := pg_writes st @
      (if ctl_fd grp policy c \<noteq> - 1 then [(ctl_fd grp policy c, to_string tid)] else [])\<rparr>"
    using Cons.prems by (intro set_one_enabled) (simp_all add: nc)
  have "pg_ok E ?s" using set_one_ok Cons.prems by blast
  then show ?case using Cons.IH[of ?s] Cons.prems by (simp add: s nc)
qed simp

text \<open>
  Once the configuration is loaded and the controllers are enabled, moving a process to a
  declared group writes its identifier to the \<open>cgroup.procs\<close> descriptor of every controller
  that has one for the group, in the order of the controllers' names, and reports success
  whatever the kernel answers; otherwise nothing changes but that no group can be declared any more.
\<close>

theorem process_policy_written:
  assumes "pg_reachable E st" "action_enable st = Some True" "controller_enabled st = Some True"
    and "0 < pid" "IsSchedPolicyValid (of_int policy) st" "\<not> pg_by_executor E"
  shows "SetThreadGroupSchedPolicy E pid policy st =
    (0, st\<lparr>allowToAdd := False, pg_writes := pg_writes st @
        map (\<lambda>(n, c). (fd_at (of_int policy) (ct_proc c), to_string pid))
          (filter (\<lambda>(n, c). fd_at (of_int policy) (ct_proc c) \<noteq> - 1) (controllers st))\<rparr>)"
proof -
  let ?s = "st\<lparr>allowToAdd := False\<rparr>"
  have "pg_ok E ?s" by (rule pg_ok_frame[OF pg_reachable_ok[OF assms(1)]]) auto
  moreover have "of_int policy \<in> fst ` set (fullNames ?s)"
    using assms(5) by (auto simp: IsSchedPolicyValid_def map_of_eq_None_iff)
  ultimately have "fold (set_one E pid (of_int policy) True) (map fst (controllers ?s)) ?s =
      ?s\<lparr>pg_writes := pg_writes ?s @
        map (\<lambda>(n, c). (ctl_fd True (of_int policy) c, to_string pid))
          (filter (\<lambda>(n, c). ctl_fd True (of_int policy) c \<noteq> - 1) (controllers ?s))\<rparr>"
    using assms(3,4) by (intro set_all_enabled) simp_all
  then show ?thesis
    using assms
    by (simp add: SetThreadGroupSchedPolicy_def set_sched_policy_def act_SetPolicy_def act_IsEnabled_def
        map_SetThreadSchedPolicy_def ctl_fd_def)
qed

text \<open>The full names identify the policies.\<close>

lemma policy_by_full_name:
  assumes "pg_reachable E st" "map_of (fullNames st) p = Some n" "c_str n = n"
  shows "GetSchedPolicyByName (GetSchedPolicyFullName p st) st = (0, p)"
proof -
  have d: "distinct (map snd (fullNames st))"
    using pg_reachable_ok[OF assms(1)] by (simp add: pg_ok_def names_ok_def)
  have m: "(p, n) \<in> set (fullNames st)" using assms(2) by (rule map_of_SomeD)
  then have "find (\<lambda>kv. snd kv = n) (fullNames st) \<noteq> None" by (auto simp: find_None_iff)
  then obtain q where q: "find (\<lambda>kv. snd kv = n) (fullNames st) = Some q" by blast
  then have "q \<in> set (fullNames st)" "snd q = n" using find_SomeD by fast+
  then have "q = (p, n)" using m d by (metis (no_types, lifting) distinct_map inj_onD snd_conv)
  with q show ?thesis using assms(2,3) by (simp add: GetSchedPolicyByName_def GetSchedPolicyFullName_def)
qed

subsection \<open>Two controllers, of which one has no file for the top group\<close>

definition demo_cgroups :: json where
  "demo_cgroups = JObj [(JSON_KEY_CGROUPS, JArr
     [JObj [(JSON_KEY_CONTROLLER, JStr ''cpu''), (JSON_KEY_PATH, JStr ''/dev/cpuctl''),
        (JSON_KEY_SCHED_POLICY, JObj [(''sp_default'', JStr []), (''sp_top_app'', JStr ''top-app'')])],
      JObj [(JSON_KEY_CONTROLLER, JStr ''cpuset''), (JSON_KEY_PATH, JStr ''/dev/cpuset''),
        (JSON_KEY_SCHED_POLICY, JObj [(''sp_default'', JStr [])])]])]"

definition demo_pg :: pg_env where
  "demo_pg = \<lparr>pg_cfg_files = Some [Some ''/c''], pg_cfg_real = Some, pg_load_json = (\<lambda>f. Some demo_cgroups),
     pg_path_real = Some, pg_access = (\<lambda>p. True), pg_open = (\<lambda>p. True),
     pg_write = (\<lambda>fd t. Written (length t)), pg_vsnprintf = (\<lambda>size n t. (int (length t), t)),
     pg_exe = (\<lambda>t p. (0, JNull)), pg_by_executor = False\<rparr>"

definition demo_first :: pg_state where "demo_first = snd (SetThreadGroupSchedPolicy demo_pg 77 4 pg_new)"

lemma demo_first_reachable: "pg_reachable demo_pg demo_first"
  unfolding demo_first_def by (rule pg_reachable.step[OF pg_reachable.start pg_step.process])

lemma demo_first_facts:
  "action_enable demo_first = Some True \<and> controller_enabled demo_first = Some True \<and>
   pg_opened demo_first = [''/dev/cpuctl/tasks'', ''/dev/cpuctl/cgroup.procs'', ''/dev/cpuctl/top-app/tasks'',
     ''/dev/cpuctl/top-app/cgroup.procs'', ''/dev/cpuset/tasks'', ''/dev/cpuset/cgroup.procs''] \<and>
   pg_writes demo_first = [(6, ''77'')] \<and> IsSchedPolicyValid 0 demo_first \<and>
   map (\<lambda>(n, c). (n, fd_at 0 (ct_proc c))) (controllers demo_first) = [(''cpu'', 4), (''cpuset'', 8)]"
  by code_simp

theorem writes_go_to_group_files_witness:
  "\<exists>leaf \<in> {''/tasks'', ''/cgroup.procs''}. \<exists>p tid. 0 < tid \<and> ''77'' = to_string tid \<and>
     pg_path_real demo_pg (StringPrintf demo_pg (p @ leaf)) = Some ''/dev/cpuctl/top-app/cgroup.procs''"
  using writes_go_to_group_files[OF demo_first_reachable, of 6 "''77''"] demo_first_facts by auto

theorem process_policy_written_witness:
  "fst (SetThreadGroupSchedPolicy demo_pg 78 0 demo_first) = 0 \<and>
   length (pg_writes (snd (SetThreadGroupSchedPolicy demo_pg 78 0 demo_first))) = 3"
proof -
  have l: "length (filter (\<lambda>(n, c). fd_at 0 (ct_proc c) \<noteq> - 1) (controllers demo_first)) = 2"
    by code_simp
  show ?thesis
    using process_policy_written[OF demo_first_reachable, of 78 0] demo_first_facts l
    by (simp add: demo_pg_def)
qed

end
