(* ===== verification/Executor_Props.thy ===== *)
theory Executor_Props
  imports Executor_Model Process_Group_Props
begin

text \<open>
  Properties of the executor and its client: the initialisation message that is cut into parts
  and put together again, what happens to it when a part is lost, the group requests that go
  through the executor, and the requests that never get there.
\<close>

section \<open>Messages in parts\<close>

lemma concat_batches: "concat (batches s) = s"
proof (induction s rule: batches.induct)
  case (1 s)
  then show ?case by (subst batches.simps) simp
qed

lemma length_batches: "length (batches s) \<le> length s"
proof (induction s rule: batches.induct)
  case (1 s)
  show ?case
  proof (cases "s = []")
    case False
    then obtain n where n: "length s = Suc n" by (cases s) auto
    show ?thesis using 1[OF False] by (subst batches.simps) (simp add: False n IPC_BATCHES_SIZE_def)
  qed (subst batches.simps, simp)
qed

text \<open>What a receiver makes of a sent value.\<close>

definition sends :: "xc_env \<Rightarrow> json \<Rightarrow> json option" where
  "sends C j = Option.bind (Marshalling (xe_dump C) j) (Unmarshalling (xe_parse C))"

text \<open>A part of a message comes through: its members are read back as they were written.\<close>

definition part_arrives :: "xc_env \<Rightarrow> nat \<Rightarrow> nat \<Rightarrow> string \<Rightarrow> bool" where
  "part_arrives C n i msg \<longleftrightarrow>
     (\<exists>j. sends C (ipc_part n i msg) = Some j \<and> json_size j \<le> EXE_PAYLOAD_MAX_SIZE \<and>
          batch_part (xe_exe C) j = Some (int i, int n, msg))"

definition empty_reply :: json where
  "empty_reply = JObj [(''retCode'', JStr (to_string RSSEXE_REPLY_EMPTY))]"

lemma init_request:
  assumes "xe_uid C = RSS_UID" "xc_proxy st \<or> xc_available st" "sends C ctx = Some j"
    and "json_size j \<le> EXE_PAYLOAD_MAX_SIZE" "sends C empty_reply \<noteq> None"
    and "InitPluginMgrPretreatment (xe_exe C) j (xc_exe st) = Some x"
  shows "\<exists>r. SendRequestInner C now True RES_TYPE_EXECUTOR_PLUGIN_INIT value ctx reply st =
    Some (RSSEXE_NO_ERR, r, st\<lparr>xc_proxy := True, xc_exe := x\<rparr>)"
proof -
  have conn: "TryConnect st = (RSSEXE_NO_ERR, st\<lparr>xc_proxy := True\<rparr>)"
    using assms(2) by (cases st) (auto simp: TryConnect_def)
  have check: "check_request (xe_exe C) (xe_uid C) RES_TYPE_EXECUTOR_PLUGIN_INIT j = Inr RES_TYPE_EXECUTOR_PLUGIN_INIT"
    using assms(1,4)
    by (simp add: check_request_def IsCallingClientRss_def IsTypeVaild_def GetExtResType_def EXE_RES_TYPE_FIRST_def
        EXE_RES_TYPE_LAST_def RES_TYPE_EXECUTOR_PLUGIN_INIT_def RES_TYPE_COMMON_SYNC_def RES_TYPE_COMMON_ASYNC_def)
  have "exe_SendRequestSync (xe_exe C) (xe_uid C) now RES_TYPE_EXECUTOR_PLUGIN_INIT value j (xc_exe st) =
      Some (EXE_OK, Some (empty_reply, RSSEXE_NO_ERR), x)"
    using assms(6)
    by (simp add: exe_SendRequestSync_def check mgr_SendRequestSync_def json_empty_def assign_member_def empty_reply_def)
  then show ?thesis
    using assms(3,5) conn by (auto simp: SendRequestInner_def sends_def[symmetric])
qed

text \<open>The executor after the parts from \<open>k\<close> on, the earlier ones being stored.\<close>

definition stored :: "string list \<Rightarrow> (int, string) omap" where
  "stored ms = zip (map int [0..<length ms]) ms"

lemma stored_snoc: "stored (ms @ [m]) = stored ms @ [(int (length ms), m)]"
  by (simp add: stored_def)

lemma stored_keys: "fst ` set (stored ms) = int ` {..<length ms}"
proof -
  have "map fst (stored ms) = map int [0..<length ms]" by (simp add: stored_def)
  then have "set (map fst (stored ms)) = set (map int [0..<length ms])" by (rule arg_cong)
  then show ?thesis by (simp add: atLeast0LessThan)
qed

lemma om_put_append:
  "(\<And>k'. k' \<in> fst ` set m \<Longrightarrow> k' < k) \<Longrightarrow> om_put k v m = m @ [(k, v)]"
  by (induction k v m rule: om_put.induct) fastforce+

lemma stored_put: "om_insert (int (length ms)) m (stored ms) = stored (ms @ [m])"
proof -
  have "map_of (stored ms) (int (length ms)) = None"
    using stored_keys[of ms] by (simp add: map_of_eq_None_iff image_iff)
  moreover have "om_put (int (length ms)) m (stored ms) = stored ms @ [(int (length ms), m)]"
    by (rule om_put_append) (use stored_keys[of ms] in auto)
  ultimately show ?thesis by (simp add: om_insert_def stored_snoc)
qed

lemma stored_text: "concat (map snd (stored ms)) = concat ms"
  by (simp add: stored_def)

lemma batch_step:
  assumes "batch_part E j = Some (int (length ms), int n, m)" "\<not> ex_isInit x" "ex_ipcMessage x = stored ms"
    and "ex_ipcNumber x = int (length ms)" "length ms < n" "n < 2147483648"
  shows "InitPluginMgrPretreatment E j x =
    (let x1 = x\<lparr>ex_ipcMessage := stored (ms @ [m]), ex_ipcNumber := int (length (ms @ [m]))\<rparr>
     in if length (ms @ [m]) = n
        then map_option (\<lambda>x2. x2\<lparr>ex_ipcNumber := 0, ex_ipcMessage := []\<rparr>)
          (InitPluginMgr E (case StringToJson (ee_parse E) (concat (ms @ [m])) of Some j \<Rightarrow> j | None \<Rightarrow> JNull) x1)
        else Some x1)"
proof -
  have "wrap_s32 (int (length ms) + 1) = int (length (ms @ [m]))"
    using assms(5,6) by (simp add: wrap_s32_id)
  then show ?thesis
    using assms(1-4) stored_text[of "ms @ [m]"]
    by (auto simp: InitPluginMgrPretreatment_def stored_put Let_def simp del: concat_append map_append)
qed

text \<open>Starting the plugin manager does not look at the parts.\<close>

lemma InitPluginMgr_frame:
  "InitPluginMgr E p (x\<lparr>ex_ipcMessage := a, ex_ipcNumber := b\<rparr>) =
   map_option (\<lambda>y. y\<lparr>ex_ipcMessage := a, ex_ipcNumber := b\<rparr>) (InitPluginMgr E p x)"
  by (simp add: InitPluginMgr_def Let_def split: option.split json.split)

lemma InitPluginMgr_kept:
  "InitPluginMgr E p x = Some y \<Longrightarrow> ex_ipcMessage y = ex_ipcMessage x \<and> ex_ipcNumber y = ex_ipcNumber x"
  by (auto simp: InitPluginMgr_def Let_def split: option.splits json.splits if_splits)

lemma batches_run:
  assumes "xe_uid C = RSS_UID" "sends C empty_reply \<noteq> None"
    and "\<And>i m. (i, m) \<in> set (List.enumerate (length ms) rest) \<Longrightarrow> part_arrives C n i m"
    and "n = length ms + length rest" "n < 2147483648" "rest \<noteq> []"
    and "xc_proxy st \<or> xc_available st" "xc_exe st = x\<lparr>ex_ipcMessage := stored ms, ex_ipcNumber := int (length ms)\<rparr>"
    and "\<not> ex_isInit x"
    and "InitPluginMgr (xe_exe C)
      (case StringToJson (ee_parse (xe_exe C)) (concat (ms @ rest)) of Some j \<Rightarrow> j | None \<Rightarrow> JNull) x = Some y"
  shows "\<exists>r. SendRequestBatches C now True RES_TYPE_EXECUTOR_PLUGIN_INIT value
      (map (\<lambda>(i, m). ipc_part n i m) (List.enumerate (length ms) rest)) (ret, reply, st) =
    Some (RSSEXE_NO_ERR, r, st\<lparr>xc_proxy := True, xc_exe := y\<lparr>ex_ipcMessage := [], ex_ipcNumber := 0\<rparr>\<rparr>)"
  using assms
proof (induction rest arbitrary: ms st ret reply)
  case (Cons m rest)
  let ?E = "xe_exe C"
  let ?J = "case StringToJson (ee_parse ?E) (concat (ms @ m # rest)) of Some j \<Rightarrow> j | None \<Rightarrow> JNull"
  have "part_arrives C n (length ms) m" using Cons.prems(3) by simp
  then obtain j where j: "sends C (ipc_part n (length ms) m) = Some j" "json_size j \<le> EXE_PAYLOAD_MAX_SIZE"
    "batch_part ?E j = Some (int (length ms), int n, m)" unfolding part_arrives_def by blast
  let ?x1 = "x\<lparr>ex_ipcMessage := stored (ms @ [m]), ex_ipcNumber := int (length (ms @ [m]))\<rparr>"
  have "\<not> ex_isInit (xc_exe st)" "ex_ipcMessage (xc_exe st) = stored ms" "ex_ipcNumber (xc_exe st) = int (length ms)"
    "length ms < n" using Cons.prems(4,8,9) by simp_all
  note stp = batch_step[OF j(3) this Cons.prems(5)]
  have x1: "(xc_exe st)\<lparr>ex_ipcMessage := stored (ms @ [m]), ex_ipcNumber := int (length (ms @ [m]))\<rparr> = ?x1"
    unfolding Cons.prems(8) by simp
  from stp have run: "InitPluginMgrPretreatment ?E j (xc_exe st) =
      (if length (ms @ [m]) = n
       then map_option (\<lambda>x2. x2\<lparr>ex_ipcNumber := 0, ex_ipcMessage := []\<rparr>)
         (InitPluginMgr ?E (case StringToJson (ee_parse ?E) (concat (ms @ [m])) of Some j \<Rightarrow> j | None \<Rightarrow> JNull) ?x1)
       else Some ?x1)"
    unfolding Let_def x1 .
  show ?case
  proof (cases "rest = []")
    case True
    have "InitPluginMgrPretreatment ?E j (xc_exe st) = Some (y\<lparr>ex_ipcNumber := 0, ex_ipcMessage := []\<rparr>)"
      using run Cons.prems(4,10) True by (simp add: InitPluginMgr_frame del: concat_append)
    from init_request[OF Cons.prems(1,7) j(1,2) Cons.prems(2) this, of now "value" reply] True show ?thesis by auto
  next
    case False
    then have "InitPluginMgrPretreatment ?E j (xc_exe st) = Some ?x1" using run Cons.prems(4) by simp
    from init_request[OF Cons.prems(1,7) j(1,2) Cons.prems(2) this, of now "value" reply] obtain r where
      r: "SendRequestInner C now True RES_TYPE_EXECUTOR_PLUGIN_INIT value (ipc_part n (length ms) m) reply st =
        Some (RSSEXE_NO_ERR, r, st\<lparr>xc_proxy := True, xc_exe := ?x1\<rparr>)" by blast
    have "\<exists>r'. SendRequestBatches C now True RES_TYPE_EXECUTOR_PLUGIN_INIT value
        (map (\<lambda>(i, m). ipc_part n i m) (List.enumerate (length (ms @ [m])) rest))
        (RSSEXE_NO_ERR, r, st\<lparr>xc_proxy := True, xc_exe := ?x1\<rparr>) =
      Some (RSSEXE_NO_ERR, r', st\<lparr>xc_proxy := True, xc_exe := ?x1\<rparr>
        \<lparr>xc_proxy := True, xc_exe := y\<lparr>ex_ipcMessage := [], ex_ipcNumber := 0\<rparr>\<rparr>)"
      by (rule Cons.IH) (use Cons.prems False in simp_all)
    then show ?thesis using r by simp
  qed
qed simp


lemma two_batches:
  assumes "IPC_BATCHES_SIZE < length s" "length s \<le> 2 * IPC_BATCHES_SIZE"
  shows "batches s = [take IPC_BATCHES_SIZE s, drop IPC_BATCHES_SIZE s]"
proof -
  let ?d = "drop IPC_BATCHES_SIZE s"
  have "s \<noteq> []" "?d \<noteq> []" "drop IPC_BATCHES_SIZE ?d = []" "take IPC_BATCHES_SIZE ?d = ?d" using assms by auto
  then have "batches ?d = [?d]" by (metis batches.simps)
  with \<open>s \<noteq> []\<close> show ?thesis by (metis batches.simps)
qed

text \<open>
  A message in two parts of which only the first got through is not repaired by sending it
  again: the executor counts the first part twice, tries the incomplete text and forgets both, and
  keeps the second part for the next attempt; the repeated call succeeds all the same.
\<close>

theorem aborted_message_spoils_the_next:
  assumes "xe_uid C = RSS_UID" "xc_proxy st" "sends C empty_reply \<noteq> None" "json_is_object ctx"
    and "MAX_IPC_MESSAGE_SIZE < length (xe_dump C ctx)" "batches (xe_dump C ctx) = [a, b]"
    and "part_arrives C 2 0 a" "part_arrives C 2 1 b" "StringToJson (ee_parse (xe_exe C)) a = None"
    and "\<not> ex_isInit (xc_exe st)" "ex_ipcMessage (xc_exe st) = [(0, a)]" "ex_ipcNumber (xc_exe st) = 1"
  shows "\<exists>r st'. xc_SendRequestSync C now RES_TYPE_EXECUTOR_PLUGIN_INIT value ctx reply st =
      Some (RSSEXE_NO_ERR, r, st') \<and>
    \<not> ex_isInit (xc_exe st') \<and> ex_ipcMessage (xc_exe st') = [(1, b)] \<and> ex_ipcNumber (xc_exe st') = 1"
proof -
  let ?E = "xe_exe C" and ?ex = "xc_exe st"
  obtain j0 where j0: "sends C (ipc_part 2 0 a) = Some j0" "json_size j0 \<le> EXE_PAYLOAD_MAX_SIZE"
    "batch_part ?E j0 = Some (0, 2, a)" using assms(7) unfolding part_arrives_def by auto
  obtain j1 where j1: "sends C (ipc_part 2 1 b) = Some j1" "json_size j1 \<le> EXE_PAYLOAD_MAX_SIZE"
    "batch_part ?E j1 = Some (1, 2, b)" using assms(8) unfolding part_arrives_def by auto
  let ?emptied = "?ex\<lparr>ex_ipcMessage := [], ex_ipcNumber := 0\<rparr>"
  let ?second = "?ex\<lparr>ex_ipcMessage := [(1, b)], ex_ipcNumber := 1\<rparr>"
  have "InitPluginMgrPretreatment ?E j0 ?ex =
      map_option (\<lambda>y. y\<lparr>ex_ipcNumber := 0, ex_ipcMessage := []\<rparr>)
        (InitPluginMgr ?E JNull (?ex\<lparr>ex_ipcMessage := [(0, a)], ex_ipcNumber := 2\<rparr>))"
    using assms(9-12) j0(3) by (simp add: InitPluginMgrPretreatment_def Let_def wrap_s32_def om_insert_def)
  also have "\<dots> = Some ?emptied" by (simp add: InitPluginMgr_def member_def)
  finally have "InitPluginMgrPretreatment ?E j0 ?ex = Some ?emptied" .
  from init_request[OF assms(1) _ j0(1,2) assms(3) this, of now "value" reply] assms(2) obtain r0 where
    r0: "SendRequestInner C now True RES_TYPE_EXECUTOR_PLUGIN_INIT value (ipc_part 2 0 a) reply st =
      Some (RSSEXE_NO_ERR, r0, st\<lparr>xc_proxy := True, xc_exe := ?emptied\<rparr>)" by auto
  have "InitPluginMgrPretreatment ?E j1 (xc_exe (st\<lparr>xc_proxy := True, xc_exe := ?emptied\<rparr>)) = Some ?second"
    using assms(10) j1(3) by (simp add: InitPluginMgrPretreatment_def Let_def wrap_s32_id om_insert_def)
  from init_request[OF assms(1) _ j1(1,2) assms(3) this, of now "value" r0] obtain r1 where
    r1: "SendRequestInner C now True RES_TYPE_EXECUTOR_PLUGIN_INIT value (ipc_part 2 1 b) r0
        (st\<lparr>xc_proxy := True, xc_exe := ?emptied\<rparr>) =
      Some (RSSEXE_NO_ERR, r1, st\<lparr>xc_proxy := True, xc_exe := ?second\<rparr>)" by auto
  have "ProcessJson C ctx = Some [ipc_part 2 0 a, ipc_part 2 1 b]"
    using assms(4-6) by (simp add: ProcessJson_def DumpJsonToString_def Let_def numeral_2_eq_2)
  then have "xc_SendRequestSync C now RES_TYPE_EXECUTOR_PLUGIN_INIT value ctx reply st =
      Some (RSSEXE_NO_ERR, r1, st\<lparr>xc_proxy := True, xc_exe := ?second\<rparr>)"
    using r0 r1 by (simp add: xc_SendRequestSync_def)
  then show ?thesis using assms(10) by auto
qed

subsection \<open>A message of 200001 characters\<close>

definition demo_text :: string where "demo_text = replicate 200001 (CHR ''x'')"

lemma demo_text_length: "length demo_text = 200001"
  unfolding demo_text_def by (rule length_replicate)

definition demo_init :: json where
  "demo_init = JObj [(STR_CONFIG_READER, JArr []), (STR_PLUGIN_SWITCH, JArr [])]"

definition demo_first_part :: string where "demo_first_part = take IPC_BATCHES_SIZE demo_text"
definition demo_second_part :: string where "demo_second_part = drop IPC_BATCHES_SIZE demo_text"

lemma demo_batches: "batches demo_text = [demo_first_part, demo_second_part]"
  unfolding demo_first_part_def demo_second_part_def
  by (rule two_batches) (simp_all add: demo_text_length IPC_BATCHES_SIZE_def)

lemma demo_parts_differ: "demo_first_part \<noteq> demo_text"
proof
  assume "demo_first_part = demo_text"
  then have "length demo_first_part = length demo_text" by simp
  then show False by (simp add: demo_first_part_def demo_text_length IPC_BATCHES_SIZE_def)
qed

definition demo_dump :: "json \<Rightarrow> string" where
  "demo_dump j =
     (case member STR_MESSAGE_INDEX j of
        Some (JInt i) \<Rightarrow> (if i = 0 then ''first'' else ''second'')
      | _ \<Rightarrow> (if member ''retCode'' j \<noteq> None then ''reply'' else demo_text))"

definition demo_ipc_parse :: "string \<Rightarrow> json option" where
  "demo_ipc_parse s =
     (if s = ''first'' then Some (ipc_part 2 0 demo_first_part)
      else if s = ''second'' then Some (ipc_part 2 1 demo_second_part)
      else if s = ''reply'' then Some empty_reply else None)"

definition demo_ex :: ex_env where
  "demo_ex = \<lparr>ee_pm = undefined, ee_pg = undefined,
     ee_parse = (\<lambda>s. if s = demo_text then Some demo_init else None), ee_float = 0, ee_reply = (\<lambda>l rd. JNull),
     ee_realpath = Some, ee_read_file = (\<lambda>f. None), ee_path_real = (\<lambda>f. True), ee_kill = (\<lambda>p s. 0),
     ee_suspend_sa = 0\<rparr>"

definition demo_xc :: xc_env where
  "demo_xc = \<lparr>xe_exe = demo_ex, xe_dump = demo_dump, xe_parse = demo_ipc_parse, xe_uid = RSS_UID, xe_indet = 0\<rparr>"

definition demo_client :: xc_state where
  "demo_client = \<lparr>xc_proxy = True, xc_available = True, xc_exe = ex_new\<rparr>"

lemmas demo_defs = demo_xc_def demo_ex_def demo_dump_def demo_ipc_parse_def ipc_part_def sends_def
  Marshalling_def DumpJsonToString_def Unmarshalling_def LoadContentToJsonObj_def json_is_object_def member_def
  STR_MESSAGE_INDEX_def STR_MESSAGE_NUMBER_def STR_IPC_MESSAGE_def Let_def

lemma demo_arrives:
  "part_arrives demo_xc 2 0 demo_first_part" "part_arrives demo_xc 2 (Suc 0) demo_second_part"
  "sends demo_xc empty_reply \<noteq> None"
  by (simp_all add: part_arrives_def demo_defs batch_part_def num_int_def json_int32_def json_size_def
      EXE_PAYLOAD_MAX_SIZE_def wrap_s32_def empty_reply_def)

lemma demo_init_facts:
  "json_is_object demo_init" "demo_dump demo_init = demo_text"
  by (simp_all add: demo_init_def demo_defs STR_CONFIG_READER_def STR_PLUGIN_SWITCH_def)

lemma demo_text_parse: "StringToJson (ee_parse demo_ex) demo_text = Some demo_init"
proof -
  have "demo_text \<noteq> []" using demo_text_length by auto
  then show ?thesis using demo_init_facts(1) by (simp add: StringToJson_def demo_ex_def)
qed

lemma demo_InitPluginMgr: "InitPluginMgr E demo_init ex_new = Some (ex_new\<lparr>ex_isInit := True\<rparr>)"
  by (simp add: InitPluginMgr_def demo_init_def member_def STR_CONFIG_READER_def STR_PLUGIN_SWITCH_def Let_def
      ex_new_def ParseConfigReader_def ParsePluginSwitch_def pm_new_def)


theorem aborted_message_spoils_the_next_witness:
  "\<exists>r st'. xc_SendRequestSync demo_xc 0 RES_TYPE_EXECUTOR_PLUGIN_INIT 0 demo_init JNull
      (demo_client\<lparr>xc_exe := ex_new\<lparr>ex_ipcMessage := [(0, demo_first_part)], ex_ipcNumber := 1\<rparr>\<rparr>) =
      Some (RSSEXE_NO_ERR, r, st') \<and> \<not> ex_isInit (xc_exe st')"
proof -
  let ?st = "demo_client\<lparr>xc_exe := ex_new\<lparr>ex_ipcMessage := [(0, demo_first_part)], ex_ipcNumber := 1\<rparr>\<rparr>"
  have x: "xe_uid demo_xc = RSS_UID" "xe_dump demo_xc = demo_dump" "xe_exe demo_xc = demo_ex" "xc_proxy ?st"
    by (simp_all add: demo_xc_def demo_client_def)
  have no: "StringToJson (ee_parse demo_ex) demo_first_part = None"
    using demo_parts_differ by (simp add: StringToJson_def demo_ex_def)
  have "\<exists>r st'. xc_SendRequestSync demo_xc 0 RES_TYPE_EXECUTOR_PLUGIN_INIT 0 demo_init JNull ?st =
      Some (RSSEXE_NO_ERR, r, st') \<and> \<not> ex_isInit (xc_exe st') \<and>
      ex_ipcMessage (xc_exe st') = [(1, demo_second_part)] \<and> ex_ipcNumber (xc_exe st') = 1"
    by (rule aborted_message_spoils_the_next[OF x(1,4) demo_arrives(3) demo_init_facts(1), of demo_first_part])
      (use demo_arrives demo_init_facts no in \<open>simp_all add: x demo_text_length MAX_IPC_MESSAGE_SIZE_def
        demo_batches demo_client_def ex_new_def\<close>)
  then show ?thesis by blast
qed

section \<open>Groups through the executor\<close>

text \<open>The executor client as the group library calls it; a call that throws does not return.\<close>

definition group_client :: "xc_env \<Rightarrow> i64 \<Rightarrow> xc_state \<Rightarrow> u32 \<Rightarrow> json \<Rightarrow> int \<times> json" where
  "group_client C now st resType payload =
     (case xc_SendRequestSync C now resType 0 payload JNull st of
        None \<Rightarrow> (xe_indet C, JNull) | Some (ret, reply, st1) \<Rightarrow> (ret, reply))"

definition ret_reply :: "bool \<Rightarrow> json" where
  "ret_reply b = JObj [(''ret'', JStr (to_string (if b then 0 else - 1)))]"

text \<open>
  On a system whose groups are set by the executor, setting the group of a process answers what
  the executor's own library answers for the same process and group, whatever the local library
  has made of it: identifier and group survive the texts they are sent as.
\<close>

theorem group_set_by_executor:
  assumes "pg_by_executor E" "pg_exe E = group_client C now st"
    and "xe_uid C = RSS_UID" "xc_proxy st \<or> xc_available st"
    and "sends C (policy_payload pid policy) = Some (policy_payload pid policy)"
    and "\<And>b. sends C (ret_reply b) = Some (ret_reply b)"
    and "0 < pid" "pid \<le> 2147483647" "- 2147483648 \<le> policy" "policy \<le> 2147483647"
  shows "fst (SetThreadGroupSchedPolicy E pid policy pg) =
    (if fst (act_SetThreadGroupSchedPolicy (ee_pg (xe_exe C)) pid (of_int policy) (ex_pg (xc_exe st))) then 0 else - 1)"
proof -
  let ?t = RES_TYPE_SET_THREAD_GROUP_SCHED_POLICY_SYNC_EVENT and ?p = "policy_payload pid policy"
  obtain b g where g: "act_SetThreadGroupSchedPolicy (ee_pg (xe_exe C)) pid (of_int policy) (ex_pg (xc_exe st)) = (b, g)"
    by (cases "act_SetThreadGroupSchedPolicy (ee_pg (xe_exe C)) pid (of_int policy) (ex_pg (xc_exe st))")
  have parse: "exe_ParseValue ''tid'' ?p = Some pid" "exe_ParseValue ''policy'' ?p = Some policy"
    using assms(7-10) by (simp_all add: exe_ParseValue_def policy_payload_def member_def atoi_to_string)
  have types: "?t \<noteq> RES_TYPE_CGROUP_SYNC_EVENT" "?t \<noteq> RES_TYPE_CGROUP_PROC_TASK_SYNC_EVENT"
    "?t \<noteq> RES_TYPE_SET_THREAD_SCHED_POLICY_SYNC_EVENT" "?t \<noteq> RES_TYPE_EXECUTOR_PLUGIN_INIT" "is_cgroup_type ?t"
    by (simp_all add: is_cgroup_type_def RES_TYPE_SET_THREAD_GROUP_SCHED_POLICY_SYNC_EVENT_def
        RES_TYPE_CGROUP_SYNC_EVENT_def RES_TYPE_CGROUP_PROC_TASK_SYNC_EVENT_def
        RES_TYPE_SET_THREAD_SCHED_POLICY_SYNC_EVENT_def RES_TYPE_EXECUTOR_PLUGIN_INIT_def)
  have check: "check_request (xe_exe C) (xe_uid C) ?t ?p = Inr ?t"
    using assms(3) by (simp add: check_request_def IsCallingClientRss_def IsTypeVaild_def GetExtResType_def EXE_RES_TYPE_FIRST_def
        EXE_RES_TYPE_LAST_def RES_TYPE_SET_THREAD_GROUP_SCHED_POLICY_SYNC_EVENT_def RES_TYPE_COMMON_SYNC_def
        RES_TYPE_COMMON_ASYNC_def policy_payload_def json_size_def EXE_PAYLOAD_MAX_SIZE_def)
  have "HandleRequestForCgroup (xe_exe C) ?t ?p JNull (xc_exe st) = Some (ret_reply b, (xc_exe st)\<lparr>ex_pg := g\<rparr>)"
    using g parse types by (simp add: HandleRequestForCgroup_def set_policy_reply_def assign_member_def ret_reply_def)
  then have "exe_SendRequestSync (xe_exe C) (xe_uid C) now ?t 0 ?p (xc_exe st) =
      Some (EXE_OK, Some (ret_reply b, RSSEXE_NO_ERR), (xc_exe st)\<lparr>ex_pg := g\<rparr>)"
    using check types
    by (simp add: exe_SendRequestSync_def mgr_SendRequestSync_def json_empty_def ret_reply_def)
  moreover have "TryConnect st = (RSSEXE_NO_ERR, st\<lparr>xc_proxy := True\<rparr>)"
    using assms(4) by (cases st) (auto simp: TryConnect_def)
  ultimately have "group_client C now st ?t ?p = (RSSEXE_NO_ERR, ret_reply b)"
    using types assms(5,6)
    by (simp add: group_client_def xc_SendRequestSync_def SendRequestInner_def sends_def[symmetric])
  then have "SetSchedPolicyByExecutor E pid policy ?t = (if b then 0 else - 1)"
    using assms(2) atoi_to_string[of 0] atoi_to_string[of "- 1"]
    by (simp add: SetSchedPolicyByExecutor_def ret_reply_def member_def RSSEXE_NO_ERR_def)
  then show ?thesis
    using assms(1,7) g
    by (simp add: SetThreadGroupSchedPolicy_def set_sched_policy_def split: prod.split)
qed

text \<open>An executor whose configuration has one controller with a file for the top group.\<close>

definition demo_group_xc :: xc_env where
  "demo_group_xc = demo_xc\<lparr>xe_exe := demo_ex\<lparr>ee_pg := demo_pg\<rparr>,
     xe_dump := (\<lambda>j. if j = ret_reply True then ''ok'' else if j = ret_reply False then ''no'' else ''request''),
     xe_parse := (\<lambda>s. if s = ''ok'' then Some (ret_reply True) else if s = ''no'' then Some (ret_reply False)
       else Some (policy_payload 77 4))\<rparr>"

definition demo_group_env :: pg_env where
  "demo_group_env = (ee_pg (xe_exe demo_group_xc))\<lparr>pg_by_executor := True,
     pg_exe := group_client demo_group_xc 0 demo_client\<rparr>"

theorem group_set_by_executor_witness:
  "fst (SetThreadGroupSchedPolicy demo_group_env 77 4 pg_new) = 0"
proof -
  have zero: "to_string 0 = ''0''" "to_string (- 1) = ''-1''" by code_simp+
  have differ: "ret_reply True \<noteq> ret_reply False" "policy_payload 77 4 \<noteq> ret_reply b" for b
    by (simp_all add: ret_reply_def policy_payload_def zero)
  have obj: "json_is_object (policy_payload 77 4)" "json_is_object (ret_reply b)" for b
    by (simp_all add: json_is_object_def policy_payload_def ret_reply_def)
  have p: "sends demo_group_xc (policy_payload 77 4) = Some (policy_payload 77 4)"
    by (simp add: sends_def demo_group_xc_def Marshalling_def Unmarshalling_def DumpJsonToString_def
        LoadContentToJsonObj_def obj differ Let_def)
  have r: "sends demo_group_xc (ret_reply b) = Some (ret_reply b)" for b
    by (cases b) (simp_all add: sends_def demo_group_xc_def Marshalling_def Unmarshalling_def DumpJsonToString_def
        LoadContentToJsonObj_def obj differ differ(1)[symmetric] Let_def)
  have "fst (act_SetThreadGroupSchedPolicy demo_pg 77 4 pg_new)" by code_simp
  then show ?thesis
    using group_set_by_executor[OF _ _ _ _ p r, of demo_group_env 0 demo_client pg_new]
    by (simp add: demo_group_env_def demo_group_xc_def demo_xc_def demo_client_def ex_new_def)
qed

section \<open>Requests that are refused, and one that is not\<close>

text \<open>
  The debug command never has an effect: its empty payload is no object and is not sent, and
  the type of the command is just outside the range the executor accepts.
\<close>

theorem debug_command_refused:
  "(\<exists>r reply b. SendDebugCommand C now isSync st = Some (r, reply, st\<lparr>xc_proxy := b\<rparr>)) \<and>
   (\<exists>e. e \<noteq> EXE_OK \<and> exe_SendRequestSync E uid now RES_TYPE_DEBUG value ctx x = Some (e, None, x) \<and>
      exe_SendRequestAsync E uid now RES_TYPE_DEBUG value ctx x = Some (e, x))"
proof
  have "\<exists>b. snd (TryConnect st) = st\<lparr>xc_proxy := b\<rparr>"
    by (cases st) (auto simp: TryConnect_def)
  then show "\<exists>r reply b. SendDebugCommand C now isSync st = Some (r, reply, st\<lparr>xc_proxy := b\<rparr>)"
    by (auto simp: SendDebugCommand_def SendRequestInner_def Marshalling_def DumpJsonToString_def json_is_object_def
        Let_def split: prod.split)
  have "\<exists>e. e \<noteq> EXE_OK \<and> check_request E uid RES_TYPE_DEBUG ctx = Inl e"
    by (auto simp: check_request_def IsTypeVaild_def RES_TYPE_DEBUG_def EXE_RES_TYPE_LAST_def)
  then show "\<exists>e. e \<noteq> EXE_OK \<and> exe_SendRequestSync E uid now RES_TYPE_DEBUG value ctx x = Some (e, None, x) \<and>
      exe_SendRequestAsync E uid now RES_TYPE_DEBUG value ctx x = Some (e, x)"
    by (auto simp: exe_SendRequestSync_def exe_SendRequestAsync_def)
qed

text \<open>
  Killing through the executor: the executor's test for a positive identifier is made on the
  unsigned value and lets every identifier but 0 through, so a negative one, which \<open>kill\<close> takes
  for a group or for all processes, is killed too.
\<close>

theorem kill_refuses_only_zero:
  assumes "xe_uid C = RSS_UID" "xc_proxy st \<or> xc_available st" "- 2147483648 \<le> pid" "pid \<le> 2147483647"
  shows "ex_kills (xc_exe (snd (xc_KillProcess C pid st))) =
      ex_kills (xc_exe st) @ (if pid = 0 then [] else [(pid, SIGNAL_KILL)]) \<and>
    fst (xc_KillProcess C pid st) =
      (if pid = 0 then RSSEXE_GET_SERVICE_FAIL else ee_kill (xe_exe C) pid SIGNAL_KILL)"
proof -
  have conn: "TryConnect st = (RSSEXE_NO_ERR, st\<lparr>xc_proxy := True\<rparr>)"
    using assms(2) by (cases st) (auto simp: TryConnect_def)
  have s: "sint (of_int pid :: u32) = pid"
    using assms(3,4) by (simp add: int_word_sint)
  have z: "(of_int pid :: u32) = 0 \<longleftrightarrow> pid = 0" by (metis of_int_0 s sint_0)
  show ?thesis
    using assms(1) by (simp add: xc_KillProcess_def conn svc_exe_KillProcess_def IsCallingClientRss_def word_le_0_iff z[simplified] exe_KillProcess_def s[simplified])
qed

theorem kill_refuses_only_zero_witness:
  "ex_kills (xc_exe (snd (xc_KillProcess demo_xc (- 1) demo_client))) = [(- 1, SIGNAL_KILL)]"
  using kill_refuses_only_zero[of demo_xc demo_client "- 1"] by (simp add: demo_xc_def demo_client_def ex_new_def)

end
