(* ===== verification/Write_Node_Model.thy ===== *)
theory Write_Node_Model
  imports Plugin_Config Plugin_Mgr_Model Process_Group
begin

text \<open>
  The frequency plugin of the executor (socperf\_executor\_plugin/framework): the resource
  configuration it reads at start (socperf\_executor\_config.cpp, socperf\_common.h), the writer of
  the kernel nodes (socperf\_executor\_wirte\_node.cpp) and the plugin entry points
  (socperf\_executor\_plugin.cpp).  The XML reader, the list of configuration files, the file system,
  the order in which the hash map of the resources is visited and the value of a floating-point
  number are parameters.  Descriptors are handles, writes an output list.  Undefined behaviour and a
  thrown exception are \<open>None\<close>.
\<close>

section \<open>socperf\_common.h\<close>

definition SOCPERF_RESOURCE_CONFIG_XML :: string where
  "SOCPERF_RESOURCE_CONFIG_XML = ''etc/soc_perf/socperf_resource_config.xml''"
definition WN_INVALID_VALUE :: i32 where "WN_INVALID_VALUE = - 2147483648"
definition MIN_RESOURCE_ID :: i32 where "MIN_RESOURCE_ID = 1000"
definition MAX_RESOURCE_ID :: i32 where "MAX_RESOURCE_ID = 5999"
definition RES_ID_NUMS_PER_TYPE :: i32 where "RES_ID_NUMS_PER_TYPE = 1000"
definition RES_ID_NUMS_PER_TYPE_EXT :: i32 where "RES_ID_NUMS_PER_TYPE_EXT = 10000"
definition WRITE_NODE :: i32 where "WRITE_NODE = 0"
definition REPORT_TO_PERFSO :: i32 where "REPORT_TO_PERFSO = 1"
definition MAX_FREQUE_NODE :: i32 where "MAX_FREQUE_NODE = 1"
definition NODE_DEFAULT_VALUE :: i64 where "NODE_DEFAULT_VALUE = - 1"

text \<open>The two subclasses of \<open>ResourceNode\<close> are the two cases of the field \<open>rn_kind\<close>.\<close>

datatype res_kind =
    ResNode (rk_path: string) (rk_pair: i32)
  | GovResNode (rk_paths: "string list") (rk_levels: "(i64 \<times> string list) list")

record res_node =
  rn_id :: i32
  rn_name :: string
  rn_def :: i64
  rn_available :: "i64 list"
  rn_persistMode :: i32
  rn_isMaxValue :: bool
  rn_kind :: res_kind

definition rn_isGov :: "res_node \<Rightarrow> bool" where
  "rn_isGov n = (case rn_kind n of ResNode _ _ \<Rightarrow> False | GovResNode _ _ \<Rightarrow> True)"

definition new_ResNode :: "i32 \<Rightarrow> string \<Rightarrow> i32 \<Rightarrow> i32 \<Rightarrow> i32 \<Rightarrow> res_node" where
  "new_ResNode resId resName resMode resPair resPersistMode =
     \<lparr>rn_id = resId, rn_name = resName, rn_def = WN_INVALID_VALUE, rn_available = [],
      rn_persistMode = resPersistMode, rn_isMaxValue = (resMode = MAX_FREQUE_NODE),
      rn_kind = ResNode [] resPair\<rparr>"

definition new_GovResNode :: "i32 \<Rightarrow> string \<Rightarrow> i32 \<Rightarrow> res_node" where
  "new_GovResNode govResId govResName govPersistMode =
     \<lparr>rn_id = govResId, rn_name = govResName, rn_def = WN_INVALID_VALUE, rn_available = [],
      rn_persistMode = govPersistMode, rn_isMaxValue = False, rn_kind = GovResNode [] []\<rparr>"

definition IsNumber :: "string \<Rightarrow> bool" where
  "IsNumber str =
     (case str of [] \<Rightarrow> True | c # cs \<Rightarrow> (c = CHR 0x2D \<or> is_digit c) \<and> list_all is_digit cs)"

definition IsValidRangeResId :: "i32 \<Rightarrow> bool" where
  "IsValidRangeResId resId \<longleftrightarrow> \<not> (resId < MIN_RESOURCE_ID \<or> resId > MAX_RESOURCE_ID)"

definition IsValidPersistMode :: "i32 \<Rightarrow> bool" where
  "IsValidPersistMode persistMode \<longleftrightarrow> \<not> (persistMode \<noteq> WRITE_NODE \<and> persistMode \<noteq> REPORT_TO_PERFSO)"

text \<open>
  The separators the code splits at are single characters; every one ends a piece, and one is
  appended to the text, so the rest of the text is always found to end.
\<close>

function split_from :: "char \<Rightarrow> string \<Rightarrow> string list" where
  "split_from c s =
     (if s = [] then [] else takeWhile (\<lambda>x. x \<noteq> c) s # split_from c (drop 1 (dropWhile (\<lambda>x. x \<noteq> c) s)))"
  by auto
termination
proof (relation "measure (\<lambda>(c, s). length s)")
  fix c :: char and s :: string
  assume "s \<noteq> []"
  then show "((c, drop 1 (dropWhile (\<lambda>x. x \<noteq> c) s)), c, s) \<in> measure (\<lambda>(c, s). length s)"
    using length_dropWhile_le[of "\<lambda>x. x \<noteq> c" s] by (cases s) auto
qed simp

declare split_from.simps [simp del]

definition SplitEx :: "string \<Rightarrow> char \<Rightarrow> string list" where
  "SplitEx str c = split_from c (str @ [c])"

section \<open>State\<close>

record wn_env =
  wn_reader :: xml_reader
  wn_cfg_files :: "string option list option"
  wn_realpath :: "string \<Rightarrow> string option"
  wn_open :: "string \<Rightarrow> bool"
  wn_order :: "i32 list \<Rightarrow> i32 list"
  wn_float :: i64

text \<open>The map of the resources, in which \<open>operator[]\<close> leaves null pointers, and the writer.\<close>

type_synonym node_map = "(i32 \<times> res_node option) list"

record wn_state =
  wn_nodes :: node_map
  fdInfo :: "(string \<times> int) list"
  wn_opened :: "string list"
  wn_writes :: "(int \<times> string) list"
  wn_functionMap :: "u32 list"
  wn_resTypeWithVal :: "(u32 \<times> i64) list"

definition wn_new :: wn_state where
  "wn_new = \<lparr>wn_nodes = [], fdInfo = [], wn_opened = [], wn_writes = [], wn_functionMap = [],
     wn_resTypeWithVal = []\<rparr>"

definition node_at :: "i32 \<Rightarrow> node_map \<Rightarrow> res_node option" where
  "node_at resId m = (case map_of m resId of Some (Some n) \<Rightarrow> Some n | _ \<Rightarrow> None)"

text \<open>\<open>operator[]\<close> and \<open>insert\<close> of the map.\<close>

definition touch_node :: "i32 \<Rightarrow> node_map \<Rightarrow> node_map" where
  "touch_node resId m = (if map_of m resId = None then m @ [(resId, None)] else m)"

definition insert_node :: "res_node \<Rightarrow> node_map \<Rightarrow> node_map" where
  "insert_node n m = (if map_of m (rn_id n) = None then m @ [(rn_id n, Some n)] else m)"

section \<open>socperf\_executor\_config.cpp\<close>

text \<open>The outer \<open>None\<close> is a null pointer in the map that is followed.\<close>

definition IsGovResId :: "i32 \<Rightarrow> node_map \<Rightarrow> bool option" where
  "IsGovResId resId m =
     (case map_of m resId of None \<Rightarrow> Some False | Some None \<Rightarrow> None | Some (Some n) \<Rightarrow> Some (rn_isGov n))"

definition IsValidResId :: "i32 \<Rightarrow> node_map \<Rightarrow> bool" where
  "IsValidResId resId m \<longleftrightarrow> map_of m resId \<noteq> None"

definition GetResIdNumsPerType :: "i32 \<Rightarrow> node_map \<Rightarrow> i32 option" where
  "GetResIdNumsPerType resId m =
     (case map_of m resId of
        None \<Rightarrow> Some RES_ID_NUMS_PER_TYPE
      | Some None \<Rightarrow> None
      | Some (Some n) \<Rightarrow>
          Some (if rn_persistMode n = REPORT_TO_PERFSO then RES_ID_NUMS_PER_TYPE_EXT else RES_ID_NUMS_PER_TYPE))"

definition wn_GetAllRealConfigPath :: "wn_env \<Rightarrow> string list" where
  "wn_GetAllRealConfigPath E =
     (case wn_cfg_files E of None \<Rightarrow> [] | Some files \<Rightarrow> rev (List.map_filter (\<lambda>f. f) files))"

definition CheckResourcePersistMode :: "string option \<Rightarrow> bool" where
  "CheckResourcePersistMode persistMode =
     (case persistMode of None \<Rightarrow> True | Some p \<Rightarrow> IsNumber p \<and> IsValidPersistMode (atoi p))"

definition CheckResourceTag ::
    "string option \<Rightarrow> string option \<Rightarrow> string option \<Rightarrow> string option \<Rightarrow> string option \<Rightarrow> bool" where
  "CheckResourceTag rid name pair mode persistMode =
     ((case rid of None \<Rightarrow> False | Some i \<Rightarrow> IsNumber i \<and> IsValidRangeResId (atoi i)) \<and>
      name \<noteq> None \<and>
      (case pair of None \<Rightarrow> True | Some p \<Rightarrow> IsNumber p \<and> IsValidRangeResId (atoi p)) \<and>
      (case mode of None \<Rightarrow> True | Some m \<Rightarrow> IsNumber m) \<and>
      CheckResourcePersistMode persistMode)"

definition CheckResourceTag_content :: "i32 \<Rightarrow> string option \<Rightarrow> string option \<Rightarrow> bool" where
  "CheckResourceTag_content persistMode dflt path =
     ((case dflt of None \<Rightarrow> False | Some d \<Rightarrow> IsNumber d) \<and>
      \<not> (persistMode \<noteq> REPORT_TO_PERFSO \<and> path = None))"

definition CheckGovResourceTag :: "string option \<Rightarrow> string option \<Rightarrow> string option \<Rightarrow> bool" where
  "CheckGovResourceTag rid name persistMode =
     ((case rid of None \<Rightarrow> False | Some i \<Rightarrow> IsNumber i \<and> IsValidRangeResId (atoi i)) \<and>
      name \<noteq> None \<and>
      (case persistMode of None \<Rightarrow> True | Some p \<Rightarrow> IsNumber p \<and> IsValidPersistMode (atoi p)))"

fun load_values :: "string list \<Rightarrow> i64 list \<Rightarrow> i64 list option" where
  "load_values [] avail = Some avail"
| "load_values (s # ss) avail = (if IsNumber s then load_values ss (List.insert (atoll s) avail) else None)"

definition LoadResourceAvailable :: "string \<Rightarrow> res_node \<Rightarrow> res_node option" where
  "LoadResourceAvailable node n =
     map_option (\<lambda>a. n\<lparr>rn_available := a\<rparr>) (load_values (SplitEx node (CHR '' '')) (rn_available n))"

text \<open>The content of the last element of a name.\<close>

definition last_content :: "string \<Rightarrow> xml_node list \<Rightarrow> string option" where
  "last_content name ns = fold (\<lambda>n c. if xml_name n = Some name then xml_content n else c) ns None"

definition LoadFreqResourceContent :: "i32 \<Rightarrow> xml_node list \<Rightarrow> res_node \<Rightarrow> node_map \<Rightarrow> bool \<times> node_map" where
  "LoadFreqResourceContent persistMode ns n m =
     (let dflt = last_content ''default'' ns;
          path = (if persistMode \<noteq> REPORT_TO_PERFSO then last_content ''path'' ns else None);
          node = last_content ''node'' ns
      in if \<not> CheckResourceTag_content persistMode dflt path then (False, m)
         else
           (let n1 = n\<lparr>rn_def := atoll (the dflt)\<rparr>;
                n2 = (if persistMode \<noteq> REPORT_TO_PERFSO
                      then n1\<lparr>rn_kind := ResNode (the path) (rk_pair (rn_kind n1))\<rparr> else n1)
            in case node of
                 None \<Rightarrow> (True, insert_node n2 m)
               | Some text \<Rightarrow>
                   (case LoadResourceAvailable text n2 of None \<Rightarrow> (False, m) | Some n3 \<Rightarrow> (True, insert_node n3 m))))"

definition TraversalFreqResource :: "xml_node \<Rightarrow> node_map \<Rightarrow> bool \<times> node_map" where
  "TraversalFreqResource g m =
     (let rid = xml_prop ''id'' g; name = xml_prop ''name'' g; pair = xml_prop ''pair'' g;
          mode = xml_prop ''mode'' g; persistMode = xml_prop ''switch'' g
      in if \<not> CheckResourceTag rid name pair mode persistMode then (False, m)
         else if map_of m (atoi (the rid)) \<noteq> None then (True, m)
         else
           (let pm = (case persistMode of None \<Rightarrow> 0 | Some p \<Rightarrow> atoi p)
            in LoadFreqResourceContent pm (xml_children g)
                 (new_ResNode (atoi (the rid)) (the name) (case mode of None \<Rightarrow> 0 | Some x \<Rightarrow> atoi x)
                    (case pair of None \<Rightarrow> WN_INVALID_VALUE | Some p \<Rightarrow> atoi p) pm) m))"

fun load_res_nodes :: "xml_node list \<Rightarrow> node_map \<Rightarrow> bool \<times> node_map" where
  "load_res_nodes [] m = (True, m)"
| "load_res_nodes (g # gs) m =
     (if xml_name g = Some ''res'' then
        (case TraversalFreqResource g m of (b, m1) \<Rightarrow> if b then load_res_nodes gs m1 else (False, m1))
      else load_res_nodes gs m)"

fun pairs_valid :: "node_map \<Rightarrow> i32 list \<Rightarrow> bool option" where
  "pairs_valid m [] = Some True"
| "pairs_valid m (i # is) =
     (case node_at i m of
        None \<Rightarrow> None
      | Some n \<Rightarrow>
          (case rn_kind n of
             GovResNode _ _ \<Rightarrow> pairs_valid m is
           | ResNode _ pair \<Rightarrow>
               if pair \<noteq> WN_INVALID_VALUE \<and> map_of m pair = None then Some False else pairs_valid m is))"

definition CheckPairResIdValid :: "wn_env \<Rightarrow> node_map \<Rightarrow> bool option" where
  "CheckPairResIdValid E m = pairs_valid m (wn_order E (map fst m))"

fun defs_valid :: "node_map \<Rightarrow> i32 list \<Rightarrow> bool option" where
  "defs_valid m [] = Some True"
| "defs_valid m (i # is) =
     (case node_at i m of
        None \<Rightarrow> None
      | Some n \<Rightarrow>
          if rn_available n \<noteq> [] \<and> rn_def n \<notin> set (rn_available n) then Some False else defs_valid m is)"

definition CheckDefValid :: "wn_env \<Rightarrow> node_map \<Rightarrow> bool option" where
  "CheckDefValid E m = defs_valid m (wn_order E (map fst m))"

definition LoadResource :: "wn_env \<Rightarrow> xml_node \<Rightarrow> node_map \<Rightarrow> (bool \<times> node_map) option" where
  "LoadResource E child m =
     (case load_res_nodes (xml_children child) m of
        (False, m1) \<Rightarrow> Some (False, m1)
      | (True, m1) \<Rightarrow>
          (case CheckPairResIdValid E m1 of
             None \<Rightarrow> None
           | Some False \<Rightarrow> Some (False, m1)
           | Some True \<Rightarrow> map_option (\<lambda>b. (b, m1)) (CheckDefValid E m1)))"

text \<open>The pieces of a level are kept under the level as an \<open>int32_t\<close>; a level that is there keeps its pieces.\<close>

definition LoadGovResourceAvailable :: "string \<Rightarrow> string \<Rightarrow> res_node \<Rightarrow> bool \<times> res_node" where
  "LoadGovResourceAvailable level node n =
     (let n1 = n\<lparr>rn_available := List.insert (atoll level) (rn_available n)\<rparr>;
          result = SplitEx node (CHR ''|''); ps = rk_paths (rn_kind n); lv = rk_levels (rn_kind n);
          key = wrap_s32 (atoll level)
      in if length result \<noteq> length ps then (False, n1)
         else (True, n1\<lparr>rn_kind := GovResNode ps (if map_of lv key = None then lv @ [(key, result)] else lv)\<rparr>))"

text \<open>One element of a governor resource.\<close>

definition gov_element :: "i32 \<Rightarrow> xml_node \<Rightarrow> res_node \<Rightarrow> bool \<times> res_node" where
  "gov_element persistMode x n =
     (if xml_name x = Some ''default'' then
        (case xml_content x of
           None \<Rightarrow> (False, n)
         | Some d \<Rightarrow> if IsNumber d then (True, n\<lparr>rn_def := atoll d\<rparr>) else (False, n))
      else if persistMode \<noteq> REPORT_TO_PERFSO \<and> xml_name x = Some ''path'' then
        (case xml_content x of
           None \<Rightarrow> (False, n)
         | Some path \<Rightarrow> (True, n\<lparr>rn_kind := GovResNode (rk_paths (rn_kind n) @ [path]) (rk_levels (rn_kind n))\<rparr>))
      else if persistMode \<noteq> REPORT_TO_PERFSO \<and> xml_name x = Some ''node'' then
        (case (xml_prop ''level'' x, xml_content x) of
           (Some level, Some node) \<Rightarrow> if IsNumber level then LoadGovResourceAvailable level node n else (False, n)
         | _ \<Rightarrow> (False, n))
      else (True, n))"

fun TraversalGovResource :: "i32 \<Rightarrow> xml_node list \<Rightarrow> res_node \<Rightarrow> bool \<times> res_node" where
  "TraversalGovResource persistMode [] n = (True, n)"
| "TraversalGovResource persistMode (x # xs) n =
     (case gov_element persistMode x n of
        (b, n1) \<Rightarrow> if b then TraversalGovResource persistMode xs n1 else (False, n1))"

text \<open>
  The node is in the map before its elements are read, and the map shares it: it stays there,
  as far as it has been read, also when reading it fails.
\<close>

fun load_gov_nodes :: "xml_node list \<Rightarrow> node_map \<Rightarrow> bool \<times> node_map" where
  "load_gov_nodes [] m = (True, m)"
| "load_gov_nodes (g # gs) m =
     (if xml_name g \<noteq> Some ''res'' then load_gov_nodes gs m
      else
        (let rid = xml_prop ''id'' g; name = xml_prop ''name'' g; persistMode = xml_prop ''switch'' g
         in if \<not> CheckGovResourceTag rid name persistMode then (False, m)
            else if map_of m (atoi (the rid)) \<noteq> None then load_gov_nodes gs m
            else
              (let pm = (case persistMode of None \<Rightarrow> 0 | Some p \<Rightarrow> atoi p)
               in case TraversalGovResource pm (xml_children g) (new_GovResNode (atoi (the rid)) (the name) pm) of
                    (b, n) \<Rightarrow> if b then load_gov_nodes gs (insert_node n m) else (False, insert_node n m))))"

definition LoadGovResource :: "wn_env \<Rightarrow> xml_node \<Rightarrow> node_map \<Rightarrow> (bool \<times> node_map) option" where
  "LoadGovResource E child m =
     (case load_gov_nodes (xml_children child) m of
        (False, m1) \<Rightarrow> Some (False, m1)
      | (True, m1) \<Rightarrow> map_option (\<lambda>b. (b, m1)) (CheckDefValid E m1))"

fun ParseResourceXmlFile :: "wn_env \<Rightarrow> xml_node list \<Rightarrow> node_map \<Rightarrow> (bool \<times> node_map) option" where
  "ParseResourceXmlFile E [] m = Some (True, m)"
| "ParseResourceXmlFile E (x # xs) m =
     (case (if xml_name x = Some ''Resource'' then LoadResource E x m
            else if xml_name x = Some ''GovResource'' then LoadGovResource E x m else Some (True, m)) of
        None \<Rightarrow> None
      | Some (b, m1) \<Rightarrow> if b then ParseResourceXmlFile E xs m1 else Some (False, m1))"

definition LoadConfigXmlFile :: "wn_env \<Rightarrow> string \<Rightarrow> node_map \<Rightarrow> (bool \<times> node_map) option" where
  "LoadConfigXmlFile E realConfigFile m =
     (if realConfigFile = [] then Some (False, m)
      else (case wn_reader E realConfigFile of
          Some (Some rootNode) \<Rightarrow>
            if xml_name rootNode \<noteq> Some ''Configs'' then Some (False, m)
            else if str_find SOCPERF_RESOURCE_CONFIG_XML realConfigFile \<noteq> None
            then ParseResourceXmlFile E (xml_children rootNode) m
            else Some (True, m)
        | _ \<Rightarrow> Some (False, m)))"

fun load_files :: "wn_env \<Rightarrow> string list \<Rightarrow> node_map \<Rightarrow> (bool \<times> node_map) option" where
  "load_files E [] m = Some (True, m)"
| "load_files E (f # fs) m =
     (case LoadConfigXmlFile E f m of
        None \<Rightarrow> None
      | Some (b, m1) \<Rightarrow> if b then load_files E fs m1 else Some (False, m1))"

definition LoadAllConfigXmlFile :: "wn_env \<Rightarrow> node_map \<Rightarrow> (bool \<times> node_map) option" where
  "LoadAllConfigXmlFile E m = load_files E (wn_GetAllRealConfigPath E) m"

text \<open>\<open>PrintCachedInfo\<close> follows every pointer of the map.\<close>

definition config_Init :: "wn_env \<Rightarrow> node_map \<Rightarrow> (bool \<times> node_map) option" where
  "config_Init E m =
     (case LoadAllConfigXmlFile E m of
        None \<Rightarrow> None
      | Some (b, m1) \<Rightarrow>
          if \<not> b then Some (False, m1)
          else if None \<in> snd ` set m1 then None else Some (True, m1))"

section \<open>socperf\_executor\_wirte\_node.cpp\<close>

definition GetFdForFilePath :: "wn_env \<Rightarrow> string \<Rightarrow> wn_state \<Rightarrow> int \<times> wn_state" where
  "GetFdForFilePath E filePath st =
     (case map_of (fdInfo st) filePath of
        Some fd \<Rightarrow> (fd, st)
      | None \<Rightarrow>
          if filePath = [] \<or> PG_PATH_MAX < length filePath then (- 1, st)
          else (case wn_realpath E filePath of
              None \<Rightarrow> (- 1, st)
            | Some path \<Rightarrow>
                if \<not> wn_open E path then (- 1, st)
                else (let fd = 3 + int (length (wn_opened st))
                      in (fd, st\<lparr>wn_opened := wn_opened st @ [path], fdInfo := fdInfo st @ [(filePath, fd)]\<rparr>))))"

definition WriteNode :: "wn_env \<Rightarrow> i32 \<Rightarrow> string \<Rightarrow> string \<Rightarrow> wn_state \<Rightarrow> wn_state" where
  "WriteNode E resId filePath v st =
     (let st1 = st\<lparr>wn_nodes := touch_node resId (wn_nodes st)\<rparr> in
      case node_at resId (wn_nodes st1) of
        None \<Rightarrow> st1
      | Some n \<Rightarrow>
          if rn_persistMode n = REPORT_TO_PERFSO then st1
          else (case GetFdForFilePath E filePath st1 of
              (fd, st2) \<Rightarrow> if fd < 0 then st2 else st2\<lparr>wn_writes := wn_writes st2 @ [(fd, v)]\<rparr>))"

text \<open>The texts of one level, one for each path; a text that is missing is read behind the end.\<close>

fun write_texts :: "wn_env \<Rightarrow> i32 \<Rightarrow> string list \<Rightarrow> string list \<Rightarrow> wn_state \<Rightarrow> wn_state option" where
  "write_texts E resId [] texts st = Some st"
| "write_texts E resId (p # ps) [] st = None"
| "write_texts E resId (p # ps) (t # ts) st = write_texts E resId ps ts (WriteNode E resId p t st)"

definition InitResourceNodeInfo :: "wn_env \<Rightarrow> res_node option \<Rightarrow> wn_state \<Rightarrow> wn_state option" where
  "InitResourceNodeInfo E node st =
     (case node of
        None \<Rightarrow> Some st
      | Some n \<Rightarrow>
          if rn_persistMode n = REPORT_TO_PERFSO then Some st
          else (case rn_kind n of
              GovResNode paths levels \<Rightarrow>
                write_texts E (rn_id n) paths (case map_of levels (rn_def n) of None \<Rightarrow> [] | Some ts \<Rightarrow> ts) st
            | ResNode path pair \<Rightarrow> Some (WriteNode E (rn_id n) path (to_string (rn_def n)) st)))"

fun init_nodes :: "wn_env \<Rightarrow> i32 list \<Rightarrow> wn_state \<Rightarrow> wn_state option" where
  "init_nodes E [] st = Some st"
| "init_nodes E (i # is) st =
     Option.bind (InitResourceNodeInfo E (node_at i (wn_nodes st)) st) (init_nodes E is)"

definition InitThreadWraps :: "wn_env \<Rightarrow> wn_state \<Rightarrow> wn_state option" where
  "InitThreadWraps E st =
     (case config_Init E (wn_nodes st) of
        None \<Rightarrow> None
      | Some (b, m) \<Rightarrow> init_nodes E (wn_order E (map fst m)) (st\<lparr>wn_nodes := m\<rparr>))"

definition UpdateCurrentValue :: "wn_env \<Rightarrow> i32 \<Rightarrow> i64 \<Rightarrow> wn_state \<Rightarrow> wn_state option" where
  "UpdateCurrentValue E resId currValue st =
     (case IsGovResId resId (wn_nodes st) of
        None \<Rightarrow> None
      | Some isGov \<Rightarrow>
          (case node_at resId (wn_nodes st) of
             None \<Rightarrow> None
           | Some n \<Rightarrow>
               (case rn_kind n of
                  GovResNode paths levels \<Rightarrow>
                    (case map_of levels currValue of
                       Some targetStrs \<Rightarrow>
                         if rn_persistMode n \<noteq> REPORT_TO_PERFSO then write_texts E resId paths targetStrs st
                         else Some st
                     | None \<Rightarrow> Some st)
                | ResNode path pair \<Rightarrow> Some (WriteNode E resId path (to_string currValue) st))))"

definition UpdateResIdCurrentValue :: "wn_env \<Rightarrow> i32 \<Rightarrow> i64 \<Rightarrow> wn_state \<Rightarrow> wn_state option" where
  "UpdateResIdCurrentValue E resId currValue st =
     (if currValue = NODE_DEFAULT_VALUE then
        (let st1 = st\<lparr>wn_nodes := touch_node resId (wn_nodes st)\<rparr> in
         case node_at resId (wn_nodes st1) of
           None \<Rightarrow> Some st1
         | Some n \<Rightarrow> UpdateCurrentValue E resId (rn_def n) st1)
      else UpdateCurrentValue E resId currValue st)"

fun WriteNodeThreadWraps :: "wn_env \<Rightarrow> (i32 \<times> i64) list \<Rightarrow> wn_state \<Rightarrow> wn_state option" where
  "WriteNodeThreadWraps E [] st = Some st"
| "WriteNodeThreadWraps E ((resId, v) # rs) st =
     Option.bind (UpdateResIdCurrentValue E resId v st) (WriteNodeThreadWraps E rs)"

section \<open>socperf\_executor\_plugin.cpp\<close>

definition EWS_TYPE_SOCPERF_EXECUTOR_ASYNC_EVENT :: u32 where "EWS_TYPE_SOCPERF_EXECUTOR_ASYNC_EVENT = 11"
definition SOCPERF_EVENT_WIRTE_NODE :: i64 where "SOCPERF_EVENT_WIRTE_NODE = 1"
definition WN_LIB_NAME :: string where "WN_LIB_NAME = ''libsocperf_executor_plugin.z.so''"
definition QOSID_STRING :: string where "QOSID_STRING = ''qosId''"
definition VALUE_STRING :: string where "VALUE_STRING = ''value''"

text \<open>\<open>get\<close> of an array of integers, before they are narrowed; booleans count as numbers.\<close>

fun number_items :: "wn_env \<Rightarrow> json list \<Rightarrow> int list option" where
  "number_items E [] = Some []"
| "number_items E (JInt i # l) = map_option (\<lambda>r. i # r) (number_items E l)"
| "number_items E (JUint n # l) = map_option (\<lambda>r. int n # r) (number_items E l)"
| "number_items E (JFloat # l) = map_option (\<lambda>r. wn_float E # r) (number_items E l)"
| "number_items E (JBool b # l) = map_option (\<lambda>r. (if b then 1 else 0) # r) (number_items E l)"
| "number_items E (_ # l) = None"

text \<open>
  The resources and values of a payload; nothing when there is no payload, a member is missing or
  the lists differ in length.
\<close>

definition node_requests :: "wn_env \<Rightarrow> json \<Rightarrow> (i32 \<times> i64) list option" where
  "node_requests E payload =
     (case payload of
        JNull \<Rightarrow> Some []
      | JObj m \<Rightarrow>
          (case (member QOSID_STRING (JObj m), member VALUE_STRING (JObj m)) of
             (None, _) \<Rightarrow> Some []
           | (Some JNull, _) \<Rightarrow> Some []
           | (Some q, None) \<Rightarrow> Some []
           | (Some q, Some JNull) \<Rightarrow> Some []
           | (Some (JArr ids), Some (JArr vals)) \<Rightarrow>
               (case (number_items E ids, number_items E vals) of
                  (Some resIdVec, Some valueVec) \<Rightarrow>
                    Some (if length resIdVec \<noteq> length valueVec then []
                          else zip (map wrap_s32 resIdVec) (map wrap_s64 valueVec))
                | _ \<Rightarrow> None)
           | _ \<Rightarrow> None)
      | _ \<Rightarrow> None)"

definition SocPerfWirteNode :: "wn_env \<Rightarrow> res_data \<Rightarrow> wn_state \<Rightarrow> wn_state option" where
  "SocPerfWirteNode E data st =
     (if rd_value data \<le> 0 then Some st
      else Option.bind (node_requests E (rd_payload data)) (\<lambda>rs. WriteNodeThreadWraps E rs st))"

definition HandleSocperfWirteNode :: "wn_env \<Rightarrow> res_data \<Rightarrow> wn_state \<Rightarrow> wn_state option" where
  "HandleSocperfWirteNode E data st =
     (if rd_value data \<le> 0 then Some st
      else if rd_value data = SOCPERF_EVENT_WIRTE_NODE then SocPerfWirteNode E data st
      else Some st)"

definition wn_Init :: "wn_env \<Rightarrow> wn_state \<Rightarrow> wn_state option \<times> pm_call list" where
  "wn_Init E st =
     (let keys = [(EWS_TYPE_SOCPERF_EXECUTOR_ASYNC_EVENT, SOCPERF_EVENT_WIRTE_NODE)]
      in (InitThreadWraps E (st\<lparr>wn_resTypeWithVal := keys,
            wn_functionMap := [EWS_TYPE_SOCPERF_EXECUTOR_ASYNC_EVENT]\<rparr>),
          map (\<lambda>k. CallSubscribeAccurately WN_LIB_NAME (fst k) (snd k)) keys))"

definition wn_Disable :: "wn_state \<Rightarrow> wn_state \<times> pm_call list" where
  "wn_Disable st =
     (st\<lparr>wn_functionMap := [], wn_resTypeWithVal := []\<rparr>,
      map (\<lambda>k. CallUnSubscribeAccurately WN_LIB_NAME (fst k) (snd k)) (wn_resTypeWithVal st))"

definition wn_DispatchResource :: "wn_env \<Rightarrow> res_data \<Rightarrow> wn_state \<Rightarrow> wn_state option" where
  "wn_DispatchResource E data st =
     (if rd_value data \<le> 0 then Some st
      else if rd_type data \<in> set (wn_functionMap st) then HandleSocperfWirteNode E data st
      else Some st)"

definition wn_OnPluginInit :: "wn_env \<Rightarrow> string \<Rightarrow> wn_state \<Rightarrow> bool \<times> wn_state option \<times> pm_call list" where
  "wn_OnPluginInit E libName st =
     (if libName \<noteq> WN_LIB_NAME then (False, Some st, []) else (True, wn_Init E st))"

end
