(* ===== verification/Write_Node_Props.thy ===== *)
theory Write_Node_Props
  imports Write_Node_Model
begin

text \<open>
  Properties of the frequency plugin of the executor: what a configuration that loads is sure to
  hold, where the writer writes, and the configurations and requests it does not survive.
\<close>

section \<open>The map of the resources\<close>

definition node_ok :: "res_node \<Rightarrow> bool" where
  "node_ok n \<longleftrightarrow> IsValidRangeResId (rn_id n) \<and> IsValidPersistMode (rn_persistMode n)"

definition nodes_ok :: "node_map \<Rightarrow> bool" where
  "nodes_ok m \<longleftrightarrow> distinct (map fst m) \<and> (\<forall>k n. map_of m k = Some (Some n) \<longrightarrow> rn_id n = k \<and> node_ok n)"

definition no_null :: "node_map \<Rightarrow> bool" where
  "no_null m \<longleftrightarrow> (\<forall>k. map_of m k \<noteq> Some None)"

text \<open>Loading only adds nodes; of a governor section all of them are governor nodes.\<close>

definition adds :: "(res_node \<Rightarrow> bool) \<Rightarrow> node_map \<Rightarrow> node_map \<Rightarrow> bool" where
  "adds P m m' \<longleftrightarrow> (\<exists>ns. (\<forall>n \<in> set ns. node_ok n \<and> P n) \<and> m' = fold insert_node ns m)"

lemma map_of_insert_node:
  "map_of (insert_node n m) k =
     (if map_of m k = None \<and> k = rn_id n then Some (Some n) else map_of m k)"
  by (auto simp: insert_node_def map_add_def split: option.split)

lemma map_of_touch_node: "map_of (touch_node i m) k = (if map_of m k = None \<and> k = i then Some None else map_of m k)"
  by (auto simp: touch_node_def map_add_def split: option.split)

lemma node_at_touch [simp]: "node_at i (touch_node j m) = node_at i m"
  by (auto simp: node_at_def map_of_touch_node)

lemma adds_refl [simp]: "adds P m m"
  unfolding adds_def by (intro exI[of _ "[]"]) simp

lemma adds_insert: "node_ok n \<Longrightarrow> P n \<Longrightarrow> adds P m (insert_node n m)"
  unfolding adds_def by (intro exI[of _ "[n]"]) simp

lemma adds_trans: "adds P a b \<Longrightarrow> adds P b c \<Longrightarrow> adds P a c"
proof -
  assume "adds P a b" "adds P b c"
  then obtain ns ns' where "\<forall>n \<in> set ns. node_ok n \<and> P n" "b = fold insert_node ns a"
    "\<forall>n \<in> set ns'. node_ok n \<and> P n" "c = fold insert_node ns' b"
    unfolding adds_def by blast
  then show ?thesis unfolding adds_def by (intro exI[of _ "ns @ ns'"]) auto
qed

lemma adds_weaken: "adds P a b \<Longrightarrow> (\<And>n. P n \<Longrightarrow> Q n) \<Longrightarrow> adds Q a b"
  unfolding adds_def by blast

lemma insert_node_ok: "nodes_ok m \<Longrightarrow> node_ok n \<Longrightarrow> nodes_ok (insert_node n m)"
  by (auto simp: nodes_ok_def map_of_insert_node insert_node_def map_of_eq_None_iff)

lemma touch_node_ok: "nodes_ok m \<Longrightarrow> nodes_ok (touch_node i m)"
  by (auto simp: nodes_ok_def map_of_touch_node touch_node_def map_of_eq_None_iff)

lemma insert_node_no_null: "no_null m \<Longrightarrow> no_null (insert_node n m)"
  by (simp add: no_null_def map_of_insert_node)

lemma fold_insert_ok:
  "\<forall>n \<in> set ns. node_ok n \<Longrightarrow> nodes_ok m \<Longrightarrow> nodes_ok (fold insert_node ns m)"
  by (induction ns arbitrary: m) (auto simp: insert_node_ok)

lemma fold_insert_no_null: "no_null m \<Longrightarrow> no_null (fold insert_node ns m)"
  by (induction ns arbitrary: m) (auto simp: insert_node_no_null)

lemma fold_insert_keeps: "map_of m k = Some e \<Longrightarrow> map_of (fold insert_node ns m) k = Some e"
  by (induction ns arbitrary: m) (auto simp: map_of_insert_node)

lemma fold_insert_from:
  "map_of (fold insert_node ns m) k = Some e \<Longrightarrow> map_of m k = Some e \<or> (\<exists>n \<in> set ns. e = Some n)"
proof (induction ns arbitrary: m)
  case (Cons n ns)
  then have "map_of (insert_node n m) k = Some e \<or> (\<exists>n \<in> set ns. e = Some n)" by simp
  then show ?case by (auto simp: map_of_insert_node split: if_splits)
qed simp

lemma adds_facts:
  assumes "adds P m m'"
  shows "nodes_ok m \<Longrightarrow> nodes_ok m'" "no_null m \<Longrightarrow> no_null m'"
    "map_of m k = Some e \<Longrightarrow> map_of m' k = Some e"
    "map_of m' k = Some (Some n) \<Longrightarrow> map_of m k = Some (Some n) \<or> P n"
proof -
  obtain ns where ns: "\<forall>n \<in> set ns. node_ok n \<and> P n" "m' = fold insert_node ns m"
    using assms unfolding adds_def by blast
  show "nodes_ok m \<Longrightarrow> nodes_ok m'" "no_null m \<Longrightarrow> no_null m'" "map_of m k = Some e \<Longrightarrow> map_of m' k = Some e"
    using ns fold_insert_ok fold_insert_no_null fold_insert_keeps by blast+
  show "map_of m' k = Some (Some n) \<Longrightarrow> map_of m k = Some (Some n) \<or> P n"
    using ns fold_insert_from[of ns m k "Some n"] by auto
qed

subsection \<open>What the sections of a configuration add\<close>

abbreviation anything :: "res_node \<Rightarrow> bool" where "anything \<equiv> \<lambda>n. True"

lemma LoadResourceAvailable_keeps:
  "LoadResourceAvailable t n = Some n' \<Longrightarrow> rn_id n' = rn_id n \<and> rn_persistMode n' = rn_persistMode n"
  by (auto simp: LoadResourceAvailable_def)

lemma LoadFreqResourceContent_adds:
  assumes "LoadFreqResourceContent pm ns n m = (b, m')" "node_ok n"
  shows "adds anything m m'"
  using assms
  by (auto simp: LoadFreqResourceContent_def Let_def node_ok_def adds_insert split: if_splits option.splits
      dest!: LoadResourceAvailable_keeps)

lemma TraversalFreqResource_adds:
  assumes "TraversalFreqResource g m = (b, m')"
  shows "adds anything m m'"
proof (cases "CheckResourceTag (xml_prop ''id'' g) (xml_prop ''name'' g) (xml_prop ''pair'' g)
    (xml_prop ''mode'' g) (xml_prop ''switch'' g) \<and> map_of m (atoi (the (xml_prop ''id'' g))) = None")
  case True
  let ?pm = "case xml_prop ''switch'' g of None \<Rightarrow> 0 | Some p \<Rightarrow> atoi p"
  have "node_ok (new_ResNode (atoi (the (xml_prop ''id'' g))) nm md pr ?pm)" for nm md pr
    using True by (auto simp: node_ok_def new_ResNode_def CheckResourceTag_def CheckResourcePersistMode_def
        IsValidPersistMode_def WRITE_NODE_def split: option.splits)
  then show ?thesis
    using assms True by (auto simp: TraversalFreqResource_def Let_def intro: LoadFreqResourceContent_adds)
next
  case False
  then show ?thesis using assms by (auto simp: TraversalFreqResource_def Let_def split: if_splits)
qed

lemma load_res_nodes_adds: "load_res_nodes gs m = (b, m') \<Longrightarrow> adds anything m m'"
proof (induction gs m arbitrary: b m' rule: load_res_nodes.induct)
  case (2 g gs m)
  obtain b1 m1 where t: "TraversalFreqResource g m = (b1, m1)" by (cases "TraversalFreqResource g m")
  show ?case
    using 2 TraversalFreqResource_adds[OF t]
    by (auto simp: t intro: adds_trans split: if_splits)
qed simp

lemma LoadGovResourceAvailable_keeps:
  "LoadGovResourceAvailable level node n = (b, n') \<Longrightarrow>
   rn_id n' = rn_id n \<and> rn_persistMode n' = rn_persistMode n \<and> (rn_isGov n \<longrightarrow> rn_isGov n')"
  by (auto simp: LoadGovResourceAvailable_def Let_def rn_isGov_def split: if_splits)

lemma gov_element_keeps:
  "gov_element pm x n = (b, n') \<Longrightarrow>
   rn_id n' = rn_id n \<and> rn_persistMode n' = rn_persistMode n \<and> (rn_isGov n \<longrightarrow> rn_isGov n')"
  by (auto simp: gov_element_def rn_isGov_def split: option.splits if_splits
      dest: LoadGovResourceAvailable_keeps[unfolded rn_isGov_def])

lemma TraversalGovResource_keeps:
  "TraversalGovResource pm xs n = (b, n') \<Longrightarrow>
   rn_id n' = rn_id n \<and> rn_persistMode n' = rn_persistMode n \<and> (rn_isGov n \<longrightarrow> rn_isGov n')"
proof (induction xs arbitrary: n)
  case (Cons x xs)
  obtain b1 n1 where g: "gov_element pm x n = (b1, n1)" by (cases "gov_element pm x n")
  show ?case using Cons gov_element_keeps[OF g] g by (auto split: if_splits)
qed simp

lemma load_gov_nodes_adds: "load_gov_nodes gs m = (b, m') \<Longrightarrow> adds rn_isGov m m'"
proof (induction gs m arbitrary: b m' rule: load_gov_nodes.induct)
  case (2 g gs m)
  let ?id = "xml_prop ''id'' g" and ?nm = "xml_prop ''name'' g" and ?sw = "xml_prop ''switch'' g"
  let ?pm = "case ?sw of None \<Rightarrow> 0 | Some p \<Rightarrow> atoi p"
  show ?case
  proof (cases "xml_name g = Some ''res'' \<and> CheckGovResourceTag ?id ?nm ?sw \<and> map_of m (atoi (the ?id)) = None")
    case True
    obtain b1 n where t: "TraversalGovResource ?pm (xml_children g) (new_GovResNode (atoi (the ?id)) (the ?nm) ?pm) = (b1, n)"
      by (cases "TraversalGovResource ?pm (xml_children g) (new_GovResNode (atoi (the ?id)) (the ?nm) ?pm)")
    have "node_ok (new_GovResNode (atoi (the ?id)) (the ?nm) ?pm)"
      using True by (auto simp: node_ok_def new_GovResNode_def CheckGovResourceTag_def
          IsValidPersistMode_def WRITE_NODE_def split: option.splits)
    then have "adds rn_isGov m (insert_node n m)"
      using TraversalGovResource_keeps[OF t]
      by (intro adds_insert) (auto simp: node_ok_def new_GovResNode_def rn_isGov_def)
    moreover have "b1 \<Longrightarrow> adds rn_isGov (insert_node n m) m'"
      using 2 True t by (auto simp: Let_def)
    ultimately show ?thesis
      using 2(4) True t by (auto simp: Let_def intro: adds_trans split: if_splits)
  next
    case False
    then show ?thesis using 2 by (auto simp: Let_def split: if_splits)
  qed
qed simp

subsection \<open>What the checks establish\<close>

definition def_available :: "res_node \<Rightarrow> bool" where
  "def_available n \<longleftrightarrow> rn_available n = [] \<or> rn_def n \<in> set (rn_available n)"

definition pair_known :: "node_map \<Rightarrow> res_node \<Rightarrow> bool" where
  "pair_known m n \<longleftrightarrow> rn_isGov n \<or> rk_pair (rn_kind n) = WN_INVALID_VALUE \<or> map_of m (rk_pair (rn_kind n)) \<noteq> None"

definition all_valid :: "node_map \<Rightarrow> bool" where
  "all_valid m \<longleftrightarrow> (\<forall>k n. map_of m k = Some (Some n) \<longrightarrow> def_available n \<and> pair_known m n)"

definition fair :: "wn_env \<Rightarrow> bool" where
  "fair E \<longleftrightarrow> (\<forall>ks. set (wn_order E ks) = set ks)"

lemma node_at_Some: "node_at i m = Some n \<longleftrightarrow> map_of m i = Some (Some n)"
  by (auto simp: node_at_def split: option.splits)

lemma node_at_total: "no_null m \<Longrightarrow> i \<in> fst ` set m \<Longrightarrow> \<exists>n. node_at i m = Some n"
  by (metis map_of_eq_None_iff no_null_def node_at_Some not_None_eq)

lemma defs_valid_sound:
  "defs_valid m is = Some True \<Longrightarrow> i \<in> set is \<Longrightarrow> node_at i m = Some n \<Longrightarrow> def_available n"
  by (induction "is") (auto simp: def_available_def split: option.splits if_splits)

lemma pairs_valid_sound:
  "pairs_valid m is = Some True \<Longrightarrow> i \<in> set is \<Longrightarrow> node_at i m = Some n \<Longrightarrow> pair_known m n"
  by (induction "is") (auto simp: pair_known_def rn_isGov_def split: option.splits if_splits res_kind.splits)

lemma checks_total:
  assumes "no_null m" "set is \<subseteq> fst ` set m"
  shows "\<exists>b. defs_valid m is = Some b" "\<exists>b. pairs_valid m is = Some b"
  using assms(2) node_at_total[OF assms(1)]
  by (induction "is") (force split: res_kind.split)+

lemma CheckDefValid_facts:
  assumes "fair E" "no_null m"
  shows "\<exists>b. CheckDefValid E m = Some b \<and> (b \<longrightarrow> (\<forall>k n. map_of m k = Some (Some n) \<longrightarrow> def_available n))"
proof -
  have s: "set (wn_order E (map fst m)) = fst ` set m" using assms(1) by (simp add: fair_def)
  then obtain b where b: "CheckDefValid E m = Some b"
    using checks_total(1)[OF assms(2), of "wn_order E (map fst m)"] by (auto simp: CheckDefValid_def)
  have "def_available n" if "b" "map_of m k = Some (Some n)" for k n
    using defs_valid_sound[of m "wn_order E (map fst m)" k n] b that s
      map_of_SomeD[OF that(2)] by (force simp: CheckDefValid_def node_at_Some)
  with b show ?thesis by blast
qed

lemma CheckPairResIdValid_facts:
  assumes "fair E" "no_null m"
  shows "\<exists>b. CheckPairResIdValid E m = Some b \<and> (b \<longrightarrow> (\<forall>k n. map_of m k = Some (Some n) \<longrightarrow> pair_known m n))"
proof -
  have s: "set (wn_order E (map fst m)) = fst ` set m" using assms(1) by (simp add: fair_def)
  then obtain b where b: "CheckPairResIdValid E m = Some b"
    using checks_total(2)[OF assms(2), of "wn_order E (map fst m)"] by (auto simp: CheckPairResIdValid_def)
  have "pair_known m n" if "b" "map_of m k = Some (Some n)" for k n
    using pairs_valid_sound[of m "wn_order E (map fst m)" k n] b that s
      map_of_SomeD[OF that(2)] by (force simp: CheckPairResIdValid_def node_at_Some)
  with b show ?thesis by blast
qed

text \<open>A loading function returns, adds nodes only, and keeps the checked facts when it succeeds.\<close>

definition loads :: "node_map \<Rightarrow> (bool \<times> node_map) option \<Rightarrow> bool" where
  "loads m r \<longleftrightarrow> (\<exists>b m'. r = Some (b, m') \<and> adds anything m m' \<and> (b \<and> all_valid m \<longrightarrow> all_valid m'))"

lemma loads_unchanged [simp]: "loads m (Some (b, m))"
  by (simp add: loads_def)

lemma loads_then:
  assumes "loads m r" "no_null m" "\<And>m1. no_null m1 \<Longrightarrow> loads m1 (f m1)"
  shows "loads m (case r of None \<Rightarrow> None | Some (b, m1) \<Rightarrow> if b then f m1 else Some (False, m1))"
proof -
  obtain b m1 where r: "r = Some (b, m1)" "adds anything m m1" "b \<and> all_valid m \<longrightarrow> all_valid m1"
    using assms(1) unfolding loads_def by blast
  have "loads m1 (f m1)" by (rule assms(3)[OF adds_facts(2)[OF r(2) assms(2)]])
  then show ?thesis using r adds_trans[OF r(2)] by (cases b) (auto simp: loads_def)
qed

lemma LoadResource_facts:
  assumes "fair E" "no_null m"
  shows "loads m (LoadResource E c m)"
proof -
  obtain b1 m1 where l: "load_res_nodes (xml_children c) m = (b1, m1)" by (cases "load_res_nodes (xml_children c) m")
  note a = load_res_nodes_adds[OF l]
  have "no_null m1" using adds_facts(2)[OF a] assms(2) .
  from CheckPairResIdValid_facts[OF assms(1) this] CheckDefValid_facts[OF assms(1) this] obtain p d where
    "CheckPairResIdValid E m1 = Some p \<and> (p \<longrightarrow> (\<forall>k n. map_of m1 k = Some (Some n) \<longrightarrow> pair_known m1 n))"
    "CheckDefValid E m1 = Some d \<and> (d \<longrightarrow> (\<forall>k n. map_of m1 k = Some (Some n) \<longrightarrow> def_available n))"
    by blast
  then show ?thesis
    using a l by (cases b1; cases p) (auto simp: LoadResource_def all_valid_def loads_def)
qed

lemma LoadGovResource_facts:
  assumes "fair E" "no_null m"
  shows "loads m (LoadGovResource E c m)"
proof -
  obtain b1 m1 where l: "load_gov_nodes (xml_children c) m = (b1, m1)" by (cases "load_gov_nodes (xml_children c) m")
  note a = load_gov_nodes_adds[OF l]
  have "no_null m1" using adds_facts(2)[OF a] assms(2) .
  from CheckDefValid_facts[OF assms(1) this] obtain d where
    d: "CheckDefValid E m1 = Some d" "d \<longrightarrow> (\<forall>k n. map_of m1 k = Some (Some n) \<longrightarrow> def_available n)"
    by blast
  have "pair_known m1 n" if "all_valid m" "map_of m1 k = Some (Some n)" for k n
    using adds_facts(4)[OF a that(2)] that(1) adds_facts(3)[OF a]
    by (auto simp: all_valid_def pair_known_def) (metis not_None_eq)
  then show ?thesis
    using adds_weaken[OF a, of anything] l d by (cases b1) (auto simp: LoadGovResource_def all_valid_def loads_def)
qed

lemma ParseResourceXmlFile_facts:
  assumes "fair E"
  shows "no_null m \<Longrightarrow> loads m (ParseResourceXmlFile E xs m)"
proof (induction xs arbitrary: m)
  case (Cons x xs)
  let ?r = "if xml_name x = Some ''Resource'' then LoadResource E x m
    else if xml_name x = Some ''GovResource'' then LoadGovResource E x m else Some (True, m)"
  have "loads m ?r"
    using LoadResource_facts[OF assms Cons.prems, of x] LoadGovResource_facts[OF assms Cons.prems, of x] by simp
  from loads_then[OF this Cons.prems Cons.IH] show ?case by simp
qed simp

lemma LoadConfigXmlFile_facts:
  "fair E \<Longrightarrow> no_null m \<Longrightarrow> loads m (LoadConfigXmlFile E f m)"
  using ParseResourceXmlFile_facts by (auto simp: LoadConfigXmlFile_def split: option.split)

lemma load_files_facts:
  assumes "fair E"
  shows "no_null m \<Longrightarrow> loads m (load_files E fs m)"
proof (induction fs arbitrary: m)
  case (Cons f fs)
  from loads_then[OF LoadConfigXmlFile_facts[OF assms Cons.prems] Cons.prems Cons.IH] show ?case by simp
qed simp

text \<open>
  Loading the configuration into an empty map always returns, and every resource it leaves is
  stored under its own identifier, which is in range, with one of the two persist modes; when it
  succeeds, the default of every resource is one of its values if it has any, and its pair exists.
\<close>

theorem configuration_checked:
  assumes "\<And>ks. set (wn_order E ks) = set ks"
  shows "\<exists>ok m. config_Init E [] = Some (ok, m) \<and> distinct (map fst m) \<and>
    (\<forall>(k, e) \<in> set m. \<exists>n. e = Some n \<and> rn_id n = k \<and> 1000 \<le> k \<and> k \<le> 5999 \<and> rn_persistMode n \<in> {0, 1} \<and>
      (ok \<longrightarrow> (rn_available n = [] \<or> rn_def n \<in> set (rn_available n)) \<and>
        (\<forall>p pair. rn_kind n = ResNode p pair \<longrightarrow> pair = WN_INVALID_VALUE \<or> pair \<in> fst ` set m)))"
proof -
  have "fair E" "no_null []" using assms by (simp_all add: fair_def no_null_def)
  then have "loads [] (LoadAllConfigXmlFile E [])" by (simp add: LoadAllConfigXmlFile_def load_files_facts)
  moreover have "all_valid []" by (simp add: all_valid_def)
  ultimately obtain ok m where
    m: "LoadAllConfigXmlFile E [] = Some (ok, m)" "adds anything [] m" "ok \<longrightarrow> all_valid m"
    by (auto simp: loads_def)
  have ok: "nodes_ok m" "no_null m"
    using adds_facts(1,2)[OF m(2)] by (simp_all add: nodes_ok_def no_null_def)
  have d: "distinct (map fst m)" using ok(1) by (simp add: nodes_ok_def)
  have entry: "\<exists>n. e = Some n \<and> map_of m k = Some (Some n)" if "(k, e) \<in> set m" for k e
    using map_of_is_SomeI[OF d that] ok(2) by (cases e) (auto simp: no_null_def)
  then have "None \<notin> snd ` set m" by fastforce
  with m(1) have "config_Init E [] = Some (ok, m)" by (simp add: config_Init_def)
  moreover have "case x of (k, e) \<Rightarrow> \<exists>n. e = Some n \<and> rn_id n = k \<and> 1000 \<le> k \<and> k \<le> 5999 \<and> rn_persistMode n \<in> {0, 1} \<and>
      (ok \<longrightarrow> (rn_available n = [] \<or> rn_def n \<in> set (rn_available n)) \<and>
        (\<forall>p pair. rn_kind n = ResNode p pair \<longrightarrow> pair = WN_INVALID_VALUE \<or> pair \<in> fst ` set m))" if "x \<in> set m" for x
  proof -
    obtain k e where x: "x = (k, e)" by (cases x)
    with entry that obtain n where n: "e = Some n" "map_of m k = Some (Some n)" by blast
    then have "rn_id n = k" "node_ok n" using ok(1) by (auto simp: nodes_ok_def)
    moreover have "ok \<longrightarrow> def_available n \<and> pair_known m n" using m(3) n(2) by (auto simp: all_valid_def)
    moreover have "pair = WN_INVALID_VALUE \<or> pair \<in> fst ` set m" if "ok" "rn_kind n = ResNode p pair" for p pair
      using calculation that map_of_eq_None_iff[of m pair] by (auto simp: pair_known_def rn_isGov_def)
    ultimately show ?thesis
      using n(1) x
      by (auto simp: node_ok_def IsValidRangeResId_def IsValidPersistMode_def MIN_RESOURCE_ID_def MAX_RESOURCE_ID_def
          WRITE_NODE_def REPORT_TO_PERFSO_def def_available_def)
  qed
  ultimately show ?thesis using d by blast
qed

text \<open>A configuration with a pair of frequencies and a governor of two files.\<close>

definition el :: "string \<Rightarrow> (string \<times> string) list \<Rightarrow> string \<Rightarrow> xml_node list \<Rightarrow> xml_node" where
  "el name attrs text children =
     XmlNode (Some name) False (map (\<lambda>(a, v). (Some a, Some v)) attrs) (Some text) children"

definition demo_doc :: xml_node where
  "demo_doc = el ''Configs'' [] []
     [el ''Resource'' [] []
        [el ''res'' [(''id'', ''1000''), (''name'', ''low''), (''pair'', ''1001'')] []
           [el ''default'' [] ''5'' [], el ''path'' [] ''/low'' [], el ''node'' [] ''5 7'' []],
         el ''res'' [(''id'', ''1001''), (''name'', ''high''), (''pair'', ''1000'')] []
           [el ''default'' [] ''9'' [], el ''path'' [] ''/high'' []]],
      el ''GovResource'' [] []
        [el ''res'' [(''id'', ''1002''), (''name'', ''gov'')] []
           [el ''default'' [] ''0'' [], el ''path'' [] ''/a'' [], el ''path'' [] ''/b'' [],
            el ''node'' [(''level'', ''0'')] ''x|y'' [], el ''node'' [(''level'', ''1'')] ''u|v'' []]]]"

definition demo_wn :: wn_env where
  "demo_wn = \<lparr>wn_reader = (\<lambda>f. Some (Some demo_doc)), wn_cfg_files = Some [Some SOCPERF_RESOURCE_CONFIG_XML],
     wn_realpath = Some, wn_open = (\<lambda>p. True), wn_order = (\<lambda>ks. ks), wn_float = 0\<rparr>"

lemma demo_loads:
  "(case config_Init demo_wn [] of Some (b, m) \<Rightarrow> b \<and> map fst m = [1000, 1001, 1002] | None \<Rightarrow> False)"
  by code_simp

theorem configuration_checked_witness:
  "\<exists>m n. config_Init demo_wn [] = Some (True, m) \<and> (1000, Some n) \<in> set m \<and> rn_id n = 1000"
proof -
  obtain m where m: "config_Init demo_wn [] = Some (True, m)" "map fst m = [1000, 1001, 1002]"
    using demo_loads by (auto split: option.splits)
  have "set (wn_order demo_wn ks) = set ks" for ks by (simp add: demo_wn_def)
  from configuration_checked[of demo_wn, OF this] m(1)
  have a: "\<forall>(k, e) \<in> set m. \<exists>n. e = Some n \<and> rn_id n = k" by fastforce
  have "1000 \<in> fst ` set m" using m(2) by (metis list.set_intros(1) list.set_map)
  then obtain e where "(1000, e) \<in> set m" by force
  with a m(1) show ?thesis by fastforce
qed

section \<open>Where the writer writes\<close>

definition node_paths :: "res_node \<Rightarrow> string set" where
  "node_paths n = (case rn_kind n of ResNode path pair \<Rightarrow> {path} | GovResNode paths levels \<Rightarrow> set paths)"

definition opened_as :: "wn_env \<Rightarrow> string list \<Rightarrow> string \<Rightarrow> int \<Rightarrow> bool" where
  "opened_as E opened path fd \<longleftrightarrow>
     3 \<le> fd \<and> nat (fd - 3) < length opened \<and> wn_realpath E path = Some (opened ! nat (fd - 3))"

definition configured_write :: "node_map \<Rightarrow> (string \<times> int) list \<Rightarrow> int \<times> string \<Rightarrow> bool" where
  "configured_write m fds w \<longleftrightarrow>
     (\<exists>path k n. map_of fds path = Some (fst w) \<and> map_of m k = Some (Some n) \<and> path \<in> node_paths n \<and>
        rn_persistMode n \<noteq> REPORT_TO_PERFSO)"

definition wn_ok :: "wn_env \<Rightarrow> wn_state \<Rightarrow> bool" where
  "wn_ok E st \<longleftrightarrow> nodes_ok (wn_nodes st) \<and>
     (\<forall>path fd. map_of (fdInfo st) path = Some fd \<longrightarrow> opened_as E (wn_opened st) path fd) \<and>
     (\<forall>w \<in> set (wn_writes st). configured_write (wn_nodes st) (fdInfo st) w)"

text \<open>The non-null entries of the maps only grow.\<close>

definition wn_grows :: "wn_state \<Rightarrow> wn_state \<Rightarrow> bool" where
  "wn_grows a b \<longleftrightarrow> (\<forall>k n. map_of (wn_nodes a) k = Some (Some n) \<longrightarrow> map_of (wn_nodes b) k = Some (Some n)) \<and>
     (\<forall>path fd. map_of (fdInfo a) path = Some fd \<longrightarrow> map_of (fdInfo b) path = Some fd)"

lemma configured_write_mono:
  "configured_write (wn_nodes a) (fdInfo a) w \<Longrightarrow> wn_grows a b \<Longrightarrow> configured_write (wn_nodes b) (fdInfo b) w"
  unfolding configured_write_def wn_grows_def by blast

lemma wn_ok_new [simp]: "wn_ok E wn_new"
  by (simp add: wn_ok_def wn_new_def nodes_ok_def)

lemma wn_ok_nodes:
  assumes "wn_ok E st" "nodes_ok m" "wn_grows st (st\<lparr>wn_nodes := m\<rparr>)"
  shows "wn_ok E (st\<lparr>wn_nodes := m\<rparr>)"
  using assms configured_write_mono[OF _ assms(3)] unfolding wn_ok_def by auto

lemma wn_ok_touch:
  assumes "wn_ok E st"
  shows "wn_ok E (st\<lparr>wn_nodes := touch_node i (wn_nodes st)\<rparr>)"
proof (rule wn_ok_nodes[OF assms])
  show "nodes_ok (touch_node i (wn_nodes st))" using assms by (simp add: wn_ok_def touch_node_ok)
qed (simp add: wn_grows_def map_of_touch_node)

lemma wn_ok_statics [simp]:
  "wn_ok E (st\<lparr>wn_functionMap := f, wn_resTypeWithVal := r\<rparr>) = wn_ok E st"
  "wn_ok E (st\<lparr>wn_resTypeWithVal := r, wn_functionMap := f\<rparr>) = wn_ok E st"
  by (simp_all add: wn_ok_def)

lemma GetFdForFilePath_ok:
  assumes "wn_ok E st" "GetFdForFilePath E path st = (fd, st1)"
  shows "wn_ok E st1 \<and> wn_nodes st1 = wn_nodes st \<and> (0 \<le> fd \<longrightarrow> map_of (fdInfo st1) path = Some fd)"
proof (cases "st1 = st")
  case True
  then show ?thesis
    using assms
    by (auto simp: GetFdForFilePath_def Let_def split: option.splits if_splits dest!: arg_cong[of _ _ wn_opened])
next
  case False
  let ?fd = "3 + int (length (wn_opened st))"
  obtain p where p: "map_of (fdInfo st) path = None" "wn_realpath E path = Some p" "fd = ?fd"
    "st1 = st\<lparr>wn_opened := wn_opened st @ [p], fdInfo := fdInfo st @ [(path, ?fd)]\<rparr>"
    using assms(2) False by (auto simp: GetFdForFilePath_def Let_def split: option.splits if_splits)
  have "map_of (fdInfo st1) q = (if q = path then Some ?fd else map_of (fdInfo st) q)" for q
    using p(1) by (auto simp: p(4) map_add_def split: option.split)
  moreover have "opened_as E (wn_opened st) q f \<Longrightarrow> opened_as E (wn_opened st @ [p]) q f" for q f
    by (auto simp: opened_as_def nth_append)
  moreover have "opened_as E (wn_opened st @ [p]) path ?fd" using p(2) by (simp add: opened_as_def)
  moreover have "wn_grows st st1" using calculation(1) p(1) by (auto simp: wn_grows_def p(4))
  ultimately show ?thesis
    using assms(1) configured_write_mono[OF _ \<open>wn_grows st st1\<close>] p(3) by (auto simp: wn_ok_def p(4))
qed

lemma WriteNode_ok:
  assumes "wn_ok E st" "\<And>n. node_at i (wn_nodes st) = Some n \<Longrightarrow> path \<in> node_paths n"
  shows "wn_ok E (WriteNode E i path t st) \<and> wn_nodes (WriteNode E i path t st) = touch_node i (wn_nodes st)"
proof (cases "node_at i (wn_nodes st)")
  case None
  then show ?thesis using wn_ok_touch[OF assms(1)] by (simp add: WriteNode_def)
next
  case (Some n)
  let ?s = "st\<lparr>wn_nodes := touch_node i (wn_nodes st)\<rparr>"
  obtain fd st2 where g: "GetFdForFilePath E path ?s = (fd, st2)" by (cases "GetFdForFilePath E path ?s")
  note ok = GetFdForFilePath_ok[OF wn_ok_touch[OF assms(1)] g]
  have "map_of (wn_nodes st2) i = Some (Some n)"
    using ok Some by (simp add: map_of_touch_node node_at_Some)
  then have "configured_write (wn_nodes st2) (fdInfo st2) (fd, t)"
    if "0 \<le> fd" "rn_persistMode n \<noteq> REPORT_TO_PERFSO"
    using ok that assms(2)[OF Some] unfolding configured_write_def by auto
  then have "wn_ok E (st2\<lparr>wn_writes := wn_writes st2 @ [(fd, t)]\<rparr>)"
    if "0 \<le> fd" "rn_persistMode n \<noteq> REPORT_TO_PERFSO"
    using ok that by (auto simp: wn_ok_def)
  then show ?thesis
    using Some g ok wn_ok_touch[OF assms(1), of i] by (simp add: WriteNode_def Let_def)
qed

lemma write_texts_ok:
  assumes "write_texts E i ps ts st = Some st'" "wn_ok E st" "\<And>n. node_at i (wn_nodes st) = Some n \<Longrightarrow> set ps \<subseteq> node_paths n"
  shows "wn_ok E st' \<and> (\<forall>k. node_at k (wn_nodes st') = node_at k (wn_nodes st))"
  using assms
proof (induction E i ps ts st rule: write_texts.induct)
  case (3 E i p ps t ts st)
  have w: "wn_ok E (WriteNode E i p t st)" "wn_nodes (WriteNode E i p t st) = touch_node i (wn_nodes st)"
    using WriteNode_ok[OF 3(3)] 3(4) by (auto simp: subset_iff)
  show ?case using 3(1)[OF _ w(1)] 3(2,4) by (auto simp: w(2))
qed simp_all

text \<open>A node of the map is written to its own paths.\<close>

lemma InitResourceNodeInfo_ok:
  assumes "InitResourceNodeInfo E (node_at i (wn_nodes st)) st = Some st'" "wn_ok E st"
  shows "wn_ok E st' \<and> (\<forall>k. node_at k (wn_nodes st') = node_at k (wn_nodes st))"
proof (cases "node_at i (wn_nodes st)")
  case None
  then show ?thesis using assms by (simp add: InitResourceNodeInfo_def)
next
  case (Some n)
  then have i: "rn_id n = i" using assms(2) by (auto simp: wn_ok_def nodes_ok_def node_at_Some)
  show ?thesis
  proof (cases "rn_kind n")
    case (ResNode path pair)
    then show ?thesis
      using assms Some i WriteNode_ok[OF assms(2), of i path "to_string (rn_def n)"]
      by (auto simp: InitResourceNodeInfo_def node_paths_def split: if_splits)
  next
    case (GovResNode paths levels)
    then show ?thesis
      using assms Some i write_texts_ok[of E i paths _ st st']
      by (auto simp: InitResourceNodeInfo_def node_paths_def split: if_splits)
  qed
qed

lemma init_nodes_ok:
  assumes "init_nodes E is st = Some st'" "wn_ok E st"
  shows "wn_ok E st' \<and> (\<forall>k. node_at k (wn_nodes st') = node_at k (wn_nodes st))"
  using assms
proof (induction "is" arbitrary: st)
  case (Cons i "is")
  then obtain st1 where "InitResourceNodeInfo E (node_at i (wn_nodes st)) st = Some st1" "init_nodes E is st1 = Some st'"
    by (auto simp: bind_eq_Some_conv)
  with Cons.IH InitResourceNodeInfo_ok[OF _ Cons.prems(2)] show ?case by metis
qed simp

lemma wn_ok_loaded:
  assumes "adds P (wn_nodes st) m" "wn_ok E st"
  shows "wn_ok E (st\<lparr>wn_nodes := m\<rparr>)"
proof (rule wn_ok_nodes[OF assms(2)])
  show "nodes_ok m" using adds_facts(1)[OF assms(1)] assms(2) by (simp add: wn_ok_def)
  show "wn_grows st (st\<lparr>wn_nodes := m\<rparr>)" using adds_facts(3)[OF assms(1)] by (simp add: wn_grows_def)
qed

text \<open>Also with null pointers in the map, loading that returns has only added nodes.\<close>

lemma ParseResourceXmlFile_adds: "ParseResourceXmlFile E xs m = Some (b, m') \<Longrightarrow> adds anything m m'"
proof (induction xs arbitrary: m)
  case (Cons x xs)
  let ?r = "if xml_name x = Some ''Resource'' then LoadResource E x m
    else if xml_name x = Some ''GovResource'' then LoadGovResource E x m else Some (True, m)"
  obtain b1 m1 where r1: "?r = Some (b1, m1)" using Cons.prems by (cases ?r) auto
  have "if b1 then ParseResourceXmlFile E xs m1 = Some (b, m') else m1 = m'"
    using Cons.prems unfolding ParseResourceXmlFile.simps(2) r1 by (cases b1) auto
  note r = r1 this
  have "adds anything m m1" if "LoadResource E x m = Some (b1, m1)"
    using that load_res_nodes_adds[of "xml_children x" m]
    by (auto simp: LoadResource_def split: prod.splits bool.splits option.splits)
  moreover have "adds anything m m1" if "LoadGovResource E x m = Some (b1, m1)"
    using that adds_weaken[OF load_gov_nodes_adds[of "xml_children x" m], of _ _ anything]
    by (auto simp: LoadGovResource_def split: prod.splits bool.splits option.splits)
  ultimately have "adds anything m m1" using r(1) by (auto split: if_splits)
  then show ?case using r(2) Cons.IH[of m1] by (auto intro: adds_trans split: if_splits)
qed simp

lemma load_files_adds: "load_files E fs m = Some (b, m') \<Longrightarrow> adds anything m m'"
proof (induction fs arbitrary: m)
  case (Cons f fs)
  obtain b1 m1 where r: "LoadConfigXmlFile E f m = Some (b1, m1)" "if b1 then load_files E fs m1 = Some (b, m') else m1 = m'"
    using Cons.prems by (auto split: option.splits if_splits)
  then have "adds anything m m1"
    by (auto simp: LoadConfigXmlFile_def split: if_splits option.splits dest: ParseResourceXmlFile_adds)
  then show ?case using r(2) Cons.IH[of m1] by (auto intro: adds_trans split: if_splits)
qed simp

lemma config_Init_adds: "config_Init E m = Some (b, m') \<Longrightarrow> adds anything m m'"
  by (auto simp: config_Init_def LoadAllConfigXmlFile_def split: option.splits if_splits dest: load_files_adds)

lemma InitThreadWraps_ok:
  assumes "InitThreadWraps E st = Some st'" "wn_ok E st"
  shows "wn_ok E st'"
  using assms wn_ok_loaded[OF config_Init_adds assms(2)] init_nodes_ok
  by (fastforce simp: InitThreadWraps_def split: option.splits)

lemma UpdateCurrentValue_ok:
  assumes "UpdateCurrentValue E i v st = Some st'" "wn_ok E st"
  shows "wn_ok E st'"
proof -
  obtain n where n: "node_at i (wn_nodes st) = Some n"
    using assms(1) by (auto simp: UpdateCurrentValue_def split: option.splits)
  show ?thesis
  proof (cases "rn_kind n")
    case (ResNode path pair)
    then show ?thesis
      using assms n WriteNode_ok[OF assms(2), of i path "to_string v"]
      by (auto simp: UpdateCurrentValue_def node_paths_def split: option.splits)
  next
    case (GovResNode paths levels)
    then show ?thesis
      using assms n write_texts_ok[of E i paths _ st st']
      by (auto simp: UpdateCurrentValue_def node_paths_def split: option.splits if_splits)
  qed
qed

lemma UpdateResIdCurrentValue_ok:
  assumes "UpdateResIdCurrentValue E i v st = Some st'" "wn_ok E st"
  shows "wn_ok E st'"
  using assms UpdateCurrentValue_ok wn_ok_touch[OF assms(2), of i]
  by (auto simp: UpdateResIdCurrentValue_def Let_def split: if_splits option.splits)

lemma WriteNodeThreadWraps_ok:
  "WriteNodeThreadWraps E rs st = Some st' \<Longrightarrow> wn_ok E st \<Longrightarrow> wn_ok E st'"
proof (induction E rs st rule: WriteNodeThreadWraps.induct)
  case (2 E i v rs st)
  then obtain st1 where "UpdateResIdCurrentValue E i v st = Some st1" "WriteNodeThreadWraps E rs st1 = Some st'"
    by (auto simp: bind_eq_Some_conv)
  with 2 UpdateResIdCurrentValue_ok show ?case by blast
qed simp

lemma SocPerfWirteNode_cases:
  "SocPerfWirteNode E data st = Some st' \<Longrightarrow> st' = st \<or> (\<exists>rs. WriteNodeThreadWraps E rs st = Some st')"
  by (cases "node_requests E (rd_payload data)") (auto simp: SocPerfWirteNode_def split: if_splits)

lemma wn_DispatchResource_ok:
  assumes "wn_DispatchResource E data st = Some st'" "wn_ok E st"
  shows "wn_ok E st'"
proof -
  have "st' = st \<or> SocPerfWirteNode E data st = Some st'"
    using assms(1) by (auto simp: wn_DispatchResource_def HandleSocperfWirteNode_def split: if_splits)
  then show ?thesis
    using assms(2) WriteNodeThreadWraps_ok SocPerfWirteNode_cases by blast
qed

text \<open>The plugin is initialised, disabled and given events; a step that is undefined ends it.\<close>

inductive wn_step :: "wn_env \<Rightarrow> wn_state \<Rightarrow> wn_state \<Rightarrow> bool" for E where
  init: "fst (wn_Init E st) = Some st' \<Longrightarrow> wn_step E st st'"
| disable: "wn_step E st (fst (wn_Disable st))"
| dispatch: "wn_DispatchResource E data st = Some st' \<Longrightarrow> wn_step E st st'"

inductive wn_reachable :: "wn_env \<Rightarrow> wn_state \<Rightarrow> bool" for E where
  start: "wn_reachable E wn_new"
| step: "wn_reachable E st \<Longrightarrow> wn_step E st st' \<Longrightarrow> wn_reachable E st'"

lemma wn_step_ok: "wn_step E st st' \<Longrightarrow> wn_ok E st \<Longrightarrow> wn_ok E st'"
  by (cases rule: wn_step.cases)
     (auto simp: wn_Init_def wn_Disable_def Let_def intro: InitThreadWraps_ok wn_DispatchResource_ok)

lemma wn_reachable_ok: "wn_reachable E st \<Longrightarrow> wn_ok E st"
  by (induction rule: wn_reachable.induct) (auto intro: wn_step_ok)

text \<open>
  C32. Whatever configurations and requests there were, a text has only been written to a descriptor
  that was opened for a path of a resource in the configuration that is written directly.
\<close>

theorem writes_go_to_configured_paths:
  assumes "wn_reachable E st" "(fd, t) \<in> set (wn_writes st)"
  shows "\<exists>k n path. map_of (wn_nodes st) k = Some (Some n) \<and> rn_id n = k \<and> rn_persistMode n = WRITE_NODE \<and>
    path \<in> node_paths n \<and> 3 \<le> fd \<and> wn_realpath E path = Some (wn_opened st ! nat (fd - 3))"
proof -
  have ok: "wn_ok E st" by (rule wn_reachable_ok[OF assms(1)])
  then obtain path k n where w: "map_of (fdInfo st) path = Some fd" "map_of (wn_nodes st) k = Some (Some n)"
    "path \<in> node_paths n" "rn_persistMode n \<noteq> REPORT_TO_PERFSO"
    using assms(2) by (force simp: wn_ok_def configured_write_def)
  moreover have "rn_id n = k" "node_ok n" using ok w(2) by (auto simp: wn_ok_def nodes_ok_def)
  moreover have "opened_as E (wn_opened st) path fd" using ok w(1) by (auto simp: wn_ok_def)
  ultimately show ?thesis by (auto simp: node_ok_def IsValidPersistMode_def opened_as_def)
qed

definition demo_started :: wn_state where "demo_started = the (fst (wn_Init demo_wn wn_new))"

lemma demo_started_facts:
  "(case fst (wn_Init demo_wn wn_new) of None \<Rightarrow> False | Some st \<Rightarrow>
      wn_writes st = [(3, ''5''), (4, ''9''), (5, ''x''), (6, ''y'')] \<and> wn_opened st = [''/low'', ''/high'', ''/a'', ''/b''])"
  by code_simp

lemma demo_started_reachable: "wn_reachable demo_wn demo_started"
proof -
  have "fst (wn_Init demo_wn wn_new) = Some demo_started"
    using demo_started_facts by (auto simp: demo_started_def split: option.splits)
  then show ?thesis by (rule wn_reachable.step[OF wn_reachable.start wn_step.init])
qed

theorem writes_go_to_configured_paths_witness:
  "\<exists>k n. map_of (wn_nodes demo_started) k = Some (Some n) \<and> ''/b'' \<in> node_paths n"
proof -
  have w: "(6, ''y'') \<in> set (wn_writes demo_started)" "wn_opened demo_started ! nat (6 - 3) = ''/b''"
    using demo_started_facts by (auto simp: demo_started_def split: option.splits)
  obtain k n path where "map_of (wn_nodes demo_started) k = Some (Some n)" "path \<in> node_paths n"
    "wn_realpath demo_wn path = Some (wn_opened demo_started ! nat (6 - 3))"
    using writes_go_to_configured_paths[OF demo_started_reachable w(1)] by blast
  then show ?thesis unfolding w(2) by (auto simp: demo_wn_def)
qed

section \<open>What a request writes\<close>

lemma touch_known: "map_of m i \<noteq> None \<Longrightarrow> touch_node i m = m"
  by (auto simp: touch_node_def)

lemma write_texts_opened:
  assumes "node_at i (wn_nodes st) = Some n" "rn_persistMode n \<noteq> REPORT_TO_PERFSO"
    and "length ts = length ps" "\<And>p. p \<in> set ps \<Longrightarrow> \<exists>fd \<ge> 0. map_of (fdInfo st) p = Some fd"
  shows "write_texts E i ps ts st =
    Some (st\<lparr>wn_writes := wn_writes st @ map (\<lambda>(p, t). (the (map_of (fdInfo st) p), t)) (zip ps ts)\<rparr>)"
  using assms(3,1,4)
proof (induction ts ps arbitrary: st rule: list_induct2)
  case (Cons t ts p ps)
  let ?w = "WriteNode E i p t st"
  obtain fd where fd: "0 \<le> fd" "map_of (fdInfo st) p = Some fd" using Cons.prems(2) by auto
  have "touch_node i (wn_nodes st) = wn_nodes st" using Cons.prems(1) by (intro touch_known) (simp add: node_at_Some)
  then have w: "?w = st\<lparr>wn_writes := wn_writes st @ [(fd, t)]\<rparr>"
    using Cons.prems(1) assms(2) fd by (simp add: WriteNode_def GetFdForFilePath_def Let_def)
  show ?case using Cons.IH[of ?w] Cons.prems fd by (simp add: w)
qed simp

text \<open>
  Asking for a level of a governor whose files are open writes the texts of the level, one to
  each file in the order of the configuration, and nothing when the level is not configured;
  the value -1 asks for the default level.
\<close>

theorem governor_level_written:
  assumes "map_of (wn_nodes st) i = Some (Some n)" "rn_kind n = GovResNode paths levels"
    and "rn_persistMode n \<noteq> REPORT_TO_PERFSO" "\<And>p. p \<in> set paths \<Longrightarrow> \<exists>fd \<ge> 0. map_of (fdInfo st) p = Some fd"
    and "\<And>l ts. map_of levels l = Some ts \<Longrightarrow> length ts = length paths"
  shows "UpdateResIdCurrentValue E i v st =
    Some (st\<lparr>wn_writes := wn_writes st @
      (case map_of levels (if v = NODE_DEFAULT_VALUE then rn_def n else v) of
         None \<Rightarrow> [] | Some ts \<Rightarrow> zip (map (\<lambda>p. the (map_of (fdInfo st) p)) paths) ts)\<rparr>)"
proof -
  have n: "node_at i (wn_nodes st) = Some n" "touch_node i (wn_nodes st) = wn_nodes st"
    using assms(1) by (simp_all add: node_at_Some touch_known)
  have z: "zip (map f ps) ts = map (\<lambda>(p, t). (f p, t)) (zip ps ts)" for f :: "string \<Rightarrow> int" and ps ts :: "string list"
    by (rule zip_map1)
  have "UpdateCurrentValue E i u st = Some (st\<lparr>wn_writes := wn_writes st @
      (case map_of levels u of None \<Rightarrow> [] | Some ts \<Rightarrow> zip (map (\<lambda>p. the (map_of (fdInfo st) p)) paths) ts)\<rparr>)" for u
    using assms n write_texts_opened[OF n(1) assms(3) assms(5) assms(4)]
    by (auto simp: UpdateCurrentValue_def IsGovResId_def z split: option.split)
  then show ?thesis by (simp add: UpdateResIdCurrentValue_def n Let_def)
qed

definition demo_gov :: res_node where
  "demo_gov = \<lparr>rn_id = 1002, rn_name = ''gov'', rn_def = 0, rn_available = [0, 1], rn_persistMode = 0,
     rn_isMaxValue = False, rn_kind = GovResNode [''/a'', ''/b''] [(0, [''x'', ''y'']), (1, [''u'', ''v''])]\<rparr>"

definition demo_gov_state :: wn_state where
  "demo_gov_state = wn_new\<lparr>wn_nodes := [(1002, Some demo_gov)], fdInfo := [(''/a'', 3), (''/b'', 4)],
     wn_opened := [''/a'', ''/b'']\<rparr>"

theorem governor_level_written_witness:
  "UpdateResIdCurrentValue demo_wn 1002 1 demo_gov_state =
     Some (demo_gov_state\<lparr>wn_writes := [(3, ''u''), (4, ''v'')]\<rparr>)"
proof -
  have "map_of [(0 :: i64, [''x'', ''y'']), (1, [''u'', ''v''])] l = Some ts \<Longrightarrow> length ts = length [''/a'', ''/b'']" for l ts
    by (auto split: if_splits)
  moreover have "p \<in> set [''/a'', ''/b''] \<Longrightarrow> \<exists>fd \<ge> 0. map_of (fdInfo demo_gov_state) p = Some fd" for p
    by (auto simp: demo_gov_state_def)
  ultimately show ?thesis
    using governor_level_written[of demo_gov_state 1002 demo_gov "[''/a'', ''/b'']"
        "[(0, [''x'', ''y'']), (1, [''u'', ''v''])]" demo_wn 1]
    by (simp add: demo_gov_state_def demo_gov_def REPORT_TO_PERFSO_def NODE_DEFAULT_VALUE_def wn_new_def)
qed

section \<open>What the plugin does not survive\<close>

lemma init_nodes_undefined:
  assumes "i \<in> set is" "wn_ok E st"
    and "\<And>s. wn_ok E s \<Longrightarrow> node_at i (wn_nodes s) = node_at i (wn_nodes st) \<Longrightarrow>
      InitResourceNodeInfo E (node_at i (wn_nodes s)) s = None"
  shows "init_nodes E is st = None"
  using assms
proof (induction "is" arbitrary: st)
  case (Cons j "is")
  show ?case
  proof (cases "InitResourceNodeInfo E (node_at j (wn_nodes st)) st")
    case (Some st1)
    then have ok: "wn_ok E st1 \<and> (\<forall>k. node_at k (wn_nodes st1) = node_at k (wn_nodes st))"
      using InitResourceNodeInfo_ok[OF _ Cons.prems(2)] by blast
    have "i \<noteq> j" using Cons.prems(3)[OF Cons.prems(2) refl] Some by auto
    then have "init_nodes E is st1 = None"
      using Cons.IH[of st1] Cons.prems ok by auto
    with Some show ?thesis by simp
  qed simp
qed simp

text \<open>
  A configuration that passes all checks can make the start of the plugin undefined: it is when a
  governor has a file but no texts for its default level.
\<close>

theorem governor_without_level_undefined:
  assumes "wn_reachable E st" "\<And>ks. set (wn_order E ks) = set ks" "config_Init E (wn_nodes st) = Some (ok, m)"
    and "map_of m k = Some (Some n)" "rn_kind n = GovResNode paths levels" "paths \<noteq> []"
    and "rn_persistMode n = WRITE_NODE" "map_of levels (rn_def n) = None"
  shows "fst (wn_Init E st) = None"
proof -
  let ?st = "st\<lparr>wn_resTypeWithVal := [(EWS_TYPE_SOCPERF_EXECUTOR_ASYNC_EVENT, SOCPERF_EVENT_WIRTE_NODE)],
    wn_functionMap := [EWS_TYPE_SOCPERF_EXECUTOR_ASYNC_EVENT], wn_nodes := m\<rparr>"
  have "wn_ok E ?st"
    using wn_ok_loaded[OF config_Init_adds[OF assms(3)] wn_reachable_ok[OF assms(1)]]
    by (simp add: wn_ok_def)
  moreover have "k \<in> set (wn_order E (map fst m))"
    using assms(2,4) by (auto dest: map_of_SomeD intro: rev_image_eqI)
  moreover have "InitResourceNodeInfo E (Some n) s = None" for s
    using assms(5-8) by (cases paths) (auto simp: InitResourceNodeInfo_def WRITE_NODE_def REPORT_TO_PERFSO_def)
  moreover have "node_at k (wn_nodes ?st) = Some n" using assms(4) by (simp add: node_at_Some)
  ultimately have "init_nodes E (wn_order E (map fst m)) ?st = None"
    by (intro init_nodes_undefined[of k]) auto
  then show ?thesis
    using assms(3) by (simp add: wn_Init_def InitThreadWraps_def Let_def)
qed

definition demo_bad_doc :: xml_node where
  "demo_bad_doc = el ''Configs'' [] []
     [el ''GovResource'' [] []
        [el ''res'' [(''id'', ''1002''), (''name'', ''gov'')] []
           [el ''default'' [] ''0'' [], el ''path'' [] ''/a'' []]]]"

definition demo_bad :: wn_env where "demo_bad = demo_wn\<lparr>wn_reader := (\<lambda>f. Some (Some demo_bad_doc))\<rparr>"

lemma demo_bad_loads:
  "(case config_Init demo_bad [] of None \<Rightarrow> False | Some (ok, m) \<Rightarrow> ok \<and>
      (case map_of m 1002 of Some (Some n) \<Rightarrow> rn_kind n = GovResNode [''/a''] [] \<and> rn_persistMode n = WRITE_NODE
       | _ \<Rightarrow> False))"
  by code_simp

theorem governor_without_level_undefined_witness:
  "(\<exists>m. config_Init demo_bad [] = Some (True, m)) \<and> fst (wn_Init demo_bad wn_new) = None"
proof -
  obtain m n where m: "config_Init demo_bad [] = Some (True, m)" "map_of m 1002 = Some (Some n)"
    "rn_kind n = GovResNode [''/a''] []" "rn_persistMode n = WRITE_NODE"
    using demo_bad_loads by (auto split: option.splits)
  have "set (wn_order demo_bad ks) = set ks" for ks by (simp add: demo_bad_def demo_wn_def)
  moreover have "wn_nodes wn_new = []" by (simp add: wn_new_def)
  ultimately show ?thesis
    using governor_without_level_undefined[OF wn_reachable.start, of demo_bad True m 1002 n "[''/a'']" "[]"] m by simp
qed

text \<open>
  A request for a resource that is not configured is undefined, except that one for the default
  value is ignored.
\<close>

theorem unknown_resource_undefined:
  assumes "map_of (wn_nodes st) i = None"
  shows "UpdateResIdCurrentValue E i v st =
    (if v = NODE_DEFAULT_VALUE then Some (st\<lparr>wn_nodes := wn_nodes st @ [(i, None)]\<rparr>) else None)"
  using assms
  by (auto simp: UpdateResIdCurrentValue_def UpdateCurrentValue_def IsGovResId_def node_at_def touch_node_def Let_def
      map_add_def)

theorem unknown_resource_undefined_witness: "UpdateResIdCurrentValue demo_wn 4000 7 demo_gov_state = None"
  using unknown_resource_undefined[of demo_gov_state 4000 demo_wn 7]
  by (simp add: demo_gov_state_def NODE_DEFAULT_VALUE_def)

end
