(* ===== verification/Client_Model.thy ===== *)
theory Client_Model
  imports Event_Listener_Mgr
begin

text \<open>
  The client library of the service (ressched\_client/src/res\_sched\_client.cpp): the connection, the
  reports and requests that are passed on, and the local listeners, for which the library is
  registered at the service once per event type and group.  What the system answers to a call is
  an argument of it: whether the service can be reached (\<open>connect_world\<close>), what a remote call
  returns (\<open>None\<close> when it fails, which leaves the result variable as it is), the clock.  JSON text
  is read and written by parameters; the remote calls made are an output list.  Remote objects and
  callbacks are numbers.  The locks make each operation one step.
\<close>

section \<open>Data\<close>

definition rc_CONNECT_FAIL :: i32 where "rc_CONNECT_FAIL = - 2"
definition rc_REQUEST_FAIL :: i32 where "rc_REQUEST_FAIL = - 4"
definition rc_DATA_ERROR :: i32 where "rc_DATA_ERROR = - 5"
definition rc_KILL_PROCESS_FAIL :: i32 where "rc_KILL_PROCESS_FAIL = - 1"
definition rc_ONE_DAY_MILLS :: i64 where "rc_ONE_DAY_MILLS = 24 * 60 * 60 * 1000"

text \<open>How far a connection gets: the registry, the service, its proxy, the death recipient.\<close>

datatype connect_world = NoRegistry | NoService | NoProxy | NoRecipient | Reachable

datatype rc_out =
    RcReport u32 i64 string
  | RcSync u32 i64 string
  | RcKill string
  | RcRegisterLoad
  | RcUnRegisterLoad
  | RcRegisterEvent u32 u32
  | RcUnRegisterEvent u32 u32
  | RcAddDeath
  | RcRemoveDeath
  | RcSubscribeSa
  | RcNotify nat i32
  | RcEvent nat u32 u32 "(string \<times> string) list"
  | RcAbnormal string

record rc_env =
  rx_dump :: "json \<Rightarrow> string"
  rx_parse :: "string \<Rightarrow> json option"
  rx_indet :: i32
  rx_indet_bool :: bool
  rx_subscribed :: bool
  rx_sa_id :: i32

text \<open>The listeners by event type and group.\<close>

type_synonym inner_map = "(u32 \<times> (u32 \<times> nat list) list) list"

record rc_state =
  rss :: bool
  g_isDestroyed :: bool
  g_isReportConnectErr :: bool
  sa_listener :: bool
  systemloadLevelCbs :: "nat list option"
  innerEvents :: "inner_map option"
  systemloadCbRegistered :: bool
  isGetResTypeList :: bool
  resTypeList :: "u32 list"
  registeredInnerEvents :: "(u32 \<times> u32 list) list"
  lastDiscardReportTime :: i64
  discardEventStats :: "(u32 \<times> i32) list"
  rc_outs :: "rc_out list"

definition rc_new :: rc_state where
  "rc_new = \<lparr>rss = False, g_isDestroyed = False, g_isReportConnectErr = False, sa_listener = False,
     systemloadLevelCbs = None, innerEvents = None, systemloadCbRegistered = False, isGetResTypeList = False,
     resTypeList = [], registeredInnerEvents = [], lastDiscardReportTime = 0, discardEventStats = [],
     rc_outs = []\<rparr>"

definition rc_emit :: "rc_out \<Rightarrow> rc_state \<Rightarrow> rc_state" where
  "rc_emit out st = st\<lparr>rc_outs := rc_outs st @ [out]\<rparr>"

definition rc_StringToJsonObj :: "rc_env \<Rightarrow> string \<Rightarrow> json" where
  "rc_StringToJsonObj E str =
     (if str = [] then JObj [] else (case rx_parse E str of Some (JObj m) \<Rightarrow> JObj m | _ \<Rightarrow> JObj []))"

text \<open>A payload of strings; an empty one stays null.\<close>

definition map_payload :: "(string \<times> string) list \<Rightarrow> json" where
  "map_payload m = fold (\<lambda>(k, v). set_member k (JStr v)) m JNull"

section \<open>The listeners of the process\<close>

definition RegisterSystemloadLevelCb :: "nat option \<Rightarrow> nat list \<Rightarrow> nat list" where
  "RegisterSystemloadLevelCb callbackObj cbs =
     (case callbackObj of None \<Rightarrow> cbs | Some c \<Rightarrow> if c \<in> set cbs then cbs else cbs @ [c])"

definition UnRegisterSystemloadLevelCb :: "nat option \<Rightarrow> nat list \<Rightarrow> nat list" where
  "UnRegisterSystemloadLevelCb callbackObj cbs =
     (case callbackObj of None \<Rightarrow> cbs | Some c \<Rightarrow> removeAll c cbs)"

definition OnSystemloadLevel :: "i32 \<Rightarrow> rc_state \<Rightarrow> rc_state" where
  "OnSystemloadLevel level st =
     (case systemloadLevelCbs st of None \<Rightarrow> st | Some cbs \<Rightarrow> fold (\<lambda>c. rc_emit (RcNotify c level)) cbs st)"

definition listeners_of :: "u32 \<Rightarrow> u32 \<Rightarrow> inner_map \<Rightarrow> nat list" where
  "listeners_of t g m =
     (case map_of m t of None \<Rightarrow> [] | Some gm \<Rightarrow> (case map_of gm g of None \<Rightarrow> [] | Some ls \<Rightarrow> ls))"

definition ie_RegisterEventListener :: "nat option \<Rightarrow> u32 \<Rightarrow> u32 \<Rightarrow> inner_map \<Rightarrow> inner_map" where
  "ie_RegisterEventListener listener t g m =
     (case listener of
        None \<Rightarrow> m
      | Some l \<Rightarrow>
          (case map_of m t of
             None \<Rightarrow> m @ [(t, [(g, [l])])]
           | Some gm \<Rightarrow>
               (let ls = listeners_of t g m in
                if l \<in> set ls then m else AList.update t (AList.update g (ls @ [l]) gm) m)))"

definition remaining :: "nat option \<Rightarrow> nat list \<Rightarrow> nat list" where
  "remaining listener ls = (case listener of None \<Rightarrow> ls | Some l \<Rightarrow> removeAll l ls)"

definition ie_UnRegisterEventListener :: "nat option \<Rightarrow> u32 \<Rightarrow> u32 \<Rightarrow> inner_map \<Rightarrow> inner_map" where
  "ie_UnRegisterEventListener listener t g m =
     (case map_of m t of
        None \<Rightarrow> m
      | Some gm \<Rightarrow>
          (case map_of gm g of
             None \<Rightarrow> m
           | Some ls \<Rightarrow>
               (let ls1 = remaining listener ls;
                    gm1 = (if ls1 = [] then AList.delete g gm else AList.update g ls1 gm)
                in if gm1 = [] then AList.delete t m else AList.update t gm1 m)))"

definition IsInnerEventMapEmpty :: "u32 \<Rightarrow> u32 \<Rightarrow> inner_map \<Rightarrow> bool" where
  "IsInnerEventMapEmpty t g m \<longleftrightarrow> listeners_of t g m = []"

definition GetRegisteredTypesAndGroup :: "inner_map \<Rightarrow> (u32 \<times> u32 list) list" where
  "GetRegisteredTypesAndGroup m = map (\<lambda>(t, gm). (t, map fst gm)) m"

text \<open>The string members of the information go along; the result is the error code.\<close>

definition ext_strings :: "json \<Rightarrow> (string \<times> string) list" where
  "ext_strings j =
     (case j of
        JObj m \<Rightarrow> List.map_filter (\<lambda>(k, v). case v of JStr s \<Rightarrow> Some (k, s) | _ \<Rightarrow> None) m
      | _ \<Rightarrow> [])"

definition rc_OnReceiveEvent :: "rc_env \<Rightarrow> u32 \<Rightarrow> u32 \<Rightarrow> u32 \<Rightarrow> string \<Rightarrow> rc_state \<Rightarrow> i32 \<times> rc_state" where
  "rc_OnReceiveEvent E t v g extInfo st =
     (let info = ext_strings (rc_StringToJsonObj E extInfo) in
      case Option.bind (Option.bind (innerEvents st) (\<lambda>m. map_of m t)) (\<lambda>gm. map_of gm g) of
        None \<Rightarrow> (rc_DATA_ERROR, st)
      | Some ls \<Rightarrow> (0, fold (\<lambda>l. rc_emit (RcEvent l t v info)) ls st))"

section \<open>The connection\<close>

definition ReportConnectError :: "string \<Rightarrow> rc_state \<Rightarrow> rc_state" where
  "ReportConnectError reason st =
     (if g_isReportConnectErr st then st
      else rc_emit (RcAbnormal reason) (st\<lparr>g_isReportConnectErr := True\<rparr>))"

definition AddResSaListenerLocked :: "rc_env \<Rightarrow> connect_world \<Rightarrow> rc_state \<Rightarrow> rc_state" where
  "AddResSaListenerLocked E w st =
     (if sa_listener st then st
      else if w = NoRegistry then st
      else rc_emit RcSubscribeSa (st\<lparr>sa_listener := rx_subscribed E\<rparr>))"

text \<open>Without memory for the recipient the call fails, but the proxy stays.\<close>

definition rc_TryConnect :: "rc_env \<Rightarrow> connect_world \<Rightarrow> rc_state \<Rightarrow> bool \<times> rc_state" where
  "rc_TryConnect E w st =
     (if g_isDestroyed st then (False, st)
      else if rss st then (True, st)
      else (case w of
          NoRegistry \<Rightarrow> (False, ReportConnectError ''GetSystemAbilityManager error'' st)
        | NoService \<Rightarrow> (False, ReportConnectError ''CheckSystemAbility error'' st)
        | NoProxy \<Rightarrow> (False, ReportConnectError ''cast remoteObject error'' st)
        | NoRecipient \<Rightarrow> (False, st\<lparr>rss := True\<rparr>)
        | Reachable \<Rightarrow>
            (True, (AddResSaListenerLocked E w (rc_emit RcAddDeath (st\<lparr>rss := True\<rparr>)))\<lparr>g_isReportConnectErr := False\<rparr>)))"

definition rc_StopRemoteObject :: "rc_state \<Rightarrow> rc_state" where
  "rc_StopRemoteObject st =
     (if rss st then rc_emit RcRemoveDeath st else st)\<lparr>rss := False, systemloadCbRegistered := False,
       registeredInnerEvents := []\<rparr>"

definition rc_OnRemoteDied :: "rc_state \<Rightarrow> rc_state" where
  "rc_OnRemoteDied st = rc_StopRemoteObject st"

text \<open>The destructor.\<close>

definition rc_destroy :: "rc_state \<Rightarrow> rc_state" where
  "rc_destroy st =
     (if rss st then rc_emit RcRemoveDeath st else st)\<lparr>g_isDestroyed := True, rss := False,
       systemloadCbRegistered := False, registeredInnerEvents := []\<rparr>"

section \<open>Reports and requests\<close>

definition ReportDiscardEventError :: "i64 \<Rightarrow> u32 \<Rightarrow> rc_state \<Rightarrow> rc_state" where
  "ReportDiscardEventError currentTime resType st =
     (let stats = AList.update resType
            (case map_of (discardEventStats st) resType of None \<Rightarrow> 1 | Some n \<Rightarrow> wrap_s32 (n + 1)) (discardEventStats st);
          st1 = st\<lparr>discardEventStats := stats\<rparr>;
          shown = filter (\<lambda>(t, n). 0 < n) stats
      in if rc_ONE_DAY_MILLS \<le> currentTime - lastDiscardReportTime st \<and> shown \<noteq> [] then
           (rc_emit (RcAbnormal (''discard events: '' @ concat (map (\<lambda>(t, n).
              ''('' @ to_string (uint t) @ '', '' @ to_string n @ '') '') shown))) st1)
             \<lparr>discardEventStats := [], lastDiscardReportTime := currentTime\<rparr>
         else st1)"

definition always_reported :: "u32 \<Rightarrow> bool" where
  "always_reported t \<longleftrightarrow> t = RES_TYPE_SEND_FRAME_EVENT \<or> t = RES_TYPE_AXIS_EVENT \<or> t = RES_TYPE_KEY_PERF_SCENE"

text \<open>The list of types is asked for once; a call that fails leaves it empty.\<close>

definition FetchResTypeList :: "u32 list option \<Rightarrow> rc_state \<Rightarrow> rc_state" where
  "FetchResTypeList answer st =
     (if isGetResTypeList st then st
      else st\<lparr>resTypeList := (case answer of None \<Rightarrow> resTypeList st | Some ts \<Rightarrow> ts), isGetResTypeList := True\<rparr>)"

definition rc_ReportData ::
    "rc_env \<Rightarrow> connect_world \<Rightarrow> u32 list option \<Rightarrow> i64 \<Rightarrow> u32 \<Rightarrow> i64 \<Rightarrow> (string \<times> string) list \<Rightarrow> rc_state \<Rightarrow> rc_state" where
  "rc_ReportData E w answer now resType v mapPayload st =
     (case rc_TryConnect E w st of
        (ok, st1) \<Rightarrow>
          if \<not> ok then st1
          else if \<not> rss st1 then st1
          else
            (let st2 = FetchResTypeList answer st1 in
             if \<not> always_reported resType \<and> resType \<notin> set (resTypeList st2)
             then ReportDiscardEventError now resType st2
             else rc_emit (RcReport resType v (rx_dump E (map_payload mapPayload))) st2))"

text \<open>
  A synchronous event of the JSON client; the reply is \<open>None\<close> when it is left as it was.  The
  event before the start of an application is waited for 100 ms at most (\<open>inTime\<close>).
\<close>

definition json_ReportSyncEvent ::
    "rc_env \<Rightarrow> connect_world \<Rightarrow> (string \<times> i32) option \<Rightarrow> bool \<Rightarrow> u32 \<Rightarrow> i64 \<Rightarrow> json \<Rightarrow> rc_state \<Rightarrow>
     i32 \<times> json option \<times> rc_state" where
  "json_ReportSyncEvent E w answer inTime resType v payload st =
     (case rc_TryConnect E w st of
        (ok, st1) \<Rightarrow>
          if \<not> ok then (rc_CONNECT_FAIL, None, st1)
          else
            (let st2 = rc_emit (RcSync resType v (rx_dump E payload)) st1;
                 (replyValue, ret) = (case answer of None \<Rightarrow> ([], rx_indet E) | Some a \<Rightarrow> a)
             in if resType = SYNC_RES_TYPE_CHECK_MUTEX_BEFORE_START \<and> \<not> inTime
                then (rc_REQUEST_FAIL, Some JNull, st2)
                else (ret, Some (rc_StringToJsonObj E replyValue), st2)))"

text \<open>For maps of strings: every member of the reply is written as JSON text.\<close>

definition rc_ReportSyncEvent ::
    "rc_env \<Rightarrow> connect_world \<Rightarrow> (string \<times> i32) option \<Rightarrow> bool \<Rightarrow> u32 \<Rightarrow> i64 \<Rightarrow> (string \<times> string) list \<Rightarrow>
     (string \<times> string) list \<Rightarrow> rc_state \<Rightarrow> i32 \<times> (string \<times> string) list \<times> rc_state" where
  "rc_ReportSyncEvent E w answer inTime resType v payload reply st =
     (case json_ReportSyncEvent E w answer inTime resType v (map_payload payload) st of
        (res, j, st1) \<Rightarrow>
          (res, (case j of Some (JObj m) \<Rightarrow> fold (\<lambda>(k, x). AList.update k (rx_dump E x)) m reply | _ \<Rightarrow> reply), st1))"

definition rc_KillProcess ::
    "rc_env \<Rightarrow> connect_world \<Rightarrow> i32 option \<Rightarrow> (string \<times> string) list \<Rightarrow> rc_state \<Rightarrow> i32 \<times> rc_state" where
  "rc_KillProcess E w answer mapPayload st =
     (case rc_TryConnect E w st of
        (ok, st1) \<Rightarrow>
          if \<not> ok then (rc_KILL_PROCESS_FAIL, st1)
          else ((case answer of None \<Rightarrow> rx_indet E | Some r \<Rightarrow> r), rc_emit (RcKill (rx_dump E (map_payload mapPayload))) st1))"

definition rc_GetSystemloadLevel :: "rc_env \<Rightarrow> connect_world \<Rightarrow> i32 option \<Rightarrow> rc_state \<Rightarrow> i32 \<times> rc_state" where
  "rc_GetSystemloadLevel E w answer st =
     (case rc_TryConnect E w st of
        (ok, st1) \<Rightarrow>
          if \<not> ok \<or> \<not> rss st1 then (rc_CONNECT_FAIL, st1)
          else ((case answer of None \<Rightarrow> rx_indet E | Some r \<Rightarrow> r), st1))"

definition rc_IsAllowedAppPreload :: "rc_env \<Rightarrow> connect_world \<Rightarrow> bool option \<Rightarrow> rc_state \<Rightarrow> bool \<times> rc_state" where
  "rc_IsAllowedAppPreload E w answer st =
     (case rc_TryConnect E w st of
        (ok, st1) \<Rightarrow>
          if \<not> ok \<or> \<not> rss st1 then (False, st1)
          else ((case answer of None \<Rightarrow> rx_indet_bool E | Some r \<Rightarrow> r), st1))"

definition rc_IsAllowedLinkJump ::
    "rc_env \<Rightarrow> connect_world \<Rightarrow> (bool \<times> i32) option \<Rightarrow> bool \<Rightarrow> rc_state \<Rightarrow> i32 \<times> bool \<times> rc_state" where
  "rc_IsAllowedLinkJump E w answer isAllowedLinkJump st =
     (case rc_TryConnect E w st of
        (ok, st1) \<Rightarrow>
          if \<not> ok \<or> \<not> rss st1 then (rc_CONNECT_FAIL, isAllowedLinkJump, st1)
          else (case answer of
              None \<Rightarrow> (rx_indet E, isAllowedLinkJump, st1)
            | Some (allowed, r) \<Rightarrow> (r, allowed, st1)))"

section \<open>Registrations\<close>

definition load_cbs :: "rc_state \<Rightarrow> nat list" where
  "load_cbs st = (case systemloadLevelCbs st of None \<Rightarrow> [] | Some cbs \<Rightarrow> cbs)"

text \<open>The common end of registering callbacks and of a service that is back.\<close>

definition RegisterLoadLocked :: "rc_state \<Rightarrow> rc_state" where
  "RegisterLoadLocked st =
     (if \<not> systemloadCbRegistered st \<and> load_cbs st \<noteq> [] \<and> rss st
      then rc_emit RcRegisterLoad (st\<lparr>systemloadCbRegistered := True\<rparr>) else st)"

definition rc_RegisterSystemloadNotifier :: "rc_env \<Rightarrow> connect_world \<Rightarrow> nat option \<Rightarrow> rc_state \<Rightarrow> rc_state" where
  "rc_RegisterSystemloadNotifier E w callbackObj st =
     AddResSaListenerLocked E w
       (RegisterLoadLocked (st\<lparr>systemloadLevelCbs := Some (RegisterSystemloadLevelCb callbackObj (load_cbs st))\<rparr>))"

definition rc_UnRegisterSystemloadNotifier :: "nat option \<Rightarrow> rc_state \<Rightarrow> rc_state" where
  "rc_UnRegisterSystemloadNotifier callbackObj st =
     (case systemloadLevelCbs st of
        None \<Rightarrow> st
      | Some cbs \<Rightarrow>
          (let cbs1 = UnRegisterSystemloadLevelCb callbackObj cbs; st1 = st\<lparr>systemloadLevelCbs := Some cbs1\<rparr>
           in if cbs1 = [] \<and> rss st1 then rc_emit RcUnRegisterLoad (st1\<lparr>systemloadCbRegistered := False\<rparr>) else st1))"

definition inner_map_of :: "rc_state \<Rightarrow> inner_map" where
  "inner_map_of st = (case innerEvents st of None \<Rightarrow> [] | Some m \<Rightarrow> m)"

definition groups_at :: "u32 \<Rightarrow> (u32 \<times> u32 list) list \<Rightarrow> u32 list" where
  "groups_at t m = (case map_of m t of None \<Rightarrow> [] | Some gs \<Rightarrow> gs)"

text \<open>A registration at the service, and the note of it.\<close>

definition RegisterAtService :: "u32 \<Rightarrow> u32 \<Rightarrow> rc_state \<Rightarrow> rc_state" where
  "RegisterAtService t g st =
     rc_emit (RcRegisterEvent t g) (st\<lparr>registeredInnerEvents :=
       AList.update t (List.insert g (groups_at t (registeredInnerEvents st))) (registeredInnerEvents st)\<rparr>)"

definition rc_RegisterEventListener :: "rc_env \<Rightarrow> connect_world \<Rightarrow> nat option \<Rightarrow> u32 \<Rightarrow> u32 \<Rightarrow> rc_state \<Rightarrow> rc_state" where
  "rc_RegisterEventListener E w listener t g st =
     (let m = ie_RegisterEventListener listener t g (inner_map_of st);
          st1 = st\<lparr>innerEvents := Some m\<rparr>;
          st2 = (if g \<notin> set (groups_at t (registeredInnerEvents st1)) \<and> \<not> IsInnerEventMapEmpty t g m \<and> rss st1
                 then RegisterAtService t g st1 else st1)
      in AddResSaListenerLocked E w st2)"

definition UnRegisterEventListenerLocked :: "u32 \<Rightarrow> u32 \<Rightarrow> rc_state \<Rightarrow> rc_state" where
  "UnRegisterEventListenerLocked t g st =
     (if IsInnerEventMapEmpty t g (inner_map_of st) \<and> rss st then
        rc_emit (RcUnRegisterEvent t g)
          (case map_of (registeredInnerEvents st) t of
             None \<Rightarrow> st
           | Some gs \<Rightarrow> st\<lparr>registeredInnerEvents := AList.update t (removeAll g gs) (registeredInnerEvents st)\<rparr>)
      else st)"

definition rc_UnRegisterEventListener :: "nat option \<Rightarrow> u32 \<Rightarrow> u32 \<Rightarrow> rc_state \<Rightarrow> rc_state" where
  "rc_UnRegisterEventListener listener t g st =
     (case innerEvents st of
        None \<Rightarrow> st
      | Some m \<Rightarrow>
          UnRegisterEventListenerLocked t g (st\<lparr>innerEvents := Some (ie_UnRegisterEventListener listener t g m)\<rparr>))"

definition RecoverEventListener :: "rc_state \<Rightarrow> rc_state" where
  "RecoverEventListener st =
     fold (\<lambda>(t, gs). fold (RegisterAtService t) gs) (GetRegisteredTypesAndGroup (inner_map_of st)) st"

definition rc_OnAddSystemAbility :: "rc_env \<Rightarrow> connect_world \<Rightarrow> i32 \<Rightarrow> rc_state \<Rightarrow> rc_state" where
  "rc_OnAddSystemAbility E w systemAbilityId st =
     (if systemAbilityId \<noteq> rx_sa_id E then st
      else (case rc_TryConnect E w st of
          (ok, st1) \<Rightarrow>
            if \<not> ok then st1
            else
              (let st2 = st1\<lparr>innerEvents := Some (inner_map_of st1)\<rparr>;
                   st3 = (if rss st2 then RecoverEventListener st2 else st2);
                   st4 = st3\<lparr>systemloadLevelCbs := Some (load_cbs st3)\<rparr>
               in RegisterLoadLocked st4)))"

end
