(* ===== verification/Client_Props.thy ===== *)
theory Client_Props
  imports Client_Model
begin

text \<open>
  The client library and the listener manager of the service together: what the service has on
  record for the process, through connections, refused and failing calls, deaths of the service
  that the client learns of later, and other processes; what becomes of reports.
\<close>

section \<open>The listeners of the process\<close>

lemma listeners_of_ie_register:
  "listeners_of t' g' (ie_RegisterEventListener listener t g m) =
     (case listener of
        None \<Rightarrow> listeners_of t' g' m
      | Some l \<Rightarrow> if t' = t \<and> g' = g \<and> l \<notin> set (listeners_of t g m) then listeners_of t g m @ [l]
          else listeners_of t' g' m)"
  by (auto simp: ie_RegisterEventListener_def listeners_of_def update_conv' map_add_def Let_def split: option.splits)

text \<open>No group without a listener and no type without a group is kept.\<close>

definition inner_ok :: "inner_map \<Rightarrow> bool" where
  "inner_ok m \<longleftrightarrow> distinct (map fst m) \<and> (\<forall>(t, gm) \<in> set m. distinct (map fst gm) \<and> (\<forall>(g, ls) \<in> set gm. ls \<noteq> []))"

lemma inner_ok_Nil [simp]: "inner_ok []"
  by (simp add: inner_ok_def)

lemma inner_ok_at: "inner_ok m \<Longrightarrow> map_of m t = Some gm \<Longrightarrow> distinct (map fst gm) \<and> (\<forall>(g, ls) \<in> set gm. ls \<noteq> [])"
  by (auto simp: inner_ok_def dest!: map_of_SomeD)

lemma sub_delete: "set (AList.delete k m) \<subseteq> set m"
  by (auto simp: AList.delete_eq)

lemma inner_ok_update:
  assumes "inner_ok m" "distinct (map fst gm)" "\<forall>(g, ls) \<in> set gm. ls \<noteq> []"
  shows "inner_ok (AList.update t gm m)"
  using assms set_update[of t gm m] unfolding inner_ok_def by (auto simp: distinct_update) blast+

lemma inner_ok_delete: "inner_ok m \<Longrightarrow> inner_ok (AList.delete t m)"
  using sub_delete[of t m] unfolding inner_ok_def by (auto simp: distinct_delete) blast+

lemma inner_ok_register: "inner_ok m \<Longrightarrow> inner_ok (ie_RegisterEventListener listener t g m)"
proof -
  assume m: "inner_ok m"
  show ?thesis
  proof (cases listener)
    case (Some l)
    show ?thesis
    proof (cases "map_of m t")
      case None
      then have "t \<notin> fst ` set m" by (simp add: map_of_eq_None_iff)
      with m Some None show ?thesis by (auto simp: ie_RegisterEventListener_def inner_ok_def)
    next
      case gm: (Some gm)
      note at = inner_ok_at[OF m gm]
      have "\<forall>(g', ls) \<in> set (AList.update g (listeners_of t g m @ [l]) gm). ls \<noteq> []"
        using at set_update[of g "listeners_of t g m @ [l]" gm] by auto
      with m Some gm at show ?thesis
        by (simp add: ie_RegisterEventListener_def Let_def inner_ok_update distinct_update)
    qed
  qed (use m in \<open>simp add: ie_RegisterEventListener_def\<close>)
qed

lemma ie_unregister_known:
  assumes "map_of m t = Some gm" "map_of gm g = Some ls"
  shows "ie_UnRegisterEventListener listener t g m =
    (let ls1 = remaining listener ls; gm1 = (if ls1 = [] then AList.delete g gm else AList.update g ls1 gm)
     in if gm1 = [] then AList.delete t m else AList.update t gm1 m)"
  using assms by (simp add: ie_UnRegisterEventListener_def)

lemma inner_ok_unregister: "inner_ok m \<Longrightarrow> inner_ok (ie_UnRegisterEventListener listener t g m)"
proof -
  assume m: "inner_ok m"
  show ?thesis
  proof (cases "\<exists>gm ls. map_of m t = Some gm \<and> map_of gm g = Some ls")
    case True
    then obtain gm ls where gm: "map_of m t = Some gm" "map_of gm g = Some ls" by blast
    note at = inner_ok_at[OF m gm(1)]
    let ?ls1 = "remaining listener ls"
    have d: "distinct (map fst (AList.delete g gm)) \<and> (\<forall>(g', ls) \<in> set (AList.delete g gm). ls \<noteq> [])"
      using at sub_delete[of g gm] by (auto simp: distinct_delete)
    have up: "distinct (map fst (AList.update g ?ls1 gm)) \<and> (\<forall>(g', ls) \<in> set (AList.update g ?ls1 gm). ls \<noteq> [])"
      if "?ls1 \<noteq> []" using at that set_update[of g ?ls1 gm] by (auto simp: distinct_update)
    show ?thesis
      unfolding ie_unregister_known[OF gm] Let_def using d up inner_ok_update[OF m] inner_ok_delete[OF m] by simp
  next
    case False
    then show ?thesis using m by (auto simp: ie_UnRegisterEventListener_def split: option.split)
  qed
qed

lemma listeners_of_ie_unregister:
  "listeners_of t' g' (ie_UnRegisterEventListener listener t g m) =
     (if t' = t \<and> g' = g then remaining listener (listeners_of t g m)
      else listeners_of t' g' m)"
proof (cases "\<exists>gm ls. map_of m t = Some gm \<and> map_of gm g = Some ls")
  case True
  then obtain gm ls where gm: "map_of m t = Some gm" "map_of gm g = Some ls" by blast
  let ?ls1 = "remaining listener ls"
  let ?gm1 = "if ?ls1 = [] then AList.delete g gm else AList.update g ?ls1 gm"
  have g1: "(case map_of ?gm1 g' of None \<Rightarrow> [] | Some x \<Rightarrow> x) =
      (if g' = g then ?ls1 else case map_of gm g' of None \<Rightarrow> [] | Some x \<Rightarrow> x)"
    by (auto simp: update_conv' delete_conv')
  have "listeners_of t' g' (ie_UnRegisterEventListener listener t g m) =
      (if t' = t then case map_of ?gm1 g' of None \<Rightarrow> [] | Some x \<Rightarrow> x else listeners_of t' g' m)"
    unfolding ie_unregister_known[OF gm] Let_def by (auto simp: listeners_of_def update_conv' delete_conv')
  then show ?thesis unfolding g1 using gm by (auto simp: listeners_of_def split: option.split)
next
  case False
  then have "ie_UnRegisterEventListener listener t g m = m" "listeners_of t g m = []"
    by (auto simp: ie_UnRegisterEventListener_def listeners_of_def split: option.split)
  then show ?thesis by (simp add: remaining_def split: option.split)
qed

text \<open>The groups that are recovered are those with a listener.\<close>

lemma recovered_groups:
  assumes "inner_ok m"
  shows "(\<exists>gs. (t, gs) \<in> set (GetRegisteredTypesAndGroup m) \<and> g \<in> set gs) \<longleftrightarrow> listeners_of t g m \<noteq> []"
proof
  assume "\<exists>gs. (t, gs) \<in> set (GetRegisteredTypesAndGroup m) \<and> g \<in> set gs"
  then obtain gm where gm: "(t, gm) \<in> set m" "g \<in> fst ` set gm" by (auto simp: GetRegisteredTypesAndGroup_def)
  then have t: "map_of m t = Some gm" using assms by (simp add: inner_ok_def map_of_is_SomeI)
  obtain ls where ls: "(g, ls) \<in> set gm" using gm(2) by auto
  then have "map_of gm g = Some ls" "ls \<noteq> []" using inner_ok_at[OF assms t] by (auto intro: map_of_is_SomeI)
  with t show "listeners_of t g m \<noteq> []" by (simp add: listeners_of_def)
next
  assume "listeners_of t g m \<noteq> []"
  then obtain gm ls where "map_of m t = Some gm" "map_of gm g = Some ls"
    by (auto simp: listeners_of_def split: option.splits)
  then have "(t, gm) \<in> set m" "(g, ls) \<in> set gm" by (auto dest: map_of_SomeD)
  then show "\<exists>gs. (t, gs) \<in> set (GetRegisteredTypesAndGroup m) \<and> g \<in> set gs"
    by (force simp: GetRegisteredTypesAndGroup_def)
qed

section \<open>Calls of the client\<close>

text \<open>Every operation that can change the registrations, and the others as one.\<close>

inductive rc_call :: "rc_env \<Rightarrow> rc_state \<Rightarrow> rc_state \<Rightarrow> bool" for E where
  report: "rc_call E st (rc_ReportData E w answer now t v m st)"
| connect: "rc_call E st (snd (rc_TryConnect E w st))"
| sync: "rc_call E st (snd (snd (rc_ReportSyncEvent E w sanswer inTime t v m reply st)))"
| kill: "rc_call E st (snd (rc_KillProcess E w kanswer m st))"
| register: "rc_call E st (rc_RegisterEventListener E w listener t g st)"
| unregister: "rc_call E st (rc_UnRegisterEventListener listener t g st)"
| load: "rc_call E st (rc_RegisterSystemloadNotifier E w cb st)"
| unload: "rc_call E st (rc_UnRegisterSystemloadNotifier cb st)"
| level: "rc_call E st (OnSystemloadLevel lv st)"
| event: "rc_call E st (snd (rc_OnReceiveEvent E t val g info st))"
| returned: "rc_call E st (rc_OnAddSystemAbility E w said st)"

text \<open>
  What a remote call does to the listener manager of the service; the process is p, its listener
  object l.  The service may refuse a registration (\<open>RemoteRequestCheck\<close>), and any call fails
  when the service is gone: the client never looks at the outcome, which is the second component.
\<close>

fun serve_one :: "i32 \<Rightarrow> nat \<Rightarrow> rc_out \<times> bool \<Rightarrow> el_state \<Rightarrow> el_state" where
  "serve_one p l (RcRegisterEvent t g, True) el = RegisterEventListener p (Some l) t g el"
| "serve_one p l (RcUnRegisterEvent t g, True) el = UnRegisterEventListener p t g el"
| "serve_one p l _ el = el"

definition serve :: "i32 \<Rightarrow> nat \<Rightarrow> (rc_out \<times> bool) list \<Rightarrow> el_state \<Rightarrow> el_state" where
  "serve p l calls el = fold (serve_one p l) calls el"

text \<open>The pairs of type and group whose last call was refused or failed.\<close>

fun refuse_one :: "rc_out \<times> bool \<Rightarrow> (u32 \<times> u32) set \<Rightarrow> (u32 \<times> u32) set" where
  "refuse_one (RcRegisterEvent t g, ok) R = (if ok then R - {(t, g)} else insert (t, g) R)"
| "refuse_one (RcUnRegisterEvent t g, ok) R = (if ok then R - {(t, g)} else insert (t, g) R)"
| "refuse_one _ R = R"

definition refuse :: "(rc_out \<times> bool) list \<Rightarrow> (u32 \<times> u32) set \<Rightarrow> (u32 \<times> u32) set" where
  "refuse calls R = fold refuse_one calls R"

definition new_outs :: "rc_state \<Rightarrow> rc_state \<Rightarrow> rc_out list" where
  "new_outs st st' = drop (length (rc_outs st)) (rc_outs st')"

text \<open>
  The two together.  \<open>sy_stale\<close>: the service has died and the client does not know yet, so its
  calls reach nobody; \<open>sy_refused\<close> is a ghost, the pairs whose last call since the client
  connected was refused.
\<close>

record sys =
  sy_rc :: rc_state
  sy_el :: el_state
  sy_stale :: bool
  sy_refused :: "(u32 \<times> u32) set"

definition sys_start :: sys where
  "sys_start = \<lparr>sy_rc = rc_new, sy_el = el_Init el_new, sy_stale = False, sy_refused = {}\<rparr>"

definition outcomes :: "sys \<Rightarrow> rc_state \<Rightarrow> (rc_out \<times> bool) list \<Rightarrow> bool" where
  "outcomes s st' calls \<longleftrightarrow> map fst calls = new_outs (sy_rc s) st' \<and> (sy_stale s \<longrightarrow> list_all (\<lambda>c. \<not> snd c) calls)"

text \<open>
  Calls of the client; the service that dies and comes back empty; the notice of its death; the
  end of the client and the notice of it at the service; the calls of other processes.
\<close>

inductive sys_step :: "rc_env \<Rightarrow> i32 \<Rightarrow> nat \<Rightarrow> sys \<Rightarrow> sys \<Rightarrow> bool" for E p l where
  call: "rc_call E (sy_rc s) st' \<Longrightarrow> outcomes s st' calls \<Longrightarrow>
    sys_step E p l s (s\<lparr>sy_rc := st', sy_el := serve p l calls (sy_el s), sy_refused := refuse calls (sy_refused s)\<rparr>)"
| crash: "sys_step E p l s (s\<lparr>sy_el := el_Init el_new, sy_stale := rss (sy_rc s)\<rparr>)"
| told: "sy_stale s \<Longrightarrow>
    sys_step E p l s (s\<lparr>sy_rc := rc_OnRemoteDied (sy_rc s), sy_stale := False, sy_refused := {}\<rparr>)"
| gone: "sys_step E p l s (s\<lparr>sy_rc := rc_destroy (sy_rc s), sy_stale := False\<rparr>)"
| gone_told: "g_isDestroyed (sy_rc s) \<Longrightarrow> sys_step E p l s (s\<lparr>sy_el := OnRemoteListenerDied (Some l) (sy_el s)\<rparr>)"
| other_register: "q \<noteq> p \<Longrightarrow> l' \<noteq> l \<Longrightarrow>
    (\<And>q' j t'. map_of (listeners_at t' (sy_el s)) q' = Some j \<Longrightarrow> li_listener j = l' \<Longrightarrow> q' = q) \<Longrightarrow>
    sys_step E p l s (s\<lparr>sy_el := RegisterEventListener q (Some l') t g (sy_el s)\<rparr>)"
| other_unregister: "q \<noteq> p \<Longrightarrow> sys_step E p l s (s\<lparr>sy_el := UnRegisterEventListener q t g (sy_el s)\<rparr>)"
| other_died: "l' \<noteq> l \<Longrightarrow> sys_step E p l s (s\<lparr>sy_el := OnRemoteListenerDied (Some l') (sy_el s)\<rparr>)"

inductive sys_reachable :: "rc_env \<Rightarrow> i32 \<Rightarrow> nat \<Rightarrow> sys \<Rightarrow> bool" for E p l where
  start: "sys_reachable E p l sys_start"
| step: "sys_reachable E p l s \<Longrightarrow> sys_step E p l s s' \<Longrightarrow> sys_reachable E p l s'"

definition has_registered :: "rc_state \<Rightarrow> (u32 \<times> u32) set" where
  "has_registered st = {(t, g). g \<in> set (groups_at t (registeredInnerEvents st))}"

definition has_listeners :: "rc_state \<Rightarrow> (u32 \<times> u32) set" where
  "has_listeners st = {(t, g). listeners_of t g (inner_map_of st) \<noteq> []}"

definition on_record :: "i32 \<Rightarrow> el_state \<Rightarrow> (u32 \<times> u32) set" where
  "on_record p el = {(t, g). (t, p, g) \<in> registrations el}"

definition rc_ok :: "rc_state \<Rightarrow> bool" where
  "rc_ok st \<longleftrightarrow> inner_ok (inner_map_of st) \<and> has_registered st \<subseteq> has_listeners st \<and>
     (\<not> rss st \<longrightarrow> has_registered st = {}) \<and> (g_isDestroyed st \<longrightarrow> \<not> rss st)"

text \<open>The service side: the process uses its one listener object, and no other process has it.\<close>

definition side_ok :: "i32 \<Rightarrow> nat \<Rightarrow> el_state \<Rightarrow> bool" where
  "side_ok p l el \<longleftrightarrow> el_inv el \<and> el_recipient el \<and>
     (\<forall>t q i. map_of (listeners_at t el) q = Some i \<longrightarrow> (li_listener i = l \<longleftrightarrow> q = p))"

definition sys_ok :: "i32 \<Rightarrow> nat \<Rightarrow> sys \<Rightarrow> bool" where
  "sys_ok p l s \<longleftrightarrow> rc_ok (sy_rc s) \<and> side_ok p l (sy_el s) \<and>
     (\<not> g_isDestroyed (sy_rc s) \<longrightarrow>
       (if sy_stale s then on_record p (sy_el s) = {}
        else on_record p (sy_el s) - sy_refused s = has_registered (sy_rc s) - sy_refused s))"

subsection \<open>Operations that leave the registrations alone\<close>

fun out_effect :: "rc_out \<Rightarrow> (u32 \<times> u32) set \<Rightarrow> (u32 \<times> u32) set" where
  "out_effect (RcRegisterEvent t g) S = insert (t, g) S"
| "out_effect (RcUnRegisterEvent t g) S = S - {(t, g)}"
| "out_effect _ S = S"

definition neutral :: "rc_out \<Rightarrow> bool" where
  "neutral out \<longleftrightarrow> (case out of RcRegisterEvent t g \<Rightarrow> False | RcUnRegisterEvent t g \<Rightarrow> False | _ \<Rightarrow> True)"

lemma neutral_effect: "list_all neutral outs \<Longrightarrow> fold out_effect outs S = S"
proof (induction outs)
  case (Cons o1 outs)
  then show ?case by (cases o1) (simp_all add: neutral_def)
qed simp

definition quiet_to :: "rc_state \<Rightarrow> rc_state \<Rightarrow> bool" where
  "quiet_to st st' \<longleftrightarrow> (\<exists>outs. list_all neutral outs \<and> rc_outs st' = rc_outs st @ outs) \<and>
     registeredInnerEvents st' = registeredInnerEvents st \<and> inner_map_of st' = inner_map_of st \<and>
     (rss st \<longrightarrow> rss st') \<and> g_isDestroyed st' = g_isDestroyed st \<and> (g_isDestroyed st \<longrightarrow> rss st' = rss st)"

definition tracks :: "rc_state \<Rightarrow> rc_state \<Rightarrow> bool" where
  "tracks st st' \<longleftrightarrow> (\<exists>outs. rc_outs st' = rc_outs st @ outs \<and> has_registered st' = fold out_effect outs (has_registered st))"

named_theorems quiet_intros \<open>operations that leave the registrations alone\<close>

lemma quiet_refl [simp, quiet_intros]: "quiet_to st st"
  by (simp add: quiet_to_def)

lemma quiet_trans: "quiet_to a b \<Longrightarrow> quiet_to b c \<Longrightarrow> quiet_to a c"
  unfolding quiet_to_def by (metis append.assoc list_all_append)

lemma quiet_emit: "neutral out \<Longrightarrow> quiet_to st st' \<Longrightarrow> quiet_to st (rc_emit out st')"
  by (auto simp: quiet_to_def rc_emit_def inner_map_of_def)

lemma tracks_refl [simp]: "tracks st st"
  by (simp add: tracks_def)

lemma tracks_trans: "tracks a b \<Longrightarrow> tracks b c \<Longrightarrow> tracks a c"
  unfolding tracks_def by (metis append.assoc fold_append comp_apply)

lemma quiet_tracks: "quiet_to st st' \<Longrightarrow> tracks st st'"
  unfolding quiet_to_def tracks_def by (auto simp: has_registered_def neutral_effect)

lemma quiet_ok: "quiet_to st st' \<Longrightarrow> rc_ok st \<Longrightarrow> rc_ok st'"
  unfolding quiet_to_def rc_ok_def has_registered_def has_listeners_def by auto

lemma quiet_fields [simp]:
  "quiet_to st (st'\<lparr>g_isReportConnectErr := a\<rparr>) = quiet_to st st'"
  "quiet_to st (st'\<lparr>sa_listener := b\<rparr>) = quiet_to st st'"
  "quiet_to st (st'\<lparr>systemloadLevelCbs := c\<rparr>) = quiet_to st st'"
  "quiet_to st (st'\<lparr>systemloadCbRegistered := d\<rparr>) = quiet_to st st'"
  "quiet_to st (st'\<lparr>resTypeList := e, isGetResTypeList := f\<rparr>) = quiet_to st st'"
  "quiet_to st (st'\<lparr>discardEventStats := g\<rparr>) = quiet_to st st'"
  "quiet_to st (st'\<lparr>discardEventStats := g, lastDiscardReportTime := h\<rparr>) = quiet_to st st'"
  by (simp_all add: quiet_to_def inner_map_of_def)

lemma quiet_connect: "\<not> g_isDestroyed st \<Longrightarrow> quiet_to st (st\<lparr>rss := True\<rparr>)"
  by (simp add: quiet_to_def inner_map_of_def)

lemma quiet_fold_emit: "\<forall>c \<in> set cs. neutral (f c) \<Longrightarrow> quiet_to st (fold (\<lambda>c. rc_emit (f c)) cs st)"
proof (induction cs arbitrary: st)
  case (Cons c cs)
  then show ?case by (auto intro: quiet_trans[OF quiet_emit[OF _ quiet_refl]])
qed simp

lemma neutral_simps [simp]:
  "neutral (RcReport t v s)" "neutral (RcSync t v s)" "neutral (RcKill s)" "neutral RcRegisterLoad"
  "neutral RcUnRegisterLoad" "neutral RcAddDeath" "neutral RcRemoveDeath" "neutral RcSubscribeSa"
  "neutral (RcNotify c lv)" "neutral (RcEvent c t w i)" "neutral (RcAbnormal s)"
  by (simp_all add: neutral_def)

lemma ReportConnectError_quiet: "quiet_to st (ReportConnectError r st)"
  by (simp add: ReportConnectError_def quiet_emit)

lemma AddResSaListenerLocked_quiet: "quiet_to st (AddResSaListenerLocked E w st)"
  by (simp add: AddResSaListenerLocked_def quiet_emit)

lemma TryConnect_quiet: "quiet_to st (snd (rc_TryConnect E w st))"
  using ReportConnectError_quiet
    quiet_trans[OF quiet_emit[OF neutral_simps(6) quiet_connect] AddResSaListenerLocked_quiet]
  by (auto simp: rc_TryConnect_def quiet_connect split: connect_world.split)

lemma ReportData_quiet: "quiet_to st (rc_ReportData E w answer now t v m st)"
proof -
  obtain ok st1 where c: "rc_TryConnect E w st = (ok, st1)" by (cases "rc_TryConnect E w st")
  then have q: "quiet_to st st1" using TryConnect_quiet[of st E w] by simp
  have f: "quiet_to st1 (FetchResTypeList answer st1)" by (simp add: FetchResTypeList_def)
  have "quiet_to s (ReportDiscardEventError now t s)" for s
    by (simp add: ReportDiscardEventError_def Let_def quiet_emit)
  then show ?thesis
    using c q f quiet_trans[OF q quiet_trans[OF f]]
    by (auto simp: rc_ReportData_def Let_def quiet_emit intro: quiet_trans)
qed

lemma sync_quiet: "quiet_to st (snd (snd (rc_ReportSyncEvent E w answer inTime t v m reply st)))"
  using TryConnect_quiet[of st E w]
  by (auto simp: rc_ReportSyncEvent_def json_ReportSyncEvent_def Let_def quiet_emit split: prod.splits)

lemma kill_quiet: "quiet_to st (snd (rc_KillProcess E w answer m st))"
  using TryConnect_quiet[of st E w] by (auto simp: rc_KillProcess_def quiet_emit split: prod.splits)

lemma RegisterLoadLocked_quiet: "quiet_to st (RegisterLoadLocked st)"
  by (simp add: RegisterLoadLocked_def quiet_emit)

lemma load_quiet: "quiet_to st (rc_RegisterSystemloadNotifier E w cb st)"
  unfolding rc_RegisterSystemloadNotifier_def
  by (rule quiet_trans[OF _ AddResSaListenerLocked_quiet], rule quiet_trans[OF _ RegisterLoadLocked_quiet]) simp

lemma unload_quiet: "quiet_to st (rc_UnRegisterSystemloadNotifier cb st)"
  by (simp add: rc_UnRegisterSystemloadNotifier_def Let_def quiet_emit split: option.split)

lemma level_quiet: "quiet_to st (OnSystemloadLevel lv st)"
  by (simp add: OnSystemloadLevel_def quiet_fold_emit split: option.split)

lemma event_quiet: "quiet_to st (snd (rc_OnReceiveEvent E t v g info st))"
  by (simp add: rc_OnReceiveEvent_def Let_def quiet_fold_emit split: option.split)

subsection \<open>Registering\<close>

lemma RegisterAtService_tracks: "tracks st (RegisterAtService t g st)"
proof -
  have "has_registered (RegisterAtService t g st) = insert (t, g) (has_registered st)"
    by (auto simp: has_registered_def RegisterAtService_def rc_emit_def groups_at_def update_conv' split: if_splits)
  then show ?thesis
    unfolding tracks_def by (intro exI[of _ "[RcRegisterEvent t g]"]) (simp add: RegisterAtService_def rc_emit_def)
qed

lemma RegisterAtService_simps [simp]:
  "rss (RegisterAtService t g st) = rss st" "g_isDestroyed (RegisterAtService t g st) = g_isDestroyed st"
  "inner_map_of (RegisterAtService t g st) = inner_map_of st"
  "has_registered (RegisterAtService t g st) = insert (t, g) (has_registered st)"
  by (auto simp: RegisterAtService_def rc_emit_def inner_map_of_def has_registered_def groups_at_def update_conv'
      split: if_splits)

lemma RegisterAtService_ok:
  "rc_ok st \<Longrightarrow> rss st \<Longrightarrow> (t, g) \<in> has_listeners st \<Longrightarrow> rc_ok (RegisterAtService t g st)"
  by (auto simp: rc_ok_def has_listeners_def)

lemma tracks_outs: "tracks st st' \<Longrightarrow> rc_outs st0 = rc_outs st \<Longrightarrow> has_registered st0 = has_registered st \<Longrightarrow> tracks st0 st'"
  by (simp add: tracks_def)

lemma rc_register_ok:
  assumes "rc_ok st"
  shows "rc_ok (rc_RegisterEventListener E w listener t g st)" "tracks st (rc_RegisterEventListener E w listener t g st)"
proof -
  let ?m = "ie_RegisterEventListener listener t g (inner_map_of st)"
  let ?s = "st\<lparr>innerEvents := Some ?m\<rparr>"
  have reg: "has_registered ?s = has_registered st" by (simp add: has_registered_def)
  have "has_listeners st \<subseteq> has_listeners ?s"
    by (auto simp: has_listeners_def inner_map_of_def listeners_of_ie_register split: option.split)
  moreover have "inner_ok (inner_map_of ?s)" using assms by (simp add: rc_ok_def inner_ok_register inner_map_of_def)
  ultimately have ok: "rc_ok ?s" using assms reg by (auto simp: rc_ok_def)
  let ?s2 = "if g \<notin> set (groups_at t (registeredInnerEvents ?s)) \<and> \<not> IsInnerEventMapEmpty t g ?m \<and> rss ?s
    then RegisterAtService t g ?s else ?s"
  have ok2: "rc_ok ?s2"
    using ok RegisterAtService_ok[OF ok] by (auto simp: IsInnerEventMapEmpty_def has_listeners_def inner_map_of_def)
  have "tracks ?s ?s2" using RegisterAtService_tracks by simp
  then have t2: "tracks st ?s2" by (rule tracks_outs) (simp_all add: reg)
  note q = AddResSaListenerLocked_quiet[of ?s2 E w]
  show "rc_ok (rc_RegisterEventListener E w listener t g st)"
    using quiet_ok[OF q ok2] by (simp add: rc_RegisterEventListener_def Let_def)
  show "tracks st (rc_RegisterEventListener E w listener t g st)"
    using tracks_trans[OF t2 quiet_tracks[OF q]] by (simp add: rc_RegisterEventListener_def Let_def)
qed

lemma rc_unregister_ok:
  assumes "rc_ok st"
  shows "rc_ok (rc_UnRegisterEventListener listener t g st)" "tracks st (rc_UnRegisterEventListener listener t g st)"
proof -
  let ?st' = "rc_UnRegisterEventListener listener t g st"
  have "rc_ok ?st' \<and> tracks st ?st'"
  proof (cases "innerEvents st")
    case None
    then show ?thesis using assms by (simp add: rc_UnRegisterEventListener_def)
  next
    case (Some m)
    let ?m = "ie_UnRegisterEventListener listener t g m"
    let ?s = "st\<lparr>innerEvents := Some ?m\<rparr>"
    have m: "inner_map_of st = m" "inner_map_of ?s = ?m" using Some by (simp_all add: inner_map_of_def)
    have reg: "has_registered ?s = has_registered st" by (simp add: has_registered_def)
    have inner: "inner_ok ?m" using assms m by (simp add: rc_ok_def inner_ok_unregister)
    have left: "has_listeners st - {(t, g)} \<subseteq> has_listeners ?s"
      by (auto simp: has_listeners_def m listeners_of_ie_unregister)
    show ?thesis
    proof (cases "IsInnerEventMapEmpty t g ?m \<and> rss st")
      case True
      let ?u = "UnRegisterEventListenerLocked t g ?s"
      have u: "has_registered ?u = has_registered st - {(t, g)}" "rc_outs ?u = rc_outs st @ [RcUnRegisterEvent t g]"
        "inner_map_of ?u = ?m" "rss ?u" "g_isDestroyed ?u = g_isDestroyed st"
        using True m
        by (auto simp: UnRegisterEventListenerLocked_def rc_emit_def has_registered_def groups_at_def update_conv'
            inner_map_of_def split: option.splits if_splits)
      have "has_listeners ?u = has_listeners ?s" by (simp add: has_listeners_def u(3) m(2))
      then have "rc_ok ?u" using assms u inner left True by (auto simp: rc_ok_def)
      moreover have "tracks st ?u" using u by (auto simp: tracks_def)
      ultimately show ?thesis using Some by (simp add: rc_UnRegisterEventListener_def)
    next
      case False
      then have eq: "?st' = ?s" using Some m by (auto simp: rc_UnRegisterEventListener_def UnRegisterEventListenerLocked_def)
      have "(t, g) \<in> has_listeners ?s \<or> \<not> rss st"
        using False m by (auto simp: IsInnerEventMapEmpty_def has_listeners_def)
      then have "has_registered st \<subseteq> has_listeners ?s" using assms left by (auto simp: rc_ok_def)
      then have "rc_ok ?s" using assms inner reg m by (simp add: rc_ok_def)
      moreover have "tracks st ?s" by (rule tracks_outs[OF tracks_refl]) (simp_all add: reg)
      ultimately show ?thesis unfolding eq by simp
    qed
  qed
  then show "rc_ok ?st'" "tracks st ?st'" by simp_all
qed

definition same_side :: "rc_state \<Rightarrow> rc_state \<Rightarrow> bool" where
  "same_side st st' \<longleftrightarrow> rss st' = rss st \<and> g_isDestroyed st' = g_isDestroyed st \<and> inner_map_of st' = inner_map_of st"

lemma register_groups:
  "tracks st (fold (RegisterAtService t) gs st) \<and> same_side st (fold (RegisterAtService t) gs st) \<and>
   has_registered (fold (RegisterAtService t) gs st) = has_registered st \<union> {t} \<times> set gs"
proof (induction gs arbitrary: st)
  case (Cons g gs)
  from Cons[of "RegisterAtService t g st"] show ?case
    by (auto simp: same_side_def intro: tracks_trans[OF RegisterAtService_tracks])
qed (simp add: same_side_def)

lemma register_all:
  "tracks st (fold (\<lambda>(t, gs). fold (RegisterAtService t) gs) L st) \<and>
   same_side st (fold (\<lambda>(t, gs). fold (RegisterAtService t) gs) L st) \<and>
   has_registered (fold (\<lambda>(t, gs). fold (RegisterAtService t) gs) L st) =
     has_registered st \<union> {(t, g). \<exists>gs. (t, gs) \<in> set L \<and> g \<in> set gs}"
proof (induction L arbitrary: st)
  case (Cons x L)
  obtain t gs where x: "x = (t, gs)" by (cases x)
  from register_groups[of st t gs] Cons[of "fold (RegisterAtService t) gs st"] show ?case
    by (auto simp: x same_side_def intro: tracks_trans)
qed (simp add: same_side_def)

lemma Recover_facts:
  assumes "inner_ok (inner_map_of st)"
  shows "tracks st (RecoverEventListener st)" "same_side st (RecoverEventListener st)"
    "has_registered (RecoverEventListener st) = has_registered st \<union> has_listeners st"
  using register_all[of st "GetRegisteredTypesAndGroup (inner_map_of st)"] recovered_groups[OF assms]
  by (auto simp: RecoverEventListener_def has_listeners_def)

lemma TryConnect_True: "rc_TryConnect E w st = (True, st1) \<Longrightarrow> rss st1"
  by (auto simp: rc_TryConnect_def AddResSaListenerLocked_def rc_emit_def split: connect_world.splits if_splits)

lemma rc_back_facts:
  assumes "rc_ok st"
  shows "rc_ok (rc_OnAddSystemAbility E w said st)" "tracks st (rc_OnAddSystemAbility E w said st)"
    "said = rx_sa_id E \<Longrightarrow> fst (rc_TryConnect E w st) \<Longrightarrow>
     has_registered (rc_OnAddSystemAbility E w said st) = has_listeners (rc_OnAddSystemAbility E w said st) \<and>
     has_listeners (rc_OnAddSystemAbility E w said st) = has_listeners st"
proof -
  let ?st' = "rc_OnAddSystemAbility E w said st"
  obtain ok st1 where c: "rc_TryConnect E w st = (ok, st1)" by (cases "rc_TryConnect E w st")
  have q: "quiet_to st st1" using TryConnect_quiet[of st E w] c by simp
  have ok1: "rc_ok st1" by (rule quiet_ok[OF q assms])
  have l1: "has_listeners st1 = has_listeners st" using q by (simp add: quiet_to_def has_listeners_def)
  have "rc_ok ?st' \<and> tracks st ?st' \<and> (said = rx_sa_id E \<and> ok \<longrightarrow> has_registered ?st' = has_listeners ?st' \<and>
      has_listeners ?st' = has_listeners st)"
  proof (cases "said = rx_sa_id E \<and> ok")
    case False
    then show ?thesis
      using c ok1 assms quiet_tracks[OF q] by (auto simp: rc_OnAddSystemAbility_def)
  next
    case True
    let ?s2 = "st1\<lparr>innerEvents := Some (inner_map_of st1)\<rparr>"
    let ?s3 = "RecoverEventListener ?s2"
    let ?s4 = "?s3\<lparr>systemloadLevelCbs := Some (load_cbs ?s3)\<rparr>"
    have rss: "rss st1" using c True TryConnect_True by auto
    have i2: "inner_map_of ?s2 = inner_map_of st1" by (simp add: inner_map_of_def)
    have ok2: "rc_ok ?s2" using ok1 i2 by (simp add: rc_ok_def has_registered_def has_listeners_def)
    have inner: "inner_ok (inner_map_of ?s2)" using ok2 by (simp add: rc_ok_def)
    note r = Recover_facts[OF inner]
    have reg: "has_registered ?s3 = has_listeners ?s2" using r(3) ok2 by (auto simp: rc_ok_def)
    have side: "inner_map_of ?s3 = inner_map_of st1" "rss ?s3" "g_isDestroyed ?s3 = g_isDestroyed st1"
      using r(2) i2 rss by (simp_all add: same_side_def)
    have l3: "has_listeners ?s3 = has_listeners st1" by (simp add: has_listeners_def side)
    have "has_listeners ?s2 = has_listeners st1" by (simp add: has_listeners_def i2)
    then have reg3: "has_registered ?s3 = has_listeners ?s3" using reg l3 by simp
    have ok3: "rc_ok ?s3" using ok1 side reg3 rss by (simp add: rc_ok_def)
    have "tracks st1 ?s3" by (rule tracks_outs[OF r(1)]) (simp_all add: has_registered_def)
    then have t3: "tracks st ?s3" using tracks_trans[OF quiet_tracks[OF q]] by blast
    have q4: "quiet_to ?s3 (RegisterLoadLocked ?s4)" by (rule quiet_trans[OF _ RegisterLoadLocked_quiet]) simp
    have "?st' = RegisterLoadLocked ?s4"
      using True c rss by (simp add: rc_OnAddSystemAbility_def Let_def)
    moreover have "has_registered (RegisterLoadLocked ?s4) = has_registered ?s3"
      "has_listeners (RegisterLoadLocked ?s4) = has_listeners ?s3"
      using q4 by (simp_all add: quiet_to_def has_registered_def has_listeners_def)
    ultimately have "rc_ok ?st' \<and> tracks st ?st' \<and> has_registered ?st' = has_listeners ?st' \<and>
        has_listeners ?st' = has_listeners st"
      using quiet_ok[OF q4 ok3] tracks_trans[OF t3 quiet_tracks[OF q4]] reg3 l3 l1 by simp
    then show ?thesis by blast
  qed
  then show "rc_ok ?st'" "tracks st ?st'" "said = rx_sa_id E \<Longrightarrow> fst (rc_TryConnect E w st) \<Longrightarrow>
     has_registered ?st' = has_listeners ?st' \<and> has_listeners ?st' = has_listeners st"
    using c by simp_all
qed

lemma quiet_both: "quiet_to st st' \<Longrightarrow> rc_ok st \<Longrightarrow> rc_ok st' \<and> tracks st st'"
  by (simp add: quiet_ok quiet_tracks)

lemmas calls_quiet = ReportData_quiet TryConnect_quiet sync_quiet kill_quiet load_quiet unload_quiet level_quiet event_quiet

lemma rc_call_ok: "rc_call E st st' \<Longrightarrow> rc_ok st \<Longrightarrow> rc_ok st' \<and> tracks st st'"
proof (induction rule: rc_call.induct)
  case (register w listener t g st)
  then show ?case by (simp add: rc_register_ok)
next
  case (unregister listener t g st)
  then show ?case by (simp add: rc_unregister_ok)
next
  case (returned w said st)
  then show ?case by (simp add: rc_back_facts)
qed (rule quiet_both, rule calls_quiet, assumption)+

section \<open>The client and the service\<close>

lemma serve_Cons: "serve p l (c # calls) el = serve p l calls (serve_one p l c el)"
  by (simp add: serve_def)

lemma side_ok_register:
  assumes "side_ok p l el" "q = p \<longleftrightarrow> l' = l"
    and "\<And>q' j t'. map_of (listeners_at t' el) q' = Some j \<Longrightarrow> li_listener j = l' \<Longrightarrow> q' = q"
  shows "side_ok p l (RegisterEventListener q (Some l') t g el)"
proof -
  have "el_inv (RegisterEventListener q (Some l') t g el)"
    using assms(1,3) by (intro el_inv_step[OF el_step.register]) (auto simp: side_ok_def)
  moreover have "el_recipient (RegisterEventListener q (Some l') t g el)"
    using assms(1) by (auto simp: side_ok_def RegisterEventListener_def put_listener_def el_emit_def split: option.split)
  moreover have "li_listener i = l \<longleftrightarrow> r = p"
    if "map_of (listeners_at t' (RegisterEventListener q (Some l') t g el)) r = Some i" for t' r i
  proof -
    have "(\<exists>j. map_of (listeners_at t' el) r = Some j \<and> li_listener j = li_listener i) \<or> r = q \<and> li_listener i = l'"
      using that assms(1)
      by (auto simp: side_ok_def RegisterEventListener_def put_listener_at split: option.splits if_splits)
    then show ?thesis using assms(1,2) unfolding side_ok_def by metis
  qed
  ultimately show ?thesis by (simp add: side_ok_def)
qed

lemma side_ok_unregister: "side_ok p l el \<Longrightarrow> side_ok p l (UnRegisterEventListener q t g el)"
proof -
  assume ok: "side_ok p l el"
  have "el_inv (UnRegisterEventListener q t g el)"
    using ok by (intro el_inv_step[OF el_step.unregister]) (simp add: side_ok_def)
  moreover have "el_recipient (UnRegisterEventListener q t g el)"
    using ok by (auto simp: side_ok_def UnRegisterEventListener_def put_listener_def del_listener_def el_emit_def
        Let_def split: option.split)
  moreover have "li_listener i = l \<longleftrightarrow> r = p"
    if "map_of (listeners_at t' (UnRegisterEventListener q t g el)) r = Some i" for t' r i
  proof -
    have "\<exists>j. map_of (listeners_at t' el) r = Some j \<and> li_listener j = li_listener i"
      using that by (auto simp: unregister_at split: option.splits if_splits)
    then show ?thesis using ok unfolding side_ok_def by metis
  qed
  ultimately show ?thesis by (simp add: side_ok_def)
qed

lemma side_ok_died: "side_ok p l el \<Longrightarrow> side_ok p l (OnRemoteListenerDied (Some l') el)"
proof -
  assume ok: "side_ok p l el"
  have "el_inv (OnRemoteListenerDied (Some l') el)"
    using ok by (intro el_inv_step[OF el_step.died]) (simp add: side_ok_def)
  moreover have "el_recipient (OnRemoteListenerDied (Some l') el)"
    using ok by (simp add: side_ok_def OnRemoteListenerDied_def RemoveListenerLock_def)
  moreover have "map_of (listeners_at t' (OnRemoteListenerDied (Some l') el)) r = Some i \<Longrightarrow>
      map_of (listeners_at t' el) r = Some i" for t' r i
    by (auto simp: OnRemoteListenerDied_def removed_at dest: drop_listener_sub)
  ultimately show ?thesis using ok unfolding side_ok_def by metis
qed

fun record_effect :: "rc_out \<times> bool \<Rightarrow> (u32 \<times> u32) set \<Rightarrow> (u32 \<times> u32) set" where
  "record_effect (out, ok) S = (if ok then out_effect out S else S)"

lemma serve_facts:
  "side_ok p l el \<Longrightarrow> side_ok p l (serve p l calls el) \<and>
   on_record p (serve p l calls el) = fold record_effect calls (on_record p el)"
proof (induction calls arbitrary: el)
  case (Cons c calls)
  obtain out ok where c: "c = (out, ok)" by (cases c)
  have "side_ok p l (serve_one p l c el) \<and> on_record p (serve_one p l c el) = record_effect c (on_record p el)"
  proof (cases ok)
    case True
    show ?thesis
    proof (cases out)
      case (RcRegisterEvent t g)
      have "map_of (listeners_at t' el) q' = Some j \<Longrightarrow> li_listener j = l \<Longrightarrow> q' = p" for q' j t'
        using Cons.prems unfolding side_ok_def by blast
      then have "side_ok p l (RegisterEventListener p (Some l) t g el)"
        using side_ok_register[OF Cons.prems, of p l] by blast
      moreover have "el_recipient el" using Cons.prems by (simp add: side_ok_def)
      ultimately show ?thesis by (auto simp: c True RcRegisterEvent on_record_def register_registrations)
    next
      case (RcUnRegisterEvent t g)
      then show ?thesis
        using side_ok_unregister[OF Cons.prems] by (auto simp: c True on_record_def unregister_registrations)
    qed (use Cons.prems in \<open>simp_all add: c True\<close>)
  next
    case False
    then have "serve_one p l c el = el" by (cases out) (simp_all add: c)
    then show ?thesis using Cons.prems False by (simp add: c)
  qed
  then show ?case using Cons.IH[of "serve_one p l c el"] by (simp add: serve_Cons)
qed (simp add: serve_def)

text \<open>Outside the pairs that were refused the record follows what the client notes.\<close>

lemma record_follows:
  "S - R = N - R \<Longrightarrow>
   fold record_effect calls S - refuse calls R = fold out_effect (map fst calls) N - refuse calls R"
proof (induction calls arbitrary: S R N)
  case (Cons c calls)
  obtain out ok where c: "c = (out, ok)" by (cases c)
  have "record_effect c S - refuse_one c R = out_effect out N - refuse_one c R"
    using Cons.prems by (cases out) (auto simp: c)
  from Cons.IH[OF this] show ?case by (simp add: c refuse_def)
qed (simp add: refuse_def)

lemma record_of_failed: "list_all (\<lambda>c. \<not> snd c) calls \<Longrightarrow> fold record_effect calls S = S"
proof (induction calls)
  case (Cons c calls)
  then show ?case by (cases c) simp
qed simp

lemma start_el: "listeners_at t (el_Init el_new) = []" "el_recipient (el_Init el_new)" "el_inv (el_Init el_new)"
  by (simp_all add: el_Init_def el_new_def listeners_at_def el_inv_def el_ok_def own_listeners_def)

lemma start_record: "on_record p (el_Init el_new) = {}" "side_ok p l (el_Init el_new)"
  by (simp_all add: on_record_def registrations_def side_ok_def start_el)

lemma call_outs:
  assumes "tracks st st'"
  shows "has_registered st' = fold out_effect (new_outs st st') (has_registered st)"
proof -
  from assms obtain outs where "rc_outs st' = rc_outs st @ outs"
      "has_registered st' = fold out_effect outs (has_registered st)"
    unfolding tracks_def by blast
  then show ?thesis by (simp add: new_outs_def)
qed

lemma cut_facts:
  "has_registered (rc_OnRemoteDied st) = {}" "inner_map_of (rc_OnRemoteDied st) = inner_map_of st"
  "\<not> rss (rc_OnRemoteDied st)" "g_isDestroyed (rc_OnRemoteDied st) = g_isDestroyed st"
  "has_registered (rc_destroy st) = {}" "inner_map_of (rc_destroy st) = inner_map_of st"
  "\<not> rss (rc_destroy st)" "g_isDestroyed (rc_destroy st)"
  by (auto simp: rc_OnRemoteDied_def rc_StopRemoteObject_def rc_destroy_def rc_emit_def has_registered_def
      groups_at_def inner_map_of_def)

lemma rc_call_destroyed: "rc_call E st st' \<Longrightarrow> g_isDestroyed st' = g_isDestroyed st"
proof (induction rule: rc_call.induct)
  case (register st w listener t g)
  show ?case by (simp add: rc_RegisterEventListener_def Let_def RegisterAtService_def AddResSaListenerLocked_def rc_emit_def)
next
  case (unregister st listener t g)
  show ?case
    by (simp add: rc_UnRegisterEventListener_def UnRegisterEventListenerLocked_def rc_emit_def split: option.split)
next
  case (returned st w said)
  obtain ok st1 where c: "rc_TryConnect E w st = (ok, st1)" by (cases "rc_TryConnect E w st")
  have d: "g_isDestroyed st1 = g_isDestroyed st" using TryConnect_quiet[of st E w] c by (simp add: quiet_to_def)
  have "g_isDestroyed (RecoverEventListener s) = g_isDestroyed s" for s
    using register_all[of s "GetRegisteredTypesAndGroup (inner_map_of s)"]
    by (simp add: RecoverEventListener_def same_side_def)
  then show ?case using c d by (auto simp: rc_OnAddSystemAbility_def Let_def RegisterLoadLocked_def rc_emit_def)
qed (use calls_quiet in \<open>auto simp: quiet_to_def\<close>)

lemma sys_step_ok: "sys_step E p l s s' \<Longrightarrow> sys_ok p l s \<Longrightarrow> sys_ok p l s'"
proof (induction rule: sys_step.induct)
  case (call s st' calls)
  have c: "rc_ok st'" "tracks (sy_rc s) st'" using rc_call_ok[OF call(1)] call(3) by (simp_all add: sys_ok_def)
  have m: "has_registered st' = fold out_effect (map fst calls) (has_registered (sy_rc s))"
    using call_outs[OF c(2)] call(2) by (simp add: outcomes_def)
  have d: "g_isDestroyed st' = g_isDestroyed (sy_rc s)" using call(1) by (rule rc_call_destroyed)
  have side: "side_ok p l (sy_el s)" using call(3) by (simp add: sys_ok_def)
  note f = serve_facts[OF side, of calls]
  show ?case
    using c(1) f d call(2,3) record_follows[of "on_record p (sy_el s)" "sy_refused s" "has_registered (sy_rc s)" calls]
    by (simp add: sys_ok_def m outcomes_def record_of_failed)
next
  case (crash s)
  then show ?case by (simp add: sys_ok_def start_record rc_ok_def)
next
  case (told s)
  then show ?case by (auto simp: sys_ok_def rc_ok_def has_listeners_def cut_facts)
next
  case (gone s)
  then show ?case by (simp add: sys_ok_def rc_ok_def cut_facts)
next
  case (gone_told s)
  then show ?case using side_ok_died[of p l "sy_el s" l] by (simp add: sys_ok_def)
next
  case (other_register q l' s t g)
  have "side_ok p l (RegisterEventListener q (Some l') t g (sy_el s))"
    using other_register by (intro side_ok_register) (auto simp: sys_ok_def)
  moreover have "on_record p (RegisterEventListener q (Some l') t g (sy_el s)) = on_record p (sy_el s)"
  proof -
    have "el_recipient (sy_el s)" using other_register by (simp add: sys_ok_def side_ok_def)
    then show ?thesis using other_register(1) by (auto simp: on_record_def register_registrations)
  qed
  ultimately show ?case using other_register by (simp add: sys_ok_def)
next
  case (other_unregister q s t g)
  moreover have "on_record p (UnRegisterEventListener q t g (sy_el s)) = on_record p (sy_el s)"
    using other_unregister(1) by (auto simp: on_record_def unregister_registrations)
  ultimately show ?case using side_ok_unregister[of p l "sy_el s" q t g] by (simp add: sys_ok_def)
next
  case (other_died l' s)
  have e: "el_ok (sy_el s)" "own_listeners (sy_el s)" using other_died by (simp_all add: sys_ok_def side_ok_def el_inv_def)
  have "on_record p (OnRemoteListenerDied (Some l') (sy_el s)) = on_record p (sy_el s)"
    using other_died unfolding on_record_def died_registrations[OF e]
    by (auto simp: sys_ok_def side_ok_def)
  then show ?case using other_died side_ok_died[of p l "sy_el s" l'] by (simp add: sys_ok_def)
qed

lemma sys_reachable_ok: "sys_reachable E p l s \<Longrightarrow> sys_ok p l s"
proof (induction rule: sys_reachable.induct)
  case start
  show ?case
    by (simp add: sys_ok_def rc_ok_def start_record rc_new_def has_registered_def groups_at_def
        inner_map_of_def sys_start_def)
qed (rule sys_step_ok)

text \<open>
  C12. Whatever the process and other processes call, whichever calls the service refuses or
  misses, however often the service dies and however late the client learns of it: as long as the
  client lives and does not take a dead service for a living one, the service has on record for
  the process exactly the types and groups the client has noted as registered, apart from those
  whose last call since the connection was refused, and each noted one has a listener in the
  process; while the client takes a dead service for a living one, its successor has nothing on
  record for the process.
\<close>

theorem service_record_is_the_client_s:
  assumes "sys_reachable E p l s" "\<not> g_isDestroyed (sy_rc s)"
  shows "(if sy_stale s then {(t, g). (t, p, g) \<in> registrations (sy_el s)} = {}
     else {(t, g). (t, p, g) \<in> registrations (sy_el s)} - sy_refused s =
       {(t, g). g \<in> set (groups_at t (registeredInnerEvents (sy_rc s)))} - sy_refused s) \<and>
    {(t, g). g \<in> set (groups_at t (registeredInnerEvents (sy_rc s)))}
      \<subseteq> {(t, g). listeners_of t g (inner_map_of (sy_rc s)) \<noteq> []}"
  using sys_reachable_ok[OF assms(1)] assms(2)
  unfolding sys_ok_def rc_ok_def on_record_def has_registered_def has_listeners_def by auto

text \<open>A process that listens, loses the service and finds it again.\<close>

definition demo_rx :: rc_env where
  "demo_rx = \<lparr>rx_dump = (\<lambda>j. ''{}''), rx_parse = (\<lambda>s. None), rx_indet = 0, rx_indet_bool = False,
     rx_subscribed = True, rx_sa_id = 1901\<rparr>"

definition demo_connected :: rc_state where "demo_connected = snd (rc_TryConnect demo_rx Reachable rc_new)"

definition demo_listening :: rc_state where
  "demo_listening = rc_RegisterEventListener demo_rx Reachable (Some 5) 3 0 demo_connected"

definition demo_sys :: "bool \<Rightarrow> sys" where
  "demo_sys ok = \<lparr>sy_rc = demo_listening, sy_el = serve 7 1 [(RcRegisterEvent 3 0, ok)] (el_Init el_new),
     sy_stale = False, sy_refused = (if ok then {} else {(3, 0)})\<rparr>"

lemmas demo_client_defs = demo_listening_def demo_connected_def demo_rx_def rc_TryConnect_def rc_new_def
  AddResSaListenerLocked_def rc_emit_def rc_RegisterEventListener_def Let_def inner_map_of_def
  ie_RegisterEventListener_def groups_at_def IsInnerEventMapEmpty_def listeners_of_def RegisterAtService_def

lemma demo_outs:
  "new_outs rc_new demo_connected = [RcAddDeath, RcSubscribeSa]"
  "new_outs demo_connected demo_listening = [RcRegisterEvent 3 0]"
  by (simp_all add: new_outs_def demo_client_defs)

lemma demo_listening_facts:
  "groups_at 3 (registeredInnerEvents demo_listening) = [0] \<and> listeners_of 3 0 (inner_map_of demo_listening) = [5] \<and>
   rss demo_listening \<and> \<not> g_isDestroyed demo_listening"
  by (simp add: demo_client_defs)

lemma demo_sys_reachable: "sys_reachable demo_rx 7 1 (demo_sys ok)"
proof -
  let ?c = "[(RcAddDeath, True), (RcSubscribeSa, True)]"
  let ?s1 = "sys_start\<lparr>sy_rc := demo_connected, sy_el := serve 7 1 ?c (el_Init el_new), sy_refused := refuse ?c {}\<rparr>"
  have "sys_reachable demo_rx 7 1 ?s1"
  proof (rule sys_reachable.step[OF sys_reachable.start])
    have "rc_call demo_rx (sy_rc sys_start) demo_connected"
      using rc_call.connect[of demo_rx rc_new Reachable] by (simp add: demo_connected_def sys_start_def)
    from sys_step.call[OF this, of ?c 7 1] show "sys_step demo_rx 7 1 sys_start ?s1"
      by (simp add: outcomes_def sys_start_def demo_outs)
  qed
  moreover have "sys_step demo_rx 7 1 ?s1 (demo_sys ok)"
  proof -
    have "rc_call demo_rx (sy_rc ?s1) demo_listening"
      using rc_call.register[of demo_rx demo_connected Reachable "Some 5" 3 0] by (simp add: demo_listening_def)
    from sys_step.call[OF this, of "[(RcRegisterEvent 3 0, ok)]" 7 1] show ?thesis
      by (cases ok) (simp_all add: outcomes_def sys_start_def demo_outs demo_sys_def serve_def refuse_def)
  qed
  ultimately show ?thesis by (rule sys_reachable.step)
qed

theorem service_record_is_the_client_s_witness:
  "(3, 7, 0) \<in> registrations (sy_el (demo_sys True))"
proof -
  have "\<not> g_isDestroyed (sy_rc (demo_sys True))" using demo_listening_facts by (simp add: demo_sys_def)
  from service_record_is_the_client_s[OF demo_sys_reachable this]
  have "{(t, g). (t, 7, g) \<in> registrations (sy_el (demo_sys True))} =
      {(t, g). g \<in> set (groups_at t (registeredInnerEvents demo_listening))}"
    by (simp add: demo_sys_def)
  moreover have "(3, 0) \<in> {(t, g). g \<in> set (groups_at t (registeredInnerEvents demo_listening))}"
    using demo_listening_facts by simp
  ultimately show ?thesis by blast
qed

text \<open>
  A refused registration is not noticed: the client notes it all the same, and registering another
  listener for the same type and group does not ask the service again.
\<close>

lemma refused_registration_is_noted:
  "sys_reachable demo_rx 7 1 (demo_sys False) \<and> registrations (sy_el (demo_sys False)) = {} \<and>
   0 \<in> set (groups_at 3 (registeredInnerEvents (sy_rc (demo_sys False)))) \<and>
   new_outs (sy_rc (demo_sys False)) (rc_RegisterEventListener demo_rx Reachable (Some 6) 3 0 (sy_rc (demo_sys False))) = []"
proof -
  have "registrations (sy_el (demo_sys False)) = {}"
    by (simp add: demo_sys_def serve_def registrations_def start_el)
  moreover have "new_outs demo_listening (rc_RegisterEventListener demo_rx Reachable (Some 6) 3 0 demo_listening) = []"
    by (simp add: new_outs_def demo_client_defs)
  ultimately show ?thesis using demo_sys_reachable[of False] demo_listening_facts by (simp add: demo_sys_def)
qed

section \<open>Recovery\<close>

text \<open>The registrations among the calls of the client.\<close>

definition asked :: "rc_out list \<Rightarrow> (u32 \<times> u32) set" where
  "asked outs = {(t, g). RcRegisterEvent t g \<in> set outs}"

definition accepted :: "(rc_out \<times> bool) list \<Rightarrow> (u32 \<times> u32) set" where
  "accepted calls = {(t, g). (RcRegisterEvent t g, True) \<in> set calls}"

definition only_asks :: "rc_state \<Rightarrow> rc_state \<Rightarrow> (u32 \<times> u32) set \<Rightarrow> bool" where
  "only_asks st st' P \<longleftrightarrow> (\<exists>outs. rc_outs st' = rc_outs st @ outs \<and> asked outs = P \<and>
     (\<forall>t g. RcUnRegisterEvent t g \<notin> set outs))"

lemma asked_append: "asked (a @ b) = asked a \<union> asked b"
  by (auto simp: asked_def)

lemma only_asks_trans: "only_asks a b P \<Longrightarrow> only_asks b c Q \<Longrightarrow> only_asks a c (P \<union> Q)"
  unfolding only_asks_def by (elim exE conjE, rule_tac x = "outs @ outsa" in exI) (simp add: asked_append)

lemma neutral_asks: "list_all neutral outs \<Longrightarrow> asked outs = {} \<and> (\<forall>t g. RcUnRegisterEvent t g \<notin> set outs)"
  by (auto simp: asked_def list_all_iff neutral_def)

lemma quiet_asks: "quiet_to st st' \<Longrightarrow> only_asks st st' {}"
  unfolding quiet_to_def only_asks_def using neutral_asks by blast

lemma asks_outs: "only_asks st st' P \<Longrightarrow> rc_outs st0 = rc_outs st \<Longrightarrow> only_asks st0 st' P"
  by (simp add: only_asks_def)

lemma register_asks: "only_asks st (fold (RegisterAtService t) gs st) ({t} \<times> set gs)"
proof (induction gs arbitrary: st)
  case Nil
  show ?case by (simp add: only_asks_def asked_def)
next
  case (Cons g gs)
  have "only_asks st (RegisterAtService t g st) {(t, g)}"
    by (auto simp: only_asks_def asked_def RegisterAtService_def rc_emit_def)
  from only_asks_trans[OF this Cons[of "RegisterAtService t g st"]]
  show ?case by (simp add: insert_Times_insert Un_commute)
qed

lemma recover_asks:
  "only_asks st (fold (\<lambda>(t, gs). fold (RegisterAtService t) gs) L st) {(t, g). \<exists>gs. (t, gs) \<in> set L \<and> g \<in> set gs}"
proof (induction L arbitrary: st)
  case Nil
  show ?case by (simp add: only_asks_def asked_def)
next
  case (Cons x L)
  obtain t gs where x: "x = (t, gs)" by (cases x)
  have "{t} \<times> set gs \<union> {(t, g). \<exists>gs. (t, gs) \<in> set L \<and> g \<in> set gs} =
      {(t', g). \<exists>gs. (t', gs) \<in> set (x # L) \<and> g \<in> set gs}" by (auto simp: x)
  with only_asks_trans[OF register_asks[of st t gs] Cons[of "fold (RegisterAtService t) gs st"]]
  show ?case by (simp add: x)
qed

lemma back_asks:
  assumes "rc_ok st" "fst (rc_TryConnect E w st)"
  shows "only_asks st (rc_OnAddSystemAbility E w (rx_sa_id E) st) (has_listeners st)"
proof -
  obtain ok st1 where c: "rc_TryConnect E w st = (ok, st1)" by (cases "rc_TryConnect E w st")
  have q: "quiet_to st st1" using TryConnect_quiet[of st E w] c by simp
  have ok: ok and rss: "rss st1" using assms(2) c TryConnect_True by auto
  let ?s2 = "st1\<lparr>innerEvents := Some (inner_map_of st1)\<rparr>"
  let ?s3 = "RecoverEventListener ?s2"
  let ?s4 = "?s3\<lparr>systemloadLevelCbs := Some (load_cbs ?s3)\<rparr>"
  have m: "inner_map_of ?s2 = inner_map_of st" using q by (simp add: quiet_to_def inner_map_of_def)
  have "only_asks ?s2 ?s3 (has_listeners st)"
    using recover_asks[of ?s2 "GetRegisteredTypesAndGroup (inner_map_of ?s2)"] recovered_groups[of "inner_map_of st"] assms(1)
    by (simp add: RecoverEventListener_def m has_listeners_def rc_ok_def)
  then have "only_asks st1 ?s3 (has_listeners st)" by (rule asks_outs) simp
  moreover have "only_asks ?s3 (RegisterLoadLocked ?s4) {}"
    by (intro quiet_asks quiet_trans[OF _ RegisterLoadLocked_quiet]) simp
  moreover have "rc_OnAddSystemAbility E w (rx_sa_id E) st = RegisterLoadLocked ?s4"
    using c ok rss by (simp add: rc_OnAddSystemAbility_def Let_def)
  ultimately show ?thesis using only_asks_trans[OF quiet_asks[OF q] only_asks_trans] by fastforce
qed

lemma accepted_record:
  "\<forall>t g. RcUnRegisterEvent t g \<notin> fst ` set calls \<Longrightarrow> fold record_effect calls S = S \<union> accepted calls"
proof (induction calls arbitrary: S)
  case (Cons c calls)
  obtain out ok where c: "c = (out, ok)" by (cases c)
  have "record_effect c S = S \<union> accepted [c]"
    using Cons.prems by (cases out) (auto simp: c accepted_def)
  with Cons.IH[of "S \<union> accepted [c]"] Cons.prems show ?case by (auto simp: accepted_def)
qed (simp add: accepted_def)

text \<open>
  C24. When the client, which does not take a dead service for a living one, is told that the
  service is back and reaches it, it asks for exactly the types and groups that have a listener
  in the process, and the service puts on record exactly those it does not refuse; when it
  refuses none, and refused none before since the connection, its record for the process is
  exactly the pairs with a listener: nothing that was registered while the service was away is
  lost.
\<close>

theorem recovery_is_complete:
  assumes "sys_reachable E p l s" "\<not> sy_stale s" "fst (rc_TryConnect E w (sy_rc s))"
    and "st' = rc_OnAddSystemAbility E w (rx_sa_id E) (sy_rc s)" "outcomes s st' calls"
  shows "{(t, g). \<exists>ok. (RcRegisterEvent t g, ok) \<in> set calls} =
      {(t, g). listeners_of t g (inner_map_of (sy_rc s)) \<noteq> []} \<and>
    {(t, g). (t, p, g) \<in> registrations (serve p l calls (sy_el s))} =
      {(t, g). (t, p, g) \<in> registrations (sy_el s)} \<union> {(t, g). (RcRegisterEvent t g, True) \<in> set calls} \<and>
    (sy_refused s = {} \<and> list_all snd calls \<longrightarrow>
      {(t, g). (t, p, g) \<in> registrations (serve p l calls (sy_el s))} =
      {(t, g). listeners_of t g (inner_map_of (sy_rc s)) \<noteq> []})"
proof -
  let ?st = "sy_rc s"
  have ok: "rc_ok ?st" "side_ok p l (sy_el s)" using sys_reachable_ok[OF assms(1)] by (simp_all add: sys_ok_def)
  have alive: "\<not> g_isDestroyed ?st" using assms(3) by (auto simp: rc_TryConnect_def split: if_splits)
  have new: "map fst calls = new_outs ?st st'" using assms(5) by (simp add: outcomes_def)
  from back_asks[OF ok(1) assms(3)] obtain outs where
    outs: "rc_outs st' = rc_outs ?st @ outs" "asked outs = has_listeners ?st" "\<forall>t g. RcUnRegisterEvent t g \<notin> set outs"
    unfolding only_asks_def assms(4) by blast
  have m: "map fst calls = outs" using new outs(1) by (simp add: new_outs_def)
  have asks: "{(t, g). \<exists>ok. (RcRegisterEvent t g, ok) \<in> set calls} = has_listeners ?st"
    unfolding outs(2)[symmetric] m[symmetric] by (force simp: asked_def)
  have "on_record p (serve p l calls (sy_el s)) = on_record p (sy_el s) \<union> accepted calls"
    using serve_facts[OF ok(2), of calls] accepted_record[of calls] outs(3) m by (metis set_map)
  moreover have "accepted calls = has_listeners ?st" if "list_all snd calls"
    using that unfolding asks[symmetric] by (auto simp: accepted_def list_all_iff)
  moreover have "on_record p (sy_el s) \<subseteq> has_listeners ?st" if "sy_refused s = {}"
    using that sys_reachable_ok[OF assms(1)] assms(2) alive by (simp add: sys_ok_def rc_ok_def)
  ultimately show ?thesis
    using asks unfolding on_record_def accepted_def has_listeners_def by blast
qed

definition demo_lost :: sys where
  "demo_lost = \<lparr>sy_rc = rc_OnRemoteDied demo_listening, sy_el = el_Init el_new, sy_stale = False, sy_refused = {}\<rparr>"

lemma demo_lost_reachable: "sys_reachable demo_rx 7 1 demo_lost"
proof -
  let ?s = "(demo_sys True)\<lparr>sy_el := el_Init el_new, sy_stale := True\<rparr>"
  have "sys_reachable demo_rx 7 1 ?s"
    using sys_reachable.step[OF demo_sys_reachable[of True] sys_step.crash] demo_listening_facts
    by (simp add: demo_sys_def)
  from sys_reachable.step[OF this sys_step.told] show ?thesis
    by (simp add: demo_lost_def demo_sys_def)
qed

lemma demo_lost_facts:
  "fst (rc_TryConnect demo_rx Reachable (sy_rc demo_lost))"
  "new_outs (sy_rc demo_lost) (rc_OnAddSystemAbility demo_rx Reachable 1901 (sy_rc demo_lost)) =
     [RcAddDeath, RcRegisterEvent 3 0]"
  "listeners_of 3 0 (inner_map_of (sy_rc demo_lost)) = [5]"
  by (simp_all add: demo_lost_def rc_OnRemoteDied_def rc_StopRemoteObject_def demo_client_defs new_outs_def
      rc_OnAddSystemAbility_def RecoverEventListener_def GetRegisteredTypesAndGroup_def RegisterLoadLocked_def load_cbs_def)

theorem recovery_is_complete_witness:
  "(3, 7, 0) \<in> registrations (serve 7 1 [(RcAddDeath, True), (RcRegisterEvent 3 0, True)] (sy_el demo_lost))"
proof -
  let ?calls = "[(RcAddDeath, True), (RcRegisterEvent 3 0, True)]"
  have st: "\<not> sy_stale demo_lost" "sy_refused demo_lost = {}" "rx_sa_id demo_rx = 1901"
    by (simp_all add: demo_lost_def demo_rx_def)
  have "outcomes demo_lost (rc_OnAddSystemAbility demo_rx Reachable (rx_sa_id demo_rx) (sy_rc demo_lost)) ?calls"
    using st demo_lost_facts(2) by (simp add: outcomes_def)
  note r = recovery_is_complete[OF demo_lost_reachable st(1) demo_lost_facts(1) refl this]
  have "list_all snd ?calls" by simp
  with st(2) have "{(t, g). (t, 7, g) \<in> registrations (serve 7 1 ?calls (sy_el demo_lost))} =
      {(t, g). listeners_of t g (inner_map_of (sy_rc demo_lost)) \<noteq> []}" by (intro mp[OF conjunct2[OF conjunct2[OF r]]] conjI)
  moreover have "(3, 0) \<in> {(t, g). listeners_of t g (inner_map_of (sy_rc demo_lost)) \<noteq> []}"
    using demo_lost_facts(3) by simp
  ultimately show ?thesis by blast
qed

text \<open>
  When the return of the service is announced before its death, the recovery goes to the dead
  service; the notice of the death then clears the notes, and nothing registers again.
\<close>

lemma early_return_recovers_nothing:
  assumes "sys_reachable E p l s" "sy_stale s" "\<not> g_isDestroyed (sy_rc s)"
    and "st' = rc_OnAddSystemAbility E w (rx_sa_id E) (sy_rc s)" "outcomes s st' calls"
  shows "{(t, g). (t, p, g) \<in> registrations (serve p l calls (sy_el s))} = {} \<and>
    {(t, g). g \<in> set (groups_at t (registeredInnerEvents (rc_OnRemoteDied st')))} = {}"
proof -
  have ok: "side_ok p l (sy_el s)" "on_record p (sy_el s) = {}"
    using sys_reachable_ok[OF assms(1)] assms(2,3) by (simp_all add: sys_ok_def)
  have "list_all (\<lambda>c. \<not> snd c) calls" using assms(2,5) by (simp add: outcomes_def)
  with serve_facts[OF ok(1), of calls] ok(2) have "on_record p (serve p l calls (sy_el s)) = {}"
    by (simp add: record_of_failed)
  then show ?thesis using cut_facts(1)[of st'] by (simp add: on_record_def has_registered_def)
qed

section \<open>Reports\<close>

definition same_types :: "rc_state \<Rightarrow> rc_state \<Rightarrow> bool" where
  "same_types st st' \<longleftrightarrow> isGetResTypeList st' = isGetResTypeList st \<and> resTypeList st' = resTypeList st"

lemma same_types_emit [simp]: "same_types st (rc_emit out st') = same_types st st'"
  by (simp add: same_types_def rc_emit_def)

lemma same_types_trans: "same_types a b \<Longrightarrow> same_types b c \<Longrightarrow> same_types a c"
  by (simp add: same_types_def)

lemma same_types_fold: "(\<And>x s. same_types s (f x s)) \<Longrightarrow> same_types st (fold f xs st)"
proof (induction xs arbitrary: st)
  case (Cons x xs)
  then show ?case using same_types_trans[OF Cons.prems[of st x]] by simp
qed (simp add: same_types_def)

lemma TryConnect_types: "same_types st (snd (rc_TryConnect E w st))"
  by (auto simp: rc_TryConnect_def ReportConnectError_def AddResSaListenerLocked_def same_types_def rc_emit_def
      split: connect_world.split)

lemma AddResSa_types: "same_types st (AddResSaListenerLocked E w st)"
  by (simp add: AddResSaListenerLocked_def same_types_def rc_emit_def)

lemma RegisterAtService_types: "same_types st (RegisterAtService t g st)"
  by (simp add: RegisterAtService_def same_types_def rc_emit_def)

lemma RegisterLoad_types: "same_types st (RegisterLoadLocked st)"
  by (simp add: RegisterLoadLocked_def same_types_def rc_emit_def)

lemma same_types_fields [simp]:
  "same_types st (st'\<lparr>systemloadLevelCbs := c\<rparr>) = same_types st st'"
  "same_types st (st'\<lparr>systemloadCbRegistered := d\<rparr>) = same_types st st'"
  "same_types st (st'\<lparr>innerEvents := e\<rparr>) = same_types st st'"
  "same_types st (st'\<lparr>registeredInnerEvents := f\<rparr>) = same_types st st'"
  "same_types st st"
  by (simp_all add: same_types_def)

lemma Recover_types: "same_types st (RecoverEventListener st)"
  unfolding RecoverEventListener_def
  by (rule same_types_fold) (auto intro!: same_types_fold RegisterAtService_types split: prod.split)

lemma back_types: "same_types st (rc_OnAddSystemAbility E w said st)"
proof -
  obtain ok st1 where c: "rc_TryConnect E w st = (ok, st1)" by (cases "rc_TryConnect E w st")
  have t1: "same_types st st1" using TryConnect_types[of st E w] c by simp
  let ?s2 = "st1\<lparr>innerEvents := Some (inner_map_of st1)\<rparr>"
  have t3: "same_types st1 (RecoverEventListener ?s2)"
    by (rule same_types_trans[OF _ Recover_types]) simp
  have t4: "same_types s (RegisterLoadLocked (s\<lparr>systemloadLevelCbs := c\<rparr>))" for s c
    by (rule same_types_trans[OF _ RegisterLoad_types]) simp
  have t5: "same_types st1 (RegisterLoadLocked (?s2\<lparr>systemloadLevelCbs := c\<rparr>))" for c
    by (rule same_types_trans[OF _ t4]) simp
  show ?thesis
    using c t1 same_types_trans[OF t1 same_types_trans[OF t3 t4]] same_types_trans[OF t1 t5]
    by (auto simp: rc_OnAddSystemAbility_def Let_def)
qed

text \<open>Once asked for, the list of types never changes.\<close>

lemma rc_call_types: "rc_call E st st' \<Longrightarrow> isGetResTypeList st \<Longrightarrow> same_types st st'"
proof (induction rule: rc_call.induct)
  case (report st w answer now t v m)
  then show ?case
    using TryConnect_types[of st E w]
    by (auto simp: rc_ReportData_def FetchResTypeList_def ReportDiscardEventError_def Let_def same_types_def rc_emit_def
        split: prod.splits)
next
  case (register st w listener t g)
  show ?case
    unfolding rc_RegisterEventListener_def Let_def
    by (rule same_types_trans[OF _ AddResSa_types]) (auto intro: same_types_trans[OF _ RegisterAtService_types])
next
  case (load st w cb)
  show ?case
    unfolding rc_RegisterSystemloadNotifier_def
    by (rule same_types_trans[OF _ AddResSa_types], rule same_types_trans[OF _ RegisterLoad_types]) simp
next
  case (sync st w sanswer inTime t v m reply)
  then show ?case
    using TryConnect_types[of st E w]
    by (auto simp: rc_ReportSyncEvent_def json_ReportSyncEvent_def Let_def split: prod.splits)
next
  case (kill st w kanswer m)
  then show ?case using TryConnect_types[of st E w] by (auto simp: rc_KillProcess_def split: prod.splits)
next
  case (level st lv)
  show ?case by (auto simp: OnSystemloadLevel_def intro!: same_types_fold split: option.split)
next
  case (event st t val g info)
  show ?case by (auto simp: rc_OnReceiveEvent_def Let_def intro!: same_types_fold split: option.split)
qed (simp_all add: TryConnect_types back_types rc_UnRegisterEventListener_def UnRegisterEventListenerLocked_def
    rc_UnRegisterSystemloadNotifier_def Let_def split: option.split)

text \<open>
  The types the service listens to are asked for once: a type that is not in the first answer,
  or any type when the first call failed, is never reported, whatever plugins subscribe to later
  and however often the service restarts, except for the three types that are always reported.
\<close>

theorem types_are_asked_for_once:
  assumes "isGetResTypeList st" "(rc_call E)\<^sup>*\<^sup>* st st'" "\<not> always_reported t" "t \<notin> set (resTypeList st)"
  shows "RcReport t v s \<notin> set (new_outs st' (rc_ReportData E w answer now t v' m st'))"
proof -
  from assms(2,1) have same: "same_types st st'"
  proof (induction rule: rtranclp_induct)
    case (step a b)
    then have "same_types st a" by blast
    moreover from this step.prems have "same_types a b"
      using step.hyps(2) by (intro rc_call_types) (auto simp: same_types_def)
    ultimately show ?case by (rule same_types_trans)
  qed simp
  obtain ok st1 where c: "rc_TryConnect E w st' = (ok, st1)" by (cases "rc_TryConnect E w st'")
  have "same_types st' st1" using TryConnect_types[of st' E w] c by simp
  then have st1: "FetchResTypeList answer st1 = st1" "t \<notin> set (resTypeList st1)"
    using same assms(1,4) by (simp_all add: same_types_def FetchResTypeList_def)
  have q: "\<exists>outs. rc_outs st1 = rc_outs st' @ outs \<and> RcReport t v s \<notin> set outs"
    using c by (auto simp: rc_TryConnect_def ReportConnectError_def AddResSaListenerLocked_def rc_emit_def
        split: connect_world.splits if_splits)
  have "\<exists>outs. rc_outs (ReportDiscardEventError now t st1) = rc_outs st1 @ outs \<and> RcReport t v s \<notin> set outs"
    by (simp add: ReportDiscardEventError_def Let_def rc_emit_def)
  then show ?thesis
    using c q st1 assms(3) by (auto simp: rc_ReportData_def Let_def new_outs_def)
qed

theorem types_are_asked_for_once_witness:
  "RcReport 9 0 ''{}'' \<notin> set (new_outs (rc_new\<lparr>isGetResTypeList := True\<rparr>)
     (rc_ReportData demo_rx Reachable (Some [9]) 0 9 0 [] (rc_new\<lparr>isGetResTypeList := True\<rparr>)))"
proof -
  have "isGetResTypeList (rc_new\<lparr>isGetResTypeList := True\<rparr>)" "resTypeList (rc_new\<lparr>isGetResTypeList := True\<rparr>) = []"
    "\<not> always_reported 9"
    by (simp_all add: rc_new_def always_reported_def res_type_defs)
  then show ?thesis by (intro types_are_asked_for_once[OF _ rtranclp.rtrancl_refl]) simp_all
qed

end
