(* ===== verification/Kill_Listener.thy ===== *)
theory Kill_Listener
  imports Client_Model Executor_Model
begin

text \<open>
  The kill reasons (ressched\_client/src/kill\_event\_listener.cpp): the client library asks the
  service for the reasons each caller may kill with, listens for new configurations and counts the
  questions it is asked.  Delayed tasks are a list of delays, reports an output list; the listener
  object is a number.
\<close>

section \<open>Data\<close>

definition kill_REPORT_INTERVAL_MS :: i64 where "kill_REPORT_INTERVAL_MS = 24 * 60 * 60 * 1000 * 1000"
definition kill_FIRST_REPORT_DELAY_MS :: i64 where "kill_FIRST_REPORT_DELAY_MS = 10 * 1000 * 1000"
definition MAX_CACHE_REASON_COUNT :: nat where "MAX_CACHE_REASON_COUNT = 1000"

record kl_state =
  killReasonMap :: "(u32 \<times> string list) list"
  isTaskSubmit :: bool
  isRegister :: bool
  isConfigInited :: bool
  killCountMap :: "(string \<times> u32) list"
  kl_client :: rc_state
  kl_tasks :: "i64 list"
  kl_reports :: "string list"

definition kl_new :: "rc_state \<Rightarrow> kl_state" where
  "kl_new cl = \<lparr>killReasonMap = [], isTaskSubmit = False, isRegister = False, isConfigInited = False,
     killCountMap = [], kl_client = cl, kl_tasks = [], kl_reports = []\<rparr>"

section \<open>The configuration\<close>

definition strings_in :: "json \<Rightarrow> string list" where
  "strings_in j = (case j of JArr vs \<Rightarrow> List.map_filter (\<lambda>v. case v of JStr s \<Rightarrow> Some s | _ \<Rightarrow> None) vs | _ \<Rightarrow> [])"

text \<open>The caller and the reasons of an item, unless its format is wrong.\<close>

definition config_item :: "json \<Rightarrow> (u32 \<times> string list) option" where
  "config_item j =
     (case (member ''uid'' j, member ''reason'' j) of
        (Some (JStr uidStr), Some (JArr rs)) \<Rightarrow> map_option (\<lambda>uid. (uid, strings_in (JArr rs))) (StrToUInt32 uidStr)
      | _ \<Rightarrow> None)"

definition ParseKillConfig :: "json \<Rightarrow> kl_state \<Rightarrow> kl_state" where
  "ParseKillConfig reasonsConfig st =
     (case member ''result'' reasonsConfig of
        Some (JArr items) \<Rightarrow>
          st\<lparr>killReasonMap := fold (\<lambda>j m. case config_item j of None \<Rightarrow> m | Some (uid, rs) \<Rightarrow> AList.update uid rs m) items []\<rparr>
      | _ \<Rightarrow> st)"

definition IsConfigKillReason :: "u32 \<Rightarrow> string \<Rightarrow> kl_state \<Rightarrow> bool" where
  "IsConfigKillReason callerUid reason st =
     (case map_of (killReasonMap st) callerUid of None \<Rightarrow> False | Some rs \<Rightarrow> reason \<in> set rs)"

definition kill_OnReceiveEvent :: "rc_env \<Rightarrow> (string \<times> string) list \<Rightarrow> kl_state \<Rightarrow> kl_state" where
  "kill_OnReceiveEvent E extInfo st =
     (case map_of extInfo ''CLOUD_PUSH_CONFIG'' of
        None \<Rightarrow> st
      | Some s \<Rightarrow>
          if s = [] then st
          else (case LoadContentToJsonObj (rx_parse E) s of None \<Rightarrow> st | Some j \<Rightarrow> ParseKillConfig j st))"

definition RegisterKillConfigUpdate :: "rc_env \<Rightarrow> connect_world \<Rightarrow> nat \<Rightarrow> kl_state \<Rightarrow> kl_state" where
  "RegisterKillConfigUpdate E w self st =
     (if isRegister st then st
      else st\<lparr>kl_client := rc_RegisterEventListener E w (Some self) (word_of_int EVENT_UPDATE_KILL_REASON_CONFIG) 0 (kl_client st),
        isRegister := True\<rparr>)"

text \<open>Asked for until the service answers.\<close>

definition InitKillConfig :: "rc_env \<Rightarrow> connect_world \<Rightarrow> (string \<times> i32) option \<Rightarrow> kl_state \<Rightarrow> kl_state" where
  "InitKillConfig E w answer st =
     (if isConfigInited st then st
      else (case json_ReportSyncEvent E w answer True RES_TYPE_LOAD_KILL_REASON_CONFIG 0 JNull (kl_client st) of
          (ret, reply, cl) \<Rightarrow>
            let st1 = st\<lparr>kl_client := cl\<rparr> in
            if ret \<noteq> 0 then st1
            else (ParseKillConfig (case reply of None \<Rightarrow> JNull | Some j \<Rightarrow> j) st1)\<lparr>isConfigInited := True\<rparr>))"

definition kill_Init :: "rc_env \<Rightarrow> connect_world \<Rightarrow> nat \<Rightarrow> (string \<times> i32) option \<Rightarrow> kl_state \<Rightarrow> kl_state" where
  "kill_Init E w self answer st = InitKillConfig E w answer (RegisterKillConfigUpdate E w self st)"

section \<open>The counts\<close>

definition kill_key :: "u32 \<Rightarrow> string \<Rightarrow> bool \<Rightarrow> string" where
  "kill_key callerUid reason isAllowed =
     ''uid:'' @ to_string (uint callerUid) @ '',reason:'' @ reason @ '',allow'' @ to_string (of_bool isAllowed)"

definition UpdateKillCount :: "u32 \<Rightarrow> string \<Rightarrow> bool \<Rightarrow> kl_state \<Rightarrow> kl_state" where
  "UpdateKillCount callerUid reason isAllowed st =
     (let killKey = kill_key callerUid reason isAllowed; m = killCountMap st in
      case map_of m killKey of
        None \<Rightarrow> if MAX_CACHE_REASON_COUNT \<le> length m then st else st\<lparr>killCountMap := m @ [(killKey, 1)]\<rparr>
      | Some n \<Rightarrow> st\<lparr>killCountMap := AList.update killKey (n + 1) m\<rparr>)"

text \<open>A report empties the counts and asks for the next one.\<close>

definition ReportKillEventPeriod :: "rc_env \<Rightarrow> i64 \<Rightarrow> kl_state \<Rightarrow> kl_state" where
  "ReportKillEventPeriod E period st =
     (let items = JArr (map (\<lambda>(k, n). JObj [(''cnt'', JUint (unat n)), (''desc'', JStr k)]) (killCountMap st)) in
      st\<lparr>kl_reports := kl_reports st @ [rx_dump E items], killCountMap := [], kl_tasks := kl_tasks st @ [period]\<rparr>)"

definition ReportKillEvent :: "kl_state \<Rightarrow> kl_state" where
  "ReportKillEvent st =
     (if isTaskSubmit st then st else st\<lparr>kl_tasks := kl_tasks st @ [kill_FIRST_REPORT_DELAY_MS], isTaskSubmit := True\<rparr>)"

text \<open>The answer does not depend on the configuration; only the count does.\<close>

definition IsAllowedKill ::
    "rc_env \<Rightarrow> connect_world \<Rightarrow> nat \<Rightarrow> (string \<times> i32) option \<Rightarrow> u32 \<Rightarrow> string \<Rightarrow> kl_state \<Rightarrow> bool \<times> kl_state" where
  "IsAllowedKill E w self answer callerUid reason st =
     (let st1 = kill_Init E w self answer st;
          isAllowed = IsConfigKillReason callerUid reason st1
      in (True, ReportKillEvent (UpdateKillCount callerUid reason isAllowed st1)))"

section \<open>What is in force\<close>

lemma map_of_config:
  "map_of (fold (\<lambda>j m. case config_item j of None \<Rightarrow> m | Some (uid, rs) \<Rightarrow> AList.update uid rs m) items m0) u =
     (case find (\<lambda>(uid, rs). uid = u) (rev (List.map_filter config_item items)) of
        None \<Rightarrow> map_of m0 u | Some (uid, rs) \<Rightarrow> Some rs)"
proof (induction items rule: rev_induct)
  case (snoc j items)
  then show ?case
    by (cases "config_item j") (auto simp: List.map_filter_def update_conv' split: prod.splits)
qed (simp add: List.map_filter_def)

text \<open>
  After a configuration has been accepted, a caller may kill for a reason exactly when the last
  item of the configuration for the caller that is well formed lists it; what was in force before
  and the items that are not well formed play no part.
\<close>

theorem configured_reasons:
  assumes "member ''result'' config = Some (JArr items)"
  shows "IsConfigKillReason uid reason (ParseKillConfig config st) =
    (case find (\<lambda>(u, rs). u = uid) (rev (List.map_filter config_item items)) of
       None \<Rightarrow> False | Some (u, rs) \<Rightarrow> reason \<in> set rs)"
  using assms
  by (simp add: IsConfigKillReason_def ParseKillConfig_def map_of_config split: option.split)

definition demo_reasons :: json where
  "demo_reasons = JObj [(''result'', JArr [
     JObj [(''uid'', JStr ''1096''), (''reason'', JArr [JStr ''a''])],
     JObj [(''uid'', JUint 1096), (''reason'', JArr [JStr ''c''])],
     JObj [(''uid'', JStr ''1096''), (''reason'', JArr [JStr ''b'', JNull])]])]"

lemma demo_reasons_member: "member ''result'' demo_reasons = Some (JArr (case demo_reasons of JObj ((n, JArr items) # m) \<Rightarrow> items | _ \<Rightarrow> []))"
  by (simp add: demo_reasons_def member_def)

theorem configured_reasons_witness:
  "IsConfigKillReason 1096 ''b'' (ParseKillConfig demo_reasons (kl_new rc_new)) \<and>
   \<not> IsConfigKillReason 1096 ''a'' (ParseKillConfig demo_reasons (kl_new rc_new))"
proof -
  note C = configured_reasons[of demo_reasons, OF demo_reasons_member]
  have "to_string 1096 = ''1096''" by code_simp
  then have n: "StrToUInt32 ''1096'' = Some 1096" using StrToUInt32_truncates[of 1096] by simp
  show ?thesis
    unfolding C by (simp add: demo_reasons_def List.map_filter_def config_item_def member_def n strings_in_def)
qed

section \<open>What is counted\<close>

definition first_seen :: "'a list \<Rightarrow> 'a list" where
  "first_seen ks = rev (remdups (rev ks))"

lemma first_seen_snoc [simp]:
  "first_seen (ks @ [k]) = (if k \<in> set ks then first_seen ks else first_seen ks @ [k])"
  by (simp add: first_seen_def)

lemma set_first_seen [simp]: "set (first_seen ks) = set ks"
  by (simp add: first_seen_def)

lemma distinct_first_seen [simp]: "distinct (first_seen ks)"
  by (simp add: first_seen_def)

definition kill_counts :: "string list \<Rightarrow> (string \<times> u32) list" where
  "kill_counts ks = map (\<lambda>k. (k, of_nat (count_list ks k))) (take MAX_CACHE_REASON_COUNT (first_seen ks))"

lemma update_table:
  "distinct xs \<Longrightarrow> k \<in> set xs \<Longrightarrow>
     AList.update k v (map (\<lambda>x. (x, f x)) xs) = map (\<lambda>x. (x, if x = k then v else f x)) xs"
  by (induction xs) auto

lemma map_of_table: "map_of (map (\<lambda>x. (x, f x)) xs) k = (if k \<in> set xs then Some (f k) else None)"
  by (induction xs) auto

lemma count_snoc: "count_list (ks @ [k]) x = count_list ks x + of_bool (x = k)"
  by (induction ks) auto

lemma UpdateKillCount_counts:
  assumes "killCountMap st = kill_counts ks"
  shows "killCountMap (UpdateKillCount uid reason allowed st) = kill_counts (ks @ [kill_key uid reason allowed])"
proof -
  let ?k = "kill_key uid reason allowed" and ?N = MAX_CACHE_REASON_COUNT
  let ?kept = "take ?N (first_seen ks)"
  have mo: "map_of (killCountMap st) ?k = (if ?k \<in> set ?kept then Some (of_nat (count_list ks ?k)) else None)"
    by (simp only: assms kill_counts_def map_of_table)
  show ?thesis
  proof (cases "?k \<in> set ?kept")
    case True
    then have seen: "?k \<in> set ks" using set_take_subset[of ?N "first_seen ks"] by auto
    have "distinct ?kept" by (rule distinct_take) simp
    with True seen mo show ?thesis
      by (simp add: UpdateKillCount_def Let_def assms kill_counts_def update_table count_snoc)
  next
    case False
    show ?thesis
    proof (cases "?N \<le> length (killCountMap st)")
      case full: True
      then have "?N \<le> length (first_seen ks)" by (simp add: assms kill_counts_def)
      then have "take ?N (first_seen (ks @ [?k])) = ?kept" by simp
      with False full mo show ?thesis
        by (auto simp: UpdateKillCount_def Let_def assms kill_counts_def count_snoc)
    next
      case room: False
      then have all: "length (first_seen ks) < ?N" by (simp add: assms kill_counts_def)
      with False have new: "?k \<notin> set ks" by simp
      from new have "count_list ks ?k = 0" by (simp add: count_list_0_iff)
      with False room mo all new show ?thesis
        by (auto simp: UpdateKillCount_def Let_def assms kill_counts_def count_snoc)
    qed
  qed
qed

text \<open>Questions between two reports: what the callers are told, and the keys that are counted.\<close>

fun ask_all :: "rc_env \<Rightarrow> nat \<Rightarrow> (connect_world \<times> (string \<times> i32) option \<times> u32 \<times> string) list \<Rightarrow> kl_state \<Rightarrow>
    bool list \<times> string list \<times> kl_state" where
  "ask_all E self [] st = ([], [], st)"
| "ask_all E self ((w, answer, uid, reason) # qs) st =
     (let key = kill_key uid reason (IsConfigKillReason uid reason (kill_Init E w self answer st));
          (told, st1) = IsAllowedKill E w self answer uid reason st;
          (tolds, keys, st2) = ask_all E self qs st1
      in (told # tolds, key # keys, st2))"

lemma kill_Init_counts [simp]: "killCountMap (kill_Init E w self answer st) = killCountMap st"
  by (simp add: kill_Init_def InitKillConfig_def RegisterKillConfigUpdate_def ParseKillConfig_def Let_def
      split: prod.split option.split json.split)

lemma ask_all_counts:
  "killCountMap st = kill_counts ks \<Longrightarrow> ask_all E self qs st = (tolds, keys, st') \<Longrightarrow>
   tolds = replicate (length qs) True \<and> killCountMap st' = kill_counts (ks @ keys)"
proof (induction qs arbitrary: st ks tolds keys)
  case (Cons q qs)
  obtain w answer uid reason where q: "q = (w, answer, uid, reason)" by (cases q) auto
  let ?i = "kill_Init E w self answer st"
  let ?st1 = "snd (IsAllowedKill E w self answer uid reason st)"
  obtain tolds1 keys1 where r: "ask_all E self qs ?st1 = (tolds1, keys1, st')"
    using Cons.prems(2) by (auto simp: q Let_def split: prod.splits)
  have k: "tolds = True # tolds1" "keys = kill_key uid reason (IsConfigKillReason uid reason ?i) # keys1"
    using Cons.prems(2) r by (auto simp: q Let_def IsAllowedKill_def split: prod.splits)
  have "killCountMap ?st1 = kill_counts (ks @ [kill_key uid reason (IsConfigKillReason uid reason ?i)])"
    using UpdateKillCount_counts[of ?i ks uid reason] Cons.prems(1)
    by (simp add: IsAllowedKill_def ReportKillEvent_def Let_def)
  from Cons.IH[OF this r] k show ?case by simp
qed simp

text \<open>
  Between two reports every question of the first thousand kinds (caller, reason, whether it is
  configured) is counted exactly, in the order the kinds were first asked, and other kinds are not
  counted at all; whatever is configured, every caller is told that it may kill.
\<close>

theorem kills_are_counted_not_refused:
  assumes "ask_all E self qs (ReportKillEventPeriod E period st) = (tolds, keys, st')"
  shows "tolds = replicate (length qs) True \<and>
    killCountMap st' = map (\<lambda>k. (k, of_nat (count_list keys k))) (take 1000 (first_seen keys))"
  using ask_all_counts[OF _ assms, of "[]"]
  by (simp add: ReportKillEventPeriod_def Let_def kill_counts_def first_seen_def MAX_CACHE_REASON_COUNT_def)

definition demo_kx :: rc_env where
  "demo_kx = \<lparr>rx_dump = (\<lambda>j. ''[]''), rx_parse = (\<lambda>s. None), rx_indet = 0, rx_indet_bool = False,
     rx_subscribed = True, rx_sa_id = 1901\<rparr>"

definition demo_questions :: "(connect_world \<times> (string \<times> i32) option \<times> u32 \<times> string) list" where
  "demo_questions = [(NoService, None, 1, ''x''), (NoService, None, 2, ''y''), (NoService, None, 1, ''x'')]"

text \<open>Without the service nothing is configured.\<close>

definition unconfigured :: "kl_state \<Rightarrow> bool" where
  "unconfigured st \<longleftrightarrow> killReasonMap st = [] \<and> \<not> rss (kl_client st)"

lemma TryConnect_no_service: "\<not> rss st \<Longrightarrow> fst (rc_TryConnect E NoService st) = False \<and> \<not> rss (snd (rc_TryConnect E NoService st))"
  by (simp add: rc_TryConnect_def ReportConnectError_def rc_emit_def)

lemma RegisterEventListener_rss: "rss (rc_RegisterEventListener E w l t g st) = rss st"
  by (simp add: rc_RegisterEventListener_def AddResSaListenerLocked_def RegisterAtService_def rc_emit_def Let_def)

lemma unconfigured_Init:
  assumes "unconfigured st"
  shows "unconfigured (kill_Init E NoService self answer st)"
proof -
  let ?st1 = "RegisterKillConfigUpdate E NoService self st"
  have u: "unconfigured ?st1"
    using assms by (simp add: unconfigured_def RegisterKillConfigUpdate_def RegisterEventListener_rss)
  obtain ok cl where t: "rc_TryConnect E NoService (kl_client ?st1) = (ok, cl)"
    by (cases "rc_TryConnect E NoService (kl_client ?st1)")
  have "\<not> ok" "\<not> rss cl" using TryConnect_no_service[of "kl_client ?st1" E] u t by (simp_all add: unconfigured_def)
  with u t show ?thesis
    by (simp add: kill_Init_def InitKillConfig_def json_ReportSyncEvent_def rc_CONNECT_FAIL_def unconfigured_def Let_def)
qed

lemma unconfigured_IsAllowedKill:
  assumes "unconfigured st"
  shows "unconfigured (snd (IsAllowedKill E NoService self answer uid reason st))"
  using unconfigured_Init[OF assms, of E self answer]
  by (simp add: IsAllowedKill_def Let_def unconfigured_def ReportKillEvent_def UpdateKillCount_def split: option.split)

lemma unconfigured_keys:
  "unconfigured st \<Longrightarrow> (\<And>q. q \<in> set qs \<Longrightarrow> fst q = NoService) \<Longrightarrow> ask_all E self qs st = (tolds, keys, st') \<Longrightarrow>
   keys = map (\<lambda>q. kill_key (fst (snd (snd q))) (snd (snd (snd q))) False) qs"
proof (induction qs arbitrary: st tolds keys)
  case (Cons q qs)
  obtain answer uid reason where q: "q = (NoService, answer, uid, reason)"
    using Cons.prems(2)[of q] by (cases q) auto
  obtain tolds1 keys1 where r:
    "ask_all E self qs (snd (IsAllowedKill E NoService self answer uid reason st)) = (tolds1, keys1, st')"
    using Cons.prems(3) by (auto simp: q Let_def split: prod.splits)
  have "\<not> IsConfigKillReason uid reason (kill_Init E NoService self answer st)"
    using unconfigured_Init[OF Cons.prems(1), of E self answer] by (simp add: unconfigured_def IsConfigKillReason_def)
  then have "keys = kill_key uid reason False # keys1"
    using Cons.prems(3) r by (auto simp: q Let_def split: prod.splits)
  with Cons.IH[OF unconfigured_IsAllowedKill[OF Cons.prems(1)] _ r] Cons.prems(2) q show ?case by simp
qed simp

theorem kills_are_counted_not_refused_witness:
  "killCountMap (snd (snd (ask_all demo_kx 0 demo_questions (ReportKillEventPeriod demo_kx 0 (kl_new rc_new))))) =
     [(''uid:1,reason:x,allow0'', 2), (''uid:2,reason:y,allow0'', 1)]"
proof -
  obtain tolds keys st' where r:
    "ask_all demo_kx 0 demo_questions (ReportKillEventPeriod demo_kx 0 (kl_new rc_new)) = (tolds, keys, st')"
    by (cases "ask_all demo_kx 0 demo_questions (ReportKillEventPeriod demo_kx 0 (kl_new rc_new))")
  have "unconfigured (ReportKillEventPeriod demo_kx 0 (kl_new rc_new))"
    by (simp add: unconfigured_def ReportKillEventPeriod_def kl_new_def rc_new_def Let_def)
  then have "keys = map (\<lambda>q. kill_key (fst (snd (snd q))) (snd (snd (snd q))) False) demo_questions"
    by (rule unconfigured_keys) (use r in \<open>auto simp: demo_questions_def\<close>)
  moreover have "kill_key 1 ''x'' False = ''uid:1,reason:x,allow0''" "kill_key 2 ''y'' False = ''uid:2,reason:y,allow0''"
    by code_simp+
  ultimately have keys: "keys = [''uid:1,reason:x,allow0'', ''uid:2,reason:y,allow0'', ''uid:1,reason:x,allow0'']"
    by (simp add: demo_questions_def)
  show ?thesis
    using kills_are_counted_not_refused[OF r] by (simp add: r keys first_seen_def)
qed

end
