(* ===== verification/Latency_Model.thy ===== *)
theory Latency_Model
  imports Prelude
begin

text \<open>
  The network latency controller of the frame aware plugin (frame\_aware\_plugin/src/
  network\_latency\_controller.cpp) and its two switchers (latency\_control/*.h).  The controller
  keeps the set of requests, one delayed task per request, and a switcher that is on while there
  are requests.  Tasks are named by handles; a task that the queue has started can no longer be
  cancelled.  What opening and writing the device answers is a function of the number of attempts.
\<close>

section \<open>The switchers\<close>

record switcher =
  is_pmqos :: bool
  pmqosFd :: "nat option"
  device_fds :: "nat list"
  sw_attempts :: nat

definition PmqosNetworkLatencySwitcher :: switcher where
  "PmqosNetworkLatencySwitcher = \<lparr>is_pmqos = True, pmqosFd = None, device_fds = [], sw_attempts = 0\<rparr>"

definition NoopNetworkLatencySwitcher :: switcher where
  "NoopNetworkLatencySwitcher = \<lparr>is_pmqos = False, pmqosFd = None, device_fds = [], sw_attempts = 0\<rparr>"

text \<open>The answers of \<open>open\<close> and \<open>write\<close>; the local descriptor is closed when the write fails.\<close>

definition LowLatencyOn :: "(nat \<Rightarrow> bool \<times> bool) \<Rightarrow> switcher \<Rightarrow> switcher" where
  "LowLatencyOn dev sw =
     (if \<not> is_pmqos sw \<or> pmqosFd sw \<noteq> None then sw
      else (let n = sw_attempts sw; sw1 = sw\<lparr>sw_attempts := n + 1\<rparr> in
            case dev n of
              (True, True) \<Rightarrow> sw1\<lparr>device_fds := n # device_fds sw, pmqosFd := Some n\<rparr>
            | _ \<Rightarrow> sw1))"

definition LowLatencyOff :: "switcher \<Rightarrow> switcher" where
  "LowLatencyOff sw =
     (case pmqosFd sw of
        None \<Rightarrow> sw
      | Some fd \<Rightarrow> if is_pmqos sw then sw\<lparr>pmqosFd := None, device_fds := removeAll fd (device_fds sw)\<rparr> else sw)"

text \<open>Latency is low while a descriptor of the device is open.\<close>

definition low_latency :: "switcher \<Rightarrow> bool" where
  "low_latency sw \<longleftrightarrow> device_fds sw \<noteq> []"

section \<open>The controller\<close>

definition NETWORK_LATENCY_REQUEST_LOW :: i64 where "NETWORK_LATENCY_REQUEST_LOW = 0"
definition NETWORK_LATENCY_REQUEST_NORMAL :: i64 where "NETWORK_LATENCY_REQUEST_NORMAL = 1"
definition switchToFfrt :: i64 where "switchToFfrt = 1000"
definition net_TIMEOUT :: i64 where "net_TIMEOUT = 60 * 1000 * switchToFfrt"

record 's nl_state =
  has_queue :: bool
  nl_switcher :: "'s option"
  requests :: "string list"
  taskHandlerMap :: "(string \<times> nat) list"
  nl_pending :: "(nat \<times> string \<times> i64) list"
  nl_started :: "(nat \<times> string) list"
  nl_next :: nat

definition nl_new :: "'s nl_state" where
  "nl_new = \<lparr>has_queue = False, nl_switcher = None, requests = [], taskHandlerMap = [], nl_pending = [],
     nl_started = [], nl_next = 0\<rparr>"

text \<open>A new queue takes the place of the old one, whose delayed tasks are dropped; so does the switcher.\<close>

definition nl_Init_with :: "'s \<Rightarrow> 's nl_state \<Rightarrow> 's nl_state" where
  "nl_Init_with sw st = st\<lparr>has_queue := True, nl_pending := [], nl_switcher := Some sw\<rparr>"

definition nl_Init :: "bool \<Rightarrow> switcher nl_state \<Rightarrow> switcher nl_state" where
  "nl_Init accessible st =
     nl_Init_with (if accessible then PmqosNetworkLatencySwitcher else NoopNetworkLatencySwitcher) st"

definition cancel_task :: "string \<Rightarrow> 's nl_state \<Rightarrow> 's nl_state" where
  "cancel_task identity st =
     (case map_of (taskHandlerMap st) identity of
        None \<Rightarrow> st
      | Some h \<Rightarrow> st\<lparr>nl_pending := filter (\<lambda>t. fst t \<noteq> h) (nl_pending st),
          taskHandlerMap := AList.delete identity (taskHandlerMap st)\<rparr>)"

definition set_timer :: "string \<Rightarrow> 's nl_state \<Rightarrow> 's nl_state" where
  "set_timer identity st =
     st\<lparr>nl_pending := nl_pending st @ [(nl_next st, identity, net_TIMEOUT)],
       taskHandlerMap := AList.update identity (nl_next st) (taskHandlerMap st), nl_next := nl_next st + 1\<rparr>"

definition AddRequest :: "('s \<Rightarrow> 's) \<Rightarrow> string \<Rightarrow> 's nl_state \<Rightarrow> 's nl_state" where
  "AddRequest on identity st =
     (let wasEmpty = (requests st = []); st1 = st\<lparr>requests := List.insert identity (requests st)\<rparr> in
      if wasEmpty then st1\<lparr>nl_switcher := map_option on (nl_switcher st)\<rparr> else st1)"

definition DelRequest :: "('s \<Rightarrow> 's) \<Rightarrow> string \<Rightarrow> 's nl_state \<Rightarrow> 's nl_state" where
  "DelRequest off identity st =
     (let wasEmpty = (requests st = []); st1 = st\<lparr>requests := removeAll identity (requests st)\<rparr> in
      if \<not> wasEmpty \<and> requests st1 = [] then st1\<lparr>nl_switcher := map_option off (nl_switcher st)\<rparr> else st1)"

definition HandleAddRequest :: "('s \<Rightarrow> 's) \<Rightarrow> string \<Rightarrow> 's nl_state \<Rightarrow> 's nl_state" where
  "HandleAddRequest on identity st = set_timer identity (AddRequest on identity (cancel_task identity st))"

definition HandleDelRequest :: "('s \<Rightarrow> 's) \<Rightarrow> string \<Rightarrow> 's nl_state \<Rightarrow> 's nl_state" where
  "HandleDelRequest off identity st = DelRequest off identity (cancel_task identity st)"

definition nl_HandleRequest :: "('s \<Rightarrow> 's) \<Rightarrow> ('s \<Rightarrow> 's) \<Rightarrow> i64 \<Rightarrow> string \<Rightarrow> 's nl_state \<Rightarrow> 's nl_state" where
  "nl_HandleRequest on off v identity st =
     (if nl_switcher st = None \<or> \<not> has_queue st then st
      else if v = NETWORK_LATENCY_REQUEST_LOW then HandleAddRequest on identity st
      else if v = NETWORK_LATENCY_REQUEST_NORMAL then HandleDelRequest off identity st
      else st)"

definition AutoDisableTask :: "('s \<Rightarrow> 's) \<Rightarrow> string \<Rightarrow> 's nl_state \<Rightarrow> 's nl_state" where
  "AutoDisableTask off identity st = DelRequest off identity st"

text \<open>The queue starts a task, and the task runs to its end.\<close>

definition task_starts :: "nat \<Rightarrow> string \<Rightarrow> 's nl_state \<Rightarrow> 's nl_state" where
  "task_starts h identity st =
     st\<lparr>nl_pending := filter (\<lambda>(h', i, d). (h', i) \<noteq> (h, identity)) (nl_pending st),
       nl_started := (h, identity) # nl_started st\<rparr>"

definition task_runs :: "('s \<Rightarrow> 's) \<Rightarrow> nat \<Rightarrow> string \<Rightarrow> 's nl_state \<Rightarrow> 's nl_state" where
  "task_runs off h identity st =
     AutoDisableTask off identity (st\<lparr>nl_started := removeAll (h, identity) (nl_started st)\<rparr>)"

section \<open>Interleaving\<close>

text \<open>The parts of a request between which the task queue can come in: each holds one lock.\<close>

datatype nl_part = CancelTask string | AddPart string | TimerPart string | DelPart string

fun parts_of :: "i64 \<Rightarrow> string \<Rightarrow> nl_part list" where
  "parts_of v identity =
     (if v = NETWORK_LATENCY_REQUEST_LOW then [CancelTask identity, AddPart identity, TimerPart identity]
      else if v = NETWORK_LATENCY_REQUEST_NORMAL then [CancelTask identity, DelPart identity] else [])"

fun run_part :: "('s \<Rightarrow> 's) \<Rightarrow> ('s \<Rightarrow> 's) \<Rightarrow> nl_part \<Rightarrow> 's nl_state \<Rightarrow> 's nl_state" where
  "run_part on off (CancelTask identity) st = cancel_task identity st"
| "run_part on off (AddPart identity) st = AddRequest on identity st"
| "run_part on off (TimerPart identity) st = set_timer identity st"
| "run_part on off (DelPart identity) st = DelRequest off identity st"

text \<open>One handler thread with the parts it has still to do, and the task queue.\<close>

inductive nl_step :: "('s \<Rightarrow> 's) \<Rightarrow> ('s \<Rightarrow> 's) \<Rightarrow> nl_part list \<times> 's nl_state \<Rightarrow> nl_part list \<times> 's nl_state \<Rightarrow> bool"
  for on off where
  request: "nl_switcher st \<noteq> None \<Longrightarrow> has_queue st \<Longrightarrow> nl_step on off ([], st) (parts_of v identity, st)"
| part: "nl_step on off (p # todo, st) (todo, run_part on off p st)"
| starts: "(h, identity, delay) \<in> set (nl_pending st) \<Longrightarrow> nl_step on off (todo, st) (todo, task_starts h identity st)"
| runs: "(h, identity) \<in> set (nl_started st) \<Longrightarrow> nl_step on off (todo, st) (todo, task_runs off h identity st)"

inductive nl_reachable :: "('s \<Rightarrow> 's) \<Rightarrow> ('s \<Rightarrow> 's) \<Rightarrow> 's \<Rightarrow> nl_part list \<times> 's nl_state \<Rightarrow> bool"
  for on off sw where
  start: "nl_reachable on off sw ([], nl_Init_with sw nl_new)"
| step: "nl_reachable on off sw s \<Longrightarrow> nl_step on off s s' \<Longrightarrow> nl_reachable on off sw s'"

inductive_cases nl_stepE: "nl_step on off s s'"

end
