(* ===== verification/Latency_Props.thy ===== *)
theory Latency_Props
  imports Latency_Model
begin

text \<open>
  The latency controller with any switcher that keeps a small contract: what the switcher is set to,
  and that every request has a task that ends it, whatever the interleaving of requests and tasks.
\<close>

section \<open>The contract of a switcher, and the controller on top of it\<close>

locale latency_device =
  fixes on :: "'s \<Rightarrow> 's" and off :: "'s \<Rightarrow> 's" and low :: "'s \<Rightarrow> bool" and ok :: "'s \<Rightarrow> bool" and works :: "'s \<Rightarrow> bool"
  assumes ok_on: "ok s \<Longrightarrow> ok (on s)"
    and ok_off: "ok s \<Longrightarrow> ok (off s)"
    and off_normal: "ok s \<Longrightarrow> \<not> low (off s)"
    and on_low: "ok s \<Longrightarrow> works s \<Longrightarrow> low (on s)"
    and works_on: "works s \<Longrightarrow> works (on s)"
    and works_off: "works s \<Longrightarrow> works (off s)"
begin

definition follows_requests :: "'s nl_state \<Rightarrow> bool" where
  "follows_requests st = (\<exists>sw. nl_switcher st = Some sw \<and> ok sw \<and> works sw \<and> (low sw \<longleftrightarrow> requests st \<noteq> []))"

lemma follows_other:
  "follows_requests st \<Longrightarrow> nl_switcher st' = nl_switcher st \<Longrightarrow> requests st' = requests st \<Longrightarrow> follows_requests st'"
  by (simp add: follows_requests_def)

lemma follows_add: "follows_requests st \<Longrightarrow> follows_requests (AddRequest on identity st)"
  by (auto simp: follows_requests_def AddRequest_def Let_def ok_on on_low works_on List.insert_def)

lemma follows_del: "follows_requests st \<Longrightarrow> follows_requests (DelRequest off identity st)"
  by (auto simp: follows_requests_def DelRequest_def Let_def ok_off off_normal works_off)

lemma follows_part: "follows_requests st \<Longrightarrow> follows_requests (run_part on off p st)"
  by (cases p) (auto simp: follows_add follows_del cancel_task_def set_timer_def intro: follows_other split: option.split)

lemma follows_step: "nl_step on off s s' \<Longrightarrow> follows_requests (snd s) \<Longrightarrow> follows_requests (snd s')"
  by (induction rule: nl_step.induct)
     (auto simp: follows_part task_starts_def task_runs_def AutoDisableTask_def intro: follows_other intro!: follows_del)

lemma follows_reachable:
  "nl_reachable on off sw s \<Longrightarrow> ok sw \<Longrightarrow> works sw \<Longrightarrow> \<not> low sw \<Longrightarrow> follows_requests (snd s)"
  by (induction rule: nl_reachable.induct)
     (auto simp: follows_step, simp add: follows_requests_def nl_Init_with_def nl_new_def)

end

text \<open>Both switchers: the only open descriptor is the one that is held.\<close>

definition sw_ok :: "switcher \<Rightarrow> bool" where
  "sw_ok sw \<longleftrightarrow> set (device_fds sw) = set_option (pmqosFd sw) \<and> (pmqosFd sw \<noteq> None \<longrightarrow> is_pmqos sw)"

definition sw_works :: "(nat \<Rightarrow> bool \<times> bool) \<Rightarrow> switcher \<Rightarrow> bool" where
  "sw_works dev sw \<longleftrightarrow> is_pmqos sw \<and> (\<forall>n\<ge>sw_attempts sw. dev n = (True, True))"

lemma set_None_iff: "set_option x = {} \<longleftrightarrow> x = None"
  by (cases x) auto

interpretation pmqos: latency_device "LowLatencyOn dev" LowLatencyOff low_latency sw_ok "sw_works dev" for dev
proof unfold_locales
  fix s assume ok: "sw_ok s"
  then show "sw_ok (LowLatencyOn dev s)"
    by (auto simp: sw_ok_def LowLatencyOn_def Let_def split: prod.split bool.split)
  from ok show "sw_ok (LowLatencyOff s)" by (auto simp: sw_ok_def LowLatencyOff_def split: option.split)
  from ok show "\<not> low_latency (LowLatencyOff s)"
    by (auto simp: sw_ok_def LowLatencyOff_def low_latency_def filter_empty_conv removeAll_filter_not_eq split: option.split)
  assume "sw_works dev s"
  with ok show "low_latency (LowLatencyOn dev s)"
    by (auto simp: sw_ok_def sw_works_def LowLatencyOn_def low_latency_def Let_def)
next
  fix s assume "sw_works dev s"
  then show "sw_works dev (LowLatencyOn dev s)" "sw_works dev (LowLatencyOff s)"
    by (auto simp: sw_works_def LowLatencyOn_def LowLatencyOff_def Let_def split: option.split prod.split bool.split)
qed

section \<open>Every request has a task\<close>

fun part_of :: "nl_part \<Rightarrow> string" where
  "part_of (CancelTask identity) = identity"
| "part_of (AddPart identity) = identity"
| "part_of (TimerPart identity) = identity"
| "part_of (DelPart identity) = identity"

text \<open>
  What the handler has still to do for an identity ends with its task or without its request, and a
  request without a task, started or not, is one the handler is at.
\<close>

definition has_task :: "string \<Rightarrow> 's nl_state \<Rightarrow> bool" where
  "has_task identity st \<longleftrightarrow>
     identity \<in> (\<lambda>t. fst (snd t)) ` set (nl_pending st) \<or> identity \<in> snd ` set (nl_started st)"

definition will_settle :: "string \<Rightarrow> nl_part list \<Rightarrow> bool" where
  "will_settle identity todo \<longleftrightarrow> TimerPart identity \<in> set todo \<or> DelPart identity \<in> set todo"

fun settles :: "nl_part list \<Rightarrow> bool" where
  "settles (CancelTask identity # todo) = (will_settle identity todo \<and> settles todo)"
| "settles (AddPart identity # todo) = (will_settle identity todo \<and> settles todo)"
| "settles (TimerPart identity # todo) = settles todo"
| "settles (DelPart identity # todo) = settles todo"
| "settles [] = True"

definition covered :: "nl_part list \<times> 's nl_state \<Rightarrow> bool" where
  "covered s \<longleftrightarrow> settles (fst s) \<and>
     (\<forall>identity \<in> set (requests (snd s)). has_task identity (snd s) \<or> will_settle identity (fst s))"

definition handles_ok :: "'s nl_state \<Rightarrow> bool" where
  "handles_ok st \<longleftrightarrow>
     (\<forall>t \<in> set (nl_pending st). fst t < nl_next st) \<and> (\<forall>m \<in> set (taskHandlerMap st). snd m < nl_next st) \<and>
     (\<forall>m \<in> set (taskHandlerMap st). \<forall>t \<in> set (nl_pending st). fst t = snd m \<longrightarrow> fst (snd t) = fst m)"

lemma handles_ok_fewer:
  assumes "handles_ok st" "set (nl_pending st') \<subseteq> set (nl_pending st)" "set (taskHandlerMap st') \<subseteq> set (taskHandlerMap st)"
    "nl_next st' = nl_next st"
  shows "handles_ok st'"
proof -
  have "fst (snd t) = fst m" if "m \<in> set (taskHandlerMap st')" "t \<in> set (nl_pending st')" "fst t = snd m" for m t
    using assms(1) that subsetD[OF assms(2)] subsetD[OF assms(3)] unfolding handles_ok_def by blast
  with assms show ?thesis unfolding handles_ok_def by (simp add: subset_iff del: split_paired_All)
qed

lemma handles_ok_cancel: "handles_ok st \<Longrightarrow> handles_ok (cancel_task identity st)"
  by (erule handles_ok_fewer[of st]) (auto simp: cancel_task_def AList.delete_eq split: option.split)

lemma cancel_keeps_others:
  assumes "handles_ok st" "identity \<noteq> i" "has_task i st"
  shows "has_task i (cancel_task identity st)"
proof (cases "map_of (taskHandlerMap st) identity")
  case (Some h)
  then have "(identity, h) \<in> set (taskHandlerMap st)" by (rule map_of_SomeD)
  then have "fst (snd t) = identity" if "t \<in> set (nl_pending st)" "fst t = h" for t
    using assms(1) that unfolding handles_ok_def by (metis fst_conv snd_conv)
  with assms(2,3) Some show ?thesis by (auto simp: has_task_def cancel_task_def image_iff) (metis fst_conv snd_conv)
qed (use assms(3) in \<open>simp add: cancel_task_def\<close>)

lemma handles_ok_timer:
  assumes "handles_ok st"
  shows "handles_ok (set_timer identity st)"
proof -
  have "set (AList.update identity (nl_next st) (taskHandlerMap st)) \<subseteq> insert (identity, nl_next st) (set (taskHandlerMap st))"
    by (rule set_update)
  with assms show ?thesis
    by (auto simp: handles_ok_def set_timer_def dest!: subsetD; force)
qed

lemma has_task_fields [simp]:
  "has_task i (st\<lparr>requests := r\<rparr>) = has_task i st" "has_task i (st\<lparr>nl_switcher := w\<rparr>) = has_task i st"
  "handles_ok (st\<lparr>requests := r\<rparr>) = handles_ok st" "handles_ok (st\<lparr>nl_switcher := w\<rparr>) = handles_ok st"
  by (simp_all add: has_task_def handles_ok_def)

lemma AddRequest_tasks [simp]:
  "has_task i (AddRequest on identity st) = has_task i st" "handles_ok (AddRequest on identity st) = handles_ok st"
  "set (requests (AddRequest on identity st)) = insert identity (set (requests st))"
  by (simp_all add: AddRequest_def Let_def)

lemma DelRequest_tasks [simp]:
  "has_task i (DelRequest off identity st) = has_task i st" "handles_ok (DelRequest off identity st) = handles_ok st"
  "set (requests (DelRequest off identity st)) = set (requests st) - {identity}"
  by (auto simp: DelRequest_def Let_def removeAll_filter_not_eq filter_empty_conv)

lemma set_timer_tasks [simp]:
  "has_task i (set_timer identity st) \<longleftrightarrow> i = identity \<or> has_task i st" "requests (set_timer identity st) = requests st"
  by (auto simp: has_task_def set_timer_def)

lemma cancel_requests [simp]: "requests (cancel_task identity st) = requests st"
  by (simp add: cancel_task_def split: option.split)

lemma covered_part:
  assumes "covered (p # todo, st)" "handles_ok st"
  shows "covered (todo, run_part on off p st) \<and> handles_ok (run_part on off p st)"
  using assms
proof (cases p)
  case (CancelTask x)
  then have "has_task i (cancel_task x st) \<or> will_settle i todo" if "i \<in> set (requests st)" for i
    using assms that cancel_keeps_others[OF assms(2), of x i] by (cases "i = x") (auto simp: covered_def will_settle_def)
  with CancelTask assms show ?thesis by (simp add: covered_def handles_ok_cancel)
qed (use assms in \<open>auto simp: covered_def will_settle_def handles_ok_timer\<close>)

lemma parts_settle: "settles (parts_of v identity)"
  by (simp add: will_settle_def)

lemma covered_step: "nl_step on off s s' \<Longrightarrow> covered s \<and> handles_ok (snd s) \<Longrightarrow> covered s' \<and> handles_ok (snd s')"
proof (induction rule: nl_step.induct)
  case (request st v identity)
  then show ?case using parts_settle[of v identity] by (auto simp: covered_def will_settle_def simp del: parts_of.simps)
next
  case (part p todo st)
  then show ?case using covered_part[of p todo st on off] by simp
next
  case (starts h identity delay st todo)
  then have "handles_ok (task_starts h identity st)"
    by (auto intro: handles_ok_fewer[of st] simp: task_starts_def)
  moreover have "has_task i (task_starts h identity st)" if "has_task i st" for i
    using that by (force simp: has_task_def task_starts_def image_iff)
  ultimately show ?case using starts by (auto simp: covered_def task_starts_def)
next
  case (runs h identity st todo)
  then have "handles_ok (task_runs off h identity st)"
    by (simp add: task_runs_def AutoDisableTask_def) (simp add: handles_ok_def)
  moreover have "has_task i (task_runs off h identity st)" if "has_task i st" "i \<noteq> identity" for i
    using that by (auto simp: has_task_def task_runs_def AutoDisableTask_def DelRequest_def Let_def image_iff)
  ultimately show ?case using runs by (auto simp: covered_def task_runs_def AutoDisableTask_def)
qed

lemma covered_reachable: "nl_reachable on off sw s \<Longrightarrow> covered s \<and> handles_ok (snd s)"
proof (induction rule: nl_reachable.induct)
  case (step s s')
  then show ?case using covered_step by blast
qed (simp add: covered_def handles_ok_def nl_Init_with_def nl_new_def)

text \<open>
  C18. However requests and the delayed tasks interleave, with a device that can be opened latency is
  low exactly while there are requests, and every request has a task that will end it or is one the
  handler is at: no request stays for ever.
\<close>

theorem latency_low_while_requested:
  assumes "nl_reachable (LowLatencyOn dev) LowLatencyOff PmqosNetworkLatencySwitcher (todo, st)"
    "\<And>n. dev n = (True, True)"
  shows "(\<exists>sw. nl_switcher st = Some sw \<and> (low_latency sw \<longleftrightarrow> requests st \<noteq> [])) \<and>
    (\<forall>identity \<in> set (requests st). has_task identity st \<or> will_settle identity todo)"
proof -
  have "sw_ok PmqosNetworkLatencySwitcher" "sw_works dev PmqosNetworkLatencySwitcher" "\<not> low_latency PmqosNetworkLatencySwitcher"
    using assms(2) by (simp_all add: sw_ok_def sw_works_def low_latency_def PmqosNetworkLatencySwitcher_def)
  from pmqos.follows_reachable[OF assms(1) this] have "pmqos.follows_requests dev st" by simp
  moreover from covered_reachable[OF assms(1)] have "covered (todo, st)" by simp
  ultimately show ?thesis by (auto simp: pmqos.follows_requests_def covered_def)
qed

text \<open>One application asks for low latency.\<close>

definition dev_fine :: "nat \<Rightarrow> bool \<times> bool" where "dev_fine n = (True, True)"

definition demo_low :: "switcher nl_state" where
  "demo_low = HandleAddRequest (LowLatencyOn dev_fine) ''5:a'' (nl_Init_with PmqosNetworkLatencySwitcher nl_new)"

text \<open>A request without interruption is its parts in order.\<close>

lemma HandleRequest_parts:
  assumes "nl_switcher st \<noteq> None" "has_queue st"
  shows "nl_HandleRequest on off v identity st = fold (run_part on off) (parts_of v identity) st"
  using assms by (auto simp: nl_HandleRequest_def HandleAddRequest_def HandleDelRequest_def)

lemma run_parts_reachable:
  "nl_reachable on off sw (todo, st) \<Longrightarrow> nl_reachable on off sw ([], fold (run_part on off) todo st)"
proof (induction todo arbitrary: st)
  case (Cons p todo)
  from Cons.IH[OF nl_reachable.step[OF Cons.prems nl_step.part]] show ?case by simp
qed simp

lemma HandleRequest_reachable:
  assumes "nl_reachable on off sw ([], st)"
  shows "nl_reachable on off sw ([], nl_HandleRequest on off v identity st)"
proof (cases "nl_switcher st \<noteq> None \<and> has_queue st")
  case True
  then have "nl_step on off ([], st) (parts_of v identity, st)" by (simp add: nl_step.request del: parts_of.simps)
  from run_parts_reachable[OF nl_reachable.step[OF assms this]] True show ?thesis
    by (simp add: HandleRequest_parts del: parts_of.simps)
qed (use assms in \<open>auto simp: nl_HandleRequest_def\<close>)

lemma demo_low_facts:
  "demo_low = nl_HandleRequest (LowLatencyOn dev_fine) LowLatencyOff 0 ''5:a'' (nl_Init_with PmqosNetworkLatencySwitcher nl_new)"
  "requests demo_low = [''5:a'']"
  by (simp_all add: demo_low_def nl_HandleRequest_def nl_Init_with_def nl_new_def NETWORK_LATENCY_REQUEST_LOW_def
      HandleAddRequest_def set_timer_def AddRequest_def cancel_task_def Let_def)

theorem latency_low_while_requested_witness: "\<exists>sw. nl_switcher demo_low = Some sw \<and> low_latency sw"
proof -
  have "nl_reachable (LowLatencyOn dev_fine) LowLatencyOff PmqosNetworkLatencySwitcher ([], demo_low)"
    unfolding demo_low_facts(1) by (rule HandleRequest_reachable[OF nl_reachable.start])
  moreover have "dev_fine n = (True, True)" for n by (simp add: dev_fine_def)
  ultimately show ?thesis using latency_low_while_requested[of dev_fine "[]" demo_low] demo_low_facts(2) by auto
qed

section \<open>A task that is late\<close>

text \<open>
  A renewed request can be lost: when the task of the old request has started but not yet run
  while the request is renewed, it deletes the renewed request, although the renewed request's
  own task is still to come; latency is back to normal for an application that has just asked.
\<close>

theorem renewal_can_be_lost:
  "\<exists>st. nl_reachable (LowLatencyOn dev) LowLatencyOff sw ([], st) \<and> requests st = [] \<and>
     map_of (taskHandlerMap st) identity = Some 1 \<and> nl_pending st = [(1, identity, net_TIMEOUT)]"
proof -
  let ?on = "LowLatencyOn dev" and ?off = LowLatencyOff
  let ?R = "nl_reachable ?on ?off sw"
  let ?s0 = "nl_Init_with sw nl_new"
  let ?s1 = "nl_HandleRequest ?on ?off 0 identity ?s0"
  let ?s2 = "task_starts 0 identity ?s1"
  let ?s3 = "nl_HandleRequest ?on ?off 0 identity ?s2"
  let ?s4 = "task_runs ?off 0 identity ?s3"
  note simps = nl_HandleRequest_def nl_Init_with_def nl_new_def NETWORK_LATENCY_REQUEST_LOW_def HandleAddRequest_def
    set_timer_def AddRequest_def cancel_task_def Let_def task_starts_def task_runs_def AutoDisableTask_def DelRequest_def
  have "?R ([], ?s1)" by (rule HandleRequest_reachable[OF nl_reachable.start])
  moreover have "(0, identity, net_TIMEOUT) \<in> set (nl_pending ?s1)" by (simp add: simps)
  ultimately have "?R ([], ?s2)" by (rule nl_reachable.step[OF _ nl_step.starts])
  then have "?R ([], ?s3)" by (rule HandleRequest_reachable)
  moreover have "(0, identity) \<in> set (nl_started ?s3)" by (simp add: simps)
  ultimately have "?R ([], ?s4)" by (rule nl_reachable.step[OF _ nl_step.runs])
  moreover have "requests ?s4 = []" "map_of (taskHandlerMap ?s4) identity = Some 1"
    "nl_pending ?s4 = [(1, identity, net_TIMEOUT)]" by (simp_all add: simps)
  ultimately show ?thesis by blast
qed

end
