(* ===== verification/Frame_Aware.thy ===== *)
theory Frame_Aware
  imports Plugin_Cgroup Latency_Props
begin

text \<open>
  The frame aware plugin (frame\_aware\_plugin/src/frame\_aware\_plugin.cpp): it hands reports on to
  the frame library, whose calls are an output list (the conversions of the value to the types of
  the library are left to it), and network latency requests to the latency controller.  Whether the
  frame library is built in is a parameter, as is whether \<open>strtol\<close> sets \<open>errno\<close> when it finds no
  digits.  \<open>errno\<close> is part of the state: only an out-of-range result of \<open>strtol\<close> is tracked.
\<close>

section \<open>Data\<close>

definition FA_LIB_NAME :: string where "FA_LIB_NAME = ''libframe_aware_plugin.z.so''"

datatype fa_out =
    FaInit
  | FaStop
  | FaAppInfo i32 i32 string i64
  | FaProcessInfo i32 i32 i32 string i64
  | FaContinuousTask i32 i32 i64
  | FaCgroupChange i32 i32 i32 i32
  | FaWindowFocus i32 i32 i64 i32
  | FaRenderThread i32 i32 i64
  | FaSlideEvent i32 i32 i64
  | FaInteractionScene i64

record fa_env =
  fx_sched :: bool
  fx_einval :: bool
  fx_dev :: "nat \<Rightarrow> bool \<times> bool"
  fx_accessible :: bool

record fa_state =
  functionMap :: "u32 list"
  fa_resTypes :: "u32 list"
  fa_erange :: bool
  netLatCtrl :: "switcher nl_state"
  fa_outs :: "fa_out list"

definition fa_new :: fa_state where
  "fa_new = \<lparr>functionMap = [], fa_resTypes = [], fa_erange = False, netLatCtrl = nl_new, fa_outs = []\<rparr>"

definition fa_emit :: "fa_out \<Rightarrow> fa_state \<Rightarrow> fa_state" where
  "fa_emit out st = st\<lparr>fa_outs := fa_outs st @ [out]\<rparr>"

section \<open>Start and end\<close>

definition frame_types :: "u32 list" where
  "frame_types = [RES_TYPE_APP_STATE_CHANGE, RES_TYPE_PROCESS_STATE_CHANGE, RES_TYPE_CONTINUOUS_TASK,
     RES_TYPE_CGROUP_ADJUSTER, RES_TYPE_WINDOW_FOCUS, RES_TYPE_REPORT_RENDER_THREAD, RES_TYPE_SLIDE_RECOGNIZE,
     RES_TYPE_SCREEN_LOCK, RES_TYPE_SCREEN_STATUS, RES_TYPE_USER_INTERACTION_SCENE]"

definition fa_Init :: "fa_env \<Rightarrow> fa_state \<Rightarrow> pm_call list \<times> fa_state" where
  "fa_Init E st =
     (let types = sort (RES_TYPE_NETWORK_LATENCY_REQUEST # frame_types);
          st1 = st\<lparr>netLatCtrl := nl_Init (fx_accessible E) (netLatCtrl st),
            functionMap := (if fx_sched E then frame_types else []) @ [RES_TYPE_NETWORK_LATENCY_REQUEST],
            fa_resTypes := types\<rparr>
      in (map (CallSubscribe FA_LIB_NAME) types, if fx_sched E then fa_emit FaInit st1 else st1))"

definition fa_Disable :: "fa_env \<Rightarrow> fa_state \<Rightarrow> pm_call list \<times> fa_state" where
  "fa_Disable E st =
     (map (CallUnSubscribe FA_LIB_NAME) (fa_resTypes st),
      (if fx_sched E then fa_emit FaStop st else st)\<lparr>functionMap := [], fa_resTypes := []\<rparr>)"

definition fa_OnPluginInit :: "fa_env \<Rightarrow> string \<Rightarrow> fa_state \<Rightarrow> bool \<times> pm_call list \<times> fa_state" where
  "fa_OnPluginInit E libName st = (if libName \<noteq> FA_LIB_NAME then (False, [], st) else (True, fa_Init E st))"

section \<open>Reports\<close>

definition fa_ConvertToInteger :: "fa_env \<Rightarrow> string \<Rightarrow> bool \<Rightarrow> i32 \<times> bool" where
  "fa_ConvertToInteger E s erange =
     (case parse_dec (c_str s) of
        None \<Rightarrow> (- 1, erange \<and> \<not> fx_einval E)
      | Some (neg, n, rest) \<Rightarrow>
          (let v = signed_val neg n;
               out_of_range = (v < - 9223372036854775808 \<or> 9223372036854775807 < v);
               result = wrap_s32 (max (- 9223372036854775808) (min 9223372036854775807 v));
               erange1 = (erange \<or> out_of_range)
           in (if result < 0 \<or> erange1 \<or> rest \<noteq> [] then - 1 else result, erange1)))"

text \<open>Several numbers of a payload one after the other; the members are strings.\<close>

fun fa_numbers :: "fa_env \<Rightarrow> string list \<Rightarrow> fa_state \<Rightarrow> i32 list \<times> fa_state" where
  "fa_numbers E [] st = ([], st)"
| "fa_numbers E (s # ss) st =
     (let (n, erange) = fa_ConvertToInteger E s (fa_erange st);
          (ns, st1) = fa_numbers E ss (st\<lparr>fa_erange := erange\<rparr>)
      in (n # ns, st1))"

text \<open>The members of the names, if all are there and strings.\<close>

fun fa_strings :: "string list \<Rightarrow> json \<Rightarrow> string list option" where
  "fa_strings [] payload = Some []"
| "fa_strings (name # names) payload =
     (case (ParseString name payload, fa_strings names payload) of
        (Some s, Some ss) \<Rightarrow> Some (s # ss)
      | _ \<Rightarrow> None)"

definition fa_HandleAppStateChange :: "fa_env \<Rightarrow> i64 \<Rightarrow> json \<Rightarrow> fa_state \<Rightarrow> fa_state" where
  "fa_HandleAppStateChange E v payload st =
     (case fa_strings [''pid'', ''uid'', ''bundleName''] payload of
        Some [p, u, b] \<Rightarrow>
          (case fa_numbers E [p, u] st of
             ([p1, u1], st1) \<Rightarrow> fa_emit (FaAppInfo p1 u1 (c_str b) v) st1
           | (_, st1) \<Rightarrow> st1)
      | _ \<Rightarrow> st)"

definition fa_HandleProcessStateChange :: "fa_env \<Rightarrow> i64 \<Rightarrow> json \<Rightarrow> fa_state \<Rightarrow> fa_state" where
  "fa_HandleProcessStateChange E v payload st =
     (case fa_strings [''pid'', ''uid'', ''hostPid'', ''bundleName''] payload of
        Some [p, u, h, b] \<Rightarrow>
          (case fa_numbers E [p, u, h] st of
             ([p1, u1, h1], st1) \<Rightarrow> fa_emit (FaProcessInfo p1 u1 h1 (c_str b) v) st1
           | (_, st1) \<Rightarrow> st1)
      | _ \<Rightarrow> st)"

text \<open>The handlers that take the process and the user only.\<close>

definition fa_two :: "fa_env \<Rightarrow> string \<Rightarrow> string \<Rightarrow> (i32 \<Rightarrow> i32 \<Rightarrow> fa_out) \<Rightarrow> json \<Rightarrow> fa_state \<Rightarrow> fa_state" where
  "fa_two E pidName uidName report payload st =
     (case fa_strings [pidName, uidName] payload of
        Some ss \<Rightarrow>
          (case fa_numbers E ss st of ([p1, u1], st1) \<Rightarrow> fa_emit (report p1 u1) st1 | (_, st1) \<Rightarrow> st1)
      | None \<Rightarrow> st)"

definition fa_HandleContinuousTask :: "fa_env \<Rightarrow> i64 \<Rightarrow> json \<Rightarrow> fa_state \<Rightarrow> fa_state" where
  "fa_HandleContinuousTask E v = fa_two E ''pid'' ''uid'' (\<lambda>p1 u1. FaContinuousTask p1 u1 v)"

definition fa_HandleReportRender :: "fa_env \<Rightarrow> i64 \<Rightarrow> json \<Rightarrow> fa_state \<Rightarrow> fa_state" where
  "fa_HandleReportRender E v = fa_two E ''pid'' ''uid'' (\<lambda>p1 u1. FaRenderThread p1 u1 v)"

definition fa_HandleEventSlide :: "fa_env \<Rightarrow> i64 \<Rightarrow> json \<Rightarrow> fa_state \<Rightarrow> fa_state" where
  "fa_HandleEventSlide E v = fa_two E ''clientPid'' ''callingUid'' (\<lambda>p1 u1. FaSlideEvent p1 u1 v)"

definition fa_HandleCgroupAdjuster :: "fa_env \<Rightarrow> i64 \<Rightarrow> json \<Rightarrow> fa_state \<Rightarrow> fa_state" where
  "fa_HandleCgroupAdjuster E v payload st =
     (case fa_strings [''pid'', ''uid'', ''oldGroup'', ''newGroup''] payload of
        Some ss \<Rightarrow>
          (case fa_numbers E ss st of
             ([p1, u1, old, new], st1) \<Rightarrow>
               if v = 0 then fa_emit (FaCgroupChange p1 u1 old new) st1 else st1
           | (_, st1) \<Rightarrow> st1)
      | None \<Rightarrow> st)"

definition fa_HandleWindowsFocus :: "fa_env \<Rightarrow> i64 \<Rightarrow> json \<Rightarrow> fa_state \<Rightarrow> fa_state" where
  "fa_HandleWindowsFocus E v payload st =
     (case fa_strings [''pid'', ''uid''] payload of
        Some ss \<Rightarrow>
          (let (displayId, erange) =
                 (case ParseString ''displayId'' payload of
                    Some d \<Rightarrow> fa_ConvertToInteger E d (fa_erange st) | None \<Rightarrow> (0, fa_erange st))
           in case fa_numbers E ss (st\<lparr>fa_erange := erange\<rparr>) of
                ([p1, u1], st1) \<Rightarrow> fa_emit (FaWindowFocus p1 u1 v displayId) st1
              | (_, st1) \<Rightarrow> st1)
      | None \<Rightarrow> st)"

definition fa_HandleNetworkLatencyRequest :: "fa_env \<Rightarrow> i64 \<Rightarrow> json \<Rightarrow> fa_state \<Rightarrow> fa_state" where
  "fa_HandleNetworkLatencyRequest E v payload st =
     (case fa_strings [''clientPid'', ''identity''] payload of
        Some [clientPid, identity] \<Rightarrow>
          st\<lparr>netLatCtrl := nl_HandleRequest (LowLatencyOn (fx_dev E)) LowLatencyOff v (clientPid @ '':'' @ identity) (netLatCtrl st)\<rparr>
      | _ \<Rightarrow> st)"

definition fa_HandleInteractionScene :: "i64 \<Rightarrow> fa_state \<Rightarrow> fa_state" where
  "fa_HandleInteractionScene v st = fa_emit (FaInteractionScene v) st"

text \<open>The handlers of the screen only write to the log.\<close>

definition fa_handle :: "fa_env \<Rightarrow> u32 \<Rightarrow> i64 \<Rightarrow> json \<Rightarrow> fa_state \<Rightarrow> fa_state" where
  "fa_handle E t v payload st =
     (if t = RES_TYPE_APP_STATE_CHANGE then fa_HandleAppStateChange E v payload st
      else if t = RES_TYPE_PROCESS_STATE_CHANGE then fa_HandleProcessStateChange E v payload st
      else if t = RES_TYPE_CONTINUOUS_TASK then fa_HandleContinuousTask E v payload st
      else if t = RES_TYPE_CGROUP_ADJUSTER then fa_HandleCgroupAdjuster E v payload st
      else if t = RES_TYPE_WINDOW_FOCUS then fa_HandleWindowsFocus E v payload st
      else if t = RES_TYPE_REPORT_RENDER_THREAD then fa_HandleReportRender E v payload st
      else if t = RES_TYPE_SLIDE_RECOGNIZE then fa_HandleEventSlide E v payload st
      else if t = RES_TYPE_USER_INTERACTION_SCENE then fa_HandleInteractionScene v st
      else if t = RES_TYPE_NETWORK_LATENCY_REQUEST then fa_HandleNetworkLatencyRequest E v payload st
      else st)"

definition fa_DispatchResource :: "fa_env \<Rightarrow> res_data \<Rightarrow> fa_state \<Rightarrow> fa_state" where
  "fa_DispatchResource E d st =
     (if rd_type d \<in> set (functionMap st) then fa_handle E (rd_type d) (rd_value d) (rd_payload d) st else st)"

section \<open>errno stays\<close>

lemma ConvertToInteger_erange:
  "\<not> fx_einval E \<Longrightarrow> fa_ConvertToInteger E s True = (- 1, True)"
  by (simp add: fa_ConvertToInteger_def Let_def split: option.split)

lemma erange_same: "fa_erange st \<Longrightarrow> st\<lparr>fa_erange := True\<rparr> = st"
  by simp

lemma fa_numbers_erange:
  "\<not> fx_einval E \<Longrightarrow> fa_erange st \<Longrightarrow> fa_numbers E ss st = (replicate (length ss) (- 1), st)"
  by (induction ss) (simp_all add: fa_numbers.simps ConvertToInteger_erange erange_same Let_def)

lemma fa_erange_emit [simp]: "fa_erange (fa_emit out st) = fa_erange st" "functionMap (fa_emit out st) = functionMap st"
  by (simp_all add: fa_emit_def)

declare fa_numbers.simps [simp del] fa_strings.simps [simp del]

definition stuck :: "fa_state \<Rightarrow> fa_state \<Rightarrow> bool" where
  "stuck st st' \<longleftrightarrow> fa_erange st' \<and> functionMap st' = functionMap st"

lemma stuck_emit [simp]: "stuck st (fa_emit out st') = stuck st st'"
  by (simp add: stuck_def)

lemma stuck_handlers:
  assumes "\<not> fx_einval E" "fa_erange st"
  shows "stuck st (fa_HandleAppStateChange E v payload st)" "stuck st (fa_HandleProcessStateChange E v payload st)"
    "stuck st (fa_HandleContinuousTask E v payload st)" "stuck st (fa_HandleReportRender E v payload st)"
    "stuck st (fa_HandleEventSlide E v payload st)" "stuck st (fa_HandleCgroupAdjuster E v payload st)"
    "stuck st (fa_HandleWindowsFocus E v payload st)" "stuck st (fa_HandleInteractionScene v st)"
    "stuck st (fa_HandleNetworkLatencyRequest E v payload st)"
proof -
  have same: "stuck st st" using assms(2) by (simp add: stuck_def)
  note num = fa_numbers_erange[OF assms] ConvertToInteger_erange[OF assms(1)] erange_same[OF assms(2)] same
  note splits = option.split list.split
  show "stuck st (fa_HandleAppStateChange E v payload st)"
    by (simp add: fa_HandleAppStateChange_def num split: splits)
  show "stuck st (fa_HandleProcessStateChange E v payload st)"
    by (simp add: fa_HandleProcessStateChange_def num split: splits)
  show "stuck st (fa_HandleContinuousTask E v payload st)" "stuck st (fa_HandleReportRender E v payload st)"
    "stuck st (fa_HandleEventSlide E v payload st)"
    by (simp_all add: fa_HandleContinuousTask_def fa_HandleReportRender_def fa_HandleEventSlide_def fa_two_def num split: splits)
  show "stuck st (fa_HandleCgroupAdjuster E v payload st)"
    by (simp add: fa_HandleCgroupAdjuster_def num split: splits)
  show "stuck st (fa_HandleWindowsFocus E v payload st)"
    using assms by (simp add: fa_HandleWindowsFocus_def num Let_def split: splits)
  show "stuck st (fa_HandleInteractionScene v st)" by (simp add: fa_HandleInteractionScene_def num)
  show "stuck st (fa_HandleNetworkLatencyRequest E v payload st)"
    using assms by (simp add: fa_HandleNetworkLatencyRequest_def stuck_def split: splits)
qed

lemma fa_dispatch_erange:
  assumes "\<not> fx_einval E" "fa_erange st"
  shows "fa_erange (fa_DispatchResource E d st) \<and> functionMap (fa_DispatchResource E d st) = functionMap st"
proof -
  have "stuck st st" using assms(2) by (simp add: stuck_def)
  then have "stuck st (fa_DispatchResource E d st)"
    by (simp only: fa_DispatchResource_def fa_handle_def stuck_handlers[OF assms] if_split simp_thms)
  then show ?thesis by (simp add: stuck_def)
qed

lemma bad_number_erange:
  assumes "parse_dec (c_str p) = Some (neg, n, rest)" "9223372036854775808 < n" "\<not> fx_einval E"
  shows "fa_erange (snd (fa_numbers E (p # ss) st))"
proof -
  have "snd (fa_ConvertToInteger E p (fa_erange st))"
    using assms by (auto simp: fa_ConvertToInteger_def signed_val_def Let_def)
  then show ?thesis
    using fa_numbers_erange[OF assms(3), of "st\<lparr>fa_erange := True\<rparr>" ss] by (simp add: fa_numbers.simps Let_def case_prod_unfold)
qed

lemma fa_numbers_frame:
  "functionMap (snd (fa_numbers E ss st)) = functionMap st" "length (fst (fa_numbers E ss st)) = length ss"
  by (induction ss arbitrary: st) (simp_all add: fa_numbers.simps Let_def case_prod_unfold)

lemma two_numbers: "\<exists>m n. fa_numbers E [a, b] st = ([m, n], snd (fa_numbers E [a, b] st))"
proof -
  obtain ns st1 where r: "fa_numbers E [a, b] st = (ns, st1)" by (cases "fa_numbers E [a, b] st")
  then have "length ns = 2" using fa_numbers_frame(2)[of E "[a, b]" st] by (simp)
  then show ?thesis using r by (auto simp: length_Suc_conv numeral_2_eq_2)
qed

definition app_report :: "i64 \<Rightarrow> json \<Rightarrow> res_data" where
  "app_report v payload = \<lparr>rd_type = RES_TYPE_APP_STATE_CHANGE, rd_value = v, rd_payload = payload\<rparr>"

lemma app_report_dispatch:
  assumes "RES_TYPE_APP_STATE_CHANGE \<in> set (functionMap st)"
    "fa_strings [''pid'', ''uid'', ''bundleName''] payload = Some [p, u, b]"
  shows "fa_DispatchResource E (app_report v payload) st =
    fa_emit (FaAppInfo (fst (fa_numbers E [p, u] st) ! 0) (fst (fa_numbers E [p, u] st) ! 1) (c_str b) v)
      (snd (fa_numbers E [p, u] st))"
proof -
  obtain m n st1 where "fa_numbers E [p, u] st = ([m, n], st1)" using two_numbers[of E p u st] by blast
  then show ?thesis
    using assms by (simp add: app_report_def fa_DispatchResource_def fa_handle_def fa_HandleAppStateChange_def
       )
qed

text \<open>
  After one report of an application whose process identifier is out of range, every later
  report of an application goes to the frame library with -1 for the process and the user, however
  many reports come in between: the error number is tested but never reset (on a C library that
  leaves it alone for other texts).
\<close>

theorem one_bad_number_spoils_all:
  assumes "\<not> fx_einval E" "RES_TYPE_APP_STATE_CHANGE \<in> set (functionMap st)"
    and bad: "fa_strings [''pid'', ''uid'', ''bundleName''] bad = Some [p0, u0, b0]"
      "parse_dec (c_str p0) = Some (neg, n, rest)" "9223372036854775808 < n"
    and good: "fa_strings [''pid'', ''uid'', ''bundleName''] payload = Some [p, u, b]"
    and st': "st' = fold (fa_DispatchResource E) (app_report v0 bad # ds) st"
  shows "fa_outs (fa_DispatchResource E (app_report v payload) st') = fa_outs st' @ [FaAppInfo (- 1) (- 1) (c_str b) v]"
proof -
  let ?st0 = "fa_DispatchResource E (app_report v0 bad) st"
  have st0: "fa_erange ?st0 \<and> functionMap ?st0 = functionMap st"
    using bad_number_erange[OF bad(2,3) assms(1), of "[u0]" st] fa_numbers_frame(1)[of E "[p0, u0]" st]
    by (simp add: app_report_dispatch[OF assms(2) bad(1)])
  have "fa_erange (fold (fa_DispatchResource E) ds s) \<and> functionMap (fold (fa_DispatchResource E) ds s) = functionMap s"
    if "fa_erange s" for s
    using that
  proof (induction ds arbitrary: s)
    case (Cons d ds)
    then show ?case using fa_dispatch_erange[OF assms(1) Cons.prems, of d] by simp
  qed simp
  with st0 have st': "fa_erange st'" "RES_TYPE_APP_STATE_CHANGE \<in> set (functionMap st')" using st' assms(2) by simp_all
  then have "fa_numbers E [p, u] st' = ([- 1, - 1], st')"
    using fa_numbers_erange[OF assms(1), of st' "[p, u]"] by (simp add: numeral_2_eq_2)
  then show ?thesis
    by (simp add: app_report_dispatch[OF st'(2) good] fa_emit_def)
qed

definition demo_fx :: fa_env where
  "demo_fx = \<lparr>fx_sched = True, fx_einval = False, fx_dev = dev_fine, fx_accessible = True\<rparr>"

definition demo_fa :: fa_state where "demo_fa = snd (snd (fa_OnPluginInit demo_fx FA_LIB_NAME fa_new))"

definition demo_app_payload :: "string \<Rightarrow> json" where
  "demo_app_payload pid = JObj [(''pid'', JStr pid), (''uid'', JStr ''7''), (''bundleName'', JStr ''a'')]"

lemma demo_fa_functions: "functionMap demo_fa = frame_types @ [RES_TYPE_NETWORK_LATENCY_REQUEST]"
  by (simp add: demo_fa_def fa_OnPluginInit_def fa_Init_def fa_emit_def demo_fx_def Let_def)

theorem one_bad_number_spoils_all_witness:
  "last (fa_outs (fa_DispatchResource demo_fx (app_report 0 (demo_app_payload ''7''))
     (fa_DispatchResource demo_fx (app_report 0 (demo_app_payload ''9999999999999999999'')) demo_fa))) =
   FaAppInfo (- 1) (- 1) (c_str ''a'') 0"
proof -
  let ?big = "demo_app_payload ''9999999999999999999''" and ?small = "demo_app_payload ''7''"
  have strings: "fa_strings [''pid'', ''uid'', ''bundleName''] (demo_app_payload p) = Some [p, ''7'', ''a'']" for p
    by (simp add: demo_app_payload_def ParseString_def member_def fa_strings.simps)
  have parse: "parse_dec (c_str ''9999999999999999999'') = Some (False, 9999999999999999999, [])"
    by (simp add: parse_dec_def c_str_def is_digit_def is_space_def code_of_def dec_val_def)
  have "\<not> fx_einval demo_fx" "RES_TYPE_APP_STATE_CHANGE \<in> set (functionMap demo_fa)"
    by (simp_all add: demo_fx_def demo_fa_functions frame_types_def)
  from one_bad_number_spoils_all[where ds = "[]" and v0 = 0 and v = 0, OF this strings parse _ strings[of "''7''"] refl]
  show ?thesis by simp
qed

section \<open>A restart of the plugin\<close>

lemma low_requests_no_effect:
  assumes "requests st \<noteq> []" "nl_switcher st = Some sw" "v \<noteq> NETWORK_LATENCY_REQUEST_NORMAL"
  shows "nl_switcher (nl_HandleRequest on off v identity st) = Some sw \<and>
    set (requests st) \<subseteq> set (requests (nl_HandleRequest on off v identity st))"
  using assms
  by (auto simp: nl_HandleRequest_def HandleAddRequest_def AddRequest_def Let_def set_timer_def cancel_task_def
      split: option.split)

lemma emit_net [simp]: "netLatCtrl (fa_emit out st) = netLatCtrl st"
  by (simp add: fa_emit_def)

lemma fa_numbers_net [simp]: "netLatCtrl (snd (fa_numbers E ss st)) = netLatCtrl st"
  by (induction ss arbitrary: st) (simp_all add: fa_numbers.simps Let_def case_prod_unfold)

lemma fa_numbers_net_eq: "fa_numbers E ss st = (ns, st1) \<Longrightarrow> netLatCtrl st1 = netLatCtrl st"
  using fa_numbers_net[of E ss st] by simp

lemma emit_after [simp]:
  "netLatCtrl (case r of ([p1, u1], st1) \<Rightarrow> fa_emit (report p1 u1) st1 | (_, st1) \<Rightarrow> st1) = netLatCtrl (snd r)"
  "netLatCtrl (case r of ([p1, u1, h1], st1) \<Rightarrow> fa_emit (report3 p1 u1 h1) st1 | (_, st1) \<Rightarrow> st1) = netLatCtrl (snd r)"
  "netLatCtrl (case r of ([p1, u1, old, new], st1) \<Rightarrow> if c then fa_emit (report4 p1 u1 old new) st1 else st1 | (_, st1) \<Rightarrow> st1) =
     netLatCtrl (snd r)"
  by (cases r; simp split: list.split)+

lemma net_handlers [simp]:
  "netLatCtrl (fa_HandleAppStateChange E v payload st) = netLatCtrl st"
  "netLatCtrl (fa_HandleProcessStateChange E v payload st) = netLatCtrl st"
  "netLatCtrl (fa_two E pidName uidName report payload st) = netLatCtrl st"
  "netLatCtrl (fa_HandleCgroupAdjuster E v payload st) = netLatCtrl st"
  "netLatCtrl (fa_HandleInteractionScene v st) = netLatCtrl st"
  by (simp_all add: fa_HandleAppStateChange_def fa_HandleProcessStateChange_def fa_two_def fa_HandleCgroupAdjuster_def
      fa_HandleInteractionScene_def split: option.split list.split)

lemma net_focus [simp]: "netLatCtrl (fa_HandleWindowsFocus E v payload st) = netLatCtrl st"
proof -
  obtain d e where "(case ParseString ''displayId'' payload of
      Some d \<Rightarrow> fa_ConvertToInteger E d (fa_erange st) | None \<Rightarrow> (0, fa_erange st)) = (d, e)"
    by (metis surj_pair)
  then show ?thesis by (simp add: fa_HandleWindowsFocus_def split: option.split)
qed

lemma dispatch_net:
  "netLatCtrl (fa_DispatchResource E d st) = netLatCtrl st \<or>
   rd_type d = RES_TYPE_NETWORK_LATENCY_REQUEST \<and> (\<exists>identity. netLatCtrl (fa_DispatchResource E d st) =
     nl_HandleRequest (LowLatencyOn (fx_dev E)) LowLatencyOff (rd_value d) identity (netLatCtrl st))"
proof (cases "rd_type d = RES_TYPE_NETWORK_LATENCY_REQUEST")
  case False
  then have "netLatCtrl (fa_handle E (rd_type d) v payload st) = netLatCtrl st" for v payload
    by (simp add: fa_handle_def fa_HandleContinuousTask_def fa_HandleReportRender_def fa_HandleEventSlide_def)
  then show ?thesis by (simp add: fa_DispatchResource_def)
next
  case True
  have "fa_handle E RES_TYPE_NETWORK_LATENCY_REQUEST v payload st = fa_HandleNetworkLatencyRequest E v payload st" for v payload
    by (simp add: fa_handle_def res_type_defs)
  with True show ?thesis
    by (auto simp: fa_DispatchResource_def fa_HandleNetworkLatencyRequest_def split: option.split list.split)
qed

text \<open>
  When the plugin is disabled and started again while there are requests for low latency, the
  device is not opened again by whatever reports follow, as long as no request is withdrawn: the
  old requests are kept, so no request is the first one, and the tasks that would end them are gone.
\<close>

theorem restart_loses_low_latency:
  assumes "requests (netLatCtrl st) \<noteq> []"
    and "fa_OnPluginInit E FA_LIB_NAME (snd (fa_Disable E st)) = (ok, calls, st1)"
    and "\<And>d. d \<in> set ds \<Longrightarrow> \<not> (rd_type d = RES_TYPE_NETWORK_LATENCY_REQUEST \<and> rd_value d = NETWORK_LATENCY_REQUEST_NORMAL)"
  shows "nl_pending (netLatCtrl st1) = [] \<and>
    (\<exists>sw. nl_switcher (netLatCtrl (fold (fa_DispatchResource E) ds st1)) = Some sw \<and> \<not> low_latency sw) \<and>
    set (requests (netLatCtrl st)) \<subseteq> set (requests (netLatCtrl (fold (fa_DispatchResource E) ds st1)))"
proof -
  have st1: "netLatCtrl st1 = nl_Init (fx_accessible E) (netLatCtrl st)"
    using assms(2) by (auto simp: fa_OnPluginInit_def fa_Init_def fa_Disable_def Let_def split: if_splits)
  then obtain sw where sw: "nl_switcher (netLatCtrl st1) = Some sw" "\<not> low_latency sw"
    by (auto simp: nl_Init_def nl_Init_with_def low_latency_def PmqosNetworkLatencySwitcher_def
        NoopNetworkLatencySwitcher_def)
  have "nl_switcher (netLatCtrl (fold (fa_DispatchResource E) ds s)) = Some sw \<and>
      set (requests (netLatCtrl s)) \<subseteq> set (requests (netLatCtrl (fold (fa_DispatchResource E) ds s)))"
    if "nl_switcher (netLatCtrl s) = Some sw" "requests (netLatCtrl s) \<noteq> []" for s
    using assms(3) that
  proof (induction ds arbitrary: s)
    case (Cons d ds)
    let ?s = "fa_DispatchResource E d s"
    have "nl_switcher (netLatCtrl ?s) = Some sw \<and> set (requests (netLatCtrl s)) \<subseteq> set (requests (netLatCtrl ?s))"
      using dispatch_net[of E d s] Cons.prems(1)[of d]
        low_requests_no_effect[OF Cons.prems(3,2), of "rd_value d" "LowLatencyOn (fx_dev E)" LowLatencyOff] Cons.prems(2)
      by (metis list.set_intros(1) order_refl)
    moreover from this have "requests (netLatCtrl ?s) \<noteq> []" using Cons.prems(3) by auto
    ultimately show ?case using Cons.IH[of ?s] Cons.prems(1) by auto
  qed simp
  from this[of st1] sw st1 assms(1) show ?thesis by (auto simp: nl_Init_def nl_Init_with_def)
qed

text \<open>A request, a restart, and another request.\<close>

definition demo_net_report :: "string \<Rightarrow> res_data" where
  "demo_net_report identity = \<lparr>rd_type = RES_TYPE_NETWORK_LATENCY_REQUEST, rd_value = 0,
     rd_payload = JObj [(''clientPid'', JStr ''5''), (''identity'', JStr identity)]\<rparr>"

definition demo_fa_low :: fa_state where
  "demo_fa_low = fa_DispatchResource demo_fx (demo_net_report ''a'') demo_fa"

theorem restart_loses_low_latency_witness:
  "(\<exists>sw. nl_switcher (netLatCtrl demo_fa_low) = Some sw \<and> low_latency sw) \<and>
   (\<exists>sw. nl_switcher (netLatCtrl (fold (fa_DispatchResource demo_fx) [demo_net_report ''b'']
      (snd (snd (fa_OnPluginInit demo_fx FA_LIB_NAME (snd (fa_Disable demo_fx demo_fa_low))))))) = Some sw \<and> \<not> low_latency sw)"
proof -
  have strings: "fa_strings [''clientPid'', ''identity''] (rd_payload (demo_net_report i)) = Some [''5'', i]" for i
    by (simp add: demo_net_report_def ParseString_def member_def fa_strings.simps)
  have types: "RES_TYPE_NETWORK_LATENCY_REQUEST \<notin> set frame_types" by (simp add: frame_types_def res_type_defs)
  have "netLatCtrl demo_fa = nl_Init_with PmqosNetworkLatencySwitcher nl_new"
    by (simp add: demo_fa_def fa_OnPluginInit_def fa_Init_def fa_Disable_def demo_fx_def fa_new_def nl_Init_def Let_def)
  then have low: "netLatCtrl demo_fa_low = HandleAddRequest (LowLatencyOn dev_fine) (''5:a'')
      (nl_Init_with PmqosNetworkLatencySwitcher nl_new)"
    using strings[of "''a''"] types
    by (simp add: demo_fa_low_def fa_DispatchResource_def demo_fa_functions demo_net_report_def fa_handle_def
        fa_HandleNetworkLatencyRequest_def nl_HandleRequest_def NETWORK_LATENCY_REQUEST_LOW_def demo_fx_def
        frame_types_def nl_Init_with_def nl_new_def)
  then have on: "netLatCtrl demo_fa_low = demo_low" by (simp add: demo_low_def)
  obtain ok calls st1 where r: "fa_OnPluginInit demo_fx FA_LIB_NAME (snd (fa_Disable demo_fx demo_fa_low)) = (ok, calls, st1)"
    by (metis prod_cases3)
  have "requests (netLatCtrl demo_fa_low) \<noteq> []" using demo_low_facts(2) by (simp add: on)
  from restart_loses_low_latency[OF this r, of "[demo_net_report ''b'']"] r
  have "\<exists>sw. nl_switcher (netLatCtrl (fold (fa_DispatchResource demo_fx) [demo_net_report ''b'']
      (snd (snd (fa_OnPluginInit demo_fx FA_LIB_NAME (snd (fa_Disable demo_fx demo_fa_low))))))) = Some sw \<and> \<not> low_latency sw"
    by (simp add: demo_net_report_def NETWORK_LATENCY_REQUEST_NORMAL_def)
  moreover have "\<exists>sw. nl_switcher (netLatCtrl demo_fa_low) = Some sw \<and> low_latency sw"
    by (simp add: low HandleAddRequest_def set_timer_def AddRequest_def cancel_task_def nl_Init_with_def nl_new_def
        PmqosNetworkLatencySwitcher_def LowLatencyOn_def low_latency_def dev_fine_def Let_def)
  ultimately show ?thesis by blast
qed

end
