(* ===== verification/Audio_Observer.thy ===== *)
theory Audio_Observer
  imports Json_Payload Res_Type
begin

text \<open>
  The audio observer (sched\_controller/observer/src/audio\_observer.cpp): what the audio framework
  tells it about playing and recording, and what it reports to the manager, as an output list.
  The framework's constants are parameters; the objects it passes are records, a null pointer is
  \<open>None\<close>.  The visiting order of the hash sets is the order in which their members were added.
\<close>

section \<open>Data\<close>

definition AUDIO_STATE_RUNNING :: i64 where "AUDIO_STATE_RUNNING = 0"
definition AUDIO_STATE_STOP :: i64 where "AUDIO_STATE_STOP = 1"
definition AUDIO_CAPTURE_BEGIN :: i64 where "AUDIO_CAPTURE_BEGIN = 0"
definition AUDIO_CAPTURE_END :: i64 where "AUDIO_CAPTURE_END = 1"
definition AUDIO_CAPTURE_CHANGE :: i64 where "AUDIO_CAPTURE_CHANGE = 2"

record ao_env =
  RENDERER_RUNNING :: i32
  RENDERER_STOPPED :: i32
  RENDERER_RELEASED :: i32
  RENDERER_PAUSED :: i32
  CAPTURER_RUNNING :: i32
  CAPTURER_STOPPED :: i32
  CAPTURER_RELEASED :: i32

record render_info =
  ri_uid :: i32
  ri_pid :: i32
  ri_sessionId :: i32
  ri_state :: i32
  ri_contentType :: i32
  ri_streamUsage :: i32

record capture_info =
  cap_uid :: i32
  cap_pid :: i32
  cap_sessionId :: i32
  cap_state :: i32
  cap_sourceType :: i32

record process_render_state =
  prs_pid :: i32
  prs_uid :: i32
  renderRunningSessionSet :: "i32 list"

type_synonym ao_report = "u32 \<times> i64 \<times> json"

record ao_state =
  ao_mode :: i32
  renderState :: "(i32 \<times> i32) list"
  volumeState :: "(i32 \<times> i32) list"
  processRenderStateMap :: "(i32 \<times> process_render_state) list"
  capturerStateMap :: "(i32 \<times> i32 list) list"
  capturerInfoPidToUidMap :: "(i32 \<times> i32) list"
  ao_reports :: "ao_report list"

definition ao_new :: ao_state where
  "ao_new = \<lparr>ao_mode = - 1, renderState = [], volumeState = [], processRenderStateMap = [],
     capturerStateMap = [], capturerInfoPidToUidMap = [], ao_reports = []\<rparr>"

definition ao_ReportData :: "u32 \<Rightarrow> i64 \<Rightarrow> json \<Rightarrow> ao_state \<Rightarrow> ao_state" where
  "ao_ReportData t v payload st = st\<lparr>ao_reports := ao_reports st @ [(t, v, payload)]\<rparr>"

text \<open>The process and the user as text, as in most of the payloads.\<close>

definition pid_uid_payload :: "i32 \<Rightarrow> i32 \<Rightarrow> json" where
  "pid_uid_payload p u = JObj [(''pid'', JStr (to_string p)), (''uid'', JStr (to_string u))]"

section \<open>Playing\<close>

definition MarshallingAudioRendererChangeInfo :: "render_info \<Rightarrow> json" where
  "MarshallingAudioRendererChangeInfo info =
     JObj [(''uid'', JStr (to_string (ri_uid info))), (''sessionId'', JStr (to_string (ri_sessionId info))),
       (''rendererState'', JInt (ri_state info)), (''pid'', JStr (to_string (ri_pid info))),
       (''rendererInfo.contentType'', JInt (ri_contentType info)), (''rendererInfo.streamUsage'', JInt (ri_streamUsage info))]"

definition IsRenderStateChange :: "render_info \<Rightarrow> ao_state \<Rightarrow> bool" where
  "IsRenderStateChange info st =
     (case map_of (renderState st) (ri_sessionId info) of None \<Rightarrow> True | Some s \<Rightarrow> s \<noteq> ri_state info)"

definition ao_IsValidPid :: "i32 \<Rightarrow> bool" where
  "ao_IsValidPid p \<longleftrightarrow> 0 < p \<and> p \<le> 2147483647"

text \<open>With the processes that are new and those with a session that stopped.\<close>

definition ProcessRunningSessionState ::
    "render_info \<Rightarrow> ao_state \<times> i32 list \<times> i32 list \<Rightarrow> ao_state \<times> i32 list \<times> i32 list" where
  "ProcessRunningSessionState info s =
     (case s of (st, newRunningPid, newStopSessionPid) \<Rightarrow>
        let p = ri_pid info; session = ri_sessionId info; m = processRenderStateMap st in
        case map_of m p of
          Some r \<Rightarrow>
            (st\<lparr>processRenderStateMap :=
                AList.update p (r\<lparr>renderRunningSessionSet := List.insert session (renderRunningSessionSet r)\<rparr>) m\<rparr>,
             newRunningPid, newStopSessionPid)
        | None \<Rightarrow>
            (st\<lparr>processRenderStateMap := AList.update p
                \<lparr>prs_pid = p, prs_uid = ri_uid info, renderRunningSessionSet = [session]\<rparr> m\<rparr>,
             List.insert p newRunningPid, newStopSessionPid))"

definition ProcessStopSessionState ::
    "render_info \<Rightarrow> ao_state \<times> i32 list \<times> i32 list \<Rightarrow> ao_state \<times> i32 list \<times> i32 list" where
  "ProcessStopSessionState info s =
     (case s of (st, newRunningPid, newStopSessionPid) \<Rightarrow>
        let p = ri_pid info; m = processRenderStateMap st in
        if \<not> ao_IsValidPid p then s
        else
          ((case map_of m p of
              None \<Rightarrow> st
            | Some r \<Rightarrow> st\<lparr>processRenderStateMap := AList.update p
                (r\<lparr>renderRunningSessionSet := removeAll (ri_sessionId info) (renderRunningSessionSet r)\<rparr>) m\<rparr>),
           newRunningPid, List.insert p newStopSessionPid))"

definition HandleInnerAudioStateChange ::
    "ao_env \<Rightarrow> render_info \<Rightarrow> ao_state \<times> i32 list \<times> i32 list \<Rightarrow> ao_state \<times> i32 list \<times> i32 list" where
  "HandleInnerAudioStateChange E info s =
     (if ri_state info = RENDERER_RUNNING E then ProcessRunningSessionState info s
      else if ri_state info = RENDERER_STOPPED E \<or> ri_state info = RENDERER_RELEASED E \<or>
          ri_state info = RENDERER_PAUSED E
      then ProcessStopSessionState info s
      else s)"

definition render_one ::
    "ao_env \<Rightarrow> render_info \<Rightarrow> ao_state \<times> i32 list \<times> i32 list \<Rightarrow> ao_state \<times> i32 list \<times> i32 list" where
  "render_one E info s =
     (case s of (st, newRunningPid, newStopSessionPid) \<Rightarrow>
        HandleInnerAudioStateChange E info
          (if IsRenderStateChange info st
           then ao_ReportData RES_TYPE_AUDIO_RENDER_STATE_CHANGE (ri_state info)
                  (MarshallingAudioRendererChangeInfo info) st
           else st, newRunningPid, newStopSessionPid))"

definition start_one :: "i32 \<Rightarrow> ao_state \<Rightarrow> ao_state" where
  "start_one p st =
     (case map_of (processRenderStateMap st) p of
        None \<Rightarrow> st
      | Some r \<Rightarrow> if renderRunningSessionSet r = [] then st
          else ao_ReportData RES_TYPE_INNER_AUDIO_STATE AUDIO_STATE_RUNNING (pid_uid_payload (prs_pid r) (prs_uid r)) st)"

definition stop_one :: "i32 \<Rightarrow> ao_state \<Rightarrow> ao_state" where
  "stop_one p st =
     (case map_of (processRenderStateMap st) p of
        None \<Rightarrow> st
      | Some r \<Rightarrow> if renderRunningSessionSet r \<noteq> [] then st
          else ao_ReportData RES_TYPE_INNER_AUDIO_STATE AUDIO_STATE_STOP (pid_uid_payload (prs_pid r) (prs_uid r))
                 (st\<lparr>processRenderStateMap := AList.delete p (processRenderStateMap st)\<rparr>))"

definition HandleStartAudioStateEvent :: "i32 list \<Rightarrow> ao_state \<Rightarrow> ao_state" where
  "HandleStartAudioStateEvent ps st = fold start_one ps st"

definition HandleStopAudioStateEvent :: "i32 list \<Rightarrow> ao_state \<Rightarrow> ao_state" where
  "HandleStopAudioStateEvent ps st = fold stop_one ps st"

text \<open>A null pointer among the sessions is followed: the behaviour is undefined (\<open>None\<close>).\<close>

definition OnRendererStateChange :: "ao_env \<Rightarrow> render_info option list \<Rightarrow> ao_state \<Rightarrow> ao_state option" where
  "OnRendererStateChange E infos st =
     (if None \<in> set infos then None
      else
        (let is = List.map_filter id infos;
             (st1, newRunningPid, newStopSessionPid) = fold (render_one E) is (st, [], []);
             st2 = st1\<lparr>renderState := fold (\<lambda>i. AList.update (ri_sessionId i) (ri_state i)) is []\<rparr>
         in Some (HandleStopAudioStateEvent newStopSessionPid (HandleStartAudioStateEvent newRunningPid st2))))"

section \<open>Volume, scene and devices\<close>

definition OnRingerModeUpdated :: "i32 \<Rightarrow> ao_state \<Rightarrow> ao_state" where
  "OnRingerModeUpdated ringerMode st =
     (if ringerMode = ao_mode st then st
      else ao_ReportData RES_TYPE_AUDIO_RING_MODE_CHANGE ringerMode (JObj []) (st\<lparr>ao_mode := ringerMode\<rparr>))"

definition OnVolumeKeyEvent :: "i32 \<Rightarrow> i32 \<Rightarrow> ao_state \<Rightarrow> ao_state" where
  "OnVolumeKeyEvent volumeType volume st =
     (if map_of (volumeState st) volumeType = Some volume then st
      else ao_ReportData RES_TYPE_AUDIO_VOLUME_KEY_CHANGE volume
             (JObj [(''volumeType'', JStr (to_string volumeType)), (''volumeLevel'', JStr (to_string volume))])
             (st\<lparr>volumeState := AList.update volumeType volume (volumeState st)\<rparr>))"

definition OnAudioSceneChange :: "i32 \<Rightarrow> ao_state \<Rightarrow> ao_state" where
  "OnAudioSceneChange audioScene st =
     ao_ReportData RES_TYPE_AUDIO_SCENE_CHANGE audioScene (JObj [(''audioScene'', JStr (to_string audioScene))]) st"

text \<open>The devices are pairs of type and identifier.\<close>

definition OnPreferredOutputDeviceUpdated :: "(i32 \<times> i32) list \<Rightarrow> ao_state \<Rightarrow> ao_state" where
  "OnPreferredOutputDeviceUpdated descs st =
     fold (\<lambda>(t, i). ao_ReportData RES_TYPE_OUTPUT_DEVICE_CHANGE i
         (JObj [(''deviceType'', JStr (to_string t)), (''deviceId'', JStr (to_string i))]))
       descs (st\<lparr>volumeState := []\<rparr>)"

section \<open>Recording\<close>

definition ProcessCapturerBegin :: "i32 \<Rightarrow> i32 \<Rightarrow> i32 \<Rightarrow> ao_state \<Rightarrow> ao_state" where
  "ProcessCapturerBegin p u session st =
     (let st1 = (if map_of (capturerStateMap st) p = None
                 then ao_ReportData RES_TYPE_AUDIO_CAPTURE_STATUS_CHANGED AUDIO_CAPTURE_BEGIN (pid_uid_payload p u) st
                 else st);
          sessions = (case map_of (capturerStateMap st) p of None \<Rightarrow> [] | Some ss \<Rightarrow> ss)
      in st1\<lparr>capturerStateMap := AList.update p (List.insert session sessions) (capturerStateMap st),
        capturerInfoPidToUidMap := AList.update p u (capturerInfoPidToUidMap st)\<rparr>)"

definition ProcessCapturerEnd :: "i32 \<Rightarrow> i32 \<Rightarrow> i32 \<Rightarrow> ao_state \<Rightarrow> ao_state" where
  "ProcessCapturerEnd p u session st =
     (case map_of (capturerStateMap st) p of
        None \<Rightarrow> st
      | Some ss \<Rightarrow>
          (let ss1 = removeAll session ss in
           if ss1 = [] then
             ao_ReportData RES_TYPE_AUDIO_CAPTURE_STATUS_CHANGED AUDIO_CAPTURE_END (pid_uid_payload p u)
               (st\<lparr>capturerInfoPidToUidMap := AList.delete p (capturerInfoPidToUidMap st),
                 capturerStateMap := AList.delete p (capturerStateMap st)\<rparr>)
           else st\<lparr>capturerStateMap := AList.update p ss1 (capturerStateMap st)\<rparr>))"

definition capture_payload :: "capture_info \<Rightarrow> json" where
  "capture_payload info =
     JObj [(''uid'', JStr (to_string (cap_uid info))), (''sessionId'', JStr (to_string (cap_sessionId info))),
       (''capturerState'', JStr (to_string (cap_state info))), (''sourceType'', JStr (to_string (cap_sourceType info)))]"

definition ReportCapturerStateChange :: "capture_info option list \<Rightarrow> ao_state \<Rightarrow> ao_state" where
  "ReportCapturerStateChange infos st =
     ao_ReportData RES_TYPE_AUDIO_CAPTURE_STATUS_CHANGED AUDIO_CAPTURE_CHANGE
       (JArr (map capture_payload (List.map_filter id infos))) st"

definition capture_one :: "ao_env \<Rightarrow> capture_info option \<Rightarrow> ao_state \<Rightarrow> ao_state" where
  "capture_one E i st =
     (case i of
        None \<Rightarrow> st
      | Some info \<Rightarrow>
          if cap_pid info = 0 then st
          else if cap_state info = CAPTURER_RUNNING E
          then ProcessCapturerBegin (cap_pid info) (cap_uid info) (cap_sessionId info) st
          else if cap_state info = CAPTURER_STOPPED E \<or> cap_state info = CAPTURER_RELEASED E
          then ProcessCapturerEnd (cap_pid info) (cap_uid info) (cap_sessionId info) st
          else st)"

definition OnCapturerStateChange :: "ao_env \<Rightarrow> capture_info option list \<Rightarrow> ao_state \<Rightarrow> ao_state" where
  "OnCapturerStateChange E infos st = fold (capture_one E) infos (ReportCapturerStateChange infos st)"

text \<open>\<open>operator[]\<close> on the users yields 0 for a process without one.\<close>

definition end_one :: "i32 \<Rightarrow> ao_state \<Rightarrow> ao_state" where
  "end_one p st =
     (let u = (case map_of (capturerInfoPidToUidMap st) p of None \<Rightarrow> 0 | Some u \<Rightarrow> u) in
      ao_ReportData RES_TYPE_AUDIO_CAPTURE_STATUS_CHANGED AUDIO_CAPTURE_END (pid_uid_payload p u)
        (st\<lparr>capturerInfoPidToUidMap := AList.delete p (capturerInfoPidToUidMap st)\<rparr>))"

definition ProcessCapturerEndCaseByUnregister :: "ao_state \<Rightarrow> ao_state" where
  "ProcessCapturerEndCaseByUnregister st =
     (if capturerStateMap st = [] then st
      else (fold end_one (map fst (capturerStateMap st)) st)\<lparr>capturerStateMap := []\<rparr>)"

definition ao_Init :: "ao_env \<Rightarrow> render_info option list \<Rightarrow> capture_info option list \<Rightarrow> ao_state \<Rightarrow> ao_state option" where
  "ao_Init E renders captures st = map_option (OnCapturerStateChange E captures) (OnRendererStateChange E renders st)"

end
