(* ===== verification/Audio_Props.thy ===== *)
theory Audio_Props
  imports Audio_Observer
begin

text \<open>
  What the reports of the audio observer tell about a process agrees with what the observer keeps:
  a process was last reported as playing exactly when a session of it is running, and as recording
  exactly when a recording session of it is open.
\<close>

section \<open>What was told last\<close>

lemma to_string_eq [simp]: "to_string x = to_string y \<longleftrightarrow> x = y"
proof
  assume "to_string x = to_string y"
  then have "(x < 0, nat \<bar>x\<bar>) = (y < 0, nat \<bar>y\<bar>)"
    using parse_to_string[of x] parse_to_string[of y] by simp
  then show "x = y" by auto
qed simp

definition last_report :: "u32 \<Rightarrow> i32 \<Rightarrow> ao_report list \<Rightarrow> i64 option" where
  "last_report t p rs =
     (let told = filter (\<lambda>(t', v, j). t' = t \<and> member ''pid'' j = Some (JStr (to_string p))) rs
      in if told = [] then None else Some (fst (snd (last told))))"

lemma last_report_Nil [simp]: "last_report t p [] = None"
  by (simp add: last_report_def)

lemma last_report_snoc [simp]:
  "last_report t p (rs @ [(t', v, j)]) =
     (if t' = t \<and> member ''pid'' j = Some (JStr (to_string p)) then Some v else last_report t p rs)"
  by (simp add: last_report_def Let_def)

definition playing :: "ao_state \<Rightarrow> i32 \<Rightarrow> bool" where
  "playing st p \<longleftrightarrow> last_report RES_TYPE_INNER_AUDIO_STATE p (ao_reports st) = Some AUDIO_STATE_RUNNING"

definition recording :: "ao_state \<Rightarrow> i32 \<Rightarrow> bool" where
  "recording st p \<longleftrightarrow> last_report RES_TYPE_AUDIO_CAPTURE_STATUS_CHANGED p (ao_reports st) = Some AUDIO_CAPTURE_BEGIN"

lemma audio_types [simp]:
  "RES_TYPE_INNER_AUDIO_STATE \<noteq> RES_TYPE_AUDIO_CAPTURE_STATUS_CHANGED"
  "RES_TYPE_AUDIO_CAPTURE_STATUS_CHANGED \<noteq> RES_TYPE_INNER_AUDIO_STATE"
  "RES_TYPE_AUDIO_RENDER_STATE_CHANGE \<noteq> RES_TYPE_INNER_AUDIO_STATE"
  "RES_TYPE_AUDIO_RENDER_STATE_CHANGE \<noteq> RES_TYPE_AUDIO_CAPTURE_STATUS_CHANGED"
  "RES_TYPE_AUDIO_RING_MODE_CHANGE \<noteq> RES_TYPE_INNER_AUDIO_STATE"
  "RES_TYPE_AUDIO_RING_MODE_CHANGE \<noteq> RES_TYPE_AUDIO_CAPTURE_STATUS_CHANGED"
  "RES_TYPE_AUDIO_VOLUME_KEY_CHANGE \<noteq> RES_TYPE_INNER_AUDIO_STATE"
  "RES_TYPE_AUDIO_VOLUME_KEY_CHANGE \<noteq> RES_TYPE_AUDIO_CAPTURE_STATUS_CHANGED"
  "RES_TYPE_AUDIO_SCENE_CHANGE \<noteq> RES_TYPE_INNER_AUDIO_STATE"
  "RES_TYPE_AUDIO_SCENE_CHANGE \<noteq> RES_TYPE_AUDIO_CAPTURE_STATUS_CHANGED"
  "RES_TYPE_OUTPUT_DEVICE_CHANGE \<noteq> RES_TYPE_INNER_AUDIO_STATE"
  "RES_TYPE_OUTPUT_DEVICE_CHANGE \<noteq> RES_TYPE_AUDIO_CAPTURE_STATUS_CHANGED"
  by (simp_all add: res_type_defs)

lemma member_pid_uid [simp]: "member ''pid'' (pid_uid_payload p u) = Some (JStr (to_string p))"
  by (simp add: pid_uid_payload_def member_def)

lemma told_report [simp]:
  "playing (ao_ReportData t v j st) p =
     (if t = RES_TYPE_INNER_AUDIO_STATE \<and> member ''pid'' j = Some (JStr (to_string p))
      then v = AUDIO_STATE_RUNNING else playing st p)"
  "recording (ao_ReportData t v j st) p =
     (if t = RES_TYPE_AUDIO_CAPTURE_STATUS_CHANGED \<and> member ''pid'' j = Some (JStr (to_string p))
      then v = AUDIO_CAPTURE_BEGIN else recording st p)"
  by (simp_all add: playing_def recording_def ao_ReportData_def)

lemma report_fields [simp]:
  "processRenderStateMap (ao_ReportData t v j st) = processRenderStateMap st"
  "capturerStateMap (ao_ReportData t v j st) = capturerStateMap st"
  "capturerInfoPidToUidMap (ao_ReportData t v j st) = capturerInfoPidToUidMap st"
  by (simp_all add: ao_ReportData_def)

lemma told_fields [simp]:
  "playing (st\<lparr>processRenderStateMap := a\<rparr>) = playing st" "playing (st\<lparr>renderState := b\<rparr>) = playing st"
  "playing (st\<lparr>capturerStateMap := c\<rparr>) = playing st" "playing (st\<lparr>capturerInfoPidToUidMap := d\<rparr>) = playing st"
  "playing (st\<lparr>volumeState := e\<rparr>) = playing st" "playing (st\<lparr>ao_mode := f\<rparr>) = playing st"
  "recording (st\<lparr>processRenderStateMap := a\<rparr>) = recording st" "recording (st\<lparr>renderState := b\<rparr>) = recording st"
  "recording (st\<lparr>capturerStateMap := c\<rparr>) = recording st" "recording (st\<lparr>capturerInfoPidToUidMap := d\<rparr>) = recording st"
  "recording (st\<lparr>volumeState := e\<rparr>) = recording st" "recording (st\<lparr>ao_mode := f\<rparr>) = recording st"
  by (simp_all add: playing_def recording_def fun_eq_iff)

section \<open>Playing\<close>

definition render_ok :: "ao_state \<Rightarrow> bool" where
  "render_ok st \<longleftrightarrow>
     (\<forall>p r. map_of (processRenderStateMap st) p = Some r \<longrightarrow> prs_pid r = p \<and> renderRunningSessionSet r \<noteq> []) \<and>
     (\<forall>p. playing st p \<longleftrightarrow> map_of (processRenderStateMap st) p \<noteq> None)"

text \<open>While a notification is worked on: the new processes are not told yet, the emptied ones are noted.\<close>

definition render_mid :: "ao_state \<times> i32 list \<times> i32 list \<Rightarrow> bool" where
  "render_mid s \<longleftrightarrow> (case s of (st, run, stop) \<Rightarrow>
     (\<forall>p r. map_of (processRenderStateMap st) p = Some r \<longrightarrow>
        prs_pid r = p \<and> (renderRunningSessionSet r = [] \<longrightarrow> p \<in> set stop)) \<and>
     (\<forall>p. map_of (processRenderStateMap st) p \<noteq> None \<longleftrightarrow> playing st p \<or> p \<in> set run))"

lemma insert_not_Nil [simp]: "List.insert x xs \<noteq> []"
  by (metis empty_iff empty_set in_set_insert insertI1 set_insert)

lemma render_mid_running: "render_mid s \<Longrightarrow> render_mid (ProcessRunningSessionState info s)"
  by (auto simp: render_mid_def ProcessRunningSessionState_def Let_def update_conv' split: prod.splits option.splits if_splits)

lemma render_mid_stop: "render_mid s \<Longrightarrow> render_mid (ProcessStopSessionState info s)"
  by (auto simp: render_mid_def ProcessStopSessionState_def Let_def update_conv' split: prod.splits option.splits if_splits)

lemma render_mid_report:
  "t \<noteq> RES_TYPE_INNER_AUDIO_STATE \<Longrightarrow> render_mid (ao_ReportData t v j st, run, stop) = render_mid (st, run, stop)"
  by (simp add: render_mid_def)

lemma render_mid_one: "render_mid s \<Longrightarrow> render_mid (render_one E info s)"
  by (cases s) (simp add: render_one_def HandleInnerAudioStateChange_def render_mid_running render_mid_stop render_mid_report)

lemma start_one_facts [simp]: "processRenderStateMap (start_one p st) = processRenderStateMap st"
  by (simp add: start_one_def split: option.split)

lemma start_all:
  assumes "\<forall>p r. map_of (processRenderStateMap st) p = Some r \<longrightarrow> prs_pid r = p"
  shows "processRenderStateMap (fold start_one ps st) = processRenderStateMap st \<and>
    (\<forall>q. playing (fold start_one ps st) q \<longleftrightarrow> playing st q \<or>
       q \<in> set ps \<and> (\<exists>r. map_of (processRenderStateMap st) q = Some r \<and> renderRunningSessionSet r \<noteq> []))"
  using assms
proof (induction ps arbitrary: st)
  case (Cons p ps)
  have "playing (start_one p st) q \<longleftrightarrow> playing st q \<or>
      q = p \<and> (\<exists>r. map_of (processRenderStateMap st) q = Some r \<and> renderRunningSessionSet r \<noteq> [])" for q
    using Cons.prems by (auto simp: start_one_def split: option.split)
  with Cons.IH[of "start_one p st"] Cons.prems show ?case by auto
qed simp

lemma stop_one_facts:
  assumes "\<forall>p r. map_of (processRenderStateMap st) p = Some r \<longrightarrow> prs_pid r = p"
  shows "map_of (processRenderStateMap (stop_one p st)) q =
      (case map_of (processRenderStateMap st) q of
         Some r \<Rightarrow> if q = p \<and> renderRunningSessionSet r = [] then None else Some r | None \<Rightarrow> None)"
    "playing (stop_one p st) q \<longleftrightarrow> playing st q \<and>
      \<not> (q = p \<and> (\<exists>r. map_of (processRenderStateMap st) q = Some r \<and> renderRunningSessionSet r = []))"
  using assms
  by (auto simp: stop_one_def delete_conv' AUDIO_STATE_RUNNING_def AUDIO_STATE_STOP_def split: option.splits)

lemma stop_all:
  assumes "\<forall>p r. map_of (processRenderStateMap st) p = Some r \<longrightarrow> prs_pid r = p"
  shows "(\<forall>q. map_of (processRenderStateMap (fold stop_one ps st)) q =
      (case map_of (processRenderStateMap st) q of
         Some r \<Rightarrow> if q \<in> set ps \<and> renderRunningSessionSet r = [] then None else Some r | None \<Rightarrow> None)) \<and>
    (\<forall>q. playing (fold stop_one ps st) q \<longleftrightarrow> playing st q \<and>
      \<not> (q \<in> set ps \<and> (\<exists>r. map_of (processRenderStateMap st) q = Some r \<and> renderRunningSessionSet r = [])))"
  using assms
proof (induction ps arbitrary: st)
  case (Cons p ps)
  note f = stop_one_facts[OF Cons.prems, of p]
  have "\<forall>q r. map_of (processRenderStateMap (stop_one p st)) q = Some r \<longrightarrow> prs_pid r = q"
    using Cons.prems f(1) by (auto split: option.splits if_splits)
  from Cons.IH[OF this] show ?case by (auto simp: f split: option.splits)
qed (simp split: option.split)

lemma renderer_ok:
  assumes "render_ok st" "OnRendererStateChange E infos st = Some st'"
  shows "render_ok st'"
proof -
  let ?is = "List.map_filter id infos"
  obtain st1 run stop where s: "fold (render_one E) ?is (st, [], []) = (st1, run, stop)"
    by (metis prod_cases3)
  let ?st2 = "st1\<lparr>renderState := fold (\<lambda>i. AList.update (ri_sessionId i) (ri_state i)) ?is []\<rparr>"
  have st': "st' = fold stop_one stop (fold start_one run ?st2)"
    using assms(2) s by (simp add: OnRendererStateChange_def HandleStartAudioStateEvent_def
        HandleStopAudioStateEvent_def Let_def split: if_splits)
  have "render_mid (st, [], [])" using assms(1) by (auto simp: render_ok_def render_mid_def)
  then have "render_mid (fold (render_one E) ?is (st, [], []))" by (rule fold_inv[rotated]) (rule render_mid_one)
  then have mid: "render_mid (?st2, run, stop)" using s by (simp add: render_mid_def)
  then have key: "\<forall>p r. map_of (processRenderStateMap ?st2) p = Some r \<longrightarrow> prs_pid r = p" by (simp add: render_mid_def)
  note a = start_all[OF key, of run]
  let ?st3 = "fold start_one run ?st2"
  have key3: "\<forall>p r. map_of (processRenderStateMap ?st3) p = Some r \<longrightarrow> prs_pid r = p" using key a by simp
  note b = stop_all[OF key3, of stop]
  have n: "renderRunningSessionSet r = [] \<Longrightarrow> p \<in> set stop" if "map_of (processRenderStateMap ?st2) p = Some r" for p r
    using mid that by (simp add: render_mid_def)
  have d: "map_of (processRenderStateMap ?st2) p \<noteq> None \<longleftrightarrow> playing ?st2 p \<or> p \<in> set run" for p
    using mid by (simp add: render_mid_def)
  show ?thesis
    unfolding render_ok_def st'
  proof (intro conjI allI impI)
    fix p r assume "map_of (processRenderStateMap (fold stop_one stop ?st3)) p = Some r"
    then show "prs_pid r = p" "renderRunningSessionSet r \<noteq> []"
      using a b key n by (auto split: option.splits if_splits)
  next
    fix p
    show "playing (fold stop_one stop ?st3) p \<longleftrightarrow> map_of (processRenderStateMap (fold stop_one stop ?st3)) p \<noteq> None"
      using a b n[of p] d[of p] by (cases "map_of (processRenderStateMap ?st2) p") auto
  qed
qed

section \<open>Recording\<close>

definition capture_ok :: "ao_state \<Rightarrow> bool" where
  "capture_ok st \<longleftrightarrow>
     (\<forall>p ss. map_of (capturerStateMap st) p = Some ss \<longrightarrow> ss \<noteq> []) \<and>
     (\<forall>p. recording st p \<longleftrightarrow> map_of (capturerStateMap st) p \<noteq> None) \<and>
     (\<forall>p. map_of (capturerInfoPidToUidMap st) p = None \<longleftrightarrow> map_of (capturerStateMap st) p = None)"

lemma capture_begin_ok: "capture_ok st \<Longrightarrow> capture_ok (ProcessCapturerBegin p u session st)"
  by (auto simp: capture_ok_def ProcessCapturerBegin_def Let_def update_conv')

lemma capture_end_ok: "capture_ok st \<Longrightarrow> capture_ok (ProcessCapturerEnd p u session st)"
  by (auto simp: capture_ok_def ProcessCapturerEnd_def Let_def update_conv' delete_conv' AUDIO_CAPTURE_BEGIN_def
      AUDIO_CAPTURE_END_def split: option.splits)

lemma capture_report_ok: "capture_ok st \<Longrightarrow> capture_ok (ReportCapturerStateChange infos st)"
  by (simp add: capture_ok_def ReportCapturerStateChange_def member_def)

lemma capture_one_ok: "capture_ok st \<Longrightarrow> capture_ok (capture_one E i st)"
  by (simp add: capture_one_def capture_begin_ok capture_end_ok split: option.split)

lemma capturer_ok: "capture_ok st \<Longrightarrow> capture_ok (OnCapturerStateChange E infos st)"
  unfolding OnCapturerStateChange_def by (rule fold_inv) (simp_all add: capture_one_ok capture_report_ok)

lemma end_all:
  "(\<forall>q. recording (fold end_one ps st) q \<longleftrightarrow> recording st q \<and> q \<notin> set ps) \<and>
   (\<forall>q. map_of (capturerInfoPidToUidMap (fold end_one ps st)) q =
      (if q \<in> set ps then None else map_of (capturerInfoPidToUidMap st) q))"
  by (induction ps arbitrary: st)
     (auto simp: end_one_def Let_def delete_conv' AUDIO_CAPTURE_BEGIN_def AUDIO_CAPTURE_END_def)

lemma unregister_ok: "capture_ok st \<Longrightarrow> capture_ok (ProcessCapturerEndCaseByUnregister st)"
proof -
  let ?ps = "map fst (capturerStateMap st)"
  assume ok: "capture_ok st"
  have none: "map_of (capturerStateMap st) p = None \<longleftrightarrow> p \<notin> set ?ps" for p by (simp add: map_of_eq_None_iff)
  have "\<not> recording (fold end_one ?ps st) p" "map_of (capturerInfoPidToUidMap (fold end_one ?ps st)) p = None" for p
    using end_all[of ?ps st] ok none[of p] unfolding capture_ok_def by metis+
  with ok show ?thesis by (auto simp: ProcessCapturerEndCaseByUnregister_def capture_ok_def)
qed

section \<open>Both\<close>

text \<open>What leaves the one side alone.\<close>

definition same_playing :: "ao_state \<Rightarrow> ao_state \<Rightarrow> bool" where
  "same_playing st st' \<longleftrightarrow> playing st' = playing st \<and> processRenderStateMap st' = processRenderStateMap st"

definition same_recording :: "ao_state \<Rightarrow> ao_state \<Rightarrow> bool" where
  "same_recording st st' \<longleftrightarrow> recording st' = recording st \<and> capturerStateMap st' = capturerStateMap st \<and>
     capturerInfoPidToUidMap st' = capturerInfoPidToUidMap st"

lemma same_playing_ok: "same_playing st st' \<Longrightarrow> render_ok st' = render_ok st"
  by (simp add: same_playing_def render_ok_def)

lemma same_recording_ok: "same_recording st st' \<Longrightarrow> capture_ok st' = capture_ok st"
  by (simp add: same_recording_def capture_ok_def)

lemma same_refl [simp]: "same_playing st st" "same_recording st st"
  by (simp_all add: same_playing_def same_recording_def)

lemma same_report [simp]:
  assumes "t \<noteq> RES_TYPE_INNER_AUDIO_STATE \<or> member ''pid'' j = None"
  shows "same_playing st (ao_ReportData t v j st') = same_playing st st'"
proof -
  have "playing (ao_ReportData t v j st') = playing st'" using assms by (intro ext) auto
  then show ?thesis by (simp only: same_playing_def report_fields)
qed

lemma same_report_recording [simp]:
  assumes "t \<noteq> RES_TYPE_AUDIO_CAPTURE_STATUS_CHANGED \<or> member ''pid'' j = None"
  shows "same_recording st (ao_ReportData t v j st') = same_recording st st'"
proof -
  have "recording (ao_ReportData t v j st') = recording st'" using assms by (intro ext) auto
  then show ?thesis by (simp only: same_recording_def report_fields)
qed

lemma same_fields [simp]:
  "same_playing st (st'\<lparr>capturerStateMap := c\<rparr>) = same_playing st st'"
  "same_playing st (st'\<lparr>capturerInfoPidToUidMap := d\<rparr>) = same_playing st st'"
  "same_playing st (st'\<lparr>volumeState := e\<rparr>) = same_playing st st'" "same_playing st (st'\<lparr>ao_mode := f\<rparr>) = same_playing st st'"
  "same_recording st (st'\<lparr>processRenderStateMap := a\<rparr>) = same_recording st st'"
  "same_recording st (st'\<lparr>renderState := b\<rparr>) = same_recording st st'"
  "same_recording st (st'\<lparr>volumeState := e\<rparr>) = same_recording st st'" "same_recording st (st'\<lparr>ao_mode := f\<rparr>) = same_recording st st'"
  by (simp_all add: same_playing_def same_recording_def)

lemma same_folds:
  "(\<And>x s. same_playing st s \<Longrightarrow> same_playing st (f x s)) \<Longrightarrow> same_playing st s \<Longrightarrow> same_playing st (fold f xs s)"
  "(\<And>x s. same_recording st s \<Longrightarrow> same_recording st (f x s)) \<Longrightarrow> same_recording st s \<Longrightarrow> same_recording st (fold f xs s)"
  by (rule fold_inv; assumption)+

lemma render_one_recording: "same_recording st (fst s) \<Longrightarrow> same_recording st (fst (render_one E info s))"
  by (cases s) (simp add: render_one_def HandleInnerAudioStateChange_def ProcessRunningSessionState_def
      ProcessStopSessionState_def Let_def split: option.split)

lemma renderer_recording:
  assumes "OnRendererStateChange E infos st = Some st'"
  shows "same_recording st st'"
proof -
  let ?is = "List.map_filter id infos"
  have one: "same_recording st (start_one p s)" "same_recording st (stop_one p s)" if "same_recording st s" for p s
    using that by (simp_all add: start_one_def stop_one_def split: option.split)
  have "same_recording st (fst (fold (render_one E) ?is (st, [], [])))"
    by (rule fold_inv) (simp_all add: render_one_recording)
  with assms show ?thesis
    by (auto simp: OnRendererStateChange_def HandleStartAudioStateEvent_def HandleStopAudioStateEvent_def Let_def one
        intro!: same_folds split: if_splits prod.splits)
qed

lemma capturer_playing: "same_playing st (OnCapturerStateChange E infos st)"
  unfolding OnCapturerStateChange_def
  by (rule same_folds)
     (simp_all add: capture_one_def ProcessCapturerBegin_def ProcessCapturerEnd_def ReportCapturerStateChange_def Let_def
       split: option.split)

lemma unregister_playing: "same_playing st (ProcessCapturerEndCaseByUnregister st)"
  by (auto simp: ProcessCapturerEndCaseByUnregister_def end_one_def Let_def intro!: same_folds)

lemma devices_same: "same_playing st (OnPreferredOutputDeviceUpdated descs st)" "same_recording st (OnPreferredOutputDeviceUpdated descs st)"
  by (auto simp: OnPreferredOutputDeviceUpdated_def intro!: same_folds)

inductive ao_step :: "ao_env \<Rightarrow> ao_state \<Rightarrow> ao_state \<Rightarrow> bool" for E where
  renderers: "OnRendererStateChange E infos st = Some st' \<Longrightarrow> ao_step E st st'"
| init: "ao_Init E renders captures st = Some st' \<Longrightarrow> ao_step E st st'"
| capturers: "ao_step E st (OnCapturerStateChange E cinfos st)"
| unregister: "ao_step E st (ProcessCapturerEndCaseByUnregister st)"
| ringer: "ao_step E st (OnRingerModeUpdated mode st)"
| volume: "ao_step E st (OnVolumeKeyEvent t v st)"
| scene: "ao_step E st (OnAudioSceneChange sc st)"
| devices: "ao_step E st (OnPreferredOutputDeviceUpdated descs st)"

lemma ao_step_ok: "ao_step E st st' \<Longrightarrow> render_ok st \<and> capture_ok st \<Longrightarrow> render_ok st' \<and> capture_ok st'"
proof (induction rule: ao_step.induct)
  case (renderers infos st st')
  then show ?case using renderer_ok same_recording_ok[OF renderer_recording] by blast
next
  case (init renders captures st st')
  then obtain st1 where st1: "OnRendererStateChange E renders st = Some st1" "st' = OnCapturerStateChange E captures st1"
    by (auto simp: ao_Init_def)
  then have "render_ok st1 \<and> capture_ok st1"
    using init renderer_ok same_recording_ok[OF renderer_recording] by blast
  then show ?case using st1(2) capturer_ok same_playing_ok[OF capturer_playing] by blast
next
  case (capturers st cinfos)
  then show ?case using capturer_ok same_playing_ok[OF capturer_playing] by blast
next
  case (unregister st)
  then show ?case using unregister_ok same_playing_ok[OF unregister_playing] by blast
next
  case (ringer st mode)
  have "same_playing st (OnRingerModeUpdated mode st)" "same_recording st (OnRingerModeUpdated mode st)"
    by (simp_all add: OnRingerModeUpdated_def)
  then show ?case using ringer same_playing_ok same_recording_ok by blast
next
  case (volume st t v)
  have "same_playing st (OnVolumeKeyEvent t v st)" "same_recording st (OnVolumeKeyEvent t v st)"
    by (simp_all add: OnVolumeKeyEvent_def)
  then show ?case using volume same_playing_ok same_recording_ok by blast
next
  case (scene st sc)
  have "same_playing st (OnAudioSceneChange sc st)" "same_recording st (OnAudioSceneChange sc st)"
    by (simp_all add: OnAudioSceneChange_def)
  then show ?case using scene same_playing_ok same_recording_ok by blast
next
  case (devices st descs)
  then show ?case using same_playing_ok[OF devices_same(1)] same_recording_ok[OF devices_same(2)] by blast
qed

lemma ao_new_ok: "render_ok ao_new \<and> capture_ok ao_new"
  by (simp add: render_ok_def capture_ok_def ao_new_def playing_def recording_def)

lemma ao_reachable_ok: "(ao_step E)\<^sup>*\<^sup>* ao_new st \<Longrightarrow> render_ok st \<and> capture_ok st"
  by (induction rule: rtranclp_induct) (use ao_new_ok ao_step_ok in blast)+

text \<open>
  C20. In every reachable state the last report about a process says that it is playing exactly when
  the observer has a running session of it, and that it is recording exactly when it has an open
  recording session, however the notifications of the framework come.
\<close>

theorem audio_reports_agree:
  assumes "(ao_step E)\<^sup>*\<^sup>* ao_new st"
  shows "(last_report RES_TYPE_INNER_AUDIO_STATE p (ao_reports st) = Some AUDIO_STATE_RUNNING \<longleftrightarrow>
      (\<exists>r. map_of (processRenderStateMap st) p = Some r \<and> renderRunningSessionSet r \<noteq> [])) \<and>
    (last_report RES_TYPE_AUDIO_CAPTURE_STATUS_CHANGED p (ao_reports st) = Some AUDIO_CAPTURE_BEGIN \<longleftrightarrow>
      (\<exists>ss. map_of (capturerStateMap st) p = Some ss \<and> ss \<noteq> []))"
proof -
  have "playing st p \<longleftrightarrow> (\<exists>r. map_of (processRenderStateMap st) p = Some r \<and> renderRunningSessionSet r \<noteq> [])"
    using ao_reachable_ok[OF assms] by (auto simp: render_ok_def)
  moreover have "recording st p \<longleftrightarrow> (\<exists>ss. map_of (capturerStateMap st) p = Some ss \<and> ss \<noteq> [])"
    using ao_reachable_ok[OF assms] by (auto simp: capture_ok_def)
  ultimately show ?thesis by (simp add: playing_def recording_def)
qed

text \<open>A process that plays two sessions and ends one of them; it records too.\<close>

definition demo_ax :: ao_env where
  "demo_ax = \<lparr>RENDERER_RUNNING = 2, RENDERER_STOPPED = 3, RENDERER_RELEASED = 4, RENDERER_PAUSED = 5,
     CAPTURER_RUNNING = 2, CAPTURER_STOPPED = 3, CAPTURER_RELEASED = 4\<rparr>"

definition demo_session :: "i32 \<Rightarrow> i32 \<Rightarrow> render_info option" where
  "demo_session session state = Some \<lparr>ri_uid = 100, ri_pid = 5, ri_sessionId = session, ri_state = state,
     ri_contentType = 0, ri_streamUsage = 0\<rparr>"

definition demo_audio :: "ao_state option" where
  "demo_audio = Option.bind (ao_Init demo_ax [demo_session 1 2, demo_session 2 2]
       [Some \<lparr>cap_uid = 100, cap_pid = 5, cap_sessionId = 9, cap_state = 2, cap_sourceType = 0\<rparr>] ao_new)
     (OnRendererStateChange demo_ax [demo_session 1 3, demo_session 2 2])"

lemma demo_audio_reports:
  "map_option (\<lambda>st. map (\<lambda>(t, v, j). (t, v)) (ao_reports st)) demo_audio = Some
     [(RES_TYPE_AUDIO_RENDER_STATE_CHANGE, 2), (RES_TYPE_AUDIO_RENDER_STATE_CHANGE, 2), (RES_TYPE_INNER_AUDIO_STATE, 0),
      (RES_TYPE_AUDIO_CAPTURE_STATUS_CHANGED, 2), (RES_TYPE_AUDIO_CAPTURE_STATUS_CHANGED, 0),
      (RES_TYPE_AUDIO_RENDER_STATE_CHANGE, 3)]"
  by code_simp

theorem audio_reports_agree_witness:
  "\<exists>st. demo_audio = Some st \<and> (\<exists>r. map_of (processRenderStateMap st) 5 = Some r \<and> renderRunningSessionSet r \<noteq> [])"
proof -
  obtain st0 st where st0: "ao_Init demo_ax [demo_session 1 2, demo_session 2 2]
       [Some \<lparr>cap_uid = 100, cap_pid = 5, cap_sessionId = 9, cap_state = 2, cap_sourceType = 0\<rparr>] ao_new = Some st0"
    and st: "OnRendererStateChange demo_ax [demo_session 1 3, demo_session 2 2] st0 = Some st" "demo_audio = Some st"
    using demo_audio_reports by (auto simp: demo_audio_def bind_eq_Some_conv)
  have "(ao_step demo_ax)\<^sup>*\<^sup>* ao_new st"
    using ao_step.init[OF st0] ao_step.renderers[OF st(1)] by (meson r_into_rtranclp rtranclp_trans)
  note agree = audio_reports_agree[OF this, of 5]
  have "map_option (\<lambda>st. last_report RES_TYPE_INNER_AUDIO_STATE 5 (ao_reports st)) demo_audio = Some (Some AUDIO_STATE_RUNNING)"
    by code_simp
  then have "last_report RES_TYPE_INNER_AUDIO_STATE 5 (ao_reports st) = Some AUDIO_STATE_RUNNING" by (simp add: st(2))
  with agree st(2) show ?thesis by blast
qed

end
