(* ===== verification/App_Observer.thy ===== *)
theory App_Observer
  imports Cgroup_Events
begin

text \<open>
  The application state observer (sched\_controller/observer/src/app\_state\_observer.cpp): it turns
  the notifications of the application manager into reports whose payloads are texts.  The
  manager's data are records with the fields the code reads; its state constants and its test for
  ui extensions are parameters.  Reports and calls are an output list.
\<close>

section \<open>Data\<close>

datatype life_state = LCreate | LReady | LConnected | LDisconnected | LTerminated | LForeground | LBackground

record app_obs_env =
  ox_extension_state :: "life_state \<Rightarrow> i32"
  ox_ability_state :: "life_state \<Rightarrow> i32"
  ox_IsUIExtension :: "i32 \<Rightarrow> bool"

record app_state_data =
  asd_pid :: i32
  asd_uid :: i32
  asd_bundleName :: string
  asd_state :: i32
  asd_preloadMode :: i32
  asd_isFocused :: bool
  asd_extensionType :: i32
  asd_isPreloadModule :: bool
  asd_callerBundleName :: string
  asd_byCallStatus :: i32

record ability_state_data =
  abd_pid :: i32
  abd_uid :: i32
  abd_bundleName :: string
  abd_abilityName :: string
  abd_token :: bool
  abd_abilityState :: i32
  abd_isInnerNotify :: bool
  abd_processType :: i32
  abd_abilityRecordId :: i32
  abd_abilityType :: i32
  abd_callerUid :: i32
  abd_preloadMode :: i32
  abd_extensionAbilityType :: i32
  abd_callerBundleName :: string

record process_data =
  pd_pid :: i32
  pd_uid :: i32
  pd_bundleName :: string
  pd_processType :: i32
  pd_renderUid :: i32
  pd_state :: i32
  pd_extensionType :: i32
  pd_isKeepAlive :: bool
  pd_isTestMode :: bool
  pd_processName :: string
  pd_hostPid :: i32
  pd_callerPid :: i32
  pd_callerUid :: i32
  pd_killReason :: string
  pd_isPreloadModule :: bool
  pd_preloadMode :: i32
  pd_isPreloadUIExtension :: bool

record page_state_data =
  psd_bundleName :: string
  psd_moduleName :: string
  psd_abilityName :: string
  psd_pageName :: string
  psd_targetBundleName :: string
  psd_targetModuleName :: string

datatype ob_out =
    ObReport u32 i64 json
  | ObProcessState i32 i32
  | ObAppState i32 i32
  | ObStartup string string

definition CALL_TO_BACKGROUND :: i32 where "CALL_TO_BACKGROUND = 1"
definition APP_START_UP :: i32 where "APP_START_UP = 0"

definition int_text :: "int \<Rightarrow> json" where "int_text x = JStr (to_string x)"
definition u32_text :: "i32 \<Rightarrow> json" where "u32_text x = JStr (to_string (x mod 4294967296))"
definition bool_text :: "bool \<Rightarrow> json" where "bool_text b = JStr (to_string (of_bool b))"

section \<open>What is accepted\<close>

definition ValidateAppStateData :: "app_state_data \<Rightarrow> bool" where
  "ValidateAppStateData d \<longleftrightarrow> 0 < asd_uid d \<and> asd_bundleName d \<noteq> []"

definition ValidateAbilityStateData :: "ability_state_data \<Rightarrow> bool" where
  "ValidateAbilityStateData d \<longleftrightarrow>
     0 < abd_uid d \<and> 0 \<le> abd_pid d \<and> abd_bundleName d \<noteq> [] \<and> abd_abilityName d \<noteq> [] \<and> abd_token d"

definition ValidateProcessData :: "process_data \<Rightarrow> bool" where
  "ValidateProcessData d \<longleftrightarrow> 0 < pd_uid d \<and> 0 \<le> pd_pid d \<and> pd_bundleName d \<noteq> []"

definition ValidateUIExtensionAbilityStateData :: "ability_state_data \<Rightarrow> bool" where
  "ValidateUIExtensionAbilityStateData d \<longleftrightarrow> 0 \<le> abd_extensionAbilityType d"

definition ValidatePageStateData :: "page_state_data \<Rightarrow> bool" where
  "ValidatePageStateData d \<longleftrightarrow> CheckBundleName (psd_bundleName d) \<and> psd_pageName d \<noteq> []"

section \<open>Abilities and extensions\<close>

definition extensionStateToAbilityState :: "app_obs_env \<Rightarrow> (i32 \<times> i32) list" where
  "extensionStateToAbilityState E =
     map (\<lambda>s. (ox_extension_state E s, ox_ability_state E s))
       [LCreate, LReady, LConnected, LDisconnected, LTerminated, LForeground, LBackground]"

definition IsUIExtensionAbilityStateChanged :: "app_obs_env \<Rightarrow> ability_state_data \<Rightarrow> bool" where
  "IsUIExtensionAbilityStateChanged E d =
     (if \<not> ValidateUIExtensionAbilityStateData d then False
      else if map_of (extensionStateToAbilityState E) (abd_abilityState d) = None then False
      else ox_IsUIExtension E (abd_extensionAbilityType d))"

text \<open>The state that is reported, and the two members a ui extension adds.\<close>

definition reported_state :: "app_obs_env \<Rightarrow> ability_state_data \<Rightarrow> i32 \<times> (string \<times> json) list" where
  "reported_state E d =
     (if IsUIExtensionAbilityStateChanged E d then
        (case map_of (extensionStateToAbilityState E) (abd_abilityState d) of
           Some s \<Rightarrow> (s, [(''processType'', int_text (abd_processType d)), (''uiExtensionState'', int_text (abd_abilityState d))])
         | None \<Rightarrow> (abd_abilityState d, []))
      else (abd_abilityState d, []))"

definition ability_payload :: "app_obs_env \<Rightarrow> ability_state_data \<Rightarrow> json" where
  "ability_payload E d =
     JObj (snd (reported_state E d) @
       [(''pid'', int_text (abd_pid d)), (''uid'', int_text (abd_uid d)), (''bundleName'', JStr (abd_bundleName d)),
        (''abilityName'', JStr (abd_abilityName d)), (''recordId'', int_text (abd_abilityRecordId d)),
        (''abilityType'', int_text (abd_abilityType d)), (''abilityState'', int_text (fst (reported_state E d))),
        (''callerUid'', int_text (abd_callerUid d)), (''preloadMode'', int_text (abd_preloadMode d)),
        (''extensionAbilityType'', int_text (abd_extensionAbilityType d))])"

definition IsAppStartUp :: "i32 \<Rightarrow> bool" where
  "IsAppStartUp abilityState \<longleftrightarrow> abilityState = APP_START_UP"

definition OnAbilityStateChanged :: "app_obs_env \<Rightarrow> ability_state_data \<Rightarrow> ob_out list" where
  "OnAbilityStateChanged E d =
     (if \<not> ValidateAbilityStateData d \<or> abd_isInnerNotify d then []
      else
        ObReport RES_TYPE_ABILITY_STATE_CHANGE (fst (reported_state E d)) (ability_payload E d) #
        (if IsAppStartUp (fst (reported_state E d))
         then [ObStartup (to_string (abd_uid d)) (abd_bundleName d)] else []))"

definition extension_payload :: "ability_state_data \<Rightarrow> json" where
  "extension_payload d =
     JObj [(''pid'', int_text (abd_pid d)), (''uid'', int_text (abd_uid d)), (''bundleName'', JStr (abd_bundleName d)),
       (''abilityName'', JStr (abd_abilityName d)), (''recordId'', int_text (abd_abilityRecordId d)),
       (''extensionState'', int_text (abd_abilityState d)), (''abilityType'', int_text (abd_abilityType d)),
       (''extensionAbilityType'', int_text (abd_extensionAbilityType d)), (''callerBundleName'', JStr (abd_callerBundleName d))]"

definition OnExtensionStateChanged :: "app_obs_env \<Rightarrow> ability_state_data \<Rightarrow> ob_out list" where
  "OnExtensionStateChanged E d =
     (if \<not> ValidateAbilityStateData d then []
      else if IsUIExtensionAbilityStateChanged E d then OnAbilityStateChanged E d
      else [ObReport RES_TYPE_EXTENSION_STATE_CHANGE (abd_abilityState d) (extension_payload d)])"

section \<open>Processes\<close>

definition MarshallingProcessData :: "process_data \<Rightarrow> json" where
  "MarshallingProcessData d =
     JObj [(''pid'', int_text (pd_pid d)), (''uid'', int_text (pd_uid d)), (''processType'', int_text (pd_processType d)),
       (''renderUid'', int_text (pd_renderUid d)), (''bundleName'', JStr (pd_bundleName d)), (''state'', u32_text (pd_state d)),
       (''extensionType'', u32_text (pd_extensionType d)), (''isKeepAlive'', bool_text (pd_isKeepAlive d)),
       (''isTestMode'', bool_text (pd_isTestMode d)), (''processName'', JStr (pd_processName d)),
       (''hostPid'', int_text (pd_hostPid d)), (''callerPid'', int_text (pd_callerPid d)),
       (''callerUid'', int_text (pd_callerUid d)), (''killReason'', JStr (pd_killReason d)),
       (''isPreloadModule'', bool_text (pd_isPreloadModule d)), (''preloadMode'', int_text (pd_preloadMode d)),
       (''isPreloadUIExtension'', bool_text (pd_isPreloadUIExtension d))]"

definition OnProcessCreated :: "process_data \<Rightarrow> ob_out list" where
  "OnProcessCreated d =
     (if \<not> ValidateProcessData d then []
      else [ObReport RES_TYPE_PROCESS_STATE_CHANGE PROCESS_CREATED (MarshallingProcessData d)])"

definition OnProcessDied :: "process_data \<Rightarrow> ob_out list" where
  "OnProcessDied d =
     (if \<not> ValidateProcessData d then []
      else [ObReport RES_TYPE_PROCESS_STATE_CHANGE PROCESS_DIED (MarshallingProcessData d),
            ObProcessState (wrap_s32 PROCESS_DIED) (pd_pid d)])"

definition OnProcessStateChanged :: "process_data \<Rightarrow> ob_out list" where
  "OnProcessStateChanged d =
     (if \<not> ValidateProcessData d then []
      else [ObReport RES_TYPE_PROCESS_STATE_CHANGE (pd_state d) (MarshallingProcessData d),
            ObProcessState (pd_state d) (pd_pid d)])"

definition OnProcessPreForegroundChanged :: "bool \<Rightarrow> i32 \<Rightarrow> i32 \<Rightarrow> string \<Rightarrow> ob_out list" where
  "OnProcessPreForegroundChanged isPreForeground p u bundleName =
     (if u \<le> 0 \<or> p \<le> 0 then []
      else [ObReport RES_TYPE_PROCESS_PRE_FOREGROUND_CHANGE 0
        (JObj [(''isPreForeground'', JBool isPreForeground), (''pid'', JInt p), (''uid'', JInt u),
          (''bundleName'', JStr bundleName)])])"

section \<open>Applications and pages\<close>

definition foreground_payload :: "app_state_data \<Rightarrow> json" where
  "foreground_payload d =
     JObj [(''pid'', int_text (asd_pid d)), (''uid'', int_text (asd_uid d)), (''bundleName'', JStr (asd_bundleName d)),
       (''preloadMode'', int_text (asd_preloadMode d)), (''isFocused'', bool_text (asd_isFocused d))]"

definition OnForegroundApplicationChanged :: "app_state_data \<Rightarrow> ob_out list" where
  "OnForegroundApplicationChanged d =
     (if \<not> ValidateAppStateData d then []
      else [ObReport RES_TYPE_APP_STATE_CHANGE (asd_state d) (foreground_payload d)])"

definition application_payload :: "app_state_data \<Rightarrow> json" where
  "application_payload d =
     JObj [(''pid'', int_text (asd_pid d)), (''uid'', int_text (asd_uid d)), (''bundleName'', JStr (asd_bundleName d)),
       (''extensionType'', u32_text (asd_extensionType d)), (''isPreload'', bool_text (asd_isPreloadModule d)),
       (''preloadMode'', int_text (asd_preloadMode d)), (''state'', int_text (asd_state d)),
       (''callerBundleName'', JStr (asd_callerBundleName d)),
       (''isStartedByCallToBackground'', bool_text (asd_byCallStatus d = CALL_TO_BACKGROUND))]"

definition OnApplicationStateChanged :: "app_state_data \<Rightarrow> ob_out list" where
  "OnApplicationStateChanged d =
     (if \<not> ValidateAppStateData d then []
      else [ObReport RES_TYPE_APP_STATE_CHANGE (asd_state d) (application_payload d), ObAppState (asd_state d) (asd_pid d)])"

definition MarshallingAppStateData :: "app_state_data \<Rightarrow> json" where
  "MarshallingAppStateData d =
     JObj [(''pid'', JInt (asd_pid d)), (''uid'', JInt (asd_uid d)), (''bundleName'', JStr (asd_bundleName d)),
       (''state'', JUint (nat (asd_state d mod 4294967296))), (''extensionType'', JUint (nat (asd_extensionType d mod 4294967296))),
       (''isFocused'', JBool (asd_isFocused d)), (''preloadMode'', int_text (asd_preloadMode d))]"

definition OnAppStateChanged :: "app_state_data \<Rightarrow> ob_out list" where
  "OnAppStateChanged d =
     (if \<not> ValidateAppStateData d then []
      else [ObReport RES_TYPE_ON_APP_STATE_CHANGED (asd_state d) (MarshallingAppStateData d), ObAppState (asd_state d) (asd_pid d)])"

definition OnAppCacheStateChanged :: "app_state_data \<Rightarrow> ob_out list" where
  "OnAppCacheStateChanged d =
     (if \<not> ValidateAppStateData d then []
      else [ObReport RES_TYPE_KEY_PERF_SCENE (asd_state d)
        (set_member ''extType'' (JStr ''10008'') (MarshallingAppStateData d))])"

definition OnAppStopped :: "app_state_data \<Rightarrow> ob_out list" where
  "OnAppStopped d =
     (if \<not> ValidateAppStateData d then []
      else [ObReport RES_TYPE_APP_STOPPED (asd_state d) (MarshallingAppStateData d)])"

definition MarshallingPageStateData :: "page_state_data \<Rightarrow> json" where
  "MarshallingPageStateData d =
     JObj [(''bundleName'', JStr (psd_bundleName d)), (''moduleName'', JStr (psd_moduleName d)),
       (''abilityName'', JStr (psd_abilityName d)), (''pageName'', JStr (psd_pageName d)),
       (''targetBundleName'', JStr (psd_targetBundleName d)), (''targetModuleName'', JStr (psd_targetModuleName d))]"

definition OnPageShow :: "page_state_data \<Rightarrow> ob_out list" where
  "OnPageShow d =
     (if \<not> ValidatePageStateData d then [] else [ObReport RES_TYPE_PAGE_CHANGE 0 (MarshallingPageStateData d)])"

section \<open>What the cgroup plugin reads\<close>

definition i32_range :: "i32 \<Rightarrow> bool" where
  "i32_range x \<longleftrightarrow> - 2147483648 \<le> x \<and> x \<le> 2147483647"

lemma atoi_text: "i32_range x \<Longrightarrow> atoi (to_string x) = x"
  by (simp add: i32_range_def atoi_to_string)

lemma atoi_any_text: "atoi (to_string y) = wrap_s32 y"
  by (simp add: atoi_def parse_to_string signed_val_abs)

lemma atoi_u32_text: "i32_range x \<Longrightarrow> atoi (to_string (x mod 4294967296)) = x"
  unfolding atoi_any_text by (simp add: wrap_s32_def i32_range_def mod_add_left_eq)

lemmas reads = ParseValue_def ParseString_def member_def int_text_def u32_text_def bool_text_def

text \<open>
  C28. What the observer writes about an ability is what the handler of the cgroup plugin reads: the
  same identifiers, names and modes, and the state in the numbering of abilities.
\<close>

theorem ability_report_roundtrip:
  assumes "ValidateAbilityStateData d" "\<not> abd_isInnerNotify d"
    and "list_all i32_range [abd_pid d, abd_uid d, abd_abilityRecordId d, abd_abilityType d, abd_callerUid d,
      abd_preloadMode d, fst (reported_state E d)]"
  shows "\<exists>payload rest. OnAbilityStateChanged E d = ObReport RES_TYPE_ABILITY_STATE_CHANGE (fst (reported_state E d)) payload # rest \<and>
    ParseConfig payload = Some (abd_uid d, abd_pid d, abd_bundleName d, abd_abilityName d, abd_abilityRecordId d,
      fst (reported_state E d), abd_abilityType d, abd_callerUid d, abd_preloadMode d)"
proof -
  have m: "member n (ability_payload E d) = (case map_of (snd (reported_state E d)) n of Some v \<Rightarrow> Some v
      | None \<Rightarrow> member n (JObj [(''pid'', int_text (abd_pid d)), (''uid'', int_text (abd_uid d)), (''bundleName'', JStr (abd_bundleName d)),
        (''abilityName'', JStr (abd_abilityName d)), (''recordId'', int_text (abd_abilityRecordId d)),
        (''abilityType'', int_text (abd_abilityType d)), (''abilityState'', int_text (fst (reported_state E d))),
        (''callerUid'', int_text (abd_callerUid d)), (''preloadMode'', int_text (abd_preloadMode d)),
        (''extensionAbilityType'', int_text (abd_extensionAbilityType d))]))" for n
    by (simp add: ability_payload_def member_def map_add_def split: option.split)
  have none: "map_of (snd (reported_state E d)) n = None" if "n \<notin> {''processType'', ''uiExtensionState''}" for n
    using that by (auto simp: reported_state_def split: option.split)
  have "ParseConfig (ability_payload E d) = Some (abd_uid d, abd_pid d, abd_bundleName d, abd_abilityName d, abd_abilityRecordId d,
      fst (reported_state E d), abd_abilityType d, abd_callerUid d, abd_preloadMode d)"
    using assms(3) by (simp add: ParseConfig_def ParseValue_def ParseString_def m none) (simp add: member_def int_text_def atoi_text)
  then show ?thesis using assms(1,2) by (simp add: OnAbilityStateChanged_def)
qed

text \<open>
  What the observer writes about a process that is created is what the cgroup plugin reads, the
  unsigned text of the extension type included.
\<close>

theorem process_report_roundtrip:
  assumes "ValidateProcessData d"
    and "list_all i32_range [pd_pid d, pd_uid d, pd_hostPid d, pd_extensionType d, pd_processType d, pd_preloadMode d]"
  shows "\<exists>payload. OnProcessCreated d = [ObReport RES_TYPE_PROCESS_STATE_CHANGE PROCESS_CREATED payload] \<and>
    ParseProcessCreateInfo payload = Some \<lparr>ci_uid = pd_uid d, ci_pid = pd_pid d, ci_bundleName = pd_bundleName d,
      ci_hostPid = pd_hostPid d, ci_extensionType = pd_extensionType d, ci_processType = pd_processType d,
      ci_preloadMode = pd_preloadMode d\<rparr> \<and>
    ParseString ''processName'' payload = Some (pd_processName d) \<and>
    ParseValue ''isPreloadUIExtension'' payload = Some (of_bool (pd_isPreloadUIExtension d))"
proof -
  have "i32_range (of_bool b)" for b by (simp add: i32_range_def)
  then show ?thesis
    using assms by (simp add: OnProcessCreated_def MarshallingProcessData_def ParseProcessCreateInfo_def reads atoi_text atoi_u32_text)
qed

text \<open>
  A change of the foreground application never reaches the records of the cgroup plugin: the
  observer reports it without the member state, and the handler of the event drops such a payload.
\<close>

theorem foreground_report_dropped:
  assumes "ObReport t v payload \<in> set (OnForegroundApplicationChanged d)"
  shows "t = RES_TYPE_APP_STATE_CHANGE \<and> HandleApplicationStateChanged E payload st = st"
  using assms
  by (auto simp: OnForegroundApplicationChanged_def HandleApplicationStateChanged_def foreground_payload_def reads
      split: if_splits)

definition demo_ability :: ability_state_data where
  "demo_ability = \<lparr>abd_pid = 5, abd_uid = 100, abd_bundleName = ''a'', abd_abilityName = ''b'', abd_token = True,
     abd_abilityState = 20, abd_isInnerNotify = False, abd_processType = 0, abd_abilityRecordId = 3, abd_abilityType = 1,
     abd_callerUid = 7, abd_preloadMode = - 1, abd_extensionAbilityType = 2, abd_callerBundleName = ''c''\<rparr>"

definition demo_ox :: app_obs_env where
  "demo_ox = \<lparr>ox_extension_state = (\<lambda>s. case s of LForeground \<Rightarrow> 20 | _ \<Rightarrow> 21),
     ox_ability_state = (\<lambda>s. case s of LForeground \<Rightarrow> 9 | _ \<Rightarrow> 1), ox_IsUIExtension = (\<lambda>t. t = 2)\<rparr>"

lemma demo_ability_state: "fst (reported_state demo_ox demo_ability) = 9"
  by code_simp

theorem ability_report_roundtrip_witness:
  "\<exists>payload. OnAbilityStateChanged demo_ox demo_ability = [ObReport RES_TYPE_ABILITY_STATE_CHANGE 9 payload] \<and>
     ParseConfig payload = Some (100, 5, ''a'', ''b'', 3, 9, 1, 7, - 1)"
proof -
  have "ValidateAbilityStateData demo_ability" "\<not> abd_isInnerNotify demo_ability"
    by (simp_all add: ValidateAbilityStateData_def demo_ability_def)
  moreover have "list_all i32_range [abd_pid demo_ability, abd_uid demo_ability, abd_abilityRecordId demo_ability,
      abd_abilityType demo_ability, abd_callerUid demo_ability, abd_preloadMode demo_ability, fst (reported_state demo_ox demo_ability)]"
    unfolding demo_ability_state by (simp add: demo_ability_def i32_range_def)
  ultimately obtain payload rest where r:
    "OnAbilityStateChanged demo_ox demo_ability = ObReport RES_TYPE_ABILITY_STATE_CHANGE 9 payload # rest"
    "ParseConfig payload = Some (100, 5, ''a'', ''b'', 3, 9, 1, 7, - 1)"
    using ability_report_roundtrip[of demo_ability demo_ox] demo_ability_state by (auto simp: demo_ability_def)
  moreover have "rest = []"
    using r(1) demo_ability_state by (simp add: OnAbilityStateChanged_def IsAppStartUp_def APP_START_UP_def split: if_splits)
  ultimately show ?thesis by blast
qed

definition demo_process :: process_data where
  "demo_process = \<lparr>pd_pid = 5, pd_uid = 100, pd_bundleName = ''a'', pd_processType = 1, pd_renderUid = 0, pd_state = 0,
     pd_extensionType = - 1, pd_isKeepAlive = False, pd_isTestMode = False, pd_processName = ''p'', pd_hostPid = 4,
     pd_callerPid = 0, pd_callerUid = 0, pd_killReason = [], pd_isPreloadModule = False, pd_preloadMode = 0,
     pd_isPreloadUIExtension = True\<rparr>"

theorem process_report_roundtrip_witness:
  "\<exists>payload. OnProcessCreated demo_process = [ObReport RES_TYPE_PROCESS_STATE_CHANGE PROCESS_CREATED payload] \<and>
     map_option ci_extensionType (ParseProcessCreateInfo payload) = Some (- 1)"
proof -
  have "ValidateProcessData demo_process" by (simp add: ValidateProcessData_def demo_process_def)
  moreover have "list_all i32_range [pd_pid demo_process, pd_uid demo_process, pd_hostPid demo_process,
      pd_extensionType demo_process, pd_processType demo_process, pd_preloadMode demo_process]"
    by (simp add: demo_process_def i32_range_def)
  ultimately show ?thesis using process_report_roundtrip[of demo_process] by (auto simp: demo_process_def)
qed

definition demo_app_state :: app_state_data where
  "demo_app_state = \<lparr>asd_pid = 5, asd_uid = 100, asd_bundleName = ''a'', asd_state = 2, asd_preloadMode = 0, asd_isFocused = True,
     asd_extensionType = 0, asd_isPreloadModule = False, asd_callerBundleName = [], asd_byCallStatus = 0\<rparr>"

theorem foreground_report_dropped_witness:
  "\<forall>E st. HandleApplicationStateChanged E (foreground_payload demo_app_state) st = st"
proof -
  have "ObReport RES_TYPE_APP_STATE_CHANGE 2 (foreground_payload demo_app_state) \<in> set (OnForegroundApplicationChanged demo_app_state)"
    by (simp add: OnForegroundApplicationChanged_def ValidateAppStateData_def demo_app_state_def)
  then show ?thesis using foreground_report_dropped by blast
qed

end
