(* ===== verification/Sys_Event_Observer.thy ===== *)
theory Sys_Event_Observer
  imports App_Observer
begin

text \<open>
  The system event observer (sched\_controller/observer/src/hisysevent\_observer.cpp): events of the
  camera, of running locks, wifi and codecs become reports with the process and the user as texts.
  JSON text is read by a parameter; an event is its text, a null pointer is \<open>None\<close>.
\<close>

section \<open>Data\<close>

definition HISYS_MAX_LENGTH :: nat where "HISYS_MAX_LENGTH = 1024"
definition CAMERACONNECT :: i64 where "CAMERACONNECT = 0"
definition CAMERADISCONNECT :: i64 where "CAMERADISCONNECT = 1"
definition RUNNINGLOCK_DISABLE :: i64 where "RUNNINGLOCK_DISABLE = 0"
definition RUNNINGLOCK_ENABLE :: i64 where "RUNNINGLOCK_ENABLE = 1"
definition RUNNINGLOCK_PROXIED :: i64 where "RUNNINGLOCK_PROXIED = 2"
definition WIFI_STATE_SCAN :: i64 where "WIFI_STATE_SCAN = 2"
definition WIFI_STATE_CONNECTED :: i64 where "WIFI_STATE_CONNECTED = 3"
definition WIFI_STATE_DISCONNECTED :: i64 where "WIFI_STATE_DISCONNECTED = 5"

section \<open>The events\<close>

text \<open>\<open>is_number_integer\<close> with \<open>get<int32_t>\<close>, and the payload of some of them.\<close>

definition int_member :: "string \<Rightarrow> json \<Rightarrow> i32 option" where
  "int_member name root = Option.bind (member name root) json_int32"

definition hs_ids :: "string \<Rightarrow> string \<Rightarrow> json \<Rightarrow> (string \<times> json) list option" where
  "hs_ids uidName pidName root =
     do { u \<leftarrow> int_member uidName root; p \<leftarrow> int_member pidName root;
          Some [(''uid'', int_text u), (''pid'', int_text p)] }"

definition ProcessAvCodecEvent :: "json \<Rightarrow> string \<Rightarrow> ob_out list" where
  "ProcessAvCodecEvent root eventName =
     (case (do { ids \<leftarrow> hs_ids ''CLIENT_UID'' ''CLIENT_PID'' root; i \<leftarrow> int_member ''CODEC_INSTANCE_ID'' root;
                 Some (ids @ [(''instanceId'', int_text i)]) }) of
        None \<Rightarrow> []
      | Some payload \<Rightarrow>
          if eventName = ''CODEC_START_INFO'' then [ObReport RES_TYPE_AV_CODEC_STATE CODEC_START_INFO (JObj payload)]
          else if eventName = ''CODEC_STOP_INFO'' then [ObReport RES_TYPE_AV_CODEC_STATE CODEC_STOP_INFO (JObj payload)]
          else [])"

text \<open>The type is read as an unsigned number, the state as a signed one.\<close>

definition ProcessRunningLockEvent :: "json \<Rightarrow> string \<Rightarrow> ob_out list" where
  "ProcessRunningLockEvent root eventName =
     (case (do { ids \<leftarrow> hs_ids ''UID'' ''PID'' root; t \<leftarrow> int_member ''TYPE'' root; s \<leftarrow> int_member ''STATE'' root;
                 Some (ids @ [(''type'', u32_text t)], s) }) of
        None \<Rightarrow> []
      | Some (payload, s) \<Rightarrow>
          if s = 0 then [ObReport RES_TYPE_RUNNINGLOCK_STATE RUNNINGLOCK_DISABLE (JObj payload)]
          else if s = 1 then [ObReport RES_TYPE_RUNNINGLOCK_STATE RUNNINGLOCK_ENABLE (JObj payload)]
          else if s = 2 \<or> s = 3 then [ObReport RES_TYPE_RUNNINGLOCK_STATE RUNNINGLOCK_PROXIED (JObj payload)]
          else [])"

definition ProcessCameraEvent :: "json \<Rightarrow> string \<Rightarrow> ob_out list" where
  "ProcessCameraEvent root eventName =
     (case hs_ids ''UID'' ''PID'' root of
        None \<Rightarrow> []
      | Some payload \<Rightarrow>
          [ObReport RES_TYPE_REPORT_CAMERA_STATE
             (if eventName = ''CAMERA_CONNECT'' then CAMERACONNECT else CAMERADISCONNECT) (JObj payload)])"

definition ProcessWifiEvent :: "json \<Rightarrow> string \<Rightarrow> ob_out list" where
  "ProcessWifiEvent root eventName =
     (case (do { ids \<leftarrow> hs_ids ''uid_'' ''pid_'' root; t \<leftarrow> int_member ''TYPE'' root; Some (ids, t) }) of
        None \<Rightarrow> []
      | Some (payload, connectionType) \<Rightarrow>
          if eventName = ''WIFI_CONNECTION'' then
            (if connectionType = 0 then [ObReport RES_TYPE_WIFI_CONNECT_STATE_CHANGE WIFI_STATE_CONNECTED (JObj payload)]
             else if connectionType = 1 then [ObReport RES_TYPE_WIFI_CONNECT_STATE_CHANGE WIFI_STATE_DISCONNECTED (JObj payload)]
             else [])
          else if eventName = ''WIFI_SCAN'' then [ObReport RES_TYPE_WIFI_CONNECT_STATE_CHANGE WIFI_STATE_SCAN (JObj payload)]
          else [])"

text \<open>The table of handlers; the name is looked up as a C string.\<close>

definition handleObserverMap :: "(string \<times> (json \<Rightarrow> string \<Rightarrow> ob_out list)) list" where
  "handleObserverMap =
     [(''RUNNINGLOCK'', ProcessRunningLockEvent), (''CAMERA_CONNECT'', ProcessCameraEvent),
      (''CAMERA_DISCONNECT'', ProcessCameraEvent), (''WIFI_CONNECTION'', ProcessWifiEvent), (''WIFI_SCAN'', ProcessWifiEvent)]"

definition ProcessHiSysEvent :: "string \<Rightarrow> json \<Rightarrow> ob_out list" where
  "ProcessHiSysEvent eventName root =
     (if member ''domain_'' root = Some (JStr ''AV_CODEC'') then ProcessAvCodecEvent root eventName
      else (case map_of handleObserverMap (c_str eventName) of None \<Rightarrow> [] | Some f \<Rightarrow> f root eventName))"

definition CheckJsonValue :: "json \<Rightarrow> string list \<Rightarrow> bool" where
  "CheckJsonValue v params \<longleftrightarrow> list_all (\<lambda>p. member p v \<noteq> None) params"

definition OnEvent :: "(string \<Rightarrow> json option) \<Rightarrow> string option \<Rightarrow> ob_out list" where
  "OnEvent parse sysEvent =
     (case sysEvent of
        None \<Rightarrow> []
      | Some eventDetail \<Rightarrow>
          if HISYS_MAX_LENGTH < length eventDetail then []
          else (case parse eventDetail of
              None \<Rightarrow> []
            | Some root \<Rightarrow>
                if \<not> CheckJsonValue root [''domain_'', ''name_''] then []
                else (case (member ''domain_'' root, member ''name_'' root) of
                    (Some (JStr _), Some (JStr eventName)) \<Rightarrow> ProcessHiSysEvent eventName root
                  | _ \<Rightarrow> [])))"

section \<open>What the reports carry\<close>

lemma hs_ids_reads:
  assumes "hs_ids uidName pidName root = Some ids"
  shows "\<exists>u p. int_member uidName root = Some u \<and> int_member pidName root = Some p \<and>
    ParseValue ''uid'' (JObj (ids @ extra)) = Some u \<and> ParseValue ''pid'' (JObj (ids @ extra)) = Some p"
proof -
  obtain u p where up: "int_member uidName root = Some u" "int_member pidName root = Some p"
    "ids = [(''uid'', int_text u), (''pid'', int_text p)]"
    using assms by (auto simp: hs_ids_def bind_eq_Some_conv)
  have "json_int32 j = Some x \<Longrightarrow> wrap_s32 x = x" for j x
    by (auto simp: json_int32_def wrap_s32_def split: json.splits)
  then have "wrap_s32 u = u" "wrap_s32 p = p" using up(1,2) by (auto simp: int_member_def bind_eq_Some_conv)
  with up show ?thesis by (simp add: reads atoi_any_text)
qed

definition carries_ids :: "json \<Rightarrow> ob_out \<Rightarrow> bool" where
  "carries_ids root out \<longleftrightarrow>
     (case out of
        ObReport t v payload \<Rightarrow>
          (\<exists>uidName \<in> {''CLIENT_UID'', ''UID'', ''uid_''}. \<exists>pidName \<in> {''CLIENT_PID'', ''PID'', ''pid_''}.
             int_member uidName root \<noteq> None \<and> int_member pidName root \<noteq> None \<and>
             ParseValue ''uid'' payload = int_member uidName root \<and> ParseValue ''pid'' payload = int_member pidName root)
      | _ \<Rightarrow> False)"

lemma carries_report:
  assumes "hs_ids uidName pidName root = Some ids" "uidName \<in> {''CLIENT_UID'', ''UID'', ''uid_''}"
    "pidName \<in> {''CLIENT_PID'', ''PID'', ''pid_''}"
  shows "carries_ids root (ObReport t v (JObj (ids @ extra)))"
  using hs_ids_reads[OF assms(1), of extra] assms(2,3) unfolding carries_ids_def by fastforce

lemma camera_carries: "out \<in> set (ProcessCameraEvent root n) \<Longrightarrow> carries_ids root out"
  using carries_report[where extra = "[]"] by (auto simp: ProcessCameraEvent_def split: option.splits)

lemma codec_carries:
  assumes "out \<in> set (ProcessAvCodecEvent root n)"
  shows "carries_ids root out"
proof -
  define r where "r = (do { ids \<leftarrow> hs_ids ''CLIENT_UID'' ''CLIENT_PID'' root; i \<leftarrow> int_member ''CODEC_INSTANCE_ID'' root;
    Some (ids @ [(''instanceId'', int_text i)]) })"
  note a = assms[unfolded ProcessAvCodecEvent_def, folded r_def]
  then obtain payload where p: "r = Some payload" by (cases r) auto
  then obtain ids i where "hs_ids ''CLIENT_UID'' ''CLIENT_PID'' root = Some ids" "payload = ids @ [(''instanceId'', int_text i)]"
    unfolding r_def by (auto simp: bind_eq_Some_conv)
  then have "carries_ids root (ObReport t v (JObj payload))" for t v by (simp add: carries_report)
  with a p show ?thesis by (auto split: if_splits)
qed

lemma lock_carries:
  assumes "out \<in> set (ProcessRunningLockEvent root n)"
  shows "carries_ids root out"
proof -
  define r where "r = (do { ids \<leftarrow> hs_ids ''UID'' ''PID'' root; t \<leftarrow> int_member ''TYPE'' root; s \<leftarrow> int_member ''STATE'' root;
    Some (ids @ [(''type'', u32_text t)], s) })"
  note a = assms[unfolded ProcessRunningLockEvent_def, folded r_def]
  then obtain payload s where p: "r = Some (payload, s)" by (cases r) auto
  then obtain ids t where "hs_ids ''UID'' ''PID'' root = Some ids" "payload = ids @ [(''type'', u32_text t)]"
    unfolding r_def by (auto simp: bind_eq_Some_conv)
  then have "carries_ids root (ObReport t v (JObj payload))" for t v by (simp add: carries_report)
  with a p show ?thesis by (auto split: if_splits)
qed

lemma wifi_carries:
  assumes "out \<in> set (ProcessWifiEvent root n)"
  shows "carries_ids root out"
proof -
  define r where "r = (do { ids \<leftarrow> hs_ids ''uid_'' ''pid_'' root; t \<leftarrow> int_member ''TYPE'' root; Some (ids, t) })"
  note a = assms[unfolded ProcessWifiEvent_def, folded r_def]
  then obtain payload s where p: "r = Some (payload, s)" by (cases r) auto
  then have "hs_ids ''uid_'' ''pid_'' root = Some payload" unfolding r_def by (auto simp: bind_eq_Some_conv)
  from carries_report[OF this, where extra = "[]"] have "carries_ids root (ObReport t v (JObj payload))" for t v by simp
  with a p show ?thesis by (auto split: if_splits)
qed

lemma event_carries: "out \<in> set (ProcessHiSysEvent n root) \<Longrightarrow> carries_ids root out"
  by (auto simp: ProcessHiSysEvent_def handleObserverMap_def camera_carries codec_carries lock_carries wifi_carries
      split: if_splits)

text \<open>
  Every report about a system event carries the process and the user of the event, as texts the
  cgroup plugin reads back as the same numbers; an event without both is not reported.
\<close>

theorem system_events_carry_ids:
  assumes "parse text = Some root" "ObReport t v payload \<in> set (OnEvent parse (Some text))"
  shows "\<exists>uidName \<in> {''CLIENT_UID'', ''UID'', ''uid_''}. \<exists>pidName \<in> {''CLIENT_PID'', ''PID'', ''pid_''}.
    int_member uidName root \<noteq> None \<and> int_member pidName root \<noteq> None \<and>
    ParseValue ''uid'' payload = int_member uidName root \<and> ParseValue ''pid'' payload = int_member pidName root"
proof -
  have "carries_ids root (ObReport t v payload)"
    using assms event_carries by (auto simp: OnEvent_def split: if_splits option.splits json.splits)
  then show ?thesis unfolding carries_ids_def by simp
qed

definition demo_camera :: json where
  "demo_camera = JObj [(''domain_'', JStr ''CAMERA''), (''name_'', JStr ''CAMERA_CONNECT''), (''UID'', JInt 100), (''PID'', JUint 5)]"

theorem system_events_carry_ids_witness:
  "\<exists>payload. OnEvent (\<lambda>s. Some demo_camera) (Some ''{}'') = [ObReport RES_TYPE_REPORT_CAMERA_STATE CAMERACONNECT payload] \<and>
     ParseValue ''pid'' payload \<noteq> None"
proof -
  have r: "OnEvent (\<lambda>s. Some demo_camera) (Some ''{}'') =
      [ObReport RES_TYPE_REPORT_CAMERA_STATE CAMERACONNECT (JObj [(''uid'', int_text 100), (''pid'', int_text 5)])]"
    by code_simp
  have m: "ObReport RES_TYPE_REPORT_CAMERA_STATE CAMERACONNECT (JObj [(''uid'', int_text 100), (''pid'', int_text 5)])
      \<in> set (OnEvent (\<lambda>s. Some demo_camera) (Some ''{}''))"
    unfolding r by simp
  have "ParseValue ''pid'' (JObj [(''uid'', int_text 100), (''pid'', int_text 5)]) \<noteq> None"
    using system_events_carry_ids[OF refl m] by auto
  then show ?thesis unfolding r by blast
qed

end
