(* ===== verification/Startup_Scene.thy ===== *)
theory Startup_Scene
  imports Prelude
begin

text \<open>
  The recognition of continuous startups (sched\_controller/observer/src/app\_startup\_scene\_rec.cpp):
  five starts by four users with less than 15 seconds between them.  The clock is an argument in
  microseconds; the task that ends the scene is named by a handle and can no longer be cancelled
  once the queue has started it.  The reports are a list of the values reported for
  \<open>RES_TYPE_CONTINUOUS_STARTUP\<close>, whose payload is always null.
\<close>

section \<open>The code\<close>

definition CONTINUOUS_START_TIME_OUT :: i64 where "CONTINUOUS_START_TIME_OUT = 15 * 1000 * 1000"
definition MAX_NO_REPEAT_APP_COUNT :: nat where "MAX_NO_REPEAT_APP_COUNT = 4"
definition MAX_CONTINUOUS_START_NUM :: nat where "MAX_CONTINUOUS_START_NUM = 5"
definition START_CONTINUOUS_STARTUP :: i64 where "START_CONTINUOUS_STARTUP = 0"
definition STOP_CONTINUOUS_STARTUP :: i64 where "STOP_CONTINUOUS_STARTUP = 1"

record su_state =
  su_queue :: bool
  appStartCount :: i32
  lastAppStartTime :: i64
  isReportContinuousStartup :: bool
  startPkgs :: "string list"
  startUidSet :: "string list"
  exitContinuousStartupTask :: "nat option"
  su_pending :: "nat list"
  su_started :: "nat list"
  su_next :: nat
  su_reports :: "i64 list"

definition su_new :: su_state where
  "su_new = \<lparr>su_queue = False, appStartCount = 0, lastAppStartTime = 0, isReportContinuousStartup = False,
     startPkgs = [], startUidSet = [], exitContinuousStartupTask = None, su_pending = [], su_started = [],
     su_next = 0, su_reports = []\<rparr>"

definition su_Init :: "su_state \<Rightarrow> su_state" where
  "su_Init st = st\<lparr>su_queue := True, su_pending := []\<rparr>"

definition su_cancel :: "su_state \<Rightarrow> su_state" where
  "su_cancel st =
     (case exitContinuousStartupTask st of
        None \<Rightarrow> st
      | Some h \<Rightarrow> st\<lparr>su_pending := removeAll h (su_pending st), exitContinuousStartupTask := None\<rparr>)"

text \<open>Cancelling the task without a queue follows a null pointer.\<close>

definition su_Deinit :: "su_state \<Rightarrow> su_state option" where
  "su_Deinit st =
     (if exitContinuousStartupTask st \<noteq> None \<and> \<not> su_queue st then None
      else Some ((su_cancel st)\<lparr>su_queue := False, su_pending := [], startPkgs := [], startUidSet := []\<rparr>))"

definition CleanRecordSceneData :: "su_state \<Rightarrow> su_state" where
  "CleanRecordSceneData st =
     (let st1 = st\<lparr>appStartCount := 0, startPkgs := [], startUidSet := [], exitContinuousStartupTask := None\<rparr> in
      if isReportContinuousStartup st1
      then st1\<lparr>su_reports := su_reports st1 @ [STOP_CONTINUOUS_STARTUP], isReportContinuousStartup := False\<rparr>
      else st1)"

definition UpdateAppStartupNum :: "string \<Rightarrow> i64 \<Rightarrow> string \<Rightarrow> su_state \<Rightarrow> su_state" where
  "UpdateAppStartupNum user curTime bundleName st =
     (let st1 = st\<lparr>lastAppStartTime := curTime, appStartCount := wrap_s32 (appStartCount st + 1)\<rparr> in
      if isReportContinuousStartup st1 then st1
      else st1\<lparr>startPkgs := startPkgs st1 @ [bundleName], startUidSet := List.insert user (startUidSet st1)\<rparr>)"

definition IsContinuousStartup :: "su_state \<Rightarrow> bool" where
  "IsContinuousStartup st \<longleftrightarrow>
     MAX_CONTINUOUS_START_NUM \<le> length (startPkgs st) \<and> MAX_NO_REPEAT_APP_COUNT \<le> length (startUidSet st)"

definition RecordIsContinuousStartup :: "i64 \<Rightarrow> string \<Rightarrow> string \<Rightarrow> su_state \<Rightarrow> su_state option" where
  "RecordIsContinuousStartup curTime user bundleName st =
     (if \<not> su_queue st then None
      else
        (let st1 = su_cancel st;
             st2 = (if CONTINUOUS_START_TIME_OUT \<le> curTime - lastAppStartTime st1 then CleanRecordSceneData st1 else st1);
             st3 = UpdateAppStartupNum user curTime bundleName st2;
             st4 = (if IsContinuousStartup st3 \<and> \<not> isReportContinuousStartup st3
                    then st3\<lparr>su_reports := su_reports st3 @ [START_CONTINUOUS_STARTUP], isReportContinuousStartup := True\<rparr>
                    else st3)
         in Some (st4\<lparr>exitContinuousStartupTask := Some (su_next st4), su_pending := su_pending st4 @ [su_next st4],
              su_next := su_next st4 + 1\<rparr>)))"

text \<open>The task that ends the scene: started by the queue, then run.\<close>

definition exit_starts :: "nat \<Rightarrow> su_state \<Rightarrow> su_state" where
  "exit_starts h st = st\<lparr>su_pending := removeAll h (su_pending st), su_started := h # su_started st\<rparr>"

definition exit_runs :: "nat \<Rightarrow> su_state \<Rightarrow> su_state" where
  "exit_runs h st = CleanRecordSceneData (st\<lparr>su_started := removeAll h (su_started st)\<rparr>)"

section \<open>Reports alternate\<close>

inductive su_step :: "su_state \<Rightarrow> su_state \<Rightarrow> bool" where
  init: "su_step st (su_Init st)"
| deinit: "su_Deinit st = Some st' \<Longrightarrow> su_step st st'"
| recorded: "RecordIsContinuousStartup now user bundleName st = Some st' \<Longrightarrow> su_step st st'"
| starts: "h \<in> set (su_pending st) \<Longrightarrow> su_step st (exit_starts h st)"
| runs: "h \<in> set (su_started st) \<Longrightarrow> su_step st (exit_runs h st)"

text \<open>START, STOP, START and so on.\<close>

fun alternating :: "i64 \<Rightarrow> i64 list \<Rightarrow> bool" where
  "alternating v [] = True"
| "alternating v (x # xs) = (x = v \<and> alternating (if v = START_CONTINUOUS_STARTUP then STOP_CONTINUOUS_STARTUP
     else START_CONTINUOUS_STARTUP) xs)"

fun expected :: "nat \<Rightarrow> i64" where
  "expected n = (if even n then START_CONTINUOUS_STARTUP else STOP_CONTINUOUS_STARTUP)"

lemma expected_distinct [simp]: "START_CONTINUOUS_STARTUP \<noteq> STOP_CONTINUOUS_STARTUP" "STOP_CONTINUOUS_STARTUP \<noteq> START_CONTINUOUS_STARTUP"
  by (simp_all add: START_CONTINUOUS_STARTUP_def STOP_CONTINUOUS_STARTUP_def)

lemma alternating_snoc:
  "alternating (expected k) (xs @ [x]) \<longleftrightarrow> alternating (expected k) xs \<and> x = expected (k + length xs)"
proof (induction xs arbitrary: k)
  case (Cons y ys)
  have "(if expected k = START_CONTINUOUS_STARTUP then STOP_CONTINUOUS_STARTUP else START_CONTINUOUS_STARTUP) = expected (Suc k)"
    by simp
  with Cons.IH[of "Suc k"] show ?case by (auto simp del: expected.simps)
qed simp

definition su_ok :: "su_state \<Rightarrow> bool" where
  "su_ok st \<longleftrightarrow> alternating START_CONTINUOUS_STARTUP (su_reports st) \<and>
     (isReportContinuousStartup st \<longleftrightarrow> odd (length (su_reports st)))"

lemma alternating_start_snoc:
  "alternating START_CONTINUOUS_STARTUP (xs @ [x]) \<longleftrightarrow>
     alternating START_CONTINUOUS_STARTUP xs \<and> x = expected (length xs)"
  using alternating_snoc[of 0] by simp

lemma su_ok_same:
  "su_reports st' = su_reports st \<Longrightarrow> isReportContinuousStartup st' = isReportContinuousStartup st \<Longrightarrow> su_ok st \<Longrightarrow> su_ok st'"
  by (simp add: su_ok_def)

lemma su_ok_clean: "su_ok st \<Longrightarrow> su_ok (CleanRecordSceneData st)"
  by (simp add: su_ok_def CleanRecordSceneData_def alternating_start_snoc Let_def)

lemma su_ok_cancel: "su_ok st \<Longrightarrow> su_ok (su_cancel st)"
  by (simp add: su_ok_def su_cancel_def split: option.split)

lemma su_ok_update: "su_ok st \<Longrightarrow> su_ok (UpdateAppStartupNum user now b st)"
  by (simp add: su_ok_def UpdateAppStartupNum_def Let_def)

lemma su_ok_record: "su_ok st \<Longrightarrow> RecordIsContinuousStartup now user b st = Some st' \<Longrightarrow> su_ok st'"
proof -
  assume ok: "su_ok st" and r: "RecordIsContinuousStartup now user b st = Some st'"
  let ?st1 = "su_cancel st"
  let ?st2 = "if CONTINUOUS_START_TIME_OUT \<le> now - lastAppStartTime ?st1 then CleanRecordSceneData ?st1 else ?st1"
  let ?st3 = "UpdateAppStartupNum user now b ?st2"
  have "su_ok ?st2" using ok by (simp add: su_ok_cancel su_ok_clean)
  then have "su_ok ?st3" by (rule su_ok_update)
  with r show ?thesis
    by (auto simp: RecordIsContinuousStartup_def Let_def su_ok_def alternating_start_snoc split: if_splits)
qed

lemma su_ok_step: "su_step st st' \<Longrightarrow> su_ok st \<Longrightarrow> su_ok st'"
proof (induction rule: su_step.induct)
  case (deinit st st')
  then have "su_ok (su_cancel st)" by (simp add: su_ok_cancel)
  with deinit(1) show ?case by (auto simp: su_Deinit_def su_ok_def split: if_splits)
next
  case (runs h st)
  then have "su_ok (st\<lparr>su_started := removeAll h (su_started st)\<rparr>)" by (simp add: su_ok_def)
  then show ?case unfolding exit_runs_def by (rule su_ok_clean)
qed (auto simp: su_Init_def exit_starts_def su_ok_record intro: su_ok_same)

text \<open>
  Whatever starts, tasks and restarts of the observer come, beginnings and ends of a continuous
  startup are reported in turn, beginning with a beginning.
\<close>

theorem startup_reports_alternate:
  assumes "su_step\<^sup>*\<^sup>* su_new st"
  shows "alternating START_CONTINUOUS_STARTUP (su_reports st)"
proof -
  from assms have "su_ok st"
    by (induction rule: rtranclp_induct) (simp add: su_ok_def su_new_def, rule su_ok_step)
  then show ?thesis by (simp add: su_ok_def)
qed

section \<open>What is recognized\<close>

fun record_all :: "(i64 \<times> string \<times> string) list \<Rightarrow> su_state \<Rightarrow> su_state option" where
  "record_all [] st = Some st"
| "record_all ((now, user, bundleName) # starts) st =
     Option.bind (RecordIsContinuousStartup now user bundleName st) (record_all starts)"

lemma record_all_snoc:
  "record_all (starts @ [(now, user, b)]) st = Option.bind (record_all starts st) (RecordIsContinuousStartup now user b)"
proof (induction starts arbitrary: st)
  case (Cons s starts)
  obtain now' user' b' where s: "s = (now', user', b')" by (cases s)
  show ?case by (cases "RecordIsContinuousStartup now' user' b' st") (simp_all add: s Cons.IH)
next
  case Nil
  show ?case by (cases "RecordIsContinuousStartup now user b st") simp_all
qed

text \<open>Less than 15 seconds between neighbours.\<close>

fun close_starts :: "(i64 \<times> string \<times> string) list \<Rightarrow> bool" where
  "close_starts (s # t # starts) = (fst t - fst s < CONTINUOUS_START_TIME_OUT \<and> close_starts (t # starts))"
| "close_starts _ = True"

lemma close_snoc: "close_starts (xs @ [x, y]) \<longleftrightarrow> close_starts (xs @ [x]) \<and> fst y - fst x < CONTINUOUS_START_TIME_OUT"
  by (induction xs rule: close_starts.induct) auto

definition continuous :: "(i64 \<times> string \<times> string) list \<Rightarrow> bool" where
  "continuous starts \<longleftrightarrow> 5 \<le> length starts \<and> 4 \<le> card (set (map (fst \<circ> snd) starts))"

lemma continuous_snoc: "continuous starts \<Longrightarrow> continuous (starts @ [s])"
proof -
  assume c: "continuous starts"
  have "card (set (map (fst \<circ> snd) starts)) \<le> card (set (map (fst \<circ> snd) (starts @ [s])))"
    by (rule card_mono) auto
  with c show ?thesis unfolding continuous_def by simp
qed

definition su_after :: "(i64 \<times> string \<times> string) list \<Rightarrow> su_state \<Rightarrow> bool" where
  "su_after starts st \<longleftrightarrow> su_queue st \<and> (starts \<noteq> [] \<longrightarrow> lastAppStartTime st = fst (last starts)) \<and>
     isReportContinuousStartup st = continuous starts \<and>
     su_reports st = (if continuous starts then [START_CONTINUOUS_STARTUP] else []) \<and>
     (\<not> continuous starts \<longrightarrow> length (startPkgs st) = length starts \<and> distinct (startUidSet st) \<and>
        set (startUidSet st) = set (map (fst \<circ> snd) starts))"

lemma su_after_record:
  assumes "su_after starts st" "starts \<noteq> [] \<longrightarrow> now - fst (last starts) < CONTINUOUS_START_TIME_OUT"
  shows "\<exists>st'. RecordIsContinuousStartup now user b st = Some st' \<and> su_after (starts @ [(now, user, b)]) st'"
proof -
  let ?st1 = "su_cancel st"
  let ?st2 = "if CONTINUOUS_START_TIME_OUT \<le> now - lastAppStartTime ?st1 then CleanRecordSceneData ?st1 else ?st1"
  have same: "su_queue ?st1 = su_queue st" "lastAppStartTime ?st1 = lastAppStartTime st"
    "isReportContinuousStartup ?st1 = isReportContinuousStartup st" "su_reports ?st1 = su_reports st"
    "startPkgs ?st1 = startPkgs st" "startUidSet ?st1 = startUidSet st"
    by (simp_all add: su_cancel_def split: option.split)
  have empty: "\<not> continuous []" by (simp add: continuous_def)
  have two: "su_after starts ?st2"
  proof (cases "starts = []")
    case True
    then show ?thesis using assms(1) empty same by (auto simp: su_after_def CleanRecordSceneData_def Let_def)
  next
    case False
    then have "\<not> CONTINUOUS_START_TIME_OUT \<le> now - lastAppStartTime ?st1" using assms same by (auto simp: su_after_def)
    then show ?thesis using assms(1) same by (simp add: su_after_def)
  qed
  let ?st3 = "UpdateAppStartupNum user now b ?st2"
  have q: "su_queue st" using assms(1) by (simp add: su_after_def)
  have three: "su_queue ?st3" "lastAppStartTime ?st3 = now" "isReportContinuousStartup ?st3 = continuous starts"
    "su_reports ?st3 = (if continuous starts then [START_CONTINUOUS_STARTUP] else [])"
    "\<not> continuous starts \<Longrightarrow> length (startPkgs ?st3) = length starts + 1 \<and> distinct (startUidSet ?st3) \<and>
        set (startUidSet ?st3) = insert user (set (map (fst \<circ> snd) starts))"
    using two by (auto simp: su_after_def UpdateAppStartupNum_def Let_def)
  have crit: "IsContinuousStartup ?st3 \<longleftrightarrow> continuous (starts @ [(now, user, b)])" if "\<not> continuous starts"
    using three(5)[OF that] distinct_card[of "startUidSet ?st3"]
    by (simp add: IsContinuousStartup_def continuous_def MAX_CONTINUOUS_START_NUM_def MAX_NO_REPEAT_APP_COUNT_def)
  show ?thesis
  proof (cases "continuous starts")
    case True
    then show ?thesis
      using three(1-4) q continuous_snoc[OF True] by (simp add: RecordIsContinuousStartup_def Let_def su_after_def)
  next
    case False
    then show ?thesis
      using three q crit by (auto simp: RecordIsContinuousStartup_def Let_def su_after_def)
  qed
qed

lemma su_after_all:
  "close_starts starts \<Longrightarrow> su_after [] st \<Longrightarrow> \<exists>st'. record_all starts st = Some st' \<and> su_after starts st'"
proof (induction starts rule: rev_induct)
  case (snoc s starts)
  obtain now user b where s: "s = (now, user, b)" by (cases s)
  have close: "close_starts starts \<and> (starts \<noteq> [] \<longrightarrow> now - fst (last starts) < CONTINUOUS_START_TIME_OUT)"
  proof (cases starts rule: rev_cases)
    case (snoc xs x)
    then show ?thesis using snoc.prems(1) close_snoc[of xs x s] s by simp
  qed simp
  then obtain st1 where st1: "record_all starts st = Some st1" "su_after starts st1" using snoc.IH snoc.prems(2) by blast
  from su_after_record[OF st1(2), of now user b] close st1(1) show ?case by (auto simp: s record_all_snoc)
qed simp

text \<open>
  C27. For starts with less than 15 seconds between neighbours, and no end of the scene in between, a
  continuous startup is reported exactly once if there are at least five starts by at least four
  users, and not at all otherwise; the recording never fails.
\<close>

theorem continuous_startup_recognized:
  assumes "close_starts starts"
  shows "map_option su_reports (record_all starts (su_Init su_new)) =
    Some (if 5 \<le> length starts \<and> 4 \<le> card (set (map (fst \<circ> snd) starts)) then [START_CONTINUOUS_STARTUP] else [])"
proof -
  have "su_after [] (su_Init su_new)" by (simp add: su_after_def su_Init_def su_new_def continuous_def)
  from su_after_all[OF assms this] show ?thesis by (auto simp: su_after_def continuous_def)
qed

definition demo_starts :: "(i64 \<times> string \<times> string) list" where
  "demo_starts = [(100, ''1'', ''a''), (200, ''2'', ''b''), (300, ''3'', ''c''), (400, ''1'', ''a''), (500, ''4'', ''d'')]"

theorem continuous_startup_recognized_witness:
  "map_option su_reports (record_all demo_starts (su_Init su_new)) = Some [START_CONTINUOUS_STARTUP]"
proof -
  have "close_starts demo_starts" by (simp add: demo_starts_def CONTINUOUS_START_TIME_OUT_def)
  moreover have "card (set (map (fst \<circ> snd) demo_starts)) = 4" by (simp add: demo_starts_def card_insert_if)
  moreover have "length demo_starts = 5" by (simp add: demo_starts_def)
  ultimately show ?thesis using continuous_startup_recognized[of demo_starts] by simp
qed

lemma record_all_reaches: "record_all starts st = Some st' \<Longrightarrow> su_step\<^sup>*\<^sup>* st st'"
proof (induction starts arbitrary: st)
  case (Cons s starts)
  obtain now user b where s: "s = (now, user, b)" by (cases s)
  then obtain st1 where "RecordIsContinuousStartup now user b st = Some st1" "record_all starts st1 = Some st'"
    using Cons.prems by (auto simp: bind_eq_Some_conv)
  then show ?case using Cons.IH su_step.recorded by (meson converse_rtranclp_into_rtranclp)
qed simp

text \<open>The scene begins, and its task ends it.\<close>

theorem startup_reports_alternate_witness:
  "\<exists>st. record_all demo_starts (su_Init su_new) = Some st \<and>
     su_reports (exit_runs 4 (exit_starts 4 st)) = [START_CONTINUOUS_STARTUP, STOP_CONTINUOUS_STARTUP] \<and>
     alternating START_CONTINUOUS_STARTUP (su_reports (exit_runs 4 (exit_starts 4 st)))"
proof -
  have f: "map_option (\<lambda>st. (su_pending st, isReportContinuousStartup st, su_reports st)) (record_all demo_starts (su_Init su_new)) =
      Some ([4], True, [START_CONTINUOUS_STARTUP])" by code_simp
  then obtain st where st: "record_all demo_starts (su_Init su_new) = Some st" "su_pending st = [4]"
    "isReportContinuousStartup st" "su_reports st = [START_CONTINUOUS_STARTUP]" by auto
  have "su_step\<^sup>*\<^sup>* su_new st"
    using record_all_reaches[OF st(1)] su_step.init by (meson converse_rtranclp_into_rtranclp)
  moreover have "su_step st (exit_starts 4 st)" by (rule su_step.starts) (simp add: st)
  moreover have "su_step (exit_starts 4 st) (exit_runs 4 (exit_starts 4 st))"
    by (rule su_step.runs) (simp add: exit_starts_def)
  ultimately have "su_step\<^sup>*\<^sup>* su_new (exit_runs 4 (exit_starts 4 st))" by (meson rtranclp.rtrancl_into_rtrancl)
  from startup_reports_alternate[OF this] show ?thesis
    using st by (simp add: exit_runs_def exit_starts_def CleanRecordSceneData_def Let_def)
qed

end
