(* ===== verification/Window_Observer.thy ===== *)
theory Window_Observer
  imports App_Observer "HOL-Library.Word"
begin

unbundle bit_operations_syntax

text \<open>
  The observers of windows (sched\_controller/observer/src/window\_state\_observer.cpp): focus,
  visibility, drawing content, the window modes, picture in picture and the window style.  What they
  report is a list; the answers of the window manager and of the account manager are parameters, as
  is the first visibility state that counts as occluded.  A null pointer is \<open>None\<close>.
\<close>

section \<open>Data\<close>

record focus_info =
  fi_pid :: i32
  fi_uid :: i32
  fi_windowId :: i32
  fi_windowType :: i32
  fi_displayId :: u64
  fi_realDisplayId :: u64

record visibility_info =
  vi_pid :: i32
  vi_uid :: i32
  vi_windowId :: u32
  vi_windowType :: i32
  vi_visibilityState :: u32
  vi_callingPid :: i32
  vi_moduleName :: string

record drawing_info =
  di_pid :: i32
  di_uid :: i32
  di_windowId :: u32
  di_windowType :: i32
  di_drawingContentState :: bool

datatype window_mode_type = WmSplit | WmFloating | WmFullscreenFloating | WmSplitFloating | WmOther

definition WINDOW_MODE_SPLIT_BIT :: nat where "WINDOW_MODE_SPLIT_BIT = 1"
definition WINDOW_MODE_BIT_EXIT :: "8 word" where "WINDOW_MODE_BIT_EXIT = 1"
definition FREE_MULTI_WINDOW_STATE_CHANGE :: int where "FREE_MULTI_WINDOW_STATE_CHANGE = 10024"

text \<open>The modes: bit 0 is 1 when no window floats, bit 1 when the screen is not split.\<close>

definition WINDOW_MODE_SPLIT_FLOATING :: "8 word" where "WINDOW_MODE_SPLIT_FLOATING = 0"
definition WINDOW_MODE_SPLIT :: "8 word" where "WINDOW_MODE_SPLIT = 1"
definition WINDOW_MODE_FLOATING :: "8 word" where "WINDOW_MODE_FLOATING = 2"
definition WINDOW_MODE_OTHER :: "8 word" where "WINDOW_MODE_OTHER = 3"
definition WINDOW_MODE_FLOATING_CHANGED :: "8 word" where "WINDOW_MODE_FLOATING_CHANGED = 1"
definition WINDOW_MODE_SPLIT_CHANGED :: "8 word" where "WINDOW_MODE_SPLIT_CHANGED = 2"
definition WINDOW_MODE_SPLIT_FLOATING_CHANGED :: "8 word" where "WINDOW_MODE_SPLIT_FLOATING_CHANGED = 3"

lemmas window_mode_defs = WINDOW_MODE_SPLIT_FLOATING_def WINDOW_MODE_SPLIT_def WINDOW_MODE_FLOATING_def
  WINDOW_MODE_OTHER_def WINDOW_MODE_FLOATING_CHANGED_def WINDOW_MODE_SPLIT_CHANGED_def
  WINDOW_MODE_SPLIT_FLOATING_CHANGED_def WINDOW_MODE_SPLIT_BIT_def WINDOW_MODE_BIT_EXIT_def

section \<open>Focus\<close>

definition focus_payload :: "focus_info \<Rightarrow> json" where
  "focus_payload info =
     JObj [(''pid'', int_text (fi_pid info)), (''uid'', int_text (fi_uid info)),
       (''windowId'', int_text (fi_windowId info)), (''windowType'', int_text (fi_windowType info)),
       (''displayId'', int_text (uint (fi_displayId info))), (''realDisplayId'', int_text (uint (fi_realDisplayId info)))]"

definition OnFocused :: "focus_info option \<Rightarrow> ob_out list" where
  "OnFocused i =
     (case i of None \<Rightarrow> [] | Some info \<Rightarrow> [ObReport RES_TYPE_WINDOW_FOCUS WINDOW_FOCUS (focus_payload info)])"

definition OnUnfocused :: "focus_info option \<Rightarrow> ob_out list" where
  "OnUnfocused i =
     (case i of None \<Rightarrow> [] | Some info \<Rightarrow> [ObReport RES_TYPE_WINDOW_FOCUS WINDOW_UNFOCUS (focus_payload info)])"

section \<open>Visibility and drawing\<close>

definition MarshallingWindowVisibilityInfo :: "u32 \<Rightarrow> visibility_info \<Rightarrow> json" where
  "MarshallingWindowVisibilityInfo occluded info =
     JObj [(''pid'', int_text (vi_pid info)), (''uid'', int_text (vi_uid info)),
       (''windowId'', int_text (uint (vi_windowId info))), (''windowType'', int_text (vi_windowType info)),
       (''isVisible'', JBool (vi_visibilityState info < occluded)),
       (''visibilityState'', int_text (uint (vi_visibilityState info))),
       (''callingPid'', int_text (vi_callingPid info)), (''moduleName'', JStr (vi_moduleName info))]"

definition OnWindowVisibilityChanged :: "u32 \<Rightarrow> visibility_info option list \<Rightarrow> ob_out list" where
  "OnWindowVisibilityChanged occluded infos =
     map (\<lambda>info. ObReport RES_TYPE_WINDOW_VISIBILITY_CHANGE
         (if vi_visibilityState info < occluded then VISIBLE else INVISIBLE)
         (MarshallingWindowVisibilityInfo occluded info))
       (List.map_filter id infos)"

definition MarshallingWindowDrawingContentInfo :: "drawing_info \<Rightarrow> json" where
  "MarshallingWindowDrawingContentInfo info =
     JObj [(''pid'', int_text (di_pid info)), (''uid'', int_text (di_uid info)),
       (''windowId'', int_text (uint (di_windowId info))), (''windowType'', int_text (di_windowType info)),
       (''drawingContentState'', JBool (di_drawingContentState info))]"

definition OnWindowDrawingContentChanged :: "drawing_info option list \<Rightarrow> ob_out list" where
  "OnWindowDrawingContentChanged infos =
     map (\<lambda>info. ObReport RES_TYPE_WINDOW_DRAWING_CONTENT_CHANGE
         (if di_drawingContentState info then Drawing else NotDrawing) (MarshallingWindowDrawingContentInfo info))
       (List.map_filter id infos)"

section \<open>Modes\<close>

fun MarshallingWindowModeType :: "window_mode_type \<Rightarrow> 8 word" where
  "MarshallingWindowModeType WmSplit = WINDOW_MODE_SPLIT"
| "MarshallingWindowModeType WmFloating = WINDOW_MODE_FLOATING"
| "MarshallingWindowModeType WmFullscreenFloating = WINDOW_MODE_FLOATING"
| "MarshallingWindowModeType WmSplitFloating = WINDOW_MODE_SPLIT_FLOATING"
| "MarshallingWindowModeType WmOther = WINDOW_MODE_OTHER"

text \<open>The reports and the new value of \<open>lastWindowMode_\<close>, which is the whole state.\<close>

definition OnWindowModeUpdate :: "window_mode_type \<Rightarrow> 8 word \<Rightarrow> ob_out list \<times> 8 word" where
  "OnWindowModeUpdate mode lastWindowMode =
     (let nowWindowMode = MarshallingWindowModeType mode;
          windowModeChangeBit = nowWindowMode XOR lastWindowMode;
          split = (drop_bit WINDOW_MODE_SPLIT_BIT nowWindowMode) AND WINDOW_MODE_BIT_EXIT;
          floating = nowWindowMode AND WINDOW_MODE_BIT_EXIT;
          split_report = ObReport RES_TYPE_SPLIT_SCREEN (uint split) JNull;
          floating_report = ObReport RES_TYPE_FLOATING_WINDOW (uint floating) JNull
      in (if windowModeChangeBit = WINDOW_MODE_FLOATING_CHANGED then [floating_report]
          else if windowModeChangeBit = WINDOW_MODE_SPLIT_CHANGED then [split_report]
          else if windowModeChangeBit = WINDOW_MODE_SPLIT_FLOATING_CHANGED then [split_report, floating_report]
          else [],
          nowWindowMode))"

definition GetCurrentUserId :: "i32 list option \<Rightarrow> i32 option" where
  "GetCurrentUserId accounts = (case accounts of Some (u # _) \<Rightarrow> Some u | _ \<Rightarrow> None)"

text \<open>Without a user the window manager is asked for user -1.\<close>

definition InitWindowMode :: "i32 list option \<Rightarrow> (i32 \<Rightarrow> window_mode_type option) \<Rightarrow> 8 word \<Rightarrow> 8 word" where
  "InitWindowMode accounts GetWindowModeType lastWindowMode =
     (let userId = (case GetCurrentUserId accounts of None \<Rightarrow> - 1 | Some u \<Rightarrow> u) in
      case GetWindowModeType userId of None \<Rightarrow> lastWindowMode | Some t \<Rightarrow> MarshallingWindowModeType t)"

definition OnPiPStateChanged :: "string \<Rightarrow> bool \<Rightarrow> ob_out list" where
  "OnPiPStateChanged bundleName isForeground =
     [ObReport RES_TRPE_PIP_STATUS (of_bool isForeground) (JObj [(''bundleName'', JStr bundleName)])]"

definition OnWindowStyleUpdate :: "bool \<Rightarrow> ob_out list" where
  "OnWindowStyleUpdate isFreeStyleType =
     [ObReport RES_TYPE_KEY_PERF_SCENE (if isFreeStyleType then 1 else 0)
       (JObj [(''extType'', int_text FREE_MULTI_WINDOW_STATE_CHANGE)])]"

section \<open>What the cgroup plugin reads\<close>

lemma atoll_any_text: "atoll (to_string y) = wrap_s64 y"
  by (simp add: atoll_def parse_to_string signed_val_abs)

lemma u32_of_text: "word_of_int (wrap_s32 (uint (w :: u32))) = w"
proof -
  have "wrap_s32 (uint w) mod 4294967296 = uint w mod 4294967296"
    by (simp add: wrap_s32_def mod_diff_left_eq)
  moreover have "uint w mod 4294967296 = uint w" using uint_bounded[of w] by simp
  ultimately have "(word_of_int (wrap_s32 (uint w)) :: u32) = word_of_int (uint w)"
    by (intro word_uint_eqI) (simp add: uint_word_of_int)
  then show ?thesis by simp
qed

lemma u64_of_text: "word_of_int (wrap_s64 (uint (w :: u64))) = w"
proof -
  have "wrap_s64 (uint w) mod 18446744073709551616 = uint w mod 18446744073709551616"
    by (simp add: wrap_s64_def mod_diff_left_eq)
  moreover have "uint w mod 18446744073709551616 = uint w" using uint_bounded[of w] by simp
  ultimately have "(word_of_int (wrap_s64 (uint w)) :: u64) = word_of_int (uint w)"
    by (intro word_uint_eqI) (simp add: uint_word_of_int)
  then show ?thesis by simp
qed


definition demo_focus_info :: focus_info where
  "demo_focus_info = \<lparr>fi_pid = 5, fi_uid = 100, fi_windowId = 7, fi_windowType = 1, fi_displayId = 0, fi_realDisplayId = 0\<rparr>"


text \<open>
  A change of visibility is read by the cgroup plugin as the same window of the same process, and
  as visible exactly when the state lies below the first occluded one.
\<close>

theorem visibility_reaches_records:
  assumes "list_all i32_range [vi_pid info, vi_uid info, vi_windowType info]"
  shows "\<exists>v payload. OnWindowVisibilityChanged occluded [Some info] = [ObReport RES_TYPE_WINDOW_VISIBILITY_CHANGE v payload] \<and>
    parse_window payload = Some (vi_pid info, vi_uid info, vi_windowId info, vi_windowType info) \<and>
    (v \<noteq> 0) = (vi_visibilityState info < occluded)"
  using assms
  by (simp add: OnWindowVisibilityChanged_def map_filter_simps MarshallingWindowVisibilityInfo_def parse_window_def reads
      atoi_any_text u32_of_text i32_range_def wrap_s32_id VISIBLE_def INVISIBLE_def)

definition demo_visibility :: visibility_info where
  "demo_visibility = \<lparr>vi_pid = 5, vi_uid = 100, vi_windowId = 4294967295, vi_windowType = 1, vi_visibilityState = 0,
     vi_callingPid = 1, vi_moduleName = ''m''\<rparr>"

theorem visibility_reaches_records_witness:
  "\<exists>v payload. OnWindowVisibilityChanged 2 [Some demo_visibility] = [ObReport RES_TYPE_WINDOW_VISIBILITY_CHANGE v payload] \<and>
     parse_window payload = Some (5, 100, 4294967295, 1) \<and> v \<noteq> 0"
proof -
  have "list_all i32_range [vi_pid demo_visibility, vi_uid demo_visibility, vi_windowType demo_visibility]"
    by (simp add: demo_visibility_def i32_range_def)
  from visibility_reaches_records[OF this, of 2] show ?thesis by (simp add: demo_visibility_def)
qed

section \<open>The reports of the modes\<close>

fun mode_run :: "window_mode_type list \<Rightarrow> 8 word \<Rightarrow> ob_out list \<times> 8 word" where
  "mode_run [] m = ([], m)"
| "mode_run (t # ts) m =
     (let (outs, m1) = OnWindowModeUpdate t m; (outs', m2) = mode_run ts m1 in (outs @ outs', m2))"

text \<open>A listener that keeps the two bits from the reports alone; a report that does not change its bit is an error.\<close>

fun hear :: "ob_out \<Rightarrow> (int \<times> int) option \<Rightarrow> (int \<times> int) option" where
  "hear (ObReport t v payload) (Some (split, floating)) =
     (if t = RES_TYPE_SPLIT_SCREEN \<and> v \<noteq> split then Some (v, floating)
      else if t = RES_TYPE_FLOATING_WINDOW \<and> v \<noteq> floating then Some (split, v)
      else None)"
| "hear _ _ = None"

definition mode_bits :: "8 word \<Rightarrow> int \<times> int" where
  "mode_bits m = (uint ((drop_bit 1 m) AND 1), uint (m AND 1))"

lemma mode_update_heard:
  assumes "m \<in> range MarshallingWindowModeType"
  shows "fold hear (fst (OnWindowModeUpdate t m)) (Some (mode_bits m)) = Some (mode_bits (MarshallingWindowModeType t))"
proof -
  have "RES_TYPE_SPLIT_SCREEN \<noteq> RES_TYPE_FLOATING_WINDOW"
    by (simp add: RES_TYPE_SPLIT_SCREEN_def RES_TYPE_FLOATING_WINDOW_def)
  moreover obtain t' where "m = MarshallingWindowModeType t'" using assms by blast
  ultimately show ?thesis
    by (cases t; cases t') (simp_all add: OnWindowModeUpdate_def mode_bits_def window_mode_defs Let_def)
qed

lemma mode_run_heard:
  "m \<in> range MarshallingWindowModeType \<Longrightarrow>
   fold hear (fst (mode_run ts m)) (Some (mode_bits m)) = Some (mode_bits (foldl (\<lambda>_. MarshallingWindowModeType) m ts)) \<and>
   snd (mode_run ts m) = foldl (\<lambda>_. MarshallingWindowModeType) m ts"
proof (induction ts arbitrary: m)
  case (Cons t ts)
  have n: "snd (OnWindowModeUpdate t m) = MarshallingWindowModeType t" by (simp add: OnWindowModeUpdate_def Let_def)
  obtain outs outs' where o: "OnWindowModeUpdate t m = (outs, MarshallingWindowModeType t)"
    "fst (mode_run ts (MarshallingWindowModeType t)) = outs'"
    using n by (cases "OnWindowModeUpdate t m") auto
  then show ?case
    using mode_update_heard[OF Cons.prems, of t] Cons.IH[of "MarshallingWindowModeType t"]
    by (simp add: case_prod_unfold)
qed simp

lemma OTHER_is_a_mode: "WINDOW_MODE_OTHER \<in> range MarshallingWindowModeType"
  by (metis MarshallingWindowModeType.simps(5) rangeI)

lemma InitWindowMode_is_a_mode:
  "InitWindowMode accounts query WINDOW_MODE_OTHER \<in> range MarshallingWindowModeType"
  by (auto simp: InitWindowMode_def OTHER_is_a_mode split: option.split)

text \<open>
  C22. A listener that knows the window mode at the start and afterwards only the reports of the observer
  always has the bits of the last mode the window manager named, and is never told of a bit that did
  not change.
\<close>

theorem mode_reports_suffice:
  fixes accounts query modes
  defines "start \<equiv> InitWindowMode accounts query WINDOW_MODE_OTHER"
  shows "fold hear (fst (mode_run modes start)) (Some (mode_bits start)) =
      Some (mode_bits (foldl (\<lambda>_. MarshallingWindowModeType) start modes)) \<and>
    snd (mode_run modes start) = foldl (\<lambda>_. MarshallingWindowModeType) start modes"
  unfolding start_def by (rule mode_run_heard[OF InitWindowMode_is_a_mode])

end
