(* ===== verification/Small_Observers.thy ===== *)
theory Small_Observers
  imports App_Observer
begin

text \<open>
  The small observers of sched\_controller/observer/src: connections of extensions, media sessions,
  accounts, continuations, the power of the display, uploads and downloads, foldable displays,
  input and telephony.  What they report is a list; the enumerations and the answers of the
  display manager are parameters.
\<close>

section \<open>Connections\<close>

definition EXTENSION_CONNECTED :: i64 where "EXTENSION_CONNECTED = 0"
definition EXTENSION_DISCONNECTED :: i64 where "EXTENSION_DISCONNECTED = 1"
definition DLP_ABILITY_OPENED :: i64 where "DLP_ABILITY_OPENED = 2"
definition DLP_ABILITY_CLOSED :: i64 where "DLP_ABILITY_CLOSED = 3"
definition EXTENSION_SUSPENDED :: i64 where "EXTENSION_SUSPENDED = 4"
definition EXTENSION_RESUMED :: i64 where "EXTENSION_RESUMED = 5"

record connection_data =
  cd_extensionPid :: i32
  cd_extensionUid :: i32
  cd_extensionBundleName :: string
  cd_extensionModuleName :: string
  cd_extensionName :: string
  cd_extensionType :: i32
  cd_callerUid :: i32
  cd_callerPid :: i32
  cd_callerName :: string
  cd_isSuspended :: bool

record dlp_data =
  dd_targetPid :: i32
  dd_targetUid :: i32
  dd_targetBundleName :: string
  dd_targetModuleName :: string
  dd_targetAbilityName :: string
  dd_callerUid :: i32
  dd_callerPid :: i32
  dd_callerName :: string

definition MarshallingConnectionData :: "connection_data \<Rightarrow> json" where
  "MarshallingConnectionData d =
     JObj [(''extensionPid'', JInt (cd_extensionPid d)), (''extensionUid'', JInt (cd_extensionUid d)),
       (''extensionBundleName'', JStr (cd_extensionBundleName d)), (''extensionModuleName'', JStr (cd_extensionModuleName d)),
       (''extensionName'', JStr (cd_extensionName d)), (''extensionType'', JUint (nat (cd_extensionType d mod 4294967296))),
       (''callerUid'', JInt (cd_callerUid d)), (''callerPid'', JInt (cd_callerPid d)), (''callerName'', JStr (cd_callerName d)),
       (''isSuspended'', JBool (cd_isSuspended d))]"

definition OnExtensionConnected :: "connection_data \<Rightarrow> ob_out list" where
  "OnExtensionConnected d = [ObReport RES_TYPE_CONNECTION_OBSERVER EXTENSION_CONNECTED (MarshallingConnectionData d)]"

definition OnExtensionDisconnected :: "connection_data \<Rightarrow> ob_out list" where
  "OnExtensionDisconnected d = [ObReport RES_TYPE_CONNECTION_OBSERVER EXTENSION_DISCONNECTED (MarshallingConnectionData d)]"

definition OnExtensionSuspended :: "connection_data \<Rightarrow> ob_out list" where
  "OnExtensionSuspended d = [ObReport RES_TYPE_CONNECTION_OBSERVER EXTENSION_SUSPENDED (MarshallingConnectionData d)]"

definition OnExtensionResumed :: "connection_data \<Rightarrow> ob_out list" where
  "OnExtensionResumed d = [ObReport RES_TYPE_CONNECTION_OBSERVER EXTENSION_RESUMED (MarshallingConnectionData d)]"

definition MarshallingDlpStateData :: "dlp_data \<Rightarrow> json" where
  "MarshallingDlpStateData d =
     JObj [(''targetPid'', JInt (dd_targetPid d)), (''targetUid'', JInt (dd_targetUid d)),
       (''targetBundleName'', JStr (dd_targetBundleName d)), (''targetModuleName'', JStr (dd_targetModuleName d)),
       (''targetAbilityName'', JStr (dd_targetAbilityName d)), (''callerUid'', JInt (dd_callerUid d)),
       (''callerPid'', JInt (dd_callerPid d)), (''callerName'', JStr (dd_callerName d))]"

definition OnDlpAbilityOpened :: "dlp_data \<Rightarrow> ob_out list" where
  "OnDlpAbilityOpened d = [ObReport RES_TYPE_CONNECTION_OBSERVER DLP_ABILITY_OPENED (MarshallingDlpStateData d)]"

definition OnDlpAbilityClosed :: "dlp_data \<Rightarrow> ob_out list" where
  "OnDlpAbilityClosed d = [ObReport RES_TYPE_CONNECTION_OBSERVER DLP_ABILITY_CLOSED (MarshallingDlpStateData d)]"

section \<open>Sessions, accounts, continuations, input and calls\<close>

definition MarshallingAVSessionDescriptor :: "string \<Rightarrow> i32 \<Rightarrow> i32 \<Rightarrow> json" where
  "MarshallingAVSessionDescriptor sessionId p u = JObj [(''sessionId_'', JStr sessionId), (''pid_'', JInt p), (''uid_'', JInt u)]"

definition OnSessionCreate :: "string \<Rightarrow> i32 \<Rightarrow> i32 \<Rightarrow> ob_out list" where
  "OnSessionCreate sessionId p u = [ObReport RES_TYPE_AV_SESSION_ON_SESSION_CREATE 0 (MarshallingAVSessionDescriptor sessionId p u)]"

definition OnSessionRelease :: "string \<Rightarrow> i32 \<Rightarrow> i32 \<Rightarrow> ob_out list" where
  "OnSessionRelease sessionId p u = [ObReport RES_TYPE_AV_SESSION_ON_SESSION_RELEASE 0 (MarshallingAVSessionDescriptor sessionId p u)]"

definition OnTopSessionChange :: "string \<Rightarrow> i32 \<Rightarrow> i32 \<Rightarrow> ob_out list" where
  "OnTopSessionChange sessionId p u =
     [ObReport RES_TYPE_AV_SESSION_ON_TOP_SESSION_CHANGE 0 (MarshallingAVSessionDescriptor sessionId p u)]"

definition OnAccountsChanged :: "i32 \<Rightarrow> ob_out list" where
  "OnAccountsChanged account = [ObReport RES_TYPE_ACCOUNT_ACTIVATING 0 (JObj [(''id'', int_text account)])]"

definition CONTINUATION_STATE :: i64 where "CONTINUATION_STATE = 0"

definition OnCallback :: "i32 \<Rightarrow> string \<Rightarrow> string \<Rightarrow> ob_out list" where
  "OnCallback continueState bundleName continueType =
     [ObReport RES_TYPE_DISTRIBUTED_CONTINUATION_EVENT CONTINUATION_STATE
       (JObj [(''continueState'', int_text continueState), (''bundleName'', JStr bundleName), (''continueType'', JStr continueType)])]"

definition MMI_STATE :: i64 where "MMI_STATE = 0"

definition SyncBundleName :: "i32 \<Rightarrow> i32 \<Rightarrow> string \<Rightarrow> i32 \<Rightarrow> ob_out list" where
  "SyncBundleName p u bundleName syncStatus =
     (if \<not> CheckBundleName bundleName then []
      else [ObReport RES_TYPE_MMI_INPUT_STATE MMI_STATE
        (JObj [(''pid'', int_text p), (''uid'', int_text u), (''bundleName'', JStr bundleName), (''syncStatus'', int_text syncStatus)])])"

definition OnCallStateUpdated :: "i32 \<Rightarrow> ob_out list" where
  "OnCallStateUpdated callState = [ObReport RES_TYPE_CALL_STATE_UPDATE callState (JObj [])]"

definition OnDisplayPowerEvent :: "i32 \<Rightarrow> i32 \<Rightarrow> i32 \<Rightarrow> i32 \<Rightarrow> ob_out list" where
  "OnDisplayPowerEvent wake_up begins event status =
     (if event = wake_up \<and> status = begins then [ObReport RES_TYPE_DISPLAY_POWER_WAKE_UP WAKE_UP_START JNull] else [])"

section \<open>Foldable displays\<close>

datatype fold_display_mode = FdFull | FdSub | FdMain | FdGlobalFull | FdOther

definition DISPLAY_MODE_UNKOWN :: string where "DISPLAY_MODE_UNKOWN = ''displayUnknown''"

definition ReportDisplayModeStatus :: "i64 \<Rightarrow> string \<Rightarrow> ob_out" where
  "ReportDisplayModeStatus status mode =
     ObReport RES_TYPE_DEVICE_MODE_STATUS status
       (JObj [(''deviceModeType'', JStr ''display''), (''deviceMode'', JStr mode)])"

text \<open>The names of the modes that are reported; the state is \<open>currentDisplayMode\<close>.\<close>

fun display_mode_name :: "fold_display_mode \<Rightarrow> string option" where
  "display_mode_name FdFull = Some ''displayFull''"
| "display_mode_name FdSub = Some ''displaySub''"
| "display_mode_name FdMain = Some ''displayMain''"
| "display_mode_name FdGlobalFull = Some ''displayGlobalFull''"
| "display_mode_name FdOther = None"

definition OnDisplayModeChanged :: "fold_display_mode \<Rightarrow> string \<Rightarrow> ob_out list \<times> string" where
  "OnDisplayModeChanged diplayMode currentDisplayMode =
     (case display_mode_name diplayMode of
        Some name \<Rightarrow> ([ReportDisplayModeStatus MODE_ENTER name], name)
      | None \<Rightarrow> ([ReportDisplayModeStatus MODE_QUIT currentDisplayMode], DISPLAY_MODE_UNKOWN))"

definition ReportDisplayOrientationStatus :: "i64 \<Rightarrow> string \<Rightarrow> ob_out" where
  "ReportDisplayOrientationStatus status orientation =
     ObReport RES_TYPE_DEVICE_ORIENTATION_STATUS status
       (JObj [(''deviceModeType'', JStr ''deviceOrientation''), (''deviceMode'', JStr orientation)])"

record orientation_state =
  displayOrientation :: string
  currentDisplayOrientation :: string

definition orientation_new :: orientation_state where
  "orientation_new = \<lparr>displayOrientation = DISPLAY_MODE_UNKOWN, currentDisplayOrientation = DISPLAY_MODE_UNKOWN\<rparr>"

text \<open>The size of the default display is an argument, as width and height.\<close>

definition fold_OnChange :: "(i32 \<times> i32) option \<Rightarrow> orientation_state \<Rightarrow> ob_out list \<times> orientation_state" where
  "fold_OnChange defaultDisplay st =
     (let st1 = (case defaultDisplay of
                   None \<Rightarrow> st
                 | Some (w, h) \<Rightarrow> st\<lparr>displayOrientation := (if h > w then ''displayPortrait'' else ''displayLandscape'')\<rparr>)
      in if displayOrientation st1 = currentDisplayOrientation st1 then ([], st1)
         else ([ReportDisplayOrientationStatus MODE_ENTER (displayOrientation st1)],
               st1\<lparr>currentDisplayOrientation := displayOrientation st1\<rparr>))"

section \<open>Uploads and downloads\<close>

definition ENTER_UPLOAD_DOWNLOAD_SCENE :: i64 where "ENTER_UPLOAD_DOWNLOAD_SCENE = 0"
definition EXIT_UPLOAD_DOWNLOAD_SCENE :: i64 where "EXIT_UPLOAD_DOWNLOAD_SCENE = 1"

text \<open>The state is \<open>isReportedScene_\<close>, false at the start.\<close>

definition IsReporEnterScene :: "i32 \<Rightarrow> bool \<Rightarrow> bool" where
  "IsReporEnterScene count isReportedScene \<longleftrightarrow> 0 < count \<and> \<not> isReportedScene"

definition IsReporExitScene :: "i32 \<Rightarrow> bool \<Rightarrow> bool" where
  "IsReporExitScene count isReportedScene \<longleftrightarrow> count = 0 \<and> isReportedScene"

definition HandleEnterScene :: "ob_out list \<times> bool" where
  "HandleEnterScene = ([ObReport RES_TYPE_UPLOAD_DOWNLOAD ENTER_UPLOAD_DOWNLOAD_SCENE (JObj [])], True)"

definition HandleExitScene :: "ob_out list \<times> bool" where
  "HandleExitScene = ([ObReport RES_TYPE_UPLOAD_DOWNLOAD EXIT_UPLOAD_DOWNLOAD_SCENE (JObj [])], False)"

definition OnRunningTaskCountUpdate :: "i32 \<Rightarrow> bool \<Rightarrow> ob_out list \<times> bool" where
  "OnRunningTaskCountUpdate count isReportedScene =
     (if IsReporEnterScene count isReportedScene then HandleEnterScene
      else if IsReporExitScene count isReportedScene then HandleExitScene
      else ([], isReportedScene))"

text \<open>A sequence of counts, and the reports it makes.\<close>

fun task_counts :: "i32 list \<Rightarrow> bool \<Rightarrow> ob_out list" where
  "task_counts [] s = []"
| "task_counts (c # cs) s = (let (outs, s1) = OnRunningTaskCountUpdate c s in outs @ task_counts cs s1)"

definition scene_report :: "bool \<Rightarrow> ob_out" where
  "scene_report running = ObReport RES_TYPE_UPLOAD_DOWNLOAD
     (if running then ENTER_UPLOAD_DOWNLOAD_SCENE else EXIT_UPLOAD_DOWNLOAD_SCENE) (JObj [])"

lemma task_counts_changes:
  "map scene_report (s # tl (remdups_adj (s # map (\<lambda>c. 0 < c) (filter (\<lambda>c. 0 \<le> c) cs)))) =
   scene_report s # task_counts cs s"
proof (induction cs arbitrary: s)
  case (Cons c cs)
  consider "c < 0" | "0 \<le> c" "(0 < c) = s" | "0 \<le> c" "(0 < c) \<noteq> s" by linarith
  then show ?case
  proof cases
    case 1
    then show ?thesis using Cons.IH[of s]
      by (simp add: OnRunningTaskCountUpdate_def IsReporEnterScene_def IsReporExitScene_def)
  next
    case 2
    then have "OnRunningTaskCountUpdate c s = ([], s)"
      by (auto simp: OnRunningTaskCountUpdate_def IsReporEnterScene_def IsReporExitScene_def)
    then show ?thesis using 2 Cons.IH[of s] by simp
  next
    case 3
    then have "OnRunningTaskCountUpdate c s = ([scene_report (0 < c)], 0 < c)"
      by (auto simp: OnRunningTaskCountUpdate_def IsReporEnterScene_def IsReporExitScene_def HandleEnterScene_def
          HandleExitScene_def scene_report_def)
    moreover have "remdups_adj (s # (0 < c) # xs) = s # remdups_adj ((0 < c) # xs)" for xs using 3 by auto
    moreover have "remdups_adj ((0 < c) # xs) = (0 < c) # tl (remdups_adj ((0 < c) # xs))" for xs by (simp add: remdups_adj_Cons')
    ultimately show ?thesis using 3(1) Cons.IH[of "0 < c"] by (simp add: Let_def)
  qed
qed simp

text \<open>
  The observer of uploads and downloads reports exactly the changes of whether a task is running:
  the sequence of counts, without the negative ones, read as running or not and without repetitions.
\<close>

theorem download_reports_are_the_changes:
  "task_counts counts False =
     map scene_report (tl (remdups_adj (False # map (\<lambda>c. 0 < c) (filter (\<lambda>c. 0 \<le> c) counts))))"
  using task_counts_changes[of False counts] by (simp add: map_tl)

end
