(* ===== verification/Observer_Mgr.thy ===== *)
theory Observer_Mgr
  imports App_Observer
begin

text \<open>
  The observer manager (sched\_controller/observer/src/observer\_manager.cpp): it listens for system
  abilities coming and going and creates, registers and drops the observers of each.  The pointers
  to the observers are a map from kinds to objects; the calls to other services are an output list,
  each with the answer it got, and the answers are a function of the number of calls.  The features
  that are built in are parameters.
\<close>

section \<open>Data\<close>

datatype sys_ability =
    DFX_SYS_EVENT_SERVICE_ABILITY_ID | MULTIMODAL_INPUT_SERVICE_ID | TELEPHONY_STATE_REGISTRY_SYS_ABILITY_ID
  | AUDIO_POLICY_SERVICE_ID | MSDP_MOVEMENT_SERVICE_ID | DISPLAY_MANAGER_SERVICE_ID | DISPLAY_MANAGER_SERVICE_SA_ID
  | ABILITY_MGR_SERVICE_ID | DISTRIBUTED_KV_DATA_SERVICE_ABILITY_ID | DOWNLOAD_SERVICE_ID | AVSESSION_SERVICE_ID
  | SUBSYS_ACCOUNT_SYS_ABILITY_ID_BEGIN | WINDOW_MANAGER_SERVICE_ID | APP_MGR_SERVICE_ID | DISTRIBUTED_SCHED_SA_ID

datatype ob_kind =
    KHiSysEvent | KTelephony | KAudio | KMmi | KDisplayMode | KOrientation | KPower | KConnection | KContinuation
  | KAvSession | KDownload | KAccount | KFocus | KVisibility | KDrawing | KWindowMode | KPip | KStyle | KAppState

datatype topic =
    TpHiSysEvent | TpTelephony | TpRenderer | TpCapturer | TpRingerMode | TpVolumeKey | TpAudioScene | TpOutputDevice
  | TpInput | TpDisplayMode | TpDisplay | TpPowerEvent | TpConnection | TpContinuation | TpAvSession
  | TpDownload | TpAccount | TpFocus | TpVisibility | TpDrawing | TpWindowMode | TpPip | TpStyle | TpAppState

text \<open>What a registration is removed by: the process that made it, or the listener.\<close>

datatype whom = Owner | Listener "nat option"

datatype obm_out =
    ObmSubscribe sys_ability "nat option" bool
  | ObmRegister topic nat bool
  | ObmUnregister topic whom bool
  | ObmRules "(string \<times> string) list"
  | ObmKeySubscribe i32
  | ObmKeyUnsubscribe i32
  | ObmAudioInit nat
  | ObmAudioEnd nat
  | ObmDisplayMode nat
  | ObmInitWindowMode nat
  | ObmWindowStyle nat
  | ObmStartListen
  | ObmStopListen
  | ObmStartupInit
  | ObmStartupDeinit
  | ObmReport u32 i64 json
  | ObmInProcess u32 i64 json

record obm_env =
  with_app_nap :: bool
  with_mmi :: bool
  with_telephony :: bool
  with_audio :: bool
  with_av_session :: bool
  with_request :: bool
  with_continuation :: bool
  sa_number :: "sys_ability \<Rightarrow> i32"
  obm_answer :: "nat \<Rightarrow> bool"
  obm_alloc :: "nat \<Rightarrow> bool"
  has_samgr :: bool
  need_report :: "bool option"
  has_group_mgr :: bool
  has_app_mgr :: bool
  is_foldable :: bool
  key_subscribe_id :: "nat \<Rightarrow> i32"
  mmi_status_data :: "((i32 \<times> i32 \<times> string) \<times> i32) list"
  own_pid :: i32

record obm_state =
  sysAbilityListener :: "nat option"
  handleObservers :: "(i32 \<times> sys_ability) list"
  removeObservers :: "(i32 \<times> sys_ability) list"
  observers :: "(ob_kind \<times> nat) list"
  isNeedReport :: bool
  obm_pid :: i32
  slotId :: i32
  powerKeySubscribeId :: i32
  obm_next :: nat
  obm_calls :: nat
  obm_outs :: "obm_out list"

definition obm_new :: obm_state where
  "obm_new = \<lparr>sysAbilityListener = None, handleObservers = [], removeObservers = [], observers = [], isNeedReport = True,
     obm_pid = - 1, slotId = 0, powerKeySubscribeId = - 1, obm_next = 0, obm_calls = 0, obm_outs = []\<rparr>"

definition ADD_SYSTEM_ABILITY :: i64 where "ADD_SYSTEM_ABILITY = 0"
definition REMOVE_SYSTEM_ABILITY :: i64 where "REMOVE_SYSTEM_ABILITY = 1"

section \<open>Pointers and calls\<close>

definition obm_emit :: "obm_out \<Rightarrow> obm_state \<Rightarrow> obm_state" where
  "obm_emit out st = st\<lparr>obm_outs := obm_outs st @ [out]\<rparr>"

definition observer_at :: "ob_kind \<Rightarrow> obm_state \<Rightarrow> nat option" where
  "observer_at k st = map_of (observers st) k"

definition drop_observer :: "ob_kind \<Rightarrow> obm_state \<Rightarrow> obm_state" where
  "drop_observer k st = st\<lparr>observers := AList.delete k (observers st)\<rparr>"

definition put_observer :: "ob_kind \<Rightarrow> obm_state \<Rightarrow> nat \<times> obm_state" where
  "put_observer k st =
     (obm_next st, st\<lparr>observers := AList.update k (obm_next st) (observers st), obm_next := obm_next st + 1\<rparr>)"

text \<open>The observer of a kind, made when the pointer is null.\<close>

definition make_observer :: "ob_kind \<Rightarrow> obm_state \<Rightarrow> nat \<times> obm_state" where
  "make_observer k st = (case observer_at k st of Some ob \<Rightarrow> (ob, st) | None \<Rightarrow> put_observer k st)"

text \<open>The same with an allocation that may fail.\<close>

definition new_observer :: "obm_env \<Rightarrow> ob_kind \<Rightarrow> obm_state \<Rightarrow> nat option \<times> obm_state" where
  "new_observer E k st =
     (case observer_at k st of
        Some ob \<Rightarrow> (Some ob, st)
      | None \<Rightarrow> if obm_alloc E (obm_next st) then (case put_observer k st of (ob, st1) \<Rightarrow> (Some ob, st1)) else (None, st))"

definition obm_register :: "obm_env \<Rightarrow> topic \<Rightarrow> nat \<Rightarrow> obm_state \<Rightarrow> bool \<times> obm_state" where
  "obm_register E t ob st =
     (let ok = obm_answer E (obm_calls st) in (ok, obm_emit (ObmRegister t ob ok) (st\<lparr>obm_calls := obm_calls st + 1\<rparr>)))"

definition obm_unregister :: "obm_env \<Rightarrow> topic \<Rightarrow> whom \<Rightarrow> obm_state \<Rightarrow> bool \<times> obm_state" where
  "obm_unregister E t w st =
     (let ok = obm_answer E (obm_calls st) in (ok, obm_emit (ObmUnregister t w ok) (st\<lparr>obm_calls := obm_calls st + 1\<rparr>)))"

section \<open>System events, telephony and audio\<close>

definition sysRules :: "bool \<Rightarrow> (string \<times> string) list" where
  "sysRules need =
     [(''AUDIO'', ''STREAM_CHANGE''), (''CAMERA'', ''CAMERA_CONNECT''), (''CAMERA'', ''CAMERA_DISCONNECT''),
      (''BT_SERVICE'', ''BR_SWITCH_STATE''), (''BT_SERVICE'', ''BLE_SWITCH_STATE''),
      (''COMMUNICATION'', ''WIFI_CONNECTION''), (''COMMUNICATION'', ''WIFI_SCAN''), (''AV_CODEC'', ''CODEC_START_INFO''),
      (''AV_CODEC'', ''CODEC_STOP_INFO''), (''MULTIMEDIA'', ''PLAYER_STATE'')] @
     (if need then [(''POWER'', ''RUNNINGLOCK'')] else [])"

definition InitHiSysEventObserver :: "obm_env \<Rightarrow> obm_state \<Rightarrow> obm_state" where
  "InitHiSysEventObserver E st =
     (case make_observer KHiSysEvent st of
        (ob, st1) \<Rightarrow> snd (obm_register E TpHiSysEvent ob (obm_emit (ObmRules (sysRules (isNeedReport st1))) st1)))"

definition DisableHiSysEventObserver :: "obm_env \<Rightarrow> obm_state \<Rightarrow> obm_state" where
  "DisableHiSysEventObserver E st =
     (case observer_at KHiSysEvent st of
        None \<Rightarrow> st
      | Some ob \<Rightarrow> drop_observer KHiSysEvent (snd (obm_unregister E TpHiSysEvent (Listener (Some ob)) st)))"

definition InitTelephonyObserver :: "obm_env \<Rightarrow> obm_state \<Rightarrow> obm_state" where
  "InitTelephonyObserver E st =
     (if \<not> with_telephony E then st
      else (case make_observer KTelephony st of
              (ob, st1) \<Rightarrow> snd (obm_register E TpTelephony ob (st1\<lparr>slotId := 0\<rparr>))))"

definition DisableTelephonyObserver :: "obm_env \<Rightarrow> obm_state \<Rightarrow> obm_state" where
  "DisableTelephonyObserver E st =
     (if \<not> with_telephony E \<or> observer_at KTelephony st = None then st
      else drop_observer KTelephony (snd (obm_unregister E TpTelephony Owner (st\<lparr>slotId := 0\<rparr>))))"

definition InitAudioEventListener :: "obm_env \<Rightarrow> nat \<Rightarrow> obm_state \<Rightarrow> obm_state" where
  "InitAudioEventListener E ob st = snd (obm_register E TpCapturer ob (snd (obm_register E TpRenderer ob st)))"

definition InitAudioObserver :: "obm_env \<Rightarrow> obm_state \<Rightarrow> obm_state" where
  "InitAudioObserver E st =
     (if \<not> with_audio E then st
      else (case make_observer KAudio (st\<lparr>obm_pid := own_pid E\<rparr>) of
              (ob, st1) \<Rightarrow>
                (let st2 = InitAudioEventListener E ob st1;
                     st3 = (if has_group_mgr E then snd (obm_register E TpRingerMode ob st2) else st2);
                     st4 = snd (obm_register E TpVolumeKey ob st3);
                     st5 = snd (obm_register E TpAudioScene ob st4);
                     st6 = snd (obm_register E TpOutputDevice ob st5)
                 in obm_emit (ObmAudioInit ob) st6)))"

definition DisableAudioObserver :: "obm_env \<Rightarrow> obm_state \<Rightarrow> obm_state" where
  "DisableAudioObserver E st =
     (if \<not> with_audio E then st
      else (case observer_at KAudio st of
              None \<Rightarrow> st
            | Some ob \<Rightarrow>
                (let st1 = snd (obm_unregister E TpRenderer Owner st);
                     st2 = obm_emit (ObmAudioEnd ob) (snd (obm_unregister E TpCapturer Owner st1));
                     st3 = snd (obm_unregister E TpRingerMode Owner st2);
                     st4 = snd (obm_unregister E TpVolumeKey Owner st3);
                     st5 = snd (obm_unregister E TpAudioScene Owner st4)
                 in drop_observer KAudio st5)))"

section \<open>Input\<close>

definition GetAllMmiStatusData :: "obm_env \<Rightarrow> obm_state \<Rightarrow> obm_state" where
  "GetAllMmiStatusData E st =
     fold (\<lambda>((p, u, bundleName), status). obm_emit (ObmReport RES_TYPE_MMI_STATUS_CHANGE 0
         (JObj [(''pid'', JInt p), (''uid'', JInt u), (''bundleName'', JStr bundleName), (''status'', JInt status)])))
       (mmi_status_data E) st"

definition InitMMiEventObserver :: "obm_env \<Rightarrow> obm_state \<Rightarrow> obm_state" where
  "InitMMiEventObserver E st =
     (let key = key_subscribe_id E (obm_calls st);
          st1 = obm_emit (ObmKeySubscribe key) (st\<lparr>powerKeySubscribeId := key, obm_calls := obm_calls st + 1\<rparr>)
      in if \<not> with_app_nap E \<or> \<not> isNeedReport st1 then st1
         else (case make_observer KMmi st1 of
                 (ob, st2) \<Rightarrow>
                   (case obm_register E TpInput ob st2 of
                      (ok, st3) \<Rightarrow> if ok then GetAllMmiStatusData E st3 else st3)))"

definition DisableMMiEventObserver :: "obm_env \<Rightarrow> obm_state \<Rightarrow> obm_state" where
  "DisableMMiEventObserver E st =
     (let st1 = obm_emit (ObmKeyUnsubscribe (powerKeySubscribeId st)) st in
      if \<not> with_app_nap E then st1
      else (case observer_at KMmi st1 of
              None \<Rightarrow> st1
            | Some ob \<Rightarrow> drop_observer KMmi (snd (obm_unregister E TpInput (Listener (Some ob)) st1))))"

section \<open>Displays\<close>

definition InitDisplayModeObserver :: "obm_env \<Rightarrow> obm_state \<Rightarrow> obm_state" where
  "InitDisplayModeObserver E st =
     (if \<not> is_foldable E then st
      else (case new_observer E KDisplayMode st of
              (None, st1) \<Rightarrow> st1
            | (Some ob, st1) \<Rightarrow>
                (case obm_register E TpDisplayMode ob st1 of
                   (ok, st2) \<Rightarrow> if ok then obm_emit (ObmDisplayMode ob) st2 else drop_observer KDisplayMode st2)))"

text \<open>A listener that cannot be unregistered keeps its pointer.\<close>

definition unregister_or_keep :: "obm_env \<Rightarrow> ob_kind \<Rightarrow> topic \<Rightarrow> obm_state \<Rightarrow> obm_state" where
  "unregister_or_keep E k t st =
     (case observer_at k st of
        None \<Rightarrow> st
      | Some ob \<Rightarrow> (case obm_unregister E t (Listener (Some ob)) st of (ok, st1) \<Rightarrow> if ok then drop_observer k st1 else st1))"

definition DisableDisplayModeObserver :: "obm_env \<Rightarrow> obm_state \<Rightarrow> obm_state" where
  "DisableDisplayModeObserver E st = unregister_or_keep E KDisplayMode TpDisplayMode st"

definition InitDisplayOrientationObserver :: "obm_env \<Rightarrow> obm_state \<Rightarrow> obm_state" where
  "InitDisplayOrientationObserver E st =
     (if \<not> is_foldable E then st
      else (case new_observer E KOrientation st of
              (None, st1) \<Rightarrow> st1
            | (Some ob, st1) \<Rightarrow>
                (case obm_register E TpDisplay ob st1 of (ok, st2) \<Rightarrow> if ok then st2 else drop_observer KOrientation st2)))"

definition DisableDisplayOrientationObserver :: "obm_env \<Rightarrow> obm_state \<Rightarrow> obm_state" where
  "DisableDisplayOrientationObserver E st = unregister_or_keep E KOrientation TpDisplay st"

definition InitDisplayPowerEventObserver :: "obm_env \<Rightarrow> obm_state \<Rightarrow> obm_state" where
  "InitDisplayPowerEventObserver E st =
     (case new_observer E KPower st of
        (None, st1) \<Rightarrow> st1
      | (Some ob, st1) \<Rightarrow>
          (case obm_register E TpPowerEvent ob st1 of (ok, st2) \<Rightarrow> if ok then st2 else drop_observer KPower st2))"

definition DisableDisplayPowerEventObserver :: "obm_env \<Rightarrow> obm_state \<Rightarrow> obm_state" where
  "DisableDisplayPowerEventObserver E st = unregister_or_keep E KPower TpPowerEvent st"

definition InitDisplayManagerServiceSAObserver :: "obm_env \<Rightarrow> obm_state \<Rightarrow> obm_state" where
  "InitDisplayManagerServiceSAObserver E st = InitDisplayPowerEventObserver E (InitDisplayOrientationObserver E st)"

definition DisableDisplayManagerServiceSAObserver :: "obm_env \<Rightarrow> obm_state \<Rightarrow> obm_state" where
  "DisableDisplayManagerServiceSAObserver E st = DisableDisplayPowerEventObserver E (DisableDisplayOrientationObserver E st)"

section \<open>Connections, continuations, data, sessions, downloads, accounts\<close>

definition InitConnectionSubscriber :: "obm_env \<Rightarrow> obm_state \<Rightarrow> obm_state" where
  "InitConnectionSubscriber E st =
     (case make_observer KConnection st of (ob, st1) \<Rightarrow> snd (obm_register E TpConnection ob st1))"

definition DisableConnectionSubscriber :: "obm_env \<Rightarrow> obm_state \<Rightarrow> obm_state" where
  "DisableConnectionSubscriber E st =
     (case observer_at KConnection st of
        None \<Rightarrow> st
      | Some ob \<Rightarrow> drop_observer KConnection (snd (obm_unregister E TpConnection (Listener (Some ob)) st)))"

definition InitContinuationObserver :: "obm_env \<Rightarrow> obm_state \<Rightarrow> obm_state" where
  "InitContinuationObserver E st =
     (case new_observer E KContinuation st of
        (None, st1) \<Rightarrow> st1
      | (Some ob, st1) \<Rightarrow> snd (obm_register E TpContinuation ob st1))"

definition DisableContinuationObserver :: "obm_env \<Rightarrow> obm_state \<Rightarrow> obm_state" where
  "DisableContinuationObserver E st =
     (case observer_at KContinuation st of
        None \<Rightarrow> st
      | Some ob \<Rightarrow> drop_observer KContinuation (snd (obm_unregister E TpContinuation (Listener (Some ob)) st)))"

definition InitDataShareObserver :: "obm_state \<Rightarrow> obm_state" where
  "InitDataShareObserver st = obm_emit ObmStartListen st"

definition DisableDataShareObserver :: "obm_state \<Rightarrow> obm_state" where
  "DisableDataShareObserver st = obm_emit ObmStopListen st"

definition InitAVSessionStateChangeListener :: "obm_env \<Rightarrow> obm_state \<Rightarrow> obm_state" where
  "InitAVSessionStateChangeListener E st =
     (case make_observer KAvSession st of (ob, st1) \<Rightarrow> snd (obm_register E TpAvSession ob st1))"

definition DisableAVSessionStateChangeListener :: "obm_state \<Rightarrow> obm_state" where
  "DisableAVSessionStateChangeListener st = drop_observer KAvSession st"

definition InitDownloadUploadObserver :: "obm_env \<Rightarrow> obm_state \<Rightarrow> obm_state" where
  "InitDownloadUploadObserver E st =
     (case make_observer KDownload st of (ob, st1) \<Rightarrow> snd (obm_register E TpDownload ob st1))"

definition DisableDownloadUploadObserver :: "obm_env \<Rightarrow> obm_state \<Rightarrow> obm_state" where
  "DisableDownloadUploadObserver E st =
     drop_observer KDownload (snd (obm_unregister E TpDownload (Listener (observer_at KDownload st)) st))"

definition InitAccountObserver :: "obm_env \<Rightarrow> obm_state \<Rightarrow> obm_state" where
  "InitAccountObserver E st =
     (case make_observer KAccount st of (ob, st1) \<Rightarrow> snd (obm_register E TpAccount ob st1))"

definition DisableAccountObserver :: "obm_state \<Rightarrow> obm_state" where
  "DisableAccountObserver st = st"

section \<open>Windows\<close>

text \<open>The listeners of windows that are registered only when they are made, whatever the answer.\<close>

definition register_once :: "obm_env \<Rightarrow> ob_kind \<Rightarrow> topic \<Rightarrow> obm_state \<Rightarrow> obm_state" where
  "register_once E k t st =
     (if observer_at k st \<noteq> None then st
      else (case new_observer E k st of
              (None, st1) \<Rightarrow> st1
            | (Some ob, st1) \<Rightarrow> snd (obm_register E t ob st1)))"

definition SubscribeWindowModeChange :: "obm_env \<Rightarrow> obm_state \<Rightarrow> obm_state" where
  "SubscribeWindowModeChange E st =
     (if observer_at KWindowMode st \<noteq> None then st
      else (case new_observer E KWindowMode st of
              (None, st1) \<Rightarrow> st1
            | (Some ob, st1) \<Rightarrow> obm_emit (ObmInitWindowMode ob) (snd (obm_register E TpWindowMode ob st1))))"

definition SubscribePipChange :: "obm_env \<Rightarrow> obm_state \<Rightarrow> obm_state" where
  "SubscribePipChange E st = register_once E KPip TpPip st"

definition InitWindowStyleObserver :: "obm_env \<Rightarrow> obm_state \<Rightarrow> bool \<times> obm_state" where
  "InitWindowStyleObserver E st =
     (case make_observer KStyle st of
        (ob, st1) \<Rightarrow>
          (case obm_register E TpStyle ob st1 of
             (ok, st2) \<Rightarrow> if ok then (True, obm_emit (ObmWindowStyle ob) st2) else (False, st2)))"

definition InitWindowStateObserver :: "obm_env \<Rightarrow> obm_state \<Rightarrow> obm_state" where
  "InitWindowStateObserver E st =
     (let st1 = register_once E KFocus TpFocus st;
          st2 = register_once E KVisibility TpVisibility st1;
          st3 = register_once E KDrawing TpDrawing st2
      in snd (InitWindowStyleObserver E (SubscribePipChange E (SubscribeWindowModeChange E st3))))"

text \<open>The answer to the removal of such a listener is not looked at.\<close>

definition unregister_and_drop :: "obm_env \<Rightarrow> ob_kind \<Rightarrow> topic \<Rightarrow> obm_state \<Rightarrow> obm_state" where
  "unregister_and_drop E k t st =
     (case observer_at k st of
        None \<Rightarrow> st
      | Some ob \<Rightarrow> drop_observer k (snd (obm_unregister E t (Listener (Some ob)) st)))"

definition UnsubscribeWindowModeChange :: "obm_env \<Rightarrow> obm_state \<Rightarrow> obm_state" where
  "UnsubscribeWindowModeChange E st = unregister_and_drop E KWindowMode TpWindowMode st"

definition UnsubscribePipChange :: "obm_env \<Rightarrow> obm_state \<Rightarrow> obm_state" where
  "UnsubscribePipChange E st = unregister_and_drop E KPip TpPip st"

definition DisableWindowStyleObserver :: "obm_env \<Rightarrow> obm_state \<Rightarrow> bool \<times> obm_state" where
  "DisableWindowStyleObserver E st =
     (case observer_at KStyle st of
        None \<Rightarrow> (True, st)
      | Some ob \<Rightarrow>
          (case obm_unregister E TpStyle (Listener (Some ob)) st of
             (ok, st1) \<Rightarrow> if ok then (True, drop_observer KStyle st1) else (False, st1)))"

definition DisableWindowStateObserver :: "obm_env \<Rightarrow> obm_state \<Rightarrow> obm_state" where
  "DisableWindowStateObserver E st =
     (let st1 = unregister_and_drop E KFocus TpFocus st;
          st2 = unregister_and_drop E KVisibility TpVisibility st1;
          st3 = unregister_and_drop E KDrawing TpDrawing st2
      in snd (DisableWindowStyleObserver E (UnsubscribePipChange E (UnsubscribeWindowModeChange E st3))))"

section \<open>Applications\<close>

text \<open>A new observer is made each time; the application manager answers if there is a registry.\<close>

definition SubscribeAppState :: "obm_env \<Rightarrow> obm_state \<Rightarrow> obm_state" where
  "SubscribeAppState E st =
     (if \<not> has_samgr E \<or> \<not> has_app_mgr E then st
      else if \<not> obm_alloc E (obm_next st) then drop_observer KAppState st
      else (case put_observer KAppState st of
              (ob, st1) \<Rightarrow>
                (case obm_register E TpAppState ob st1 of (ok, st2) \<Rightarrow> if ok then st2 else drop_observer KAppState st2)))"

definition UnsubscribeAppState :: "obm_env \<Rightarrow> obm_state \<Rightarrow> obm_state" where
  "UnsubscribeAppState E st =
     (case observer_at KAppState st of
        None \<Rightarrow> st
      | Some ob \<Rightarrow>
          drop_observer KAppState
            (if has_samgr E \<and> has_app_mgr E then snd (obm_unregister E TpAppState (Listener (Some ob)) st) else st))"

section \<open>System abilities coming and going\<close>

text \<open>The keys of \<open>handleObserverMap_\<close> and of \<open>removeObserverMap_\<close>, and what they stand for.\<close>

definition observed_abilities :: "obm_env \<Rightarrow> sys_ability list" where
  "observed_abilities E =
     (if with_app_nap E then [DFX_SYS_EVENT_SERVICE_ABILITY_ID] else []) @
     (if with_mmi E then [MULTIMODAL_INPUT_SERVICE_ID] else []) @
     [TELEPHONY_STATE_REGISTRY_SYS_ABILITY_ID, AUDIO_POLICY_SERVICE_ID, DISPLAY_MANAGER_SERVICE_ID,
      DISPLAY_MANAGER_SERVICE_SA_ID, ABILITY_MGR_SERVICE_ID, DISTRIBUTED_KV_DATA_SERVICE_ABILITY_ID] @
     (if with_request E then [DOWNLOAD_SERVICE_ID] else []) @
     (if with_av_session E then [AVSESSION_SERVICE_ID] else []) @
     [SUBSYS_ACCOUNT_SYS_ABILITY_ID_BEGIN, WINDOW_MANAGER_SERVICE_ID, APP_MGR_SERVICE_ID] @
     (if with_continuation E then [DISTRIBUTED_SCHED_SA_ID] else [])"

fun handle_observer :: "obm_env \<Rightarrow> sys_ability \<Rightarrow> obm_state \<Rightarrow> obm_state" where
  "handle_observer E DFX_SYS_EVENT_SERVICE_ABILITY_ID = InitHiSysEventObserver E"
| "handle_observer E MULTIMODAL_INPUT_SERVICE_ID = InitMMiEventObserver E"
| "handle_observer E TELEPHONY_STATE_REGISTRY_SYS_ABILITY_ID = InitTelephonyObserver E"
| "handle_observer E AUDIO_POLICY_SERVICE_ID = InitAudioObserver E"
| "handle_observer E DISPLAY_MANAGER_SERVICE_ID = InitDisplayModeObserver E"
| "handle_observer E DISPLAY_MANAGER_SERVICE_SA_ID = InitDisplayManagerServiceSAObserver E"
| "handle_observer E ABILITY_MGR_SERVICE_ID = InitConnectionSubscriber E"
| "handle_observer E DISTRIBUTED_KV_DATA_SERVICE_ABILITY_ID = InitDataShareObserver"
| "handle_observer E DOWNLOAD_SERVICE_ID = InitDownloadUploadObserver E"
| "handle_observer E AVSESSION_SERVICE_ID = InitAVSessionStateChangeListener E"
| "handle_observer E SUBSYS_ACCOUNT_SYS_ABILITY_ID_BEGIN = InitAccountObserver E"
| "handle_observer E WINDOW_MANAGER_SERVICE_ID = InitWindowStateObserver E"
| "handle_observer E APP_MGR_SERVICE_ID = SubscribeAppState E"
| "handle_observer E DISTRIBUTED_SCHED_SA_ID = InitContinuationObserver E"
| "handle_observer E MSDP_MOVEMENT_SERVICE_ID = id"

fun remove_observer :: "obm_env \<Rightarrow> sys_ability \<Rightarrow> obm_state \<Rightarrow> obm_state" where
  "remove_observer E DFX_SYS_EVENT_SERVICE_ABILITY_ID = DisableHiSysEventObserver E"
| "remove_observer E MULTIMODAL_INPUT_SERVICE_ID = DisableMMiEventObserver E"
| "remove_observer E TELEPHONY_STATE_REGISTRY_SYS_ABILITY_ID = DisableTelephonyObserver E"
| "remove_observer E AUDIO_POLICY_SERVICE_ID = DisableAudioObserver E"
| "remove_observer E DISPLAY_MANAGER_SERVICE_ID = DisableDisplayModeObserver E"
| "remove_observer E DISPLAY_MANAGER_SERVICE_SA_ID = DisableDisplayManagerServiceSAObserver E"
| "remove_observer E ABILITY_MGR_SERVICE_ID = DisableConnectionSubscriber E"
| "remove_observer E DISTRIBUTED_KV_DATA_SERVICE_ABILITY_ID = DisableDataShareObserver"
| "remove_observer E DOWNLOAD_SERVICE_ID = DisableDownloadUploadObserver E"
| "remove_observer E AVSESSION_SERVICE_ID = DisableAVSessionStateChangeListener"
| "remove_observer E SUBSYS_ACCOUNT_SYS_ABILITY_ID_BEGIN = DisableAccountObserver"
| "remove_observer E WINDOW_MANAGER_SERVICE_ID = DisableWindowStateObserver E"
| "remove_observer E APP_MGR_SERVICE_ID = UnsubscribeAppState E"
| "remove_observer E DISTRIBUTED_SCHED_SA_ID = DisableContinuationObserver E"
| "remove_observer E MSDP_MOVEMENT_SERVICE_ID = id"

definition InitRemoveObserverCbMap :: "obm_env \<Rightarrow> obm_state \<Rightarrow> obm_state" where
  "InitRemoveObserverCbMap E st = st\<lparr>removeObservers := map (\<lambda>sa. (sa_number E sa, sa)) (observed_abilities E)\<rparr>"

definition InitObserverCbMap :: "obm_env \<Rightarrow> obm_state \<Rightarrow> obm_state" where
  "InitObserverCbMap E st =
     InitRemoveObserverCbMap E (st\<lparr>handleObservers := map (\<lambda>sa. (sa_number E sa, sa)) (observed_abilities E)\<rparr>)"

text \<open>The extension library is asked once; without it, or without its function, nothing changes.\<close>

definition GetReportFunc :: "obm_env \<Rightarrow> obm_state \<Rightarrow> obm_state" where
  "GetReportFunc E st = (case need_report E of None \<Rightarrow> st | Some b \<Rightarrow> st\<lparr>isNeedReport := b\<rparr>)"

definition AddItemToSysAbilityListener :: "obm_env \<Rightarrow> sys_ability \<Rightarrow> obm_state \<Rightarrow> obm_state" where
  "AddItemToSysAbilityListener E sa st =
     (let ok = obm_answer E (obm_calls st);
          st1 = obm_emit (ObmSubscribe sa (sysAbilityListener st) ok) (st\<lparr>obm_calls := obm_calls st + 1\<rparr>)
      in if ok then st1 else st1\<lparr>sysAbilityListener := None\<rparr>)"

definition listened_abilities :: "obm_env \<Rightarrow> sys_ability list" where
  "listened_abilities E =
     [DFX_SYS_EVENT_SERVICE_ABILITY_ID, TELEPHONY_STATE_REGISTRY_SYS_ABILITY_ID, AUDIO_POLICY_SERVICE_ID,
      MSDP_MOVEMENT_SERVICE_ID, MULTIMODAL_INPUT_SERVICE_ID, DISPLAY_MANAGER_SERVICE_ID, DISPLAY_MANAGER_SERVICE_SA_ID,
      ABILITY_MGR_SERVICE_ID, DISTRIBUTED_KV_DATA_SERVICE_ABILITY_ID] @
     (if with_request E then [DOWNLOAD_SERVICE_ID] else []) @
     (if with_av_session E then [AVSESSION_SERVICE_ID] else []) @
     [SUBSYS_ACCOUNT_SYS_ABILITY_ID_BEGIN, WINDOW_MANAGER_SERVICE_ID, APP_MGR_SERVICE_ID] @
     (if with_continuation E then [DISTRIBUTED_SCHED_SA_ID] else [])"

definition InitSysAbilityListener :: "obm_env \<Rightarrow> obm_state \<Rightarrow> obm_state" where
  "InitSysAbilityListener E st =
     (if sysAbilityListener st \<noteq> None then st
      else if \<not> obm_alloc E (obm_next st) then st
      else if \<not> has_samgr E then st\<lparr>obm_next := obm_next st + 1\<rparr>
      else
        (let st1 = st\<lparr>sysAbilityListener := Some (obm_next st), obm_next := obm_next st + 1\<rparr>
         in fold (AddItemToSysAbilityListener E) (listened_abilities E) (GetReportFunc E (InitObserverCbMap E st1))))"

definition obm_Init :: "obm_env \<Rightarrow> obm_state \<Rightarrow> obm_state" where
  "obm_Init E st = InitSysAbilityListener E (obm_emit ObmStartupInit st)"

definition obm_Disable :: "obm_env \<Rightarrow> obm_state \<Rightarrow> obm_state" where
  "obm_Disable E st =
     (let st1 = st\<lparr>handleObservers := [], removeObservers := []\<rparr>;
          st2 = (if with_app_nap E then DisableHiSysEventObserver E st1 else st1);
          st3 = obm_emit ObmStartupDeinit (DisableTelephonyObserver E st2)
      in st3\<lparr>sysAbilityListener := None\<rparr>)"

definition status_report :: "i64 \<Rightarrow> i32 \<Rightarrow> obm_out" where
  "status_report v n = ObmInProcess RES_TYPE_OBSERVER_MANAGER_STATUS_CHANGE v (JObj [(''saId'', int_text n)])"

definition obm_OnAddSystemAbility :: "obm_env \<Rightarrow> i32 \<Rightarrow> obm_state \<Rightarrow> obm_state" where
  "obm_OnAddSystemAbility E systemAbilityId st =
     (case map_of (handleObservers st) systemAbilityId of
        None \<Rightarrow> st
      | Some sa \<Rightarrow> obm_emit (status_report ADD_SYSTEM_ABILITY systemAbilityId) (handle_observer E sa st))"

definition obm_OnRemoveSystemAbility :: "obm_env \<Rightarrow> i32 \<Rightarrow> obm_state \<Rightarrow> obm_state" where
  "obm_OnRemoveSystemAbility E systemAbilityId st =
     (case map_of (removeObservers st) systemAbilityId of
        None \<Rightarrow> st
      | Some sa \<Rightarrow> obm_emit (status_report REMOVE_SYSTEM_ABILITY systemAbilityId) (remove_observer E sa st))"

end
