(* ===== verification/Observer_Mgr_Props.thy ===== *)
theory Observer_Mgr_Props
  imports Observer_Mgr
begin

text \<open>
  What the observer manager leaves with the other services: which of them hold which observer, as
  told by the calls made and their answers.
\<close>

section \<open>Who holds an observer\<close>

fun heard_call :: "obm_out \<Rightarrow> (topic \<times> nat) set \<Rightarrow> (topic \<times> nat) set" where
  "heard_call (ObmRegister t ob True) held = insert (t, ob) held"
| "heard_call (ObmUnregister t Owner True) held = {h \<in> held. fst h \<noteq> t}"
| "heard_call (ObmUnregister t (Listener (Some ob)) True) held = held - {(t, ob)}"
| "heard_call _ held = held"

definition held_by :: "obm_state \<Rightarrow> (topic \<times> nat) set" where
  "held_by st = fold heard_call (obm_outs st) {}"

fun kind_of :: "topic \<Rightarrow> ob_kind" where
  "kind_of TpHiSysEvent = KHiSysEvent"
| "kind_of TpTelephony = KTelephony"
| "kind_of TpRenderer = KAudio"
| "kind_of TpCapturer = KAudio"
| "kind_of TpRingerMode = KAudio"
| "kind_of TpVolumeKey = KAudio"
| "kind_of TpAudioScene = KAudio"
| "kind_of TpOutputDevice = KAudio"
| "kind_of TpInput = KMmi"
| "kind_of TpDisplayMode = KDisplayMode"
| "kind_of TpDisplay = KOrientation"
| "kind_of TpPowerEvent = KPower"
| "kind_of TpConnection = KConnection"
| "kind_of TpContinuation = KContinuation"
| "kind_of TpAvSession = KAvSession"
| "kind_of TpDownload = KDownload"
| "kind_of TpAccount = KAccount"
| "kind_of TpFocus = KFocus"
| "kind_of TpVisibility = KVisibility"
| "kind_of TpDrawing = KDrawing"
| "kind_of TpWindowMode = KWindowMode"
| "kind_of TpPip = KPip"
| "kind_of TpStyle = KStyle"
| "kind_of TpAppState = KAppState"

text \<open>Where an observer can be left behind: see the findings.\<close>

definition leaky :: "topic set" where "leaky = {TpOutputDevice, TpAvSession, TpAppState}"

definition owned :: "obm_state \<Rightarrow> bool" where
  "owned st \<longleftrightarrow> (\<forall>t ob. (t, ob) \<in> held_by st \<longrightarrow> t \<notin> leaky \<longrightarrow> observer_at (kind_of t) st = Some ob)"

definition unheld :: "ob_kind \<Rightarrow> obm_state \<Rightarrow> bool" where
  "unheld k st \<longleftrightarrow> (\<forall>t ob. (t, ob) \<in> held_by st \<longrightarrow> t \<notin> leaky \<longrightarrow> kind_of t \<noteq> k)"

definition unheld_at :: "topic \<Rightarrow> obm_state \<Rightarrow> bool" where
  "unheld_at t st \<longleftrightarrow> (\<forall>ob. (t, ob) \<notin> held_by st)"

section \<open>The steps\<close>

lemma held_emit: "held_by (obm_emit out st) = heard_call out (held_by st)"
  by (simp add: held_by_def obm_emit_def)

lemma observer_emit [simp]: "observer_at k (obm_emit out st) = observer_at k st"
  by (simp add: observer_at_def obm_emit_def)

lemma frame [simp]:
  "held_by (st\<lparr>slotId := s\<rparr>) = held_by st" "observer_at k (st\<lparr>slotId := s\<rparr>) = observer_at k st"
  "held_by (st\<lparr>obm_pid := p\<rparr>) = held_by st" "observer_at k (st\<lparr>obm_pid := p\<rparr>) = observer_at k st"
  "held_by (st\<lparr>obm_calls := n\<rparr>) = held_by st" "observer_at k (st\<lparr>obm_calls := n\<rparr>) = observer_at k st"
  "held_by (st\<lparr>powerKeySubscribeId := i\<rparr>) = held_by st"
  "observer_at k (st\<lparr>powerKeySubscribeId := i\<rparr>) = observer_at k st"
  "held_by (st\<lparr>observers := obs\<rparr>) = held_by st"
  "held_by (st\<lparr>obm_next := n\<rparr>) = held_by st" "observer_at k (st\<lparr>obm_next := n\<rparr>) = observer_at k st"
  "held_by (st\<lparr>isNeedReport := b\<rparr>) = held_by st" "observer_at k (st\<lparr>isNeedReport := b\<rparr>) = observer_at k st"
  "held_by (st\<lparr>sysAbilityListener := l\<rparr>) = held_by st" "observer_at k (st\<lparr>sysAbilityListener := l\<rparr>) = observer_at k st"
  "held_by (st\<lparr>handleObservers := hs\<rparr>) = held_by st" "observer_at k (st\<lparr>handleObservers := hs\<rparr>) = observer_at k st"
  "held_by (st\<lparr>removeObservers := hs\<rparr>) = held_by st" "observer_at k (st\<lparr>removeObservers := hs\<rparr>) = observer_at k st"
  by (simp_all add: held_by_def observer_at_def)

lemma observer_drop [simp]: "observer_at k (drop_observer k' st) = (if k = k' then None else observer_at k st)"
  by (simp add: drop_observer_def observer_at_def AList.delete_conv')

lemma held_drop [simp]: "held_by (drop_observer k st) = held_by st"
  by (simp add: drop_observer_def)

lemma put_observer_at:
  "observer_at k (snd (put_observer k' st)) = (if k = k' then Some (obm_next st) else observer_at k st)"
  "held_by (snd (put_observer k' st)) = held_by st" "fst (put_observer k' st) = obm_next st"
  by (simp_all add: put_observer_def observer_at_def AList.update_conv' held_by_def)

lemma owned_same:
  "held_by st' = held_by st \<Longrightarrow> (\<And>k. observer_at k st' = observer_at k st) \<Longrightarrow> owned st' = owned st"
  by (simp add: owned_def)

fun is_call :: "obm_out \<Rightarrow> bool" where
  "is_call (ObmRegister t ob ok) = True"
| "is_call (ObmUnregister t w ok) = True"
| "is_call _ = False"

lemma heard_other: "\<not> is_call out \<Longrightarrow> heard_call out held = held"
  by (cases out) auto

lemma owned_emit [simp]: "\<not> is_call out \<Longrightarrow> owned (obm_emit out st) = owned st"
  by (intro owned_same) (simp_all add: held_emit heard_other)

lemma owned_frame [simp]:
  "owned (st\<lparr>slotId := s\<rparr>) = owned st" "owned (st\<lparr>obm_pid := p\<rparr>) = owned st" "owned (st\<lparr>obm_calls := n\<rparr>) = owned st"
  "owned (st\<lparr>powerKeySubscribeId := i\<rparr>) = owned st" "owned (st\<lparr>obm_next := n\<rparr>) = owned st"
  "owned (st\<lparr>isNeedReport := b\<rparr>) = owned st" "owned (st\<lparr>sysAbilityListener := l\<rparr>) = owned st"
  "owned (st\<lparr>handleObservers := hs\<rparr>) = owned st" "owned (st\<lparr>removeObservers := hs\<rparr>) = owned st"
  by (rule owned_same; simp)+

lemma owned_put: "owned st \<Longrightarrow> observer_at k st = None \<Longrightarrow> owned (snd (put_observer k st))"
  unfolding owned_def put_observer_at by fastforce

lemma make_observer_owned:
  assumes "owned st" "make_observer k st = (ob, st1)"
  shows "owned st1 \<and> observer_at k st1 = Some ob \<and> held_by st1 = held_by st"
  using assms owned_put[OF assms(1), of k] put_observer_at(1)[of k k st] put_observer_at(2,3)[of k st]
  by (cases "put_observer k st") (auto simp: make_observer_def split: option.splits)

lemma new_observer_owned:
  assumes "owned st" "new_observer E k st = (i, st1)"
  shows "owned st1 \<and> (i = None \<or> observer_at k st1 = i) \<and> (i = None \<longrightarrow> st1 = st)"
  using assms owned_put[OF assms(1), of k] put_observer_at(1)[of k k st] put_observer_at(2,3)[of k st]
  by (cases "put_observer k st") (auto simp: new_observer_def split: option.splits if_splits)

lemma register_owned:
  assumes "owned st" "observer_at (kind_of t) st = Some ob" "obm_register E t ob st = (ok, st1)"
  shows "owned st1 \<and> (\<forall>k. observer_at k st1 = observer_at k st)"
  using assms by (cases ok) (auto simp: obm_register_def Let_def owned_def held_emit)

lemma unregister_observers [simp]: "observer_at k (snd (obm_unregister E t w st)) = observer_at k st"
  by (simp add: obm_unregister_def Let_def)

lemma unregister_owned: "owned st \<Longrightarrow> owned (snd (obm_unregister E t w st))"
  by (cases "(ObmUnregister t w (obm_answer E (obm_calls st)), held_by st)" rule: heard_call.cases)
     (auto simp: obm_unregister_def Let_def owned_def held_emit)

lemma unregister_unheld:
  assumes "owned st" "\<And>n. obm_answer E n" "w = Owner \<or> w = Listener (observer_at (kind_of t) st) \<and> t \<notin> leaky"
  shows "unheld_at t (snd (obm_unregister E t w st))"
  using assms by (cases "observer_at (kind_of t) st") (auto simp: obm_unregister_def Let_def unheld_at_def held_emit owned_def)

lemma unheld_at_unregister: "unheld_at t st \<Longrightarrow> unheld_at t (snd (obm_unregister E t' w st))"
  by (cases "(ObmUnregister t' w (obm_answer E (obm_calls st)), held_by st)" rule: heard_call.cases)
     (auto simp: obm_unregister_def Let_def unheld_at_def held_emit)

lemma unheld_at_emit [simp]: "\<not> is_call out \<Longrightarrow> unheld_at t (obm_emit out st) = unheld_at t st"
  by (simp add: unheld_at_def held_emit heard_other)

lemma drop_owned:
  assumes "owned st" "\<And>t. kind_of t = k \<Longrightarrow> t \<notin> leaky \<Longrightarrow> unheld_at t st"
  shows "owned (drop_observer k st)"
  using assms unfolding owned_def unheld_at_def by fastforce

lemma kind_of_inj: "kind_of t' = kind_of t \<Longrightarrow> kind_of t \<noteq> KAudio \<Longrightarrow> t' = t"
  by (cases t; cases t') simp_all

lemma audio_topics: "kind_of t = KAudio \<Longrightarrow> t \<notin> leaky \<Longrightarrow> t \<in> {TpRenderer, TpCapturer, TpRingerMode, TpVolumeKey, TpAudioScene}"
  by (cases t) (simp_all add: leaky_def)

lemma state_and_session_topics: "kind_of t = KAppState \<or> kind_of t = KAvSession \<Longrightarrow> t \<in> leaky"
  by (cases t) (simp_all add: leaky_def)

lemma owned_put_leaky:
  "owned st \<Longrightarrow> (\<And>t. kind_of t = k \<Longrightarrow> t \<in> leaky) \<Longrightarrow> owned (snd (put_observer k st))"
  unfolding owned_def put_observer_at by fastforce

text \<open>The patterns the handlers are made of.\<close>

lemma register_made:
  assumes "owned st" "kind_of t = k" "\<And>s. owned s \<Longrightarrow> owned (f s)" "\<And>s. observer_at k (f s) = observer_at k s"
  shows "owned (case make_observer k st of (ob, st1) \<Rightarrow> snd (obm_register E t ob (f st1)))"
proof -
  obtain ob st1 where m: "make_observer k st = (ob, st1)" by (cases "make_observer k st")
  obtain ok st2 where r: "obm_register E t ob (f st1) = (ok, st2)" by (cases "obm_register E t ob (f st1)")
  have "owned (f st1)" "observer_at (kind_of t) (f st1) = Some ob"
    using make_observer_owned[OF assms(1) m] assms(2-4) by auto
  from register_owned[OF this r] show ?thesis by (simp add: m r)
qed

lemma obm_register_ok: "(\<And>n. obm_answer E n) \<Longrightarrow> fst (obm_register E t ob st)"
  by (simp add: obm_register_def Let_def)

lemma register_new:
  assumes "owned st" "kind_of t = k" "\<And>n. obm_answer E n" "\<And>ob s. owned s \<Longrightarrow> owned (f ob s)"
  shows "owned (case new_observer E k st of (None, st1) \<Rightarrow> st1
    | (Some ob, st1) \<Rightarrow> (case obm_register E t ob st1 of (ok, st2) \<Rightarrow> if ok then f ob st2 else drop_observer k st2))"
proof -
  obtain i st1 where n: "new_observer E k st = (i, st1)" by (cases "new_observer E k st")
  note o = new_observer_owned[OF assms(1) n]
  show ?thesis
  proof (cases i)
    case None
    with o n show ?thesis by auto
  next
    case (Some ob)
    obtain ok st2 where r: "obm_register E t ob st1 = (ok, st2)" by (cases "obm_register E t ob st1")
    then have "owned st2" ok using register_owned[OF _ _ r] obm_register_ok[OF assms(3), of t ob st1] o Some assms(2) by auto
    with assms(4) n r Some show ?thesis by simp
  qed
qed

lemma drop_single:
  assumes "owned st" "\<And>n. obm_answer E n" "kind_of t = k" "k \<noteq> KAudio" "t \<notin> leaky"
  shows "owned (drop_observer k (snd (obm_unregister E t (Listener (observer_at k st)) st)))"
proof (rule drop_owned)
  show "owned (snd (obm_unregister E t (Listener (observer_at k st)) st))" by (rule unregister_owned[OF assms(1)])
  fix t' assume "kind_of t' = k" "t' \<notin> leaky"
  then have "t' = t" using kind_of_inj assms(3,4) by metis
  then show "unheld_at t' (snd (obm_unregister E t (Listener (observer_at k st)) st))"
    using unregister_unheld[OF assms(1,2)] assms(3,5) by blast
qed

lemma drop_pattern:
  assumes "owned st" "\<And>n. obm_answer E n" "kind_of t = k" "k \<noteq> KAudio" "t \<notin> leaky"
  shows "owned (case observer_at k st of None \<Rightarrow> st
    | Some ob \<Rightarrow> drop_observer k (snd (obm_unregister E t (Listener (Some ob)) st)))"
  using drop_single[OF assms] assms(1) by (auto split: option.split)

lemma unregister_or_keep_owned:
  assumes "owned st" "\<And>n. obm_answer E n" "kind_of t = k" "k \<noteq> KAudio" "t \<notin> leaky"
  shows "owned (unregister_or_keep E k t st)"
proof (cases "observer_at k st")
  case None
  with assms(1) show ?thesis by (simp add: unregister_or_keep_def)
next
  case (Some ob)
  have "fst (obm_unregister E t (Listener (Some ob)) st)" using assms(2) by (simp add: obm_unregister_def Let_def)
  then show ?thesis using drop_single[OF assms] Some by (simp add: unregister_or_keep_def case_prod_unfold)
qed

lemma unregister_and_drop_owned:
  assumes "owned st" "\<And>n. obm_answer E n" "kind_of t = k" "k \<noteq> KAudio" "t \<notin> leaky"
  shows "owned (unregister_and_drop E k t st)"
  unfolding unregister_and_drop_def by (rule drop_pattern[OF assms])

lemma register_once_owned:
  assumes "owned st" "kind_of t = k"
  shows "owned (register_once E k t st)"
proof -
  obtain i st1 where n: "new_observer E k st = (i, st1)" by (cases "new_observer E k st")
  note o = new_observer_owned[OF assms(1) n]
  show ?thesis
  proof (cases i)
    case None
    with o n assms(1) show ?thesis by (simp add: register_once_def)
  next
    case (Some ob)
    obtain ok st2 where r: "obm_register E t ob st1 = (ok, st2)" by (cases "obm_register E t ob st1")
    then have "owned st2" using register_owned[OF _ _ r] o Some assms(2) by auto
    with n r Some assms(1) show ?thesis by (simp add: register_once_def)
  qed
qed

section \<open>Every handler keeps track\<close>

lemma mmi_data_owned: "owned st \<Longrightarrow> owned (GetAllMmiStatusData E st)"
  unfolding GetAllMmiStatusData_def
proof (induction "mmi_status_data E" arbitrary: st)
  case Nil
  then show ?case by simp
next
  case (Cons x xs)
  have "owned (fold (\<lambda>((p, u, bundleName), status). obm_emit (ObmReport RES_TYPE_MMI_STATUS_CHANGE 0
         (JObj [(''pid'', JInt p), (''uid'', JInt u), (''bundleName'', JStr bundleName), (''status'', JInt status)]))) ys s)"
    if "owned s" for ys s
    using that by (induction ys arbitrary: s) auto
  then show ?case using Cons.prems by blast
qed

lemma audio_init_owned: "owned st \<Longrightarrow> owned (InitAudioObserver E st)"
proof (cases "with_audio E")
  case True
  assume st: "owned st"
  let ?s0 = "st\<lparr>obm_pid := own_pid E\<rparr>"
  obtain ob st1 where m: "make_observer KAudio ?s0 = (ob, st1)" by (cases "make_observer KAudio ?s0")
  then have o: "owned st1" "observer_at KAudio st1 = Some ob"
    using make_observer_owned[OF _ m] st by auto
  have reg: "owned (snd (obm_register E t ob s)) \<and> observer_at KAudio (snd (obm_register E t ob s)) = Some ob"
    if "owned s \<and> observer_at KAudio s = Some ob" "kind_of t = KAudio" for t s
    using register_owned[of s t ob E "fst (obm_register E t ob s)" "snd (obm_register E t ob s)"] that by auto
  show ?thesis
    using o True by (simp add: InitAudioObserver_def m InitAudioEventListener_def Let_def reg)
qed (simp add: InitAudioObserver_def)

lemma audio_disable_owned:
  assumes "owned st" "\<And>n. obm_answer E n"
  shows "owned (DisableAudioObserver E st)"
proof (cases "with_audio E \<and> observer_at KAudio st \<noteq> None")
  case True
  then obtain ob where ob: "observer_at KAudio st = Some ob" "with_audio E" by blast
  define u where "u t s = snd (obm_unregister E t Owner s)" for t s
  define fin where "fin s = obm_emit (ObmAudioEnd ob) s" for s
  let ?s = "u TpAudioScene (u TpVolumeKey (u TpRingerMode (fin (u TpCapturer (u TpRenderer st)))))"
  have u: "owned s \<Longrightarrow> owned (u t s)" "owned s \<Longrightarrow> unheld_at t (u t s)" "unheld_at t' s \<Longrightarrow> unheld_at t' (u t s)" for t t' s
    unfolding u_def using unregister_owned unregister_unheld[OF _ assms(2)] unheld_at_unregister by blast+
  have e: "owned (fin s) = owned s" "unheld_at t (fin s) = unheld_at t s" for s t by (simp_all add: fin_def)
  have "owned ?s" "unheld_at TpAudioScene ?s" "unheld_at TpVolumeKey ?s" "unheld_at TpRingerMode ?s" "unheld_at TpCapturer ?s"
    "unheld_at TpRenderer ?s"
    by (simp_all add: u e assms(1))
  then have "owned (drop_observer KAudio ?s)" using audio_topics by (intro drop_owned) auto
  then show ?thesis using ob by (simp add: DisableAudioObserver_def u_def fin_def Let_def)
qed (use assms(1) in \<open>auto simp: DisableAudioObserver_def split: option.split\<close>)

lemma not_leaky [simp]: "t \<noteq> TpOutputDevice \<Longrightarrow> t \<noteq> TpAvSession \<Longrightarrow> t \<noteq> TpAppState \<Longrightarrow> t \<notin> leaky"
  by (simp add: leaky_def)

lemma handle_owned:
  assumes "owned st" and ok: "\<And>n. obm_answer E n"
  shows "owned (handle_observer E sa st)"
proof (cases sa)
  case DFX_SYS_EVENT_SERVICE_ABILITY_ID
  have "owned (InitHiSysEventObserver E st)"
    unfolding InitHiSysEventObserver_def by (rule register_made[OF assms(1)]) simp_all
  then show ?thesis by (simp add: DFX_SYS_EVENT_SERVICE_ABILITY_ID)
next
  case MULTIMODAL_INPUT_SERVICE_ID
  define st1 where "st1 = obm_emit (ObmKeySubscribe (key_subscribe_id E (obm_calls st)))
    (st\<lparr>powerKeySubscribeId := key_subscribe_id E (obm_calls st), obm_calls := obm_calls st + 1\<rparr>)"
  have o1: "owned st1" using assms(1) by (simp add: st1_def)
  obtain ob st2 where m: "make_observer KMmi st1 = (ob, st2)" by (cases "make_observer KMmi st1")
  obtain b st3 where r: "obm_register E TpInput ob st2 = (b, st3)" by (cases "obm_register E TpInput ob st2")
  have "owned st3" using register_owned[OF _ _ r] make_observer_owned[OF o1 m] by simp
  then have "owned (InitMMiEventObserver E st)"
    unfolding InitMMiEventObserver_def Let_def st1_def[symmetric] m prod.case r using o1 by (simp add: mmi_data_owned)
  then show ?thesis by (simp add: MULTIMODAL_INPUT_SERVICE_ID)
next
  case TELEPHONY_STATE_REGISTRY_SYS_ABILITY_ID
  have "owned (case make_observer KTelephony st of (ob, st1) \<Rightarrow> snd (obm_register E TpTelephony ob (st1\<lparr>slotId := 0\<rparr>)))"
    by (rule register_made[OF assms(1)]) simp_all
  then show ?thesis using assms(1) by (simp add: TELEPHONY_STATE_REGISTRY_SYS_ABILITY_ID InitTelephonyObserver_def)
next
  case AUDIO_POLICY_SERVICE_ID
  then show ?thesis using audio_init_owned[OF assms(1)] by simp
next
  case DISPLAY_MANAGER_SERVICE_ID
  have "owned (InitDisplayModeObserver E st)"
    unfolding InitDisplayModeObserver_def using assms(1) register_new[OF assms(1) _ ok, of TpDisplayMode KDisplayMode "\<lambda>ob. obm_emit (ObmDisplayMode ob)"]
    by simp
  then show ?thesis by (simp add: DISPLAY_MANAGER_SERVICE_ID)
next
  case DISPLAY_MANAGER_SERVICE_SA_ID
  have o: "owned (InitDisplayOrientationObserver E st)"
    unfolding InitDisplayOrientationObserver_def using assms(1) register_new[OF assms(1) _ ok, of TpDisplay KOrientation "\<lambda>ob s. s"]
    by simp
  have "owned (InitDisplayPowerEventObserver E (InitDisplayOrientationObserver E st))"
    unfolding InitDisplayPowerEventObserver_def[of _ "InitDisplayOrientationObserver E st"]
    using register_new[OF o _ ok, of TpPowerEvent KPower "\<lambda>ob s. s"] by simp
  then show ?thesis by (simp add: DISPLAY_MANAGER_SERVICE_SA_ID InitDisplayManagerServiceSAObserver_def)
next
  case ABILITY_MGR_SERVICE_ID
  have "owned (InitConnectionSubscriber E st)"
    unfolding InitConnectionSubscriber_def by (rule register_made[OF assms(1)]) simp_all
  then show ?thesis by (simp add: ABILITY_MGR_SERVICE_ID)
next
  case DOWNLOAD_SERVICE_ID
  have "owned (InitDownloadUploadObserver E st)"
    unfolding InitDownloadUploadObserver_def by (rule register_made[OF assms(1)]) simp_all
  then show ?thesis by (simp add: DOWNLOAD_SERVICE_ID)
next
  case AVSESSION_SERVICE_ID
  have "owned (InitAVSessionStateChangeListener E st)"
    unfolding InitAVSessionStateChangeListener_def by (rule register_made[OF assms(1)]) simp_all
  then show ?thesis by (simp add: AVSESSION_SERVICE_ID)
next
  case SUBSYS_ACCOUNT_SYS_ABILITY_ID_BEGIN
  have "owned (InitAccountObserver E st)"
    unfolding InitAccountObserver_def by (rule register_made[OF assms(1)]) simp_all
  then show ?thesis by (simp add: SUBSYS_ACCOUNT_SYS_ABILITY_ID_BEGIN)
next
  case WINDOW_MANAGER_SERVICE_ID
  have mode: "owned (SubscribeWindowModeChange E s)" if "owned s" for s
  proof -
    have "SubscribeWindowModeChange E s = (if observer_at KWindowMode s \<noteq> None then s
      else case new_observer E KWindowMode s of (None, s1) \<Rightarrow> s1
        | (Some ob, s1) \<Rightarrow> (case obm_register E TpWindowMode ob s1 of
            (b, s2) \<Rightarrow> if b then obm_emit (ObmInitWindowMode ob) s2 else drop_observer KWindowMode s2))"
      using obm_register_ok[OF ok] by (simp add: SubscribeWindowModeChange_def case_prod_unfold split: option.split)
    then show ?thesis
      using that register_new[OF that _ ok, of TpWindowMode KWindowMode "\<lambda>ob. obm_emit (ObmInitWindowMode ob)"] by simp
  qed
  have style: "owned (snd (InitWindowStyleObserver E s))" if "owned s" for s
  proof -
    have "owned (case make_observer KStyle s of (ob, s1) \<Rightarrow> snd (obm_register E TpStyle ob s1))"
      by (rule register_made[OF that]) simp_all
    then show ?thesis by (simp add: InitWindowStyleObserver_def case_prod_unfold)
  qed
  show ?thesis
    by (simp add: WINDOW_MANAGER_SERVICE_ID InitWindowStateObserver_def Let_def SubscribePipChange_def register_once_owned mode style assms(1))
next
  case APP_MGR_SERVICE_ID
  have o: "owned (snd (put_observer KAppState st))"
    by (rule owned_put_leaky[OF assms(1)]) (simp add: state_and_session_topics)
  have "owned (drop_observer KAppState st)"
    by (rule drop_owned[OF assms(1)]) (simp add: state_and_session_topics)
  moreover obtain b s2 where r: "obm_register E TpAppState (obm_next st) (snd (put_observer KAppState st)) = (b, s2)"
    by (cases "obm_register E TpAppState (obm_next st) (snd (put_observer KAppState st))")
  moreover have "owned s2" using register_owned[OF o _ r] put_observer_at by simp
  moreover have b using obm_register_ok[OF ok] r by (metis fst_conv)
  ultimately show ?thesis using assms(1) put_observer_at(3)[of KAppState st]
    by (simp add: APP_MGR_SERVICE_ID SubscribeAppState_def case_prod_unfold)
next
  case DISTRIBUTED_SCHED_SA_ID
  have "InitContinuationObserver E st = (case new_observer E KContinuation st of (None, st1) \<Rightarrow> st1
    | (Some ob, st1) \<Rightarrow> (case obm_register E TpContinuation ob st1 of (b, st2) \<Rightarrow> if b then st2 else drop_observer KContinuation st2))"
    using obm_register_ok[OF ok] by (simp add: InitContinuationObserver_def case_prod_unfold split: option.split)
  then have "owned (InitContinuationObserver E st)"
    using register_new[OF assms(1) _ ok, of TpContinuation KContinuation "\<lambda>ob s. s"] by simp
  then show ?thesis by (simp add: DISTRIBUTED_SCHED_SA_ID)
qed (use assms(1) in \<open>simp_all add: InitDataShareObserver_def\<close>)

lemma download_drop:
  "owned st \<Longrightarrow> (\<And>n. obm_answer E n) \<Longrightarrow> owned (DisableDownloadUploadObserver E st)"
  unfolding DisableDownloadUploadObserver_def by (rule drop_single) simp_all

lemma telephony_drop:
  assumes "owned st" and ok: "\<And>n. obm_answer E n"
  shows "owned (DisableTelephonyObserver E st)"
proof -
  have "owned (drop_observer KTelephony (snd (obm_unregister E TpTelephony Owner (st\<lparr>slotId := 0\<rparr>))))"
  proof (rule drop_owned)
    show "owned (snd (obm_unregister E TpTelephony Owner (st\<lparr>slotId := 0\<rparr>)))"
      using assms(1) by (intro unregister_owned) simp
    fix t assume "kind_of t = KTelephony" "t \<notin> leaky"
    then have "t = TpTelephony" using kind_of_inj[of t TpTelephony] by simp
    then show "unheld_at t (snd (obm_unregister E TpTelephony Owner (st\<lparr>slotId := 0\<rparr>)))"
      using assms(1) unregister_unheld[OF _ ok, of "st\<lparr>slotId := 0\<rparr>" Owner] by simp
  qed
  with assms(1) show ?thesis by (simp add: DisableTelephonyObserver_def)
qed

lemma style_drop:
  assumes "owned st" and ok: "\<And>n. obm_answer E n"
  shows "owned (snd (DisableWindowStyleObserver E st))"
proof (cases "observer_at KStyle st")
  case (Some ob)
  have "fst (obm_unregister E TpStyle (Listener (Some ob)) st)" using ok by (simp add: obm_unregister_def Let_def)
  then show ?thesis using drop_single[OF assms(1) ok, of TpStyle KStyle] Some
    by (simp add: DisableWindowStyleObserver_def case_prod_unfold)
qed (use assms(1) in \<open>simp add: DisableWindowStyleObserver_def\<close>)

lemma app_state_drop: "owned st \<Longrightarrow> owned (UnsubscribeAppState E st)"
  unfolding UnsubscribeAppState_def
  by (auto split: option.split intro!: drop_owned unregister_owned simp: state_and_session_topics)

lemma remove_owned:
  assumes "owned st" and ok: "\<And>n. obm_answer E n"
  shows "owned (remove_observer E sa st)"
proof (cases sa)
  case MULTIMODAL_INPUT_SERVICE_ID
  have "owned (case observer_at KMmi (obm_emit (ObmKeyUnsubscribe (powerKeySubscribeId st)) st) of
      None \<Rightarrow> obm_emit (ObmKeyUnsubscribe (powerKeySubscribeId st)) st
    | Some ob \<Rightarrow> drop_observer KMmi (snd (obm_unregister E TpInput (Listener (Some ob))
        (obm_emit (ObmKeyUnsubscribe (powerKeySubscribeId st)) st))))"
    by (rule drop_pattern[OF _ ok]) (simp_all add: assms(1))
  with assms(1) show ?thesis by (simp add: MULTIMODAL_INPUT_SERVICE_ID DisableMMiEventObserver_def Let_def)
next
  case WINDOW_MANAGER_SERVICE_ID
  show ?thesis
    by (simp add: WINDOW_MANAGER_SERVICE_ID DisableWindowStateObserver_def Let_def UnsubscribePipChange_def
        UnsubscribeWindowModeChange_def unregister_and_drop_owned style_drop ok assms(1))
next
  case AVSESSION_SERVICE_ID
  then show ?thesis using assms(1)
    by (auto simp: DisableAVSessionStateChangeListener_def state_and_session_topics intro!: drop_owned)
next
  case DISPLAY_MANAGER_SERVICE_SA_ID
  then show ?thesis
    by (simp add: DisableDisplayManagerServiceSAObserver_def DisableDisplayOrientationObserver_def
        DisableDisplayPowerEventObserver_def unregister_or_keep_owned ok assms(1))
next
  case DFX_SYS_EVENT_SERVICE_ABILITY_ID
  have "owned (DisableHiSysEventObserver E st)"
    unfolding DisableHiSysEventObserver_def by (rule drop_pattern[OF assms]) simp_all
  then show ?thesis by (simp add: DFX_SYS_EVENT_SERVICE_ABILITY_ID)
next
  case ABILITY_MGR_SERVICE_ID
  have "owned (DisableConnectionSubscriber E st)"
    unfolding DisableConnectionSubscriber_def by (rule drop_pattern[OF assms]) simp_all
  then show ?thesis by (simp add: ABILITY_MGR_SERVICE_ID)
next
  case DISTRIBUTED_SCHED_SA_ID
  have "owned (DisableContinuationObserver E st)"
    unfolding DisableContinuationObserver_def by (rule drop_pattern[OF assms]) simp_all
  then show ?thesis by (simp add: DISTRIBUTED_SCHED_SA_ID)
qed (use assms in \<open>simp_all add: DisableDataShareObserver_def DisableAccountObserver_def DisableDisplayModeObserver_def
    unregister_or_keep_owned telephony_drop audio_disable_owned app_state_drop download_drop\<close>)

section \<open>Everything that can happen\<close>

datatype obm_event = ObmStart | ObmStop | ObmAdded i32 | ObmRemoved i32

fun obm_step :: "obm_env \<Rightarrow> obm_event \<Rightarrow> obm_state \<Rightarrow> obm_state" where
  "obm_step E ObmStart = obm_Init E"
| "obm_step E ObmStop = obm_Disable E"
| "obm_step E (ObmAdded n) = obm_OnAddSystemAbility E n"
| "obm_step E (ObmRemoved n) = obm_OnRemoveSystemAbility E n"

lemma init_owned: "owned st \<Longrightarrow> owned (obm_Init E st)"
proof -
  assume st: "owned st"
  have add: "owned (AddItemToSysAbilityListener E sa s) = owned s" for sa s
    by (simp add: AddItemToSysAbilityListener_def Let_def)
  have adds: "owned (fold (AddItemToSysAbilityListener E) sas s) = owned s" for sas s
    by (induction sas arbitrary: s) (simp_all add: add)
  show ?thesis
    using st by (simp add: obm_Init_def InitSysAbilityListener_def InitObserverCbMap_def InitRemoveObserverCbMap_def
        GetReportFunc_def Let_def adds split: option.split)
qed

lemma disable_owned:
  assumes "owned st" and ok: "\<And>n. obm_answer E n"
  shows "owned (obm_Disable E st)"
proof -
  have h: "owned (DisableHiSysEventObserver E s)" if "owned s" for s
    using remove_owned[OF that ok, of DFX_SYS_EVENT_SERVICE_ABILITY_ID] by simp
  show ?thesis using assms(1) by (simp add: obm_Disable_def Let_def telephony_drop ok h)
qed

lemma step_owned:
  assumes "owned st" and ok: "\<And>n. obm_answer E n"
  shows "owned (obm_step E e st)"
proof -
  have r: "\<not> is_call (status_report v n)" for v n by (simp add: status_report_def)
  show ?thesis
    using assms by (cases e) (auto simp: init_owned disable_owned obm_OnAddSystemAbility_def obm_OnRemoveSystemAbility_def r
        handle_owned remove_owned split: option.split)
qed

lemma run_owned: "owned st \<Longrightarrow> (\<And>n. obm_answer E n) \<Longrightarrow> owned (fold (obm_step E) es st)"
  by (induction es arbitrary: st) (simp_all add: step_owned)

text \<open>
  C11. As long as the other services do what they are asked, whatever starts, stops, comes and goes and
  in whatever order, no service holds an observer that the manager has dropped, except for output
  devices, media sessions and states of applications.
\<close>

theorem no_dropped_observer_is_held:
  assumes "\<And>n. obm_answer E n" "(t, ob) \<in> held_by (fold (obm_step E) es obm_new)"
    "t \<notin> {TpOutputDevice, TpAvSession, TpAppState}"
  shows "observer_at (kind_of t) (fold (obm_step E) es obm_new) = Some ob"
proof -
  have "owned obm_new" by (simp add: owned_def held_by_def obm_new_def)
  from run_owned[OF this assms(1)] assms(2,3) show ?thesis by (auto simp: owned_def leaky_def)
qed

definition demo_obm :: obm_env where
  "demo_obm = \<lparr>with_app_nap = True, with_mmi = True, with_telephony = True, with_audio = True, with_av_session = True,
     with_request = True, with_continuation = True, sa_number = (\<lambda>sa. if sa = ABILITY_MGR_SERVICE_ID then 180 else 0),
     obm_answer = (\<lambda>n. True), obm_alloc = (\<lambda>n. True), has_samgr = True, need_report = Some True, has_group_mgr = True,
     has_app_mgr = True, is_foldable = True, key_subscribe_id = (\<lambda>n. 1), mmi_status_data = [], own_pid = 1\<rparr>"

theorem no_dropped_observer_is_held_witness:
  "observer_at KConnection (fold (obm_step demo_obm) [ObmStart, ObmAdded 180] obm_new) = Some 1"
proof -
  have "obm_answer demo_obm n" for n by (simp add: demo_obm_def)
  moreover have "(TpConnection, 1) \<in> held_by (fold (obm_step demo_obm) [ObmStart, ObmAdded 180] obm_new)"
    by code_simp
  ultimately show ?thesis using no_dropped_observer_is_held[of demo_obm TpConnection 1 "[ObmStart, ObmAdded 180]"] by simp
qed

lemma unregister_rest:
  "t \<in> T \<Longrightarrow> {h \<in> held_by (snd (obm_unregister E t w st)). fst h \<notin> T} = {h \<in> held_by st. fst h \<notin> T}"
  by (cases "(ObmUnregister t w (obm_answer E (obm_calls st)), held_by st)" rule: heard_call.cases)
     (auto simp: obm_unregister_def Let_def held_emit)

lemma handlers_frame [simp]:
  "handleObservers (snd (obm_unregister E t w st)) = handleObservers st"
  "removeObservers (snd (obm_unregister E t w st)) = removeObservers st"
  "handleObservers (drop_observer k st) = handleObservers st" "removeObservers (drop_observer k st) = removeObservers st"
  "handleObservers (obm_emit out st) = handleObservers st" "removeObservers (obm_emit out st) = removeObservers st"
  by (simp_all add: obm_unregister_def drop_observer_def obm_emit_def Let_def)

lemma disable_maps: "handleObservers (obm_Disable E st) = []" "removeObservers (obm_Disable E st) = []"
  by (simp_all add: obm_Disable_def Let_def DisableHiSysEventObserver_def DisableTelephonyObserver_def split: option.split)

lemma disable_rest:
  fixes E st
  defines "rest s \<equiv> {h \<in> held_by s. fst h \<notin> {TpHiSysEvent, TpTelephony}}"
  shows "rest (obm_Disable E st) = rest st"
proof -
  have u: "rest (snd (obm_unregister E TpHiSysEvent w s)) = rest s" "rest (snd (obm_unregister E TpTelephony w s)) = rest s" for w s
    unfolding rest_def by (rule unregister_rest; simp)+
  have "rest (DisableHiSysEventObserver E s) = rest s" for s
    using u(1) by (simp add: DisableHiSysEventObserver_def rest_def split: option.split)
  moreover have "rest (DisableTelephonyObserver E s) = rest s" for s
    using u(2)[of Owner "s\<lparr>slotId := 0\<rparr>"] by (simp add: DisableTelephonyObserver_def rest_def)
  ultimately show ?thesis
    by (simp add: obm_Disable_def Let_def rest_def held_emit)
qed

text \<open>
  After the manager is disabled, the coming and going of system abilities changes nothing any more,
  and every service but those of system events and telephony goes on holding what it held.
\<close>

theorem disable_leaves_observers:
  "obm_OnAddSystemAbility E n (obm_Disable E st) = obm_Disable E st \<and>
   obm_OnRemoveSystemAbility E n (obm_Disable E st) = obm_Disable E st \<and>
   {h \<in> held_by (obm_Disable E st). fst h \<notin> {TpHiSysEvent, TpTelephony}} =
     {h \<in> held_by st. fst h \<notin> {TpHiSysEvent, TpTelephony}}"
  using disable_rest[of E st] by (simp add: obm_OnAddSystemAbility_def obm_OnRemoveSystemAbility_def disable_maps)

end
