(* ===== verification/Suspend_Base.thy ===== *)
theory Suspend_Base
  imports Service_Model
begin

text \<open>
  The suspend manager base: the observers the service keeps (suspend\_manager\_base\_observer.cpp), the
  requests of the service (suspend\_manager\_base\_service.cpp) and the client of a process
  (suspend\_manager\_base\_client.cpp).  Remote objects are numbers; an observer is a pointer to a proxy,
  whose remote object may be missing too.  What the other side answers is a parameter.
\<close>

section \<open>Observers\<close>

datatype sus_result = SusOk | SusInvalidValue | SusInvalidOperation

datatype sus_state_kind = ACTIVE_STATE | DOZE_STATE | FROZEN_STATE

datatype sus_out = OnActive "nat option" "i32 list" i32 | OnDoze "nat option" "i32 list" i32 | OnFrozen "nat option" "i32 list" i32

text \<open>An observer is \<open>None\<close> for a null pointer, else its remote object, if any.\<close>

type_synonym sus_observer = "nat option option"

record sus_state =
  suspendObservers :: "nat option list"
  recipientMap :: "(nat \<times> nat) list"
  sus_next :: nat
  sus_links :: "(nat \<times> nat) list"
  sus_outs :: "sus_out list"

definition sus_new :: sus_state where
  "sus_new = \<lparr>suspendObservers = [], recipientMap = [], sus_next = 0, sus_links = [], sus_outs = []\<rparr>"

definition RegisterSuspendObserverInner :: "sus_observer \<Rightarrow> sus_state \<Rightarrow> sus_result \<times> sus_state" where
  "RegisterSuspendObserverInner ob st =
     (case ob of
        None \<Rightarrow> (SusInvalidValue, st)
      | Some obj \<Rightarrow> if obj \<in> set (suspendObservers st) then (SusOk, st)
          else (SusOk, st\<lparr>suspendObservers := suspendObservers st @ [obj]\<rparr>))"

definition UnregisterSuspendObserverInner :: "sus_observer \<Rightarrow> sus_state \<Rightarrow> sus_result \<times> sus_state" where
  "UnregisterSuspendObserverInner ob st =
     (case ob of
        None \<Rightarrow> (SusInvalidValue, st)
      | Some obj \<Rightarrow> (SusOk, st\<lparr>suspendObservers := remove1 obj (suspendObservers st)\<rparr>))"

text \<open>The remote object accepts the recipient or not (\<open>accepts\<close>); a recipient that is linked is told of the death.\<close>

definition AddObserverDeathRecipient :: "(nat \<Rightarrow> bool) \<Rightarrow> sus_observer \<Rightarrow> sus_state \<Rightarrow> sus_result \<times> sus_state" where
  "AddObserverDeathRecipient accepts ob st =
     (case ob of
        Some (Some obj) \<Rightarrow>
          if map_of (recipientMap st) obj \<noteq> None then (SusOk, st)
          else if \<not> accepts obj then (SusInvalidOperation, st\<lparr>sus_next := sus_next st + 1\<rparr>)
          else (SusOk, st\<lparr>sus_next := sus_next st + 1, sus_links := (obj, sus_next st) # sus_links st,
                 recipientMap := AList.update obj (sus_next st) (recipientMap st)\<rparr>)
      | _ \<Rightarrow> (SusInvalidValue, st))"

definition RemoveObserverDeathRecipient :: "sus_observer \<Rightarrow> sus_state \<Rightarrow> sus_result \<times> sus_state" where
  "RemoveObserverDeathRecipient ob st =
     (case ob of
        Some (Some obj) \<Rightarrow>
          (case map_of (recipientMap st) obj of
             None \<Rightarrow> (SusOk, st)
           | Some r \<Rightarrow> (SusOk, st\<lparr>sus_links := removeAll (obj, r) (sus_links st),
               recipientMap := AList.delete obj (recipientMap st)\<rparr>))
      | _ \<Rightarrow> (SusInvalidValue, st))"

definition sus_RegisterSuspendObserver :: "(nat \<Rightarrow> bool) \<Rightarrow> sus_observer \<Rightarrow> sus_state \<Rightarrow> sus_result \<times> sus_state" where
  "sus_RegisterSuspendObserver accepts ob st =
     (case RegisterSuspendObserverInner ob st of
        (ret, st1) \<Rightarrow>
          if ret \<noteq> SusOk then (ret, st1)
          else (case AddObserverDeathRecipient accepts ob st1 of
                  (ret2, st2) \<Rightarrow>
                    if ret2 \<noteq> SusOk then (ret2, snd (UnregisterSuspendObserverInner ob st2)) else (SusOk, st2)))"

definition sus_UnregisterSuspendObserver :: "sus_observer \<Rightarrow> sus_state \<Rightarrow> sus_result \<times> sus_state" where
  "sus_UnregisterSuspendObserver ob st =
     (case UnregisterSuspendObserverInner ob st of
        (ret, st1) \<Rightarrow>
          if ret \<noteq> SusOk then (ret, st1)
          else (case RemoveObserverDeathRecipient ob st1 of
                  (ret2, st2) \<Rightarrow>
                    if ret2 \<noteq> SusOk then (ret2, snd (RegisterSuspendObserverInner ob st2)) else (SusOk, st2)))"

text \<open>The object may be gone already, and the cast may fail.\<close>

definition OnObserverDied :: "nat option \<Rightarrow> bool \<Rightarrow> sus_state \<Rightarrow> sus_state" where
  "OnObserverDied remote cast_ok st =
     (case remote of
        None \<Rightarrow> st
      | Some obj \<Rightarrow>
          (let ob = (if cast_ok then Some (Some obj) else None)
           in snd (RemoveObserverDeathRecipient ob (snd (UnregisterSuspendObserverInner ob st)))))"

fun updateSuspendCb :: "sus_state_kind \<Rightarrow> nat option \<Rightarrow> i32 list \<Rightarrow> i32 \<Rightarrow> sus_out" where
  "updateSuspendCb ACTIVE_STATE = OnActive"
| "updateSuspendCb DOZE_STATE = OnDoze"
| "updateSuspendCb FROZEN_STATE = OnFrozen"

text \<open>The states behind the numbers.\<close>

definition suspend_state_of :: "i32 \<Rightarrow> sus_state_kind option" where
  "suspend_state_of n = (if n = 0 then Some ACTIVE_STATE else if n = 1 then Some DOZE_STATE
     else if n = 2 then Some FROZEN_STATE else None)"

definition UpdateSuspendObserver :: "i32 \<Rightarrow> i32 \<Rightarrow> i32 list \<Rightarrow> sus_state \<Rightarrow> sus_result \<times> sus_state" where
  "UpdateSuspendObserver n user pidList st =
     (case suspend_state_of n of
        None \<Rightarrow> (SusInvalidValue, st)
      | Some k \<Rightarrow>
          (SusOk, st\<lparr>sus_outs := sus_outs st @ map (\<lambda>obj. updateSuspendCb k obj pidList user) (suspendObservers st)\<rparr>))"

section \<open>Requests\<close>

definition CheckSuspendPermission :: "svc_env \<Rightarrow> call \<Rightarrow> bool" where
  "CheckSuspendPermission V c \<longleftrightarrow>
     ve_token_type V (cl_token c) = TOKEN_NATIVE \<and> ve_verify V (cl_token c) ''ohos.permission.GET_SUSPEND_STATE'' = 0"

text \<open>The common body of the two queries; \<open>isFrozen\<close> is what the caller passed in.\<close>

definition suspend_query ::
    "u32 \<Rightarrow> string \<Rightarrow> svc_env \<Rightarrow> call \<Rightarrow> i32 \<Rightarrow> bool \<Rightarrow> svc_state \<Rightarrow> (sus_result \<times> bool \<times> svc_state) option" where
  "suspend_query t name V c n isFrozen st =
     (if \<not> CheckSuspendPermission V c then Some (SusInvalidOperation, isFrozen, st)
      else (case svc_ReportSyncEvent V c t 0 (ve_dump V (JObj [(name, JInt n)])) st of
              None \<Rightarrow> None
            | Some (ret, reply, st1) \<Rightarrow>
                (let j = StringToJsonObj V (case reply of None \<Rightarrow> [] | Some s \<Rightarrow> s)
                 in Some (SusOk,
                      (case (ret, member ''isFrozen'' j) of
                         (Inr res, Some (JBool b)) \<Rightarrow> if res = 0 then b else isFrozen
                       | _ \<Rightarrow> isFrozen), st1))))"

definition GetSuspendStateByUid ::
    "svc_env \<Rightarrow> call \<Rightarrow> i32 \<Rightarrow> bool \<Rightarrow> svc_state \<Rightarrow> (sus_result \<times> bool \<times> svc_state) option" where
  "GetSuspendStateByUid = suspend_query SYNC_RES_TYPE_GET_SUSPEND_STATE_BY_UID ''uid''"

definition GetSuspendStateByPid ::
    "svc_env \<Rightarrow> call \<Rightarrow> i32 \<Rightarrow> bool \<Rightarrow> svc_state \<Rightarrow> (sus_result \<times> bool \<times> svc_state) option" where
  "GetSuspendStateByPid = suspend_query SYNC_RES_TYPE_GET_SUSPEND_STATE_BY_PID ''pid''"

definition svc_RegisterSuspendObserver ::
    "svc_env \<Rightarrow> call \<Rightarrow> (nat \<Rightarrow> bool) \<Rightarrow> sus_observer \<Rightarrow> sus_state \<Rightarrow> sus_result \<times> sus_state" where
  "svc_RegisterSuspendObserver V c accepts ob st =
     (if \<not> CheckSuspendPermission V c then (SusInvalidOperation, st) else sus_RegisterSuspendObserver accepts ob st)"

definition svc_UnregisterSuspendObserver ::
    "svc_env \<Rightarrow> call \<Rightarrow> sus_observer \<Rightarrow> sus_state \<Rightarrow> sus_result \<times> sus_state" where
  "svc_UnregisterSuspendObserver V c ob st =
     (if \<not> CheckSuspendPermission V c then (SusInvalidOperation, st) else sus_UnregisterSuspendObserver ob st)"

section \<open>The client of a process\<close>

record sc_world =
  sw_samgr :: bool
  sw_object :: "nat option"
  sw_cast :: bool
  sw_alloc :: bool

record sc_state =
  sc_proxy :: "nat option"
  sc_recipient :: "nat option"
  sc_links :: "(nat \<times> nat) list"
  sc_next :: nat

definition sc_new :: sc_state where
  "sc_new = \<lparr>sc_proxy = None, sc_recipient = None, sc_links = [], sc_next = 0\<rparr>"

text \<open>The proxy is the number of the remote object it stands for.\<close>

definition GetSuspendManagerProxy :: "sc_world \<Rightarrow> sc_state \<Rightarrow> bool \<times> sc_state" where
  "GetSuspendManagerProxy w st =
     (if sc_proxy st \<noteq> None then (True, st)
      else if \<not> sw_samgr w then (False, st)
      else (case sw_object w of
              None \<Rightarrow> (False, st)
            | Some obj \<Rightarrow>
                if \<not> sw_cast w then (False, st)
                else if \<not> sw_alloc w then (False, st\<lparr>sc_proxy := Some obj, sc_recipient := None\<rparr>)
                else (True, st\<lparr>sc_proxy := Some obj, sc_recipient := Some (sc_next st),
                        sc_links := (obj, sc_next st) # sc_links st, sc_next := sc_next st + 1\<rparr>)))"

definition ResetClient :: "sc_state \<Rightarrow> sc_state" where
  "ResetClient st =
     st\<lparr>sc_proxy := None, sc_recipient := None,
       sc_links := (case (sc_proxy st, sc_recipient st) of
                      (Some obj, Some r) \<Rightarrow> removeAll (obj, r) (sc_links st) | _ \<Rightarrow> sc_links st)\<rparr>"

definition sc_OnRemoteDied :: "sc_state \<Rightarrow> sc_state" where
  "sc_OnRemoteDied st = ResetClient st"

text \<open>
  A query, given what the remote call sets: the result stays \<open>SusOk\<close> and \<open>isFrozen\<close> as it was when the
  call does not come through.
\<close>

definition sc_query :: "sc_world \<Rightarrow> (sus_result \<times> bool) option \<Rightarrow> bool \<Rightarrow> sc_state \<Rightarrow> sus_result \<times> bool \<times> sc_state" where
  "sc_query w answer isFrozen st =
     (case GetSuspendManagerProxy w st of
        (ok, st1) \<Rightarrow>
          if \<not> ok then (SusInvalidOperation, isFrozen, st1)
          else (case answer of None \<Rightarrow> (SusOk, isFrozen, st1) | Some (ret, b) \<Rightarrow> (ret, b, st1)))"

definition sc_RegisterSuspendObserver :: "sc_world \<Rightarrow> sus_result option \<Rightarrow> bool \<Rightarrow> sc_state \<Rightarrow> sus_result \<times> sc_state" where
  "sc_RegisterSuspendObserver w answer has_observer st =
     (if \<not> has_observer then (SusInvalidValue, st)
      else (case GetSuspendManagerProxy w st of
              (ok, st1) \<Rightarrow>
                if \<not> ok then (SusInvalidOperation, st1)
                else (case answer of None \<Rightarrow> SusOk | Some ret \<Rightarrow> ret, st1)))"

definition sc_UnregisterSuspendObserver :: "sc_world \<Rightarrow> sus_result option \<Rightarrow> bool \<Rightarrow> sc_state \<Rightarrow> sus_result \<times> sc_state" where
  "sc_UnregisterSuspendObserver w answer has_observer st =
     (if \<not> has_observer then (SusInvalidValue, st)
      else (case GetSuspendManagerProxy w st of
              (ok, st1) \<Rightarrow>
                if \<not> ok then (SusInvalidOperation, st1)
                else (case answer of None \<Rightarrow> SusOk | Some ret \<Rightarrow> ret, st1)))"

section \<open>Observers and their recipients\<close>

text \<open>
  The list and the map of recipients have a mutex each, so a request runs in parts: the first part works on
  the list, a later part on the map, and between them the requests of other threads may run.  What is left
  of a request is a value of \<open>sus_half\<close>.
\<close>

datatype sus_half = AddHalf "nat option" | UndoAdd "nat option" | RemoveHalf "nat option" | UndoRemove "nat option"
  | DeathHalf "nat option"

fun half_about :: "sus_half \<Rightarrow> nat option" where
  "half_about (AddHalf ob) = ob"
| "half_about (UndoAdd ob) = ob"
| "half_about (RemoveHalf ob) = ob"
| "half_about (UndoRemove ob) = ob"
| "half_about (DeathHalf ob) = ob"

text \<open>One part of a request, and the part that follows it, if any.\<close>

fun run_half :: "(nat \<Rightarrow> bool) \<Rightarrow> sus_half \<Rightarrow> sus_state \<Rightarrow> sus_half option \<times> sus_state" where
  "run_half accepts (AddHalf ob) st =
     (case AddObserverDeathRecipient accepts (Some ob) st of
        (ret, st1) \<Rightarrow> (if ret \<noteq> SusOk then Some (UndoAdd ob) else None, st1))"
| "run_half accepts (UndoAdd ob) st = (None, snd (UnregisterSuspendObserverInner (Some ob) st))"
| "run_half accepts (RemoveHalf ob) st =
     (case RemoveObserverDeathRecipient (Some ob) st of
        (ret, st1) \<Rightarrow> (if ret \<noteq> SusOk then Some (UndoRemove ob) else None, st1))"
| "run_half accepts (UndoRemove ob) st = (None, snd (RegisterSuspendObserverInner (Some ob) st))"
| "run_half accepts (DeathHalf ob) st = (None, snd (RemoveObserverDeathRecipient (Some ob) st))"

definition finish_halves :: "(nat \<Rightarrow> bool) \<Rightarrow> sus_half \<Rightarrow> sus_state \<Rightarrow> sus_state" where
  "finish_halves accepts h st =
     (case run_half accepts h st of (None, st1) \<Rightarrow> st1 | (Some h1, st1) \<Rightarrow> snd (run_half accepts h1 st1))"

lemmas sus_ops = RegisterSuspendObserverInner_def UnregisterSuspendObserverInner_def AddObserverDeathRecipient_def
  RemoveObserverDeathRecipient_def

text \<open>The parts of a request, one after the other with nothing in between, are the request.\<close>

lemma register_in_halves:
  "snd (sus_RegisterSuspendObserver accepts (Some ob) st) =
     finish_halves accepts (AddHalf ob) (snd (RegisterSuspendObserverInner (Some ob) st))"
  by (cases ob) (auto simp: sus_RegisterSuspendObserver_def finish_halves_def sus_ops)

lemma unregister_in_halves:
  "snd (sus_UnregisterSuspendObserver (Some ob) st) =
     finish_halves accepts (RemoveHalf ob) (snd (UnregisterSuspendObserverInner (Some ob) st))"
  by (cases ob) (auto simp: sus_UnregisterSuspendObserver_def finish_halves_def sus_ops split: option.split)

lemma death_in_halves:
  "OnObserverDied (Some obj) True st =
     finish_halves accepts (DeathHalf (Some obj)) (snd (UnregisterSuspendObserverInner (Some (Some obj)) st))"
  by (simp add: OnObserverDied_def finish_halves_def Let_def)

text \<open>
  The requests under way (\<open>sr_halves\<close>, in any order) and, as a ghost, the objects for which a request has
  started while another about the same object was under way.
\<close>

record sus_run =
  sr_st :: sus_state
  sr_halves :: "sus_half list"
  sr_contested :: "nat option set"

definition sus_run_new :: sus_run where
  "sus_run_new = \<lparr>sr_st = sus_new, sr_halves = [], sr_contested = {}\<rparr>"

definition begins :: "sus_half \<Rightarrow> sus_state \<Rightarrow> sus_run \<Rightarrow> sus_run" where
  "begins h st r =
     r\<lparr>sr_st := st, sr_halves := h # sr_halves r,
       sr_contested := sr_contested r \<union> {half_about h} \<inter> half_about ` set (sr_halves r)\<rparr>"

definition goes_on :: "(nat \<Rightarrow> bool) \<Rightarrow> sus_half \<Rightarrow> sus_run \<Rightarrow> sus_run" where
  "goes_on accepts h r =
     (case run_half accepts h (sr_st r) of
        (next_half, st) \<Rightarrow>
          r\<lparr>sr_st := st,
            sr_halves := (case next_half of None \<Rightarrow> [] | Some h1 \<Rightarrow> [h1]) @ remove1 h (sr_halves r)\<rparr>)"

text \<open>
  A null observer, a missing permission and a remote object that is gone change nothing, so only the
  requests that get past these checks are steps.
\<close>

inductive sus_reachable :: "sus_run \<Rightarrow> bool" where
  fresh: "sus_reachable sus_run_new"
| registers: "sus_reachable r \<Longrightarrow> CheckSuspendPermission V c \<Longrightarrow>
    sus_reachable (begins (AddHalf ob) (snd (RegisterSuspendObserverInner (Some ob) (sr_st r))) r)"
| unregisters: "sus_reachable r \<Longrightarrow> CheckSuspendPermission V c \<Longrightarrow>
    sus_reachable (begins (RemoveHalf ob) (snd (UnregisterSuspendObserverInner (Some ob) (sr_st r))) r)"
| dies: "sus_reachable r \<Longrightarrow>
    sus_reachable (begins (DeathHalf (Some obj)) (snd (UnregisterSuspendObserverInner (Some (Some obj)) (sr_st r))) r)"
| continues: "sus_reachable r \<Longrightarrow> h \<in> set (sr_halves r) \<Longrightarrow> sus_reachable (goes_on accepts h r)"
| updates: "sus_reachable r \<Longrightarrow> sus_reachable (r\<lparr>sr_st := snd (UpdateSuspendObserver n user pidList (sr_st r))\<rparr>)"

definition sus_ok :: "sus_state \<Rightarrow> bool" where
  "sus_ok st \<longleftrightarrow> distinct (suspendObservers st) \<and>
     (\<forall>obj r. (obj, r) \<in> set (sus_links st) \<longleftrightarrow> map_of (recipientMap st) obj = Some r)"

lemma inner_ok:
  "sus_ok st \<Longrightarrow> sus_ok (snd (RegisterSuspendObserverInner ob st))"
  "sus_ok st \<Longrightarrow> sus_ok (snd (UnregisterSuspendObserverInner ob st))"
  by (auto simp: sus_ops sus_ok_def split: option.split)

lemma recipients_ok:
  "sus_ok st \<Longrightarrow> sus_ok (snd (AddObserverDeathRecipient accepts ob st))"
  "sus_ok st \<Longrightarrow> sus_ok (snd (RemoveObserverDeathRecipient ob st))"
  by (auto simp: sus_ops sus_ok_def AList.update_conv' AList.delete_conv' split: option.split)

lemma run_half_ok: "sus_ok st \<Longrightarrow> sus_ok (snd (run_half accepts h st))"
  using recipients_ok(1)[of st accepts] recipients_ok(2)[of st] inner_ok[of st] by (cases h) (simp_all add: case_prod_beta)

text \<open>What holds of one object given the parts under way about it.\<close>

fun half_ok :: "nat \<Rightarrow> sus_half list \<Rightarrow> sus_state \<Rightarrow> bool" where
  "half_ok obj [] st \<longleftrightarrow> (Some obj \<in> set (suspendObservers st) \<longleftrightarrow> map_of (recipientMap st) obj \<noteq> None)"
| "half_ok obj [AddHalf ob] st \<longleftrightarrow> Some obj \<in> set (suspendObservers st)"
| "half_ok obj [UndoAdd ob] st \<longleftrightarrow> map_of (recipientMap st) obj = None"
| "half_ok obj [RemoveHalf ob] st \<longleftrightarrow> Some obj \<notin> set (suspendObservers st)"
| "half_ok obj [DeathHalf ob] st \<longleftrightarrow> Some obj \<notin> set (suspendObservers st)"
| "half_ok obj _ st \<longleftrightarrow> False"

definition halves_about :: "nat \<Rightarrow> sus_half list \<Rightarrow> sus_half list" where
  "halves_about obj hs = filter (\<lambda>h. half_about h = Some obj) hs"

definition run_ok :: "sus_run \<Rightarrow> bool" where
  "run_ok r \<longleftrightarrow> sus_ok (sr_st r) \<and>
     (\<forall>obj. Some obj \<notin> sr_contested r \<longrightarrow> half_ok obj (halves_about obj (sr_halves r)) (sr_st r))"

lemma half_ok_frame:
  "half_ok obj hs st \<Longrightarrow> (Some obj \<in> set (suspendObservers st1) \<longleftrightarrow> Some obj \<in> set (suspendObservers st)) \<Longrightarrow>
     map_of (recipientMap st1) obj = map_of (recipientMap st) obj \<Longrightarrow> half_ok obj hs st1"
  by (cases "(obj, hs, st)" rule: half_ok.cases) auto

lemma inner_frame:
  "ob \<noteq> Some obj \<Longrightarrow> half_ok obj hs st \<Longrightarrow> half_ok obj hs (snd (RegisterSuspendObserverInner (Some ob) st))"
  "ob \<noteq> Some obj \<Longrightarrow> half_ok obj hs st \<Longrightarrow> half_ok obj hs (snd (UnregisterSuspendObserverInner (Some ob) st))"
  by (auto simp: RegisterSuspendObserverInner_def UnregisterSuspendObserverInner_def elim!: half_ok_frame)

lemma run_half_frame:
  "half_about h \<noteq> Some obj \<Longrightarrow> half_ok obj hs st \<Longrightarrow> half_ok obj hs (snd (run_half accepts h st))"
  by (cases h; cases "half_about h")
     (auto simp: inner_frame AddObserverDeathRecipient_def RemoveObserverDeathRecipient_def AList.update_conv'
        AList.delete_conv' split: option.splits elim!: half_ok_frame)

lemma inner_meets:
  "Some obj \<in> set (suspendObservers (snd (RegisterSuspendObserverInner (Some (Some obj)) st)))"
  "sus_ok st \<Longrightarrow> Some obj \<notin> set (suspendObservers (snd (UnregisterSuspendObserverInner (Some (Some obj)) st)))"
  by (auto simp: RegisterSuspendObserverInner_def UnregisterSuspendObserverInner_def sus_ok_def)

lemma run_half_about: "fst (run_half accepts h st) = Some h1 \<Longrightarrow> half_about h1 = half_about h"
  by (cases h) (auto split: prod.splits if_splits)

lemma run_half_meets:
  assumes "half_ok obj [h] st" "half_about h = Some obj" "sus_ok st"
  shows "half_ok obj (case fst (run_half accepts h st) of None \<Rightarrow> [] | Some h1 \<Rightarrow> [h1]) (snd (run_half accepts h st))"
  using assms by (cases h) (auto simp: sus_ops sus_ok_def AList.update_conv' AList.delete_conv' split: option.split)

lemma begins_ok:
  assumes "run_ok r" "sus_ok st" "\<And>obj. half_about h = Some obj \<Longrightarrow> half_ok obj [h] st"
    "\<And>obj hs. half_about h \<noteq> Some obj \<Longrightarrow> half_ok obj hs (sr_st r) \<Longrightarrow> half_ok obj hs st"
  shows "run_ok (begins h st r)"
  unfolding run_ok_def
proof (intro conjI allI impI)
  show "sus_ok (sr_st (begins h st r))" using assms(2) by (simp add: begins_def)
next
  fix obj assume free: "Some obj \<notin> sr_contested (begins h st r)"
  then have was: "Some obj \<notin> sr_contested r" by (simp add: begins_def)
  show "half_ok obj (halves_about obj (sr_halves (begins h st r))) (sr_st (begins h st r))"
  proof (cases "half_about h = Some obj")
    case True
    with free have "halves_about obj (sr_halves r) = []"
      by (force simp: begins_def halves_about_def filter_empty_conv)
    then show ?thesis using True assms(3) by (simp add: begins_def halves_about_def)
  next
    case False
    then show ?thesis using was assms(1,4) by (simp add: begins_def halves_about_def run_ok_def)
  qed
qed

lemma goes_on_ok:
  assumes "run_ok r" "h \<in> set (sr_halves r)"
  shows "run_ok (goes_on accepts h r)"
  unfolding run_ok_def
proof (intro conjI allI impI)
  show "sus_ok (sr_st (goes_on accepts h r))" using assms(1) run_half_ok[of "sr_st r" accepts h]
    by (simp add: goes_on_def run_ok_def case_prod_beta)
next
  fix obj assume "Some obj \<notin> sr_contested (goes_on accepts h r)"
  then have ok: "half_ok obj (halves_about obj (sr_halves r)) (sr_st r)" "sus_ok (sr_st r)"
    using assms(1) by (simp_all add: goes_on_def run_ok_def split: prod.splits)
  obtain n st where run: "run_half accepts h (sr_st r) = (n, st)" by fastforce
  then have about: "n = Some h1 \<Longrightarrow> half_about h1 = half_about h" for h1
    using run_half_about[of accepts h "sr_st r" h1] by simp
  show "half_ok obj (halves_about obj (sr_halves (goes_on accepts h r))) (sr_st (goes_on accepts h r))"
  proof (cases "half_about h = Some obj")
    case True
    then have mem: "h \<in> set (halves_about obj (sr_halves r))" using assms(2) by (simp add: halves_about_def)
    with ok(1) have "halves_about obj (sr_halves r) = [h]"
      by (cases "(obj, halves_about obj (sr_halves r), sr_st r)" rule: half_ok.cases) auto
    then have "halves_about obj (remove1 h (sr_halves r)) = []" "half_ok obj [h] (sr_st r)"
      using ok(1) by (simp_all add: halves_about_def filter_remove1)
    then show ?thesis using run True about run_half_meets[of obj h "sr_st r" accepts] ok(2)
      by (auto simp: goes_on_def halves_about_def split: option.splits)
  next
    case False
    then have "halves_about obj (remove1 h (sr_halves r)) = halves_about obj (sr_halves r)"
      by (simp add: halves_about_def filter_remove1 remove1_idem)
    then show ?thesis using run False about ok(1) run_half_frame[of h obj _ "sr_st r" accepts]
      by (auto simp: goes_on_def halves_about_def split: option.splits)
  qed
qed

lemma sus_reachable_ok: "sus_reachable r \<Longrightarrow> run_ok r"
proof (induction rule: sus_reachable.induct)
  case fresh
  then show ?case by (simp add: run_ok_def sus_run_new_def sus_new_def sus_ok_def halves_about_def)
next
  case (registers r V c ob)
  then show ?case using inner_ok(1) inner_frame(1)
    by (intro begins_ok) (auto simp: run_ok_def inner_meets)
next
  case (unregisters r V c ob)
  then show ?case using inner_ok(2) inner_frame(2)
    by (intro begins_ok) (auto simp: run_ok_def inner_meets)
next
  case (dies r obj)
  then show ?case using inner_ok(2) inner_frame(2)
    by (intro begins_ok) (auto simp: run_ok_def inner_meets)
next
  case (continues r h accepts)
  then show ?case by (simp add: goes_on_ok)
next
  case (updates r n user pidList)
  then show ?case
    by (auto simp: run_ok_def UpdateSuspendObserver_def sus_ok_def split: option.split elim!: half_ok_frame)
qed


definition demo_sus_run :: sus_run where
  "demo_sus_run = goes_on (\<lambda>obj. True) (AddHalf (Some 7))
     (begins (AddHalf (Some 7)) (snd (RegisterSuspendObserverInner (Some (Some 7)) sus_new)) sus_run_new)"

lemma demo_sus_runs:
  assumes "CheckSuspendPermission V c"
  shows "sus_reachable demo_sus_run"
proof -
  have "sus_reachable (begins (AddHalf (Some 7))
      (snd (RegisterSuspendObserverInner (Some (Some 7)) (sr_st sus_run_new))) sus_run_new)"
    by (rule sus_reachable.registers[OF sus_reachable.fresh assms])
  then show ?thesis unfolding demo_sus_run_def
    by (intro sus_reachable.continues) (simp_all add: begins_def sus_run_new_def)
qed


text \<open>
  Registering while another thread unregisters the same observer can leave the observer on the list
  without a recipient, so that its death goes unnoticed.
\<close>

theorem register_races_with_unregister:
  fixes accepts obj
  assumes "distinct (suspendObservers st)" "map_of (recipientMap st) obj = Some r"
  defines "ob \<equiv> Some (Some obj)"
  defines "s1 \<equiv> snd (UnregisterSuspendObserverInner ob st)"
  defines "s2 \<equiv> snd (AddObserverDeathRecipient accepts ob (snd (RegisterSuspendObserverInner ob s1)))"
  defines "s3 \<equiv> snd (RemoveObserverDeathRecipient ob s2)"
  shows "Some obj \<in> set (suspendObservers s3) \<and> map_of (recipientMap s3) obj = None"
  using assms(1,2) unfolding s3_def s2_def s1_def ob_def by (auto simp: sus_ops AList.delete_conv')

definition demo_sus :: sus_state where
  "demo_sus = snd (sus_RegisterSuspendObserver (\<lambda>obj. True) (Some (Some 7)) sus_new)"

theorem register_races_with_unregister_witness:
  "\<exists>st :: sus_state. Some 7 \<in> set (suspendObservers st) \<and> map_of (recipientMap st) 7 = None"
proof -
  have "distinct (suspendObservers demo_sus)" "map_of (recipientMap demo_sus) 7 = Some 0"
    by (simp_all add: demo_sus_def sus_RegisterSuspendObserver_def sus_ops sus_new_def)
  from register_races_with_unregister[OF this, of "\<lambda>obj. True"] show ?thesis by (rule exI)
qed

text \<open>This is a run: the object is contested, nothing is under way, and its death would go unnoticed.\<close>

definition race_run :: sus_run where
  "race_run =
     (let reg = \<lambda>r. begins (AddHalf (Some 7)) (snd (RegisterSuspendObserverInner (Some (Some 7)) (sr_st r))) r;
          unreg = \<lambda>r. begins (RemoveHalf (Some 7)) (snd (UnregisterSuspendObserverInner (Some (Some 7)) (sr_st r))) r
      in goes_on (\<lambda>obj. True) (RemoveHalf (Some 7)) (goes_on (\<lambda>obj. True) (AddHalf (Some 7)) (reg (unreg demo_sus_run))))"

lemma race_goes_unnoticed:
  assumes "CheckSuspendPermission V c"
  shows "sus_reachable race_run \<and> sr_halves race_run = [] \<and> Some 7 \<in> set (suspendObservers (sr_st race_run)) \<and>
    sus_links (sr_st race_run) = []"
proof -
  have "sus_reachable race_run" unfolding race_run_def Let_def
    by (intro sus_reachable.continues sus_reachable.registers[OF _ assms] sus_reachable.unregisters[OF _ assms]
        demo_sus_runs[OF assms])
      (simp_all add: begins_def goes_on_def demo_sus_run_def sus_run_new_def sus_ops sus_new_def)
  then show ?thesis
    by (simp add: race_run_def begins_def goes_on_def demo_sus_run_def sus_run_new_def sus_ops sus_new_def)
qed

text \<open>
  Unregistering an observer whose proxy has no remote object puts it on the list.
\<close>

theorem unregister_can_register:
  "None \<in> set (suspendObservers (snd (sus_UnregisterSuspendObserver (Some None) st)))"
  by (simp add: sus_UnregisterSuspendObserver_def sus_ops)

end
