(* ===== verification/Event_Controller.thy ===== *)
theory Event_Controller
  imports App_Observer Socperf_Props
begin

text \<open>
  The event controller (sched\_controller/common\_event/src/event\_controller.cpp): common events of the
  system become reports.  The names of the events that the event framework defines are a parameter; a
  \<open>Want\<close> is its action, its bundle and what its parameters are.  Reports and the calls to the event
  service are lists.
\<close>

section \<open>Data\<close>

datatype support_event =
    COMMON_EVENT_CONNECTIVITY_CHANGE | COMMON_EVENT_PACKAGE_INSTALLATION_STARTED | COMMON_EVENT_PACKAGE_ADDED
  | COMMON_EVENT_PACKAGE_REMOVED | COMMON_EVENT_PACKAGE_CHANGED | COMMON_EVENT_PACKAGE_REPLACED | COMMON_EVENT_SCREEN_ON
  | COMMON_EVENT_SCREEN_OFF | COMMON_EVENT_USER_SWITCHED | COMMON_EVENT_USER_REMOVED | COMMON_EVENT_TIMEZONE_CHANGED
  | COMMON_EVENT_BUNDLE_REMOVED | COMMON_EVENT_PACKAGE_FULLY_REMOVED | COMMON_EVENT_TIME_CHANGED
  | COMMON_EVENT_NITZ_TIME_CHANGED | COMMON_EVENT_NITZ_TIMEZONE_CHANGED | COMMON_EVENT_CHARGING
  | COMMON_EVENT_USB_DEVICE_ATTACHED | COMMON_EVENT_DISCHARGING | COMMON_EVENT_USB_DEVICE_DETACHED
  | COMMON_EVENT_USB_STATE | COMMON_EVENT_CALL_STATE_CHANGED | COMMON_EVENT_WIFI_P2P_STATE_CHANGED
  | COMMON_EVENT_POWER_SAVE_MODE_CHANGED | COMMON_EVENT_BOOT_COMPLETED | COMMON_EVENT_POWER_CONNECTED
  | COMMON_EVENT_POWER_DISCONNECTED | COMMON_EVENT_WIFI_POWER_STATE | COMMON_EVENT_USER_UNLOCKED
  | COMMON_EVENT_BATTERY_CHANGED | COMMON_EVENT_BATTERY_LOW | COMMON_EVENT_BATTERY_OKAY

record want =
  want_action :: string
  want_bundle :: string
  want_int :: "string \<Rightarrow> i32 option"
  want_bool :: "string \<Rightarrow> bool option"
  want_string :: "string \<Rightarrow> string option"

record ec_env =
  support_name :: "support_event \<Rightarrow> string"
  ec_UID :: string
  ec_USER_ID :: string
  ec_answer :: "nat \<Rightarrow> bool"
  ec_alloc :: bool
  ec_samgr :: bool

text \<open>A subscription: the events, and what restricts their publisher.\<close>

datatype publisher = AnyPublisher | FromBundle string | FromUid i32 | WithPermission string

datatype ec_out =
    EcReport u32 i64 json
  | EcDataShareReady
  | EcSubscribe nat "string list" publisher bool
  | EcUnsubscribe nat
  | EcSubscribeAbility bool
  | EcUnsubscribeAbility

text \<open>What a subscriber keeps of its last report.\<close>

record ec_object =
  ec_resType :: u32
  ec_value :: i64
  ec_payload :: json

definition ec_object_new :: ec_object where
  "ec_object_new = \<lparr>ec_resType = 0, ec_value = 0, ec_payload = JNull\<rparr>"

definition COMMON_EVENT_MEDIA_CTRL_EVENT :: string where "COMMON_EVENT_MEDIA_CTRL_EVENT = ''usual.event.MEDIA_CTRL_EVENT''"
definition COMMON_EVENT_CAMERA_STATUS :: string where "COMMON_EVENT_CAMERA_STATUS = ''usual.event.CAMERA_STATUS''"
definition COMMON_EVENT_CLONE :: string where "COMMON_EVENT_CLONE = ''usual.event.clone.PerformanceCloneState''"
definition COMMON_EVENT_GAME_STATUS :: string where
  "COMMON_EVENT_GAME_STATUS = ''usual.event.gameservice.GAME_STATUS_CHANGE_UNI''"
definition DATA_SHARE_READY :: string where "DATA_SHARE_READY = ''usual.event.DATA_SHARE_READY''"
definition CONFIG_UPDATED_ACTION :: string where "CONFIG_UPDATED_ACTION = ''usual.event.DUE_SA_CFG_UPDATED''"
definition COMMON_EVENT_USER_SLEEP_STATE_CHANGED :: string where
  "COMMON_EVENT_USER_SLEEP_STATE_CHANGED = ''common.event.USER_NOT_CARE_CHARGE_SLEEP''"
definition COMMON_EVENT_AUDIO_FOCUS_CHANGE :: string where
  "COMMON_EVENT_AUDIO_FOCUS_CHANGE = ''usual.event.AUDIO_FOCUS_CHANGE_EVENT''"
definition COMMON_EVENT_CLONE_STATE :: string where "COMMON_EVENT_CLONE_STATE = ''usual.event.clone.CommonEventCloneState''"
definition COMMON_EVENT_NEARLINK_HOST_STATE_UPDATE :: string where
  "COMMON_EVENT_NEARLINK_HOST_STATE_UPDATE = ''usual.event.nearlink.host.STATE_UPDATE''"
definition UNLOCK_SCREEN :: string where "UNLOCK_SCREEN = ''common.event.UNLOCK_SCREEN''"
definition LOCK_SCREEN :: string where "LOCK_SCREEN = ''common.event.LOCK_SCREEN''"
definition SCENE_BOARD_NAME :: string where "SCENE_BOARD_NAME = ''com.ohos.sceneboard''"
definition BACKUP_PERMISSION :: string where "BACKUP_PERMISSION = ''ohos.permission.BACKUP''"

lemmas local_event_defs = COMMON_EVENT_MEDIA_CTRL_EVENT_def COMMON_EVENT_CAMERA_STATUS_def COMMON_EVENT_CLONE_def
  COMMON_EVENT_GAME_STATUS_def DATA_SHARE_READY_def CONFIG_UPDATED_ACTION_def COMMON_EVENT_USER_SLEEP_STATE_CHANGED_def
  COMMON_EVENT_AUDIO_FOCUS_CHANGE_def COMMON_EVENT_CLONE_STATE_def COMMON_EVENT_NEARLINK_HOST_STATE_UPDATE_def
  UNLOCK_SCREEN_def LOCK_SCREEN_def

definition SCREEN_UNLOCK :: i64 where "SCREEN_UNLOCK = 0"
definition SCREEN_LOCK :: i64 where "SCREEN_LOCK = 1"
definition EVENT_CHARGING :: i64 where "EVENT_CHARGING = 0"
definition EVENT_DISCHARGING :: i64 where "EVENT_DISCHARGING = 1"
definition USB_DEVICE_ATTACHED :: i64 where "USB_DEVICE_ATTACHED = 0"
definition USB_DEVICE_DETACHED :: i64 where "USB_DEVICE_DETACHED = 1"
definition USB_DEVICE_STATE :: i64 where "USB_DEVICE_STATE = 2"
definition NL_SWITCH_STATE :: i64 where "NL_SWITCH_STATE = 2"
definition CLONE_END :: i32 where "CLONE_END = 0"
definition NEW_DEVICE_CLONE_START :: i32 where "NEW_DEVICE_CLONE_START = 1"
definition OLD_DEVICE_CLONE_START :: i32 where "OLD_DEVICE_CLONE_START = 2"
definition INTERRUPT_HINT_NONE :: i32 where "INTERRUPT_HINT_NONE = 0"
definition INTERRUPT_HINT_EXIT_STANDALONE :: i32 where "INTERRUPT_HINT_EXIT_STANDALONE = 8"

section \<open>Reading a want\<close>

definition GetIntParam :: "want \<Rightarrow> string \<Rightarrow> i32 \<Rightarrow> i32" where
  "GetIntParam w name d = (case want_int w name of None \<Rightarrow> d | Some n \<Rightarrow> n)"

definition GetBoolParam :: "want \<Rightarrow> string \<Rightarrow> bool \<Rightarrow> bool" where
  "GetBoolParam w name d = (case want_bool w name of None \<Rightarrow> d | Some b \<Rightarrow> b)"

definition GetStringParam :: "want \<Rightarrow> string \<Rightarrow> string" where
  "GetStringParam w name = (case want_string w name of None \<Rightarrow> [] | Some s \<Rightarrow> s)"

section \<open>Reports\<close>

text \<open>A handler yields what it does and the subscriber after it.\<close>

type_synonym ec_result = "ec_out list \<times> ec_object"

definition ec_ReportDataInProcess :: "u32 \<Rightarrow> i64 \<Rightarrow> json \<Rightarrow> ec_object \<Rightarrow> ec_result" where
  "ec_ReportDataInProcess resType v payload self =
     ([EcReport resType v payload], \<lparr>ec_resType = resType, ec_value = v, ec_payload = payload\<rparr>)"

definition HandlePkgAddRemove :: "ec_env \<Rightarrow> want \<Rightarrow> json \<Rightarrow> json" where
  "HandlePkgAddRemove E w payload =
     set_member ''appIndex'' (JInt (GetIntParam w ''appIndex'' (- 1)))
       (set_member ''userId'' (JInt (GetIntParam w (ec_USER_ID E) (- 1)))
         (set_member ''uid'' (JInt (GetIntParam w (ec_UID E) (- 1)))
           (set_member ''bundleName'' (JStr (want_bundle w)) payload)))"

definition HandleConnectivityChange :: "want \<Rightarrow> i32 \<Rightarrow> json \<Rightarrow> ec_object \<Rightarrow> ec_result" where
  "HandleConnectivityChange w code payload self =
     (if GetIntParam w ''NetType'' (- 1) \<noteq> 1 then ([], self)
      else ec_ReportDataInProcess RES_TYPE_WIFI_CONNECT_STATE_CHANGE code payload self)"

text \<open>The common event of a package, if it is one.\<close>

definition HandlePkgCommonEvent :: "ec_env \<Rightarrow> want \<Rightarrow> json \<Rightarrow> ec_object \<Rightarrow> ec_result option" where
  "HandlePkgCommonEvent E w payload self =
     (let a = want_action w;
          installed = (\<lambda>v. Some (ec_ReportDataInProcess RES_TYPE_APP_INSTALL_UNINSTALL v (HandlePkgAddRemove E w payload) self))
      in if a = support_name E COMMON_EVENT_PACKAGE_REMOVED then installed APP_UNINSTALL
         else if a = support_name E COMMON_EVENT_PACKAGE_INSTALLATION_STARTED then installed APP_INSTALL_START
         else if a = support_name E COMMON_EVENT_PACKAGE_ADDED then installed APP_INSTALL_END
         else if a = support_name E COMMON_EVENT_PACKAGE_CHANGED then installed APP_CHANGED
         else if a = support_name E COMMON_EVENT_PACKAGE_REPLACED then installed APP_REPLACED
         else if a = support_name E COMMON_EVENT_PACKAGE_FULLY_REMOVED then installed APP_FULLY_REMOVED
         else if a = support_name E COMMON_EVENT_BUNDLE_REMOVED then installed BUNDLE_REMOVED
         else None)"

definition HandleMediaCtrlEvent :: "want \<Rightarrow> ec_object \<Rightarrow> ec_result" where
  "HandleMediaCtrlEvent w self =
     (if GetStringParam w ''cmd'' \<noteq> ''OnPlay'' then ([], self)
      else ec_ReportDataInProcess RES_TYPE_MEDIA_CTRL_EVENT 0
        (JObj [(''uid'', JInt (GetIntParam w ''uid'' (- 1))), (''pid'', JInt (GetIntParam w ''pid'' (- 1)))]) self)"

definition HandleAudioFocusChangeEvent :: "want \<Rightarrow> ec_object \<Rightarrow> ec_result" where
  "HandleAudioFocusChangeEvent w self =
     (let hintType = GetIntParam w ''hintType'' (- 1) in
      if INTERRUPT_HINT_NONE \<le> hintType \<and> hintType \<le> INTERRUPT_HINT_EXIT_STANDALONE
      then ec_ReportDataInProcess RES_TYPE_AUDIO_FOCUS_CHANGE_EVENT 0
        (JObj [(''uid'', JInt (GetIntParam w ''uid'' (- 1))), (''streamId'', JInt (GetIntParam w ''streamId'' (- 1)))]) self
      else ([], self))"

definition HandleCloneStateEvent :: "want \<Rightarrow> json \<Rightarrow> ec_object \<Rightarrow> ec_result" where
  "HandleCloneStateEvent w payload self =
     (let cloneState = GetIntParam w ''cloneState'' (- 1) in
      if cloneState = CLONE_END \<or> cloneState = NEW_DEVICE_CLONE_START \<or> cloneState = OLD_DEVICE_CLONE_START
      then ec_ReportDataInProcess RES_TYPE_DATA_CLONE_STATE cloneState payload self
      else ([], self))"

definition handleNearlinkEvent :: "i32 \<Rightarrow> json \<Rightarrow> ec_object \<Rightarrow> ec_result" where
  "handleNearlinkEvent code payload self =
     ec_ReportDataInProcess RES_TYPE_NEARLINK_SERVICE_EVENT NL_SWITCH_STATE (set_member ''ACTION'' (int_text code) payload) self"

definition handleLeftEvent :: "ec_env \<Rightarrow> i32 \<Rightarrow> json \<Rightarrow> want \<Rightarrow> ec_object \<Rightarrow> ec_result" where
  "handleLeftEvent E user payload w self =
     (let a = want_action w in
      if a = COMMON_EVENT_USER_SLEEP_STATE_CHANGED then
        ec_ReportDataInProcess RES_TYPE_USER_NOT_CARE_CHARGE_SLEEP (of_bool (GetBoolParam w ''isSleep'' False)) payload self
      else if a = support_name E COMMON_EVENT_BATTERY_CHANGED then
        ec_ReportDataInProcess RES_TYPE_REPORT_BATTERY_STATUS_CHANGE (GetIntParam w ''soc'' (- 1))
          (set_member ''chargeState'' (JInt (GetIntParam w ''chargeState'' (- 1))) payload) self
      else if a = support_name E COMMON_EVENT_BATTERY_LOW then ec_ReportDataInProcess RES_TYPE_BATTERY_LOW 1 payload self
      else if a = support_name E COMMON_EVENT_BATTERY_OKAY then ec_ReportDataInProcess RES_TYPE_BATTERY_LOW 0 payload self
      else if a = COMMON_EVENT_MEDIA_CTRL_EVENT then HandleMediaCtrlEvent w self
      else if a = COMMON_EVENT_AUDIO_FOCUS_CHANGE then HandleAudioFocusChangeEvent w self
      else if a = COMMON_EVENT_CLONE then
        ec_ReportDataInProcess RES_TYPE_OOBE_CLONE (GetIntParam w ''cloneState'' (- 1)) payload self
      else if a = support_name E COMMON_EVENT_USB_STATE then
        ec_ReportDataInProcess RES_TYPE_USB_DEVICE USB_DEVICE_STATE
          (set_member ''hdc'' (JBool (GetBoolParam w ''hdc'' False))
            (set_member ''connected'' (JBool (GetBoolParam w ''connected'' False)) payload)) self
      else if a = COMMON_EVENT_CLONE_STATE then HandleCloneStateEvent w payload self
      else if a = COMMON_EVENT_NEARLINK_HOST_STATE_UPDATE then handleNearlinkEvent user payload self
      else ([], self))"

definition handleOtherEvent :: "ec_env \<Rightarrow> i32 \<Rightarrow> json \<Rightarrow> want \<Rightarrow> ec_object \<Rightarrow> ec_result" where
  "handleOtherEvent E user payload w self =
     (let a = want_action w;
          power = (\<lambda>mode. set_member ''deviceMode'' (JStr mode) (set_member ''deviceModeType'' (JStr ''powerConnectStatus'') payload))
      in if a = support_name E COMMON_EVENT_BOOT_COMPLETED then
           ec_ReportDataInProcess RES_TYPE_BOOT_COMPLETED START_BOOT_COMPLETED payload self
         else if a = support_name E COMMON_EVENT_POWER_CONNECTED then
           ec_ReportDataInProcess RES_TYPE_DEVICE_MODE_STATUS MODE_ENTER (power ''powerConnected'') self
         else if a = support_name E COMMON_EVENT_POWER_DISCONNECTED then
           ec_ReportDataInProcess RES_TYPE_DEVICE_MODE_STATUS MODE_ENTER (power ''powerDisConnected'') self
         else if a = COMMON_EVENT_CAMERA_STATUS then
           ec_ReportDataInProcess RES_TYPE_REPORT_CAMERA_STATE (GetIntParam w ''cameraState'' 1)
             (set_member ''cameraType'' (JInt (GetIntParam w ''isSystemCamera'' 0)) payload) self
         else if a = COMMON_EVENT_GAME_STATUS then
           ec_ReportDataInProcess RES_TYPE_REPORT_GAME_STATE_CHANGE (GetIntParam w ''type'' (- 1))
             (set_member ''env'' (JInt (GetIntParam w ''env'' (- 1)))
               (set_member ''uid'' (JInt (GetIntParam w ''uid'' (- 1))) payload)) self
         else if a = CONFIG_UPDATED_ACTION then
           ec_ReportDataInProcess RES_TYPE_PARAM_UPDATE_EVENT user
             (set_member ''subtype'' (JStr (GetStringParam w ''subtype''))
               (set_member ''type'' (JStr (GetStringParam w ''type'')) payload)) self
         else if a = support_name E COMMON_EVENT_USER_UNLOCKED then
           ec_ReportDataInProcess RES_TYPE_USER_UNLOCKED (GetIntParam w ''type'' (- 1)) payload self
         else handleLeftEvent E user payload w self)"

definition handleEvent :: "ec_env \<Rightarrow> i32 \<Rightarrow> json \<Rightarrow> want \<Rightarrow> ec_object \<Rightarrow> ec_result" where
  "handleEvent E user payload w self =
     (let a = want_action w in
      if a = support_name E COMMON_EVENT_TIMEZONE_CHANGED then
        ec_ReportDataInProcess RES_TYPE_TIMEZONE_CHANGED (uint RES_TYPE_TIMEZONE_CHANGED) payload self
      else if a = support_name E COMMON_EVENT_TIME_CHANGED then ec_ReportDataInProcess RES_TYPE_TIME_CHANGED user payload self
      else if a = support_name E COMMON_EVENT_NITZ_TIME_CHANGED then
        ec_ReportDataInProcess RES_TYPE_NITZ_TIME_CHANGED user payload self
      else if a = support_name E COMMON_EVENT_NITZ_TIMEZONE_CHANGED then
        ec_ReportDataInProcess RES_TYPE_NITZ_TIMEZONE_CHANGED user payload self
      else if a = support_name E COMMON_EVENT_CHARGING then
        ec_ReportDataInProcess RES_TYPE_CHARGING_DISCHARGING EVENT_CHARGING payload self
      else if a = support_name E COMMON_EVENT_DISCHARGING then
        ec_ReportDataInProcess RES_TYPE_CHARGING_DISCHARGING EVENT_DISCHARGING payload self
      else if a = support_name E COMMON_EVENT_USB_DEVICE_ATTACHED then
        ec_ReportDataInProcess RES_TYPE_USB_DEVICE USB_DEVICE_ATTACHED payload self
      else if a = support_name E COMMON_EVENT_USB_DEVICE_DETACHED then
        ec_ReportDataInProcess RES_TYPE_USB_DEVICE USB_DEVICE_DETACHED payload self
      else if a = support_name E COMMON_EVENT_WIFI_P2P_STATE_CHANGED then
        ec_ReportDataInProcess RES_TYPE_WIFI_P2P_STATE_CHANGED user payload self
      else if a = support_name E COMMON_EVENT_POWER_SAVE_MODE_CHANGED then
        ec_ReportDataInProcess RES_TYPE_POWER_MODE_CHANGED user payload self
      else if a = support_name E COMMON_EVENT_WIFI_POWER_STATE then
        ec_ReportDataInProcess RES_TYPE_WIFI_POWER_STATE_CHANGE user (set_member ''state'' (int_text user) payload) self
      else handleOtherEvent E user payload w self)"

definition ec_OnReceiveEvent :: "ec_env \<Rightarrow> want \<Rightarrow> i32 \<Rightarrow> ec_object \<Rightarrow> ec_result" where
  "ec_OnReceiveEvent E w code self =
     (let a = want_action w; payload = JObj [] in
      case HandlePkgCommonEvent E w payload self of
        Some r \<Rightarrow> r
      | None \<Rightarrow>
          if a = support_name E COMMON_EVENT_SCREEN_ON then ec_ReportDataInProcess RES_TYPE_SCREEN_STATUS SCREEN_ON payload self
          else if a = support_name E COMMON_EVENT_SCREEN_OFF then
            ec_ReportDataInProcess RES_TYPE_SCREEN_STATUS SCREEN_OFF payload self
          else if a = support_name E COMMON_EVENT_CONNECTIVITY_CHANGE then HandleConnectivityChange w code payload self
          else if a = support_name E COMMON_EVENT_USER_SWITCHED then ec_ReportDataInProcess RES_TYPE_USER_SWITCH code payload self
          else if a = support_name E COMMON_EVENT_USER_REMOVED then ec_ReportDataInProcess RES_TYPE_USER_REMOVE code payload self
          else if a = UNLOCK_SCREEN then ec_ReportDataInProcess RES_TYPE_SCREEN_LOCK SCREEN_UNLOCK payload self
          else if a = LOCK_SCREEN then ec_ReportDataInProcess RES_TYPE_SCREEN_LOCK SCREEN_LOCK payload self
          else if a = support_name E COMMON_EVENT_CALL_STATE_CHANGED then
            ec_ReportDataInProcess RES_TYPE_CALL_STATE_CHANGED code
              (set_member ''state'' (JInt (GetIntParam w ''state'' (- 1))) payload) self
          else if a = DATA_SHARE_READY then ([EcDataShareReady], self)
          else handleEvent E code payload w self)"

section \<open>Subscriptions\<close>

definition battery_events :: "support_event list" where
  "battery_events = [COMMON_EVENT_BATTERY_CHANGED, COMMON_EVENT_BATTERY_LOW, COMMON_EVENT_BATTERY_OKAY]"

definition AddBatteryCommonEvent :: "ec_env \<Rightarrow> string list \<Rightarrow> string list" where
  "AddBatteryCommonEvent E skills = skills @ map (support_name E) battery_events"

definition support_events :: "support_event list" where
  "support_events =
     [COMMON_EVENT_CONNECTIVITY_CHANGE, COMMON_EVENT_PACKAGE_INSTALLATION_STARTED, COMMON_EVENT_PACKAGE_ADDED,
      COMMON_EVENT_PACKAGE_REMOVED, COMMON_EVENT_PACKAGE_CHANGED, COMMON_EVENT_PACKAGE_REPLACED, COMMON_EVENT_SCREEN_ON,
      COMMON_EVENT_SCREEN_OFF, COMMON_EVENT_USER_SWITCHED, COMMON_EVENT_USER_REMOVED, COMMON_EVENT_TIMEZONE_CHANGED,
      COMMON_EVENT_BUNDLE_REMOVED, COMMON_EVENT_PACKAGE_FULLY_REMOVED, COMMON_EVENT_TIME_CHANGED,
      COMMON_EVENT_NITZ_TIME_CHANGED, COMMON_EVENT_NITZ_TIMEZONE_CHANGED, COMMON_EVENT_CHARGING,
      COMMON_EVENT_USB_DEVICE_ATTACHED, COMMON_EVENT_DISCHARGING, COMMON_EVENT_USB_DEVICE_DETACHED, COMMON_EVENT_USB_STATE,
      COMMON_EVENT_CALL_STATE_CHANGED, COMMON_EVENT_WIFI_P2P_STATE_CHANGED, COMMON_EVENT_POWER_SAVE_MODE_CHANGED,
      COMMON_EVENT_BOOT_COMPLETED, COMMON_EVENT_POWER_CONNECTED, COMMON_EVENT_POWER_DISCONNECTED,
      COMMON_EVENT_WIFI_POWER_STATE, COMMON_EVENT_USER_UNLOCKED]"

definition local_events :: "string list" where
  "local_events =
     [DATA_SHARE_READY, COMMON_EVENT_CAMERA_STATUS, COMMON_EVENT_CLONE, COMMON_EVENT_GAME_STATUS, CONFIG_UPDATED_ACTION,
      COMMON_EVENT_USER_SLEEP_STATE_CHANGED, COMMON_EVENT_AUDIO_FOCUS_CHANGE, COMMON_EVENT_NEARLINK_HOST_STATE_UPDATE]"

text \<open>The listener for the event service: the four subscribers, which are numbers.\<close>

record ec_listener =
  subscriber :: "nat option"
  lockScreenSubscriber :: "nat option"
  cloneStateSubscriber :: "nat option"
  mediaCtrlSubscriber :: "nat option"

definition ec_listener_new :: ec_listener where
  "ec_listener_new = \<lparr>subscriber = None, lockScreenSubscriber = None, cloneStateSubscriber = None, mediaCtrlSubscriber = None\<rparr>"

record ec_state =
  ec_listener :: "ec_listener option"
  ec_next :: nat
  ec_outs :: "ec_out list"

definition ec_new :: ec_state where "ec_new = \<lparr>ec_listener = None, ec_next = 0, ec_outs = []\<rparr>"

definition ec_emit :: "ec_out \<Rightarrow> ec_state \<Rightarrow> ec_state" where
  "ec_emit out st = st\<lparr>ec_outs := ec_outs st @ [out]\<rparr>"

definition upd_listener :: "(ec_listener \<Rightarrow> ec_listener) \<Rightarrow> ec_state \<Rightarrow> ec_state" where
  "upd_listener f st = st\<lparr>ec_listener := map_option f (ec_listener st)\<rparr>"

text \<open>Making a subscriber and subscribing it; the answer is only logged.\<close>

definition ec_SubscribeCommonEvent :: "ec_env \<Rightarrow> string list \<Rightarrow> publisher \<Rightarrow> ec_state \<Rightarrow> nat \<times> ec_state" where
  "ec_SubscribeCommonEvent E skills p st =
     (let n = ec_next st in (n, ec_emit (EcSubscribe n skills p (ec_answer E n)) (st\<lparr>ec_next := n + 1\<rparr>)))"

definition SubscribeLockScreenCommonEvent :: "ec_env \<Rightarrow> ec_state \<Rightarrow> ec_state" where
  "SubscribeLockScreenCommonEvent E st =
     (case ec_SubscribeCommonEvent E [UNLOCK_SCREEN, LOCK_SCREEN] (FromBundle SCENE_BOARD_NAME) st of
        (n, st1) \<Rightarrow> upd_listener (\<lambda>l. l\<lparr>lockScreenSubscriber := Some n\<rparr>) st1)"

definition SubscribeCloneStateCommonEvent :: "ec_env \<Rightarrow> ec_state \<Rightarrow> ec_state" where
  "SubscribeCloneStateCommonEvent E st =
     (case ec_SubscribeCommonEvent E [COMMON_EVENT_CLONE_STATE] (WithPermission BACKUP_PERMISSION) st of
        (n, st1) \<Rightarrow> upd_listener (\<lambda>l. l\<lparr>cloneStateSubscriber := Some n\<rparr>) st1)"

definition SubscribeMediaCtrlCommonEvent :: "ec_env \<Rightarrow> ec_state \<Rightarrow> ec_state" where
  "SubscribeMediaCtrlCommonEvent E st =
     (case ec_SubscribeCommonEvent E [COMMON_EVENT_MEDIA_CTRL_EVENT] (FromUid 6700) st of
        (n, st1) \<Rightarrow> upd_listener (\<lambda>l. l\<lparr>mediaCtrlSubscriber := Some n\<rparr>) st1)"

definition ec_OnAddSystemAbility :: "ec_env \<Rightarrow> ec_state \<Rightarrow> ec_state" where
  "ec_OnAddSystemAbility E st =
     (case ec_SubscribeCommonEvent E (AddBatteryCommonEvent E (map (support_name E) support_events @ local_events)) AnyPublisher st of
        (n, st1) \<Rightarrow>
          SubscribeMediaCtrlCommonEvent E (SubscribeCloneStateCommonEvent E (SubscribeLockScreenCommonEvent E
            (upd_listener (\<lambda>l. l\<lparr>subscriber := Some n\<rparr>) st1))))"

definition ec_OnRemoveSystemAbility :: "ec_state \<Rightarrow> ec_state" where
  "ec_OnRemoveSystemAbility st = upd_listener (\<lambda>l. ec_listener_new) st"

definition unsubscribe :: "nat option \<Rightarrow> ec_state \<Rightarrow> ec_state" where
  "unsubscribe s st = (case s of None \<Rightarrow> st | Some n \<Rightarrow> ec_emit (EcUnsubscribe n) st)"

definition listener_Stop :: "ec_listener \<Rightarrow> ec_state \<Rightarrow> ec_state" where
  "listener_Stop l st =
     upd_listener (\<lambda>l. ec_listener_new)
       (unsubscribe (mediaCtrlSubscriber l) (unsubscribe (cloneStateSubscriber l)
         (unsubscribe (lockScreenSubscriber l) (unsubscribe (subscriber l) st))))"

definition ec_Init :: "ec_env \<Rightarrow> ec_state \<Rightarrow> ec_state" where
  "ec_Init E st =
     (if ec_listener st \<noteq> None then st
      else if \<not> ec_alloc E \<or> \<not> ec_samgr E then st
      else (let ok = ec_answer E (ec_next st);
                st1 = ec_emit (EcSubscribeAbility ok) (st\<lparr>ec_next := ec_next st + 1\<rparr>)
            in if ok then st1\<lparr>ec_listener := Some ec_listener_new\<rparr> else st1))"

definition ec_Stop :: "ec_env \<Rightarrow> ec_state \<Rightarrow> ec_state" where
  "ec_Stop E st =
     (case ec_listener st of
        None \<Rightarrow> st
      | Some l \<Rightarrow>
          (let st1 = listener_Stop l st;
               st2 = (if ec_samgr E then ec_emit EcUnsubscribeAbility st1 else st1)
           in st2\<lparr>ec_listener := None\<rparr>))"

section \<open>Every event that is subscribed is handled\<close>

text \<open>The event framework gives every event a name of its own, which is none of the local names.\<close>

definition all_local :: "string set" where
  "all_local = set local_events \<union> {UNLOCK_SCREEN, LOCK_SCREEN, COMMON_EVENT_CLONE_STATE, COMMON_EVENT_MEDIA_CTRL_EVENT}"

definition event_names_ok :: "ec_env \<Rightarrow> bool" where
  "event_names_ok E \<longleftrightarrow> inj (support_name E) \<and> range (support_name E) \<inter> all_local = {}"

lemma support_name_eq [simp]: "event_names_ok E \<Longrightarrow> support_name E a = support_name E b \<longleftrightarrow> a = b"
  by (auto simp: event_names_ok_def inj_eq)

lemma support_name_local:
  "event_names_ok E \<Longrightarrow> n \<in> all_local \<Longrightarrow> support_name E a \<noteq> n" "event_names_ok E \<Longrightarrow> n \<in> all_local \<Longrightarrow> n \<noteq> support_name E a"
  by (auto simp: event_names_ok_def)

lemma local_names:
  "COMMON_EVENT_MEDIA_CTRL_EVENT \<in> all_local" "COMMON_EVENT_CAMERA_STATUS \<in> all_local" "COMMON_EVENT_CLONE \<in> all_local"
  "COMMON_EVENT_GAME_STATUS \<in> all_local" "DATA_SHARE_READY \<in> all_local" "CONFIG_UPDATED_ACTION \<in> all_local"
  "COMMON_EVENT_USER_SLEEP_STATE_CHANGED \<in> all_local" "COMMON_EVENT_AUDIO_FOCUS_CHANGE \<in> all_local"
  "COMMON_EVENT_CLONE_STATE \<in> all_local" "COMMON_EVENT_NEARLINK_HOST_STATE_UPDATE \<in> all_local"
  "UNLOCK_SCREEN \<in> all_local" "LOCK_SCREEN \<in> all_local"
  by (simp_all add: all_local_def local_events_def)

lemmas ec_handlers = ec_OnReceiveEvent_def HandlePkgCommonEvent_def handleEvent_def handleOtherEvent_def handleLeftEvent_def

text \<open>Why a subscribed event is not reported.\<close>

definition rejected :: "ec_env \<Rightarrow> want \<Rightarrow> bool" where
  "rejected E w \<longleftrightarrow>
     (want_action w = support_name E COMMON_EVENT_CONNECTIVITY_CHANGE \<and> GetIntParam w ''NetType'' (- 1) \<noteq> 1) \<or>
     (want_action w = COMMON_EVENT_AUDIO_FOCUS_CHANGE \<and> GetIntParam w ''hintType'' (- 1) \<notin> {0..8})"

lemma support_event_handled:
  assumes "event_names_ok E" "want_action w = support_name E a"
  shows "fst (ec_OnReceiveEvent E w code self) = [] \<longleftrightarrow> rejected E w"
  by (cases a)
     (simp_all add: ec_handlers assms(1,2) local_names support_name_local rejected_def Let_def
       ec_ReportDataInProcess_def HandleConnectivityChange_def)

lemma local_event_handled:
  assumes "event_names_ok E" "want_action w \<in> set local_events"
  shows "fst (ec_OnReceiveEvent E w code self) = [] \<longleftrightarrow> rejected E w"
proof -
  have neq: "want_action w \<noteq> support_name E a" for a
    using assms support_name_local(2)[OF assms(1)] by (auto simp: all_local_def)
  show ?thesis
    using assms(2) neq
    by (auto simp: local_events_def ec_handlers rejected_def Let_def ec_ReportDataInProcess_def local_event_defs
        HandleAudioFocusChangeEvent_def INTERRUPT_HINT_NONE_def INTERRUPT_HINT_EXIT_STANDALONE_def handleNearlinkEvent_def)
qed


definition demo_names :: "support_event \<Rightarrow> string" where
  "demo_names a = replicate (length (takeWhile (\<lambda>b. b \<noteq> a) (support_events @ battery_events))) CHR ''a''"

definition demo_ec :: ec_env where
  "demo_ec = \<lparr>support_name = demo_names, ec_UID = ''uid'', ec_USER_ID = ''userId'', ec_answer = (\<lambda>n. True), ec_alloc = True,
     ec_samgr = True\<rparr>"

lemma demo_names_ok: "event_names_ok demo_ec"
proof -
  let ?xs = "support_events @ battery_events"
  have mem: "a \<in> set ?xs" for a by (cases a) (simp_all add: support_events_def battery_events_def)
  have "a \<in> set xs \<Longrightarrow> xs ! length (takeWhile (\<lambda>b. b \<noteq> a) xs) = a" for a and xs :: "support_event list" by (induction xs) auto
  then have nth: "?xs ! length (takeWhile (\<lambda>b. b \<noteq> a) ?xs) = a" for a using mem[of a] by simp
  have "inj demo_names"
  proof (rule injI)
    fix a b assume "demo_names a = demo_names b"
    then have "length (takeWhile (\<lambda>c. c \<noteq> a) ?xs) = length (takeWhile (\<lambda>c. c \<noteq> b) ?xs)"
      unfolding demo_names_def by (metis length_replicate)
    with nth[of a] nth[of b] show "a = b" by metis
  qed
  moreover have "CHR ''.'' \<in> set n" if "n \<in> all_local" for n
    using that by (auto simp: all_local_def local_events_def local_event_defs)
  then have "range demo_names \<inter> all_local = {}"
    by (force simp: demo_names_def)
  ultimately show ?thesis by (simp add: event_names_ok_def demo_ec_def)
qed

definition demo_want :: "string \<Rightarrow> want" where
  "demo_want a = \<lparr>want_action = a, want_bundle = ''b'', want_int = (\<lambda>n. None), want_bool = (\<lambda>n. None), want_string = (\<lambda>n. None)\<rparr>"


text \<open>
  A battery event reaches the frequency plugin with its level and its charge state; what the event
  does not say counts as -1, a level below every limit on a device that is not charging.
\<close>

theorem battery_event_reaches_limit:
  assumes "event_names_ok E" "want_action w = support_name E COMMON_EVENT_BATTERY_CHANGED" "socperfBatteryConfig st \<noteq> []"
    and "i32_range (GetIntParam w ''chargeState'' (- 1))"
  shows "\<exists>payload. fst (ec_OnReceiveEvent E w code self) =
      [EcReport RES_TYPE_REPORT_BATTERY_STATUS_CHANGE (GetIntParam w ''soc'' (- 1)) payload] \<and>
    HandleBatteryStatusChange \<lparr>rd_type = RES_TYPE_REPORT_BATTERY_STATUS_CHANGE, rd_value = GetIntParam w ''soc'' (- 1),
        rd_payload = payload\<rparr> st =
      HandleFreqLimit (GetIntParam w ''soc'' (- 1))
        (GetIntParam w ''chargeState'' (- 1) \<in> {CHARGE_STATE_ENABLE, CHARGE_STATE_FULL}) st"
proof -
  let ?payload = "JObj [(''chargeState'', JInt (GetIntParam w ''chargeState'' (- 1)))]"
  have "fst (ec_OnReceiveEvent E w code self) = [EcReport RES_TYPE_REPORT_BATTERY_STATUS_CHANGE (GetIntParam w ''soc'' (- 1)) ?payload]"
    by (simp add: ec_handlers assms(1,2) local_names support_name_local Let_def ec_ReportDataInProcess_def set_member_def)
  then show ?thesis using assms(3,4)
    by (simp add: HandleBatteryStatusChange_def member_def COMMON_EVENT_CHARGE_STATE_def json_int32_def i32_range_def wrap_s32_id)
qed

theorem battery_event_reaches_limit_witness:
  "HandleBatteryStatusChange \<lparr>rd_type = RES_TYPE_REPORT_BATTERY_STATUS_CHANGE, rd_value = - 1,
      rd_payload = JObj [(''chargeState'', JInt (- 1))]\<rparr> demo_battery = HandleFreqLimit (- 1) False demo_battery"
proof -
  let ?w = "demo_want (demo_names COMMON_EVENT_BATTERY_CHANGED)"
  have p: "GetIntParam ?w ''soc'' (- 1) = - 1" "GetIntParam ?w ''chargeState'' (- 1) = - 1" "i32_range (- 1)"
    "want_action ?w = support_name demo_ec COMMON_EVENT_BATTERY_CHANGED"
    by (simp_all add: GetIntParam_def demo_want_def demo_ec_def i32_range_def)
  have "socperfBatteryConfig demo_battery \<noteq> []" using demo_battery_facts by simp
  from battery_event_reaches_limit[OF demo_names_ok p(4) this, unfolded p(1,2), OF p(3), of 0 ec_object_new]
  obtain payload where r: "fst (ec_OnReceiveEvent demo_ec ?w 0 ec_object_new) = [EcReport RES_TYPE_REPORT_BATTERY_STATUS_CHANGE (- 1) payload]"
    "HandleBatteryStatusChange \<lparr>rd_type = RES_TYPE_REPORT_BATTERY_STATUS_CHANGE, rd_value = - 1, rd_payload = payload\<rparr> demo_battery =
      HandleFreqLimit (- 1) (- 1 \<in> {CHARGE_STATE_ENABLE, CHARGE_STATE_FULL}) demo_battery" by blast
  have "payload = JObj [(''chargeState'', JInt (- 1))]"
    using r(1) by (simp add: ec_handlers demo_names_ok p local_names support_name_local Let_def ec_ReportDataInProcess_def set_member_def)
  with r(2) show ?thesis by (simp add: CHARGE_STATE_ENABLE_def CHARGE_STATE_FULL_def)
qed

end
