(* ===== verification/Signature_Validator.thy ===== *)
theory Signature_Validator
  imports Common_Util "HOL-Library.AList"
begin

text \<open>
  The signature validator (common/src/res\_sched\_signature\_validator.cpp): does a bundle carry the
  signature the configuration names for it?  Verdicts and user identifiers are cached.  The bundle
  manager is another service: its answers are a parameter, which may change from call to call.
\<close>

section \<open>Data\<close>

datatype signature_check =
    CHECK_OK | ERR_SIGNATURE_NO_MATCH | ERR_NO_SIGNATURE_CONFIG | ERR_PARAM_INVALID | ERR_INTERNAL_ERROR
  | ERR_NOT_IN_LIST | ERR_NOT_SUPPORT

text \<open>The active users, the identifier of a bundle for a user, the bundle of an identifier, its signature.\<close>

record bundle_mgr =
  bm_users :: "i32 list"
  bm_uid :: "string \<Rightarrow> i32 \<Rightarrow> i32"
  bm_name :: "i32 \<Rightarrow> string"
  bm_signature :: "i32 \<Rightarrow> string option"

record sig_state =
  validCache :: "(string \<times> i32 \<times> bool) list"
  signatureConfig :: "(string \<times> string) list"
  bundleNameToUid :: "(string \<times> i32) list"
  has_bundleMgr :: bool
  sig_errors :: "(string \<times> string) list"

definition sig_new :: sig_state where
  "sig_new = \<lparr>validCache = [], signatureConfig = [], bundleNameToUid = [], has_bundleMgr = False, sig_errors = []\<rparr>"

definition MAX_SIGNATURE_CACHE :: nat where "MAX_SIGNATURE_CACHE = 200"

section \<open>Operations\<close>

definition InitSignatureDependencyInterface :: "bool \<Rightarrow> sig_state \<Rightarrow> sig_state" where
  "InitSignatureDependencyInterface present st = st\<lparr>has_bundleMgr := present\<rparr>"

definition ReportCheckError :: "string \<Rightarrow> string \<Rightarrow> sig_state \<Rightarrow> sig_state" where
  "ReportCheckError bundleName reason st = st\<lparr>sig_errors := sig_errors st @ [(bundleName, reason)]\<rparr>"

definition OnAppInstallChanged :: "string \<Rightarrow> sig_state \<Rightarrow> sig_state" where
  "OnAppInstallChanged bundleName st =
     st\<lparr>bundleNameToUid := AList.delete bundleName (bundleNameToUid st),
        validCache := AList.delete bundleName (validCache st)\<rparr>"

definition GetSignatureFromConfig :: "string \<Rightarrow> sig_state \<Rightarrow> string option \<times> sig_state" where
  "GetSignatureFromConfig bundleName st =
     (case map_of (signatureConfig st) bundleName of
        None \<Rightarrow> (None, ReportCheckError bundleName ''ERR_NO_SIGNATURE_CONFIG'' st)
      | Some signature \<Rightarrow> (Some signature, st))"

definition CheckSignatureCache :: "string \<Rightarrow> i32 \<Rightarrow> sig_state \<Rightarrow> bool option \<times> sig_state" where
  "CheckSignatureCache bundleName user st =
     (case map_of (validCache st) bundleName of
        None \<Rightarrow> (None, st)
      | Some (cacheUid, cacheIsValid) \<Rightarrow>
          if cacheUid = user then (Some cacheIsValid, st)
          else (None, st\<lparr>validCache := AList.delete bundleName (validCache st)\<rparr>))"

definition GetSignatureInfo :: "bundle_mgr \<Rightarrow> i32 \<Rightarrow> string option" where
  "GetSignatureInfo B user = bm_signature B user"

definition UpdateSignatureCache :: "string \<Rightarrow> i32 \<Rightarrow> bool \<Rightarrow> sig_state \<Rightarrow> sig_state" where
  "UpdateSignatureCache bundleName user isValid st =
     (let cache = (if MAX_SIGNATURE_CACHE \<le> length (validCache st) then [] else validCache st)
      in st\<lparr>validCache := AList.update bundleName (user, isValid) cache\<rparr>)"

definition CheckSignature :: "bundle_mgr \<Rightarrow> i32 \<Rightarrow> string \<Rightarrow> sig_state \<Rightarrow> signature_check \<times> sig_state" where
  "CheckSignature B user bundleName st =
     (if \<not> has_bundleMgr st then (ERR_NOT_SUPPORT, ReportCheckError bundleName ''ERR_NOT_SUPPORT'' st)
      else (case GetSignatureFromConfig bundleName st of
              (None, st1) \<Rightarrow> (ERR_NO_SIGNATURE_CONFIG, st1)
            | (Some signature, st1) \<Rightarrow>
                (case CheckSignatureCache bundleName user st1 of
                   (Some v, st2) \<Rightarrow> (if v then CHECK_OK else ERR_SIGNATURE_NO_MATCH, st2)
                 | (None, st2) \<Rightarrow>
                     (case GetSignatureInfo B user of
                        None \<Rightarrow> (ERR_INTERNAL_ERROR, ReportCheckError bundleName ''ERR_INTERNAL_ERROR/GetSignatureError'' st2)
                      | Some signatureInfo \<Rightarrow>
                          (let isValid = (signatureInfo = signature);
                               st3 = UpdateSignatureCache bundleName user isValid st2
                           in if isValid then (CHECK_OK, st3)
                              else (ERR_SIGNATURE_NO_MATCH, ReportCheckError bundleName ''ERR_SIGNATURE_NO_MATCH'' st3))))))"

definition sig_GetCurrentUserId :: "bundle_mgr \<Rightarrow> sig_state \<Rightarrow> i32 list" where
  "sig_GetCurrentUserId B st = (if has_bundleMgr st then bm_users B else [])"

text \<open>The first active user for whom the bundle is installed; the identifier is cached.\<close>

fun convert_to_uid :: "bundle_mgr \<Rightarrow> string \<Rightarrow> i32 list \<Rightarrow> i32 option" where
  "convert_to_uid B bundleName [] = None"
| "convert_to_uid B bundleName (userId # users) =
     (if 0 \<le> bm_uid B bundleName userId then Some (bm_uid B bundleName userId) else convert_to_uid B bundleName users)"

definition CheckSignatureByBundleName :: "bundle_mgr \<Rightarrow> string \<Rightarrow> sig_state \<Rightarrow> signature_check \<times> sig_state" where
  "CheckSignatureByBundleName B bundleName st =
     (if \<not> has_bundleMgr st then (ERR_NOT_SUPPORT, ReportCheckError bundleName ''ERR_NOT_SUPPORT'' st)
      else if bundleName = [] then (ERR_PARAM_INVALID, ReportCheckError bundleName ''ERR_PARAM_INVALID'' st)
      else
        (let cached = (case map_of (bundleNameToUid st) bundleName of None \<Rightarrow> - 1 | Some u \<Rightarrow> u) in
         if 0 \<le> cached then CheckSignature B cached bundleName st
         else (case convert_to_uid B bundleName (sig_GetCurrentUserId B st) of
                 None \<Rightarrow> (ERR_INTERNAL_ERROR, ReportCheckError bundleName ''ERR_INTERNAL_ERROR/ConvertUid'' st)
               | Some u \<Rightarrow>
                   CheckSignature B u bundleName (st\<lparr>bundleNameToUid := AList.update bundleName u (bundleNameToUid st)\<rparr>))))"

definition CheckSignatureByUid :: "bundle_mgr \<Rightarrow> i32 \<Rightarrow> sig_state \<Rightarrow> signature_check \<times> sig_state" where
  "CheckSignatureByUid B user st =
     (if \<not> has_bundleMgr st then (ERR_NOT_SUPPORT, ReportCheckError (''uid/'' @ to_string user) ''ERR_NOT_SUPPORT'' st)
      else
        (let bundleName = bm_name B user in
         if bundleName = []
         then (ERR_INTERNAL_ERROR, ReportCheckError (''uid/'' @ to_string user) ''ERR_INTERNAL_ERROR/ConvertBundleName'' st)
         else CheckSignature B user bundleName st))"

definition CheckBundleInList ::
    "bundle_mgr \<Rightarrow> string list \<Rightarrow> string \<Rightarrow> sig_state \<Rightarrow> signature_check \<times> sig_state" where
  "CheckBundleInList B whiteList bundleName st =
     (if whiteList = [] \<or> bundleName = [] then (ERR_NOT_IN_LIST, st)
      else if bundleName \<in> set whiteList then CheckSignatureByBundleName B bundleName st
      else (ERR_NOT_IN_LIST, st))"

definition AddSignatureConfig :: "(string \<times> string) list \<Rightarrow> sig_state \<Rightarrow> sig_state" where
  "AddSignatureConfig config st =
     fold (\<lambda>(key, v) s. s\<lparr>signatureConfig := AList.update key v (signatureConfig s),
                          validCache := AList.delete key (validCache s)\<rparr>) config st"

section \<open>The cache is invisible\<close>

text \<open>What the answer would be without caches.\<close>

definition verdict :: "bundle_mgr \<Rightarrow> (string \<times> string) list \<Rightarrow> i32 \<Rightarrow> string \<Rightarrow> signature_check" where
  "verdict B config user bundleName =
     (case map_of config bundleName of
        None \<Rightarrow> ERR_NO_SIGNATURE_CONFIG
      | Some signature \<Rightarrow>
          (case bm_signature B user of
             None \<Rightarrow> ERR_INTERNAL_ERROR
           | Some signatureInfo \<Rightarrow> if signatureInfo = signature then CHECK_OK else ERR_SIGNATURE_NO_MATCH))"

text \<open>The identifier of a bundle leads back to the bundle; a change to a bundle leaves the others alone.\<close>

definition consistent :: "bundle_mgr \<Rightarrow> bool" where
  "consistent B \<longleftrightarrow> (\<forall>n user. n \<noteq> [] \<longrightarrow> 0 \<le> bm_uid B n user \<longrightarrow> bm_name B (bm_uid B n user) = n)"

definition bundle_change :: "string \<Rightarrow> bundle_mgr \<Rightarrow> bundle_mgr \<Rightarrow> bool" where
  "bundle_change n B B' \<longleftrightarrow>
     (\<forall>u. bm_name B u \<notin> {[], n} \<longrightarrow> bm_name B' u = bm_name B u \<and> bm_signature B' u = bm_signature B u)"

inductive sig_reachable :: "bundle_mgr \<Rightarrow> sig_state \<Rightarrow> bool" where
  starts: "consistent B \<Longrightarrow> sig_reachable B (InitSignatureDependencyInterface True sig_new)"
| asks_uid: "sig_reachable B st \<Longrightarrow> sig_reachable B (snd (CheckSignatureByUid B u st))"
| asks_name: "sig_reachable B st \<Longrightarrow> sig_reachable B (snd (CheckSignatureByBundleName B n st))"
| asks_list: "sig_reachable B st \<Longrightarrow> sig_reachable B (snd (CheckBundleInList B l n st))"
| configures: "sig_reachable B st \<Longrightarrow> sig_reachable B (AddSignatureConfig config st)"
| users_change: "sig_reachable B st \<Longrightarrow> sig_reachable (B\<lparr>bm_users := users\<rparr>) st"
| bundle_changes: "sig_reachable B st \<Longrightarrow> bundle_change n B B' \<Longrightarrow> consistent B' \<Longrightarrow> sig_reachable B' (OnAppInstallChanged n st)"

definition sig_ok :: "bundle_mgr \<Rightarrow> sig_state \<Rightarrow> bool" where
  "sig_ok B st \<longleftrightarrow> consistent B \<and> has_bundleMgr st \<and> distinct (map fst (validCache st)) \<and> length (validCache st) \<le> MAX_SIGNATURE_CACHE \<and>
     (\<forall>n u v. map_of (validCache st) n = Some (u, v) \<longrightarrow> n \<noteq> [] \<and> bm_name B u = n \<and>
        (\<exists>s info. map_of (signatureConfig st) n = Some s \<and> bm_signature B u = Some info \<and> v = (info = s))) \<and>
     (\<forall>n u. map_of (bundleNameToUid st) n = Some u \<longrightarrow> n \<noteq> [] \<and> 0 \<le> u \<and> bm_name B u = n)"

lemma length_update_le: "length (AList.update k v xs) \<le> Suc (length xs)"
  by (induction xs) auto

lemma length_delete_le: "length (AList.delete k xs) \<le> length xs"
  by (simp add: AList.delete_eq)

lemma sig_report_ok [simp]: "sig_ok B (ReportCheckError n r st) = sig_ok B st"
  by (simp add: ReportCheckError_def sig_ok_def)

lemma forget_ok: "sig_ok B st \<Longrightarrow> sig_ok B (st\<lparr>validCache := AList.delete n (validCache st)\<rparr>)"
  using length_delete_le[of n "validCache st"]
  by (auto simp: sig_ok_def AList.delete_conv' distinct_delete dest: order_trans)

lemma cache_ok:
  assumes "sig_ok B st" "n \<noteq> []" "bm_name B u = n" "map_of (signatureConfig st) n = Some s" "bm_signature B u = Some info"
  shows "sig_ok B (UpdateSignatureCache n u (info = s) st)"
  using assms length_update_le[of n "(u, info = s)" "validCache st"]
  by (auto simp: sig_ok_def UpdateSignatureCache_def Let_def MAX_SIGNATURE_CACHE_def AList.update_conv' distinct_update)

lemma check_signature:
  assumes "sig_ok B st" "n \<noteq> []" "bm_name B u = n"
  shows "fst (CheckSignature B u n st) = verdict B (signatureConfig st) u n \<and> sig_ok B (snd (CheckSignature B u n st))"
proof (cases "map_of (signatureConfig st) n")
  case None
  then show ?thesis using assms by (simp add: CheckSignature_def GetSignatureFromConfig_def verdict_def sig_ok_def ReportCheckError_def)
next
  case (Some s)
  obtain c st2 where c: "CheckSignatureCache n u st = (c, st2)" by fastforce
  have ok2: "sig_ok B st2" "has_bundleMgr st2" "signatureConfig st2 = signatureConfig st"
  proof -
    have "st2 = st \<or> st2 = st\<lparr>validCache := AList.delete n (validCache st)\<rparr>"
      using c by (auto simp: CheckSignatureCache_def split: option.splits if_splits)
    then show "sig_ok B st2" "has_bundleMgr st2" "signatureConfig st2 = signatureConfig st"
      using assms(1) forget_ok[OF assms(1)] by (auto simp: sig_ok_def[of B st])
  qed
  show ?thesis
  proof (cases c)
    case (Some v)
    with c have "map_of (validCache st) n = Some (u, v)" by (auto simp: CheckSignatureCache_def split: option.splits if_splits)
    then obtain info where "bm_signature B u = Some info" "v = (info = s)"
      using assms(1) \<open>map_of (signatureConfig st) n = Some s\<close> unfolding sig_ok_def by (metis option.inject)
    then show ?thesis using \<open>map_of (signatureConfig st) n = Some s\<close> c Some ok2 assms(1)
      by (simp add: CheckSignature_def GetSignatureFromConfig_def verdict_def sig_ok_def[of B st])
  next
    case None
    have "\<And>info. bm_signature B u = Some info \<Longrightarrow> sig_ok B (UpdateSignatureCache n u (info = s) st2)"
      using cache_ok[OF ok2(1) assms(2,3)] \<open>map_of (signatureConfig st) n = Some s\<close> ok2(3) by simp
    then show ?thesis using assms(1) \<open>map_of (signatureConfig st) n = Some s\<close> c None ok2
      by (auto simp: CheckSignature_def GetSignatureFromConfig_def verdict_def GetSignatureInfo_def Let_def sig_ok_def[of B st]
          split: option.split)
  qed
qed

lemma by_uid_ok: "sig_ok B st \<Longrightarrow> sig_ok B (snd (CheckSignatureByUid B u st))"
  using check_signature[of B st "bm_name B u" u] by (simp add: CheckSignatureByUid_def Let_def)

lemma convert_found:
  "convert_to_uid B n users = Some u \<Longrightarrow> 0 \<le> u \<and> (\<exists>user \<in> set users. u = bm_uid B n user)"
  by (induction users) (auto split: if_splits)

lemma convert_missing: "convert_to_uid B n users = None \<Longrightarrow> user \<in> set users \<Longrightarrow> bm_uid B n user < 0"
  by (induction users) (auto split: if_splits)

lemma remember_ok:
  assumes "sig_ok B st" "n \<noteq> []" "convert_to_uid B n users = Some u"
  shows "bm_name B u = n \<and> sig_ok B (st\<lparr>bundleNameToUid := AList.update n u (bundleNameToUid st)\<rparr>)"
proof -
  have "0 \<le> u \<and> bm_name B u = n" using convert_found[OF assms(3)] assms(1,2) by (auto simp: sig_ok_def consistent_def)
  then show ?thesis using assms(1,2) by (auto simp: sig_ok_def AList.update_conv' split: if_splits)
qed

lemma by_name:
  assumes "sig_ok B st" "n \<noteq> []"
  shows "sig_ok B (snd (CheckSignatureByBundleName B n st)) \<and>
    ((\<exists>u. bm_name B u = n \<and> fst (CheckSignatureByBundleName B n st) = verdict B (signatureConfig st) u n) \<or>
     fst (CheckSignatureByBundleName B n st) = ERR_INTERNAL_ERROR \<and> (\<forall>user \<in> set (bm_users B). bm_uid B n user < 0))"
proof (cases "map_of (bundleNameToUid st) n")
  case (Some u)
  then have u: "0 \<le> u" "bm_name B u = n" "has_bundleMgr st" using assms(1) by (auto simp: sig_ok_def)
  then have "CheckSignatureByBundleName B n st = CheckSignature B u n st"
    using Some assms(2) by (simp add: CheckSignatureByBundleName_def)
  then show ?thesis using check_signature[OF assms u(2)] u(2) by (metis)
next
  case None
  have m: "has_bundleMgr st" using assms(1) by (simp add: sig_ok_def)
  show ?thesis
  proof (cases "convert_to_uid B n (bm_users B)")
    case (Some u)
    note r = remember_ok[OF assms Some]
    let ?st1 = "st\<lparr>bundleNameToUid := AList.update n u (bundleNameToUid st)\<rparr>"
    have "CheckSignatureByBundleName B n st = CheckSignature B u n ?st1"
      using Some None m assms(2) by (simp add: CheckSignatureByBundleName_def sig_GetCurrentUserId_def)
    moreover have "signatureConfig ?st1 = signatureConfig st" by simp
    ultimately show ?thesis
      using check_signature[OF conjunct2[OF r] assms(2) conjunct1[OF r]] conjunct1[OF r] by metis
  next
    case None2: None
    then show ?thesis using convert_missing[OF None2] None m assms
      by (simp add: CheckSignatureByBundleName_def sig_GetCurrentUserId_def)
  qed
qed

lemma by_name_ok: "sig_ok B st \<Longrightarrow> sig_ok B (snd (CheckSignatureByBundleName B n st))"
  using by_name[of B st n] by (cases "n = []") (auto simp: CheckSignatureByBundleName_def sig_ok_def[of B st])

lemma config_ok: "sig_ok B st \<Longrightarrow> sig_ok B (AddSignatureConfig config st)"
  unfolding AddSignatureConfig_def
proof (induction config arbitrary: st)
  case (Cons kv config)
  obtain k v where kv: "kv = (k, v)" by fastforce
  have "sig_ok B (st\<lparr>signatureConfig := AList.update k v (signatureConfig st), validCache := AList.delete k (validCache st)\<rparr>)"
    using forget_ok[OF Cons.prems, of k] by (auto simp: sig_ok_def AList.update_conv' AList.delete_conv' split: if_splits)
  from Cons.IH[OF this] show ?case by (simp add: kv)
qed simp

lemma change_ok:
  assumes "sig_ok B st" "bundle_change n B B'" "consistent B'"
  shows "sig_ok B' (OnAppInstallChanged n st)"
proof -
  have same: "bm_name B' u = m \<and> bm_signature B' u = bm_signature B u" if "m \<noteq> []" "m \<noteq> n" "bm_name B u = m" for m u
    using assms(2) that by (simp add: bundle_change_def)
  have "map_of (AList.delete n (validCache st)) m = Some (u, v) \<longrightarrow> m \<noteq> [] \<and> bm_name B' u = m \<and>
      (\<exists>s info. map_of (signatureConfig st) m = Some s \<and> bm_signature B' u = Some info \<and> v = (info = s))" for m u v
    using assms(1) same[of m u] by (auto simp: AList.delete_conv' sig_ok_def split: if_splits)
  moreover have "map_of (AList.delete n (bundleNameToUid st)) m = Some u \<longrightarrow> m \<noteq> [] \<and> 0 \<le> u \<and> bm_name B' u = m" for m u
    using assms(1) same[of m u] by (auto simp: AList.delete_conv' sig_ok_def split: if_splits)
  ultimately show ?thesis
    using assms(1,3) length_delete_le[of n "validCache st"]
    by (simp add: sig_ok_def OnAppInstallChanged_def distinct_delete)
qed

lemma reachable_sig_ok: "sig_reachable B st \<Longrightarrow> sig_ok B st"
proof (induction rule: sig_reachable.induct)
  case (starts B)
  then show ?case by (simp add: sig_ok_def InitSignatureDependencyInterface_def sig_new_def)
next
  case (asks_list B st l n)
  then show ?case using by_name_ok by (simp add: CheckBundleInList_def)
next
  case (users_change B st users)
  then show ?case by (simp add: sig_ok_def consistent_def)
qed (auto intro: by_uid_ok by_name_ok config_ok change_ok)


definition demo_bundles :: bundle_mgr where
  "demo_bundles = \<lparr>bm_users = [100], bm_uid = (\<lambda>n user. if n = ''app'' then 7 else - 1),
     bm_name = (\<lambda>u. if u = 7 then ''app'' else []), bm_signature = (\<lambda>u. if u = 7 then Some ''sig'' else None)\<rparr>"

definition demo_checked :: sig_state where
  "demo_checked = snd (CheckSignatureByUid demo_bundles 7 (AddSignatureConfig [(''app'', ''sig'')]
     (InitSignatureDependencyInterface True sig_new)))"

lemma demo_consistent: "consistent demo_bundles"
  by (simp add: consistent_def demo_bundles_def)


text \<open>
  Between the reading of a signature and the storing of the verdict no lock is held: a bundle that is
  replaced in between keeps the verdict of its old signature.
\<close>

theorem replaced_bundle_keeps_verdict:
  assumes "has_bundleMgr st" "map_of (signatureConfig st) n = Some s" "bm_signature B u = Some s"
    and "n \<noteq> []" "bm_name B' u = n" "bm_signature B' u \<noteq> Some s"
  defines "st1 \<equiv> UpdateSignatureCache n u (GetSignatureInfo B u = Some s) (OnAppInstallChanged n st)"
  shows "fst (CheckSignatureByUid B' u st1) = CHECK_OK \<and> verdict B' (signatureConfig st1) u n \<noteq> CHECK_OK"
proof -
  have "signatureConfig st1 = signatureConfig st" "has_bundleMgr st1" "map_of (validCache st1) n = Some (u, True)"
    using assms(1,3) by (simp_all add: st1_def UpdateSignatureCache_def OnAppInstallChanged_def GetSignatureInfo_def Let_def AList.update_conv')
  then show ?thesis using assms(2,4-6)
    by (auto simp: CheckSignatureByUid_def Let_def CheckSignature_def GetSignatureFromConfig_def CheckSignatureCache_def verdict_def
        split: option.split)
qed

theorem replaced_bundle_keeps_verdict_witness:
  "\<exists>st B'. fst (CheckSignatureByUid B' 7 st) = CHECK_OK \<and> verdict B' (signatureConfig st) 7 ''app'' \<noteq> CHECK_OK"
proof -
  let ?B' = "demo_bundles\<lparr>bm_signature := \<lambda>u. Some ''other''\<rparr>"
  have p: "has_bundleMgr demo_checked" "map_of (signatureConfig demo_checked) ''app'' = Some ''sig''" by code_simp+
  have q: "bm_signature demo_bundles 7 = Some ''sig''" "bm_name ?B' 7 = ''app''" "bm_signature ?B' 7 \<noteq> Some ''sig''"
    by (simp_all add: demo_bundles_def)
  from replaced_bundle_keeps_verdict[OF p q(1) _ q(2,3)] show ?thesis by blast
qed

end
