(* ===== verification/Oobe_Manager.thy ===== *)
theory Oobe_Manager
  imports Common_Util
begin

text \<open>
  The manager of the out-of-box experience (common/src/oobe\_manager.cpp) and its access to the settings
  (common/src/oobe\_datashare\_utils.cpp, .h): tasks wait until the user has agreed to the basic statement,
  which is read from the settings, observed there and polled.  The system ability manager and the data
  share are parameters: a function from the number of accesses so far to what they answer.  What leaves
  the component is a list.
\<close>

section \<open>Data\<close>

datatype oobe_err = OOBE_OK | OOBE_NO_INIT | OOBE_INVALID_OPERATION | OOBE_NAME_NOT_FOUND | OOBE_INVALID_VALUE

text \<open>
  Whether the own ability is found, whether a helper can be created and is not null, the number of rows a
  query yields (\<open>None\<close> for no result set), the text of the first row, whether memory is there.
\<close>

record ds_answer =
  da_remote :: bool
  da_create :: bool
  da_helper :: bool
  da_rows :: "i32 option"
  da_text :: "string option"
  da_alloc :: bool

type_synonym ds_world = "nat \<Rightarrow> ds_answer"

datatype oobe_out =
    Executed nat
  | DsRegister string nat
  | DsUnregister string "nat option"
  | RetryAfterDelay i32
  | ReadFailedEvent i32
  | ReadyTask

record oobe_state =
  remoteObj :: bool
  isDataShareReady :: bool
  isConnectDataShareSucc :: bool
  oobeValue :: i32
  oobeTasks :: "nat list"
  dataShareFunctions :: "string list"
  oobe_observer :: "nat option"
  oobe_next :: nat
  ds_calls :: nat
  oobe_outs :: "oobe_out list"

definition OOBE_INVALID :: i32 where "OOBE_INVALID = - 1"
definition OOBE_IS_FALSE :: i32 where "OOBE_IS_FALSE = 0"
definition OOBE_IS_TRUE :: i32 where "OOBE_IS_TRUE = 1"
definition KEYWORD :: string where "KEYWORD = ''basic_statement_agreed''"
definition MAX_RETRY_COUNT :: i32 where "MAX_RETRY_COUNT = 150"
definition SETTING_URI_PROXY :: string where
  "SETTING_URI_PROXY = ''datashare:///com.ohos.settingsdata/entry/settingsdata/SETTINGSDATA?Proxy=true''"

definition oobe_new :: oobe_state where
  "oobe_new = \<lparr>remoteObj = False, isDataShareReady = False, isConnectDataShareSucc = False, oobeValue = OOBE_INVALID,
     oobeTasks = [], dataShareFunctions = [], oobe_observer = None, oobe_next = 0, ds_calls = 0, oobe_outs = []\<rparr>"

definition oobe_emit :: "oobe_out \<Rightarrow> oobe_state \<Rightarrow> oobe_state" where
  "oobe_emit out st = st\<lparr>oobe_outs := oobe_outs st @ [out]\<rparr>"

section \<open>The settings\<close>

text \<open>\<open>GetInstance\<close>, which looks for the own ability each time.\<close>

definition InitSystemAbilityManager :: "ds_world \<Rightarrow> oobe_state \<Rightarrow> oobe_state" where
  "InitSystemAbilityManager W st =
     (let st1 = st\<lparr>ds_calls := ds_calls st + 1\<rparr>
      in if da_remote (W (ds_calls st)) then st1\<lparr>remoteObj := True\<rparr> else st1)"

definition AssembleUri :: "string \<Rightarrow> string" where "AssembleUri key = SETTING_URI_PROXY @ ''&key='' @ key"

definition CreateDataShareHelper :: "ds_world \<Rightarrow> oobe_state \<Rightarrow> bool \<times> oobe_state" where
  "CreateDataShareHelper W st =
     (let st1 = st\<lparr>ds_calls := ds_calls st + 1\<rparr> in
      if \<not> remoteObj st then (False, st1)
      else if da_create (W (ds_calls st)) then (da_helper (W (ds_calls st)), st1\<lparr>isConnectDataShareSucc := True\<rparr>)
      else (False, st1\<lparr>isConnectDataShareSucc := False\<rparr>))"

definition GetStringValue :: "ds_world \<Rightarrow> oobe_state \<Rightarrow> (oobe_err \<times> string) \<times> oobe_state" where
  "GetStringValue W st =
     (case CreateDataShareHelper W st of
        (helper, st1) \<Rightarrow>
          (if \<not> helper then (OOBE_NO_INIT, [])
           else (case da_rows (W (ds_calls st)) of
                   None \<Rightarrow> (OOBE_INVALID_OPERATION, [])
                 | Some count \<Rightarrow>
                     if count = 0 then (OOBE_NAME_NOT_FOUND, [])
                     else (case da_text (W (ds_calls st)) of None \<Rightarrow> (OOBE_INVALID_VALUE, []) | Some v \<Rightarrow> (OOBE_OK, v))),
           st1))"

text \<open>\<open>strtoll\<close> on base 10, which stops at the ends of its type, cut to 32 bits.\<close>

definition strtoll_s32 :: "string \<Rightarrow> i32" where
  "strtoll_s32 s =
     (case parse_dec (c_str s) of
        None \<Rightarrow> 0
      | Some (neg, n, _) \<Rightarrow> wrap_s32 (max (- 9223372036854775808) (min 9223372036854775807 (signed_val neg n))))"

definition GetValue :: "ds_world \<Rightarrow> oobe_state \<Rightarrow> (oobe_err \<times> i32) \<times> oobe_state" where
  "GetValue W st =
     (case GetStringValue W (InitSystemAbilityManager W st) of
        ((ret, result), st1) \<Rightarrow> (if ret \<noteq> OOBE_OK then (ret, 0) else (OOBE_OK, strtoll_s32 result), st1))"

section \<open>The value and the tasks\<close>

definition oobe_Initialize :: "ds_world \<Rightarrow> oobe_state \<Rightarrow> oobe_state" where
  "oobe_Initialize W st =
     (case GetValue W st of
        ((res, resultValue), st1) \<Rightarrow>
          if res \<noteq> OOBE_OK then st1
          else st1\<lparr>oobeValue := (if resultValue \<noteq> 0 then OOBE_IS_TRUE else OOBE_IS_FALSE)\<rparr>)"

definition GetOOBValue :: "oobe_state \<Rightarrow> i32" where "GetOOBValue st = oobeValue st"

definition oobe_SubmitTask :: "nat option \<Rightarrow> oobe_state \<Rightarrow> bool \<times> oobe_state" where
  "oobe_SubmitTask task st =
     (case task of
        None \<Rightarrow> (False, st)
      | Some t \<Rightarrow>
          if oobeValue st = OOBE_IS_TRUE then (True, oobe_emit (Executed t) st)
          else (True, st\<lparr>oobeTasks := oobeTasks st @ [t]\<rparr>))"

definition FlushOobeValue :: "ds_world \<Rightarrow> oobe_state \<Rightarrow> oobe_err \<times> oobe_state" where
  "FlushOobeValue W st =
     (case GetValue W st of
        ((res, result), st1) \<Rightarrow>
          (res,
           if res \<noteq> OOBE_OK then st1
           else if result \<noteq> 0 then
             (fold (\<lambda>t. oobe_emit (Executed t)) (oobeTasks st1) (st1\<lparr>oobeValue := OOBE_IS_TRUE\<rparr>))\<lparr>oobeTasks := []\<rparr>
           else st1\<lparr>oobeValue := OOBE_IS_FALSE\<rparr>))"

section \<open>Observing the settings\<close>

definition oobe_UnregisterObserver :: "ds_world \<Rightarrow> oobe_state \<Rightarrow> oobe_err \<times> oobe_state" where
  "oobe_UnregisterObserver W st =
     (case CreateDataShareHelper W (InitSystemAbilityManager W (InitSystemAbilityManager W st)) of
        (helper, st1) \<Rightarrow>
          if \<not> helper then (OOBE_NO_INIT, st1)
          else (OOBE_OK, (oobe_emit (DsUnregister (AssembleUri KEYWORD) (oobe_observer st1))
                            (InitSystemAbilityManager W st1))\<lparr>oobe_observer := None\<rparr>))"

text \<open>
  Without a connection the registration is kept for the day the data share is ready, unless it is ready
  already.  The function every registration sets is \<open>FlushOobeValue\<close>.
\<close>

definition oobe_RegisterObserver :: "ds_world \<Rightarrow> string \<Rightarrow> oobe_state \<Rightarrow> oobe_err \<times> oobe_state" where
  "oobe_RegisterObserver W key st =
     (let st1 = InitSystemAbilityManager W st in
      if \<not> isConnectDataShareSucc st1 then
        (let st2 = InitSystemAbilityManager W st1 in
         if isDataShareReady st2 then (OOBE_NO_INIT, st2)
         else (OOBE_NO_INIT, st2\<lparr>dataShareFunctions := dataShareFunctions st2 @ [key]\<rparr>))
      else
        (case CreateDataShareHelper W (InitSystemAbilityManager W (InitSystemAbilityManager W st1)) of
           (helper, st2) \<Rightarrow>
             if \<not> helper then (OOBE_NO_INIT, st2)
             else
               (let st3 = (if oobe_observer st2 \<noteq> None then snd (oobe_UnregisterObserver W st2) else st2) in
                if \<not> da_alloc (W (ds_calls st3)) then (OOBE_INVALID_OPERATION, st3\<lparr>oobe_observer := None\<rparr>)
                else
                  (OOBE_OK, oobe_emit (RetryAfterDelay 0) (InitSystemAbilityManager W (oobe_emit (DsRegister (AssembleUri key) (oobe_next st3))
                     (st3\<lparr>oobe_observer := Some (oobe_next st3), oobe_next := oobe_next st3 + 1\<rparr>)))))))"

definition ReRegisterObserver :: "ds_world \<Rightarrow> string \<Rightarrow> oobe_state \<Rightarrow> oobe_state" where
  "ReRegisterObserver W key st =
     (let st1 = snd (FlushOobeValue W st)
      in if oobeValue st1 = OOBE_IS_TRUE then st1 else snd (oobe_RegisterObserver W key st1))"

definition StartListen :: "ds_world \<Rightarrow> oobe_state \<Rightarrow> oobe_state" where
  "StartListen W st =
     (let st1 = snd (FlushOobeValue W st)
      in if oobeValue st1 = OOBE_IS_TRUE then st1 else snd (oobe_RegisterObserver W KEYWORD st1))"

definition oobe_OnChange :: "ds_world \<Rightarrow> oobe_state \<Rightarrow> oobe_state" where
  "oobe_OnChange W st = snd (FlushOobeValue W st)"

text \<open>A poll, which asks for the next one with a count one higher.\<close>

definition CheckOobeValue :: "ds_world \<Rightarrow> i32 \<Rightarrow> oobe_state \<Rightarrow> oobe_state" where
  "CheckOobeValue W count st =
     (if oobeValue st = OOBE_INVALID \<and> count < MAX_RETRY_COUNT then
        (case FlushOobeValue W st of
           (ret, st1) \<Rightarrow> if ret = OOBE_INVALID_OPERATION then oobe_emit (RetryAfterDelay (count + 1)) st1 else st1)
      else oobe_emit (ReadFailedEvent count) st)"

definition OnReceiveDataShareReadyCallBack :: "oobe_state \<Rightarrow> oobe_state" where
  "OnReceiveDataShareReadyCallBack st = oobe_emit ReadyTask st"

definition ExecuteDataShareFunction :: "ds_world \<Rightarrow> oobe_state \<Rightarrow> oobe_state" where
  "ExecuteDataShareFunction W st = fold (ReRegisterObserver W) (dataShareFunctions st) (st\<lparr>dataShareFunctions := []\<rparr>)"

text \<open>The task that \<open>OnReceiveDataShareReadyCallBack\<close> submits.\<close>

definition ready_task :: "ds_world \<Rightarrow> oobe_state \<Rightarrow> oobe_state" where
  "ready_task W st = ExecuteDataShareFunction W ((InitSystemAbilityManager W st)\<lparr>isDataShareReady := True\<rparr>)"

section \<open>Every task runs once\<close>

datatype oobe_event = OSubmit "nat option" | OListen | OUnregister | OChanged | OPoll i32 | OReady | OReadyRuns

fun oobe_step :: "ds_world \<Rightarrow> oobe_event \<Rightarrow> oobe_state \<Rightarrow> oobe_state" where
  "oobe_step W (OSubmit task) st = snd (oobe_SubmitTask task st)"
| "oobe_step W OListen st = StartListen W st"
| "oobe_step W OUnregister st = snd (oobe_UnregisterObserver W st)"
| "oobe_step W OChanged st = oobe_OnChange W st"
| "oobe_step W (OPoll count) st = CheckOobeValue W count st"
| "oobe_step W OReady st = OnReceiveDataShareReadyCallBack st"
| "oobe_step W OReadyRuns st = ready_task W st"

definition executed :: "oobe_state \<Rightarrow> nat list" where
  "executed st = List.map_filter (\<lambda>x. case x of Executed t \<Rightarrow> Some t | _ \<Rightarrow> None) (oobe_outs st)"

definition submitted :: "oobe_event list \<Rightarrow> nat list" where
  "submitted es = List.map_filter (\<lambda>e. case e of OSubmit (Some t) \<Rightarrow> Some t | _ \<Rightarrow> None) es"

text \<open>The tasks run so far followed by those that wait, and none waits while the value is true.\<close>

definition accounts :: "nat list \<Rightarrow> oobe_state \<Rightarrow> bool" where
  "accounts ts st \<longleftrightarrow> executed st @ oobeTasks st = ts \<and> (oobeValue st = OOBE_IS_TRUE \<longrightarrow> oobeTasks st = [])"

lemma executed_emit [simp]:
  "executed (oobe_emit (Executed t) st) = executed st @ [t]"
  "executed (oobe_emit (DsRegister u n) st) = executed st" "executed (oobe_emit (DsUnregister u m) st) = executed st"
  "executed (oobe_emit (RetryAfterDelay c) st) = executed st" "executed (oobe_emit (ReadFailedEvent c) st) = executed st"
  "executed (oobe_emit ReadyTask st) = executed st"
  by (simp_all add: executed_def oobe_emit_def map_filter_def)

lemma oobe_emit_frame [simp]: "oobeTasks (oobe_emit out st) = oobeTasks st" "oobeValue (oobe_emit out st) = oobeValue st"
  by (simp_all add: oobe_emit_def)

lemma executed_frame [simp]:
  "executed (st\<lparr>oobeValue := v\<rparr>) = executed st" "executed (st\<lparr>oobeTasks := ts\<rparr>) = executed st"
  "executed (st\<lparr>oobe_observer := ob\<rparr>) = executed st" "executed (st\<lparr>oobe_next := n\<rparr>) = executed st"
  "executed (st\<lparr>dataShareFunctions := fs\<rparr>) = executed st" "executed (st\<lparr>isDataShareReady := b\<rparr>) = executed st"
  "executed (st\<lparr>ds_calls := c\<rparr>) = executed st" "executed (st\<lparr>remoteObj := b\<rparr>) = executed st"
  "executed (st\<lparr>isConnectDataShareSucc := b\<rparr>) = executed st"
  by (simp_all add: executed_def)

lemma accounts_init [simp]: "accounts ts (InitSystemAbilityManager W st) = accounts ts st"
  by (simp add: accounts_def InitSystemAbilityManager_def Let_def)

lemma accounts_helper: "CreateDataShareHelper W st = (helper, st1) \<Longrightarrow> accounts ts st1 = accounts ts st"
  by (auto simp: accounts_def CreateDataShareHelper_def Let_def split: if_splits)

lemma accounts_get: "GetValue W st = (r, st1) \<Longrightarrow> accounts ts st1 = accounts ts st"
  using accounts_helper[of W "InitSystemAbilityManager W st"]
  by (auto simp: GetValue_def GetStringValue_def split: prod.splits)

lemma accounts_emit [simp]:
  "accounts ts (oobe_emit (DsRegister u n) st) = accounts ts st" "accounts ts (oobe_emit (DsUnregister u m) st) = accounts ts st"
  "accounts ts (oobe_emit (RetryAfterDelay c) st) = accounts ts st" "accounts ts (oobe_emit (ReadFailedEvent c) st) = accounts ts st"
  "accounts ts (oobe_emit ReadyTask st) = accounts ts st" "accounts ts (st\<lparr>oobe_observer := ob\<rparr>) = accounts ts st"
  "accounts ts (st\<lparr>oobe_observer := ob, oobe_next := n\<rparr>) = accounts ts st"
  "accounts ts (st\<lparr>dataShareFunctions := fs\<rparr>) = accounts ts st" "accounts ts (st\<lparr>isDataShareReady := b\<rparr>) = accounts ts st"
  by (simp_all add: accounts_def)

lemma executed_fold: "executed (fold (\<lambda>t. oobe_emit (Executed t)) l st) = executed st @ l"
  by (induction l arbitrary: st) simp_all

lemma accounts_flush:
  assumes "accounts ts st"
  shows "accounts ts (snd (FlushOobeValue W st))"
proof -
  obtain res result st1 where g: "GetValue W st = ((res, result), st1)" by (metis surj_pair)
  from accounts_get[OF g] assms have "accounts ts st1" by simp
  then show ?thesis by (auto simp: FlushOobeValue_def g accounts_def executed_fold OOBE_IS_TRUE_def OOBE_IS_FALSE_def)
qed

lemma accounts_unregister: "accounts ts st \<Longrightarrow> accounts ts (snd (oobe_UnregisterObserver W st))"
  using accounts_helper[of W "InitSystemAbilityManager W (InitSystemAbilityManager W st)"]
  by (auto simp: oobe_UnregisterObserver_def split: prod.split)

lemma accounts_register:
  assumes "accounts ts st"
  shows "accounts ts (snd (oobe_RegisterObserver W key st))"
proof -
  let ?s = "InitSystemAbilityManager W (InitSystemAbilityManager W (InitSystemAbilityManager W st))"
  obtain helper st2 where c: "CreateDataShareHelper W ?s = (helper, st2)" by fastforce
  have "accounts ts st2" using accounts_helper[OF c] assms by simp
  then show ?thesis using assms accounts_unregister[of ts st2 W]
    by (simp add: oobe_RegisterObserver_def Let_def c)
qed

lemma accounts_listen: "accounts ts st \<Longrightarrow> accounts ts (StartListen W st)"
  by (simp add: StartListen_def Let_def accounts_flush accounts_register)

lemma accounts_again: "accounts ts st \<Longrightarrow> accounts ts (ReRegisterObserver W key st)"
  by (simp add: ReRegisterObserver_def Let_def accounts_flush accounts_register)

lemma accounts_ready: "accounts ts st \<Longrightarrow> accounts ts (ready_task W st)"
proof -
  have "accounts ts s \<Longrightarrow> accounts ts (fold (ReRegisterObserver W) keys s)" for keys s
    by (induction keys arbitrary: s) (simp_all add: accounts_again)
  then show "accounts ts st \<Longrightarrow> accounts ts (ready_task W st)"
    by (simp add: ready_task_def ExecuteDataShareFunction_def)
qed

lemma accounts_poll: "accounts ts st \<Longrightarrow> accounts ts (CheckOobeValue W count st)"
  using accounts_flush[of ts st W] by (auto simp: CheckOobeValue_def split: prod.split)

lemma submitted_Cons: "submitted (e # es) = submitted [e] @ submitted es"
  by (simp add: submitted_def map_filter_simps split: option.split)

lemma accounts_step: "accounts ts st \<Longrightarrow> accounts (ts @ submitted [e]) (oobe_step W e st)"
proof (cases e)
  case (OSubmit task)
  then show "accounts ts st \<Longrightarrow> ?thesis"
    by (cases task) (auto simp: submitted_def map_filter_simps accounts_def oobe_SubmitTask_def)
qed (simp_all add: submitted_def map_filter_simps accounts_listen accounts_unregister accounts_flush oobe_OnChange_def
    accounts_poll OnReceiveDataShareReadyCallBack_def accounts_ready)

text \<open>
  C16. Whatever happens and in whatever order, the tasks run so far followed by the tasks that wait are the
  tasks submitted, in their order: each task runs once, none is lost or overtaken, and none waits while
  the user is known to have agreed.
\<close>

theorem every_task_runs_once:
  fixes W es
  defines "st \<equiv> fold (oobe_step W) es (oobe_Initialize W oobe_new)"
  shows "executed st @ oobeTasks st = submitted es \<and> (oobeValue st = OOBE_IS_TRUE \<longrightarrow> oobeTasks st = [])"
proof -
  have "accounts ts s \<Longrightarrow> accounts (ts @ submitted es) (fold (oobe_step W) es s)" for ts s
  proof (induction es arbitrary: ts s)
    case (Cons e es)
    from Cons.IH[OF accounts_step[OF Cons.prems]] show ?case by (subst submitted_Cons) simp
  qed (simp add: submitted_def map_filter_simps)
  moreover have "accounts [] (oobe_Initialize W oobe_new)"
  proof -
    obtain res v st1 where g: "GetValue W oobe_new = ((res, v), st1)" by (metis surj_pair)
    have "accounts [] oobe_new" by (simp add: accounts_def executed_def oobe_new_def map_filter_simps)
    with accounts_get[OF g] show ?thesis by (auto simp: oobe_Initialize_def g accounts_def)
  qed
  ultimately have "accounts ([] @ submitted es) st" unfolding st_def by blast
  then show ?thesis by (simp add: accounts_def)
qed

definition demo_settings :: ds_world where
  "demo_settings n = \<lparr>da_remote = True, da_create = True, da_helper = True, da_rows = Some 1,
     da_text = (if n < 5 then Some ''0'' else Some ''1''), da_alloc = True\<rparr>"

definition demo_events :: "oobe_event list" where
  "demo_events = [OSubmit (Some 3), OSubmit None, OListen, OChanged, OSubmit (Some 4)]"

theorem every_task_runs_once_witness:
  "executed (fold (oobe_step demo_settings) demo_events (oobe_Initialize demo_settings oobe_new)) = [3, 4]"
proof -
  have "oobeValue (fold (oobe_step demo_settings) demo_events (oobe_Initialize demo_settings oobe_new)) = OOBE_IS_TRUE"
    by code_simp
  moreover have "submitted demo_events = [3, 4]" by code_simp
  ultimately show ?thesis using every_task_runs_once[of demo_settings demo_events] by (metis append_Nil2)
qed

section \<open>Polling ends\<close>

text \<open>The last thing a poll did, when it asked for the next one.\<close>

definition next_poll :: "oobe_state \<Rightarrow> oobe_state \<Rightarrow> i32 option" where
  "next_poll st st' =
     (if length (oobe_outs st') \<le> length (oobe_outs st) then None
      else (case last (oobe_outs st') of RetryAfterDelay c \<Rightarrow> Some c | _ \<Rightarrow> None))"

lemma flush_outs: "\<exists>l. oobe_outs (snd (FlushOobeValue W st)) = oobe_outs st @ map Executed l"
proof -
  obtain res result st2 where g: "GetValue W st = ((res, result), st2)" by (metis surj_pair)
  have "oobe_outs st2 = oobe_outs st"
    using g by (auto simp: GetValue_def GetStringValue_def CreateDataShareHelper_def InitSystemAbilityManager_def Let_def
        split: prod.splits if_splits)
  moreover have "oobe_outs (fold (\<lambda>t. oobe_emit (Executed t)) l s) = oobe_outs s @ map Executed l" for l s
    by (induction l arbitrary: s) (simp_all add: oobe_emit_def)
  moreover have "oobe_outs st = oobe_outs st @ map Executed []" by simp
  ultimately show ?thesis by (auto simp: FlushOobeValue_def g intro: exI[of _ "[]"])
qed

lemma next_poll_append:
  "oobe_outs st' = oobe_outs st @ map Executed l @ [out] \<Longrightarrow>
   next_poll st st' = (case out of RetryAfterDelay c \<Rightarrow> Some c | _ \<Rightarrow> None)"
  by (simp add: next_poll_def)

lemma next_poll_none: "oobe_outs st' = oobe_outs st @ map Executed l \<Longrightarrow> next_poll st st' = None"
  by (cases l rule: rev_cases) (simp_all add: next_poll_def)

lemma poll_asks:
  assumes "next_poll st (CheckOobeValue W count st) = Some c"
  shows "c = count + 1 \<and> count < MAX_RETRY_COUNT"
proof -
  obtain ret st1 where f: "FlushOobeValue W st = (ret, st1)" by fastforce
  obtain l where l: "oobe_outs st1 = oobe_outs st @ map Executed l" using flush_outs[of W st] f by auto
  consider "\<not> (oobeValue st = OOBE_INVALID \<and> count < MAX_RETRY_COUNT)"
    | "oobeValue st = OOBE_INVALID" "count < MAX_RETRY_COUNT" "ret = OOBE_INVALID_OPERATION"
    | "oobeValue st = OOBE_INVALID" "count < MAX_RETRY_COUNT" "ret \<noteq> OOBE_INVALID_OPERATION" by blast
  then show ?thesis
  proof cases
    case 1
    then have "oobe_outs (CheckOobeValue W count st) = oobe_outs st @ map Executed [] @ [ReadFailedEvent count]"
      by (auto simp: CheckOobeValue_def oobe_emit_def)
    from next_poll_append[OF this] assms show ?thesis by simp
  next
    case 2
    then have "oobe_outs (CheckOobeValue W count st) = oobe_outs st @ map Executed l @ [RetryAfterDelay (count + 1)]"
      using f l by (simp add: CheckOobeValue_def oobe_emit_def)
    from next_poll_append[OF this] assms 2 show ?thesis by simp
  next
    case 3
    then have "oobe_outs (CheckOobeValue W count st) = oobe_outs st @ map Executed l"
      using f l by (simp add: CheckOobeValue_def)
    from next_poll_none[OF this] assms show ?thesis by simp
  qed
qed

function polling :: "ds_world \<Rightarrow> i32 \<Rightarrow> oobe_state \<Rightarrow> i32 list \<times> oobe_state" where
  "polling W count st =
     (let st1 = CheckOobeValue W count st in
      case next_poll st st1 of
        None \<Rightarrow> ([count], st1)
      | Some c \<Rightarrow> (case polling W c st1 of (cs, st2) \<Rightarrow> (count # cs, st2)))"
  by pat_completeness auto

termination
proof (relation "measure (\<lambda>(W, count, st). nat (MAX_RETRY_COUNT - count))")
  fix W :: ds_world and count :: i32 and st st1 :: oobe_state and c :: i32
  assume "st1 = CheckOobeValue W count st" "next_poll st st1 = Some c"
  then have "c = count + 1 \<and> count < MAX_RETRY_COUNT" using poll_asks by simp
  then show "((W, c, st1), (W, count, st)) \<in> measure (\<lambda>(W, count, st). nat (MAX_RETRY_COUNT - count))" by simp
qed simp

declare polling.simps [simp del]

lemma polling_counts:
  "0 \<le> count \<Longrightarrow> count \<le> MAX_RETRY_COUNT \<Longrightarrow>
   fst (polling W count st) = map (\<lambda>i. count + int i) [0..<length (fst (polling W count st))] \<and>
   count + int (length (fst (polling W count st))) \<le> MAX_RETRY_COUNT + 1"
proof (induction W count st rule: polling.induct)
  case (1 W count st)
  let ?st1 = "CheckOobeValue W count st"
  show ?case
  proof (cases "next_poll st ?st1")
    case None
    then have "fst (polling W count st) = [count]" by (subst polling.simps) (simp add: Let_def)
    then show ?thesis using 1(3) by simp
  next
    case (Some c)
    from poll_asks[OF Some] have c: "c = count + 1" "count < MAX_RETRY_COUNT" by simp_all
    from 1(1)[OF refl Some] c 1(2) have IH:
      "fst (polling W c ?st1) = map (\<lambda>i. c + int i) [0..<length (fst (polling W c ?st1))]"
      "c + int (length (fst (polling W c ?st1))) \<le> MAX_RETRY_COUNT + 1" by simp_all
    have p: "fst (polling W count st) = count # fst (polling W c ?st1)"
      by (subst polling.simps) (simp add: Let_def Some case_prod_unfold)
    have "map (\<lambda>i. count + int i) [0..<Suc n] = count # map (\<lambda>i. c + int i) [0..<n]" for n
      by (simp add: map_upt_Suc c(1) del: upt_Suc)
    from this[of "length (fst (polling W c ?st1))"] IH(1)
    have "fst (polling W count st) = map (\<lambda>i. count + int i) [0..<Suc (length (fst (polling W c ?st1)))]"
      using p by simp
    then show ?thesis using IH(2) c(1) p by simp
  qed
qed

text \<open>
  The polling a registration starts ends after at most 151 polls, the last of which reads nothing; the
  counts are 0, 1, 2 and so on.
\<close>

theorem polling_ends:
  "fst (polling W 0 st) = map int [0..<length (fst (polling W 0 st))] \<and> length (fst (polling W 0 st)) \<le> 151"
  using polling_counts[of 0 W st] by (simp add: MAX_RETRY_COUNT_def)

end
