(* ===== verification/Service_Ability.thy ===== *)
theory Service_Ability
  imports Service_Props Plugin_Mgr_Props Observer_Mgr Event_Controller
begin

text \<open>
  The system ability (services/resschedservice/src/res\_sched\_service\_ability.cpp), which composes the
  service with the observers and the event controller: what starts and stops with it, in which order,
  and the other system abilities it listens to.  The reports the parts make are handed to the manager.
\<close>

section \<open>Data\<close>

text \<open>The abilities listened to; their numbers belong to the system, but for the two of the games.\<close>

datatype sa_name =
    SaAppMgr | SaWindowManager | SaBackgroundTaskManager | SaExecutor | SaPowerManager | SaGameService | SaWifi
  | SaUserStatus | SaBundleMgr | SaSocPerf | SaMemoryManager | SaLocation | SaNotification | SaGameServer

definition GAME_SERVICE_SERVICE_ID :: i32 where "GAME_SERVICE_SERVICE_ID = 66058"
definition GAME_SERVICE_SERVER_SA_ID :: i32 where "GAME_SERVICE_SERVER_SA_ID = 66006"

text \<open>
  The environment of the parts, whether memory is there, the answers to publishing and to listening, and
  the content of the load level parameter.
\<close>

record sys_env =
  se_svc :: svc_env
  se_obm :: obm_env
  se_ec :: ec_env
  se_alloc :: bool
  se_publish :: bool
  se_listen :: "i32 \<Rightarrow> bool"
  se_number :: "sa_name \<Rightarrow> i32"
  se_level :: "string option"

datatype sys_out = SysListen i32 bool | SysUnlisten i32 | SysListenFault "i32 list" | SysPublish bool bool | SysReclaimAfterDelay | SysCreateFault

record sys_state =
  sys_service :: bool
  sys_svc :: svc_state
  sys_obm :: obm_state
  sys_ec :: ec_state
  sys_outs :: "sys_out list"

definition sys_emit :: "sys_out \<Rightarrow> sys_state \<Rightarrow> sys_state" where
  "sys_emit out st = st\<lparr>sys_outs := sys_outs st @ [out]\<rparr>"

definition sys_new :: "rm_state \<Rightarrow> el_state \<Rightarrow> sys_state" where
  "sys_new rm el = \<lparr>sys_service = False, sys_svc = svc_new rm el, sys_obm = obm_new, sys_ec = ec_new, sys_outs = []\<rparr>"

section \<open>Reports of the parts\<close>

definition on_rm :: "(rm_state \<Rightarrow> rm_state) \<Rightarrow> sys_state \<Rightarrow> sys_state" where
  "on_rm f st = st\<lparr>sys_svc := (sys_svc st)\<lparr>sv_rm := f (sv_rm (sys_svc st))\<rparr>\<rparr>"

definition obm_reports :: "obm_out list \<Rightarrow> (u32 \<times> i64 \<times> json) list" where
  "obm_reports = List.map_filter (\<lambda>x. case x of ObmReport t v p \<Rightarrow> Some (t, v, p) | ObmInProcess t v p \<Rightarrow> Some (t, v, p) | _ \<Rightarrow> None)"

definition ec_reports :: "ec_out list \<Rightarrow> (u32 \<times> i64 \<times> json) list" where
  "ec_reports = List.map_filter (\<lambda>x. case x of EcReport t v p \<Rightarrow> Some (t, v, p) | _ \<Rightarrow> None)"

definition hand_over :: "rm_env \<Rightarrow> i64 \<Rightarrow> (u32 \<times> i64 \<times> json) list \<Rightarrow> rm_state \<Rightarrow> rm_state" where
  "hand_over R now reports rm = fold (\<lambda>(t, v, p). rm_ReportData R now t v p) reports rm"

text \<open>A step of the observer manager, and what it reports.\<close>

definition on_obm :: "sys_env \<Rightarrow> i64 \<Rightarrow> (obm_state \<Rightarrow> obm_state) \<Rightarrow> sys_state \<Rightarrow> sys_state" where
  "on_obm E now f st =
     (let obm = f (sys_obm st);
          new = drop (length (obm_outs (sys_obm st))) (obm_outs obm)
      in on_rm (hand_over (ve_rm (se_svc E)) now (obm_reports new)) (st\<lparr>sys_obm := obm\<rparr>))"

text \<open>What an observer of applications reports: the states of applications also go to the manager itself.\<close>

fun ob_deliver :: "rm_env \<Rightarrow> i64 \<Rightarrow> ob_out \<Rightarrow> rm_state \<Rightarrow> rm_state option" where
  "ob_deliver R now (ObReport t v p) st = Some (rm_ReportData R now t v p st)"
| "ob_deliver R now (ObProcessState state p) st = Some (ReportProcessStateInProcess R state p st)"
| "ob_deliver R now (ObAppState state p) st = ReportAppStateInProcess R state p st"
| "ob_deliver R now (ObStartup user name) st = Some st"

fun ob_deliver_all :: "rm_env \<Rightarrow> i64 \<Rightarrow> ob_out list \<Rightarrow> rm_state \<Rightarrow> rm_state option" where
  "ob_deliver_all R now [] st = Some st"
| "ob_deliver_all R now (x # xs) st =
     (case ob_deliver R now x st of None \<Rightarrow> None | Some st1 \<Rightarrow> ob_deliver_all R now xs st1)"

section \<open>Starting and stopping\<close>

definition sa_list :: "sys_env \<Rightarrow> i32 list" where
  "sa_list E =
     sorted_list_of_set (set (map (se_number E)
       [SaAppMgr, SaWindowManager, SaBackgroundTaskManager, SaExecutor, SaPowerManager, SaWifi, SaUserStatus, SaBundleMgr,
        SaSocPerf, SaMemoryManager, SaLocation, SaNotification]) \<union> {GAME_SERVICE_SERVICE_ID, GAME_SERVICE_SERVER_SA_ID})"

definition ReportSAListenerResult :: "i32 list \<Rightarrow> sys_state \<Rightarrow> bool \<times> sys_state" where
  "ReportSAListenerResult errIds st = (if errIds = [] then (True, st) else (False, sys_emit (SysListenFault errIds) st))"

definition SystemAbilityListenerInit :: "sys_env \<Rightarrow> sys_state \<Rightarrow> sys_state" where
  "SystemAbilityListenerInit E st =
     snd (ReportSAListenerResult (filter (\<lambda>n. \<not> se_listen E n) (sa_list E))
       (fold (\<lambda>n. sys_emit (SysListen n (se_listen E n))) (sa_list E) st))"

definition ReclaimProcessMemory :: "sys_state \<Rightarrow> sys_state" where
  "ReclaimProcessMemory st = sys_emit SysReclaimAfterDelay st"

text \<open>The three managers, the service with its access tables, then the publication, which a null pointer fails.\<close>

definition start_managers :: "sys_env \<Rightarrow> i64 \<Rightarrow> sys_state \<Rightarrow> sys_state" where
  "start_managers E now st =
     (let st1 = on_rm (rm_Init (ve_rm (se_svc E)) now) st;
          st2 = on_rm (\<lambda>rm. rm\<lparr>rm_nm := nm_Init (se_level E) (rm_nm rm)\<rparr>) st1
      in st2\<lparr>sys_svc := (sys_svc st2)\<lparr>sv_el := el_Init (sv_el (sys_svc st2))\<rparr>\<rparr>)"

definition start_service :: "sys_env \<Rightarrow> sys_state \<Rightarrow> sys_state" where
  "start_service E st =
     (let st1 = (if sys_service st then st
                 else if se_alloc E
                 then st\<lparr>sys_service := True, sys_svc := svc_new (sv_rm (sys_svc st)) (sv_el (sys_svc st))\<rparr>
                 else sys_emit SysCreateFault st)
      in if sys_service st1 then st1\<lparr>sys_svc := InitAllowIpcReportRes (se_svc E) (sys_svc st1)\<rparr> else st1)"

definition sys_OnStart :: "sys_env \<Rightarrow> i64 \<Rightarrow> sys_state \<Rightarrow> sys_state" where
  "sys_OnStart E now st =
     (let st1 = start_service E (start_managers E now st);
          st2 = sys_emit (SysPublish (sys_service st1) (sys_service st1 \<and> se_publish E)) st1;
          st3 = SystemAbilityListenerInit E st2;
          st4 = st3\<lparr>sys_ec := ec_Init (se_ec E) (sys_ec st3)\<rparr>
      in ReclaimProcessMemory (on_obm E now (obm_Init (se_obm E)) st4))"

definition stopped_abilities :: "sa_name list" where
  "stopped_abilities = [SaBackgroundTaskManager, SaWindowManager, SaAppMgr, SaPowerManager, SaSocPerf]"

definition sys_OnStop :: "sys_env \<Rightarrow> i64 \<Rightarrow> sys_state \<Rightarrow> sys_state" where
  "sys_OnStop E now st =
     (let st1 = on_obm E now (obm_Disable (se_obm E)) st;
          st2 = st1\<lparr>sys_ec := ec_Stop (se_ec E) (sys_ec st1)\<rparr>;
          st3 = fold (\<lambda>sa. sys_emit (SysUnlisten (se_number E sa))) stopped_abilities st2
      in on_rm (rm_Stop (ve_rm (se_svc E))) st3)"

section \<open>Other abilities and the load level\<close>

definition sa_payload :: "i32 \<Rightarrow> string \<Rightarrow> json" where
  "sa_payload n deviceId = JObj [(''saId'', JInt n), (''deviceId'', JStr deviceId)]"

definition sys_OnAddSystemAbility :: "sys_env \<Rightarrow> i64 \<Rightarrow> i32 \<Rightarrow> string \<Rightarrow> sys_state \<Rightarrow> sys_state" where
  "sys_OnAddSystemAbility E now systemAbilityId deviceId st =
     (let R = ve_rm (se_svc E);
          st1 = (if systemAbilityId = se_number E SaExecutor then on_rm (InitExecutorPlugin R False) st
                 else if systemAbilityId = se_number E SaAppMgr then on_rm (InitForegroundAppInfo R) st
                 else st)
      in on_rm (rm_ReportData R now RES_TYPE_SYSTEM_ABILITY_STATUS_CHANGE SA_ADD (sa_payload systemAbilityId deviceId)) st1)"

definition sys_OnRemoveSystemAbility :: "sys_env \<Rightarrow> i64 \<Rightarrow> i32 \<Rightarrow> string \<Rightarrow> sys_state \<Rightarrow> sys_state" where
  "sys_OnRemoveSystemAbility E now systemAbilityId deviceId st =
     on_rm (rm_ReportData (ve_rm (se_svc E)) now RES_TYPE_SYSTEM_ABILITY_STATUS_CHANGE SA_REMOVE
       (sa_payload systemAbilityId deviceId)) st"

definition sys_OnDeviceLevelChanged :: "i32 \<Rightarrow> i32 \<Rightarrow> sys_state \<Rightarrow> sys_state option" where
  "sys_OnDeviceLevelChanged type level st =
     (if \<not> sys_service st then Some st
      else map_option (\<lambda>sv. st\<lparr>sys_svc := sv\<rparr>) (svc_OnDeviceLevelChanged type level False (sys_svc st)))"

text \<open>A common event that arrives at a subscriber.\<close>

definition sys_OnReceiveEvent :: "sys_env \<Rightarrow> i64 \<Rightarrow> want \<Rightarrow> i32 \<Rightarrow> ec_object \<Rightarrow> sys_state \<Rightarrow> ec_object \<times> sys_state" where
  "sys_OnReceiveEvent E now w code self st =
     (case ec_OnReceiveEvent (se_ec E) w code self of
        (reports, self1) \<Rightarrow> (self1, on_rm (hand_over (ve_rm (se_svc E)) now (ec_reports reports)) st))"

section \<open>From an event to the plugins\<close>

lemma report_single: "length (fst (ec_ReportDataInProcess t v p self)) = 1"
  by (simp add: ec_ReportDataInProcess_def)

lemma left_event_single: "length (fst (handleLeftEvent E user payload w self)) \<le> Suc 0"
  by (simp add: handleLeftEvent_def Let_def report_single HandleMediaCtrlEvent_def HandleAudioFocusChangeEvent_def
      HandleCloneStateEvent_def handleNearlinkEvent_def)

lemma other_event_single: "length (fst (handleOtherEvent E user payload w self)) \<le> Suc 0"
  by (simp add: handleOtherEvent_def Let_def report_single left_event_single)

lemma handle_event_single: "length (fst (handleEvent E user payload w self)) \<le> Suc 0"
  by (simp add: handleEvent_def Let_def report_single other_event_single)

lemma package_event_single: "HandlePkgCommonEvent E w payload self = Some r \<Longrightarrow> length (fst r) \<le> Suc 0"
  by (auto simp: HandlePkgCommonEvent_def Let_def report_single split: if_splits)

lemma event_single: "length (fst (ec_OnReceiveEvent E w code self)) \<le> Suc 0"
  using package_event_single[of E w "JObj []" self]
  by (auto simp: ec_OnReceiveEvent_def Let_def report_single handle_event_single HandleConnectivityChange_def split: option.split)

text \<open>
  C3. From the event framework to the plugins: a common event that the event controller reports reaches, in
  the FFRT build of a running manager, exactly once the queue of every plugin that subscribed to the type
  of the report or to its type and value and can be delivered to, and no other plugin.
\<close>

theorem common_event_reaches_plugins:
  fixes E st
  defines "P \<equiv> re_pm (ve_rm (se_svc E))" and "pm \<equiv> \<lambda>s. rm_pm (sv_rm (sys_svc s))"
  assumes "isInit (pm st)" "pe_ffrt P" "unique_ok P" "\<not> pe_ext_res P"
    and "EcReport t v p \<in> set (fst (ec_OnReceiveEvent (se_ec E) w code self))"
  shows "\<exists>outs. pm_outs (pm (snd (sys_OnReceiveEvent E now w code self st))) =
      pm_outs (UpdateReportCount now t (pm st)) @ outs \<and> distinct outs \<and>
    set outs = (\<lambda>lib. Submit lib \<lparr>rd_type = t, rd_value = v, rd_payload = p\<rparr>) `
      {lib. lib \<in> set (subscribers_of t v (pm st)) \<and> deliverable (pm st) lib}"
proof -
  let ?rd = "\<lparr>rd_type = t, rd_value = v, rd_payload = p\<rparr>"
  obtain rs self1 where r: "ec_OnReceiveEvent (se_ec E) w code self = (rs, self1)" by fastforce
  have "length rs \<le> 1" "EcReport t v p \<in> set rs" using event_single[of "se_ec E" w code self] assms(7) r by simp_all
  then have "rs = [EcReport t v p]" by (cases rs) auto
  then have "pm (snd (sys_OnReceiveEvent E now w code self st)) = pm_DispatchResource P now (Some ?rd) (pm st)"
    by (simp add: sys_OnReceiveEvent_def r ec_reports_def map_filter_simps hand_over_def on_rm_def pm_def P_def
        rm_ReportData_def ReportDataInner_def)
  moreover have "effective_data P ?rd = ?rd" using assms(6) by (simp add: effective_data_def)
  moreover let ?l = "pe_unique P (subscribers_of t v (pm st))"
  have "set ?l = set (subscribers_of t v (pm st))" "distinct ?l" using assms(5) by (auto simp: unique_ok_def)
  ultimately show ?thesis
    using dispatch_outs[OF assms(3,4,5), of now ?rd]
    by (intro exI[of _ "map (\<lambda>lib. Submit lib ?rd) (filter (deliverable (pm st)) ?l)"])
       (auto simp: Let_def distinct_map inj_on_def)
qed

definition demo_screen_pm :: pm_state where
  "demo_screen_pm = demo_loaded\<lparr>resTypeLibMap := [(RES_TYPE_SCREEN_STATUS, [''a.so''])], resTyperesValueLibMap := []\<rparr>"

definition demo_sys :: "sys_env \<Rightarrow> sys_env" where
  "demo_sys E = E\<lparr>se_svc := (se_svc E)\<lparr>ve_rm := (ve_rm (se_svc E))\<lparr>re_pm := demo_pe\<rparr>\<rparr>, se_ec := demo_ec\<rparr>"

theorem common_event_reaches_plugins_witness:
  "\<forall>E rm el. \<exists>outs. pm_outs (rm_pm (sv_rm (sys_svc (snd (sys_OnReceiveEvent (demo_sys E) 0
       (demo_want (demo_names COMMON_EVENT_SCREEN_ON)) 0 ec_object_new (sys_new (rm\<lparr>rm_pm := demo_screen_pm\<rparr>) el)))))) =
      pm_outs (UpdateReportCount 0 RES_TYPE_SCREEN_STATUS demo_screen_pm) @ outs \<and>
    set outs = {Submit ''a.so'' \<lparr>rd_type = RES_TYPE_SCREEN_STATUS, rd_value = SCREEN_ON, rd_payload = JObj []\<rparr>}"
proof (intro allI)
  fix E rm el
  let ?st = "sys_new (rm\<lparr>rm_pm := demo_screen_pm\<rparr>) el"
  have pm: "rm_pm (sv_rm (sys_svc ?st)) = demo_screen_pm" by (simp add: sys_new_def svc_new_def)
  have env: "re_pm (ve_rm (se_svc (demo_sys E))) = demo_pe" "se_ec (demo_sys E) = demo_ec" by (simp_all add: demo_sys_def)
  have h: "isInit demo_screen_pm" "pe_ffrt demo_pe" "unique_ok demo_pe" "\<not> pe_ext_res demo_pe"
    by (simp_all add: demo_screen_pm_def demo_loaded_def demo_pe_def unique_ok_def)
  have r: "EcReport RES_TYPE_SCREEN_STATUS SCREEN_ON (JObj [])
      \<in> set (fst (ec_OnReceiveEvent demo_ec (demo_want (demo_names COMMON_EVENT_SCREEN_ON)) 0 ec_object_new))"
    using demo_names_ok by (simp add: ec_handlers local_names support_name_local Let_def ec_ReportDataInProcess_def demo_want_def
        event_names_ok_def demo_ec_def inj_eq)
  have "{lib. lib \<in> set (subscribers_of RES_TYPE_SCREEN_STATUS SCREEN_ON demo_screen_pm) \<and> deliverable demo_screen_pm lib} = {''a.so''}"
    by (auto simp: subscribers_of_def deliverable_def demo_screen_pm_def demo_loaded_def reg_at_def lib_of_def demo_pe_def pm_new_def)
  with common_event_reaches_plugins[of ?st "demo_sys E", unfolded pm env, OF h r, of 0]
  show "\<exists>outs. pm_outs (rm_pm (sv_rm (sys_svc (snd (sys_OnReceiveEvent (demo_sys E) 0
       (demo_want (demo_names COMMON_EVENT_SCREEN_ON)) 0 ec_object_new ?st))))) =
      pm_outs (UpdateReportCount 0 RES_TYPE_SCREEN_STATUS demo_screen_pm) @ outs \<and>
    set outs = {Submit ''a.so'' \<lparr>rd_type = RES_TYPE_SCREEN_STATUS, rd_value = SCREEN_ON, rd_payload = JObj []\<rparr>}"
    by auto
qed

section \<open>Who is in the foreground\<close>

text \<open>
  C4. The state of an application decides at once what it may report: after the callback about an application
  that came to the foreground its process may report the types reserved to the foreground, and after the
  callback about one that left, it may not.
\<close>

theorem foreground_decides_reports:
  assumes "ValidateAppStateData d" "ob_deliver_all R now (OnApplicationStateChanged d) (sv_rm st) = Some rm"
    and "cl_pid c = asd_pid d" "ve_token_type V (cl_token c) = TOKEN_HAP" "ve_bundle V (cl_token c) \<noteq> SCENEBOARD_BUNDLE_NAME"
    and "type \<in> set (allowAllAppReportRes st)" "type \<in> set (allowFgAppReportRes st)"
    and "NM_FOREGROUND (re_nm R) \<notin> {NM_BACKGROUND (re_nm R), NM_TERMINATED (re_nm R), NM_END (re_nm R)}"
    and "asd_state d \<in> {NM_FOREGROUND (re_nm R), NM_BACKGROUND (re_nm R), NM_TERMINATED (re_nm R), NM_END (re_nm R)}"
  shows "may_report V c type (st\<lparr>sv_rm := rm\<rparr>) \<longleftrightarrow> asd_state d = NM_FOREGROUND (re_nm R)"
proof -
  obtain nm rm0 where rm: "rm = rm_OnApplicationStateChange R (asd_state d) (asd_pid d) (rm0\<lparr>rm_nm := nm\<rparr>)"
    using assms(1,2) by (auto simp: OnApplicationStateChanged_def ReportAppStateInProcess_def split: option.splits)
  have "asd_pid d \<in> set (foregroundPids rm) \<longleftrightarrow> asd_state d = NM_FOREGROUND (re_nm R)"
    using assms(8,9) unfolding rm by (auto simp: rm_OnApplicationStateChange_def Let_def)
  then show ?thesis using assms(3-7) by (simp add: may_report_def sa_may_report_def)
qed

theorem foreground_decides_reports_witness:
  "\<forall>(V :: svc_env) (st :: svc_state). \<exists>rm. may_report (V\<lparr>ve_token_type := \<lambda>t. TOKEN_HAP, ve_bundle := \<lambda>t. []\<rparr>) (demo_call\<lparr>cl_pid := asd_pid demo_app_state\<rparr>) 7
     (st\<lparr>allowAllAppReportRes := [7], allowFgAppReportRes := [7], sv_rm := rm\<rparr>)"
proof (intro allI)
  fix V :: svc_env and st :: svc_state
  let ?V = "V\<lparr>ve_token_type := \<lambda>t. TOKEN_HAP, ve_bundle := \<lambda>t. []\<rparr>"
  let ?R = "(ve_rm V)\<lparr>re_nm := (re_nm (ve_rm V))\<lparr>NM_FOREGROUND := asd_state demo_app_state, NM_BACKGROUND := asd_state demo_app_state + 1,
      NM_TERMINATED := asd_state demo_app_state + 2, NM_END := asd_state demo_app_state + 3\<rparr>\<rparr>"
  let ?rm0 = "(sv_rm st)\<lparr>rm_nm := (rm_nm (sv_rm st))\<lparr>notifierMap := []\<rparr>\<rparr>"
  let ?st = "st\<lparr>allowAllAppReportRes := [7], allowFgAppReportRes := [7], sv_rm := ?rm0\<rparr>"
  have v: "ValidateAppStateData demo_app_state" by code_simp
  obtain rm where r: "ob_deliver_all ?R 0 (OnApplicationStateChanged demo_app_state) (sv_rm ?st) = Some rm"
    using v by (simp add: OnApplicationStateChanged_def ReportAppStateInProcess_def nm_OnApplicationStateChange_def rm_ReportData_def
        ReportDataInner_def)
  have "may_report ?V (demo_call\<lparr>cl_pid := asd_pid demo_app_state\<rparr>) 7 (?st\<lparr>sv_rm := rm\<rparr>)"
    using foreground_decides_reports[OF v r, of "demo_call\<lparr>cl_pid := asd_pid demo_app_state\<rparr>" ?V 7]
    by (simp add: SCENEBOARD_BUNDLE_NAME_def)
  then show "\<exists>rm. may_report ?V (demo_call\<lparr>cl_pid := asd_pid demo_app_state\<rparr>) 7
     (st\<lparr>allowAllAppReportRes := [7], allowFgAppReportRes := [7], sv_rm := rm\<rparr>)" by auto
qed

section \<open>What is left after stopping\<close>

definition listened :: "sys_state \<Rightarrow> i32 set" where
  "listened st = fold (\<lambda>x s. case x of SysListen n True \<Rightarrow> insert n s | SysUnlisten n \<Rightarrow> s - {n} | _ \<Rightarrow> s) (sys_outs st) {}"

lemma listened_emit:
  "listened (sys_emit (SysListen n b) st) = (if b then insert n (listened st) else listened st)"
  "listened (sys_emit (SysUnlisten n) st) = listened st - {n}"
  "listened (sys_emit (SysListenFault l) st) = listened st" "listened (sys_emit (SysPublish a b) st) = listened st"
  "listened (sys_emit SysReclaimAfterDelay st) = listened st" "listened (sys_emit SysCreateFault st) = listened st"
  by (simp_all add: listened_def sys_emit_def)

lemma listened_frame [simp]:
  "listened (on_rm f st) = listened st" "listened (st\<lparr>sys_ec := e\<rparr>) = listened st" "listened (on_obm E now g st) = listened st"
  "listened (st\<lparr>sys_svc := s\<rparr>) = listened st" "listened (st\<lparr>sys_service := b\<rparr>) = listened st"
  by (simp_all add: listened_def on_rm_def on_obm_def Let_def)

lemma listened_listen:
  "listened (fold (\<lambda>n. sys_emit (SysListen n (l n))) ns st) = listened st \<union> {n \<in> set ns. l n}"
  by (induction ns arbitrary: st) (auto simp: listened_emit)

lemma listened_unlisten:
  "listened (fold (\<lambda>sa. sys_emit (SysUnlisten (f sa))) sas st) = listened st - f ` set sas"
  by (induction sas arbitrary: st) (auto simp: listened_emit)

lemma listened_start: "listened (sys_OnStart E now st) = listened st \<union> {n \<in> set (sa_list E). se_listen E n}"
  by (simp add: sys_OnStart_def Let_def ReclaimProcessMemory_def listened_emit SystemAbilityListenerInit_def
      ReportSAListenerResult_def listened_listen start_service_def start_managers_def)

lemma listened_stop: "listened (sys_OnStop E now st) = listened st - se_number E ` set stopped_abilities"
  by (simp add: sys_OnStop_def Let_def listened_unlisten)

text \<open>
  Stopping removes five of the fourteen listeners: the other nine abilities go on being listened to, among
  them the executor, whose arrival initialises plugins.
\<close>

theorem stop_leaves_listeners:
  assumes "inj (se_number E)" "\<And>n. se_listen E n"
    "se_number E SaGameService = GAME_SERVICE_SERVICE_ID" "se_number E SaGameServer = GAME_SERVICE_SERVER_SA_ID"
  shows "listened (sys_OnStop E later (sys_OnStart E now (sys_new rm el))) =
    se_number E ` {SaExecutor, SaGameService, SaWifi, SaUserStatus, SaBundleMgr, SaMemoryManager, SaLocation, SaNotification, SaGameServer}"
proof -
  have "listened (sys_new rm el) = {}" by (simp add: listened_def sys_new_def)
  moreover have "set (sa_list E) = range (se_number E)"
  proof -
    have "UNIV = {SaAppMgr, SaWindowManager, SaBackgroundTaskManager, SaExecutor, SaPowerManager, SaGameService, SaWifi,
        SaUserStatus, SaBundleMgr, SaSocPerf, SaMemoryManager, SaLocation, SaNotification, SaGameServer}"
      by (auto intro: sa_name.exhaust)
    from arg_cong[OF this, of "image (se_number E)"] have "range (se_number E) = set (map (se_number E)
       [SaAppMgr, SaWindowManager, SaBackgroundTaskManager, SaExecutor, SaPowerManager, SaWifi, SaUserStatus, SaBundleMgr,
        SaSocPerf, SaMemoryManager, SaLocation, SaNotification]) \<union> {GAME_SERVICE_SERVICE_ID, GAME_SERVICE_SERVER_SA_ID}"
      by (simp only: assms(3,4)[symmetric] list.map list.set image_insert image_empty Un_insert_left Un_insert_right
          Un_empty_right insert_commute)
    then show ?thesis unfolding sa_list_def by (metis List.finite_set finite.emptyI finite.insertI finite_UnI set_sorted_list_of_set)
  qed
  ultimately have "listened (sys_OnStop E later (sys_OnStart E now (sys_new rm el))) = se_number E ` (UNIV - set stopped_abilities)"
    using assms(2) by (simp add: listened_stop listened_start image_set_diff[OF assms(1)] del: set_map)
  moreover have "UNIV - set stopped_abilities =
      {SaExecutor, SaGameService, SaWifi, SaUserStatus, SaBundleMgr, SaMemoryManager, SaLocation, SaNotification, SaGameServer}"
    by (auto simp: stopped_abilities_def intro: sa_name.exhaust)
  ultimately show ?thesis by simp
qed

fun demo_number :: "sa_name \<Rightarrow> i32" where
  "demo_number SaAppMgr = 501"
| "demo_number SaWindowManager = 4606"
| "demo_number SaBackgroundTaskManager = 1903"
| "demo_number SaExecutor = 1918"
| "demo_number SaPowerManager = 3301"
| "demo_number SaGameService = GAME_SERVICE_SERVICE_ID"
| "demo_number SaWifi = 1120"
| "demo_number SaUserStatus = 2908"
| "demo_number SaBundleMgr = 401"
| "demo_number SaSocPerf = 1906"
| "demo_number SaMemoryManager = 1909"
| "demo_number SaLocation = 2802"
| "demo_number SaNotification = 3203"
| "demo_number SaGameServer = GAME_SERVICE_SERVER_SA_ID"

theorem stop_leaves_listeners_witness:
  "\<forall>(E :: sys_env) (rm :: rm_state) (el :: el_state). demo_number SaExecutor \<in> listened (sys_OnStop (E\<lparr>se_number := demo_number, se_listen := \<lambda>n. True\<rparr>) 1
     (sys_OnStart (E\<lparr>se_number := demo_number, se_listen := \<lambda>n. True\<rparr>) 0 (sys_new rm el)))"
proof (intro allI)
  fix E :: sys_env and rm :: rm_state and el :: el_state
  let ?E = "E\<lparr>se_number := demo_number, se_listen := \<lambda>n. True\<rparr>"
  have "inj demo_number"
  proof (rule injI)
    fix a b show "demo_number a = demo_number b \<Longrightarrow> a = b"
      by (cases a; cases b) (simp_all add: GAME_SERVICE_SERVICE_ID_def GAME_SERVICE_SERVER_SA_ID_def)
  qed
  then have "inj (se_number ?E)" by simp
  from stop_leaves_listeners[OF this, of 1 0 rm el]
  have "listened (sys_OnStop ?E 1 (sys_OnStart ?E 0 (sys_new rm el))) =
      demo_number ` {SaExecutor, SaGameService, SaWifi, SaUserStatus, SaBundleMgr, SaMemoryManager, SaLocation, SaNotification, SaGameServer}"
    by simp
  then show "demo_number SaExecutor \<in> listened (sys_OnStop ?E 1 (sys_OnStart ?E 0 (sys_new rm el)))" by blast
qed

end
