(* ===== verification/App_Kit.thy ===== *)
theory App_Kit
  imports Client_Props
begin

text \<open>
  The application kit for background processes, in its three languages: the C functions
  (interfaces/kits/c/background\_process\_manager/src/background\_process\_manager.cpp), the
  JavaScript module over them (interfaces/kits/js/napi/background\_process\_manager) and the ETS
  module (interfaces/kits/ets/taihe/background\_process\_manager).  They run in the application,
  over the client library (Client\_Model).  The library of the power saving client is not part of
  the repository: whether it opens, whether it has a symbol and what its functions answer are
  parameters (\<open>kit_env\<close>).  A JavaScript number is given by the \<open>int32\<close> that the engine reads from
  it; a value of a C enumeration is its number.  The calls made are an output list.
\<close>

section \<open>Data\<close>

definition SET_PRIORITY :: i64 where "SET_PRIORITY = 1"
definition RESET_PRIORITY :: i64 where "RESET_PRIORITY = 0"
definition RES_TYPE_CLEAN_BACKGROUND_APP :: u32 where "RES_TYPE_CLEAN_BACKGROUND_APP = 20006"
definition RES_APP_NAP_CLIENT_SO :: string where "RES_APP_NAP_CLIENT_SO = ''libapp_nap_client.z.so''"
definition RESULT_KEY :: string where "RESULT_KEY = ''result''"
definition PERMISSION_ERROR_CODE :: string where "PERMISSION_ERROR_CODE = ''201''"

definition bpm_PROCESS_BACKGROUND :: i32 where "bpm_PROCESS_BACKGROUND = 1"
definition bpm_PROCESS_INACTIVE :: i32 where "bpm_PROCESS_INACTIVE = 2"
definition EFFICIENCY_MODE :: i32 where "EFFICIENCY_MODE = 1"
definition DEFAULT_MODE :: i32 where "DEFAULT_MODE = 2"
definition CLEAR_RECENT_CARDS :: i32 where "CLEAR_RECENT_CARDS = 1"

definition bpm_SUCCESS :: i32 where "bpm_SUCCESS = 0"
definition bpm_PERMISSION_DENIED :: i32 where "bpm_PERMISSION_DENIED = 201"
definition bpm_NOT_SYSTEM_APP :: i32 where "bpm_NOT_SYSTEM_APP = 202"
definition bpm_INVALID_PARAM :: i32 where "bpm_INVALID_PARAM = 401"
definition bpm_CAPABILITY_NOT_SUPPORTED :: i32 where "bpm_CAPABILITY_NOT_SUPPORTED = 801"
definition bpm_REMOTE_ERROR :: i32 where "bpm_REMOTE_ERROR = 31800001"
definition bpm_PARAMETER_ERROR :: i32 where "bpm_PARAMETER_ERROR = 31800002"
definition bpm_SETUP_ERROR :: i32 where "bpm_SETUP_ERROR = 31800003"
definition bpm_SYSTEM_SCHEDULING :: i32 where "bpm_SYSTEM_SCHEDULING = 31800004"

lemmas kit_defs = SET_PRIORITY_def RESET_PRIORITY_def bpm_PROCESS_BACKGROUND_def bpm_PROCESS_INACTIVE_def
  EFFICIENCY_MODE_def DEFAULT_MODE_def CLEAR_RECENT_CARDS_def bpm_SUCCESS_def bpm_PERMISSION_DENIED_def
  bpm_NOT_SYSTEM_APP_def bpm_INVALID_PARAM_def bpm_CAPABILITY_NOT_SUPPORTED_def bpm_REMOTE_ERROR_def
  bpm_PARAMETER_ERROR_def bpm_SETUP_ERROR_def bpm_SYSTEM_SCHEDULING_def

datatype kit_out =
    DlOpen string
  | DlClose
  | NapSet i64 i32
  | NapAsk i64
  | ThrowError string string
  | ThrowBusiness i32 string

text \<open>The function that reads the mode writes its answer into a variable that starts as false.\<close>

record kit_env =
  ke_client :: rc_env
  ke_world :: connect_world
  ke_types :: "u32 list option"
  ke_now :: i64
  ke_sync :: "(string \<times> i32) option"
  ke_system_app :: bool
  ke_opens :: bool
  ke_set :: "(i64 \<Rightarrow> i32 \<Rightarrow> i32) option"
  ke_is :: "(i64 \<Rightarrow> bool \<Rightarrow> i32 \<times> bool) option"

record kit_state =
  kit_client :: rc_state
  kit_outs :: "kit_out list"

definition kit_emit :: "kit_out \<Rightarrow> kit_state \<Rightarrow> kit_state" where
  "kit_emit out st = st\<lparr>kit_outs := kit_outs st @ [out]\<rparr>"

definition kit_report :: "kit_env \<Rightarrow> i64 \<Rightarrow> (string \<times> string) list \<Rightarrow> kit_state \<Rightarrow> kit_state" where
  "kit_report E v payload st =
     st\<lparr>kit_client := rc_ReportData (ke_client E) (ke_world E) (ke_types E) (ke_now E)
          RES_TYPE_SET_BACKGROUND_PROCESS_PRIORITY v payload (kit_client st)\<rparr>"

section \<open>The C functions\<close>

definition OH_SetProcessPriority :: "kit_env \<Rightarrow> i32 \<Rightarrow> i32 \<Rightarrow> kit_state \<Rightarrow> i32 \<times> kit_state" where
  "OH_SetProcessPriority E pid priority st =
     (if priority \<noteq> bpm_PROCESS_BACKGROUND \<and> priority \<noteq> bpm_PROCESS_INACTIVE then (bpm_INVALID_PARAM, st)
      else (bpm_SUCCESS, kit_report E SET_PRIORITY
              [(''PID'', to_string pid), (''PRIORITY'', to_string priority)] st))"

definition OH_ResetProcessPriority :: "kit_env \<Rightarrow> i32 \<Rightarrow> kit_state \<Rightarrow> i32 \<times> kit_state" where
  "OH_ResetProcessPriority E pid st =
     (bpm_SUCCESS, kit_report E RESET_PRIORITY [(''PID'', to_string pid)] st)"

definition OH_SetPowerSaveMode :: "kit_env \<Rightarrow> i32 \<Rightarrow> i32 \<Rightarrow> kit_state \<Rightarrow> i32 \<times> kit_state" where
  "OH_SetPowerSaveMode E pid powerSaveMode st =
     (let st1 = kit_emit (DlOpen RES_APP_NAP_CLIENT_SO) st in
      if \<not> ke_opens E then (bpm_CAPABILITY_NOT_SUPPORTED, st1)
      else (case ke_set E of
          None \<Rightarrow> (bpm_CAPABILITY_NOT_SUPPORTED, kit_emit DlClose st1)
        | Some func \<Rightarrow> (func pid powerSaveMode, kit_emit DlClose (kit_emit (NapSet pid powerSaveMode) st1))))"

definition OH_IsPowerSaveMode :: "kit_env \<Rightarrow> i32 \<Rightarrow> kit_state \<Rightarrow> i32 \<times> kit_state" where
  "OH_IsPowerSaveMode E pid st =
     (let st1 = kit_emit (DlOpen RES_APP_NAP_CLIENT_SO) st in
      if \<not> ke_opens E then (bpm_CAPABILITY_NOT_SUPPORTED, st1)
      else (case ke_is E of
          None \<Rightarrow> (bpm_CAPABILITY_NOT_SUPPORTED, kit_emit DlClose st1)
        | Some func \<Rightarrow>
            (let (ret, result) = func pid False; st2 = kit_emit DlClose (kit_emit (NapAsk pid) st1)
             in if ret = 0 then (if result then 1 else 0, st2) else (ret, st2))))"

text \<open>The mode is written through a pointer; \<open>None\<close> is a null pointer, or a mode left as it was.\<close>

definition OH_GetPowerSaveMode ::
    "kit_env \<Rightarrow> i32 \<Rightarrow> i32 option \<Rightarrow> kit_state \<Rightarrow> i32 \<times> i32 option \<times> kit_state" where
  "OH_GetPowerSaveMode E pid powerSaveMode st =
     (case powerSaveMode of
        None \<Rightarrow> (bpm_PARAMETER_ERROR, None, st)
      | Some mode \<Rightarrow>
          (let st1 = kit_emit (DlOpen RES_APP_NAP_CLIENT_SO) st in
           if \<not> ke_opens E then (bpm_CAPABILITY_NOT_SUPPORTED, Some mode, st1)
           else (case ke_is E of
               None \<Rightarrow> (bpm_CAPABILITY_NOT_SUPPORTED, Some mode, kit_emit DlClose st1)
             | Some func \<Rightarrow>
                 (let (ret, result) = func pid False; st2 = kit_emit DlClose (kit_emit (NapAsk pid) st1)
                  in if ret \<noteq> 0 then (ret, Some mode, st2)
                     else (ret, Some (if result then DEFAULT_MODE else EFFICIENCY_MODE), st2)))))"

text \<open>The reply holds JSON text; the type to clear is not looked at.\<close>

definition OH_ClearBackgroundApps :: "kit_env \<Rightarrow> i32 \<Rightarrow> kit_state \<Rightarrow> i32 \<times> kit_state" where
  "OH_ClearBackgroundApps E clearType st =
     (if \<not> ke_system_app E then (bpm_NOT_SYSTEM_APP, st)
      else (case rc_ReportSyncEvent (ke_client E) (ke_world E) (ke_sync E) True
                   RES_TYPE_CLEAN_BACKGROUND_APP 0 [] [] (kit_client st) of
          (_, reply, c) \<Rightarrow>
            (if list_ex (\<lambda>(key, v). key = RESULT_KEY \<and> v = PERMISSION_ERROR_CODE) reply
             then bpm_PERMISSION_DENIED else bpm_SUCCESS, st\<lparr>kit_client := c\<rparr>)))"

section \<open>The JavaScript functions\<close>

datatype js_value =
    JsUndefined
  | JsBool bool
  | JsNumber i32
  | JsString string
  | JsFunction nat
  | JsObject nat

datatype js_result = JsReturn js_value | JsPromise js_value

definition errCodeMsg :: "(i32 \<times> string) list" where
  "errCodeMsg =
     [(bpm_INVALID_PARAM, ''Parameter error. Possible causes: priority is out of range.''),
      (bpm_PARAMETER_ERROR, ''Parameter error. Possible causes: priority is out of range.''),
      (bpm_NOT_SYSTEM_APP, ''Not System App.''),
      (bpm_PERMISSION_DENIED, ''Permission denied.''),
      (bpm_CAPABILITY_NOT_SUPPORTED, ''Capability not supported.''),
      (bpm_SETUP_ERROR, ''This setting is overridden by setting in Task Manager.''),
      (bpm_SYSTEM_SCHEDULING, ''The setting failed due to system scheduling reasons.'')]"

definition HandleErrorCode :: "i32 \<Rightarrow> kit_state \<Rightarrow> kit_state" where
  "HandleErrorCode errorCode st =
     (case map_of errCodeMsg errorCode of
        None \<Rightarrow> st | Some msg \<Rightarrow> kit_emit (ThrowError (to_string errorCode) msg) st)"

definition HandleNewErrorCode :: "i32 \<Rightarrow> kit_state \<Rightarrow> kit_state" where
  "HandleNewErrorCode errorCode st =
     (case map_of errCodeMsg errorCode of
        None \<Rightarrow> st | Some msg \<Rightarrow> kit_emit (ThrowBusiness errorCode msg) st)"

text \<open>A call with the wrong number or the wrong types of arguments.\<close>

definition js_refuse :: "i32 \<Rightarrow> kit_state \<Rightarrow> js_result \<times> kit_state" where
  "js_refuse code st = (JsReturn (JsNumber code), HandleErrorCode code st)"

fun js_SetProcessPriority :: "kit_env \<Rightarrow> js_value list \<Rightarrow> kit_state \<Rightarrow> js_result \<times> kit_state" where
  "js_SetProcessPriority E [JsNumber pid, JsNumber priority] st =
     (case OH_SetProcessPriority E pid priority st of
        (retCode, st1) \<Rightarrow> (JsReturn (JsNumber bpm_SUCCESS), HandleErrorCode retCode st1))"
| "js_SetProcessPriority E argv st = js_refuse bpm_INVALID_PARAM st"

fun js_ResetProcessPriority :: "kit_env \<Rightarrow> js_value list \<Rightarrow> kit_state \<Rightarrow> js_result \<times> kit_state" where
  "js_ResetProcessPriority E [JsNumber pid] st =
     (case OH_ResetProcessPriority E pid st of
        (retCode, st1) \<Rightarrow> (JsReturn (JsNumber bpm_SUCCESS), HandleErrorCode retCode st1))"
| "js_ResetProcessPriority E argv st = js_refuse bpm_INVALID_PARAM st"

fun js_SetPowerSaveMode :: "kit_env \<Rightarrow> js_value list \<Rightarrow> kit_state \<Rightarrow> js_result \<times> kit_state" where
  "js_SetPowerSaveMode E [JsNumber pid, JsNumber mode] st =
     (case OH_SetPowerSaveMode E pid mode st of
        (retCode, st1) \<Rightarrow> (JsReturn (JsNumber bpm_SUCCESS), HandleErrorCode retCode st1))"
| "js_SetPowerSaveMode E argv st = js_refuse bpm_PARAMETER_ERROR st"

fun js_IsPowerSaveMode :: "kit_env \<Rightarrow> js_value list \<Rightarrow> kit_state \<Rightarrow> js_result \<times> kit_state" where
  "js_IsPowerSaveMode E [JsNumber pid] st =
     (case OH_IsPowerSaveMode E pid st of
        (retCode, st1) \<Rightarrow>
          (if retCode \<noteq> 0 \<and> retCode \<noteq> 1 then JsReturn (JsNumber bpm_SUCCESS)
           else JsPromise (JsBool (retCode \<noteq> 0)), HandleErrorCode retCode st1))"
| "js_IsPowerSaveMode E argv st = js_refuse bpm_PARAMETER_ERROR st"

text \<open>The variable for the mode starts with an indeterminate value.\<close>

fun js_GetPowerSaveMode :: "kit_env \<Rightarrow> i32 \<Rightarrow> js_value list \<Rightarrow> kit_state \<Rightarrow> js_result \<times> kit_state" where
  "js_GetPowerSaveMode E indet [JsNumber pid] st =
     (case OH_GetPowerSaveMode E pid (Some indet) st of
        (retCode, processMode, st1) \<Rightarrow>
          (if retCode \<noteq> 0 then JsReturn (JsNumber bpm_SUCCESS)
           else JsPromise (JsNumber (case processMode of Some m \<Rightarrow> m | None \<Rightarrow> indet)), HandleErrorCode retCode st1))"
| "js_GetPowerSaveMode E indet argv st = js_refuse bpm_PARAMETER_ERROR st"

definition js_refuse_new :: "i32 \<Rightarrow> kit_state \<Rightarrow> js_result \<times> kit_state" where
  "js_refuse_new code st = (JsReturn (JsNumber code), HandleNewErrorCode code st)"

fun js_ClearBackgroundApps :: "kit_env \<Rightarrow> js_value list \<Rightarrow> kit_state \<Rightarrow> js_result \<times> kit_state" where
  "js_ClearBackgroundApps E [JsNumber clearType] st =
     (if clearType \<noteq> CLEAR_RECENT_CARDS then js_refuse_new bpm_PARAMETER_ERROR st
      else (case OH_ClearBackgroundApps E clearType st of
        (retCode, st1) \<Rightarrow> (JsReturn (JsNumber retCode), HandleNewErrorCode retCode st1)))"
| "js_ClearBackgroundApps E argv st = js_refuse_new bpm_PARAMETER_ERROR st"

text \<open>What the module exports: its functions by name, and the enumerations.\<close>

datatype js_function =
    FnSetProcessPriority | FnResetProcessPriority | FnSetPowerSaveMode
  | FnIsPowerSaveMode | FnGetPowerSaveMode | FnClearBackgroundApps

definition InitBackgroundProcessManagerApi :: "(string \<times> js_function) list" where
  "InitBackgroundProcessManagerApi =
     [(''setProcessPriority'', FnSetProcessPriority), (''resetProcessPriority'', FnResetProcessPriority),
      (''setPowerSaveMode'', FnSetPowerSaveMode), (''isPowerSaveMode'', FnIsPowerSaveMode),
      (''getPowerSaveMode'', FnGetPowerSaveMode), (''clearBackgroundApps'', FnClearBackgroundApps)]"

definition ProcessPriorityInit :: "(string \<times> (string \<times> i32) list) list" where
  "ProcessPriorityInit =
     [(''ProcessPriority'', [(''PROCESS_BACKGROUND'', bpm_PROCESS_BACKGROUND), (''PROCESS_INACTIVE'', bpm_PROCESS_INACTIVE)]),
      (''PowerSaveMode'', [(''EFFICIENCY_MODE'', EFFICIENCY_MODE), (''DEFAULT_MODE'', DEFAULT_MODE)]),
      (''ClearType'', [(''CLEAR_RECENT_CARDS'', CLEAR_RECENT_CARDS)])]"

definition js_run :: "kit_env \<Rightarrow> i32 \<Rightarrow> js_function \<Rightarrow> js_value list \<Rightarrow> kit_state \<Rightarrow> js_result \<times> kit_state" where
  "js_run E indet f argv st =
     (case f of
        FnSetProcessPriority \<Rightarrow> js_SetProcessPriority E argv st
      | FnResetProcessPriority \<Rightarrow> js_ResetProcessPriority E argv st
      | FnSetPowerSaveMode \<Rightarrow> js_SetPowerSaveMode E argv st
      | FnIsPowerSaveMode \<Rightarrow> js_IsPowerSaveMode E argv st
      | FnGetPowerSaveMode \<Rightarrow> js_GetPowerSaveMode E indet argv st
      | FnClearBackgroundApps \<Rightarrow> js_ClearBackgroundApps E argv st)"

section \<open>The ETS functions\<close>

definition GetErrCodeMsg :: "i32 \<Rightarrow> string" where
  "GetErrCodeMsg errorCode =
     (if errorCode = bpm_INVALID_PARAM then ''Parameter error. Possible causes: priority is out of range.''
      else if errorCode = bpm_PARAMETER_ERROR then ''Parameter error. Possible causes: priority is out of range.''
      else if errorCode = bpm_PERMISSION_DENIED then ''Permission denied.''
      else if errorCode = bpm_CAPABILITY_NOT_SUPPORTED then ''Capability not supported.''
      else if errorCode = bpm_SETUP_ERROR then ''This setting is overridden by setting in Task Manager.''
      else if errorCode = bpm_SYSTEM_SCHEDULING then ''The setting failed due to system scheduling reasons.''
      else [])"

definition set_business_error :: "i32 \<Rightarrow> kit_state \<Rightarrow> kit_state" where
  "set_business_error ret st = kit_emit (ThrowBusiness ret (GetErrCodeMsg ret)) st"

definition SetProcessPrioritySync :: "kit_env \<Rightarrow> i32 \<Rightarrow> i32 \<Rightarrow> kit_state \<Rightarrow> kit_state" where
  "SetProcessPrioritySync E pid priority st = snd (OH_SetProcessPriority E pid priority st)"

definition ResetProcessPrioritySync :: "kit_env \<Rightarrow> i32 \<Rightarrow> kit_state \<Rightarrow> kit_state" where
  "ResetProcessPrioritySync E pid st = snd (OH_ResetProcessPriority E pid st)"

definition SetPowerSaveModeSync :: "kit_env \<Rightarrow> i32 \<Rightarrow> i32 \<Rightarrow> kit_state \<Rightarrow> kit_state" where
  "SetPowerSaveModeSync E pid powerSaveMode st =
     (case OH_SetPowerSaveMode E pid powerSaveMode st of
        (ret, st1) \<Rightarrow> if ret \<noteq> bpm_SUCCESS then set_business_error ret st1 else st1)"

definition GetPowerSaveModeSync :: "kit_env \<Rightarrow> i32 \<Rightarrow> i32 \<Rightarrow> kit_state \<Rightarrow> i32 \<times> kit_state" where
  "GetPowerSaveModeSync E indet pid st =
     (case OH_GetPowerSaveMode E pid (Some indet) st of
        (ret, powerSaveMode, st1) \<Rightarrow>
          if ret \<noteq> bpm_SUCCESS then (EFFICIENCY_MODE, set_business_error ret st1)
          else (if powerSaveMode = Some DEFAULT_MODE then DEFAULT_MODE else EFFICIENCY_MODE, st1))"

definition IsPowerSaveModeSync :: "kit_env \<Rightarrow> i32 \<Rightarrow> kit_state \<Rightarrow> bool \<times> kit_state" where
  "IsPowerSaveModeSync E pid st =
     (case OH_IsPowerSaveMode E pid st of
        (ret, st1) \<Rightarrow> if ret \<noteq> 1 \<and> ret \<noteq> 0 then (False, set_business_error ret st1) else (ret \<noteq> 0, st1))"

end
