(* ===== verification/Systemload_Kit.thy ===== *)
theory Systemload_Kit
  imports App_Kit
begin

text \<open>
  The application kit for the system load: the JavaScript module
  (interfaces/kits/js/napi/systemload: js\_systemload.cpp, js\_systemload\_listener.cpp,
  js\_systemload\_napi\_init.cpp) and the ETS module (interfaces/kits/ets/taihe/systemload), over the
  client library.  A level that the client library receives reaches a JavaScript callback in three steps: the
  listener hands it to its own thread-safe function (\<open>tsQueue\<close> holds the calls with the listener
  they belong to), the JavaScript thread takes the next call of any of the functions, looks the
  callback up and sends itself an event (\<open>jsQueue\<close>), and the event, in any order with others,
  calls the callback.  Listeners
  are numbered in the order they are made; whether the engine accepts a call is a parameter.
\<close>

section \<open>JavaScript\<close>

definition js_SYSTEMLOAD_LEVEL :: string where "js_SYSTEMLOAD_LEVEL = ''systemLoadChange''"
definition ARG_COUNT_TWO :: nat where "ARG_COUNT_TWO = 2"
definition E_PARAM_ERROR :: i32 where "E_PARAM_ERROR = 401"

definition systemloadParamErrMsgMap :: "(i32 \<times> string) list" where
  "systemloadParamErrMsgMap = [(E_PARAM_ERROR, ''Error 401: Parameter error. The input param is error'')]"

datatype load_out =
    CallJs js_value u32
  | LoadThrow string string
  | ResolveLevel u32

record load_env =
  le_client :: rc_env
  le_world :: connect_world
  le_level :: "i32 option"
  le_tsfn_ok :: bool
  le_send_ok :: bool

record load_state =
  ls_client :: rc_state
  jsCallBackMap :: "(string \<times> (js_value \<times> nat) list) list"
  ls_next :: nat
  ls_callback :: "(nat \<times> js_value) list"
  ls_threads :: "(nat \<times> nat) list"
  tsQueue :: "(nat \<times> js_value \<times> i32) list"
  jsQueue :: "(js_value \<times> i32) list"
  ls_outs :: "load_out list"

definition load_new :: "rc_state \<Rightarrow> load_state" where
  "load_new c = \<lparr>ls_client = c, jsCallBackMap = [], ls_next = 0, ls_callback = [], ls_threads = [], tsQueue = [],
     jsQueue = [], ls_outs = []\<rparr>"

definition load_emit :: "load_out \<Rightarrow> load_state \<Rightarrow> load_state" where
  "load_emit out st = st\<lparr>ls_outs := ls_outs st @ [out]\<rparr>"

definition HandleErrCode :: "i32 \<Rightarrow> load_state \<Rightarrow> load_state" where
  "HandleErrCode errCode st =
     (if errCode = 0 then st
      else load_emit (LoadThrow (to_string errCode)
             (case map_of systemloadParamErrMsgMap errCode of None \<Rightarrow> [] | Some msg \<Rightarrow> msg)) st)"

text \<open>The arguments; the missing ones are undefined.  Turning a callback off does not require one.\<close>

definition js_arg :: "js_value list \<Rightarrow> nat \<Rightarrow> js_value" where
  "js_arg args i = (if i < length args then args ! i else JsUndefined)"

definition CheckCallbackParam :: "js_value list \<Rightarrow> bool \<Rightarrow> (string \<times> js_value) option" where
  "CheckCallbackParam args on =
     (if on \<and> length args \<noteq> ARG_COUNT_TWO then None
      else (case js_arg args 0 of
          JsString cbType \<Rightarrow>
            if cbType \<noteq> js_SYSTEMLOAD_LEVEL then None
            else if on \<and> \<not> (case js_arg args 1 of JsFunction _ \<Rightarrow> True | _ \<Rightarrow> False) then None
            else Some (cbType, js_arg args 1)
        | _ \<Rightarrow> None))"

definition callbacks_at :: "string \<Rightarrow> load_state \<Rightarrow> (js_value \<times> nat) list" where
  "callbacks_at cbType st = (case map_of (jsCallBackMap st) cbType of None \<Rightarrow> [] | Some l \<Rightarrow> l)"

text \<open>A new listener holds the callback and a thread-safe function with one thread.\<close>

definition new_listener :: "js_value \<Rightarrow> load_state \<Rightarrow> nat \<times> load_state" where
  "new_listener jsCallback st =
     (ls_next st, st\<lparr>ls_next := Suc (ls_next st), ls_callback := (ls_next st, jsCallback) # ls_callback st,
        ls_threads := AList.update (ls_next st) 1 (ls_threads st)\<rparr>)"

definition RegisterSystemloadCallback :: "load_env \<Rightarrow> js_value list \<Rightarrow> load_state \<Rightarrow> load_state" where
  "RegisterSystemloadCallback E args st =
     (case CheckCallbackParam args True of
        None \<Rightarrow> HandleErrCode E_PARAM_ERROR st
      | Some (cbType, jsCallback) \<Rightarrow>
          (let st1 = (if map_of (jsCallBackMap st) cbType = None
                      then st\<lparr>jsCallBackMap := AList.update cbType [] (jsCallBackMap st)\<rparr> else st);
               callbackList = callbacks_at cbType st1
           in if jsCallback \<in> fst ` set callbackList then st1
              else (case new_listener jsCallback st1 of
                  (systemloadListener, st2) \<Rightarrow>
                    st2\<lparr>ls_client := rc_RegisterSystemloadNotifier (le_client E) (le_world E)
                            (Some systemloadListener) (ls_client st2),
                        jsCallBackMap := AList.update cbType (callbackList @ [(jsCallback, systemloadListener)])
                            (jsCallBackMap st2)\<rparr>)))"

definition UnRegisterSystemloadCallback :: "load_env \<Rightarrow> js_value list \<Rightarrow> load_state \<Rightarrow> load_state" where
  "UnRegisterSystemloadCallback E args st =
     (case CheckCallbackParam args False of
        None \<Rightarrow> HandleErrCode E_PARAM_ERROR st
      | Some (cbType, jsCallback) \<Rightarrow>
          (case map_of (jsCallBackMap st) cbType of
             None \<Rightarrow> HandleErrCode E_PARAM_ERROR st
           | Some callbackList \<Rightarrow>
               (case map_of callbackList jsCallback of
                  None \<Rightarrow> HandleErrCode E_PARAM_ERROR st
                | Some listener \<Rightarrow>
                    st\<lparr>ls_client := rc_UnRegisterSystemloadNotifier (Some listener) (ls_client st),
                       jsCallBackMap := AList.update cbType
                         (erase_first (\<lambda>p. fst p = jsCallback) callbackList) (jsCallBackMap st)\<rparr>)))"

definition GetSystemloadLevel :: "load_env \<Rightarrow> load_state \<Rightarrow> load_state" where
  "GetSystemloadLevel E st =
     (case rc_GetSystemloadLevel (le_client E) (le_world E) (le_level E) (ls_client st) of
        (level, c) \<Rightarrow> load_emit (ResolveLevel (word_of_int level)) (st\<lparr>ls_client := c\<rparr>))"

text \<open>
  The listener, on a thread of the client library.  The function is acquired for each level; only
  when the call fails is it released.
\<close>

definition listener_OnSystemloadLevel :: "load_env \<Rightarrow> i32 \<Rightarrow> nat \<Rightarrow> load_state \<Rightarrow> load_state" where
  "listener_OnSystemloadLevel E level listener st =
     (case map_of (ls_callback st) listener of
        None \<Rightarrow> st
      | Some cb \<Rightarrow>
          if le_tsfn_ok E
          then st\<lparr>ls_threads := AList.update listener
                     (Suc (case map_of (ls_threads st) listener of None \<Rightarrow> 0 | Some n \<Rightarrow> n)) (ls_threads st),
                  tsQueue := tsQueue st @ [(listener, cb, level)]\<rparr>
          else st)"

definition js_OnLevel :: "load_env \<Rightarrow> i32 \<Rightarrow> load_state \<Rightarrow> load_state" where
  "js_OnLevel E level st =
     fold (listener_OnSystemloadLevel E level) (load_cbs (ls_client st))
       (st\<lparr>ls_client := OnSystemloadLevel level (ls_client st)\<rparr>)"

text \<open>The JavaScript thread takes the next call of the function of a listener, or an event.\<close>

definition Systemload_OnSystemloadLevel :: "load_env \<Rightarrow> js_value \<Rightarrow> i32 \<Rightarrow> load_state \<Rightarrow> load_state" where
  "Systemload_OnSystemloadLevel E callbackObj level st =
     (if callbackObj \<in> fst ` set (callbacks_at js_SYSTEMLOAD_LEVEL st) \<and> le_send_ok E
      then st\<lparr>jsQueue := jsQueue st @ [(callbackObj, level)]\<rparr> else st)"

definition ThreadSafeCallBack :: "load_env \<Rightarrow> nat \<Rightarrow> load_state \<Rightarrow> load_state" where
  "ThreadSafeCallBack E listener st =
     (case map_of (tsQueue st) listener of
        None \<Rightarrow> st
      | Some (cb, level) \<Rightarrow>
          Systemload_OnSystemloadLevel E cb level
            (st\<lparr>tsQueue := erase_first (\<lambda>p. fst p = listener) (tsQueue st)\<rparr>))"

definition CompleteCb :: "nat \<Rightarrow> load_state \<Rightarrow> load_state" where
  "CompleteCb k st =
     (if k < length (jsQueue st)
      then (case jsQueue st ! k of
          (cb, level) \<Rightarrow> load_emit (CallJs cb (word_of_int level))
            (st\<lparr>jsQueue := take k (jsQueue st) @ drop (Suc k) (jsQueue st)\<rparr>))
      else st)"

definition InitSystemloadLevelType :: "(string \<times> u32) list" where
  "InitSystemloadLevelType =
     [(''LOW'', 0), (''NORMAL'', 1), (''MEDIUM'', 2), (''HIGH'', 3), (''OVERHEATED'', 4), (''WARNING'', 5),
      (''EMERGENCY'', 6), (''ESCAPE'', 7)]"

section \<open>ETS\<close>

text \<open>Here the listener calls the callback on the thread of the client library.\<close>

record ets_state =
  ets_client :: rc_state
  callbackList :: "(nat \<times> nat) list"
  ets_next :: nat
  ets_callback :: "(nat \<times> nat) list"
  ets_calls :: "(nat \<times> i32) list"

definition onSystemLoadChange :: "load_env \<Rightarrow> nat \<Rightarrow> ets_state \<Rightarrow> ets_state" where
  "onSystemLoadChange E callback st =
     (if callback \<in> fst ` set (callbackList st) then st
      else st\<lparr>ets_next := Suc (ets_next st), ets_callback := (ets_next st, callback) # ets_callback st,
              ets_client := rc_RegisterSystemloadNotifier (le_client E) (le_world E) (Some (ets_next st)) (ets_client st),
              callbackList := callbackList st @ [(callback, ets_next st)]\<rparr>)"

definition offSystemLoadChange :: "nat option \<Rightarrow> ets_state \<Rightarrow> ets_state" where
  "offSystemLoadChange callback st =
     (case callback of
        None \<Rightarrow> st
      | Some cb \<Rightarrow>
          (case map_of (callbackList st) cb of
             None \<Rightarrow> st
           | Some listener \<Rightarrow>
               st\<lparr>ets_client := rc_UnRegisterSystemloadNotifier (Some listener) (ets_client st),
                  callbackList := erase_first (\<lambda>p. fst p = cb) (callbackList st)\<rparr>))"

definition getLevelSync :: "load_env \<Rightarrow> ets_state \<Rightarrow> i32 \<times> ets_state" where
  "getLevelSync E st =
     (case rc_GetSystemloadLevel (le_client E) (le_world E) (le_level E) (ets_client st) of
        (level, c) \<Rightarrow> (level, st\<lparr>ets_client := c\<rparr>))"

definition SystemloadCallback_OnSystemloadLevel :: "i32 \<Rightarrow> nat \<Rightarrow> ets_state \<Rightarrow> ets_state" where
  "SystemloadCallback_OnSystemloadLevel level listener st =
     (case map_of (ets_callback st) listener of
        None \<Rightarrow> st | Some cb \<Rightarrow> st\<lparr>ets_calls := ets_calls st @ [(cb, level)]\<rparr>)"

definition ets_OnLevel :: "i32 \<Rightarrow> ets_state \<Rightarrow> ets_state" where
  "ets_OnLevel level st =
     fold (SystemloadCallback_OnSystemloadLevel level) (load_cbs (ets_client st))
       (st\<lparr>ets_client := OnSystemloadLevel level (ets_client st)\<rparr>)"

end
