(* ===== verification/Systemload_Props.thy ===== *)
theory Systemload_Props
  imports Systemload_Kit "HOL-Library.Multiset" "HOL-Library.Sublist"
begin

text \<open>
  What the system load kit guarantees: the callbacks of the application are the listeners the client
  library holds, one each, and a level that the client library receives calls every one of them
  once, however the JavaScript thread is scheduled; and what it does not: a callback can be called after it was removed.
\<close>

section \<open>The client library\<close>

lemma load_cbs_emit [simp]: "load_cbs (rc_emit out c) = load_cbs c"
  by (simp add: load_cbs_def rc_emit_def)

lemma load_cbs_fold [simp]: "load_cbs (fold (\<lambda>x. rc_emit (f x)) xs c) = load_cbs c"
  by (induction xs arbitrary: c) auto

lemma load_cbs_level [simp]: "load_cbs (OnSystemloadLevel level c) = load_cbs c"
  by (simp add: OnSystemloadLevel_def split: option.split)

lemma load_cbs_AddRes [simp]: "load_cbs (AddResSaListenerLocked E w c) = load_cbs c"
  by (auto simp: AddResSaListenerLocked_def load_cbs_def rc_emit_def)

lemma load_cbs_RegisterLoad [simp]: "load_cbs (RegisterLoadLocked c) = load_cbs c"
  by (auto simp: RegisterLoadLocked_def load_cbs_def rc_emit_def)

lemma load_cbs_register [simp]:
  "load_cbs (rc_RegisterSystemloadNotifier E w (Some i) c) = (if i \<in> set (load_cbs c) then load_cbs c else load_cbs c @ [i])"
  by (simp add: rc_RegisterSystemloadNotifier_def RegisterSystemloadLevelCb_def) (simp add: load_cbs_def)

lemma load_cbs_unregister [simp]:
  "load_cbs (rc_UnRegisterSystemloadNotifier (Some i) c) = removeAll i (load_cbs c)"
  by (auto simp: rc_UnRegisterSystemloadNotifier_def UnRegisterSystemloadLevelCb_def Let_def load_cbs_def rc_emit_def
    split: option.split)

lemma load_cbs_connect [simp]: "load_cbs (snd (rc_TryConnect E w c)) = load_cbs c"
  by (auto simp: rc_TryConnect_def ReportConnectError_def load_cbs_def rc_emit_def AddResSaListenerLocked_def
    split: connect_world.split)

lemma load_cbs_GetLevel [simp]: "load_cbs (snd (rc_GetSystemloadLevel E w a c)) = load_cbs c"
  using load_cbs_connect [of E w c] by (cases "rc_TryConnect E w c") (simp add: rc_GetSystemloadLevel_def)

section \<open>Lists of callbacks\<close>

lemma erase_key:
  "distinct (map fst l) \<Longrightarrow> erase_first (\<lambda>p. fst p = k) l = filter (\<lambda>p. fst p \<noteq> k) l"
  by (rule erase_first_filter) (auto simp: distinct_map inj_on_def)

lemma snd_without_key:
  "distinct (map fst l) \<Longrightarrow> distinct (map snd l) \<Longrightarrow> map_of l k = Some v \<Longrightarrow>
   map snd (filter (\<lambda>p. fst p \<noteq> k) l) = removeAll v (map snd l)"
proof (induction l)
  case Nil
  then show ?case by simp
next
  case (Cons p l)
  show ?case
  proof (cases "fst p = k")
    case True
    then have "k \<notin> fst ` set l" "snd p = v" using Cons.prems by (auto split: if_splits)
    moreover have "filter (\<lambda>p. fst p \<noteq> k) l = l" using calculation(1) by (auto simp: filter_id_conv)
    moreover have "v \<notin> set (map snd l)" using Cons.prems calculation(2) by auto
    ultimately show ?thesis using True by (simp add: removeAll_id)
  next
    case False
    then have "map_of l k = Some v" using Cons.prems(3) by (cases p) (auto split: if_splits)
    moreover from this have "snd p \<noteq> v"
      using Cons.prems(2) by (metis distinct.simps(2) image_eqI list.simps(9) list.set_map map_of_SomeD snd_conv)
    ultimately show ?thesis using Cons False by simp
  qed
qed

section \<open>One listener for each callback\<close>

definition load_ok :: "load_state \<Rightarrow> bool" where
  "load_ok st \<longleftrightarrow>
     (let l = callbacks_at js_SYSTEMLOAD_LEVEL st in
      load_cbs (ls_client st) = map snd l \<and> distinct (map fst l) \<and> distinct (map snd l) \<and>
      (\<forall>(cb, i) \<in> set l. i < ls_next st \<and> map_of (ls_callback st) i = Some cb))"

lemma load_okD:
  assumes "load_ok st"
  shows "load_cbs (ls_client st) = map snd (callbacks_at js_SYSTEMLOAD_LEVEL st)"
    "distinct (map fst (callbacks_at js_SYSTEMLOAD_LEVEL st))" "distinct (map snd (callbacks_at js_SYSTEMLOAD_LEVEL st))"
    "(cb, i) \<in> set (callbacks_at js_SYSTEMLOAD_LEVEL st) \<Longrightarrow> i < ls_next st \<and> map_of (ls_callback st) i = Some cb"
  using assms by (auto simp: load_ok_def Let_def)

lemma load_ok_frame:
  assumes "load_ok st" "jsCallBackMap st1 = jsCallBackMap st" "load_cbs (ls_client st1) = load_cbs (ls_client st)"
    "ls_next st1 = ls_next st" "ls_callback st1 = ls_callback st"
  shows "load_ok st1"
  using assms by (simp add: load_ok_def callbacks_at_def)

lemma check_type: "CheckCallbackParam args on = Some (t, cb) \<Longrightarrow> t = js_SYSTEMLOAD_LEVEL"
  by (auto simp: CheckCallbackParam_def split: if_splits js_value.splits)

lemma load_emit_fields [simp]:
  "jsCallBackMap (load_emit out st) = jsCallBackMap st" "ls_client (load_emit out st) = ls_client st"
  "ls_next (load_emit out st) = ls_next st" "ls_callback (load_emit out st) = ls_callback st"
  by (simp_all add: load_emit_def)

lemma load_ok_throw: "load_ok st \<Longrightarrow> load_ok (HandleErrCode c st)"
  by (rule load_ok_frame [of st]) (simp_all add: HandleErrCode_def)

lemma load_register_ok: "load_ok st \<Longrightarrow> load_ok (RegisterSystemloadCallback E args st)"
proof (cases "CheckCallbackParam args True")
  case None
  then show "load_ok st \<Longrightarrow> ?thesis" by (simp add: RegisterSystemloadCallback_def load_ok_throw)
next
  case (Some a)
  then obtain cb where a: "CheckCallbackParam args True = Some (js_SYSTEMLOAD_LEVEL, cb)"
    using check_type by (cases a) blast
  let ?l = "callbacks_at js_SYSTEMLOAD_LEVEL st"
  assume ok: "load_ok st"
  have fresh: "ls_next st \<notin> set (map snd ?l)"
  proof
    assume "ls_next st \<in> set (map snd ?l)"
    then obtain c where "(c, ls_next st) \<in> set ?l" by auto
    from load_okD(4) [OF ok this] show False by simp
  qed
  show ?thesis
  proof (cases "cb \<in> fst ` set ?l")
    case True
    then have "?l \<noteq> []" by auto
    then have "map_of (jsCallBackMap st) js_SYSTEMLOAD_LEVEL \<noteq> None" by (auto simp: callbacks_at_def split: option.splits)
    then have "RegisterSystemloadCallback E args st = st"
      using True a by (auto simp: RegisterSystemloadCallback_def Let_def)
    then show ?thesis using ok by simp
  next
    case False
    have l: "callbacks_at js_SYSTEMLOAD_LEVEL (if map_of (jsCallBackMap st) js_SYSTEMLOAD_LEVEL = None
        then st\<lparr>jsCallBackMap := AList.update js_SYSTEMLOAD_LEVEL [] (jsCallBackMap st)\<rparr> else st) = ?l"
      by (auto simp: callbacks_at_def update_conv')
    let ?st = "RegisterSystemloadCallback E args st"
    have "callbacks_at js_SYSTEMLOAD_LEVEL ?st = ?l @ [(cb, ls_next st)]"
      and "load_cbs (ls_client ?st) = load_cbs (ls_client st) @ [ls_next st]"
      and "ls_next ?st = Suc (ls_next st)" and "ls_callback ?st = (ls_next st, cb) # ls_callback st"
      using False a l fresh load_okD(1) [OF ok]
      by (simp_all add: RegisterSystemloadCallback_def new_listener_def Let_def)
        (simp_all add: callbacks_at_def update_conv')
    then show ?thesis
      using ok False fresh by (auto simp: load_ok_def Let_def less_SucI dest: less_imp_neq)
  qed
qed

lemma unregister_load_ok: "load_ok st \<Longrightarrow> load_ok (UnRegisterSystemloadCallback E args st)"
proof (cases "CheckCallbackParam args False")
  case None
  then show "load_ok st \<Longrightarrow> ?thesis" by (simp add: UnRegisterSystemloadCallback_def load_ok_throw)
next
  case (Some a)
  then obtain cb where a: "CheckCallbackParam args False = Some (js_SYSTEMLOAD_LEVEL, cb)"
    using check_type by (cases a) blast
  let ?l = "callbacks_at js_SYSTEMLOAD_LEVEL st"
  assume ok: "load_ok st"
  show ?thesis
  proof (cases "map_of ?l cb")
    case None
    then show ?thesis using a ok
      by (auto simp: UnRegisterSystemloadCallback_def callbacks_at_def load_ok_throw split: option.splits)
  next
    case (Some i)
    then have m: "map_of (jsCallBackMap st) js_SYSTEMLOAD_LEVEL = Some ?l" by (auto simp: callbacks_at_def split: option.splits)
    let ?st = "UnRegisterSystemloadCallback E args st"
    have st: "?st = st\<lparr>ls_client := rc_UnRegisterSystemloadNotifier (Some i) (ls_client st),
        jsCallBackMap := AList.update js_SYSTEMLOAD_LEVEL (filter (\<lambda>p. fst p \<noteq> cb) ?l) (jsCallBackMap st)\<rparr>"
      by (simp add: UnRegisterSystemloadCallback_def a m Some erase_key [OF load_okD(2) [OF ok]])
    have "callbacks_at js_SYSTEMLOAD_LEVEL ?st = filter (\<lambda>p. fst p \<noteq> cb) ?l"
      unfolding st by (subst callbacks_at_def) (simp add: update_conv')
    moreover have "load_cbs (ls_client ?st) = removeAll i (load_cbs (ls_client st))"
      and "ls_next ?st = ls_next st" "ls_callback ?st = ls_callback st"
      by (simp_all add: st)
    ultimately show ?thesis
      using ok snd_without_key [OF load_okD(2,3) [OF ok] Some]
      by (auto simp: load_ok_def Let_def distinct_map_filter distinct_removeAll)
  qed
qed

lemma listener_frame [simp]:
  "jsCallBackMap (listener_OnSystemloadLevel E level i st) = jsCallBackMap st"
  "ls_client (listener_OnSystemloadLevel E level i st) = ls_client st"
  "ls_next (listener_OnSystemloadLevel E level i st) = ls_next st"
  "ls_callback (listener_OnSystemloadLevel E level i st) = ls_callback st"
  by (simp_all add: listener_OnSystemloadLevel_def split: option.split)

lemma listeners_frame [simp]:
  "jsCallBackMap (fold (listener_OnSystemloadLevel E level) is st) = jsCallBackMap st"
  "ls_client (fold (listener_OnSystemloadLevel E level) is st) = ls_client st"
  "ls_next (fold (listener_OnSystemloadLevel E level) is st) = ls_next st"
  "ls_callback (fold (listener_OnSystemloadLevel E level) is st) = ls_callback st"
  by (induction "is" arbitrary: st) simp_all

inductive load_reachable :: "load_state \<Rightarrow> bool" where
  start: "load_cbs c = [] \<Longrightarrow> load_reachable (load_new c)"
| on: "load_reachable st \<Longrightarrow> load_reachable (RegisterSystemloadCallback E args st)"
| off: "load_reachable st \<Longrightarrow> load_reachable (UnRegisterSystemloadCallback E args st)"
| getLevel: "load_reachable st \<Longrightarrow> load_reachable (GetSystemloadLevel E st)"
| level: "load_reachable st \<Longrightarrow> load_reachable (js_OnLevel E lv st)"
| call: "load_reachable st \<Longrightarrow> load_reachable (ThreadSafeCallBack E i st)"
| event: "load_reachable st \<Longrightarrow> load_reachable (CompleteCb k st)"
| client: "load_reachable st \<Longrightarrow> load_cbs c = load_cbs (ls_client st) \<Longrightarrow> load_reachable (st\<lparr>ls_client := c\<rparr>)"

lemma load_reachable_ok: "load_reachable st \<Longrightarrow> load_ok st"
proof (induction rule: load_reachable.induct)
  case (start c)
  then show ?case by (simp add: load_ok_def load_new_def callbacks_at_def)
next
  case (on st E args)
  then show ?case by (simp add: load_register_ok)
next
  case (off st E args)
  then show ?case by (simp add: unregister_load_ok)
next
  case (getLevel st E)
  show ?case
    by (rule load_ok_frame [OF getLevel.IH]) (simp_all add: GetSystemloadLevel_def case_prod_beta)
next
  case (level st E lv)
  show ?case by (rule load_ok_frame [OF level.IH]) (simp_all add: js_OnLevel_def)
next
  case (call st E i)
  show ?case
    by (rule load_ok_frame [OF call.IH])
      (simp_all add: ThreadSafeCallBack_def Systemload_OnSystemloadLevel_def split: option.split prod.split)
next
  case (event st k)
  show ?case by (rule load_ok_frame [OF event.IH]) (simp_all add: CompleteCb_def split: prod.split)
next
  case (client st c)
  show ?case by (rule load_ok_frame [OF client.IH]) (simp_all add: client.hyps)
qed

section \<open>A level reaches the callbacks\<close>

lemma listeners_queue:
  assumes "le_tsfn_ok E" "\<forall>(cb, i) \<in> set l. map_of (ls_callback st) i = Some cb"
  shows "tsQueue (fold (listener_OnSystemloadLevel E level) (map snd l) st) =
      tsQueue st @ map (\<lambda>p. (snd p, fst p, level)) l"
    "jsQueue (fold (listener_OnSystemloadLevel E level) (map snd l) st) = jsQueue st"
    "ls_outs (fold (listener_OnSystemloadLevel E level) (map snd l) st) = ls_outs st"
  using assms(2)
  by (induction l arbitrary: st) (auto simp: listener_OnSystemloadLevel_def assms(1) split: prod.splits)

text \<open>The turns of the JavaScript thread: a call of a thread-safe function, or an event.\<close>

inductive load_turn :: "load_env \<Rightarrow> load_state \<Rightarrow> load_state \<Rightarrow> bool" for E where
  call: "map_of (tsQueue st) i \<noteq> None \<Longrightarrow> load_turn E st (ThreadSafeCallBack E i st)"
| event: "k < length (jsQueue st) \<Longrightarrow> load_turn E st (CompleteCb k st)"

definition load_idle :: "load_state \<Rightarrow> bool" where
  "load_idle st \<longleftrightarrow> tsQueue st = [] \<and> jsQueue st = []"

lemma turn_possible: "\<not> load_idle st \<Longrightarrow> \<exists>st'. load_turn E st st'"
proof (cases "jsQueue st")
  case Nil
  moreover assume "\<not> load_idle st"
  ultimately obtain p q where "tsQueue st = p # q" by (cases "tsQueue st") (auto simp: load_idle_def)
  then have "map_of (tsQueue st) (fst p) \<noteq> None" by (cases p) simp
  then show ?thesis by (blast intro: load_turn.call)
next
  case (Cons e q)
  then show ?thesis using load_turn.event [of 0 st E] by auto
qed

lemma erase_first_mset:
  "map_of q i = Some v \<Longrightarrow> mset q = add_mset (i, v) (mset (erase_first (\<lambda>p. fst p = i) q))"
  by (induction q) (auto split: if_splits)

lemma take_drop_mset: "k < length q \<Longrightarrow> mset q = add_mset (q ! k) (mset (take k q @ drop (Suc k) q))"
  using arg_cong [OF id_take_nth_drop [of k q], of mset] by simp

definition js_call :: "js_value \<times> i32 \<Rightarrow> load_out" where
  "js_call e = CallJs (fst e) (word_of_int (snd e))"

text \<open>What is still to be called, in the functions, in the events, and what was called since \<open>outs0\<close>.\<close>

definition under_way :: "load_out list \<Rightarrow> load_state \<Rightarrow> load_out multiset" where
  "under_way outs0 st = image_mset (js_call \<circ> snd) (mset (tsQueue st)) + image_mset js_call (mset (jsQueue st)) +
     mset (drop (length outs0) (ls_outs st))"

definition load_measure :: "load_state \<Rightarrow> nat" where
  "load_measure st = 2 * length (tsQueue st) + length (jsQueue st)"

definition turn_inv :: "load_out list \<Rightarrow> load_state \<Rightarrow> bool" where
  "turn_inv outs0 st \<longleftrightarrow> prefix outs0 (ls_outs st) \<and>
     (\<forall>p \<in> set (tsQueue st). fst (snd p) \<in> fst ` set (callbacks_at js_SYSTEMLOAD_LEVEL st))"

lemma turn_call:
  assumes "map_of (tsQueue st) i = Some (cb, level)" "cb \<in> fst ` set (callbacks_at js_SYSTEMLOAD_LEVEL st)"
    and "le_send_ok E"
  shows "ThreadSafeCallBack E i st =
    st\<lparr>tsQueue := erase_first (\<lambda>p. fst p = i) (tsQueue st), jsQueue := jsQueue st @ [(cb, level)]\<rparr>"
  using assms by (auto simp: ThreadSafeCallBack_def Systemload_OnSystemloadLevel_def callbacks_at_def)

lemma turn_keeps:
  assumes "load_turn E st st'" "le_send_ok E" "turn_inv outs0 st"
  shows "turn_inv outs0 st' \<and> under_way outs0 st' = under_way outs0 st \<and> Suc (load_measure st') = load_measure st"
  using assms(1)
proof cases
  case (call i)
  then obtain cb level where i: "map_of (tsQueue st) i = Some (cb, level)" by auto
  let ?q = "erase_first (\<lambda>p. fst p = i) (tsQueue st)"
  note m = erase_first_mset [OF i]
  have "(i, cb, level) \<in> set (tsQueue st)" using i by (rule map_of_SomeD)
  then have "cb \<in> fst ` set (callbacks_at js_SYSTEMLOAD_LEVEL st)" using assms(3) by (force simp: turn_inv_def)
  then have st': "st' = st\<lparr>tsQueue := ?q, jsQueue := jsQueue st @ [(cb, level)]\<rparr>"
    using call turn_call [OF i _ assms(2)] by simp
  have "set ?q \<subseteq> set (tsQueue st)" using arg_cong [OF m, of set_mset] by auto
  moreover have "length (tsQueue st) = Suc (length ?q)" using arg_cong [OF m, of size] by simp
  ultimately show ?thesis
    using assms(3) by (auto simp: turn_inv_def under_way_def load_measure_def st' m callbacks_at_def)
next
  case (event k)
  obtain cb level where e: "jsQueue st ! k = (cb, level)" by fastforce
  let ?q = "take k (jsQueue st) @ drop (Suc k) (jsQueue st)"
  note m = take_drop_mset [OF event(2)]
  have st': "st' = st\<lparr>jsQueue := ?q, ls_outs := ls_outs st @ [js_call (cb, level)]\<rparr>"
    using event e by (simp add: CompleteCb_def load_emit_def js_call_def)
  have "length (jsQueue st) = Suc (length ?q)" using event(2) by simp
  moreover have "length outs0 \<le> length (ls_outs st)"
    using assms(3) by (auto simp: turn_inv_def dest: prefix_length_le)
  ultimately show ?thesis
    using assms(3) m by (simp add: turn_inv_def under_way_def load_measure_def st' e callbacks_at_def)
qed

lemma turns_keep:
  "(load_turn E ^^ k) st st' \<Longrightarrow> le_send_ok E \<Longrightarrow> turn_inv outs0 st \<Longrightarrow>
   turn_inv outs0 st' \<and> under_way outs0 st' = under_way outs0 st \<and> load_measure st' + k = load_measure st"
proof (induction k arbitrary: st')
  case (Suc k)
  then obtain s where "(load_turn E ^^ k) st s" "load_turn E s st'" by (auto elim: relpowp_Suc_E)
  with Suc.IH [OF this(1) Suc.prems(2,3)] turn_keeps [OF this(2) Suc.prems(2)] show ?case by force
qed simp

text \<open>
  C25. From the client library to JavaScript: in every reachable state with nothing under way, and
  when the engine takes the calls and events, a level that the client library receives calls each
  callback the application has registered exactly once, with the level, in whatever order the
  JavaScript thread takes the calls of the listeners and the events: with \<open>n\<close> callbacks it has a
  turn to take until it has taken \<open>2 * n\<close>, and then nothing is left and each has been called.
\<close>

theorem level_calls_each_callback_once:
  assumes reachable: "load_reachable st" and idle: "load_idle st"
    and engine: "le_tsfn_ok E" "le_send_ok E"
    and n: "n = length (callbacks_at js_SYSTEMLOAD_LEVEL st)"
    and run: "(load_turn E ^^ k) (js_OnLevel E level st) st'"
  shows "k \<le> 2 * n \<and> (k < 2 * n \<longrightarrow> (\<exists>st''. load_turn E st' st'')) \<and>
    (k = 2 * n \<longrightarrow> load_idle st' \<and>
      (\<exists>calls. ls_outs st' = ls_outs st @ calls \<and>
        mset calls = mset (map (\<lambda>(cb, i). CallJs cb (word_of_int level)) (callbacks_at js_SYSTEMLOAD_LEVEL st)))) \<and>
    distinct (map fst (callbacks_at js_SYSTEMLOAD_LEVEL st))"
proof -
  let ?l = "callbacks_at js_SYSTEMLOAD_LEVEL st" and ?c = "st\<lparr>ls_client := OnSystemloadLevel level (ls_client st)\<rparr>"
  let ?st1 = "js_OnLevel E level st"
  note ok = load_reachable_ok [OF reachable]
  have known: "\<forall>(cb, i) \<in> set ?l. map_of (ls_callback ?c) i = Some cb" using load_okD(4) [OF ok] by auto
  have st1: "?st1 = fold (listener_OnSystemloadLevel E level) (map snd ?l) ?c"
    by (simp add: js_OnLevel_def load_okD(1) [OF ok])
  have q1: "tsQueue ?st1 = map (\<lambda>p. (snd p, fst p, level)) ?l" "jsQueue ?st1 = []" "ls_outs ?st1 = ls_outs st"
    unfolding st1 using listeners_queue [OF engine(1) known] idle by (simp_all add: load_idle_def)
  have l1: "callbacks_at js_SYSTEMLOAD_LEVEL ?st1 = ?l" by (simp add: st1 callbacks_at_def)
  have "turn_inv (ls_outs st) ?st1" by (auto simp: turn_inv_def q1 l1)
  from turns_keep [OF run engine(2) this] have inv: "turn_inv (ls_outs st) st'"
    "under_way (ls_outs st) st' = under_way (ls_outs st) ?st1" "load_measure st' + k = 2 * n"
    by (simp_all add: load_measure_def q1 n)
  have calls: "under_way (ls_outs st) ?st1 = mset (map (\<lambda>(cb, i). CallJs cb (word_of_int level)) ?l)"
  proof -
    have "(\<lambda>(cb, i). CallJs cb (word_of_int level)) = (\<lambda>p::js_value \<times> nat. CallJs (fst p) (word_of_int level))" by auto
    then show ?thesis by (simp add: under_way_def q1 js_call_def comp_def image_mset.compositionality)
  qed
  have "load_idle st'" if "k = 2 * n" using inv(3) that by (simp add: load_measure_def load_idle_def)
  moreover have "\<exists>calls. ls_outs st' = ls_outs st @ calls \<and> mset calls = under_way (ls_outs st) ?st1" if "load_idle st'"
    using inv(1,2) that by (auto simp: turn_inv_def under_way_def load_idle_def prefix_def)
  moreover have "\<exists>st''. load_turn E st' st''" if "k < 2 * n"
    by (rule turn_possible) (use inv(3) that in \<open>auto simp: load_idle_def load_measure_def\<close>)
  ultimately show ?thesis using inv(3) load_okD(2) [OF ok] calls by auto
qed

definition demo_load_env :: load_env where
  "demo_load_env = \<lparr>le_client = demo_rx, le_world = Reachable, le_level = Some 3, le_tsfn_ok = True, le_send_ok = True\<rparr>"

definition demo_load :: load_state where
  "demo_load =
     RegisterSystemloadCallback demo_load_env [JsString js_SYSTEMLOAD_LEVEL, JsFunction 8]
       (RegisterSystemloadCallback demo_load_env [JsString js_SYSTEMLOAD_LEVEL, JsFunction 9] (load_new rc_new))"

lemma demo_load_facts:
  "load_reachable demo_load" "tsQueue demo_load = []" "jsQueue demo_load = []" "ls_outs demo_load = []"
  "callbacks_at js_SYSTEMLOAD_LEVEL demo_load = [(JsFunction 9, 0), (JsFunction 8, 1)]"
proof -
  show "load_reachable demo_load"
    unfolding demo_load_def by (intro on start) (simp add: load_cbs_def rc_new_def)
qed (simp_all add: demo_load_def RegisterSystemloadCallback_def CheckCallbackParam_def js_arg_def ARG_COUNT_TWO_def
    new_listener_def load_new_def callbacks_at_def)

text \<open>Two callbacks; the function of the second listener has its turn first.\<close>

theorem level_calls_each_callback_once_witness:
  "\<exists>st'. (load_turn demo_load_env ^^ 4) (js_OnLevel demo_load_env 3 demo_load) st' \<and>
     mset (ls_outs st') = {#CallJs (JsFunction 9) 3, CallJs (JsFunction 8) 3#}"
proof -
  let ?E = demo_load_env
  let ?s0 = "js_OnLevel ?E 3 demo_load"
  let ?s1 = "ThreadSafeCallBack ?E 1 ?s0" let ?s2 = "ThreadSafeCallBack ?E 0 ?s1"
  let ?s3 = "CompleteCb 1 ?s2" let ?s4 = "CompleteCb 0 ?s3"
  have idle: "load_idle demo_load" by (simp add: load_idle_def demo_load_facts)
  have engine: "le_tsfn_ok ?E" "le_send_ok ?E" by (simp_all add: demo_load_env_def)
  have cbs: "load_cbs (ls_client demo_load) = [0, 1]"
    using load_okD(1) [OF load_reachable_ok [OF demo_load_facts(1)]] by (simp add: demo_load_facts)
  have cb: "map_of (ls_callback demo_load) 0 = Some (JsFunction 9)" "map_of (ls_callback demo_load) 1 = Some (JsFunction 8)"
    using load_okD(4) [OF load_reachable_ok [OF demo_load_facts(1)]] by (auto simp: demo_load_facts)
  have q0: "tsQueue ?s0 = [(0, JsFunction 9, 3), (1, JsFunction 8, 3)]" "jsQueue ?s0 = []"
    using cb by (simp_all add: js_OnLevel_def cbs listener_OnSystemloadLevel_def engine demo_load_facts)
  have l: "callbacks_at js_SYSTEMLOAD_LEVEL ?s0 = [(JsFunction 9, 0), (JsFunction 8, 1)]"
    using demo_load_facts(5) by (simp add: js_OnLevel_def callbacks_at_def)
  have s1: "?s1 = ?s0\<lparr>tsQueue := [(0, JsFunction 9, 3)], jsQueue := [(JsFunction 8, 3)]\<rparr>"
    using turn_call [of ?s0 1 "JsFunction 8" 3 ?E] unfolding q0 l by (simp add: engine)
  have l1: "callbacks_at js_SYSTEMLOAD_LEVEL ?s1 = [(JsFunction 9, 0), (JsFunction 8, 1)]"
    unfolding s1 using l by (simp add: callbacks_at_def)
  have q1: "tsQueue ?s1 = [(0, JsFunction 9, 3)]" "jsQueue ?s1 = [(JsFunction 8, 3)]" unfolding s1 by simp_all
  have s2: "?s2 = ?s1\<lparr>tsQueue := [], jsQueue := [(JsFunction 8, 3), (JsFunction 9, 3)]\<rparr>"
    using turn_call [of ?s1 0 "JsFunction 9" 3 ?E] unfolding q1 l1 by (simp add: engine)
  have q2: "tsQueue ?s2 = []" "jsQueue ?s2 = [(JsFunction 8, 3), (JsFunction 9, 3)]" unfolding s2 by simp_all
  have q3: "jsQueue ?s3 = [(JsFunction 8, 3)]"
    unfolding CompleteCb_def q2 by (simp add: load_emit_def)
  have "load_turn ?E ?s0 ?s1" "load_turn ?E ?s1 ?s2" by (rule load_turn.call, unfold q0 q1, simp)+
  moreover have "load_turn ?E ?s2 ?s3" "load_turn ?E ?s3 ?s4" by (rule load_turn.event, unfold q2 q3, simp)+
  ultimately have run: "(load_turn ?E ^^ 4) ?s0 ?s4"
    by (simp add: numeral_eq_Suc relcompp_apply) blast
  from level_calls_each_callback_once [OF demo_load_facts(1) idle engine refl this]
  have "mset (ls_outs ?s4) = {#CallJs (JsFunction 9) 3, CallJs (JsFunction 8) 3#}"
    by (auto simp: demo_load_facts)
  with run show ?thesis by blast
qed

text \<open>The callback of an event that is already sent is called although it has been removed.\<close>

lemma removed_callback_is_called:
  assumes "k < length (jsQueue st)" "jsQueue st ! k = (cb, level)"
  shows "CallJs cb (word_of_int level) \<in>
    set (ls_outs (CompleteCb k (UnRegisterSystemloadCallback E [JsString js_SYSTEMLOAD_LEVEL, cb] st)))"
proof -
  have "jsQueue (UnRegisterSystemloadCallback E args st) = jsQueue st" for args
    by (simp add: UnRegisterSystemloadCallback_def HandleErrCode_def load_emit_def split: option.split prod.split)
  then show ?thesis using assms by (simp add: CompleteCb_def load_emit_def)
qed

text \<open>Every level a listener hands on adds a thread to its function, and none is taken away.\<close>

definition threads_of :: "nat \<Rightarrow> load_state \<Rightarrow> nat" where
  "threads_of i st = (case map_of (ls_threads st) i of None \<Rightarrow> 0 | Some n \<Rightarrow> n)"

lemma threads_grow:
  assumes "le_tsfn_ok E" "map_of (ls_callback st) i = Some cb"
  shows "threads_of i (listener_OnSystemloadLevel E level i st) = Suc (threads_of i st)"
  using assms by (simp add: listener_OnSystemloadLevel_def threads_of_def update_conv')

end
