(* ===== verification/App_Kit_Props.thy ===== *)
theory App_Kit_Props
  imports App_Kit
begin

text \<open>
  What the application kit guarantees: which call of the priority function reaches the service, what
  an application that clears the background is told, which errors of the power saving client are
  raised, and that every handle of the library that was opened is closed.
\<close>

section \<open>Frames\<close>

lemma kit_emit_fields [simp]:
  "kit_client (kit_emit out st) = kit_client st"
  "kit_outs (kit_emit out st) = kit_outs st @ [out]"
  by (simp_all add: kit_emit_def)

lemma kit_report_fields [simp]:
  "kit_outs (kit_report E v payload st) = kit_outs st"
  "kit_client (kit_report E v payload st) =
     rc_ReportData (ke_client E) (ke_world E) (ke_types E) (ke_now E)
       RES_TYPE_SET_BACKGROUND_PROCESS_PRIORITY v payload (kit_client st)"
  by (simp_all add: kit_report_def)

lemma HandleErrorCode_client [simp]:
  "kit_client (HandleErrorCode c st) = kit_client st" "kit_client (HandleNewErrorCode c st) = kit_client st"
  by (simp_all add: HandleErrorCode_def HandleNewErrorCode_def split: option.split)

lemma HandleErrorCode_success [simp]: "HandleErrorCode bpm_SUCCESS st = st"
  by (simp add: HandleErrorCode_def errCodeMsg_def kit_defs)

lemma HandleErrorCode_invalid [simp]:
  "HandleErrorCode bpm_INVALID_PARAM st =
     kit_emit (ThrowError (to_string bpm_INVALID_PARAM) ''Parameter error. Possible causes: priority is out of range.'') st"
  by (simp add: HandleErrorCode_def errCodeMsg_def)

section \<open>Priorities\<close>

definition connected :: "rc_state \<Rightarrow> bool" where
  "connected c \<longleftrightarrow> \<not> g_isDestroyed c \<and> rss c"

text \<open>The types the service listens to, as the client knows them after it has asked.\<close>

definition listens_to :: "kit_env \<Rightarrow> rc_state \<Rightarrow> u32 set" where
  "listens_to E c = set (resTypeList (FetchResTypeList (ke_types E) c))"

lemma connected_report:
  assumes "connected c" "t \<in> listens_to E c"
  shows "rc_outs (rc_ReportData (ke_client E) w (ke_types E) now t v m c) =
    rc_outs c @ [RcReport t v (rx_dump (ke_client E) (map_payload m))]"
  using assms
  by (simp add: connected_def listens_to_def rc_ReportData_def rc_TryConnect_def rc_emit_def FetchResTypeList_def)

lemma discarded_report:
  assumes "connected c" "t \<notin> listens_to E c" "\<not> always_reported t"
  shows "\<exists>outs. rc_outs (rc_ReportData (ke_client E) w (ke_types E) now t v m c) = rc_outs c @ outs \<and>
    (\<forall>t' v' s. RcReport t' v' s \<notin> set outs)"
  using assms
  by (simp add: connected_def listens_to_def rc_ReportData_def rc_TryConnect_def ReportDiscardEventError_def
      rc_emit_def FetchResTypeList_def Let_def)

definition priority_payload :: "i32 \<Rightarrow> i32 \<Rightarrow> json" where
  "priority_payload pid priority =
     JObj [(''PID'', JStr (to_string pid)), (''PRIORITY'', JStr (to_string priority))]"

text \<open>
  C26. A call of the priority function from JavaScript by a connected application: with a process
  and one of the two priorities no error is raised, and the call becomes one report to the
  service, which carries the process and the priority, when the service listens to events of this
  type, and no report otherwise; any other argument raises error 401 and leaves the client
  library as it was.
\<close>

theorem priority_call_decides_report:
  assumes connected: "connected (kit_client st)"
    and st1_def: "st1 = snd (js_run E indet FnSetProcessPriority argv st)"
  shows "(\<exists>pid priority. argv = [JsNumber pid, JsNumber priority] \<and> (priority = 1 \<or> priority = 2) \<and>
            (\<exists>outs. rc_outs (kit_client st1) = rc_outs (kit_client st) @ outs \<and>
              (if RES_TYPE_SET_BACKGROUND_PROCESS_PRIORITY \<in> listens_to E (kit_client st)
               then outs = [RcReport RES_TYPE_SET_BACKGROUND_PROCESS_PRIORITY 1
                              (rx_dump (ke_client E) (priority_payload pid priority))]
               else \<forall>t v s. RcReport t v s \<notin> set outs)) \<and>
            kit_outs st1 = kit_outs st) \<or>
         (\<nexists>pid priority. argv = [JsNumber pid, JsNumber priority] \<and> (priority = 1 \<or> priority = 2)) \<and>
            kit_client st1 = kit_client st \<and>
            (\<exists>msg. kit_outs st1 = kit_outs st @ [ThrowError (to_string 401) msg])"
proof (cases "\<exists>pid priority. argv = [JsNumber pid, JsNumber priority]")
  case True
  then obtain pid priority where argv: "argv = [JsNumber pid, JsNumber priority]" by blast
  show ?thesis
  proof (cases "priority = 1 \<or> priority = 2")
    case True
    let ?c = "kit_client st"
    let ?t = RES_TYPE_SET_BACKGROUND_PROCESS_PRIORITY
    let ?m = "[(''PID'', to_string pid), (''PRIORITY'', to_string priority)]"
    have "OH_SetProcessPriority E pid priority st = (bpm_SUCCESS, kit_report E SET_PRIORITY ?m st)"
      using True by (auto simp: OH_SetProcessPriority_def bpm_PROCESS_BACKGROUND_def bpm_PROCESS_INACTIVE_def)
    then have st1: "st1 = kit_report E SET_PRIORITY ?m st"
      by (simp add: st1_def js_run_def argv)
    have payload: "map_payload ?m = priority_payload pid priority"
      by (simp add: priority_payload_def map_payload_def set_member_def)
    have "\<not> always_reported ?t" by (simp add: always_reported_def res_type_defs)
    from discarded_report [OF connected _ this] connected_report [OF connected, of ?t E]
    have "\<exists>outs. rc_outs (kit_client st1) = rc_outs ?c @ outs \<and>
        (if ?t \<in> listens_to E ?c then outs = [RcReport ?t 1 (rx_dump (ke_client E) (priority_payload pid priority))]
         else \<forall>t v s. RcReport t v s \<notin> set outs)"
      by (cases "?t \<in> listens_to E ?c") (simp_all add: st1 payload SET_PRIORITY_def)
    then show ?thesis using True st1 argv by auto
  next
    case False
    then have "OH_SetProcessPriority E pid priority st = (bpm_INVALID_PARAM, st)"
      by (simp add: OH_SetProcessPriority_def bpm_PROCESS_BACKGROUND_def bpm_PROCESS_INACTIVE_def)
    then show ?thesis
      using False by (simp add: st1_def js_run_def argv) (simp add: bpm_INVALID_PARAM_def)
  qed
next
  case False
  then have "js_SetProcessPriority E argv st = js_refuse bpm_INVALID_PARAM st"
    by (cases "(E, argv, st)" rule: js_SetProcessPriority.cases) auto
  then show ?thesis
    using False by (simp add: st1_def js_run_def js_refuse_def) (auto simp: bpm_INVALID_PARAM_def)
qed

definition demo_kit_env :: kit_env where
  "demo_kit_env = \<lparr>ke_client = demo_rx, ke_world = Reachable, ke_types = Some [134], ke_now = 0, ke_sync = None,
     ke_system_app = True, ke_opens = True, ke_set = Some (\<lambda>p m. 0), ke_is = Some (\<lambda>p b. (31800001, b))\<rparr>"

definition demo_kit :: kit_state where
  "demo_kit = \<lparr>kit_client = rc_new\<lparr>rss := True\<rparr>, kit_outs = []\<rparr>"

lemma demo_kit_connected:
  "connected (kit_client demo_kit)"
  "RES_TYPE_SET_BACKGROUND_PROCESS_PRIORITY \<in> listens_to demo_kit_env (kit_client demo_kit)"
  by (simp_all add: connected_def listens_to_def demo_kit_env_def demo_kit_def rc_new_def FetchResTypeList_def
    RES_TYPE_SET_BACKGROUND_PROCESS_PRIORITY_def)

theorem priority_call_decides_report_witness:
  "rc_outs (kit_client (snd (js_run demo_kit_env 0 FnSetProcessPriority [JsNumber 7, JsNumber 2] demo_kit))) =
     [RcReport RES_TYPE_SET_BACKGROUND_PROCESS_PRIORITY 1 (rx_dump demo_rx (priority_payload 7 2))] \<and>
   kit_outs (snd (js_run demo_kit_env 0 FnSetProcessPriority [JsNumber 7, JsNumber 2] demo_kit)) = []"
  using priority_call_decides_report [OF demo_kit_connected(1) refl, where E = demo_kit_env and indet = 0
      and argv = "[JsNumber 7, JsNumber 2]"]
    demo_kit_connected(2)
  by (simp add: demo_kit_def rc_new_def) (simp add: demo_kit_env_def)

section \<open>Errors of the power saving client\<close>

text \<open>
  An error of the power saving client that the table of messages does not hold, such as that of a
  service that does not run: JavaScript reports success where ETS raises the error.
\<close>

theorem unknown_code_is_success_in_javascript:
  assumes opens: "ke_opens E" and func: "ke_set E = Some func"
    and code: "func pid mode = code" "code \<noteq> 0" "map_of errCodeMsg code = None"
  shows "js_run E indet FnSetPowerSaveMode [JsNumber pid, JsNumber mode] st =
           (JsReturn (JsNumber 0), kit_emit DlClose (kit_emit (NapSet pid mode) (kit_emit (DlOpen RES_APP_NAP_CLIENT_SO) st))) \<and>
         SetPowerSaveModeSync E pid mode st =
           kit_emit (ThrowBusiness code (GetErrCodeMsg code))
             (kit_emit DlClose (kit_emit (NapSet pid mode) (kit_emit (DlOpen RES_APP_NAP_CLIENT_SO) st)))"
  using assms by (simp add: js_run_def OH_SetPowerSaveMode_def HandleErrorCode_def SetPowerSaveModeSync_def
    set_business_error_def bpm_SUCCESS_def)

theorem unknown_code_is_success_in_javascript_witness:
  "fst (js_run (demo_kit_env\<lparr>ke_set := Some (\<lambda>p m. 31800001)\<rparr>) 0 FnSetPowerSaveMode [JsNumber 7, JsNumber 2] demo_kit) =
     JsReturn (JsNumber 0)"
  using unknown_code_is_success_in_javascript
    [of "demo_kit_env\<lparr>ke_set := Some (\<lambda>p m. 31800001)\<rparr>" "\<lambda>p m. 31800001" 7 2 31800001 0 demo_kit]
  by (simp add: demo_kit_env_def errCodeMsg_def kit_defs)

text \<open>The answer to the question for the mode is the same in both languages, the errors apart.\<close>

lemma mode_answers_agree:
  assumes "fst (OH_IsPowerSaveMode E pid st) \<in> {0, 1}"
  shows "fst (js_run E indet FnIsPowerSaveMode [JsNumber pid] st) = JsPromise (JsBool (fst (IsPowerSaveModeSync E pid st)))"
    "snd (IsPowerSaveModeSync E pid st) = snd (OH_IsPowerSaveMode E pid st)"
  using assms by (auto simp: js_run_def IsPowerSaveModeSync_def split: prod.split)

section \<open>Clearing the background\<close>

text \<open>
  A member of the reply arrives as JSON text: the refusal of the service is recognized when it is
  the number 201, and not when it is the text 201.
\<close>

lemma refusal_is_a_number:
  assumes reachable: "rss (kit_client st)" "\<not> g_isDestroyed (kit_client st)" and app: "ke_system_app E"
    and answer: "ke_sync E = Some (text, ret)" "rc_StringToJsonObj (ke_client E) text = JObj [(''result'', answer)]"
    and dump: "rx_dump (ke_client E) (JInt n) = to_string n" "\<And>s. hd (rx_dump (ke_client E) (JStr s)) = CHR 0x22"
  shows "answer = JInt n \<Longrightarrow> fst (OH_ClearBackgroundApps E t st) = (if to_string n = ''201'' then 201 else 0)"
    "answer = JStr s \<Longrightarrow> fst (OH_ClearBackgroundApps E t st) = 0"
proof -
  have *: "fst (OH_ClearBackgroundApps E t st) = (if rx_dump (ke_client E) answer = ''201'' then 201 else 0)"
    using assms(1-5) by (simp add: OH_ClearBackgroundApps_def rc_ReportSyncEvent_def json_ReportSyncEvent_def
      rc_TryConnect_def SYNC_RES_TYPE_CHECK_MUTEX_BEFORE_START_def RES_TYPE_CLEAN_BACKGROUND_APP_def
      RESULT_KEY_def PERMISSION_ERROR_CODE_def bpm_PERMISSION_DENIED_def bpm_SUCCESS_def)
  show "fst (OH_ClearBackgroundApps E t st) = (if to_string n = ''201'' then 201 else 0)" if "answer = JInt n"
    using dump(1) by (simp add: * that)
  have "rx_dump (ke_client E) (JStr s) \<noteq> ''201''" using dump(2) [of s] by auto
  then show "fst (OH_ClearBackgroundApps E t st) = 0" if "answer = JStr s" by (simp add: * that)
qed

section \<open>Handles\<close>

definition opened :: "kit_out list \<Rightarrow> nat" where
  "opened oo = length (filter (\<lambda>out. case out of DlOpen _ \<Rightarrow> True | _ \<Rightarrow> False) oo)"

definition closed_handles :: "kit_out list \<Rightarrow> nat" where
  "closed_handles oo = length (filter (\<lambda>out. out = DlClose) oo)"

definition balanced :: "bool \<Rightarrow> kit_state \<Rightarrow> kit_state \<Rightarrow> bool" where
  "balanced opens st st1 \<longleftrightarrow>
     closed_handles (kit_outs st1) + (if opens then opened (kit_outs st) else 0) =
     closed_handles (kit_outs st) + (if opens then opened (kit_outs st1) else 0)"

lemma counts_append [simp]:
  "opened [] = 0" "closed_handles [] = 0"
  "opened (xs @ ys) = opened xs + opened ys" "closed_handles (xs @ ys) = closed_handles xs + closed_handles ys"
  "opened (x # xs) = (case x of DlOpen _ \<Rightarrow> 1 | _ \<Rightarrow> 0) + opened xs"
  "closed_handles (x # xs) = (if x = DlClose then 1 else 0) + closed_handles xs"
  by (simp_all add: opened_def closed_handles_def split: kit_out.split)

lemma balanced_throw [simp]:
  "balanced b st (HandleErrorCode c st1) = balanced b st st1" "balanced b st (HandleNewErrorCode c st1) = balanced b st st1"
  by (simp_all add: balanced_def HandleErrorCode_def HandleNewErrorCode_def split: option.split)

lemma balanced_refuse [simp]:
  "balanced b st (snd (js_refuse c st))" "balanced b st (snd (js_refuse_new c st))"
  by (simp_all add: js_refuse_def js_refuse_new_def) (simp_all add: balanced_def)

lemma balanced_C:
  "balanced (ke_opens E) st (snd (OH_SetProcessPriority E pid p st))"
  "balanced (ke_opens E) st (snd (OH_ResetProcessPriority E pid st))"
  "balanced (ke_opens E) st (snd (OH_SetPowerSaveMode E pid m st))"
  "balanced (ke_opens E) st (snd (OH_IsPowerSaveMode E pid st))"
  "balanced (ke_opens E) st (snd (snd (OH_GetPowerSaveMode E pid pm st)))"
  "balanced (ke_opens E) st (snd (OH_ClearBackgroundApps E t st))"
  by (auto simp: balanced_def OH_SetProcessPriority_def OH_ResetProcessPriority_def OH_SetPowerSaveMode_def
    OH_IsPowerSaveMode_def OH_GetPowerSaveMode_def OH_ClearBackgroundApps_def Let_def split: option.split prod.split)

text \<open>Every handle that a call opened is closed when it returns, whatever the arguments.\<close>

lemma handles_are_closed: "balanced (ke_opens E) st (snd (js_run E indet f argv st))"
proof (cases f)
  case FnSetProcessPriority
  then show ?thesis using balanced_C(1)
    by (cases "(E, argv, st)" rule: js_SetProcessPriority.cases) (auto simp: js_run_def case_prod_beta)
next
  case FnResetProcessPriority
  then show ?thesis using balanced_C(2)
    by (cases "(E, argv, st)" rule: js_ResetProcessPriority.cases) (auto simp: js_run_def case_prod_beta)
next
  case FnSetPowerSaveMode
  then show ?thesis using balanced_C(3)
    by (cases "(E, argv, st)" rule: js_SetPowerSaveMode.cases) (auto simp: js_run_def case_prod_beta)
next
  case FnIsPowerSaveMode
  then show ?thesis using balanced_C(4)
    by (cases "(E, argv, st)" rule: js_IsPowerSaveMode.cases) (auto simp: js_run_def case_prod_beta)
next
  case FnGetPowerSaveMode
  then show ?thesis using balanced_C(5)
    by (cases "(E, indet, argv, st)" rule: js_GetPowerSaveMode.cases) (auto simp: js_run_def case_prod_beta)
next
  case FnClearBackgroundApps
  then show ?thesis using balanced_C(6)
    by (cases "(E, argv, st)" rule: js_ClearBackgroundApps.cases) (auto simp: js_run_def case_prod_beta)
qed

end
