(* ===== verification/System_Util.thy ===== *)
theory System_Util
  imports Common_Util
begin

text \<open>
  The sizes of memory and storage (common/src/res\_sched\_system\_util.cpp).  The rounding loop
  computes in the types of the code, a \<open>uint16\_t\<close> factor and a \<open>uint32\_t\<close> unit, whose product is a
  \<open>uint32\_t\<close>; it is a partial function, because it does not end on every size.  The properties and
  the file systems are parameters; the sizes they give are not negative.
\<close>

definition BYTES_PER_GB :: i64 where "BYTES_PER_GB = 1024 * 1024 * 1024"
definition BYTES_PER_KB :: i64 where "BYTES_PER_KB = 1024"
definition BYTES_PER_MB :: i64 where "BYTES_PER_MB = 1024 * 1024"
definition PATH_DATA :: string where "PATH_DATA = ''/data''"
definition PATH_ROOT :: string where "PATH_ROOT = ''/''"

text \<open>The block size and the number of blocks of a path, when they can be read.\<close>

record sys_sizes =
  sz_param :: "string \<Rightarrow> string \<Rightarrow> string"
  sz_totalram :: "i64 option"
  sz_statvfs :: "string \<Rightarrow> (i64 \<times> i64) option"

definition GetSystemProperties :: "sys_sizes \<Rightarrow> string \<Rightarrow> string \<Rightarrow> string" where
  "GetSystemProperties E name defaultValue = sz_param E name defaultValue"

definition ram_of_sysinfo :: "sys_sizes \<Rightarrow> i64" where
  "ram_of_sysinfo E =
     (case sz_totalram E of None \<Rightarrow> 0 | Some totalSizeBytes \<Rightarrow> totalSizeBytes div BYTES_PER_GB * BYTES_PER_KB)"

definition GetTotalRamSize :: "sys_sizes \<Rightarrow> string \<Rightarrow> i64" where
  "GetTotalRamSize E ddrSysProp =
     (if ddrSysProp \<noteq> [] then
        (case StrToInt64 (GetSystemProperties E ddrSysProp []) of
           Some totalRamSize \<Rightarrow> totalRamSize * BYTES_PER_KB
         | None \<Rightarrow> ram_of_sysinfo E)
      else ram_of_sysinfo E)"

definition GetTotalSizeByStatvfs :: "sys_sizes \<Rightarrow> string \<Rightarrow> i64 option" where
  "GetTotalSizeByStatvfs E path = map_option (\<lambda>(f_bsize, f_blocks). f_bsize * f_blocks) (sz_statvfs E path)"

partial_function (option) round_loop :: "u64 \<Rightarrow> 16 word \<Rightarrow> u32 \<Rightarrow> (16 word \<times> u32) option" where
  "round_loop uSize v unit =
     (if (ucast ((ucast v :: u32) * unit) :: u64) < uSize then
        (let v1 = push_bit 1 v in
         if 1024 \<le> v1 then round_loop uSize 1 (unit * 1024) else round_loop uSize v1 unit)
      else Some (v, unit))"

definition RoundStorageSize :: "i64 \<Rightarrow> i64 option" where
  "RoundStorageSize bytes =
     (if bytes < 0 then Some bytes
      else map_option (\<lambda>(v, unit). uint ((ucast v :: u32) * unit)) (round_loop (word_of_int bytes) 1 1))"

definition GetTotalRomSize :: "sys_sizes \<Rightarrow> i64 option" where
  "GetTotalRomSize E =
     (case GetTotalSizeByStatvfs E PATH_DATA of
        None \<Rightarrow> Some 0
      | Some dataRomSize \<Rightarrow>
          (case GetTotalSizeByStatvfs E PATH_ROOT of
             None \<Rightarrow> Some 0
           | Some rootRomSize \<Rightarrow> RoundStorageSize ((dataRomSize + rootRomSize) div BYTES_PER_MB)))"

section \<open>The rounding loop\<close>

text \<open>The factor and the unit after k rounds.\<close>

definition factor_at :: "nat \<Rightarrow> 16 word" where "factor_at k = 2 ^ (k mod 10)"
definition unit_at :: "nat \<Rightarrow> u32" where "unit_at k = 1024 ^ (k div 10)"

lemma small_powers:
  assumes "j < 10"
  shows "ucast (2 ^ j :: 16 word) = (2 ^ j :: u32)" "push_bit 1 (2 ^ j :: 16 word) = 2 ^ Suc j"
    "(1024 :: 16 word) \<le> 2 ^ Suc j \<longleftrightarrow> j = 9"
proof -
  have "j \<in> {0, 1, 2, 3, 4, 5, 6, 7, 8, 9}" using assms by auto
  then show "ucast (2 ^ j :: 16 word) = (2 ^ j :: u32)" "push_bit 1 (2 ^ j :: 16 word) = 2 ^ Suc j"
      "(1024 :: 16 word) \<le> 2 ^ Suc j \<longleftrightarrow> j = 9"
    by (elim insertE; simp)+
qed

lemma product_at: "(ucast (factor_at k) :: u32) * unit_at k = 2 ^ k"
proof -
  have "(ucast (factor_at k) :: u32) * unit_at k = 2 ^ (k mod 10) * (2 ^ 10) ^ (k div 10)"
    by (simp add: factor_at_def unit_at_def small_powers)
  also have "\<dots> = 2 ^ (k mod 10 + 10 * (k div 10))" by (simp only: power_mult power_add)
  finally show ?thesis by simp
qed

lemma next_round:
  "(let v1 = push_bit 1 (factor_at k) in if 1024 \<le> v1 then f s 1 (unit_at k * 1024) else f s v1 (unit_at k)) =
   f s (factor_at (Suc k)) (unit_at (Suc k))"
proof (cases "k mod 10 = 9")
  case True
  then have "Suc k mod 10 = 0" "Suc k div 10 = Suc (k div 10)" by presburger+
  then show ?thesis using True by (simp add: factor_at_def unit_at_def mult.commute)
next
  case False
  then have "Suc k mod 10 = Suc (k mod 10)" "Suc k div 10 = k div 10" by presburger+
  then show ?thesis using False small_powers(2,3) [of "k mod 10"]
    by (simp add: factor_at_def unit_at_def Let_def mult.commute)
qed

lemma round_loop_step:
  "round_loop s (factor_at k) (unit_at k) =
     (if (ucast (2 ^ k :: u32) :: u64) < s then round_loop s (factor_at (Suc k)) (unit_at (Suc k))
      else Some (factor_at k, unit_at k))"
  by (subst round_loop.simps) (simp only: product_at next_round)

lemma uint_power:
  "k < LENGTH('a) \<Longrightarrow> uint (2 ^ k :: 'a::len word) = 2 ^ k"
proof -
  assume k: "k < LENGTH('a)"
  have "uint (word_of_int (2 ^ k) :: 'a word) = take_bit LENGTH('a) (2 ^ k)" by (rule uint_word_of_int_eq)
  also have "\<dots> = 2 ^ k" using k by (intro take_bit_int_eq_self) auto
  finally show ?thesis by simp
qed

lemma pow_u32: "(ucast (2 ^ k :: u32) :: u64) = (if k < 32 then 2 ^ k else 0)"
proof (cases "k < 32")
  case True
  then have "uint (2 ^ k :: u32) = 2 ^ k" "uint (2 ^ k :: u64) = 2 ^ k" using uint_power [where 'a = 32, of k] uint_power [where 'a = 64, of k] by simp_all
  then show ?thesis using True by (simp add: word_uint_eq_iff unsigned_ucast_eq take_bit_int_eq_self_iff)
next
  case False
  then have "(2 ^ k :: u32) = 0" using exp_eq_zero_iff [where 'a = 32, of k] by simp
  then show ?thesis using False by (simp only: ucast_0 if_False)
qed

lemma round_loop_ends:
  assumes "k \<le> j" "j < 32" "s \<le> 2 ^ j" "\<And>i. k \<le> i \<Longrightarrow> i < j \<Longrightarrow> 2 ^ i < s"
  shows "round_loop s (factor_at k) (unit_at k) = Some (factor_at j, unit_at j)"
  using assms
proof (induction "j - k" arbitrary: k)
  case 0
  then show ?case using round_loop_step [of s j] pow_u32 [of j] by (auto simp: not_less [symmetric])
next
  case (Suc d)
  then have "2 ^ k < s" "k < 32" by simp_all
  then show ?case
    using round_loop_step [of s k] pow_u32 [of k] Suc.hyps(1) [of "Suc k"] Suc.prems Suc.hyps(2) by simp
qed

lemma round_loop_diverges:
  assumes "2 ^ 31 < s"
  shows "round_loop s (factor_at k) (unit_at k) = None"
proof -
  have bound: "(ucast (2 ^ k :: u32) :: u64) < s" for k
  proof (cases "k < 32")
    case True
    then have "(2 :: int) ^ k \<le> 2 ^ 31" by (intro power_increasing) auto
    then have "(2 ^ k :: u64) \<le> 2 ^ 31"
      using True uint_power [where 'a = 64, of k] uint_power [where 'a = 64, of 31] by (simp add: word_le_def)
    then show ?thesis using True assms pow_u32 [of k] by simp
  next
    case False
    then show ?thesis using assms pow_u32 [of k] by (simp add: word_gt_0 [symmetric] le_less_trans)
  qed
  have "\<not> (s0 = s \<and> (\<exists>k. v = factor_at k \<and> u = unit_at k))" if "round_loop s0 v u = Some r" for s0 v u r
  proof (rule round_loop.raw_induct [OF _ that])
    fix f s0 v u r
    assume *: "\<And>s0 v u r. f s0 v u = Some r \<Longrightarrow> \<not> (s0 = s \<and> (\<exists>k. v = factor_at k \<and> u = unit_at k))"
      "(if (ucast ((ucast v :: u32) * u) :: u64) < s0
        then let v1 = push_bit 1 v in if 1024 \<le> v1 then f s0 1 (u * 1024) else f s0 v1 u
        else Some (v, u)) = Some r"
    show "\<not> (s0 = s \<and> (\<exists>k. v = factor_at k \<and> u = unit_at k))"
    proof
      assume "s0 = s \<and> (\<exists>k. v = factor_at k \<and> u = unit_at k)"
      then obtain k where k: "s0 = s" "v = factor_at k" "u = unit_at k" by blast
      have "f s (factor_at (Suc k)) (unit_at (Suc k)) = Some r"
        using *(2) bound [of k] unfolding k product_at next_round by simp
      then show False using *(1) by blast
    qed
  qed
  then show ?thesis by (cases "round_loop s (factor_at k) (unit_at k)") blast+
qed

section \<open>Rounding up\<close>

text \<open>
  C37. Up to 2048 Mi units the rounding ends and gives the least power of two that is not smaller; above
  that the product of the 32-bit factors wraps to zero and the loop never ends.
\<close>

theorem rounding_ends_up_to_2_31:
  assumes range: "0 \<le> n" "n < 2 ^ 63"
  shows "(n \<le> 2 ^ 31 \<and> (\<exists>j \<le> 31. RoundStorageSize n = Some (2 ^ j) \<and> n \<le> 2 ^ j \<and> (\<forall>i < j. 2 ^ i < n))) \<or>
    (2 ^ 31 < n \<and> RoundStorageSize n = None)"
proof -
  let ?s = "word_of_int n :: u64"
  have start: "factor_at 0 = 1" "unit_at 0 = 1" by (simp_all add: factor_at_def unit_at_def)
  have s: "uint ?s = n" using range by (simp add: uint_word_of_int_eq take_bit_int_eq_self)
  have pow: "uint (2 ^ i :: u64) = 2 ^ i" if "i < 32" for i using that uint_power [where 'a = 64, of i] by simp
  show ?thesis
  proof (cases "n \<le> 2 ^ 31")
    case True
    define j where "j = (LEAST j. n \<le> 2 ^ j)"
    have j: "n \<le> 2 ^ j" "j \<le> 31" "\<And>i. i < j \<Longrightarrow> 2 ^ i < n"
      unfolding j_def by (rule LeastI [of _ 31], rule True) (auto intro: Least_le True dest: not_less_Least)
    have "round_loop ?s (factor_at 0) (unit_at 0) = Some (factor_at j, unit_at j)"
    proof (rule round_loop_ends)
      show "?s \<le> 2 ^ j" using j(1,2) s pow [of j] by (simp add: word_le_def)
      show "2 ^ i < ?s" if "0 \<le> i" "i < j" for i
        using j(2) j(3) [of i] that s pow [of i] by (simp add: word_less_def)
    qed (use j(2) in simp_all)
    then have "RoundStorageSize n = Some (2 ^ j)"
      using range j(2) uint_power [where 'a = 32, of j] by (simp add: RoundStorageSize_def start product_at)
    then show ?thesis using j True by blast
  next
    case False
    then have "2 ^ 31 < ?s" using s pow [of 31] by (simp add: word_less_def)
    then show ?thesis
      using round_loop_diverges [of ?s 0] range False by (simp add: RoundStorageSize_def start)
  qed
qed

theorem rounding_ends_up_to_2_31_witness:
  "(\<exists>j \<le> 31. RoundStorageSize 114000 = Some (2 ^ j) \<and> 114000 \<le> (2 :: int) ^ j \<and> (\<forall>i < j. (2 :: int) ^ i < 114000)) \<and>
   RoundStorageSize 2147483649 = None"
  using rounding_ends_up_to_2_31 [of 114000] rounding_ends_up_to_2_31 [of 2147483649] by simp

text \<open>The memory is rounded down to whole gigabytes: the quotient is taken before the ceiling.\<close>

lemma ram_is_rounded_down:
  assumes "sz_totalram E = Some n" "0 \<le> n"
  shows "GetTotalRamSize E [] * BYTES_PER_MB \<le> n" "n < GetTotalRamSize E [] * BYTES_PER_MB + BYTES_PER_GB"
  using assms by (simp_all add: GetTotalRamSize_def ram_of_sysinfo_def BYTES_PER_GB_def BYTES_PER_KB_def BYTES_PER_MB_def)

end
