(* ===== verification/File_Util.thy ===== *)
theory File_Util
  imports Json_Payload
begin

text \<open>
  Files (common/src/res\_sched\_file\_util.cpp) and JSON files
  (common/src/res\_sched\_json\_storage\_util.cpp).  The file system is a state of its own, of a type
  that is a parameter where only its calls matter (\<open>'f fs_env\<close>); for the JSON files it is a map from
  real paths to contents, with the resolution of paths as a parameter.
\<close>

section \<open>Paths\<close>

definition find_first_of :: "char \<Rightarrow> nat \<Rightarrow> string \<Rightarrow> nat option" where
  "find_first_of c from s =
     (let n = length (takeWhile (\<lambda>x. x \<noteq> c) (drop from s)) in if from + n < length s then Some (from + n) else None)"

definition find_last_of :: "char \<Rightarrow> string \<Rightarrow> nat option" where
  "find_last_of c s =
     (let n = length (takeWhile (\<lambda>x. x \<noteq> c) (rev s)) in if n < length s then Some (length s - 1 - n) else None)"

definition substr :: "nat \<Rightarrow> nat \<Rightarrow> string \<Rightarrow> string" where
  "substr from n s = take n (drop from s)"

definition slash :: char where "slash = CHR 0x2F"

definition GetPartitionName :: "string \<Rightarrow> string" where
  "GetPartitionName path =
     (case find_first_of slash 0 path of
        None \<Rightarrow> slash # path
      | Some first \<Rightarrow>
          (case find_first_of slash (first + 1) path of
             None \<Rightarrow> if path ! 0 \<noteq> slash then slash # substr 0 first path else path
           | Some second \<Rightarrow> substr 0 (second - first) path))"

section \<open>Files and directories\<close>

text \<open>
  The calls of the system and of the utilities of the framework; \<open>fe_stat\<close> gives the mode and the
  size of a path, and \<open>fe_mkdir\<close> says whether the directory was made or there already.
\<close>

definition S_IFDIR :: u32 where "S_IFDIR = 0x4000"
definition S_IFBLK :: u32 where "S_IFBLK = 0x6000"
definition S_IFMT :: u32 where "S_IFMT = 0xF000"

record 'f fs_env =
  fe_stat :: "'f \<Rightarrow> string \<Rightarrow> (u32 \<times> nat) option"
  fe_access :: "'f \<Rightarrow> string \<Rightarrow> bool"
  fe_real :: "'f \<Rightarrow> string \<Rightarrow> string option"
  fe_list :: "'f \<Rightarrow> string \<Rightarrow> string list option"
  fe_read :: "'f \<Rightarrow> string \<Rightarrow> string option"
  fe_forceCreate :: "string \<Rightarrow> 'f \<Rightarrow> bool \<times> 'f"
  fe_chmod :: "string \<Rightarrow> nat \<Rightarrow> 'f \<Rightarrow> bool \<times> 'f"
  fe_removeDir :: "string \<Rightarrow> 'f \<Rightarrow> bool \<times> 'f"
  fe_removeFile :: "string \<Rightarrow> 'f \<Rightarrow> bool \<times> 'f"
  fe_mkdir :: "string \<Rightarrow> 'f \<Rightarrow> bool \<times> 'f"
  fe_copy :: "string \<Rightarrow> string \<Rightarrow> 'f \<Rightarrow> bool \<times> 'f"
  fe_config :: "string \<Rightarrow> string option"

definition fu_PathOrFileExists :: "'f fs_env \<Rightarrow> 'f \<Rightarrow> string \<Rightarrow> bool" where
  "fu_PathOrFileExists E fs path = fe_access E fs path"

definition IsDir :: "'f fs_env \<Rightarrow> 'f \<Rightarrow> string \<Rightarrow> bool" where
  "IsDir E fs filePath = (case fe_stat E fs filePath of None \<Rightarrow> False | Some (mode, _) \<Rightarrow> mode AND S_IFDIR \<noteq> 0)"

definition IsBLKPath :: "'f fs_env \<Rightarrow> 'f \<Rightarrow> string \<Rightarrow> bool" where
  "IsBLKPath E fs filePath = (case fe_stat E fs filePath of None \<Rightarrow> False | Some (mode, _) \<Rightarrow> mode AND S_IFMT = S_IFBLK)"

definition GetFileSize :: "'f fs_env \<Rightarrow> 'f \<Rightarrow> string \<Rightarrow> nat" where
  "GetFileSize E fs path = (case fe_stat E fs path of None \<Rightarrow> 0 | Some (_, bytes) \<Rightarrow> bytes)"

text \<open>The entries of a directory, without itself and its parent.\<close>

definition IncludeTrailingPathDelimiter :: "string \<Rightarrow> string" where
  "IncludeTrailingPathDelimiter path = (if path \<noteq> [] \<and> last path = slash then path else path @ [slash])"

definition DirIterator :: "'f fs_env \<Rightarrow> 'f \<Rightarrow> string \<Rightarrow> string list \<Rightarrow> bool \<times> string list" where
  "DirIterator E fs filePath iters =
     (case fe_list E fs filePath of
        None \<Rightarrow> (False, iters)
      | Some names \<Rightarrow>
          (True, iters @ map (\<lambda>d_name. IncludeTrailingPathDelimiter filePath @ d_name)
             (filter (\<lambda>d_name. d_name \<noteq> ''.'' \<and> d_name \<noteq> ''..'') names)))"

definition fu_RemoveDirs :: "'f fs_env \<Rightarrow> string \<Rightarrow> 'f \<Rightarrow> bool \<times> 'f" where
  "fu_RemoveDirs E dir fs = fe_removeDir E dir fs"

definition fu_RemoveFile :: "'f fs_env \<Rightarrow> string \<Rightarrow> 'f \<Rightarrow> bool \<times> 'f" where
  "fu_RemoveFile E filePath fs = fe_removeFile E filePath fs"

definition CreateDir :: "'f fs_env \<Rightarrow> string \<Rightarrow> nat \<Rightarrow> 'f \<Rightarrow> bool \<times> 'f" where
  "CreateDir E dir mode fs =
     (case fe_forceCreate E dir fs of
        (made, fs1) \<Rightarrow>
          if \<not> made then (False, fs1)
          else (case fe_chmod E dir mode fs1 of
              (changed, fs2) \<Rightarrow> if \<not> changed then (False, snd (fu_RemoveDirs E dir fs2)) else (True, fs2)))"

definition RemoveFileOrDirIfExist :: "'f fs_env \<Rightarrow> string \<Rightarrow> 'f \<Rightarrow> bool \<times> 'f" where
  "RemoveFileOrDirIfExist E path fs =
     (if \<not> fu_PathOrFileExists E fs path then (True, fs)
      else if IsDir E fs path then fu_RemoveDirs E path fs
      else fu_RemoveFile E path fs)"

definition DoCopy :: "'f fs_env \<Rightarrow> string \<Rightarrow> string \<Rightarrow> 'f \<Rightarrow> bool \<times> 'f" where
  "DoCopy E src des fs = fe_copy E src des fs"

definition CopyFile :: "'f fs_env \<Rightarrow> string \<Rightarrow> string \<Rightarrow> 'f \<Rightarrow> bool \<times> 'f" where
  "CopyFile E src des fs =
     (if \<not> fu_PathOrFileExists E fs src then (False, fs)
      else (case RemoveFileOrDirIfExist E des fs of
          (removed, fs1) \<Rightarrow>
            if \<not> removed then (False, fs1)
            else (case fe_mkdir E des fs1 of
                (made, fs2) \<Rightarrow> if \<not> made then (False, fs2) else DoCopy E src des fs2)))"

text \<open>The lines of a text; a last line without a line feed counts.\<close>

function file_lines :: "string \<Rightarrow> string list" where
  "file_lines s =
     (if s = [] then []
      else takeWhile (\<lambda>c. c \<noteq> CHR 0x0A) s # file_lines (tl (dropWhile (\<lambda>c. c \<noteq> CHR 0x0A) s)))"
  by auto
termination
proof (relation "measure length")
  fix s :: string
  assume "s \<noteq> []"
  have "length (dropWhile (\<lambda>c. c \<noteq> CHR 0x0A) s) \<le> length s" by (rule length_dropWhile_le)
  moreover have "length s \<noteq> 0" using \<open>s \<noteq> []\<close> by simp
  ultimately have "length (tl (dropWhile (\<lambda>c. c \<noteq> CHR 0x0A) s)) < length s" by (simp only: length_tl)
  then show "(tl (dropWhile (\<lambda>c. c \<noteq> CHR 0x0A) s), s) \<in> measure length" by simp
qed simp

declare file_lines.simps [simp del]

definition fu_PATH_MAX :: nat where "fu_PATH_MAX = 4096"

definition ReadLinesFromFile :: "'f fs_env \<Rightarrow> 'f \<Rightarrow> string \<Rightarrow> string list \<Rightarrow> bool \<times> string list" where
  "ReadLinesFromFile E fs filePath lines =
     (if length filePath = 0 \<or> length filePath > fu_PATH_MAX then (False, lines)
      else (case fe_real E fs filePath of
          None \<Rightarrow> (False, lines)
        | Some realConfigPath \<Rightarrow>
            (case fe_read E fs realConfigPath of
               None \<Rightarrow> (False, lines)
             | Some text_ \<Rightarrow> (True, file_lines text_))))"

definition GetRealConfigPath :: "'f fs_env \<Rightarrow> 'f \<Rightarrow> string \<Rightarrow> string option" where
  "GetRealConfigPath E fs configPath =
     (if configPath = [] then None
      else (case fe_config E configPath of
          None \<Rightarrow> None
        | Some tmpPath \<Rightarrow> if length tmpPath > fu_PATH_MAX then None else fe_real E fs tmpPath))"

section \<open>JSON files\<close>

definition MAX_JSON_FILE_SIZE :: nat where "MAX_JSON_FILE_SIZE = 10 * 1024 * 1024"
definition MAX_JSON_WRITE_SIZE :: nat where "MAX_JSON_WRITE_SIZE = 10 * 1024 * 1024"

type_synonym json_files = "string \<Rightarrow> string option"

record json_env =
  je_exists :: "json_files \<Rightarrow> string \<Rightarrow> bool"
  je_realpath :: "json_files \<Rightarrow> string \<Rightarrow> string option"
  je_may_open :: "string \<Rightarrow> bool"
  je_may_write :: "string \<Rightarrow> bool"
  je_parse :: "string \<Rightarrow> json option"

definition ConvertFullPath :: "json_env \<Rightarrow> json_files \<Rightarrow> string \<Rightarrow> string option" where
  "ConvertFullPath E fs partialPath =
     (if partialPath = [] \<or> length partialPath \<ge> fu_PATH_MAX then None else je_realpath E fs partialPath)"

definition contains_str :: "string \<Rightarrow> string \<Rightarrow> bool" where
  "contains_str s sub \<longleftrightarrow> list_ex (\<lambda>i. take (length sub) (drop i s) = sub) [0..<Suc (length s)]"

text \<open>The path a new file is opened at.\<close>

definition node_path :: "json_env \<Rightarrow> json_files \<Rightarrow> string \<Rightarrow> string option" where
  "node_path E fs filePath =
     (case ConvertFullPath E fs filePath of
        Some realPath \<Rightarrow> Some realPath
      | None \<Rightarrow>
          (case find_last_of slash filePath of
             None \<Rightarrow> None
           | Some lastSlash \<Rightarrow>
               (let parentDir = substr 0 lastSlash filePath; fileName = drop (lastSlash + 1) filePath in
                if slash \<in> set fileName \<or> CHR 0x5C \<in> set fileName then None
                else if contains_str fileName ''..'' then None
                else map_option (\<lambda>realParentPath. realParentPath @ slash # fileName) (ConvertFullPath E fs parentDir))))"

text \<open>A file that is opened and is not there is made, empty.\<close>

definition CreateNodeFile :: "json_env \<Rightarrow> string \<Rightarrow> json_files \<Rightarrow> bool \<times> json_files" where
  "CreateNodeFile E filePath fs =
     (if je_exists E fs filePath then (True, fs)
      else (case node_path E fs filePath of
          None \<Rightarrow> (False, fs)
        | Some realPath \<Rightarrow>
            if \<not> je_may_open E realPath then (False, fs)
            else (True, if fs realPath = None then fs(realPath := Some []) else fs)))"

definition SaveJsonValueToFile :: "json_env \<Rightarrow> string \<Rightarrow> string \<Rightarrow> json_files \<Rightarrow> i32 \<times> json_files" where
  "SaveJsonValueToFile E v filePath fs =
     (if filePath = [] then (- 1, fs)
      else if length v > MAX_JSON_WRITE_SIZE then (- 1, fs)
      else (case CreateNodeFile E filePath fs of
          (created, fs1) \<Rightarrow>
            if \<not> created then (- 1, fs1)
            else (case ConvertFullPath E fs1 filePath of
                None \<Rightarrow> (- 1, fs1)
              | Some realPath \<Rightarrow>
                  if \<not> je_may_write E realPath then (- 1, fs1)
                  else (0, fs1(realPath := Some (c_str v @ [CHR 0x0A]))))))"

text \<open>The value is set to a discarded one when the text is no JSON; \<open>None\<close> leaves it as it was.\<close>

definition ParseJsonValueFromFile :: "json_env \<Rightarrow> json_files \<Rightarrow> string \<Rightarrow> i32 \<times> json option" where
  "ParseJsonValueFromFile E fs filePath =
     (case ConvertFullPath E fs filePath of
        None \<Rightarrow> (- 1, None)
      | Some realPath \<Rightarrow>
          (case fs realPath of
             None \<Rightarrow> (- 1, None)
           | Some data \<Rightarrow>
               if length data > MAX_JSON_FILE_SIZE then (- 1, None)
               else (case je_parse E data of None \<Rightarrow> (- 1, None) | Some j \<Rightarrow> (0, Some j))))"

definition RefreshJsonFileInfo :: "json_env \<Rightarrow> string \<Rightarrow> string \<Rightarrow> json_files \<Rightarrow> i32 \<times> json_files" where
  "RefreshJsonFileInfo E infos filePath fs = SaveJsonValueToFile E infos filePath fs"

definition RestoreJsonFileInfo :: "json_env \<Rightarrow> json_files \<Rightarrow> string \<Rightarrow> i32 \<times> json option" where
  "RestoreJsonFileInfo E fs filePath = ParseJsonValueFromFile E fs filePath"

section \<open>Properties\<close>

lemma find_last_of_split:
  assumes "find_last_of c s = Some i"
  shows "s = take i s @ c # drop (Suc i) s" "c \<notin> set (drop (Suc i) s)"
proof -
  let ?n = "length (takeWhile (\<lambda>x. x \<noteq> c) (rev s))"
  have n: "?n < length s" "i = length s - 1 - ?n" using assms by (auto simp: find_last_of_def Let_def split: if_splits)
  then have i: "i < length s" "length s - Suc i = ?n" by auto
  have "rev s ! ?n = c" using nth_length_takeWhile [of "\<lambda>x. x \<noteq> c" "rev s"] n by simp
  then have "s ! i = c" using n by (simp add: rev_nth)
  then show "s = take i s @ c # drop (Suc i) s" using i id_take_nth_drop [of i s] by simp
  have "length s - ?n = Suc i" using i by linarith
  then have "rev (drop (Suc i) s) = take ?n (rev s)" by (simp only: take_rev)
  also have "\<dots> = takeWhile (\<lambda>x. x \<noteq> c) (rev s)" by (metis takeWhile_eq_take)
  finally show "c \<notin> set (drop (Suc i) s)" by (metis set_rev set_takeWhileD)
qed

text \<open>A file that is made below a directory that exists gets a plain name in it.\<close>

lemma new_file_has_plain_name:
  assumes "ConvertFullPath E fs filePath = None" "node_path E fs filePath = Some p"
  shows "\<exists>parent name dir. filePath = parent @ slash # name \<and> ConvertFullPath E fs parent = Some dir \<and>
    p = dir @ slash # name \<and> slash \<notin> set name \<and> CHR 0x5C \<notin> set name \<and> \<not> contains_str name ''..''"
  using assms find_last_of_split [of slash filePath]
  by (auto simp: node_path_def Let_def substr_def split: option.splits if_splits)


definition demo_json_files :: json_env where
  "demo_json_files = \<lparr>je_exists = (\<lambda>fs p. True), je_realpath = (\<lambda>fs p. Some p), je_may_open = (\<lambda>p. True),
     je_may_write = (\<lambda>p. True), je_parse = (\<lambda>s. Some (JObj []))\<rparr>"


text \<open>A block device is taken for a directory: its mode has the bit that is tested.\<close>

lemma block_device_is_a_directory:
  assumes "fe_stat E fs path = Some (mode, n)" "mode AND S_IFMT = S_IFBLK"
  shows "IsBLKPath E fs path \<and> IsDir E fs path"
proof -
  have "mode AND S_IFDIR = (mode AND S_IFMT) AND S_IFDIR" by (simp add: S_IFDIR_def S_IFMT_def and.assoc)
  then show ?thesis using assms by (simp add: IsBLKPath_def IsDir_def) (simp add: S_IFBLK_def S_IFDIR_def)
qed

text \<open>The partition of an absolute path is its first directory; of a relative one it is cut by length.\<close>

lemma find_slash: "slash \<notin> set a \<Longrightarrow> find_first_of slash (length b) (b @ a @ slash # r) = Some (length b + length a)"
proof -
  assume a: "slash \<notin> set a"
  then have "takeWhile (\<lambda>x. x \<noteq> slash) (a @ slash # r) = a" by (subst takeWhile_append2) auto
  then show ?thesis by (simp add: find_first_of_def Let_def)
qed

lemma partition_of_absolute:
  assumes "slash \<notin> set a"
  shows "GetPartitionName (slash # a @ slash # r) = slash # a"
proof -
  have "find_first_of slash 0 (slash # a @ slash # r) = Some 0" by (simp add: find_first_of_def)
  moreover have "find_first_of slash 1 (slash # a @ slash # r) = Some (1 + length a)"
    using find_slash [OF assms, of "[slash]" r] by simp
  ultimately show ?thesis by (simp add: GetPartitionName_def substr_def)
qed

lemma partition_of_relative: "GetPartitionName ''system/etc/a'' = ''syst''"
  by (simp add: GetPartitionName_def find_first_of_def substr_def slash_def Let_def)

text \<open>The lines of a text that ends with a line feed give the text again.\<close>

lemma file_lines_concat:
  assumes "s = [] \<or> last s = CHR 0x0A"
  shows "concat (map (\<lambda>l. l @ [CHR 0x0A]) (file_lines s)) = s"
  using assms
proof (induction s rule: file_lines.induct)
  case (1 s)
  show ?case
  proof (cases "s = []")
    case True
    then show ?thesis by (simp add: file_lines.simps [of "[]"])
  next
    case False
    let ?l = "takeWhile (\<lambda>c. c \<noteq> CHR 0x0A) s" and ?r = "dropWhile (\<lambda>c. c \<noteq> CHR 0x0A) s"
    have "CHR 0x0A \<in> set s" using 1(2) False last_in_set by metis
    then have r: "?r \<noteq> []" by (simp add: dropWhile_eq_Nil_conv)
    then have hd: "hd ?r = CHR 0x0A" using hd_dropWhile [OF r] by simp
    have s: "s = ?l @ CHR 0x0A # tl ?r" using r hd by (metis list.collapse takeWhile_dropWhile_id)
    then have "tl ?r = [] \<or> last (tl ?r) = CHR 0x0A" using 1(2) False by (metis last.simps last_appendR list.distinct(1))
    then have "concat (map (\<lambda>l. l @ [CHR 0x0A]) (file_lines (tl ?r))) = tl ?r" using 1(1) False by blast
    then show ?thesis using False s by (subst file_lines.simps) (simp add: s [symmetric])
  qed
qed

end
