(* ===== verification/Event_Reporter.thy ===== *)
theory Event_Reporter
  imports File_Util
begin

text \<open>
  The daily report of the sizes of the files (common/src/res\_sched\_event\_reporter.cpp).  The tasks
  that wait in the task queue are kept with their delays; the clock, the sizes of the files and
  whether the record of the last report can be written are parameters of a run.
\<close>

definition FIRST_REPORT_TIME :: i64 where "FIRST_REPORT_TIME = 10 * 1000 * 1000"
definition FILE_SIZE_REPORTER_RECORDER :: string where
  "FILE_SIZE_REPORTER_RECORDER = ''/data/service/el1/public/ressched/file_size_report_time''"
definition ONE_DAY_MICRO_SECOND :: i64 where "ONE_DAY_MICRO_SECOND = 24 * 60 * 60 * 1000 * 1000"
definition DATA_FILE_PATH :: string where "DATA_FILE_PATH = ''/data''"

record er_env =
  er_now :: i64
  er_size :: "string \<Rightarrow> nat"
  er_saved :: bool

text \<open>The names of the files in the order of the set; the content of the record, empty without one.\<close>

record er_state =
  allFilePaths :: "string list"
  isTaskSubmit :: bool
  er_record :: string
  er_tasks :: "i64 list"
  er_reports :: "(i64 \<times> (string \<times> nat) list) list"

definition er_new :: "string \<Rightarrow> er_state" where
  "er_new content = \<lparr>allFilePaths = [], isTaskSubmit = False, er_record = content, er_tasks = [], er_reports = []\<rparr>"

definition SubmitDelayTask :: "i64 \<Rightarrow> er_state \<Rightarrow> er_state" where
  "SubmitDelayTask delayTime st = st\<lparr>er_tasks := er_tasks st @ [delayTime]\<rparr>"

definition ReportFileSizeEvent :: "string list \<Rightarrow> er_state \<Rightarrow> er_state" where
  "ReportFileSizeEvent filePaths st =
     (let st1 = st\<lparr>allFilePaths := fold List.insert filePaths (allFilePaths st)\<rparr> in
      if isTaskSubmit st1 then st1
      else (SubmitDelayTask FIRST_REPORT_TIME
              (st1\<lparr>allFilePaths := List.insert FILE_SIZE_REPORTER_RECORDER (allFilePaths st1)\<rparr>))
             \<lparr>isTaskSubmit := True\<rparr>)"

definition ReportFileSizeEvent_path :: "string \<Rightarrow> er_state \<Rightarrow> er_state" where
  "ReportFileSizeEvent_path filePath st = ReportFileSizeEvent [filePath] st"

definition ValidReportTime :: "i64 \<Rightarrow> i64" where
  "ValidReportTime delayTime =
     (if delayTime < 0 then 0 else if delayTime > ONE_DAY_MICRO_SECOND then ONE_DAY_MICRO_SECOND else delayTime)"

definition ReportFileSizeInner :: "er_env \<Rightarrow> er_state \<Rightarrow> er_state" where
  "ReportFileSizeInner E st =
     SubmitDelayTask ONE_DAY_MICRO_SECOND
       (st\<lparr>er_reports := er_reports st @ [(er_now E, map (\<lambda>item. (item, er_size E item)) (allFilePaths st))],
           er_record := (if er_saved E then to_string (er_now E) else er_record st)\<rparr>)"

definition ReportFileSizeDaily :: "er_env \<Rightarrow> er_state \<Rightarrow> er_state" where
  "ReportFileSizeDaily E st =
     (let lastReportTime = er_record st in
      if lastReportTime = [] then ReportFileSizeInner E st
      else (case StrToInt64 lastReportTime of
          None \<Rightarrow> ReportFileSizeInner E st
        | Some lastReportTimeValue \<Rightarrow>
            if lastReportTimeValue < 0 then ReportFileSizeInner E st
            else if er_now E - lastReportTimeValue < ONE_DAY_MICRO_SECOND
            then SubmitDelayTask (ValidReportTime (ONE_DAY_MICRO_SECOND - (er_now E - lastReportTimeValue))) st
            else ReportFileSizeInner E st))"

section \<open>Runs\<close>

text \<open>The task that waits is run.\<close>

definition er_run_task :: "er_env \<Rightarrow> er_state \<Rightarrow> er_state" where
  "er_run_task E st = (case er_tasks st of [] \<Rightarrow> st | _ # rest \<Rightarrow> ReportFileSizeDaily E (st\<lparr>er_tasks := rest\<rparr>))"

inductive er_reachable :: "er_state \<Rightarrow> bool" where
  er_start: "er_reachable (er_new content)"
| er_event: "er_reachable st \<Longrightarrow> er_reachable (ReportFileSizeEvent filePaths st)"
| er_run: "er_reachable st \<Longrightarrow> 0 \<le> er_now E \<Longrightarrow> er_reachable (er_run_task E st)"

definition er_ok :: "er_state \<Rightarrow> bool" where
  "er_ok st \<longleftrightarrow> length (er_tasks st) = (if isTaskSubmit st then 1 else 0) \<and>
     (\<forall>d \<in> set (er_tasks st). 0 \<le> d \<and> d \<le> ONE_DAY_MICRO_SECOND)"

lemma ValidReportTime_bounds: "0 \<le> ValidReportTime d \<and> ValidReportTime d \<le> ONE_DAY_MICRO_SECOND"
  by (simp add: ValidReportTime_def ONE_DAY_MICRO_SECOND_def)

lemma daily_tasks:
  "\<exists>d. er_tasks (ReportFileSizeDaily E st) = er_tasks st @ [d] \<and> 0 \<le> d \<and> d \<le> ONE_DAY_MICRO_SECOND"
  "isTaskSubmit (ReportFileSizeDaily E st) = isTaskSubmit st"
  using ValidReportTime_bounds
  by (auto simp: ReportFileSizeDaily_def ReportFileSizeInner_def SubmitDelayTask_def Let_def
    ONE_DAY_MICRO_SECOND_def split: option.split)

text \<open>
  C39. Whatever is reported and whenever the task runs, one task waits at most, and exactly one from the
  first event on: reports never stop and never multiply, and the next one is at most a day away,
  also when the clock was changed.
\<close>

theorem one_report_task_waits:
  assumes "er_reachable st"
  shows "length (er_tasks st) = (if isTaskSubmit st then 1 else 0) \<and>
    (\<forall>d \<in> set (er_tasks st). 0 \<le> d \<and> d \<le> ONE_DAY_MICRO_SECOND)"
proof -
  have "er_ok st"
    using assms
  proof induction
    case (er_start content)
    then show ?case by (simp add: er_ok_def er_new_def)
  next
    case (er_event st filePaths)
    then show ?case
      by (auto simp: er_ok_def ReportFileSizeEvent_def SubmitDelayTask_def Let_def FIRST_REPORT_TIME_def
        ONE_DAY_MICRO_SECOND_def split: if_splits)
  next
    case (er_run st E)
    then show ?case
      using daily_tasks [of E "st\<lparr>er_tasks := tl (er_tasks st)\<rparr>"]
      by (auto simp: er_ok_def er_run_task_def split: list.split)
  qed
  then show ?thesis by (simp add: er_ok_def)
qed

definition demo_er_env :: er_env where
  "demo_er_env = \<lparr>er_now = 5, er_size = (\<lambda>p. 7), er_saved = True\<rparr>"

theorem one_report_task_waits_witness:
  "length (er_tasks (er_run_task demo_er_env (ReportFileSizeEvent [''/data/a''] (er_new [])))) = 1"
proof -
  have "er_reachable (er_run_task demo_er_env (ReportFileSizeEvent [''/data/a''] (er_new [])))"
    by (intro er_run er_event er_start) (simp add: demo_er_env_def)
  from one_report_task_waits [OF this] show ?thesis
    by (simp add: er_run_task_def ReportFileSizeEvent_def SubmitDelayTask_def er_new_def daily_tasks(2) Let_def)
qed

text \<open>A report is sent no earlier than a day after the time on record.\<close>

lemma recorded_day_is_kept:
  assumes "er_record st = to_string t" "0 \<le> t" "t \<le> 9223372036854775807"
    "er_reports (ReportFileSizeDaily E st) \<noteq> er_reports st"
  shows "t + ONE_DAY_MICRO_SECOND \<le> er_now E"
proof -
  have "StrToInt64 (to_string t) = Some t" using assms(2,3) by (intro StrToInt64_to_string) auto
  moreover have "to_string t \<noteq> []" using assms(2) by (simp add: to_string_def nat_to_string_nonempty)
  ultimately show ?thesis
    using assms by (auto simp: ReportFileSizeDaily_def SubmitDelayTask_def Let_def split: if_splits)
qed

end
