(* ===== verification/Bundle_Helper.thy ===== *)
theory Bundle_Helper
  imports Prelude
begin

text \<open>
  The connection to the bundle manager
  (resschedfwk/src/res\_bundle\_mgr\_helper.cpp).  How far a connection gets and what the bundle
  manager and the account manager answer are parameters; the state is whether a proxy is held, and
  whether the death of the bundle manager is watched.
\<close>

definition ERR_CONNECT_BMS_FAILED :: i32 where "ERR_CONNECT_BMS_FAILED = 100"
definition DEFAULT_USER_ID :: i32 where "DEFAULT_USER_ID = 100"
definition bh_INVALID_UID :: i32 where "bh_INVALID_UID = - 1"

record bms_world =
  bw_registry :: bool
  bw_service :: bool
  bw_proxy :: bool
  bw_object :: bool

record bh_state =
  bundleMgr :: bool
  deathRecipient :: bool
  watched :: bool
  removals :: nat

definition bh_new :: "bool \<Rightarrow> bh_state" where
  "bh_new recipient = \<lparr>bundleMgr = False, deathRecipient = recipient, watched = False, removals = 0\<rparr>"

definition bh_Connect :: "bms_world \<Rightarrow> bh_state \<Rightarrow> bool \<times> bh_state" where
  "bh_Connect w st =
     (if bundleMgr st then (True, st)
      else if \<not> bw_registry w then (False, st)
      else if \<not> bw_service w then (False, st)
      else (let st1 = st\<lparr>bundleMgr := bw_proxy w\<rparr> in
            if bundleMgr st1 \<and> bw_object w \<and> deathRecipient st1 then (True, st1\<lparr>watched := True\<rparr>)
            else (False, st1)))"

definition bh_Disconnect :: "bms_world \<Rightarrow> bh_state \<Rightarrow> bh_state" where
  "bh_Disconnect w st =
     (if \<not> bundleMgr st then st
      else (if bw_object w then st\<lparr>watched := False, removals := Suc (removals st)\<rparr> else st)\<lparr>bundleMgr := False\<rparr>)"

text \<open>The death is told only when it is watched.\<close>

definition bh_OnRemoteDied :: "bms_world \<Rightarrow> bh_state \<Rightarrow> bh_state" where
  "bh_OnRemoteDied w st = bh_Disconnect w st"

definition bms_dies :: "bms_world \<Rightarrow> bh_state \<Rightarrow> bh_state" where
  "bms_dies w st = (if watched st then bh_OnRemoteDied w st else st)"

definition GetBundleNameByUid :: "bms_world \<Rightarrow> (i32 \<times> string) \<Rightarrow> bh_state \<Rightarrow> string \<times> bh_state" where
  "GetBundleNameByUid w answer st =
     (case bh_Connect w st of
        (ok, st1) \<Rightarrow> if \<not> ok then ([], st1) else (if bundleMgr st1 then snd answer else [], st1))"

definition GetUidByBundleName :: "bms_world \<Rightarrow> i32 \<Rightarrow> bh_state \<Rightarrow> i32 \<times> bh_state" where
  "GetUidByBundleName w answer st =
     (case bh_Connect w st of
        (ok, st1) \<Rightarrow> if \<not> ok then (bh_INVALID_UID, st1) else (if bundleMgr st1 then answer else bh_INVALID_UID, st1))"

text \<open>The signature is not touched when the connection fails.\<close>

definition GetSignatureInfoByUid ::
    "bms_world \<Rightarrow> (i32 \<times> string) \<Rightarrow> string \<Rightarrow> bh_state \<Rightarrow> i32 \<times> string \<times> bh_state" where
  "GetSignatureInfoByUid w answer signatureInfo st =
     (case bh_Connect w st of
        (ok, st1) \<Rightarrow>
          if \<not> ok then (ERR_CONNECT_BMS_FAILED, signatureInfo, st1) else (fst answer, snd answer, st1))"

definition bh_GetCurrentUserId :: "i32 \<times> i32 list \<Rightarrow> i32 list \<Rightarrow> i32 list" where
  "bh_GetCurrentUserId answer activatedOsAccountIds =
     (let (ret, ids) = answer;
          ids1 = activatedOsAccountIds @ ids;
          ids2 = (if ret \<noteq> 0 then ids1 @ [DEFAULT_USER_ID] else ids1)
      in if length ids2 = 0 then ids2 @ [DEFAULT_USER_ID] else ids2)"

section \<open>Properties\<close>

inductive bh_reachable :: "bms_world \<Rightarrow> bh_state \<Rightarrow> bool" for w where
  bh_start: "bh_reachable w (bh_new True)"
| bh_connect: "bh_reachable w st \<Longrightarrow> bh_reachable w (snd (bh_Connect w st))"
| bh_die: "bh_reachable w st \<Longrightarrow> bh_reachable w (bms_dies w st)"

text \<open>Where a proxy always has an object, a proxy is held exactly while its death is watched.\<close>

lemma proxy_is_watched:
  assumes "bh_reachable w st" "bw_object w"
  shows "bundleMgr st = watched st \<and> deathRecipient st"
  using assms(1)
  by induction (auto simp: bh_new_def bh_Connect_def bms_dies_def bh_OnRemoteDied_def bh_Disconnect_def Let_def assms(2))

text \<open>
  When no memory was left for the recipient the first connection fails, the next succeeds without
  the death being watched, and the helper keeps the proxy after the bundle manager has died.
\<close>

theorem unwatched_proxy_is_kept:
  assumes "bw_registry w" "bw_service w" "bw_proxy w"
  defines "st1 \<equiv> snd (bh_Connect w (bh_new False))"
  shows "fst (bh_Connect w (bh_new False)) = False" "bh_Connect w st1 = (True, st1)" "bundleMgr (bms_dies w st1)"
  using assms by (simp_all add: bh_Connect_def bh_new_def bms_dies_def)

text \<open>Some user is always named.\<close>

lemma some_user: "bh_GetCurrentUserId answer ids \<noteq> []"
  by (simp add: bh_GetCurrentUserId_def case_prod_beta Let_def)

end
