(* ===== verification/Sched_Utils.thy ===== *)
theory Sched_Utils
  imports Json_Payload
begin

text \<open>
  The functions of other libraries that the cgroup plugin calls
  (cgroup\_sched\_plugin/framework/utils/ressched\_utils.cpp): the report function of the service and
  the seven functions of the vendor's extension.  A library is a parameter, the names it has or
  \<open>None\<close> when it does not open.  The functions found are the names with a pointer that is not null;
  a call through the pointer of a library that was closed is undefined.
\<close>

type_synonym lib_symbols = "string list option"

record ut_state =
  ut_report :: bool
  ut_functions :: "string list"
  ut_ext_open :: bool
  ut_faults :: "string list"

definition ut_new :: ut_state where
  "ut_new = \<lparr>ut_report = False, ut_functions = [], ut_ext_open = False, ut_faults = []\<rparr>"

definition ut_fault :: "string \<Rightarrow> ut_state \<Rightarrow> ut_state" where
  "ut_fault scene st = st\<lparr>ut_faults := ut_faults st @ [scene]\<rparr>"

definition LoadUtils :: "lib_symbols \<Rightarrow> ut_state \<Rightarrow> ut_state" where
  "LoadUtils lib st =
     (case lib of
        None \<Rightarrow> ut_fault ''PluginLoadFailed'' st
      | Some names \<Rightarrow>
          if ''ReportDataInProcess'' \<notin> set names then ut_fault ''PluginSymbolFailed'' st
          else st\<lparr>ut_report := True\<rparr>)"

text \<open>The functions in the order they are looked up, and whether a missing one is reported.\<close>

definition ext_functions :: "(string \<times> bool) list" where
  "ext_functions =
     [(''ReportArbitrationResult'', True), (''DispatchResourceExt'', True), (''ReportSysEvent'', True),
      (''ReportCallerEvent'', False), (''SubscribeResourceExt'', False), (''SubscribeSyncResourceExt'', False),
      (''DeliverResourceExt'', False)]"

text \<open>The first missing function closes the library; the functions found before it stay.\<close>

fun find_functions :: "string list \<Rightarrow> (string \<times> bool) list \<Rightarrow> ut_state \<Rightarrow> ut_state" where
  "find_functions names [] st = st"
| "find_functions names ((f, reported) # fs) st =
     (if f \<in> set names then find_functions names fs (st\<lparr>ut_functions := ut_functions st @ [f]\<rparr>)
      else (if reported then ut_fault ''PluginSymbolFailed'' st else st)\<lparr>ut_ext_open := False\<rparr>)"

definition LoadUtilsExtra :: "lib_symbols \<Rightarrow> ut_state \<Rightarrow> ut_state" where
  "LoadUtilsExtra lib st =
     (case lib of
        None \<Rightarrow> ut_fault ''PluginLoadFailed'' st
      | Some names \<Rightarrow> find_functions names ext_functions (st\<lparr>ut_ext_open := True\<rparr>))"

definition ut_start :: "lib_symbols \<Rightarrow> lib_symbols \<Rightarrow> ut_state" where
  "ut_start service ext = LoadUtilsExtra ext (LoadUtils service ut_new)"

datatype ext_call = NotCalled | Called | CalledUnloaded

text \<open>
  Every wrapper of a function of the extension, such as \<open>ReportArbitrationResult\<close>, tests its
  pointer.
\<close>

definition call_ext :: "string \<Rightarrow> ut_state \<Rightarrow> ext_call" where
  "call_ext f st =
     (if f \<notin> set (ut_functions st) then NotCalled else if ut_ext_open st then Called else CalledUnloaded)"

definition ut_ReportCallerEvent :: "ut_state \<Rightarrow> ext_call" where
  "ut_ReportCallerEvent st = call_ext ''ReportCallerEvent'' st"

definition ut_ReportSysEvent :: "ut_state \<Rightarrow> ext_call" where
  "ut_ReportSysEvent st = call_ext ''ReportSysEvent'' st"

definition ut_DispatchResourceExt :: "ut_state \<Rightarrow> ext_call" where
  "ut_DispatchResourceExt st = call_ext ''DispatchResourceExt'' st"

definition ut_SubscribeResourceExt :: "ut_state \<Rightarrow> ext_call" where
  "ut_SubscribeResourceExt st = call_ext ''SubscribeResourceExt'' st"

definition ut_SubscribeSyncResourceExt :: "ut_state \<Rightarrow> ext_call" where
  "ut_SubscribeSyncResourceExt st = call_ext ''SubscribeSyncResourceExt'' st"

text \<open>The result of the function is not looked at.\<close>

definition ut_DeliverResourceExt :: "ut_state \<Rightarrow> i32 \<times> ext_call" where
  "ut_DeliverResourceExt st = (0, call_ext ''DeliverResourceExt'' st)"

text \<open>Whether a thread belongs to a process, from the reply of the executor.\<close>

definition ut_CheckTidIsInPid :: "json \<Rightarrow> bool" where
  "ut_CheckTidIsInPid reply = (case member ''res'' reply of Some (JBool res) \<Rightarrow> res | _ \<Rightarrow> False)"

definition ut_ReportDataInProcess :: "ut_state \<Rightarrow> ext_call" where
  "ut_ReportDataInProcess st = (if ut_report st then Called else NotCalled)"

section \<open>Properties\<close>

lemma find_functions_result:
  "ut_functions (find_functions names fs st) = ut_functions st @ map fst (takeWhile (\<lambda>p. fst p \<in> set names) fs)"
  "ut_ext_open (find_functions names fs st) \<longleftrightarrow> ut_ext_open st \<and> fst ` set fs \<subseteq> set names"
  by (induction names fs st rule: find_functions.induct) (auto simp: ut_fault_def)


end
