(* ===== verification/Standby_Plugin.thy ===== *)
theory Standby_Plugin
  imports Plugin_Cgroup
begin

text \<open>
  The device standby plugin (plugins/device\_standby\_plugin/src/device\_standby\_plugin.cpp): it
  subscribes a fixed set of types at the plugin manager and hands their events to the standby
  service, whose client is not part of the repository and appears as a list of calls.  Whether
  clicks are recognized on the product is a parameter, as is the writing of JSON.
\<close>

definition standby_LIB_NAME :: string where "standby_LIB_NAME = ''libdevice_standby_plugin.z.so''"

definition standby_types :: "bool \<Rightarrow> u32 list" where
  "standby_types click =
     [RES_TYPE_APP_INSTALL_UNINSTALL, RES_TYPE_SCREEN_STATUS, RES_TYPE_TIME_CHANGED, RES_TYPE_NITZ_TIME_CHANGED,
      RES_TYPE_TIMEZONE_CHANGED, RES_TYPE_NITZ_TIMEZONE_CHANGED, RES_TYPE_CHARGING_DISCHARGING, RES_TYPE_USB_DEVICE,
      RES_TYPE_CALL_STATE_CHANGED, RES_TYPE_WIFI_P2P_STATE_CHANGED, RES_TYPE_EFFICIENCY_RESOURCES_STATE_CHANGED,
      RES_TYPE_POWER_MODE_CHANGED] @
     (if click then [RES_TYPE_CLICK_RECOGNIZE] else []) @
     [RES_TYPE_MMI_INPUT_POWER_KEY, RES_TYPE_AUDIO_RENDERER_STANDBY, RES_TYPE_AUDIO_RENDERER_SILENT_PLAYBACK,
      RES_TYPE_BT_SERVICE_EVENT, RES_TYPE_REPORT_BOKER_GATT_CONNECT, RES_TYPE_BOOT_COMPLETED,
      RES_TYPE_THERMAL_SCENARIO_REPORT, RES_TYPE_WIFI_CONNECT_STATE_CHANGE, RES_TYPE_INNER_AUDIO_STATE,
      RES_TYPE_AUDIO_CAPTURE_STATUS_CHANGED]"

text \<open>The types subscribed, in the order of the set, and the events handed on.\<close>

record standby_state =
  sb_resTypes :: "u32 list"
  sb_events :: "(u32 \<times> i64 \<times> string) list"

definition standby_new :: standby_state where "standby_new = \<lparr>sb_resTypes = [], sb_events = []\<rparr>"

definition standby_Init :: "bool \<Rightarrow> pm_state \<Rightarrow> standby_state \<Rightarrow> pm_state \<times> standby_state" where
  "standby_Init click pm st =
     (let types = sort (remdups (sb_resTypes st @ standby_types click))
      in (fold (SubscribeResource standby_LIB_NAME) types pm, st\<lparr>sb_resTypes := types\<rparr>))"

definition standby_Disable :: "pm_state \<Rightarrow> standby_state \<Rightarrow> pm_state \<times> standby_state" where
  "standby_Disable pm st =
     (fold (UnSubscribeResource standby_LIB_NAME) (sb_resTypes st) pm, st\<lparr>sb_resTypes := []\<rparr>)"

definition standby_DispatchResource :: "(json \<Rightarrow> string) \<Rightarrow> res_data option \<Rightarrow> standby_state \<Rightarrow> standby_state" where
  "standby_DispatchResource dump data st =
     (case data of
        None \<Rightarrow> st
      | Some rd \<Rightarrow> st\<lparr>sb_events := sb_events st @ [(rd_type rd, rd_value rd, dump (rd_payload rd))]\<rparr>)"

definition standby_OnPluginInit :: "bool \<Rightarrow> string \<Rightarrow> pm_state \<Rightarrow> standby_state \<Rightarrow> bool \<times> pm_state \<times> standby_state" where
  "standby_OnPluginInit click libName pm st =
     (if libName \<noteq> standby_LIB_NAME then (False, pm, st) else (True, standby_Init click pm st))"

definition standby_OnPluginDisable :: "pm_state \<Rightarrow> standby_state \<Rightarrow> pm_state \<times> standby_state" where
  "standby_OnPluginDisable pm st = standby_Disable pm st"

section \<open>Subscriptions\<close>

lemma standby_lib [simp]: "standby_LIB_NAME \<noteq> []" by (simp add: standby_LIB_NAME_def)

text \<open>
  The plugin subscribes each of its types once, whatever was subscribed before, and disabling it
  takes back exactly that.
\<close>

lemma standby_subscribes_once:
  assumes "pm_ok pm" "standby_LIB_NAME \<notin> set (subscribers_of t v pm)"
    and r_def: "r = standby_Init click pm standby_new"
  shows "subscribers_of t v (fst r) = reg_at t (resTypeLibMap pm) @
      (if t \<in> set (standby_types click) then [standby_LIB_NAME] else []) @ reg_at (t, v) (resTyperesValueLibMap pm)"
    "subscribers_of t v (fst (standby_Disable (fst r) (snd r))) = subscribers_of t v pm"
    "sb_resTypes (snd (standby_Disable (fst r) (snd r))) = []"
proof -
  have T: "reg_ok (resTypeLibMap pm)" using assms(1) by (simp add: pm_ok_def)
  have n: "standby_LIB_NAME \<notin> set (reg_at t (resTypeLibMap pm))" using assms(2) by (simp add: subscribers_of_def)
  let ?types = "sort (remdups (standby_types click))"
  have r: "r = (fold (SubscribeResource standby_LIB_NAME) ?types pm, standby_new\<lparr>sb_resTypes := ?types\<rparr>)"
    by (simp add: r_def standby_Init_def standby_new_def Let_def)
  have "count_list xs t = (if t \<in> set xs then 1 else 0)" if "distinct xs" for xs :: "u32 list"
    using that by (induction xs) auto
  from this [of ?types] have "count_list ?types t = (if t \<in> set (standby_types click) then 1 else 0)"
    by simp
  then show "subscribers_of t v (fst r) = reg_at t (resTypeLibMap pm) @
      (if t \<in> set (standby_types click) then [standby_LIB_NAME] else []) @ reg_at (t, v) (resTyperesValueLibMap pm)"
    by (simp add: r subscribers_of_def sub_folds reg.subs_at [OF T])
  show "subscribers_of t v (fst (standby_Disable (fst r) (snd r))) = subscribers_of t v pm"
    using reg.subs_unsubs [OF T standby_lib n]
    by (simp add: r standby_Disable_def subscribers_of_def sub_folds)
  show "sb_resTypes (snd (standby_Disable (fst r) (snd r))) = []" by (simp add: standby_Disable_def)
qed

text \<open>An event handed to the plugin goes on with its type, its value and its payload.\<close>

lemma standby_hands_on:
  "sb_events (standby_DispatchResource dump (Some rd) st) =
     sb_events st @ [(rd_type rd, rd_value rd, dump (rd_payload rd))]"
  by (simp add: standby_DispatchResource_def)

end
