(* ===== verification/Spec2Isabelle.thy ===== *)
theory Spec2Isabelle
  imports Lru_Cache Common_Util Plugin_Cgroup Notifier_Mgr Event_Listener_Mgr Scene_Props Service_Props Socperf_Props
    Executor_Props Write_Node_Props Client_Props Kill_Listener Frame_Aware Audio_Props
    Sys_Event_Observer Startup_Scene
    Window_Observer Small_Observers Observer_Mgr_Props Suspend_Base Event_Controller
    Signature_Validator Oobe_Manager Service_Ability Systemload_Props App_Kit_Props System_Util Event_Reporter
    Bundle_Helper Sched_Utils Standby_Plugin
begin

text \<open>
  The resource schedule service of OpenHarmony (ressched).
\<close>

end
